(* ===== verification/Prelude.thy ===== *)
theory Prelude
  imports Main "HOL-Library.Word"
begin

text \<open>
  Vocabulary shared by every theory of the development: the machine integers of the Rust and Zig
  sources, the reading of a signed \<open>c_int\<close>, saturating addition, and the simplification
  collections the component proofs draw on.

  \<^item> \<open>tag_simps\<close>: the definitions of the \<open>from_tag\<close> decoders.
  \<^item> \<open>op_simps\<close>: the bodies of the engine operations (what one exported function does to one
    slot, under the slot's lock).
\<close>

unbundle bit_operations_syntax

named_theorems tag_simps "definitions of the decoders from wire tags"
named_theorems op_simps "definitions of the operations on one context"

section \<open>Machine integers\<close>

type_synonym u8 = "8 word"
type_synonym u16 = "16 word"
type_synonym u32 = "32 word"
type_synonym u64 = "64 word"
type_synonym i32 = "32 word"
type_synonym c_int = "32 word"
type_synonym usize = nat

text \<open>A \<open>bool\<close> cast to \<open>u8\<close>, as \<open>enabled as u8\<close> in the Rust wrappers.\<close>

definition bool_u8 :: "bool \<Rightarrow> u8" where
  "bool_u8 b = (if b then 1 else 0)"

lemma bool_u8_eq_1 [simp]: "(bool_u8 b = 1) = b"
  and bool_u8_eq_0 [simp]: "(bool_u8 b = 0) = (\<not> b)"
  by (auto simp: bool_u8_def)

text \<open>Zig's saturating addition \<open>a +| b\<close> on unsigned integers.\<close>

definition sat_add :: "'a::len word \<Rightarrow> 'a word \<Rightarrow> 'a word" where
  "sat_add a b = (if unat a + unat b < 2 ^ LENGTH('a) then a + b else - 1)"

lemma unat_sat_add:
  fixes a b :: "'a::len word"
  shows "unat (sat_add a b) = min (unat a + unat b) (2 ^ LENGTH('a) - 1)"
proof (cases "unat a + unat b < 2 ^ LENGTH('a)")
  case True
  then show ?thesis by (simp add: sat_add_def unat_word_ariths)
next
  case False
  then show ?thesis by (simp add: sat_add_def unsigned_minus_1_eq_mask mask_eq_exp_minus_1)
qed

lemma sat_add_mono: "a \<le> sat_add (a :: 'a::len word) b"
proof -
  have "unat a < 2 ^ LENGTH('a)" by (rule unsigned_less)
  then have "unat a \<le> 2 ^ LENGTH('a) - 1" by linarith
  then show ?thesis by (simp add: word_le_nat_alt unat_sat_add)
qed

text \<open>
  What the C side sees of a byte slice passed as \<open>s.as_ptr(), s.len() as u32\<close>: the length is reduced
  modulo \<open>2 ^ 32\<close>, so a longer slice is cut.
\<close>

definition len_u32 :: "u8 list \<Rightarrow> u8 list" where
  "len_u32 s = take (length s mod 4294967296) s"

lemma len_u32_id [simp]: "length s < 4294967296 \<Longrightarrow> len_u32 s = s"
  by (simp add: len_u32_def)

section \<open>Slot numbers\<close>

text \<open>A slot number below \<open>2 ^ 31\<close> survives the trip through \<open>c_int\<close>.\<close>

lemma sint_of_nat_c_int [simp]: "i < 2147483648 \<Longrightarrow> sint (word_of_nat i :: c_int) = int i"
  by (simp add: signed_of_nat signed_take_bit_int_eq_self)

lemma sint_minus_one_c_int [simp]: "sint (- 1 :: c_int) = - 1"
  by simp

lemma word_of_nat_sint_c_int: "0 \<le> sint (s :: c_int) \<Longrightarrow> word_of_nat (nat (sint s)) = s"
  by simp

section \<open>Lists\<close>

lemma nth_list_update_if: "i < length xs \<Longrightarrow> xs[i := x] ! j = (if j = i then x else xs ! j)"
  by (cases "j = i") simp_all

lemma list_update_all:
  assumes "\<forall>t \<in> set ts. P t" "P t'"
  shows "\<forall>t \<in> set (ts[i := t']). P t"
  using assms set_update_subset_insert [of ts i t'] by blast

lemma less_2_cases_nat: "(n :: nat) < 2 \<Longrightarrow> n = 0 \<or> n = 1"
  by arith

section \<open>Splitting at a separator\<close>

fun split_on :: "'a \<Rightarrow> 'a list \<Rightarrow> 'a list list" where
  "split_on sep [] = [[]]"
| "split_on sep (c # cs) =
     (if c = sep then [] # split_on sep cs
      else (c # hd (split_on sep cs)) # tl (split_on sep cs))"

fun join_on :: "'a \<Rightarrow> 'a list list \<Rightarrow> 'a list" where
  "join_on sep [] = []"
| "join_on sep [x] = x"
| "join_on sep (x # y # ys) = x @ sep # join_on sep (y # ys)"

lemma split_on_not_Nil [simp]: "split_on sep p \<noteq> []"
  by (cases p) auto

lemma split_on_append [simp]: "split_on sep (p @ sep # q) = split_on sep p @ split_on sep q"
  by (induction p) auto

lemma split_on_none: "sep \<notin> set p \<Longrightarrow> split_on sep p = [p]"
  by (induction p) auto

lemma split_on_parts: "x \<in> set (split_on sep p) \<Longrightarrow> sep \<notin> set x"
proof (induction p arbitrary: x)
  case Nil
  then show ?case by simp
next
  case (Cons c cs)
  have "hd (split_on sep cs) \<in> set (split_on sep cs)" by simp
  with Cons show ?case
    by (auto split: if_splits dest: list.set_sel(2) [rotated])
qed

lemma join_on_Cons: "ys \<noteq> [] \<Longrightarrow> join_on sep (x # ys) = x @ sep # join_on sep ys"
  by (cases ys) simp_all

lemma join_split [simp]: "join_on sep (split_on sep p) = p"
proof (induction p)
  case Nil
  then show ?case by simp
next
  case (Cons c cs)
  then show ?case
    by (cases "split_on sep cs"; cases "tl (split_on sep cs)") (auto simp: join_on_Cons)
qed

lemma split_join: "ls \<noteq> [] \<Longrightarrow> \<forall>l \<in> set ls. sep \<notin> set l \<Longrightarrow> split_on sep (join_on sep ls) = ls"
  by (induction sep ls rule: join_on.induct) (simp_all add: split_on_none)

lemma length_split_on: "length (split_on sep p) \<le> Suc (length p)"
  by (induction p) auto

lemma split_on_first:
  obtains (whole) "sep \<notin> set p" "split_on sep p = [p]"
  | (part) x q where "p = x @ sep # q" "sep \<notin> set x" "split_on sep p = x # split_on sep q"
proof (cases "sep \<in> set p")
  case True
  then obtain x q where "p = x @ sep # q" "sep \<notin> set x" by (blast dest: split_list_first)
  then show ?thesis using part by (simp add: split_on_none)
next
  case False
  then show ?thesis using whole by (simp add: split_on_none)
qed

end
