(* ===== verification/Proven_Error.thy ===== *)
theory Proven_Error
  imports Prelude
begin

text \<open>
  The error type every safe wrapper returns (\<open>bindings/rust/src/error.rs\<close>) and the three
  functions that read the return code of a foreign call as a \<open>Result\<close>. \<open>Result<T, ProvenError>\<close>
  is the sum \<open>ProvenError + 'a\<close>, with \<open>Inl\<close> for \<open>Err\<close> and \<open>Inr\<close> for \<open>Ok\<close>.
\<close>

datatype ProvenError =
    PoolExhausted
  | InvalidSlot
  | InvalidState
  | InvalidParameter
  | CapacityExceeded
  | ValidationFailed
  | Unknown i32

type_synonym 'a ProvenResult = "ProvenError + 'a"

definition from_slot :: "i32 \<Rightarrow> i32 ProvenResult" where
  "from_slot raw = (if 0 \<le> sint raw then Inr raw else Inl PoolExhausted)"

definition from_status :: "u8 \<Rightarrow> unit ProvenResult" where
  "from_status raw =
     (if raw = 0 then Inr ()
      else if raw = 1 then Inl InvalidState
      else if raw = 2 then Inl ValidationFailed
      else Inl (Unknown (ucast raw)))"

definition from_param_status :: "u8 \<Rightarrow> unit ProvenResult" where
  "from_param_status raw =
     (if raw = 0 then Inr ()
      else if raw = 1 then Inl InvalidParameter
      else Inl (Unknown (ucast raw)))"

text \<open>\<open>impl fmt::Display for ProvenError\<close>; the number formatting of \<open>Unknown\<close> is left to
  the parameter \<open>show_i32\<close>, the standard library's \<open>Display for i32\<close>.\<close>

definition ProvenError_fmt :: "(i32 \<Rightarrow> string) \<Rightarrow> ProvenError \<Rightarrow> string" where
  "ProvenError_fmt show_i32 e = (case e of
      PoolExhausted \<Rightarrow> ''context pool exhausted (64-slot limit)''
    | InvalidSlot \<Rightarrow> ''invalid or inactive context slot''
    | InvalidState \<Rightarrow> ''operation rejected: wrong lifecycle state''
    | InvalidParameter \<Rightarrow> ''parameter value outside valid ABI tag range''
    | CapacityExceeded \<Rightarrow> ''fixed-size buffer or array capacity exceeded''
    | ValidationFailed \<Rightarrow> ''input validation failed''
    | Unknown code \<Rightarrow> ''unknown FFI error (code '' @ show_i32 code @ '')'')"

section \<open>What the interpretations guarantee\<close>

lemma from_slot_Inr_iff [simp]: "from_slot raw = Inr s \<longleftrightarrow> s = raw \<and> 0 \<le> sint raw"
  by (auto simp: from_slot_def)

lemma from_slot_Inl_iff [simp]: "from_slot raw = Inl e \<longleftrightarrow> e = PoolExhausted \<and> sint raw < 0"
  by (auto simp: from_slot_def)

lemma from_status_Inr_iff [simp]: "from_status raw = Inr () \<longleftrightarrow> raw = 0"
  by (simp add: from_status_def)

lemma from_status_cases:
  obtains "raw = 0" "from_status raw = Inr ()"
  | "raw = 1" "from_status raw = Inl InvalidState"
  | "raw = 2" "from_status raw = Inl ValidationFailed"
  | "raw \<noteq> 0" "raw \<noteq> 1" "raw \<noteq> 2" "from_status raw = Inl (Unknown (ucast raw))"
  by (cases "raw = 0 \<or> raw = 1 \<or> raw = 2") (auto simp: from_status_def)

lemma from_status_simps [simp]:
  "from_status 0 = Inr ()"
  "from_status 1 = Inl InvalidState"
  "from_status 2 = Inl ValidationFailed"
  by (simp_all add: from_status_def)

lemma ucast_u8_i32_inject: "(ucast (a :: u8) :: i32) = ucast b \<longleftrightarrow> a = b"
proof
  assume "(ucast a :: i32) = ucast b"
  then have "unat (ucast a :: i32) = unat (ucast b :: i32)" by (rule arg_cong)
  moreover have "unat x < 2 ^ 32" for x :: u8
    using unsigned_less [of x, where ?'a = nat] by simp
  ultimately show "a = b"
    by (simp add: unsigned_ucast_eq take_bit_nat_eq_self word_unat_eq_iff)
qed simp

text \<open>No two return codes are read as the same result: the reading loses no information.\<close>

lemma from_status_inj: "from_status a = from_status b \<Longrightarrow> a = b"
  by (cases a rule: from_status_cases; cases b rule: from_status_cases)
     (simp_all add: ucast_u8_i32_inject)

text \<open>The wrappers' documentation names more errors than the reading can produce.\<close>

lemma from_status_range:
  "from_status raw \<noteq> Inl PoolExhausted" "from_status raw \<noteq> Inl InvalidSlot"
  "from_status raw \<noteq> Inl InvalidParameter" "from_status raw \<noteq> Inl CapacityExceeded"
  by (cases raw rule: from_status_cases; simp)+

end
