(* ===== verification/Slot_Pool.thy ===== *)
theory Slot_Pool
  imports Proven_Error "HOL-Library.Sublist"
begin

text \<open>
  The slot pool behind every protocol library, and the contract between it and the safe Rust
  wrappers. Each Zig engine keeps a global array of 64 contexts with an \<open>active\<close> flag; a handle
  is the index of a slot as a \<open>c_int\<close>. The functions here are the patterns the engines share,
  parameterised by what differs (how a context is switched on and off); the engine theories
  instantiate them with their own context records.

  An exported engine function runs its body under the lock of its slot, so one call is one atomic
  step here. The locale \<open>slot_service\<close> states what the wrappers of one protocol promise, and
  derives what a client that follows Rust's ownership rules gets from them: \<open>client\<close> is the
  transition system of such a client, with the list of the handles it owns.
\<close>

section \<open>The pool operations of the engines\<close>

text \<open>\<open>slot < 0 or slot >= MAX_SESSIONS\<close>, then the cast to \<open>usize\<close>.\<close>

definition slot_index :: "'c list \<Rightarrow> c_int \<Rightarrow> nat option" where
  "slot_index p s = (if sint s < 0 \<or> int (length p) \<le> sint s then None else Some (nat (sint s)))"

text \<open>\<open>validSlot\<close>: in range and active.\<close>

definition valid_slot :: "('c \<Rightarrow> bool) \<Rightarrow> 'c list \<Rightarrow> c_int \<Rightarrow> nat option" where
  "valid_slot act p s =
     (case slot_index p s of
        None \<Rightarrow> None
      | Some i \<Rightarrow> if act (p ! i) then Some i else None)"

text \<open>The allocation loop: the first slot that is not active.\<close>

fun first_free :: "('c \<Rightarrow> bool) \<Rightarrow> 'c list \<Rightarrow> nat option" where
  "first_free act [] = None"
| "first_free act (c # cs) = (if \<not> act c then Some 0 else map_option Suc (first_free act cs))"

definition pool_create :: "('c \<Rightarrow> bool) \<Rightarrow> ('c \<Rightarrow> 'c) \<Rightarrow> 'c list \<Rightarrow> 'c list \<times> c_int" where
  "pool_create act mk p =
     (case first_free act p of
        Some i \<Rightarrow> (p[i := mk (p ! i)], word_of_nat i)
      | None \<Rightarrow> (p, - 1))"

definition pool_destroy :: "('c \<Rightarrow> 'c) \<Rightarrow> 'c list \<Rightarrow> c_int \<Rightarrow> 'c list" where
  "pool_destroy off p s =
     (case slot_index p s of
        None \<Rightarrow> p
      | Some i \<Rightarrow> p[i := off (p ! i)])"

text \<open>An operation on one slot: \<open>err\<close> when the slot is not valid, else the body's result.\<close>

definition on_slot :: "('c \<Rightarrow> bool) \<Rightarrow> 'c list \<Rightarrow> c_int \<Rightarrow> 'r \<Rightarrow> ('c \<Rightarrow> 'c \<times> 'r) \<Rightarrow> 'c list \<times> 'r" where
  "on_slot act p s err f =
     (case valid_slot act p s of
        None \<Rightarrow> (p, err)
      | Some i \<Rightarrow> (let (c, r) = f (p ! i) in (p[i := c], r)))"

text \<open>
  Zig's \<open>n += 1\<close> on a \<open>u32\<close> is checked: an overflow stops the program. A body with checked arithmetic
  returns an option, \<open>None\<close> when it stops the program.
\<close>

definition checked_inc :: "u32 \<Rightarrow> u32 option" where
  "checked_inc n = (if n = - 1 then None else Some (n + 1))"


definition on_slot_checked ::
  "('c \<Rightarrow> bool) \<Rightarrow> 'c list \<Rightarrow> c_int \<Rightarrow> 'r \<Rightarrow> ('c \<Rightarrow> ('c \<times> 'r) option) \<Rightarrow> ('c list \<times> 'r) option" where
  "on_slot_checked act p s err f =
     (case valid_slot act p s of
        None \<Rightarrow> Some (p, err)
      | Some i \<Rightarrow> map_option (\<lambda>(c, r). (p[i := c], r)) (f (p ! i)))"

text \<open>
  The step of a pool contract is total: there a call that stops the program leaves the state as it is
  and answers \<open>stop\<close>.
\<close>

definition or_stop :: "'r \<Rightarrow> 'c \<Rightarrow> ('c \<times> 'r) option \<Rightarrow> 'c \<times> 'r" where
  "or_stop stop c r = (case r of None \<Rightarrow> (c, stop) | Some y \<Rightarrow> y)"

definition query_slot :: "('c \<Rightarrow> bool) \<Rightarrow> 'c list \<Rightarrow> c_int \<Rightarrow> 'r \<Rightarrow> ('c \<Rightarrow> 'r) \<Rightarrow> 'r" where
  "query_slot act p s dflt f =
     (case valid_slot act p s of
        None \<Rightarrow> dflt
      | Some i \<Rightarrow> f (p ! i))"

subsection \<open>Allocation\<close>

lemma first_free_Some_iff:
  "first_free act p = Some i \<longleftrightarrow> i < length p \<and> \<not> act (p ! i) \<and> (\<forall>j < i. act (p ! j))"
proof (induction p arbitrary: i)
  case Nil
  then show ?case by simp
next
  case (Cons c cs)
  show ?case
    by (cases i) (auto simp: Cons.IH All_less_Suc2)
qed

lemma first_free_None_iff: "first_free act p = None \<longleftrightarrow> (\<forall>i < length p. act (p ! i))"
proof (induction p)
  case Nil
  then show ?case by simp
next
  case (Cons c cs)
  then show ?case by (auto simp: All_less_Suc2)
qed

subsection \<open>Indices\<close>

lemma slot_index_Some_iff:
  "slot_index p s = Some i \<longleftrightarrow> 0 \<le> sint s \<and> i = nat (sint s) \<and> i < length p"
  by (auto simp: slot_index_def)

lemma slot_index_of_nat [simp]:
  "i < length p \<Longrightarrow> i < 2147483648 \<Longrightarrow> slot_index p (word_of_nat i) = Some i"
  by (simp add: slot_index_Some_iff)

lemma slot_index_update [simp]: "slot_index (p[i := c]) s = slot_index p s"
  by (simp add: slot_index_def)

lemma valid_slot_Some_iff:
  "valid_slot act p s = Some i \<longleftrightarrow> slot_index p s = Some i \<and> act (p ! i)"
  by (auto simp: valid_slot_def split: option.splits)

lemma valid_slot_of_nat:
  "i < length p \<Longrightarrow> i < 2147483648 \<Longrightarrow> valid_slot act p (word_of_nat i) = (if act (p ! i) then Some i else None)"
  by (simp add: valid_slot_def)

lemma length_on_slot [simp]: "length (fst (on_slot act p s err f)) = length p"
  by (simp add: on_slot_def split: option.split prod.split)

lemma length_pool_destroy [simp]: "length (pool_destroy off p s) = length p"
  by (simp add: pool_destroy_def split: option.split)

lemma length_pool_create [simp]: "length (fst (pool_create act mk p)) = length p"
  by (simp add: pool_create_def split: option.split)

lemma on_slot_valid:
  "valid_slot act p s = Some i \<Longrightarrow> on_slot act p s err f = (p[i := fst (f (p ! i))], snd (f (p ! i)))"
  by (simp add: on_slot_def split: prod.split)

lemma on_slot_invalid: "valid_slot act p s = None \<Longrightarrow> on_slot act p s err f = (p, err)"
  by (simp add: on_slot_def)

text \<open>Counting up, and checked bodies as total ones.\<close>

lemma checked_inc_less:
  assumes "unat n < 4294967295"
  obtains m where "checked_inc n = Some m" "unat m = Suc (unat n)"
proof
  have "unat (- 1 :: u32) = 4294967295" by (simp add: unsigned_minus_1_eq_mask mask_eq_exp_minus_1)
  with assms show "checked_inc n = Some (n + 1)" by (auto simp: checked_inc_def)
  show "unat (n + 1) = Suc (unat n)" using assms by (simp add: unat_word_ariths)
qed

lemma or_stop_simps [simp]:
  "or_stop stop c None = (c, stop)"
  "or_stop stop c (Some y) = y"
  by (simp_all add: or_stop_def)

lemma map_prod_or_stop:
  "map_prod id f (or_stop stop c r) = or_stop (f stop) c (map_option (map_prod id f) r)"
  by (cases r) simp_all

lemma on_slot_or_stop:
  "on_slot act p s (f err) (\<lambda>c. or_stop stop c (map_option (map_prod id f) (g c))) =
     or_stop stop p (map_option (map_prod id f) (on_slot_checked act p s err g))"
proof (cases "valid_slot act p s")
  case (Some i)
  then show ?thesis by (cases "g (p ! i)") (auto simp: on_slot_def on_slot_checked_def)
qed (simp add: on_slot_def on_slot_checked_def)

text \<open>A call changes no slot but its own.\<close>

lemma on_slot_other:
  "valid_slot act p s \<noteq> Some j \<Longrightarrow> fst (on_slot act p s err f) ! j = p ! j"
  by (cases "valid_slot act p s") (auto simp: on_slot_def split: prod.split)

lemma pool_destroy_other: "slot_index p s \<noteq> Some j \<Longrightarrow> pool_destroy off p s ! j = p ! j"
  by (cases "slot_index p s") (auto simp: pool_destroy_def)

section \<open>Handles and the wrappers' constructor\<close>

text \<open>
  The struct every wrapper module declares (and \<open>proven_ffi_module!\<close> generates): an owned handle
  with one private field. It has no \<open>Clone\<close>; dropping it calls the engine's destroy function.
\<close>

record ffi_context =
  ctx_slot :: c_int

definition wrap_slot :: "'p \<times> c_int \<Rightarrow> 'p \<times> ffi_context ProvenResult" where
  "wrap_slot r = (fst r, map_sum id (\<lambda>s. \<lparr>ctx_slot = s\<rparr>) (from_slot (snd r)))"

definition handle :: "nat \<Rightarrow> ffi_context" where
  "handle i = \<lparr>ctx_slot = word_of_nat i\<rparr>"

lemma ctx_slot_handle [simp]: "ctx_slot (handle i) = word_of_nat i"
  by (simp add: handle_def)

lemma handle_inject: "i < 2147483648 \<Longrightarrow> j < 2147483648 \<Longrightarrow> handle i = handle j \<longleftrightarrow> i = j"
  by (metis ctx_slot_handle nat_int sint_of_nat_c_int)

lemma wrap_slot_create:
  "length p \<le> 2147483648 \<Longrightarrow> wrap_slot (pool_create act mk p) =
     (case first_free act p of
        Some i \<Rightarrow> (p[i := mk (p ! i)], Inr (handle i))
      | None \<Rightarrow> (p, Inl PoolExhausted))"
proof (cases "first_free act p")
  case None
  then show ?thesis by (simp add: wrap_slot_def pool_create_def from_slot_def)
next
  case (Some i)
  moreover assume "length p \<le> 2147483648"
  ultimately have "i < 2147483648" by (simp add: first_free_Some_iff)
  with Some show ?thesis
    by (simp add: wrap_slot_def pool_create_def from_slot_def handle_def)
qed

lemma wrap_slot_refused [simp]: "wrap_slot (p, - 1) = (p, Inl PoolExhausted)"
  by (simp add: wrap_slot_def from_slot_def)

text \<open>\<open>ProvenError::from_status(unsafe { f(ctx.slot, ...) })\<close>, the shape of most wrappers.\<close>

definition wrap_status :: "'p \<times> u8 \<Rightarrow> 'p \<times> unit ProvenResult" where
  "wrap_status r = (fst r, from_status (snd r))"

lemma fst_wrap_status [simp]: "fst (wrap_status r) = fst r"
  and snd_wrap_status [simp]: "snd (wrap_status r) = from_status (snd r)"
  by (simp_all add: wrap_status_def)

lemma wrap_status_eq_map_prod: "wrap_status r = map_prod id from_status r"
  by (cases r) (simp add: wrap_status_def)

section \<open>Runs of one session\<close>

text \<open>
  A session is a list of operations applied to one context. \<open>session_run\<close> returns the final context
  and the operations that were accepted (that answered 0), in order.
\<close>

definition session_run :: "('op \<Rightarrow> 'c \<Rightarrow> 'c \<times> u8) \<Rightarrow> 'c \<Rightarrow> 'op list \<Rightarrow> 'c \<times> 'op list" where
  "session_run step c0 xs =
     foldl (\<lambda>(c, h) x. (fst (step x c), if snd (step x c) = 0 then h @ [x] else h)) (c0, []) xs"

lemma session_run_Nil [simp]: "session_run step c0 [] = (c0, [])"
  by (simp add: session_run_def)

lemma session_run_snoc:
  "session_run step c0 (xs @ [x]) =
     (let (c, h) = session_run step c0 xs in
      (fst (step x c), if snd (step x c) = 0 then h @ [x] else h))"
  by (simp add: session_run_def split: prod.split)

text \<open>An invariant of the context and the history of accepted operations holds after every run.\<close>

lemma session_run_invariant:
  assumes start: "P c0 []"
    and accept: "\<And>c h x. P c h \<Longrightarrow> snd (step x c) = 0 \<Longrightarrow> P (fst (step x c)) (h @ [x])"
    and reject: "\<And>c h x. P c h \<Longrightarrow> snd (step x c) \<noteq> 0 \<Longrightarrow> P (fst (step x c)) h"
  shows "P (fst (session_run step c0 xs)) (snd (session_run step c0 xs))"
proof (induction xs rule: rev_induct)
  case Nil
  show ?case by (simp add: start)
next
  case (snoc x xs)
  then show ?case
    by (auto simp: session_run_snoc Let_def accept reject split: prod.split)
qed

lemma session_run_length: "length (snd (session_run step c0 xs)) \<le> length xs"
  by (induction xs rule: rev_induct) (auto simp: session_run_snoc Let_def split: prod.splits)

text \<open>
  The runs of a session whose operations may stop the program; then the run has no result. A run of
  at most \<open>N\<close> operations returns when an invariant rules out that an operation stops it while the
  history is shorter than \<open>N\<close>.
\<close>

primrec checked_run :: "('op \<Rightarrow> 'c \<Rightarrow> ('c \<times> u8) option) \<Rightarrow> 'op list \<Rightarrow> 'c \<times> 'op list \<Rightarrow> ('c \<times> 'op list) option" where
  "checked_run step [] s = Some s"
| "checked_run step (x # xs) s =
     (case step x (fst s) of
        None \<Rightarrow> None
      | Some (c, r) \<Rightarrow> checked_run step xs (c, if r = 0 then snd s @ [x] else snd s))"

lemma checked_run_total:
  assumes "P c h" "length h + length xs \<le> N"
    and step: "\<And>c h x. P c h \<Longrightarrow> length h < N \<Longrightarrow>
      \<exists>c' r. step x c = Some (c', r) \<and> P c' (if r = 0 then h @ [x] else h)"
  shows "\<exists>c' h'. checked_run step xs (c, h) = Some (c', h') \<and> P c' h' \<and> length h' \<le> length h + length xs"
  using assms(1,2)
proof (induction xs arbitrary: c h)
  case (Cons x xs)
  then obtain c1 r where s: "step x c = Some (c1, r)" and P: "P c1 (if r = 0 then h @ [x] else h)"
    using step [of c h x] by auto
  have "length (if r = 0 then h @ [x] else h) + length xs \<le> N" using Cons.prems(2) by simp
  from Cons.IH [OF P this] show ?case by (cases "r = 0") (auto simp: s)
qed simp

lemma checked_run_invariant:
  assumes "checked_run step xs (c, h) = Some (c', h')" "P c h"
    and step: "\<And>c h x c1 r. P c h \<Longrightarrow> step x c = Some (c1, r) \<Longrightarrow> P c1 (if r = 0 then h @ [x] else h)"
  shows "P c' h'"
  using assms(1,2)
proof (induction xs arbitrary: c h)
  case (Cons x xs)
  from Cons.prems(1) obtain c1 r where s: "step x c = Some (c1, r)"
    and rest: "checked_run step xs (c1, if r = 0 then h @ [x] else h) = Some (c', h')"
    by (auto cong: if_cong split: option.splits)
  show ?case by (rule Cons.IH [OF rest step [OF Cons.prems(2) s]])
qed simp

text \<open>Growing a history keeps a subsequence, and can extend it by the new operation.\<close>

lemma subseq_snoc_drop: "subseq xs h \<Longrightarrow> subseq xs (h @ [x])"
  by (simp add: subseq_rev_drop_many)

lemma subseq_snoc_keep: "subseq xs h \<Longrightarrow> subseq (xs @ [x]) (h @ [x])"
  by (simp add: subseq_append)

lemmas subseq_snoc =
  subseq_snoc_drop
  subseq_snoc_keep [of "[]", simplified]
  subseq_snoc_keep [of "[a]" for a, simplified]
  subseq_snoc_keep [of "[a, b]" for a b, simplified]
  subseq_snoc_keep [of "[a, b, c]" for a b c, simplified]
  subseq_snoc_keep [of "[a, b, c, d]" for a b c d, simplified]

section \<open>A client that follows Rust's ownership\<close>

text \<open>
  The states a program reaches through the safe API: it owns a list of handles, gets a new one
  from a successful \<open>create\<close>, calls operations on handles it owns, and drops each of them once.
\<close>

inductive client ::
  "('a \<Rightarrow> 'p \<Rightarrow> 'p \<times> ffi_context ProvenResult) \<Rightarrow> ('p \<Rightarrow> ffi_context \<Rightarrow> 'p) \<Rightarrow>
   ('op \<Rightarrow> 'p \<Rightarrow> ffi_context \<Rightarrow> 'p \<times> 's) \<Rightarrow> 'p \<Rightarrow> 'p \<Rightarrow> ffi_context list \<Rightarrow> bool"
  for create dropf call init where
  start: "client create dropf call init init []"
| new: "client create dropf call init p hs \<Longrightarrow> create a p = (p', Inr h) \<Longrightarrow>
     client create dropf call init p' (h # hs)"
| refused: "client create dropf call init p hs \<Longrightarrow> create a p = (p', Inl e) \<Longrightarrow>
     client create dropf call init p' hs"
| use: "client create dropf call init p hs \<Longrightarrow> h \<in> set hs \<Longrightarrow>
     client create dropf call init (fst (call op p h)) hs"
| release: "client create dropf call init p hs \<Longrightarrow> h \<in> set hs \<Longrightarrow>
     client create dropf call init (dropf p h) (remove1 h hs)"

text \<open>
  Where the library's state holds more than the pool, a client of the library is a client of the
  pool, seen through the projection \<open>pr\<close> of the state to the pool.
\<close>

lemma client_project:
  assumes "client create dropf call init q hs"
    and "pr init = init'"
    and "\<And>a q. create' a (pr q) = map_prod pr id (create a q)"
    and "\<And>q h. dropf' (pr q) h = pr (dropf q h)"
    and "\<And>op q h. fst (call' (f op) (pr q) h) = pr (fst (call op q h))"
  shows "client create' dropf' call' init' (pr q) hs"
  using assms(1)
proof (induction rule: client.induct)
  case start
  show ?case unfolding assms(2) by (rule client.start)
next
  case (new q hs a q' h)
  from new.IH have "client create' dropf' call' init' (pr q') (h # hs)"
    by (rule client.new [where a = a]) (simp add: assms(3) new.hyps)
  then show ?case .
next
  case (refused q hs a q' e)
  from refused.IH have "client create' dropf' call' init' (pr q') hs"
    by (rule client.refused [where a = a and e = e]) (simp add: assms(3) refused.hyps)
  then show ?case .
next
  case (use q hs h op)
  then show ?case using client.use [of create' dropf' call' init' "pr q" hs h "f op"]
    by (simp add: assms(5))
next
  case (release q hs h)
  then show ?case using client.release [of create' dropf' call' init' "pr q" hs h]
    by (simp add: assms(4))
qed

text \<open>An invariant of the whole state holds in every state a client reaches.\<close>

lemma client_invariant:
  assumes "client create dropf call init q hs"
    and "I init"
    and "\<And>a q. I q \<Longrightarrow> I (fst (create a q))"
    and "\<And>q h. I q \<Longrightarrow> I (dropf q h)"
    and "\<And>op q h. I q \<Longrightarrow> I (fst (call op q h))"
  shows "I q"
  using assms(1)
proof (induction rule: client.induct)
  case (new q hs a q' h)
  with assms(3) [of q a] show ?case by simp
next
  case (refused q hs a q' e)
  with assms(3) [of q a] show ?case by simp
qed (simp_all add: assms)

text \<open>
  The contract of one protocol's wrappers over its engine: \<open>act\<close> reads the flag, \<open>ok\<close> is the
  check a create function makes on its arguments, \<open>mk\<close> and \<open>off\<close> are the writes of create and
  destroy, \<open>step\<close> is the body of an operation and \<open>good\<close> the session invariant of the engine.
\<close>

locale slot_service =
  fixes act :: "'c \<Rightarrow> bool"
    and ok :: "'a \<Rightarrow> bool"
    and mk :: "'a \<Rightarrow> 'c \<Rightarrow> 'c"
    and off :: "'c \<Rightarrow> 'c"
    and step :: "'op \<Rightarrow> 'c \<Rightarrow> 'c \<times> 'r"
    and err :: "'op \<Rightarrow> 'r"
    and conv :: "'op \<Rightarrow> 'r \<Rightarrow> 's"
    and good :: "'c \<Rightarrow> bool"
    and init :: "'c list"
    and create :: "'a \<Rightarrow> 'c list \<Rightarrow> 'c list \<times> ffi_context ProvenResult"
    and dropf :: "'c list \<Rightarrow> ffi_context \<Rightarrow> 'c list"
    and call :: "'op \<Rightarrow> 'c list \<Rightarrow> ffi_context \<Rightarrow> 'c list \<times> 's"
  assumes act_mk: "act (mk a c)"
    and act_off: "\<not> act (off c)"
    and act_step: "act c \<Longrightarrow> act (fst (step op c))"
    and good_mk: "ok a \<Longrightarrow> good (mk a c)"
    and good_step: "good c \<Longrightarrow> good (fst (step op c))"
    and init_inactive: "c \<in> set init \<Longrightarrow> \<not> act c"
    and init_small: "length init \<le> 2147483648"
    and create_eq: "create a p = wrap_slot (if ok a then pool_create act (mk a) p else (p, - 1))"
    and drop_eq: "dropf p h = pool_destroy off p (ctx_slot h)"
    and call_eq: "call op p h = map_prod id (conv op) (on_slot act p (ctx_slot h) (err op) (step op))"
begin

definition owned :: "'c list \<Rightarrow> ffi_context list \<Rightarrow> bool" where
  "owned p hs \<longleftrightarrow>
     length p = length init \<and> distinct hs \<and>
     set hs = handle ` {i. i < length p \<and> act (p ! i)} \<and>
     (\<forall>i < length p. act (p ! i) \<longrightarrow> good (p ! i))"

lemma owned_size: "owned p hs \<Longrightarrow> length p \<le> 2147483648"
  using init_small by (simp add: owned_def)

lemma owned_handle:
  assumes "owned p hs" "h \<in> set hs"
  obtains i where "i < length p" "i < 2147483648" "h = handle i" "act (p ! i)" "good (p ! i)"
    "valid_slot act p (ctx_slot h) = Some i" "slot_index p (ctx_slot h) = Some i"
proof -
  from assms obtain i where i: "i < length p" "h = handle i" "act (p ! i)" "good (p ! i)"
    by (auto simp: owned_def)
  moreover from i(1) owned_size [OF assms(1)] have "i < 2147483648" by simp
  ultimately show ?thesis using that by (auto simp: valid_slot_of_nat)
qed

text \<open>Writing one slot keeps ownership when the slot's flag follows the list of handles.\<close>

lemma owned_update:
  assumes own: "owned p hs" and i: "i < length p" and g: "act c \<Longrightarrow> good c"
    and d: "distinct hs'"
    and s: "set hs' = (if act c then insert (handle i) (set hs) else set hs - {handle i})"
  shows "owned (p[i := c]) hs'"
proof -
  have small: "j < length p \<Longrightarrow> handle j = handle i \<longleftrightarrow> j = i" for j
    using owned_size [OF own] i by (simp add: handle_inject)
  have "handle ` {j. j < length p \<and> act (p[i := c] ! j)} =
      (if act c then insert (handle i) (set hs) else set hs - {handle i})"
    using own i small by (auto simp: owned_def nth_list_update_if image_iff split: if_splits)
  moreover have "good (p[i := c] ! j)" if "j < length p" "act (p[i := c] ! j)" for j
    using own i that g by (auto simp: owned_def nth_list_update_if split: if_splits)
  ultimately show ?thesis using own d s by (simp add: owned_def)
qed

lemma owned_start: "owned init []"
  using init_inactive by (auto simp: owned_def)

lemma create_Inr:
  assumes "owned p hs" "create a p = (p', Inr h)"
  obtains i where "first_free act p = Some i" "ok a" "h = handle i" "p' = p[i := mk a (p ! i)]"
proof (cases "ok a")
  case True
  with assms(2) owned_size [OF assms(1)] that show ?thesis
    by (auto simp: create_eq wrap_slot_create split: option.splits)
next
  case False
  with assms(2) show ?thesis by (simp add: create_eq)
qed

lemma create_Inl: "owned p hs \<Longrightarrow> create a p = (p', Inl e) \<Longrightarrow> p' = p"
  by (auto simp: create_eq wrap_slot_create owned_size split: option.splits if_splits)

lemma owned_new: "owned p hs \<Longrightarrow> create a p = (p', Inr h) \<Longrightarrow> owned p' (h # hs)"
proof -
  assume own: "owned p hs" and c: "create a p = (p', Inr h)"
  from own c obtain i where i: "first_free act p = Some i" "ok a" "h = handle i"
      "p' = p[i := mk a (p ! i)]"
    by (rule create_Inr)
  from i(1) have ib: "i < length p" "\<not> act (p ! i)" by (auto simp: first_free_Some_iff)
  have "h \<notin> set hs"
    using own ib owned_size [OF own] by (auto simp: owned_def i(3) handle_inject)
  moreover have "distinct hs" using own by (simp add: owned_def)
  ultimately have "distinct (h # hs)" by simp
  moreover have "set (h # hs) =
      (if act (mk a (p ! i)) then insert (handle i) (set hs) else set hs - {handle i})"
    by (simp add: act_mk i(3))
  ultimately show ?thesis
    unfolding i(4) using own ib(1) good_mk [OF i(2)] by (intro owned_update)
qed

lemma owned_use: "owned p hs \<Longrightarrow> h \<in> set hs \<Longrightarrow> owned (fst (call op p h)) hs"
proof -
  assume own: "owned p hs" and h: "h \<in> set hs"
  from own h obtain i where i: "i < length p" "h = handle i" "act (p ! i)" "good (p ! i)"
      "valid_slot act p (ctx_slot h) = Some i"
    by (rule owned_handle)
  have "fst (call op p h) = p[i := fst (step op (p ! i))]"
    by (simp add: call_eq on_slot_valid [OF i(5)])
  moreover have "owned (p[i := fst (step op (p ! i))]) hs"
    using own i(1) h i(2) good_step [OF i(4)] act_step [OF i(3), of op]
    by (intro owned_update) (auto simp: owned_def)
  ultimately show ?thesis by simp
qed

lemma owned_release: "owned p hs \<Longrightarrow> h \<in> set hs \<Longrightarrow> owned (dropf p h) (remove1 h hs)"
proof -
  assume own: "owned p hs" and h: "h \<in> set hs"
  from own h obtain i where i: "i < length p" "h = handle i" "slot_index p (ctx_slot h) = Some i"
    by (rule owned_handle)
  have "dropf p h = p[i := off (p ! i)]"
    by (simp add: drop_eq pool_destroy_def i(3))
  moreover have "owned (p[i := off (p ! i)]) (remove1 h hs)"
    using own i(1,2) act_off [of "p ! i"]
    by (intro owned_update) (auto simp: owned_def)
  ultimately show ?thesis by simp
qed

text \<open>Every state the safe API reaches is one where the active slots are the owned handles.\<close>

lemma client_owned: "client create dropf call init p hs \<Longrightarrow> owned p hs"
proof (induction rule: client.induct)
  case start
  show ?case by (rule owned_start)
next
  case (new p hs a p' h)
  then show ?case by (blast intro: owned_new)
next
  case (refused p hs a p' e)
  then show ?case by (auto dest: create_Inl)
next
  case (use p hs h op)
  then show ?case by (blast intro: owned_use)
next
  case (release p hs h)
  then show ?case by (blast intro: owned_release)
qed

subsection \<open>What the client gets\<close>

text \<open>An owned handle addresses an active slot that satisfies the session invariant.\<close>

lemma live_slot:
  assumes "client create dropf call init p hs" "h \<in> set hs"
  obtains i where "i < length init" "h = handle i" "valid_slot act p (ctx_slot h) = Some i" "good (p ! i)"
proof -
  from assms(1) have own: "owned p hs" by (rule client_owned)
  then have len: "length p = length init" by (simp add: owned_def)
  from own assms(2) show ?thesis
    by (rule owned_handle) (use len that in auto)
qed

text \<open>The first create gives the handle of slot 0.\<close>

lemma client_first:
  assumes "ok a" "init \<noteq> []"
  shows "client create dropf call init (init[0 := mk a (init ! 0)]) [handle 0]"
    and "create a init = (init[0 := mk a (init ! 0)], Inr (handle 0))"
proof -
  have "first_free act init = Some 0"
    using assms(2) init_inactive by (cases init) simp_all
  then show c: "create a init = (init[0 := mk a (init ! 0)], Inr (handle 0))"
    using assms(1) init_small by (simp add: create_eq wrap_slot_create)
  show "client create dropf call init (init[0 := mk a (init ! 0)]) [handle 0]"
    by (rule client.new [where p = init and hs = "[]" and a = a]) (rule client.start, rule c)
qed

lemma call_first:
  assumes "ok a" "init \<noteq> []"
  shows "call op (init[0 := mk a (init ! 0)]) (handle 0) =
    (init[0 := fst (step op (mk a (init ! 0)))], conv op (snd (step op (mk a (init ! 0)))))"
proof -
  have "valid_slot act (init[0 := mk a (init ! 0)]) (word_of_nat 0) = Some 0"
    using assms(2) init_small act_mk by (subst valid_slot_of_nat) auto
  then show ?thesis using assms(2) by (simp add: call_eq on_slot_valid)
qed

lemma client_second:
  assumes "ok a" "ok b" "1 < length init"
  shows "client create dropf call init (init[0 := mk a (init ! 0), 1 := mk b (init ! 1)]) [handle 1, handle 0]"
proof -
  let ?p = "init[0 := mk a (init ! 0)]"
  obtain x y zs where init: "init = x # y # zs"
    using assms(3) by (cases init; cases "tl init") auto
  have "first_free act ?p = Some 1"
    using init_inactive act_mk by (simp add: init)
  then have "create b ?p = (?p[1 := mk b (?p ! 1)], Inr (handle 1))"
    using assms(2) init_small by (simp add: create_eq wrap_slot_create)
  moreover have "client create dropf call init ?p [handle 0]"
    using assms(1,3) by (intro client_first) auto
  ultimately show ?thesis
    using client.new [of create dropf call init ?p "[handle 0]" b] by (simp add: init)
qed

text \<open>A call on an owned handle runs the operation: the fallback for a bad slot is not taken.\<close>

lemma call_runs:
  assumes "client create dropf call init p hs" "h \<in> set hs"
  shows "\<exists>i < length init. h = handle i \<and>
    call op p h = (p[i := fst (step op (p ! i))], conv op (snd (step op (p ! i))))"
  using assms by (rule live_slot) (auto simp: call_eq on_slot_valid)

text \<open>The context of an owned handle before and after a call.\<close>

lemma live_call:
  assumes "client create dropf call init p hs" "h \<in> set hs"
  obtains i where "valid_slot act p (ctx_slot h) = Some i" "good (p ! i)"
    "valid_slot act (fst (call op p h)) (ctx_slot h) = Some i"
    "fst (call op p h) ! i = fst (step op (p ! i))" "snd (call op p h) = conv op (snd (step op (p ! i)))"
    "fst (call op p h) = p[i := fst (step op (p ! i))]"
  using assms
proof (rule live_slot)
  fix i
  assume i: "valid_slot act p (ctx_slot h) = Some i" "good (p ! i)"
  then have si: "slot_index p (ctx_slot h) = Some i" "act (p ! i)" by (simp_all add: valid_slot_Some_iff)
  then have "i < length p" by (simp add: slot_index_Some_iff)
  with i si show thesis
    by (intro that [of i]) (simp_all add: call_eq on_slot_valid [OF i(1)] valid_slot_Some_iff act_step)
qed

text \<open>Calls and drops on one handle leave the context of every other handle alone.\<close>

lemma isolation:
  assumes "client create dropf call init p hs" "h \<in> set hs" "h' \<in> set hs" "h \<noteq> h'"
  shows "query_slot act (fst (call op p h)) (ctx_slot h') d f = query_slot act p (ctx_slot h') d f"
    and "query_slot act (dropf p h) (ctx_slot h') d f = query_slot act p (ctx_slot h') d f"
proof -
  from assms(1) have own: "owned p hs" by (rule client_owned)
  from own assms(2) obtain i where i: "h = handle i"
      "valid_slot act p (ctx_slot h) = Some i" "slot_index p (ctx_slot h) = Some i"
    by (rule owned_handle)
  from own assms(3) obtain j where j: "h' = handle j" "valid_slot act p (ctx_slot h') = Some j"
      "slot_index p (ctx_slot h') = Some j"
    by (rule owned_handle)
  have "j \<noteq> i" using i(1) j(1) assms(4) by auto
  then have "valid_slot act (p[i := c]) (ctx_slot h') = Some j \<and> p[i := c] ! j = p ! j" for c
    using j(2,3) by (auto simp: valid_slot_def split: if_splits)
  then show "query_slot act (fst (call op p h)) (ctx_slot h') d f = query_slot act p (ctx_slot h') d f"
    and "query_slot act (dropf p h) (ctx_slot h') d f = query_slot act p (ctx_slot h') d f"
    using j(2) by (simp_all add: query_slot_def call_eq on_slot_valid [OF i(2)] drop_eq
        pool_destroy_def i(3))
qed

text \<open>Creation fails exactly when the arguments are refused or every slot is owned.\<close>

lemma live_count:
  assumes "client create dropf call init p hs"
  shows "length hs = card {i. i < length init \<and> act (p ! i)}"
proof -
  have own: "owned p hs" using assms by (rule client_owned)
  have "distinct hs" "set hs = handle ` {i. i < length init \<and> act (p ! i)}"
    using own by (auto simp: owned_def)
  then have "length hs = card (handle ` {i. i < length init \<and> act (p ! i)})"
    by (metis distinct_card)
  also have "\<dots> = card {i. i < length init \<and> act (p ! i)}"
    using init_small by (intro card_image inj_onI) (simp add: handle_inject)
  finally show ?thesis .
qed

lemma live_bound: "client create dropf call init p hs \<Longrightarrow> length hs \<le> length init"
proof -
  assume "client create dropf call init p hs"
  then have "length hs = card {i. i < length init \<and> act (p ! i)}" by (rule live_count)
  also have "\<dots> \<le> card {..< length init}" by (rule card_mono) auto
  finally show ?thesis by simp
qed

lemma create_succeeds_iff:
  assumes "client create dropf call init p hs"
  shows "(\<exists>p' h. create a p = (p', Inr h)) \<longleftrightarrow> ok a \<and> length hs < length init"
proof -
  have own: "owned p hs" using assms by (rule client_owned)
  then have len: "length p = length init" by (simp add: owned_def)
  have full: "first_free act p = None \<longleftrightarrow> length hs = length init"
  proof
    assume "first_free act p = None"
    then have "{i. i < length init \<and> act (p ! i)} = {..< length init}"
      by (auto simp: first_free_None_iff len)
    then show "length hs = length init" by (simp add: live_count [OF assms])
  next
    assume "length hs = length init"
    then have "card {i. i < length init \<and> act (p ! i)} = card {..< length init}"
      by (simp add: live_count [OF assms])
    then have "{i. i < length init \<and> act (p ! i)} = {..< length init}"
      by (intro card_subset_eq) auto
    then show "first_free act p = None" by (auto simp: first_free_None_iff len)
  qed
  have "(\<exists>p' h. create a p = (p', Inr h)) \<longleftrightarrow> ok a \<and> first_free act p \<noteq> None"
    using owned_size [OF own]
    by (auto simp: create_eq wrap_slot_create split: option.splits)
  with full live_bound [OF assms] show ?thesis by auto
qed

text \<open>The new handle is fresh and its slot holds the initial context.\<close>

lemma create_fresh:
  assumes "client create dropf call init p hs" "create a p = (p', Inr h)"
  shows "h \<notin> set hs" and "\<exists>i < length init. h = handle i \<and> \<not> act (p ! i) \<and> p' = p[i := mk a (p ! i)]"
proof -
  have own: "owned p hs" using assms(1) by (rule client_owned)
  then have len: "length p = length init" by (simp add: owned_def)
  have "owned p' (h # hs)" using own assms(2) by (rule owned_new)
  then show "h \<notin> set hs" by (simp add: owned_def)
  from own assms(2) show "\<exists>i < length init. h = handle i \<and> \<not> act (p ! i) \<and> p' = p[i := mk a (p ! i)]"
    by (rule create_Inr) (auto simp: first_free_Some_iff len)
qed

end

end
