(* ===== verification/Tag_Codec.thy ===== *)
theory Tag_Codec
  imports Prelude
begin

text \<open>
  The contract of the ABI tags. Every Rust enum of the crate that crosses the C boundary is
  \<open>#[repr(u8)]\<close> with the discriminants \<open>0, \<dots>, n - 1\<close>, a method \<open>to_tag\<close> that casts it to
  \<open>u8\<close> and a function \<open>from_tag\<close> that decodes a byte or refuses it. The locale states what the
  two promise each other; each module of the development interprets it on its own pair, and the
  wrappers rely on the lemmas derived here.
\<close>

text \<open>The part of the contract that any pair of an encoder and a decoder has, on any code space.\<close>

locale wire_codec =
  fixes encode :: "'a \<Rightarrow> 'w"
    and decode :: "'w \<Rightarrow> 'a option"
  assumes decode_encode [simp]: "decode (encode x) = Some x"
    and decode_exact: "decode w = Some x \<Longrightarrow> encode x = w"
begin

lemma inj_encode: "inj encode"
  by (rule injI) (metis decode_encode option.inject)

lemma encode_eq_iff: "encode x = encode y \<longleftrightarrow> x = y"
  using inj_encode by (auto dest: injD)

lemma decode_eq_Some_iff: "decode w = Some x \<longleftrightarrow> w = encode x"
  using decode_encode decode_exact by blast

lemma decode_eq_None_iff: "decode w = None \<longleftrightarrow> w \<notin> range encode"
  using decode_encode decode_exact by (metis option.exhaust rangeE rangeI option.distinct(1))

end

locale tag_codec =
  fixes to_tag :: "'a \<Rightarrow> u8"
    and from_tag :: "u8 \<Rightarrow> 'a option"
    and count :: nat
  assumes from_to [simp]: "from_tag (to_tag x) = Some x"
    and rejects: "from_tag t = Some x \<Longrightarrow> to_tag x = t"
    and tag_bound: "unat (to_tag x) < count"
    and dense: "\<forall>i < count. from_tag (word_of_nat i) \<noteq> None"

sublocale tag_codec \<subseteq> wire: wire_codec to_tag from_tag
  by unfold_locales (simp_all add: rejects)

context tag_codec begin

lemma inj_to_tag: "inj to_tag"
  by (rule wire.inj_encode)

lemma to_tag_eq_iff: "to_tag x = to_tag y \<longleftrightarrow> x = y"
  by (rule wire.encode_eq_iff)

lemma from_tag_eq_Some_iff: "from_tag t = Some x \<longleftrightarrow> t = to_tag x"
  by (rule wire.decode_eq_Some_iff)

lemma in_range: "unat t < count \<Longrightarrow> \<exists>x. t = to_tag x"
proof -
  assume "unat t < count"
  then have "from_tag (word_of_nat (unat t)) \<noteq> None" using dense by blast
  then show ?thesis using rejects by force
qed

lemma from_tag_eq_None_iff: "from_tag t = None \<longleftrightarrow> count \<le> unat t"
proof
  assume "from_tag t = None"
  then show "count \<le> unat t" using in_range [of t] by force
next
  assume "count \<le> unat t"
  then show "from_tag t = None"
    using rejects tag_bound by (metis linorder_not_less option.exhaust)
qed

lemma range_to_tag: "range to_tag = {t. unat t < count}"
  using in_range tag_bound by blast

end

text \<open>
  The laws of a concrete codec are checked by splitting on the finitely many tags. The lemmas
  turn the bounded law into a conjunction the simplifier evaluates.
\<close>

lemma all_less_Suc: "(\<forall>i < Suc n. P i) \<longleftrightarrow> P n \<and> (\<forall>i < n. P i)"
  by (auto simp: less_Suc_eq)

lemma all_less_numeral:
  "(\<forall>i < numeral k. P i) \<longleftrightarrow> P (pred_numeral k) \<and> (\<forall>i < pred_numeral k. P i)"
  by (simp add: numeral_eq_Suc all_less_Suc)

lemmas codec_eval = all_less_numeral all_less_Suc

text \<open>A decoder is a chain of comparisons; these peel off one of them, and the refusal at its end.\<close>

lemma codec_arm:
  "(if t = k then Some v else e) = Some x \<Longrightarrow> enc v = k \<Longrightarrow> (e = Some x \<Longrightarrow> enc x = t) \<Longrightarrow> enc x = t"
  by (auto split: if_splits)

lemma codec_end: "(None :: 'a option) = Some x \<Longrightarrow> enc x = t"
  by simp

end
