(* ===== verification/Smtp_Engine.thy ===== *)
theory Smtp_Engine
  imports Slot_Pool Tag_Codec
begin

text \<open>
  The SMTP session engine \<open>protocols/proven-smtp/ffi/zig/src/smtp.zig\<close>: the context record, the
  body of every exported operation (what runs under the slot's lock) and the exported function,
  which validates the slot first. \<open>SmtpContext\<close> keeps the fields of the Zig struct; the \<open>u8\<close>
  counters and the \<open>u32\<close> size keep their width.
\<close>

section \<open>State\<close>

text \<open>The enum of session states, with \<open>@intFromEnum\<close> as the tag.\<close>

datatype smtp_state =
    smtp_connected
  | smtp_greeted
  | smtp_auth_started
  | smtp_authenticated
  | smtp_mail_from
  | smtp_rcpt_to
  | smtp_data
  | smtp_message_received
  | smtp_quitted

primrec smtp_state_tag :: "smtp_state \<Rightarrow> u8" where
  "smtp_state_tag smtp_connected = 0"
| "smtp_state_tag smtp_greeted = 1"
| "smtp_state_tag smtp_auth_started = 2"
| "smtp_state_tag smtp_authenticated = 3"
| "smtp_state_tag smtp_mail_from = 4"
| "smtp_state_tag smtp_rcpt_to = 5"
| "smtp_state_tag smtp_data = 6"
| "smtp_state_tag smtp_message_received = 7"
| "smtp_state_tag smtp_quitted = 8"

text \<open>The tags of the reply codes the engine writes (\<open>@intFromEnum(ReplyCode.x)\<close>).\<close>

datatype smtp_reply =
    service_ready | service_closing | action_ok | will_forward | start_mail_input
  | service_unavailable | mailbox_busy | local_error | insufficient_storage | syntax_error
  | param_syntax_error | not_implemented | bad_sequence | param_not_implemented
  | mailbox_unavailable | mailbox_name_invalid | transaction_failed

primrec smtp_reply_tag :: "smtp_reply \<Rightarrow> u8" where
  "smtp_reply_tag service_ready = 0"
| "smtp_reply_tag service_closing = 1"
| "smtp_reply_tag action_ok = 2"
| "smtp_reply_tag will_forward = 3"
| "smtp_reply_tag start_mail_input = 4"
| "smtp_reply_tag service_unavailable = 5"
| "smtp_reply_tag mailbox_busy = 6"
| "smtp_reply_tag local_error = 7"
| "smtp_reply_tag insufficient_storage = 8"
| "smtp_reply_tag syntax_error = 9"
| "smtp_reply_tag param_syntax_error = 10"
| "smtp_reply_tag not_implemented = 11"
| "smtp_reply_tag bad_sequence = 12"
| "smtp_reply_tag param_not_implemented = 13"
| "smtp_reply_tag mailbox_unavailable = 14"
| "smtp_reply_tag mailbox_name_invalid = 15"
| "smtp_reply_tag transaction_failed = 16"

record SmtpContext =
  sm_state :: smtp_state
  sm_last_reply :: u8
  sm_recipient_count :: u8
  sm_data_size :: u32
  sm_auth_mechanism :: u8
  sm_is_authenticated :: bool
  sm_tls_active :: bool
  sm_active :: bool

type_synonym smtp_pool = "SmtpContext list"

definition MAX_RECIPIENTS :: u8 where
  "MAX_RECIPIENTS = 64"

definition MAX_DATA_SIZE :: u64 where
  "MAX_DATA_SIZE = 10485760"

text \<open>The static array \<open>sessions\<close> as the library is loaded: 64 inactive slots.\<close>

definition smtp_sessions :: smtp_pool where
  "smtp_sessions = replicate 64
     \<lparr>sm_state = smtp_connected, sm_last_reply = 0, sm_recipient_count = 0, sm_data_size = 0,
      sm_auth_mechanism = 255, sm_is_authenticated = False, sm_tls_active = False,
      sm_active = False\<rparr>"

definition smtp_validSlot :: "smtp_pool \<Rightarrow> c_int \<Rightarrow> nat option" where
  "smtp_validSlot p s = valid_slot sm_active p s"

section \<open>Lifecycle\<close>

definition smtp_abi_version :: u32 where
  "smtp_abi_version = 1"

text \<open>The context a create writes, whatever the slot held before.\<close>

definition smtp_fresh :: "SmtpContext \<Rightarrow> SmtpContext" where
  "smtp_fresh c =
     \<lparr>sm_state = smtp_connected, sm_last_reply = smtp_reply_tag service_ready,
      sm_recipient_count = 0, sm_data_size = 0, sm_auth_mechanism = 255,
      sm_is_authenticated = False, sm_tls_active = False, sm_active = True\<rparr>"

definition smtp_create_context :: "smtp_pool \<Rightarrow> smtp_pool \<times> c_int" where
  "smtp_create_context p = pool_create sm_active smtp_fresh p"

definition smtp_off :: "SmtpContext \<Rightarrow> SmtpContext" where
  "smtp_off c = c\<lparr>sm_active := False\<rparr>"

definition smtp_destroy_context :: "smtp_pool \<Rightarrow> c_int \<Rightarrow> smtp_pool" where
  "smtp_destroy_context p s = pool_destroy smtp_off p s"

section \<open>State queries\<close>

definition smtp_get_state :: "smtp_pool \<Rightarrow> c_int \<Rightarrow> u8" where
  "smtp_get_state p s = query_slot sm_active p s (smtp_state_tag smtp_quitted) (\<lambda>c. smtp_state_tag (sm_state c))"

definition smtp_get_reply_code :: "smtp_pool \<Rightarrow> c_int \<Rightarrow> u8" where
  "smtp_get_reply_code p s = query_slot sm_active p s 255 sm_last_reply"

definition smtp_get_recipient_count :: "smtp_pool \<Rightarrow> c_int \<Rightarrow> u8" where
  "smtp_get_recipient_count p s = query_slot sm_active p s 0 sm_recipient_count"

definition smtp_get_data_size :: "smtp_pool \<Rightarrow> c_int \<Rightarrow> u32" where
  "smtp_get_data_size p s = query_slot sm_active p s 0 sm_data_size"

definition smtp_get_auth_mechanism :: "smtp_pool \<Rightarrow> c_int \<Rightarrow> u8" where
  "smtp_get_auth_mechanism p s = query_slot sm_active p s 255 sm_auth_mechanism"

definition smtp_is_authenticated :: "smtp_pool \<Rightarrow> c_int \<Rightarrow> u8" where
  "smtp_is_authenticated p s = query_slot sm_active p s 0 (\<lambda>c. if sm_is_authenticated c then 1 else 0)"

definition smtp_is_tls_active :: "smtp_pool \<Rightarrow> c_int \<Rightarrow> u8" where
  "smtp_is_tls_active p s = query_slot sm_active p s 0 (\<lambda>c. if sm_tls_active c then 1 else 0)"

section \<open>Operations\<close>

text \<open>Each \<open>_on\<close> function is the body after \<open>mutexes[idx].lock()\<close>, on the locked context.\<close>

definition smtp_greet_on :: "u8 \<Rightarrow> SmtpContext \<Rightarrow> SmtpContext \<times> u8" where
  [op_simps]: "smtp_greet_on is_ehlo c =
     (if sm_state c \<noteq> smtp_connected then (c, 1)
      else (c\<lparr>sm_state := smtp_greeted, sm_last_reply := smtp_reply_tag action_ok\<rparr>, 0))"

definition smtp_authenticate_on :: "u8 \<Rightarrow> SmtpContext \<Rightarrow> SmtpContext \<times> u8" where
  [op_simps]: "smtp_authenticate_on mech c =
     (if sm_state c \<noteq> smtp_greeted then (c, 1)
      else if mech > 3 then (c, 1)
      else (c\<lparr>sm_state := smtp_auth_started, sm_auth_mechanism := mech,
               sm_last_reply := smtp_reply_tag start_mail_input\<rparr>, 0))"

definition smtp_auth_complete_on :: "u8 \<Rightarrow> SmtpContext \<Rightarrow> SmtpContext \<times> u8" where
  [op_simps]: "smtp_auth_complete_on success c =
     (if sm_state c \<noteq> smtp_auth_started then (c, 1)
      else if success = 1 then
        (c\<lparr>sm_state := smtp_authenticated, sm_is_authenticated := True,
            sm_last_reply := smtp_reply_tag action_ok\<rparr>, 0)
      else
        (c\<lparr>sm_state := smtp_greeted, sm_auth_mechanism := 255,
            sm_last_reply := smtp_reply_tag transaction_failed\<rparr>, 0))"

definition smtp_set_sender_on :: "SmtpContext \<Rightarrow> SmtpContext \<times> u8" where
  [op_simps]: "smtp_set_sender_on c =
     (if sm_state c \<noteq> smtp_greeted \<and> sm_state c \<noteq> smtp_authenticated then (c, 1)
      else (c\<lparr>sm_state := smtp_mail_from, sm_recipient_count := 0, sm_data_size := 0,
               sm_last_reply := smtp_reply_tag action_ok\<rparr>, 0))"

definition smtp_add_recipient_on :: "SmtpContext \<Rightarrow> SmtpContext \<times> u8" where
  [op_simps]: "smtp_add_recipient_on c =
     (if sm_state c \<noteq> smtp_mail_from \<and> sm_state c \<noteq> smtp_rcpt_to then (c, 1)
      else if sm_recipient_count c \<ge> MAX_RECIPIENTS then (c, 1)
      else (c\<lparr>sm_state := smtp_rcpt_to, sm_recipient_count := sm_recipient_count c + 1,
               sm_last_reply := smtp_reply_tag action_ok\<rparr>, 0))"

definition smtp_start_data_on :: "SmtpContext \<Rightarrow> SmtpContext \<times> u8" where
  [op_simps]: "smtp_start_data_on c =
     (if sm_state c \<noteq> smtp_rcpt_to then (c, 1)
      else (c\<lparr>sm_state := smtp_data, sm_data_size := 0,
               sm_last_reply := smtp_reply_tag start_mail_input\<rparr>, 0))"

text \<open>The sum is taken in \<open>u64\<close>, so it does not wrap before the comparison.\<close>

definition smtp_append_data_on :: "u32 \<Rightarrow> SmtpContext \<Rightarrow> SmtpContext \<times> u8" where
  [op_simps]: "smtp_append_data_on len c =
     (if sm_state c \<noteq> smtp_data then (c, 1)
      else let new_size = (ucast (sm_data_size c) :: u64) + ucast len in
        if new_size > MAX_DATA_SIZE then (c, 1)
        else (c\<lparr>sm_data_size := ucast new_size\<rparr>, 0))"

definition smtp_finish_data_on :: "SmtpContext \<Rightarrow> SmtpContext \<times> u8" where
  [op_simps]: "smtp_finish_data_on c =
     (if sm_state c \<noteq> smtp_data then (c, 1)
      else (c\<lparr>sm_state := smtp_message_received, sm_last_reply := smtp_reply_tag action_ok\<rparr>, 0))"

definition smtp_reset_on :: "SmtpContext \<Rightarrow> SmtpContext \<times> u8" where
  [op_simps]: "smtp_reset_on c =
     (if sm_state c = smtp_mail_from \<or> sm_state c = smtp_rcpt_to \<or> sm_state c = smtp_message_received then
        (c\<lparr>sm_state := (if sm_is_authenticated c then smtp_authenticated else smtp_greeted),
            sm_recipient_count := 0, sm_data_size := 0,
            sm_last_reply := smtp_reply_tag action_ok\<rparr>, 0)
      else (c, 1))"

definition smtp_quit_on :: "SmtpContext \<Rightarrow> SmtpContext \<times> u8" where
  [op_simps]: "smtp_quit_on c =
     (if sm_state c = smtp_quitted \<or> sm_state c = smtp_data \<or> sm_state c = smtp_auth_started then (c, 1)
      else (c\<lparr>sm_state := smtp_quitted, sm_last_reply := smtp_reply_tag service_closing\<rparr>, 0))"

definition smtp_enable_tls_on :: "SmtpContext \<Rightarrow> SmtpContext \<times> u8" where
  [op_simps]: "smtp_enable_tls_on c =
     (if sm_state c \<noteq> smtp_greeted then (c, 1)
      else if sm_tls_active c then (c, 1)
      else (c\<lparr>sm_tls_active := True, sm_last_reply := smtp_reply_tag service_ready\<rparr>, 0))"

text \<open>The exported functions: an invalid slot answers 1.\<close>

definition smtp_greet :: "smtp_pool \<Rightarrow> c_int \<Rightarrow> u8 \<Rightarrow> smtp_pool \<times> u8" where
  "smtp_greet p s is_ehlo = on_slot sm_active p s 1 (smtp_greet_on is_ehlo)"

definition smtp_authenticate :: "smtp_pool \<Rightarrow> c_int \<Rightarrow> u8 \<Rightarrow> smtp_pool \<times> u8" where
  "smtp_authenticate p s mech = on_slot sm_active p s 1 (smtp_authenticate_on mech)"

definition smtp_auth_complete :: "smtp_pool \<Rightarrow> c_int \<Rightarrow> u8 \<Rightarrow> smtp_pool \<times> u8" where
  "smtp_auth_complete p s success = on_slot sm_active p s 1 (smtp_auth_complete_on success)"

definition smtp_set_sender :: "smtp_pool \<Rightarrow> c_int \<Rightarrow> smtp_pool \<times> u8" where
  "smtp_set_sender p s = on_slot sm_active p s 1 smtp_set_sender_on"

definition smtp_add_recipient :: "smtp_pool \<Rightarrow> c_int \<Rightarrow> smtp_pool \<times> u8" where
  "smtp_add_recipient p s = on_slot sm_active p s 1 smtp_add_recipient_on"

definition smtp_start_data :: "smtp_pool \<Rightarrow> c_int \<Rightarrow> smtp_pool \<times> u8" where
  "smtp_start_data p s = on_slot sm_active p s 1 smtp_start_data_on"

definition smtp_append_data :: "smtp_pool \<Rightarrow> c_int \<Rightarrow> u32 \<Rightarrow> smtp_pool \<times> u8" where
  "smtp_append_data p s len = on_slot sm_active p s 1 (smtp_append_data_on len)"

definition smtp_finish_data :: "smtp_pool \<Rightarrow> c_int \<Rightarrow> smtp_pool \<times> u8" where
  "smtp_finish_data p s = on_slot sm_active p s 1 smtp_finish_data_on"

definition smtp_reset :: "smtp_pool \<Rightarrow> c_int \<Rightarrow> smtp_pool \<times> u8" where
  "smtp_reset p s = on_slot sm_active p s 1 smtp_reset_on"

definition smtp_quit :: "smtp_pool \<Rightarrow> c_int \<Rightarrow> smtp_pool \<times> u8" where
  "smtp_quit p s = on_slot sm_active p s 1 smtp_quit_on"

definition smtp_enable_tls :: "smtp_pool \<Rightarrow> c_int \<Rightarrow> smtp_pool \<times> u8" where
  "smtp_enable_tls p s = on_slot sm_active p s 1 smtp_enable_tls_on"

section \<open>The stateless transition table\<close>

definition smtp_can_transition :: "u8 \<Rightarrow> u8 \<Rightarrow> u8" where
  "smtp_can_transition from to =
     (if from = 0 \<and> to = 1 then 1
      else if from = 1 \<and> to = 2 then 1
      else if from = 2 \<and> to = 3 then 1
      else if from = 2 \<and> to = 1 then 1
      else if from = 3 \<and> to = 4 then 1
      else if from = 1 \<and> to = 4 then 1
      else if from = 4 \<and> to = 5 then 1
      else if from = 5 \<and> to = 5 then 1
      else if from = 5 \<and> to = 6 then 1
      else if from = 6 \<and> to = 7 then 1
      else if from = 7 \<and> to = 1 then 1
      else if from = 7 \<and> to = 3 then 1
      else if from = 4 \<and> to = 1 then 1
      else if from = 5 \<and> to = 1 then 1
      else if to = 8 \<and> (from = 0 \<or> from = 1 \<or> from = 3 \<or> from = 4 \<or> from = 5 \<or> from = 7) then 1
      else 0)"

end
