(* ===== verification/Smtp_Types.thy ===== *)
theory Smtp_Types
  imports Tag_Codec
begin

text \<open>
  The pure types of \<open>bindings/rust/src/smtp.rs\<close>: commands, reply codes, AUTH mechanisms, ESMTP
  extensions and the session states with the transition check of the Rust API.
\<close>

definition SMTP_PORT :: "u16" where
  "SMTP_PORT = 25"

definition SUBMISSION_PORT :: "u16" where
  "SUBMISSION_PORT = 587"

definition SMTPS_PORT :: "u16" where
  "SMTPS_PORT = 465"

section \<open>\<open>smtp::SmtpCommand\<close>\<close>

datatype (plugins only: code) SmtpCommand =
    Helo
  | Ehlo
  | MailFrom
  | RcptTo
  | Data
  | Quit
  | Rset
  | Noop
  | Vrfy
  | Expn
  | Starttls
  | Auth

definition SmtpCommand_from_tag :: "u8 \<Rightarrow> SmtpCommand option" where
  "SmtpCommand_from_tag tag =
     (if tag = 0 then Some SmtpCommand.Helo
      else if tag = 1 then Some SmtpCommand.Ehlo
      else if tag = 2 then Some SmtpCommand.MailFrom
      else if tag = 3 then Some SmtpCommand.RcptTo
      else if tag = 4 then Some SmtpCommand.Data
      else if tag = 5 then Some SmtpCommand.Quit
      else if tag = 6 then Some SmtpCommand.Rset
      else if tag = 7 then Some SmtpCommand.Noop
      else if tag = 8 then Some SmtpCommand.Vrfy
      else if tag = 9 then Some SmtpCommand.Expn
      else if tag = 10 then Some SmtpCommand.Starttls
      else if tag = 11 then Some SmtpCommand.Auth
      else option.None)"

primrec SmtpCommand_to_tag :: "SmtpCommand \<Rightarrow> u8" where
  "SmtpCommand_to_tag SmtpCommand.Helo = 0"
| "SmtpCommand_to_tag SmtpCommand.Ehlo = 1"
| "SmtpCommand_to_tag SmtpCommand.MailFrom = 2"
| "SmtpCommand_to_tag SmtpCommand.RcptTo = 3"
| "SmtpCommand_to_tag SmtpCommand.Data = 4"
| "SmtpCommand_to_tag SmtpCommand.Quit = 5"
| "SmtpCommand_to_tag SmtpCommand.Rset = 6"
| "SmtpCommand_to_tag SmtpCommand.Noop = 7"
| "SmtpCommand_to_tag SmtpCommand.Vrfy = 8"
| "SmtpCommand_to_tag SmtpCommand.Expn = 9"
| "SmtpCommand_to_tag SmtpCommand.Starttls = 10"
| "SmtpCommand_to_tag SmtpCommand.Auth = 11"

definition SmtpCommand_verb :: "SmtpCommand \<Rightarrow> string" where
  "SmtpCommand_verb self =
     (case self of
      SmtpCommand.Helo \<Rightarrow> ''HELO''
    | SmtpCommand.Ehlo \<Rightarrow> ''EHLO''
    | SmtpCommand.MailFrom \<Rightarrow> ''MAIL FROM''
    | SmtpCommand.RcptTo \<Rightarrow> ''RCPT TO''
    | SmtpCommand.Data \<Rightarrow> ''DATA''
    | SmtpCommand.Quit \<Rightarrow> ''QUIT''
    | SmtpCommand.Rset \<Rightarrow> ''RSET''
    | SmtpCommand.Noop \<Rightarrow> ''NOOP''
    | SmtpCommand.Vrfy \<Rightarrow> ''VRFY''
    | SmtpCommand.Expn \<Rightarrow> ''EXPN''
    | SmtpCommand.Starttls \<Rightarrow> ''STARTTLS''
    | SmtpCommand.Auth \<Rightarrow> ''AUTH'')"

definition SmtpCommand_is_envelope :: "SmtpCommand \<Rightarrow> bool" where
  "SmtpCommand_is_envelope self =
     (case self of
      SmtpCommand.MailFrom \<Rightarrow> True
    | SmtpCommand.RcptTo \<Rightarrow> True
    | SmtpCommand.Data \<Rightarrow> True
    | _ \<Rightarrow> False)"

definition SmtpCommand_ALL :: "SmtpCommand list" where
  "SmtpCommand_ALL =
     [SmtpCommand.Helo, SmtpCommand.Ehlo, SmtpCommand.MailFrom, SmtpCommand.RcptTo,
      SmtpCommand.Data, SmtpCommand.Quit, SmtpCommand.Rset, SmtpCommand.Noop,
      SmtpCommand.Vrfy, SmtpCommand.Expn, SmtpCommand.Starttls, SmtpCommand.Auth]"

definition SmtpCommand_fmt :: "SmtpCommand \<Rightarrow> string" where
  "SmtpCommand_fmt self = SmtpCommand_verb self"

section \<open>\<open>smtp::ReplyCategory\<close>\<close>

datatype (plugins only: code) Smtp_ReplyCategory =
    Positive
  | Intermediate
  | TransientNegative
  | PermanentNegative

definition Smtp_ReplyCategory_from_tag :: "u8 \<Rightarrow> Smtp_ReplyCategory option" where
  "Smtp_ReplyCategory_from_tag tag =
     (if tag = 0 then Some Smtp_ReplyCategory.Positive
      else if tag = 1 then Some Smtp_ReplyCategory.Intermediate
      else if tag = 2 then Some Smtp_ReplyCategory.TransientNegative
      else if tag = 3 then Some Smtp_ReplyCategory.PermanentNegative
      else option.None)"

primrec Smtp_ReplyCategory_to_tag :: "Smtp_ReplyCategory \<Rightarrow> u8" where
  "Smtp_ReplyCategory_to_tag Smtp_ReplyCategory.Positive = 0"
| "Smtp_ReplyCategory_to_tag Smtp_ReplyCategory.Intermediate = 1"
| "Smtp_ReplyCategory_to_tag Smtp_ReplyCategory.TransientNegative = 2"
| "Smtp_ReplyCategory_to_tag Smtp_ReplyCategory.PermanentNegative = 3"

definition Smtp_ReplyCategory_is_success :: "Smtp_ReplyCategory \<Rightarrow> bool" where
  "Smtp_ReplyCategory_is_success self =
     (case self of
      Smtp_ReplyCategory.Positive \<Rightarrow> True
    | _ \<Rightarrow> False)"

definition Smtp_ReplyCategory_is_error :: "Smtp_ReplyCategory \<Rightarrow> bool" where
  "Smtp_ReplyCategory_is_error self =
     (case self of
      Smtp_ReplyCategory.TransientNegative \<Rightarrow> True
    | Smtp_ReplyCategory.PermanentNegative \<Rightarrow> True
    | _ \<Rightarrow> False)"

primrec Smtp_ReplyCategory_fmt :: "Smtp_ReplyCategory \<Rightarrow> string" where
  "Smtp_ReplyCategory_fmt Smtp_ReplyCategory.Positive = ''Positive''"
| "Smtp_ReplyCategory_fmt Smtp_ReplyCategory.Intermediate = ''Intermediate''"
| "Smtp_ReplyCategory_fmt Smtp_ReplyCategory.TransientNegative = ''TransientNegative''"
| "Smtp_ReplyCategory_fmt Smtp_ReplyCategory.PermanentNegative = ''PermanentNegative''"

section \<open>\<open>smtp::ReplyCode\<close>\<close>

datatype (plugins only: code) ReplyCode =
    ServiceReady
  | ServiceClosing
  | ActionOk
  | WillForward
  | StartMailInput
  | ServiceUnavailable
  | MailboxBusy
  | LocalError
  | InsufficientStorage
  | SyntaxError
  | ParamSyntaxError
  | NotImplemented
  | BadSequence
  | ParamNotImplemented
  | MailboxUnavailable
  | MailboxNameInvalid
  | TransactionFailed

definition ReplyCode_from_tag :: "u8 \<Rightarrow> ReplyCode option" where
  "ReplyCode_from_tag tag =
     (if tag = 0 then Some ReplyCode.ServiceReady
      else if tag = 1 then Some ReplyCode.ServiceClosing
      else if tag = 2 then Some ReplyCode.ActionOk
      else if tag = 3 then Some ReplyCode.WillForward
      else if tag = 4 then Some ReplyCode.StartMailInput
      else if tag = 5 then Some ReplyCode.ServiceUnavailable
      else if tag = 6 then Some ReplyCode.MailboxBusy
      else if tag = 7 then Some ReplyCode.LocalError
      else if tag = 8 then Some ReplyCode.InsufficientStorage
      else if tag = 9 then Some ReplyCode.SyntaxError
      else if tag = 10 then Some ReplyCode.ParamSyntaxError
      else if tag = 11 then Some ReplyCode.NotImplemented
      else if tag = 12 then Some ReplyCode.BadSequence
      else if tag = 13 then Some ReplyCode.ParamNotImplemented
      else if tag = 14 then Some ReplyCode.MailboxUnavailable
      else if tag = 15 then Some ReplyCode.MailboxNameInvalid
      else if tag = 16 then Some ReplyCode.TransactionFailed
      else option.None)"

primrec ReplyCode_to_tag :: "ReplyCode \<Rightarrow> u8" where
  "ReplyCode_to_tag ReplyCode.ServiceReady = 0"
| "ReplyCode_to_tag ReplyCode.ServiceClosing = 1"
| "ReplyCode_to_tag ReplyCode.ActionOk = 2"
| "ReplyCode_to_tag ReplyCode.WillForward = 3"
| "ReplyCode_to_tag ReplyCode.StartMailInput = 4"
| "ReplyCode_to_tag ReplyCode.ServiceUnavailable = 5"
| "ReplyCode_to_tag ReplyCode.MailboxBusy = 6"
| "ReplyCode_to_tag ReplyCode.LocalError = 7"
| "ReplyCode_to_tag ReplyCode.InsufficientStorage = 8"
| "ReplyCode_to_tag ReplyCode.SyntaxError = 9"
| "ReplyCode_to_tag ReplyCode.ParamSyntaxError = 10"
| "ReplyCode_to_tag ReplyCode.NotImplemented = 11"
| "ReplyCode_to_tag ReplyCode.BadSequence = 12"
| "ReplyCode_to_tag ReplyCode.ParamNotImplemented = 13"
| "ReplyCode_to_tag ReplyCode.MailboxUnavailable = 14"
| "ReplyCode_to_tag ReplyCode.MailboxNameInvalid = 15"
| "ReplyCode_to_tag ReplyCode.TransactionFailed = 16"

definition ReplyCode_smtp_code :: "ReplyCode \<Rightarrow> u16" where
  "ReplyCode_smtp_code self =
     (case self of
      ReplyCode.ServiceReady \<Rightarrow> 220
    | ReplyCode.ServiceClosing \<Rightarrow> 221
    | ReplyCode.ActionOk \<Rightarrow> 250
    | ReplyCode.WillForward \<Rightarrow> 251
    | ReplyCode.StartMailInput \<Rightarrow> 354
    | ReplyCode.ServiceUnavailable \<Rightarrow> 421
    | ReplyCode.MailboxBusy \<Rightarrow> 450
    | ReplyCode.LocalError \<Rightarrow> 451
    | ReplyCode.InsufficientStorage \<Rightarrow> 452
    | ReplyCode.SyntaxError \<Rightarrow> 500
    | ReplyCode.ParamSyntaxError \<Rightarrow> 501
    | ReplyCode.NotImplemented \<Rightarrow> 502
    | ReplyCode.BadSequence \<Rightarrow> 503
    | ReplyCode.ParamNotImplemented \<Rightarrow> 504
    | ReplyCode.MailboxUnavailable \<Rightarrow> 550
    | ReplyCode.MailboxNameInvalid \<Rightarrow> 553
    | ReplyCode.TransactionFailed \<Rightarrow> 554)"

section \<open>\<open>smtp::AuthMechanism\<close>\<close>

datatype (plugins only: code) AuthMechanism =
    Plain
  | Login
  | CramMd5
  | Xoauth2

definition AuthMechanism_from_tag :: "u8 \<Rightarrow> AuthMechanism option" where
  "AuthMechanism_from_tag tag =
     (if tag = 0 then Some AuthMechanism.Plain
      else if tag = 1 then Some AuthMechanism.Login
      else if tag = 2 then Some AuthMechanism.CramMd5
      else if tag = 3 then Some AuthMechanism.Xoauth2
      else option.None)"

primrec AuthMechanism_to_tag :: "AuthMechanism \<Rightarrow> u8" where
  "AuthMechanism_to_tag AuthMechanism.Plain = 0"
| "AuthMechanism_to_tag AuthMechanism.Login = 1"
| "AuthMechanism_to_tag AuthMechanism.CramMd5 = 2"
| "AuthMechanism_to_tag AuthMechanism.Xoauth2 = 3"

definition AuthMechanism_mechanism_name :: "AuthMechanism \<Rightarrow> string" where
  "AuthMechanism_mechanism_name self =
     (case self of
      AuthMechanism.Plain \<Rightarrow> ''PLAIN''
    | AuthMechanism.Login \<Rightarrow> ''LOGIN''
    | AuthMechanism.CramMd5 \<Rightarrow> ''CRAM-MD5''
    | AuthMechanism.Xoauth2 \<Rightarrow> ''XOAUTH2'')"

definition AuthMechanism_requires_tls :: "AuthMechanism \<Rightarrow> bool" where
  "AuthMechanism_requires_tls self =
     (case self of
      AuthMechanism.Plain \<Rightarrow> True
    | AuthMechanism.Login \<Rightarrow> True
    | _ \<Rightarrow> False)"

definition AuthMechanism_fmt :: "AuthMechanism \<Rightarrow> string" where
  "AuthMechanism_fmt self = AuthMechanism_mechanism_name self"

section \<open>\<open>smtp::SmtpExtension\<close>\<close>

datatype (plugins only: code) SmtpExtension =
    Size
  | Pipelining
  | EightBitMime
  | Starttls
  | Auth
  | Dsn
  | Chunking

definition SmtpExtension_from_tag :: "u8 \<Rightarrow> SmtpExtension option" where
  "SmtpExtension_from_tag tag =
     (if tag = 0 then Some SmtpExtension.Size
      else if tag = 1 then Some SmtpExtension.Pipelining
      else if tag = 2 then Some SmtpExtension.EightBitMime
      else if tag = 3 then Some SmtpExtension.Starttls
      else if tag = 4 then Some SmtpExtension.Auth
      else if tag = 5 then Some SmtpExtension.Dsn
      else if tag = 6 then Some SmtpExtension.Chunking
      else option.None)"

primrec SmtpExtension_to_tag :: "SmtpExtension \<Rightarrow> u8" where
  "SmtpExtension_to_tag SmtpExtension.Size = 0"
| "SmtpExtension_to_tag SmtpExtension.Pipelining = 1"
| "SmtpExtension_to_tag SmtpExtension.EightBitMime = 2"
| "SmtpExtension_to_tag SmtpExtension.Starttls = 3"
| "SmtpExtension_to_tag SmtpExtension.Auth = 4"
| "SmtpExtension_to_tag SmtpExtension.Dsn = 5"
| "SmtpExtension_to_tag SmtpExtension.Chunking = 6"

definition SmtpExtension_keyword :: "SmtpExtension \<Rightarrow> string" where
  "SmtpExtension_keyword self =
     (case self of
      SmtpExtension.Size \<Rightarrow> ''SIZE''
    | SmtpExtension.Pipelining \<Rightarrow> ''PIPELINING''
    | SmtpExtension.EightBitMime \<Rightarrow> ''8BITMIME''
    | SmtpExtension.Starttls \<Rightarrow> ''STARTTLS''
    | SmtpExtension.Auth \<Rightarrow> ''AUTH''
    | SmtpExtension.Dsn \<Rightarrow> ''DSN''
    | SmtpExtension.Chunking \<Rightarrow> ''CHUNKING'')"

definition SmtpExtension_fmt :: "SmtpExtension \<Rightarrow> string" where
  "SmtpExtension_fmt self = SmtpExtension_keyword self"

section \<open>\<open>smtp::SmtpSessionState\<close>\<close>

datatype (plugins only: code) SmtpSessionState =
    Connected
  | Greeted
  | AuthStarted
  | Authenticated
  | MailFrom
  | RcptTo
  | Data
  | MessageReceived
  | Quit

definition SmtpSessionState_from_tag :: "u8 \<Rightarrow> SmtpSessionState option" where
  "SmtpSessionState_from_tag tag =
     (if tag = 0 then Some SmtpSessionState.Connected
      else if tag = 1 then Some SmtpSessionState.Greeted
      else if tag = 2 then Some SmtpSessionState.AuthStarted
      else if tag = 3 then Some SmtpSessionState.Authenticated
      else if tag = 4 then Some SmtpSessionState.MailFrom
      else if tag = 5 then Some SmtpSessionState.RcptTo
      else if tag = 6 then Some SmtpSessionState.Data
      else if tag = 7 then Some SmtpSessionState.MessageReceived
      else if tag = 8 then Some SmtpSessionState.Quit
      else option.None)"

primrec SmtpSessionState_to_tag :: "SmtpSessionState \<Rightarrow> u8" where
  "SmtpSessionState_to_tag SmtpSessionState.Connected = 0"
| "SmtpSessionState_to_tag SmtpSessionState.Greeted = 1"
| "SmtpSessionState_to_tag SmtpSessionState.AuthStarted = 2"
| "SmtpSessionState_to_tag SmtpSessionState.Authenticated = 3"
| "SmtpSessionState_to_tag SmtpSessionState.MailFrom = 4"
| "SmtpSessionState_to_tag SmtpSessionState.RcptTo = 5"
| "SmtpSessionState_to_tag SmtpSessionState.Data = 6"
| "SmtpSessionState_to_tag SmtpSessionState.MessageReceived = 7"
| "SmtpSessionState_to_tag SmtpSessionState.Quit = 8"

definition SmtpSessionState_can_transition_to :: "SmtpSessionState \<Rightarrow> SmtpSessionState \<Rightarrow> bool" where
  "SmtpSessionState_can_transition_to self next =
     (case (self, next) of
      (SmtpSessionState.Connected, SmtpSessionState.Greeted) \<Rightarrow> True
    | (SmtpSessionState.Greeted, SmtpSessionState.AuthStarted) \<Rightarrow> True
    | (SmtpSessionState.Greeted, SmtpSessionState.MailFrom) \<Rightarrow> True
    | (SmtpSessionState.AuthStarted, SmtpSessionState.Authenticated) \<Rightarrow> True
    | (SmtpSessionState.AuthStarted, SmtpSessionState.Greeted) \<Rightarrow> True
    | (SmtpSessionState.Authenticated, SmtpSessionState.MailFrom) \<Rightarrow> True
    | (SmtpSessionState.MailFrom, SmtpSessionState.RcptTo) \<Rightarrow> True
    | (SmtpSessionState.RcptTo, SmtpSessionState.RcptTo) \<Rightarrow> True
    | (SmtpSessionState.RcptTo, SmtpSessionState.Data) \<Rightarrow> True
    | (SmtpSessionState.Data, SmtpSessionState.MessageReceived) \<Rightarrow> True
    | (SmtpSessionState.MessageReceived, SmtpSessionState.MailFrom) \<Rightarrow> True
    | (_, SmtpSessionState.Quit) \<Rightarrow> True
    | _ \<Rightarrow> False)"

primrec SmtpSessionState_fmt :: "SmtpSessionState \<Rightarrow> string" where
  "SmtpSessionState_fmt SmtpSessionState.Connected = ''Connected''"
| "SmtpSessionState_fmt SmtpSessionState.Greeted = ''Greeted''"
| "SmtpSessionState_fmt SmtpSessionState.AuthStarted = ''AuthStarted''"
| "SmtpSessionState_fmt SmtpSessionState.Authenticated = ''Authenticated''"
| "SmtpSessionState_fmt SmtpSessionState.MailFrom = ''MailFrom''"
| "SmtpSessionState_fmt SmtpSessionState.RcptTo = ''RcptTo''"
| "SmtpSessionState_fmt SmtpSessionState.Data = ''Data''"
| "SmtpSessionState_fmt SmtpSessionState.MessageReceived = ''MessageReceived''"
| "SmtpSessionState_fmt SmtpSessionState.Quit = ''Quit''"

section \<open>Reply code categories\<close>

text \<open>\<open>match self.smtp_code() / 100\<close>, the first digit of the reply code.\<close>

definition ReplyCode_category :: "ReplyCode \<Rightarrow> Smtp_ReplyCategory" where
  "ReplyCode_category self =
     (let digit = ReplyCode_smtp_code self div 100 in
      if digit = 2 then Smtp_ReplyCategory.Positive
      else if digit = 3 then Smtp_ReplyCategory.Intermediate
      else if digit = 4 then Smtp_ReplyCategory.TransientNegative
      else Smtp_ReplyCategory.PermanentNegative)"

section \<open>Tags and enumerations\<close>

interpretation SmtpCommand_codec: tag_codec SmtpCommand_to_tag SmtpCommand_from_tag 12
  by (unfold_locales, (case_tac x; simp add: SmtpCommand_from_tag_def), unfold SmtpCommand_from_tag_def,
    (erule codec_arm, simp only: SmtpCommand_to_tag.simps)+, erule codec_end, (case_tac x; simp), simp add: codec_eval)

interpretation Smtp_ReplyCategory_codec: tag_codec Smtp_ReplyCategory_to_tag Smtp_ReplyCategory_from_tag 4
  by (unfold_locales, (case_tac x; simp add: Smtp_ReplyCategory_from_tag_def), unfold Smtp_ReplyCategory_from_tag_def,
    (erule codec_arm, simp only: Smtp_ReplyCategory_to_tag.simps)+, erule codec_end, (case_tac x; simp), simp add: codec_eval)

interpretation ReplyCode_codec: tag_codec ReplyCode_to_tag ReplyCode_from_tag 17
  by (unfold_locales, (case_tac x; simp add: ReplyCode_from_tag_def), unfold ReplyCode_from_tag_def,
    (erule codec_arm, simp only: ReplyCode_to_tag.simps)+, erule codec_end, (case_tac x; simp), simp add: codec_eval)

interpretation AuthMechanism_codec: tag_codec AuthMechanism_to_tag AuthMechanism_from_tag 4
  by (unfold_locales, (case_tac x; simp add: AuthMechanism_from_tag_def), unfold AuthMechanism_from_tag_def,
    (erule codec_arm, simp only: AuthMechanism_to_tag.simps)+, erule codec_end, (case_tac x; simp), simp add: codec_eval)

interpretation SmtpExtension_codec: tag_codec SmtpExtension_to_tag SmtpExtension_from_tag 7
  by (unfold_locales, (case_tac x; simp add: SmtpExtension_from_tag_def), unfold SmtpExtension_from_tag_def,
    (erule codec_arm, simp only: SmtpExtension_to_tag.simps)+, erule codec_end, (case_tac x; simp), simp add: codec_eval)

interpretation SmtpSessionState_codec: tag_codec SmtpSessionState_to_tag SmtpSessionState_from_tag 9
  by (unfold_locales, (case_tac x; simp add: SmtpSessionState_from_tag_def), unfold SmtpSessionState_from_tag_def,
    (erule codec_arm, simp only: SmtpSessionState_to_tag.simps)+, erule codec_end, (case_tac x; simp), simp add: codec_eval)

lemma SmtpCommand_ALL_exhaustive: "set SmtpCommand_ALL = UNIV \<and> distinct SmtpCommand_ALL"
  by (auto simp: SmtpCommand_ALL_def) (case_tac x; simp)

end
