(* ===== verification/Smtp_Ffi.thy ===== *)
theory Smtp_Ffi
  imports Smtp_Engine Smtp_Types
begin

text \<open>
  The safe SMTP wrappers \<open>bindings/rust/src/ffi_smtp.rs\<close> over the engine, the invariant of a
  session, and the interpretation of the pool contract. The wrappers' argument types restrict what
  reaches the engine: an AUTH mechanism is an enum value, a flag is a \<open>bool\<close>.
\<close>

section \<open>The wrappers\<close>

definition ffi_smtp_abi_version :: u32 where
  "ffi_smtp_abi_version = smtp_abi_version"

definition ffi_smtp_create_context :: "smtp_pool \<Rightarrow> smtp_pool \<times> ffi_context ProvenResult" where
  "ffi_smtp_create_context p = wrap_slot (smtp_create_context p)"

definition ffi_smtp_drop :: "smtp_pool \<Rightarrow> ffi_context \<Rightarrow> smtp_pool" where
  "ffi_smtp_drop p ctx = smtp_destroy_context p (ctx_slot ctx)"

definition ffi_smtp_get_state :: "smtp_pool \<Rightarrow> ffi_context \<Rightarrow> SmtpSessionState option" where
  "ffi_smtp_get_state p ctx = SmtpSessionState_from_tag (smtp_get_state p (ctx_slot ctx))"

definition ffi_smtp_get_reply_code :: "smtp_pool \<Rightarrow> ffi_context \<Rightarrow> u8" where
  "ffi_smtp_get_reply_code p ctx = smtp_get_reply_code p (ctx_slot ctx)"

definition ffi_smtp_get_recipient_count :: "smtp_pool \<Rightarrow> ffi_context \<Rightarrow> u8" where
  "ffi_smtp_get_recipient_count p ctx = smtp_get_recipient_count p (ctx_slot ctx)"

definition ffi_smtp_get_data_size :: "smtp_pool \<Rightarrow> ffi_context \<Rightarrow> u32" where
  "ffi_smtp_get_data_size p ctx = smtp_get_data_size p (ctx_slot ctx)"

definition ffi_smtp_get_auth_mechanism :: "smtp_pool \<Rightarrow> ffi_context \<Rightarrow> AuthMechanism option" where
  "ffi_smtp_get_auth_mechanism p ctx = AuthMechanism_from_tag (smtp_get_auth_mechanism p (ctx_slot ctx))"

definition ffi_smtp_is_authenticated :: "smtp_pool \<Rightarrow> ffi_context \<Rightarrow> bool" where
  "ffi_smtp_is_authenticated p ctx = (smtp_is_authenticated p (ctx_slot ctx) = 1)"

definition ffi_smtp_is_tls_active :: "smtp_pool \<Rightarrow> ffi_context \<Rightarrow> bool" where
  "ffi_smtp_is_tls_active p ctx = (smtp_is_tls_active p (ctx_slot ctx) = 1)"

definition ffi_smtp_greet :: "smtp_pool \<Rightarrow> ffi_context \<Rightarrow> bool \<Rightarrow> smtp_pool \<times> unit ProvenResult" where
  "ffi_smtp_greet p ctx ehlo = wrap_status (smtp_greet p (ctx_slot ctx) (bool_u8 ehlo))"

definition ffi_smtp_authenticate :: "smtp_pool \<Rightarrow> ffi_context \<Rightarrow> AuthMechanism \<Rightarrow> smtp_pool \<times> unit ProvenResult" where
  "ffi_smtp_authenticate p ctx mechanism =
     wrap_status (smtp_authenticate p (ctx_slot ctx) (AuthMechanism_to_tag mechanism))"

definition ffi_smtp_auth_complete :: "smtp_pool \<Rightarrow> ffi_context \<Rightarrow> bool \<Rightarrow> smtp_pool \<times> unit ProvenResult" where
  "ffi_smtp_auth_complete p ctx success = wrap_status (smtp_auth_complete p (ctx_slot ctx) (bool_u8 success))"

definition ffi_smtp_set_sender :: "smtp_pool \<Rightarrow> ffi_context \<Rightarrow> smtp_pool \<times> unit ProvenResult" where
  "ffi_smtp_set_sender p ctx = wrap_status (smtp_set_sender p (ctx_slot ctx))"

definition ffi_smtp_add_recipient :: "smtp_pool \<Rightarrow> ffi_context \<Rightarrow> smtp_pool \<times> unit ProvenResult" where
  "ffi_smtp_add_recipient p ctx = wrap_status (smtp_add_recipient p (ctx_slot ctx))"

definition ffi_smtp_start_data :: "smtp_pool \<Rightarrow> ffi_context \<Rightarrow> smtp_pool \<times> unit ProvenResult" where
  "ffi_smtp_start_data p ctx = wrap_status (smtp_start_data p (ctx_slot ctx))"

definition ffi_smtp_append_data :: "smtp_pool \<Rightarrow> ffi_context \<Rightarrow> u32 \<Rightarrow> smtp_pool \<times> unit ProvenResult" where
  "ffi_smtp_append_data p ctx len = wrap_status (smtp_append_data p (ctx_slot ctx) len)"

definition ffi_smtp_finish_data :: "smtp_pool \<Rightarrow> ffi_context \<Rightarrow> smtp_pool \<times> unit ProvenResult" where
  "ffi_smtp_finish_data p ctx = wrap_status (smtp_finish_data p (ctx_slot ctx))"

definition ffi_smtp_reset :: "smtp_pool \<Rightarrow> ffi_context \<Rightarrow> smtp_pool \<times> unit ProvenResult" where
  "ffi_smtp_reset p ctx = wrap_status (smtp_reset p (ctx_slot ctx))"

definition ffi_smtp_quit :: "smtp_pool \<Rightarrow> ffi_context \<Rightarrow> smtp_pool \<times> unit ProvenResult" where
  "ffi_smtp_quit p ctx = wrap_status (smtp_quit p (ctx_slot ctx))"

definition ffi_smtp_enable_tls :: "smtp_pool \<Rightarrow> ffi_context \<Rightarrow> smtp_pool \<times> unit ProvenResult" where
  "ffi_smtp_enable_tls p ctx = wrap_status (smtp_enable_tls p (ctx_slot ctx))"

definition ffi_smtp_can_transition :: "SmtpSessionState \<Rightarrow> SmtpSessionState \<Rightarrow> bool" where
  "ffi_smtp_can_transition from to =
     (smtp_can_transition (SmtpSessionState_to_tag from) (SmtpSessionState_to_tag to) = 1)"

section \<open>The client's alphabet\<close>

text \<open>One constructor per wrapper that can change a session, with the wrapper's arguments.\<close>

datatype smtp_call =
    Sc_greet bool
  | Sc_authenticate AuthMechanism
  | Sc_auth_complete bool
  | Sc_set_sender
  | Sc_add_recipient
  | Sc_start_data
  | Sc_append_data u32
  | Sc_finish_data
  | Sc_reset
  | Sc_quit
  | Sc_enable_tls

primrec smtp_step :: "smtp_call \<Rightarrow> SmtpContext \<Rightarrow> SmtpContext \<times> u8" where
  "smtp_step (Sc_greet ehlo) = smtp_greet_on (bool_u8 ehlo)"
| "smtp_step (Sc_authenticate m) = smtp_authenticate_on (AuthMechanism_to_tag m)"
| "smtp_step (Sc_auth_complete ok) = smtp_auth_complete_on (bool_u8 ok)"
| "smtp_step Sc_set_sender = smtp_set_sender_on"
| "smtp_step Sc_add_recipient = smtp_add_recipient_on"
| "smtp_step Sc_start_data = smtp_start_data_on"
| "smtp_step (Sc_append_data n) = smtp_append_data_on n"
| "smtp_step Sc_finish_data = smtp_finish_data_on"
| "smtp_step Sc_reset = smtp_reset_on"
| "smtp_step Sc_quit = smtp_quit_on"
| "smtp_step Sc_enable_tls = smtp_enable_tls_on"

primrec ffi_smtp_call :: "smtp_call \<Rightarrow> smtp_pool \<Rightarrow> ffi_context \<Rightarrow> smtp_pool \<times> unit ProvenResult" where
  "ffi_smtp_call (Sc_greet ehlo) p ctx = ffi_smtp_greet p ctx ehlo"
| "ffi_smtp_call (Sc_authenticate m) p ctx = ffi_smtp_authenticate p ctx m"
| "ffi_smtp_call (Sc_auth_complete ok) p ctx = ffi_smtp_auth_complete p ctx ok"
| "ffi_smtp_call Sc_set_sender p ctx = ffi_smtp_set_sender p ctx"
| "ffi_smtp_call Sc_add_recipient p ctx = ffi_smtp_add_recipient p ctx"
| "ffi_smtp_call Sc_start_data p ctx = ffi_smtp_start_data p ctx"
| "ffi_smtp_call (Sc_append_data n) p ctx = ffi_smtp_append_data p ctx n"
| "ffi_smtp_call Sc_finish_data p ctx = ffi_smtp_finish_data p ctx"
| "ffi_smtp_call Sc_reset p ctx = ffi_smtp_reset p ctx"
| "ffi_smtp_call Sc_quit p ctx = ffi_smtp_quit p ctx"
| "ffi_smtp_call Sc_enable_tls p ctx = ffi_smtp_enable_tls p ctx"

lemmas ffi_smtp_op_defs =
  ffi_smtp_greet_def ffi_smtp_authenticate_def ffi_smtp_auth_complete_def ffi_smtp_set_sender_def
  ffi_smtp_add_recipient_def ffi_smtp_start_data_def ffi_smtp_append_data_def
  ffi_smtp_finish_data_def ffi_smtp_reset_def ffi_smtp_quit_def ffi_smtp_enable_tls_def
  smtp_greet_def smtp_authenticate_def smtp_auth_complete_def smtp_set_sender_def
  smtp_add_recipient_def smtp_start_data_def smtp_append_data_def smtp_finish_data_def
  smtp_reset_def smtp_quit_def smtp_enable_tls_def

section \<open>The session invariant\<close>

text \<open>
  What every session satisfies between operations: the envelope counters agree with the state, the
  limits hold, and the authentication flag agrees with the states before and after AUTH.
\<close>

definition smtp_good :: "SmtpContext \<Rightarrow> bool" where
  "smtp_good c \<longleftrightarrow>
     (sm_state c \<in> {smtp_connected, smtp_greeted, smtp_auth_started} \<longrightarrow> \<not> sm_is_authenticated c) \<and>
     (sm_state c = smtp_authenticated \<longrightarrow> sm_is_authenticated c) \<and>
     (sm_is_authenticated c \<or> sm_state c = smtp_auth_started \<longrightarrow> unat (sm_auth_mechanism c) \<le> 3) \<and>
     (sm_state c \<in> {smtp_rcpt_to, smtp_data, smtp_message_received} \<longrightarrow> 0 < unat (sm_recipient_count c)) \<and>
     (sm_state c \<in> {smtp_connected, smtp_greeted, smtp_auth_started, smtp_authenticated, smtp_mail_from} \<longrightarrow>
        sm_recipient_count c = 0) \<and>
     unat (sm_recipient_count c) \<le> 64 \<and>
     (sm_state c \<notin> {smtp_data, smtp_message_received, smtp_quitted} \<longrightarrow> sm_data_size c = 0) \<and>
     unat (sm_data_size c) \<le> 10485760 \<and>
     unat (sm_last_reply c) < 17"

lemma mechanism_tag_bound: "unat (AuthMechanism_to_tag m) \<le> 3" "\<not> 3 < AuthMechanism_to_tag m"
  by (cases m; simp)+

lemma recipient_increment:
  "\<not> MAX_RECIPIENTS \<le> n \<Longrightarrow> unat (n + 1) = Suc (unat n) \<and> unat n < 64"
  by (simp add: MAX_RECIPIENTS_def unat_word_ariths word_le_nat_alt)

lemma append_no_wrap:
  fixes a n :: u32
  defines "grown \<equiv> (ucast a :: u64) + ucast n"
  shows "unat grown = unat a + unat n"
    and "\<not> MAX_DATA_SIZE < grown \<Longrightarrow> unat (ucast grown :: u32) = unat a + unat n \<and> unat a + unat n \<le> 10485760"
proof -
  have b: "unat a < 4294967296" "unat n < 4294967296"
    using unsigned_less [of a, where ?'a = nat] unsigned_less [of n, where ?'a = nat] by simp_all
  then show sum: "unat grown = unat a + unat n"
    by (simp add: grown_def unat_word_ariths unsigned_ucast_eq take_bit_nat_eq_self)
  assume "\<not> MAX_DATA_SIZE < grown"
  then have "unat grown \<le> 10485760" by (simp add: MAX_DATA_SIZE_def word_less_nat_alt)
  then show "unat (ucast grown :: u32) = unat a + unat n \<and> unat a + unat n \<le> 10485760"
    using sum by (simp add: unsigned_ucast_eq take_bit_nat_eq_self)
qed

lemma smtp_good_fresh: "smtp_good (smtp_fresh c)"
  by (simp add: smtp_good_def smtp_fresh_def)

lemma smtp_good_step:
  assumes "smtp_good c"
  shows "smtp_good (fst (smtp_step x c))"
proof (cases x)
  case (Sc_append_data n)
  with assms append_no_wrap [of "sm_data_size c" n] show ?thesis
    by (cases "sm_state c"; simp add: op_simps smtp_good_def Let_def)
next
  case Sc_add_recipient
  with assms recipient_increment [of "sm_recipient_count c"] show ?thesis
    by (cases "sm_state c"; auto simp: op_simps smtp_good_def)
qed (use assms in \<open>cases "sm_state c"; simp add: op_simps smtp_good_def mechanism_tag_bound\<close>)+

lemma smtp_active_step: "sm_active (fst (smtp_step x c)) = sm_active c"
  by (cases x) (simp_all add: op_simps Let_def)

section \<open>The pool contract\<close>

interpretation smtp: slot_service sm_active "\<lambda>_ :: unit. True" "\<lambda>_. smtp_fresh" smtp_off smtp_step
  "\<lambda>_. 1" "\<lambda>_. from_status" smtp_good smtp_sessions "\<lambda>_. ffi_smtp_create_context" ffi_smtp_drop ffi_smtp_call
proof
  fix c :: SmtpContext and p :: smtp_pool and h :: ffi_context and x :: smtp_call
  show "sm_active (smtp_fresh c)" by (simp add: smtp_fresh_def)
  show "\<not> sm_active (smtp_off c)" by (simp add: smtp_off_def)
  show "sm_active c \<Longrightarrow> sm_active (fst (smtp_step x c))" by (simp add: smtp_active_step)
  show "smtp_good (smtp_fresh c)" by (rule smtp_good_fresh)
  show "smtp_good c \<Longrightarrow> smtp_good (fst (smtp_step x c))" by (rule smtp_good_step)
  show "c \<in> set smtp_sessions \<Longrightarrow> \<not> sm_active c" by (simp add: smtp_sessions_def)
  show "length smtp_sessions \<le> 2147483648" by (simp add: smtp_sessions_def)
  show "ffi_smtp_create_context p = wrap_slot (if True then pool_create sm_active smtp_fresh p else (p, - 1))"
    by (simp add: ffi_smtp_create_context_def smtp_create_context_def)
  show "ffi_smtp_drop p h = pool_destroy smtp_off p (ctx_slot h)"
    by (simp add: ffi_smtp_drop_def smtp_destroy_context_def)
  show "ffi_smtp_call x p h = map_prod id from_status (on_slot sm_active p (ctx_slot h) 1 (smtp_step x))"
    by (cases x) (simp_all add: ffi_smtp_op_defs wrap_status_eq_map_prod)
qed

abbreviation smtp_client :: "smtp_pool \<Rightarrow> ffi_context list \<Rightarrow> bool" where
  "smtp_client \<equiv> client (\<lambda>_ :: unit. ffi_smtp_create_context) ffi_smtp_drop ffi_smtp_call smtp_sessions"

end
