(* ===== verification/Firewall_Engine.thy ===== *)
theory Firewall_Engine
  imports Slot_Pool "HOL-Library.Multiset"
begin

text \<open>
  The firewall engine, \<open>not-proven/proven-firewall/ffi/zig/src/firewall.zig\<close>: a pool of 64 packet
  contexts, each with a packet life cycle, a connection tracking state and a chain of at most 64
  rules. The bodies of the operations are \<open>fw_X_on\<close>, what the exported function does to its context.
\<close>

section \<open>Data\<close>

datatype packet_state = pk_arrived | pk_classified | pk_chain_traversal | pk_decided | pk_committed

primrec packet_tag :: "packet_state \<Rightarrow> u8" where
  "packet_tag pk_arrived = 0"
| "packet_tag pk_classified = 1"
| "packet_tag pk_chain_traversal = 2"
| "packet_tag pk_decided = 3"
| "packet_tag pk_committed = 4"

datatype conntrack_state = ct_untracked | ct_tracking | ct_tracked | ct_expired

primrec conntrack_tag :: "conntrack_state \<Rightarrow> u8" where
  "conntrack_tag ct_untracked = 0"
| "conntrack_tag ct_tracking = 1"
| "conntrack_tag ct_tracked = 2"
| "conntrack_tag ct_expired = 3"

record Rule =
  fr_match_type :: u8
  fr_match_value :: u32
  fr_action :: u8
  fr_priority :: u16
  fr_active :: bool

definition MAX_RULES :: u16 where
  "MAX_RULES = 64"

definition empty_rule :: Rule where
  "empty_rule = \<lparr>fr_match_type = 255, fr_match_value = 0, fr_action = 0, fr_priority = 0xFFFF, fr_active = False\<rparr>"

record FwContext =
  fw_packet_state_f :: packet_state
  fw_conntrack_state_f :: conntrack_state
  fw_conn_state_f :: u8
  fw_decision_f :: u8
  fw_default_action_f :: u8
  fw_proto_f :: u8
  fw_chain_f :: u8
  fw_src_ip_f :: u32
  fw_dst_ip_f :: u32
  fw_src_port_f :: u16
  fw_dst_port_f :: u16
  fw_active_f :: bool
  fw_rules_f :: "Rule list"
  fw_rule_count_f :: u16

type_synonym fw_pool = "FwContext list"

definition empty_context :: FwContext where
  "empty_context =
     \<lparr>fw_packet_state_f = pk_arrived, fw_conntrack_state_f = ct_untracked, fw_conn_state_f = 255,
      fw_decision_f = 255, fw_default_action_f = 1, fw_proto_f = 255, fw_chain_f = 255,
      fw_src_ip_f = 0, fw_dst_ip_f = 0, fw_src_port_f = 0, fw_dst_port_f = 0, fw_active_f = False,
      fw_rules_f = replicate 64 empty_rule, fw_rule_count_f = 0\<rparr>"

definition fw_contexts :: fw_pool where
  "fw_contexts = replicate 64 empty_context"

definition fw_abi_version :: u32 where
  "fw_abi_version = 1"

section \<open>Life of a context\<close>

definition fw_fresh :: "FwContext \<Rightarrow> FwContext" where
  "fw_fresh _ = empty_context\<lparr>fw_active_f := True\<rparr>"

definition fw_create_context :: "fw_pool \<Rightarrow> fw_pool \<times> c_int" where
  "fw_create_context p = pool_create fw_active_f fw_fresh p"

definition fw_off :: "FwContext \<Rightarrow> FwContext" where
  "fw_off c = c\<lparr>fw_active_f := False\<rparr>"

definition fw_destroy_context :: "fw_pool \<Rightarrow> c_int \<Rightarrow> fw_pool" where
  "fw_destroy_context p slot = pool_destroy fw_off p slot"

section \<open>Queries\<close>

definition fw_packet_state :: "fw_pool \<Rightarrow> c_int \<Rightarrow> u8" where
  "fw_packet_state p slot = query_slot fw_active_f p slot 4 (\<lambda>c. packet_tag (fw_packet_state_f c))"

definition fw_conntrack_state :: "fw_pool \<Rightarrow> c_int \<Rightarrow> u8" where
  "fw_conntrack_state p slot = query_slot fw_active_f p slot 0 (\<lambda>c. conntrack_tag (fw_conntrack_state_f c))"

definition fw_get_decision :: "fw_pool \<Rightarrow> c_int \<Rightarrow> u8" where
  "fw_get_decision p slot = query_slot fw_active_f p slot 1 fw_decision_f"

definition fw_rule_count :: "fw_pool \<Rightarrow> c_int \<Rightarrow> u16" where
  "fw_rule_count p slot = query_slot fw_active_f p slot 0 fw_rule_count_f"

definition fw_packet_proto :: "fw_pool \<Rightarrow> c_int \<Rightarrow> u8" where
  "fw_packet_proto p slot = query_slot fw_active_f p slot 255 fw_proto_f"

definition fw_packet_chain :: "fw_pool \<Rightarrow> c_int \<Rightarrow> u8" where
  "fw_packet_chain p slot = query_slot fw_active_f p slot 255 fw_chain_f"

definition fw_packet_src_ip :: "fw_pool \<Rightarrow> c_int \<Rightarrow> u32" where
  "fw_packet_src_ip p slot = query_slot fw_active_f p slot 0 fw_src_ip_f"

definition fw_packet_dst_ip :: "fw_pool \<Rightarrow> c_int \<Rightarrow> u32" where
  "fw_packet_dst_ip p slot = query_slot fw_active_f p slot 0 fw_dst_ip_f"

definition fw_packet_src_port :: "fw_pool \<Rightarrow> c_int \<Rightarrow> u16" where
  "fw_packet_src_port p slot = query_slot fw_active_f p slot 0 fw_src_port_f"

definition fw_packet_dst_port :: "fw_pool \<Rightarrow> c_int \<Rightarrow> u16" where
  "fw_packet_dst_port p slot = query_slot fw_active_f p slot 0 fw_dst_port_f"

definition fw_conn_state :: "fw_pool \<Rightarrow> c_int \<Rightarrow> u8" where
  "fw_conn_state p slot = query_slot fw_active_f p slot 255 fw_conn_state_f"

section \<open>The packet life cycle\<close>

definition fw_classify_packet_on ::
    "u8 \<Rightarrow> u8 \<Rightarrow> u32 \<Rightarrow> u32 \<Rightarrow> u16 \<Rightarrow> u16 \<Rightarrow> FwContext \<Rightarrow> FwContext \<times> u8" where [op_simps]:
  "fw_classify_packet_on proto chain src_ip dst_ip src_port dst_port c =
     (if fw_packet_state_f c \<noteq> pk_arrived then (c, 1)
      else if proto > 7 then (c, 1)
      else if chain > 4 then (c, 1)
      else (c\<lparr>fw_proto_f := proto, fw_chain_f := chain, fw_src_ip_f := src_ip, fw_dst_ip_f := dst_ip,
             fw_src_port_f := src_port, fw_dst_port_f := dst_port, fw_packet_state_f := pk_classified\<rparr>, 0))"

definition fw_begin_chain_on :: "FwContext \<Rightarrow> FwContext \<times> u8" where [op_simps]:
  "fw_begin_chain_on c =
     (if fw_packet_state_f c \<noteq> pk_classified then (c, 1) else (c\<lparr>fw_packet_state_f := pk_chain_traversal\<rparr>, 0))"

definition fw_add_rule_on :: "u8 \<Rightarrow> u32 \<Rightarrow> u8 \<Rightarrow> u16 \<Rightarrow> FwContext \<Rightarrow> FwContext \<times> u8" where [op_simps]:
  "fw_add_rule_on match_type match_value action priority c =
     (if fw_packet_state_f c \<noteq> pk_chain_traversal then (c, 1)
      else if match_type > 7 then (c, 1)
      else if action > 7 then (c, 1)
      else if fw_rule_count_f c \<ge> MAX_RULES then (c, 1)
      else (c\<lparr>fw_rules_f := (fw_rules_f c)[unat (fw_rule_count_f c) :=
                \<lparr>fr_match_type = match_type, fr_match_value = match_value, fr_action = action,
                 fr_priority = priority, fr_active = True\<rparr>],
             fw_rule_count_f := fw_rule_count_f c + 1\<rparr>, 0))"

definition fw_set_default_action_on :: "u8 \<Rightarrow> FwContext \<Rightarrow> FwContext \<times> u8" where [op_simps]:
  "fw_set_default_action_on action c =
     (if action > 7 then (c, 1) else (c\<lparr>fw_default_action_f := action\<rparr>, 0))"

text \<open>\<open>ruleMatches\<close>; \<open>@truncate\<close> is \<open>ucast\<close> to the narrower word.\<close>

definition ruleMatches :: "Rule \<Rightarrow> FwContext \<Rightarrow> bool" where
  "ruleMatches rule c =
     (if fr_match_type rule = 0 then fw_src_ip_f c = fr_match_value rule
      else if fr_match_type rule = 1 then fw_dst_ip_f c = fr_match_value rule
      else if fr_match_type rule = 2 then fw_src_port_f c = ucast (fr_match_value rule)
      else if fr_match_type rule = 3 then fw_dst_port_f c = ucast (fr_match_value rule)
      else if fr_match_type rule = 4 then fw_proto_f c = ucast (fr_match_value rule)
      else if fr_match_type rule = 5 then True
      else if fr_match_type rule = 6 then fw_conn_state_f c = ucast (fr_match_value rule)
      else if fr_match_type rule = 7 then True
      else False)"

text \<open>
  The insertion sort of \<open>fw_evaluate_rules\<close>, on the array of rule numbers. \<open>fw_shift\<close> is the inner
  loop; its last argument is the code's \<open>k + 1\<close>, so that 0 stands for \<open>k = -1\<close>. \<open>fw_sort_step\<close> is
  one round of the outer loop. The array is filled with \<open>0, 1, ..., count - 1\<close> first; its cells from
  \<open>count\<close> on are never read.
\<close>

primrec fw_shift :: "Rule list \<Rightarrow> nat \<Rightarrow> nat list \<Rightarrow> nat \<Rightarrow> nat list \<times> nat" where
  "fw_shift rules key sorted_indices 0 = (sorted_indices, 0)"
| "fw_shift rules key sorted_indices (Suc k) =
     (if fr_priority (rules ! (sorted_indices ! k)) > fr_priority (rules ! key)
      then fw_shift rules key (sorted_indices[Suc k := sorted_indices ! k]) k
      else (sorted_indices, Suc k))"

definition fw_sort_step :: "Rule list \<Rightarrow> nat \<Rightarrow> nat list \<Rightarrow> nat list" where
  "fw_sort_step rules j sorted_indices =
     (let key = sorted_indices ! j;
          (shifted, k) = fw_shift rules key sorted_indices j
      in shifted[k := key])"

definition fw_sorted_indices :: "Rule list \<Rightarrow> nat \<Rightarrow> nat list" where
  "fw_sorted_indices rules cnt = fold (fw_sort_step rules) [1 ..< cnt] [0 ..< cnt]"

text \<open>The walk over the sorted rules: the action of the first active rule that matches.\<close>

fun fw_walk :: "FwContext \<Rightarrow> nat list \<Rightarrow> u8 option" where
  "fw_walk c [] = None"
| "fw_walk c (i # is) =
     (let rule = fw_rules_f c ! i in
      if \<not> fr_active rule then fw_walk c is
      else if ruleMatches rule c then Some (fr_action rule)
      else fw_walk c is)"

definition fw_evaluate_rules_on :: "FwContext \<Rightarrow> FwContext \<times> u8" where [op_simps]:
  "fw_evaluate_rules_on c =
     (if fw_packet_state_f c \<noteq> pk_chain_traversal then (c, 1)
      else (case fw_walk c (fw_sorted_indices (fw_rules_f c) (unat (fw_rule_count_f c))) of
          Some action \<Rightarrow> (c\<lparr>fw_decision_f := action, fw_packet_state_f := pk_decided\<rparr>, 0)
        | None \<Rightarrow> (c\<lparr>fw_decision_f := fw_default_action_f c, fw_packet_state_f := pk_decided\<rparr>, 0)))"

definition fw_commit_on :: "FwContext \<Rightarrow> FwContext \<times> u8" where [op_simps]:
  "fw_commit_on c =
     (if fw_packet_state_f c \<noteq> pk_decided then (c, 1) else (c\<lparr>fw_packet_state_f := pk_committed\<rparr>, 0))"

section \<open>Connection tracking\<close>

definition fw_begin_tracking_on :: "FwContext \<Rightarrow> FwContext \<times> u8" where [op_simps]:
  "fw_begin_tracking_on c =
     (if fw_conntrack_state_f c \<noteq> ct_untracked then (c, 1) else (c\<lparr>fw_conntrack_state_f := ct_tracking\<rparr>, 0))"

definition fw_complete_tracking_on :: "u8 \<Rightarrow> FwContext \<Rightarrow> FwContext \<times> u8" where [op_simps]:
  "fw_complete_tracking_on conn_state_tag c =
     (if fw_conntrack_state_f c \<noteq> ct_tracking then (c, 1)
      else if conn_state_tag > 3 then (c, 1)
      else (c\<lparr>fw_conn_state_f := conn_state_tag, fw_conntrack_state_f := ct_tracked\<rparr>, 0))"

definition fw_expire_conn_on :: "FwContext \<Rightarrow> FwContext \<times> u8" where [op_simps]:
  "fw_expire_conn_on c =
     (if fw_conntrack_state_f c \<noteq> ct_tracked then (c, 1) else (c\<lparr>fw_conntrack_state_f := ct_expired\<rparr>, 0))"

section \<open>The exported operations\<close>

definition fw_classify_packet :: "fw_pool \<Rightarrow> c_int \<Rightarrow> u8 \<Rightarrow> u8 \<Rightarrow> u32 \<Rightarrow> u32 \<Rightarrow> u16 \<Rightarrow> u16 \<Rightarrow> fw_pool \<times> u8" where
  "fw_classify_packet p slot proto chain src_ip dst_ip src_port dst_port =
     on_slot fw_active_f p slot 1 (fw_classify_packet_on proto chain src_ip dst_ip src_port dst_port)"

definition fw_begin_chain :: "fw_pool \<Rightarrow> c_int \<Rightarrow> fw_pool \<times> u8" where
  "fw_begin_chain p slot =
     on_slot fw_active_f p slot 1 fw_begin_chain_on"

definition fw_add_rule :: "fw_pool \<Rightarrow> c_int \<Rightarrow> u8 \<Rightarrow> u32 \<Rightarrow> u8 \<Rightarrow> u16 \<Rightarrow> fw_pool \<times> u8" where
  "fw_add_rule p slot match_type match_value action priority =
     on_slot fw_active_f p slot 1 (fw_add_rule_on match_type match_value action priority)"

definition fw_set_default_action :: "fw_pool \<Rightarrow> c_int \<Rightarrow> u8 \<Rightarrow> fw_pool \<times> u8" where
  "fw_set_default_action p slot action =
     on_slot fw_active_f p slot 1 (fw_set_default_action_on action)"

definition fw_evaluate_rules :: "fw_pool \<Rightarrow> c_int \<Rightarrow> fw_pool \<times> u8" where
  "fw_evaluate_rules p slot =
     on_slot fw_active_f p slot 1 fw_evaluate_rules_on"

definition fw_commit :: "fw_pool \<Rightarrow> c_int \<Rightarrow> fw_pool \<times> u8" where
  "fw_commit p slot =
     on_slot fw_active_f p slot 1 fw_commit_on"

definition fw_begin_tracking :: "fw_pool \<Rightarrow> c_int \<Rightarrow> fw_pool \<times> u8" where
  "fw_begin_tracking p slot =
     on_slot fw_active_f p slot 1 fw_begin_tracking_on"

definition fw_complete_tracking :: "fw_pool \<Rightarrow> c_int \<Rightarrow> u8 \<Rightarrow> fw_pool \<times> u8" where
  "fw_complete_tracking p slot conn_state_tag =
     on_slot fw_active_f p slot 1 (fw_complete_tracking_on conn_state_tag)"

definition fw_expire_conn :: "fw_pool \<Rightarrow> c_int \<Rightarrow> fw_pool \<times> u8" where
  "fw_expire_conn p slot =
     on_slot fw_active_f p slot 1 fw_expire_conn_on"

section \<open>The stateless transition tables\<close>

definition fw_can_transition :: "u8 \<Rightarrow> u8 \<Rightarrow> u8" where
  "fw_can_transition from to =
     (if from = 0 \<and> to = 1 then 1
      else if from = 1 \<and> to = 2 then 1
      else if from = 2 \<and> to = 3 then 1
      else if from = 3 \<and> to = 4 then 1
      else if from = 0 \<and> to = 4 then 1
      else if from = 1 \<and> to = 4 then 1
      else if from = 2 \<and> to = 4 then 1
      else 0)"

definition fw_can_conntrack_transition :: "u8 \<Rightarrow> u8 \<Rightarrow> u8" where
  "fw_can_conntrack_transition from to =
     (if from = 0 \<and> to = 1 then 1
      else if from = 1 \<and> to = 2 then 1
      else if from = 2 \<and> to = 3 then 1
      else 0)"

section \<open>The sort is the library's stable sort\<close>

text \<open>Where the inner loop puts the new key: behind the last rule that does not have a larger priority.\<close>

definition ins_right :: "('a \<Rightarrow> 'k::linorder) \<Rightarrow> 'a \<Rightarrow> 'a list \<Rightarrow> 'a list" where
  "ins_right f x xs = rev (dropWhile (\<lambda>y. f y > f x) (rev xs)) @ x # rev (takeWhile (\<lambda>y. f y > f x) (rev xs))"

lemma ins_right_simps:
  "ins_right f x [] = [x]"
  "ins_right f x (xs @ [y]) = (if f y > f x then ins_right f x xs @ [y] else xs @ [y, x])"
  by (simp_all add: ins_right_def)

lemma mset_ins_right: "mset (ins_right f x xs) = mset (xs @ [x])"
  by (induction xs rule: rev_induct) (simp_all add: ins_right_simps)

lemma set_ins_right [simp]: "set (ins_right f x xs) = insert x (set xs)"
  by (induction xs rule: rev_induct) (auto simp: ins_right_simps)

lemma sorted_ins_right: "sorted (map f xs) \<Longrightarrow> sorted (map f (ins_right f x xs))"
proof (induction xs rule: rev_induct)
  case (snoc y xs)
  then show ?case by (fastforce simp: ins_right_simps sorted_append)
qed (simp add: ins_right_simps)

lemma stable_ins_right:
  "filter (\<lambda>y. f y = v) (ins_right f x xs) = filter (\<lambda>y. f y = v) (xs @ [x])"
  by (induction xs rule: rev_induct) (auto simp: ins_right_simps)

lemma ins_right_sort_key: "ins_right f x (sort_key f xs) = sort_key f (xs @ [x])"
proof -
  have "sort_key f (xs @ [x]) = ins_right f x (sort_key f xs)"
  proof (rule properties_for_sort_key)
    show "mset (ins_right f x (sort_key f xs)) = mset (xs @ [x])" by (simp add: mset_ins_right)
    show "sorted (map f (ins_right f x (sort_key f xs)))" by (simp add: sorted_ins_right)
    fix k
    show "filter (\<lambda>y. f k = f y) (ins_right f x (sort_key f xs)) = filter (\<lambda>y. f k = f y) (xs @ [x])"
      using sort_key_stable [of f "f k" xs] by (simp add: stable_ins_right eq_commute [of "f k"])
  qed
  then show ?thesis by simp
qed

lemma fw_shift_ins:
  "(case fw_shift rules key (xs @ z # rest) (length xs) of (si, k) \<Rightarrow> si[k := key]) =
     ins_right (\<lambda>i. fr_priority (rules ! i)) key xs @ rest"
proof (induction xs arbitrary: z rest rule: rev_induct)
  case Nil
  show ?case by (simp add: ins_right_simps)
next
  case (snoc y xs)
  show ?case
    using snoc [of y "y # rest"] by (auto simp: ins_right_simps nth_append list_update_append)
qed

lemma fw_sort_step_ins:
  "fw_sort_step rules (length xs) (xs @ j # rest) = ins_right (\<lambda>i. fr_priority (rules ! i)) j xs @ rest"
  using fw_shift_ins [where rules = rules and key = j and xs = xs and z = j and rest = rest] by (simp add: fw_sort_step_def nth_append)

lemma fw_sorted_indices_sort_key:
  "fw_sorted_indices rules cnt = sort_key (\<lambda>i. fr_priority (rules ! i)) [0 ..< cnt]"
proof -
  let ?f = "\<lambda>i. fr_priority (rules ! i)"
  have "fold (fw_sort_step rules) [1 ..< m] [0 ..< cnt] = sort_key ?f [0 ..< m] @ [m ..< cnt]"
    if "1 \<le> m" "m \<le> cnt" for m
    using that
  proof (induction m rule: nat_induct_at_least)
    case base
    then show ?case by (simp add: upt_conv_Cons)
  next
    case (Suc m)
    have "fw_sort_step rules m (sort_key ?f [0 ..< m] @ m # [Suc m ..< cnt]) =
        ins_right ?f m (sort_key ?f [0 ..< m]) @ [Suc m ..< cnt]"
      using fw_sort_step_ins [of rules "sort_key ?f [0 ..< m]" m "[Suc m ..< cnt]"] by simp
    moreover have "[m ..< cnt] = m # [Suc m ..< cnt]" using Suc.prems by (simp add: upt_conv_Cons)
    ultimately show ?case using Suc by (simp add: ins_right_sort_key)
  qed
  from this [of cnt] show ?thesis
    by (cases cnt) (simp_all add: fw_sorted_indices_def)
qed

lemma map_insort_key: "map g (insort_key (\<lambda>x. f (g x)) x xs) = insort_key f (g x) (map g xs)"
  by (induction xs) simp_all

lemma map_sort_key: "map g (sort_key (\<lambda>x. f (g x)) xs) = sort_key f (map g xs)"
  by (induction xs) (simp_all add: map_insort_key)

lemma fw_walk_find:
  "fw_walk c is = map_option fr_action (find (\<lambda>r. fr_active r \<and> ruleMatches r c) (map ((!) (fw_rules_f c)) is))"
  by (induction "is") (simp_all add: Let_def)

text \<open>The rules of the chain, in the order they were added.\<close>

definition chain_rules :: "FwContext \<Rightarrow> Rule list" where
  "chain_rules c = take (unat (fw_rule_count_f c)) (fw_rules_f c)"

lemma fw_evaluate_sorted:
  assumes "unat (fw_rule_count_f c) \<le> length (fw_rules_f c)"
  shows "fw_walk c (fw_sorted_indices (fw_rules_f c) (unat (fw_rule_count_f c))) =
    map_option fr_action (find (\<lambda>r. fr_active r \<and> ruleMatches r c) (sort_key fr_priority (chain_rules c)))"
proof -
  have "map ((!) (fw_rules_f c)) [0 ..< unat (fw_rule_count_f c)] = chain_rules c"
    using assms by (simp add: chain_rules_def list_eq_iff_nth_eq)
  then show ?thesis
    by (simp add: fw_walk_find fw_sorted_indices_sort_key map_sort_key [of "(!) (fw_rules_f c)" fr_priority])
qed

end
