(* ===== verification/Firewall_Types.thy ===== *)
theory Firewall_Types
  imports Tag_Codec
begin

text \<open>
  The pure types of \<open>bindings/rust/src/firewall.rs\<close> (actions, protocols, chains, match types, connection
  states) and the enums \<open>ffi_firewall.rs\<close> declares for itself.
\<close>

section \<open>\<open>firewall::Action\<close>\<close>

datatype (plugins only: code) Action =
    Accept
  | Drop
  | Reject
  | Log
  | Redirect
  | Dnat
  | Snat
  | Masquerade

definition Action_from_tag :: "u8 \<Rightarrow> Action option" where
  "Action_from_tag tag =
     (if tag = 0 then Some Action.Accept
      else if tag = 1 then Some Action.Drop
      else if tag = 2 then Some Action.Reject
      else if tag = 3 then Some Action.Log
      else if tag = 4 then Some Action.Redirect
      else if tag = 5 then Some Action.Dnat
      else if tag = 6 then Some Action.Snat
      else if tag = 7 then Some Action.Masquerade
      else option.None)"

primrec Action_to_tag :: "Action \<Rightarrow> u8" where
  "Action_to_tag Action.Accept = 0"
| "Action_to_tag Action.Drop = 1"
| "Action_to_tag Action.Reject = 2"
| "Action_to_tag Action.Log = 3"
| "Action_to_tag Action.Redirect = 4"
| "Action_to_tag Action.Dnat = 5"
| "Action_to_tag Action.Snat = 6"
| "Action_to_tag Action.Masquerade = 7"

definition Action_is_permissive :: "Action \<Rightarrow> bool" where
  "Action_is_permissive self =
     (case self of
      Action.Accept \<Rightarrow> True
    | Action.Redirect \<Rightarrow> True
    | Action.Dnat \<Rightarrow> True
    | Action.Snat \<Rightarrow> True
    | Action.Masquerade \<Rightarrow> True
    | _ \<Rightarrow> False)"

definition Action_ALL :: "Action list" where
  "Action_ALL =
     [Action.Accept, Action.Drop, Action.Reject, Action.Log, Action.Redirect, Action.Dnat,
      Action.Snat, Action.Masquerade]"

primrec Action_fmt :: "Action \<Rightarrow> string" where
  "Action_fmt Action.Accept = ''Accept''"
| "Action_fmt Action.Drop = ''Drop''"
| "Action_fmt Action.Reject = ''Reject''"
| "Action_fmt Action.Log = ''Log''"
| "Action_fmt Action.Redirect = ''Redirect''"
| "Action_fmt Action.Dnat = ''Dnat''"
| "Action_fmt Action.Snat = ''Snat''"
| "Action_fmt Action.Masquerade = ''Masquerade''"

section \<open>\<open>firewall::Protocol\<close>\<close>

datatype (plugins only: code) Protocol =
    Tcp
  | Udp
  | Icmp
  | Icmpv6
  | Gre
  | Esp
  | Ah
  | Any

definition Protocol_from_tag :: "u8 \<Rightarrow> Protocol option" where
  "Protocol_from_tag tag =
     (if tag = 0 then Some Protocol.Tcp
      else if tag = 1 then Some Protocol.Udp
      else if tag = 2 then Some Protocol.Icmp
      else if tag = 3 then Some Protocol.Icmpv6
      else if tag = 4 then Some Protocol.Gre
      else if tag = 5 then Some Protocol.Esp
      else if tag = 6 then Some Protocol.Ah
      else if tag = 7 then Some Protocol.Any
      else option.None)"

primrec Protocol_to_tag :: "Protocol \<Rightarrow> u8" where
  "Protocol_to_tag Protocol.Tcp = 0"
| "Protocol_to_tag Protocol.Udp = 1"
| "Protocol_to_tag Protocol.Icmp = 2"
| "Protocol_to_tag Protocol.Icmpv6 = 3"
| "Protocol_to_tag Protocol.Gre = 4"
| "Protocol_to_tag Protocol.Esp = 5"
| "Protocol_to_tag Protocol.Ah = 6"
| "Protocol_to_tag Protocol.Any = 7"

definition Protocol_ALL :: "Protocol list" where
  "Protocol_ALL =
     [Protocol.Tcp, Protocol.Udp, Protocol.Icmp, Protocol.Icmpv6, Protocol.Gre, Protocol.Esp,
      Protocol.Ah, Protocol.Any]"

primrec Protocol_fmt :: "Protocol \<Rightarrow> string" where
  "Protocol_fmt Protocol.Tcp = ''Tcp''"
| "Protocol_fmt Protocol.Udp = ''Udp''"
| "Protocol_fmt Protocol.Icmp = ''Icmp''"
| "Protocol_fmt Protocol.Icmpv6 = ''Icmpv6''"
| "Protocol_fmt Protocol.Gre = ''Gre''"
| "Protocol_fmt Protocol.Esp = ''Esp''"
| "Protocol_fmt Protocol.Ah = ''Ah''"
| "Protocol_fmt Protocol.Any = ''Any''"

section \<open>\<open>firewall::ChainType\<close>\<close>

datatype (plugins only: code) ChainType =
    Input
  | Output
  | Forward
  | PreRouting
  | PostRouting

definition ChainType_from_tag :: "u8 \<Rightarrow> ChainType option" where
  "ChainType_from_tag tag =
     (if tag = 0 then Some ChainType.Input
      else if tag = 1 then Some ChainType.Output
      else if tag = 2 then Some ChainType.Forward
      else if tag = 3 then Some ChainType.PreRouting
      else if tag = 4 then Some ChainType.PostRouting
      else option.None)"

primrec ChainType_to_tag :: "ChainType \<Rightarrow> u8" where
  "ChainType_to_tag ChainType.Input = 0"
| "ChainType_to_tag ChainType.Output = 1"
| "ChainType_to_tag ChainType.Forward = 2"
| "ChainType_to_tag ChainType.PreRouting = 3"
| "ChainType_to_tag ChainType.PostRouting = 4"

definition ChainType_ALL :: "ChainType list" where
  "ChainType_ALL =
     [ChainType.Input, ChainType.Output, ChainType.Forward, ChainType.PreRouting,
      ChainType.PostRouting]"

primrec ChainType_fmt :: "ChainType \<Rightarrow> string" where
  "ChainType_fmt ChainType.Input = ''Input''"
| "ChainType_fmt ChainType.Output = ''Output''"
| "ChainType_fmt ChainType.Forward = ''Forward''"
| "ChainType_fmt ChainType.PreRouting = ''PreRouting''"
| "ChainType_fmt ChainType.PostRouting = ''PostRouting''"

section \<open>\<open>firewall::RuleMatchType\<close>\<close>

datatype (plugins only: code) RuleMatchType =
    SourceIp
  | DestIp
  | SourcePort
  | DestPort
  | MatchProto
  | Interface
  | State
  | Mark

definition RuleMatchType_from_tag :: "u8 \<Rightarrow> RuleMatchType option" where
  "RuleMatchType_from_tag tag =
     (if tag = 0 then Some RuleMatchType.SourceIp
      else if tag = 1 then Some RuleMatchType.DestIp
      else if tag = 2 then Some RuleMatchType.SourcePort
      else if tag = 3 then Some RuleMatchType.DestPort
      else if tag = 4 then Some RuleMatchType.MatchProto
      else if tag = 5 then Some RuleMatchType.Interface
      else if tag = 6 then Some RuleMatchType.State
      else if tag = 7 then Some RuleMatchType.Mark
      else option.None)"

primrec RuleMatchType_to_tag :: "RuleMatchType \<Rightarrow> u8" where
  "RuleMatchType_to_tag RuleMatchType.SourceIp = 0"
| "RuleMatchType_to_tag RuleMatchType.DestIp = 1"
| "RuleMatchType_to_tag RuleMatchType.SourcePort = 2"
| "RuleMatchType_to_tag RuleMatchType.DestPort = 3"
| "RuleMatchType_to_tag RuleMatchType.MatchProto = 4"
| "RuleMatchType_to_tag RuleMatchType.Interface = 5"
| "RuleMatchType_to_tag RuleMatchType.State = 6"
| "RuleMatchType_to_tag RuleMatchType.Mark = 7"

definition RuleMatchType_ALL :: "RuleMatchType list" where
  "RuleMatchType_ALL =
     [RuleMatchType.SourceIp, RuleMatchType.DestIp, RuleMatchType.SourcePort,
      RuleMatchType.DestPort, RuleMatchType.MatchProto, RuleMatchType.Interface,
      RuleMatchType.State, RuleMatchType.Mark]"

primrec RuleMatchType_fmt :: "RuleMatchType \<Rightarrow> string" where
  "RuleMatchType_fmt RuleMatchType.SourceIp = ''SourceIp''"
| "RuleMatchType_fmt RuleMatchType.DestIp = ''DestIp''"
| "RuleMatchType_fmt RuleMatchType.SourcePort = ''SourcePort''"
| "RuleMatchType_fmt RuleMatchType.DestPort = ''DestPort''"
| "RuleMatchType_fmt RuleMatchType.MatchProto = ''MatchProto''"
| "RuleMatchType_fmt RuleMatchType.Interface = ''Interface''"
| "RuleMatchType_fmt RuleMatchType.State = ''State''"
| "RuleMatchType_fmt RuleMatchType.Mark = ''Mark''"

section \<open>\<open>firewall::ConnState\<close>\<close>

datatype (plugins only: code) ConnState =
    New
  | Established
  | Related
  | Invalid

definition ConnState_from_tag :: "u8 \<Rightarrow> ConnState option" where
  "ConnState_from_tag tag =
     (if tag = 0 then Some ConnState.New
      else if tag = 1 then Some ConnState.Established
      else if tag = 2 then Some ConnState.Related
      else if tag = 3 then Some ConnState.Invalid
      else option.None)"

primrec ConnState_to_tag :: "ConnState \<Rightarrow> u8" where
  "ConnState_to_tag ConnState.New = 0"
| "ConnState_to_tag ConnState.Established = 1"
| "ConnState_to_tag ConnState.Related = 2"
| "ConnState_to_tag ConnState.Invalid = 3"

definition ConnState_ALL :: "ConnState list" where
  "ConnState_ALL =
     [ConnState.New, ConnState.Established, ConnState.Related, ConnState.Invalid]"

primrec ConnState_fmt :: "ConnState \<Rightarrow> string" where
  "ConnState_fmt ConnState.New = ''New''"
| "ConnState_fmt ConnState.Established = ''Established''"
| "ConnState_fmt ConnState.Related = ''Related''"
| "ConnState_fmt ConnState.Invalid = ''Invalid''"

section \<open>\<open>ffi_firewall::FirewallAction\<close>\<close>

datatype (plugins only: code) FirewallAction =
    Accept
  | Drop
  | Reject
  | Log
  | Redirect
  | Dnat
  | Snat
  | Masquerade

definition FirewallAction_from_tag :: "u8 \<Rightarrow> FirewallAction option" where
  "FirewallAction_from_tag tag =
     (if tag = 0 then Some FirewallAction.Accept
      else if tag = 1 then Some FirewallAction.Drop
      else if tag = 2 then Some FirewallAction.Reject
      else if tag = 3 then Some FirewallAction.Log
      else if tag = 4 then Some FirewallAction.Redirect
      else if tag = 5 then Some FirewallAction.Dnat
      else if tag = 6 then Some FirewallAction.Snat
      else if tag = 7 then Some FirewallAction.Masquerade
      else option.None)"

primrec FirewallAction_to_tag :: "FirewallAction \<Rightarrow> u8" where
  "FirewallAction_to_tag FirewallAction.Accept = 0"
| "FirewallAction_to_tag FirewallAction.Drop = 1"
| "FirewallAction_to_tag FirewallAction.Reject = 2"
| "FirewallAction_to_tag FirewallAction.Log = 3"
| "FirewallAction_to_tag FirewallAction.Redirect = 4"
| "FirewallAction_to_tag FirewallAction.Dnat = 5"
| "FirewallAction_to_tag FirewallAction.Snat = 6"
| "FirewallAction_to_tag FirewallAction.Masquerade = 7"

section \<open>\<open>ffi_firewall::PacketState\<close>\<close>

datatype (plugins only: code) PacketState =
    Idle
  | Classified
  | Evaluating
  | Decided
  | Committed

definition PacketState_from_tag :: "u8 \<Rightarrow> PacketState option" where
  "PacketState_from_tag tag =
     (if tag = 0 then Some PacketState.Idle
      else if tag = 1 then Some PacketState.Classified
      else if tag = 2 then Some PacketState.Evaluating
      else if tag = 3 then Some PacketState.Decided
      else if tag = 4 then Some PacketState.Committed
      else option.None)"

primrec PacketState_to_tag :: "PacketState \<Rightarrow> u8" where
  "PacketState_to_tag PacketState.Idle = 0"
| "PacketState_to_tag PacketState.Classified = 1"
| "PacketState_to_tag PacketState.Evaluating = 2"
| "PacketState_to_tag PacketState.Decided = 3"
| "PacketState_to_tag PacketState.Committed = 4"

section \<open>\<open>ffi_firewall::ConntrackState\<close>\<close>

datatype (plugins only: code) ConntrackState =
    NoneV
  | Tracking
  | Established
  | Related
  | Expired

definition ConntrackState_from_tag :: "u8 \<Rightarrow> ConntrackState option" where
  "ConntrackState_from_tag tag =
     (if tag = 0 then Some ConntrackState.NoneV
      else if tag = 1 then Some ConntrackState.Tracking
      else if tag = 2 then Some ConntrackState.Established
      else if tag = 3 then Some ConntrackState.Related
      else if tag = 4 then Some ConntrackState.Expired
      else option.None)"

primrec ConntrackState_to_tag :: "ConntrackState \<Rightarrow> u8" where
  "ConntrackState_to_tag ConntrackState.NoneV = 0"
| "ConntrackState_to_tag ConntrackState.Tracking = 1"
| "ConntrackState_to_tag ConntrackState.Established = 2"
| "ConntrackState_to_tag ConntrackState.Related = 3"
| "ConntrackState_to_tag ConntrackState.Expired = 4"

section \<open>Tags and enumerations\<close>

interpretation Action_codec: tag_codec Action_to_tag Action_from_tag 8
  by (unfold_locales, (case_tac x; simp add: Action_from_tag_def), unfold Action_from_tag_def,
    (erule codec_arm, simp only: Action_to_tag.simps)+, erule codec_end, (case_tac x; simp), simp add: codec_eval)

interpretation Protocol_codec: tag_codec Protocol_to_tag Protocol_from_tag 8
  by (unfold_locales, (case_tac x; simp add: Protocol_from_tag_def), unfold Protocol_from_tag_def,
    (erule codec_arm, simp only: Protocol_to_tag.simps)+, erule codec_end, (case_tac x; simp), simp add: codec_eval)

interpretation ChainType_codec: tag_codec ChainType_to_tag ChainType_from_tag 5
  by (unfold_locales, (case_tac x; simp add: ChainType_from_tag_def), unfold ChainType_from_tag_def,
    (erule codec_arm, simp only: ChainType_to_tag.simps)+, erule codec_end, (case_tac x; simp), simp add: codec_eval)

interpretation RuleMatchType_codec: tag_codec RuleMatchType_to_tag RuleMatchType_from_tag 8
  by (unfold_locales, (case_tac x; simp add: RuleMatchType_from_tag_def), unfold RuleMatchType_from_tag_def,
    (erule codec_arm, simp only: RuleMatchType_to_tag.simps)+, erule codec_end, (case_tac x; simp), simp add: codec_eval)

interpretation ConnState_codec: tag_codec ConnState_to_tag ConnState_from_tag 4
  by (unfold_locales, (case_tac x; simp add: ConnState_from_tag_def), unfold ConnState_from_tag_def,
    (erule codec_arm, simp only: ConnState_to_tag.simps)+, erule codec_end, (case_tac x; simp), simp add: codec_eval)

lemma Action_ALL_exhaustive: "set Action_ALL = UNIV \<and> distinct Action_ALL"
  by (auto simp: Action_ALL_def) (case_tac x; simp)

lemma Protocol_ALL_exhaustive: "set Protocol_ALL = UNIV \<and> distinct Protocol_ALL"
  by (auto simp: Protocol_ALL_def) (case_tac x; simp)

lemma ChainType_ALL_exhaustive: "set ChainType_ALL = UNIV \<and> distinct ChainType_ALL"
  by (auto simp: ChainType_ALL_def) (case_tac x; simp)

lemma RuleMatchType_ALL_exhaustive: "set RuleMatchType_ALL = UNIV \<and> distinct RuleMatchType_ALL"
  by (auto simp: RuleMatchType_ALL_def) (case_tac x; simp)

lemma ConnState_ALL_exhaustive: "set ConnState_ALL = UNIV \<and> distinct ConnState_ALL"
  by (auto simp: ConnState_ALL_def) (case_tac x; simp)

interpretation FirewallAction_codec: tag_codec FirewallAction_to_tag FirewallAction_from_tag 8
  by (unfold_locales, (case_tac x; simp add: FirewallAction_from_tag_def), unfold FirewallAction_from_tag_def,
    (erule codec_arm, simp only: FirewallAction_to_tag.simps)+, erule codec_end, (case_tac x; simp), simp add: codec_eval)

interpretation PacketState_codec: tag_codec PacketState_to_tag PacketState_from_tag 5
  by (unfold_locales, (case_tac x; simp add: PacketState_from_tag_def), unfold PacketState_from_tag_def,
    (erule codec_arm, simp only: PacketState_to_tag.simps)+, erule codec_end, (case_tac x; simp), simp add: codec_eval)

interpretation ConntrackState_codec: tag_codec ConntrackState_to_tag ConntrackState_from_tag 5
  by (unfold_locales, (case_tac x; simp add: ConntrackState_from_tag_def), unfold ConntrackState_from_tag_def,
    (erule codec_arm, simp only: ConntrackState_to_tag.simps)+, erule codec_end, (case_tac x; simp), simp add: codec_eval)

end
