(* ===== verification/Firewall_Ffi.thy ===== *)
theory Firewall_Ffi
  imports Firewall_Engine Firewall_Types
begin

text \<open>
  The safe firewall wrappers \<open>bindings/rust/src/ffi_firewall.rs\<close> over the engine, the invariant of a
  packet context and the interpretation of the pool contract.
\<close>

section \<open>The wrappers\<close>

definition ffi_fw_abi_version :: "u32" where
  "ffi_fw_abi_version =
     fw_abi_version"

definition ffi_fw_create_context :: "fw_pool \<Rightarrow> fw_pool \<times> ffi_context ProvenResult" where
  "ffi_fw_create_context p =
     wrap_slot (fw_create_context p)"

definition ffi_fw_drop :: "fw_pool \<Rightarrow> ffi_context \<Rightarrow> fw_pool" where
  "ffi_fw_drop p ctx =
     fw_destroy_context p (ctx_slot ctx)"

definition ffi_fw_packet_state :: "fw_pool \<Rightarrow> ffi_context \<Rightarrow> PacketState option" where
  "ffi_fw_packet_state p ctx =
     PacketState_from_tag (fw_packet_state p (ctx_slot ctx))"

definition ffi_fw_conntrack_state :: "fw_pool \<Rightarrow> ffi_context \<Rightarrow> ConntrackState option" where
  "ffi_fw_conntrack_state p ctx =
     ConntrackState_from_tag (fw_conntrack_state p (ctx_slot ctx))"

definition ffi_fw_get_decision :: "fw_pool \<Rightarrow> ffi_context \<Rightarrow> FirewallAction option" where
  "ffi_fw_get_decision p ctx =
     FirewallAction_from_tag (fw_get_decision p (ctx_slot ctx))"

definition ffi_fw_rule_count :: "fw_pool \<Rightarrow> ffi_context \<Rightarrow> u16" where
  "ffi_fw_rule_count p ctx =
     fw_rule_count p (ctx_slot ctx)"

definition ffi_fw_packet_proto :: "fw_pool \<Rightarrow> ffi_context \<Rightarrow> u8" where
  "ffi_fw_packet_proto p ctx =
     fw_packet_proto p (ctx_slot ctx)"

definition ffi_fw_packet_chain :: "fw_pool \<Rightarrow> ffi_context \<Rightarrow> u8" where
  "ffi_fw_packet_chain p ctx =
     fw_packet_chain p (ctx_slot ctx)"

definition ffi_fw_packet_src_ip :: "fw_pool \<Rightarrow> ffi_context \<Rightarrow> u32" where
  "ffi_fw_packet_src_ip p ctx =
     fw_packet_src_ip p (ctx_slot ctx)"

definition ffi_fw_packet_dst_ip :: "fw_pool \<Rightarrow> ffi_context \<Rightarrow> u32" where
  "ffi_fw_packet_dst_ip p ctx =
     fw_packet_dst_ip p (ctx_slot ctx)"

definition ffi_fw_packet_src_port :: "fw_pool \<Rightarrow> ffi_context \<Rightarrow> u16" where
  "ffi_fw_packet_src_port p ctx =
     fw_packet_src_port p (ctx_slot ctx)"

definition ffi_fw_packet_dst_port :: "fw_pool \<Rightarrow> ffi_context \<Rightarrow> u16" where
  "ffi_fw_packet_dst_port p ctx =
     fw_packet_dst_port p (ctx_slot ctx)"

definition ffi_fw_classify_packet :: "fw_pool \<Rightarrow> ffi_context \<Rightarrow> u8 \<Rightarrow> u8 \<Rightarrow> u32 \<Rightarrow> u32 \<Rightarrow> u16 \<Rightarrow> u16 \<Rightarrow> fw_pool \<times> unit ProvenResult" where
  "ffi_fw_classify_packet p ctx proto chain src_ip dst_ip src_port dst_port =
     wrap_status (fw_classify_packet p (ctx_slot ctx) proto chain src_ip dst_ip src_port dst_port)"

definition ffi_fw_begin_chain :: "fw_pool \<Rightarrow> ffi_context \<Rightarrow> fw_pool \<times> unit ProvenResult" where
  "ffi_fw_begin_chain p ctx =
     wrap_status (fw_begin_chain p (ctx_slot ctx))"

definition ffi_fw_add_rule :: "fw_pool \<Rightarrow> ffi_context \<Rightarrow> u8 \<Rightarrow> u32 \<Rightarrow> FirewallAction \<Rightarrow> u16 \<Rightarrow> fw_pool \<times> unit ProvenResult" where
  "ffi_fw_add_rule p ctx match_type match_value action priority =
     wrap_status (fw_add_rule p (ctx_slot ctx) match_type match_value (FirewallAction_to_tag action) priority)"

definition ffi_fw_set_default_action :: "fw_pool \<Rightarrow> ffi_context \<Rightarrow> FirewallAction \<Rightarrow> fw_pool \<times> unit ProvenResult" where
  "ffi_fw_set_default_action p ctx action =
     wrap_status (fw_set_default_action p (ctx_slot ctx) (FirewallAction_to_tag action))"

definition ffi_fw_evaluate_rules :: "fw_pool \<Rightarrow> ffi_context \<Rightarrow> fw_pool \<times> unit ProvenResult" where
  "ffi_fw_evaluate_rules p ctx =
     wrap_status (fw_evaluate_rules p (ctx_slot ctx))"

definition ffi_fw_commit :: "fw_pool \<Rightarrow> ffi_context \<Rightarrow> fw_pool \<times> unit ProvenResult" where
  "ffi_fw_commit p ctx =
     wrap_status (fw_commit p (ctx_slot ctx))"

definition ffi_fw_begin_tracking :: "fw_pool \<Rightarrow> ffi_context \<Rightarrow> fw_pool \<times> unit ProvenResult" where
  "ffi_fw_begin_tracking p ctx =
     wrap_status (fw_begin_tracking p (ctx_slot ctx))"

definition ffi_fw_complete_tracking :: "fw_pool \<Rightarrow> ffi_context \<Rightarrow> ConntrackState \<Rightarrow> fw_pool \<times> unit ProvenResult" where
  "ffi_fw_complete_tracking p ctx conn_state =
     wrap_status (fw_complete_tracking p (ctx_slot ctx) (ConntrackState_to_tag conn_state))"

definition ffi_fw_expire_conn :: "fw_pool \<Rightarrow> ffi_context \<Rightarrow> fw_pool \<times> unit ProvenResult" where
  "ffi_fw_expire_conn p ctx =
     wrap_status (fw_expire_conn p (ctx_slot ctx))"

definition ffi_fw_can_transition :: "PacketState \<Rightarrow> PacketState \<Rightarrow> bool" where
  "ffi_fw_can_transition from to =
     (fw_can_transition (PacketState_to_tag from) (PacketState_to_tag to) = 1)"

definition ffi_fw_can_conntrack_transition :: "ConntrackState \<Rightarrow> ConntrackState \<Rightarrow> bool" where
  "ffi_fw_can_conntrack_transition from to =
     (fw_can_conntrack_transition (ConntrackState_to_tag from) (ConntrackState_to_tag to) = 1)"

section \<open>The client's alphabet\<close>

datatype fw_call =
    Wc_classify_packet u8 u8 u32 u32 u16 u16
  | Wc_begin_chain
  | Wc_add_rule u8 u32 FirewallAction u16
  | Wc_set_default_action FirewallAction
  | Wc_evaluate_rules
  | Wc_commit
  | Wc_begin_tracking
  | Wc_complete_tracking ConntrackState
  | Wc_expire_conn

primrec fw_step :: "fw_call \<Rightarrow> FwContext \<Rightarrow> FwContext \<times> u8" where
  "fw_step (Wc_classify_packet proto chain src_ip dst_ip src_port dst_port) =
     fw_classify_packet_on proto chain src_ip dst_ip src_port dst_port"
| "fw_step Wc_begin_chain =
     fw_begin_chain_on"
| "fw_step (Wc_add_rule match_type match_value action priority) =
     fw_add_rule_on match_type match_value (FirewallAction_to_tag action) priority"
| "fw_step (Wc_set_default_action action) =
     fw_set_default_action_on (FirewallAction_to_tag action)"
| "fw_step Wc_evaluate_rules =
     fw_evaluate_rules_on"
| "fw_step Wc_commit =
     fw_commit_on"
| "fw_step Wc_begin_tracking =
     fw_begin_tracking_on"
| "fw_step (Wc_complete_tracking conn_state) =
     fw_complete_tracking_on (ConntrackState_to_tag conn_state)"
| "fw_step Wc_expire_conn =
     fw_expire_conn_on"

primrec ffi_fw_call :: "fw_call \<Rightarrow> fw_pool \<Rightarrow> ffi_context \<Rightarrow> fw_pool \<times> unit ProvenResult" where
  "ffi_fw_call (Wc_classify_packet proto chain src_ip dst_ip src_port dst_port) p ctx =
     ffi_fw_classify_packet p ctx proto chain src_ip dst_ip src_port dst_port"
| "ffi_fw_call Wc_begin_chain p ctx =
     ffi_fw_begin_chain p ctx"
| "ffi_fw_call (Wc_add_rule match_type match_value action priority) p ctx =
     ffi_fw_add_rule p ctx match_type match_value action priority"
| "ffi_fw_call (Wc_set_default_action action) p ctx =
     ffi_fw_set_default_action p ctx action"
| "ffi_fw_call Wc_evaluate_rules p ctx =
     ffi_fw_evaluate_rules p ctx"
| "ffi_fw_call Wc_commit p ctx =
     ffi_fw_commit p ctx"
| "ffi_fw_call Wc_begin_tracking p ctx =
     ffi_fw_begin_tracking p ctx"
| "ffi_fw_call (Wc_complete_tracking conn_state) p ctx =
     ffi_fw_complete_tracking p ctx conn_state"
| "ffi_fw_call Wc_expire_conn p ctx =
     ffi_fw_expire_conn p ctx"

lemmas ffi_fw_op_defs =
  ffi_fw_classify_packet_def fw_classify_packet_def ffi_fw_begin_chain_def fw_begin_chain_def
  ffi_fw_add_rule_def fw_add_rule_def ffi_fw_set_default_action_def fw_set_default_action_def
  ffi_fw_evaluate_rules_def fw_evaluate_rules_def ffi_fw_commit_def fw_commit_def
  ffi_fw_begin_tracking_def fw_begin_tracking_def ffi_fw_complete_tracking_def
  fw_complete_tracking_def ffi_fw_expire_conn_def fw_expire_conn_def

section \<open>The invariant of a context\<close>

text \<open>
  The rule array has its 64 cells, the counted ones hold active rules with valid tags, the default
  action is an action, and there is a decision exactly from Decided on.
\<close>

definition rules_ok :: "FwContext \<Rightarrow> bool" where
  "rules_ok c \<longleftrightarrow>
     length (fw_rules_f c) = 64 \<and> unat (fw_rule_count_f c) \<le> 64 \<and>
     (\<forall>r \<in> set (chain_rules c). fr_active r \<and> fr_match_type r \<le> 7 \<and> fr_action r \<le> 7)"

definition fw_good :: "FwContext \<Rightarrow> bool" where
  "fw_good c \<longleftrightarrow>
     rules_ok c \<and> fw_default_action_f c \<le> 7 \<and>
     (fw_packet_state_f c \<in> {pk_decided, pk_committed} \<longrightarrow> fw_decision_f c \<le> 7) \<and>
     (fw_packet_state_f c \<notin> {pk_decided, pk_committed} \<longrightarrow> fw_decision_f c = 255) \<and>
     (fw_packet_state_f c \<in> {pk_arrived, pk_classified} \<longrightarrow> fw_rule_count_f c = 0) \<and>
     (fw_conntrack_state_f c \<in> {ct_untracked, ct_tracking} \<longrightarrow> fw_conn_state_f c = 255) \<and>
     (fw_conntrack_state_f c \<notin> {ct_untracked, ct_tracking} \<longrightarrow> fw_conn_state_f c \<le> 3)"

lemma fw_active_step: "fw_active_f (fst (fw_step x c)) = fw_active_f c"
  by (cases x) (simp_all add: op_simps Let_def split: option.split)

text \<open>Adding a rule appends it to the chain.\<close>

lemma chain_rules_add:
  assumes "length (fw_rules_f c) = 64" "unat (fw_rule_count_f c) < 64"
  shows "chain_rules (c\<lparr>fw_rules_f := (fw_rules_f c)[unat (fw_rule_count_f c) := r],
      fw_rule_count_f := fw_rule_count_f c + 1\<rparr>) = chain_rules c @ [r]"
proof -
  have "unat (fw_rule_count_f c + 1) = Suc (unat (fw_rule_count_f c))"
    using assms(2) by (simp add: unat_word_ariths)
  then show ?thesis
    using assms by (simp add: chain_rules_def take_Suc_conv_app_nth)
qed

lemma count_below_max: "\<not> MAX_RULES \<le> n \<longleftrightarrow> unat n < 64"
  by (simp add: MAX_RULES_def word_le_nat_alt not_le)

text \<open>What an accepted operation does to the chain, and what the walk finds in it.\<close>

lemma fw_step_rules:
  assumes "rules_ok c"
  shows "rules_ok (fst (fw_step x c))"
    and "chain_rules (fst (fw_step x c)) = chain_rules c @
      (case x of
         Wc_add_rule m v a p \<Rightarrow>
           if snd (fw_step x c) = 0
           then [\<lparr>fr_match_type = m, fr_match_value = v, fr_action = FirewallAction_to_tag a, fr_priority = p, fr_active = True\<rparr>]
           else []
       | _ \<Rightarrow> [])"
proof -
  have len: "length (fw_rules_f c) = 64" using assms by (simp add: rules_ok_def)
  have same: "chain_rules d = chain_rules c" if "fw_rules_f d = fw_rules_f c" "fw_rule_count_f d = fw_rule_count_f c" for d :: FwContext
    using that by (simp add: chain_rules_def)
  show grow: "chain_rules (fst (fw_step x c)) = chain_rules c @
      (case x of
         Wc_add_rule m v a p \<Rightarrow>
           if snd (fw_step x c) = 0
           then [\<lparr>fr_match_type = m, fr_match_value = v, fr_action = FirewallAction_to_tag a, fr_priority = p, fr_active = True\<rparr>]
           else []
       | _ \<Rightarrow> [])"
    using chain_rules_add [OF len]
    by (cases x) (auto simp: op_simps Let_def count_below_max [symmetric] intro!: same split: option.split)
  have "length (fw_rules_f (fst (fw_step x c))) = 64 \<and> unat (fw_rule_count_f (fst (fw_step x c))) \<le> 64"
    using assms len
    by (cases x) (auto simp: op_simps Let_def rules_ok_def count_below_max unat_word_ariths split: option.split)
  moreover have "fr_active r \<and> fr_match_type r \<le> 7 \<and> fr_action r \<le> 7" if "r \<in> set (chain_rules (fst (fw_step x c)))" for r
    using that assms unfolding grow
    by (cases x) (auto simp: rules_ok_def op_simps not_less split: if_splits)
  ultimately show "rules_ok (fst (fw_step x c))" by (simp add: rules_ok_def)
qed

lemma fw_walk_action:
  assumes "rules_ok c" "fw_walk c (fw_sorted_indices (fw_rules_f c) (unat (fw_rule_count_f c))) = Some a"
  shows "a \<le> 7"
proof -
  have "unat (fw_rule_count_f c) \<le> length (fw_rules_f c)" using assms(1) by (simp add: rules_ok_def)
  then have "map_option fr_action (find (\<lambda>r. fr_active r \<and> ruleMatches r c) (sort_key fr_priority (chain_rules c))) = Some a"
    using fw_evaluate_sorted [of c] assms(2) by simp
  then obtain r where "find (\<lambda>r. fr_active r \<and> ruleMatches r c) (sort_key fr_priority (chain_rules c)) = Some r" "a = fr_action r"
    by (auto simp: map_option_eq_Some)
  then have "r \<in> set (chain_rules c)" by (auto simp: find_Some_iff) (metis nth_mem set_sort length_sort)
  with assms(1) \<open>a = fr_action r\<close> show ?thesis by (simp add: rules_ok_def)
qed

lemma firewall_action_tag_le: "FirewallAction_to_tag a \<le> 7"
  by (cases a) simp_all

lemma fw_good_fresh: "fw_good (fw_fresh c)"
  by (simp add: fw_good_def rules_ok_def chain_rules_def fw_fresh_def empty_context_def)

lemma fw_good_step:
  assumes "fw_good c"
  shows "fw_good (fst (fw_step x c))"
proof -
  have "rules_ok c" using assms by (simp add: fw_good_def)
  note rules = fw_step_rules(1) [OF this, of x] and found = fw_walk_action [OF this]
  show ?thesis
  proof (cases x)
    case Wc_evaluate_rules
    with assms rules found show ?thesis
      by (auto simp: fw_good_def op_simps split: option.splits if_splits)
  next
    case (Wc_complete_tracking s)
    with assms rules show ?thesis by (auto simp: fw_good_def op_simps not_less)
  qed (use assms rules firewall_action_tag_le in \<open>auto simp: fw_good_def op_simps not_less\<close>)
qed

interpretation fw: slot_service fw_active_f "\<lambda>_ :: unit. True" "\<lambda>_. fw_fresh" fw_off fw_step
  "\<lambda>_. 1" "\<lambda>_. from_status" fw_good fw_contexts "\<lambda>_. ffi_fw_create_context" ffi_fw_drop ffi_fw_call
proof
  fix c :: FwContext and p :: fw_pool and h :: ffi_context and x :: fw_call
  show "fw_active_f (fw_fresh c)" by (simp add: fw_fresh_def)
  show "\<not> fw_active_f (fw_off c)" by (simp add: fw_off_def)
  show "fw_active_f c \<Longrightarrow> fw_active_f (fst (fw_step x c))" by (simp add: fw_active_step)
  show "fw_good (fw_fresh c)" by (rule fw_good_fresh)
  show "fw_good c \<Longrightarrow> fw_good (fst (fw_step x c))" by (rule fw_good_step)
  show "c \<in> set fw_contexts \<Longrightarrow> \<not> fw_active_f c" by (simp add: fw_contexts_def empty_context_def)
  show "length fw_contexts \<le> 2147483648" by (simp add: fw_contexts_def)
  show "ffi_fw_create_context p = wrap_slot (if True then pool_create fw_active_f fw_fresh p else (p, - 1))"
    by (simp add: ffi_fw_create_context_def fw_create_context_def)
  show "ffi_fw_drop p h = pool_destroy fw_off p (ctx_slot h)"
    by (simp add: ffi_fw_drop_def fw_destroy_context_def)
  show "ffi_fw_call x p h = map_prod id from_status (on_slot fw_active_f p (ctx_slot h) 1 (fw_step x))"
    by (cases x; simp add: ffi_fw_op_defs wrap_status_eq_map_prod)
qed

abbreviation fw_client :: "fw_pool \<Rightarrow> ffi_context list \<Rightarrow> bool" where
  "fw_client \<equiv> client (\<lambda>_ :: unit. ffi_fw_create_context) ffi_fw_drop ffi_fw_call fw_contexts"

lemma fw_first_client: "fw_client (fw_contexts[0 := fw_fresh (fw_contexts ! 0)]) [handle 0]"
  by (rule fw.client_first) (simp_all add: fw_contexts_def)

end
