(* ===== verification/Httpd_Engine.thy ===== *)
theory Httpd_Engine
  imports Slot_Pool
begin

text \<open>
  The HTTP engine, \<open>not-proven/proven-httpd/ffi/zig/src/httpd.zig\<close>: a pool of 64 request contexts, the
  request parser, the construction of a response and the keep-alive recycling.

  A fixed buffer with its length (\<open>path\<close>, a header's key and value, a body) is the list of its counted
  bytes, and a header array with its count the list of its counted entries: the code reads both only
  below the length and overwrites from the front, or appends.
\<close>

section \<open>Data\<close>

datatype http_phase =
  ph_idle | ph_receiving | ph_headers_parsed | ph_body_receiving | ph_complete | ph_responding | ph_sent

primrec phase_tag :: "http_phase \<Rightarrow> u8" where
  "phase_tag ph_idle = 0"
| "phase_tag ph_receiving = 1"
| "phase_tag ph_headers_parsed = 2"
| "phase_tag ph_body_receiving = 3"
| "phase_tag ph_complete = 4"
| "phase_tag ph_responding = 5"
| "phase_tag ph_sent = 6"

definition MAX_HEADERS :: nat where "MAX_HEADERS = 32"
definition MAX_PATH_LEN :: nat where "MAX_PATH_LEN = 2048"
definition MAX_HEADER_KEY_LEN :: nat where "MAX_HEADER_KEY_LEN = 128"
definition MAX_HEADER_VAL_LEN :: nat where "MAX_HEADER_VAL_LEN = 512"
definition MAX_BODY_LEN :: nat where "MAX_BODY_LEN = 8192"

record HeaderEntry =
  hd_key :: "u8 list"
  hd_value :: "u8 list"
  hd_active :: bool

record HttpCtx =
  ht_phase :: http_phase
  ht_active :: bool
  ht_method :: u8
  ht_version :: u8
  ht_path :: "u8 list"
  ht_req_headers :: "HeaderEntry list"
  ht_req_body :: "u8 list"
  ht_keep_alive :: bool
  ht_resp_status :: u8
  ht_resp_headers :: "HeaderEntry list"
  ht_resp_body :: "u8 list"

type_synonym http_pool = "HttpCtx list"

definition empty_ctx :: HttpCtx where
  "empty_ctx =
     \<lparr>ht_phase = ph_idle, ht_active = False, ht_method = 255, ht_version = 255, ht_path = [],
      ht_req_headers = [], ht_req_body = [], ht_keep_alive = False, ht_resp_status = 255,
      ht_resp_headers = [], ht_resp_body = []\<rparr>"

definition http_contexts :: http_pool where
  "http_contexts = replicate 64 empty_ctx"

section \<open>Parse helpers\<close>

definition ascii :: "string \<Rightarrow> u8 list" where
  "ascii s = map of_char s"

definition method_strings :: "u8 list list" where
  "method_strings = map ascii
     [''GET'', ''POST'', ''PUT'', ''DELETE'', ''PATCH'', ''HEAD'', ''OPTIONS'', ''TRACE'', ''CONNECT'']"

text \<open>The position of the first element with a property: the code's counting \<open>for\<close> loops.\<close>

fun first_index :: "('a \<Rightarrow> bool) \<Rightarrow> 'a list \<Rightarrow> nat option" where
  "first_index P [] = None"
| "first_index P (x # xs) = (if P x then Some 0 else map_option Suc (first_index P xs))"

definition parseMethodStr :: "u8 list \<Rightarrow> u8" where
  "parseMethodStr data =
     (case first_index (\<lambda>ms. data = ms) method_strings of Some i \<Rightarrow> word_of_nat i | None \<Rightarrow> 255)"

definition parseVersionStr :: "u8 list \<Rightarrow> u8" where
  "parseVersionStr data =
     (if data = ascii ''HTTP/1.0'' then 0
      else if data = ascii ''HTTP/1.1'' then 1
      else if data = ascii ''HTTP/2.0'' \<or> data = ascii ''HTTP/2'' then 2
      else if data = ascii ''HTTP/3.0'' \<or> data = ascii ''HTTP/3'' then 3
      else 255)"

text \<open>The index behind the first line feed.\<close>

definition findEol :: "u8 list \<Rightarrow> nat option" where
  "findEol data = map_option Suc (first_index (\<lambda>b. b = 10) data)"

definition is_white :: "u8 \<Rightarrow> bool" where
  "is_white b \<longleftrightarrow> b = 32 \<or> b = 9 \<or> b = 13 \<or> b = 10"

definition trimWhitespace :: "u8 list \<Rightarrow> u8 list" where
  "trimWhitespace data = rev (dropWhile is_white (rev (dropWhile is_white data)))"

definition lower :: "u8 \<Rightarrow> u8" where
  "lower c = (if 65 \<le> c \<and> c \<le> 90 then c + 32 else c)"

text \<open>
  \<open>checkKeepAlive\<close>, on the counted headers: the length test and the byte by byte comparison of the
  lowered key are the equality of the lowered lists. A value shorter than 10 bytes makes the code go
  on to the next header.
\<close>

fun checkKeepAlive :: "HeaderEntry list \<Rightarrow> bool" where
  "checkKeepAlive [] = False"
| "checkKeepAlive (h # hs) =
     (if \<not> hd_active h then checkKeepAlive hs
      else if map lower (hd_key h) \<noteq> ascii ''connection'' then checkKeepAlive hs
      else let val = trimWhitespace (hd_value h) in
        if length val < 10 then checkKeepAlive hs
        else map lower val = ascii ''keep-alive'')"

text \<open>\<open>addHeaderToArray\<close>: \<open>None\<close> for the answer false.\<close>

definition addHeaderToArray :: "HeaderEntry list \<Rightarrow> u8 list \<Rightarrow> u8 list \<Rightarrow> HeaderEntry list option" where
  "addHeaderToArray headers key value =
     (if length headers \<ge> MAX_HEADERS then None
      else if length key > MAX_HEADER_KEY_LEN then None
      else if length value > MAX_HEADER_VAL_LEN then None
      else Some (headers @ [\<lparr>hd_key = key, hd_value = value, hd_active = True\<rparr>]))"

definition http_abi_version :: u32 where
  "http_abi_version = 1"

section \<open>Life of a context\<close>

definition http_fresh :: "HttpCtx \<Rightarrow> HttpCtx" where
  "http_fresh _ = empty_ctx\<lparr>ht_active := True, ht_phase := ph_idle\<rparr>"

definition http_create_context :: "http_pool \<Rightarrow> http_pool \<times> c_int" where
  "http_create_context p = pool_create ht_active http_fresh p"

definition http_off :: "HttpCtx \<Rightarrow> HttpCtx" where
  "http_off c = c\<lparr>ht_active := False\<rparr>"

definition http_destroy_context :: "http_pool \<Rightarrow> c_int \<Rightarrow> http_pool" where
  "http_destroy_context p slot = pool_destroy http_off p slot"

section \<open>The request parser\<close>

text \<open>The end of the headers, an empty line: \<open>rest\<close> is what follows it in the input.\<close>

definition http_end_headers :: "u8 list \<Rightarrow> HttpCtx \<Rightarrow> HttpCtx \<times> u8" where
  "http_end_headers rest c =
     (let c = c\<lparr>ht_phase := ph_headers_parsed\<rparr>;
          has_body = (ht_method c = 1 \<or> ht_method c = 2 \<or> ht_method c = 4)
      in if has_body \<and> rest \<noteq> [] then
           (let c = c\<lparr>ht_phase := ph_body_receiving\<rparr>;
                c = c\<lparr>ht_req_body := take (min (length rest) MAX_BODY_LEN) rest\<rparr>;
                c = c\<lparr>ht_phase := ph_complete\<rparr>
            in (c\<lparr>ht_keep_alive := checkKeepAlive (ht_req_headers c)\<rparr>, 0))
         else if \<not> has_body then
           (let c = c\<lparr>ht_phase := ph_complete\<rparr>
            in (c\<lparr>ht_keep_alive := checkKeepAlive (ht_req_headers c)\<rparr>, 0))
         else (c\<lparr>ht_phase := ph_body_receiving\<rparr>, 2))"

text \<open>
  The loop over the header lines; its argument is the input from the position \<open>pos\<close> on. A line without
  a colon is skipped, and a header that does not fit is dropped.
\<close>

function http_header_loop :: "u8 list \<Rightarrow> HttpCtx \<Rightarrow> HttpCtx \<times> u8" where
  "http_header_loop input c =
     (if input = [] then (c, 2)
      else case findEol input of
          None \<Rightarrow> (c, 2)
        | Some line_end \<Rightarrow>
            (let line = trimWhitespace (take line_end input); rest = drop line_end input in
             if line = [] then http_end_headers rest c
             else case first_index (\<lambda>b. b = 58) line of
                 None \<Rightarrow> http_header_loop rest c
               | Some colon \<Rightarrow>
                   (let key = trimWhitespace (take colon line); value = trimWhitespace (drop (colon + 1) line) in
                    http_header_loop rest
                      (case addHeaderToArray (ht_req_headers c) key value of
                         Some hs \<Rightarrow> c\<lparr>ht_req_headers := hs\<rparr>
                       | None \<Rightarrow> c))))"
  by pat_completeness auto

termination
  by (relation "measure (\<lambda>(input, c). length input)") (auto simp: findEol_def)

declare http_header_loop.simps [simp del]

definition http_abort :: "HttpCtx \<Rightarrow> HttpCtx \<times> u8" where
  "http_abort c = (c\<lparr>ht_phase := ph_sent\<rparr>, 1)"

text \<open>From the request line on, with \<open>rl_end\<close> the end of the first line.\<close>

definition http_request_line :: "u8 list \<Rightarrow> nat \<Rightarrow> HttpCtx \<Rightarrow> HttpCtx \<times> u8" where
  "http_request_line input rl_end c =
     (let request_line = trimWhitespace (take rl_end input) in
      case first_index (\<lambda>b. b = 32) request_line of
        None \<Rightarrow> http_abort c
      | Some sp1 \<Rightarrow>
          (let method_str = take sp1 request_line; rest1 = drop (sp1 + 1) request_line in
           case first_index (\<lambda>b. b = 32) rest1 of
             None \<Rightarrow> http_abort c
           | Some sp2 \<Rightarrow>
               (let path_str = take sp2 rest1; version_str = drop (sp2 + 1) rest1;
                    method_tag = parseMethodStr method_str in
                if method_tag = 255 then http_abort c
                else let c = c\<lparr>ht_method := method_tag\<rparr>; version_tag = parseVersionStr version_str in
                  if version_tag = 255 then http_abort c
                  else let c = c\<lparr>ht_version := version_tag\<rparr> in
                    if path_str = [] \<or> length path_str > MAX_PATH_LEN then http_abort c
                    else http_header_loop (drop rl_end input) (c\<lparr>ht_path := path_str\<rparr>))))"

definition http_parse_request_on :: "u8 list \<Rightarrow> HttpCtx \<Rightarrow> HttpCtx \<times> u8" where [op_simps]:
  "http_parse_request_on input c =
     (if ht_phase c \<noteq> ph_idle \<and> ht_phase c \<noteq> ph_receiving \<and> ht_phase c \<noteq> ph_body_receiving then (c, 1)
      else let c = (if ht_phase c = ph_idle then c\<lparr>ht_phase := ph_receiving\<rparr> else c) in
        if ht_phase c = ph_body_receiving then
          (let remaining = MAX_BODY_LEN - length (ht_req_body c);
               to_copy = min (length input) remaining
           in (c\<lparr>ht_req_body := ht_req_body c @ take to_copy input, ht_phase := ph_complete\<rparr>, 0))
        else case findEol input of
            None \<Rightarrow> (c, 2)
          | Some rl_end \<Rightarrow> http_request_line input rl_end c)"

section \<open>Queries\<close>

text \<open>The byte queries give the bytes they write to the caller's buffer of \<open>len\<close> bytes.\<close>

definition http_get_method :: "http_pool \<Rightarrow> c_int \<Rightarrow> u8" where
  "http_get_method p slot = query_slot ht_active p slot 255 ht_method"

definition http_get_path :: "http_pool \<Rightarrow> c_int \<Rightarrow> u32 \<Rightarrow> u8 list" where
  "http_get_path p slot len = query_slot ht_active p slot [] (\<lambda>c. take (min (length (ht_path c)) (unat len)) (ht_path c))"

definition http_get_header :: "http_pool \<Rightarrow> c_int \<Rightarrow> u8 list \<Rightarrow> u32 \<Rightarrow> u8 list" where
  "http_get_header p slot search_key blen = query_slot ht_active p slot []
     (\<lambda>c. case find (\<lambda>h. hd_active h \<and> map lower (hd_key h) = map lower search_key) (ht_req_headers c) of
        Some h \<Rightarrow> take (min (length (hd_value h)) (unat blen)) (hd_value h)
      | None \<Rightarrow> [])"

definition http_get_body :: "http_pool \<Rightarrow> c_int \<Rightarrow> u32 \<Rightarrow> u8 list" where
  "http_get_body p slot len = query_slot ht_active p slot []
     (\<lambda>c. take (min (length (ht_req_body c)) (unat len)) (ht_req_body c))"

definition http_keep_alive_check :: "http_pool \<Rightarrow> c_int \<Rightarrow> u8" where
  "http_keep_alive_check p slot = query_slot ht_active p slot 0 (\<lambda>c. if ht_keep_alive c then 1 else 0)"

definition http_get_phase :: "http_pool \<Rightarrow> c_int \<Rightarrow> u8" where
  "http_get_phase p slot = query_slot ht_active p slot 6 (\<lambda>c. phase_tag (ht_phase c))"

definition http_get_version :: "http_pool \<Rightarrow> c_int \<Rightarrow> u8" where
  "http_get_version p slot = query_slot ht_active p slot 255 ht_version"

section \<open>The response\<close>

definition http_set_status_on :: "u8 \<Rightarrow> HttpCtx \<Rightarrow> HttpCtx \<times> u8" where [op_simps]:
  "http_set_status_on status_tag c =
     (if ht_phase c \<noteq> ph_complete \<and> ht_phase c \<noteq> ph_responding then (c, 1)
      else if status_tag > 28 then (c, 1)
      else let c = c\<lparr>ht_resp_status := status_tag\<rparr> in
        (if ht_phase c = ph_complete then c\<lparr>ht_phase := ph_responding\<rparr> else c, 0))"

definition http_set_header_on :: "u8 list \<Rightarrow> u8 list \<Rightarrow> HttpCtx \<Rightarrow> HttpCtx \<times> u8" where [op_simps]:
  "http_set_header_on key val c =
     (if ht_phase c \<noteq> ph_complete \<and> ht_phase c \<noteq> ph_responding then (c, 1)
      else let c = (if ht_phase c = ph_complete then c\<lparr>ht_phase := ph_responding\<rparr> else c) in
        case addHeaderToArray (ht_resp_headers c) key val of
          None \<Rightarrow> (c, 1)
        | Some hs \<Rightarrow> (c\<lparr>ht_resp_headers := hs\<rparr>, 0))"

definition http_set_body_on :: "u8 list \<Rightarrow> HttpCtx \<Rightarrow> HttpCtx \<times> u8" where [op_simps]:
  "http_set_body_on data c =
     (if ht_phase c \<noteq> ph_complete \<and> ht_phase c \<noteq> ph_responding then (c, 1)
      else if length data > MAX_BODY_LEN then (c, 1)
      else let c = (if ht_phase c = ph_complete then c\<lparr>ht_phase := ph_responding\<rparr> else c) in
        (c\<lparr>ht_resp_body := data\<rparr>, 0))"

definition http_send_response_on :: "HttpCtx \<Rightarrow> HttpCtx \<times> u8" where [op_simps]:
  "http_send_response_on c =
     (if ht_phase c \<noteq> ph_responding then (c, 1) else (c\<lparr>ht_phase := ph_sent\<rparr>, 0))"

definition http_reset_context_on :: "HttpCtx \<Rightarrow> HttpCtx \<times> u8" where [op_simps]:
  "http_reset_context_on c =
     (if ht_phase c \<noteq> ph_sent then (c, 1) else (empty_ctx\<lparr>ht_active := True, ht_phase := ph_idle\<rparr>, 0))"

section \<open>The exported operations\<close>

definition http_parse_request :: "http_pool \<Rightarrow> c_int \<Rightarrow> u8 list \<Rightarrow> http_pool \<times> u8" where
  "http_parse_request p slot data = on_slot ht_active p slot 1 (http_parse_request_on data)"

definition http_set_status :: "http_pool \<Rightarrow> c_int \<Rightarrow> u8 \<Rightarrow> http_pool \<times> u8" where
  "http_set_status p slot status_tag = on_slot ht_active p slot 1 (http_set_status_on status_tag)"

definition http_set_header :: "http_pool \<Rightarrow> c_int \<Rightarrow> u8 list \<Rightarrow> u8 list \<Rightarrow> http_pool \<times> u8" where
  "http_set_header p slot key val = on_slot ht_active p slot 1 (http_set_header_on key val)"

definition http_set_body :: "http_pool \<Rightarrow> c_int \<Rightarrow> u8 list \<Rightarrow> http_pool \<times> u8" where
  "http_set_body p slot data = on_slot ht_active p slot 1 (http_set_body_on data)"

definition http_send_response :: "http_pool \<Rightarrow> c_int \<Rightarrow> http_pool \<times> u8" where
  "http_send_response p slot = on_slot ht_active p slot 1 http_send_response_on"

definition http_reset_context :: "http_pool \<Rightarrow> c_int \<Rightarrow> http_pool \<times> u8" where
  "http_reset_context p slot = on_slot ht_active p slot 1 http_reset_context_on"

definition http_can_transition :: "u8 \<Rightarrow> u8 \<Rightarrow> u8" where
  "http_can_transition from to =
     (if from = 0 \<and> to = 1 then 1
      else if from = 1 \<and> to = 2 then 1
      else if from = 2 \<and> to = 3 then 1
      else if from = 2 \<and> to = 4 then 1
      else if from = 3 \<and> to = 4 then 1
      else if from = 4 \<and> to = 5 then 1
      else if from = 5 \<and> to = 6 then 1
      else if from = 6 \<and> to = 0 then 1
      else if from = 1 \<and> to = 6 then 1
      else if from = 2 \<and> to = 6 then 1
      else if from = 3 \<and> to = 6 then 1
      else if from = 4 \<and> to = 6 then 1
      else 0)"

end
