(* ===== verification/Text_Format.thy ===== *)
theory Text_Format
  imports Prelude
begin

text \<open>
  The number formatting of the standard library that the \<open>Display\<close> implementations use:
  \<open>{}\<close> for an unsigned number (decimal) and \<open>{:X}\<close> (upper case hexadecimal).
\<close>

definition digit :: "nat \<Rightarrow> char" where
  "digit d = char_of (if d < 10 then 48 + d else 55 + d)"

function show_base :: "nat \<Rightarrow> nat \<Rightarrow> string" where
  "show_base b n = (if n < b \<or> b < 2 then [digit n] else show_base b (n div b) @ [digit (n mod b)])"
  by pat_completeness auto

termination
  by (relation "measure snd") auto

declare show_base.simps [simp del]

definition show_dec :: "nat \<Rightarrow> string" where
  "show_dec n = show_base 10 n"

definition show_hex :: "nat \<Rightarrow> string" where
  "show_hex n = show_base 16 n"

text \<open>Two different numbers are never shown the same way.\<close>

lemma digit_inject: "c < 16 \<Longrightarrow> d < 16 \<Longrightarrow> digit c = digit d \<Longrightarrow> c = d"
proof -
  assume "c < 16" "d < 16" "digit c = digit d"
  then have "of_char (digit c) = (of_char (digit d) :: nat)" by simp
  with \<open>c < 16\<close> \<open>d < 16\<close> show "c = d"
    by (simp add: digit_def split: if_splits)
qed

lemma show_base_not_Nil [simp]: "show_base b n \<noteq> []"
  by (subst show_base.simps) simp

lemma show_base_inject:
  assumes "2 \<le> b" "b \<le> 16" "show_base b m = show_base b n"
  shows "m = n"
  using assms(3)
proof (induction m arbitrary: n rule: less_induct)
  case (less m)
  have last: "last (show_base b k) = digit (k mod b)" "butlast (show_base b k) = (if k < b then [] else show_base b (k div b))" for k
    using assms(1) by (subst show_base.simps; simp)+
  have "m mod b = n mod b"
    using digit_inject [of "m mod b" "n mod b"] last(1) [of m] last(1) [of n] less.prems assms(1,2)
    by (metis less_le_trans mod_less_divisor zero_less_numeral)
  moreover have "m div b = n div b"
  proof (cases "m < b \<or> n < b")
    case True
    with last(2) [of m] last(2) [of n] less.prems show ?thesis by (metis div_less show_base_not_Nil)
  next
    case False
    then have "m div b < m" using assms(1) by simp
    moreover have "show_base b (m div b) = show_base b (n div b)"
      using last(2) [of m] last(2) [of n] less.prems False by simp
    ultimately show ?thesis by (rule less.IH)
  qed
  ultimately show "m = n" by (metis div_mult_mod_eq)
qed

lemma show_dec_inject [simp]: "show_dec m = show_dec n \<longleftrightarrow> m = n"
  by (auto simp: show_dec_def dest: show_base_inject [rotated 2])

lemma show_hex_inject [simp]: "show_hex m = show_hex n \<longleftrightarrow> m = n"
  by (auto simp: show_hex_def dest: show_base_inject [rotated 2])

end
