(* ===== verification/Http_Types.thy ===== *)
theory Http_Types
  imports Tag_Codec Text_Format
begin

text \<open>
  The pure types of \<open>bindings/rust/src/http.rs\<close>: methods, versions, status codes and their categories, content
  and header types, the request phases with their transition validation; and the parse result of \<open>ffi_httpd.rs\<close>.
\<close>

section \<open>\<open>http::Method\<close>\<close>

datatype (plugins only: code) Http_Method =
    Get
  | Post
  | Put
  | Delete
  | Patch
  | Head
  | Options
  | Trace
  | Connect

definition Http_Method_parse :: "string \<Rightarrow> Http_Method option" where
  "Http_Method_parse s =
     (if s = ''GET'' then Some Http_Method.Get
      else if s = ''POST'' then Some Http_Method.Post
      else if s = ''PUT'' then Some Http_Method.Put
      else if s = ''DELETE'' then Some Http_Method.Delete
      else if s = ''PATCH'' then Some Http_Method.Patch
      else if s = ''HEAD'' then Some Http_Method.Head
      else if s = ''OPTIONS'' then Some Http_Method.Options
      else if s = ''TRACE'' then Some Http_Method.Trace
      else if s = ''CONNECT'' then Some Http_Method.Connect
      else option.None)"

definition Http_Method_from_tag :: "u8 \<Rightarrow> Http_Method option" where
  "Http_Method_from_tag tag =
     (if tag = 0 then Some Http_Method.Get
      else if tag = 1 then Some Http_Method.Post
      else if tag = 2 then Some Http_Method.Put
      else if tag = 3 then Some Http_Method.Delete
      else if tag = 4 then Some Http_Method.Patch
      else if tag = 5 then Some Http_Method.Head
      else if tag = 6 then Some Http_Method.Options
      else if tag = 7 then Some Http_Method.Trace
      else if tag = 8 then Some Http_Method.Connect
      else option.None)"

primrec Http_Method_to_tag :: "Http_Method \<Rightarrow> u8" where
  "Http_Method_to_tag Http_Method.Get = 0"
| "Http_Method_to_tag Http_Method.Post = 1"
| "Http_Method_to_tag Http_Method.Put = 2"
| "Http_Method_to_tag Http_Method.Delete = 3"
| "Http_Method_to_tag Http_Method.Patch = 4"
| "Http_Method_to_tag Http_Method.Head = 5"
| "Http_Method_to_tag Http_Method.Options = 6"
| "Http_Method_to_tag Http_Method.Trace = 7"
| "Http_Method_to_tag Http_Method.Connect = 8"

definition Http_Method_as_str :: "Http_Method \<Rightarrow> string" where
  "Http_Method_as_str self =
     (case self of
      Http_Method.Get \<Rightarrow> ''GET''
    | Http_Method.Post \<Rightarrow> ''POST''
    | Http_Method.Put \<Rightarrow> ''PUT''
    | Http_Method.Delete \<Rightarrow> ''DELETE''
    | Http_Method.Patch \<Rightarrow> ''PATCH''
    | Http_Method.Head \<Rightarrow> ''HEAD''
    | Http_Method.Options \<Rightarrow> ''OPTIONS''
    | Http_Method.Trace \<Rightarrow> ''TRACE''
    | Http_Method.Connect \<Rightarrow> ''CONNECT'')"

definition Http_Method_is_safe :: "Http_Method \<Rightarrow> bool" where
  "Http_Method_is_safe self =
     (case self of
      Http_Method.Get \<Rightarrow> True
    | Http_Method.Head \<Rightarrow> True
    | Http_Method.Options \<Rightarrow> True
    | Http_Method.Trace \<Rightarrow> True
    | _ \<Rightarrow> False)"

definition Http_Method_is_idempotent :: "Http_Method \<Rightarrow> bool" where
  "Http_Method_is_idempotent self =
     (case self of
      Http_Method.Get \<Rightarrow> True
    | Http_Method.Head \<Rightarrow> True
    | Http_Method.Put \<Rightarrow> True
    | Http_Method.Delete \<Rightarrow> True
    | Http_Method.Options \<Rightarrow> True
    | Http_Method.Trace \<Rightarrow> True
    | _ \<Rightarrow> False)"

definition Http_Method_has_request_body :: "Http_Method \<Rightarrow> bool" where
  "Http_Method_has_request_body self =
     (case self of
      Http_Method.Post \<Rightarrow> True
    | Http_Method.Put \<Rightarrow> True
    | Http_Method.Patch \<Rightarrow> True
    | _ \<Rightarrow> False)"

definition Http_Method_ALL :: "Http_Method list" where
  "Http_Method_ALL =
     [Http_Method.Get, Http_Method.Post, Http_Method.Put, Http_Method.Delete, Http_Method.Patch,
      Http_Method.Head, Http_Method.Options, Http_Method.Trace, Http_Method.Connect]"

definition Http_Method_fmt :: "Http_Method \<Rightarrow> string" where
  "Http_Method_fmt self = Http_Method_as_str self"

section \<open>\<open>http::Version\<close>\<close>

datatype (plugins only: code) Http_Version =
    Http10
  | Http11
  | Http20
  | Http30

text \<open>\<open>derive(PartialOrd, Ord)\<close>: the order of the declaration.\<close>

primrec Http_Version_rank :: "Http_Version \<Rightarrow> nat" where
  "Http_Version_rank Http_Version.Http10 = 0"
| "Http_Version_rank Http_Version.Http11 = 1"
| "Http_Version_rank Http_Version.Http20 = 2"
| "Http_Version_rank Http_Version.Http30 = 3"

instantiation Http_Version :: linorder
begin

definition less_eq_Http_Version :: "Http_Version \<Rightarrow> Http_Version \<Rightarrow> bool" where
  "less_eq_Http_Version x y \<longleftrightarrow> Http_Version_rank x \<le> Http_Version_rank y"

definition less_Http_Version :: "Http_Version \<Rightarrow> Http_Version \<Rightarrow> bool" where
  "less_Http_Version x y \<longleftrightarrow> Http_Version_rank x < Http_Version_rank y"

instance
proof
  fix x y z :: Http_Version
  show "(x < y) = (x \<le> y \<and> \<not> y \<le> x)" "x \<le> x" "x \<le> y \<or> y \<le> x"
    by (auto simp: less_eq_Http_Version_def less_Http_Version_def)
  show "x \<le> y \<Longrightarrow> y \<le> z \<Longrightarrow> x \<le> z" by (simp add: less_eq_Http_Version_def)
  show "x \<le> y \<Longrightarrow> y \<le> x \<Longrightarrow> x = y" by (cases x; cases y; simp add: less_eq_Http_Version_def)
qed

end

definition Http_Version_from_tag :: "u8 \<Rightarrow> Http_Version option" where
  "Http_Version_from_tag tag =
     (if tag = 0 then Some Http_Version.Http10
      else if tag = 1 then Some Http_Version.Http11
      else if tag = 2 then Some Http_Version.Http20
      else if tag = 3 then Some Http_Version.Http30
      else option.None)"

primrec Http_Version_to_tag :: "Http_Version \<Rightarrow> u8" where
  "Http_Version_to_tag Http_Version.Http10 = 0"
| "Http_Version_to_tag Http_Version.Http11 = 1"
| "Http_Version_to_tag Http_Version.Http20 = 2"
| "Http_Version_to_tag Http_Version.Http30 = 3"

definition Http_Version_as_str :: "Http_Version \<Rightarrow> string" where
  "Http_Version_as_str self =
     (case self of
      Http_Version.Http10 \<Rightarrow> ''HTTP/1.0''
    | Http_Version.Http11 \<Rightarrow> ''HTTP/1.1''
    | Http_Version.Http20 \<Rightarrow> ''HTTP/2''
    | Http_Version.Http30 \<Rightarrow> ''HTTP/3'')"

definition Http_Version_fmt :: "Http_Version \<Rightarrow> string" where
  "Http_Version_fmt self = Http_Version_as_str self"

section \<open>\<open>http::StatusCategory\<close>\<close>

datatype (plugins only: code) StatusCategory =
    Informational
  | Success
  | Redirect
  | ClientError
  | ServerError

definition StatusCategory_from_tag :: "u8 \<Rightarrow> StatusCategory option" where
  "StatusCategory_from_tag tag =
     (if tag = 0 then Some StatusCategory.Informational
      else if tag = 1 then Some StatusCategory.Success
      else if tag = 2 then Some StatusCategory.Redirect
      else if tag = 3 then Some StatusCategory.ClientError
      else if tag = 4 then Some StatusCategory.ServerError
      else option.None)"

primrec StatusCategory_to_tag :: "StatusCategory \<Rightarrow> u8" where
  "StatusCategory_to_tag StatusCategory.Informational = 0"
| "StatusCategory_to_tag StatusCategory.Success = 1"
| "StatusCategory_to_tag StatusCategory.Redirect = 2"
| "StatusCategory_to_tag StatusCategory.ClientError = 3"
| "StatusCategory_to_tag StatusCategory.ServerError = 4"

definition StatusCategory_fmt :: "StatusCategory \<Rightarrow> string" where
  "StatusCategory_fmt self =
     (case self of
      StatusCategory.Informational \<Rightarrow> ''Informational''
    | StatusCategory.Success \<Rightarrow> ''Success''
    | StatusCategory.Redirect \<Rightarrow> ''Redirect''
    | StatusCategory.ClientError \<Rightarrow> ''ClientError''
    | StatusCategory.ServerError \<Rightarrow> ''ServerError'')"

section \<open>\<open>http::StatusCode\<close>\<close>

datatype (plugins only: code) Http_StatusCode =
    Continue
  | SwitchingProtocols
  | Ok
  | Created
  | Accepted
  | NoContent
  | MovedPermanently
  | Found
  | NotModified
  | TemporaryRedirect
  | PermanentRedirect
  | BadRequest
  | Unauthorized
  | Forbidden
  | NotFound
  | MethodNotAllowed
  | RequestTimeout
  | Conflict
  | Gone
  | LengthRequired
  | PayloadTooLarge
  | UriTooLong
  | UnsupportedMedia
  | TooManyRequests
  | InternalError
  | NotImplemented
  | BadGateway
  | ServiceUnavailable
  | GatewayTimeout

definition Http_StatusCode_from_tag :: "u8 \<Rightarrow> Http_StatusCode option" where
  "Http_StatusCode_from_tag tag =
     (if tag = 0 then Some Http_StatusCode.Continue
      else if tag = 1 then Some Http_StatusCode.SwitchingProtocols
      else if tag = 2 then Some Http_StatusCode.Ok
      else if tag = 3 then Some Http_StatusCode.Created
      else if tag = 4 then Some Http_StatusCode.Accepted
      else if tag = 5 then Some Http_StatusCode.NoContent
      else if tag = 6 then Some Http_StatusCode.MovedPermanently
      else if tag = 7 then Some Http_StatusCode.Found
      else if tag = 8 then Some Http_StatusCode.NotModified
      else if tag = 9 then Some Http_StatusCode.TemporaryRedirect
      else if tag = 10 then Some Http_StatusCode.PermanentRedirect
      else if tag = 11 then Some Http_StatusCode.BadRequest
      else if tag = 12 then Some Http_StatusCode.Unauthorized
      else if tag = 13 then Some Http_StatusCode.Forbidden
      else if tag = 14 then Some Http_StatusCode.NotFound
      else if tag = 15 then Some Http_StatusCode.MethodNotAllowed
      else if tag = 16 then Some Http_StatusCode.RequestTimeout
      else if tag = 17 then Some Http_StatusCode.Conflict
      else if tag = 18 then Some Http_StatusCode.Gone
      else if tag = 19 then Some Http_StatusCode.LengthRequired
      else if tag = 20 then Some Http_StatusCode.PayloadTooLarge
      else if tag = 21 then Some Http_StatusCode.UriTooLong
      else if tag = 22 then Some Http_StatusCode.UnsupportedMedia
      else if tag = 23 then Some Http_StatusCode.TooManyRequests
      else if tag = 24 then Some Http_StatusCode.InternalError
      else if tag = 25 then Some Http_StatusCode.NotImplemented
      else if tag = 26 then Some Http_StatusCode.BadGateway
      else if tag = 27 then Some Http_StatusCode.ServiceUnavailable
      else if tag = 28 then Some Http_StatusCode.GatewayTimeout
      else option.None)"

primrec Http_StatusCode_to_tag :: "Http_StatusCode \<Rightarrow> u8" where
  "Http_StatusCode_to_tag Http_StatusCode.Continue = 0"
| "Http_StatusCode_to_tag Http_StatusCode.SwitchingProtocols = 1"
| "Http_StatusCode_to_tag Http_StatusCode.Ok = 2"
| "Http_StatusCode_to_tag Http_StatusCode.Created = 3"
| "Http_StatusCode_to_tag Http_StatusCode.Accepted = 4"
| "Http_StatusCode_to_tag Http_StatusCode.NoContent = 5"
| "Http_StatusCode_to_tag Http_StatusCode.MovedPermanently = 6"
| "Http_StatusCode_to_tag Http_StatusCode.Found = 7"
| "Http_StatusCode_to_tag Http_StatusCode.NotModified = 8"
| "Http_StatusCode_to_tag Http_StatusCode.TemporaryRedirect = 9"
| "Http_StatusCode_to_tag Http_StatusCode.PermanentRedirect = 10"
| "Http_StatusCode_to_tag Http_StatusCode.BadRequest = 11"
| "Http_StatusCode_to_tag Http_StatusCode.Unauthorized = 12"
| "Http_StatusCode_to_tag Http_StatusCode.Forbidden = 13"
| "Http_StatusCode_to_tag Http_StatusCode.NotFound = 14"
| "Http_StatusCode_to_tag Http_StatusCode.MethodNotAllowed = 15"
| "Http_StatusCode_to_tag Http_StatusCode.RequestTimeout = 16"
| "Http_StatusCode_to_tag Http_StatusCode.Conflict = 17"
| "Http_StatusCode_to_tag Http_StatusCode.Gone = 18"
| "Http_StatusCode_to_tag Http_StatusCode.LengthRequired = 19"
| "Http_StatusCode_to_tag Http_StatusCode.PayloadTooLarge = 20"
| "Http_StatusCode_to_tag Http_StatusCode.UriTooLong = 21"
| "Http_StatusCode_to_tag Http_StatusCode.UnsupportedMedia = 22"
| "Http_StatusCode_to_tag Http_StatusCode.TooManyRequests = 23"
| "Http_StatusCode_to_tag Http_StatusCode.InternalError = 24"
| "Http_StatusCode_to_tag Http_StatusCode.NotImplemented = 25"
| "Http_StatusCode_to_tag Http_StatusCode.BadGateway = 26"
| "Http_StatusCode_to_tag Http_StatusCode.ServiceUnavailable = 27"
| "Http_StatusCode_to_tag Http_StatusCode.GatewayTimeout = 28"

definition Http_StatusCode_numeric_code :: "Http_StatusCode \<Rightarrow> u16" where
  "Http_StatusCode_numeric_code self =
     (case self of
      Http_StatusCode.Continue \<Rightarrow> 100
    | Http_StatusCode.SwitchingProtocols \<Rightarrow> 101
    | Http_StatusCode.Ok \<Rightarrow> 200
    | Http_StatusCode.Created \<Rightarrow> 201
    | Http_StatusCode.Accepted \<Rightarrow> 202
    | Http_StatusCode.NoContent \<Rightarrow> 204
    | Http_StatusCode.MovedPermanently \<Rightarrow> 301
    | Http_StatusCode.Found \<Rightarrow> 302
    | Http_StatusCode.NotModified \<Rightarrow> 304
    | Http_StatusCode.TemporaryRedirect \<Rightarrow> 307
    | Http_StatusCode.PermanentRedirect \<Rightarrow> 308
    | Http_StatusCode.BadRequest \<Rightarrow> 400
    | Http_StatusCode.Unauthorized \<Rightarrow> 401
    | Http_StatusCode.Forbidden \<Rightarrow> 403
    | Http_StatusCode.NotFound \<Rightarrow> 404
    | Http_StatusCode.MethodNotAllowed \<Rightarrow> 405
    | Http_StatusCode.RequestTimeout \<Rightarrow> 408
    | Http_StatusCode.Conflict \<Rightarrow> 409
    | Http_StatusCode.Gone \<Rightarrow> 410
    | Http_StatusCode.LengthRequired \<Rightarrow> 411
    | Http_StatusCode.PayloadTooLarge \<Rightarrow> 413
    | Http_StatusCode.UriTooLong \<Rightarrow> 414
    | Http_StatusCode.UnsupportedMedia \<Rightarrow> 415
    | Http_StatusCode.TooManyRequests \<Rightarrow> 429
    | Http_StatusCode.InternalError \<Rightarrow> 500
    | Http_StatusCode.NotImplemented \<Rightarrow> 501
    | Http_StatusCode.BadGateway \<Rightarrow> 502
    | Http_StatusCode.ServiceUnavailable \<Rightarrow> 503
    | Http_StatusCode.GatewayTimeout \<Rightarrow> 504)"

definition Http_StatusCode_from_numeric :: "u16 \<Rightarrow> Http_StatusCode option" where
  "Http_StatusCode_from_numeric code =
     (if code = 100 then Some Http_StatusCode.Continue
      else if code = 101 then Some Http_StatusCode.SwitchingProtocols
      else if code = 200 then Some Http_StatusCode.Ok
      else if code = 201 then Some Http_StatusCode.Created
      else if code = 202 then Some Http_StatusCode.Accepted
      else if code = 204 then Some Http_StatusCode.NoContent
      else if code = 301 then Some Http_StatusCode.MovedPermanently
      else if code = 302 then Some Http_StatusCode.Found
      else if code = 304 then Some Http_StatusCode.NotModified
      else if code = 307 then Some Http_StatusCode.TemporaryRedirect
      else if code = 308 then Some Http_StatusCode.PermanentRedirect
      else if code = 400 then Some Http_StatusCode.BadRequest
      else if code = 401 then Some Http_StatusCode.Unauthorized
      else if code = 403 then Some Http_StatusCode.Forbidden
      else if code = 404 then Some Http_StatusCode.NotFound
      else if code = 405 then Some Http_StatusCode.MethodNotAllowed
      else if code = 408 then Some Http_StatusCode.RequestTimeout
      else if code = 409 then Some Http_StatusCode.Conflict
      else if code = 410 then Some Http_StatusCode.Gone
      else if code = 411 then Some Http_StatusCode.LengthRequired
      else if code = 413 then Some Http_StatusCode.PayloadTooLarge
      else if code = 414 then Some Http_StatusCode.UriTooLong
      else if code = 415 then Some Http_StatusCode.UnsupportedMedia
      else if code = 429 then Some Http_StatusCode.TooManyRequests
      else if code = 500 then Some Http_StatusCode.InternalError
      else if code = 501 then Some Http_StatusCode.NotImplemented
      else if code = 502 then Some Http_StatusCode.BadGateway
      else if code = 503 then Some Http_StatusCode.ServiceUnavailable
      else if code = 504 then Some Http_StatusCode.GatewayTimeout
      else option.None)"

definition Http_StatusCode_reason_phrase :: "Http_StatusCode \<Rightarrow> string" where
  "Http_StatusCode_reason_phrase self =
     (case self of
      Http_StatusCode.Continue \<Rightarrow> ''Continue''
    | Http_StatusCode.SwitchingProtocols \<Rightarrow> ''Switching Protocols''
    | Http_StatusCode.Ok \<Rightarrow> ''OK''
    | Http_StatusCode.Created \<Rightarrow> ''Created''
    | Http_StatusCode.Accepted \<Rightarrow> ''Accepted''
    | Http_StatusCode.NoContent \<Rightarrow> ''No Content''
    | Http_StatusCode.MovedPermanently \<Rightarrow> ''Moved Permanently''
    | Http_StatusCode.Found \<Rightarrow> ''Found''
    | Http_StatusCode.NotModified \<Rightarrow> ''Not Modified''
    | Http_StatusCode.TemporaryRedirect \<Rightarrow> ''Temporary Redirect''
    | Http_StatusCode.PermanentRedirect \<Rightarrow> ''Permanent Redirect''
    | Http_StatusCode.BadRequest \<Rightarrow> ''Bad Request''
    | Http_StatusCode.Unauthorized \<Rightarrow> ''Unauthorized''
    | Http_StatusCode.Forbidden \<Rightarrow> ''Forbidden''
    | Http_StatusCode.NotFound \<Rightarrow> ''Not Found''
    | Http_StatusCode.MethodNotAllowed \<Rightarrow> ''Method Not Allowed''
    | Http_StatusCode.RequestTimeout \<Rightarrow> ''Request Timeout''
    | Http_StatusCode.Conflict \<Rightarrow> ''Conflict''
    | Http_StatusCode.Gone \<Rightarrow> ''Gone''
    | Http_StatusCode.LengthRequired \<Rightarrow> ''Length Required''
    | Http_StatusCode.PayloadTooLarge \<Rightarrow> ''Payload Too Large''
    | Http_StatusCode.UriTooLong \<Rightarrow> ''URI Too Long''
    | Http_StatusCode.UnsupportedMedia \<Rightarrow> ''Unsupported Media Type''
    | Http_StatusCode.TooManyRequests \<Rightarrow> ''Too Many Requests''
    | Http_StatusCode.InternalError \<Rightarrow> ''Internal Server Error''
    | Http_StatusCode.NotImplemented \<Rightarrow> ''Not Implemented''
    | Http_StatusCode.BadGateway \<Rightarrow> ''Bad Gateway''
    | Http_StatusCode.ServiceUnavailable \<Rightarrow> ''Service Unavailable''
    | Http_StatusCode.GatewayTimeout \<Rightarrow> ''Gateway Timeout'')"

section \<open>\<open>http::ContentType\<close>\<close>

datatype (plugins only: code) Http_ContentType =
    TextPlain
  | TextHtml
  | ApplicationJson
  | ApplicationXml
  | ApplicationForm
  | MultipartForm
  | OctetStream
  | TextCss

definition Http_ContentType_from_tag :: "u8 \<Rightarrow> Http_ContentType option" where
  "Http_ContentType_from_tag tag =
     (if tag = 0 then Some Http_ContentType.TextPlain
      else if tag = 1 then Some Http_ContentType.TextHtml
      else if tag = 2 then Some Http_ContentType.ApplicationJson
      else if tag = 3 then Some Http_ContentType.ApplicationXml
      else if tag = 4 then Some Http_ContentType.ApplicationForm
      else if tag = 5 then Some Http_ContentType.MultipartForm
      else if tag = 6 then Some Http_ContentType.OctetStream
      else if tag = 7 then Some Http_ContentType.TextCss
      else option.None)"

primrec Http_ContentType_to_tag :: "Http_ContentType \<Rightarrow> u8" where
  "Http_ContentType_to_tag Http_ContentType.TextPlain = 0"
| "Http_ContentType_to_tag Http_ContentType.TextHtml = 1"
| "Http_ContentType_to_tag Http_ContentType.ApplicationJson = 2"
| "Http_ContentType_to_tag Http_ContentType.ApplicationXml = 3"
| "Http_ContentType_to_tag Http_ContentType.ApplicationForm = 4"
| "Http_ContentType_to_tag Http_ContentType.MultipartForm = 5"
| "Http_ContentType_to_tag Http_ContentType.OctetStream = 6"
| "Http_ContentType_to_tag Http_ContentType.TextCss = 7"

definition Http_ContentType_mime :: "Http_ContentType \<Rightarrow> string" where
  "Http_ContentType_mime self =
     (case self of
      Http_ContentType.TextPlain \<Rightarrow> ''text/plain''
    | Http_ContentType.TextHtml \<Rightarrow> ''text/html''
    | Http_ContentType.ApplicationJson \<Rightarrow> ''application/json''
    | Http_ContentType.ApplicationXml \<Rightarrow> ''application/xml''
    | Http_ContentType.ApplicationForm \<Rightarrow> ''application/x-www-form-urlencoded''
    | Http_ContentType.MultipartForm \<Rightarrow> ''multipart/form-data''
    | Http_ContentType.OctetStream \<Rightarrow> ''application/octet-stream''
    | Http_ContentType.TextCss \<Rightarrow> ''text/css'')"

definition Http_ContentType_fmt :: "Http_ContentType \<Rightarrow> string" where
  "Http_ContentType_fmt self = Http_ContentType_mime self"

section \<open>\<open>http::HeaderType\<close>\<close>

datatype (plugins only: code) HeaderType =
    ContentType
  | ContentLength
  | Host
  | Connection
  | Accept
  | UserAgent
  | Server
  | Location
  | CacheControl
  | Custom

definition HeaderType_from_tag :: "u8 \<Rightarrow> HeaderType option" where
  "HeaderType_from_tag tag =
     (if tag = 0 then Some HeaderType.ContentType
      else if tag = 1 then Some HeaderType.ContentLength
      else if tag = 2 then Some HeaderType.Host
      else if tag = 3 then Some HeaderType.Connection
      else if tag = 4 then Some HeaderType.Accept
      else if tag = 5 then Some HeaderType.UserAgent
      else if tag = 6 then Some HeaderType.Server
      else if tag = 7 then Some HeaderType.Location
      else if tag = 8 then Some HeaderType.CacheControl
      else if tag = 9 then Some HeaderType.Custom
      else option.None)"

primrec HeaderType_to_tag :: "HeaderType \<Rightarrow> u8" where
  "HeaderType_to_tag HeaderType.ContentType = 0"
| "HeaderType_to_tag HeaderType.ContentLength = 1"
| "HeaderType_to_tag HeaderType.Host = 2"
| "HeaderType_to_tag HeaderType.Connection = 3"
| "HeaderType_to_tag HeaderType.Accept = 4"
| "HeaderType_to_tag HeaderType.UserAgent = 5"
| "HeaderType_to_tag HeaderType.Server = 6"
| "HeaderType_to_tag HeaderType.Location = 7"
| "HeaderType_to_tag HeaderType.CacheControl = 8"
| "HeaderType_to_tag HeaderType.Custom = 9"

definition HeaderType_name :: "HeaderType \<Rightarrow> string" where
  "HeaderType_name self =
     (case self of
      HeaderType.ContentType \<Rightarrow> ''Content-Type''
    | HeaderType.ContentLength \<Rightarrow> ''Content-Length''
    | HeaderType.Host \<Rightarrow> ''Host''
    | HeaderType.Connection \<Rightarrow> ''Connection''
    | HeaderType.Accept \<Rightarrow> ''Accept''
    | HeaderType.UserAgent \<Rightarrow> ''User-Agent''
    | HeaderType.Server \<Rightarrow> ''Server''
    | HeaderType.Location \<Rightarrow> ''Location''
    | HeaderType.CacheControl \<Rightarrow> ''Cache-Control''
    | HeaderType.Custom \<Rightarrow> ''X-Custom'')"

definition HeaderType_fmt :: "HeaderType \<Rightarrow> string" where
  "HeaderType_fmt self = HeaderType_name self"

section \<open>\<open>http::RequestPhase\<close>\<close>

datatype (plugins only: code) RequestPhase =
    Idle
  | Receiving
  | HeadersParsed
  | BodyReceiving
  | Complete
  | Responding
  | Sent

definition RequestPhase_from_tag :: "u8 \<Rightarrow> RequestPhase option" where
  "RequestPhase_from_tag tag =
     (if tag = 0 then Some RequestPhase.Idle
      else if tag = 1 then Some RequestPhase.Receiving
      else if tag = 2 then Some RequestPhase.HeadersParsed
      else if tag = 3 then Some RequestPhase.BodyReceiving
      else if tag = 4 then Some RequestPhase.Complete
      else if tag = 5 then Some RequestPhase.Responding
      else if tag = 6 then Some RequestPhase.Sent
      else option.None)"

primrec RequestPhase_to_tag :: "RequestPhase \<Rightarrow> u8" where
  "RequestPhase_to_tag RequestPhase.Idle = 0"
| "RequestPhase_to_tag RequestPhase.Receiving = 1"
| "RequestPhase_to_tag RequestPhase.HeadersParsed = 2"
| "RequestPhase_to_tag RequestPhase.BodyReceiving = 3"
| "RequestPhase_to_tag RequestPhase.Complete = 4"
| "RequestPhase_to_tag RequestPhase.Responding = 5"
| "RequestPhase_to_tag RequestPhase.Sent = 6"

section \<open>\<open>http::HttpTransition\<close>\<close>

datatype (plugins only: code) HttpTransition =
    StartReceiving
  | ParseHeaders
  | StartBody
  | NoBodyComplete
  | BodyDone
  | BeginResponse
  | FinishSend
  | KeepAliveRecycle
  | AbortReceiving
  | AbortHeadersParsed
  | AbortBodyReceiving
  | AbortComplete

definition HttpTransition_from_phase :: "HttpTransition \<Rightarrow> RequestPhase" where
  "HttpTransition_from_phase self =
     (case self of
      HttpTransition.StartReceiving \<Rightarrow> RequestPhase.Idle
    | HttpTransition.ParseHeaders \<Rightarrow> RequestPhase.Receiving
    | HttpTransition.AbortReceiving \<Rightarrow> RequestPhase.Receiving
    | HttpTransition.StartBody \<Rightarrow> RequestPhase.HeadersParsed
    | HttpTransition.NoBodyComplete \<Rightarrow> RequestPhase.HeadersParsed
    | HttpTransition.AbortHeadersParsed \<Rightarrow> RequestPhase.HeadersParsed
    | HttpTransition.BodyDone \<Rightarrow> RequestPhase.BodyReceiving
    | HttpTransition.AbortBodyReceiving \<Rightarrow> RequestPhase.BodyReceiving
    | HttpTransition.BeginResponse \<Rightarrow> RequestPhase.Complete
    | HttpTransition.AbortComplete \<Rightarrow> RequestPhase.Complete
    | HttpTransition.FinishSend \<Rightarrow> RequestPhase.Responding
    | HttpTransition.KeepAliveRecycle \<Rightarrow> RequestPhase.Sent)"

definition HttpTransition_to_phase :: "HttpTransition \<Rightarrow> RequestPhase" where
  "HttpTransition_to_phase self =
     (case self of
      HttpTransition.StartReceiving \<Rightarrow> RequestPhase.Receiving
    | HttpTransition.ParseHeaders \<Rightarrow> RequestPhase.HeadersParsed
    | HttpTransition.StartBody \<Rightarrow> RequestPhase.BodyReceiving
    | HttpTransition.NoBodyComplete \<Rightarrow> RequestPhase.Complete
    | HttpTransition.BodyDone \<Rightarrow> RequestPhase.Complete
    | HttpTransition.BeginResponse \<Rightarrow> RequestPhase.Responding
    | HttpTransition.FinishSend \<Rightarrow> RequestPhase.Sent
    | HttpTransition.AbortReceiving \<Rightarrow> RequestPhase.Sent
    | HttpTransition.AbortHeadersParsed \<Rightarrow> RequestPhase.Sent
    | HttpTransition.AbortBodyReceiving \<Rightarrow> RequestPhase.Sent
    | HttpTransition.AbortComplete \<Rightarrow> RequestPhase.Sent
    | HttpTransition.KeepAliveRecycle \<Rightarrow> RequestPhase.Idle)"

definition validate_http_transition :: "RequestPhase \<Rightarrow> RequestPhase \<Rightarrow> HttpTransition option" where
  "validate_http_transition from to =
     (case (from, to) of
      (RequestPhase.Idle, RequestPhase.Receiving) \<Rightarrow> Some HttpTransition.StartReceiving
    | (RequestPhase.Receiving, RequestPhase.HeadersParsed) \<Rightarrow> Some HttpTransition.ParseHeaders
    | (RequestPhase.HeadersParsed, RequestPhase.BodyReceiving) \<Rightarrow> Some HttpTransition.StartBody
    | (RequestPhase.HeadersParsed, RequestPhase.Complete) \<Rightarrow> Some HttpTransition.NoBodyComplete
    | (RequestPhase.BodyReceiving, RequestPhase.Complete) \<Rightarrow> Some HttpTransition.BodyDone
    | (RequestPhase.Complete, RequestPhase.Responding) \<Rightarrow> Some HttpTransition.BeginResponse
    | (RequestPhase.Responding, RequestPhase.Sent) \<Rightarrow> Some HttpTransition.FinishSend
    | (RequestPhase.Sent, RequestPhase.Idle) \<Rightarrow> Some HttpTransition.KeepAliveRecycle
    | (RequestPhase.Receiving, RequestPhase.Sent) \<Rightarrow> Some HttpTransition.AbortReceiving
    | (RequestPhase.HeadersParsed, RequestPhase.Sent) \<Rightarrow> Some HttpTransition.AbortHeadersParsed
    | (RequestPhase.BodyReceiving, RequestPhase.Sent) \<Rightarrow> Some HttpTransition.AbortBodyReceiving
    | (RequestPhase.Complete, RequestPhase.Sent) \<Rightarrow> Some HttpTransition.AbortComplete
    | _ \<Rightarrow> option.None)"

section \<open>\<open>ffi_httpd::ParseResult\<close>\<close>

datatype (plugins only: code) ParseResult =
    Complete
  | Rejected
  | NeedMore

text \<open>The parts of \<open>StatusCode\<close> that go through the tag, and its \<open>Display\<close>.\<close>

definition Http_StatusCode_category :: "Http_StatusCode \<Rightarrow> StatusCategory" where
  "Http_StatusCode_category self =
     (let tag = Http_StatusCode_to_tag self in
      if tag \<le> 1 then StatusCategory.Informational
      else if 2 \<le> tag \<and> tag \<le> 5 then StatusCategory.Success
      else if 6 \<le> tag \<and> tag \<le> 10 then StatusCategory.Redirect
      else if 11 \<le> tag \<and> tag \<le> 23 then StatusCategory.ClientError
      else if 24 \<le> tag \<and> tag \<le> 28 then StatusCategory.ServerError
      else StatusCategory.ServerError)"

definition Http_StatusCode_is_success :: "Http_StatusCode \<Rightarrow> bool" where
  "Http_StatusCode_is_success self \<longleftrightarrow> Http_StatusCode_category self = StatusCategory.Success"

definition Http_StatusCode_is_error :: "Http_StatusCode \<Rightarrow> bool" where
  "Http_StatusCode_is_error self \<longleftrightarrow>
     (case Http_StatusCode_category self of
        StatusCategory.ClientError \<Rightarrow> True
      | StatusCategory.ServerError \<Rightarrow> True
      | _ \<Rightarrow> False)"

definition Http_StatusCode_is_redirect :: "Http_StatusCode \<Rightarrow> bool" where
  "Http_StatusCode_is_redirect self \<longleftrightarrow> Http_StatusCode_category self = StatusCategory.Redirect"

definition Http_StatusCode_fmt :: "Http_StatusCode \<Rightarrow> string" where
  "Http_StatusCode_fmt self =
     show_dec (unat (Http_StatusCode_numeric_code self)) @ '' '' @ Http_StatusCode_reason_phrase self"

section \<open>Tags and enumerations\<close>

interpretation Http_Method_codec: tag_codec Http_Method_to_tag Http_Method_from_tag 9
  by (unfold_locales, (case_tac x; simp add: Http_Method_from_tag_def), unfold Http_Method_from_tag_def,
    (erule codec_arm, simp only: Http_Method_to_tag.simps)+, erule codec_end, (case_tac x; simp), simp add: codec_eval)

interpretation Http_Version_codec: tag_codec Http_Version_to_tag Http_Version_from_tag 4
  by (unfold_locales, (case_tac x; simp add: Http_Version_from_tag_def), unfold Http_Version_from_tag_def,
    (erule codec_arm, simp only: Http_Version_to_tag.simps)+, erule codec_end, (case_tac x; simp), simp add: codec_eval)

interpretation StatusCategory_codec: tag_codec StatusCategory_to_tag StatusCategory_from_tag 5
  by (unfold_locales, (case_tac x; simp add: StatusCategory_from_tag_def), unfold StatusCategory_from_tag_def,
    (erule codec_arm, simp only: StatusCategory_to_tag.simps)+, erule codec_end, (case_tac x; simp), simp add: codec_eval)

interpretation Http_StatusCode_codec: tag_codec Http_StatusCode_to_tag Http_StatusCode_from_tag 29
  by (unfold_locales, (case_tac x; simp add: Http_StatusCode_from_tag_def), unfold Http_StatusCode_from_tag_def,
    (erule codec_arm, simp only: Http_StatusCode_to_tag.simps)+, erule codec_end, (case_tac x; simp), simp add: codec_eval)

interpretation Http_ContentType_codec: tag_codec Http_ContentType_to_tag Http_ContentType_from_tag 8
  by (unfold_locales, (case_tac x; simp add: Http_ContentType_from_tag_def), unfold Http_ContentType_from_tag_def,
    (erule codec_arm, simp only: Http_ContentType_to_tag.simps)+, erule codec_end, (case_tac x; simp), simp add: codec_eval)

interpretation HeaderType_codec: tag_codec HeaderType_to_tag HeaderType_from_tag 10
  by (unfold_locales, (case_tac x; simp add: HeaderType_from_tag_def), unfold HeaderType_from_tag_def,
    (erule codec_arm, simp only: HeaderType_to_tag.simps)+, erule codec_end, (case_tac x; simp), simp add: codec_eval)

interpretation RequestPhase_codec: tag_codec RequestPhase_to_tag RequestPhase_from_tag 7
  by (unfold_locales, (case_tac x; simp add: RequestPhase_from_tag_def), unfold RequestPhase_from_tag_def,
    (erule codec_arm, simp only: RequestPhase_to_tag.simps)+, erule codec_end, (case_tac x; simp), simp add: codec_eval)

lemma Http_Method_ALL_exhaustive: "set Http_Method_ALL = UNIV \<and> distinct Http_Method_ALL"
  by (auto simp: Http_Method_ALL_def) (case_tac x; simp)

text \<open>The category computed from the tag is the first digit of the numeric code.\<close>

lemma Http_StatusCode_category_digit:
  "StatusCategory_to_tag (Http_StatusCode_category s) + 1 = ucast (Http_StatusCode_numeric_code s div 100)"
  by (cases s; simp add: Http_StatusCode_category_def Http_StatusCode_numeric_code_def Let_def word_le_nat_alt)

lemma Http_Method_parse_as_str: "Http_Method_parse s = Some m \<longleftrightarrow> s = Http_Method_as_str m"
  by (cases m; auto simp: Http_Method_parse_def Http_Method_as_str_def split: if_splits)

end
