(* ===== verification/Httpd_Ffi.thy ===== *)
theory Httpd_Ffi
  imports Httpd_Engine Http_Types
begin

text \<open>
  The safe HTTP wrappers \<open>bindings/rust/src/ffi_httpd.rs\<close> over the engine, the invariant of a request
  context and the interpretation of the pool contract. A query that fills a buffer gives the bytes
  written and their number.
\<close>

section \<open>The wrappers\<close>

definition ffi_http_abi_version :: "u32" where
  "ffi_http_abi_version =
     http_abi_version"

definition ffi_http_create_context :: "http_pool \<Rightarrow> http_pool \<times> ffi_context ProvenResult" where
  "ffi_http_create_context p =
     wrap_slot (http_create_context p)"

definition ffi_http_drop :: "http_pool \<Rightarrow> ffi_context \<Rightarrow> http_pool" where
  "ffi_http_drop p ctx =
     http_destroy_context p (ctx_slot ctx)"

definition parse_result :: "u8 \<Rightarrow> ParseResult ProvenResult" where
  "parse_result r =
     (if r = 0 then Inr ParseResult.Complete
      else if r = 1 then Inr ParseResult.Rejected
      else if r = 2 then Inr ParseResult.NeedMore
      else Inl (Unknown (ucast r)))"

definition ffi_http_parse_request :: "http_pool \<Rightarrow> ffi_context \<Rightarrow> u8 list \<Rightarrow> http_pool \<times> ParseResult ProvenResult" where
  "ffi_http_parse_request p ctx data =
     map_prod id parse_result (http_parse_request p (ctx_slot ctx) (len_u32 data))"

definition ffi_http_get_method :: "http_pool \<Rightarrow> ffi_context \<Rightarrow> Http_Method option" where
  "ffi_http_get_method p ctx = Http_Method_from_tag (http_get_method p (ctx_slot ctx))"

definition ffi_http_get_path :: "http_pool \<Rightarrow> ffi_context \<Rightarrow> usize \<Rightarrow> u8 list \<times> usize" where
  "ffi_http_get_path p ctx buf_len =
     (let written = http_get_path p (ctx_slot ctx) (word_of_nat buf_len) in (written, length written))"

definition ffi_http_get_header :: "http_pool \<Rightarrow> ffi_context \<Rightarrow> u8 list \<Rightarrow> usize \<Rightarrow> u8 list \<times> usize" where
  "ffi_http_get_header p ctx key buf_len =
     (let written = http_get_header p (ctx_slot ctx) (len_u32 key) (word_of_nat buf_len) in (written, length written))"

definition ffi_http_get_body :: "http_pool \<Rightarrow> ffi_context \<Rightarrow> usize \<Rightarrow> u8 list \<times> usize" where
  "ffi_http_get_body p ctx buf_len =
     (let written = http_get_body p (ctx_slot ctx) (word_of_nat buf_len) in (written, length written))"

definition ffi_http_set_status :: "http_pool \<Rightarrow> ffi_context \<Rightarrow> Http_StatusCode \<Rightarrow> http_pool \<times> unit ProvenResult" where
  "ffi_http_set_status p ctx status =
     wrap_status (http_set_status p (ctx_slot ctx) (Http_StatusCode_to_tag status))"

definition ffi_http_set_header :: "http_pool \<Rightarrow> ffi_context \<Rightarrow> u8 list \<Rightarrow> u8 list \<Rightarrow> http_pool \<times> unit ProvenResult" where
  "ffi_http_set_header p ctx key val =
     wrap_status (http_set_header p (ctx_slot ctx) (len_u32 key) (len_u32 val))"

definition ffi_http_set_body :: "http_pool \<Rightarrow> ffi_context \<Rightarrow> u8 list \<Rightarrow> http_pool \<times> unit ProvenResult" where
  "ffi_http_set_body p ctx data = wrap_status (http_set_body p (ctx_slot ctx) (len_u32 data))"

definition ffi_http_send_response :: "http_pool \<Rightarrow> ffi_context \<Rightarrow> http_pool \<times> unit ProvenResult" where
  "ffi_http_send_response p ctx = wrap_status (http_send_response p (ctx_slot ctx))"

definition ffi_http_keep_alive_check :: "http_pool \<Rightarrow> ffi_context \<Rightarrow> bool" where
  "ffi_http_keep_alive_check p ctx \<longleftrightarrow> http_keep_alive_check p (ctx_slot ctx) = 1"

definition ffi_http_get_phase :: "http_pool \<Rightarrow> ffi_context \<Rightarrow> RequestPhase option" where
  "ffi_http_get_phase p ctx = RequestPhase_from_tag (http_get_phase p (ctx_slot ctx))"

definition ffi_http_get_version :: "http_pool \<Rightarrow> ffi_context \<Rightarrow> Http_Version option" where
  "ffi_http_get_version p ctx = Http_Version_from_tag (http_get_version p (ctx_slot ctx))"

definition ffi_http_reset_context :: "http_pool \<Rightarrow> ffi_context \<Rightarrow> http_pool \<times> unit ProvenResult" where
  "ffi_http_reset_context p ctx = wrap_status (http_reset_context p (ctx_slot ctx))"

definition ffi_http_can_transition :: "RequestPhase \<Rightarrow> RequestPhase \<Rightarrow> bool" where
  "ffi_http_can_transition from to \<longleftrightarrow> http_can_transition (RequestPhase_to_tag from) (RequestPhase_to_tag to) = 1"

section \<open>The client's alphabet\<close>

datatype http_call =
    Tc_parse_request "u8 list"
  | Tc_set_status Http_StatusCode
  | Tc_set_header "u8 list" "u8 list"
  | Tc_set_body "u8 list"
  | Tc_send_response
  | Tc_reset_context

primrec http_step :: "http_call \<Rightarrow> HttpCtx \<Rightarrow> HttpCtx \<times> u8" where
  "http_step (Tc_parse_request data) = http_parse_request_on (len_u32 data)"
| "http_step (Tc_set_status status) = http_set_status_on (Http_StatusCode_to_tag status)"
| "http_step (Tc_set_header key val) = http_set_header_on (len_u32 key) (len_u32 val)"
| "http_step (Tc_set_body data) = http_set_body_on (len_u32 data)"
| "http_step Tc_send_response = http_send_response_on"
| "http_step Tc_reset_context = http_reset_context_on"

datatype http_answer = Ans_parse "ParseResult ProvenResult" | Ans_status "unit ProvenResult"

definition http_conv :: "http_call \<Rightarrow> u8 \<Rightarrow> http_answer" where
  "http_conv x r = (case x of Tc_parse_request _ \<Rightarrow> Ans_parse (parse_result r) | _ \<Rightarrow> Ans_status (from_status r))"

lemma http_conv_fun:
  "http_conv (Tc_parse_request data) = Ans_parse \<circ> parse_result"
  "http_conv (Tc_set_status s) = Ans_status \<circ> from_status"
  "http_conv (Tc_set_header k v) = Ans_status \<circ> from_status"
  "http_conv (Tc_set_body data) = Ans_status \<circ> from_status"
  "http_conv Tc_send_response = Ans_status \<circ> from_status"
  "http_conv Tc_reset_context = Ans_status \<circ> from_status"
  by (simp_all add: http_conv_def fun_eq_iff)

primrec ffi_http_call :: "http_call \<Rightarrow> http_pool \<Rightarrow> ffi_context \<Rightarrow> http_pool \<times> http_answer" where
  "ffi_http_call (Tc_parse_request data) p ctx = map_prod id Ans_parse (ffi_http_parse_request p ctx data)"
| "ffi_http_call (Tc_set_status status) p ctx = map_prod id Ans_status (ffi_http_set_status p ctx status)"
| "ffi_http_call (Tc_set_header key val) p ctx = map_prod id Ans_status (ffi_http_set_header p ctx key val)"
| "ffi_http_call (Tc_set_body data) p ctx = map_prod id Ans_status (ffi_http_set_body p ctx data)"
| "ffi_http_call Tc_send_response p ctx = map_prod id Ans_status (ffi_http_send_response p ctx)"
| "ffi_http_call Tc_reset_context p ctx = map_prod id Ans_status (ffi_http_reset_context p ctx)"

lemmas ffi_http_op_defs =
  ffi_http_parse_request_def http_parse_request_def ffi_http_set_status_def http_set_status_def
  ffi_http_set_header_def http_set_header_def ffi_http_set_body_def http_set_body_def
  ffi_http_send_response_def http_send_response_def ffi_http_reset_context_def http_reset_context_def

section \<open>The invariant of a context\<close>

text \<open>The stored headers and bodies fit their buffers.\<close>

definition headers_ok :: "HeaderEntry list \<Rightarrow> bool" where
  "headers_ok hs \<longleftrightarrow>
     length hs \<le> 32 \<and> (\<forall>h \<in> set hs. hd_active h \<and> length (hd_key h) \<le> 128 \<and> length (hd_value h) \<le> 512)"

definition buffers_ok :: "HttpCtx \<Rightarrow> bool" where
  "buffers_ok c \<longleftrightarrow>
     headers_ok (ht_req_headers c) \<and> headers_ok (ht_resp_headers c) \<and> length (ht_path c) \<le> 2048 \<and>
     length (ht_req_body c) \<le> 8192 \<and> length (ht_resp_body c) \<le> 8192"

text \<open>A request was validated: the request line was read.\<close>

definition request_ok :: "HttpCtx \<Rightarrow> bool" where
  "request_ok c \<longleftrightarrow> ht_method c \<le> 8 \<and> ht_version c \<le> 3 \<and> ht_path c \<noteq> []"

text \<open>Nothing is left of an earlier request.\<close>

definition blank :: "HttpCtx \<Rightarrow> bool" where
  "blank c \<longleftrightarrow>
     ht_method c = 255 \<and> ht_version c = 255 \<and> ht_path c = [] \<and> ht_req_headers c = [] \<and> ht_req_body c = [] \<and>
     \<not> ht_keep_alive c \<and> ht_resp_status c = 255 \<and> ht_resp_headers c = [] \<and> ht_resp_body c = []"

definition http_good :: "HttpCtx \<Rightarrow> bool" where
  "http_good c \<longleftrightarrow>
     buffers_ok c \<and> ht_phase c \<noteq> ph_headers_parsed \<and>
     (ht_phase c = ph_idle \<longrightarrow> blank c) \<and>
     (ht_phase c \<in> {ph_body_receiving, ph_complete, ph_responding} \<longrightarrow> request_ok c) \<and>
     (ht_phase c \<in> {ph_receiving, ph_body_receiving, ph_complete} \<longrightarrow>
        ht_resp_status c = 255 \<and> ht_resp_headers c = [] \<and> ht_resp_body c = []) \<and>
     (ht_resp_status c = 255 \<or> ht_resp_status c \<le> 28)"

lemma headers_ok_Nil [simp]: "headers_ok []"
  by (simp add: headers_ok_def)

lemma addHeader_ok: "headers_ok hs \<Longrightarrow> addHeaderToArray hs k v = Some hs' \<Longrightarrow> headers_ok hs'"
  by (auto simp: headers_ok_def addHeaderToArray_def MAX_HEADERS_def MAX_HEADER_KEY_LEN_def
      MAX_HEADER_VAL_LEN_def split: if_splits)

subsection \<open>What the parser leaves alone\<close>

lemma first_index_Some_less: "first_index P xs = Some i \<Longrightarrow> i < length xs"
  by (induction xs arbitrary: i) (auto split: if_splits)

lemma parseMethodStr_le: "parseMethodStr data \<noteq> 255 \<Longrightarrow> parseMethodStr data \<le> 8"
proof -
  assume "parseMethodStr data \<noteq> 255"
  then obtain i where i: "first_index (\<lambda>ms. data = ms) method_strings = Some i" "parseMethodStr data = word_of_nat i"
    by (auto simp: parseMethodStr_def split: option.splits)
  from first_index_Some_less [OF i(1)] have "i \<le> 8" by (simp add: method_strings_def)
  then show ?thesis by (simp add: i(2) word_le_nat_alt unat_of_nat)
qed

lemma parseVersionStr_le: "parseVersionStr data \<noteq> 255 \<Longrightarrow> parseVersionStr data \<le> 3"
  by (simp add: parseVersionStr_def word_le_nat_alt split: if_splits)

text \<open>
  From the header loop on: the request line and the response stay as they are, the buffers stay in
  their bounds, and the phase is receiving, body receiving or complete according to the answer.
\<close>

definition loop_result :: "HttpCtx \<Rightarrow> HttpCtx \<times> u8 \<Rightarrow> bool" where
  "loop_result c r \<longleftrightarrow>
     buffers_ok (fst r) \<and> ht_active (fst r) = ht_active c \<and> ht_method (fst r) = ht_method c \<and>
     ht_version (fst r) = ht_version c \<and> ht_path (fst r) = ht_path c \<and>
     ht_resp_status (fst r) = ht_resp_status c \<and> ht_resp_headers (fst r) = ht_resp_headers c \<and>
     ht_resp_body (fst r) = ht_resp_body c \<and>
     (snd r = 0 \<and> ht_phase (fst r) = ph_complete \<or> snd r = 2 \<and> ht_phase (fst r) \<in> {ph_receiving, ph_body_receiving})"

lemma http_end_headers_result: "buffers_ok c \<Longrightarrow> loop_result c (http_end_headers rest c)"
  by (simp add: loop_result_def http_end_headers_def Let_def buffers_ok_def MAX_BODY_LEN_def)

text \<open>An induction over the lines: the loop stops, reaches the empty line or goes on with a header more.\<close>

lemma http_header_loop_induct:
  assumes stop: "\<And>c. P c (c, 2)"
    and empty_line: "\<And>c rest. P c (http_end_headers rest c)"
    and header: "\<And>c k v hs r. addHeaderToArray (ht_req_headers c) k v = Some hs \<Longrightarrow>
      P (c\<lparr>ht_req_headers := hs\<rparr>) r \<Longrightarrow> P c r"
  shows "P c (http_header_loop input c)"
proof (induction input c rule: http_header_loop.induct)
  case (1 input c)
  show ?case
  proof (cases "input = [] \<or> findEol input = None")
    case True
    with stop show ?thesis by (subst http_header_loop.simps) (auto split: option.split)
  next
    case False
    then obtain n where n: "input \<noteq> []" "findEol input = Some n" by auto
    let ?line = "trimWhitespace (take n input)"
    show ?thesis
    proof (cases "?line = []")
      case True
      with n empty_line show ?thesis by (subst http_header_loop.simps) simp
    next
      case line: False
      show ?thesis
      proof (cases "first_index (\<lambda>b. b = 58) ?line")
        case None
        with n line 1(1) [OF n refl refl line None] show ?thesis
          by (subst http_header_loop.simps) simp
      next
        case (Some colon)
        let ?k = "trimWhitespace (take colon ?line)" and ?v = "trimWhitespace (drop (colon + 1) ?line)"
        from 1(2) [OF n refl refl line Some refl refl] n line Some show ?thesis
          by (subst http_header_loop.simps)
            (cases "addHeaderToArray (ht_req_headers c) ?k ?v"; simp add: Let_def header)
      qed
    qed
  qed
qed

lemma http_header_loop_result:
  assumes "buffers_ok c" "ht_phase c = ph_receiving"
  shows "loop_result c (http_header_loop input c)"
proof -
  have "buffers_ok c \<and> ht_phase c = ph_receiving \<longrightarrow> loop_result c (http_header_loop input c)"
  proof (rule http_header_loop_induct)
    fix c k v hs r
    assume "addHeaderToArray (ht_req_headers c) k v = Some hs"
      and "buffers_ok (c\<lparr>ht_req_headers := hs\<rparr>) \<and> ht_phase (c\<lparr>ht_req_headers := hs\<rparr>) = ph_receiving \<longrightarrow>
        loop_result (c\<lparr>ht_req_headers := hs\<rparr>) r"
    then show "buffers_ok c \<and> ht_phase c = ph_receiving \<longrightarrow> loop_result c r"
      by (auto simp: loop_result_def buffers_ok_def dest: addHeader_ok)
  qed (simp_all add: http_end_headers_result, simp add: loop_result_def)
  with assms show ?thesis by blast
qed

lemma http_header_loop_active: "ht_active (fst (http_header_loop input c)) = ht_active c"
  by (rule http_header_loop_induct) (simp_all add: http_end_headers_def Let_def)

text \<open>What a step of the parser can do to a context that is not in its body phase.\<close>

lemma http_request_line_cases:
  assumes "buffers_ok c" "ht_phase c = ph_receiving"
  shows "snd (http_request_line input n c) = 1 \<and> ht_phase (fst (http_request_line input n c)) = ph_sent \<and>
      buffers_ok (fst (http_request_line input n c)) \<and>
      ht_active (fst (http_request_line input n c)) = ht_active c \<and>
      ht_resp_status (fst (http_request_line input n c)) = ht_resp_status c \<or>
    (\<exists>d. request_ok d \<and> ht_active d = ht_active c \<and> ht_resp_status d = ht_resp_status c \<and>
       ht_resp_headers d = ht_resp_headers c \<and> ht_resp_body d = ht_resp_body c \<and>
       loop_result d (http_request_line input n c))"
proof -
  have loop: "\<exists>d. request_ok d \<and> ht_active d = ht_active c \<and> ht_resp_status d = ht_resp_status c \<and>
       ht_resp_headers d = ht_resp_headers c \<and> ht_resp_body d = ht_resp_body c \<and>
       loop_result d (http_header_loop rest (c\<lparr>ht_method := m, ht_version := v, ht_path := q\<rparr>))"
    if "m \<le> 8" "v \<le> 3" "q \<noteq> []" "length q \<le> 2048" for m v q rest
    using that assms http_header_loop_result [of "c\<lparr>ht_method := m, ht_version := v, ht_path := q\<rparr>" rest]
    by (intro exI [of _ "c\<lparr>ht_method := m, ht_version := v, ht_path := q\<rparr>"]) (simp add: request_ok_def buffers_ok_def)
  show ?thesis
    using assms(1)
    by (auto simp: http_request_line_def http_abort_def Let_def buffers_ok_def MAX_PATH_LEN_def not_less
        intro!: loop parseMethodStr_le parseVersionStr_le split: option.split)
qed


lemma http_good_fresh: "http_good (http_fresh c)"
  by (simp add: http_good_def blank_def buffers_ok_def headers_ok_def http_fresh_def empty_ctx_def)

lemma http_good_parse:
  assumes "http_good c"
  shows "http_good (fst (http_parse_request_on input c))"
proof (cases "ht_phase c = ph_idle \<or> ht_phase c = ph_receiving")
  case True
  let ?d = "c\<lparr>ht_phase := ph_receiving\<rparr>"
  have d: "buffers_ok ?d" "ht_resp_status c = 255 \<and> ht_resp_headers c = [] \<and> ht_resp_body c = []"
    using assms True by (auto simp: http_good_def buffers_ok_def blank_def)
  have wait: "http_good ?d" using d assms True by (auto simp: http_good_def)
  have id: "ht_phase c = ph_receiving \<Longrightarrow> ?d = c" by (cases c) simp
  have parse: "http_parse_request_on input c =
      (case findEol input of None \<Rightarrow> (?d, 2) | Some n \<Rightarrow> http_request_line input n ?d)"
  proof (cases "ht_phase c = ph_idle")
    case False
    with True have ph: "ht_phase c = ph_receiving" by simp
    show ?thesis unfolding id [OF ph] using ph by (simp add: http_parse_request_on_def)
  qed (simp add: http_parse_request_on_def Let_def)
  show ?thesis
  proof (cases "findEol input")
    case None
    with wait show ?thesis by (simp add: parse)
  next
    case (Some n)
    have going: "http_good (fst r)"
      if "request_ok e" "loop_result e r" "ht_resp_status e = 255 \<and> ht_resp_headers e = [] \<and> ht_resp_body e = []" for e r
    proof -
      have "buffers_ok (fst r)" "request_ok (fst r)"
          "ht_resp_status (fst r) = 255 \<and> ht_resp_headers (fst r) = [] \<and> ht_resp_body (fst r) = []"
          "ht_phase (fst r) \<in> {ph_complete, ph_receiving, ph_body_receiving}"
        using that by (auto simp: loop_result_def request_ok_def)
      then show ?thesis by (auto simp: http_good_def)
    qed
    have stopped: "http_good e" if "buffers_ok e" "ht_phase e = ph_sent" "ht_resp_status e = 255" for e
      using that by (simp add: http_good_def)
    have "ht_phase ?d = ph_receiving" "ht_resp_status ?d = 255 \<and> ht_resp_headers ?d = [] \<and> ht_resp_body ?d = []"
      using d(2) by simp_all
    with http_request_line_cases [OF d(1), of input n]
    have "http_good (fst (http_request_line input n ?d))"
      using going [of _ "http_request_line input n ?d"] stopped by metis
    with Some show ?thesis by (simp add: parse)
  qed
next
  case False
  with assms show ?thesis
    by (auto simp: http_parse_request_on_def http_good_def buffers_ok_def Let_def MAX_BODY_LEN_def request_ok_def)
qed

lemma http_status_tag_le: "Http_StatusCode_to_tag s \<le> 28"
  by (cases s; simp add: word_le_nat_alt)

lemma http_good_step:
  assumes "http_good c"
  shows "http_good (fst (http_step x c))"
proof (cases x)
  case (Tc_parse_request data)
  with assms http_good_parse show ?thesis by simp
next
  case (Tc_set_header k v)
  show ?thesis
  proof (cases "addHeaderToArray (ht_resp_headers c) (len_u32 k) (len_u32 v)")
    case None
    with assms Tc_set_header show ?thesis
      by (cases "ht_phase c") (simp_all add: http_good_def buffers_ok_def request_ok_def http_set_header_on_def)
  next
    case (Some hs)
    with assms have "headers_ok hs" by (auto simp: http_good_def buffers_ok_def dest: addHeader_ok)
    with Some assms Tc_set_header show ?thesis
      by (cases "ht_phase c") (simp_all add: http_good_def buffers_ok_def request_ok_def http_set_header_on_def)
  qed
next
  case Tc_reset_context
  with assms http_good_fresh [of c] show ?thesis
    by (simp add: http_reset_context_on_def http_fresh_def)
next
  case (Tc_set_status s)
  with assms http_status_tag_le [of s] show ?thesis
    by (cases "ht_phase c") (simp_all add: http_good_def buffers_ok_def request_ok_def http_set_status_on_def)
next
  case (Tc_set_body d)
  with assms show ?thesis
    by (cases "ht_phase c")
      (simp_all add: http_good_def buffers_ok_def request_ok_def http_set_body_on_def MAX_BODY_LEN_def not_less)
next
  case Tc_send_response
  with assms show ?thesis
    by (cases "ht_phase c") (simp_all add: http_good_def buffers_ok_def http_send_response_on_def)
qed

lemma http_active_step: "ht_active c \<Longrightarrow> ht_active (fst (http_step x c))"
  by (cases x)
    (simp_all add: op_simps Let_def http_request_line_def http_abort_def http_header_loop_active empty_ctx_def
      split: option.split)

section \<open>The pool contract\<close>

interpretation http: slot_service ht_active "\<lambda>_ :: unit. True" "\<lambda>_. http_fresh" http_off http_step
  "\<lambda>_. 1" http_conv http_good http_contexts "\<lambda>_. ffi_http_create_context" ffi_http_drop ffi_http_call
proof
  fix c :: HttpCtx and p :: http_pool and h :: ffi_context and x :: http_call
  show "ht_active (http_fresh c)" by (simp add: http_fresh_def)
  show "\<not> ht_active (http_off c)" by (simp add: http_off_def)
  show "ht_active c \<Longrightarrow> ht_active (fst (http_step x c))" by (rule http_active_step)
  show "http_good (http_fresh c)" by (rule http_good_fresh)
  show "http_good c \<Longrightarrow> http_good (fst (http_step x c))" by (rule http_good_step)
  show "c \<in> set http_contexts \<Longrightarrow> \<not> ht_active c" by (simp add: http_contexts_def empty_ctx_def)
  show "length http_contexts \<le> 2147483648" by (simp add: http_contexts_def)
  show "ffi_http_create_context p = wrap_slot (if True then pool_create ht_active http_fresh p else (p, - 1))"
    by (simp add: ffi_http_create_context_def http_create_context_def)
  show "ffi_http_drop p h = pool_destroy http_off p (ctx_slot h)"
    by (simp add: ffi_http_drop_def http_destroy_context_def)
  show "ffi_http_call x p h = map_prod id (http_conv x) (on_slot ht_active p (ctx_slot h) 1 (http_step x))"
    by (cases x; simp add: ffi_http_op_defs wrap_status_eq_map_prod http_conv_fun map_prod.compositionality)
qed

abbreviation http_client :: "http_pool \<Rightarrow> ffi_context list \<Rightarrow> bool" where
  "http_client \<equiv> client (\<lambda>_ :: unit. ffi_http_create_context) ffi_http_drop ffi_http_call http_contexts"

lemma http_first_client: "http_client (http_contexts[0 := http_fresh (http_contexts ! 0)]) [handle 0]"
  by (rule http.client_first) (simp_all add: http_contexts_def)

end
