(* ===== verification/Dns_Engine.thy ===== *)
theory Dns_Engine
  imports Slot_Pool
begin

text \<open>
  The DNS message builder \<open>protocols/proven-dns/ffi/zig/src/dns.zig\<close>: 64 contexts, each a query with the
  records of its response. A section's array of 16 records with its count is the list of the records
  added so far, and a record's buffer of 256 bytes with \<open>rdlen\<close> is the list of the bytes in use. A
  pointer with its length is the list of the bytes; the null checks concern C callers only.
\<close>

section \<open>State\<close>

datatype dns_phase = dn_idle | dn_query_received | dn_lookup | dn_response_building | dn_sent

primrec dns_phase_tag :: "dns_phase \<Rightarrow> u8" where
  "dns_phase_tag dn_idle = 0"
| "dns_phase_tag dn_query_received = 1"
| "dns_phase_tag dn_lookup = 2"
| "dns_phase_tag dn_response_building = 3"
| "dns_phase_tag dn_sent = 4"

datatype dnssec_phase = ds_disabled | ds_enabled | ds_key_loaded | ds_validated

primrec dnssec_phase_tag :: "dnssec_phase \<Rightarrow> u8" where
  "dnssec_phase_tag ds_disabled = 0"
| "dnssec_phase_tag ds_enabled = 1"
| "dnssec_phase_tag ds_key_loaded = 2"
| "dnssec_phase_tag ds_validated = 3"

record ResourceRecord =
  rr_rtype :: u8
  rr_rclass :: u8
  rr_ttl :: u32
  rr_rdata :: "u8 list"

record DnsCtx =
  dn_state :: dns_phase
  dn_dnssec_state :: dnssec_phase
  dn_dnssec_algo :: u8
  dn_rcode :: u8
  dn_query_rtype :: u8
  dn_query_class :: u8
  dn_recursion_desired :: bool
  dn_transaction_id :: u16
  dn_active :: bool
  dn_answers :: "ResourceRecord list"
  dn_authorities :: "ResourceRecord list"
  dn_additionals :: "ResourceRecord list"

type_synonym dns_pool = "DnsCtx list"

definition dns_empty_context :: DnsCtx where
  "dns_empty_context =
     \<lparr>dn_state = dn_idle, dn_dnssec_state = ds_disabled, dn_dnssec_algo = 255, dn_rcode = 0,
      dn_query_rtype = 255, dn_query_class = 255, dn_recursion_desired = False, dn_transaction_id = 0,
      dn_active = False, dn_answers = [], dn_authorities = [], dn_additionals = []\<rparr>"

definition dns_contexts :: dns_pool where
  "dns_contexts = replicate 64 dns_empty_context"

section \<open>Wire codes\<close>

definition recordTypeToWire :: "u8 \<Rightarrow> u16" where
  "recordTypeToWire rtype =
     (if rtype = 0 then 1 else if rtype = 1 then 28 else if rtype = 2 then 5 else if rtype = 3 then 15
      else if rtype = 4 then 2 else if rtype = 5 then 12 else if rtype = 6 then 6 else if rtype = 7 then 33
      else if rtype = 8 then 16 else if rtype = 9 then 257 else if rtype = 10 then 48
      else if rtype = 11 then 43 else if rtype = 12 then 46 else if rtype = 13 then 47
      else if rtype = 14 then 50 else 0)"

definition queryClassToWire :: "u8 \<Rightarrow> u16" where
  "queryClassToWire qclass =
     (if qclass = 0 then 1 else if qclass = 1 then 3 else if qclass = 2 then 4
      else if qclass = 3 then 255 else 0)"

definition wireTypeToAbiTag :: "u16 \<Rightarrow> u8" where
  "wireTypeToAbiTag wire =
     (if wire = 1 then 0 else if wire = 28 then 1 else if wire = 5 then 2 else if wire = 15 then 3
      else if wire = 2 then 4 else if wire = 12 then 5 else if wire = 6 then 6 else if wire = 33 then 7
      else if wire = 16 then 8 else if wire = 257 then 9 else if wire = 48 then 10
      else if wire = 43 then 11 else if wire = 46 then 12 else if wire = 47 then 13
      else if wire = 50 then 14 else 255)"

definition wireClassToAbiTag :: "u16 \<Rightarrow> u8" where
  "wireClassToAbiTag wire =
     (if wire = 1 then 0 else if wire = 3 then 1 else if wire = 4 then 2
      else if wire = 255 then 3 else 255)"

text \<open>\<open>@truncate(w >> 8), @truncate(w)\<close> and the four bytes of a TTL; two bytes read back.\<close>

definition be16 :: "u16 \<Rightarrow> u8 list" where
  "be16 w = [ucast (drop_bit 8 w), ucast w]"

definition be32 :: "u32 \<Rightarrow> u8 list" where
  "be32 w = [ucast (drop_bit 24 w), ucast (drop_bit 16 w), ucast (drop_bit 8 w), ucast w]"

definition read16 :: "u8 \<Rightarrow> u8 \<Rightarrow> u16" where
  "read16 a b = push_bit 8 (ucast a) OR ucast b"

section \<open>Life of a context\<close>

definition dns_abi_version :: u32 where
  "dns_abi_version = 1"

definition dns_fresh :: "DnsCtx \<Rightarrow> DnsCtx" where
  "dns_fresh c = dns_empty_context\<lparr>dn_active := True\<rparr>"

definition dns_create_context :: "dns_pool \<Rightarrow> dns_pool \<times> c_int" where
  "dns_create_context p = pool_create dn_active dns_fresh p"

definition dns_off :: "DnsCtx \<Rightarrow> DnsCtx" where
  "dns_off c = c\<lparr>dn_active := False\<rparr>"

definition dns_destroy_context :: "dns_pool \<Rightarrow> c_int \<Rightarrow> dns_pool" where
  "dns_destroy_context p slot = pool_destroy dns_off p slot"

section \<open>State queries\<close>

definition dns_state :: "dns_pool \<Rightarrow> c_int \<Rightarrow> u8" where
  "dns_state p slot = query_slot dn_active p slot 4 (\<lambda>c. dns_phase_tag (dn_state c))"

definition dns_dnssec_state :: "dns_pool \<Rightarrow> c_int \<Rightarrow> u8" where
  "dns_dnssec_state p slot = query_slot dn_active p slot 0 (\<lambda>c. dnssec_phase_tag (dn_dnssec_state c))"

definition dns_rcode :: "dns_pool \<Rightarrow> c_int \<Rightarrow> u8" where
  "dns_rcode p slot = query_slot dn_active p slot 2 dn_rcode"

definition dns_answer_count :: "dns_pool \<Rightarrow> c_int \<Rightarrow> u16" where
  "dns_answer_count p slot = query_slot dn_active p slot 0 (\<lambda>c. word_of_nat (length (dn_answers c)))"

definition dns_authority_count :: "dns_pool \<Rightarrow> c_int \<Rightarrow> u16" where
  "dns_authority_count p slot = query_slot dn_active p slot 0 (\<lambda>c. word_of_nat (length (dn_authorities c)))"

definition dns_additional_count :: "dns_pool \<Rightarrow> c_int \<Rightarrow> u16" where
  "dns_additional_count p slot = query_slot dn_active p slot 0 (\<lambda>c. word_of_nat (length (dn_additionals c)))"

definition dns_query_rtype :: "dns_pool \<Rightarrow> c_int \<Rightarrow> u8" where
  "dns_query_rtype p slot = query_slot dn_active p slot 255 dn_query_rtype"

definition dns_query_class :: "dns_pool \<Rightarrow> c_int \<Rightarrow> u8" where
  "dns_query_class p slot = query_slot dn_active p slot 255 dn_query_class"

section \<open>Operations on one context\<close>

definition dns_parse_query_on :: "u8 list \<Rightarrow> DnsCtx \<Rightarrow> DnsCtx \<times> u8" where
  [op_simps]: "dns_parse_query_on data c =
     (if dn_state c \<noteq> dn_idle then (c, 1)
      else if length data \<noteq> 17 then (c, 1)
      else if data ! 2 AND 0xFE \<noteq> 0 \<or> data ! 3 \<noteq> 0 then (c, 1)
      else if data ! 4 \<noteq> 0 \<or> data ! 5 \<noteq> 1 then (c, 1)
      else if \<exists>b \<in> set (take 6 (drop 6 data)). b \<noteq> 0 then (c, 1)
      else if data ! 12 \<noteq> 0 then (c, 1)
      else
        let query_type = wireTypeToAbiTag (read16 (data ! 13) (data ! 14));
            query_class = wireClassToAbiTag (read16 (data ! 15) (data ! 16))
        in if query_type = 255 \<or> query_class = 255 then (c, 1)
           else (c\<lparr>dn_transaction_id := read16 (data ! 0) (data ! 1),
                   dn_recursion_desired := (data ! 2 AND 1 \<noteq> 0),
                   dn_query_rtype := query_type, dn_query_class := query_class,
                   dn_state := dn_query_received\<rparr>, 0))"

definition dns_begin_lookup_on :: "DnsCtx \<Rightarrow> DnsCtx \<times> u8" where
  [op_simps]: "dns_begin_lookup_on c =
     (if dn_state c \<noteq> dn_query_received then (c, 1) else (c\<lparr>dn_state := dn_lookup\<rparr>, 0))"

definition dns_begin_response_on :: "DnsCtx \<Rightarrow> DnsCtx \<times> u8" where
  [op_simps]: "dns_begin_response_on c =
     (if dn_state c \<noteq> dn_lookup then (c, 1) else (c\<lparr>dn_state := dn_response_building\<rparr>, 0))"

datatype dns_section = sec_answer | sec_authority | sec_additional

text \<open>\<open>rdlen\<close> is a \<open>u16\<close>, and \<open>rdata\<close> the bytes it delimits.\<close>

definition addRecord :: "dns_section \<Rightarrow> u8 \<Rightarrow> u8 \<Rightarrow> u32 \<Rightarrow> u8 list \<Rightarrow> DnsCtx \<Rightarrow> DnsCtx \<times> u8" where
  [op_simps]: "addRecord sec rtype rclass ttl rdata c =
     (if dn_state c \<noteq> dn_response_building then (c, 1)
      else if rtype > 14 then (c, 1)
      else if rclass > 3 then (c, 1)
      else if length rdata > 256 then (c, 1)
      else
        let rr = \<lparr>rr_rtype = rtype, rr_rclass = rclass, rr_ttl = ttl, rr_rdata = rdata\<rparr> in
        case sec of
          sec_answer \<Rightarrow>
            if length (dn_answers c) \<ge> 16 then (c, 1) else (c\<lparr>dn_answers := dn_answers c @ [rr]\<rparr>, 0)
        | sec_authority \<Rightarrow>
            if length (dn_authorities c) \<ge> 16 then (c, 1) else (c\<lparr>dn_authorities := dn_authorities c @ [rr]\<rparr>, 0)
        | sec_additional \<Rightarrow>
            if length (dn_additionals c) \<ge> 16 then (c, 1) else (c\<lparr>dn_additionals := dn_additionals c @ [rr]\<rparr>, 0))"

definition dns_set_rcode_on :: "u8 \<Rightarrow> DnsCtx \<Rightarrow> DnsCtx \<times> u8" where
  [op_simps]: "dns_set_rcode_on rcode_tag c =
     (if dn_state c \<noteq> dn_response_building then (c, 1)
      else if rcode_tag > 10 then (c, 1)
      else (c\<lparr>dn_rcode := rcode_tag\<rparr>, 0))"

primrec sectionWireLength :: "ResourceRecord list \<Rightarrow> nat" where
  "sectionWireLength [] = 0"
| "sectionWireLength (rr # rrs) = 11 + length (rr_rdata rr) + sectionWireLength rrs"

definition responseLength :: "DnsCtx \<Rightarrow> nat" where
  "responseLength c =
     17 + sectionWireLength (dn_answers c) + sectionWireLength (dn_authorities c) +
     sectionWireLength (dn_additionals c)"

primrec writeSection :: "ResourceRecord list \<Rightarrow> u8 list" where
  "writeSection [] = []"
| "writeSection (rr # rrs) =
     [0] @ be16 (recordTypeToWire (rr_rtype rr)) @ be16 (queryClassToWire (rr_rclass rr)) @
     be32 (rr_ttl rr) @ be16 (word_of_nat (length (rr_rdata rr))) @ rr_rdata rr @ writeSection rrs"

text \<open>The bytes written to the caller's buffer from its start; none when the call is refused.\<close>

definition dns_build_response_on :: "DnsCtx \<Rightarrow> DnsCtx \<times> u8 \<times> u8 list" where
  [op_simps]: "dns_build_response_on c =
     (if dn_state c \<noteq> dn_response_building then (c, 1, [])
      else if dn_dnssec_state c \<noteq> ds_disabled then (c, 1, [])
      else if responseLength c > 512 then (c, 1, [])
      else (c\<lparr>dn_state := dn_sent\<rparr>, 0,
        be16 (dn_transaction_id c) @
        [0x80 OR (if dn_recursion_desired c then 1 else 0), dn_rcode c AND 0x0F, 0, 1] @
        be16 (word_of_nat (length (dn_answers c))) @ be16 (word_of_nat (length (dn_authorities c))) @
        be16 (word_of_nat (length (dn_additionals c))) @
        [0] @ be16 (recordTypeToWire (dn_query_rtype c)) @ be16 (queryClassToWire (dn_query_class c)) @
        writeSection (dn_answers c) @ writeSection (dn_authorities c) @ writeSection (dn_additionals c)))"

definition dns_enable_dnssec_on :: "DnsCtx \<Rightarrow> DnsCtx \<times> u8" where
  [op_simps]: "dns_enable_dnssec_on c =
     (if dn_dnssec_state c \<noteq> ds_disabled then (c, 1) else (c\<lparr>dn_dnssec_state := ds_enabled\<rparr>, 0))"

definition dns_load_dnssec_key_on :: "u8 \<Rightarrow> DnsCtx \<Rightarrow> DnsCtx \<times> u8" where
  [op_simps]: "dns_load_dnssec_key_on algo c =
     (if dn_dnssec_state c \<noteq> ds_enabled \<or> algo > 4 then (c, 1) else (c, 1))"

definition dns_sign_response_on :: "DnsCtx \<Rightarrow> DnsCtx \<times> u8" where
  [op_simps]: "dns_sign_response_on c =
     (if dn_dnssec_state c \<noteq> ds_key_loaded then (c, 1)
      else if dn_state c \<noteq> dn_response_building then (c, 1)
      else (c, 1))"

definition dns_validate_dnssec_on :: "DnsCtx \<Rightarrow> DnsCtx \<times> u8" where
  [op_simps]: "dns_validate_dnssec_on c = (c, 1)"

section \<open>The exported functions\<close>

definition dns_parse_query :: "dns_pool \<Rightarrow> c_int \<Rightarrow> u8 list \<Rightarrow> dns_pool \<times> u8" where
  "dns_parse_query p slot data = on_slot dn_active p slot 1 (dns_parse_query_on data)"

definition dns_begin_lookup :: "dns_pool \<Rightarrow> c_int \<Rightarrow> dns_pool \<times> u8" where
  "dns_begin_lookup p slot = on_slot dn_active p slot 1 dns_begin_lookup_on"

definition dns_begin_response :: "dns_pool \<Rightarrow> c_int \<Rightarrow> dns_pool \<times> u8" where
  "dns_begin_response p slot = on_slot dn_active p slot 1 dns_begin_response_on"

definition dns_add_answer :: "dns_pool \<Rightarrow> c_int \<Rightarrow> u8 \<Rightarrow> u8 \<Rightarrow> u32 \<Rightarrow> u8 list \<Rightarrow> dns_pool \<times> u8" where
  "dns_add_answer p slot rtype rclass ttl rdata =
     on_slot dn_active p slot 1 (addRecord sec_answer rtype rclass ttl rdata)"

definition dns_add_authority :: "dns_pool \<Rightarrow> c_int \<Rightarrow> u8 \<Rightarrow> u8 \<Rightarrow> u32 \<Rightarrow> u8 list \<Rightarrow> dns_pool \<times> u8" where
  "dns_add_authority p slot rtype rclass ttl rdata =
     on_slot dn_active p slot 1 (addRecord sec_authority rtype rclass ttl rdata)"

definition dns_add_additional :: "dns_pool \<Rightarrow> c_int \<Rightarrow> u8 \<Rightarrow> u8 \<Rightarrow> u32 \<Rightarrow> u8 list \<Rightarrow> dns_pool \<times> u8" where
  "dns_add_additional p slot rtype rclass ttl rdata =
     on_slot dn_active p slot 1 (addRecord sec_additional rtype rclass ttl rdata)"

definition dns_set_rcode :: "dns_pool \<Rightarrow> c_int \<Rightarrow> u8 \<Rightarrow> dns_pool \<times> u8" where
  "dns_set_rcode p slot rcode_tag = on_slot dn_active p slot 1 (dns_set_rcode_on rcode_tag)"

definition dns_build_response :: "dns_pool \<Rightarrow> c_int \<Rightarrow> dns_pool \<times> u8 \<times> u8 list" where
  "dns_build_response p slot = on_slot dn_active p slot (1, []) dns_build_response_on"

definition dns_enable_dnssec :: "dns_pool \<Rightarrow> c_int \<Rightarrow> dns_pool \<times> u8" where
  "dns_enable_dnssec p slot = on_slot dn_active p slot 1 dns_enable_dnssec_on"

definition dns_load_dnssec_key :: "dns_pool \<Rightarrow> c_int \<Rightarrow> u8 \<Rightarrow> dns_pool \<times> u8" where
  "dns_load_dnssec_key p slot algo = on_slot dn_active p slot 1 (dns_load_dnssec_key_on algo)"

definition dns_sign_response :: "dns_pool \<Rightarrow> c_int \<Rightarrow> dns_pool \<times> u8" where
  "dns_sign_response p slot = on_slot dn_active p slot 1 dns_sign_response_on"

definition dns_validate_dnssec :: "dns_pool \<Rightarrow> c_int \<Rightarrow> dns_pool \<times> u8" where
  "dns_validate_dnssec p slot = on_slot dn_active p slot 1 dns_validate_dnssec_on"

definition dns_can_transition :: "u8 \<Rightarrow> u8 \<Rightarrow> u8" where
  "dns_can_transition from to =
     (if from = 0 \<and> to = 1 then 1
      else if from = 1 \<and> to = 2 then 1
      else if from = 2 \<and> to = 3 then 1
      else if from = 3 \<and> to = 4 then 1
      else if from = 0 \<and> to = 4 then 1
      else if from = 1 \<and> to = 4 then 1
      else if from = 2 \<and> to = 4 then 1
      else 0)"

definition dns_can_dnssec_transition :: "u8 \<Rightarrow> u8 \<Rightarrow> u8" where
  "dns_can_dnssec_transition from to =
     (if from = 0 \<and> to = 1 then 1
      else if from = 1 \<and> to = 2 then 1
      else if from = 2 \<and> to = 3 then 1
      else 0)"

end
