(* ===== verification/Dns_Types.thy ===== *)
theory Dns_Types
  imports Tag_Codec
begin

text \<open>
  The constants, record types and response codes of \<open>bindings/rust/src/dns.rs\<close>, and the three enums
  \<open>ffi_dns.rs\<close> declares for itself.
\<close>

definition DNS_PORT :: "u16" where
  "DNS_PORT = 53"

definition MAX_UDP_SIZE :: "nat" where
  "MAX_UDP_SIZE = 512"

definition MAX_TCP_SIZE :: "nat" where
  "MAX_TCP_SIZE = 65535"

definition MAX_LABEL_LENGTH :: "nat" where
  "MAX_LABEL_LENGTH = 63"

definition MAX_NAME_LENGTH :: "nat" where
  "MAX_NAME_LENGTH = 253"

definition EDNS_UDP_SIZE :: "nat" where
  "EDNS_UDP_SIZE = 4096"

section \<open>\<open>dns::RecordType\<close>\<close>

datatype (plugins only: code) Dns_RecordType =
    A
  | Aaaa
  | Cname
  | Mx
  | Ns
  | Txt
  | Soa
  | Srv
  | Ptr

definition Dns_RecordType_from_type_code :: "u16 \<Rightarrow> Dns_RecordType option" where
  "Dns_RecordType_from_type_code code =
     (if code = 1 then Some Dns_RecordType.A
      else if code = 2 then Some Dns_RecordType.Ns
      else if code = 5 then Some Dns_RecordType.Cname
      else if code = 6 then Some Dns_RecordType.Soa
      else if code = 12 then Some Dns_RecordType.Ptr
      else if code = 15 then Some Dns_RecordType.Mx
      else if code = 16 then Some Dns_RecordType.Txt
      else if code = 28 then Some Dns_RecordType.Aaaa
      else if code = 33 then Some Dns_RecordType.Srv
      else option.None)"

primrec Dns_RecordType_to_type_code :: "Dns_RecordType \<Rightarrow> u16" where
  "Dns_RecordType_to_type_code Dns_RecordType.A = 1"
| "Dns_RecordType_to_type_code Dns_RecordType.Aaaa = 28"
| "Dns_RecordType_to_type_code Dns_RecordType.Cname = 5"
| "Dns_RecordType_to_type_code Dns_RecordType.Mx = 15"
| "Dns_RecordType_to_type_code Dns_RecordType.Ns = 2"
| "Dns_RecordType_to_type_code Dns_RecordType.Txt = 16"
| "Dns_RecordType_to_type_code Dns_RecordType.Soa = 6"
| "Dns_RecordType_to_type_code Dns_RecordType.Srv = 33"
| "Dns_RecordType_to_type_code Dns_RecordType.Ptr = 12"

definition Dns_RecordType_mnemonic :: "Dns_RecordType \<Rightarrow> string" where
  "Dns_RecordType_mnemonic self =
     (case self of
      Dns_RecordType.A \<Rightarrow> ''A''
    | Dns_RecordType.Aaaa \<Rightarrow> ''AAAA''
    | Dns_RecordType.Cname \<Rightarrow> ''CNAME''
    | Dns_RecordType.Mx \<Rightarrow> ''MX''
    | Dns_RecordType.Ns \<Rightarrow> ''NS''
    | Dns_RecordType.Txt \<Rightarrow> ''TXT''
    | Dns_RecordType.Soa \<Rightarrow> ''SOA''
    | Dns_RecordType.Srv \<Rightarrow> ''SRV''
    | Dns_RecordType.Ptr \<Rightarrow> ''PTR'')"

definition Dns_RecordType_is_address :: "Dns_RecordType \<Rightarrow> bool" where
  "Dns_RecordType_is_address self =
     (case self of
      Dns_RecordType.A \<Rightarrow> True
    | Dns_RecordType.Aaaa \<Rightarrow> True
    | _ \<Rightarrow> False)"

definition Dns_RecordType_is_infrastructure :: "Dns_RecordType \<Rightarrow> bool" where
  "Dns_RecordType_is_infrastructure self =
     (case self of
      Dns_RecordType.Ns \<Rightarrow> True
    | Dns_RecordType.Soa \<Rightarrow> True
    | _ \<Rightarrow> False)"

definition Dns_RecordType_ALL :: "Dns_RecordType list" where
  "Dns_RecordType_ALL =
     [Dns_RecordType.A, Dns_RecordType.Ns, Dns_RecordType.Cname, Dns_RecordType.Soa,
      Dns_RecordType.Ptr, Dns_RecordType.Mx, Dns_RecordType.Txt, Dns_RecordType.Aaaa,
      Dns_RecordType.Srv]"

definition Dns_RecordType_fmt :: "Dns_RecordType \<Rightarrow> string" where
  "Dns_RecordType_fmt self = Dns_RecordType_mnemonic self"

section \<open>\<open>dns::ResponseCode\<close>\<close>

datatype (plugins only: code) Dns_ResponseCode =
    NoError
  | FormatError
  | ServerFailure
  | NameError
  | NotImplemented
  | Refused

definition Dns_ResponseCode_from_rcode :: "u8 \<Rightarrow> Dns_ResponseCode option" where
  "Dns_ResponseCode_from_rcode code =
     (if code = 0 then Some Dns_ResponseCode.NoError
      else if code = 1 then Some Dns_ResponseCode.FormatError
      else if code = 2 then Some Dns_ResponseCode.ServerFailure
      else if code = 3 then Some Dns_ResponseCode.NameError
      else if code = 4 then Some Dns_ResponseCode.NotImplemented
      else if code = 5 then Some Dns_ResponseCode.Refused
      else option.None)"

primrec Dns_ResponseCode_to_rcode :: "Dns_ResponseCode \<Rightarrow> u8" where
  "Dns_ResponseCode_to_rcode Dns_ResponseCode.NoError = 0"
| "Dns_ResponseCode_to_rcode Dns_ResponseCode.FormatError = 1"
| "Dns_ResponseCode_to_rcode Dns_ResponseCode.ServerFailure = 2"
| "Dns_ResponseCode_to_rcode Dns_ResponseCode.NameError = 3"
| "Dns_ResponseCode_to_rcode Dns_ResponseCode.NotImplemented = 4"
| "Dns_ResponseCode_to_rcode Dns_ResponseCode.Refused = 5"

definition Dns_ResponseCode_is_success :: "Dns_ResponseCode \<Rightarrow> bool" where
  "Dns_ResponseCode_is_success self =
     (case self of
      Dns_ResponseCode.NoError \<Rightarrow> True
    | _ \<Rightarrow> False)"

definition Dns_ResponseCode_is_nxdomain :: "Dns_ResponseCode \<Rightarrow> bool" where
  "Dns_ResponseCode_is_nxdomain self =
     (case self of
      Dns_ResponseCode.NameError \<Rightarrow> True
    | _ \<Rightarrow> False)"

definition Dns_ResponseCode_fmt :: "Dns_ResponseCode \<Rightarrow> string" where
  "Dns_ResponseCode_fmt self =
     (case self of
      Dns_ResponseCode.NoError \<Rightarrow> ''NOERROR''
    | Dns_ResponseCode.FormatError \<Rightarrow> ''FORMERR''
    | Dns_ResponseCode.ServerFailure \<Rightarrow> ''SERVFAIL''
    | Dns_ResponseCode.NameError \<Rightarrow> ''NXDOMAIN''
    | Dns_ResponseCode.NotImplemented \<Rightarrow> ''NOTIMP''
    | Dns_ResponseCode.Refused \<Rightarrow> ''REFUSED'')"

section \<open>\<open>ffi_dns::DnsState\<close>\<close>

datatype (plugins only: code) DnsState =
    Idle
  | QueryReceived
  | Lookup
  | ResponseBuilding
  | Sent

definition DnsState_from_tag :: "u8 \<Rightarrow> DnsState option" where
  "DnsState_from_tag tag =
     (if tag = 0 then Some DnsState.Idle
      else if tag = 1 then Some DnsState.QueryReceived
      else if tag = 2 then Some DnsState.Lookup
      else if tag = 3 then Some DnsState.ResponseBuilding
      else if tag = 4 then Some DnsState.Sent
      else option.None)"

primrec DnsState_to_tag :: "DnsState \<Rightarrow> u8" where
  "DnsState_to_tag DnsState.Idle = 0"
| "DnsState_to_tag DnsState.QueryReceived = 1"
| "DnsState_to_tag DnsState.Lookup = 2"
| "DnsState_to_tag DnsState.ResponseBuilding = 3"
| "DnsState_to_tag DnsState.Sent = 4"

section \<open>\<open>ffi_dns::DnssecState\<close>\<close>

datatype (plugins only: code) DnssecState =
    Disabled
  | Enabled
  | KeyLoaded
  | Validated

definition DnssecState_from_tag :: "u8 \<Rightarrow> DnssecState option" where
  "DnssecState_from_tag tag =
     (if tag = 0 then Some DnssecState.Disabled
      else if tag = 1 then Some DnssecState.Enabled
      else if tag = 2 then Some DnssecState.KeyLoaded
      else if tag = 3 then Some DnssecState.Validated
      else option.None)"

primrec DnssecState_to_tag :: "DnssecState \<Rightarrow> u8" where
  "DnssecState_to_tag DnssecState.Disabled = 0"
| "DnssecState_to_tag DnssecState.Enabled = 1"
| "DnssecState_to_tag DnssecState.KeyLoaded = 2"
| "DnssecState_to_tag DnssecState.Validated = 3"

section \<open>\<open>ffi_dns::DnssecAlgorithm\<close>\<close>

datatype (plugins only: code) DnssecAlgorithm =
    RsaSha256
  | RsaSha512
  | EcdsaP256Sha256
  | EcdsaP384Sha384
  | Ed25519

definition DnssecAlgorithm_from_tag :: "u8 \<Rightarrow> DnssecAlgorithm option" where
  "DnssecAlgorithm_from_tag tag =
     (if tag = 0 then Some DnssecAlgorithm.RsaSha256
      else if tag = 1 then Some DnssecAlgorithm.RsaSha512
      else if tag = 2 then Some DnssecAlgorithm.EcdsaP256Sha256
      else if tag = 3 then Some DnssecAlgorithm.EcdsaP384Sha384
      else if tag = 4 then Some DnssecAlgorithm.Ed25519
      else option.None)"

primrec DnssecAlgorithm_to_tag :: "DnssecAlgorithm \<Rightarrow> u8" where
  "DnssecAlgorithm_to_tag DnssecAlgorithm.RsaSha256 = 0"
| "DnssecAlgorithm_to_tag DnssecAlgorithm.RsaSha512 = 1"
| "DnssecAlgorithm_to_tag DnssecAlgorithm.EcdsaP256Sha256 = 2"
| "DnssecAlgorithm_to_tag DnssecAlgorithm.EcdsaP384Sha384 = 3"
| "DnssecAlgorithm_to_tag DnssecAlgorithm.Ed25519 = 4"

section \<open>Tags and enumerations\<close>

interpretation Dns_RecordType_to_type_code: wire_codec Dns_RecordType_to_type_code Dns_RecordType_from_type_code
  by (unfold_locales, case_tac [1] x, auto simp: Dns_RecordType_from_type_code_def  split: if_splits)

interpretation Dns_ResponseCode_to_rcode: wire_codec Dns_ResponseCode_to_rcode Dns_ResponseCode_from_rcode
  by (unfold_locales, case_tac [1] x, auto simp: Dns_ResponseCode_from_rcode_def  split: if_splits)

lemma Dns_RecordType_ALL_exhaustive: "set Dns_RecordType_ALL = UNIV \<and> distinct Dns_RecordType_ALL"
  by (auto simp: Dns_RecordType_ALL_def) (case_tac x; simp)

interpretation DnsState_codec: tag_codec DnsState_to_tag DnsState_from_tag 5
  by (unfold_locales, (case_tac x; simp add: DnsState_from_tag_def), unfold DnsState_from_tag_def,
    (erule codec_arm, simp only: DnsState_to_tag.simps)+, erule codec_end, (case_tac x; simp), simp add: codec_eval)

interpretation DnssecState_codec: tag_codec DnssecState_to_tag DnssecState_from_tag 4
  by (unfold_locales, (case_tac x; simp add: DnssecState_from_tag_def), unfold DnssecState_from_tag_def,
    (erule codec_arm, simp only: DnssecState_to_tag.simps)+, erule codec_end, (case_tac x; simp), simp add: codec_eval)

interpretation DnssecAlgorithm_codec: tag_codec DnssecAlgorithm_to_tag DnssecAlgorithm_from_tag 5
  by (unfold_locales, (case_tac x; simp add: DnssecAlgorithm_from_tag_def), unfold DnssecAlgorithm_from_tag_def,
    (erule codec_arm, simp only: DnssecAlgorithm_to_tag.simps)+, erule codec_end, (case_tac x; simp), simp add: codec_eval)

end
