(* ===== verification/Dns_Ffi.thy ===== *)
theory Dns_Ffi
  imports Dns_Engine Dns_Types
begin

text \<open>
  The safe DNS wrappers \<open>bindings/rust/src/ffi_dns.rs\<close> over the message builder, the invariant of a
  context and the interpretation of the pool contract. Three wrappers check a length before they
  call the engine, and answer \<open>InvalidParameter\<close> or \<open>CapacityExceeded\<close> without calling it.
\<close>

section \<open>The wrappers\<close>

definition ffi_dns_abi_version :: u32 where
  "ffi_dns_abi_version = dns_abi_version"

definition ffi_dns_create_context :: "dns_pool \<Rightarrow> dns_pool \<times> ffi_context ProvenResult" where
  "ffi_dns_create_context p = wrap_slot (dns_create_context p)"

definition ffi_dns_drop :: "dns_pool \<Rightarrow> ffi_context \<Rightarrow> dns_pool" where
  "ffi_dns_drop p ctx = dns_destroy_context p (ctx_slot ctx)"

definition ffi_dns_state :: "dns_pool \<Rightarrow> ffi_context \<Rightarrow> DnsState option" where
  "ffi_dns_state p ctx = DnsState_from_tag (dns_state p (ctx_slot ctx))"

definition ffi_dns_dnssec_state :: "dns_pool \<Rightarrow> ffi_context \<Rightarrow> DnssecState option" where
  "ffi_dns_dnssec_state p ctx = DnssecState_from_tag (dns_dnssec_state p (ctx_slot ctx))"

definition ffi_dns_rcode :: "dns_pool \<Rightarrow> ffi_context \<Rightarrow> u8" where
  "ffi_dns_rcode p ctx = dns_rcode p (ctx_slot ctx)"

definition ffi_dns_answer_count :: "dns_pool \<Rightarrow> ffi_context \<Rightarrow> u16" where
  "ffi_dns_answer_count p ctx = dns_answer_count p (ctx_slot ctx)"

definition ffi_dns_authority_count :: "dns_pool \<Rightarrow> ffi_context \<Rightarrow> u16" where
  "ffi_dns_authority_count p ctx = dns_authority_count p (ctx_slot ctx)"

definition ffi_dns_additional_count :: "dns_pool \<Rightarrow> ffi_context \<Rightarrow> u16" where
  "ffi_dns_additional_count p ctx = dns_additional_count p (ctx_slot ctx)"

definition ffi_dns_query_rtype :: "dns_pool \<Rightarrow> ffi_context \<Rightarrow> u8" where
  "ffi_dns_query_rtype p ctx = dns_query_rtype p (ctx_slot ctx)"

definition ffi_dns_query_class :: "dns_pool \<Rightarrow> ffi_context \<Rightarrow> u8" where
  "ffi_dns_query_class p ctx = dns_query_class p (ctx_slot ctx)"

definition ffi_dns_parse_query :: "dns_pool \<Rightarrow> ffi_context \<Rightarrow> u8 list \<Rightarrow> dns_pool \<times> unit ProvenResult" where
  "ffi_dns_parse_query p ctx data =
     (if length data \<noteq> 17 then (p, Inl InvalidParameter)
      else wrap_status (dns_parse_query p (ctx_slot ctx) data))"

definition ffi_dns_begin_lookup :: "dns_pool \<Rightarrow> ffi_context \<Rightarrow> dns_pool \<times> unit ProvenResult" where
  "ffi_dns_begin_lookup p ctx = wrap_status (dns_begin_lookup p (ctx_slot ctx))"

definition ffi_dns_begin_response :: "dns_pool \<Rightarrow> ffi_context \<Rightarrow> dns_pool \<times> unit ProvenResult" where
  "ffi_dns_begin_response p ctx = wrap_status (dns_begin_response p (ctx_slot ctx))"

definition ffi_dns_add_answer ::
  "dns_pool \<Rightarrow> ffi_context \<Rightarrow> u8 \<Rightarrow> u8 \<Rightarrow> u32 \<Rightarrow> u8 list \<Rightarrow> dns_pool \<times> unit ProvenResult" where
  "ffi_dns_add_answer p ctx rtype rclass ttl rdata =
     (if length rdata > 256 then (p, Inl CapacityExceeded)
      else wrap_status (dns_add_answer p (ctx_slot ctx) rtype rclass ttl rdata))"

definition ffi_dns_add_authority ::
  "dns_pool \<Rightarrow> ffi_context \<Rightarrow> u8 \<Rightarrow> u8 \<Rightarrow> u32 \<Rightarrow> u8 list \<Rightarrow> dns_pool \<times> unit ProvenResult" where
  "ffi_dns_add_authority p ctx rtype rclass ttl rdata =
     (if length rdata > 256 then (p, Inl CapacityExceeded)
      else wrap_status (dns_add_authority p (ctx_slot ctx) rtype rclass ttl rdata))"

definition ffi_dns_add_additional ::
  "dns_pool \<Rightarrow> ffi_context \<Rightarrow> u8 \<Rightarrow> u8 \<Rightarrow> u32 \<Rightarrow> u8 list \<Rightarrow> dns_pool \<times> unit ProvenResult" where
  "ffi_dns_add_additional p ctx rtype rclass ttl rdata =
     (if length rdata > 256 then (p, Inl CapacityExceeded)
      else wrap_status (dns_add_additional p (ctx_slot ctx) rtype rclass ttl rdata))"

definition ffi_dns_set_rcode :: "dns_pool \<Rightarrow> ffi_context \<Rightarrow> u8 \<Rightarrow> dns_pool \<times> unit ProvenResult" where
  "ffi_dns_set_rcode p ctx rcode_tag = wrap_status (dns_set_rcode p (ctx_slot ctx) rcode_tag)"

text \<open>
  The caller's buffer \<open>out\<close>: the result is the number of bytes written together with the buffer
  after the call.
\<close>

definition build_result :: "u8 list \<Rightarrow> u8 \<times> u8 list \<Rightarrow> (u16 \<times> u8 list) ProvenResult" where
  "build_result out r =
     map_sum id (\<lambda>_. (word_of_nat (length (snd r)), snd r @ drop (length (snd r)) out)) (from_status (fst r))"

definition ffi_dns_build_response ::
  "dns_pool \<Rightarrow> ffi_context \<Rightarrow> u8 list \<Rightarrow> dns_pool \<times> (u16 \<times> u8 list) ProvenResult" where
  "ffi_dns_build_response p ctx out =
     (if length out < 512 then (p, Inl CapacityExceeded)
      else map_prod id (build_result out) (dns_build_response p (ctx_slot ctx)))"

definition ffi_dns_enable_dnssec :: "dns_pool \<Rightarrow> ffi_context \<Rightarrow> dns_pool \<times> unit ProvenResult" where
  "ffi_dns_enable_dnssec p ctx = wrap_status (dns_enable_dnssec p (ctx_slot ctx))"

definition ffi_dns_load_dnssec_key ::
  "dns_pool \<Rightarrow> ffi_context \<Rightarrow> DnssecAlgorithm \<Rightarrow> dns_pool \<times> unit ProvenResult" where
  "ffi_dns_load_dnssec_key p ctx algo = wrap_status (dns_load_dnssec_key p (ctx_slot ctx) (DnssecAlgorithm_to_tag algo))"

definition ffi_dns_sign_response :: "dns_pool \<Rightarrow> ffi_context \<Rightarrow> dns_pool \<times> unit ProvenResult" where
  "ffi_dns_sign_response p ctx = wrap_status (dns_sign_response p (ctx_slot ctx))"

definition ffi_dns_validate_dnssec :: "dns_pool \<Rightarrow> ffi_context \<Rightarrow> dns_pool \<times> bool" where
  "ffi_dns_validate_dnssec p ctx = map_prod id (\<lambda>r. r = 0) (dns_validate_dnssec p (ctx_slot ctx))"

definition ffi_dns_can_transition :: "DnsState \<Rightarrow> DnsState \<Rightarrow> bool" where
  "ffi_dns_can_transition from to = (dns_can_transition (DnsState_to_tag from) (DnsState_to_tag to) = 1)"

definition ffi_dns_can_dnssec_transition :: "DnssecState \<Rightarrow> DnssecState \<Rightarrow> bool" where
  "ffi_dns_can_dnssec_transition from to =
     (dns_can_dnssec_transition (DnssecState_to_tag from) (DnssecState_to_tag to) = 1)"

section \<open>The client's alphabet\<close>

datatype dns_call =
    Dc_parse_query "u8 list"
  | Dc_begin_lookup
  | Dc_begin_response
  | Dc_add dns_section u8 u8 u32 "u8 list"
  | Dc_set_rcode u8
  | Dc_build_response "u8 list"
  | Dc_enable_dnssec
  | Dc_load_dnssec_key DnssecAlgorithm
  | Dc_sign_response
  | Dc_validate_dnssec

datatype dns_answer =
    Ans_status "unit ProvenResult"
  | Ans_message "(u16 \<times> u8 list) ProvenResult"
  | Ans_valid bool

text \<open>The effect on the context behind the handle; a call the wrapper refuses has none.\<close>

definition no_bytes :: "DnsCtx \<times> u8 \<Rightarrow> DnsCtx \<times> u8 \<times> u8 list" where
  "no_bytes r = (fst r, snd r, [])"

primrec dns_step :: "dns_call \<Rightarrow> DnsCtx \<Rightarrow> DnsCtx \<times> u8 \<times> u8 list" where
  "dns_step (Dc_parse_query data) c = no_bytes (if length data \<noteq> 17 then (c, 1) else dns_parse_query_on data c)"
| "dns_step Dc_begin_lookup c = no_bytes (dns_begin_lookup_on c)"
| "dns_step Dc_begin_response c = no_bytes (dns_begin_response_on c)"
| "dns_step (Dc_add sec rtype rclass ttl rdata) c =
     no_bytes (if length rdata > 256 then (c, 1) else addRecord sec rtype rclass ttl rdata c)"
| "dns_step (Dc_set_rcode r) c = no_bytes (dns_set_rcode_on r c)"
| "dns_step (Dc_build_response out) c = (if length out < 512 then (c, 1, []) else dns_build_response_on c)"
| "dns_step Dc_enable_dnssec c = no_bytes (dns_enable_dnssec_on c)"
| "dns_step (Dc_load_dnssec_key a) c = no_bytes (dns_load_dnssec_key_on (DnssecAlgorithm_to_tag a) c)"
| "dns_step Dc_sign_response c = no_bytes (dns_sign_response_on c)"
| "dns_step Dc_validate_dnssec c = no_bytes (dns_validate_dnssec_on c)"

primrec dns_conv :: "dns_call \<Rightarrow> u8 \<times> u8 list \<Rightarrow> dns_answer" where
  "dns_conv (Dc_parse_query data) r =
     Ans_status (if length data \<noteq> 17 then Inl InvalidParameter else from_status (fst r))"
| "dns_conv Dc_begin_lookup r = Ans_status (from_status (fst r))"
| "dns_conv Dc_begin_response r = Ans_status (from_status (fst r))"
| "dns_conv (Dc_add sec rtype rclass ttl rdata) r =
     Ans_status (if length rdata > 256 then Inl CapacityExceeded else from_status (fst r))"
| "dns_conv (Dc_set_rcode rc) r = Ans_status (from_status (fst r))"
| "dns_conv (Dc_build_response out) r =
     Ans_message (if length out < 512 then Inl CapacityExceeded else build_result out r)"
| "dns_conv Dc_enable_dnssec r = Ans_status (from_status (fst r))"
| "dns_conv (Dc_load_dnssec_key a) r = Ans_status (from_status (fst r))"
| "dns_conv Dc_sign_response r = Ans_status (from_status (fst r))"
| "dns_conv Dc_validate_dnssec r = Ans_valid (fst r = 0)"

primrec ffi_dns_call :: "dns_call \<Rightarrow> dns_pool \<Rightarrow> ffi_context \<Rightarrow> dns_pool \<times> dns_answer" where
  "ffi_dns_call (Dc_parse_query data) p ctx = map_prod id Ans_status (ffi_dns_parse_query p ctx data)"
| "ffi_dns_call Dc_begin_lookup p ctx = map_prod id Ans_status (ffi_dns_begin_lookup p ctx)"
| "ffi_dns_call Dc_begin_response p ctx = map_prod id Ans_status (ffi_dns_begin_response p ctx)"
| "ffi_dns_call (Dc_add sec rtype rclass ttl rdata) p ctx =
     map_prod id Ans_status
       (case sec of
          sec_answer \<Rightarrow> ffi_dns_add_answer p ctx rtype rclass ttl rdata
        | sec_authority \<Rightarrow> ffi_dns_add_authority p ctx rtype rclass ttl rdata
        | sec_additional \<Rightarrow> ffi_dns_add_additional p ctx rtype rclass ttl rdata)"
| "ffi_dns_call (Dc_set_rcode rc) p ctx = map_prod id Ans_status (ffi_dns_set_rcode p ctx rc)"
| "ffi_dns_call (Dc_build_response out) p ctx = map_prod id Ans_message (ffi_dns_build_response p ctx out)"
| "ffi_dns_call Dc_enable_dnssec p ctx = map_prod id Ans_status (ffi_dns_enable_dnssec p ctx)"
| "ffi_dns_call (Dc_load_dnssec_key a) p ctx = map_prod id Ans_status (ffi_dns_load_dnssec_key p ctx a)"
| "ffi_dns_call Dc_sign_response p ctx = map_prod id Ans_status (ffi_dns_sign_response p ctx)"
| "ffi_dns_call Dc_validate_dnssec p ctx = map_prod id Ans_valid (ffi_dns_validate_dnssec p ctx)"

lemmas ffi_dns_op_defs =
  ffi_dns_parse_query_def dns_parse_query_def ffi_dns_begin_lookup_def dns_begin_lookup_def
  ffi_dns_begin_response_def dns_begin_response_def ffi_dns_add_answer_def dns_add_answer_def
  ffi_dns_add_authority_def dns_add_authority_def ffi_dns_add_additional_def dns_add_additional_def
  ffi_dns_set_rcode_def dns_set_rcode_def ffi_dns_build_response_def dns_build_response_def
  ffi_dns_enable_dnssec_def dns_enable_dnssec_def ffi_dns_load_dnssec_key_def dns_load_dnssec_key_def
  ffi_dns_sign_response_def dns_sign_response_def ffi_dns_validate_dnssec_def dns_validate_dnssec_def

section \<open>The invariant of a context\<close>

text \<open>
  Records have valid tags and at most 256 bytes, a section at most 16 records; DNSSEC is never more
  than enabled; the query fields are set from the parse on, and there are records only from the
  response on.
\<close>

definition rr_ok :: "ResourceRecord \<Rightarrow> bool" where
  "rr_ok rr \<longleftrightarrow> rr_rtype rr \<le> 14 \<and> rr_rclass rr \<le> 3 \<and> length (rr_rdata rr) \<le> 256"

definition dns_good :: "DnsCtx \<Rightarrow> bool" where
  "dns_good c \<longleftrightarrow>
     dn_dnssec_state c \<in> {ds_disabled, ds_enabled} \<and> dn_rcode c \<le> 10 \<and>
     (\<forall>rrs \<in> {dn_answers c, dn_authorities c, dn_additionals c}. length rrs \<le> 16 \<and> (\<forall>rr \<in> set rrs. rr_ok rr)) \<and>
     (dn_state c = dn_idle \<longleftrightarrow> dn_query_rtype c = 255 \<and> dn_query_class c = 255) \<and>
     (dn_state c \<noteq> dn_idle \<longrightarrow> dn_query_rtype c \<le> 14 \<and> dn_query_class c \<le> 3)"

lemma wire_tag_range:
  "wireTypeToAbiTag w \<noteq> 255 \<Longrightarrow> wireTypeToAbiTag w \<le> 14"
  "wireClassToAbiTag w \<noteq> 255 \<Longrightarrow> wireClassToAbiTag w \<le> 3"
  by (auto simp: wireTypeToAbiTag_def wireClassToAbiTag_def split: if_splits)

lemma dns_active_step: "dn_active (fst (dns_step x c)) = dn_active c"
  by (cases x) (auto simp: op_simps no_bytes_def Let_def split: dns_section.split)

lemma dns_good_fresh: "dns_good (dns_fresh c)"
  by (simp add: dns_good_def dns_fresh_def dns_empty_context_def)

text \<open>The bytes the parser accepts, and what it keeps of them.\<close>

definition query_ok :: "u8 list \<Rightarrow> bool" where
  "query_ok q \<longleftrightarrow>
     length q = 17 \<and> q ! 2 AND 0xFE = 0 \<and> q ! 3 = 0 \<and> q ! 4 = 0 \<and> q ! 5 = 1 \<and>
     (\<forall>b \<in> set (take 6 (drop 6 q)). b = 0) \<and> q ! 12 = 0 \<and>
     wireTypeToAbiTag (read16 (q ! 13) (q ! 14)) \<noteq> 255 \<and> wireClassToAbiTag (read16 (q ! 15) (q ! 16)) \<noteq> 255"

definition query_kept :: "u8 list \<Rightarrow> DnsCtx \<Rightarrow> DnsCtx" where
  "query_kept q c =
     c\<lparr>dn_transaction_id := read16 (q ! 0) (q ! 1), dn_recursion_desired := (q ! 2 AND 1 \<noteq> 0),
       dn_query_rtype := wireTypeToAbiTag (read16 (q ! 13) (q ! 14)),
       dn_query_class := wireClassToAbiTag (read16 (q ! 15) (q ! 16)), dn_state := dn_query_received\<rparr>"

lemma guard_chain: "(if a then x else if b then x else y) = (if a \<or> b then x else y)"
  by simp

lemma parse_query_eq:
  "dns_parse_query_on q c = (if dn_state c = dn_idle \<and> query_ok q then (query_kept q c, 0) else (c, 1))"
proof -
  have "dns_parse_query_on q c = (if \<not> (dn_state c = dn_idle \<and> query_ok q) then (c, 1) else (query_kept q c, 0))"
    unfolding dns_parse_query_on_def Let_def guard_chain query_kept_def
    by (rule if_cong) (simp_all add: query_ok_def, blast)
  then show ?thesis by simp
qed

text \<open>The same for the records: what is accepted, and where it goes.\<close>

primrec section_of :: "dns_section \<Rightarrow> DnsCtx \<Rightarrow> ResourceRecord list" where
  "section_of sec_answer c = dn_answers c"
| "section_of sec_authority c = dn_authorities c"
| "section_of sec_additional c = dn_additionals c"

primrec put_record :: "dns_section \<Rightarrow> ResourceRecord \<Rightarrow> DnsCtx \<Rightarrow> DnsCtx" where
  "put_record sec_answer rr c = c\<lparr>dn_answers := dn_answers c @ [rr]\<rparr>"
| "put_record sec_authority rr c = c\<lparr>dn_authorities := dn_authorities c @ [rr]\<rparr>"
| "put_record sec_additional rr c = c\<lparr>dn_additionals := dn_additionals c @ [rr]\<rparr>"

lemma add_record_eq:
  "addRecord sec rtype rclass ttl rdata c =
     (let rr = \<lparr>rr_rtype = rtype, rr_rclass = rclass, rr_ttl = ttl, rr_rdata = rdata\<rparr> in
      if dn_state c = dn_response_building \<and> rr_ok rr \<and> length (section_of sec c) < 16
      then (put_record sec rr c, 0) else (c, 1))"
proof -
  let ?rr = "\<lparr>rr_rtype = rtype, rr_rclass = rclass, rr_ttl = ttl, rr_rdata = rdata\<rparr>"
  have ok: "rr_ok ?rr \<longleftrightarrow> \<not> 14 < rtype \<and> \<not> 3 < rclass \<and> \<not> 256 < length rdata"
      "length rrs < 16 \<longleftrightarrow> \<not> 16 \<le> length rrs"
      "section_of sec_answer c = dn_answers c" "section_of sec_authority c = dn_authorities c"
      "section_of sec_additional c = dn_additionals c" for rrs :: "ResourceRecord list"
    by (simp_all only: rr_ok_def ResourceRecord.simps section_of.simps not_less not_le)
  have "addRecord sec rtype rclass ttl rdata c =
      (if \<not> (dn_state c = dn_response_building \<and> rr_ok ?rr \<and> length (section_of sec c) < 16) then (c, 1)
       else (put_record sec ?rr c, 0))"
  proof (cases sec)
    case sec_answer
    show ?thesis
      unfolding addRecord_def Let_def sec_answer dns_section.case guard_chain
      by (rule if_cong, simp only: ok, blast) simp_all
  next
    case sec_authority
    show ?thesis
      unfolding addRecord_def Let_def sec_authority dns_section.case guard_chain
      by (rule if_cong, simp only: ok, blast) simp_all
  next
    case sec_additional
    show ?thesis
      unfolding addRecord_def Let_def sec_additional dns_section.case guard_chain
      by (rule if_cong, simp only: ok, blast) simp_all
  qed
  then show ?thesis by (simp add: Let_def)
qed

lemma dns_good_parse: "dns_good c \<Longrightarrow> dns_good (fst (dns_parse_query_on data c))"
proof (simp add: parse_query_eq, intro impI)
  assume "dns_good c" "dn_state c = dn_idle \<and> query_ok data"
  moreover from this have "wireTypeToAbiTag (read16 (data ! 13) (data ! 14)) \<le> 14"
      "wireTypeToAbiTag (read16 (data ! 13) (data ! 14)) \<noteq> 255"
      "wireClassToAbiTag (read16 (data ! 15) (data ! 16)) \<le> 3"
    using wire_tag_range by (simp_all add: query_ok_def)
  ultimately show "dns_good (query_kept data c)" by (simp add: dns_good_def query_kept_def)
qed

lemma dns_good_put:
  assumes "dns_good c" "rr_ok rr" "length (section_of sec c) < 16"
  shows "dns_good (put_record sec rr c)"
  using assms by (cases sec) (simp_all add: dns_good_def)

lemma dns_good_add: "dns_good c \<Longrightarrow> dns_good (fst (addRecord sec rtype rclass ttl rdata c))"
  by (simp add: add_record_eq Let_def dns_good_put)

lemma dns_good_step: "dns_good c \<Longrightarrow> dns_good (fst (dns_step x c))"
proof (cases x)
  case (Dc_parse_query data)
  then show "dns_good c \<Longrightarrow> dns_good (fst (dns_step x c))" by (simp add: no_bytes_def dns_good_parse)
next
  case (Dc_add sec rtype rclass ttl rdata)
  then show "dns_good c \<Longrightarrow> dns_good (fst (dns_step x c))" by (simp add: no_bytes_def dns_good_add)
qed (auto simp: dns_good_def op_simps no_bytes_def not_less)

interpretation dns: slot_service dn_active "\<lambda>_ :: unit. True" "\<lambda>_. dns_fresh" dns_off dns_step
  "\<lambda>_. (1, [])" dns_conv dns_good dns_contexts "\<lambda>_. ffi_dns_create_context" ffi_dns_drop ffi_dns_call
proof
  fix c :: DnsCtx and p :: dns_pool and h :: ffi_context and x :: dns_call
  show "dn_active (dns_fresh c)" by (simp add: dns_fresh_def)
  show "\<not> dn_active (dns_off c)" by (simp add: dns_off_def)
  show "dn_active c \<Longrightarrow> dn_active (fst (dns_step x c))" by (simp add: dns_active_step)
  show "dns_good (dns_fresh c)" by (rule dns_good_fresh)
  show "dns_good c \<Longrightarrow> dns_good (fst (dns_step x c))" by (rule dns_good_step)
  show "c \<in> set dns_contexts \<Longrightarrow> \<not> dn_active c" by (simp add: dns_contexts_def dns_empty_context_def)
  show "length dns_contexts \<le> 2147483648" by (simp add: dns_contexts_def)
  show "ffi_dns_create_context p = wrap_slot (if True then pool_create dn_active dns_fresh p else (p, - 1))"
    by (simp add: ffi_dns_create_context_def dns_create_context_def)
  show "ffi_dns_drop p h = pool_destroy dns_off p (ctx_slot h)"
    by (simp add: ffi_dns_drop_def dns_destroy_context_def)
  show "ffi_dns_call x p h = map_prod id (dns_conv x) (on_slot dn_active p (ctx_slot h) (1, []) (dns_step x))"
    by (cases x)
       (auto simp: ffi_dns_op_defs wrap_status_eq_map_prod on_slot_def no_bytes_def
         split: option.split prod.split dns_section.split)
qed

abbreviation dns_client :: "dns_pool \<Rightarrow> ffi_context list \<Rightarrow> bool" where
  "dns_client \<equiv> client (\<lambda>_ :: unit. ffi_dns_create_context) ffi_dns_drop ffi_dns_call dns_contexts"

lemma dns_first_client: "dns_client (dns_contexts[0 := dns_fresh (dns_contexts ! 0)]) [handle 0]"
  by (rule dns.client_first) (simp_all add: dns_contexts_def)

end
