(* ===== verification/Slot_Threads.thy ===== *)
theory Slot_Threads
  imports Smtp_Ffi Firewall_Ffi Httpd_Ffi Dns_Ffi
begin

text \<open>
  Threads that share the engines. \<open>smtp.zig\<close>, \<open>firewall.zig\<close>, \<open>httpd.zig\<close> and \<open>dns.zig\<close> test the slot
  before they take its lock, so a call is two steps, and other threads may run between them. Here the
  two steps are apart: the calls begun and not yet finished are a list of pending calls, each with
  the index its test gave. A handle is not dropped while a call on it is pending: Rust's \<open>drop\<close> takes
  the handle, a call borrows it.
\<close>

section \<open>Calls in two steps\<close>

definition locked_body ::
  "('op \<Rightarrow> 'c \<Rightarrow> 'c \<times> 'r) \<Rightarrow> ('op \<Rightarrow> 'r) \<Rightarrow> 'op \<Rightarrow> nat option \<Rightarrow> 'c list \<Rightarrow> 'c list \<times> 'r" where
  "locked_body step err x m p =
     (case m of
        None \<Rightarrow> (p, err x)
      | Some i \<Rightarrow> (let (c, r) = step x (p ! i) in (p[i := c], r)))"

lemma locked_body_on_slot:
  "on_slot act p s (err x) (step x) = locked_body step err x (valid_slot act p s) p"
  by (simp add: on_slot_def locked_body_def)

inductive threads ::
  "('c \<Rightarrow> bool) \<Rightarrow> ('op \<Rightarrow> 'c \<Rightarrow> 'c \<times> 'r) \<Rightarrow> ('op \<Rightarrow> 'r) \<Rightarrow>
   ('a \<Rightarrow> 'c list \<Rightarrow> 'c list \<times> ffi_context ProvenResult) \<Rightarrow> ('c list \<Rightarrow> ffi_context \<Rightarrow> 'c list) \<Rightarrow> 'c list \<Rightarrow>
   'c list \<Rightarrow> ffi_context list \<Rightarrow> (ffi_context \<times> 'op \<times> nat option) list \<Rightarrow> bool"
  for act step err create dropf init where
  t_start: "threads act step err create dropf init init [] []"
| t_new: "threads act step err create dropf init p hs q \<Longrightarrow> create a p = (p', Inr h) \<Longrightarrow>
     threads act step err create dropf init p' (h # hs) q"
| t_refused: "threads act step err create dropf init p hs q \<Longrightarrow> create a p = (p', Inl e) \<Longrightarrow>
     threads act step err create dropf init p' hs q"
| t_test: "threads act step err create dropf init p hs q \<Longrightarrow> h \<in> set hs \<Longrightarrow>
     threads act step err create dropf init p hs ((h, x, valid_slot act p (ctx_slot h)) # q)"
| t_body: "threads act step err create dropf init p hs (q @ (h, x, m) # q') \<Longrightarrow>
     threads act step err create dropf init (fst (locked_body step err x m p)) hs (q @ q')"
| t_release: "threads act step err create dropf init p hs q \<Longrightarrow> h \<in> set hs \<Longrightarrow> h \<notin> fst ` set q \<Longrightarrow>
     threads act step err create dropf init (dropf p h) (remove1 h hs) q"

section \<open>A call in two steps is a call in one\<close>

context slot_service begin

text \<open>The index a test gives for an owned handle depends on the handle only.\<close>

lemma owned_index:
  assumes "client create dropf call init p hs" "h \<in> set hs"
  shows "valid_slot act p (ctx_slot h) = Some (nat (sint (ctx_slot h)))"
  using assms
proof (rule live_slot)
  fix i
  assume "valid_slot act p (ctx_slot h) = Some i"
  then show ?thesis by (auto simp: valid_slot_Some_iff slot_index_Some_iff)
qed

lemma pending_call:
  assumes "client create dropf call init p hs" "h \<in> set hs" "m = Some (nat (sint (ctx_slot h)))"
  shows "map_prod id (conv x) (locked_body step err x m p) = call x p h"
  by (simp add: call_eq locked_body_on_slot owned_index [OF assms(1,2)] assms(3))

lemma threads_client:
  assumes "threads act step err create dropf init p hs q"
  shows "client create dropf call init p hs \<and>
    (\<forall>(h, x, m) \<in> set q. h \<in> set hs \<and> m = Some (nat (sint (ctx_slot h))))"
  using assms
proof (induction rule: threads.induct)
  case t_start
  show ?case by (simp add: client.start)
next
  case (t_new p hs q a p' h)
  then show ?case by (auto intro: client.new)
next
  case (t_refused p hs q a p' e)
  then show ?case by (auto intro: client.refused)
next
  case (t_test p hs q h x)
  then show ?case by (auto simp: owned_index)
next
  case (t_body p hs q h x m q')
  then have c: "client create dropf call init p hs" "h \<in> set hs" "m = Some (nat (sint (ctx_slot h)))"
    by auto
  have "fst (locked_body step err x m p) = fst (call x p h)"
    unfolding pending_call [OF c, symmetric] by simp
  with client.use [OF c(1,2), of x] t_body show ?case by auto
next
  case (t_release p hs q h)
  then have "h' \<in> set (remove1 h hs)" if "(h', x, m) \<in> set q" for h' x m
    using that by (metis (no_types, lifting) case_prodD fst_conv image_eqI in_set_remove1)
  with t_release show ?case by (auto intro: client.release)
qed

lemma threads_atomic:
  assumes "threads act step err create dropf init p hs q" "(h, x, m) \<in> set q"
  shows "client create dropf call init p hs \<and> h \<in> set hs \<and>
    map_prod id (conv x) (locked_body step err x m p) = call x p h"
  using threads_client [OF assms(1)] assms(2) pending_call by fast

end

section \<open>The four engines\<close>

abbreviation smtp_threads :: "smtp_pool \<Rightarrow> ffi_context list \<Rightarrow> (ffi_context \<times> smtp_call \<times> nat option) list \<Rightarrow> bool" where
  "smtp_threads \<equiv>
     threads sm_active smtp_step (\<lambda>_. 1) (\<lambda>_ :: unit. ffi_smtp_create_context) ffi_smtp_drop smtp_sessions"

abbreviation fw_threads :: "fw_pool \<Rightarrow> ffi_context list \<Rightarrow> (ffi_context \<times> fw_call \<times> nat option) list \<Rightarrow> bool" where
  "fw_threads \<equiv>
     threads fw_active_f fw_step (\<lambda>_. 1) (\<lambda>_ :: unit. ffi_fw_create_context) ffi_fw_drop fw_contexts"

abbreviation http_threads :: "http_pool \<Rightarrow> ffi_context list \<Rightarrow> (ffi_context \<times> http_call \<times> nat option) list \<Rightarrow> bool" where
  "http_threads \<equiv>
     threads ht_active http_step (\<lambda>_. 1) (\<lambda>_ :: unit. ffi_http_create_context) ffi_http_drop http_contexts"

abbreviation dns_threads :: "dns_pool \<Rightarrow> ffi_context list \<Rightarrow> (ffi_context \<times> dns_call \<times> nat option) list \<Rightarrow> bool" where
  "dns_threads \<equiv>
     threads dn_active dns_step (\<lambda>_. (1, [])) (\<lambda>_ :: unit. ffi_dns_create_context) ffi_dns_drop dns_contexts"

lemma fw_threads_client: "fw_threads p hs q \<Longrightarrow> fw_client p hs"
  using fw.threads_client by blast

lemma http_threads_client: "http_threads p hs q \<Longrightarrow> http_client p hs"
  using http.threads_client by blast

lemma dns_threads_client: "dns_threads p hs q \<Longrightarrow> dns_client p hs"
  using dns.threads_client by blast

text \<open>
  C5: Threads that use the safe SMTP wrappers see atomic calls, though the engine tests the slot before
  it takes the lock. In every state that any interleaving of creations, slot tests, locked bodies and
  drops reaches, the pool and the handles are those of a program that makes the same calls one at a
  time, and whatever pending call runs its body next does and answers what the whole call would do
  at that moment.
\<close>

theorem smtp_threads_atomic:
  assumes "smtp_threads p hs q" "(h, x, m) \<in> set q"
  shows "smtp_client p hs \<and> h \<in> set hs \<and>
    map_prod id from_status (locked_body smtp_step (\<lambda>_. 1) x m p) = ffi_smtp_call x p h"
  using smtp.threads_atomic [OF assms] .

lemma smtp_first_pending:
  "smtp_threads (smtp_sessions[0 := smtp_fresh (smtp_sessions ! 0)]) [handle 0]
     [(handle 0, Sc_greet True, valid_slot sm_active (smtp_sessions[0 := smtp_fresh (smtp_sessions ! 0)]) (ctx_slot (handle 0)))]"
proof -
  have "ffi_smtp_create_context smtp_sessions = (smtp_sessions[0 := smtp_fresh (smtp_sessions ! 0)], Inr (handle 0))"
    by (rule smtp.client_first(2)) (simp_all add: smtp_sessions_def)
  then have "smtp_threads (smtp_sessions[0 := smtp_fresh (smtp_sessions ! 0)]) [handle 0] []"
    by (rule threads.t_new [where create = "\<lambda>_ :: unit. ffi_smtp_create_context" and a = "()", OF threads.t_start])
  then show ?thesis by (rule threads.t_test) simp
qed

theorem smtp_threads_atomic_witness:
  "\<exists>p m. map_prod id from_status (locked_body smtp_step (\<lambda>_. 1) (Sc_greet True) m p) =
     ffi_smtp_call (Sc_greet True) p (handle 0)"
  using smtp_threads_atomic [OF smtp_first_pending list.set_intros(1)] by blast

text \<open>
  A C caller is not held to ownership: a call whose slot is destroyed and created anew between its two
  steps acts on the new session, where the whole call at its first step addressed the old one, and
  after the destruction alone it writes a free slot and answers 0, where the whole call is refused.
\<close>

lemma smtp_c_race:
  fixes p :: smtp_pool
  defines "p1 \<equiv> smtp_sessions[0 := smtp_fresh (smtp_sessions ! 0)]"
  defines "m \<equiv> valid_slot sm_active p1 0" and "p2 \<equiv> smtp_destroy_context p1 0"
  shows "snd (locked_body smtp_step (\<lambda>_. 1) (Sc_greet True) m p2) = 0"
    and "snd (on_slot sm_active p2 0 1 (smtp_step (Sc_greet True))) = 1"
proof -
  have m: "m = Some 0" by (simp add: m_def p1_def valid_slot_def slot_index_def smtp_sessions_def smtp_fresh_def)
  have p2: "p2 = p1[0 := smtp_off (p1 ! 0)]"
    by (simp add: p2_def smtp_destroy_context_def pool_destroy_def slot_index_def p1_def smtp_sessions_def)
  show "snd (locked_body smtp_step (\<lambda>_. 1) (Sc_greet True) m p2) = 0"
    by (simp add: m p2 p1_def locked_body_def op_simps smtp_sessions_def smtp_off_def smtp_fresh_def Let_def split: prod.split)
  show "snd (on_slot sm_active p2 0 1 (smtp_step (Sc_greet True))) = 1"
    by (simp add: p2 p1_def on_slot_def valid_slot_def slot_index_def smtp_sessions_def smtp_off_def)
qed

end
