(* ===== verification/Smtp_Props.thy ===== *)
theory Smtp_Props
  imports Smtp_Ffi
begin

text \<open>
  Properties of the SMTP component: what a program that uses the safe wrappers can rely on, in
  which order a message can be submitted, and how the three descriptions of the session state
  machine (the engine's operations, the engine's table, the Rust method) relate.
\<close>

section \<open>Shared facts\<close>

definition smtp_abs :: "SmtpContext \<Rightarrow> SmtpSessionState" where
  "smtp_abs c = (case sm_state c of
      smtp_connected \<Rightarrow> SmtpSessionState.Connected
    | smtp_greeted \<Rightarrow> SmtpSessionState.Greeted
    | smtp_auth_started \<Rightarrow> SmtpSessionState.AuthStarted
    | smtp_authenticated \<Rightarrow> SmtpSessionState.Authenticated
    | smtp_mail_from \<Rightarrow> SmtpSessionState.MailFrom
    | smtp_rcpt_to \<Rightarrow> SmtpSessionState.RcptTo
    | smtp_data \<Rightarrow> SmtpSessionState.Data
    | smtp_message_received \<Rightarrow> SmtpSessionState.MessageReceived
    | smtp_quitted \<Rightarrow> SmtpSessionState.Quit)"

text \<open>The engine's tag of a state is the Rust tag of its image.\<close>

lemma smtp_tag_abs: "smtp_state_tag (sm_state c) = SmtpSessionState_to_tag (smtp_abs c)"
  by (cases "sm_state c") (simp_all add: smtp_abs_def)

lemma smtp_decode [simp]: "SmtpSessionState_from_tag (smtp_state_tag (sm_state c)) = Some (smtp_abs c)"
  by (simp add: smtp_tag_abs)

lemma smtp_abs_eq_iff:
  "smtp_abs c = SmtpSessionState.Connected \<longleftrightarrow> sm_state c = smtp_connected"
  "smtp_abs c = SmtpSessionState.Greeted \<longleftrightarrow> sm_state c = smtp_greeted"
  "smtp_abs c = SmtpSessionState.AuthStarted \<longleftrightarrow> sm_state c = smtp_auth_started"
  "smtp_abs c = SmtpSessionState.Authenticated \<longleftrightarrow> sm_state c = smtp_authenticated"
  "smtp_abs c = SmtpSessionState.MailFrom \<longleftrightarrow> sm_state c = smtp_mail_from"
  "smtp_abs c = SmtpSessionState.RcptTo \<longleftrightarrow> sm_state c = smtp_rcpt_to"
  "smtp_abs c = SmtpSessionState.Data \<longleftrightarrow> sm_state c = smtp_data"
  "smtp_abs c = SmtpSessionState.MessageReceived \<longleftrightarrow> sm_state c = smtp_message_received"
  "smtp_abs c = SmtpSessionState.Quit \<longleftrightarrow> sm_state c = smtp_quitted"
  by (cases "sm_state c"; simp add: smtp_abs_def)+

lemmas smtp_query_defs =
  ffi_smtp_get_state_def smtp_get_state_def
  ffi_smtp_get_recipient_count_def smtp_get_recipient_count_def
  ffi_smtp_get_data_size_def smtp_get_data_size_def
  ffi_smtp_get_auth_mechanism_def smtp_get_auth_mechanism_def
  ffi_smtp_get_reply_code_def smtp_get_reply_code_def
  ffi_smtp_is_authenticated_def smtp_is_authenticated_def query_slot_def

lemma smtp_first_client: "smtp_client (smtp_sessions[0 := smtp_fresh (smtp_sessions ! 0)]) [handle 0]"
  by (rule smtp.client_first) (simp_all add: smtp_sessions_def)

section \<open>Safe use of the wrappers\<close>

text \<open>
  C2: In every state a program reaches by creating, using and dropping SMTP contexts through the
  safe wrappers, an owned context reports a decodable session state and reply code; its recipient
  count is at most 64 and its data size at most 10 MiB; a session that is collecting or has received
  a message has at least one recipient; and the authentication flag is set in the Authenticated
  state, with a decodable mechanism, and clear in the states that precede it.
\<close>

theorem smtp_live_session:
  assumes "smtp_client p hs" "h \<in> set hs"
  shows "\<exists>s. ffi_smtp_get_state p h = Some s \<and>
    ReplyCode_from_tag (ffi_smtp_get_reply_code p h) \<noteq> None \<and>
    unat (ffi_smtp_get_recipient_count p h) \<le> 64 \<and>
    unat (ffi_smtp_get_data_size p h) \<le> 10485760 \<and>
    (s \<in> {SmtpSessionState.RcptTo, SmtpSessionState.Data, SmtpSessionState.MessageReceived} \<longrightarrow>
       ffi_smtp_get_recipient_count p h \<noteq> 0) \<and>
    (s = SmtpSessionState.Authenticated \<longrightarrow>
       ffi_smtp_is_authenticated p h \<and> ffi_smtp_get_auth_mechanism p h \<noteq> None) \<and>
    (s \<in> {SmtpSessionState.Connected, SmtpSessionState.Greeted, SmtpSessionState.AuthStarted} \<longrightarrow>
       \<not> ffi_smtp_is_authenticated p h)"
  using assms
proof (rule smtp.live_slot)
  fix i
  assume "valid_slot sm_active p (ctx_slot h) = Some i" "smtp_good (p ! i)"
  then show ?thesis
    by (intro exI [of _ "smtp_abs (p ! i)"]; cases "sm_state (p ! i)")
       (auto simp: smtp_query_defs smtp_good_def smtp_abs_def SmtpSessionState_from_tag_def
        AuthMechanism_codec.from_tag_eq_None_iff ReplyCode_codec.from_tag_eq_None_iff)
qed

theorem smtp_live_session_witness:
  "\<exists>s. ffi_smtp_get_state (smtp_sessions[0 := smtp_fresh (smtp_sessions ! 0)]) (handle 0) = Some s"
  using smtp_live_session [OF smtp_first_client, of "handle 0"] by auto

text \<open>
  C3: A wrapper call on an owned SMTP context that reports an error reports InvalidState and leaves
  the whole pool as it was; a call that reports success has run the engine's operation on the
  context's own slot.
\<close>

theorem smtp_error_atomic:
  assumes "smtp_client p hs" "h \<in> set hs" "ffi_smtp_call x p h = (p', r)"
  shows "(\<forall>e. r = Inl e \<longrightarrow> e = InvalidState \<and> p' = p) \<and>
    (r = Inr () \<longrightarrow> (\<exists>i. h = handle i \<and> p' = p[i := fst (smtp_step x (p ! i))] \<and> snd (smtp_step x (p ! i)) = 0))"
proof -
  have code: "snd (smtp_step x c) = 0 \<or> smtp_step x c = (c, 1)" for c
    by (cases x) (simp_all add: op_simps Let_def)
  obtain i where "h = handle i" "p' = p[i := fst (smtp_step x (p ! i))]"
      "r = from_status (snd (smtp_step x (p ! i)))"
    using smtp.call_runs [OF assms(1,2), of x] assms(3) by auto
  with code [of "p ! i"] show ?thesis by auto
qed

theorem smtp_error_atomic_witness:
  "\<exists>p. snd (ffi_smtp_call Sc_start_data p (handle 0)) = Inl InvalidState \<and>
     fst (ffi_smtp_call Sc_start_data p (handle 0)) = p"
proof -
  let ?p = "smtp_sessions[0 := smtp_fresh (smtp_sessions ! 0)]"
  have "snd (ffi_smtp_call Sc_start_data ?p (handle 0)) = Inl InvalidState"
    using smtp.call_first [of Sc_start_data]
    by (simp add: smtp_sessions_def op_simps smtp_fresh_def)
  with smtp_error_atomic [OF smtp_first_client, of "handle 0" Sc_start_data] show ?thesis
    by (metis list.set_intros(1) prod.collapse)
qed

text \<open>
  C4: Two contexts do not interfere: a call on one SMTP context, or dropping it, changes nothing
  that the seven session queries report of another context the program owns.
\<close>

theorem smtp_isolation:
  assumes "smtp_client p hs" "h \<in> set hs" "h' \<in> set hs" "h \<noteq> h'"
    and "q = fst (ffi_smtp_call x p h) \<or> q = ffi_smtp_drop p h"
  shows "ffi_smtp_get_state q h' = ffi_smtp_get_state p h' \<and>
    ffi_smtp_get_reply_code q h' = ffi_smtp_get_reply_code p h' \<and>
    ffi_smtp_get_recipient_count q h' = ffi_smtp_get_recipient_count p h' \<and>
    ffi_smtp_get_data_size q h' = ffi_smtp_get_data_size p h' \<and>
    ffi_smtp_get_auth_mechanism q h' = ffi_smtp_get_auth_mechanism p h' \<and>
    ffi_smtp_is_authenticated q h' = ffi_smtp_is_authenticated p h' \<and>
    ffi_smtp_is_tls_active q h' = ffi_smtp_is_tls_active p h'"
  using assms(5)
  by (auto simp: smtp.isolation [OF assms(1-4)] ffi_smtp_get_state_def smtp_get_state_def
      ffi_smtp_get_reply_code_def smtp_get_reply_code_def ffi_smtp_get_recipient_count_def
      smtp_get_recipient_count_def ffi_smtp_get_data_size_def smtp_get_data_size_def
      ffi_smtp_get_auth_mechanism_def smtp_get_auth_mechanism_def ffi_smtp_is_authenticated_def
      smtp_is_authenticated_def ffi_smtp_is_tls_active_def smtp_is_tls_active_def)

text \<open>Two creates in a row give the witness.\<close>

lemma smtp_second_client:
  "smtp_client (smtp_sessions[0 := smtp_fresh (smtp_sessions ! 0), 1 := smtp_fresh (smtp_sessions ! 1)])
     [handle 1, handle 0]"
  by (rule smtp.client_second) (simp_all add: smtp_sessions_def)

theorem smtp_isolation_witness:
  "\<exists>p. ffi_smtp_get_state (fst (ffi_smtp_call (Sc_greet True) p (handle 1))) (handle 0) = ffi_smtp_get_state p (handle 0)"
  using smtp_isolation [OF smtp_second_client, of "handle 1" "handle 0" _ "Sc_greet True"]
  by (auto simp: handle_inject [of 1 0, simplified])

section \<open>The order of a mail transaction\<close>

text \<open>What the accepted operations so far must contain, by the state they led to.\<close>

definition smtp_history :: "SmtpContext \<Rightarrow> smtp_call list \<Rightarrow> bool" where
  "smtp_history c h \<longleftrightarrow>
     (sm_state c \<notin> {smtp_connected, smtp_quitted} \<longrightarrow> (\<exists>e. subseq [Sc_greet e] h)) \<and>
     (sm_state c = smtp_auth_started \<longrightarrow> (\<exists>e m. subseq [Sc_greet e, Sc_authenticate m] h)) \<and>
     (sm_state c = smtp_mail_from \<longrightarrow> (\<exists>e. subseq [Sc_greet e, Sc_set_sender] h)) \<and>
     (sm_state c = smtp_rcpt_to \<longrightarrow> (\<exists>e. subseq [Sc_greet e, Sc_set_sender, Sc_add_recipient] h)) \<and>
     (sm_state c = smtp_data \<longrightarrow>
        (\<exists>e. subseq [Sc_greet e, Sc_set_sender, Sc_add_recipient, Sc_start_data] h)) \<and>
     (sm_state c = smtp_message_received \<longrightarrow>
        (\<exists>e. subseq [Sc_greet e, Sc_set_sender, Sc_add_recipient, Sc_start_data, Sc_finish_data] h)) \<and>
     (sm_is_authenticated c \<longrightarrow>
        (\<exists>e m. subseq [Sc_greet e, Sc_authenticate m, Sc_auth_complete True] h))"

lemma smtp_rejected: "snd (smtp_step x c) \<noteq> 0 \<Longrightarrow> fst (smtp_step x c) = c"
  by (cases x) (auto simp: op_simps Let_def split: if_splits)

lemma smtp_history_accepted:
  assumes "smtp_history c h" "snd (smtp_step x c) = 0"
  shows "smtp_history (fst (smtp_step x c)) (h @ [x])"
  using assms
  by (cases x; cases "sm_state c";
      auto simp: op_simps Let_def smtp_history_def split: if_splits intro: subseq_snoc)

text \<open>
  C1: From a fresh session, whatever operations are tried, the engine is in the MessageReceived
  state only if it accepted HELO/EHLO, MAIL FROM, RCPT TO, DATA and end-of-data in this order (with
  other accepted operations in between), and a session counts as authenticated only if it accepted
  the greeting, an AUTH and its successful completion in this order.
\<close>

theorem smtp_transaction_order:
  fixes c0 :: SmtpContext and ops :: "smtp_call list"
  defines "c \<equiv> fst (session_run smtp_step (smtp_fresh c0) ops)"
    and "h \<equiv> snd (session_run smtp_step (smtp_fresh c0) ops)"
  shows "(sm_state c = smtp_message_received \<longrightarrow>
      (\<exists>e. subseq [Sc_greet e, Sc_set_sender, Sc_add_recipient, Sc_start_data, Sc_finish_data] h)) \<and>
    (sm_is_authenticated c \<longrightarrow>
      (\<exists>e m. subseq [Sc_greet e, Sc_authenticate m, Sc_auth_complete True] h))"
proof -
  have "smtp_history c h"
    unfolding c_def h_def
    by (rule session_run_invariant)
       (auto simp: smtp_history_accepted smtp_rejected, simp add: smtp_history_def smtp_fresh_def)
  then show ?thesis by (simp add: smtp_history_def)
qed

theorem smtp_transaction_order_witness:
  "\<exists>e. subseq [Sc_greet e, Sc_set_sender, Sc_add_recipient, Sc_start_data, Sc_finish_data]
     (snd (session_run smtp_step (smtp_fresh (smtp_sessions ! 0))
        [Sc_greet True, Sc_reset, Sc_set_sender, Sc_add_recipient, Sc_start_data, Sc_append_data 9, Sc_finish_data]))"
  by (rule smtp_transaction_order [THEN conjunct1, THEN mp])
     (simp add: session_run_def op_simps smtp_fresh_def MAX_RECIPIENTS_def MAX_DATA_SIZE_def Let_def)

section \<open>The three descriptions of the state machine\<close>

text \<open>
  The three descriptions of the SMTP machine. An accepted operation of the engine that changes the
  session state takes an edge of the exported table smtp_can_transition, with one exception: RSET in
  an authenticated session that is collecting an envelope goes from MailFrom or RcptTo to
  Authenticated, an edge the table refuses. The Rust method can_transition_to and the wrapper
  can_transition, which asks the table, disagree on exactly eight pairs of states: Rust lets a
  pipelined MAIL FROM follow MessageReceived and lets QUIT happen in AuthStarted, Data and Quit, which
  the table refuses; the table has the four RSET edges, which Rust lacks.
\<close>

theorem smtp_machines_agree:
  "(snd (smtp_step x c) = 0 \<and> sm_state (fst (smtp_step x c)) \<noteq> sm_state c \<longrightarrow>
     (smtp_can_transition (smtp_state_tag (sm_state c)) (smtp_state_tag (sm_state (fst (smtp_step x c)))) = 0 \<longleftrightarrow>
       x = Sc_reset \<and> sm_is_authenticated c \<and> sm_state c \<in> {smtp_mail_from, smtp_rcpt_to})) \<and>
   (SmtpSessionState_can_transition_to s t \<noteq> ffi_smtp_can_transition s t \<longleftrightarrow>
     (s, t) \<in> {(SmtpSessionState.MessageReceived, SmtpSessionState.MailFrom),
                (SmtpSessionState.AuthStarted, SmtpSessionState.Quit),
                (SmtpSessionState.Data, SmtpSessionState.Quit),
                (SmtpSessionState.Quit, SmtpSessionState.Quit),
                (SmtpSessionState.MessageReceived, SmtpSessionState.Greeted),
                (SmtpSessionState.MessageReceived, SmtpSessionState.Authenticated),
                (SmtpSessionState.MailFrom, SmtpSessionState.Greeted),
                (SmtpSessionState.RcptTo, SmtpSessionState.Greeted)})"
proof
  show "snd (smtp_step x c) = 0 \<and> sm_state (fst (smtp_step x c)) \<noteq> sm_state c \<longrightarrow>
     (smtp_can_transition (smtp_state_tag (sm_state c)) (smtp_state_tag (sm_state (fst (smtp_step x c)))) = 0 \<longleftrightarrow>
       x = Sc_reset \<and> sm_is_authenticated c \<and> sm_state c \<in> {smtp_mail_from, smtp_rcpt_to})"
    by (cases x; cases "sm_state c";
        auto simp: op_simps smtp_can_transition_def Let_def split: if_splits)
qed (cases s; cases t; simp add: SmtpSessionState_can_transition_to_def ffi_smtp_can_transition_def smtp_can_transition_def)

theorem smtp_machines_agree_witness:
  "\<exists>c. smtp_can_transition (smtp_state_tag (sm_state c)) (smtp_state_tag (sm_state (fst (smtp_step Sc_reset c)))) = 0"
proof -
  let ?c = "(smtp_fresh (smtp_sessions ! 0))\<lparr>sm_state := smtp_rcpt_to, sm_is_authenticated := True\<rparr>"
  have "snd (smtp_step Sc_reset ?c) = 0 \<and> sm_state (fst (smtp_step Sc_reset ?c)) \<noteq> sm_state ?c"
    by (simp add: op_simps)
  from smtp_machines_agree [THEN conjunct1, THEN mp, OF this] show ?thesis by (intro exI [of _ ?c]) simp
qed

section \<open>Message size accounting\<close>

primrec call_bytes :: "smtp_call \<Rightarrow> nat" where
  "call_bytes (Sc_append_data k) = unat k"
| "call_bytes (Sc_greet e) = 0"
| "call_bytes (Sc_authenticate m) = 0"
| "call_bytes (Sc_auth_complete b) = 0"
| "call_bytes Sc_set_sender = 0"
| "call_bytes Sc_add_recipient = 0"
| "call_bytes Sc_start_data = 0"
| "call_bytes Sc_finish_data = 0"
| "call_bytes Sc_reset = 0"
| "call_bytes Sc_quit = 0"
| "call_bytes Sc_enable_tls = 0"

lemma smtp_append_step:
  assumes "sm_state c = smtp_data"
  shows "snd (smtp_step (Sc_append_data k) c) = (if unat (sm_data_size c) + unat k \<le> 10485760 then 0 else 1)"
    and "snd (smtp_step (Sc_append_data k) c) = 0 \<Longrightarrow>
      unat (sm_data_size (fst (smtp_step (Sc_append_data k) c))) = unat (sm_data_size c) + unat k"
    and "sm_state (fst (smtp_step (Sc_append_data k) c)) = smtp_data"
  using assms append_no_wrap [of "sm_data_size c" k]
  by (auto simp: op_simps Let_def MAX_DATA_SIZE_def word_less_nat_alt split: if_splits)

text \<open>
  Appending chunks to a message is exact accounting. In the Data state a chunk is accepted if
  and only if the accumulated size plus the chunk is at most 10 MiB; after any sequence of chunks the
  stored 32-bit size is the start size plus the exact sum of the accepted chunks, and never more
  than 10 MiB when it was not before.
\<close>

theorem smtp_append_exact:
  assumes "sm_state c = smtp_data" "unat (sm_data_size c) \<le> 10485760"
  shows "(snd (smtp_step (Sc_append_data k) c) = 0 \<longleftrightarrow> unat (sm_data_size c) + unat k \<le> 10485760) \<and>
    (let (c', h) = session_run smtp_step c (map Sc_append_data ks) in
       sm_state c' = smtp_data \<and>
       unat (sm_data_size c') = unat (sm_data_size c) + sum_list (map call_bytes h) \<and>
       unat (sm_data_size c') \<le> 10485760)"
proof -
  have "let (c', h) = session_run smtp_step c (map Sc_append_data ks) in
       sm_state c' = smtp_data \<and>
       unat (sm_data_size c') = unat (sm_data_size c) + sum_list (map call_bytes h) \<and>
       unat (sm_data_size c') \<le> 10485760"
  proof (induction ks rule: rev_induct)
    case Nil
    then show ?case using assms by simp
  next
    case (snoc k ks)
    obtain c' h where run: "session_run smtp_step c (map Sc_append_data ks) = (c', h)"
      by (cases "session_run smtp_step c (map Sc_append_data ks)")
    with snoc have st: "sm_state c' = smtp_data" by simp
    show ?case
      using snoc smtp_append_step [OF st, of k] smtp_rejected [of "Sc_append_data k" c']
      by (auto simp: run session_run_snoc Let_def split: if_splits)
  qed
  then show ?thesis using smtp_append_step(1) [OF assms(1), of k] by simp
qed

theorem smtp_append_exact_witness:
  "unat (sm_data_size (fst (session_run smtp_step
     ((smtp_fresh (smtp_sessions ! 0))\<lparr>sm_state := smtp_data, sm_data_size := 10485000\<rparr>)
     (map Sc_append_data [700, 600, 100])))) \<le> 10485760"
  using smtp_append_exact [of "(smtp_fresh (smtp_sessions ! 0))\<lparr>sm_state := smtp_data, sm_data_size := 10485000\<rparr>" 0 "[700, 600, 100]"]
  by (simp add: case_prod_beta Let_def)

end
