(* ===== verification/Ftp_Engine.thy ===== *)
theory Ftp_Engine
  imports Slot_Pool Tag_Codec
begin

text \<open>
  The FTP session engine \<open>protocols/proven-ftp/ffi/zig/src/ftp.zig\<close>: the session record with its
  4096-byte buffer for the working directory, the path validation loop, and the body of every
  exported command. A path argument is the slice \<open>path[0..len]\<close>, a list of bytes. Lengths and
  indices of the loops are \<open>nat\<close> and the depth is \<open>int\<close>: they are bounded by the length of the
  path, so the \<open>u32\<close> and \<open>i32\<close> arithmetic of the code does not wrap on paths below 4 GiB.
\<close>

section \<open>State\<close>

datatype ftp_state = ftp_connected | ftp_user_ok | ftp_authenticated | ftp_renaming | ftp_quitted

primrec ftp_state_tag :: "ftp_state \<Rightarrow> u8" where
  "ftp_state_tag ftp_connected = 0"
| "ftp_state_tag ftp_user_ok = 1"
| "ftp_state_tag ftp_authenticated = 2"
| "ftp_state_tag ftp_renaming = 3"
| "ftp_state_tag ftp_quitted = 4"

datatype ftp_type = ftp_ascii | ftp_binary

primrec ftp_type_tag :: "ftp_type \<Rightarrow> u8" where
  "ftp_type_tag ftp_ascii = 0"
| "ftp_type_tag ftp_binary = 1"

text \<open>\<open>@enumFromInt\<close> on the two tags the guard of \<open>ftp_set_type\<close> lets through.\<close>

definition ftp_type_of :: "u8 \<Rightarrow> ftp_type" where
  "ftp_type_of t = (if t = 0 then ftp_ascii else ftp_binary)"

datatype ftp_mode = ftp_active_mode | ftp_passive_mode

primrec ftp_mode_tag :: "ftp_mode \<Rightarrow> u8" where
  "ftp_mode_tag ftp_active_mode = 0"
| "ftp_mode_tag ftp_passive_mode = 1"

datatype ftp_transfer = ftp_idle | ftp_in_progress | ftp_completed | ftp_aborted

primrec ftp_transfer_tag :: "ftp_transfer \<Rightarrow> u8" where
  "ftp_transfer_tag ftp_idle = 0"
| "ftp_transfer_tag ftp_in_progress = 1"
| "ftp_transfer_tag ftp_completed = 2"
| "ftp_transfer_tag ftp_aborted = 3"

record FtpSession =
  ft_state :: ftp_state
  ft_transfer_type :: ftp_type
  ft_data_mode :: u8
  ft_transfer_state :: ftp_transfer
  ft_bytes_transferred :: u64
  ft_file_count :: u32
  ft_last_reply :: u16
  ft_active_port :: u16
  ft_cwd_len :: nat
  ft_cwd :: "u8 list"
  ft_active :: bool

type_synonym ftp_pool = "FtpSession list"

definition MAX_CWD_LEN :: nat where
  "MAX_CWD_LEN = 4096"

abbreviation SLASH :: u8 where "SLASH \<equiv> 47"
abbreviation DOT :: u8 where "DOT \<equiv> 46"

definition initCwd :: "u8 list" where
  "initCwd = SLASH # replicate (MAX_CWD_LEN - 1) 0"

definition FTP_DEFAULT_SESSION :: FtpSession where
  "FTP_DEFAULT_SESSION =
     \<lparr>ft_state = ftp_connected, ft_transfer_type = ftp_ascii, ft_data_mode = 255,
      ft_transfer_state = ftp_idle, ft_bytes_transferred = 0, ft_file_count = 0,
      ft_last_reply = 0, ft_active_port = 0, ft_cwd_len = 1, ft_cwd = initCwd,
      ft_active = False\<rparr>"

definition ftp_sessions :: ftp_pool where
  "ftp_sessions = replicate 64 FTP_DEFAULT_SESSION"

section \<open>Paths\<close>

text \<open>
  The loop of \<open>validatePath\<close>: \<open>depth\<close>, \<open>seg_start\<close> and \<open>i\<close> are the loop variables, and an early
  \<open>return false\<close> is the value \<open>False\<close>. The variables are unbounded here; \<open>validate_checked\<close> is the loop at
  the widths of the code, and agrees with it on every path shorter than \<open>2 ^ 32 - 1\<close> bytes.
\<close>

function validate_loop :: "u8 list \<Rightarrow> int \<Rightarrow> nat \<Rightarrow> nat \<Rightarrow> bool" where
  "validate_loop bytes depth seg_start i =
     (if length bytes < i then True
      else
        let at_end = (i = length bytes);
            is_sep = (if at_end then True else bytes ! i = SLASH)
        in if is_sep then
             let seg_len = i - seg_start in
             if seg_len = 2 \<and> bytes ! seg_start = DOT \<and> bytes ! (seg_start + 1) = DOT then
               (if depth - 1 < 0 then False
                else validate_loop bytes (depth - 1) (i + 1) (i + 1))
             else if 0 < seg_len \<and> \<not> (seg_len = 1 \<and> bytes ! seg_start = DOT) then
               validate_loop bytes (depth + 1) (i + 1) (i + 1)
             else validate_loop bytes depth (i + 1) (i + 1)
           else validate_loop bytes depth seg_start (i + 1))"
  by pat_completeness auto
termination
  by (relation "measure (\<lambda>(bytes, depth, seg_start, i). Suc (length bytes) - i)") auto

declare validate_loop.simps [simp del]

definition validatePath :: "u8 list \<Rightarrow> bool" where
  "validatePath path =
     (if path = [] then False
      else if list_ex (\<lambda>c. c = 0) path then False
      else validate_loop path 0 0 0)"

text \<open>
  The same loop with \<open>depth\<close> in \<open>i32\<close> and the indices in \<open>u32\<close>: \<open>None\<close> where a checked \<open>+= 1\<close>, \<open>-= 1\<close> or
  \<open>i + 1\<close> leaves its width and stops the program.
\<close>

function validate_checked :: "u8 list \<Rightarrow> int \<Rightarrow> nat \<Rightarrow> nat \<Rightarrow> bool option" where
  "validate_checked bytes depth seg_start i =
     (if length bytes < i then Some True
      else
        let at_end = (i = length bytes);
            is_sep = (if at_end then True else bytes ! i = SLASH)
        in if is_sep then
             let seg_len = i - seg_start in
             if seg_len = 2 \<and> bytes ! seg_start = DOT \<and> bytes ! (seg_start + 1) = DOT then
               (if depth = - 2147483648 then None
                else if depth - 1 < 0 then Some False
                else if i = 4294967295 then None
                else validate_checked bytes (depth - 1) (i + 1) (i + 1))
             else if 0 < seg_len \<and> \<not> (seg_len = 1 \<and> bytes ! seg_start = DOT) then
               (if depth = 2147483647 \<or> i = 4294967295 then None
                else validate_checked bytes (depth + 1) (i + 1) (i + 1))
             else if i = 4294967295 then None
             else validate_checked bytes depth (i + 1) (i + 1)
           else if i = 4294967295 then None
           else validate_checked bytes depth seg_start (i + 1))"
  by pat_completeness auto
termination
  by (relation "measure (\<lambda>(bytes, depth, seg_start, i). Suc (length bytes) - i)") auto

declare validate_checked.simps [simp del]

text \<open>
  A counted segment takes at least two bytes with its separator, so the depth stays far from its bound;
  only a path of the greatest length a \<open>u32\<close> can give makes \<open>i + 1\<close> overflow, behind its last segment.
\<close>

lemma validate_checked_loop:
  assumes "length bytes \<le> 4294967295" "0 \<le> depth" "2 * depth \<le> int seg_start" "seg_start \<le> i" "i \<le> Suc (length bytes)"
    and "length bytes < 4294967295 \<or> i \<le> length bytes"
  shows "validate_checked bytes depth seg_start i =
    (if length bytes < 4294967295 then Some (validate_loop bytes depth seg_start i)
     else if validate_loop bytes depth seg_start i then None else Some False)"
  using assms
proof (induction "Suc (length bytes) - i" arbitrary: depth seg_start i rule: less_induct)
  case less
  note inv = less.prems
  let ?R = "\<lambda>b. if length bytes < 4294967295 then Some b else if b then None else Some False"
  have past: "length bytes < k \<Longrightarrow> validate_checked bytes d s k = Some True"
      "length bytes < k \<Longrightarrow> validate_loop bytes d s k" for d s k
    by (simp_all add: validate_checked.simps validate_loop.simps)
  define sep up down where "sep \<longleftrightarrow> i = length bytes \<or> bytes ! i = SLASH"
    and "up \<longleftrightarrow> i - seg_start = 2 \<and> bytes ! seg_start = DOT \<and> bytes ! (seg_start + 1) = DOT"
    and "down \<longleftrightarrow> 0 < i - seg_start \<and> \<not> (i - seg_start = 1 \<and> bytes ! seg_start = DOT)"
  show ?case
  proof (cases "length bytes < i")
    case True
    with inv show ?thesis by (simp add: past)
  next
    case False
    have is_sep: "(if i = length bytes then True else bytes ! i = SLASH) = sep" by (simp add: sep_def)
    have min_depth: "(depth = - 2147483648) = False" using inv(2) by simp
    have checked: "validate_checked bytes depth seg_start i =
        (if sep then
           if up then
             if depth - 1 < 0 then Some False
             else if i = 4294967295 then None else validate_checked bytes (depth - 1) (i + 1) (i + 1)
           else if down then
             if depth = 2147483647 \<or> i = 4294967295 then None else validate_checked bytes (depth + 1) (i + 1) (i + 1)
           else if i = 4294967295 then None else validate_checked bytes depth (i + 1) (i + 1)
         else if i = 4294967295 then None else validate_checked bytes depth seg_start (i + 1))"
      by (simp only: validate_checked.simps [of bytes depth seg_start i] Let_def is_sep False min_depth if_False
          flip: up_def down_def)
    have loop: "validate_loop bytes depth seg_start i \<longleftrightarrow>
        (if sep then
           if up then if depth - 1 < 0 then False else validate_loop bytes (depth - 1) (i + 1) (i + 1)
           else if down then validate_loop bytes (depth + 1) (i + 1) (i + 1)
           else validate_loop bytes depth (i + 1) (i + 1)
         else validate_loop bytes depth seg_start (i + 1))"
      by (simp only: validate_loop.simps [of bytes depth seg_start i] Let_def is_sep False if_False flip: up_def down_def)
    have step: "(if i = 4294967295 then None else validate_checked bytes d s (i + 1)) = ?R (validate_loop bytes d s (i + 1))"
      if "0 \<le> d" "2 * d \<le> int s" "s \<le> i + 1" for d s
    proof (cases "i = length bytes")
      case True
      with inv(1) show ?thesis by (auto simp: past)
    next
      case inner: False
      with False inv(1) have "i \<noteq> 4294967295" by linarith
      moreover have "validate_checked bytes d s (i + 1) = ?R (validate_loop bytes d s (i + 1))"
        by (rule less.hyps) (use that inner False inv(1) in linarith)+
      ultimately show ?thesis by simp
    qed
    have deep: "i = 4294967295" if down "depth = 2147483647"
    proof -
      have "seg_start < i" using that(1) by (simp add: down_def)
      with False inv(1,3) that(2) show ?thesis by linarith
    qed
    have le: "2 * depth \<le> int (i + 1)" "2 * (depth - 1) \<le> int (i + 1)" "seg_start \<le> i + 1" "0 \<le> depth + 1"
      using inv(2-4) by auto
    have grow: "2 * (depth + 1) \<le> int (i + 1)" if down
    proof -
      have "seg_start < i" using that by (simp add: down_def)
      with inv(3) show ?thesis by auto
    qed
    show ?thesis
    proof (cases sep)
      case False
      then show ?thesis unfolding checked loop by (simp only: if_False step [OF inv(2,3) le(3)])
    next
      case sep: True
      consider (escape) up "depth - 1 < 0" | (up) up "0 \<le> depth - 1" | (down) "\<not> up" down | (stay) "\<not> up" "\<not> down"
        by linarith
      then show ?thesis
      proof cases
        case escape
        then show ?thesis unfolding checked loop by (simp only: sep if_True if_False simp_thms split: if_split)
      next
        case up
        then have "\<not> depth - 1 < 0" by simp
        with up sep show ?thesis unfolding checked loop by (simp only: if_True if_False step [OF up(2) le(2) order_refl])
      next
        case down
        have "depth = 2147483647 \<or> i = 4294967295 \<longleftrightarrow> i = 4294967295" using deep down(2) by blast
        with down sep show ?thesis
          unfolding checked loop by (simp only: if_True if_False step [OF le(4) grow [OF down(2)] order_refl])
      next
        case stay
        with sep show ?thesis unfolding checked loop by (simp only: if_True if_False step [OF inv(2) le(1) order_refl])
      qed
    qed
  qed
qed

lemma validatePath_checked:
  "length path < 4294967295 \<Longrightarrow> validate_checked path 0 0 0 = Some (validate_loop path 0 0 0)"
  by (simp add: validate_checked_loop)

text \<open>\<open>@memcpy(buf[pos .. pos + n], src)\<close> for a source of length \<open>n\<close>.\<close>

definition buf_write :: "u8 list \<Rightarrow> nat \<Rightarrow> u8 list \<Rightarrow> u8 list" where
  "buf_write buf pos src = take pos buf @ src @ drop (pos + length src) buf"

definition applyCwd :: "u8 list \<Rightarrow> FtpSession \<Rightarrow> FtpSession" where
  "applyCwd bytes session =
     (if 0 < length bytes \<and> bytes ! 0 = SLASH then
        let copy_len = min (length bytes) MAX_CWD_LEN in
        session\<lparr>ft_cwd := buf_write (ft_cwd session) 0 (take copy_len bytes), ft_cwd_len := copy_len\<rparr>
      else
        let pos = ft_cwd_len session;
            (cwd, pos) =
              (if 0 < pos \<and> ft_cwd session ! (pos - 1) \<noteq> SLASH then
                 (if pos < MAX_CWD_LEN then ((ft_cwd session)[pos := SLASH], pos + 1)
                  else (ft_cwd session, pos))
               else (ft_cwd session, pos));
            remaining = MAX_CWD_LEN - pos;
            copy_len = min (length bytes) remaining
        in session\<lparr>ft_cwd := buf_write cwd pos (take copy_len bytes), ft_cwd_len := pos + copy_len\<rparr>)"

text \<open>The loop of \<open>ftp_cdup\<close>: down from \<open>i\<close> to the last separator, or to 0.\<close>

fun cdup_scan :: "u8 list \<Rightarrow> nat \<Rightarrow> nat" where
  "cdup_scan cwd i = (if 0 < i then (if cwd ! i = SLASH then i else cdup_scan cwd (i - 1)) else i)"

declare cdup_scan.simps [simp del]

section \<open>Lifecycle and queries\<close>

definition ftp_abi_version :: u32 where
  "ftp_abi_version = 1"

definition ftp_fresh :: "FtpSession \<Rightarrow> FtpSession" where
  "ftp_fresh c = FTP_DEFAULT_SESSION\<lparr>ft_active := True, ft_last_reply := 220\<rparr>"

definition ftp_create :: "ftp_pool \<Rightarrow> ftp_pool \<times> c_int" where
  "ftp_create p = pool_create ft_active ftp_fresh p"

definition ftp_off :: "FtpSession \<Rightarrow> FtpSession" where
  "ftp_off c = c\<lparr>ft_active := False\<rparr>"

definition ftp_destroy :: "ftp_pool \<Rightarrow> c_int \<Rightarrow> ftp_pool" where
  "ftp_destroy p s = pool_destroy ftp_off p s"

definition ftp_get_state :: "ftp_pool \<Rightarrow> c_int \<Rightarrow> u8" where
  "ftp_get_state p s = query_slot ft_active p s 4 (\<lambda>c. ftp_state_tag (ft_state c))"

definition ftp_transfer_type :: "ftp_pool \<Rightarrow> c_int \<Rightarrow> u8" where
  "ftp_transfer_type p s = query_slot ft_active p s 255 (\<lambda>c. ftp_type_tag (ft_transfer_type c))"

definition ftp_data_mode :: "ftp_pool \<Rightarrow> c_int \<Rightarrow> u8" where
  "ftp_data_mode p s = query_slot ft_active p s 255 ft_data_mode"

definition ftp_transfer_state :: "ftp_pool \<Rightarrow> c_int \<Rightarrow> u8" where
  "ftp_transfer_state p s = query_slot ft_active p s 255 (\<lambda>c. ftp_transfer_tag (ft_transfer_state c))"

definition ftp_bytes_transferred :: "ftp_pool \<Rightarrow> c_int \<Rightarrow> u64" where
  "ftp_bytes_transferred p s = query_slot ft_active p s 0 ft_bytes_transferred"

definition ftp_file_count :: "ftp_pool \<Rightarrow> c_int \<Rightarrow> u32" where
  "ftp_file_count p s = query_slot ft_active p s 0 ft_file_count"

definition ftp_last_reply_code :: "ftp_pool \<Rightarrow> c_int \<Rightarrow> u16" where
  "ftp_last_reply_code p s = query_slot ft_active p s 0 ft_last_reply"

text \<open>The bytes copied to the caller's buffer; their number is the result of the call.\<close>

definition ftp_cwd :: "ftp_pool \<Rightarrow> c_int \<Rightarrow> u32 \<Rightarrow> u8 list" where
  "ftp_cwd p s buf_len =
     query_slot ft_active p s [] (\<lambda>c. take (min (ft_cwd_len c) (unat buf_len)) (ft_cwd c))"

section \<open>Commands\<close>

definition ftp_user_on :: "FtpSession \<Rightarrow> FtpSession \<times> u8" where
  [op_simps]: "ftp_user_on s =
     (case ft_state s of
        ftp_connected \<Rightarrow> (s\<lparr>ft_state := ftp_user_ok, ft_last_reply := 331\<rparr>, 0)
      | ftp_user_ok \<Rightarrow> (s\<lparr>ft_last_reply := 331\<rparr>, 0)
      | ftp_authenticated \<Rightarrow> (s\<lparr>ft_state := ftp_user_ok, ft_last_reply := 331\<rparr>, 0)
      | _ \<Rightarrow> (s\<lparr>ft_last_reply := 503\<rparr>, 1))"

definition ftp_pass_on :: "FtpSession \<Rightarrow> FtpSession \<times> u8" where
  [op_simps]: "ftp_pass_on s =
     (if ft_state s \<noteq> ftp_user_ok then (s\<lparr>ft_last_reply := 503\<rparr>, 1)
      else (s\<lparr>ft_state := ftp_authenticated, ft_last_reply := 230\<rparr>, 0))"

definition ftp_quit_on :: "FtpSession \<Rightarrow> FtpSession \<times> u8" where
  [op_simps]: "ftp_quit_on s =
     (if ft_state s = ftp_quitted then (s, 1)
      else (s\<lparr>ft_state := ftp_quitted, ft_last_reply := 221\<rparr>, 0))"

text \<open>The reply when a command needs the authenticated state: 530 before login, else 503.\<close>

definition ftp_refuse :: "FtpSession \<Rightarrow> FtpSession \<times> u8" where
  [op_simps]: "ftp_refuse s =
     (s\<lparr>ft_last_reply := (if ft_state s = ftp_connected \<or> ft_state s = ftp_user_ok then 530 else 503)\<rparr>, 1)"

definition ftp_cwd_cmd_on :: "u8 list \<Rightarrow> FtpSession \<Rightarrow> FtpSession \<times> u8" where
  [op_simps]: "ftp_cwd_cmd_on path s =
     (if ft_state s \<noteq> ftp_authenticated then ftp_refuse s
      else if \<not> validatePath path then (s\<lparr>ft_last_reply := 550\<rparr>, 2)
      else ((applyCwd path s)\<lparr>ft_last_reply := 250\<rparr>, 0))"

definition ftp_cdup_on :: "FtpSession \<Rightarrow> FtpSession \<times> u8" where
  [op_simps]: "ftp_cdup_on s =
     (if ft_state s \<noteq> ftp_authenticated then ftp_refuse s
      else
        let s' = (if 1 < ft_cwd_len s then
                    let i = cdup_scan (ft_cwd s) (ft_cwd_len s - 1) in
                    s\<lparr>ft_cwd_len := (if i = 0 then 1 else i)\<rparr>
                  else s)
        in (s'\<lparr>ft_last_reply := 250\<rparr>, 0))"

definition ftp_set_type_on :: "u8 \<Rightarrow> FtpSession \<Rightarrow> FtpSession \<times> u8" where
  [op_simps]: "ftp_set_type_on type_tag s =
     (if ft_state s \<noteq> ftp_authenticated then ftp_refuse s
      else if type_tag > 1 then (s\<lparr>ft_last_reply := 504\<rparr>, 1)
      else (s\<lparr>ft_transfer_type := ftp_type_of type_tag, ft_last_reply := 200\<rparr>, 0))"

definition ftp_set_passive_on :: "FtpSession \<Rightarrow> FtpSession \<times> u8" where
  [op_simps]: "ftp_set_passive_on s =
     (if ft_state s \<noteq> ftp_authenticated then ftp_refuse s
      else (s\<lparr>ft_data_mode := ftp_mode_tag ftp_passive_mode, ft_last_reply := 227\<rparr>, 0))"

definition ftp_set_active_on :: "u16 \<Rightarrow> FtpSession \<Rightarrow> FtpSession \<times> u8" where
  [op_simps]: "ftp_set_active_on port s =
     (if ft_state s \<noteq> ftp_authenticated then ftp_refuse s
      else (s\<lparr>ft_data_mode := ftp_mode_tag ftp_active_mode, ft_active_port := port,
              ft_last_reply := 200\<rparr>, 0))"

definition ftp_begin_transfer_on :: "FtpSession \<Rightarrow> FtpSession \<times> u8" where
  [op_simps]: "ftp_begin_transfer_on s =
     (if ft_state s \<noteq> ftp_authenticated then ftp_refuse s
      else if ft_data_mode s = 255 then (s\<lparr>ft_last_reply := 425\<rparr>, 1)
      else if ft_transfer_state s = ftp_in_progress then (s\<lparr>ft_last_reply := 503\<rparr>, 1)
      else (s\<lparr>ft_transfer_state := ftp_in_progress, ft_bytes_transferred := 0, ft_last_reply := 150\<rparr>, 0))"

definition ftp_add_bytes_on :: "u64 \<Rightarrow> FtpSession \<Rightarrow> FtpSession \<times> u8" where
  [op_simps]: "ftp_add_bytes_on count s =
     (if ft_transfer_state s \<noteq> ftp_in_progress then (s, 1)
      else (s\<lparr>ft_bytes_transferred := sat_add (ft_bytes_transferred s) count\<rparr>, 0))"

definition ftp_complete_transfer_on :: "FtpSession \<Rightarrow> FtpSession \<times> u8" where
  [op_simps]: "ftp_complete_transfer_on s =
     (if ft_transfer_state s \<noteq> ftp_in_progress then (s, 1)
      else (s\<lparr>ft_transfer_state := ftp_completed, ft_file_count := sat_add (ft_file_count s) 1,
              ft_last_reply := 226\<rparr>, 0))"

definition ftp_abort_transfer_on :: "FtpSession \<Rightarrow> FtpSession \<times> u8" where
  [op_simps]: "ftp_abort_transfer_on s =
     (if ft_transfer_state s \<noteq> ftp_in_progress then (s, 1)
      else (s\<lparr>ft_transfer_state := ftp_aborted, ft_last_reply := 426\<rparr>, 0))"

definition ftp_begin_rename_on :: "FtpSession \<Rightarrow> FtpSession \<times> u8" where
  [op_simps]: "ftp_begin_rename_on s =
     (if ft_state s \<noteq> ftp_authenticated then ftp_refuse s
      else (s\<lparr>ft_state := ftp_renaming, ft_last_reply := 350\<rparr>, 0))"

definition ftp_complete_rename_on :: "FtpSession \<Rightarrow> FtpSession \<times> u8" where
  [op_simps]: "ftp_complete_rename_on s =
     (if ft_state s \<noteq> ftp_renaming then (s\<lparr>ft_last_reply := 503\<rparr>, 1)
      else (s\<lparr>ft_state := ftp_authenticated, ft_last_reply := 250\<rparr>, 0))"

text \<open>The exported commands: an invalid slot answers 1.\<close>

definition ftp_user :: "ftp_pool \<Rightarrow> c_int \<Rightarrow> u8 list \<Rightarrow> ftp_pool \<times> u8" where
  "ftp_user p s name = on_slot ft_active p s 1 ftp_user_on"

definition ftp_pass :: "ftp_pool \<Rightarrow> c_int \<Rightarrow> u8 list \<Rightarrow> ftp_pool \<times> u8" where
  "ftp_pass p s password = on_slot ft_active p s 1 ftp_pass_on"

definition ftp_quit :: "ftp_pool \<Rightarrow> c_int \<Rightarrow> ftp_pool \<times> u8" where
  "ftp_quit p s = on_slot ft_active p s 1 ftp_quit_on"

definition ftp_cwd_cmd :: "ftp_pool \<Rightarrow> c_int \<Rightarrow> u8 list \<Rightarrow> ftp_pool \<times> u8" where
  "ftp_cwd_cmd p s path = on_slot ft_active p s 1 (ftp_cwd_cmd_on path)"

definition ftp_cdup :: "ftp_pool \<Rightarrow> c_int \<Rightarrow> ftp_pool \<times> u8" where
  "ftp_cdup p s = on_slot ft_active p s 1 ftp_cdup_on"

definition ftp_set_type :: "ftp_pool \<Rightarrow> c_int \<Rightarrow> u8 \<Rightarrow> ftp_pool \<times> u8" where
  "ftp_set_type p s type_tag = on_slot ft_active p s 1 (ftp_set_type_on type_tag)"

definition ftp_set_passive :: "ftp_pool \<Rightarrow> c_int \<Rightarrow> ftp_pool \<times> u8" where
  "ftp_set_passive p s = on_slot ft_active p s 1 ftp_set_passive_on"

definition ftp_set_active :: "ftp_pool \<Rightarrow> c_int \<Rightarrow> u16 \<Rightarrow> ftp_pool \<times> u8" where
  "ftp_set_active p s port = on_slot ft_active p s 1 (ftp_set_active_on port)"

definition ftp_begin_transfer :: "ftp_pool \<Rightarrow> c_int \<Rightarrow> ftp_pool \<times> u8" where
  "ftp_begin_transfer p s = on_slot ft_active p s 1 ftp_begin_transfer_on"

definition ftp_add_bytes :: "ftp_pool \<Rightarrow> c_int \<Rightarrow> u64 \<Rightarrow> ftp_pool \<times> u8" where
  "ftp_add_bytes p s count = on_slot ft_active p s 1 (ftp_add_bytes_on count)"

definition ftp_complete_transfer :: "ftp_pool \<Rightarrow> c_int \<Rightarrow> ftp_pool \<times> u8" where
  "ftp_complete_transfer p s = on_slot ft_active p s 1 ftp_complete_transfer_on"

definition ftp_abort_transfer :: "ftp_pool \<Rightarrow> c_int \<Rightarrow> ftp_pool \<times> u8" where
  "ftp_abort_transfer p s = on_slot ft_active p s 1 ftp_abort_transfer_on"

definition ftp_begin_rename :: "ftp_pool \<Rightarrow> c_int \<Rightarrow> ftp_pool \<times> u8" where
  "ftp_begin_rename p s = on_slot ft_active p s 1 ftp_begin_rename_on"

definition ftp_complete_rename :: "ftp_pool \<Rightarrow> c_int \<Rightarrow> ftp_pool \<times> u8" where
  "ftp_complete_rename p s = on_slot ft_active p s 1 ftp_complete_rename_on"

section \<open>Stateless queries\<close>

definition ftp_can_transfer :: "u8 \<Rightarrow> u8" where
  "ftp_can_transfer state_tag = (if state_tag = 2 then 1 else 0)"

definition ftp_can_transition :: "u8 \<Rightarrow> u8 \<Rightarrow> u8" where
  "ftp_can_transition from to =
     (if from = 0 \<and> to = 1 then 1
      else if from = 0 \<and> to = 4 then 1
      else if from = 1 \<and> to = 2 then 1
      else if from = 1 \<and> to = 1 then 1
      else if from = 1 \<and> to = 4 then 1
      else if from = 2 \<and> to = 2 then 1
      else if from = 2 \<and> to = 3 then 1
      else if from = 2 \<and> to = 1 then 1
      else if from = 2 \<and> to = 4 then 1
      else if from = 3 \<and> to = 2 then 1
      else if from = 3 \<and> to = 3 then 1
      else if from = 3 \<and> to = 4 then 1
      else 0)"

end
