(* ===== verification/Ftp_Types.thy ===== *)
theory Ftp_Types
  imports Tag_Codec
begin

text \<open>
  The pure types of \<open>bindings/rust/src/ftp.rs\<close> (commands, transfer parameters, reply categories and the
  two transition checks of the Rust API) and the two enums \<open>ffi_ftp.rs\<close> declares for itself.
\<close>

definition FTP_CONTROL_PORT :: "u16" where
  "FTP_CONTROL_PORT = 21"

definition FTP_DATA_PORT :: "u16" where
  "FTP_DATA_PORT = 20"

definition FTPS_PORT :: "u16" where
  "FTPS_PORT = 990"

section \<open>\<open>ftp::SessionState\<close>\<close>

datatype (plugins only: code) Ftp_SessionState =
    Connected
  | UserOk
  | Authenticated
  | Renaming
  | Quit

definition Ftp_SessionState_from_tag :: "u8 \<Rightarrow> Ftp_SessionState option" where
  "Ftp_SessionState_from_tag tag =
     (if tag = 0 then Some Ftp_SessionState.Connected
      else if tag = 1 then Some Ftp_SessionState.UserOk
      else if tag = 2 then Some Ftp_SessionState.Authenticated
      else if tag = 3 then Some Ftp_SessionState.Renaming
      else if tag = 4 then Some Ftp_SessionState.Quit
      else option.None)"

primrec Ftp_SessionState_to_tag :: "Ftp_SessionState \<Rightarrow> u8" where
  "Ftp_SessionState_to_tag Ftp_SessionState.Connected = 0"
| "Ftp_SessionState_to_tag Ftp_SessionState.UserOk = 1"
| "Ftp_SessionState_to_tag Ftp_SessionState.Authenticated = 2"
| "Ftp_SessionState_to_tag Ftp_SessionState.Renaming = 3"
| "Ftp_SessionState_to_tag Ftp_SessionState.Quit = 4"

definition Ftp_SessionState_can_transition_to :: "Ftp_SessionState \<Rightarrow> Ftp_SessionState \<Rightarrow> bool" where
  "Ftp_SessionState_can_transition_to self next =
     (case (self, next) of
      (Ftp_SessionState.Connected, Ftp_SessionState.UserOk) \<Rightarrow> True
    | (Ftp_SessionState.UserOk, Ftp_SessionState.Authenticated) \<Rightarrow> True
    | (Ftp_SessionState.UserOk, Ftp_SessionState.Connected) \<Rightarrow> True
    | (Ftp_SessionState.Authenticated, Ftp_SessionState.Renaming) \<Rightarrow> True
    | (Ftp_SessionState.Renaming, Ftp_SessionState.Authenticated) \<Rightarrow> True
    | (_, Ftp_SessionState.Quit) \<Rightarrow> True
    | _ \<Rightarrow> False)"

primrec Ftp_SessionState_fmt :: "Ftp_SessionState \<Rightarrow> string" where
  "Ftp_SessionState_fmt Ftp_SessionState.Connected = ''Connected''"
| "Ftp_SessionState_fmt Ftp_SessionState.UserOk = ''UserOk''"
| "Ftp_SessionState_fmt Ftp_SessionState.Authenticated = ''Authenticated''"
| "Ftp_SessionState_fmt Ftp_SessionState.Renaming = ''Renaming''"
| "Ftp_SessionState_fmt Ftp_SessionState.Quit = ''Quit''"

section \<open>\<open>ftp::TransferType\<close>\<close>

datatype (plugins only: code) TransferType =
    Ascii
  | Binary

definition TransferType_from_tag :: "u8 \<Rightarrow> TransferType option" where
  "TransferType_from_tag tag =
     (if tag = 0 then Some TransferType.Ascii
      else if tag = 1 then Some TransferType.Binary
      else option.None)"

primrec TransferType_to_tag :: "TransferType \<Rightarrow> u8" where
  "TransferType_to_tag TransferType.Ascii = 0"
| "TransferType_to_tag TransferType.Binary = 1"

definition TransferType_type_char :: "TransferType \<Rightarrow> char" where
  "TransferType_type_char self =
     (case self of
      TransferType.Ascii \<Rightarrow> CHR ''A''
    | TransferType.Binary \<Rightarrow> CHR ''I'')"

primrec TransferType_fmt :: "TransferType \<Rightarrow> string" where
  "TransferType_fmt TransferType.Ascii = ''Ascii''"
| "TransferType_fmt TransferType.Binary = ''Binary''"

section \<open>\<open>ftp::DataMode\<close>\<close>

datatype (plugins only: code) DataMode =
    Active
  | Passive

definition DataMode_from_tag :: "u8 \<Rightarrow> DataMode option" where
  "DataMode_from_tag tag =
     (if tag = 0 then Some DataMode.Active
      else if tag = 1 then Some DataMode.Passive
      else option.None)"

primrec DataMode_to_tag :: "DataMode \<Rightarrow> u8" where
  "DataMode_to_tag DataMode.Active = 0"
| "DataMode_to_tag DataMode.Passive = 1"

definition DataMode_is_firewall_friendly :: "DataMode \<Rightarrow> bool" where
  "DataMode_is_firewall_friendly self =
     (case self of
      DataMode.Passive \<Rightarrow> True
    | _ \<Rightarrow> False)"

primrec DataMode_fmt :: "DataMode \<Rightarrow> string" where
  "DataMode_fmt DataMode.Active = ''Active''"
| "DataMode_fmt DataMode.Passive = ''Passive''"

section \<open>\<open>ftp::TransferState\<close>\<close>

datatype (plugins only: code) Ftp_TransferState =
    Idle
  | InProgress
  | Completed
  | Aborted

definition Ftp_TransferState_from_tag :: "u8 \<Rightarrow> Ftp_TransferState option" where
  "Ftp_TransferState_from_tag tag =
     (if tag = 0 then Some Ftp_TransferState.Idle
      else if tag = 1 then Some Ftp_TransferState.InProgress
      else if tag = 2 then Some Ftp_TransferState.Completed
      else if tag = 3 then Some Ftp_TransferState.Aborted
      else option.None)"

primrec Ftp_TransferState_to_tag :: "Ftp_TransferState \<Rightarrow> u8" where
  "Ftp_TransferState_to_tag Ftp_TransferState.Idle = 0"
| "Ftp_TransferState_to_tag Ftp_TransferState.InProgress = 1"
| "Ftp_TransferState_to_tag Ftp_TransferState.Completed = 2"
| "Ftp_TransferState_to_tag Ftp_TransferState.Aborted = 3"

definition Ftp_TransferState_is_terminal :: "Ftp_TransferState \<Rightarrow> bool" where
  "Ftp_TransferState_is_terminal self =
     (case self of
      Ftp_TransferState.Completed \<Rightarrow> True
    | Ftp_TransferState.Aborted \<Rightarrow> True
    | _ \<Rightarrow> False)"

definition Ftp_TransferState_can_transition_to :: "Ftp_TransferState \<Rightarrow> Ftp_TransferState \<Rightarrow> bool" where
  "Ftp_TransferState_can_transition_to self next =
     (case (self, next) of
      (Ftp_TransferState.Idle, Ftp_TransferState.InProgress) \<Rightarrow> True
    | (Ftp_TransferState.InProgress, Ftp_TransferState.Completed) \<Rightarrow> True
    | (Ftp_TransferState.InProgress, Ftp_TransferState.Aborted) \<Rightarrow> True
    | (Ftp_TransferState.Completed, Ftp_TransferState.Idle) \<Rightarrow> True
    | (Ftp_TransferState.Aborted, Ftp_TransferState.Idle) \<Rightarrow> True
    | _ \<Rightarrow> False)"

primrec Ftp_TransferState_fmt :: "Ftp_TransferState \<Rightarrow> string" where
  "Ftp_TransferState_fmt Ftp_TransferState.Idle = ''Idle''"
| "Ftp_TransferState_fmt Ftp_TransferState.InProgress = ''InProgress''"
| "Ftp_TransferState_fmt Ftp_TransferState.Completed = ''Completed''"
| "Ftp_TransferState_fmt Ftp_TransferState.Aborted = ''Aborted''"

section \<open>\<open>ftp::ReplyCategory\<close>\<close>

datatype (plugins only: code) Ftp_ReplyCategory =
    Preliminary
  | Completion
  | Intermediate
  | TransientNeg
  | PermanentNeg

definition Ftp_ReplyCategory_from_tag :: "u8 \<Rightarrow> Ftp_ReplyCategory option" where
  "Ftp_ReplyCategory_from_tag tag =
     (if tag = 0 then Some Ftp_ReplyCategory.Preliminary
      else if tag = 1 then Some Ftp_ReplyCategory.Completion
      else if tag = 2 then Some Ftp_ReplyCategory.Intermediate
      else if tag = 3 then Some Ftp_ReplyCategory.TransientNeg
      else if tag = 4 then Some Ftp_ReplyCategory.PermanentNeg
      else option.None)"

primrec Ftp_ReplyCategory_to_tag :: "Ftp_ReplyCategory \<Rightarrow> u8" where
  "Ftp_ReplyCategory_to_tag Ftp_ReplyCategory.Preliminary = 0"
| "Ftp_ReplyCategory_to_tag Ftp_ReplyCategory.Completion = 1"
| "Ftp_ReplyCategory_to_tag Ftp_ReplyCategory.Intermediate = 2"
| "Ftp_ReplyCategory_to_tag Ftp_ReplyCategory.TransientNeg = 3"
| "Ftp_ReplyCategory_to_tag Ftp_ReplyCategory.PermanentNeg = 4"

definition Ftp_ReplyCategory_is_positive :: "Ftp_ReplyCategory \<Rightarrow> bool" where
  "Ftp_ReplyCategory_is_positive self =
     (case self of
      Ftp_ReplyCategory.Preliminary \<Rightarrow> True
    | Ftp_ReplyCategory.Completion \<Rightarrow> True
    | Ftp_ReplyCategory.Intermediate \<Rightarrow> True
    | _ \<Rightarrow> False)"

definition Ftp_ReplyCategory_is_error :: "Ftp_ReplyCategory \<Rightarrow> bool" where
  "Ftp_ReplyCategory_is_error self =
     (case self of
      Ftp_ReplyCategory.TransientNeg \<Rightarrow> True
    | Ftp_ReplyCategory.PermanentNeg \<Rightarrow> True
    | _ \<Rightarrow> False)"

primrec Ftp_ReplyCategory_fmt :: "Ftp_ReplyCategory \<Rightarrow> string" where
  "Ftp_ReplyCategory_fmt Ftp_ReplyCategory.Preliminary = ''Preliminary''"
| "Ftp_ReplyCategory_fmt Ftp_ReplyCategory.Completion = ''Completion''"
| "Ftp_ReplyCategory_fmt Ftp_ReplyCategory.Intermediate = ''Intermediate''"
| "Ftp_ReplyCategory_fmt Ftp_ReplyCategory.TransientNeg = ''TransientNeg''"
| "Ftp_ReplyCategory_fmt Ftp_ReplyCategory.PermanentNeg = ''PermanentNeg''"

section \<open>\<open>ftp::Command\<close>\<close>

datatype (plugins only: code) Ftp_Command =
    User
  | Pass
  | Acct
  | Cwd
  | Cdup
  | Quit
  | Pasv
  | Port
  | TypeCmd
  | Retr
  | Stor
  | Dele
  | Rmd
  | Mkd
  | Pwd
  | List
  | Nlst
  | Syst
  | Stat
  | Noop
  | Rnfr
  | Rnto
  | Size

definition Ftp_Command_from_tag :: "u8 \<Rightarrow> Ftp_Command option" where
  "Ftp_Command_from_tag tag =
     (if tag = 0 then Some Ftp_Command.User
      else if tag = 1 then Some Ftp_Command.Pass
      else if tag = 2 then Some Ftp_Command.Acct
      else if tag = 3 then Some Ftp_Command.Cwd
      else if tag = 4 then Some Ftp_Command.Cdup
      else if tag = 5 then Some Ftp_Command.Quit
      else if tag = 6 then Some Ftp_Command.Pasv
      else if tag = 7 then Some Ftp_Command.Port
      else if tag = 8 then Some Ftp_Command.TypeCmd
      else if tag = 9 then Some Ftp_Command.Retr
      else if tag = 10 then Some Ftp_Command.Stor
      else if tag = 11 then Some Ftp_Command.Dele
      else if tag = 12 then Some Ftp_Command.Rmd
      else if tag = 13 then Some Ftp_Command.Mkd
      else if tag = 14 then Some Ftp_Command.Pwd
      else if tag = 15 then Some Ftp_Command.List
      else if tag = 16 then Some Ftp_Command.Nlst
      else if tag = 17 then Some Ftp_Command.Syst
      else if tag = 18 then Some Ftp_Command.Stat
      else if tag = 19 then Some Ftp_Command.Noop
      else if tag = 20 then Some Ftp_Command.Rnfr
      else if tag = 21 then Some Ftp_Command.Rnto
      else if tag = 22 then Some Ftp_Command.Size
      else option.None)"

primrec Ftp_Command_to_tag :: "Ftp_Command \<Rightarrow> u8" where
  "Ftp_Command_to_tag Ftp_Command.User = 0"
| "Ftp_Command_to_tag Ftp_Command.Pass = 1"
| "Ftp_Command_to_tag Ftp_Command.Acct = 2"
| "Ftp_Command_to_tag Ftp_Command.Cwd = 3"
| "Ftp_Command_to_tag Ftp_Command.Cdup = 4"
| "Ftp_Command_to_tag Ftp_Command.Quit = 5"
| "Ftp_Command_to_tag Ftp_Command.Pasv = 6"
| "Ftp_Command_to_tag Ftp_Command.Port = 7"
| "Ftp_Command_to_tag Ftp_Command.TypeCmd = 8"
| "Ftp_Command_to_tag Ftp_Command.Retr = 9"
| "Ftp_Command_to_tag Ftp_Command.Stor = 10"
| "Ftp_Command_to_tag Ftp_Command.Dele = 11"
| "Ftp_Command_to_tag Ftp_Command.Rmd = 12"
| "Ftp_Command_to_tag Ftp_Command.Mkd = 13"
| "Ftp_Command_to_tag Ftp_Command.Pwd = 14"
| "Ftp_Command_to_tag Ftp_Command.List = 15"
| "Ftp_Command_to_tag Ftp_Command.Nlst = 16"
| "Ftp_Command_to_tag Ftp_Command.Syst = 17"
| "Ftp_Command_to_tag Ftp_Command.Stat = 18"
| "Ftp_Command_to_tag Ftp_Command.Noop = 19"
| "Ftp_Command_to_tag Ftp_Command.Rnfr = 20"
| "Ftp_Command_to_tag Ftp_Command.Rnto = 21"
| "Ftp_Command_to_tag Ftp_Command.Size = 22"

definition Ftp_Command_verb :: "Ftp_Command \<Rightarrow> string" where
  "Ftp_Command_verb self =
     (case self of
      Ftp_Command.User \<Rightarrow> ''USER''
    | Ftp_Command.Pass \<Rightarrow> ''PASS''
    | Ftp_Command.Acct \<Rightarrow> ''ACCT''
    | Ftp_Command.Cwd \<Rightarrow> ''CWD''
    | Ftp_Command.Cdup \<Rightarrow> ''CDUP''
    | Ftp_Command.Quit \<Rightarrow> ''QUIT''
    | Ftp_Command.Pasv \<Rightarrow> ''PASV''
    | Ftp_Command.Port \<Rightarrow> ''PORT''
    | Ftp_Command.TypeCmd \<Rightarrow> ''TYPE''
    | Ftp_Command.Retr \<Rightarrow> ''RETR''
    | Ftp_Command.Stor \<Rightarrow> ''STOR''
    | Ftp_Command.Dele \<Rightarrow> ''DELE''
    | Ftp_Command.Rmd \<Rightarrow> ''RMD''
    | Ftp_Command.Mkd \<Rightarrow> ''MKD''
    | Ftp_Command.Pwd \<Rightarrow> ''PWD''
    | Ftp_Command.List \<Rightarrow> ''LIST''
    | Ftp_Command.Nlst \<Rightarrow> ''NLST''
    | Ftp_Command.Syst \<Rightarrow> ''SYST''
    | Ftp_Command.Stat \<Rightarrow> ''STAT''
    | Ftp_Command.Noop \<Rightarrow> ''NOOP''
    | Ftp_Command.Rnfr \<Rightarrow> ''RNFR''
    | Ftp_Command.Rnto \<Rightarrow> ''RNTO''
    | Ftp_Command.Size \<Rightarrow> ''SIZE'')"

definition Ftp_Command_requires_data_connection :: "Ftp_Command \<Rightarrow> bool" where
  "Ftp_Command_requires_data_connection self =
     (case self of
      Ftp_Command.Retr \<Rightarrow> True
    | Ftp_Command.Stor \<Rightarrow> True
    | Ftp_Command.List \<Rightarrow> True
    | Ftp_Command.Nlst \<Rightarrow> True
    | _ \<Rightarrow> False)"

definition Ftp_Command_requires_auth :: "Ftp_Command \<Rightarrow> bool" where
  "Ftp_Command_requires_auth self = (\<not>
     (case self of
      Ftp_Command.User \<Rightarrow> True
    | Ftp_Command.Pass \<Rightarrow> True
    | Ftp_Command.Acct \<Rightarrow> True
    | Ftp_Command.Quit \<Rightarrow> True
    | _ \<Rightarrow> False))"

definition Ftp_Command_ALL :: "Ftp_Command list" where
  "Ftp_Command_ALL =
     [Ftp_Command.User, Ftp_Command.Pass, Ftp_Command.Acct, Ftp_Command.Cwd, Ftp_Command.Cdup,
      Ftp_Command.Quit, Ftp_Command.Pasv, Ftp_Command.Port, Ftp_Command.TypeCmd,
      Ftp_Command.Retr, Ftp_Command.Stor, Ftp_Command.Dele, Ftp_Command.Rmd,
      Ftp_Command.Mkd, Ftp_Command.Pwd, Ftp_Command.List, Ftp_Command.Nlst,
      Ftp_Command.Syst, Ftp_Command.Stat, Ftp_Command.Noop, Ftp_Command.Rnfr,
      Ftp_Command.Rnto, Ftp_Command.Size]"

definition Ftp_Command_fmt :: "Ftp_Command \<Rightarrow> string" where
  "Ftp_Command_fmt self = Ftp_Command_verb self"

section \<open>\<open>ffi_ftp::FtpSessionState\<close>\<close>

datatype (plugins only: code) FtpSessionState =
    Connected
  | UserOk
  | Authenticated
  | Renaming
  | Quit

definition FtpSessionState_from_tag :: "u8 \<Rightarrow> FtpSessionState option" where
  "FtpSessionState_from_tag tag =
     (if tag = 0 then Some FtpSessionState.Connected
      else if tag = 1 then Some FtpSessionState.UserOk
      else if tag = 2 then Some FtpSessionState.Authenticated
      else if tag = 3 then Some FtpSessionState.Renaming
      else if tag = 4 then Some FtpSessionState.Quit
      else option.None)"

primrec FtpSessionState_to_tag :: "FtpSessionState \<Rightarrow> u8" where
  "FtpSessionState_to_tag FtpSessionState.Connected = 0"
| "FtpSessionState_to_tag FtpSessionState.UserOk = 1"
| "FtpSessionState_to_tag FtpSessionState.Authenticated = 2"
| "FtpSessionState_to_tag FtpSessionState.Renaming = 3"
| "FtpSessionState_to_tag FtpSessionState.Quit = 4"

section \<open>\<open>ffi_ftp::TransferState\<close>\<close>

datatype (plugins only: code) Ffi_ftp_TransferState =
    Idle
  | InProgress
  | Completed
  | Aborted

definition Ffi_ftp_TransferState_from_tag :: "u8 \<Rightarrow> Ffi_ftp_TransferState option" where
  "Ffi_ftp_TransferState_from_tag tag =
     (if tag = 0 then Some Ffi_ftp_TransferState.Idle
      else if tag = 1 then Some Ffi_ftp_TransferState.InProgress
      else if tag = 2 then Some Ffi_ftp_TransferState.Completed
      else if tag = 3 then Some Ffi_ftp_TransferState.Aborted
      else option.None)"

section \<open>Tags and enumerations\<close>

interpretation Ftp_SessionState_codec: tag_codec Ftp_SessionState_to_tag Ftp_SessionState_from_tag 5
  by (unfold_locales, (case_tac x; simp add: Ftp_SessionState_from_tag_def), unfold Ftp_SessionState_from_tag_def,
    (erule codec_arm, simp only: Ftp_SessionState_to_tag.simps)+, erule codec_end, (case_tac x; simp), simp add: codec_eval)

interpretation TransferType_codec: tag_codec TransferType_to_tag TransferType_from_tag 2
  by (unfold_locales, (case_tac x; simp add: TransferType_from_tag_def), unfold TransferType_from_tag_def,
    (erule codec_arm, simp only: TransferType_to_tag.simps)+, erule codec_end, (case_tac x; simp), simp add: codec_eval)

interpretation DataMode_codec: tag_codec DataMode_to_tag DataMode_from_tag 2
  by (unfold_locales, (case_tac x; simp add: DataMode_from_tag_def), unfold DataMode_from_tag_def,
    (erule codec_arm, simp only: DataMode_to_tag.simps)+, erule codec_end, (case_tac x; simp), simp add: codec_eval)

interpretation Ftp_TransferState_codec: tag_codec Ftp_TransferState_to_tag Ftp_TransferState_from_tag 4
  by (unfold_locales, (case_tac x; simp add: Ftp_TransferState_from_tag_def), unfold Ftp_TransferState_from_tag_def,
    (erule codec_arm, simp only: Ftp_TransferState_to_tag.simps)+, erule codec_end, (case_tac x; simp), simp add: codec_eval)

interpretation Ftp_ReplyCategory_codec: tag_codec Ftp_ReplyCategory_to_tag Ftp_ReplyCategory_from_tag 5
  by (unfold_locales, (case_tac x; simp add: Ftp_ReplyCategory_from_tag_def), unfold Ftp_ReplyCategory_from_tag_def,
    (erule codec_arm, simp only: Ftp_ReplyCategory_to_tag.simps)+, erule codec_end, (case_tac x; simp), simp add: codec_eval)

interpretation Ftp_Command_codec: tag_codec Ftp_Command_to_tag Ftp_Command_from_tag 23
  by (unfold_locales, (case_tac x; simp add: Ftp_Command_from_tag_def), unfold Ftp_Command_from_tag_def,
    (erule codec_arm, simp only: Ftp_Command_to_tag.simps)+, erule codec_end, (case_tac x; simp), simp add: codec_eval)

lemma Ftp_Command_ALL_exhaustive: "set Ftp_Command_ALL = UNIV \<and> distinct Ftp_Command_ALL"
  by (auto simp: Ftp_Command_ALL_def) (case_tac x; simp)

interpretation FtpSessionState_codec: tag_codec FtpSessionState_to_tag FtpSessionState_from_tag 5
  by (unfold_locales, (case_tac x; simp add: FtpSessionState_from_tag_def), unfold FtpSessionState_from_tag_def,
    (erule codec_arm, simp only: FtpSessionState_to_tag.simps)+, erule codec_end, (case_tac x; simp), simp add: codec_eval)

end
