(* ===== verification/Ftp_Ffi.thy ===== *)
theory Ftp_Ffi
  imports Ftp_Engine Ftp_Types
begin

text \<open>
  The safe FTP wrappers \<open>bindings/rust/src/ffi_ftp.rs\<close> over the engine, the invariant of a session,
  and the interpretation of the pool contract.
\<close>

section \<open>The wrappers\<close>

definition ffi_ftp_abi_version :: u32 where
  "ffi_ftp_abi_version = ftp_abi_version"

definition ffi_ftp_create :: "ftp_pool \<Rightarrow> ftp_pool \<times> ffi_context ProvenResult" where
  "ffi_ftp_create p = wrap_slot (ftp_create p)"

definition ffi_ftp_drop :: "ftp_pool \<Rightarrow> ffi_context \<Rightarrow> ftp_pool" where
  "ffi_ftp_drop p ctx = ftp_destroy p (ctx_slot ctx)"

definition ffi_ftp_state :: "ftp_pool \<Rightarrow> ffi_context \<Rightarrow> FtpSessionState option" where
  "ffi_ftp_state p ctx = FtpSessionState_from_tag (ftp_get_state p (ctx_slot ctx))"

definition ffi_ftp_transfer_type :: "ftp_pool \<Rightarrow> ffi_context \<Rightarrow> u8" where
  "ffi_ftp_transfer_type p ctx = ftp_transfer_type p (ctx_slot ctx)"

definition ffi_ftp_data_mode :: "ftp_pool \<Rightarrow> ffi_context \<Rightarrow> u8" where
  "ffi_ftp_data_mode p ctx = ftp_data_mode p (ctx_slot ctx)"

definition ffi_ftp_transfer_state :: "ftp_pool \<Rightarrow> ffi_context \<Rightarrow> Ffi_ftp_TransferState option" where
  "ffi_ftp_transfer_state p ctx = Ffi_ftp_TransferState_from_tag (ftp_transfer_state p (ctx_slot ctx))"

definition ffi_ftp_bytes_transferred :: "ftp_pool \<Rightarrow> ffi_context \<Rightarrow> u64" where
  "ffi_ftp_bytes_transferred p ctx = ftp_bytes_transferred p (ctx_slot ctx)"

definition ffi_ftp_file_count :: "ftp_pool \<Rightarrow> ffi_context \<Rightarrow> u32" where
  "ffi_ftp_file_count p ctx = ftp_file_count p (ctx_slot ctx)"

definition ffi_ftp_last_reply_code :: "ftp_pool \<Rightarrow> ffi_context \<Rightarrow> u16" where
  "ffi_ftp_last_reply_code p ctx = ftp_last_reply_code p (ctx_slot ctx)"

text \<open>\<open>cwd\<close> copies into a buffer of the given length: the bytes written, and their number.\<close>

definition ffi_ftp_cwd :: "ftp_pool \<Rightarrow> ffi_context \<Rightarrow> nat \<Rightarrow> u8 list \<times> usize" where
  "ffi_ftp_cwd p ctx buf_len =
     (let written = ftp_cwd p (ctx_slot ctx) (word_of_nat buf_len) in (written, length written))"

definition ffi_ftp_can_transfer :: "FtpSessionState \<Rightarrow> bool" where
  "ffi_ftp_can_transfer state = (ftp_can_transfer (FtpSessionState_to_tag state) = 1)"

definition ffi_ftp_can_transition :: "FtpSessionState \<Rightarrow> FtpSessionState \<Rightarrow> bool" where
  "ffi_ftp_can_transition from to =
     (ftp_can_transition (FtpSessionState_to_tag from) (FtpSessionState_to_tag to) = 1)"

text \<open>A \<open>&str\<close> argument is its list of bytes.\<close>

definition ffi_ftp_user :: "ftp_pool \<Rightarrow> ffi_context \<Rightarrow> u8 list \<Rightarrow> ftp_pool \<times> unit ProvenResult" where
  "ffi_ftp_user p ctx name =
     wrap_status (ftp_user p (ctx_slot ctx) (len_u32 name))"

definition ffi_ftp_pass :: "ftp_pool \<Rightarrow> ffi_context \<Rightarrow> u8 list \<Rightarrow> ftp_pool \<times> unit ProvenResult" where
  "ffi_ftp_pass p ctx password =
     wrap_status (ftp_pass p (ctx_slot ctx) (len_u32 password))"

definition ffi_ftp_quit_session :: "ftp_pool \<Rightarrow> ffi_context \<Rightarrow> ftp_pool \<times> unit ProvenResult" where
  "ffi_ftp_quit_session p ctx =
     wrap_status (ftp_quit p (ctx_slot ctx))"

definition ffi_ftp_change_dir :: "ftp_pool \<Rightarrow> ffi_context \<Rightarrow> u8 list \<Rightarrow> ftp_pool \<times> unit ProvenResult" where
  "ffi_ftp_change_dir p ctx path =
     wrap_status (ftp_cwd_cmd p (ctx_slot ctx) (len_u32 path))"

definition ffi_ftp_change_dir_up :: "ftp_pool \<Rightarrow> ffi_context \<Rightarrow> ftp_pool \<times> unit ProvenResult" where
  "ffi_ftp_change_dir_up p ctx =
     wrap_status (ftp_cdup p (ctx_slot ctx))"

definition ffi_ftp_set_type :: "ftp_pool \<Rightarrow> ffi_context \<Rightarrow> u8 \<Rightarrow> ftp_pool \<times> unit ProvenResult" where
  "ffi_ftp_set_type p ctx type_tag =
     wrap_status (ftp_set_type p (ctx_slot ctx) type_tag)"

definition ffi_ftp_set_passive :: "ftp_pool \<Rightarrow> ffi_context \<Rightarrow> ftp_pool \<times> unit ProvenResult" where
  "ffi_ftp_set_passive p ctx =
     wrap_status (ftp_set_passive p (ctx_slot ctx))"

definition ffi_ftp_set_active :: "ftp_pool \<Rightarrow> ffi_context \<Rightarrow> u16 \<Rightarrow> ftp_pool \<times> unit ProvenResult" where
  "ffi_ftp_set_active p ctx port =
     wrap_status (ftp_set_active p (ctx_slot ctx) port)"

definition ffi_ftp_begin_transfer :: "ftp_pool \<Rightarrow> ffi_context \<Rightarrow> ftp_pool \<times> unit ProvenResult" where
  "ffi_ftp_begin_transfer p ctx =
     wrap_status (ftp_begin_transfer p (ctx_slot ctx))"

definition ffi_ftp_add_bytes :: "ftp_pool \<Rightarrow> ffi_context \<Rightarrow> u64 \<Rightarrow> ftp_pool \<times> unit ProvenResult" where
  "ffi_ftp_add_bytes p ctx count =
     wrap_status (ftp_add_bytes p (ctx_slot ctx) count)"

definition ffi_ftp_complete_transfer :: "ftp_pool \<Rightarrow> ffi_context \<Rightarrow> ftp_pool \<times> unit ProvenResult" where
  "ffi_ftp_complete_transfer p ctx =
     wrap_status (ftp_complete_transfer p (ctx_slot ctx))"

definition ffi_ftp_abort_transfer :: "ftp_pool \<Rightarrow> ffi_context \<Rightarrow> ftp_pool \<times> unit ProvenResult" where
  "ffi_ftp_abort_transfer p ctx =
     wrap_status (ftp_abort_transfer p (ctx_slot ctx))"

definition ffi_ftp_begin_rename :: "ftp_pool \<Rightarrow> ffi_context \<Rightarrow> ftp_pool \<times> unit ProvenResult" where
  "ffi_ftp_begin_rename p ctx =
     wrap_status (ftp_begin_rename p (ctx_slot ctx))"

definition ffi_ftp_complete_rename :: "ftp_pool \<Rightarrow> ffi_context \<Rightarrow> ftp_pool \<times> unit ProvenResult" where
  "ffi_ftp_complete_rename p ctx =
     wrap_status (ftp_complete_rename p (ctx_slot ctx))"

section \<open>The client's alphabet\<close>

text \<open>One constructor per wrapper that can change a session, with the wrapper's arguments.\<close>

datatype ftp_call =
    Fc_user "u8 list"
  | Fc_pass "u8 list"
  | Fc_quit_session
  | Fc_change_dir "u8 list"
  | Fc_change_dir_up
  | Fc_set_type u8
  | Fc_set_passive
  | Fc_set_active u16
  | Fc_begin_transfer
  | Fc_add_bytes u64
  | Fc_complete_transfer
  | Fc_abort_transfer
  | Fc_begin_rename
  | Fc_complete_rename

primrec ftp_step :: "ftp_call \<Rightarrow> FtpSession \<Rightarrow> FtpSession \<times> u8" where
  "ftp_step (Fc_user name) = ftp_user_on"
| "ftp_step (Fc_pass password) = ftp_pass_on"
| "ftp_step Fc_quit_session = ftp_quit_on"
| "ftp_step (Fc_change_dir path) = ftp_cwd_cmd_on (len_u32 path)"
| "ftp_step Fc_change_dir_up = ftp_cdup_on"
| "ftp_step (Fc_set_type type_tag) = ftp_set_type_on type_tag"
| "ftp_step Fc_set_passive = ftp_set_passive_on"
| "ftp_step (Fc_set_active port) = ftp_set_active_on port"
| "ftp_step Fc_begin_transfer = ftp_begin_transfer_on"
| "ftp_step (Fc_add_bytes count) = ftp_add_bytes_on count"
| "ftp_step Fc_complete_transfer = ftp_complete_transfer_on"
| "ftp_step Fc_abort_transfer = ftp_abort_transfer_on"
| "ftp_step Fc_begin_rename = ftp_begin_rename_on"
| "ftp_step Fc_complete_rename = ftp_complete_rename_on"

primrec ffi_ftp_call :: "ftp_call \<Rightarrow> ftp_pool \<Rightarrow> ffi_context \<Rightarrow> ftp_pool \<times> unit ProvenResult" where
  "ffi_ftp_call (Fc_user name) p ctx = ffi_ftp_user p ctx name"
| "ffi_ftp_call (Fc_pass password) p ctx = ffi_ftp_pass p ctx password"
| "ffi_ftp_call Fc_quit_session p ctx = ffi_ftp_quit_session p ctx"
| "ffi_ftp_call (Fc_change_dir path) p ctx = ffi_ftp_change_dir p ctx path"
| "ffi_ftp_call Fc_change_dir_up p ctx = ffi_ftp_change_dir_up p ctx"
| "ffi_ftp_call (Fc_set_type type_tag) p ctx = ffi_ftp_set_type p ctx type_tag"
| "ffi_ftp_call Fc_set_passive p ctx = ffi_ftp_set_passive p ctx"
| "ffi_ftp_call (Fc_set_active port) p ctx = ffi_ftp_set_active p ctx port"
| "ffi_ftp_call Fc_begin_transfer p ctx = ffi_ftp_begin_transfer p ctx"
| "ffi_ftp_call (Fc_add_bytes count) p ctx = ffi_ftp_add_bytes p ctx count"
| "ffi_ftp_call Fc_complete_transfer p ctx = ffi_ftp_complete_transfer p ctx"
| "ffi_ftp_call Fc_abort_transfer p ctx = ffi_ftp_abort_transfer p ctx"
| "ffi_ftp_call Fc_begin_rename p ctx = ffi_ftp_begin_rename p ctx"
| "ffi_ftp_call Fc_complete_rename p ctx = ffi_ftp_complete_rename p ctx"

lemmas ffi_ftp_op_defs =
  ffi_ftp_user_def ftp_user_def ffi_ftp_pass_def ftp_pass_def ffi_ftp_quit_session_def
  ftp_quit_def ffi_ftp_change_dir_def ftp_cwd_cmd_def ffi_ftp_change_dir_up_def ftp_cdup_def
  ffi_ftp_set_type_def ftp_set_type_def ffi_ftp_set_passive_def ftp_set_passive_def
  ffi_ftp_set_active_def ftp_set_active_def ffi_ftp_begin_transfer_def ftp_begin_transfer_def
  ffi_ftp_add_bytes_def ftp_add_bytes_def ffi_ftp_complete_transfer_def
  ftp_complete_transfer_def ffi_ftp_abort_transfer_def ftp_abort_transfer_def
  ffi_ftp_begin_rename_def ftp_begin_rename_def ffi_ftp_complete_rename_def
  ftp_complete_rename_def

section \<open>The session invariant\<close>

text \<open>
  The working directory fits its buffer and starts with a separator, the data mode is one of the two
  modes or unset, a transfer is running only once a mode was chosen, and before USER nothing has
  happened yet.
\<close>

definition ftp_good :: "FtpSession \<Rightarrow> bool" where
  "ftp_good c \<longleftrightarrow>
     length (ft_cwd c) = 4096 \<and> 0 < ft_cwd_len c \<and> ft_cwd_len c \<le> 4096 \<and> ft_cwd c ! 0 = SLASH \<and>
     ft_data_mode c \<in> {0, 1, 255} \<and>
     (ft_data_mode c = 255 \<longrightarrow> ft_transfer_state c = ftp_idle) \<and>
     (ft_state c = ftp_connected \<longrightarrow>
        ft_data_mode c = 255 \<and> ft_cwd_len c = 1 \<and> ft_file_count c = 0)"

lemma length_buf_write [simp]:
  "pos + length src \<le> length buf \<Longrightarrow> length (buf_write buf pos src) = length buf"
  by (simp add: buf_write_def)

lemma nth_buf_write_before: "i < pos \<Longrightarrow> pos \<le> length buf \<Longrightarrow> buf_write buf pos src ! i = buf ! i"
  by (simp add: buf_write_def nth_append)

lemma take_buf_write:
  "pos + length src \<le> length buf \<Longrightarrow> take (pos + length src) (buf_write buf pos src) = take pos buf @ src"
  by (simp add: buf_write_def)

lemma cdup_scan_le: "cdup_scan cwd i \<le> i"
  by (induction cwd i rule: cdup_scan.induct) (subst cdup_scan.simps, auto)

text \<open>Only the two fields of the working directory change.\<close>

lemma applyCwd_fields [simp]:
  "ft_state (applyCwd path s) = ft_state s"
  "ft_transfer_type (applyCwd path s) = ft_transfer_type s"
  "ft_data_mode (applyCwd path s) = ft_data_mode s"
  "ft_transfer_state (applyCwd path s) = ft_transfer_state s"
  "ft_bytes_transferred (applyCwd path s) = ft_bytes_transferred s"
  "ft_file_count (applyCwd path s) = ft_file_count s"
  "ft_active (applyCwd path s) = ft_active s"
  by (simp_all add: applyCwd_def Let_def)

lemma applyCwd_buffer:
  assumes "length (ft_cwd s) = 4096" "0 < ft_cwd_len s" "ft_cwd_len s \<le> 4096" "ft_cwd s ! 0 = SLASH"
    and "path \<noteq> []"
  shows "length (ft_cwd (applyCwd path s)) = 4096" and "0 < ft_cwd_len (applyCwd path s)"
    and "ft_cwd_len (applyCwd path s) \<le> 4096" and "ft_cwd (applyCwd path s) ! 0 = SLASH"
proof -
  have abs: "buf_write (ft_cwd s) 0 (take (min (length path) 4096) path) ! 0 = SLASH" if "path ! 0 = SLASH"
    using that assms by (simp add: buf_write_def nth_append)
  show "length (ft_cwd (applyCwd path s)) = 4096" "0 < ft_cwd_len (applyCwd path s)"
    "ft_cwd_len (applyCwd path s) \<le> 4096" "ft_cwd (applyCwd path s) ! 0 = SLASH"
    using assms abs
    by (auto simp: applyCwd_def Let_def MAX_CWD_LEN_def nth_buf_write_before nth_list_update_if split: if_splits)
qed

lemma ftp_good_fresh: "ftp_good (ftp_fresh c)"
  by (simp add: ftp_good_def ftp_fresh_def FTP_DEFAULT_SESSION_def initCwd_def MAX_CWD_LEN_def)

lemma ftp_good_step:
  assumes "ftp_good c"
  shows "ftp_good (fst (ftp_step x c))"
proof (cases x)
  case (Fc_change_dir path)
  have "len_u32 path \<noteq> []" if "validatePath (len_u32 path)"
    using that by (auto simp: validatePath_def)
  with assms Fc_change_dir applyCwd_buffer [of c "len_u32 path"] show ?thesis
    by (cases "ft_state c"; simp add: op_simps ftp_good_def)
next
  case Fc_change_dir_up
  have "cdup_scan (ft_cwd c) (ft_cwd_len c - Suc 0) \<le> 4096"
    using assms cdup_scan_le [of "ft_cwd c" "ft_cwd_len c - Suc 0"] by (auto simp: ftp_good_def)
  with assms Fc_change_dir_up show ?thesis
    by (cases "ft_state c"; simp add: op_simps ftp_good_def Let_def)
qed (use assms in \<open>cases "ft_state c"; auto simp: op_simps ftp_good_def\<close>)+

lemma ftp_active_step: "ft_active (fst (ftp_step x c)) = ft_active c"
  by (cases x; cases "ft_state c"; simp add: op_simps Let_def)

section \<open>The pool contract\<close>

interpretation ftp: slot_service ft_active "\<lambda>_ :: unit. True" "\<lambda>_. ftp_fresh" ftp_off ftp_step
  "\<lambda>_. 1" "\<lambda>_. from_status" ftp_good ftp_sessions "\<lambda>_. ffi_ftp_create" ffi_ftp_drop ffi_ftp_call
proof
  fix c :: FtpSession and p :: ftp_pool and h :: ffi_context and x :: ftp_call
  show "ft_active (ftp_fresh c)" by (simp add: ftp_fresh_def)
  show "\<not> ft_active (ftp_off c)" by (simp add: ftp_off_def)
  show "ft_active c \<Longrightarrow> ft_active (fst (ftp_step x c))" by (simp add: ftp_active_step)
  show "ftp_good (ftp_fresh c)" by (rule ftp_good_fresh)
  show "ftp_good c \<Longrightarrow> ftp_good (fst (ftp_step x c))" by (rule ftp_good_step)
  show "c \<in> set ftp_sessions \<Longrightarrow> \<not> ft_active c" by (simp add: ftp_sessions_def FTP_DEFAULT_SESSION_def)
  show "length ftp_sessions \<le> 2147483648" by (simp add: ftp_sessions_def)
  show "ffi_ftp_create p = wrap_slot (if True then pool_create ft_active ftp_fresh p else (p, - 1))"
    by (simp add: ffi_ftp_create_def ftp_create_def)
  show "ffi_ftp_drop p h = pool_destroy ftp_off p (ctx_slot h)"
    by (simp add: ffi_ftp_drop_def ftp_destroy_def)
  show "ffi_ftp_call x p h = map_prod id from_status (on_slot ft_active p (ctx_slot h) 1 (ftp_step x))"
    by (cases x) (simp_all add: ffi_ftp_op_defs wrap_status_eq_map_prod)
qed

abbreviation ftp_client :: "ftp_pool \<Rightarrow> ffi_context list \<Rightarrow> bool" where
  "ftp_client \<equiv> client (\<lambda>_ :: unit. ffi_ftp_create) ffi_ftp_drop ffi_ftp_call ftp_sessions"

end
