(* ===== verification/Ftp_Path.thy ===== *)
theory Ftp_Path
  imports Ftp_Ffi
begin

text \<open>
  What a path means, as a specification for the validation loop of the FTP engine: the path is split
  at the separators, and its segments are walked from a stack of directory names, where \<open>..\<close> leaves
  the innermost directory and \<open>.\<close> and the empty segment stay. Leaving the root has no result. The
  loop of \<open>validatePath\<close>, which only keeps a depth, accepts exactly the non-empty paths without a
  NUL byte whose walk from the root has a result.
\<close>

section \<open>Splitting and walking\<close>

abbreviation split_path :: "u8 list \<Rightarrow> u8 list list" where
  "split_path \<equiv> split_on SLASH"

fun enter_segment :: "u8 list \<Rightarrow> u8 list list \<Rightarrow> u8 list list option" where
  "enter_segment seg st =
     (if seg = [DOT, DOT] then (case st of [] \<Rightarrow> None | _ # st' \<Rightarrow> Some st')
      else if seg = [] \<or> seg = [DOT] then Some st
      else Some (seg # st))"

fun walk :: "u8 list list \<Rightarrow> u8 list list \<Rightarrow> u8 list list option" where
  "walk st [] = Some st"
| "walk st (seg # segs) =
     (case enter_segment seg st of None \<Rightarrow> None | Some st' \<Rightarrow> walk st' segs)"

definition resolve_path :: "u8 list \<Rightarrow> u8 list list option" where
  "resolve_path path = walk [] (split_path path)"

lemma walk_append:
  "walk st (a @ b) = (case walk st a of None \<Rightarrow> None | Some st' \<Rightarrow> walk st' b)"
  by (induction a arbitrary: st) (auto split: option.splits)

lemma walk_Nil_segment [simp]: "walk st ([] # segs) = walk st segs"
  by simp

lemma enter_Nil [simp]: "enter_segment [] st = Some st"
  by simp

declare enter_segment.simps [simp del]

lemma resolve_path_slash: "resolve_path (SLASH # p) = resolve_path p"
  by (simp add: resolve_path_def enter_segment.simps)

text \<open>A walk that succeeds succeeds from any deeper start as well.\<close>

lemma enter_deeper: "enter_segment seg st = Some st' \<Longrightarrow> enter_segment seg (st @ d) = Some (st' @ d)"
  by (auto simp: enter_segment.simps split: list.splits if_splits)

lemma walk_deeper: "walk st segs = Some st' \<Longrightarrow> walk (st @ d) segs = Some (st' @ d)"
proof (induction segs arbitrary: st)
  case Nil
  then show ?case by simp
next
  case (Cons seg segs)
  then obtain s where "enter_segment seg st = Some s" "walk s segs = Some st'"
    by (auto split: option.splits)
  with Cons.IH enter_deeper show ?case by simp
qed

section \<open>The validation loop\<close>

text \<open>The loop keeps only the length of the stack.\<close>

fun depth_ok :: "int \<Rightarrow> u8 list list \<Rightarrow> bool" where
  "depth_ok d [] = True"
| "depth_ok d (seg # segs) =
     (if seg = [DOT, DOT] then 0 \<le> d - 1 \<and> depth_ok (d - 1) segs
      else if seg = [] \<or> seg = [DOT] then depth_ok d segs
      else depth_ok (d + 1) segs)"

lemma depth_ok_walk: "depth_ok (int (length st)) segs \<longleftrightarrow> walk st segs \<noteq> None"
proof (induction segs arbitrary: st)
  case Nil
  then show ?case by simp
next
  case (Cons seg segs)
  have push: "depth_ok (int (length st) + 1) segs \<longleftrightarrow> walk (seg # st) segs \<noteq> None"
    using Cons.IH [of "seg # st"] by (simp add: add.commute)
  have pop: "depth_ok (int (length st')) segs \<longleftrightarrow> walk st' segs \<noteq> None" for st'
    by (rule Cons.IH)
  show ?case
    using push pop [of st] pop [of "tl st"]
    by (cases st) (auto simp: enter_segment.simps)
qed

text \<open>The segment the loop is in, when it is at \<open>i\<close>.\<close>

abbreviation segment :: "u8 list \<Rightarrow> nat \<Rightarrow> nat \<Rightarrow> u8 list" where
  "segment path seg_start i \<equiv> take (i - seg_start) (drop seg_start path)"

lemma segment_tests:
  assumes "seg_start \<le> i" "i \<le> length path"
  shows "i - seg_start = 2 \<and> path ! seg_start = DOT \<and> path ! (seg_start + 1) = DOT \<longleftrightarrow>
      segment path seg_start i = [DOT, DOT]"
    and "0 < i - seg_start \<and> \<not> (i - seg_start = 1 \<and> path ! seg_start = DOT) \<longleftrightarrow>
      segment path seg_start i \<noteq> [] \<and> segment path seg_start i \<noteq> [DOT]"
proof -
  have len: "length (segment path seg_start i) = i - seg_start" using assms by simp
  have nth: "segment path seg_start i ! k = path ! (seg_start + k)" if "k < i - seg_start" for k
    using that assms by simp
  show "i - seg_start = 2 \<and> path ! seg_start = DOT \<and> path ! (seg_start + 1) = DOT \<longleftrightarrow>
      segment path seg_start i = [DOT, DOT]"
    using len nth [of 0] nth [of 1]
    by (auto simp: list_eq_iff_nth_eq less_Suc_eq numeral_2_eq_2)
  show "0 < i - seg_start \<and> \<not> (i - seg_start = 1 \<and> path ! seg_start = DOT) \<longleftrightarrow>
      segment path seg_start i \<noteq> [] \<and> segment path seg_start i \<noteq> [DOT]"
    using len nth [of 0]
    by (auto simp: list_eq_iff_nth_eq less_Suc_eq)
qed

lemma validate_loop_depth:
  assumes "seg_start \<le> i" "i \<le> length path"
  shows "validate_loop path depth seg_start i \<longleftrightarrow>
    depth_ok depth ((segment path seg_start i @ hd (split_path (drop i path))) # tl (split_path (drop i path)))"
  using assms
proof (induction path depth seg_start i rule: validate_loop.induct)
  case (1 path depth seg_start i)
  let ?seg = "segment path seg_start i"
  note tests = segment_tests [OF 1(5,6)]
  consider (last) "i = length path" | (sep) "i < length path" "path ! i = SLASH"
    | (inside) "i < length path" "path ! i \<noteq> SLASH"
    using 1(6) by fastforce
  then show ?case
  proof cases
    case last
    have "validate_loop path d s (i + 1)" for d s
      by (subst validate_loop.simps) (simp add: last)
    then show ?thesis
      by (subst validate_loop.simps) (use last tests in \<open>auto simp: Let_def\<close>)
  next
    case sep
    have split: "split_path (drop i path) = [] # split_path (drop (i + 1) path)"
      using sep by (simp add: Cons_nth_drop_Suc [symmetric])
    have IH: "validate_loop path d (i + 1) (i + 1) \<longleftrightarrow> depth_ok d (split_path (drop (i + 1) path))"
      if "d = depth - 1 \<and> ?seg = [DOT, DOT] \<and> \<not> depth - 1 < 0 \<or>
          d = depth + 1 \<and> ?seg \<noteq> [DOT, DOT] \<and> ?seg \<noteq> [] \<and> ?seg \<noteq> [DOT] \<or>
          d = depth \<and> ?seg \<noteq> [DOT, DOT] \<and> (?seg = [] \<or> ?seg = [DOT])" for d
      using that sep 1(1) [OF _ refl refl _ refl] 1(2) [OF _ refl refl _ refl] 1(3) [OF _ refl refl _ refl] tests
      by auto
    show ?thesis
      by (subst validate_loop.simps) (use sep tests split IH in \<open>auto simp: Let_def\<close>)
  next
    case inside
    have split: "split_path (drop i path) =
        (path ! i # hd (split_path (drop (i + 1) path))) # tl (split_path (drop (i + 1) path))"
      using inside by (simp add: Cons_nth_drop_Suc [symmetric])
    have "segment path seg_start (i + 1) = ?seg @ [path ! i]"
      using inside 1(5) by (simp add: take_Suc_conv_app_nth Suc_diff_le)
    then show ?thesis
      using inside 1(5) 1(4) [OF _ refl refl]
      by (subst validate_loop.simps) (simp add: Let_def split)
  qed
qed

lemma validatePath_iff:
  "validatePath path \<longleftrightarrow> path \<noteq> [] \<and> 0 \<notin> set path \<and> resolve_path path \<noteq> None"
proof -
  have "validate_loop path 0 0 0 \<longleftrightarrow> resolve_path path \<noteq> None"
    using validate_loop_depth [of 0 0 path 0] depth_ok_walk [of "[]" "split_path path"]
    by (simp add: resolve_path_def)
  then show ?thesis by (auto simp: validatePath_def list_ex_iff)
qed

end
