(* ===== verification/Ftp_Props.thy ===== *)
theory Ftp_Props
  imports Ftp_Path
begin

text \<open>
  Properties of the FTP component: the path check means what it should, the working directory stays
  below the root as long as its buffer is not exceeded (and how it leaves it when it is), CDUP, the
  order of login and transfer, and the accounting of transferred bytes.
\<close>

section \<open>Shared facts\<close>

text \<open>The working directory as a client reads it.\<close>

definition cwd_bytes :: "FtpSession \<Rightarrow> u8 list" where
  "cwd_bytes c = take (ft_cwd_len c) (ft_cwd c)"

definition ftp_abs :: "FtpSession \<Rightarrow> FtpSessionState" where
  "ftp_abs c = (case ft_state c of
      ftp_connected \<Rightarrow> FtpSessionState.Connected
    | ftp_user_ok \<Rightarrow> FtpSessionState.UserOk
    | ftp_authenticated \<Rightarrow> FtpSessionState.Authenticated
    | ftp_renaming \<Rightarrow> FtpSessionState.Renaming
    | ftp_quitted \<Rightarrow> FtpSessionState.Quit)"

lemma ftp_tag_abs: "ftp_state_tag (ft_state c) = FtpSessionState_to_tag (ftp_abs c)"
  by (cases "ft_state c") (simp_all add: ftp_abs_def)

lemma FtpSessionState_decode [simp]: "FtpSessionState_from_tag (FtpSessionState_to_tag s) = Some s"
  by (cases s) (simp_all add: FtpSessionState_from_tag_def)

lemmas ftp_query_defs = ffi_ftp_state_def ffi_ftp_transfer_state_def ffi_ftp_transfer_type_def
  ffi_ftp_data_mode_def ffi_ftp_cwd_def ftp_get_state_def ftp_transfer_state_def
  ftp_transfer_type_def ftp_data_mode_def ftp_cwd_def query_slot_def

lemma ftp_first_client: "ftp_client (ftp_sessions[0 := ftp_fresh (ftp_sessions ! 0)]) [handle 0]"
  by (rule ftp.client_first) (simp_all add: ftp_sessions_def)

lemma cwd_bytes_fresh [simp]: "cwd_bytes (ftp_fresh c) = [SLASH]"
  by (simp add: cwd_bytes_def ftp_fresh_def FTP_DEFAULT_SESSION_def initCwd_def)

lemma ftp_good_cwd:
  "ftp_good c \<Longrightarrow> length (cwd_bytes c) = ft_cwd_len c \<and> hd (cwd_bytes c) = SLASH \<and> cwd_bytes c \<noteq> []"
  by (cases "ft_cwd c") (auto simp: ftp_good_def cwd_bytes_def take_Cons')

section \<open>What an owned session reports\<close>

text \<open>
  In every state a program can reach through the safe wrappers, an owned FTP context reports a
  decodable session state and transfer state, a transfer type of 0 or 1 and a data mode of 0, 1 or
  255; its working directory is an absolute path of 1 to 4096 bytes which a buffer of 4096 bytes
  receives whole; and a transfer that is not idle implies that a data mode was chosen.
\<close>

theorem ftp_live_session:
  assumes "ftp_client p hs" "h \<in> set hs"
  shows "(\<exists>s. ffi_ftp_state p h = Some s) \<and>
    (\<exists>t. ffi_ftp_transfer_state p h = Some t \<and>
       (t \<noteq> Ffi_ftp_TransferState.Idle \<longrightarrow> ffi_ftp_data_mode p h \<noteq> 255)) \<and>
    ffi_ftp_transfer_type p h \<in> {0, 1} \<and> ffi_ftp_data_mode p h \<in> {0, 1, 255} \<and>
    (\<exists>rest. ffi_ftp_cwd p h 4096 = (SLASH # rest, Suc (length rest)) \<and> length rest < 4096)"
  using assms
proof (rule ftp.live_slot)
  fix i
  assume v: "valid_slot ft_active p (ctx_slot h) = Some i" and g: "ftp_good (p ! i)"
  have "ffi_ftp_cwd p h 4096 = (cwd_bytes (p ! i), length (cwd_bytes (p ! i)))"
    using v g by (simp add: ftp_query_defs ftp_good_def cwd_bytes_def min_def)
  moreover obtain rest where "cwd_bytes (p ! i) = SLASH # rest" "length rest < 4096"
    using ftp_good_cwd [OF g] g by (cases "cwd_bytes (p ! i)") (auto simp: ftp_good_def)
  ultimately show ?thesis
    using v g
    by (cases "ft_transfer_state (p ! i)"; cases "ft_transfer_type (p ! i)";
        auto simp: ftp_query_defs ftp_good_def ftp_tag_abs Ffi_ftp_TransferState_from_tag_def)
qed

theorem ftp_live_session_witness:
  "ffi_ftp_transfer_type (ftp_sessions[0 := ftp_fresh (ftp_sessions ! 0)]) (handle 0) \<in> {0, 1}"
  using ftp_live_session [OF ftp_first_client, of "handle 0"] by (auto simp: ftp_sessions_def)

section \<open>Paths\<close>


text \<open>The new working directory when the buffer is not exceeded.\<close>

lemma cwd_bytes_applyCwd:
  assumes "ftp_good c" "path \<noteq> []" "ft_cwd_len c + 1 + length path \<le> 4096"
  shows "cwd_bytes (applyCwd path c) =
    (if hd path = SLASH then path
     else if last (cwd_bytes c) = SLASH then cwd_bytes c @ path
     else cwd_bytes c @ SLASH # path)"
proof -
  have g: "length (ft_cwd c) = 4096" "0 < ft_cwd_len c" "ft_cwd_len c \<le> 4096"
    using assms(1) by (simp_all add: ftp_good_def)
  have hd: "path ! 0 = hd path" using assms(2) by (simp add: hd_conv_nth)
  have lst: "last (cwd_bytes c) = ft_cwd c ! (ft_cwd_len c - 1)"
    using g ftp_good_cwd [OF assms(1)] by (simp add: last_conv_nth) (simp add: cwd_bytes_def)
  consider (absolute) "hd path = SLASH" | (slash) "hd path \<noteq> SLASH" "last (cwd_bytes c) = SLASH"
    | (plain) "hd path \<noteq> SLASH" "last (cwd_bytes c) \<noteq> SLASH" by blast
  then show ?thesis
  proof cases
    case absolute
    then show ?thesis
      using g assms hd by (simp add: applyCwd_def cwd_bytes_def buf_write_def MAX_CWD_LEN_def Let_def)
  next
    case slash
    then show ?thesis
      using g assms hd lst
      by (simp add: applyCwd_def cwd_bytes_def take_buf_write MAX_CWD_LEN_def Let_def)
  next
    case plain
    have "take (Suc (ft_cwd_len c)) ((ft_cwd c)[ft_cwd_len c := SLASH]) = take (ft_cwd_len c) (ft_cwd c) @ [SLASH]"
      using g assms(3) by (simp add: take_Suc_conv_app_nth)
    with plain show ?thesis
      using g assms hd lst take_buf_write [of "Suc (ft_cwd_len c)" path "(ft_cwd c)[ft_cwd_len c := SLASH]"]
      by (simp add: applyCwd_def cwd_bytes_def MAX_CWD_LEN_def Let_def)
  qed
qed

lemma resolve_join:
  "resolve_path (d @ SLASH # path) = (case resolve_path d of None \<Rightarrow> None | Some st \<Rightarrow> walk st (split_path path))"
  by (simp add: resolve_path_def walk_append)

lemma resolve_applyCwd:
  assumes "ftp_good c" "path \<noteq> []" "ft_cwd_len c + 1 + length path \<le> 4096" "resolve_path (cwd_bytes c) = Some st"
  shows "resolve_path (cwd_bytes (applyCwd path c)) =
    walk (if hd path = SLASH then [] else st) (split_path path)"
proof (cases "hd path \<noteq> SLASH \<and> last (cwd_bytes c) = SLASH")
  case True
  then obtain d where "cwd_bytes c = d @ [SLASH]"
    using ftp_good_cwd [OF assms(1)] by (metis append_butlast_last_id)
  with True assms(4) show ?thesis
    using cwd_bytes_applyCwd [OF assms(1-3)] by (simp add: resolve_join split: option.splits)
next
  case False
  then show ?thesis
    using cwd_bytes_applyCwd [OF assms(1-3)] assms(4) by (auto simp: resolve_path_def walk_append)
qed

text \<open>An accepted CWD whose result fits the buffer walks the path.\<close>

lemma change_dir_walk:
  assumes "ftp_good c" "resolve_path (cwd_bytes c) = Some st"
    and "snd (ftp_step (Fc_change_dir path) c) = 0"
    and "ft_cwd_len c + 1 + length path \<le> 4096"
  shows "resolve_path (cwd_bytes (fst (ftp_step (Fc_change_dir path) c))) =
      walk (if hd path = SLASH then [] else st) (split_path path) \<and>
    walk (if hd path = SLASH then [] else st) (split_path path) \<noteq> None"
proof -
  have len: "len_u32 path = path" using assms(4) by simp
  with assms(3) have ok: "validatePath path" "ft_state c = ftp_authenticated"
    by (auto simp: op_simps split: if_splits)
  then obtain d where "walk [] (split_path path) = Some d" and ne: "path \<noteq> []"
    by (auto simp: validatePath_iff resolve_path_def)
  then have "walk st (split_path path) \<noteq> None" "walk [] (split_path path) \<noteq> None"
    using walk_deeper [of "[]" "split_path path" d st] by auto
  with ok len resolve_applyCwd [OF assms(1) ne assms(4,2)] show ?thesis
    by (simp add: op_simps cwd_bytes_def)
qed

text \<open>
  CWD changes the directory the way the path says: when the session is authenticated, the path
  is accepted and the result fits the buffer, the new working directory resolves to the directory
  reached by walking the path's segments from the root (absolute path) or from the current
  directory (relative path), and this walk never leaves the root.
\<close>

theorem ftp_change_dir_resolves:
  assumes "ftp_good c" "resolve_path (cwd_bytes c) = Some st"
    and "snd (ftp_step (Fc_change_dir path) c) = 0"
    and "ft_cwd_len c + 1 + length path \<le> 4096"
  shows "resolve_path (cwd_bytes (fst (ftp_step (Fc_change_dir path) c))) =
      walk (if hd path = SLASH then [] else st) (split_path path) \<and>
    walk (if hd path = SLASH then [] else st) (split_path path) \<noteq> None"
  by (rule change_dir_walk [OF assms])

text \<open>The login a session needs before it can change its directory.\<close>

abbreviation ftp_login :: "ftp_call list" where
  "ftp_login \<equiv> [Fc_user [97], Fc_pass [98]]"

lemma ftp_run_login:
  "fst (session_run ftp_step (ftp_fresh c) ftp_login) =
     (ftp_fresh c)\<lparr>ft_state := ftp_authenticated, ft_last_reply := 230\<rparr>"
  by (simp add: session_run_def op_simps ftp_fresh_def FTP_DEFAULT_SESSION_def)

theorem ftp_change_dir_resolves_witness:
  "resolve_path (cwd_bytes (fst (ftp_step (Fc_change_dir [97, SLASH, DOT, DOT, SLASH, 98])
     ((ftp_fresh (ftp_sessions ! 0))\<lparr>ft_state := ftp_authenticated\<rparr>)))) = Some [[98]]"
proof -
  let ?c = "(ftp_fresh (ftp_sessions ! 0))\<lparr>ft_state := ftp_authenticated\<rparr>"
  let ?p = "[97, SLASH, DOT, DOT, SLASH, 98] :: u8 list"
  have "ftp_good ?c" using ftp_good_fresh [of "ftp_sessions ! 0"] by (simp add: ftp_good_def)
  moreover have "resolve_path (cwd_bytes ?c) = Some []"
    using cwd_bytes_fresh [of "ftp_sessions ! 0"]
    by (simp add: cwd_bytes_def resolve_path_def)
  moreover have "validatePath ?p"
    by (simp add: validatePath_iff resolve_path_def enter_segment.simps)
  then have "snd (ftp_step (Fc_change_dir ?p) ?c) = 0" by (simp add: op_simps)
  moreover have "ft_cwd_len ?c + 1 + length ?p \<le> 4096"
    by (simp add: ftp_fresh_def FTP_DEFAULT_SESSION_def)
  ultimately show ?thesis
    using ftp_change_dir_resolves [of ?c "[]" ?p] by (simp add: enter_segment.simps)
qed

subsection \<open>CDUP\<close>

lemma cdup_scan_stop:
  assumes "j \<le> i" "cwd ! j = SLASH" "\<forall>k. j < k \<and> k \<le> i \<longrightarrow> cwd ! k \<noteq> SLASH"
  shows "cdup_scan cwd i = j"
  using assms
proof (induction cwd i rule: cdup_scan.induct)
  case (1 cwd i)
  show ?case
  proof (cases "j = i")
    case True
    with 1(3) show ?thesis by (subst cdup_scan.simps) simp
  next
    case False
    then have "0 < i" "cwd ! i \<noteq> SLASH" "j \<le> i - 1" using 1(2,4) by auto
    then have "cdup_scan cwd (i - 1) = j" by (intro 1(1)) (use 1(3,4) in auto)
    with \<open>0 < i\<close> \<open>cwd ! i \<noteq> SLASH\<close> show ?thesis by (subst cdup_scan.simps) simp
  qed
qed

text \<open>CDUP removes the last separator and what follows it, or keeps the root.\<close>

lemma cwd_bytes_cdup:
  assumes "ftp_good c" "ft_state c = ftp_authenticated"
    and cwd: "cwd_bytes c = parent @ SLASH # seg" "SLASH \<notin> set seg"
  shows "cwd_bytes (fst (ftp_step Fc_change_dir_up c)) = (if parent = [] then [SLASH] else parent)"
proof -
  have g: "length (ft_cwd c) = 4096" "0 < ft_cwd_len c" "ft_cwd_len c \<le> 4096" "ft_cwd c ! 0 = SLASH"
    using assms(1) by (simp_all add: ftp_good_def)
  have n: "ft_cwd_len c = Suc (length parent + length seg)"
    using ftp_good_cwd [OF assms(1)] by (simp add: cwd(1))
  have nth: "ft_cwd c ! k = (parent @ SLASH # seg) ! k" if "k < ft_cwd_len c" for k
    using that g by (simp add: cwd_bytes_def flip: cwd(1))
  have scan: "cdup_scan (ft_cwd c) (ft_cwd_len c - 1) = length parent"
  proof (rule cdup_scan_stop)
    show "length parent \<le> ft_cwd_len c - 1" by (simp add: n)
    show "ft_cwd c ! length parent = SLASH" by (simp add: nth n)
    show "\<forall>k. length parent < k \<and> k \<le> ft_cwd_len c - 1 \<longrightarrow> ft_cwd c ! k \<noteq> SLASH"
      using cwd(2) by (auto simp: nth n nth_append nth_Cons' in_set_conv_nth)
  qed
  have par: "take (length parent) (ft_cwd c) = parent"
    using arg_cong [OF cwd(1), of "take (length parent)"] by (simp add: cwd_bytes_def n min_def)
  have root: "take 1 (ft_cwd c) = [SLASH]" using g by (cases "ft_cwd c") auto
  show ?thesis
  proof (cases "1 < ft_cwd_len c")
    case True
    then have "cwd_bytes (fst (ftp_step Fc_change_dir_up c)) =
        take (if length parent = 0 then 1 else length parent) (ft_cwd c)"
      using scan assms(2) by (simp add: op_simps Let_def cwd_bytes_def)
    with par root show ?thesis by simp
  next
    case False
    then have "parent = []" "ft_cwd_len c = 1" using n by simp_all
    with assms(2) root show ?thesis by (simp add: op_simps Let_def cwd_bytes_def)
  qed
qed

text \<open>
  CDUP goes to the parent directory when the last segment of the working directory is a name.
  When that segment is empty or a dot the session stays in the same directory, and when it is a
  double dot CDUP enters a child of the current directory instead of leaving it.
\<close>

theorem ftp_cdup_parent:
  assumes "ftp_good c" "ft_state c = ftp_authenticated"
    and "cwd_bytes c = parent @ SLASH # seg" "SLASH \<notin> set seg"
    and "resolve_path (cwd_bytes c) = Some st"
  defines "up \<equiv> resolve_path (cwd_bytes (fst (ftp_step Fc_change_dir_up c)))"
  shows "(seg \<notin> {[], [DOT], [DOT, DOT]} \<longrightarrow> up = Some (tl st)) \<and>
    (seg \<in> {[], [DOT]} \<longrightarrow> up = Some st) \<and>
    (seg = [DOT, DOT] \<longrightarrow> (\<exists>dir. up = Some (dir # st)))"
proof -
  have "up = resolve_path parent"
    using cwd_bytes_cdup [OF assms(1-4)] by (simp add: up_def resolve_path_def)
  moreover obtain d where "resolve_path parent = Some d" "enter_segment seg d = Some st"
    using assms(3-5) by (auto simp: resolve_join split_on_none split: option.splits)
  ultimately show ?thesis by (auto simp: enter_segment.simps split: list.splits if_splits)
qed

theorem ftp_cdup_parent_witness:
  "\<exists>c dir. resolve_path (cwd_bytes c) = Some [] \<and>
     resolve_path (cwd_bytes (fst (ftp_step Fc_change_dir_up c))) = Some [dir]"
proof -
  let ?cwd = "[SLASH, 97, SLASH, DOT, DOT] :: u8 list"
  let ?c = "(ftp_fresh (ftp_sessions ! 0))\<lparr>ft_state := ftp_authenticated, ft_cwd_len := 5,
    ft_cwd := ?cwd @ replicate 4091 0\<rparr>"
  have "ftp_good ?c" using ftp_good_fresh [of "ftp_sessions ! 0"] by (simp add: ftp_good_def)
  moreover have "cwd_bytes ?c = [SLASH, 97] @ SLASH # [DOT, DOT]" by (simp add: cwd_bytes_def)
  moreover have res: "resolve_path (cwd_bytes ?c) = Some []"
    by (simp add: cwd_bytes_def resolve_path_def enter_segment.simps)
  ultimately have "\<exists>dir. resolve_path (cwd_bytes (fst (ftp_step Fc_change_dir_up ?c))) = Some (dir # [])"
    using ftp_cdup_parent [of ?c "[SLASH, 97]" "[DOT, DOT]" "[]"] by simp
  with res show ?thesis by blast
qed

subsection \<open>Confinement\<close>

text \<open>The bytes an operation can add to the working directory.\<close>

definition cwd_growth :: "ftp_call \<Rightarrow> nat" where
  "cwd_growth x = (case x of Fc_change_dir path \<Rightarrow> Suc (length path) | _ \<Rightarrow> 0)"

definition ftp_confined :: "nat \<Rightarrow> FtpSession \<Rightarrow> bool" where
  "ftp_confined n c \<longleftrightarrow> ftp_good c \<and> resolve_path (cwd_bytes c) \<noteq> None \<and> ft_cwd_len c \<le> Suc n"

lemma cwd_bytes_split_last:
  assumes "ftp_good c"
  obtains parent seg where "cwd_bytes c = parent @ SLASH # seg" "SLASH \<notin> set seg"
proof -
  have "SLASH \<in> set (cwd_bytes c)" using ftp_good_cwd [OF assms] by (metis list.set_sel(1))
  then show ?thesis using that by (blast dest: split_list_last)
qed

lemma ftp_confined_cdup:
  assumes "ftp_confined n c" "ft_state c = ftp_authenticated"
  shows "ftp_confined n (fst (ftp_step Fc_change_dir_up c))"
proof -
  have g: "ftp_good c" using assms(1) by (simp add: ftp_confined_def)
  obtain parent seg where cwd: "cwd_bytes c = parent @ SLASH # seg" "SLASH \<notin> set seg"
    by (rule cwd_bytes_split_last [OF g])
  have new: "cwd_bytes (fst (ftp_step Fc_change_dir_up c)) = (if parent = [] then [SLASH] else parent)"
    by (rule cwd_bytes_cdup [OF g assms(2) cwd])
  have good: "ftp_good (fst (ftp_step Fc_change_dir_up c))" using g by (rule ftp_good_step)
  have "resolve_path parent \<noteq> None"
    using assms(1) by (auto simp: ftp_confined_def cwd(1) resolve_join split: option.splits)
  moreover have "ft_cwd_len (fst (ftp_step Fc_change_dir_up c)) = length (if parent = [] then [SLASH] else parent)"
    using ftp_good_cwd [OF good] unfolding new by simp
  then have "ft_cwd_len (fst (ftp_step Fc_change_dir_up c)) \<le> ft_cwd_len c"
    using ftp_good_cwd [OF g] by (auto simp: cwd(1) split: if_splits)
  ultimately show ?thesis
    using assms(1) good unfolding ftp_confined_def new by (auto simp: resolve_path_def)
qed

lemma ftp_confined_change_dir:
  assumes "ftp_confined n c" "n + Suc (length path) \<le> 4095"
  shows "ftp_confined (n + Suc (length path)) (fst (ftp_step (Fc_change_dir path) c))"
proof (cases "snd (ftp_step (Fc_change_dir path) c) = 0")
  case True
  have g: "ftp_good c" and fits: "ft_cwd_len c + 1 + length path \<le> 4096"
    using assms by (simp_all add: ftp_confined_def)
  have good: "ftp_good (fst (ftp_step (Fc_change_dir path) c))" using g by (rule ftp_good_step)
  have len: "len_u32 path = path" using fits by simp
  with True have ok: "ft_state c = ftp_authenticated" "validatePath path"
    by (auto simp: op_simps split: if_splits)
  then have ne: "path \<noteq> []" by (auto simp: validatePath_def)
  have "cwd_bytes (fst (ftp_step (Fc_change_dir path) c)) = cwd_bytes (applyCwd path c)"
    using ok len by (simp add: op_simps cwd_bytes_def)
  then have "ft_cwd_len (fst (ftp_step (Fc_change_dir path) c)) = length (cwd_bytes (applyCwd path c))"
    using ftp_good_cwd [OF good] by simp
  also have "\<dots> \<le> ft_cwd_len c + 1 + length path"
    using ftp_good_cwd [OF g] by (simp add: cwd_bytes_applyCwd [OF g ne fits])
  finally have "ft_cwd_len (fst (ftp_step (Fc_change_dir path) c)) \<le> ft_cwd_len c + 1 + length path" .
  moreover obtain st where "resolve_path (cwd_bytes c) = Some st"
    using assms(1) by (auto simp: ftp_confined_def)
  then have "resolve_path (cwd_bytes (fst (ftp_step (Fc_change_dir path) c))) \<noteq> None"
    using change_dir_walk [OF g _ True fits] by auto
  ultimately show ?thesis using assms(1) good by (simp add: ftp_confined_def)
next
  case False
  then show ?thesis using assms(1)
    by (auto simp: op_simps ftp_confined_def ftp_good_def cwd_bytes_def split: if_splits)
qed

lemma ftp_confined_step:
  assumes "ftp_confined n c" "n + cwd_growth x \<le> 4095"
  shows "ftp_confined (n + cwd_growth x) (fst (ftp_step x c))"
proof (cases x)
  case (Fc_change_dir path)
  with assms ftp_confined_change_dir show ?thesis by (simp add: cwd_growth_def)
next
  case Fc_change_dir_up
  show ?thesis
  proof (cases "ft_state c = ftp_authenticated")
    case True
    with ftp_confined_cdup [OF assms(1)] Fc_change_dir_up show ?thesis by (simp add: cwd_growth_def)
  next
    case False
    with assms(1) Fc_change_dir_up show ?thesis
      by (simp add: op_simps ftp_confined_def ftp_good_def cwd_bytes_def cwd_growth_def)
  qed
qed (use assms(1) ftp_good_step [of c x] in
     \<open>cases "ft_state c"; simp add: op_simps ftp_confined_def cwd_bytes_def cwd_growth_def\<close>)+

text \<open>
  C7: Starting from a fresh session, whatever commands are tried, the working directory never
  escapes the root, as long as the path bytes sent in CWD commands, one separator each included,
  add up to at most 4095.
\<close>

theorem ftp_cwd_confined:
  assumes "sum_list (map cwd_growth ops) \<le> 4095"
  shows "resolve_path (cwd_bytes (fst (session_run ftp_step (ftp_fresh c0) ops))) \<noteq> None"
proof -
  have "ftp_confined (sum_list (map cwd_growth ops)) (fst (session_run ftp_step (ftp_fresh c0) ops))"
    using assms
  proof (induction ops rule: rev_induct)
    case Nil
    have "ft_cwd_len (ftp_fresh c0) = 1" by (simp add: ftp_fresh_def FTP_DEFAULT_SESSION_def)
    then show ?case by (simp add: ftp_confined_def ftp_good_fresh resolve_path_def)
  next
    case (snoc x ops)
    then show ?case
      using ftp_confined_step [of "sum_list (map cwd_growth ops)" _ x]
      by (simp add: session_run_snoc Let_def case_prod_beta)
  qed
  then show ?thesis by (simp add: ftp_confined_def)
qed

theorem ftp_cwd_confined_witness:
  "resolve_path (cwd_bytes (fst (session_run ftp_step (ftp_fresh (ftp_sessions ! 0))
     (ftp_login @ [Fc_change_dir [97], Fc_change_dir [DOT, DOT], Fc_change_dir_up, Fc_change_dir [DOT, DOT]])))) \<noteq> None"
  by (rule ftp_cwd_confined) (simp add: cwd_growth_def)

lemma split_path_slashes: "split_path (replicate n SLASH @ p) = replicate n [] @ split_path p"
  by (induction n) simp_all



section \<open>Login and transfer order\<close>

text \<open>What a history of accepted commands contains, in order.\<close>

definition has_user :: "ftp_call list \<Rightarrow> bool" where
  "has_user h \<longleftrightarrow> (\<exists>u. subseq [Fc_user u] h)"

definition has_login :: "ftp_call list \<Rightarrow> bool" where
  "has_login h \<longleftrightarrow> (\<exists>u w. subseq [Fc_user u, Fc_pass w] h)"

definition has_mode :: "ftp_call list \<Rightarrow> bool" where
  "has_mode h \<longleftrightarrow>
     (\<exists>u w. subseq [Fc_user u, Fc_pass w, Fc_set_passive] h) \<or>
     (\<exists>u w port. subseq [Fc_user u, Fc_pass w, Fc_set_active port] h)"

definition has_transfer :: "ftp_call list \<Rightarrow> bool" where
  "has_transfer h \<longleftrightarrow>
     (\<exists>u w. subseq [Fc_user u, Fc_pass w, Fc_set_passive, Fc_begin_transfer] h) \<or>
     (\<exists>u w port. subseq [Fc_user u, Fc_pass w, Fc_set_active port, Fc_begin_transfer] h)"

lemma ftp_history_grows:
  "has_user h \<Longrightarrow> has_user (h @ [x])"
  "has_login h \<Longrightarrow> has_login (h @ [x])"
  "has_mode h \<Longrightarrow> has_mode (h @ [x])"
  "has_transfer h \<Longrightarrow> has_transfer (h @ [x])"
  "has_user (h @ [Fc_user u])"
  "has_user h \<Longrightarrow> has_login (h @ [Fc_pass w])"
  "has_login h \<Longrightarrow> has_mode (h @ [Fc_set_passive])"
  "has_login h \<Longrightarrow> has_mode (h @ [Fc_set_active port])"
  "has_mode h \<Longrightarrow> has_transfer (h @ [Fc_begin_transfer])"
  unfolding has_user_def has_login_def has_mode_def has_transfer_def
  by (blast intro: subseq_snoc)+

definition ftp_history :: "FtpSession \<Rightarrow> ftp_call list \<Rightarrow> bool" where
  "ftp_history c h \<longleftrightarrow>
     (ft_state c = ftp_user_ok \<longrightarrow> has_user h) \<and>
     (ft_state c = ftp_authenticated \<or> ft_state c = ftp_renaming \<longrightarrow> has_login h) \<and>
     (ft_data_mode c \<noteq> 255 \<longrightarrow> has_mode h) \<and>
     (ft_transfer_state c = ftp_in_progress \<longrightarrow> has_transfer h)"

lemma ftp_history_rejected:
  assumes "ftp_history c h" "snd (ftp_step x c) \<noteq> 0"
  shows "ftp_history (fst (ftp_step x c)) h"
  using assms
  by (cases x; cases "ft_state c"; simp add: op_simps Let_def ftp_history_def split: if_splits)

lemma ftp_history_accepted:
  assumes "ftp_history c h" "snd (ftp_step x c) = 0"
  shows "ftp_history (fst (ftp_step x c)) (h @ [x])"
  using assms
  by (cases x; cases "ft_state c";
      simp add: op_simps Let_def ftp_history_def ftp_history_grows split: if_splits)

text \<open>
  C9: From a fresh session, whatever commands are tried, the engine is in the Authenticated or
  Renaming state only if it accepted USER and then PASS, and a transfer is in progress only if it
  accepted USER, PASS, PASV or PORT, and the start of a transfer in this order.
\<close>

theorem ftp_transfer_order:
  fixes c0 :: FtpSession and ops :: "ftp_call list"
  defines "c \<equiv> fst (session_run ftp_step (ftp_fresh c0) ops)"
    and "h \<equiv> snd (session_run ftp_step (ftp_fresh c0) ops)"
  shows "(ft_state c = ftp_authenticated \<or> ft_state c = ftp_renaming \<longrightarrow>
      (\<exists>u w. subseq [Fc_user u, Fc_pass w] h)) \<and>
    (ft_transfer_state c = ftp_in_progress \<longrightarrow>
      (\<exists>u w. subseq [Fc_user u, Fc_pass w, Fc_set_passive, Fc_begin_transfer] h) \<or>
      (\<exists>u w port. subseq [Fc_user u, Fc_pass w, Fc_set_active port, Fc_begin_transfer] h))"
proof -
  have "ftp_history c h"
    unfolding c_def h_def
    by (rule session_run_invariant)
       (simp_all add: ftp_history_accepted ftp_history_rejected,
        simp add: ftp_history_def ftp_fresh_def FTP_DEFAULT_SESSION_def)
  then show ?thesis by (simp add: ftp_history_def has_login_def has_transfer_def)
qed

theorem ftp_transfer_order_witness:
  "\<exists>u w. subseq [Fc_user u, Fc_pass w] (snd (session_run ftp_step (ftp_fresh (ftp_sessions ! 0))
     [Fc_pass [1], Fc_user [97], Fc_begin_transfer, Fc_pass [98], Fc_set_type 1]))"
  by (rule ftp_transfer_order [THEN conjunct1, THEN mp])
     (simp add: session_run_def op_simps ftp_fresh_def FTP_DEFAULT_SESSION_def)

section \<open>Transfer accounting\<close>

text \<open>
  While a transfer is in progress every count of bytes is accepted and the 64-bit counter is the
  start value plus the exact sum of the counts, held at its maximum when the sum exceeds it. This
  does not depend on the session state: it also holds after QUIT, and completing the transfer then
  is still accepted and counts one more file, up to the 32-bit maximum.
\<close>

theorem ftp_bytes_exact:
  assumes "ft_transfer_state c = ftp_in_progress"
  shows "(let (c', h) = session_run ftp_step c (map Fc_add_bytes ns) in
      h = map Fc_add_bytes ns \<and> ft_transfer_state c' = ftp_in_progress \<and>
      unat (ft_bytes_transferred c') =
        min (unat (ft_bytes_transferred c) + sum_list (map unat ns)) (2 ^ 64 - 1)) \<and>
    (let c' = fst (ftp_step Fc_complete_transfer (fst (ftp_step Fc_quit_session c))) in
      snd (ftp_step Fc_complete_transfer (fst (ftp_step Fc_quit_session c))) = 0 \<and>
      ft_state c' = ftp_quitted \<and> ft_transfer_state c' = ftp_completed \<and>
      unat (ft_file_count c') = min (Suc (unat (ft_file_count c))) (2 ^ 32 - 1))"
proof -
  have "let (c', h) = session_run ftp_step c (map Fc_add_bytes ns) in
      h = map Fc_add_bytes ns \<and> ft_transfer_state c' = ftp_in_progress \<and>
      unat (ft_bytes_transferred c') =
        min (unat (ft_bytes_transferred c) + sum_list (map unat ns)) (2 ^ 64 - 1)"
  proof (induction ns rule: rev_induct)
    case Nil
    have "unat (ft_bytes_transferred c) < 2 ^ 64"
      using unsigned_less [of "ft_bytes_transferred c", where ?'a = nat] by simp
    then show ?case using assms by (simp add: min_def)
  next
    case (snoc n ns)
    obtain c' h where run: "session_run ftp_step c (map Fc_add_bytes ns) = (c', h)"
      by (cases "session_run ftp_step c (map Fc_add_bytes ns)")
    with snoc show ?case
      by (auto simp: session_run_snoc Let_def op_simps unat_sat_add)
  qed
  moreover have "unat (sat_add (ft_file_count c) 1) = min (Suc (unat (ft_file_count c))) (2 ^ 32 - 1)"
    by (simp add: unat_sat_add)
  ultimately show ?thesis
    using assms by (simp add: op_simps Let_def)
qed

theorem ftp_bytes_exact_witness:
  "unat (ft_bytes_transferred (fst (session_run ftp_step
     ((ftp_fresh (ftp_sessions ! 0))\<lparr>ft_transfer_state := ftp_in_progress, ft_bytes_transferred := - 5\<rparr>)
     (map Fc_add_bytes [3, 4])))) = 2 ^ 64 - 1"
  using ftp_bytes_exact [of "(ftp_fresh (ftp_sessions ! 0))\<lparr>ft_transfer_state := ftp_in_progress, ft_bytes_transferred := - 5\<rparr>" "[3, 4]"]
  by (simp add: case_prod_beta Let_def)

section \<open>The three descriptions of the session states\<close>

text \<open>
  An accepted FTP command that changes the session state takes an edge of the engine's table, and
  the Rust method can_transition_to of ftp.rs agrees with that table on every pair of states except
  six: Rust lets UserOk return to Connected and lets Quit quit again, and lacks a second USER in
  UserOk, a new login from Authenticated, and the two self-edges for commands in Authenticated and
  Renaming.
\<close>

theorem ftp_machines_agree:
  "(snd (ftp_step x c) = 0 \<and> ft_state (fst (ftp_step x c)) \<noteq> ft_state c \<longrightarrow>
      ftp_can_transition (ftp_state_tag (ft_state c)) (ftp_state_tag (ft_state (fst (ftp_step x c)))) = 1) \<and>
   (Ftp_SessionState_can_transition_to s t \<noteq>
      (ftp_can_transition (Ftp_SessionState_to_tag s) (Ftp_SessionState_to_tag t) = 1) \<longleftrightarrow>
    (s, t) \<in> {(Ftp_SessionState.UserOk, Ftp_SessionState.Connected),
               (Ftp_SessionState.Quit, Ftp_SessionState.Quit),
               (Ftp_SessionState.UserOk, Ftp_SessionState.UserOk),
               (Ftp_SessionState.Authenticated, Ftp_SessionState.UserOk),
               (Ftp_SessionState.Authenticated, Ftp_SessionState.Authenticated),
               (Ftp_SessionState.Renaming, Ftp_SessionState.Renaming)})"
proof
  show "snd (ftp_step x c) = 0 \<and> ft_state (fst (ftp_step x c)) \<noteq> ft_state c \<longrightarrow>
      ftp_can_transition (ftp_state_tag (ft_state c)) (ftp_state_tag (ft_state (fst (ftp_step x c)))) = 1"
    by (cases x; cases "ft_state c"; simp add: op_simps ftp_can_transition_def Let_def)
qed (cases s; cases t; simp add: Ftp_SessionState_can_transition_to_def ftp_can_transition_def)

theorem ftp_machines_agree_witness:
  "ftp_can_transition 0 1 = 1"
  using ftp_machines_agree [of "Fc_user [97]" "ftp_fresh (ftp_sessions ! 0)"]
  by (simp add: op_simps ftp_fresh_def FTP_DEFAULT_SESSION_def)

end
