(* ===== verification/Ssh_Engine.thy ===== *)
theory Ssh_Engine
  imports Slot_Pool Tag_Codec
begin

text \<open>
  The SSH bastion engine \<open>not-proven/proven-ssh-bastion/ffi/zig/src/ssh_bastion.zig\<close>: sessions with up to
  ten channels, an audit log of the state transitions and a counter of failed logins. The
  algorithm and type fields hold the tag of their Zig enum: the guards admit only valid tags, so
  \<open>@enumFromInt\<close> and \<open>@intFromEnum\<close> are inverse there. An argument check the code makes before it
  takes the lock stands at the head of the operation's body: it answers what an invalid slot answers.
\<close>

section \<open>State\<close>

datatype bastion =
    sb_connected | sb_key_exchanged | sb_authenticated | sb_channel_open | sb_active_state | sb_closed

primrec bastion_tag :: "bastion \<Rightarrow> u8" where
  "bastion_tag sb_connected = 0"
| "bastion_tag sb_key_exchanged = 1"
| "bastion_tag sb_authenticated = 2"
| "bastion_tag sb_channel_open = 3"
| "bastion_tag sb_active_state = 4"
| "bastion_tag sb_closed = 5"

datatype ssh_channel = ch_opening | ch_open | ch_closing | ch_closed

primrec ssh_channel_tag :: "ssh_channel \<Rightarrow> u8" where
  "ssh_channel_tag ch_opening = 0"
| "ssh_channel_tag ch_open = 1"
| "ssh_channel_tag ch_closing = 2"
| "ssh_channel_tag ch_closed = 3"

record AuditEntry =
  ae_from :: bastion
  ae_to :: bastion
  ae_sequence :: u32

record ChannelRecord =
  cr_type :: u8
  cr_state :: ssh_channel
  cr_active :: bool

record SshSession =
  sb_state :: bastion
  sb_kex_method :: u8
  sb_auth_method :: u8
  sb_active :: bool
  sb_recording :: bool
  sb_auth_failures :: u8
  sb_disconnect_reason :: u8
  sb_channels :: "ChannelRecord list"
  sb_audit_log :: "AuditEntry list"
  sb_audit_count :: u32
  sb_audit_sequence :: u32

type_synonym ssh_pool = "SshSession list"

definition MAX_CHANNELS :: nat where
  "MAX_CHANNELS = 10"

definition MAX_AUDIT_ENTRIES :: nat where
  "MAX_AUDIT_ENTRIES = 256"

definition default_channel :: ChannelRecord where
  "default_channel = \<lparr>cr_type = 0, cr_state = ch_closed, cr_active = False\<rparr>"

definition default_session :: SshSession where
  "default_session =
     \<lparr>sb_state = sb_connected, sb_kex_method = 1, sb_auth_method = 0, sb_active = False,
      sb_recording = False, sb_auth_failures = 0, sb_disconnect_reason = 255,
      sb_channels = replicate MAX_CHANNELS default_channel,
      sb_audit_log = replicate MAX_AUDIT_ENTRIES \<lparr>ae_from = sb_closed, ae_to = sb_closed, ae_sequence = 0\<rparr>,
      sb_audit_count = 0, sb_audit_sequence = 0\<rparr>"

definition ssh_sessions :: ssh_pool where
  "ssh_sessions = replicate 64 default_session"

text \<open>
  The log keeps the first 256 entries; the sequence number counts on, and the transition that would
  take it past 32 bits stops the program.
\<close>

definition recordAudit :: "bastion \<Rightarrow> bastion \<Rightarrow> SshSession \<Rightarrow> SshSession option" where
  "recordAudit from to s =
     (let s' = (if unat (sb_audit_count s) < MAX_AUDIT_ENTRIES then
                  s\<lparr>sb_audit_log := (sb_audit_log s)[unat (sb_audit_count s) :=
                       \<lparr>ae_from = from, ae_to = to, ae_sequence = sb_audit_sequence s\<rparr>],
                    sb_audit_count := sb_audit_count s + 1\<rparr>
                else s)
      in map_option (\<lambda>n. s'\<lparr>sb_audit_sequence := n\<rparr>) (checked_inc (sb_audit_sequence s')))"

text \<open>The session after a transition has been recorded, when the sequence number has room.\<close>

definition logged :: "bastion \<Rightarrow> bastion \<Rightarrow> SshSession \<Rightarrow> SshSession" where
  "logged from to s =
     (if unat (sb_audit_count s) < MAX_AUDIT_ENTRIES
      then s\<lparr>sb_audit_log := (sb_audit_log s)[unat (sb_audit_count s) := AuditEntry.make from to (sb_audit_sequence s)],
             sb_audit_count := sb_audit_count s + 1, sb_audit_sequence := sb_audit_sequence s + 1\<rparr>
      else s\<lparr>sb_audit_sequence := sb_audit_sequence s + 1\<rparr>)"

lemma recordAudit_logged [op_simps]:
  "recordAudit from to s = (if sb_audit_sequence s = - 1 then None else Some (logged from to s))"
  by (simp add: recordAudit_def logged_def checked_inc_def Let_def AuditEntry.make_def)

definition countActiveChannels :: "SshSession \<Rightarrow> u8" where
  "countActiveChannels s =
     foldl (\<lambda>count ch. if cr_active ch \<and> cr_state ch \<noteq> ch_closed then count + 1 else count) 0 (sb_channels s)"

section \<open>Lifecycle and queries\<close>

definition ssh_bastion_abi_version :: u32 where
  "ssh_bastion_abi_version = 1"

definition ssh_fresh :: "u8 \<times> u8 \<Rightarrow> SshSession \<Rightarrow> SshSession" where
  "ssh_fresh a c =
     the (recordAudit sb_closed sb_connected
       (default_session\<lparr>sb_state := sb_connected, sb_kex_method := fst a, sb_auth_method := snd a,
                        sb_active := True\<rparr>))"

text \<open>The sequence number of a new session is 0, so recording its creation does not stop the program.\<close>

lemma ssh_fresh_recorded:
  "recordAudit sb_closed sb_connected
     (default_session\<lparr>sb_state := sb_connected, sb_kex_method := fst a, sb_auth_method := snd a,
                      sb_active := True\<rparr>) = Some (ssh_fresh a c)"
  by (simp add: ssh_fresh_def recordAudit_logged default_session_def)

definition ssh_bastion_create :: "ssh_pool \<Rightarrow> u8 \<Rightarrow> u8 \<Rightarrow> ssh_pool \<times> c_int" where
  "ssh_bastion_create p kex_method auth_method =
     (if kex_method > 5 then (p, - 1)
      else if auth_method > 3 then (p, - 1)
      else pool_create sb_active (ssh_fresh (kex_method, auth_method)) p)"

definition ssh_off :: "SshSession \<Rightarrow> SshSession" where
  "ssh_off c = c\<lparr>sb_active := False\<rparr>"

definition ssh_bastion_destroy :: "ssh_pool \<Rightarrow> c_int \<Rightarrow> ssh_pool" where
  "ssh_bastion_destroy p s = pool_destroy ssh_off p s"

definition ssh_bastion_state :: "ssh_pool \<Rightarrow> c_int \<Rightarrow> u8" where
  "ssh_bastion_state p s = query_slot sb_active p s 5 (\<lambda>c. bastion_tag (sb_state c))"

definition ssh_bastion_kex_method :: "ssh_pool \<Rightarrow> c_int \<Rightarrow> u8" where
  "ssh_bastion_kex_method p s = query_slot sb_active p s 255 sb_kex_method"

definition ssh_bastion_auth_method :: "ssh_pool \<Rightarrow> c_int \<Rightarrow> u8" where
  "ssh_bastion_auth_method p s = query_slot sb_active p s 255 sb_auth_method"

definition ssh_bastion_can_transfer :: "ssh_pool \<Rightarrow> c_int \<Rightarrow> u8" where
  "ssh_bastion_can_transfer p s =
     query_slot sb_active p s 0 (\<lambda>c. if sb_state c = sb_active_state then 1 else 0)"

definition ssh_bastion_disconnect_reason :: "ssh_pool \<Rightarrow> c_int \<Rightarrow> u8" where
  "ssh_bastion_disconnect_reason p s = query_slot sb_active p s 255 sb_disconnect_reason"

definition ssh_bastion_auth_failures :: "ssh_pool \<Rightarrow> c_int \<Rightarrow> u8" where
  "ssh_bastion_auth_failures p s = query_slot sb_active p s 255 sb_auth_failures"

definition ssh_bastion_channel_state :: "ssh_pool \<Rightarrow> c_int \<Rightarrow> u8 \<Rightarrow> u8" where
  "ssh_bastion_channel_state p s ch_id =
     (if unat ch_id \<ge> MAX_CHANNELS then 3
      else query_slot sb_active p s 3
        (\<lambda>c. let ch = sb_channels c ! unat ch_id in
             if \<not> cr_active ch then 3 else ssh_channel_tag (cr_state ch)))"

definition ssh_bastion_channel_type :: "ssh_pool \<Rightarrow> c_int \<Rightarrow> u8 \<Rightarrow> u8" where
  "ssh_bastion_channel_type p s ch_id =
     (if unat ch_id \<ge> MAX_CHANNELS then 255
      else query_slot sb_active p s 255
        (\<lambda>c. let ch = sb_channels c ! unat ch_id in
             if \<not> cr_active ch then 255 else cr_type ch))"

definition ssh_bastion_channel_count :: "ssh_pool \<Rightarrow> c_int \<Rightarrow> u8" where
  "ssh_bastion_channel_count p s = query_slot sb_active p s 0 countActiveChannels"

definition ssh_bastion_audit_count :: "ssh_pool \<Rightarrow> c_int \<Rightarrow> u32" where
  "ssh_bastion_audit_count p s = query_slot sb_active p s 0 sb_audit_count"

definition ssh_bastion_audit_entry :: "ssh_pool \<Rightarrow> c_int \<Rightarrow> u32 \<Rightarrow> u8" where
  "ssh_bastion_audit_entry p s entry_idx =
     query_slot sb_active p s 255
       (\<lambda>c. if entry_idx \<ge> sb_audit_count c then 255
            else bastion_tag (ae_from (sb_audit_log c ! unat entry_idx)))"

definition ssh_bastion_audit_entry_to :: "ssh_pool \<Rightarrow> c_int \<Rightarrow> u32 \<Rightarrow> u8" where
  "ssh_bastion_audit_entry_to p s entry_idx =
     query_slot sb_active p s 255
       (\<lambda>c. if entry_idx \<ge> sb_audit_count c then 255
            else bastion_tag (ae_to (sb_audit_log c ! unat entry_idx)))"

definition ssh_bastion_is_recording :: "ssh_pool \<Rightarrow> c_int \<Rightarrow> u8" where
  "ssh_bastion_is_recording p s = query_slot sb_active p s 0 (\<lambda>c. if sb_recording c then 1 else 0)"

section \<open>Transitions\<close>

definition ssh_complete_kex_on :: "SshSession \<Rightarrow> (SshSession \<times> u8) option" where
  [op_simps]: "ssh_complete_kex_on s =
     (if sb_state s \<noteq> sb_connected then Some (s, 1)
      else let old_state = sb_state s in
        map_option (\<lambda>s. (s, 0)) (recordAudit old_state sb_key_exchanged (s\<lparr>sb_state := sb_key_exchanged\<rparr>)))"

text \<open>The argument \<open>user_len\<close> is discarded.\<close>

definition ssh_authenticate_on :: "SshSession \<Rightarrow> (SshSession \<times> u8) option" where
  [op_simps]: "ssh_authenticate_on s =
     (if sb_state s \<noteq> sb_key_exchanged then Some (s, 1)
      else let old_state = sb_state s in
        map_option (\<lambda>s. (s, 0)) (recordAudit old_state sb_authenticated (s\<lparr>sb_state := sb_authenticated\<rparr>)))"

definition ssh_record_auth_failure_on :: "SshSession \<Rightarrow> SshSession \<times> u8" where
  [op_simps]: "ssh_record_auth_failure_on s =
     (let s' = (if sb_auth_failures s < 255 then s\<lparr>sb_auth_failures := sb_auth_failures s + 1\<rparr> else s)
      in (s', if sb_auth_failures s' \<ge> 3 then 1 else 0))"

definition ssh_open_channel_on :: "u8 \<Rightarrow> SshSession \<Rightarrow> (SshSession \<times> c_int) option" where
  [op_simps]: "ssh_open_channel_on ch_type s =
     (if ch_type > 3 then Some (s, - 1)
      else if sb_state s \<noteq> sb_authenticated \<and> sb_state s \<noteq> sb_active_state then Some (s, - 1)
      else case first_free cr_active (sb_channels s) of
          Some ci \<Rightarrow>
            let s' = s\<lparr>sb_channels := (sb_channels s)[ci :=
                         \<lparr>cr_type = ch_type, cr_state = ch_opening, cr_active = True\<rparr>]\<rparr>;
                old_state = sb_state s';
                s'' = (if sb_state s' = sb_authenticated then s'\<lparr>sb_state := sb_channel_open\<rparr> else s')
            in map_option (\<lambda>s. (s, word_of_nat ci)) (recordAudit old_state (sb_state s'') s'')
        | None \<Rightarrow> Some (s, - 1))"

definition ssh_confirm_channel_on :: "u8 \<Rightarrow> SshSession \<Rightarrow> (SshSession \<times> u8) option" where
  [op_simps]: "ssh_confirm_channel_on ch_id s =
     (if unat ch_id \<ge> MAX_CHANNELS then Some (s, 1)
      else let ch = sb_channels s ! unat ch_id in
        if \<not> cr_active ch \<or> cr_state ch \<noteq> ch_opening then Some (s, 1)
        else
          let s' = s\<lparr>sb_channels := (sb_channels s)[unat ch_id := ch\<lparr>cr_state := ch_open\<rparr>]\<rparr>;
              old_state = sb_state s';
              s'' = (if sb_state s' = sb_channel_open then s'\<lparr>sb_state := sb_active_state\<rparr> else s')
          in map_option (\<lambda>s. (s, 0)) (recordAudit old_state (sb_state s'') s''))"

definition ssh_close_channel_on :: "u8 \<Rightarrow> SshSession \<Rightarrow> SshSession \<times> u8" where
  [op_simps]: "ssh_close_channel_on ch_id s =
     (if unat ch_id \<ge> MAX_CHANNELS then (s, 1)
      else let ch = sb_channels s ! unat ch_id in
        if \<not> cr_active ch \<or> cr_state ch = ch_closed then (s, 1)
        else (s\<lparr>sb_channels := (sb_channels s)[unat ch_id := ch\<lparr>cr_state := ch_closed, cr_active := False\<rparr>]\<rparr>, 0))"

definition ssh_rekey_on :: "SshSession \<Rightarrow> (SshSession \<times> u8) option" where
  [op_simps]: "ssh_rekey_on s =
     (if sb_state s \<noteq> sb_active_state then Some (s, 1)
      else map_option (\<lambda>s. (s, 0)) (recordAudit sb_active_state sb_active_state s))"

definition ssh_disconnect_on :: "u8 \<Rightarrow> SshSession \<Rightarrow> (SshSession \<times> u8) option" where
  [op_simps]: "ssh_disconnect_on reason s =
     (if reason > 11 then Some (s, 1)
      else if sb_state s = sb_closed then Some (s, 1)
      else
        let old_state = sb_state s;
            s' = s\<lparr>sb_state := sb_closed, sb_disconnect_reason := reason,
                   sb_channels := map (\<lambda>ch. if cr_active ch then ch\<lparr>cr_state := ch_closed, cr_active := False\<rparr>
                                            else ch) (sb_channels s)\<rparr>
        in map_option (\<lambda>s. (s, 0)) (recordAudit old_state sb_closed s'))"

definition ssh_set_recording_on :: "u8 \<Rightarrow> SshSession \<Rightarrow> SshSession \<times> u8" where
  [op_simps]: "ssh_set_recording_on enabled s = (s\<lparr>sb_recording := (enabled \<noteq> 0)\<rparr>, 0)"

text \<open>The exported functions.\<close>

definition ssh_bastion_complete_kex :: "ssh_pool \<Rightarrow> c_int \<Rightarrow> (ssh_pool \<times> u8) option" where
  "ssh_bastion_complete_kex p s = on_slot_checked sb_active p s 1 ssh_complete_kex_on"

definition ssh_bastion_authenticate :: "ssh_pool \<Rightarrow> c_int \<Rightarrow> u16 \<Rightarrow> (ssh_pool \<times> u8) option" where
  "ssh_bastion_authenticate p s user_len = on_slot_checked sb_active p s 1 ssh_authenticate_on"

definition ssh_bastion_record_auth_failure :: "ssh_pool \<Rightarrow> c_int \<Rightarrow> ssh_pool \<times> u8" where
  "ssh_bastion_record_auth_failure p s = on_slot sb_active p s 1 ssh_record_auth_failure_on"

definition ssh_bastion_open_channel :: "ssh_pool \<Rightarrow> c_int \<Rightarrow> u8 \<Rightarrow> (ssh_pool \<times> c_int) option" where
  "ssh_bastion_open_channel p s ch_type = on_slot_checked sb_active p s (- 1) (ssh_open_channel_on ch_type)"

definition ssh_bastion_confirm_channel :: "ssh_pool \<Rightarrow> c_int \<Rightarrow> u8 \<Rightarrow> (ssh_pool \<times> u8) option" where
  "ssh_bastion_confirm_channel p s ch_id = on_slot_checked sb_active p s 1 (ssh_confirm_channel_on ch_id)"

definition ssh_bastion_close_channel :: "ssh_pool \<Rightarrow> c_int \<Rightarrow> u8 \<Rightarrow> ssh_pool \<times> u8" where
  "ssh_bastion_close_channel p s ch_id = on_slot sb_active p s 1 (ssh_close_channel_on ch_id)"

definition ssh_bastion_rekey :: "ssh_pool \<Rightarrow> c_int \<Rightarrow> (ssh_pool \<times> u8) option" where
  "ssh_bastion_rekey p s = on_slot_checked sb_active p s 1 ssh_rekey_on"

definition ssh_bastion_disconnect :: "ssh_pool \<Rightarrow> c_int \<Rightarrow> u8 \<Rightarrow> (ssh_pool \<times> u8) option" where
  "ssh_bastion_disconnect p s reason = on_slot_checked sb_active p s 1 (ssh_disconnect_on reason)"

definition ssh_bastion_set_recording :: "ssh_pool \<Rightarrow> c_int \<Rightarrow> u8 \<Rightarrow> ssh_pool \<times> u8" where
  "ssh_bastion_set_recording p s enabled = on_slot sb_active p s 1 (ssh_set_recording_on enabled)"

section \<open>The stateless transition table\<close>

definition ssh_bastion_can_transition :: "u8 \<Rightarrow> u8 \<Rightarrow> u8" where
  "ssh_bastion_can_transition from to =
     (if from = 0 \<and> to = 1 then 1
      else if from = 1 \<and> to = 2 then 1
      else if from = 2 \<and> to = 3 then 1
      else if from = 3 \<and> to = 4 then 1
      else if from = 4 \<and> to = 4 then 1
      else if from = 4 \<and> to = 5 then 1
      else if from = 0 \<and> to = 5 then 1
      else if from = 1 \<and> to = 5 then 1
      else if from = 2 \<and> to = 5 then 1
      else if from = 3 \<and> to = 5 then 1
      else 0)"

end
