(* ===== verification/Ssh_Types.thy ===== *)
theory Ssh_Types
  imports Tag_Codec
begin

text \<open>
  The pure types of \<open>bindings/rust/src/ssh.rs\<close>: message types, algorithms, bastion and channel states
  with their transition checks, disconnect reasons and channel failures.
\<close>

definition SSH_PORT :: "u16" where
  "SSH_PORT = 22"

section \<open>\<open>ssh::SshMessageType\<close>\<close>

datatype (plugins only: code) SshMessageType =
    Kexinit
  | Newkeys
  | ServiceRequest
  | UserauthRequest
  | ChannelOpen
  | ChannelData
  | ChannelClose
  | Disconnect

definition SshMessageType_from_tag :: "u8 \<Rightarrow> SshMessageType option" where
  "SshMessageType_from_tag tag =
     (if tag = 0 then Some SshMessageType.Kexinit
      else if tag = 1 then Some SshMessageType.Newkeys
      else if tag = 2 then Some SshMessageType.ServiceRequest
      else if tag = 3 then Some SshMessageType.UserauthRequest
      else if tag = 4 then Some SshMessageType.ChannelOpen
      else if tag = 5 then Some SshMessageType.ChannelData
      else if tag = 6 then Some SshMessageType.ChannelClose
      else if tag = 7 then Some SshMessageType.Disconnect
      else option.None)"

primrec SshMessageType_to_tag :: "SshMessageType \<Rightarrow> u8" where
  "SshMessageType_to_tag SshMessageType.Kexinit = 0"
| "SshMessageType_to_tag SshMessageType.Newkeys = 1"
| "SshMessageType_to_tag SshMessageType.ServiceRequest = 2"
| "SshMessageType_to_tag SshMessageType.UserauthRequest = 3"
| "SshMessageType_to_tag SshMessageType.ChannelOpen = 4"
| "SshMessageType_to_tag SshMessageType.ChannelData = 5"
| "SshMessageType_to_tag SshMessageType.ChannelClose = 6"
| "SshMessageType_to_tag SshMessageType.Disconnect = 7"

definition SshMessageType_ALL :: "SshMessageType list" where
  "SshMessageType_ALL =
     [SshMessageType.Kexinit, SshMessageType.Newkeys, SshMessageType.ServiceRequest,
      SshMessageType.UserauthRequest, SshMessageType.ChannelOpen,
      SshMessageType.ChannelData, SshMessageType.ChannelClose, SshMessageType.Disconnect]"

primrec SshMessageType_fmt :: "SshMessageType \<Rightarrow> string" where
  "SshMessageType_fmt SshMessageType.Kexinit = ''Kexinit''"
| "SshMessageType_fmt SshMessageType.Newkeys = ''Newkeys''"
| "SshMessageType_fmt SshMessageType.ServiceRequest = ''ServiceRequest''"
| "SshMessageType_fmt SshMessageType.UserauthRequest = ''UserauthRequest''"
| "SshMessageType_fmt SshMessageType.ChannelOpen = ''ChannelOpen''"
| "SshMessageType_fmt SshMessageType.ChannelData = ''ChannelData''"
| "SshMessageType_fmt SshMessageType.ChannelClose = ''ChannelClose''"
| "SshMessageType_fmt SshMessageType.Disconnect = ''Disconnect''"

section \<open>\<open>ssh::AuthMethod\<close>\<close>

datatype (plugins only: code) Ssh_AuthMethod =
    Publickey
  | Password
  | KeyboardInteractive
  | AuthNone

definition Ssh_AuthMethod_from_tag :: "u8 \<Rightarrow> Ssh_AuthMethod option" where
  "Ssh_AuthMethod_from_tag tag =
     (if tag = 0 then Some Ssh_AuthMethod.Publickey
      else if tag = 1 then Some Ssh_AuthMethod.Password
      else if tag = 2 then Some Ssh_AuthMethod.KeyboardInteractive
      else if tag = 3 then Some Ssh_AuthMethod.AuthNone
      else option.None)"

primrec Ssh_AuthMethod_to_tag :: "Ssh_AuthMethod \<Rightarrow> u8" where
  "Ssh_AuthMethod_to_tag Ssh_AuthMethod.Publickey = 0"
| "Ssh_AuthMethod_to_tag Ssh_AuthMethod.Password = 1"
| "Ssh_AuthMethod_to_tag Ssh_AuthMethod.KeyboardInteractive = 2"
| "Ssh_AuthMethod_to_tag Ssh_AuthMethod.AuthNone = 3"

definition Ssh_AuthMethod_is_secure :: "Ssh_AuthMethod \<Rightarrow> bool" where
  "Ssh_AuthMethod_is_secure self =
     (case self of
      Ssh_AuthMethod.Publickey \<Rightarrow> True
    | Ssh_AuthMethod.KeyboardInteractive \<Rightarrow> True
    | _ \<Rightarrow> False)"

definition Ssh_AuthMethod_fmt :: "Ssh_AuthMethod \<Rightarrow> string" where
  "Ssh_AuthMethod_fmt self =
     (case self of
      Ssh_AuthMethod.Publickey \<Rightarrow> ''publickey''
    | Ssh_AuthMethod.Password \<Rightarrow> ''password''
    | Ssh_AuthMethod.KeyboardInteractive \<Rightarrow> ''keyboard-interactive''
    | Ssh_AuthMethod.AuthNone \<Rightarrow> ''none'')"

section \<open>\<open>ssh::KexMethod\<close>\<close>

datatype (plugins only: code) KexMethod =
    DiffieHellmanGroup14Sha256
  | Curve25519Sha256
  | DiffieHellmanGroup16Sha512
  | DiffieHellmanGroup18Sha512
  | EcdhSha2Nistp256
  | EcdhSha2Nistp384

definition KexMethod_from_tag :: "u8 \<Rightarrow> KexMethod option" where
  "KexMethod_from_tag tag =
     (if tag = 0 then Some KexMethod.DiffieHellmanGroup14Sha256
      else if tag = 1 then Some KexMethod.Curve25519Sha256
      else if tag = 2 then Some KexMethod.DiffieHellmanGroup16Sha512
      else if tag = 3 then Some KexMethod.DiffieHellmanGroup18Sha512
      else if tag = 4 then Some KexMethod.EcdhSha2Nistp256
      else if tag = 5 then Some KexMethod.EcdhSha2Nistp384
      else option.None)"

primrec KexMethod_to_tag :: "KexMethod \<Rightarrow> u8" where
  "KexMethod_to_tag KexMethod.DiffieHellmanGroup14Sha256 = 0"
| "KexMethod_to_tag KexMethod.Curve25519Sha256 = 1"
| "KexMethod_to_tag KexMethod.DiffieHellmanGroup16Sha512 = 2"
| "KexMethod_to_tag KexMethod.DiffieHellmanGroup18Sha512 = 3"
| "KexMethod_to_tag KexMethod.EcdhSha2Nistp256 = 4"
| "KexMethod_to_tag KexMethod.EcdhSha2Nistp384 = 5"

definition KexMethod_is_ecc :: "KexMethod \<Rightarrow> bool" where
  "KexMethod_is_ecc self =
     (case self of
      KexMethod.Curve25519Sha256 \<Rightarrow> True
    | KexMethod.EcdhSha2Nistp256 \<Rightarrow> True
    | KexMethod.EcdhSha2Nistp384 \<Rightarrow> True
    | _ \<Rightarrow> False)"

definition KexMethod_fmt :: "KexMethod \<Rightarrow> string" where
  "KexMethod_fmt self =
     (case self of
      KexMethod.DiffieHellmanGroup14Sha256 \<Rightarrow> ''diffie-hellman-group14-sha256''
    | KexMethod.Curve25519Sha256 \<Rightarrow> ''curve25519-sha256''
    | KexMethod.DiffieHellmanGroup16Sha512 \<Rightarrow> ''diffie-hellman-group16-sha512''
    | KexMethod.DiffieHellmanGroup18Sha512 \<Rightarrow> ''diffie-hellman-group18-sha512''
    | KexMethod.EcdhSha2Nistp256 \<Rightarrow> ''ecdh-sha2-nistp256''
    | KexMethod.EcdhSha2Nistp384 \<Rightarrow> ''ecdh-sha2-nistp384'')"

section \<open>\<open>ssh::ChannelType\<close>\<close>

datatype (plugins only: code) ChannelType =
    Session
  | DirectTcpip
  | ForwardedTcpip
  | X11

definition ChannelType_from_tag :: "u8 \<Rightarrow> ChannelType option" where
  "ChannelType_from_tag tag =
     (if tag = 0 then Some ChannelType.Session
      else if tag = 1 then Some ChannelType.DirectTcpip
      else if tag = 2 then Some ChannelType.ForwardedTcpip
      else if tag = 3 then Some ChannelType.X11
      else option.None)"

primrec ChannelType_to_tag :: "ChannelType \<Rightarrow> u8" where
  "ChannelType_to_tag ChannelType.Session = 0"
| "ChannelType_to_tag ChannelType.DirectTcpip = 1"
| "ChannelType_to_tag ChannelType.ForwardedTcpip = 2"
| "ChannelType_to_tag ChannelType.X11 = 3"

definition ChannelType_is_forwarding :: "ChannelType \<Rightarrow> bool" where
  "ChannelType_is_forwarding self =
     (case self of
      ChannelType.DirectTcpip \<Rightarrow> True
    | ChannelType.ForwardedTcpip \<Rightarrow> True
    | _ \<Rightarrow> False)"

definition ChannelType_fmt :: "ChannelType \<Rightarrow> string" where
  "ChannelType_fmt self =
     (case self of
      ChannelType.Session \<Rightarrow> ''session''
    | ChannelType.DirectTcpip \<Rightarrow> ''direct-tcpip''
    | ChannelType.ForwardedTcpip \<Rightarrow> ''forwarded-tcpip''
    | ChannelType.X11 \<Rightarrow> ''x11'')"

section \<open>\<open>ssh::BastionState\<close>\<close>

datatype (plugins only: code) BastionState =
    Connected
  | KeyExchanged
  | Authenticated
  | ChannelOpen
  | Active
  | Closed

definition BastionState_from_tag :: "u8 \<Rightarrow> BastionState option" where
  "BastionState_from_tag tag =
     (if tag = 0 then Some BastionState.Connected
      else if tag = 1 then Some BastionState.KeyExchanged
      else if tag = 2 then Some BastionState.Authenticated
      else if tag = 3 then Some BastionState.ChannelOpen
      else if tag = 4 then Some BastionState.Active
      else if tag = 5 then Some BastionState.Closed
      else option.None)"

primrec BastionState_to_tag :: "BastionState \<Rightarrow> u8" where
  "BastionState_to_tag BastionState.Connected = 0"
| "BastionState_to_tag BastionState.KeyExchanged = 1"
| "BastionState_to_tag BastionState.Authenticated = 2"
| "BastionState_to_tag BastionState.ChannelOpen = 3"
| "BastionState_to_tag BastionState.Active = 4"
| "BastionState_to_tag BastionState.Closed = 5"

definition BastionState_can_transition_to :: "BastionState \<Rightarrow> BastionState \<Rightarrow> bool" where
  "BastionState_can_transition_to self next =
     (case (self, next) of
      (BastionState.Connected, BastionState.KeyExchanged) \<Rightarrow> True
    | (BastionState.KeyExchanged, BastionState.Authenticated) \<Rightarrow> True
    | (BastionState.Authenticated, BastionState.ChannelOpen) \<Rightarrow> True
    | (BastionState.ChannelOpen, BastionState.Active) \<Rightarrow> True
    | (_, BastionState.Closed) \<Rightarrow> True
    | _ \<Rightarrow> False)"

primrec BastionState_fmt :: "BastionState \<Rightarrow> string" where
  "BastionState_fmt BastionState.Connected = ''Connected''"
| "BastionState_fmt BastionState.KeyExchanged = ''KeyExchanged''"
| "BastionState_fmt BastionState.Authenticated = ''Authenticated''"
| "BastionState_fmt BastionState.ChannelOpen = ''ChannelOpen''"
| "BastionState_fmt BastionState.Active = ''Active''"
| "BastionState_fmt BastionState.Closed = ''Closed''"

section \<open>\<open>ssh::ChannelState\<close>\<close>

datatype (plugins only: code) Ssh_ChannelState =
    Opening
  | Open
  | Closing
  | Closed

definition Ssh_ChannelState_from_tag :: "u8 \<Rightarrow> Ssh_ChannelState option" where
  "Ssh_ChannelState_from_tag tag =
     (if tag = 0 then Some Ssh_ChannelState.Opening
      else if tag = 1 then Some Ssh_ChannelState.Open
      else if tag = 2 then Some Ssh_ChannelState.Closing
      else if tag = 3 then Some Ssh_ChannelState.Closed
      else option.None)"

primrec Ssh_ChannelState_to_tag :: "Ssh_ChannelState \<Rightarrow> u8" where
  "Ssh_ChannelState_to_tag Ssh_ChannelState.Opening = 0"
| "Ssh_ChannelState_to_tag Ssh_ChannelState.Open = 1"
| "Ssh_ChannelState_to_tag Ssh_ChannelState.Closing = 2"
| "Ssh_ChannelState_to_tag Ssh_ChannelState.Closed = 3"

definition Ssh_ChannelState_can_transition_to :: "Ssh_ChannelState \<Rightarrow> Ssh_ChannelState \<Rightarrow> bool" where
  "Ssh_ChannelState_can_transition_to self next =
     (case (self, next) of
      (Ssh_ChannelState.Opening, Ssh_ChannelState.Open) \<Rightarrow> True
    | (Ssh_ChannelState.Opening, Ssh_ChannelState.Closed) \<Rightarrow> True
    | (Ssh_ChannelState.Open, Ssh_ChannelState.Closing) \<Rightarrow> True
    | (Ssh_ChannelState.Closing, Ssh_ChannelState.Closed) \<Rightarrow> True
    | _ \<Rightarrow> False)"

primrec Ssh_ChannelState_fmt :: "Ssh_ChannelState \<Rightarrow> string" where
  "Ssh_ChannelState_fmt Ssh_ChannelState.Opening = ''Opening''"
| "Ssh_ChannelState_fmt Ssh_ChannelState.Open = ''Open''"
| "Ssh_ChannelState_fmt Ssh_ChannelState.Closing = ''Closing''"
| "Ssh_ChannelState_fmt Ssh_ChannelState.Closed = ''Closed''"

section \<open>\<open>ssh::DisconnectReason\<close>\<close>

datatype (plugins only: code) DisconnectReason =
    HostNotAllowed
  | ProtocolError
  | KeyExchangeFailed
  | HostAuthFailed
  | MacError
  | ServiceNotAvailable
  | VersionNotSupported
  | HostKeyNotVerifiable
  | ConnectionLost
  | ByApplication
  | TooManyConnections
  | AuthCancelled

definition DisconnectReason_from_tag :: "u8 \<Rightarrow> DisconnectReason option" where
  "DisconnectReason_from_tag tag =
     (if tag = 0 then Some DisconnectReason.HostNotAllowed
      else if tag = 1 then Some DisconnectReason.ProtocolError
      else if tag = 2 then Some DisconnectReason.KeyExchangeFailed
      else if tag = 3 then Some DisconnectReason.HostAuthFailed
      else if tag = 4 then Some DisconnectReason.MacError
      else if tag = 5 then Some DisconnectReason.ServiceNotAvailable
      else if tag = 6 then Some DisconnectReason.VersionNotSupported
      else if tag = 7 then Some DisconnectReason.HostKeyNotVerifiable
      else if tag = 8 then Some DisconnectReason.ConnectionLost
      else if tag = 9 then Some DisconnectReason.ByApplication
      else if tag = 10 then Some DisconnectReason.TooManyConnections
      else if tag = 11 then Some DisconnectReason.AuthCancelled
      else option.None)"

primrec DisconnectReason_to_tag :: "DisconnectReason \<Rightarrow> u8" where
  "DisconnectReason_to_tag DisconnectReason.HostNotAllowed = 0"
| "DisconnectReason_to_tag DisconnectReason.ProtocolError = 1"
| "DisconnectReason_to_tag DisconnectReason.KeyExchangeFailed = 2"
| "DisconnectReason_to_tag DisconnectReason.HostAuthFailed = 3"
| "DisconnectReason_to_tag DisconnectReason.MacError = 4"
| "DisconnectReason_to_tag DisconnectReason.ServiceNotAvailable = 5"
| "DisconnectReason_to_tag DisconnectReason.VersionNotSupported = 6"
| "DisconnectReason_to_tag DisconnectReason.HostKeyNotVerifiable = 7"
| "DisconnectReason_to_tag DisconnectReason.ConnectionLost = 8"
| "DisconnectReason_to_tag DisconnectReason.ByApplication = 9"
| "DisconnectReason_to_tag DisconnectReason.TooManyConnections = 10"
| "DisconnectReason_to_tag DisconnectReason.AuthCancelled = 11"

definition DisconnectReason_is_security_related :: "DisconnectReason \<Rightarrow> bool" where
  "DisconnectReason_is_security_related self =
     (case self of
      DisconnectReason.HostNotAllowed \<Rightarrow> True
    | DisconnectReason.HostAuthFailed \<Rightarrow> True
    | DisconnectReason.MacError \<Rightarrow> True
    | DisconnectReason.HostKeyNotVerifiable \<Rightarrow> True
    | DisconnectReason.AuthCancelled \<Rightarrow> True
    | _ \<Rightarrow> False)"

primrec DisconnectReason_fmt :: "DisconnectReason \<Rightarrow> string" where
  "DisconnectReason_fmt DisconnectReason.HostNotAllowed = ''HostNotAllowed''"
| "DisconnectReason_fmt DisconnectReason.ProtocolError = ''ProtocolError''"
| "DisconnectReason_fmt DisconnectReason.KeyExchangeFailed = ''KeyExchangeFailed''"
| "DisconnectReason_fmt DisconnectReason.HostAuthFailed = ''HostAuthFailed''"
| "DisconnectReason_fmt DisconnectReason.MacError = ''MacError''"
| "DisconnectReason_fmt DisconnectReason.ServiceNotAvailable = ''ServiceNotAvailable''"
| "DisconnectReason_fmt DisconnectReason.VersionNotSupported = ''VersionNotSupported''"
| "DisconnectReason_fmt DisconnectReason.HostKeyNotVerifiable = ''HostKeyNotVerifiable''"
| "DisconnectReason_fmt DisconnectReason.ConnectionLost = ''ConnectionLost''"
| "DisconnectReason_fmt DisconnectReason.ByApplication = ''ByApplication''"
| "DisconnectReason_fmt DisconnectReason.TooManyConnections = ''TooManyConnections''"
| "DisconnectReason_fmt DisconnectReason.AuthCancelled = ''AuthCancelled''"

section \<open>\<open>ssh::HostKeyAlgorithm\<close>\<close>

datatype (plugins only: code) HostKeyAlgorithm =
    SshEd25519
  | RsaSha2256
  | RsaSha2512
  | EcdsaNistp256

definition HostKeyAlgorithm_from_tag :: "u8 \<Rightarrow> HostKeyAlgorithm option" where
  "HostKeyAlgorithm_from_tag tag =
     (if tag = 0 then Some HostKeyAlgorithm.SshEd25519
      else if tag = 1 then Some HostKeyAlgorithm.RsaSha2256
      else if tag = 2 then Some HostKeyAlgorithm.RsaSha2512
      else if tag = 3 then Some HostKeyAlgorithm.EcdsaNistp256
      else option.None)"

primrec HostKeyAlgorithm_to_tag :: "HostKeyAlgorithm \<Rightarrow> u8" where
  "HostKeyAlgorithm_to_tag HostKeyAlgorithm.SshEd25519 = 0"
| "HostKeyAlgorithm_to_tag HostKeyAlgorithm.RsaSha2256 = 1"
| "HostKeyAlgorithm_to_tag HostKeyAlgorithm.RsaSha2512 = 2"
| "HostKeyAlgorithm_to_tag HostKeyAlgorithm.EcdsaNistp256 = 3"

definition HostKeyAlgorithm_is_ecc :: "HostKeyAlgorithm \<Rightarrow> bool" where
  "HostKeyAlgorithm_is_ecc self =
     (case self of
      HostKeyAlgorithm.SshEd25519 \<Rightarrow> True
    | HostKeyAlgorithm.EcdsaNistp256 \<Rightarrow> True
    | _ \<Rightarrow> False)"

definition HostKeyAlgorithm_fmt :: "HostKeyAlgorithm \<Rightarrow> string" where
  "HostKeyAlgorithm_fmt self =
     (case self of
      HostKeyAlgorithm.SshEd25519 \<Rightarrow> ''ssh-ed25519''
    | HostKeyAlgorithm.RsaSha2256 \<Rightarrow> ''rsa-sha2-256''
    | HostKeyAlgorithm.RsaSha2512 \<Rightarrow> ''rsa-sha2-512''
    | HostKeyAlgorithm.EcdsaNistp256 \<Rightarrow> ''ecdsa-sha2-nistp256'')"

section \<open>\<open>ssh::CipherAlgorithm\<close>\<close>

datatype (plugins only: code) CipherAlgorithm =
    Chacha20Poly1305
  | Aes256Gcm
  | Aes128Gcm
  | Aes256Ctr
  | Aes192Ctr
  | Aes128Ctr

definition CipherAlgorithm_from_tag :: "u8 \<Rightarrow> CipherAlgorithm option" where
  "CipherAlgorithm_from_tag tag =
     (if tag = 0 then Some CipherAlgorithm.Chacha20Poly1305
      else if tag = 1 then Some CipherAlgorithm.Aes256Gcm
      else if tag = 2 then Some CipherAlgorithm.Aes128Gcm
      else if tag = 3 then Some CipherAlgorithm.Aes256Ctr
      else if tag = 4 then Some CipherAlgorithm.Aes192Ctr
      else if tag = 5 then Some CipherAlgorithm.Aes128Ctr
      else option.None)"

primrec CipherAlgorithm_to_tag :: "CipherAlgorithm \<Rightarrow> u8" where
  "CipherAlgorithm_to_tag CipherAlgorithm.Chacha20Poly1305 = 0"
| "CipherAlgorithm_to_tag CipherAlgorithm.Aes256Gcm = 1"
| "CipherAlgorithm_to_tag CipherAlgorithm.Aes128Gcm = 2"
| "CipherAlgorithm_to_tag CipherAlgorithm.Aes256Ctr = 3"
| "CipherAlgorithm_to_tag CipherAlgorithm.Aes192Ctr = 4"
| "CipherAlgorithm_to_tag CipherAlgorithm.Aes128Ctr = 5"

definition CipherAlgorithm_is_aead :: "CipherAlgorithm \<Rightarrow> bool" where
  "CipherAlgorithm_is_aead self =
     (case self of
      CipherAlgorithm.Chacha20Poly1305 \<Rightarrow> True
    | CipherAlgorithm.Aes256Gcm \<Rightarrow> True
    | CipherAlgorithm.Aes128Gcm \<Rightarrow> True
    | _ \<Rightarrow> False)"

definition CipherAlgorithm_key_bits :: "CipherAlgorithm \<Rightarrow> u16" where
  "CipherAlgorithm_key_bits self =
     (case self of
      CipherAlgorithm.Chacha20Poly1305 \<Rightarrow> 256
    | CipherAlgorithm.Aes256Gcm \<Rightarrow> 256
    | CipherAlgorithm.Aes256Ctr \<Rightarrow> 256
    | CipherAlgorithm.Aes192Ctr \<Rightarrow> 192
    | CipherAlgorithm.Aes128Gcm \<Rightarrow> 128
    | CipherAlgorithm.Aes128Ctr \<Rightarrow> 128)"

definition CipherAlgorithm_fmt :: "CipherAlgorithm \<Rightarrow> string" where
  "CipherAlgorithm_fmt self =
     (case self of
      CipherAlgorithm.Chacha20Poly1305 \<Rightarrow> ''chacha20-poly1305@openssh.com''
    | CipherAlgorithm.Aes256Gcm \<Rightarrow> ''aes256-gcm@openssh.com''
    | CipherAlgorithm.Aes128Gcm \<Rightarrow> ''aes128-gcm@openssh.com''
    | CipherAlgorithm.Aes256Ctr \<Rightarrow> ''aes256-ctr''
    | CipherAlgorithm.Aes192Ctr \<Rightarrow> ''aes192-ctr''
    | CipherAlgorithm.Aes128Ctr \<Rightarrow> ''aes128-ctr'')"

section \<open>\<open>ssh::ChannelOpenFailure\<close>\<close>

datatype (plugins only: code) ChannelOpenFailure =
    AdminProhibited
  | ConnectFailed
  | UnknownChannelType
  | ResourceShortage

definition ChannelOpenFailure_from_tag :: "u8 \<Rightarrow> ChannelOpenFailure option" where
  "ChannelOpenFailure_from_tag tag =
     (if tag = 0 then Some ChannelOpenFailure.AdminProhibited
      else if tag = 1 then Some ChannelOpenFailure.ConnectFailed
      else if tag = 2 then Some ChannelOpenFailure.UnknownChannelType
      else if tag = 3 then Some ChannelOpenFailure.ResourceShortage
      else option.None)"

primrec ChannelOpenFailure_to_tag :: "ChannelOpenFailure \<Rightarrow> u8" where
  "ChannelOpenFailure_to_tag ChannelOpenFailure.AdminProhibited = 0"
| "ChannelOpenFailure_to_tag ChannelOpenFailure.ConnectFailed = 1"
| "ChannelOpenFailure_to_tag ChannelOpenFailure.UnknownChannelType = 2"
| "ChannelOpenFailure_to_tag ChannelOpenFailure.ResourceShortage = 3"

primrec ChannelOpenFailure_fmt :: "ChannelOpenFailure \<Rightarrow> string" where
  "ChannelOpenFailure_fmt ChannelOpenFailure.AdminProhibited = ''AdminProhibited''"
| "ChannelOpenFailure_fmt ChannelOpenFailure.ConnectFailed = ''ConnectFailed''"
| "ChannelOpenFailure_fmt ChannelOpenFailure.UnknownChannelType = ''UnknownChannelType''"
| "ChannelOpenFailure_fmt ChannelOpenFailure.ResourceShortage = ''ResourceShortage''"

section \<open>Tags and enumerations\<close>

interpretation SshMessageType_codec: tag_codec SshMessageType_to_tag SshMessageType_from_tag 8
  by (unfold_locales, (case_tac x; simp add: SshMessageType_from_tag_def), unfold SshMessageType_from_tag_def,
    (erule codec_arm, simp only: SshMessageType_to_tag.simps)+, erule codec_end, (case_tac x; simp), simp add: codec_eval)

interpretation Ssh_AuthMethod_codec: tag_codec Ssh_AuthMethod_to_tag Ssh_AuthMethod_from_tag 4
  by (unfold_locales, (case_tac x; simp add: Ssh_AuthMethod_from_tag_def), unfold Ssh_AuthMethod_from_tag_def,
    (erule codec_arm, simp only: Ssh_AuthMethod_to_tag.simps)+, erule codec_end, (case_tac x; simp), simp add: codec_eval)

interpretation KexMethod_codec: tag_codec KexMethod_to_tag KexMethod_from_tag 6
  by (unfold_locales, (case_tac x; simp add: KexMethod_from_tag_def), unfold KexMethod_from_tag_def,
    (erule codec_arm, simp only: KexMethod_to_tag.simps)+, erule codec_end, (case_tac x; simp), simp add: codec_eval)

interpretation ChannelType_codec: tag_codec ChannelType_to_tag ChannelType_from_tag 4
  by (unfold_locales, (case_tac x; simp add: ChannelType_from_tag_def), unfold ChannelType_from_tag_def,
    (erule codec_arm, simp only: ChannelType_to_tag.simps)+, erule codec_end, (case_tac x; simp), simp add: codec_eval)

interpretation BastionState_codec: tag_codec BastionState_to_tag BastionState_from_tag 6
  by (unfold_locales, (case_tac x; simp add: BastionState_from_tag_def), unfold BastionState_from_tag_def,
    (erule codec_arm, simp only: BastionState_to_tag.simps)+, erule codec_end, (case_tac x; simp), simp add: codec_eval)

interpretation Ssh_ChannelState_codec: tag_codec Ssh_ChannelState_to_tag Ssh_ChannelState_from_tag 4
  by (unfold_locales, (case_tac x; simp add: Ssh_ChannelState_from_tag_def), unfold Ssh_ChannelState_from_tag_def,
    (erule codec_arm, simp only: Ssh_ChannelState_to_tag.simps)+, erule codec_end, (case_tac x; simp), simp add: codec_eval)

interpretation DisconnectReason_codec: tag_codec DisconnectReason_to_tag DisconnectReason_from_tag 12
  by (unfold_locales, (case_tac x; simp add: DisconnectReason_from_tag_def), unfold DisconnectReason_from_tag_def,
    (erule codec_arm, simp only: DisconnectReason_to_tag.simps)+, erule codec_end, (case_tac x; simp), simp add: codec_eval)

interpretation HostKeyAlgorithm_codec: tag_codec HostKeyAlgorithm_to_tag HostKeyAlgorithm_from_tag 4
  by (unfold_locales, (case_tac x; simp add: HostKeyAlgorithm_from_tag_def), unfold HostKeyAlgorithm_from_tag_def,
    (erule codec_arm, simp only: HostKeyAlgorithm_to_tag.simps)+, erule codec_end, (case_tac x; simp), simp add: codec_eval)

interpretation CipherAlgorithm_codec: tag_codec CipherAlgorithm_to_tag CipherAlgorithm_from_tag 6
  by (unfold_locales, (case_tac x; simp add: CipherAlgorithm_from_tag_def), unfold CipherAlgorithm_from_tag_def,
    (erule codec_arm, simp only: CipherAlgorithm_to_tag.simps)+, erule codec_end, (case_tac x; simp), simp add: codec_eval)

interpretation ChannelOpenFailure_codec: tag_codec ChannelOpenFailure_to_tag ChannelOpenFailure_from_tag 4
  by (unfold_locales, (case_tac x; simp add: ChannelOpenFailure_from_tag_def), unfold ChannelOpenFailure_from_tag_def,
    (erule codec_arm, simp only: ChannelOpenFailure_to_tag.simps)+, erule codec_end, (case_tac x; simp), simp add: codec_eval)

lemma SshMessageType_ALL_exhaustive: "set SshMessageType_ALL = UNIV \<and> distinct SshMessageType_ALL"
  by (auto simp: SshMessageType_ALL_def) (case_tac x; simp)

end
