(* ===== verification/Ssh_Ffi.thy ===== *)
theory Ssh_Ffi
  imports Ssh_Engine Ssh_Types
begin

text \<open>
  The safe SSH bastion wrappers \<open>bindings/rust/src/ffi_ssh.rs\<close> over the engine, the session invariant
  (audit log, channels, disconnect reason), and the interpretation of the pool contract.
\<close>

section \<open>The wrappers\<close>

definition ffi_ssh_abi_version :: "u32" where
  "ffi_ssh_abi_version =
     ssh_bastion_abi_version"

definition ffi_ssh_create :: "ssh_pool \<Rightarrow> KexMethod \<Rightarrow> Ssh_AuthMethod \<Rightarrow> ssh_pool \<times> ffi_context ProvenResult" where
  "ffi_ssh_create p kex auth =
     wrap_slot (ssh_bastion_create p (KexMethod_to_tag kex) (Ssh_AuthMethod_to_tag auth))"

definition ffi_ssh_drop :: "ssh_pool \<Rightarrow> ffi_context \<Rightarrow> ssh_pool" where
  "ffi_ssh_drop p ctx =
     ssh_bastion_destroy p (ctx_slot ctx)"

definition ffi_ssh_state :: "ssh_pool \<Rightarrow> ffi_context \<Rightarrow> BastionState option" where
  "ffi_ssh_state p ctx =
     BastionState_from_tag (ssh_bastion_state p (ctx_slot ctx))"

definition ffi_ssh_kex_method :: "ssh_pool \<Rightarrow> ffi_context \<Rightarrow> KexMethod option" where
  "ffi_ssh_kex_method p ctx =
     KexMethod_from_tag (ssh_bastion_kex_method p (ctx_slot ctx))"

definition ffi_ssh_auth_method :: "ssh_pool \<Rightarrow> ffi_context \<Rightarrow> Ssh_AuthMethod option" where
  "ffi_ssh_auth_method p ctx =
     Ssh_AuthMethod_from_tag (ssh_bastion_auth_method p (ctx_slot ctx))"

definition ffi_ssh_can_transfer_data :: "ssh_pool \<Rightarrow> ffi_context \<Rightarrow> bool" where
  "ffi_ssh_can_transfer_data p ctx =
     (ssh_bastion_can_transfer p (ctx_slot ctx) = 1)"

definition ffi_ssh_disconnect_reason :: "ssh_pool \<Rightarrow> ffi_context \<Rightarrow> DisconnectReason option" where
  "ffi_ssh_disconnect_reason p ctx =
     DisconnectReason_from_tag (ssh_bastion_disconnect_reason p (ctx_slot ctx))"

definition ffi_ssh_auth_failures :: "ssh_pool \<Rightarrow> ffi_context \<Rightarrow> u8" where
  "ffi_ssh_auth_failures p ctx =
     ssh_bastion_auth_failures p (ctx_slot ctx)"

definition ffi_ssh_channel_state :: "ssh_pool \<Rightarrow> ffi_context \<Rightarrow> u8 \<Rightarrow> Ssh_ChannelState option" where
  "ffi_ssh_channel_state p ctx ch_id =
     Ssh_ChannelState_from_tag (ssh_bastion_channel_state p (ctx_slot ctx) ch_id)"

definition ffi_ssh_channel_type :: "ssh_pool \<Rightarrow> ffi_context \<Rightarrow> u8 \<Rightarrow> ChannelType option" where
  "ffi_ssh_channel_type p ctx ch_id =
     ChannelType_from_tag (ssh_bastion_channel_type p (ctx_slot ctx) ch_id)"

definition ffi_ssh_channel_count :: "ssh_pool \<Rightarrow> ffi_context \<Rightarrow> u8" where
  "ffi_ssh_channel_count p ctx =
     ssh_bastion_channel_count p (ctx_slot ctx)"

definition ffi_ssh_audit_count :: "ssh_pool \<Rightarrow> ffi_context \<Rightarrow> u32" where
  "ffi_ssh_audit_count p ctx =
     ssh_bastion_audit_count p (ctx_slot ctx)"

definition ffi_ssh_audit_entry_from :: "ssh_pool \<Rightarrow> ffi_context \<Rightarrow> u32 \<Rightarrow> BastionState option" where
  "ffi_ssh_audit_entry_from p ctx index =
     BastionState_from_tag (ssh_bastion_audit_entry p (ctx_slot ctx) index)"

definition ffi_ssh_audit_entry_to :: "ssh_pool \<Rightarrow> ffi_context \<Rightarrow> u32 \<Rightarrow> BastionState option" where
  "ffi_ssh_audit_entry_to p ctx index =
     BastionState_from_tag (ssh_bastion_audit_entry_to p (ctx_slot ctx) index)"

definition ffi_ssh_is_recording :: "ssh_pool \<Rightarrow> ffi_context \<Rightarrow> bool" where
  "ffi_ssh_is_recording p ctx =
     (ssh_bastion_is_recording p (ctx_slot ctx) = 1)"

definition ffi_ssh_complete_kex :: "ssh_pool \<Rightarrow> ffi_context \<Rightarrow> (ssh_pool \<times> unit ProvenResult) option" where
  "ffi_ssh_complete_kex p ctx =
     map_option wrap_status (ssh_bastion_complete_kex p (ctx_slot ctx))"

definition ffi_ssh_authenticate :: "ssh_pool \<Rightarrow> ffi_context \<Rightarrow> (ssh_pool \<times> unit ProvenResult) option" where
  "ffi_ssh_authenticate p ctx =
     map_option wrap_status (ssh_bastion_authenticate p (ctx_slot ctx) 0)"

definition ffi_ssh_record_auth_failure :: "ssh_pool \<Rightarrow> ffi_context \<Rightarrow> ssh_pool \<times> bool" where
  "ffi_ssh_record_auth_failure p ctx =
     map_prod id (\<lambda>r. r = 1) (ssh_bastion_record_auth_failure p (ctx_slot ctx))"

definition ffi_ssh_open_channel :: "ssh_pool \<Rightarrow> ffi_context \<Rightarrow> ChannelType \<Rightarrow> (ssh_pool \<times> u8 ProvenResult) option" where
  "ffi_ssh_open_channel p ctx ch_type =
     map_option (map_prod id (\<lambda>ch_id. map_sum id (\<lambda>i. ucast i) (from_slot ch_id)))
       (ssh_bastion_open_channel p (ctx_slot ctx) (ChannelType_to_tag ch_type))"

definition ffi_ssh_confirm_channel :: "ssh_pool \<Rightarrow> ffi_context \<Rightarrow> u8 \<Rightarrow> (ssh_pool \<times> unit ProvenResult) option" where
  "ffi_ssh_confirm_channel p ctx ch_id =
     map_option wrap_status (ssh_bastion_confirm_channel p (ctx_slot ctx) ch_id)"

definition ffi_ssh_close_channel :: "ssh_pool \<Rightarrow> ffi_context \<Rightarrow> u8 \<Rightarrow> ssh_pool \<times> unit ProvenResult" where
  "ffi_ssh_close_channel p ctx ch_id =
     wrap_status (ssh_bastion_close_channel p (ctx_slot ctx) ch_id)"

definition ffi_ssh_rekey :: "ssh_pool \<Rightarrow> ffi_context \<Rightarrow> (ssh_pool \<times> unit ProvenResult) option" where
  "ffi_ssh_rekey p ctx =
     map_option wrap_status (ssh_bastion_rekey p (ctx_slot ctx))"

definition ffi_ssh_disconnect :: "ssh_pool \<Rightarrow> ffi_context \<Rightarrow> DisconnectReason \<Rightarrow> (ssh_pool \<times> unit ProvenResult) option" where
  "ffi_ssh_disconnect p ctx reason =
     map_option wrap_status (ssh_bastion_disconnect p (ctx_slot ctx) (DisconnectReason_to_tag reason))"

definition ffi_ssh_set_recording :: "ssh_pool \<Rightarrow> ffi_context \<Rightarrow> bool \<Rightarrow> ssh_pool \<times> unit ProvenResult" where
  "ffi_ssh_set_recording p ctx enabled =
     wrap_status (ssh_bastion_set_recording p (ctx_slot ctx) (bool_u8 enabled))"

definition ffi_ssh_can_transition :: "BastionState \<Rightarrow> BastionState \<Rightarrow> bool" where
  "ffi_ssh_can_transition from to =
     (ssh_bastion_can_transition (BastionState_to_tag from) (BastionState_to_tag to) = 1)"

section \<open>The client's alphabet\<close>

text \<open>
  One constructor per wrapper that can change a session. The engine answers a status or a channel
  number, and the wrappers turn it into a result, a channel result or a flag. A call that stops the
  program, which the audit log's checked counter can do, is the answer \<open>Ans_stop\<close>; that a client could
  go on after it only adds runs.
\<close>

datatype ssh_call =
    Hc_complete_kex
  | Hc_authenticate
  | Hc_record_auth_failure
  | Hc_open_channel ChannelType
  | Hc_confirm_channel u8
  | Hc_close_channel u8
  | Hc_rekey
  | Hc_disconnect DisconnectReason
  | Hc_set_recording bool

datatype ssh_raw = Raw_status u8 | Raw_channel c_int | Raw_stop

datatype ssh_answer = Ans_done "unit ProvenResult" | Ans_channel "u8 ProvenResult" | Ans_locked bool | Ans_stop

primrec ssh_step :: "ssh_call \<Rightarrow> SshSession \<Rightarrow> SshSession \<times> ssh_raw" where
  "ssh_step Hc_complete_kex c = or_stop Raw_stop c (map_option (map_prod id Raw_status) (ssh_complete_kex_on c))"
| "ssh_step Hc_authenticate c = or_stop Raw_stop c (map_option (map_prod id Raw_status) (ssh_authenticate_on c))"
| "ssh_step Hc_record_auth_failure c = map_prod id Raw_status (ssh_record_auth_failure_on c)"
| "ssh_step (Hc_open_channel t) c = or_stop Raw_stop c (map_option (map_prod id Raw_channel) (ssh_open_channel_on (ChannelType_to_tag t) c))"
| "ssh_step (Hc_confirm_channel n) c = or_stop Raw_stop c (map_option (map_prod id Raw_status) (ssh_confirm_channel_on n c))"
| "ssh_step (Hc_close_channel n) c = map_prod id Raw_status (ssh_close_channel_on n c)"
| "ssh_step Hc_rekey c = or_stop Raw_stop c (map_option (map_prod id Raw_status) (ssh_rekey_on c))"
| "ssh_step (Hc_disconnect r) c = or_stop Raw_stop c (map_option (map_prod id Raw_status) (ssh_disconnect_on (DisconnectReason_to_tag r) c))"
| "ssh_step (Hc_set_recording b) c = map_prod id Raw_status (ssh_set_recording_on (bool_u8 b) c)"

primrec ssh_err :: "ssh_call \<Rightarrow> ssh_raw" where
  "ssh_err Hc_complete_kex = Raw_status 1"
| "ssh_err Hc_authenticate = Raw_status 1"
| "ssh_err Hc_record_auth_failure = Raw_status 1"
| "ssh_err (Hc_open_channel t) = Raw_channel (- 1)"
| "ssh_err (Hc_confirm_channel n) = Raw_status 1"
| "ssh_err (Hc_close_channel n) = Raw_status 1"
| "ssh_err Hc_rekey = Raw_status 1"
| "ssh_err (Hc_disconnect r) = Raw_status 1"
| "ssh_err (Hc_set_recording b) = Raw_status 1"

primrec ssh_conv :: "ssh_raw \<Rightarrow> ssh_call \<Rightarrow> ssh_answer" where
  "ssh_conv (Raw_status r) x = (if x = Hc_record_auth_failure then Ans_locked (r = 1) else Ans_done (from_status r))"
| "ssh_conv (Raw_channel n) x = Ans_channel (map_sum id (\<lambda>i. ucast i) (from_slot n))"
| "ssh_conv Raw_stop x = Ans_stop"

primrec ffi_ssh_call :: "ssh_call \<Rightarrow> ssh_pool \<Rightarrow> ffi_context \<Rightarrow> ssh_pool \<times> ssh_answer" where
  "ffi_ssh_call Hc_complete_kex p ctx = or_stop Ans_stop p (map_option (map_prod id Ans_done) (ffi_ssh_complete_kex p ctx))"
| "ffi_ssh_call Hc_authenticate p ctx = or_stop Ans_stop p (map_option (map_prod id Ans_done) (ffi_ssh_authenticate p ctx))"
| "ffi_ssh_call Hc_record_auth_failure p ctx = map_prod id Ans_locked (ffi_ssh_record_auth_failure p ctx)"
| "ffi_ssh_call (Hc_open_channel t) p ctx = or_stop Ans_stop p (map_option (map_prod id Ans_channel) (ffi_ssh_open_channel p ctx t))"
| "ffi_ssh_call (Hc_confirm_channel n) p ctx = or_stop Ans_stop p (map_option (map_prod id Ans_done) (ffi_ssh_confirm_channel p ctx n))"
| "ffi_ssh_call (Hc_close_channel n) p ctx = map_prod id Ans_done (ffi_ssh_close_channel p ctx n)"
| "ffi_ssh_call Hc_rekey p ctx = or_stop Ans_stop p (map_option (map_prod id Ans_done) (ffi_ssh_rekey p ctx))"
| "ffi_ssh_call (Hc_disconnect r) p ctx = or_stop Ans_stop p (map_option (map_prod id Ans_done) (ffi_ssh_disconnect p ctx r))"
| "ffi_ssh_call (Hc_set_recording b) p ctx = map_prod id Ans_done (ffi_ssh_set_recording p ctx b)"

text \<open>Whether the engine accepted the operation (a lockout is an answer, not a refusal;
  stopping the program is not acceptance).\<close>

definition ssh_accepted :: "ssh_call \<Rightarrow> SshSession \<Rightarrow> bool" where
  "ssh_accepted x c = (case snd (ssh_step x c) of
      Raw_status r \<Rightarrow> x = Hc_record_auth_failure \<or> r = 0
    | Raw_channel n \<Rightarrow> n \<noteq> - 1
    | Raw_stop \<Rightarrow> False)"

lemmas ffi_ssh_op_defs =
  ffi_ssh_complete_kex_def ffi_ssh_authenticate_def ffi_ssh_record_auth_failure_def
  ffi_ssh_open_channel_def ffi_ssh_confirm_channel_def ffi_ssh_close_channel_def ffi_ssh_rekey_def
  ffi_ssh_disconnect_def ffi_ssh_set_recording_def ssh_bastion_complete_kex_def
  ssh_bastion_authenticate_def ssh_bastion_record_auth_failure_def ssh_bastion_open_channel_def
  ssh_bastion_confirm_channel_def ssh_bastion_close_channel_def ssh_bastion_rekey_def
  ssh_bastion_disconnect_def ssh_bastion_set_recording_def

lemma on_slot_map:
  "on_slot act p s (f err) (\<lambda>c. map_prod id f (g c)) = map_prod id f (on_slot act p s err g)"
  by (simp add: on_slot_def split: option.split prod.split)

text \<open>The operations as functions of the session.\<close>

lemma ssh_step_fun:
  "ssh_step Hc_complete_kex = (\<lambda>c. or_stop Raw_stop c (map_option (map_prod id Raw_status) (ssh_complete_kex_on c)))"
  "ssh_step Hc_authenticate = (\<lambda>c. or_stop Raw_stop c (map_option (map_prod id Raw_status) (ssh_authenticate_on c)))"
  "ssh_step Hc_record_auth_failure = (\<lambda>c. map_prod id Raw_status (ssh_record_auth_failure_on c))"
  "ssh_step (Hc_open_channel t) = (\<lambda>c. or_stop Raw_stop c (map_option (map_prod id Raw_channel) (ssh_open_channel_on (ChannelType_to_tag t) c)))"
  "ssh_step (Hc_confirm_channel n) = (\<lambda>c. or_stop Raw_stop c (map_option (map_prod id Raw_status) (ssh_confirm_channel_on n c)))"
  "ssh_step (Hc_close_channel n) = (\<lambda>c. map_prod id Raw_status (ssh_close_channel_on n c))"
  "ssh_step Hc_rekey = (\<lambda>c. or_stop Raw_stop c (map_option (map_prod id Raw_status) (ssh_rekey_on c)))"
  "ssh_step (Hc_disconnect r) = (\<lambda>c. or_stop Raw_stop c (map_option (map_prod id Raw_status) (ssh_disconnect_on (DisconnectReason_to_tag r) c)))"
  "ssh_step (Hc_set_recording b) = (\<lambda>c. map_prod id Raw_status (ssh_set_recording_on (bool_u8 b) c))"
  by (simp_all add: fun_eq_iff)

section \<open>The audit log\<close>

definition audit :: "SshSession \<Rightarrow> AuditEntry list" where
  "audit c = take (unat (sb_audit_count c)) (sb_audit_log c)"

definition bastion_edge :: "bastion \<Rightarrow> bastion \<Rightarrow> bool" where
  "bastion_edge s t \<longleftrightarrow> ssh_bastion_can_transition (bastion_tag s) (bastion_tag t) = 1"

text \<open>
  A log that can be replayed: it starts with the creation, each entry starts where the one before
  ended, every later entry is an edge of the table, and the entries are numbered from 0.
\<close>

definition audit_ok :: "AuditEntry list \<Rightarrow> bool" where
  "audit_ok es \<longleftrightarrow>
     es \<noteq> [] \<and> ae_from (hd es) = sb_closed \<and> ae_to (hd es) = sb_connected \<and>
     successively (\<lambda>a b. ae_to a = ae_from b) es \<and>
     (\<forall>e \<in> set (tl es). bastion_edge (ae_from e) (ae_to e)) \<and>
     map ae_sequence es = map word_of_nat [0 ..< length es]"

text \<open>The log of a session whose current state is \<open>st\<close>.\<close>

definition log_ok :: "bastion \<Rightarrow> SshSession \<Rightarrow> bool" where
  "log_ok st c \<longleftrightarrow>
     length (sb_audit_log c) = 256 \<and> unat (sb_audit_count c) \<le> 256 \<and> audit_ok (audit c) \<and>
     (length (audit c) < 256 \<longrightarrow>
        ae_to (last (audit c)) = st \<and> sb_audit_sequence c = word_of_nat (length (audit c)))"

lemma logged_fields [simp]:
  "sb_state (logged a b c) = sb_state c"
  "sb_kex_method (logged a b c) = sb_kex_method c"
  "sb_auth_method (logged a b c) = sb_auth_method c"
  "sb_active (logged a b c) = sb_active c"
  "sb_recording (logged a b c) = sb_recording c"
  "sb_auth_failures (logged a b c) = sb_auth_failures c"
  "sb_disconnect_reason (logged a b c) = sb_disconnect_reason c"
  "sb_channels (logged a b c) = sb_channels c"
  "sb_audit_sequence (logged a b c) = sb_audit_sequence c + 1"
  by (simp_all add: logged_def)

lemma log_ok_other_fields [simp]:
  "log_ok st (c\<lparr>sb_state := x\<rparr>) = log_ok st c"
  "log_ok st (c\<lparr>sb_channels := y\<rparr>) = log_ok st c"
  "log_ok st (c\<lparr>sb_auth_failures := z\<rparr>) = log_ok st c"
  "log_ok st (c\<lparr>sb_recording := b\<rparr>) = log_ok st c"
  "log_ok st (c\<lparr>sb_disconnect_reason := r\<rparr>) = log_ok st c"
  by (simp_all add: log_ok_def audit_def)

lemma audit_ok_snoc:
  assumes "audit_ok es" "bastion_edge (ae_to (last es)) t"
  shows "audit_ok (es @ [\<lparr>ae_from = ae_to (last es), ae_to = t, ae_sequence = word_of_nat (length es)\<rparr>])"
  using assms by (auto simp: audit_ok_def successively_append_iff)

text \<open>Recording an edge of the table keeps the log replayable.\<close>

lemma log_ok_logged:
  assumes "log_ok st c" "bastion_edge st t"
  shows "log_ok t (logged st t c)"
proof -
  have len: "length (audit c) = unat (sb_audit_count c)" "length (sb_audit_log c) = 256"
    using assms(1) by (simp_all add: log_ok_def audit_def)
  show ?thesis
  proof (cases "length (audit c) < 256")
    case True
    let ?e = "\<lparr>ae_from = st, ae_to = t, ae_sequence = sb_audit_sequence c\<rparr>"
    have count: "unat (sb_audit_count c + 1) = Suc (unat (sb_audit_count c))"
      using True len by (simp add: unat_word_ariths)
    have "audit (logged st t c) = audit c @ [?e]"
      using True len count by (simp add: audit_def logged_def MAX_AUDIT_ENTRIES_def AuditEntry.make_def
          take_Suc_conv_app_nth)
    moreover have "audit_ok (audit c @ [?e])"
      using audit_ok_snoc [of "audit c" t] assms True by (auto simp: log_ok_def)
    ultimately show ?thesis
      using assms(1) True len count
      by (simp add: log_ok_def logged_def MAX_AUDIT_ENTRIES_def)
  next
    case False
    then show ?thesis
      using assms(1) len
      by (simp add: log_ok_def logged_def MAX_AUDIT_ENTRIES_def audit_def)
  qed
qed

section \<open>The session invariant\<close>

text \<open>Channels are in use only in the two channel states, and none is open before the first confirm.\<close>

definition channels_ok :: "bastion \<Rightarrow> ChannelRecord list \<Rightarrow> bool" where
  "channels_ok st chs \<longleftrightarrow>
     length chs = 10 \<and>
     (\<forall>ch \<in> set chs. cr_active ch \<longrightarrow>
        cr_type ch \<le> 3 \<and>
        (st = sb_channel_open \<and> cr_state ch = ch_opening \<or>
         st = sb_active_state \<and> (cr_state ch = ch_opening \<or> cr_state ch = ch_open)))"

definition ssh_good :: "SshSession \<Rightarrow> bool" where
  "ssh_good c \<longleftrightarrow>
     log_ok (sb_state c) c \<and> channels_ok (sb_state c) (sb_channels c) \<and>
     sb_kex_method c \<le> 5 \<and> sb_auth_method c \<le> 3 \<and>
     (if sb_state c = sb_closed then sb_disconnect_reason c \<le> 11 else sb_disconnect_reason c = 255)"

lemma ssh_tags_valid:
  "KexMethod_to_tag k \<le> 5" "Ssh_AuthMethod_to_tag a \<le> 3" "ChannelType_to_tag t \<le> 3"
  "DisconnectReason_to_tag r \<le> 11"
  by ((cases k; simp), (cases a; simp), (cases t; simp), (cases r; simp))

lemma channels_ok_update:
  assumes "channels_ok st chs" "i < 10"
    and "cr_active ch \<Longrightarrow> cr_type ch \<le> 3 \<and> (st' = sb_channel_open \<and> cr_state ch = ch_opening \<or>
      st' = sb_active_state \<and> (cr_state ch = ch_opening \<or> cr_state ch = ch_open))"
    and "st' = st \<or> st \<in> {sb_connected, sb_key_exchanged, sb_authenticated, sb_closed} \<or>
      st = sb_channel_open \<and> st' = sb_active_state"
  shows "channels_ok st' (chs[i := ch])"
  using assms set_update_subset_insert [of chs i ch]
  unfolding channels_ok_def by auto

lemma channels_ok_empty:
  assumes "channels_ok st chs" "st \<in> {sb_connected, sb_key_exchanged, sb_authenticated, sb_closed}"
  shows "channels_ok st' chs"
  using assms by (auto simp: channels_ok_def)

lemma channels_ok_nth:
  assumes "channels_ok st chs" "i < 10" "cr_active (chs ! i)"
  shows "cr_type (chs ! i) \<le> 3 \<and> (st = sb_channel_open \<and> cr_state (chs ! i) = ch_opening \<or>
    st = sb_active_state \<and> (cr_state (chs ! i) = ch_opening \<or> cr_state (chs ! i) = ch_open))"
  using assms by (auto simp: channels_ok_def)

lemma bastion_edges [simp]:
  "bastion_edge sb_connected sb_key_exchanged"
  "bastion_edge sb_key_exchanged sb_authenticated"
  "bastion_edge sb_authenticated sb_channel_open"
  "bastion_edge sb_channel_open sb_active_state"
  "bastion_edge sb_active_state sb_active_state"
  "st \<noteq> sb_closed \<Longrightarrow> bastion_edge st sb_closed"
  by (simp_all add: bastion_edge_def ssh_bastion_can_transition_def)
     (cases st; simp add: ssh_bastion_can_transition_def)

lemma log_ok_record [simp]:
  "log_ok st c \<Longrightarrow> bastion_edge st t \<Longrightarrow> log_ok t (logged st t c)"
  by (rule log_ok_logged)

lemma ssh_good_open:
  assumes "ssh_good c"
  shows "ssh_good (fst (ssh_step (Hc_open_channel t) c))"
proof (cases "first_free cr_active (sb_channels c)")
  case None
  with assms show ?thesis by (simp add: ssh_open_channel_on_def)
next
  case (Some i)
  then have "i < 10" using assms by (simp add: first_free_Some_iff ssh_good_def channels_ok_def)
  with assms Some show ?thesis
    by (cases "sb_state c")
       (auto simp: ssh_open_channel_on_def recordAudit_logged ssh_good_def Let_def ssh_tags_valid
         intro!: channels_ok_update [of "sb_state c"])
qed

lemma ssh_good_confirm:
  assumes "ssh_good c"
  shows "ssh_good (fst (ssh_step (Hc_confirm_channel n) c))"
proof (cases "unat n < 10 \<and> cr_active (sb_channels c ! unat n)")
  case False
  with assms show ?thesis by (auto simp: ssh_confirm_channel_on_def MAX_CHANNELS_def Let_def)
next
  case True
  have ch: "channels_ok (sb_state c) (sb_channels c)" using assms by (simp add: ssh_good_def)
  with True channels_ok_nth have st: "cr_type (sb_channels c ! unat n) \<le> 3"
      "sb_state c = sb_channel_open \<or> sb_state c = sb_active_state" by blast+
  have "channels_ok sb_active_state ((sb_channels c)[unat n := (sb_channels c ! unat n)\<lparr>cr_state := ch_open\<rparr>])"
    using ch True st by (intro channels_ok_update [of "sb_state c"]) auto
  with assms st show ?thesis
    by (auto simp: ssh_confirm_channel_on_def recordAudit_logged ssh_good_def Let_def)
qed

lemma ssh_good_close:
  assumes "ssh_good c"
  shows "ssh_good (fst (ssh_close_channel_on n c))"
proof -
  have "channels_ok (sb_state c) ((sb_channels c)[unat n := ch])"
    if "\<not> cr_active ch" "unat n < 10" for ch
    using assms that by (intro channels_ok_update [of "sb_state c"]) (auto simp: ssh_good_def)
  with assms show ?thesis
    by (auto simp: ssh_close_channel_on_def ssh_good_def Let_def MAX_CHANNELS_def)
qed

lemma ssh_good_disconnect:
  assumes "ssh_good c"
  shows "ssh_good (fst (ssh_step (Hc_disconnect r) c))"
proof -
  have "channels_ok sb_closed (map (\<lambda>ch. if cr_active ch then ch\<lparr>cr_state := ch_closed, cr_active := False\<rparr>
      else ch) (sb_channels c))"
    using assms by (auto simp: ssh_good_def channels_ok_def)
  with assms show ?thesis
    by (auto simp: ssh_disconnect_on_def recordAudit_logged ssh_good_def Let_def not_less)
qed

lemma ssh_good_step:
  assumes "ssh_good c"
  shows "ssh_good (fst (ssh_step x c))"
proof (cases x)
  case Hc_complete_kex
  have "channels_ok sb_key_exchanged (sb_channels c)" if "sb_state c = sb_connected"
    using assms that channels_ok_empty [of "sb_state c"] by (simp add: ssh_good_def)
  with assms Hc_complete_kex show ?thesis
    by (simp add: ssh_complete_kex_on_def recordAudit_logged Let_def) (auto simp: ssh_good_def)
next
  case Hc_authenticate
  have "channels_ok sb_authenticated (sb_channels c)" if "sb_state c = sb_key_exchanged"
    using assms that channels_ok_empty [of "sb_state c"] by (simp add: ssh_good_def)
  with assms Hc_authenticate show ?thesis
    by (simp add: ssh_authenticate_on_def recordAudit_logged Let_def) (auto simp: ssh_good_def)
next
  case Hc_rekey
  with assms show ?thesis
    by (auto simp: ssh_rekey_on_def recordAudit_logged ssh_good_def)
qed (use assms ssh_good_open ssh_good_confirm ssh_good_close ssh_good_disconnect in
     \<open>simp_all add: ssh_record_auth_failure_on_def ssh_set_recording_on_def Let_def\<close>,
     simp_all add: ssh_good_def)

lemma ssh_active_step: "sb_active (fst (ssh_step x c)) = sb_active c"
  by (cases x) (auto simp: op_simps Let_def split: option.splits)

lemma ssh_good_fresh:
  assumes "fst a \<le> 5" "snd a \<le> 3"
  shows "ssh_good (ssh_fresh a c)"
proof -
  have "audit (ssh_fresh a c) = [\<lparr>ae_from = sb_closed, ae_to = sb_connected, ae_sequence = 0\<rparr>]"
    by (simp add: audit_def ssh_fresh_def recordAudit_logged logged_def AuditEntry.make_def default_session_def MAX_AUDIT_ENTRIES_def
        Let_def take_Cons' numeral_eq_Suc)
  then show ?thesis
    using assms
    by (simp add: ssh_good_def log_ok_def audit_ok_def channels_ok_def)
       (simp add: ssh_fresh_def recordAudit_logged logged_def AuditEntry.make_def default_session_def MAX_AUDIT_ENTRIES_def
        MAX_CHANNELS_def default_channel_def Let_def)
qed

section \<open>The pool contract\<close>

definition ssh_config :: "KexMethod \<times> Ssh_AuthMethod \<Rightarrow> u8 \<times> u8" where
  "ssh_config a = (KexMethod_to_tag (fst a), Ssh_AuthMethod_to_tag (snd a))"

interpretation ssh: slot_service sb_active "\<lambda>_ :: KexMethod \<times> Ssh_AuthMethod. True"
  "\<lambda>a. ssh_fresh (ssh_config a)" ssh_off ssh_step ssh_err "\<lambda>x r. ssh_conv r x" ssh_good ssh_sessions
  "\<lambda>a p. ffi_ssh_create p (fst a) (snd a)" ffi_ssh_drop ffi_ssh_call
proof
  fix c :: SshSession and p :: ssh_pool and h :: ffi_context and x :: ssh_call
    and a :: "KexMethod \<times> Ssh_AuthMethod"
  show "sb_active (ssh_fresh (ssh_config a) c)"
    by (simp add: ssh_fresh_def recordAudit_logged default_session_def)
  show "\<not> sb_active (ssh_off c)" by (simp add: ssh_off_def)
  show "sb_active c \<Longrightarrow> sb_active (fst (ssh_step x c))" by (simp add: ssh_active_step)
  show "ssh_good (ssh_fresh (ssh_config a) c)"
    by (rule ssh_good_fresh) (simp_all add: ssh_config_def ssh_tags_valid)
  show "ssh_good c \<Longrightarrow> ssh_good (fst (ssh_step x c))" by (rule ssh_good_step)
  show "c \<in> set ssh_sessions \<Longrightarrow> \<not> sb_active c" by (simp add: ssh_sessions_def default_session_def)
  show "length ssh_sessions \<le> 2147483648" by (simp add: ssh_sessions_def)
  show "ffi_ssh_create p (fst a) (snd a) =
      wrap_slot (if True then pool_create sb_active (ssh_fresh (ssh_config a)) p else (p, - 1))"
    using ssh_tags_valid(1) [of "fst a"] ssh_tags_valid(2) [of "snd a"]
    by (simp add: ffi_ssh_create_def ssh_bastion_create_def ssh_config_def flip: not_less)
  show "ffi_ssh_drop p h = pool_destroy ssh_off p (ctx_slot h)"
    by (simp add: ffi_ssh_drop_def ssh_bastion_destroy_def)
  show "ffi_ssh_call x p h = map_prod id (\<lambda>r. ssh_conv r x)
      (on_slot sb_active p (ctx_slot h) (ssh_err x) (ssh_step x))"
    by (cases x)
       (simp_all add: ffi_ssh_op_defs wrap_status_eq_map_prod on_slot_map on_slot_or_stop map_prod_or_stop
         ssh_step_fun prod.map_comp option.map_comp comp_def)
qed

abbreviation ssh_client :: "ssh_pool \<Rightarrow> ffi_context list \<Rightarrow> bool" where
  "ssh_client \<equiv> client (\<lambda>a p. ffi_ssh_create p (fst a) (snd a)) ffi_ssh_drop ffi_ssh_call ssh_sessions"

end
