(* ===== verification/Ssh_Props.thy ===== *)
theory Ssh_Props
  imports Ssh_Ffi
begin

text \<open>
  Properties of the SSH bastion: the audit log replays the session, the order of the handshake, what
  the failure counter does and does not do, a channel state a session cannot leave, and the
  relation of the Rust transition check to the engine.
\<close>

section \<open>Shared facts\<close>

definition bastion_abs :: "bastion \<Rightarrow> BastionState" where
  "bastion_abs s = (case s of
      sb_connected \<Rightarrow> BastionState.Connected
    | sb_key_exchanged \<Rightarrow> BastionState.KeyExchanged
    | sb_authenticated \<Rightarrow> BastionState.Authenticated
    | sb_channel_open \<Rightarrow> BastionState.ChannelOpen
    | sb_active_state \<Rightarrow> BastionState.Active
    | sb_closed \<Rightarrow> BastionState.Closed)"

lemma bastion_tag_abs: "bastion_tag s = BastionState_to_tag (bastion_abs s)"
  by (cases s) (simp_all add: bastion_abs_def)

lemma bastion_decode [simp]: "BastionState_from_tag (bastion_tag s) = Some (bastion_abs s)"
  by (simp add: bastion_tag_abs)

lemma bastion_edge_abs: "bastion_edge s t \<longleftrightarrow> ffi_ssh_can_transition (bastion_abs s) (bastion_abs t)"
  by (simp add: bastion_edge_def ffi_ssh_can_transition_def bastion_tag_abs)

lemma bastion_no_tag: "BastionState_from_tag 255 = None"
  by (simp add: BastionState_from_tag_def)

lemma ssh_first_client:
  "ssh_client (ssh_sessions[0 := ssh_fresh (ssh_config a) (ssh_sessions ! 0)]) [handle 0]"
  by (rule ssh.client_first) (simp_all add: ssh_sessions_def)

section \<open>The audit log\<close>

lemma audit_entry_wrappers:
  assumes "valid_slot sb_active p (ctx_slot h) = Some i" "ssh_good (p ! i)"
  shows "ffi_ssh_audit_entry_from p h k = (if unat k < length (audit (p ! i))
      then Some (bastion_abs (ae_from (audit (p ! i) ! unat k))) else None)"
    and "ffi_ssh_audit_entry_to p h k = (if unat k < length (audit (p ! i))
      then Some (bastion_abs (ae_to (audit (p ! i) ! unat k))) else None)"
    and "unat (ffi_ssh_audit_count p h) = length (audit (p ! i))"
  using assms
  by (auto simp: ffi_ssh_audit_entry_from_def ffi_ssh_audit_entry_to_def ffi_ssh_audit_count_def
      ssh_bastion_audit_entry_def ssh_bastion_audit_entry_to_def ssh_bastion_audit_count_def
      query_slot_def audit_def ssh_good_def log_ok_def word_le_nat_alt bastion_no_tag)

lemma audit_ok_nth:
  assumes "audit_ok es"
  shows "ae_from (es ! 0) = sb_closed" "ae_to (es ! 0) = sb_connected"
    and "Suc k < length es \<Longrightarrow> ae_to (es ! k) = ae_from (es ! Suc k)"
    and "0 < k \<Longrightarrow> k < length es \<Longrightarrow> bastion_edge (ae_from (es ! k)) (ae_to (es ! k))"
proof -
  obtain e r where es: "es = e # r" using assms by (cases es) (auto simp: audit_ok_def)
  show "ae_from (es ! 0) = sb_closed" "ae_to (es ! 0) = sb_connected"
    using assms by (simp_all add: audit_ok_def es)
  show "Suc k < length es \<Longrightarrow> ae_to (es ! k) = ae_from (es ! Suc k)"
    using assms successively_nth by (fastforce simp: audit_ok_def)
  show "0 < k \<Longrightarrow> k < length es \<Longrightarrow> bastion_edge (ae_from (es ! k)) (ae_to (es ! k))"
    using assms by (cases k) (auto simp: audit_ok_def es)
qed

text \<open>
  C10: The audit log of an owned SSH session replays it: it holds 1 to 256 entries, starts with the
  creation (Closed to Connected), every entry starts in the state where the one before ended, every
  later entry is an edge of the engine's transition table, and while the log is not full its last
  entry ends in the session's current state. Reading either end of an entry past
  the last gives nothing.
\<close>

theorem ssh_audit_replay:
  assumes "ssh_client p hs" "h \<in> set hs"
  defines "n \<equiv> unat (ffi_ssh_audit_count p h)"
  shows "0 < n \<and> n \<le> 256 \<and>
    ffi_ssh_audit_entry_from p h 0 = Some BastionState.Closed \<and>
    ffi_ssh_audit_entry_to p h 0 = Some BastionState.Connected \<and>
    (\<forall>k. Suc k < n \<longrightarrow>
       ffi_ssh_audit_entry_to p h (word_of_nat k) = ffi_ssh_audit_entry_from p h (word_of_nat (Suc k))) \<and>
    (\<forall>k. 0 < k \<and> k < n \<longrightarrow>
       (\<exists>s t. ffi_ssh_audit_entry_from p h (word_of_nat k) = Some s \<and>
          ffi_ssh_audit_entry_to p h (word_of_nat k) = Some t \<and> ffi_ssh_can_transition s t)) \<and>
    (n < 256 \<longrightarrow> ffi_ssh_audit_entry_to p h (word_of_nat (n - 1)) = ffi_ssh_state p h) \<and>
    (\<forall>k. n \<le> unat k \<longrightarrow> ffi_ssh_audit_entry_from p h k = None \<and> ffi_ssh_audit_entry_to p h k = None)"
  using assms(1,2)
proof (rule ssh.live_slot)
  fix i
  assume v: "valid_slot sb_active p (ctx_slot h) = Some i" and g: "ssh_good (p ! i)"
  let ?es = "audit (p ! i)"
  note w = audit_entry_wrappers [OF v g]
  have n: "n = length ?es" by (simp add: n_def w)
  have ok: "audit_ok ?es" and len: "length ?es \<le> 256" "?es \<noteq> []"
    using g by (auto simp: ssh_good_def log_ok_def audit_def audit_ok_def)
  have small: "unat (word_of_nat k :: u32) = k" if "k < 256" for k
    using that by (simp add: unat_of_nat take_bit_nat_eq_self)
  note facts = audit_ok_nth [OF ok]
  have "length ?es < 256 \<longrightarrow> ae_to (?es ! (length ?es - 1)) = sb_state (p ! i)"
    using g len by (simp add: ssh_good_def log_ok_def last_conv_nth)
  moreover have "ffi_ssh_state p h = Some (bastion_abs (sb_state (p ! i)))"
    using v by (simp add: ffi_ssh_state_def ssh_bastion_state_def query_slot_def)
  ultimately show ?thesis
    using facts len
    by (simp add: n w small bastion_abs_def [of sb_closed] bastion_abs_def [of sb_connected] bastion_edge_abs
        del: of_nat_Suc)
qed

theorem ssh_audit_replay_witness:
  "ffi_ssh_audit_entry_to (ssh_sessions[0 := ssh_fresh (ssh_config (KexMethod.Curve25519Sha256, Ssh_AuthMethod.Password))
     (ssh_sessions ! 0)]) (handle 0) 0 = Some BastionState.Connected"
  using ssh_audit_replay [OF ssh_first_client, of "handle 0"] by simp

section \<open>The order of a session\<close>

text \<open>The operations with a plain status: 0 when the engine accepts.\<close>

definition ssh_session_step :: "ssh_call \<Rightarrow> SshSession \<Rightarrow> SshSession \<times> u8" where
  "ssh_session_step x c = (fst (ssh_step x c), if ssh_accepted x c then 0 else 1)"

definition ssh_done :: "nat \<Rightarrow> ssh_call list \<Rightarrow> bool" where
  "ssh_done k h \<longleftrightarrow> (\<exists>t n. subseq (take k [Hc_complete_kex, Hc_authenticate, Hc_open_channel t, Hc_confirm_channel n]) h)"

lemma ssh_done_grows:
  "ssh_done k h \<Longrightarrow> ssh_done k (h @ [x])"
  "ssh_done (Suc 0) (h @ [Hc_complete_kex])"
  "ssh_done (Suc 0) h \<Longrightarrow> ssh_done 2 (h @ [Hc_authenticate])"
  "ssh_done 2 h \<Longrightarrow> ssh_done 3 (h @ [Hc_open_channel t])"
  "ssh_done 3 h \<Longrightarrow> ssh_done 4 (h @ [Hc_confirm_channel n])"
  unfolding ssh_done_def
  by (auto simp: numeral_eq_Suc intro: subseq_snoc)

definition ssh_history :: "SshSession \<Rightarrow> ssh_call list \<Rightarrow> bool" where
  "ssh_history c h \<longleftrightarrow>
     length (sb_channels c) = 10 \<and>
     (sb_state c = sb_key_exchanged \<longrightarrow> ssh_done (Suc 0) h) \<and>
     (sb_state c = sb_authenticated \<longrightarrow> ssh_done 2 h) \<and>
     (sb_state c = sb_channel_open \<longrightarrow> ssh_done 3 h) \<and>
     (sb_state c = sb_active_state \<longrightarrow> ssh_done 4 h)"

text \<open>A channel number is never the error answer.\<close>

lemma channel_number_valid:
  assumes "first_free act chs = Some i" "length chs = 10"
  shows "(word_of_nat i :: c_int) \<noteq> - 1"
proof
  assume "(word_of_nat i :: c_int) = - 1"
  moreover have "sint (word_of_nat i :: c_int) = int i"
    using assms by (simp add: first_free_Some_iff)
  ultimately show False by simp
qed

lemma ssh_history_rejected:
  "ssh_history c h \<Longrightarrow> \<not> ssh_accepted x c \<Longrightarrow> ssh_history (fst (ssh_step x c)) h"
  by (cases x)
     (auto simp: ssh_accepted_def ssh_history_def op_simps Let_def channel_number_valid
       split: if_splits option.splits)

lemma ssh_history_accepted:
  assumes "ssh_history c h" "ssh_accepted x c"
  shows "ssh_history (fst (ssh_step x c)) (h @ [x])"
  using assms
  by (cases x; cases "sb_state c")
     (auto simp: ssh_accepted_def ssh_history_def op_simps Let_def ssh_done_grows split: if_splits option.splits)

text \<open>A new session.\<close>

lemma ssh_fresh_fields [simp]:
  "sb_state (ssh_fresh a c) = sb_connected"
  "sb_channels (ssh_fresh a c) = replicate 10 default_channel"
  "sb_auth_failures (ssh_fresh a c) = 0"
  "sb_audit_sequence (ssh_fresh a c) = 1"
  by (simp_all add: ssh_fresh_def recordAudit_logged default_session_def MAX_CHANNELS_def)

text \<open>
  C11: From a fresh session, whatever operations are tried, data can be transferred (the state is
  Active) only if the engine accepted the key exchange, the authentication, the opening of a
  channel and the confirmation of a channel, in this order. A call that stops the program counts as
  refused.
\<close>

theorem ssh_session_order:
  fixes a :: "u8 \<times> u8" and c0 :: SshSession and ops :: "ssh_call list"
  defines "c \<equiv> fst (session_run ssh_session_step (ssh_fresh a c0) ops)"
    and "h \<equiv> snd (session_run ssh_session_step (ssh_fresh a c0) ops)"
  shows "sb_state c = sb_active_state \<longrightarrow>
    (\<exists>t n. subseq [Hc_complete_kex, Hc_authenticate, Hc_open_channel t, Hc_confirm_channel n] h)"
proof -
  have "ssh_history c h"
    unfolding c_def h_def
    by (rule session_run_invariant)
       (auto simp: ssh_session_step_def ssh_history_accepted ssh_history_rejected split: if_splits,
        simp add: ssh_history_def)
  then show ?thesis by (simp add: ssh_history_def ssh_done_def)
qed

lemma ssh_free_channels:
  "first_free cr_active (replicate 10 default_channel) = Some 0"
  by (simp add: numeral_eq_Suc default_channel_def)

theorem ssh_session_order_witness:
  "\<exists>t n. subseq [Hc_complete_kex, Hc_authenticate, Hc_open_channel t, Hc_confirm_channel n]
     (snd (session_run ssh_session_step (ssh_fresh (1, 0) (ssh_sessions ! 0))
        [Hc_complete_kex, Hc_rekey, Hc_authenticate, Hc_open_channel ChannelType.Session, Hc_confirm_channel 0]))"
  by (rule ssh_session_order [THEN mp])
     (simp add: session_run_def ssh_session_step_def ssh_accepted_def op_simps Let_def ssh_free_channels MAX_CHANNELS_def)

lemma ssh_run_snoc:
  "fst (session_run ssh_session_step c (xs @ [x])) = fst (ssh_step x (fst (session_run ssh_session_step c xs)))"
  by (simp add: session_run_snoc case_prod_beta Let_def) (simp add: ssh_session_step_def)

section \<open>Failed logins\<close>

lemma ssh_failures_run:
  "fst (session_run ssh_session_step c (replicate n Hc_record_auth_failure)) =
     c\<lparr>sb_auth_failures := word_of_nat (min (unat (sb_auth_failures c) + n) 255)\<rparr>"
proof (induction n)
  case 0
  have "unat (sb_auth_failures c) < 256"
    using unsigned_less [of "sb_auth_failures c", where ?'a = nat] by simp
  then show ?case by (simp add: min_def)
next
  case (Suc n)
  let ?f = "min (unat (sb_auth_failures c) + n) 255"
  have u: "unat (word_of_nat ?f :: u8) = ?f" by (simp add: unat_of_nat take_bit_nat_eq_self min_def)
  have "(word_of_nat ?f :: u8) < 255 \<longleftrightarrow> ?f < 255" by (simp add: word_less_nat_alt u)
  then have "fst (ssh_record_auth_failure_on (c\<lparr>sb_auth_failures := word_of_nat ?f\<rparr>)) =
      c\<lparr>sb_auth_failures := word_of_nat (min (unat (sb_auth_failures c) + Suc n) 255)\<rparr>"
    by (auto simp: ssh_record_auth_failure_on_def Let_def min_def ac_simps)
  with Suc show ?case by (simp only: replicate_Suc flip: replicate_append_same) (simp only: ssh_run_snoc ssh_step_fun fst_map_prod id_apply)
qed

text \<open>
  The failure counter of an SSH session counts exactly, up to its maximum 255, and the answer to
  recording a failure says locked out exactly from the third failure on; but the counter locks
  nothing: with any number of recorded failures, authenticate still succeeds in KeyExchanged (unless the
  audit log's sequence number is at its maximum, where any transition stops the program).
\<close>

theorem ssh_lockout_advisory:
  fixes c :: SshSession and n :: nat
  assumes "sb_state c = sb_key_exchanged" "sb_audit_sequence c \<noteq> - 1"
  defines "c' \<equiv> fst (session_run ssh_session_step c (replicate n Hc_record_auth_failure))"
  shows "unat (sb_auth_failures c') = min (unat (sb_auth_failures c) + n) 255 \<and>
    (ssh_conv (snd (ssh_step Hc_record_auth_failure c')) Hc_record_auth_failure = Ans_locked True \<longleftrightarrow>
       3 \<le> unat (sb_auth_failures c) + Suc n) \<and>
    ssh_conv (snd (ssh_step Hc_authenticate c')) Hc_authenticate = Ans_done (Inr ()) \<and>
    sb_state (fst (ssh_step Hc_authenticate c')) = sb_authenticated"
proof -
  let ?f = "min (unat (sb_auth_failures c) + n) 255"
  have c': "c' = c\<lparr>sb_auth_failures := word_of_nat ?f\<rparr>" by (simp add: c'_def ssh_failures_run)
  have u: "unat (word_of_nat ?f :: u8) = ?f" by (simp add: unat_of_nat take_bit_nat_eq_self min_def)
  have "3 \<le> (if (word_of_nat ?f :: u8) < 255 then word_of_nat ?f + 1 else word_of_nat ?f :: u8) \<longleftrightarrow> 3 \<le> Suc ?f"
    using u by (auto simp: word_less_nat_alt word_le_nat_alt unat_word_ariths)
  then show ?thesis
    using assms(1,2) u by (auto simp: c' op_simps Let_def from_status_def split: if_splits)
qed

theorem ssh_lockout_advisory_witness:
  "sb_state (fst (ssh_step Hc_authenticate (fst (session_run ssh_session_step
     ((ssh_fresh (1, 0) (ssh_sessions ! 0))\<lparr>sb_state := sb_key_exchanged\<rparr>)
     (replicate 9 Hc_record_auth_failure))))) = sb_authenticated"
  using ssh_lockout_advisory [of "(ssh_fresh (1, 0) (ssh_sessions ! 0))\<lparr>sb_state := sb_key_exchanged\<rparr>" 9]
  by simp

section \<open>A state without a way on\<close>

lemma ssh_stuck_reached:
  fixes a :: "u8 \<times> u8" and t :: ChannelType
  defines "ops \<equiv> [Hc_complete_kex, Hc_authenticate, Hc_open_channel t, Hc_close_channel 0]"
  shows "\<exists>c1. session_run ssh_session_step (ssh_fresh a c0) ops = (c1, ops) \<and>
    sb_state c1 = sb_channel_open \<and> length (sb_channels c1) = 10 \<and>
    (\<forall>ch \<in> set (sb_channels c1). \<not> cr_active ch)"
proof -
  have "\<not> 3 < ChannelType_to_tag t" using ssh_tags_valid(3) [of t] by (simp add: not_less)
  moreover have "\<not> cr_active ch" if "ch \<in> set ((replicate 10 default_channel)[0 := c, 0 := d])" "\<not> cr_active d"
    for c d ch :: ChannelRecord
    using that by (auto simp: numeral_eq_Suc default_channel_def)
  ultimately show ?thesis
    by (auto simp: ops_def session_run_def ssh_session_step_def ssh_accepted_def op_simps Let_def
        ssh_free_channels MAX_CHANNELS_def)
qed

text \<open>
  Closing the only channel before it is confirmed leaves an SSH session that can only be
  disconnected: in ChannelOpen without an active channel, any sequence of operations without a
  disconnect keeps that state, and opening, confirming and closing channels and re-keying are all
  refused. A session gets there from its creation in four accepted operations.
\<close>

theorem ssh_channel_open_stuck:
  assumes "sb_state c = sb_channel_open" "\<forall>ch \<in> set (sb_channels c). \<not> cr_active ch"
    and "length (sb_channels c) = 10" "\<forall>x \<in> set ops. \<forall>r. x \<noteq> Hc_disconnect r"
  defines "c' \<equiv> fst (session_run ssh_session_step c ops)"
  shows "sb_state c' = sb_channel_open \<and>
    \<not> ssh_accepted (Hc_open_channel t) c' \<and> \<not> ssh_accepted (Hc_confirm_channel n) c' \<and>
    \<not> ssh_accepted (Hc_close_channel n) c' \<and> \<not> ssh_accepted Hc_rekey c' \<and>
    (\<exists>c1. session_run ssh_session_step (ssh_fresh a c0)
         [Hc_complete_kex, Hc_authenticate, Hc_open_channel t, Hc_close_channel 0] =
         (c1, [Hc_complete_kex, Hc_authenticate, Hc_open_channel t, Hc_close_channel 0]) \<and>
       sb_state c1 = sb_channel_open \<and> length (sb_channels c1) = 10 \<and>
       (\<forall>ch \<in> set (sb_channels c1). \<not> cr_active ch))"
proof -
  define stuck where "stuck d \<longleftrightarrow> sb_state d = sb_channel_open \<and> length (sb_channels d) = 10 \<and>
      (\<forall>ch \<in> set (sb_channels d). \<not> cr_active ch)" for d :: SshSession
  have inactive: "stuck d \<Longrightarrow> k < 10 \<Longrightarrow> \<not> cr_active (sb_channels d ! k)" for d k
    by (simp add: stuck_def)
  have step: "stuck (fst (ssh_step x d))" if "stuck d" "\<forall>r. x \<noteq> Hc_disconnect r" for x d
    using that inactive [OF that(1)]
    by (cases x) (auto simp: op_simps Let_def stuck_def MAX_CHANNELS_def)
  have "stuck c'"
    using assms(4) unfolding c'_def
  proof (induction ops rule: rev_induct)
    case Nil
    then show ?case using assms by (simp add: stuck_def)
  next
    case (snoc x ops)
    then show ?case using step by (simp add: ssh_run_snoc)
  qed
  moreover from this have "\<not> ssh_accepted (Hc_open_channel t) c'" "\<not> ssh_accepted (Hc_confirm_channel n) c'"
    "\<not> ssh_accepted (Hc_close_channel n) c'" "\<not> ssh_accepted Hc_rekey c'"
    using inactive by (auto simp: ssh_accepted_def op_simps Let_def stuck_def MAX_CHANNELS_def)
  ultimately show ?thesis using ssh_stuck_reached [of a c0 t] by (simp add: stuck_def)
qed

theorem ssh_channel_open_stuck_witness:
  "\<not> ssh_accepted (Hc_open_channel ChannelType.Session) (fst (session_run ssh_session_step
     ((ssh_fresh (1, 0) (ssh_sessions ! 0))\<lparr>sb_state := sb_channel_open\<rparr>)
     [Hc_rekey, Hc_authenticate, Hc_open_channel ChannelType.X11]))"
  using ssh_channel_open_stuck [of "(ssh_fresh (1, 0) (ssh_sessions ! 0))\<lparr>sb_state := sb_channel_open\<rparr>"
      "[Hc_rekey, Hc_authenticate, Hc_open_channel ChannelType.X11]" "ChannelType.Session"]
  by (simp add: default_channel_def)

section \<open>The descriptions of the state machine\<close>

text \<open>
  In a session that satisfies the invariant, an operation that changes the bastion state takes
  an edge of the engine's table; the Rust method BastionState::can_transition_to agrees with the
  table on every pair except two: Rust allows Closed to Closed and lacks Active to Active.
\<close>

theorem ssh_machines_agree:
  "(ssh_good c \<and> sb_state (fst (ssh_step x c)) \<noteq> sb_state c \<longrightarrow>
      ssh_bastion_can_transition (bastion_tag (sb_state c)) (bastion_tag (sb_state (fst (ssh_step x c)))) = 1) \<and>
   (BastionState_can_transition_to s t \<noteq> ffi_ssh_can_transition s t \<longleftrightarrow>
      (s, t) \<in> {(BastionState.Closed, BastionState.Closed), (BastionState.Active, BastionState.Active)})"
proof
  show "ssh_good c \<and> sb_state (fst (ssh_step x c)) \<noteq> sb_state c \<longrightarrow>
      ssh_bastion_can_transition (bastion_tag (sb_state c)) (bastion_tag (sb_state (fst (ssh_step x c)))) = 1"
    by (cases x; cases "sb_state c")
       (auto simp: op_simps Let_def ssh_bastion_can_transition_def split: option.splits)
qed (cases s; cases t; simp add: BastionState_can_transition_to_def ffi_ssh_can_transition_def
      ssh_bastion_can_transition_def)

theorem ssh_machines_agree_witness:
  "ssh_bastion_can_transition 0 1 = 1"
  using ssh_machines_agree [of "ssh_fresh (1, 0) (ssh_sessions ! 0)" Hc_complete_kex]
    ssh_good_fresh [of "(1, 0)" "ssh_sessions ! 0"]
  by (simp add: op_simps Let_def)

end
