(* ===== verification/Mqtt_Engine.thy ===== *)
theory Mqtt_Engine
  imports Slot_Pool Tag_Codec
begin

text \<open>
  The MQTT broker engine \<open>protocols/proven-mqtt/ffi/zig/src/mqtt.zig\<close>: sessions with their
  subscriptions and in-flight deliveries, the store of retained messages all sessions share, topic
  matching, and the body of every exported operation. A fixed buffer with its length field is
  the list of the bytes in use, at most 256 for a topic and 4096 for a payload. One mutex guards all
  the static variables, so every call is one step.
\<close>

section \<open>State\<close>

datatype mqtt_qos = at_most_once | at_least_once | exactly_once

primrec mqtt_qos_tag :: "mqtt_qos \<Rightarrow> u8" where
  "mqtt_qos_tag at_most_once = 0"
| "mqtt_qos_tag at_least_once = 1"
| "mqtt_qos_tag exactly_once = 2"

text \<open>\<open>@enumFromInt\<close> on the tags the guard \<open>qos > 2\<close> lets through.\<close>

definition mqtt_qos_of :: "u8 \<Rightarrow> mqtt_qos" where
  "mqtt_qos_of t = (if t = 0 then at_most_once else if t = 1 then at_least_once else exactly_once)"

datatype broker_state = mq_idle | mq_connected | mq_subscribed | mq_publishing | mq_disconnecting

primrec broker_state_tag :: "broker_state \<Rightarrow> u8" where
  "broker_state_tag mq_idle = 0"
| "broker_state_tag mq_connected = 1"
| "broker_state_tag mq_subscribed = 2"
| "broker_state_tag mq_publishing = 3"
| "broker_state_tag mq_disconnecting = 4"

datatype delivery_state =
    qd_idle | awaiting_puback | awaiting_pubrec | awaiting_pubrel | awaiting_pubcomp | qd_complete | qd_failed

primrec delivery_state_tag :: "delivery_state \<Rightarrow> u8" where
  "delivery_state_tag qd_idle = 0"
| "delivery_state_tag awaiting_puback = 1"
| "delivery_state_tag awaiting_pubrec = 2"
| "delivery_state_tag awaiting_pubrel = 3"
| "delivery_state_tag awaiting_pubcomp = 4"
| "delivery_state_tag qd_complete = 5"
| "delivery_state_tag qd_failed = 6"

record Subscription =
  su_filter :: "u8 list"
  su_qos :: mqtt_qos
  su_active :: bool

record QoSTracker =
  tr_packet_id :: u16
  tr_state :: delivery_state
  tr_qos_level :: mqtt_qos
  tr_active :: bool

record RetainedMessage =
  rm_topic :: "u8 list"
  rm_payload :: "u8 list"
  rm_qos :: mqtt_qos
  rm_active :: bool

record MqttSession =
  mq_state :: broker_state
  mq_version :: u8
  mq_clean_session :: bool
  mq_keep_alive :: u16
  mq_subscriptions :: "Subscription list"
  mq_sub_count :: u32
  mq_inflight :: "QoSTracker list"
  mq_active :: bool
  mq_had_subs :: bool

text \<open>The static variables of the library.\<close>

record mqtt_broker =
  mb_sessions :: "MqttSession list"
  mb_retained :: "RetainedMessage list"

definition MAX_SUBSCRIPTIONS :: nat where "MAX_SUBSCRIPTIONS = 256"
definition MAX_INFLIGHT :: nat where "MAX_INFLIGHT = 64"
definition MAX_RETAINED :: nat where "MAX_RETAINED = 128"
definition MAX_TOPIC_LEN :: nat where "MAX_TOPIC_LEN = 256"
definition MAX_PAYLOAD_LEN :: nat where "MAX_PAYLOAD_LEN = 4096"

definition empty_sub :: Subscription where
  "empty_sub = \<lparr>su_filter = [], su_qos = at_most_once, su_active = False\<rparr>"

definition empty_tracker :: QoSTracker where
  "empty_tracker = \<lparr>tr_packet_id = 0, tr_state = qd_idle, tr_qos_level = at_most_once, tr_active = False\<rparr>"

definition empty_session :: MqttSession where
  "empty_session =
     \<lparr>mq_state = mq_idle, mq_version = 0, mq_clean_session = True, mq_keep_alive = 0,
      mq_subscriptions = replicate MAX_SUBSCRIPTIONS empty_sub, mq_sub_count = 0,
      mq_inflight = replicate MAX_INFLIGHT empty_tracker, mq_active = False, mq_had_subs = False\<rparr>"

definition empty_retained :: RetainedMessage where
  "empty_retained = \<lparr>rm_topic = [], rm_payload = [], rm_qos = at_most_once, rm_active = False\<rparr>"

definition mqtt_sessions :: "MqttSession list" where
  "mqtt_sessions = replicate 64 empty_session"

definition mqtt_broker_init :: mqtt_broker where
  "mqtt_broker_init = \<lparr>mb_sessions = mqtt_sessions, mb_retained = replicate MAX_RETAINED empty_retained\<rparr>"

section \<open>Helpers\<close>

text \<open>The index of the first element with a property, as the search loops return it.\<close>

definition first_index :: "('x \<Rightarrow> bool) \<Rightarrow> 'x list \<Rightarrow> nat option" where
  "first_index P xs = first_free (\<lambda>x. \<not> P x) xs"

definition findTracker :: "u16 \<Rightarrow> MqttSession \<Rightarrow> nat option" where
  "findTracker packet_id s = first_index (\<lambda>t. tr_active t \<and> tr_packet_id t = packet_id) (mq_inflight s)"

definition allocTracker :: "u16 \<Rightarrow> mqtt_qos \<Rightarrow> MqttSession \<Rightarrow> (nat \<times> MqttSession) option" where
  "allocTracker packet_id qos_level s =
     (case first_free tr_active (mq_inflight s) of
        None \<Rightarrow> None
      | Some i \<Rightarrow> Some (i, s\<lparr>mq_inflight := (mq_inflight s)[i :=
          \<lparr>tr_packet_id = packet_id, tr_state = qd_idle, tr_qos_level = qos_level, tr_active = True\<rparr>]\<rparr>))"

definition countInflight :: "MqttSession \<Rightarrow> u32" where
  "countInflight s =
     foldl (\<lambda>count t. if tr_active t \<and> tr_state t \<noteq> qd_complete \<and> tr_state t \<noteq> qd_failed then count + 1 else count)
       0 (mq_inflight s)"

definition canPublishState :: "broker_state \<Rightarrow> bool" where
  "canPublishState state = (state = mq_connected \<or> state = mq_subscribed)"

definition canSubscribeState :: "broker_state \<Rightarrow> bool" where
  "canSubscribeState state = (state = mq_connected \<or> state = mq_subscribed)"

abbreviation HASH :: u8 where "HASH \<equiv> 35"
abbreviation PLUS :: u8 where "PLUS \<equiv> 43"
abbreviation LEVEL :: u8 where "LEVEL \<equiv> 47"

text \<open>
  The loop of \<open>matchTopic\<close> on the rest of the topic (from \<open>ti\<close>) and of the filter (from \<open>fi\<close>): the
  inner loop of a plus skips to the next separator, and the final test is \<open>ti == topic.len\<close>.
\<close>

fun matchTopic :: "u8 list \<Rightarrow> u8 list \<Rightarrow> bool" where
  "matchTopic topic [] = (topic = [])"
| "matchTopic topic (f # fs) =
     (if f = HASH then True
      else if f = PLUS then
        (if topic = [] then False else matchTopic (dropWhile (\<lambda>c. c \<noteq> LEVEL) topic) fs)
      else (case topic of [] \<Rightarrow> False | c # cs \<Rightarrow> if c \<noteq> f then False else matchTopic cs fs))"

section \<open>Lifecycle and queries\<close>

definition mqtt_abi_version :: u32 where
  "mqtt_abi_version = 1"

definition mqtt_fresh :: "u8 \<times> u8 \<times> u16 \<Rightarrow> MqttSession \<Rightarrow> MqttSession" where
  "mqtt_fresh a s = (case a of (version, clean_session, keep_alive) \<Rightarrow>
     empty_session\<lparr>mq_version := version, mq_clean_session := (clean_session \<noteq> 0),
       mq_keep_alive := keep_alive, mq_state := mq_connected, mq_active := True\<rparr>)"

definition mqtt_create :: "mqtt_broker \<Rightarrow> u8 \<Rightarrow> u8 \<Rightarrow> u16 \<Rightarrow> mqtt_broker \<times> c_int" where
  "mqtt_create b version clean_session keep_alive =
     (if version > 1 then (b, - 1)
      else let (ss, r) = pool_create mq_active (mqtt_fresh (version, clean_session, keep_alive)) (mb_sessions b)
        in (b\<lparr>mb_sessions := ss\<rparr>, r))"

definition mqtt_off :: "MqttSession \<Rightarrow> MqttSession" where
  "mqtt_off s = empty_session"

definition mqtt_destroy :: "mqtt_broker \<Rightarrow> c_int \<Rightarrow> mqtt_broker" where
  "mqtt_destroy b slot = b\<lparr>mb_sessions := pool_destroy mqtt_off (mb_sessions b) slot\<rparr>"

definition mqtt_state :: "mqtt_broker \<Rightarrow> c_int \<Rightarrow> u8" where
  "mqtt_state b slot = query_slot mq_active (mb_sessions b) slot 0 (\<lambda>s. broker_state_tag (mq_state s))"

definition mqtt_version :: "mqtt_broker \<Rightarrow> c_int \<Rightarrow> u8" where
  "mqtt_version b slot = query_slot mq_active (mb_sessions b) slot 255 mq_version"

definition mqtt_can_publish :: "mqtt_broker \<Rightarrow> c_int \<Rightarrow> u8" where
  "mqtt_can_publish b slot =
     query_slot mq_active (mb_sessions b) slot 0 (\<lambda>s. if canPublishState (mq_state s) then 1 else 0)"

definition mqtt_can_subscribe :: "mqtt_broker \<Rightarrow> c_int \<Rightarrow> u8" where
  "mqtt_can_subscribe b slot =
     query_slot mq_active (mb_sessions b) slot 0 (\<lambda>s. if canSubscribeState (mq_state s) then 1 else 0)"

definition mqtt_subscription_count :: "mqtt_broker \<Rightarrow> c_int \<Rightarrow> u32" where
  "mqtt_subscription_count b slot = query_slot mq_active (mb_sessions b) slot 0 mq_sub_count"

definition mqtt_qos_state :: "mqtt_broker \<Rightarrow> c_int \<Rightarrow> u16 \<Rightarrow> u8" where
  "mqtt_qos_state b slot packet_id =
     query_slot mq_active (mb_sessions b) slot 0
       (\<lambda>s. case findTracker packet_id s of
              None \<Rightarrow> 0
            | Some ti \<Rightarrow> delivery_state_tag (tr_state (mq_inflight s ! ti)))"

definition mqtt_retained_count :: "mqtt_broker \<Rightarrow> u32" where
  "mqtt_retained_count b = foldl (\<lambda>count r. if rm_active r then count + 1 else count) 0 (mb_retained b)"

section \<open>Subscriptions\<close>

definition mqtt_subscribe_on :: "u8 list \<Rightarrow> u8 \<Rightarrow> MqttSession \<Rightarrow> MqttSession \<times> u8" where
  [op_simps]: "mqtt_subscribe_on topic qos s =
     (if \<not> canSubscribeState (mq_state s) then (s, 1)
      else if qos > 2 then (s, 1)
      else if length topic = 0 \<or> length topic > MAX_TOPIC_LEN then (s, 1)
      else case first_free su_active (mq_subscriptions s) of
          Some i \<Rightarrow>
            (s\<lparr>mq_subscriptions := (mq_subscriptions s)[i :=
                 \<lparr>su_filter = topic, su_qos = mqtt_qos_of qos, su_active = True\<rparr>],
               mq_sub_count := mq_sub_count s + 1, mq_state := mq_subscribed\<rparr>, 0)
        | None \<Rightarrow> (s, 1))"

definition mqtt_unsubscribe_on :: "u8 list \<Rightarrow> MqttSession \<Rightarrow> MqttSession \<times> u8" where
  [op_simps]: "mqtt_unsubscribe_on topic s =
     (if mq_state s \<noteq> mq_subscribed \<and> mq_state s \<noteq> mq_connected then (s, 1)
      else if length topic = 0 \<or> length topic > MAX_TOPIC_LEN then (s, 1)
      else case first_index (\<lambda>sub. su_active sub \<and> su_filter sub = topic) (mq_subscriptions s) of
          Some i \<Rightarrow>
            let s' = s\<lparr>mq_subscriptions := (mq_subscriptions s)[i :=
                         (mq_subscriptions s ! i)\<lparr>su_active := False, su_filter := []\<rparr>],
                       mq_sub_count := mq_sub_count s - 1\<rparr>
            in (if mq_sub_count s' = 0 \<and> mq_state s' = mq_subscribed
                then s'\<lparr>mq_state := mq_connected\<rparr> else s', 0)
        | None \<Rightarrow> (s, 1))"

section \<open>Publishing\<close>

text \<open>The search of \<open>storeRetained\<close>: the entry of the topic, and the first free slot before it.\<close>

fun retained_scan :: "u8 list \<Rightarrow> nat \<Rightarrow> nat option \<Rightarrow> RetainedMessage list \<Rightarrow> nat option \<times> nat option" where
  "retained_scan topic i free_slot [] = (None, free_slot)"
| "retained_scan topic i free_slot (r # rs) =
     (if rm_active r \<and> rm_topic r = topic then (Some i, free_slot)
      else retained_scan topic (i + 1)
        (if \<not> rm_active r \<and> free_slot = None then Some i else free_slot) rs)"

definition storeRetained ::
  "u8 list \<Rightarrow> u8 list \<Rightarrow> mqtt_qos \<Rightarrow> RetainedMessage list \<Rightarrow> RetainedMessage list" where
  "storeRetained topic payload qos_level retained =
     (case retained_scan topic 0 None retained of
        (Some i, _) \<Rightarrow>
          (if length payload = 0 then
             retained[i := (retained ! i)\<lparr>rm_active := False, rm_topic := [], rm_payload := []\<rparr>]
           else retained[i := (retained ! i)\<lparr>rm_payload := payload, rm_qos := qos_level\<rparr>])
      | (None, free_slot) \<Rightarrow>
          (if 0 < length payload then
             (case free_slot of
                Some fi \<Rightarrow> retained[fi :=
                  \<lparr>rm_topic = topic, rm_payload = payload, rm_qos = qos_level, rm_active = True\<rparr>]
              | None \<Rightarrow> retained)
           else retained))"

text \<open>The body of \<open>mqtt_publish\<close>, on the session and the retained store.\<close>

definition mqtt_publish_on ::
  "u8 list \<Rightarrow> u8 list \<Rightarrow> u8 \<Rightarrow> u8 \<Rightarrow> u16 \<Rightarrow> MqttSession \<times> RetainedMessage list \<Rightarrow>
   (MqttSession \<times> RetainedMessage list) \<times> u8" where
  "mqtt_publish_on topic payload qos retain packet_id sr =
     (let (s, retained) = sr in
      if \<not> canPublishState (mq_state s) then ((s, retained), 1)
      else if qos > 2 then ((s, retained), 1)
      else if length topic = 0 \<or> length topic > MAX_TOPIC_LEN then ((s, retained), 1)
      else
        let qos_level = mqtt_qos_of qos;
            retained = (if retain \<noteq> 0 \<and> length payload \<le> MAX_PAYLOAD_LEN
                        then storeRetained topic payload qos_level retained else retained)
        in if qos_level = at_most_once then ((s, retained), 0)
           else case allocTracker packet_id qos_level s of
               None \<Rightarrow> ((s, retained), 1)
             | Some (ti, s) \<Rightarrow>
                 let st = (if qos_level = at_least_once then awaiting_puback else awaiting_pubrec);
                     s = s\<lparr>mq_inflight := (mq_inflight s)[ti := (mq_inflight s ! ti)\<lparr>tr_state := st\<rparr>]\<rparr>;
                     s = s\<lparr>mq_had_subs := (mq_state s = mq_subscribed)\<rparr>
                 in ((s\<lparr>mq_state := mq_publishing\<rparr>, retained), 0))"

section \<open>Acknowledgements\<close>

definition maybeExitPublishing :: "MqttSession \<Rightarrow> MqttSession" where
  "maybeExitPublishing s =
     (if mq_state s \<noteq> mq_publishing then s
      else if countInflight s = 0 then
        (if mq_had_subs s then s\<lparr>mq_state := mq_subscribed\<rparr> else s\<lparr>mq_state := mq_connected\<rparr>)
      else s)"

definition set_delivery :: "nat \<Rightarrow> delivery_state \<Rightarrow> MqttSession \<Rightarrow> MqttSession" where
  "set_delivery ti st s = s\<lparr>mq_inflight := (mq_inflight s)[ti := (mq_inflight s ! ti)\<lparr>tr_state := st\<rparr>]\<rparr>"

definition mqtt_puback_on :: "u16 \<Rightarrow> MqttSession \<Rightarrow> MqttSession \<times> u8" where
  [op_simps]: "mqtt_puback_on packet_id s =
     (case findTracker packet_id s of
        None \<Rightarrow> (s, 1)
      | Some ti \<Rightarrow>
          if tr_state (mq_inflight s ! ti) \<noteq> awaiting_puback then (s, 1)
          else if tr_qos_level (mq_inflight s ! ti) \<noteq> at_least_once then (s, 1)
          else (maybeExitPublishing (set_delivery ti qd_complete s), 0))"

definition mqtt_pubrec_on :: "u16 \<Rightarrow> MqttSession \<Rightarrow> MqttSession \<times> u8" where
  [op_simps]: "mqtt_pubrec_on packet_id s =
     (case findTracker packet_id s of
        None \<Rightarrow> (s, 1)
      | Some ti \<Rightarrow>
          if tr_state (mq_inflight s ! ti) \<noteq> awaiting_pubrec then (s, 1)
          else if tr_qos_level (mq_inflight s ! ti) \<noteq> exactly_once then (s, 1)
          else (set_delivery ti awaiting_pubrel s, 0))"

definition mqtt_pubrel_on :: "u16 \<Rightarrow> MqttSession \<Rightarrow> MqttSession \<times> u8" where
  [op_simps]: "mqtt_pubrel_on packet_id s =
     (case findTracker packet_id s of
        None \<Rightarrow> (s, 1)
      | Some ti \<Rightarrow>
          if tr_state (mq_inflight s ! ti) \<noteq> awaiting_pubrel then (s, 1)
          else if tr_qos_level (mq_inflight s ! ti) \<noteq> exactly_once then (s, 1)
          else (set_delivery ti awaiting_pubcomp s, 0))"

definition mqtt_pubcomp_on :: "u16 \<Rightarrow> MqttSession \<Rightarrow> MqttSession \<times> u8" where
  [op_simps]: "mqtt_pubcomp_on packet_id s =
     (case findTracker packet_id s of
        None \<Rightarrow> (s, 1)
      | Some ti \<Rightarrow>
          if tr_state (mq_inflight s ! ti) \<noteq> awaiting_pubcomp then (s, 1)
          else if tr_qos_level (mq_inflight s ! ti) \<noteq> exactly_once then (s, 1)
          else (maybeExitPublishing (set_delivery ti qd_complete s), 0))"

section \<open>Disconnect and cleanup\<close>

definition mqtt_disconnect_on :: "MqttSession \<Rightarrow> MqttSession \<times> u8" where
  [op_simps]: "mqtt_disconnect_on s =
     (let state = mq_state s in
      if state = mq_connected \<or> state = mq_subscribed \<or> state = mq_publishing
      then (s\<lparr>mq_state := mq_disconnecting\<rparr>, 0) else (s, 1))"

definition mqtt_cleanup_on :: "MqttSession \<Rightarrow> MqttSession \<times> u8" where
  [op_simps]: "mqtt_cleanup_on s =
     (if mq_state s \<noteq> mq_disconnecting then (s, 1)
      else
        let s' = s\<lparr>mq_state := mq_idle\<rparr> in
        (if mq_clean_session s' then
           s'\<lparr>mq_subscriptions := replicate MAX_SUBSCRIPTIONS empty_sub, mq_sub_count := 0,
              mq_inflight := replicate MAX_INFLIGHT empty_tracker\<rparr>
         else s', 0))"

section \<open>The exported operations\<close>

text \<open>An operation on a session leaves the retained store alone.\<close>

definition mqtt_on_session ::
  "mqtt_broker \<Rightarrow> c_int \<Rightarrow> (MqttSession \<Rightarrow> MqttSession \<times> u8) \<Rightarrow> mqtt_broker \<times> u8" where
  "mqtt_on_session b slot f =
     (let (ss, r) = on_slot mq_active (mb_sessions b) slot 1 f in (b\<lparr>mb_sessions := ss\<rparr>, r))"

definition mqtt_publish ::
  "mqtt_broker \<Rightarrow> c_int \<Rightarrow> u8 list \<Rightarrow> u8 list \<Rightarrow> u8 \<Rightarrow> u8 \<Rightarrow> u16 \<Rightarrow> mqtt_broker \<times> u8" where
  "mqtt_publish b slot topic payload qos retain packet_id =
     (case valid_slot mq_active (mb_sessions b) slot of
        None \<Rightarrow> (b, 1)
      | Some i \<Rightarrow>
          let ((s, retained), r) =
                mqtt_publish_on topic payload qos retain packet_id (mb_sessions b ! i, mb_retained b)
          in (\<lparr>mb_sessions = (mb_sessions b)[i := s], mb_retained = retained\<rparr>, r))"

definition mqtt_subscribe :: "mqtt_broker \<Rightarrow> c_int \<Rightarrow> u8 list \<Rightarrow> u8 \<Rightarrow> mqtt_broker \<times> u8" where
  "mqtt_subscribe b slot topic qos = mqtt_on_session b slot (mqtt_subscribe_on topic qos)"

definition mqtt_unsubscribe :: "mqtt_broker \<Rightarrow> c_int \<Rightarrow> u8 list \<Rightarrow> mqtt_broker \<times> u8" where
  "mqtt_unsubscribe b slot topic = mqtt_on_session b slot (mqtt_unsubscribe_on topic)"

definition mqtt_puback :: "mqtt_broker \<Rightarrow> c_int \<Rightarrow> u16 \<Rightarrow> mqtt_broker \<times> u8" where
  "mqtt_puback b slot packet_id = mqtt_on_session b slot (mqtt_puback_on packet_id)"

definition mqtt_pubrec :: "mqtt_broker \<Rightarrow> c_int \<Rightarrow> u16 \<Rightarrow> mqtt_broker \<times> u8" where
  "mqtt_pubrec b slot packet_id = mqtt_on_session b slot (mqtt_pubrec_on packet_id)"

definition mqtt_pubrel :: "mqtt_broker \<Rightarrow> c_int \<Rightarrow> u16 \<Rightarrow> mqtt_broker \<times> u8" where
  "mqtt_pubrel b slot packet_id = mqtt_on_session b slot (mqtt_pubrel_on packet_id)"

definition mqtt_pubcomp :: "mqtt_broker \<Rightarrow> c_int \<Rightarrow> u16 \<Rightarrow> mqtt_broker \<times> u8" where
  "mqtt_pubcomp b slot packet_id = mqtt_on_session b slot (mqtt_pubcomp_on packet_id)"

definition mqtt_disconnect :: "mqtt_broker \<Rightarrow> c_int \<Rightarrow> mqtt_broker \<times> u8" where
  "mqtt_disconnect b slot = mqtt_on_session b slot mqtt_disconnect_on"

definition mqtt_cleanup :: "mqtt_broker \<Rightarrow> c_int \<Rightarrow> mqtt_broker \<times> u8" where
  "mqtt_cleanup b slot = mqtt_on_session b slot mqtt_cleanup_on"

section \<open>Stateless queries\<close>

definition mqtt_can_transition :: "u8 \<Rightarrow> u8 \<Rightarrow> u8" where
  "mqtt_can_transition from to =
     (if from = 0 \<and> to = 1 then 1
      else if from = 1 \<and> to = 2 then 1
      else if from = 2 \<and> to = 2 then 1
      else if from = 2 \<and> to = 1 then 1
      else if from = 1 \<and> to = 3 then 1
      else if from = 2 \<and> to = 3 then 1
      else if from = 3 \<and> to = 1 then 1
      else if from = 3 \<and> to = 2 then 1
      else if from = 1 \<and> to = 4 then 1
      else if from = 2 \<and> to = 4 then 1
      else if from = 3 \<and> to = 4 then 1
      else if from = 4 \<and> to = 0 then 1
      else 0)"

definition mqtt_qos_can_transition :: "u8 \<Rightarrow> u8 \<Rightarrow> u8 \<Rightarrow> u8" where
  "mqtt_qos_can_transition qos_level from to =
     (if qos_level = 0 then (if from = 0 \<and> to = 5 then 1 else 0)
      else if qos_level = 1 then
        (if from = 0 \<and> to = 1 then 1
         else if from = 1 \<and> to = 5 then 1
         else if from = 1 \<and> to = 6 then 1
         else 0)
      else if qos_level = 2 then
        (if from = 0 \<and> to = 2 then 1
         else if from = 2 \<and> to = 3 then 1
         else if from = 3 \<and> to = 4 then 1
         else if from = 4 \<and> to = 5 then 1
         else if from = 2 \<and> to = 6 then 1
         else if from = 3 \<and> to = 6 then 1
         else if from = 4 \<and> to = 6 then 1
         else 0)
      else 0)"

text \<open>The arguments in the order of the Zig declaration: the topic first.\<close>

definition mqtt_topic_matches :: "u8 list \<Rightarrow> u8 list \<Rightarrow> u8" where
  "mqtt_topic_matches topic filter_bytes =
     (if length topic = 0 \<or> length filter_bytes = 0 then 0
      else if length topic > MAX_TOPIC_LEN \<or> length filter_bytes > MAX_TOPIC_LEN then 0
      else if matchTopic topic filter_bytes then 1 else 0)"

end
