(* ===== verification/Mqtt_Types.thy ===== *)
theory Mqtt_Types
  imports Tag_Codec
begin

text \<open>
  The pure types of \<open>bindings/rust/src/mqtt.rs\<close>: quality of service levels (ordered, as the code derives),
  SUBACK codes, packet types and directions; and the session state enum \<open>ffi_mqtt.rs\<close> declares.
\<close>

section \<open>\<open>mqtt::QoS\<close>\<close>

datatype (plugins only: code) QoS =
    AtMostOnce
  | AtLeastOnce
  | ExactlyOnce

text \<open>\<open>derive(PartialOrd, Ord)\<close>: the order of the declaration.\<close>

primrec QoS_rank :: "QoS \<Rightarrow> nat" where
  "QoS_rank QoS.AtMostOnce = 0"
| "QoS_rank QoS.AtLeastOnce = 1"
| "QoS_rank QoS.ExactlyOnce = 2"

instantiation QoS :: linorder
begin

definition less_eq_QoS :: "QoS \<Rightarrow> QoS \<Rightarrow> bool" where
  "less_eq_QoS x y \<longleftrightarrow> QoS_rank x \<le> QoS_rank y"

definition less_QoS :: "QoS \<Rightarrow> QoS \<Rightarrow> bool" where
  "less_QoS x y \<longleftrightarrow> QoS_rank x < QoS_rank y"

instance
proof
  fix x y z :: QoS
  show "(x < y) = (x \<le> y \<and> \<not> y \<le> x)" "x \<le> x" "x \<le> y \<or> y \<le> x"
    by (auto simp: less_eq_QoS_def less_QoS_def)
  show "x \<le> y \<Longrightarrow> y \<le> z \<Longrightarrow> x \<le> z" by (simp add: less_eq_QoS_def)
  show "x \<le> y \<Longrightarrow> y \<le> x \<Longrightarrow> x = y" by (cases x; cases y; simp add: less_eq_QoS_def)
qed

end

definition QoS_from_code :: "u8 \<Rightarrow> QoS option" where
  "QoS_from_code code =
     (if code = 0 then Some QoS.AtMostOnce
      else if code = 1 then Some QoS.AtLeastOnce
      else if code = 2 then Some QoS.ExactlyOnce
      else option.None)"

primrec QoS_to_code :: "QoS \<Rightarrow> u8" where
  "QoS_to_code QoS.AtMostOnce = 0"
| "QoS_to_code QoS.AtLeastOnce = 1"
| "QoS_to_code QoS.ExactlyOnce = 2"

definition QoS_requires_ack :: "QoS \<Rightarrow> bool" where
  "QoS_requires_ack self = (\<not>
     (case self of
      QoS.AtMostOnce \<Rightarrow> True
    | _ \<Rightarrow> False))"

definition QoS_ack_packet_count :: "QoS \<Rightarrow> u8" where
  "QoS_ack_packet_count self =
     (case self of
      QoS.AtMostOnce \<Rightarrow> 0
    | QoS.AtLeastOnce \<Rightarrow> 1
    | QoS.ExactlyOnce \<Rightarrow> 3)"

definition QoS_effective :: "QoS \<Rightarrow> QoS \<Rightarrow> QoS" where
  "QoS_effective requested granted = min requested granted"

definition QoS_delivery :: "QoS \<Rightarrow> QoS \<Rightarrow> QoS" where
  "QoS_delivery message_qos subscription_max = min message_qos subscription_max"

definition QoS_fmt :: "QoS \<Rightarrow> string" where
  "QoS_fmt self =
     (case self of
      QoS.AtMostOnce \<Rightarrow> ''QoS 0 (At Most Once)''
    | QoS.AtLeastOnce \<Rightarrow> ''QoS 1 (At Least Once)''
    | QoS.ExactlyOnce \<Rightarrow> ''QoS 2 (Exactly Once)'')"

section \<open>\<open>mqtt::SubAckCode\<close>\<close>

datatype (plugins only: code) SubAckCode =
    GrantedQoS0
  | GrantedQoS1
  | GrantedQoS2
  | Failure

definition SubAckCode_from_byte :: "u8 \<Rightarrow> SubAckCode option" where
  "SubAckCode_from_byte byte =
     (if byte = 0 then Some SubAckCode.GrantedQoS0
      else if byte = 1 then Some SubAckCode.GrantedQoS1
      else if byte = 2 then Some SubAckCode.GrantedQoS2
      else if byte = 128 then Some SubAckCode.Failure
      else option.None)"

primrec SubAckCode_to_byte :: "SubAckCode \<Rightarrow> u8" where
  "SubAckCode_to_byte SubAckCode.GrantedQoS0 = 0"
| "SubAckCode_to_byte SubAckCode.GrantedQoS1 = 1"
| "SubAckCode_to_byte SubAckCode.GrantedQoS2 = 2"
| "SubAckCode_to_byte SubAckCode.Failure = 128"

definition SubAckCode_to_qos :: "SubAckCode \<Rightarrow> QoS option" where
  "SubAckCode_to_qos self =
     (case self of
      SubAckCode.GrantedQoS0 \<Rightarrow> Some QoS.AtMostOnce
    | SubAckCode.GrantedQoS1 \<Rightarrow> Some QoS.AtLeastOnce
    | SubAckCode.GrantedQoS2 \<Rightarrow> Some QoS.ExactlyOnce
    | SubAckCode.Failure \<Rightarrow> option.None)"

definition SubAckCode_fmt :: "SubAckCode \<Rightarrow> string" where
  "SubAckCode_fmt self =
     (case self of
      SubAckCode.GrantedQoS0 \<Rightarrow> ''Granted QoS 0''
    | SubAckCode.GrantedQoS1 \<Rightarrow> ''Granted QoS 1''
    | SubAckCode.GrantedQoS2 \<Rightarrow> ''Granted QoS 2''
    | SubAckCode.Failure \<Rightarrow> ''Subscription Failure'')"

section \<open>\<open>mqtt::PacketType\<close>\<close>

datatype (plugins only: code) Mqtt_PacketType =
    Connect
  | Connack
  | Publish
  | Puback
  | Pubrec
  | Pubrel
  | Pubcomp
  | Subscribe
  | Suback
  | Unsubscribe
  | Unsuback
  | Pingreq
  | Pingresp
  | Disconnect
  | Auth

definition Mqtt_PacketType_from_code :: "u8 \<Rightarrow> Mqtt_PacketType option" where
  "Mqtt_PacketType_from_code code =
     (if code = 1 then Some Mqtt_PacketType.Connect
      else if code = 2 then Some Mqtt_PacketType.Connack
      else if code = 3 then Some Mqtt_PacketType.Publish
      else if code = 4 then Some Mqtt_PacketType.Puback
      else if code = 5 then Some Mqtt_PacketType.Pubrec
      else if code = 6 then Some Mqtt_PacketType.Pubrel
      else if code = 7 then Some Mqtt_PacketType.Pubcomp
      else if code = 8 then Some Mqtt_PacketType.Subscribe
      else if code = 9 then Some Mqtt_PacketType.Suback
      else if code = 10 then Some Mqtt_PacketType.Unsubscribe
      else if code = 11 then Some Mqtt_PacketType.Unsuback
      else if code = 12 then Some Mqtt_PacketType.Pingreq
      else if code = 13 then Some Mqtt_PacketType.Pingresp
      else if code = 14 then Some Mqtt_PacketType.Disconnect
      else if code = 15 then Some Mqtt_PacketType.Auth
      else option.None)"

primrec Mqtt_PacketType_to_code :: "Mqtt_PacketType \<Rightarrow> u8" where
  "Mqtt_PacketType_to_code Mqtt_PacketType.Connect = 1"
| "Mqtt_PacketType_to_code Mqtt_PacketType.Connack = 2"
| "Mqtt_PacketType_to_code Mqtt_PacketType.Publish = 3"
| "Mqtt_PacketType_to_code Mqtt_PacketType.Puback = 4"
| "Mqtt_PacketType_to_code Mqtt_PacketType.Pubrec = 5"
| "Mqtt_PacketType_to_code Mqtt_PacketType.Pubrel = 6"
| "Mqtt_PacketType_to_code Mqtt_PacketType.Pubcomp = 7"
| "Mqtt_PacketType_to_code Mqtt_PacketType.Subscribe = 8"
| "Mqtt_PacketType_to_code Mqtt_PacketType.Suback = 9"
| "Mqtt_PacketType_to_code Mqtt_PacketType.Unsubscribe = 10"
| "Mqtt_PacketType_to_code Mqtt_PacketType.Unsuback = 11"
| "Mqtt_PacketType_to_code Mqtt_PacketType.Pingreq = 12"
| "Mqtt_PacketType_to_code Mqtt_PacketType.Pingresp = 13"
| "Mqtt_PacketType_to_code Mqtt_PacketType.Disconnect = 14"
| "Mqtt_PacketType_to_code Mqtt_PacketType.Auth = 15"

section \<open>\<open>mqtt::PacketDirection\<close>\<close>

datatype (plugins only: code) PacketDirection =
    ClientToServer
  | ServerToClient
  | Bidirectional

definition Mqtt_PacketType_direction :: "Mqtt_PacketType \<Rightarrow> PacketDirection" where
  "Mqtt_PacketType_direction self =
     (case self of
      Mqtt_PacketType.Connect \<Rightarrow> PacketDirection.ClientToServer
    | Mqtt_PacketType.Subscribe \<Rightarrow> PacketDirection.ClientToServer
    | Mqtt_PacketType.Unsubscribe \<Rightarrow> PacketDirection.ClientToServer
    | Mqtt_PacketType.Pingreq \<Rightarrow> PacketDirection.ClientToServer
    | Mqtt_PacketType.Disconnect \<Rightarrow> PacketDirection.ClientToServer
    | Mqtt_PacketType.Connack \<Rightarrow> PacketDirection.ServerToClient
    | Mqtt_PacketType.Suback \<Rightarrow> PacketDirection.ServerToClient
    | Mqtt_PacketType.Unsuback \<Rightarrow> PacketDirection.ServerToClient
    | Mqtt_PacketType.Pingresp \<Rightarrow> PacketDirection.ServerToClient
    | Mqtt_PacketType.Publish \<Rightarrow> PacketDirection.Bidirectional
    | Mqtt_PacketType.Puback \<Rightarrow> PacketDirection.Bidirectional
    | Mqtt_PacketType.Pubrec \<Rightarrow> PacketDirection.Bidirectional
    | Mqtt_PacketType.Pubrel \<Rightarrow> PacketDirection.Bidirectional
    | Mqtt_PacketType.Pubcomp \<Rightarrow> PacketDirection.Bidirectional
    | Mqtt_PacketType.Auth \<Rightarrow> PacketDirection.Bidirectional)"

definition Mqtt_PacketType_requires_packet_id :: "Mqtt_PacketType \<Rightarrow> bool" where
  "Mqtt_PacketType_requires_packet_id self =
     (case self of
      Mqtt_PacketType.Puback \<Rightarrow> True
    | Mqtt_PacketType.Pubrec \<Rightarrow> True
    | Mqtt_PacketType.Pubrel \<Rightarrow> True
    | Mqtt_PacketType.Pubcomp \<Rightarrow> True
    | Mqtt_PacketType.Subscribe \<Rightarrow> True
    | Mqtt_PacketType.Suback \<Rightarrow> True
    | Mqtt_PacketType.Unsubscribe \<Rightarrow> True
    | Mqtt_PacketType.Unsuback \<Rightarrow> True
    | _ \<Rightarrow> False)"

primrec Mqtt_PacketType_fmt :: "Mqtt_PacketType \<Rightarrow> string" where
  "Mqtt_PacketType_fmt Mqtt_PacketType.Connect = ''Connect''"
| "Mqtt_PacketType_fmt Mqtt_PacketType.Connack = ''Connack''"
| "Mqtt_PacketType_fmt Mqtt_PacketType.Publish = ''Publish''"
| "Mqtt_PacketType_fmt Mqtt_PacketType.Puback = ''Puback''"
| "Mqtt_PacketType_fmt Mqtt_PacketType.Pubrec = ''Pubrec''"
| "Mqtt_PacketType_fmt Mqtt_PacketType.Pubrel = ''Pubrel''"
| "Mqtt_PacketType_fmt Mqtt_PacketType.Pubcomp = ''Pubcomp''"
| "Mqtt_PacketType_fmt Mqtt_PacketType.Subscribe = ''Subscribe''"
| "Mqtt_PacketType_fmt Mqtt_PacketType.Suback = ''Suback''"
| "Mqtt_PacketType_fmt Mqtt_PacketType.Unsubscribe = ''Unsubscribe''"
| "Mqtt_PacketType_fmt Mqtt_PacketType.Unsuback = ''Unsuback''"
| "Mqtt_PacketType_fmt Mqtt_PacketType.Pingreq = ''Pingreq''"
| "Mqtt_PacketType_fmt Mqtt_PacketType.Pingresp = ''Pingresp''"
| "Mqtt_PacketType_fmt Mqtt_PacketType.Disconnect = ''Disconnect''"
| "Mqtt_PacketType_fmt Mqtt_PacketType.Auth = ''Auth''"

definition PacketDirection_fmt :: "PacketDirection \<Rightarrow> string" where
  "PacketDirection_fmt self =
     (case self of
      PacketDirection.ClientToServer \<Rightarrow> ''Client->Server''
    | PacketDirection.ServerToClient \<Rightarrow> ''Server->Client''
    | PacketDirection.Bidirectional \<Rightarrow> ''Bidirectional'')"

section \<open>\<open>ffi_mqtt::MqttSessionState\<close>\<close>

datatype (plugins only: code) MqttSessionState =
    Idle
  | Connected
  | Disconnected

definition MqttSessionState_from_tag :: "u8 \<Rightarrow> MqttSessionState option" where
  "MqttSessionState_from_tag tag =
     (if tag = 0 then Some MqttSessionState.Idle
      else if tag = 1 then Some MqttSessionState.Connected
      else if tag = 2 then Some MqttSessionState.Disconnected
      else option.None)"

primrec MqttSessionState_to_tag :: "MqttSessionState \<Rightarrow> u8" where
  "MqttSessionState_to_tag MqttSessionState.Idle = 0"
| "MqttSessionState_to_tag MqttSessionState.Connected = 1"
| "MqttSessionState_to_tag MqttSessionState.Disconnected = 2"

section \<open>Tags and enumerations\<close>

interpretation QoS_to_code: wire_codec QoS_to_code QoS_from_code
  by (unfold_locales, case_tac [1] x, auto simp: QoS_from_code_def  split: if_splits)

interpretation SubAckCode_to_byte: wire_codec SubAckCode_to_byte SubAckCode_from_byte
  by (unfold_locales, case_tac [1] x, auto simp: SubAckCode_from_byte_def  split: if_splits)

interpretation Mqtt_PacketType_to_code: wire_codec Mqtt_PacketType_to_code Mqtt_PacketType_from_code
  by (unfold_locales, case_tac [1] x, auto simp: Mqtt_PacketType_from_code_def  split: if_splits)

interpretation MqttSessionState_codec: tag_codec MqttSessionState_to_tag MqttSessionState_from_tag 3
  by (unfold_locales, (case_tac x; simp add: MqttSessionState_from_tag_def), unfold MqttSessionState_from_tag_def,
    (erule codec_arm, simp only: MqttSessionState_to_tag.simps)+, erule codec_end, (case_tac x; simp), simp add: codec_eval)

end
