(* ===== verification/Mqtt_Ffi.thy ===== *)
theory Mqtt_Ffi
  imports Mqtt_Engine Mqtt_Types
begin

text \<open>
  The safe MQTT wrappers \<open>bindings/rust/src/ffi_mqtt.rs\<close> over the engine, the session invariant, and
  the interpretation of the pool contract on the sessions of the broker. The wrappers pass what the
  extern declarations of the Rust file say; for \<open>mqtt_topic_matches\<close> these name the filter first.
\<close>

section \<open>The wrappers\<close>

definition ffi_mqtt_abi_version :: "u32" where
  "ffi_mqtt_abi_version =
     mqtt_abi_version"

definition ffi_mqtt_create :: "mqtt_broker \<Rightarrow> u8 \<Rightarrow> bool \<Rightarrow> u16 \<Rightarrow> mqtt_broker \<times> ffi_context ProvenResult" where
  "ffi_mqtt_create b version clean_session keep_alive =
     wrap_slot (mqtt_create b version (bool_u8 clean_session) keep_alive)"

definition ffi_mqtt_drop :: "mqtt_broker \<Rightarrow> ffi_context \<Rightarrow> mqtt_broker" where
  "ffi_mqtt_drop b ctx =
     mqtt_destroy b (ctx_slot ctx)"

definition ffi_mqtt_state :: "mqtt_broker \<Rightarrow> ffi_context \<Rightarrow> MqttSessionState option" where
  "ffi_mqtt_state b ctx =
     MqttSessionState_from_tag (mqtt_state b (ctx_slot ctx))"

definition ffi_mqtt_version :: "mqtt_broker \<Rightarrow> ffi_context \<Rightarrow> u8" where
  "ffi_mqtt_version b ctx =
     mqtt_version b (ctx_slot ctx)"

definition ffi_mqtt_can_publish :: "mqtt_broker \<Rightarrow> ffi_context \<Rightarrow> bool" where
  "ffi_mqtt_can_publish b ctx =
     (mqtt_can_publish b (ctx_slot ctx) = 1)"

definition ffi_mqtt_can_subscribe :: "mqtt_broker \<Rightarrow> ffi_context \<Rightarrow> bool" where
  "ffi_mqtt_can_subscribe b ctx =
     (mqtt_can_subscribe b (ctx_slot ctx) = 1)"

definition ffi_mqtt_subscription_count :: "mqtt_broker \<Rightarrow> ffi_context \<Rightarrow> u32" where
  "ffi_mqtt_subscription_count b ctx =
     mqtt_subscription_count b (ctx_slot ctx)"

definition ffi_mqtt_qos_state :: "mqtt_broker \<Rightarrow> ffi_context \<Rightarrow> u16 \<Rightarrow> u8" where
  "ffi_mqtt_qos_state b ctx packet_id =
     mqtt_qos_state b (ctx_slot ctx) packet_id"

definition ffi_mqtt_subscribe :: "mqtt_broker \<Rightarrow> ffi_context \<Rightarrow> u8 list \<Rightarrow> QoS \<Rightarrow> mqtt_broker \<times> unit ProvenResult" where
  "ffi_mqtt_subscribe b ctx topic qos =
     wrap_status (mqtt_subscribe b (ctx_slot ctx) (len_u32 topic) (QoS_to_code qos))"

definition ffi_mqtt_unsubscribe :: "mqtt_broker \<Rightarrow> ffi_context \<Rightarrow> u8 list \<Rightarrow> mqtt_broker \<times> unit ProvenResult" where
  "ffi_mqtt_unsubscribe b ctx topic =
     wrap_status (mqtt_unsubscribe b (ctx_slot ctx) (len_u32 topic))"

definition ffi_mqtt_publish :: "mqtt_broker \<Rightarrow> ffi_context \<Rightarrow> u8 list \<Rightarrow> u8 list \<Rightarrow> QoS \<Rightarrow> bool \<Rightarrow> u16 \<Rightarrow> mqtt_broker \<times> unit ProvenResult" where
  "ffi_mqtt_publish b ctx topic payload qos retain packet_id =
     wrap_status (mqtt_publish b (ctx_slot ctx) (len_u32 topic) (len_u32 payload) (QoS_to_code qos)
       (bool_u8 retain) packet_id)"

definition ffi_mqtt_puback :: "mqtt_broker \<Rightarrow> ffi_context \<Rightarrow> u16 \<Rightarrow> mqtt_broker \<times> unit ProvenResult" where
  "ffi_mqtt_puback b ctx packet_id =
     wrap_status (mqtt_puback b (ctx_slot ctx) packet_id)"

definition ffi_mqtt_pubrec :: "mqtt_broker \<Rightarrow> ffi_context \<Rightarrow> u16 \<Rightarrow> mqtt_broker \<times> unit ProvenResult" where
  "ffi_mqtt_pubrec b ctx packet_id =
     wrap_status (mqtt_pubrec b (ctx_slot ctx) packet_id)"

definition ffi_mqtt_pubrel :: "mqtt_broker \<Rightarrow> ffi_context \<Rightarrow> u16 \<Rightarrow> mqtt_broker \<times> unit ProvenResult" where
  "ffi_mqtt_pubrel b ctx packet_id =
     wrap_status (mqtt_pubrel b (ctx_slot ctx) packet_id)"

definition ffi_mqtt_pubcomp :: "mqtt_broker \<Rightarrow> ffi_context \<Rightarrow> u16 \<Rightarrow> mqtt_broker \<times> unit ProvenResult" where
  "ffi_mqtt_pubcomp b ctx packet_id =
     wrap_status (mqtt_pubcomp b (ctx_slot ctx) packet_id)"

definition ffi_mqtt_disconnect :: "mqtt_broker \<Rightarrow> ffi_context \<Rightarrow> mqtt_broker \<times> unit ProvenResult" where
  "ffi_mqtt_disconnect b ctx =
     wrap_status (mqtt_disconnect b (ctx_slot ctx))"

definition ffi_mqtt_cleanup :: "mqtt_broker \<Rightarrow> ffi_context \<Rightarrow> mqtt_broker \<times> unit ProvenResult" where
  "ffi_mqtt_cleanup b ctx =
     wrap_status (mqtt_cleanup b (ctx_slot ctx))"

definition ffi_mqtt_retained_count :: "mqtt_broker \<Rightarrow> u32" where
  "ffi_mqtt_retained_count b =
     mqtt_retained_count b"

definition ffi_mqtt_can_transition :: "MqttSessionState \<Rightarrow> MqttSessionState \<Rightarrow> bool" where
  "ffi_mqtt_can_transition from to =
     (mqtt_can_transition (MqttSessionState_to_tag from) (MqttSessionState_to_tag to) = 1)"

definition ffi_mqtt_qos_can_transition :: "QoS \<Rightarrow> u8 \<Rightarrow> u8 \<Rightarrow> bool" where
  "ffi_mqtt_qos_can_transition qos_level from to =
     (mqtt_qos_can_transition (QoS_to_code qos_level) from to = 1)"

text \<open>
  The extern declaration in \<open>ffi_mqtt.rs\<close> is \<open>(filter_ptr, filter_len, topic_ptr, topic_len)\<close> and
  the call passes the filter's pointer and length first; the function it links to takes its first
  pair as the topic.
\<close>

definition ffi_mqtt_topic_matches :: "u8 list \<Rightarrow> u8 list \<Rightarrow> bool" where
  "ffi_mqtt_topic_matches filter_str topic =
     (mqtt_topic_matches (len_u32 filter_str) (len_u32 topic) = 1)"

section \<open>The client's alphabet\<close>

datatype mqtt_call =
    Mc_subscribe "u8 list" QoS
  | Mc_unsubscribe "u8 list"
  | Mc_publish "u8 list" "u8 list" QoS bool u16
  | Mc_puback u16
  | Mc_pubrec u16
  | Mc_pubrel u16
  | Mc_pubcomp u16
  | Mc_disconnect
  | Mc_cleanup

text \<open>What an operation does to its session; for a publish, with the retained store left out.\<close>

primrec mqtt_step :: "mqtt_call \<Rightarrow> MqttSession \<Rightarrow> MqttSession \<times> u8" where
  "mqtt_step (Mc_subscribe topic qos) = mqtt_subscribe_on (len_u32 topic) (QoS_to_code qos)"
| "mqtt_step (Mc_unsubscribe topic) = mqtt_unsubscribe_on (len_u32 topic)"
| "mqtt_step (Mc_publish topic payload qos retain packet_id) = (\<lambda>s.
     let ((s', _), r) = mqtt_publish_on (len_u32 topic) (len_u32 payload) (QoS_to_code qos) (bool_u8 retain)
       packet_id (s, []) in (s', r))"
| "mqtt_step (Mc_puback packet_id) = mqtt_puback_on packet_id"
| "mqtt_step (Mc_pubrec packet_id) = mqtt_pubrec_on packet_id"
| "mqtt_step (Mc_pubrel packet_id) = mqtt_pubrel_on packet_id"
| "mqtt_step (Mc_pubcomp packet_id) = mqtt_pubcomp_on packet_id"
| "mqtt_step Mc_disconnect = mqtt_disconnect_on"
| "mqtt_step Mc_cleanup = mqtt_cleanup_on"

primrec ffi_mqtt_call :: "mqtt_call \<Rightarrow> mqtt_broker \<Rightarrow> ffi_context \<Rightarrow> mqtt_broker \<times> unit ProvenResult" where
  "ffi_mqtt_call (Mc_subscribe topic qos) b ctx = ffi_mqtt_subscribe b ctx topic qos"
| "ffi_mqtt_call (Mc_unsubscribe topic) b ctx = ffi_mqtt_unsubscribe b ctx topic"
| "ffi_mqtt_call (Mc_publish topic payload qos retain packet_id) b ctx = ffi_mqtt_publish b ctx topic payload qos retain packet_id"
| "ffi_mqtt_call (Mc_puback packet_id) b ctx = ffi_mqtt_puback b ctx packet_id"
| "ffi_mqtt_call (Mc_pubrec packet_id) b ctx = ffi_mqtt_pubrec b ctx packet_id"
| "ffi_mqtt_call (Mc_pubrel packet_id) b ctx = ffi_mqtt_pubrel b ctx packet_id"
| "ffi_mqtt_call (Mc_pubcomp packet_id) b ctx = ffi_mqtt_pubcomp b ctx packet_id"
| "ffi_mqtt_call Mc_disconnect b ctx = ffi_mqtt_disconnect b ctx"
| "ffi_mqtt_call Mc_cleanup b ctx = ffi_mqtt_cleanup b ctx"

lemmas ffi_mqtt_op_defs =
  ffi_mqtt_subscribe_def mqtt_subscribe_def ffi_mqtt_unsubscribe_def mqtt_unsubscribe_def
  ffi_mqtt_publish_def ffi_mqtt_puback_def mqtt_puback_def ffi_mqtt_pubrec_def mqtt_pubrec_def
  ffi_mqtt_pubrel_def mqtt_pubrel_def ffi_mqtt_pubcomp_def mqtt_pubcomp_def
  ffi_mqtt_disconnect_def mqtt_disconnect_def ffi_mqtt_cleanup_def mqtt_cleanup_def

section \<open>Searches\<close>

lemma first_index_Some_iff:
  "first_index P xs = Some i \<longleftrightarrow> i < length xs \<and> P (xs ! i) \<and> (\<forall>j < i. \<not> P (xs ! j))"
  by (simp add: first_index_def first_free_Some_iff)

lemma first_index_None_iff: "first_index P xs = None \<longleftrightarrow> (\<forall>x \<in> set xs. \<not> P x)"
  by (simp add: first_index_def first_free_None_iff all_set_conv_all_nth)

text \<open>Counting loops over an array.\<close>

lemma foldl_count:
  "foldl (\<lambda>count x. if P x then count + 1 else count) (n :: 'w::len word) xs = n + word_of_nat (length (filter P xs))"
  by (induction xs arbitrary: n) (simp_all add: ac_simps)

lemma length_filter_update:
  "i < length xs \<Longrightarrow>
    length (filter P (xs[i := x])) + (if P (xs ! i) then 1 else 0) = length (filter P xs) + (if P x then 1 else 0)"
proof (induction xs arbitrary: i)
  case Nil
  then show ?case by simp
next
  case (Cons y ys)
  then show ?case by (cases i) auto
qed

section \<open>The session invariant\<close>

definition in_flight :: "QoSTracker \<Rightarrow> bool" where
  "in_flight t \<longleftrightarrow> tr_active t \<and> tr_state t \<noteq> qd_complete \<and> tr_state t \<noteq> qd_failed"

definition active_subs :: "MqttSession \<Rightarrow> nat" where
  "active_subs s = length (filter su_active (mq_subscriptions s))"

definition open_deliveries :: "MqttSession \<Rightarrow> nat" where
  "open_deliveries s = length (filter in_flight (mq_inflight s))"

lemma countInflight_eq: "countInflight s = word_of_nat (open_deliveries s)"
  using foldl_count [of in_flight 0 "mq_inflight s"]
  by (simp add: countInflight_def open_deliveries_def in_flight_def)

text \<open>
  The subscription counter counts the active subscriptions and agrees with the state, every session
  in Publishing has exactly one delivery open and every session ready to publish has none, and a
  delivery is in a state of its level.
\<close>

definition delivery_ok :: "QoSTracker \<Rightarrow> bool" where
  "delivery_ok t \<longleftrightarrow> (tr_active t \<longrightarrow>
     (tr_qos_level t = at_least_once \<and> tr_state t \<in> {awaiting_puback, qd_complete} \<or>
      tr_qos_level t = exactly_once \<and>
        tr_state t \<in> {awaiting_pubrec, awaiting_pubrel, awaiting_pubcomp, qd_complete}))"

text \<open>State, flag, active subscriptions and open deliveries.\<close>

definition counts_ok :: "broker_state \<Rightarrow> bool \<Rightarrow> nat \<Rightarrow> nat \<Rightarrow> bool" where
  "counts_ok st had subs open_count \<longleftrightarrow>
     (st = mq_connected \<longrightarrow> subs = 0 \<and> open_count = 0) \<and>
     (st = mq_subscribed \<longrightarrow> 0 < subs \<and> open_count = 0) \<and>
     (st = mq_publishing \<longrightarrow> (had \<longleftrightarrow> 0 < subs) \<and> open_count = 1)"

definition mqtt_good :: "MqttSession \<Rightarrow> bool" where
  "mqtt_good s \<longleftrightarrow>
     length (mq_subscriptions s) = 256 \<and> length (mq_inflight s) = 64 \<and>
     mq_sub_count s = word_of_nat (active_subs s) \<and> mq_version s \<le> 1 \<and>
     counts_ok (mq_state s) (mq_had_subs s) (active_subs s) (open_deliveries s) \<and>
     (\<forall>t \<in> set (mq_inflight s). delivery_ok t)"

lemma active_subs_le: "mqtt_good s \<Longrightarrow> active_subs s \<le> 256"
  using length_filter_le [of su_active "mq_subscriptions s"]
  by (simp add: mqtt_good_def active_subs_def)

lemma open_deliveries_le: "mqtt_good s \<Longrightarrow> open_deliveries s \<le> 64"
  using length_filter_le [of in_flight "mq_inflight s"]
  by (simp add: mqtt_good_def open_deliveries_def)

lemma word_of_nat_u32_eq_0: "n < 4294967296 \<Longrightarrow> (word_of_nat n :: u32) = 0 \<longleftrightarrow> n = 0"
  by (simp add: word_unat_eq_iff unat_of_nat take_bit_nat_eq_self)

lemma findTracker_Some:
  "findTracker packet_id s = Some ti \<Longrightarrow>
    ti < length (mq_inflight s) \<and> tr_active (mq_inflight s ! ti) \<and> tr_packet_id (mq_inflight s ! ti) = packet_id"
  by (simp add: findTracker_def first_index_Some_iff)

text \<open>Moving a delivery on keeps the number of open ones, finishing it takes one away.\<close>

lemma open_deliveries_set:
  assumes "ti < length (mq_inflight s)" "in_flight (mq_inflight s ! ti)"
  shows "open_deliveries (set_delivery ti st s) =
    (if st = qd_complete \<or> st = qd_failed then open_deliveries s - 1 else open_deliveries s)"
  using length_filter_update [OF assms(1), of in_flight "(mq_inflight s ! ti)\<lparr>tr_state := st\<rparr>"] assms(2)
  by (auto simp: open_deliveries_def set_delivery_def in_flight_def split: if_splits)

lemma set_delivery_fields [simp]:
  "mq_state (set_delivery ti st s) = mq_state s"
  "mq_version (set_delivery ti st s) = mq_version s"
  "mq_subscriptions (set_delivery ti st s) = mq_subscriptions s"
  "mq_sub_count (set_delivery ti st s) = mq_sub_count s"
  "mq_had_subs (set_delivery ti st s) = mq_had_subs s"
  "mq_active (set_delivery ti st s) = mq_active s"
  "active_subs (set_delivery ti st s) = active_subs s"
  "length (mq_inflight (set_delivery ti st s)) = length (mq_inflight s)"
  by (simp_all add: set_delivery_def active_subs_def)

lemma open_positive:
  assumes "ti < length (mq_inflight s)" "in_flight (mq_inflight s ! ti)"
  shows "0 < open_deliveries s"
proof -
  have "mq_inflight s ! ti \<in> set (filter in_flight (mq_inflight s))" using assms by simp
  then show ?thesis unfolding open_deliveries_def by (rule length_pos_if_in_set)
qed

lemma set_delivery_levels:
  assumes "\<forall>t \<in> set (mq_inflight s). delivery_ok t" "delivery_ok ((mq_inflight s ! ti)\<lparr>tr_state := st\<rparr>)"
  shows "\<forall>t \<in> set (mq_inflight (set_delivery ti st s)). delivery_ok t"
  using list_update_all [OF assms, of ti] by (simp add: set_delivery_def)

lemma mqtt_good_advance:
  assumes "mqtt_good s" "ti < length (mq_inflight s)" "in_flight (mq_inflight s ! ti)"
    and "delivery_ok ((mq_inflight s ! ti)\<lparr>tr_state := st\<rparr>)" "st \<noteq> qd_complete" "st \<noteq> qd_failed"
  shows "mqtt_good (set_delivery ti st s)"
  using assms(1) open_deliveries_set [OF assms(2,3), of st] set_delivery_levels [OF _ assms(4)] assms(5,6)
  by (simp add: mqtt_good_def)

lemma mqtt_good_finish:
  assumes "mqtt_good s" "ti < length (mq_inflight s)" "in_flight (mq_inflight s ! ti)"
    and "delivery_ok ((mq_inflight s ! ti)\<lparr>tr_state := qd_complete\<rparr>)"
  shows "mqtt_good (maybeExitPublishing (set_delivery ti qd_complete s))"
proof -
  let ?s = "set_delivery ti qd_complete s"
  have levels: "\<forall>t \<in> set (mq_inflight ?s). delivery_ok t"
    using assms(1) by (intro set_delivery_levels assms(4)) (simp add: mqtt_good_def)
  have open': "open_deliveries ?s = open_deliveries s - 1"
    using open_deliveries_set [OF assms(2,3), of qd_complete] by simp
  have counts: "counts_ok (mq_state s) (mq_had_subs s) (active_subs s) (open_deliveries s)"
    using assms(1) by (simp add: mqtt_good_def)
  have exit: "maybeExitPublishing ?s = (if mq_state s = mq_publishing
      then ?s\<lparr>mq_state := (if mq_had_subs s then mq_subscribed else mq_connected)\<rparr> else ?s)"
    using counts by (simp add: maybeExitPublishing_def countInflight_eq open' counts_ok_def)
  have view: "active_subs (?s\<lparr>mq_state := st\<rparr>) = active_subs s"
    "open_deliveries (?s\<lparr>mq_state := st\<rparr>) = open_deliveries s - 1" for st
    using open' by (simp_all add: active_subs_def open_deliveries_def)
  have "counts_ok (if mq_state s = mq_publishing then (if mq_had_subs s then mq_subscribed else mq_connected)
      else mq_state s) (mq_had_subs s) (active_subs s) (open_deliveries s - 1)"
    using counts by (auto simp: counts_ok_def)
  then show ?thesis
    using assms(1) levels unfolding exit by (auto simp: mqtt_good_def view open' split: if_splits)
qed

lemma first_free_index: "first_free act xs = Some i \<Longrightarrow> i < length xs \<and> \<not> act (xs ! i)"
  by (simp add: first_free_Some_iff)

lemma mqtt_good_subscribe:
  assumes "mqtt_good s"
  shows "mqtt_good (fst (mqtt_subscribe_on topic qos s))"
proof (cases "first_free su_active (mq_subscriptions s)")
  case None
  with assms show ?thesis by (simp add: mqtt_subscribe_on_def)
next
  case (Some i)
  let ?sub = "\<lparr>su_filter = topic, su_qos = mqtt_qos_of qos, su_active = True\<rparr>"
  have "length (filter su_active ((mq_subscriptions s)[i := ?sub])) = Suc (active_subs s)"
    using length_filter_update [of i "mq_subscriptions s" su_active ?sub] first_free_index [OF Some]
    by (simp add: active_subs_def)
  with assms Some show ?thesis
    by (auto simp: mqtt_subscribe_on_def mqtt_good_def active_subs_def open_deliveries_def counts_ok_def
        canSubscribeState_def)
qed

lemma mqtt_good_unsubscribe:
  assumes "mqtt_good s"
  shows "mqtt_good (fst (mqtt_unsubscribe_on topic s))"
proof (cases "first_index (\<lambda>sub. su_active sub \<and> su_filter sub = topic) (mq_subscriptions s)")
  case None
  with assms show ?thesis by (simp add: mqtt_unsubscribe_on_def)
next
  case (Some i)
  let ?subs = "(mq_subscriptions s)[i := (mq_subscriptions s ! i)\<lparr>su_active := False, su_filter := []\<rparr>]"
  have i: "i < length (mq_subscriptions s)" "su_active (mq_subscriptions s ! i)"
    using Some by (simp_all add: first_index_Some_iff)
  then have n: "Suc (length (filter su_active ?subs)) = active_subs s"
    using length_filter_update [of i "mq_subscriptions s" su_active
        "(mq_subscriptions s ! i)\<lparr>su_active := False, su_filter := []\<rparr>"]
    by (simp add: active_subs_def)
  have "mq_sub_count s = word_of_nat (Suc (length (filter su_active ?subs)))"
    using assms unfolding n by (simp add: mqtt_good_def)
  then have count: "mq_sub_count s - 1 = word_of_nat (length (filter su_active ?subs))" by simp
  have small: "length (filter su_active ?subs) < 4294967296"
    using n active_subs_le [OF assms] by simp
  let ?st = "if length (filter su_active ?subs) = 0 \<and> mq_state s = mq_subscribed then mq_connected else mq_state s"
  have step: "fst (mqtt_unsubscribe_on topic s) =
      (if mq_state s = mq_subscribed \<and> length topic \<noteq> 0 \<and> length topic \<le> MAX_TOPIC_LEN then
         s\<lparr>mq_subscriptions := ?subs, mq_sub_count := mq_sub_count s - 1, mq_state := ?st\<rparr> else s)"
    if "mq_state s \<noteq> mq_connected"
    using that Some count word_of_nat_u32_eq_0 [OF small]
    by (auto simp: mqtt_unsubscribe_on_def Let_def)
  have busy: "mq_state s \<noteq> mq_connected"
    using assms n by (auto simp: mqtt_good_def counts_ok_def)
  have counts: "counts_ok (mq_state s) (mq_had_subs s) (active_subs s) (open_deliveries s)"
    using assms by (simp add: mqtt_good_def)
  have view: "active_subs (s\<lparr>mq_subscriptions := ?subs, mq_sub_count := k, mq_state := st\<rparr>) = length (filter su_active ?subs)"
    "open_deliveries (s\<lparr>mq_subscriptions := ?subs, mq_sub_count := k, mq_state := st\<rparr>) = open_deliveries s" for k st
    by (simp_all add: active_subs_def open_deliveries_def)
  have "counts_ok ?st (mq_had_subs s) (length (filter su_active ?subs)) (open_deliveries s)"
    if "mq_state s = mq_subscribed"
    using counts that by (simp add: counts_ok_def)
  then show ?thesis
    using assms count unfolding step [OF busy] by (auto simp: mqtt_good_def view)
qed

lemma mqtt_good_publish:
  assumes "mqtt_good s"
  shows "mqtt_good (fst (fst (mqtt_publish_on topic payload qos retain packet_id (s, rs))))"
proof (cases "first_free tr_active (mq_inflight s)")
  case None
  with assms show ?thesis by (simp add: mqtt_publish_on_def Let_def allocTracker_def)
next
  case (Some i)
  define st where "st = (if mqtt_qos_of qos = at_least_once then awaiting_puback else awaiting_pubrec)"
  let ?t = "\<lparr>tr_packet_id = packet_id, tr_state = st, tr_qos_level = mqtt_qos_of qos, tr_active = True\<rparr>"
  have i: "i < length (mq_inflight s)" "\<not> tr_active (mq_inflight s ! i)"
    using first_free_index [OF Some] by simp_all
  have "length (filter in_flight ((mq_inflight s)[i := ?t])) = Suc (open_deliveries s)"
    using length_filter_update [OF i(1), of in_flight ?t] i(2)
    by (simp add: open_deliveries_def in_flight_def st_def split: if_splits)
  moreover have "\<forall>t \<in> set ((mq_inflight s)[i := ?t]). delivery_ok t" if "mqtt_qos_of qos \<noteq> at_most_once"
    using assms that
    by (intro list_update_all) (cases "mqtt_qos_of qos"; simp add: mqtt_good_def delivery_ok_def st_def)+
  ultimately have open_one: "mqtt_good (s\<lparr>mq_inflight := (mq_inflight s)[i := ?t],
      mq_had_subs := (mq_state s = mq_subscribed), mq_state := mq_publishing\<rparr>)"
    if "canPublishState (mq_state s)" "mqtt_qos_of qos \<noteq> at_most_once"
    using assms that
    by (auto simp: mqtt_good_def active_subs_def open_deliveries_def counts_ok_def canPublishState_def)
  have "fst (fst (mqtt_publish_on topic payload qos retain packet_id (s, rs))) = s \<or>
      fst (fst (mqtt_publish_on topic payload qos retain packet_id (s, rs))) =
        s\<lparr>mq_inflight := (mq_inflight s)[i := ?t], mq_had_subs := (mq_state s = mq_subscribed),
          mq_state := mq_publishing\<rparr> \<and> canPublishState (mq_state s) \<and> mqtt_qos_of qos \<noteq> at_most_once"
    using Some i by (simp add: mqtt_publish_on_def allocTracker_def Let_def st_def)
  with assms open_one show ?thesis by auto
qed

lemma in_flight_awaiting:
  "tr_active t \<Longrightarrow> tr_state t \<in> {awaiting_puback, awaiting_pubrec, awaiting_pubrel, awaiting_pubcomp} \<Longrightarrow> in_flight t"
  by (auto simp: in_flight_def)

lemma mqtt_good_acks:
  assumes "mqtt_good s"
  shows "mqtt_good (fst (mqtt_puback_on packet_id s))" "mqtt_good (fst (mqtt_pubrec_on packet_id s))"
    "mqtt_good (fst (mqtt_pubrel_on packet_id s))" "mqtt_good (fst (mqtt_pubcomp_on packet_id s))"
  using assms
  by (auto simp: mqtt_puback_on_def mqtt_pubrec_on_def mqtt_pubrel_on_def mqtt_pubcomp_on_def delivery_ok_def
      dest!: findTracker_Some split: option.split intro!: mqtt_good_advance mqtt_good_finish in_flight_awaiting)

lemma empty_lists [simp]:
  "filter su_active (replicate n empty_sub) = []"
  "filter in_flight (replicate n empty_tracker) = []"
  "delivery_ok empty_tracker"
  by (simp_all add: empty_sub_def empty_tracker_def in_flight_def delivery_ok_def)

lemma mqtt_good_leave:
  assumes "mqtt_good s"
  shows "mqtt_good (fst (mqtt_disconnect_on s))" "mqtt_good (fst (mqtt_cleanup_on s))"
  using assms
  by (auto simp: mqtt_disconnect_on_def mqtt_cleanup_on_def Let_def mqtt_good_def counts_ok_def active_subs_def
      open_deliveries_def MAX_SUBSCRIPTIONS_def MAX_INFLIGHT_def)

lemma mqtt_good_step:
  assumes "mqtt_good s"
  shows "mqtt_good (fst (mqtt_step x s))"
  using assms mqtt_good_publish [OF assms]
  by (cases x) (simp_all add: mqtt_good_subscribe mqtt_good_unsubscribe mqtt_good_acks mqtt_good_leave
      case_prod_beta)

lemma mqtt_good_fresh: "fst a \<le> 1 \<Longrightarrow> mqtt_good (mqtt_fresh a s)"
  by (cases a) (simp add: mqtt_good_def mqtt_fresh_def empty_session_def counts_ok_def active_subs_def
      open_deliveries_def MAX_SUBSCRIPTIONS_def MAX_INFLIGHT_def)

lemma mqtt_publish_on_active [simp]:
  "mq_active (fst (fst (mqtt_publish_on topic payload qos retain packet_id (s, rs)))) = mq_active s"
  by (simp add: mqtt_publish_on_def Let_def allocTracker_def split: option.split)

lemma mqtt_active_step: "mq_active (fst (mqtt_step x s)) = mq_active s"
  by (cases x) (simp_all add: op_simps Let_def maybeExitPublishing_def case_prod_beta split: option.split)

section \<open>The pool contract\<close>

text \<open>
  The broker's sessions as a pool of their own: what the wrappers do to \<open>mb_sessions\<close>. The retained
  store never influences a session.
\<close>

definition sessions_create ::
  "u8 \<times> bool \<times> u16 \<Rightarrow> MqttSession list \<Rightarrow> MqttSession list \<times> ffi_context ProvenResult" where
  "sessions_create a p = (case a of (version, clean_session, keep_alive) \<Rightarrow>
     wrap_slot (if version > 1 then (p, - 1)
       else pool_create mq_active (mqtt_fresh (version, bool_u8 clean_session, keep_alive)) p))"

definition sessions_drop :: "MqttSession list \<Rightarrow> ffi_context \<Rightarrow> MqttSession list" where
  "sessions_drop p ctx = pool_destroy mqtt_off p (ctx_slot ctx)"

definition sessions_call :: "mqtt_call \<Rightarrow> MqttSession list \<Rightarrow> ffi_context \<Rightarrow> MqttSession list \<times> unit ProvenResult" where
  "sessions_call x p ctx = map_prod id from_status (on_slot mq_active p (ctx_slot ctx) 1 (mqtt_step x))"

lemma publish_ignores_retained:
  "fst (fst (mqtt_publish_on topic payload qos retain packet_id (s, rs))) =
     fst (fst (mqtt_publish_on topic payload qos retain packet_id (s, [])))"
  "snd (mqtt_publish_on topic payload qos retain packet_id (s, rs)) =
     snd (mqtt_publish_on topic payload qos retain packet_id (s, []))"
  by (simp_all add: mqtt_publish_on_def Let_def split: option.split)

lemma broker_create:
  "sessions_create (v, cl, k) (mb_sessions b) = map_prod mb_sessions id (ffi_mqtt_create b v cl k)"
  by (simp add: sessions_create_def ffi_mqtt_create_def mqtt_create_def wrap_slot_def case_prod_beta)

lemma broker_drop: "sessions_drop (mb_sessions b) h = mb_sessions (ffi_mqtt_drop b h)"
  by (simp add: sessions_drop_def ffi_mqtt_drop_def mqtt_destroy_def)

lemma broker_publish:
  fixes b topic payload qos retain packet_id slot
  defines "f \<equiv> (\<lambda>s. let ((s', _), r) = mqtt_publish_on topic payload qos retain packet_id (s, []) in (s', r))"
  shows "mb_sessions (fst (mqtt_publish b slot topic payload qos retain packet_id)) =
      fst (on_slot mq_active (mb_sessions b) slot 1 f)"
    and "snd (mqtt_publish b slot topic payload qos retain packet_id) =
      snd (on_slot mq_active (mb_sessions b) slot 1 f)"
proof -
  have "mb_sessions (fst (mqtt_publish b slot topic payload qos retain packet_id)) =
      fst (on_slot mq_active (mb_sessions b) slot 1 f) \<and>
    snd (mqtt_publish b slot topic payload qos retain packet_id) =
      snd (on_slot mq_active (mb_sessions b) slot 1 f)"
  proof (cases "valid_slot mq_active (mb_sessions b) slot")
    case None
    then show ?thesis by (simp add: mqtt_publish_def on_slot_def)
  next
    case (Some i)
    obtain s' rs' r where full:
        "mqtt_publish_on topic payload qos retain packet_id (mb_sessions b ! i, mb_retained b) = ((s', rs'), r)"
      by (metis prod.collapse)
    obtain s'' rs'' r'' where part:
        "mqtt_publish_on topic payload qos retain packet_id (mb_sessions b ! i, []) = ((s'', rs''), r'')"
      by (metis prod.collapse)
    have "s'' = s'" "r'' = r"
      using publish_ignores_retained [of topic payload qos retain packet_id "mb_sessions b ! i" "mb_retained b"]
      by (simp_all add: full part)
    then show ?thesis using Some full part by (simp add: mqtt_publish_def on_slot_def f_def)
  qed
  then show "mb_sessions (fst (mqtt_publish b slot topic payload qos retain packet_id)) =
      fst (on_slot mq_active (mb_sessions b) slot 1 f)"
    and "snd (mqtt_publish b slot topic payload qos retain packet_id) =
      snd (on_slot mq_active (mb_sessions b) slot 1 f)"
    by simp_all
qed

lemma broker_session_op:
  "mb_sessions (fst (mqtt_on_session b slot f)) = fst (on_slot mq_active (mb_sessions b) slot 1 f)"
  "snd (mqtt_on_session b slot f) = snd (on_slot mq_active (mb_sessions b) slot 1 f)"
  by (simp_all add: mqtt_on_session_def case_prod_beta)

lemma broker_call:
  "sessions_call x (mb_sessions b) h = map_prod mb_sessions id (ffi_mqtt_call x b h)"
proof (rule prod_eqI)
  show "fst (sessions_call x (mb_sessions b) h) = fst (map_prod mb_sessions id (ffi_mqtt_call x b h))"
    by (cases x) (simp_all add: sessions_call_def ffi_mqtt_op_defs broker_publish broker_session_op)
  show "snd (sessions_call x (mb_sessions b) h) = snd (map_prod mb_sessions id (ffi_mqtt_call x b h))"
    by (cases x) (simp_all add: sessions_call_def ffi_mqtt_op_defs broker_publish broker_session_op)
qed

interpretation mqtt: slot_service mq_active "\<lambda>a. fst a \<le> 1"
  "\<lambda>(v, cl, k). mqtt_fresh (v, bool_u8 cl, k)" mqtt_off mqtt_step
  "\<lambda>_. 1" "\<lambda>_. from_status" mqtt_good mqtt_sessions sessions_create sessions_drop sessions_call
proof
  fix s :: MqttSession and p :: "MqttSession list" and h :: ffi_context and x :: mqtt_call
    and a :: "u8 \<times> bool \<times> u16"
  show "mq_active ((case a of (v, cl, k) \<Rightarrow> mqtt_fresh (v, bool_u8 cl, k)) s)"
    by (cases a) (simp add: mqtt_fresh_def)
  show "\<not> mq_active (mqtt_off s)" by (simp add: mqtt_off_def empty_session_def)
  show "mq_active s \<Longrightarrow> mq_active (fst (mqtt_step x s))" by (simp add: mqtt_active_step)
  show "fst a \<le> 1 \<Longrightarrow> mqtt_good ((case a of (v, cl, k) \<Rightarrow> mqtt_fresh (v, bool_u8 cl, k)) s)"
    by (cases a) (simp add: mqtt_good_fresh)
  show "mqtt_good s \<Longrightarrow> mqtt_good (fst (mqtt_step x s))" by (rule mqtt_good_step)
  show "s \<in> set mqtt_sessions \<Longrightarrow> \<not> mq_active s" by (simp add: mqtt_sessions_def empty_session_def)
  show "length mqtt_sessions \<le> 2147483648" by (simp add: mqtt_sessions_def)
  show "sessions_create a p = wrap_slot (if fst a \<le> 1
      then pool_create mq_active ((case a of (v, cl, k) \<Rightarrow> mqtt_fresh (v, bool_u8 cl, k))) p else (p, - 1))"
    by (cases a) (simp add: sessions_create_def not_less [symmetric])
  show "sessions_drop p h = pool_destroy mqtt_off p (ctx_slot h)" by (simp add: sessions_drop_def)
  show "sessions_call x p h = map_prod id from_status (on_slot mq_active p (ctx_slot h) 1 (mqtt_step x))"
    by (simp add: sessions_call_def)
qed

text \<open>A program that uses the wrappers, over the whole broker.\<close>

abbreviation mqtt_client :: "mqtt_broker \<Rightarrow> ffi_context list \<Rightarrow> bool" where
  "mqtt_client \<equiv> client (\<lambda>(v, cl, k) b. ffi_mqtt_create b v cl k) ffi_mqtt_drop ffi_mqtt_call mqtt_broker_init"

lemma mqtt_client_sessions:
  assumes "mqtt_client b hs"
  shows "client sessions_create sessions_drop sessions_call mqtt_sessions (mb_sessions b) hs"
proof (rule client_project [OF assms, where f = id])
  show "mb_sessions mqtt_broker_init = mqtt_sessions" by (simp add: mqtt_broker_init_def)
  show "sessions_create a (mb_sessions q) = map_prod mb_sessions id ((case a of (v, cl, k) \<Rightarrow> \<lambda>b. ffi_mqtt_create b v cl k) q)"
    for a q by (cases a) (simp add: broker_create)
  show "sessions_drop (mb_sessions q) h = mb_sessions (ffi_mqtt_drop q h)" for q h by (rule broker_drop)
  show "fst (sessions_call (id x) (mb_sessions q) h) = mb_sessions (fst (ffi_mqtt_call x q h))" for x q h
    by (simp add: broker_call)
qed

end
