(* ===== verification/Mqtt_Topic.thy ===== *)
theory Mqtt_Topic
  imports Mqtt_Ffi
begin

text \<open>
  Topic filters as MQTT 3.1.1, section 4.7, defines them: a filter and a topic are split into levels,
  a plus stands for one level, a hash for the rest including the parent level (\<open>level_match\<close>, section
  4.7.1), and a filter that starts with a wildcard does not match a topic that starts with a dollar
  sign (section 4.7.2). The character loop of the engine is related to this: \<open>char_levels\<close> states on
  levels what the loop computes, and \<open>missed_match\<close> are the two cases in which the levels match and the
  loop does not. The rules of section 4.7.3 on which byte strings are topics are no part of the relation.
\<close>

section \<open>The standard's matching\<close>

abbreviation levels :: "u8 list \<Rightarrow> u8 list list" where
  "levels \<equiv> split_on LEVEL"

fun level_match :: "u8 list list \<Rightarrow> u8 list list \<Rightarrow> bool" where
  "level_match [] ls = (ls = [])"
| "level_match (f # fs) ls =
     (if f = [HASH] then True
      else case ls of
          [] \<Rightarrow> False
        | l # ls' \<Rightarrow> (f = [PLUS] \<or> f = l) \<and> level_match fs ls')"

definition wildcard_first :: "u8 list \<Rightarrow> bool" where
  "wildcard_first filter_str \<longleftrightarrow> filter_str \<noteq> [] \<and> (hd filter_str = HASH \<or> hd filter_str = PLUS)"

definition dollar_topic :: "u8 list \<Rightarrow> bool" where
  "dollar_topic topic \<longleftrightarrow> topic \<noteq> [] \<and> hd topic = 36"

definition standard_matches :: "u8 list \<Rightarrow> u8 list \<Rightarrow> bool" where
  "standard_matches filter_str topic \<longleftrightarrow>
     level_match (levels filter_str) (levels topic) \<and> \<not> (wildcard_first filter_str \<and> dollar_topic topic)"

text \<open>Wildcards occupy whole levels and a hash is the last one.\<close>

fun filter_levels :: "u8 list list \<Rightarrow> bool" where
  "filter_levels [] = True"
| "filter_levels (f # fs) =
     ((if f = [HASH] then fs = [] else f = [PLUS] \<or> HASH \<notin> set f \<and> PLUS \<notin> set f) \<and> filter_levels fs)"

definition missed_match :: "u8 list list \<Rightarrow> u8 list list \<Rightarrow> bool" where
  "missed_match fs ls \<longleftrightarrow>
     length fs = Suc (length ls) \<and> last fs = [HASH] \<or>
     length fs = length ls \<and> last fs = [PLUS] \<and> last ls = []"

section \<open>The loop on levels\<close>

fun char_levels :: "u8 list list \<Rightarrow> u8 list list \<Rightarrow> bool" where
  "char_levels (f # f' # fs) (l # l' # ls) = ((f = [PLUS] \<or> f = l) \<and> char_levels (f' # fs) (l' # ls))"
| "char_levels [f] [l] = (f = [HASH] \<or> f = [PLUS] \<and> l \<noteq> [] \<or> f = l)"
| "char_levels [f] (l # l' # ls) = (f = [HASH])"
| "char_levels fs ls = False"

lemma match_literal:
  assumes "HASH \<notin> set f" "PLUS \<notin> set f"
  shows "matchTopic t (f @ r) \<longleftrightarrow> (\<exists>t'. t = f @ t' \<and> matchTopic t' r)"
  using assms by (induction f arbitrary: t) (auto split: list.splits)

lemma match_plus:
  assumes "LEVEL \<notin> set l" "s = [] \<or> hd s = LEVEL"
  shows "matchTopic (l @ s) (PLUS # r) \<longleftrightarrow> l @ s \<noteq> [] \<and> matchTopic s r"
proof -
  have "dropWhile (\<lambda>c. c \<noteq> LEVEL) (l @ s) = s"
    using assms by (induction l) (cases s; auto)+
  then show ?thesis by auto
qed

lemma match_level_end: "matchTopic [] (LEVEL # r) = False"
  by simp

text \<open>One level of the filter, and what follows, against one level of the topic and what follows.\<close>

lemma match_one_level:
  assumes l: "LEVEL \<notin> set l" "s = [] \<or> hd s = LEVEL"
    and f: "LEVEL \<notin> set f" "r = [] \<or> hd r = LEVEL"
    and w: "f \<noteq> [HASH]" "f = [PLUS] \<or> HASH \<notin> set f \<and> PLUS \<notin> set f"
  shows "matchTopic (l @ s) (f @ r) \<longleftrightarrow> (f = [PLUS] \<and> l @ s \<noteq> [] \<or> f = l) \<and> matchTopic s r"
proof (cases "f = [PLUS]")
  case True
  show ?thesis
  proof (cases "l = [PLUS]")
    case False
    with True match_plus [OF l, of r] show ?thesis by simp
  next
    case l': True
    with True match_plus [OF l, of r] show ?thesis by simp
  qed
next
  case False
  with w have lit: "HASH \<notin> set f" "PLUS \<notin> set f" by auto
  have "matchTopic t' r \<Longrightarrow> l @ s = f @ t' \<Longrightarrow> f = l \<and> t' = s" for t'
  proof -
    assume m: "matchTopic t' r" and eq: "l @ s = f @ t'"
    have t': "t' = [] \<or> hd t' = LEVEL"
      using m f(2) by (cases r; cases t') (auto split: if_splits)
    from eq consider us where "l = f @ us" "us @ s = t'" | us where "f = l @ us" "us @ t' = s"
      by (auto simp: append_eq_append_conv2)
    then show "f = l \<and> t' = s"
    proof cases
      case 1
      with l t' show ?thesis by (cases us) auto
    next
      case 2
      with l f show ?thesis by (cases us) auto
    qed
  qed
  then show ?thesis using False by (auto simp: match_literal [OF lit])
qed

lemma match_hash: "matchTopic t (HASH # r)"
  by simp

lemma matchTopic_levels:
  assumes "filter_levels fs" "fs \<noteq> []" "\<forall>f \<in> set fs. LEVEL \<notin> set f"
  shows "matchTopic t (join_on LEVEL fs) \<longleftrightarrow> char_levels fs (levels t)"
  using assms
proof (induction fs arbitrary: t)
  case Nil
  then show ?case by simp
next
  case (Cons f fs)
  show ?case
  proof (cases "f = [HASH]")
    case True
    with Cons.prems have "fs = []" by simp
    with True show ?thesis by (cases "levels t"; cases "tl (levels t)") auto
  next
    case False
    with Cons.prems have w: "f = [PLUS] \<or> HASH \<notin> set f \<and> PLUS \<notin> set f" and f: "LEVEL \<notin> set f" by auto
    define r where "r = (if fs = [] then [] else LEVEL # join_on LEVEL fs)"
    have F: "join_on LEVEL (f # fs) = f @ r" by (simp add: r_def join_on_Cons)
    have r: "r = [] \<or> hd r = LEVEL" by (simp add: r_def)
    show ?thesis
    proof (cases t rule: split_on_first [where sep = LEVEL])
      case whole
      have "matchTopic t (f @ r) \<longleftrightarrow> (f = [PLUS] \<and> t \<noteq> [] \<or> f = t) \<and> matchTopic [] r"
        using match_one_level [OF whole(1) _ f r False w, of "[]"] by simp
      then show ?thesis
        using False unfolding F whole(2) by (cases fs) (auto simp: r_def)
    next
      case (part l t')
      have "matchTopic t (f @ r) \<longleftrightarrow> (f = [PLUS] \<or> f = l) \<and> matchTopic (LEVEL # t') r"
        using match_one_level [OF part(2) _ f r False w, of "LEVEL # t'"] part(1) by auto
      moreover have "matchTopic (LEVEL # t') r \<longleftrightarrow> fs \<noteq> [] \<and> char_levels fs (levels t')"
        using Cons.IH [of t'] Cons.prems by (auto simp: r_def split: if_splits)
      moreover obtain l' ls where "levels t' = l' # ls" by (cases "levels t'") auto
      ultimately show ?thesis
        using False unfolding F part(3) by (cases fs) auto
    qed
  qed
qed

lemma char_levels_level_match:
  assumes "filter_levels fs" "fs \<noteq> []" "ls \<noteq> []"
  shows "char_levels fs ls \<longleftrightarrow> level_match fs ls \<and> \<not> missed_match fs ls"
  using assms
proof (induction fs ls rule: char_levels.induct)
  case (1 f f' fs l l' ls)
  then show ?case by (auto simp: missed_match_def)
next
  case (2 f l)
  then show ?case by (auto simp: missed_match_def)
next
  case (3 f l l' ls)
  then show ?case by (auto simp: missed_match_def)
qed (auto simp: missed_match_def split: if_splits)

lemma matchTopic_level_match:
  assumes "filter_levels (levels filter_str)"
  shows "matchTopic topic filter_str \<longleftrightarrow>
    level_match (levels filter_str) (levels topic) \<and> \<not> missed_match (levels filter_str) (levels topic)"
  using matchTopic_levels [OF assms, of topic] char_levels_level_match [OF assms, of "levels topic"]
    split_on_parts by fastforce

end
