(* ===== verification/Mqtt_Props.thy ===== *)
theory Mqtt_Props
  imports Mqtt_Topic
begin

text \<open>
  Properties of the MQTT component: topic matching against the standard and through the Rust
  wrapper, what an owned session reports, the store of retained messages as a map, the
  acknowledgement handshake, and what reusing a packet identifier does.
\<close>

section \<open>Topic matching\<close>

lemma matchTopic_plain:
  "HASH \<notin> set f \<Longrightarrow> PLUS \<notin> set f \<Longrightarrow> matchTopic t f \<longleftrightarrow> t = f"
  using match_literal [of f t "[]"] by simp

text \<open>
  C12: Topic matching. For a well-formed filter the engine matches level by level, but for two cases: a
  filter that ends in slash hash against its parent level, and a final plus against an empty last level.
  It differs from the standard's matching (MQTT 3.1.1 section 4.7) in exactly three cases: the standard
  matches in those two and the engine does not, and the engine matches a topic that starts with a dollar
  sign against a filter that starts with a wildcard, which section 4.7.2 forbids. The Rust function
  topic_matches hands its filter to the engine as the topic and its topic as the filter: for an ordinary
  topic, without wildcard characters, it answers true exactly when filter and topic are the same bytes
  (1 to 256 of them), so no wildcard filter ever matches such a topic.
\<close>

theorem mqtt_topic_matching:
  assumes "length filter_str < 4294967296" "length topic < 4294967296"
  shows "(filter_levels (levels filter_str) \<longrightarrow>
      (matchTopic topic filter_str \<longleftrightarrow>
        level_match (levels filter_str) (levels topic) \<and> \<not> missed_match (levels filter_str) (levels topic))) \<and>
    (filter_levels (levels filter_str) \<longrightarrow>
      (standard_matches filter_str topic \<and> \<not> matchTopic topic filter_str \<longleftrightarrow>
        standard_matches filter_str topic \<and> missed_match (levels filter_str) (levels topic)) \<and>
      (matchTopic topic filter_str \<and> \<not> standard_matches filter_str topic \<longleftrightarrow>
        matchTopic topic filter_str \<and> wildcard_first filter_str \<and> dollar_topic topic)) \<and>
    (HASH \<notin> set topic \<and> PLUS \<notin> set topic \<longrightarrow>
      (ffi_mqtt_topic_matches filter_str topic \<longleftrightarrow>
        filter_str = topic \<and> 0 < length topic \<and> length topic \<le> 256))"
  using assms matchTopic_level_match [of filter_str topic]
  by (auto simp: standard_matches_def ffi_mqtt_topic_matches_def mqtt_topic_matches_def MAX_TOPIC_LEN_def
      matchTopic_plain)

text \<open>The filters \<open>a/#\<close> and \<open>#\<close> against \<open>a\<close> and \<open>$S/x\<close>.\<close>

theorem mqtt_topic_matching_witness:
  "(\<not> matchTopic [97] [97, LEVEL, HASH] \<and> standard_matches [97, LEVEL, HASH] [97] \<and>
    \<not> ffi_mqtt_topic_matches [97, LEVEL, HASH] [97]) \<and>
   matchTopic [36, 83, LEVEL, 120] [HASH] \<and> \<not> standard_matches [HASH] [36, 83, LEVEL, 120]"
  using mqtt_topic_matching [of "[97, LEVEL, HASH]" "[97]"] mqtt_topic_matching [of "[HASH]" "[36, 83, LEVEL, 120]"]
  by (simp add: standard_matches_def wildcard_first_def dollar_topic_def)

section \<open>What an owned session reports\<close>

text \<open>
  In every state a program can reach through the safe wrappers, an owned MQTT session has at most
  256 subscriptions, can publish exactly when it can subscribe, and its reported state is unreliable
  in a fixed way: a session that can publish reports Connected exactly while it has no subscription
  and Disconnected exactly when it has one, and a session that cannot publish never reports
  Connected or Disconnected.
\<close>

theorem mqtt_live_session:
  assumes "mqtt_client b hs" "h \<in> set hs"
  shows "unat (ffi_mqtt_subscription_count b h) \<le> 256 \<and>
    (ffi_mqtt_can_publish b h \<longleftrightarrow> ffi_mqtt_can_subscribe b h) \<and>
    (ffi_mqtt_state b h = Some MqttSessionState.Connected \<longleftrightarrow>
       ffi_mqtt_can_publish b h \<and> ffi_mqtt_subscription_count b h = 0) \<and>
    (ffi_mqtt_state b h = Some MqttSessionState.Disconnected \<longleftrightarrow>
       ffi_mqtt_can_publish b h \<and> ffi_mqtt_subscription_count b h \<noteq> 0)"
  using mqtt_client_sessions [OF assms(1)] assms(2)
proof (rule mqtt.live_slot)
  fix i
  assume v: "valid_slot mq_active (mb_sessions b) (ctx_slot h) = Some i" and g: "mqtt_good (mb_sessions b ! i)"
  let ?s = "mb_sessions b ! i"
  have small: "active_subs ?s < 4294967296" using active_subs_le [OF g] by simp
  have count: "unat (ffi_mqtt_subscription_count b h) = active_subs ?s"
    "ffi_mqtt_subscription_count b h = 0 \<longleftrightarrow> active_subs ?s = 0"
    using v g small word_of_nat_u32_eq_0 [OF small]
    by (simp_all add: ffi_mqtt_subscription_count_def mqtt_subscription_count_def query_slot_def mqtt_good_def
        unat_of_nat take_bit_nat_eq_self)
  show ?thesis
    using v g active_subs_le [OF g]
    by (cases "mq_state ?s")
       (auto simp: count ffi_mqtt_can_publish_def ffi_mqtt_can_subscribe_def ffi_mqtt_state_def mqtt_can_publish_def
        mqtt_can_subscribe_def mqtt_state_def query_slot_def canPublishState_def canSubscribeState_def
        MqttSessionState_from_tag_def mqtt_good_def counts_ok_def)
qed

lemma mqtt_first_client:
  assumes "v \<le> 1"
  shows "mqtt_client (fst (ffi_mqtt_create mqtt_broker_init v cl k)) [handle 0]"
proof -
  have "first_free mq_active mqtt_sessions = Some 0"
    by (simp add: mqtt_sessions_def empty_session_def numeral_eq_Suc)
  moreover have "\<not> 1 < v" using assms by (simp add: not_less)
  ultimately have "ffi_mqtt_create mqtt_broker_init v cl k =
      (fst (ffi_mqtt_create mqtt_broker_init v cl k), Inr (handle 0))"
    by (simp add: ffi_mqtt_create_def mqtt_create_def mqtt_broker_init_def pool_create_def wrap_slot_def
        from_slot_def handle_def)
  then show ?thesis
    by (intro client.new [where a = "(v, cl, k)" and p = mqtt_broker_init and hs = "[]"] client.start) simp
qed

theorem mqtt_live_session_witness:
  "ffi_mqtt_can_publish (fst (ffi_mqtt_create mqtt_broker_init 0 True 60)) (handle 0) \<longleftrightarrow>
     ffi_mqtt_can_subscribe (fst (ffi_mqtt_create mqtt_broker_init 0 True 60)) (handle 0)"
  using mqtt_live_session [OF mqtt_first_client, of 0 "handle 0" True 60] by simp

section \<open>Retained messages\<close>

text \<open>The store as a map from topics to payload and level.\<close>

definition retained_map :: "RetainedMessage list \<Rightarrow> u8 list \<Rightarrow> (u8 list \<times> mqtt_qos) option" where
  "retained_map rs topic =
     map_option (\<lambda>i. (rm_payload (rs ! i), rm_qos (rs ! i)))
       (first_index (\<lambda>r. rm_active r \<and> rm_topic r = topic) rs)"

definition retained_ok :: "RetainedMessage list \<Rightarrow> bool" where
  "retained_ok rs \<longleftrightarrow> length rs = 128 \<and>
     (\<forall>i < length rs. \<forall>j < length rs. rm_active (rs ! i) \<and> rm_active (rs ! j) \<and> rm_topic (rs ! i) = rm_topic (rs ! j) \<longrightarrow> i = j)"

lemma first_index_Cons:
  "first_index P (x # xs) = (if P x then Some 0 else map_option Suc (first_index P xs))"
  by (simp add: first_index_def)

lemma retained_scan_found:
  "fst (retained_scan topic k free_slot rs) =
     map_option (\<lambda>i. i + k) (first_index (\<lambda>r. rm_active r \<and> rm_topic r = topic) rs)"
proof (induction rs arbitrary: k free_slot)
  case Nil
  then show ?case by (simp add: first_index_def)
next
  case (Cons r rs)
  then show ?case by (simp add: first_index_Cons option.map_comp comp_def)
qed

lemma retained_scan_free:
  "first_index (\<lambda>r. rm_active r \<and> rm_topic r = topic) rs = None \<Longrightarrow>
   snd (retained_scan topic k free_slot rs) =
     (if free_slot = None then map_option (\<lambda>i. i + k) (first_free rm_active rs) else free_slot)"
proof (induction rs arbitrary: k free_slot)
  case Nil
  then show ?case by simp
next
  case (Cons r rs)
  then show ?case by (simp add: first_index_Cons option.map_comp comp_def split: if_splits)
qed

lemma storeRetained_cases:
  "storeRetained topic payload q rs =
     (case first_index (\<lambda>r. rm_active r \<and> rm_topic r = topic) rs of
        Some i \<Rightarrow> if payload = [] then rs[i := (rs ! i)\<lparr>rm_active := False, rm_topic := [], rm_payload := []\<rparr>]
                  else rs[i := (rs ! i)\<lparr>rm_payload := payload, rm_qos := q\<rparr>]
      | None \<Rightarrow> (case first_free rm_active rs of
            Some fi \<Rightarrow> if payload = [] then rs
              else rs[fi := \<lparr>rm_topic = topic, rm_payload = payload, rm_qos = q, rm_active = True\<rparr>]
          | None \<Rightarrow> rs))"
proof (cases "first_index (\<lambda>r. rm_active r \<and> rm_topic r = topic) rs")
  case None
  then have "retained_scan topic 0 None rs = (None, first_free rm_active rs)"
    using retained_scan_found [of topic 0 None rs] retained_scan_free [OF None, of 0 None]
    by (simp add: prod_eq_iff option.map_ident)
  with None show ?thesis by (simp add: storeRetained_def split: option.split)
next
  case (Some i)
  then obtain free where "retained_scan topic 0 None rs = (Some i, free)"
    using retained_scan_found [of topic 0 None rs] by (cases "retained_scan topic 0 None rs") auto
  with Some show ?thesis by (simp add: storeRetained_def)
qed

text \<open>In a store without duplicates an entry determines the map at its topic.\<close>

lemma retained_map_Some:
  assumes "retained_ok rs" "i < length rs" "rm_active (rs ! i)"
  shows "retained_map rs (rm_topic (rs ! i)) = Some (rm_payload (rs ! i), rm_qos (rs ! i))"
proof -
  have "first_index (\<lambda>r. rm_active r \<and> rm_topic r = rm_topic (rs ! i)) rs = Some i"
    using assms unfolding first_index_Some_iff retained_ok_def by (metis less_trans less_irrefl)
  then show ?thesis by (simp add: retained_map_def)
qed

lemma retained_map_None: "retained_map rs t = None \<longleftrightarrow> (\<forall>r \<in> set rs. rm_active r \<longrightarrow> rm_topic r \<noteq> t)"
  by (auto simp: retained_map_def first_index_None_iff)

lemma retained_map_unique:
  assumes "retained_ok rs"
  shows "retained_map rs t = Some v \<longleftrightarrow>
    (\<exists>i < length rs. rm_active (rs ! i) \<and> rm_topic (rs ! i) = t \<and> v = (rm_payload (rs ! i), rm_qos (rs ! i)))"
proof
  assume "retained_map rs t = Some v"
  then show "\<exists>i < length rs. rm_active (rs ! i) \<and> rm_topic (rs ! i) = t \<and> v = (rm_payload (rs ! i), rm_qos (rs ! i))"
    by (auto simp: retained_map_def first_index_Some_iff)
next
  assume "\<exists>i < length rs. rm_active (rs ! i) \<and> rm_topic (rs ! i) = t \<and> v = (rm_payload (rs ! i), rm_qos (rs ! i))"
  then show "retained_map rs t = Some v" using retained_map_Some [OF assms] by blast
qed

lemma retained_ok_update:
  assumes "retained_ok rs" "i < length rs"
    and "rm_active r \<Longrightarrow> rm_active (rs ! i) \<and> rm_topic r = rm_topic (rs ! i) \<or>
      (\<forall>r' \<in> set rs. rm_active r' \<longrightarrow> rm_topic r' \<noteq> rm_topic r)"
  shows "retained_ok (rs[i := r])"
  using assms unfolding retained_ok_def
  by (auto simp: nth_list_update_if split: if_splits) (metis nth_mem)+

lemma retained_map_update:
  assumes "retained_ok rs" "retained_ok (rs[i := r])" "i < length rs"
    and "rm_active (rs ! i) \<Longrightarrow> rm_topic (rs ! i) = t" "rm_active r \<Longrightarrow> rm_topic r = t"
    and "rm_active (rs ! i) \<or> retained_map rs t = None"
  shows "retained_map (rs[i := r]) = (retained_map rs)(t := if rm_active r then Some (rm_payload r, rm_qos r) else None)"
proof
  fix u
  have others: "j < length rs \<Longrightarrow> j \<noteq> i \<Longrightarrow> rm_active (rs ! j) \<Longrightarrow> rm_topic (rs ! j) \<noteq> t" for j
    using assms(1,3,4,6) by (auto simp: retained_ok_def retained_map_None)
  have "retained_map (rs[i := r]) u = Some v \<longleftrightarrow>
      ((retained_map rs)(t := if rm_active r then Some (rm_payload r, rm_qos r) else None)) u = Some v" for v
  proof (cases "u = t")
    case True
    have "(\<exists>k < length (rs[i := r]). rm_active (rs[i := r] ! k) \<and> rm_topic (rs[i := r] ! k) = t \<and>
        v = (rm_payload (rs[i := r] ! k), rm_qos (rs[i := r] ! k))) \<longleftrightarrow>
      rm_active r \<and> v = (rm_payload r, rm_qos r)"
      using assms(3,5) others by (auto simp: nth_list_update_if)
    then show ?thesis using True unfolding retained_map_unique [OF assms(2)] by auto
  next
    case False
    have "(\<exists>k < length (rs[i := r]). rm_active (rs[i := r] ! k) \<and> rm_topic (rs[i := r] ! k) = u \<and>
        v = (rm_payload (rs[i := r] ! k), rm_qos (rs[i := r] ! k))) \<longleftrightarrow>
      (\<exists>k < length rs. rm_active (rs ! k) \<and> rm_topic (rs ! k) = u \<and> v = (rm_payload (rs ! k), rm_qos (rs ! k)))"
      using assms(3,4,5) False by (metis length_list_update nth_list_update_if)
    then show ?thesis
      using False unfolding retained_map_unique [OF assms(2)] by (simp add: retained_map_unique [OF assms(1)])
  qed
  then show "retained_map (rs[i := r]) u =
      ((retained_map rs)(t := if rm_active r then Some (rm_payload r, rm_qos r) else None)) u"
    by (metis option.exhaust)
qed

lemma storeRetained_map:
  assumes "retained_ok rs"
  shows "retained_ok (storeRetained topic payload q rs)"
    and "retained_map (storeRetained topic payload q rs) =
      (if payload = [] then (retained_map rs)(topic := None)
       else if retained_map rs topic \<noteq> None \<or> (\<exists>r \<in> set rs. \<not> rm_active r)
       then (retained_map rs)(topic \<mapsto> (payload, q)) else retained_map rs)"
proof -
  have "retained_ok (storeRetained topic payload q rs) \<and>
    retained_map (storeRetained topic payload q rs) =
      (if payload = [] then (retained_map rs)(topic := None)
       else if retained_map rs topic \<noteq> None \<or> (\<exists>r \<in> set rs. \<not> rm_active r)
       then (retained_map rs)(topic \<mapsto> (payload, q)) else retained_map rs)"
  proof (cases "first_index (\<lambda>r. rm_active r \<and> rm_topic r = topic) rs")
    case (Some i)
    then have i: "i < length rs" "rm_active (rs ! i)" "rm_topic (rs ! i) = topic"
      by (simp_all add: first_index_Some_iff)
    have m: "retained_map rs topic \<noteq> None" using Some by (simp add: retained_map_def)
    have ok1: "retained_ok (rs[i := (rs ! i)\<lparr>rm_active := False, rm_topic := [], rm_payload := []\<rparr>])"
      and ok2: "retained_ok (rs[i := (rs ! i)\<lparr>rm_payload := payload, rm_qos := q\<rparr>])"
      by (rule retained_ok_update [OF assms i(1)], use i(2) in simp)+
    show ?thesis
      using Some m ok1 ok2 retained_map_update [OF assms ok1 i(1), of topic]
        retained_map_update [OF assms ok2 i(1), of topic] i
      by (simp add: storeRetained_cases)
  next
    case None
    then have m: "retained_map rs topic = None" by (simp add: retained_map_def)
    show ?thesis
    proof (cases "first_free rm_active rs")
      case None': None
      then have "\<forall>r \<in> set rs. rm_active r" by (auto simp: first_free_None_iff in_set_conv_nth)
      with None None' m assms show ?thesis by (auto simp: storeRetained_cases fun_upd_idem)
    next
      case (Some fi)
      then have fi: "fi < length rs" "\<not> rm_active (rs ! fi)" by (simp_all add: first_free_Some_iff)
      let ?r = "\<lparr>rm_topic = topic, rm_payload = payload, rm_qos = q, rm_active = True\<rparr>"
      have ok: "retained_ok (rs[fi := ?r])"
        using m by (intro retained_ok_update assms fi) (simp add: retained_map_None)
      have "\<exists>r \<in> set rs. \<not> rm_active r" using fi by (metis nth_mem)
      with None Some m ok assms fi retained_map_update [OF assms ok fi(1), of topic] show ?thesis
        by (simp add: storeRetained_cases fun_upd_idem)
    qed
  qed
  then show "retained_ok (storeRetained topic payload q rs)"
    and "retained_map (storeRetained topic payload q rs) =
      (if payload = [] then (retained_map rs)(topic := None)
       else if retained_map rs topic \<noteq> None \<or> (\<exists>r \<in> set rs. \<not> rm_active r)
       then (retained_map rs)(topic \<mapsto> (payload, q)) else retained_map rs)"
    by simp_all
qed

lemma publish_retained:
  "mb_retained (fst (mqtt_publish b slot topic payload qos retain packet_id)) =
    (case valid_slot mq_active (mb_sessions b) slot of
       None \<Rightarrow> mb_retained b
     | Some i \<Rightarrow>
         if canPublishState (mq_state (mb_sessions b ! i)) \<and> \<not> qos > 2 \<and> topic \<noteq> [] \<and> length topic \<le> 256 \<and>
            retain \<noteq> 0 \<and> length payload \<le> 4096
         then storeRetained topic payload (mqtt_qos_of qos) (mb_retained b) else mb_retained b)"
  by (auto simp: mqtt_publish_def mqtt_publish_on_def Let_def allocTracker_def MAX_TOPIC_LEN_def
      MAX_PAYLOAD_LEN_def not_le split: option.split)

lemma retained_elsewhere [simp]:
  "mb_retained (fst (mqtt_on_session b slot f)) = mb_retained b"
  "mb_retained (mqtt_destroy b slot) = mb_retained b"
  "mb_retained (fst (mqtt_create b v cl k)) = mb_retained b"
  by (simp_all add: mqtt_on_session_def mqtt_destroy_def mqtt_create_def case_prod_beta)

lemma mqtt_client_retained:
  assumes "mqtt_client b hs"
  shows "retained_ok (mb_retained b)"
proof (rule client_invariant [OF assms])
  show "retained_ok (mb_retained mqtt_broker_init)"
    by (simp add: retained_ok_def mqtt_broker_init_def MAX_RETAINED_def empty_retained_def)
  fix q :: mqtt_broker and h x and a :: "u8 \<times> bool \<times> u16"
  assume ok: "retained_ok (mb_retained q)"
  then show "retained_ok (mb_retained (fst ((case a of (v, cl, k) \<Rightarrow> \<lambda>b. ffi_mqtt_create b v cl k) q)))"
    by (cases a) (simp add: ffi_mqtt_create_def wrap_slot_def)
  from ok show "retained_ok (mb_retained (ffi_mqtt_drop q h))" by (simp add: ffi_mqtt_drop_def)
  from ok show "retained_ok (mb_retained (fst (ffi_mqtt_call x q h)))"
    by (cases x)
       (simp_all add: ffi_mqtt_op_defs publish_retained storeRetained_map(1) split: option.split)
qed

lemma retained_room:
  assumes "retained_ok (mb_retained b)"
  shows "unat (ffi_mqtt_retained_count b) < 128 \<longleftrightarrow> (\<exists>r \<in> set (mb_retained b). \<not> rm_active r)"
proof -
  let ?rs = "mb_retained b"
  have len: "length ?rs = 128" using assms by (simp add: retained_ok_def)
  then have le: "length (filter rm_active ?rs) \<le> 128" using length_filter_le [of rm_active ?rs] by simp
  have "ffi_mqtt_retained_count b = word_of_nat (length (filter rm_active ?rs))"
    using foldl_count [of rm_active 0 ?rs] by (simp add: ffi_mqtt_retained_count_def mqtt_retained_count_def)
  then have "unat (ffi_mqtt_retained_count b) = length (filter rm_active ?rs)"
    using le by (simp add: unat_of_nat take_bit_nat_eq_self)
  moreover have "length (filter rm_active ?rs) < length ?rs \<longleftrightarrow> (\<exists>r \<in> set ?rs. \<not> rm_active r)"
    using length_filter_less [of _ ?rs rm_active] by (metis filter_True less_irrefl)
  ultimately show ?thesis by (simp add: len)
qed

lemma QoS_code_le: "\<not> 2 < QoS_to_code q"
  by (cases q) simp_all

text \<open>
  C13: The retained messages behave as a map from topics to payload and level. A publish through the
  wrapper changes the map only when it is marked retained, the session can publish, the topic has 1
  to 256 bytes and the payload at most 4096; then an empty payload removes the topic, a known topic
  is overwritten, and a new topic is added unless 128 messages are stored already, in which case the
  message is dropped silently. This does not depend on whether the publish itself is accepted.
\<close>

theorem mqtt_retained_publish:
  assumes "mqtt_client b hs" "h \<in> set hs"
    and "length topic < 4294967296" "length payload < 4294967296"
  defines "m \<equiv> retained_map (mb_retained b)"
  shows "retained_map (mb_retained (fst (ffi_mqtt_publish b h topic payload qos retain packet_id))) =
    (if \<not> (retain \<and> ffi_mqtt_can_publish b h \<and> topic \<noteq> [] \<and> length topic \<le> 256 \<and> length payload \<le> 4096) then m
     else if payload = [] then m(topic := None)
     else if m topic \<noteq> None \<or> unat (ffi_mqtt_retained_count b) < 128
     then m(topic \<mapsto> (payload, mqtt_qos_of (QoS_to_code qos)))
     else m)"
  using mqtt_client_sessions [OF assms(1)] assms(2)
proof (rule mqtt.live_slot)
  fix i
  assume v: "valid_slot mq_active (mb_sessions b) (ctx_slot h) = Some i"
  have ok: "retained_ok (mb_retained b)" using assms(1) by (rule mqtt_client_retained)
  have can: "ffi_mqtt_can_publish b h \<longleftrightarrow> canPublishState (mq_state (mb_sessions b ! i))"
    using v by (simp add: ffi_mqtt_can_publish_def mqtt_can_publish_def query_slot_def)
  show ?thesis
    using v assms(3,4) QoS_code_le [of qos]
    by (simp add: ffi_mqtt_publish_def publish_retained can m_def storeRetained_map(2) [OF ok] retained_room [OF ok])
qed

theorem mqtt_retained_publish_witness:
  "retained_map (mb_retained (fst (ffi_mqtt_publish (fst (ffi_mqtt_create mqtt_broker_init 0 True 60)) (handle 0)
     [97] [] QoS.AtMostOnce True 0))) [97] = None"
proof -
  let ?b = "fst (ffi_mqtt_create mqtt_broker_init 0 True 60)"
  have "retained_map (mb_retained ?b) [97] = None"
    by (simp add: retained_map_None ffi_mqtt_create_def wrap_slot_def mqtt_broker_init_def empty_retained_def)
  then show ?thesis
    using mqtt_retained_publish [OF mqtt_first_client, of 0 "handle 0" "[97]" "[]" True 60 QoS.AtMostOnce True 0]
    by simp
qed

section \<open>Acknowledgements\<close>

text \<open>
  The QoS 2 handshake is followed step by step: from a session that satisfies the invariant and
  can publish, with an unused packet identifier and a free tracker, the publish is accepted, and then
  exactly PUBREC, PUBREL and PUBCOMP of that identifier are accepted, in this order; at each step the
  other three acknowledgements are refused, and at the end the session is back in the state it
  published from.
\<close>

theorem mqtt_qos2_handshake:
  fixes payload :: "u8 list" and retain :: bool
  assumes "mqtt_good s" "canPublishState (mq_state s)" "findTracker pid s = None"
    and "\<exists>t \<in> set (mq_inflight s). \<not> tr_active t" "topic \<noteq> []" "length topic \<le> 256"
  defines "s1 \<equiv> fst (mqtt_step (Mc_publish topic payload QoS.ExactlyOnce retain pid) s)"
  defines "s2 \<equiv> fst (mqtt_step (Mc_pubrec pid) s1)"
  defines "s3 \<equiv> fst (mqtt_step (Mc_pubrel pid) s2)"
  defines "s4 \<equiv> fst (mqtt_step (Mc_pubcomp pid) s3)"
  shows "snd (mqtt_step (Mc_publish topic payload QoS.ExactlyOnce retain pid) s) = 0 \<and>
    mq_state s1 = mq_publishing \<and>
    snd (mqtt_step (Mc_pubrec pid) s1) = 0 \<and> snd (mqtt_step (Mc_pubrel pid) s2) = 0 \<and>
    snd (mqtt_step (Mc_pubcomp pid) s3) = 0 \<and>
    (\<forall>x \<in> {Mc_puback pid, Mc_pubrel pid, Mc_pubcomp pid}. snd (mqtt_step x s1) = 1) \<and>
    (\<forall>x \<in> {Mc_puback pid, Mc_pubrec pid, Mc_pubcomp pid}. snd (mqtt_step x s2) = 1) \<and>
    (\<forall>x \<in> {Mc_puback pid, Mc_pubrec pid, Mc_pubrel pid}. snd (mqtt_step x s3) = 1) \<and>
    mq_state s4 = mq_state s"
proof -
  obtain i where free: "first_free tr_active (mq_inflight s) = Some i"
    using assms(4) by (cases "first_free tr_active (mq_inflight s)") (auto simp: first_free_None_iff in_set_conv_nth)
  then have i: "i < length (mq_inflight s)" "\<not> tr_active (mq_inflight s ! i)"
    by (simp_all add: first_free_Some_iff)
  define at where "at st = \<lparr>tr_packet_id = pid, tr_state = st, tr_qos_level = exactly_once, tr_active = True\<rparr>" for st
  define sess where "sess st = s\<lparr>mq_inflight := (mq_inflight s)[i := at st],
      mq_had_subs := (mq_state s = mq_subscribed), mq_state := mq_publishing\<rparr>" for st
  have none: "\<forall>t \<in> set (mq_inflight s). \<not> (tr_active t \<and> tr_packet_id t = pid)"
    using assms(3) by (simp add: findTracker_def first_index_None_iff)
  have find: "findTracker pid (sess st) = Some i" for st
    using i none by (auto simp: findTracker_def first_index_Some_iff sess_def at_def nth_list_update_if)
  have nth: "mq_inflight (sess st) ! i = at st" for st using i by (simp add: sess_def)
  have set: "set_delivery i st (sess st') = sess st" for st st'
    using i by (simp add: set_delivery_def sess_def at_def)
  have len: "length topic \<noteq> 0" "len_u32 topic = topic" using assms(5,6) by simp_all
  have pub: "mqtt_step (Mc_publish topic payload QoS.ExactlyOnce retain pid) s = (sess awaiting_pubrec, 0)"
    using assms(2,5,6) len free i
    by (simp add: mqtt_publish_on_def Let_def mqtt_qos_of_def allocTracker_def MAX_TOPIC_LEN_def sess_def at_def)
  then have s1: "s1 = sess awaiting_pubrec" by (simp add: s1_def)
  have s2: "s2 = sess awaiting_pubrel"
    by (simp add: s2_def s1 mqtt_pubrec_on_def find nth set) (simp add: at_def)
  have s3: "s3 = sess awaiting_pubcomp"
    by (simp add: s3_def s2 mqtt_pubrel_on_def find nth set) (simp add: at_def)
  have "open_deliveries s = 0"
    using assms(1,2) by (auto simp: mqtt_good_def counts_ok_def canPublishState_def)
  then have "open_deliveries (sess qd_complete) = 0"
    using length_filter_update [OF i(1), of in_flight "at qd_complete"]
    by (simp add: open_deliveries_def sess_def at_def in_flight_def split: if_splits)
  then have "maybeExitPublishing (sess qd_complete) =
      (sess qd_complete)\<lparr>mq_state := (if mq_state s = mq_subscribed then mq_subscribed else mq_connected)\<rparr>"
    by (simp add: maybeExitPublishing_def countInflight_eq) (simp add: sess_def)
  then have "mq_state s4 = (if mq_state s = mq_subscribed then mq_subscribed else mq_connected)"
    by (simp add: s4_def s3 mqtt_pubcomp_on_def find nth set) (simp add: at_def)
  then have same: "mq_state s4 = mq_state s" using assms(2) by (auto simp: canPublishState_def)
  show ?thesis unfolding pub s1 s2 s3 using same
    by (simp add: mqtt_puback_on_def mqtt_pubrec_on_def mqtt_pubrel_on_def mqtt_pubcomp_on_def find nth)
       (simp add: at_def sess_def)
qed

theorem mqtt_qos2_handshake_witness:
  "snd (mqtt_step (Mc_publish [97] [1, 2] QoS.ExactlyOnce False 7) (mqtt_fresh (0, 1, 60) (mqtt_sessions ! 0))) = 0"
proof -
  let ?s = "mqtt_fresh (0, 1, 60) (mqtt_sessions ! 0)"
  have "mq_inflight ?s = replicate 64 empty_tracker"
    by (simp add: mqtt_fresh_def empty_session_def MAX_INFLIGHT_def)
  then have "findTracker 7 ?s = None" "\<exists>t \<in> set (mq_inflight ?s). \<not> tr_active t"
    by (simp_all add: findTracker_def first_index_None_iff empty_tracker_def)
  moreover have "canPublishState (mq_state ?s)" by (simp add: mqtt_fresh_def canPublishState_def)
  ultimately show ?thesis
    using mqtt_qos2_handshake [of ?s 7 "[97]" "[1, 2]" False] mqtt_good_fresh [of "(0, 1, 60)" "mqtt_sessions ! 0"] by simp
qed

text \<open>The trackers in use are the first ones: they are never released before a cleanup.\<close>

definition used_first :: "QoSTracker list \<Rightarrow> bool" where
  "used_first ts \<longleftrightarrow> (\<forall>j < length ts. \<forall>i < j. tr_active (ts ! j) \<longrightarrow> tr_active (ts ! i))"

lemma used_first_update:
  assumes "used_first ts" "i < length ts" "tr_active t = tr_active (ts ! i)"
  shows "used_first (ts[i := t])"
  using assms by (auto simp: used_first_def nth_list_update_if)

lemma used_first_alloc:
  assumes "used_first ts" "first_free tr_active ts = Some i" "tr_active t"
  shows "used_first (ts[i := t])"
  using assms by (auto simp: used_first_def nth_list_update_if first_free_Some_iff)

lemma set_delivery_used_first:
  "ti < length (mq_inflight s) \<Longrightarrow> used_first (mq_inflight s) \<Longrightarrow> used_first (mq_inflight (set_delivery ti st s))"
  by (simp add: set_delivery_def used_first_update)

lemma maybeExit_inflight [simp]: "mq_inflight (maybeExitPublishing s) = mq_inflight s"
  by (simp add: maybeExitPublishing_def)

lemma used_first_step:
  assumes "used_first (mq_inflight s)"
  shows "used_first (mq_inflight (fst (mqtt_step x s)))"
proof (cases x)
  case (Mc_publish topic payload qos retain pid)
  with assms show ?thesis
    by (auto simp: mqtt_publish_on_def Let_def allocTracker_def intro!: used_first_alloc
        dest: first_free_index split: option.split)
next
  case Mc_cleanup
  with assms show ?thesis
    by (auto simp: mqtt_cleanup_on_def Let_def used_first_def empty_tracker_def)
qed (use assms in \<open>auto simp: op_simps Let_def set_delivery_used_first dest: findTracker_Some split: option.split\<close>)

lemma used_first_run: "used_first (mq_inflight (fst (session_run mqtt_step (mqtt_fresh a s0) ops)))"
proof (induction ops rule: rev_induct)
  case Nil
  then show ?case by (cases a) (simp add: mqtt_fresh_def empty_session_def empty_tracker_def used_first_def)
next
  case (snoc x ops)
  then show ?case by (simp add: session_run_snoc Let_def case_prod_beta used_first_step)
qed

lemma mqtt_good_run:
  "fst a \<le> 1 \<Longrightarrow> mqtt_good (fst (session_run mqtt_step (mqtt_fresh a s0) ops))"
  by (induction ops rule: rev_induct)
     (simp_all add: mqtt_good_fresh session_run_snoc Let_def case_prod_beta mqtt_good_step)

text \<open>A session in Publishing whose only open delivery no acknowledgement finds.\<close>

definition shadowed :: "MqttSession \<Rightarrow> bool" where
  "shadowed s \<longleftrightarrow> mq_state s = mq_publishing \<and>
     (\<forall>pid ti. findTracker pid s = Some ti \<longrightarrow> tr_state (mq_inflight s ! ti) = qd_complete)"

lemma shadowed_step: "shadowed s \<Longrightarrow> x \<noteq> Mc_disconnect \<Longrightarrow> mqtt_step x s = (s, 1)"
  by (cases x)
     (auto simp: op_simps mqtt_publish_on_def Let_def shadowed_def canSubscribeState_def canPublishState_def
       split: option.split)

lemma shadowed_run:
  assumes "shadowed s" "Mc_disconnect \<notin> set ops"
  shows "session_run mqtt_step s ops = (s, [])"
  using assms(2)
proof (induction ops rule: rev_induct)
  case (snoc x ops)
  then show ?case using shadowed_step [OF assms(1), of x] by (auto simp: session_run_snoc)
qed simp

lemma reuse_shadowed:
  fixes st :: delivery_state
  assumes "mqtt_good s" "used_first (mq_inflight s)" "canPublishState (mq_state s)"
    and "findTracker pid s = Some ti" "first_free tr_active (mq_inflight s) = Some i" "q \<noteq> at_most_once"
  defines "t \<equiv> \<lparr>tr_packet_id = pid, tr_state = st, tr_qos_level = q, tr_active = True\<rparr>"
  shows "shadowed (s\<lparr>mq_inflight := (mq_inflight s)[i := t], mq_had_subs := b, mq_state := mq_publishing\<rparr>)"
proof -
  let ?s = "s\<lparr>mq_inflight := (mq_inflight s)[i := t], mq_had_subs := b, mq_state := mq_publishing\<rparr>"
  have i: "i < length (mq_inflight s)" "\<not> tr_active (mq_inflight s ! i)"
    using assms(5) by (simp_all add: first_free_Some_iff)
  have ti: "ti < length (mq_inflight s)" "tr_active (mq_inflight s ! ti)" "tr_packet_id (mq_inflight s ! ti) = pid"
    using findTracker_Some [OF assms(4)] by simp_all
  have ti_i: "ti < i" using assms(2) i ti by (metis used_first_def linorder_neqE_nat)
  have complete: "tr_state (mq_inflight s ! j) = qd_complete"
    if "j < length (mq_inflight s)" "tr_active (mq_inflight s ! j)" for j
  proof -
    have "open_deliveries s = 0" using assms(1,3) by (auto simp: mqtt_good_def counts_ok_def canPublishState_def)
    then have "\<not> in_flight (mq_inflight s ! j)" using open_positive [OF that(1)] by auto
    moreover have "delivery_ok (mq_inflight s ! j)" using assms(1) that(1) by (simp add: mqtt_good_def)
    ultimately show ?thesis using that(2) by (auto simp: in_flight_def delivery_ok_def)
  qed
  have "tr_state (mq_inflight ?s ! j) = qd_complete" if "findTracker p ?s = Some j" for p j
  proof -
    have j: "j < length (mq_inflight s)" "tr_active (mq_inflight ?s ! j)" "tr_packet_id (mq_inflight ?s ! j) = p"
      and first: "\<forall>k < j. \<not> (tr_active (mq_inflight ?s ! k) \<and> tr_packet_id (mq_inflight ?s ! k) = p)"
      using that by (auto simp: findTracker_def first_index_Some_iff)
    have "j \<noteq> i"
    proof
      assume "j = i"
      with j i have "p = pid" by (simp add: t_def)
      with first ti ti_i \<open>j = i\<close> i show False by (auto simp: nth_list_update_if)
    qed
    with j i complete show ?thesis by (simp add: nth_list_update_if)
  qed
  then show ?thesis unfolding shadowed_def by simp
qed

text \<open>
  Reusing a packet identifier blocks an MQTT session. Take any session a run reaches from a fresh
  one, in which it can publish and in which the identifier was used before, with a free tracker left:
  publishing again with that identifier at QoS 1 or 2 is accepted, and afterwards every operation
  except a disconnect is refused and changes nothing, acknowledgements of the identifier included.
\<close>

theorem mqtt_packet_id_reuse:
  fixes a :: "u8 \<times> u8 \<times> u16" and s0 :: MqttSession and ops :: "mqtt_call list"
    and payload :: "u8 list" and retain :: bool
  defines "s \<equiv> fst (session_run mqtt_step (mqtt_fresh a s0) ops)"
  assumes "fst a \<le> 1" "canPublishState (mq_state s)" "findTracker pid s \<noteq> None"
    and "\<exists>t \<in> set (mq_inflight s). \<not> tr_active t"
    and "topic \<noteq> []" "length topic \<le> 256" "qos \<noteq> QoS.AtMostOnce" "Mc_disconnect \<notin> set later"
  defines "s1 \<equiv> fst (mqtt_step (Mc_publish topic payload qos retain pid) s)"
  shows "snd (mqtt_step (Mc_publish topic payload qos retain pid) s) = 0 \<and>
    mq_state s1 = mq_publishing \<and> session_run mqtt_step s1 later = (s1, [])"
proof -
  have good: "mqtt_good s" and used: "used_first (mq_inflight s)"
    unfolding s_def by (rule mqtt_good_run [OF assms(2)], rule used_first_run)
  obtain i where free: "first_free tr_active (mq_inflight s) = Some i"
    using assms(5) by (cases "first_free tr_active (mq_inflight s)") (auto simp: first_free_None_iff in_set_conv_nth)
  then have i: "i < length (mq_inflight s)" by (simp add: first_free_Some_iff)
  obtain ti where ti: "findTracker pid s = Some ti" using assms(4) by auto
  have q: "mqtt_qos_of (QoS_to_code qos) \<noteq> at_most_once"
    using assms(8) by (cases qos) (simp_all add: mqtt_qos_of_def)
  define st where "st = (if mqtt_qos_of (QoS_to_code qos) = at_least_once then awaiting_puback else awaiting_pubrec)"
  have pub: "mqtt_step (Mc_publish topic payload qos retain pid) s =
      (s\<lparr>mq_inflight := (mq_inflight s)[i := \<lparr>tr_packet_id = pid, tr_state = st,
           tr_qos_level = mqtt_qos_of (QoS_to_code qos), tr_active = True\<rparr>],
         mq_had_subs := (mq_state s = mq_subscribed), mq_state := mq_publishing\<rparr>, 0)"
    using assms(3,6,7) free i q QoS_code_le [of qos]
    by (simp add: mqtt_publish_on_def Let_def allocTracker_def MAX_TOPIC_LEN_def st_def)
  have "shadowed s1"
    unfolding s1_def pub fst_conv by (rule reuse_shadowed [OF good used assms(3) ti free q])
  with shadowed_run [OF this assms(9)] pub show ?thesis by (simp add: s1_def)
qed

theorem mqtt_packet_id_reuse_witness:
  "\<exists>s. mq_state s = mq_publishing \<and>
     session_run mqtt_step s [Mc_puback 1, Mc_subscribe [98] QoS.AtMostOnce, Mc_puback 1] = (s, [])"
proof -
  let ?new = "mqtt_fresh (0, 1, 60) (mqtt_sessions ! 0)"
  let ?ops = "[Mc_publish [97] [] QoS.AtLeastOnce False 1, Mc_puback 1]"
  let ?t = "\<lparr>tr_packet_id = 1, tr_state = qd_complete, tr_qos_level = at_least_once, tr_active = True\<rparr>"
  let ?s = "fst (session_run mqtt_step ?new ?ops)"
  have "replicate 64 empty_tracker = empty_tracker # replicate 63 empty_tracker"
    by (simp flip: replicate_Suc)
  then have fresh: "mq_inflight ?new = empty_tracker # replicate 63 empty_tracker" "mq_state ?new = mq_connected"
    by (simp_all add: mqtt_fresh_def empty_session_def MAX_INFLIGHT_def)
  have idle: "\<not> tr_active empty_tracker" by (simp add: empty_tracker_def)
  have "mq_inflight ?s = ?t # replicate 63 empty_tracker \<and> mq_state ?s = mq_connected"
    by (simp add: session_run_def mqtt_publish_on_def mqtt_puback_on_def Let_def canPublishState_def
        mqtt_qos_of_def allocTracker_def MAX_TOPIC_LEN_def fresh idle findTracker_def first_index_def set_delivery_def
        maybeExitPublishing_def countInflight_eq open_deliveries_def in_flight_def)
  then have run: "mq_inflight ?s = ?t # replicate 63 empty_tracker" "mq_state ?s = mq_connected" by blast+
  have "findTracker 1 ?s \<noteq> None" "\<exists>t \<in> set (mq_inflight ?s). \<not> tr_active t"
    by (simp_all add: findTracker_def run first_index_None_iff empty_tracker_def)
  then show ?thesis
    using mqtt_packet_id_reuse [of "(0, 1, 60)" "mqtt_sessions ! 0" ?ops 1 "[97]" QoS.AtLeastOnce
        "[Mc_puback 1, Mc_subscribe [98] QoS.AtMostOnce, Mc_puback 1]" "[]" False]
    by (auto simp: run(2) canPublishState_def)
qed

end
