(* ===== verification/Grpc_Engine.thy ===== *)
theory Grpc_Engine
  imports Slot_Pool Tag_Codec
begin

text \<open>
  The gRPC stream engine \<open>protocols/proven-grpc/ffi/zig/src/grpc.zig\<close>: one context per HTTP/2 stream,
  with its state, its status code and its two flow control windows, and the counter the stream
  identifiers are taken from. A window is an \<open>i32\<close>, a 32-bit word read with \<open>sint\<close>; the sums of the
  updates are taken in \<open>i64\<close>, where they do not wrap, and so are integers here.
\<close>

section \<open>State\<close>

datatype grpc_stream =
    gr_idle | gr_open | gr_half_closed_local | gr_half_closed_remote | gr_closed | gr_reserved

primrec grpc_stream_tag :: "grpc_stream \<Rightarrow> u8" where
  "grpc_stream_tag gr_idle = 0"
| "grpc_stream_tag gr_open = 1"
| "grpc_stream_tag gr_half_closed_local = 2"
| "grpc_stream_tag gr_half_closed_remote = 3"
| "grpc_stream_tag gr_closed = 4"
| "grpc_stream_tag gr_reserved = 5"

text \<open>The compression is kept as its tag: the guard of the create admits the tags 0 to 4 only.\<close>

record GrpcStreamContext =
  gr_stream_state :: grpc_stream
  gr_compression :: u8
  gr_status_code :: u8
  gr_send_window :: i32
  gr_recv_window :: i32
  gr_stream_id :: u32
  gr_active :: bool

record grpc_library =
  gl_contexts :: "GrpcStreamContext list"
  gl_next_stream_id :: u32

definition DEFAULT_WINDOW_SIZE :: i32 where
  "DEFAULT_WINDOW_SIZE = 65535"

definition grpc_contexts :: "GrpcStreamContext list" where
  "grpc_contexts = replicate 64
     \<lparr>gr_stream_state = gr_idle, gr_compression = 0, gr_status_code = 255,
      gr_send_window = DEFAULT_WINDOW_SIZE, gr_recv_window = DEFAULT_WINDOW_SIZE,
      gr_stream_id = 0, gr_active = False\<rparr>"

definition grpc_library_init :: grpc_library where
  "grpc_library_init = \<lparr>gl_contexts = grpc_contexts, gl_next_stream_id = 1\<rparr>"

section \<open>Lifecycle and queries\<close>

definition grpc_abi_version :: u32 where
  "grpc_abi_version = 1"

definition grpc_fresh :: "u8 \<times> u32 \<Rightarrow> GrpcStreamContext \<Rightarrow> GrpcStreamContext" where
  "grpc_fresh a c =
     \<lparr>gr_stream_state = gr_idle, gr_compression = fst a, gr_status_code = 255,
      gr_send_window = DEFAULT_WINDOW_SIZE, gr_recv_window = DEFAULT_WINDOW_SIZE,
      gr_stream_id = snd a, gr_active = True\<rparr>"

text \<open>The identifier is taken, and the counter moved by 2, only when a free slot is found.\<close>

definition grpc_create :: "grpc_library \<Rightarrow> u8 \<Rightarrow> grpc_library \<times> c_int" where
  "grpc_create l compression =
     (if compression > 4 then (l, - 1)
      else case first_free gr_active (gl_contexts l) of
          Some i \<Rightarrow>
            let sid = gl_next_stream_id l in
            (\<lparr>gl_contexts = (gl_contexts l)[i := grpc_fresh (compression, sid) (gl_contexts l ! i)],
              gl_next_stream_id = sid + 2\<rparr>, word_of_nat i)
        | None \<Rightarrow> (l, - 1))"

definition grpc_off :: "GrpcStreamContext \<Rightarrow> GrpcStreamContext" where
  "grpc_off c = c\<lparr>gr_active := False\<rparr>"

definition grpc_destroy :: "grpc_library \<Rightarrow> c_int \<Rightarrow> grpc_library" where
  "grpc_destroy l slot = l\<lparr>gl_contexts := pool_destroy grpc_off (gl_contexts l) slot\<rparr>"

definition grpc_query :: "grpc_library \<Rightarrow> c_int \<Rightarrow> 'r \<Rightarrow> (GrpcStreamContext \<Rightarrow> 'r) \<Rightarrow> 'r" where
  "grpc_query l slot dflt f = query_slot gr_active (gl_contexts l) slot dflt f"

definition grpc_stream_state :: "grpc_library \<Rightarrow> c_int \<Rightarrow> u8" where
  "grpc_stream_state l slot = grpc_query l slot 4 (\<lambda>c. grpc_stream_tag (gr_stream_state c))"

definition grpc_compression :: "grpc_library \<Rightarrow> c_int \<Rightarrow> u8" where
  "grpc_compression l slot = grpc_query l slot 255 gr_compression"

definition grpc_status_code :: "grpc_library \<Rightarrow> c_int \<Rightarrow> u8" where
  "grpc_status_code l slot = grpc_query l slot 255 gr_status_code"

definition grpc_stream_id :: "grpc_library \<Rightarrow> c_int \<Rightarrow> u32" where
  "grpc_stream_id l slot = grpc_query l slot 0 gr_stream_id"

definition grpc_can_send :: "grpc_library \<Rightarrow> c_int \<Rightarrow> u8" where
  "grpc_can_send l slot = grpc_query l slot 0
     (\<lambda>c. if gr_stream_state c = gr_open \<or> gr_stream_state c = gr_half_closed_remote then 1 else 0)"

definition grpc_can_receive :: "grpc_library \<Rightarrow> c_int \<Rightarrow> u8" where
  "grpc_can_receive l slot = grpc_query l slot 0
     (\<lambda>c. if gr_stream_state c = gr_open \<or> gr_stream_state c = gr_half_closed_local then 1 else 0)"

definition grpc_send_window :: "grpc_library \<Rightarrow> c_int \<Rightarrow> i32" where
  "grpc_send_window l slot = grpc_query l slot (- 1) gr_send_window"

definition grpc_recv_window :: "grpc_library \<Rightarrow> c_int \<Rightarrow> i32" where
  "grpc_recv_window l slot = grpc_query l slot (- 1) gr_recv_window"

section \<open>Operations\<close>

definition grpc_set_status_on :: "u8 \<Rightarrow> GrpcStreamContext \<Rightarrow> GrpcStreamContext \<times> u8" where
  [op_simps]: "grpc_set_status_on status c =
     (if status > 16 then (c, 1) else (c\<lparr>gr_status_code := status\<rparr>, 0))"

definition grpc_send_headers_on :: "GrpcStreamContext \<Rightarrow> GrpcStreamContext \<times> u8" where
  [op_simps]: "grpc_send_headers_on c =
     (if gr_stream_state c \<noteq> gr_idle then (c, 1) else (c\<lparr>gr_stream_state := gr_open\<rparr>, 0))"

definition grpc_local_end_stream_on :: "GrpcStreamContext \<Rightarrow> GrpcStreamContext \<times> u8" where
  [op_simps]: "grpc_local_end_stream_on c =
     (if gr_stream_state c \<noteq> gr_open then (c, 1) else (c\<lparr>gr_stream_state := gr_half_closed_local\<rparr>, 0))"

definition grpc_remote_end_stream_on :: "GrpcStreamContext \<Rightarrow> GrpcStreamContext \<times> u8" where
  [op_simps]: "grpc_remote_end_stream_on c =
     (if gr_stream_state c \<noteq> gr_open then (c, 1) else (c\<lparr>gr_stream_state := gr_half_closed_remote\<rparr>, 0))"

definition grpc_reset_stream_on :: "u8 \<Rightarrow> GrpcStreamContext \<Rightarrow> GrpcStreamContext \<times> u8" where
  [op_simps]: "grpc_reset_stream_on status c =
     (if gr_stream_state c = gr_idle \<or> gr_stream_state c = gr_closed then (c, 1)
      else
        let c' = (if status \<le> 16 then c\<lparr>gr_status_code := status\<rparr> else c)
        in (c'\<lparr>gr_stream_state := gr_closed\<rparr>, 0))"

definition grpc_close_half_local_on :: "GrpcStreamContext \<Rightarrow> GrpcStreamContext \<times> u8" where
  [op_simps]: "grpc_close_half_local_on c =
     (if gr_stream_state c \<noteq> gr_half_closed_local then (c, 1) else (c\<lparr>gr_stream_state := gr_closed\<rparr>, 0))"

definition grpc_close_half_remote_on :: "GrpcStreamContext \<Rightarrow> GrpcStreamContext \<times> u8" where
  [op_simps]: "grpc_close_half_remote_on c =
     (if gr_stream_state c \<noteq> gr_half_closed_remote then (c, 1) else (c\<lparr>gr_stream_state := gr_closed\<rparr>, 0))"

definition grpc_push_promise_on :: "GrpcStreamContext \<Rightarrow> GrpcStreamContext \<times> u8" where
  [op_simps]: "grpc_push_promise_on c =
     (if gr_stream_state c \<noteq> gr_idle then (c, 1) else (c\<lparr>gr_stream_state := gr_reserved\<rparr>, 0))"

definition grpc_reserved_to_half_on :: "GrpcStreamContext \<Rightarrow> GrpcStreamContext \<times> u8" where
  [op_simps]: "grpc_reserved_to_half_on c =
     (if gr_stream_state c \<noteq> gr_reserved then (c, 1) else (c\<lparr>gr_stream_state := gr_half_closed_remote\<rparr>, 0))"

text \<open>\<open>@intCast\<close> of a result within \<open>i32\<close>.\<close>

definition grpc_update_send_window_on :: "i32 \<Rightarrow> GrpcStreamContext \<Rightarrow> GrpcStreamContext \<times> u8" where
  [op_simps]: "grpc_update_send_window_on delta c =
     (let result = sint (gr_send_window c) + sint delta in
      if result > 2147483647 \<or> result < - 2147483648 then (c, 1)
      else (c\<lparr>gr_send_window := word_of_int result\<rparr>, 0))"

definition grpc_update_recv_window_on :: "i32 \<Rightarrow> GrpcStreamContext \<Rightarrow> GrpcStreamContext \<times> u8" where
  [op_simps]: "grpc_update_recv_window_on delta c =
     (let result = sint (gr_recv_window c) + sint delta in
      if result > 2147483647 \<or> result < - 2147483648 then (c, 1)
      else (c\<lparr>gr_recv_window := word_of_int result\<rparr>, 0))"

definition grpc_on_slot ::
  "grpc_library \<Rightarrow> c_int \<Rightarrow> (GrpcStreamContext \<Rightarrow> GrpcStreamContext \<times> u8) \<Rightarrow> grpc_library \<times> u8" where
  "grpc_on_slot l slot f =
     (let (cs, r) = on_slot gr_active (gl_contexts l) slot 1 f in (l\<lparr>gl_contexts := cs\<rparr>, r))"

definition grpc_set_status :: "grpc_library \<Rightarrow> c_int \<Rightarrow> u8 \<Rightarrow> grpc_library \<times> u8" where
  "grpc_set_status l slot status = grpc_on_slot l slot (grpc_set_status_on status)"

definition grpc_send_headers :: "grpc_library \<Rightarrow> c_int \<Rightarrow> grpc_library \<times> u8" where
  "grpc_send_headers l slot = grpc_on_slot l slot grpc_send_headers_on"

definition grpc_local_end_stream :: "grpc_library \<Rightarrow> c_int \<Rightarrow> grpc_library \<times> u8" where
  "grpc_local_end_stream l slot = grpc_on_slot l slot grpc_local_end_stream_on"

definition grpc_remote_end_stream :: "grpc_library \<Rightarrow> c_int \<Rightarrow> grpc_library \<times> u8" where
  "grpc_remote_end_stream l slot = grpc_on_slot l slot grpc_remote_end_stream_on"

definition grpc_reset_stream :: "grpc_library \<Rightarrow> c_int \<Rightarrow> u8 \<Rightarrow> grpc_library \<times> u8" where
  "grpc_reset_stream l slot status = grpc_on_slot l slot (grpc_reset_stream_on status)"

definition grpc_close_half_local :: "grpc_library \<Rightarrow> c_int \<Rightarrow> grpc_library \<times> u8" where
  "grpc_close_half_local l slot = grpc_on_slot l slot grpc_close_half_local_on"

definition grpc_close_half_remote :: "grpc_library \<Rightarrow> c_int \<Rightarrow> grpc_library \<times> u8" where
  "grpc_close_half_remote l slot = grpc_on_slot l slot grpc_close_half_remote_on"

definition grpc_push_promise :: "grpc_library \<Rightarrow> c_int \<Rightarrow> grpc_library \<times> u8" where
  "grpc_push_promise l slot = grpc_on_slot l slot grpc_push_promise_on"

definition grpc_reserved_to_half :: "grpc_library \<Rightarrow> c_int \<Rightarrow> grpc_library \<times> u8" where
  "grpc_reserved_to_half l slot = grpc_on_slot l slot grpc_reserved_to_half_on"

definition grpc_update_send_window :: "grpc_library \<Rightarrow> c_int \<Rightarrow> i32 \<Rightarrow> grpc_library \<times> u8" where
  "grpc_update_send_window l slot delta = grpc_on_slot l slot (grpc_update_send_window_on delta)"

definition grpc_update_recv_window :: "grpc_library \<Rightarrow> c_int \<Rightarrow> i32 \<Rightarrow> grpc_library \<times> u8" where
  "grpc_update_recv_window l slot delta = grpc_on_slot l slot (grpc_update_recv_window_on delta)"

section \<open>The stateless transition table\<close>

definition grpc_can_transition :: "u8 \<Rightarrow> u8 \<Rightarrow> u8" where
  "grpc_can_transition from to =
     (if from = 0 \<and> to = 1 then 1
      else if from = 1 \<and> to = 2 then 1
      else if from = 1 \<and> to = 3 then 1
      else if from = 1 \<and> to = 4 then 1
      else if from = 2 \<and> to = 4 then 1
      else if from = 3 \<and> to = 4 then 1
      else if from = 0 \<and> to = 5 then 1
      else if from = 5 \<and> to = 3 then 1
      else if from = 5 \<and> to = 4 then 1
      else 0)"

end
