(* ===== verification/Grpc_Types.thy ===== *)
theory Grpc_Types
  imports Tag_Codec
begin

text \<open>
  The pure types of \<open>bindings/rust/src/grpc.rs\<close>: frame types, status codes, cardinalities, compression and the
  HTTP/2 stream states with the transition validation of the Rust API.
\<close>

section \<open>\<open>grpc::StatusCode\<close>\<close>

datatype (plugins only: code) Grpc_StatusCode =
    Ok
  | Cancelled
  | Unknown
  | InvalidArgument
  | DeadlineExceeded
  | NotFound
  | AlreadyExists
  | PermissionDenied
  | ResourceExhausted
  | FailedPrecondition
  | Aborted
  | OutOfRange
  | Unimplemented
  | Internal
  | Unavailable
  | DataLoss
  | Unauthenticated

definition Grpc_StatusCode_from_code :: "u8 \<Rightarrow> Grpc_StatusCode option" where
  "Grpc_StatusCode_from_code code =
     (if code = 0 then Some Grpc_StatusCode.Ok
      else if code = 1 then Some Grpc_StatusCode.Cancelled
      else if code = 2 then Some Grpc_StatusCode.Unknown
      else if code = 3 then Some Grpc_StatusCode.InvalidArgument
      else if code = 4 then Some Grpc_StatusCode.DeadlineExceeded
      else if code = 5 then Some Grpc_StatusCode.NotFound
      else if code = 6 then Some Grpc_StatusCode.AlreadyExists
      else if code = 7 then Some Grpc_StatusCode.PermissionDenied
      else if code = 8 then Some Grpc_StatusCode.ResourceExhausted
      else if code = 9 then Some Grpc_StatusCode.FailedPrecondition
      else if code = 10 then Some Grpc_StatusCode.Aborted
      else if code = 11 then Some Grpc_StatusCode.OutOfRange
      else if code = 12 then Some Grpc_StatusCode.Unimplemented
      else if code = 13 then Some Grpc_StatusCode.Internal
      else if code = 14 then Some Grpc_StatusCode.Unavailable
      else if code = 15 then Some Grpc_StatusCode.DataLoss
      else if code = 16 then Some Grpc_StatusCode.Unauthenticated
      else option.None)"

primrec Grpc_StatusCode_to_code :: "Grpc_StatusCode \<Rightarrow> u8" where
  "Grpc_StatusCode_to_code Grpc_StatusCode.Ok = 0"
| "Grpc_StatusCode_to_code Grpc_StatusCode.Cancelled = 1"
| "Grpc_StatusCode_to_code Grpc_StatusCode.Unknown = 2"
| "Grpc_StatusCode_to_code Grpc_StatusCode.InvalidArgument = 3"
| "Grpc_StatusCode_to_code Grpc_StatusCode.DeadlineExceeded = 4"
| "Grpc_StatusCode_to_code Grpc_StatusCode.NotFound = 5"
| "Grpc_StatusCode_to_code Grpc_StatusCode.AlreadyExists = 6"
| "Grpc_StatusCode_to_code Grpc_StatusCode.PermissionDenied = 7"
| "Grpc_StatusCode_to_code Grpc_StatusCode.ResourceExhausted = 8"
| "Grpc_StatusCode_to_code Grpc_StatusCode.FailedPrecondition = 9"
| "Grpc_StatusCode_to_code Grpc_StatusCode.Aborted = 10"
| "Grpc_StatusCode_to_code Grpc_StatusCode.OutOfRange = 11"
| "Grpc_StatusCode_to_code Grpc_StatusCode.Unimplemented = 12"
| "Grpc_StatusCode_to_code Grpc_StatusCode.Internal = 13"
| "Grpc_StatusCode_to_code Grpc_StatusCode.Unavailable = 14"
| "Grpc_StatusCode_to_code Grpc_StatusCode.DataLoss = 15"
| "Grpc_StatusCode_to_code Grpc_StatusCode.Unauthenticated = 16"

definition Grpc_StatusCode_is_ok :: "Grpc_StatusCode \<Rightarrow> bool" where
  "Grpc_StatusCode_is_ok self =
     (case self of
      Grpc_StatusCode.Ok \<Rightarrow> True
    | _ \<Rightarrow> False)"

primrec Grpc_StatusCode_fmt :: "Grpc_StatusCode \<Rightarrow> string" where
  "Grpc_StatusCode_fmt Grpc_StatusCode.Ok = ''Ok''"
| "Grpc_StatusCode_fmt Grpc_StatusCode.Cancelled = ''Cancelled''"
| "Grpc_StatusCode_fmt Grpc_StatusCode.Unknown = ''Unknown''"
| "Grpc_StatusCode_fmt Grpc_StatusCode.InvalidArgument = ''InvalidArgument''"
| "Grpc_StatusCode_fmt Grpc_StatusCode.DeadlineExceeded = ''DeadlineExceeded''"
| "Grpc_StatusCode_fmt Grpc_StatusCode.NotFound = ''NotFound''"
| "Grpc_StatusCode_fmt Grpc_StatusCode.AlreadyExists = ''AlreadyExists''"
| "Grpc_StatusCode_fmt Grpc_StatusCode.PermissionDenied = ''PermissionDenied''"
| "Grpc_StatusCode_fmt Grpc_StatusCode.ResourceExhausted = ''ResourceExhausted''"
| "Grpc_StatusCode_fmt Grpc_StatusCode.FailedPrecondition = ''FailedPrecondition''"
| "Grpc_StatusCode_fmt Grpc_StatusCode.Aborted = ''Aborted''"
| "Grpc_StatusCode_fmt Grpc_StatusCode.OutOfRange = ''OutOfRange''"
| "Grpc_StatusCode_fmt Grpc_StatusCode.Unimplemented = ''Unimplemented''"
| "Grpc_StatusCode_fmt Grpc_StatusCode.Internal = ''Internal''"
| "Grpc_StatusCode_fmt Grpc_StatusCode.Unavailable = ''Unavailable''"
| "Grpc_StatusCode_fmt Grpc_StatusCode.DataLoss = ''DataLoss''"
| "Grpc_StatusCode_fmt Grpc_StatusCode.Unauthenticated = ''Unauthenticated''"

section \<open>\<open>grpc::StreamType\<close>\<close>

datatype (plugins only: code) Grpc_StreamType =
    Unary
  | ServerStreaming
  | ClientStreaming
  | BidiStreaming

definition Grpc_StreamType_is_client_streaming :: "Grpc_StreamType \<Rightarrow> bool" where
  "Grpc_StreamType_is_client_streaming self =
     (case self of
      Grpc_StreamType.ClientStreaming \<Rightarrow> True
    | Grpc_StreamType.BidiStreaming \<Rightarrow> True
    | _ \<Rightarrow> False)"

definition Grpc_StreamType_is_server_streaming :: "Grpc_StreamType \<Rightarrow> bool" where
  "Grpc_StreamType_is_server_streaming self =
     (case self of
      Grpc_StreamType.ServerStreaming \<Rightarrow> True
    | Grpc_StreamType.BidiStreaming \<Rightarrow> True
    | _ \<Rightarrow> False)"

definition Grpc_StreamType_fmt :: "Grpc_StreamType \<Rightarrow> string" where
  "Grpc_StreamType_fmt self =
     (case self of
      Grpc_StreamType.Unary \<Rightarrow> ''Unary''
    | Grpc_StreamType.ServerStreaming \<Rightarrow> ''ServerStreaming''
    | Grpc_StreamType.ClientStreaming \<Rightarrow> ''ClientStreaming''
    | Grpc_StreamType.BidiStreaming \<Rightarrow> ''BidiStreaming'')"

section \<open>\<open>grpc::Compression\<close>\<close>

datatype (plugins only: code) Compression =
    Identity
  | Gzip
  | Deflate
  | Snappy
  | Zstd

definition Compression_fmt :: "Compression \<Rightarrow> string" where
  "Compression_fmt self =
     (case self of
      Compression.Identity \<Rightarrow> ''identity''
    | Compression.Gzip \<Rightarrow> ''gzip''
    | Compression.Deflate \<Rightarrow> ''deflate''
    | Compression.Snappy \<Rightarrow> ''snappy''
    | Compression.Zstd \<Rightarrow> ''zstd'')"

section \<open>\<open>grpc::GrpcContentType\<close>\<close>

datatype (plugins only: code) GrpcContentType =
    Protobuf
  | Json

definition GrpcContentType_content_type_header :: "GrpcContentType \<Rightarrow> string" where
  "GrpcContentType_content_type_header self =
     (case self of
      GrpcContentType.Protobuf \<Rightarrow> ''application/grpc+proto''
    | GrpcContentType.Json \<Rightarrow> ''application/grpc+json'')"

definition GrpcContentType_fmt :: "GrpcContentType \<Rightarrow> string" where
  "GrpcContentType_fmt self = GrpcContentType_content_type_header self"

section \<open>\<open>grpc::StreamState\<close>\<close>

datatype (plugins only: code) StreamState =
    Idle
  | Open
  | HalfClosedLocal
  | HalfClosedRemote
  | Reserved
  | Closed

definition StreamState_from_tag :: "u8 \<Rightarrow> StreamState option" where
  "StreamState_from_tag tag =
     (if tag = 0 then Some StreamState.Idle
      else if tag = 1 then Some StreamState.Open
      else if tag = 2 then Some StreamState.HalfClosedLocal
      else if tag = 3 then Some StreamState.HalfClosedRemote
      else if tag = 4 then Some StreamState.Reserved
      else if tag = 5 then Some StreamState.Closed
      else option.None)"

primrec StreamState_to_tag :: "StreamState \<Rightarrow> u8" where
  "StreamState_to_tag StreamState.Idle = 0"
| "StreamState_to_tag StreamState.Open = 1"
| "StreamState_to_tag StreamState.HalfClosedLocal = 2"
| "StreamState_to_tag StreamState.HalfClosedRemote = 3"
| "StreamState_to_tag StreamState.Reserved = 4"
| "StreamState_to_tag StreamState.Closed = 5"

definition StreamState_can_send_data :: "StreamState \<Rightarrow> bool" where
  "StreamState_can_send_data self =
     (case self of
      StreamState.Open \<Rightarrow> True
    | StreamState.HalfClosedRemote \<Rightarrow> True
    | _ \<Rightarrow> False)"

definition StreamState_can_receive_data :: "StreamState \<Rightarrow> bool" where
  "StreamState_can_receive_data self =
     (case self of
      StreamState.Open \<Rightarrow> True
    | StreamState.HalfClosedLocal \<Rightarrow> True
    | _ \<Rightarrow> False)"

definition StreamState_can_update_window :: "StreamState \<Rightarrow> bool" where
  "StreamState_can_update_window self =
     (case self of
      StreamState.Open \<Rightarrow> True
    | StreamState.HalfClosedLocal \<Rightarrow> True
    | StreamState.HalfClosedRemote \<Rightarrow> True
    | _ \<Rightarrow> False)"

definition StreamState_is_terminal :: "StreamState \<Rightarrow> bool" where
  "StreamState_is_terminal self =
     (case self of
      StreamState.Closed \<Rightarrow> True
    | _ \<Rightarrow> False)"

section \<open>\<open>grpc::StreamTransition\<close>\<close>

datatype (plugins only: code) StreamTransition =
    SendHeaders
  | LocalEndStream
  | RemoteEndStream
  | ResetFromOpen
  | CloseHalfLocal
  | CloseHalfRemote
  | PushPromiseRecv
  | ReservedToHalf
  | ReservedReset

definition validate_stream_transition :: "StreamState \<Rightarrow> StreamState \<Rightarrow> StreamTransition option" where
  "validate_stream_transition from to =
     (case (from, to) of
      (StreamState.Idle, StreamState.Open) \<Rightarrow> Some StreamTransition.SendHeaders
    | (StreamState.Open, StreamState.HalfClosedLocal) \<Rightarrow> Some StreamTransition.LocalEndStream
    | (StreamState.Open, StreamState.HalfClosedRemote) \<Rightarrow> Some StreamTransition.RemoteEndStream
    | (StreamState.Open, StreamState.Closed) \<Rightarrow> Some StreamTransition.ResetFromOpen
    | (StreamState.HalfClosedLocal, StreamState.Closed) \<Rightarrow> Some StreamTransition.CloseHalfLocal
    | (StreamState.HalfClosedRemote, StreamState.Closed) \<Rightarrow> Some StreamTransition.CloseHalfRemote
    | (StreamState.Idle, StreamState.Reserved) \<Rightarrow> Some StreamTransition.PushPromiseRecv
    | (StreamState.Reserved, StreamState.HalfClosedRemote) \<Rightarrow> Some StreamTransition.ReservedToHalf
    | (StreamState.Reserved, StreamState.Closed) \<Rightarrow> Some StreamTransition.ReservedReset
    | _ \<Rightarrow> option.None)"

text \<open>The cast \<open>compression as u8\<close> of the wrapper: the discriminant.\<close>

primrec Compression_as_u8 :: "Compression \<Rightarrow> u8" where
  "Compression_as_u8 Compression.Identity = 0"
| "Compression_as_u8 Compression.Gzip = 1"
| "Compression_as_u8 Compression.Deflate = 2"
| "Compression_as_u8 Compression.Snappy = 3"
| "Compression_as_u8 Compression.Zstd = 4"

section \<open>Tags and enumerations\<close>

interpretation Grpc_StatusCode_to_code: wire_codec Grpc_StatusCode_to_code Grpc_StatusCode_from_code
  by (unfold_locales, case_tac [1] x, auto simp: Grpc_StatusCode_from_code_def  split: if_splits)

interpretation StreamState_codec: tag_codec StreamState_to_tag StreamState_from_tag 6
  by (unfold_locales, (case_tac x; simp add: StreamState_from_tag_def), unfold StreamState_from_tag_def,
    (erule codec_arm, simp only: StreamState_to_tag.simps)+, erule codec_end, (case_tac x; simp), simp add: codec_eval)

end
