(* ===== verification/Grpc_Ffi.thy ===== *)
theory Grpc_Ffi
  imports Grpc_Engine Grpc_Types
begin

text \<open>
  The safe gRPC wrappers \<open>bindings/rust/src/ffi_grpc.rs\<close> over the engine, the invariant of a stream
  context, and the interpretation of the pool contract on the contexts of the library.
\<close>

section \<open>The wrappers\<close>

definition ffi_grpc_abi_version :: "u32" where
  "ffi_grpc_abi_version =
     grpc_abi_version"

definition ffi_grpc_create :: "grpc_library \<Rightarrow> Compression \<Rightarrow> grpc_library \<times> ffi_context ProvenResult" where
  "ffi_grpc_create l compression =
     wrap_slot (grpc_create l (Compression_as_u8 compression))"

definition ffi_grpc_drop :: "grpc_library \<Rightarrow> ffi_context \<Rightarrow> grpc_library" where
  "ffi_grpc_drop l ctx =
     grpc_destroy l (ctx_slot ctx)"

definition ffi_grpc_stream_state :: "grpc_library \<Rightarrow> ffi_context \<Rightarrow> StreamState option" where
  "ffi_grpc_stream_state l ctx =
     StreamState_from_tag (grpc_stream_state l (ctx_slot ctx))"

definition ffi_grpc_compression :: "grpc_library \<Rightarrow> ffi_context \<Rightarrow> u8" where
  "ffi_grpc_compression l ctx =
     grpc_compression l (ctx_slot ctx)"

definition ffi_grpc_status_code :: "grpc_library \<Rightarrow> ffi_context \<Rightarrow> Grpc_StatusCode option" where
  "ffi_grpc_status_code l ctx =
     Grpc_StatusCode_from_code (grpc_status_code l (ctx_slot ctx))"

definition ffi_grpc_stream_id :: "grpc_library \<Rightarrow> ffi_context \<Rightarrow> u32" where
  "ffi_grpc_stream_id l ctx =
     grpc_stream_id l (ctx_slot ctx)"

definition ffi_grpc_can_send :: "grpc_library \<Rightarrow> ffi_context \<Rightarrow> bool" where
  "ffi_grpc_can_send l ctx =
     (grpc_can_send l (ctx_slot ctx) = 1)"

definition ffi_grpc_can_receive :: "grpc_library \<Rightarrow> ffi_context \<Rightarrow> bool" where
  "ffi_grpc_can_receive l ctx =
     (grpc_can_receive l (ctx_slot ctx) = 1)"

definition ffi_grpc_send_window :: "grpc_library \<Rightarrow> ffi_context \<Rightarrow> i32" where
  "ffi_grpc_send_window l ctx =
     grpc_send_window l (ctx_slot ctx)"

definition ffi_grpc_recv_window :: "grpc_library \<Rightarrow> ffi_context \<Rightarrow> i32" where
  "ffi_grpc_recv_window l ctx =
     grpc_recv_window l (ctx_slot ctx)"

definition ffi_grpc_set_status :: "grpc_library \<Rightarrow> ffi_context \<Rightarrow> Grpc_StatusCode \<Rightarrow> grpc_library \<times> unit ProvenResult" where
  "ffi_grpc_set_status l ctx status =
     wrap_status (grpc_set_status l (ctx_slot ctx) (Grpc_StatusCode_to_code status))"

definition ffi_grpc_send_headers :: "grpc_library \<Rightarrow> ffi_context \<Rightarrow> grpc_library \<times> unit ProvenResult" where
  "ffi_grpc_send_headers l ctx =
     wrap_status (grpc_send_headers l (ctx_slot ctx))"

definition ffi_grpc_local_end_stream :: "grpc_library \<Rightarrow> ffi_context \<Rightarrow> grpc_library \<times> unit ProvenResult" where
  "ffi_grpc_local_end_stream l ctx =
     wrap_status (grpc_local_end_stream l (ctx_slot ctx))"

definition ffi_grpc_remote_end_stream :: "grpc_library \<Rightarrow> ffi_context \<Rightarrow> grpc_library \<times> unit ProvenResult" where
  "ffi_grpc_remote_end_stream l ctx =
     wrap_status (grpc_remote_end_stream l (ctx_slot ctx))"

definition ffi_grpc_reset_stream :: "grpc_library \<Rightarrow> ffi_context \<Rightarrow> Grpc_StatusCode \<Rightarrow> grpc_library \<times> unit ProvenResult" where
  "ffi_grpc_reset_stream l ctx status =
     wrap_status (grpc_reset_stream l (ctx_slot ctx) (Grpc_StatusCode_to_code status))"

definition ffi_grpc_close_half_local :: "grpc_library \<Rightarrow> ffi_context \<Rightarrow> grpc_library \<times> unit ProvenResult" where
  "ffi_grpc_close_half_local l ctx =
     wrap_status (grpc_close_half_local l (ctx_slot ctx))"

definition ffi_grpc_close_half_remote :: "grpc_library \<Rightarrow> ffi_context \<Rightarrow> grpc_library \<times> unit ProvenResult" where
  "ffi_grpc_close_half_remote l ctx =
     wrap_status (grpc_close_half_remote l (ctx_slot ctx))"

definition ffi_grpc_push_promise :: "grpc_library \<Rightarrow> ffi_context \<Rightarrow> grpc_library \<times> unit ProvenResult" where
  "ffi_grpc_push_promise l ctx =
     wrap_status (grpc_push_promise l (ctx_slot ctx))"

definition ffi_grpc_reserved_to_half :: "grpc_library \<Rightarrow> ffi_context \<Rightarrow> grpc_library \<times> unit ProvenResult" where
  "ffi_grpc_reserved_to_half l ctx =
     wrap_status (grpc_reserved_to_half l (ctx_slot ctx))"

definition ffi_grpc_update_send_window :: "grpc_library \<Rightarrow> ffi_context \<Rightarrow> i32 \<Rightarrow> grpc_library \<times> unit ProvenResult" where
  "ffi_grpc_update_send_window l ctx delta =
     wrap_status (grpc_update_send_window l (ctx_slot ctx) delta)"

definition ffi_grpc_update_recv_window :: "grpc_library \<Rightarrow> ffi_context \<Rightarrow> i32 \<Rightarrow> grpc_library \<times> unit ProvenResult" where
  "ffi_grpc_update_recv_window l ctx delta =
     wrap_status (grpc_update_recv_window l (ctx_slot ctx) delta)"

definition ffi_grpc_can_transition :: "StreamState \<Rightarrow> StreamState \<Rightarrow> bool" where
  "ffi_grpc_can_transition from to =
     (grpc_can_transition (StreamState_to_tag from) (StreamState_to_tag to) = 1)"

section \<open>The client's alphabet\<close>

datatype grpc_call =
    Gc_set_status Grpc_StatusCode
  | Gc_send_headers
  | Gc_local_end_stream
  | Gc_remote_end_stream
  | Gc_reset_stream Grpc_StatusCode
  | Gc_close_half_local
  | Gc_close_half_remote
  | Gc_push_promise
  | Gc_reserved_to_half
  | Gc_update_send_window i32
  | Gc_update_recv_window i32

primrec grpc_step :: "grpc_call \<Rightarrow> GrpcStreamContext \<Rightarrow> GrpcStreamContext \<times> u8" where
  "grpc_step (Gc_set_status status) = grpc_set_status_on (Grpc_StatusCode_to_code status)"
| "grpc_step Gc_send_headers = grpc_send_headers_on"
| "grpc_step Gc_local_end_stream = grpc_local_end_stream_on"
| "grpc_step Gc_remote_end_stream = grpc_remote_end_stream_on"
| "grpc_step (Gc_reset_stream status) = grpc_reset_stream_on (Grpc_StatusCode_to_code status)"
| "grpc_step Gc_close_half_local = grpc_close_half_local_on"
| "grpc_step Gc_close_half_remote = grpc_close_half_remote_on"
| "grpc_step Gc_push_promise = grpc_push_promise_on"
| "grpc_step Gc_reserved_to_half = grpc_reserved_to_half_on"
| "grpc_step (Gc_update_send_window delta) = grpc_update_send_window_on delta"
| "grpc_step (Gc_update_recv_window delta) = grpc_update_recv_window_on delta"

primrec ffi_grpc_call :: "grpc_call \<Rightarrow> grpc_library \<Rightarrow> ffi_context \<Rightarrow> grpc_library \<times> unit ProvenResult" where
  "ffi_grpc_call (Gc_set_status status) l ctx = ffi_grpc_set_status l ctx status"
| "ffi_grpc_call Gc_send_headers l ctx = ffi_grpc_send_headers l ctx"
| "ffi_grpc_call Gc_local_end_stream l ctx = ffi_grpc_local_end_stream l ctx"
| "ffi_grpc_call Gc_remote_end_stream l ctx = ffi_grpc_remote_end_stream l ctx"
| "ffi_grpc_call (Gc_reset_stream status) l ctx = ffi_grpc_reset_stream l ctx status"
| "ffi_grpc_call Gc_close_half_local l ctx = ffi_grpc_close_half_local l ctx"
| "ffi_grpc_call Gc_close_half_remote l ctx = ffi_grpc_close_half_remote l ctx"
| "ffi_grpc_call Gc_push_promise l ctx = ffi_grpc_push_promise l ctx"
| "ffi_grpc_call Gc_reserved_to_half l ctx = ffi_grpc_reserved_to_half l ctx"
| "ffi_grpc_call (Gc_update_send_window delta) l ctx = ffi_grpc_update_send_window l ctx delta"
| "ffi_grpc_call (Gc_update_recv_window delta) l ctx = ffi_grpc_update_recv_window l ctx delta"

lemmas ffi_grpc_op_defs =
  ffi_grpc_set_status_def grpc_set_status_def ffi_grpc_send_headers_def grpc_send_headers_def
  ffi_grpc_local_end_stream_def grpc_local_end_stream_def ffi_grpc_remote_end_stream_def
  grpc_remote_end_stream_def ffi_grpc_reset_stream_def grpc_reset_stream_def
  ffi_grpc_close_half_local_def grpc_close_half_local_def ffi_grpc_close_half_remote_def
  grpc_close_half_remote_def ffi_grpc_push_promise_def grpc_push_promise_def
  ffi_grpc_reserved_to_half_def grpc_reserved_to_half_def ffi_grpc_update_send_window_def
  grpc_update_send_window_def ffi_grpc_update_recv_window_def grpc_update_recv_window_def

section \<open>The context invariant\<close>

definition grpc_good :: "GrpcStreamContext \<Rightarrow> bool" where
  "grpc_good c \<longleftrightarrow> gr_compression c \<le> 4 \<and> (gr_status_code c \<le> 16 \<or> gr_status_code c = 255) \<and> odd (gr_stream_id c)"

lemma grpc_status_tag_le [simp]: "Grpc_StatusCode_to_code s \<le> 16"
  by (cases s) simp_all

lemma grpc_compression_tag_le [simp]: "Compression_as_u8 c \<le> 4"
  by (cases c) simp_all

lemma grpc_good_step: "grpc_good c \<Longrightarrow> grpc_good (fst (grpc_step x c))"
  by (cases x) (simp_all add: op_simps grpc_good_def Let_def)

lemma grpc_active_step: "gr_active (fst (grpc_step x c)) = gr_active c"
  by (cases x) (simp_all add: op_simps Let_def)

section \<open>The pool contract\<close>

text \<open>The contexts as a pool: a create is given the identifier the library hands out.\<close>

definition contexts_create ::
  "Compression \<times> u32 \<Rightarrow> GrpcStreamContext list \<Rightarrow> GrpcStreamContext list \<times> ffi_context ProvenResult" where
  "contexts_create a p =
     wrap_slot (if odd (snd a) then pool_create gr_active (grpc_fresh (Compression_as_u8 (fst a), snd a)) p
       else (p, - 1))"

definition contexts_drop :: "GrpcStreamContext list \<Rightarrow> ffi_context \<Rightarrow> GrpcStreamContext list" where
  "contexts_drop p ctx = pool_destroy grpc_off p (ctx_slot ctx)"

definition contexts_call ::
  "grpc_call \<Rightarrow> GrpcStreamContext list \<Rightarrow> ffi_context \<Rightarrow> GrpcStreamContext list \<times> unit ProvenResult" where
  "contexts_call x p ctx = map_prod id from_status (on_slot gr_active p (ctx_slot ctx) 1 (grpc_step x))"

interpretation grpc: slot_service gr_active "\<lambda>a. odd (snd a)"
  "\<lambda>a. grpc_fresh (Compression_as_u8 (fst a), snd a)" grpc_off grpc_step
  "\<lambda>_. 1" "\<lambda>_. from_status" grpc_good grpc_contexts contexts_create contexts_drop contexts_call
proof
  fix c :: GrpcStreamContext and p :: "GrpcStreamContext list" and h :: ffi_context and x :: grpc_call
    and a :: "Compression \<times> u32"
  show "gr_active (grpc_fresh (Compression_as_u8 (fst a), snd a) c)" by (simp add: grpc_fresh_def)
  show "\<not> gr_active (grpc_off c)" by (simp add: grpc_off_def)
  show "gr_active c \<Longrightarrow> gr_active (fst (grpc_step x c))" by (simp add: grpc_active_step)
  show "odd (snd a) \<Longrightarrow> grpc_good (grpc_fresh (Compression_as_u8 (fst a), snd a) c)"
    by (simp add: grpc_good_def grpc_fresh_def)
  show "grpc_good c \<Longrightarrow> grpc_good (fst (grpc_step x c))" by (rule grpc_good_step)
  show "c \<in> set grpc_contexts \<Longrightarrow> \<not> gr_active c" by (simp add: grpc_contexts_def)
  show "length grpc_contexts \<le> 2147483648" by (simp add: grpc_contexts_def)
  show "contexts_create a p = wrap_slot (if odd (snd a)
      then pool_create gr_active (grpc_fresh (Compression_as_u8 (fst a), snd a)) p else (p, - 1))"
    by (simp add: contexts_create_def)
  show "contexts_drop p h = pool_destroy grpc_off p (ctx_slot h)" by (simp add: contexts_drop_def)
  show "contexts_call x p h = map_prod id from_status (on_slot gr_active p (ctx_slot h) 1 (grpc_step x))"
    by (simp add: contexts_call_def)
qed

abbreviation grpc_client :: "grpc_library \<Rightarrow> ffi_context list \<Rightarrow> bool" where
  "grpc_client \<equiv> client (\<lambda>a l. ffi_grpc_create l a) ffi_grpc_drop ffi_grpc_call grpc_library_init"

text \<open>The wrappers over the library, seen on its contexts.\<close>

lemma grpc_on_slot_contexts:
  "gl_contexts (fst (grpc_on_slot l slot f)) = fst (on_slot gr_active (gl_contexts l) slot 1 f)"
  "gl_next_stream_id (fst (grpc_on_slot l slot f)) = gl_next_stream_id l"
  "snd (grpc_on_slot l slot f) = snd (on_slot gr_active (gl_contexts l) slot 1 f)"
  by (simp_all add: grpc_on_slot_def case_prod_beta)

lemma grpc_call_contexts:
  "gl_contexts (fst (ffi_grpc_call x l h)) = fst (contexts_call x (gl_contexts l) h)"
  "gl_next_stream_id (fst (ffi_grpc_call x l h)) = gl_next_stream_id l"
  "snd (ffi_grpc_call x l h) = snd (contexts_call x (gl_contexts l) h)"
  by (cases x; simp add: ffi_grpc_op_defs grpc_on_slot_contexts contexts_call_def)+

lemma grpc_create_cases:
  "grpc_create l (Compression_as_u8 a) =
    (case first_free gr_active (gl_contexts l) of
       Some i \<Rightarrow> (\<lparr>gl_contexts = (gl_contexts l)[i := grpc_fresh (Compression_as_u8 a, gl_next_stream_id l) (gl_contexts l ! i)],
                  gl_next_stream_id = gl_next_stream_id l + 2\<rparr>, word_of_nat i)
     | None \<Rightarrow> (l, - 1))"
  using grpc_compression_tag_le [of a] by (simp add: grpc_create_def Let_def not_less [symmetric] cong: option.case_cong)

lemma grpc_drop_contexts:
  "gl_contexts (ffi_grpc_drop l h) = contexts_drop (gl_contexts l) h"
  "gl_next_stream_id (ffi_grpc_drop l h) = gl_next_stream_id l"
  by (simp_all add: ffi_grpc_drop_def grpc_destroy_def contexts_drop_def)

text \<open>What the pool contract asks of a create holds along a client's run: the identifiers are odd.\<close>

lemma grpc_client_contexts:
  assumes "grpc_client l hs"
  shows "client contexts_create contexts_drop contexts_call grpc_contexts (gl_contexts l) hs \<and> odd (gl_next_stream_id l)"
  using assms
proof (induction rule: client.induct)
  case start
  then show ?case
    using client.start [of contexts_create contexts_drop contexts_call grpc_contexts]
    by (simp add: grpc_library_init_def)
next
  case (new l hs a l' h)
  have "contexts_create (a, gl_next_stream_id l) (gl_contexts l) = (gl_contexts l', Inr h) \<and> odd (gl_next_stream_id l')"
    using new grpc_create_cases [of l a]
    by (auto simp: ffi_grpc_create_def wrap_slot_def contexts_create_def pool_create_def split: option.splits)
  with new.IH show ?case using client.new by metis
next
  case (refused l hs a l' e)
  have "contexts_create (a, gl_next_stream_id l) (gl_contexts l) = (gl_contexts l', Inl e) \<and> odd (gl_next_stream_id l')"
    using refused grpc_create_cases [of l a]
    by (auto simp: ffi_grpc_create_def wrap_slot_def contexts_create_def pool_create_def split: option.splits)
  with refused.IH show ?case using client.refused by metis
next
  case (use l hs h x)
  then show ?case
    using client.use [of contexts_create contexts_drop contexts_call grpc_contexts "gl_contexts l" hs h x]
    by (simp add: grpc_call_contexts)
next
  case (release l hs h)
  then show ?case
    using client.release [of contexts_create contexts_drop contexts_call grpc_contexts "gl_contexts l" hs h]
    by (simp add: grpc_drop_contexts)
qed

end
