(* ===== verification/Grpc_Props.thy ===== *)
theory Grpc_Props
  imports Grpc_Ffi
begin

text \<open>
  Properties of the gRPC component: the flow control windows are exact signed sums, the stream
  identifiers are odd and distinct, and the engine's operations, its transition table and the
  transition validation of the Rust API describe the same state machine.
\<close>

section \<open>Flow control\<close>

lemma i32_range: "- 2147483648 \<le> sint (w :: i32) \<and> sint w \<le> 2147483647"
  using sint_greater_eq [of w] sint_less [of w] by simp





lemma window_others [simp]:
  "gr_recv_window (fst (grpc_update_send_window_on d c)) = gr_recv_window c"
  "gr_send_window (fst (grpc_update_recv_window_on d c)) = gr_send_window c"
  by (simp_all add: grpc_update_send_window_on_def grpc_update_recv_window_on_def Let_def)



section \<open>Stream identifiers\<close>

text \<open>What a program does with the library, without following ownership: any handle may be used.\<close>

datatype grpc_action =
    Act_create Compression
  | Act_drop ffi_context
  | Act_call grpc_call ffi_context

primrec grpc_act :: "grpc_action \<Rightarrow> grpc_library \<Rightarrow> grpc_library" where
  "grpc_act (Act_create a) l = fst (ffi_grpc_create l a)"
| "grpc_act (Act_drop h) l = ffi_grpc_drop l h"
| "grpc_act (Act_call x h) l = fst (ffi_grpc_call x l h)"

primrec is_create :: "grpc_action \<Rightarrow> bool" where
  "is_create (Act_create a) = True"
| "is_create (Act_drop h) = False"
| "is_create (Act_call x h) = False"

text \<open>The identifiers of the active contexts are odd, below the counter and distinct.\<close>

definition ids_ok :: "nat \<Rightarrow> grpc_library \<Rightarrow> bool" where
  "ids_ok n l \<longleftrightarrow>
     (\<exists>k \<le> n. unat (gl_next_stream_id l) = 2 * k + 1) \<and> odd (gl_next_stream_id l) \<and>
     (\<forall>c \<in> set (gl_contexts l). gr_active c \<longrightarrow>
        odd (gr_stream_id c) \<and> unat (gr_stream_id c) < unat (gl_next_stream_id l)) \<and>
     inj_on (\<lambda>i. gr_stream_id (gl_contexts l ! i)) {i. i < length (gl_contexts l) \<and> gr_active (gl_contexts l ! i)}"

lemma ids_ok_mono: "ids_ok n l \<Longrightarrow> n \<le> m \<Longrightarrow> ids_ok m l"
  unfolding ids_ok_def by (meson le_trans)

text \<open>A context that keeps its identifier, or is switched off, keeps the property.\<close>

lemma ids_ok_update:
  assumes "ids_ok n l" "i < length (gl_contexts l)" "gr_active c \<Longrightarrow> gr_active (gl_contexts l ! i)"
    and "gr_stream_id c = gr_stream_id (gl_contexts l ! i)"
  shows "ids_ok n (l\<lparr>gl_contexts := (gl_contexts l)[i := c]\<rparr>)"
proof -
  let ?cs = "gl_contexts l"
  have same: "gr_stream_id (?cs[i := c] ! j) = gr_stream_id (?cs ! j)" for j
    using assms(2,4) by (simp add: nth_list_update_if)
  have sub: "{j. j < length ?cs \<and> gr_active (?cs[i := c] ! j)} \<subseteq> {j. j < length ?cs \<and> gr_active (?cs ! j)}"
    using assms(2,3) by (auto simp: nth_list_update_if split: if_splits)
  have "\<forall>d \<in> set (?cs[i := c]). gr_active d \<longrightarrow>
      odd (gr_stream_id d) \<and> unat (gr_stream_id d) < unat (gl_next_stream_id l)"
    using assms by (intro list_update_all) (auto simp: ids_ok_def)
  moreover have inj: "inj_on (\<lambda>j. gr_stream_id (?cs ! j)) {j. j < length ?cs \<and> gr_active (?cs ! j)}"
    using assms(1) by (simp add: ids_ok_def)
  from inj_on_subset [OF inj sub]
  have "inj_on (\<lambda>j. gr_stream_id (?cs[i := c] ! j)) {j. j < length ?cs \<and> gr_active (?cs[i := c] ! j)}"
    by (simp only: same)
  ultimately show ?thesis using assms(1) by (simp add: ids_ok_def)
qed

lemma grpc_id_step: "gr_stream_id (fst (grpc_step x c)) = gr_stream_id c"
  by (cases x) (simp_all add: op_simps Let_def)

lemma inj_on_update_new:
  assumes "i < length xs" "inj_on (\<lambda>j. f (xs ! j)) {j. j < length xs \<and> P (xs ! j)}"
    and "\<forall>d \<in> set xs. P d \<longrightarrow> f d \<noteq> f c"
  shows "inj_on (\<lambda>j. f (xs[i := c] ! j)) {j. j < length xs \<and> P (xs[i := c] ! j)}"
proof (rule inj_onI, clarsimp)
  fix j k
  assume jk: "j < length xs" "P (xs[i := c] ! j)" "k < length xs" "P (xs[i := c] ! k)"
    "f (xs[i := c] ! j) = f (xs[i := c] ! k)"
  have "f (xs ! m) \<noteq> f c" if "m < length xs" "P (xs ! m)" for m
    using assms(3) that by simp
  with jk assms(1,2) show "j = k"
    by (cases "j = i"; cases "k = i") (auto simp: nth_list_update_if inj_on_def)
qed

lemma ids_ok_create:
  assumes "ids_ok n l" "n < 2147483647"
  shows "ids_ok (Suc n) (fst (ffi_grpc_create l a))"
proof (cases "first_free gr_active (gl_contexts l)")
  case None
  with assms show ?thesis
    by (simp add: ffi_grpc_create_def wrap_slot_def grpc_create_cases ids_ok_mono)
next
  case (Some i)
  let ?cs = "gl_contexts l" and ?sid = "gl_next_stream_id l"
  let ?c = "grpc_fresh (Compression_as_u8 a, ?sid) (?cs ! i)"
  have i: "i < length ?cs" "\<not> gr_active (?cs ! i)" using Some by (simp_all add: first_free_Some_iff)
  have c: "gr_active ?c" "gr_stream_id ?c = ?sid" by (simp_all add: grpc_fresh_def)
  obtain k where k: "k \<le> n" "unat ?sid = 2 * k + 1" using assms(1) by (auto simp: ids_ok_def)
  have next': "unat (?sid + 2) = 2 * Suc k + 1"
    using k assms(2) by (simp add: unat_word_ariths)
  have old: "\<forall>d \<in> set ?cs. gr_active d \<longrightarrow> odd (gr_stream_id d) \<and> unat (gr_stream_id d) < unat ?sid"
    and inj: "inj_on (\<lambda>j. gr_stream_id (?cs ! j)) {j. j < length ?cs \<and> gr_active (?cs ! j)}"
    and odd: "odd ?sid"
    using assms(1) by (simp_all add: ids_ok_def)
  have "\<forall>d \<in> set (?cs[i := ?c]). gr_active d \<longrightarrow> odd (gr_stream_id d) \<and> unat (gr_stream_id d) < unat (?sid + 2)"
    using old odd k(2) by (intro list_update_all) (auto simp: c next')
  moreover have "inj_on (\<lambda>j. gr_stream_id (?cs[i := ?c] ! j)) {j. j < length ?cs \<and> gr_active (?cs[i := ?c] ! j)}"
    using inj_on_update_new [OF i(1) inj, of ?c] old c by (metis less_irrefl)
  moreover have "\<exists>k' \<le> Suc n. unat (?sid + 2) = 2 * k' + 1" using next' k(1) by (intro exI [of _ "Suc k"]) simp
  ultimately have "ids_ok (Suc n) \<lparr>gl_contexts = ?cs[i := ?c], gl_next_stream_id = ?sid + 2\<rparr>"
    using odd by (simp add: ids_ok_def)
  with Some show ?thesis
    by (simp add: ffi_grpc_create_def wrap_slot_def grpc_create_cases)
qed

lemma library_update: "l\<lparr>gl_contexts := gl_contexts l\<rparr> = l"
  by simp

lemma inactive_contexts:
  "\<forall>c \<in> set grpc_contexts. \<not> gr_active c"
  "{i. i < length grpc_contexts \<and> gr_active (grpc_contexts ! i)} = {}"
  by (auto simp: grpc_contexts_def)

lemma ids_ok_act:
  assumes "ids_ok n l" "is_create x \<longrightarrow> n < 2147483647"
  shows "ids_ok (n + (if is_create x then 1 else 0)) (grpc_act x l)"
proof (cases x)
  case (Act_create a)
  with assms ids_ok_create show ?thesis by simp
next
  case (Act_drop h)
  show ?thesis
  proof (cases "slot_index (gl_contexts l) (ctx_slot h)")
    case None
    with assms(1) Act_drop show ?thesis by (simp add: ffi_grpc_drop_def grpc_destroy_def pool_destroy_def)
  next
    case (Some i)
    then have "i < length (gl_contexts l)" by (simp add: slot_index_Some_iff)
    with Some assms(1) Act_drop ids_ok_update [OF assms(1), of i "grpc_off (gl_contexts l ! i)"] show ?thesis
      by (simp add: ffi_grpc_drop_def grpc_destroy_def pool_destroy_def grpc_off_def)
  qed
next
  case (Act_call y h)
  have lib: "fst (ffi_grpc_call y l h) = l\<lparr>gl_contexts := fst (contexts_call y (gl_contexts l) h)\<rparr>"
    using grpc_call_contexts(1,2) [of y l h] by (cases "fst (ffi_grpc_call y l h)"; cases l) simp
  show ?thesis
  proof (cases "valid_slot gr_active (gl_contexts l) (ctx_slot h)")
    case None
    with assms(1) Act_call show ?thesis by (simp add: lib contexts_call_def on_slot_invalid)
  next
    case (Some i)
    then have "i < length (gl_contexts l)" by (simp add: valid_slot_Some_iff slot_index_Some_iff)
    with Some assms(1) Act_call ids_ok_update [OF assms(1), of i "fst (grpc_step y (gl_contexts l ! i))"] show ?thesis
      by (simp add: lib contexts_call_def on_slot_valid grpc_id_step grpc_active_step)
  qed
qed

text \<open>
  C15: Stream identifiers are odd and never shared: after any sequence of creates, drops and calls
  (on any handles, in any order) with fewer than 2 to the 31 creates, every active context has an odd
  identifier and two different active contexts have different identifiers.
\<close>

theorem grpc_stream_ids:
  assumes "length (filter is_create acts) < 2147483648"
  defines "l \<equiv> fold grpc_act acts grpc_library_init"
  shows "\<forall>i < length (gl_contexts l). \<forall>j < length (gl_contexts l).
    gr_active (gl_contexts l ! i) \<and> gr_active (gl_contexts l ! j) \<longrightarrow>
      odd (gr_stream_id (gl_contexts l ! i)) \<and>
      (gr_stream_id (gl_contexts l ! i) = gr_stream_id (gl_contexts l ! j) \<longrightarrow> i = j)"
proof -
  have "ids_ok (length (filter is_create acts)) l"
    using assms(1) unfolding l_def
  proof (induction acts rule: rev_induct)
    case Nil
    then show ?case by (simp add: ids_ok_def grpc_library_init_def inactive_contexts)
  next
    case (snoc x acts)
    then show ?case using ids_ok_act [of "length (filter is_create acts)" _ x] by (simp split: if_splits)
  qed
  then show ?thesis by (auto simp: ids_ok_def inj_on_def)
qed

lemma two_streams: "let l = fold grpc_act [Act_create Compression.Gzip, Act_create Compression.Zstd] grpc_library_init in
   length (gl_contexts l) = 64 \<and> gr_active (gl_contexts l ! 0) \<and> gr_active (gl_contexts l ! 1)"
  by code_simp
theorem grpc_stream_ids_witness:
  "gr_stream_id (gl_contexts (fold grpc_act [Act_create Compression.Gzip, Act_create Compression.Zstd] grpc_library_init) ! 0) \<noteq>
   gr_stream_id (gl_contexts (fold grpc_act [Act_create Compression.Gzip, Act_create Compression.Zstd] grpc_library_init) ! 1)"
  using two_streams grpc_stream_ids [of "[Act_create Compression.Gzip, Act_create Compression.Zstd]", rule_format, of 0 1]
  by (simp add: Let_def)

section \<open>The stream state machine\<close>

definition grpc_abs :: "GrpcStreamContext \<Rightarrow> StreamState" where
  "grpc_abs c = (case gr_stream_state c of
      gr_idle \<Rightarrow> StreamState.Idle
    | gr_open \<Rightarrow> StreamState.Open
    | gr_half_closed_local \<Rightarrow> StreamState.HalfClosedLocal
    | gr_half_closed_remote \<Rightarrow> StreamState.HalfClosedRemote
    | gr_closed \<Rightarrow> StreamState.Closed
    | gr_reserved \<Rightarrow> StreamState.Reserved)"

text \<open>
  The tags 4 and 5 exchanged: grpc.zig numbers closed 4 and reserved 5, the enum of grpc.rs
  numbers Reserved 4 and Closed 5.
\<close>

definition tags_exchanged :: "StreamState \<Rightarrow> StreamState" where
  "tags_exchanged s =
     (if s = StreamState.Closed then StreamState.Reserved
      else if s = StreamState.Reserved then StreamState.Closed else s)"

text \<open>
  C16: The gRPC stream machine and the Rust client's view of it. Read by the names of the states, the
  engine keeps to the Rust module's machine: an operation that changes the stream state is accepted
  and takes a transition that the validation of the Rust module accepts, and a closed stream stays
  closed. But the two sides number Closed and Reserved differently: on every library and every handle
  the state query reports the engine's state with the two exchanged (and Reserved, not Closed, for a
  handle without a stream), and the transition query contradicts the Rust module's own validation on
  exactly twelve pairs, among them Open to Closed (refused) and Closed to HalfClosedRemote (accepted).
\<close>

theorem grpc_state_machine:
  "(grpc_abs (fst (grpc_step x c)) \<noteq> grpc_abs c \<longrightarrow>
      snd (grpc_step x c) = 0 \<and> validate_stream_transition (grpc_abs c) (grpc_abs (fst (grpc_step x c))) \<noteq> None) \<and>
   (grpc_abs c = StreamState.Closed \<longrightarrow> grpc_abs (fst (grpc_step x c)) = StreamState.Closed) \<and>
   ffi_grpc_stream_state l h =
     Some (case valid_slot gr_active (gl_contexts l) (ctx_slot h) of
         Some i \<Rightarrow> tags_exchanged (grpc_abs (gl_contexts l ! i))
       | None \<Rightarrow> StreamState.Reserved) \<and>
   (ffi_grpc_can_transition s t \<noteq> (validate_stream_transition s t \<noteq> None) \<longleftrightarrow>
     (s, t) \<in> {(StreamState.Idle, StreamState.Closed), (StreamState.Idle, StreamState.Reserved),
               (StreamState.Open, StreamState.Closed), (StreamState.Open, StreamState.Reserved),
               (StreamState.HalfClosedLocal, StreamState.Closed), (StreamState.HalfClosedLocal, StreamState.Reserved),
               (StreamState.HalfClosedRemote, StreamState.Closed), (StreamState.HalfClosedRemote, StreamState.Reserved),
               (StreamState.Reserved, StreamState.HalfClosedRemote), (StreamState.Closed, StreamState.HalfClosedRemote),
               (StreamState.Reserved, StreamState.Closed), (StreamState.Closed, StreamState.Reserved)})"
proof (intro conjI)
  show "grpc_abs (fst (grpc_step x c)) \<noteq> grpc_abs c \<longrightarrow>
      snd (grpc_step x c) = 0 \<and> validate_stream_transition (grpc_abs c) (grpc_abs (fst (grpc_step x c))) \<noteq> None"
    by (cases x; cases "gr_stream_state c"; simp add: op_simps Let_def grpc_abs_def validate_stream_transition_def)
  show "grpc_abs c = StreamState.Closed \<longrightarrow> grpc_abs (fst (grpc_step x c)) = StreamState.Closed"
    by (cases x; cases "gr_stream_state c"; simp add: op_simps Let_def grpc_abs_def)
  show "ffi_grpc_stream_state l h =
     Some (case valid_slot gr_active (gl_contexts l) (ctx_slot h) of
         Some i \<Rightarrow> tags_exchanged (grpc_abs (gl_contexts l ! i))
       | None \<Rightarrow> StreamState.Reserved)"
  proof (cases "valid_slot gr_active (gl_contexts l) (ctx_slot h)")
    case None
    then show ?thesis
      by (simp add: ffi_grpc_stream_state_def grpc_stream_state_def grpc_query_def query_slot_def StreamState_from_tag_def)
  next
    case (Some i)
    then show ?thesis
      by (cases "gr_stream_state (gl_contexts l ! i)")
        (simp_all add: ffi_grpc_stream_state_def grpc_stream_state_def grpc_query_def query_slot_def
          StreamState_from_tag_def tags_exchanged_def grpc_abs_def)
  qed
qed (cases s; cases t; simp add: validate_stream_transition_def ffi_grpc_can_transition_def grpc_can_transition_def)

theorem grpc_state_machine_witness:
  "validate_stream_transition StreamState.Idle StreamState.Open \<noteq> None"
  using conjunct1 [OF grpc_state_machine [of Gc_send_headers "grpc_contexts ! 0"]]
  by (simp add: grpc_contexts_def grpc_abs_def op_simps)

end
