(* ===== verification/Firewall_Props.thy ===== *)
theory Firewall_Props
  imports Firewall_Ffi
begin

text \<open>
  Properties of the firewall: which rule decides, the finality of a decision, and what the Rust
  client sees of connection tracking.
\<close>

section \<open>Which rule decides\<close>

text \<open>The rules among the accepted operations, as the engine stores them.\<close>

fun added_rule :: "fw_call \<Rightarrow> Rule list" where
  "added_rule (Wc_add_rule m v a p) =
     [\<lparr>fr_match_type = m, fr_match_value = v, fr_action = FirewallAction_to_tag a, fr_priority = p, fr_active = True\<rparr>]"
| "added_rule _ = []"

definition added_rules :: "fw_call list \<Rightarrow> Rule list" where
  "added_rules h = concat (map added_rule h)"

text \<open>The default action after the accepted operations: the last one set, to begin with drop.\<close>

fun last_default :: "u8 \<Rightarrow> fw_call list \<Rightarrow> u8" where
  "last_default d [] = d"
| "last_default d (Wc_set_default_action a # h) = last_default (FirewallAction_to_tag a) h"
| "last_default d (_ # h) = last_default d h"

lemma last_default_append: "last_default d (g @ h) = last_default (last_default d g) h"
  by (induction d g rule: last_default.induct) simp_all

lemma last_default_single: "last_default d [x] = (case x of Wc_set_default_action a \<Rightarrow> FirewallAction_to_tag a | _ \<Rightarrow> d)"
  by (cases x) simp_all

definition classified_as :: "FwContext \<Rightarrow> fw_call \<Rightarrow> bool" where
  "classified_as c x \<longleftrightarrow>
     x = Wc_classify_packet (fw_proto_f c) (fw_chain_f c) (fw_src_ip_f c) (fw_dst_ip_f c) (fw_src_port_f c) (fw_dst_port_f c)"

definition fw_history :: "FwContext \<Rightarrow> fw_call list \<Rightarrow> bool" where
  "fw_history c h \<longleftrightarrow>
     rules_ok c \<and> chain_rules c = added_rules h \<and> fw_default_action_f c = last_default 1 h \<and>
     (fw_packet_state_f c \<noteq> pk_arrived \<longrightarrow> (\<exists>x \<in> set h. classified_as c x))"

lemma fw_default_step:
  "snd (fw_step x c) = 0 \<longrightarrow> fw_default_action_f (fst (fw_step x c)) = last_default (fw_default_action_f c) [x]"
  by (cases x) (simp_all add: op_simps split: option.split)

lemma fw_accepted_or_same: "snd (fw_step x c) = 0 \<or> fst (fw_step x c) = c"
  by (cases x) (simp_all add: op_simps split: option.split)

lemma fw_refused: "snd (fw_step x c) \<noteq> 0 \<Longrightarrow> fst (fw_step x c) = c"
  using fw_accepted_or_same [of x c] by blast

text \<open>The fields of the packet, and the operation that writes them.\<close>

definition packet_fields :: "FwContext \<Rightarrow> u8 \<times> u8 \<times> u32 \<times> u32 \<times> u16 \<times> u16" where
  "packet_fields c =
     (fw_proto_f c, fw_chain_f c, fw_src_ip_f c, fw_dst_ip_f c, fw_src_port_f c, fw_dst_port_f c)"

lemma classified_as_fields: "packet_fields d = packet_fields c \<Longrightarrow> classified_as d = classified_as c"
  by (simp add: packet_fields_def classified_as_def fun_eq_iff)

lemma packet_fields_step:
  "(\<exists>a b s d e f. x = Wc_classify_packet a b s d e f) \<or> packet_fields (fst (fw_step x c)) = packet_fields c"
  by (cases x) (simp_all add: packet_fields_def op_simps split: option.split)

lemma arrived_step:
  "(\<exists>a b s d e f. x = Wc_classify_packet a b s d e f) \<or>
   (fw_packet_state_f (fst (fw_step x c)) = pk_arrived \<longleftrightarrow> fw_packet_state_f c = pk_arrived)"
  by (cases x) (simp_all add: op_simps split: option.split)

lemma fw_classified_step:
  assumes "snd (fw_step x c) = 0" "fw_packet_state_f (fst (fw_step x c)) \<noteq> pk_arrived"
  shows "classified_as (fst (fw_step x c)) x \<or>
    fw_packet_state_f c \<noteq> pk_arrived \<and> classified_as (fst (fw_step x c)) = classified_as c"
proof (cases "\<exists>a b s d e f. x = Wc_classify_packet a b s d e f")
  case True
  with assms(1) have "classified_as (fst (fw_step x c)) x"
    by (elim exE) (simp add: classified_as_def op_simps split: if_splits)
  then show ?thesis ..
next
  case False
  with assms(2) arrived_step [of x c] packet_fields_step [of x c] show ?thesis
    using classified_as_fields by blast
qed

lemma fw_history_run:
  "fw_history (fst (session_run fw_step (fw_fresh c0) xs)) (snd (session_run fw_step (fw_fresh c0) xs))"
proof (rule session_run_invariant [where P = fw_history])
  show "fw_history (fw_fresh c0) []"
    by (simp add: fw_history_def rules_ok_def chain_rules_def fw_fresh_def empty_context_def added_rules_def)
next
  fix c h x
  assume hist: "fw_history c h" and acc: "snd (fw_step x c) = 0"
  then have ok: "rules_ok c" by (simp add: fw_history_def)
  have "chain_rules (fst (fw_step x c)) = added_rules (h @ [x])"
    using hist acc fw_step_rules(2) [OF ok, of x] by (cases x) (simp_all add: fw_history_def added_rules_def)
  moreover have "fw_default_action_f (fst (fw_step x c)) = last_default 1 (h @ [x])"
    using hist fw_default_step [of x c] acc by (simp add: fw_history_def last_default_append)
  moreover have "\<exists>y \<in> set (h @ [x]). classified_as (fst (fw_step x c)) y"
    if "fw_packet_state_f (fst (fw_step x c)) \<noteq> pk_arrived"
    using fw_classified_step [OF acc that] hist by (auto simp: fw_history_def)
  ultimately show "fw_history (fst (fw_step x c)) (h @ [x])"
    using fw_step_rules(1) [OF ok] by (simp add: fw_history_def)
next
  fix c h x
  assume "fw_history c h" "snd (fw_step x c) \<noteq> 0"
  then show "fw_history (fst (fw_step x c)) h" by (simp add: fw_refused)
qed

lemma added_active: "r \<in> set (added_rules h) \<Longrightarrow> fr_active r"
proof (induction h)
  case (Cons x h)
  then show ?case by (cases x) (auto simp: added_rules_def)
qed (simp add: added_rules_def)

lemma find_cong_set: "(\<And>x. x \<in> set xs \<Longrightarrow> P x = Q x) \<Longrightarrow> find P xs = find Q xs"
  by (induction xs) auto

text \<open>
  C17: The verdict on a packet: when the evaluation is accepted after any sequence of operations on a
  new context, the decision is the action of the first rule that matches, among all rules accepted so
  far, in the order of their priorities and, for equal priorities, in the order they were added;
  with no match it is the last default action that was set, or drop. The packet's fields are those
  of a classification that was accepted before. The engine's insertion sort over rule numbers is
  thereby the library's stable sort of the rules.
\<close>

theorem fw_first_match:
  assumes "session_run fw_step (fw_fresh c0) xs = (c, h)" "snd (fw_evaluate_rules_on c) = 0"
  shows "fw_decision_f (fst (fw_evaluate_rules_on c)) =
      (case find (\<lambda>r. ruleMatches r c) (sort_key fr_priority (added_rules h)) of
         Some r \<Rightarrow> fr_action r
       | None \<Rightarrow> last_default 1 h) \<and>
    (\<exists>x \<in> set h. classified_as c x)"
proof -
  have hist: "fw_history c h" using fw_history_run [of c0 xs] by (simp add: assms(1))
  have st: "fw_packet_state_f c = pk_chain_traversal"
    using assms(2) by (simp add: fw_evaluate_rules_on_def split: if_splits)
  have "find (\<lambda>r. fr_active r \<and> ruleMatches r c) (sort_key fr_priority (added_rules h)) =
      find (\<lambda>r. ruleMatches r c) (sort_key fr_priority (added_rules h))"
    by (rule find_cong_set) (simp add: added_active)
  with hist st fw_evaluate_sorted [of c] show ?thesis
    by (auto simp: fw_evaluate_rules_on_def fw_history_def rules_ok_def split: option.split)
qed

theorem fw_first_match_witness:
  "fw_decision_f (fst (fw_evaluate_rules_on (fst (session_run fw_step (fw_fresh empty_context)
     [Wc_classify_packet 0 0 1 2 3 80, Wc_begin_chain,
      Wc_add_rule 5 0 FirewallAction.Drop 20, Wc_add_rule 3 80 FirewallAction.Accept 10])))) = 0"
proof -
  let ?xs = "[Wc_classify_packet 0 0 1 2 3 80, Wc_begin_chain,
      Wc_add_rule 5 0 FirewallAction.Drop 20, Wc_add_rule 3 80 FirewallAction.Accept 10]"
  have "snd (fw_evaluate_rules_on (fst (session_run fw_step (fw_fresh empty_context) ?xs))) = 0"
    by code_simp
  note fw_first_match [OF surjective_pairing this]
  moreover have "snd (session_run fw_step (fw_fresh empty_context) ?xs) = ?xs" by code_simp
  moreover have "ruleMatches \<lparr>fr_match_type = 3, fr_match_value = 80, fr_action = 0, fr_priority = 10, fr_active = True\<rparr>
      (fst (session_run fw_step (fw_fresh empty_context) ?xs))" by code_simp
  ultimately show ?thesis by (simp add: added_rules_def)
qed

section \<open>The finality of a decision\<close>

definition packet_abs :: "packet_state \<Rightarrow> PacketState" where
  "packet_abs s = (case s of
      pk_arrived \<Rightarrow> PacketState.Idle
    | pk_classified \<Rightarrow> PacketState.Classified
    | pk_chain_traversal \<Rightarrow> PacketState.Evaluating
    | pk_decided \<Rightarrow> PacketState.Decided
    | pk_committed \<Rightarrow> PacketState.Committed)"

lemma fw_views:
  assumes "valid_slot fw_active_f p (ctx_slot h) = Some i"
  shows "ffi_fw_packet_state p h = Some (packet_abs (fw_packet_state_f (p ! i)))"
    and "ffi_fw_get_decision p h = FirewallAction_from_tag (fw_decision_f (p ! i))"
    and "ffi_fw_rule_count p h = fw_rule_count_f (p ! i)"
proof -
  show "ffi_fw_packet_state p h = Some (packet_abs (fw_packet_state_f (p ! i)))"
    using assms by (cases "fw_packet_state_f (p ! i)")
      (simp_all add: ffi_fw_packet_state_def fw_packet_state_def query_slot_def packet_abs_def PacketState_from_tag_def)
qed (use assms in \<open>simp_all add: ffi_fw_get_decision_def fw_get_decision_def ffi_fw_rule_count_def
    fw_rule_count_def query_slot_def\<close>)

lemma firewall_action_known: "FirewallAction_from_tag d \<noteq> None \<longleftrightarrow> d \<le> 7"
  using FirewallAction_codec.from_tag_eq_None_iff [of d] by (simp add: word_le_nat_alt) linarith

text \<open>The life cycle only moves on by one, and a decision is not changed.\<close>

lemma fw_step_life:
  "fw_packet_state_f (fst (fw_step x c)) = fw_packet_state_f c \<or>
   snd (fw_step x c) = 0 \<and>
   packet_tag (fw_packet_state_f (fst (fw_step x c))) = packet_tag (fw_packet_state_f c) + 1"
  by (cases x) (simp_all add: op_simps split: option.split)

lemma fw_step_decided:
  "fw_packet_state_f c \<in> {pk_decided, pk_committed} \<Longrightarrow> fw_decision_f (fst (fw_step x c)) = fw_decision_f c"
  by (cases x) (auto simp: op_simps)

text \<open>
  C18: The life of an owned firewall context: a decision can be read exactly in the states Decided and
  Committed, and no call changes it any more once it can be read; the chain never holds more than 64
  rules; and a call that changes the state takes it to the next one, along an edge of the transition
  table, so the abort edges of the table are never used.
\<close>

theorem fw_verdict_final:
  assumes "fw_client p hs" "h \<in> set hs"
  shows "(ffi_fw_get_decision p h \<noteq> None \<longleftrightarrow>
        ffi_fw_packet_state p h \<in> {Some PacketState.Decided, Some PacketState.Committed}) \<and>
    unat (ffi_fw_rule_count p h) \<le> 64 \<and>
    (ffi_fw_get_decision p h = Some a \<longrightarrow> ffi_fw_get_decision (fst (ffi_fw_call x p h)) h = Some a) \<and>
    (\<exists>s t. ffi_fw_packet_state p h = Some s \<and> ffi_fw_packet_state (fst (ffi_fw_call x p h)) h = Some t \<and>
       (t = s \<or> ffi_fw_can_transition s t \<and> PacketState_to_tag t = PacketState_to_tag s + 1))"
  using assms
proof (rule fw.live_call [where op = x])
  fix i
  assume v: "valid_slot fw_active_f p (ctx_slot h) = Some i" and g: "fw_good (p ! i)"
    and v': "valid_slot fw_active_f (fst (ffi_fw_call x p h)) (ctx_slot h) = Some i"
    and s': "fst (ffi_fw_call x p h) ! i = fst (fw_step x (p ! i))"
  have decided: "ffi_fw_get_decision p h \<noteq> None \<longleftrightarrow> fw_packet_state_f (p ! i) \<in> {pk_decided, pk_committed}"
    using g unfolding fw_views(2) [OF v] firewall_action_known
    by (cases "fw_packet_state_f (p ! i)") (simp_all add: fw_good_def)
  also have "\<dots> \<longleftrightarrow> ffi_fw_packet_state p h \<in> {Some PacketState.Decided, Some PacketState.Committed}"
    by (simp add: fw_views [OF v] packet_abs_def split: packet_state.split)
  finally have "ffi_fw_get_decision p h \<noteq> None \<longleftrightarrow>
      ffi_fw_packet_state p h \<in> {Some PacketState.Decided, Some PacketState.Committed}" .
  moreover have "unat (ffi_fw_rule_count p h) \<le> 64" using g by (simp add: fw_views [OF v] fw_good_def rules_ok_def)
  moreover have "ffi_fw_get_decision p h = Some a \<longrightarrow> ffi_fw_get_decision (fst (ffi_fw_call x p h)) h = Some a"
  proof
    assume "ffi_fw_get_decision p h = Some a"
    then show "ffi_fw_get_decision (fst (ffi_fw_call x p h)) h = Some a"
      using decided fw_step_decided [of "p ! i" x] by (simp add: fw_views(2) [OF v] fw_views(2) [OF v'] s')
  qed
  moreover have "\<exists>s t. ffi_fw_packet_state p h = Some s \<and> ffi_fw_packet_state (fst (ffi_fw_call x p h)) h = Some t \<and>
       (t = s \<or> ffi_fw_can_transition s t \<and> PacketState_to_tag t = PacketState_to_tag s + 1)"
    using fw_step_life [of x "p ! i"]
    by (cases "fw_packet_state_f (p ! i)"; cases "fw_packet_state_f (fst (fw_step x (p ! i)))")
      (simp_all add: fw_views [OF v] fw_views [OF v'] s' packet_abs_def ffi_fw_can_transition_def fw_can_transition_def)
  ultimately show ?thesis by blast
qed

theorem fw_verdict_final_witness:
  "ffi_fw_get_decision (fw_contexts[0 := fw_fresh (fw_contexts ! 0)]) (handle 0) = None"
proof -
  have "ffi_fw_packet_state (fw_contexts[0 := fw_fresh (fw_contexts ! 0)]) (handle 0) = Some PacketState.Idle"
    by code_simp
  with fw_verdict_final [OF fw_first_client, of "handle 0" FirewallAction.Drop Wc_commit, THEN conjunct1]
  show ?thesis by simp
qed

section \<open>Connection tracking through the Rust API\<close>

text \<open>
  What the Rust client sees of connection tracking: the engine's tracked state reads as
  Established whichever connection state was recorded, the engine's expired state reads as Related,
  and Expired is never read. Recording a connection state passes the wrong enumeration on: None,
  Tracking, Established and Related are stored as new, established, related and invalid, and Expired
  is always refused. The transition query allows Established to Related and not Established to
  Expired, which the engine's expiry performs.
\<close>

theorem fw_conntrack_view:
  assumes "fw_client p hs" "h \<in> set hs"
  shows "\<exists>i < 64. h = handle i \<and>
    ffi_fw_conntrack_state p h = Some (case fw_conntrack_state_f (p ! i) of
        ct_untracked \<Rightarrow> ConntrackState.NoneV
      | ct_tracking \<Rightarrow> ConntrackState.Tracking
      | ct_tracked \<Rightarrow> ConntrackState.Established
      | ct_expired \<Rightarrow> ConntrackState.Related) \<and>
    (let (p', r) = ffi_fw_complete_tracking p h s in
       if fw_conntrack_state_f (p ! i) = ct_tracking \<and> s \<noteq> ConntrackState.Expired
       then r = Inr () \<and> ffi_fw_conntrack_state p' h = Some ConntrackState.Established \<and>
         ConnState_from_tag (fw_conn_state p' (ctx_slot h)) = Some (case s of
             ConntrackState.NoneV \<Rightarrow> ConnState.New
           | ConntrackState.Tracking \<Rightarrow> ConnState.Established
           | ConntrackState.Established \<Rightarrow> ConnState.Related
           | _ \<Rightarrow> ConnState.Invalid)
       else r = Inl InvalidState \<and> p' = p) \<and>
    ffi_fw_can_conntrack_transition ConntrackState.Established ConntrackState.Related \<and>
    \<not> ffi_fw_can_conntrack_transition ConntrackState.Established ConntrackState.Expired"
  using assms
proof (rule fw.live_call [where op = "Wc_complete_tracking s"])
  fix i
  assume v: "valid_slot fw_active_f p (ctx_slot h) = Some i"
    and v': "valid_slot fw_active_f (fst (ffi_fw_call (Wc_complete_tracking s) p h)) (ctx_slot h) = Some i"
  obtain j where "j < length fw_contexts" "h = handle j" "valid_slot fw_active_f p (ctx_slot h) = Some j"
    using assms by (rule fw.live_slot)
  then have i: "i < 64" "h = handle i" using v by (simp_all add: fw_contexts_def)
  have len: "i < length p" using v by (simp add: valid_slot_Some_iff slot_index_Some_iff)
  have read: "ffi_fw_conntrack_state p h = Some (case fw_conntrack_state_f (p ! i) of
        ct_untracked \<Rightarrow> ConntrackState.NoneV
      | ct_tracking \<Rightarrow> ConntrackState.Tracking
      | ct_tracked \<Rightarrow> ConntrackState.Established
      | ct_expired \<Rightarrow> ConntrackState.Related)"
    using v by (cases "fw_conntrack_state_f (p ! i)")
      (simp_all add: ffi_fw_conntrack_state_def fw_conntrack_state_def query_slot_def ConntrackState_from_tag_def)
  show ?thesis
    using v v' i read len
    by (intro exI [of _ i])
      (cases s; simp add: ffi_fw_op_defs on_slot_valid op_simps query_slot_def ffi_fw_conntrack_state_def
        fw_conntrack_state_def fw_conn_state_def ConntrackState_from_tag_def ConnState_from_tag_def
        ffi_fw_can_conntrack_transition_def fw_can_conntrack_transition_def wrap_status_def split: if_splits)
qed

theorem fw_conntrack_view_witness:
  "ffi_fw_conntrack_state (fw_contexts[0 := fw_fresh (fw_contexts ! 0)]) (handle 0) = Some ConntrackState.NoneV"
proof -
  let ?p = "fw_contexts[0 := fw_fresh (fw_contexts ! 0)]"
  have start: "fw_conntrack_state_f (?p ! 0) = ct_untracked" by code_simp
  obtain i where i: "i < 64" "handle 0 = handle i"
    and read: "ffi_fw_conntrack_state ?p (handle 0) = Some (case fw_conntrack_state_f (?p ! i) of
        ct_untracked \<Rightarrow> ConntrackState.NoneV
      | ct_tracking \<Rightarrow> ConntrackState.Tracking
      | ct_tracked \<Rightarrow> ConntrackState.Established
      | ct_expired \<Rightarrow> ConntrackState.Related)"
    using fw_conntrack_view [OF fw_first_client list.set_intros(1), of ConntrackState.Related] by blast
  from i have "i = 0" using handle_inject [of 0 i] by simp
  with read start show ?thesis by simp
qed

end
