(* ===== verification/Httpd_Props.thy ===== *)
theory Httpd_Props
  imports Httpd_Ffi
begin

text \<open>
  Properties of the HTTP component: a printed request is read back, what happens to a request that
  arrives in pieces, and the life of a request context.
\<close>

section \<open>Reading a printed request\<close>

definition crlf :: "u8 list" where "crlf = [13, 10]"

definition print_header :: "u8 list \<times> u8 list \<Rightarrow> u8 list" where
  "print_header h = fst h @ [58, 32] @ snd h @ crlf"

definition print_headers :: "(u8 list \<times> u8 list) list \<Rightarrow> u8 list" where
  "print_headers hs = concat (map print_header hs)"

definition print_request ::
    "Http_Method \<Rightarrow> u8 list \<Rightarrow> Http_Version \<Rightarrow> (u8 list \<times> u8 list) list \<Rightarrow> u8 list \<Rightarrow> u8 list" where
  "print_request m path v hs body =
     ascii (Http_Method_as_str m) @ [32] @ path @ [32] @ ascii (Http_Version_as_str v) @ crlf @
     print_headers hs @ crlf @ body"

text \<open>A header that survives: trimmed, within the buffer sizes, one line, no colon in the key.\<close>

definition header_ok :: "u8 list \<times> u8 list \<Rightarrow> bool" where
  "header_ok h \<longleftrightarrow>
     trimWhitespace (fst h) = fst h \<and> trimWhitespace (snd h) = snd h \<and> length (fst h) \<le> 128 \<and>
     length (snd h) \<le> 512 \<and> 58 \<notin> set (fst h) \<and> 10 \<notin> set (fst h) \<and> 10 \<notin> set (snd h)"

definition entry :: "u8 list \<times> u8 list \<Rightarrow> HeaderEntry" where
  "entry h = \<lparr>hd_key = fst h, hd_value = snd h, hd_active = True\<rparr>"

subsection \<open>Trimming and searching\<close>

lemma first_index_append:
  "(\<forall>x \<in> set xs. \<not> P x) \<Longrightarrow> P y \<Longrightarrow> first_index P (xs @ y # ys) = Some (length xs)"
  by (induction xs) auto

lemma first_index_None: "(\<forall>x \<in> set xs. \<not> P x) \<Longrightarrow> first_index P xs = None"
  by (induction xs) auto

lemma findEol_line: "10 \<notin> set l \<Longrightarrow> findEol (l @ crlf @ rest) = Some (length l + 2)"
  using first_index_append [of "l @ [13]" "\<lambda>b. b = 10" 10 rest]
  by (auto simp: findEol_def crlf_def)

text \<open>A list is trimmed when neither end is white.\<close>

definition trimmed :: "u8 list \<Rightarrow> bool" where
  "trimmed l \<longleftrightarrow> (l \<noteq> [] \<longrightarrow> \<not> is_white (hd l) \<and> \<not> is_white (last l))"

lemma trim_trimmed: "trimmed l \<Longrightarrow> trimWhitespace l = l"
proof (cases "l = []")
  case False
  assume "trimmed l"
  with False have "dropWhile is_white l = l" "dropWhile is_white (rev l) = rev l"
    by (simp_all add: trimmed_def dropWhile_eq_self_iff hd_rev)
  then show ?thesis by (simp add: trimWhitespace_def)
qed (simp add: trimWhitespace_def)

lemma trimmed_trim: "trimmed (trimWhitespace l)"
proof (cases "trimWhitespace l = []")
  case True
  then show ?thesis by (simp add: trimmed_def)
next
  case False
  let ?m = "dropWhile is_white l" and ?n = "dropWhile is_white (rev (dropWhile is_white l))"
  from False have n: "?n \<noteq> []" by (simp add: trimWhitespace_def)
  then have m: "?m \<noteq> []" by (metis dropWhile.simps(1) rev.simps(1))
  obtain ws where "rev ?m = ws @ ?n" by (metis takeWhile_dropWhile_id)
  then have "?m = rev ?n @ rev ws" by (metis rev_append rev_rev_ident)
  then have "hd (rev ?n) = hd ?m" using n by (metis hd_append2 rev_is_Nil_conv)
  moreover have "\<not> is_white (hd ?m)" using m hd_dropWhile by blast
  moreover have "\<not> is_white (hd ?n)" using n hd_dropWhile by blast
  ultimately show ?thesis by (simp add: trimmed_def trimWhitespace_def last_rev)
qed

lemma trim_eq_iff: "trimWhitespace l = l \<longleftrightarrow> trimmed l"
  using trim_trimmed trimmed_trim by metis

lemma trim_behind: "trimmed l \<Longrightarrow> l \<noteq> [] \<Longrightarrow> \<forall>b \<in> set ws. is_white b \<Longrightarrow> trimWhitespace (l @ ws) = l"
proof -
  assume l: "trimmed l" "l \<noteq> []" and ws: "\<forall>b \<in> set ws. is_white b"
  then have "dropWhile is_white (l @ ws) = l @ ws" by (cases l) (simp_all add: trimmed_def)
  moreover have "dropWhile is_white (rev ws @ rev l) = dropWhile is_white (rev l)"
    using ws by (intro dropWhile_append2) simp
  moreover have "dropWhile is_white (rev l) = rev l"
    using l by (simp add: dropWhile_eq_self_iff trimmed_def hd_rev)
  ultimately show ?thesis by (simp add: trimWhitespace_def)
qed

lemma trim_white: "\<forall>b \<in> set ws. is_white b \<Longrightarrow> trimWhitespace ws = []"
  by (simp add: trimWhitespace_def dropWhile_eq_Nil_conv [THEN iffD2])

lemma trim_front: "is_white b \<Longrightarrow> trimWhitespace (b # l) = trimWhitespace l"
  by (simp add: trimWhitespace_def)

lemma white_consts [simp]: "is_white 32" "is_white 13" "is_white 10" "is_white 9" "\<not> is_white 58"
  by (simp_all add: is_white_def)

subsection \<open>One line, and the lines\<close>

lemma header_line:
  assumes "header_ok h"
  shows "findEol (print_header h @ rest) = Some (length (print_header h))"
    and "trimWhitespace (print_header h) = (if snd h = [] then fst h @ [58] else fst h @ [58, 32] @ snd h)"
proof -
  have t: "trimmed (fst h)" "trimmed (snd h)" using assms by (simp_all add: header_ok_def trim_eq_iff)
  show "findEol (print_header h @ rest) = Some (length (print_header h))"
    using assms findEol_line [of "fst h @ [58, 32] @ snd h" rest]
    by (simp add: header_ok_def print_header_def crlf_def)
  show "trimWhitespace (print_header h) = (if snd h = [] then fst h @ [58] else fst h @ [58, 32] @ snd h)"
  proof (cases "snd h = []")
    case True
    have "trimmed (fst h @ [58])" using t(1) by (cases "fst h") (simp_all add: trimmed_def)
    from trim_behind [OF this, of "32 # crlf"] True show ?thesis
      by (simp add: print_header_def crlf_def)
  next
    case False
    then have "trimmed (fst h @ [58, 32] @ snd h)"
      using t by (cases "fst h") (simp_all add: trimmed_def)
    from trim_behind [OF this, of crlf] False show ?thesis
      by (simp add: print_header_def crlf_def)
  qed
qed

lemma header_colon:
  assumes "header_ok h"
  defines "line \<equiv> trimWhitespace (print_header h)"
  shows "line \<noteq> []" "first_index (\<lambda>b. b = 58) line = Some (length (fst h))"
    and "trimWhitespace (take (length (fst h)) line) = fst h"
    and "trimWhitespace (drop (length (fst h) + 1) line) = snd h"
proof -
  have colon: "\<forall>b \<in> set (fst h). \<not> b = 58" using assms(1) by (auto simp: header_ok_def)
  have line: "line = fst h @ 58 # (if snd h = [] then [] else 32 # snd h)"
    using header_line(2) [OF assms(1)] by (simp add: line_def)
  then show "line \<noteq> []" by simp
  show "first_index (\<lambda>b. b = 58) line = Some (length (fst h))"
    using first_index_append [OF colon] by (simp add: line)
  show "trimWhitespace (take (length (fst h)) line) = fst h"
    using assms(1) by (simp add: line header_ok_def)
  show "trimWhitespace (drop (length (fst h) + 1) line) = snd h"
    using assms(1) by (simp add: line header_ok_def trim_front trimWhitespace_def)
qed

lemma header_loop_printed:
  assumes "\<forall>h \<in> set hs. header_ok h" "length (ht_req_headers c) + length hs \<le> 32"
  shows "http_header_loop (print_headers hs @ crlf @ body) c =
    http_end_headers body (c\<lparr>ht_req_headers := ht_req_headers c @ map entry hs\<rparr>)"
  using assms
proof (induction hs arbitrary: c)
  case Nil
  have "findEol (crlf @ body) = Some 2" using findEol_line [of "[]" body] by simp
  moreover have "trimWhitespace (take 2 (crlf @ body)) = []" by (simp add: crlf_def trim_white)
  ultimately show ?case
    by (subst http_header_loop.simps) (simp add: print_headers_def crlf_def numeral_2_eq_2)
next
  case (Cons h hs)
  let ?rest = "print_headers hs @ crlf @ body"
  have h: "header_ok h" using Cons.prems by simp
  note l = header_line(1) [OF h, of ?rest] and c = header_colon [OF h]
  have add: "addHeaderToArray (ht_req_headers c) (fst h) (snd h) = Some (ht_req_headers c @ [entry h])"
    using Cons.prems h
    by (simp add: addHeaderToArray_def header_ok_def MAX_HEADERS_def MAX_HEADER_KEY_LEN_def
        MAX_HEADER_VAL_LEN_def entry_def)
  have "http_header_loop (print_header h @ ?rest) c =
      http_header_loop ?rest (c\<lparr>ht_req_headers := ht_req_headers c @ [entry h]\<rparr>)"
    by (subst http_header_loop.simps) (use l c add in \<open>simp add: print_header_def Let_def\<close>)
  with Cons.IH [of "c\<lparr>ht_req_headers := ht_req_headers c @ [entry h]\<rparr>"] Cons.prems show ?case
    by (simp add: print_headers_def)
qed

subsection \<open>The request line\<close>

lemma ascii_method:
  "parseMethodStr (ascii (Http_Method_as_str m)) = Http_Method_to_tag m"
  "\<forall>b \<in> set (ascii (Http_Method_as_str m)). \<not> is_white b" "ascii (Http_Method_as_str m) \<noteq> []"
  by (cases m; simp add: parseMethodStr_def method_strings_def ascii_def Http_Method_as_str_def is_white_def)+

lemma ascii_version:
  "parseVersionStr (ascii (Http_Version_as_str v)) = Http_Version_to_tag v"
  "\<forall>b \<in> set (ascii (Http_Version_as_str v)). \<not> is_white b" "ascii (Http_Version_as_str v) \<noteq> []"
  by (cases v; simp add: parseVersionStr_def ascii_def Http_Version_as_str_def is_white_def)+

lemma tags_not_unset: "Http_Method_to_tag m \<noteq> 255" "Http_Version_to_tag v \<noteq> 255"
  by (cases m; simp) (cases v; simp)

lemma request_line_printed:
  fixes m v
  assumes "path \<noteq> []" "length path \<le> 2048" "32 \<notin> set path" "10 \<notin> set path"
  defines "line \<equiv> ascii (Http_Method_as_str m) @ [32] @ path @ [32] @ ascii (Http_Version_as_str v)"
  shows "findEol (line @ crlf @ rest) = Some (length line + 2)"
    and "http_request_line (line @ crlf @ rest) (length line + 2) c =
      http_header_loop rest (c\<lparr>ht_method := Http_Method_to_tag m, ht_version := Http_Version_to_tag v, ht_path := path\<rparr>)"
proof -
  let ?m = "ascii (Http_Method_as_str m)" and ?v = "ascii (Http_Version_as_str v)"
  have plain: "b \<noteq> 10" "b \<noteq> 32" if "\<not> is_white b" for b using that by (auto simp: is_white_def)
  show "findEol (line @ crlf @ rest) = Some (length line + 2)"
    using assms(4) ascii_method(2) [of m] ascii_version(2) [of v]
    by (intro findEol_line) (auto simp: line_def)
  have "trimmed line"
    using ascii_method(2,3) [of m] ascii_version(2,3) [of v] by (simp add: trimmed_def line_def)
  then have "trimWhitespace (line @ crlf) = line"
    by (rule trim_behind) (simp_all add: line_def crlf_def)
  moreover have "take (length line + 2) (line @ crlf @ rest) = line @ crlf"
    "drop (length line + 2) (line @ crlf @ rest) = rest"
    by (simp_all add: crlf_def)
  moreover have "first_index (\<lambda>b. b = 32) line = Some (length ?m)"
    using first_index_append [of ?m "\<lambda>b. b = 32" 32 "path @ [32] @ ?v"] ascii_method(2) [of m] plain
    by (auto simp: line_def)
  moreover have "take (length ?m) line = ?m" "drop (length ?m + 1) line = path @ [32] @ ?v"
    by (simp_all add: line_def)
  moreover have "first_index (\<lambda>b. b = 32) (path @ [32] @ ?v) = Some (length path)"
    using first_index_append [of path "\<lambda>b. b = 32" 32 ?v] assms(3) by auto
  ultimately show "http_request_line (line @ crlf @ rest) (length line + 2) c =
      http_header_loop rest (c\<lparr>ht_method := Http_Method_to_tag m, ht_version := Http_Version_to_tag v, ht_path := path\<rparr>)"
    using assms(1,2) ascii_method(1) [of m] ascii_version(1) [of v] tags_not_unset
    by (simp add: http_request_line_def Let_def MAX_PATH_LEN_def)
qed

lemma method_body:
  "Http_Method_to_tag m = 1 \<or> Http_Method_to_tag m = 2 \<or> Http_Method_to_tag m = 4 \<longleftrightarrow> Http_Method_has_request_body m"
  by (cases m; simp add: Http_Method_has_request_body_def)

text \<open>The context after a whole request.\<close>

definition received ::
    "Http_Method \<Rightarrow> u8 list \<Rightarrow> Http_Version \<Rightarrow> (u8 list \<times> u8 list) list \<Rightarrow> HttpCtx \<Rightarrow> HttpCtx" where
  "received m path v hs c =
     c\<lparr>ht_phase := ph_headers_parsed, ht_method := Http_Method_to_tag m, ht_version := Http_Version_to_tag v,
       ht_path := path, ht_req_headers := map entry hs\<rparr>"

lemma parse_printed:
  assumes "path \<noteq> []" "length path \<le> 2048" "32 \<notin> set path" "10 \<notin> set path"
    and "\<forall>h \<in> set hs. header_ok h" "length hs \<le> 32"
    and "ht_phase c = ph_idle \<or> ht_phase c = ph_receiving" "ht_req_headers c = []"
  shows "http_parse_request_on (print_request m path v hs body) c =
    (if Http_Method_has_request_body m then
       if body \<noteq> [] then (received m path v hs c\<lparr>ht_phase := ph_complete, ht_req_body := take 8192 body,
            ht_keep_alive := checkKeepAlive (map entry hs)\<rparr>, 0)
       else (received m path v hs c\<lparr>ht_phase := ph_body_receiving\<rparr>, 2)
     else (received m path v hs c\<lparr>ht_phase := ph_complete, ht_keep_alive := checkKeepAlive (map entry hs)\<rparr>, 0))"
proof -
  let ?line = "ascii (Http_Method_as_str m) @ [32] @ path @ [32] @ ascii (Http_Version_as_str v)"
  let ?d = "c\<lparr>ht_phase := ph_receiving\<rparr>"
  have req: "print_request m path v hs body = ?line @ crlf @ print_headers hs @ crlf @ body"
    by (simp add: print_request_def)
  note l = request_line_printed [OF assms(1-4), where m = m and v = v and rest = "print_headers hs @ crlf @ body"]
  have "http_parse_request_on (print_request m path v hs body) c =
      http_request_line (print_request m path v hs body) (length ?line + 2) ?d"
    using assms(7) l(1) unfolding req
    by (cases c) (auto simp: http_parse_request_on_def Let_def simp del: append_assoc)
  also have "\<dots> = http_end_headers body (received m path v hs c)"
    unfolding req l(2)
    by (subst header_loop_printed) (use assms(5,6,8) in \<open>simp_all add: received_def http_end_headers_def Let_def\<close>)
  also have "\<dots> = (if Http_Method_has_request_body m then
       if body \<noteq> [] then (received m path v hs c\<lparr>ht_phase := ph_complete, ht_req_body := take 8192 body,
            ht_keep_alive := checkKeepAlive (map entry hs)\<rparr>, 0)
       else (received m path v hs c\<lparr>ht_phase := ph_body_receiving\<rparr>, 2)
     else (received m path v hs c\<lparr>ht_phase := ph_complete, ht_keep_alive := checkKeepAlive (map entry hs)\<rparr>, 0))"
    using method_body [of m] by (simp add: http_end_headers_def received_def Let_def MAX_BODY_LEN_def min_def)
  finally show ?thesis .
qed

subsection \<open>Through the Rust API\<close>

definition phase_abs :: "http_phase \<Rightarrow> RequestPhase" where
  "phase_abs s = (case s of
      ph_idle \<Rightarrow> RequestPhase.Idle
    | ph_receiving \<Rightarrow> RequestPhase.Receiving
    | ph_headers_parsed \<Rightarrow> RequestPhase.HeadersParsed
    | ph_body_receiving \<Rightarrow> RequestPhase.BodyReceiving
    | ph_complete \<Rightarrow> RequestPhase.Complete
    | ph_responding \<Rightarrow> RequestPhase.Responding
    | ph_sent \<Rightarrow> RequestPhase.Sent)"

lemma phase_abs_inject [simp]: "phase_abs s = phase_abs t \<longleftrightarrow> s = t"
  by (cases s; cases t; simp add: phase_abs_def)

lemma http_views:
  assumes "valid_slot ht_active p (ctx_slot h) = Some i"
  shows "ffi_http_get_phase p h = Some (phase_abs (ht_phase (p ! i)))"
    and "ffi_http_get_method p h = Http_Method_from_tag (ht_method (p ! i))"
    and "ffi_http_get_version p h = Http_Version_from_tag (ht_version (p ! i))"
    and "ffi_http_keep_alive_check p h = ht_keep_alive (p ! i)"
    and "n < 4294967296 \<Longrightarrow> fst (ffi_http_get_path p h n) = take n (ht_path (p ! i))"
    and "n < 4294967296 \<Longrightarrow> fst (ffi_http_get_body p h n) = take n (ht_req_body (p ! i))"
    and "n < 4294967296 \<Longrightarrow> length k < 4294967296 \<Longrightarrow> fst (ffi_http_get_header p h k n) =
      (case find (\<lambda>e. hd_active e \<and> map lower (hd_key e) = map lower k) (ht_req_headers (p ! i)) of
         Some e \<Rightarrow> take n (hd_value e) | None \<Rightarrow> [])"
proof -
  show "ffi_http_get_phase p h = Some (phase_abs (ht_phase (p ! i)))"
    using assms by (cases "ht_phase (p ! i)")
      (simp_all add: ffi_http_get_phase_def http_get_phase_def query_slot_def phase_abs_def RequestPhase_from_tag_def)
  have cut: "take (min (length xs) n) xs = take n xs" for xs :: "u8 list" by (simp add: min_def)
  have word: "n < 4294967296 \<Longrightarrow> unat (word_of_nat n :: u32) = n" by (simp add: unat_of_nat)
  show "n < 4294967296 \<Longrightarrow> fst (ffi_http_get_path p h n) = take n (ht_path (p ! i))"
    and "n < 4294967296 \<Longrightarrow> fst (ffi_http_get_body p h n) = take n (ht_req_body (p ! i))"
    using assms by (simp_all add: ffi_http_get_path_def http_get_path_def ffi_http_get_body_def http_get_body_def
        query_slot_def word cut Let_def)
  show "n < 4294967296 \<Longrightarrow> length k < 4294967296 \<Longrightarrow> fst (ffi_http_get_header p h k n) =
      (case find (\<lambda>e. hd_active e \<and> map lower (hd_key e) = map lower k) (ht_req_headers (p ! i)) of
         Some e \<Rightarrow> take n (hd_value e) | None \<Rightarrow> [])"
    using assms by (simp add: ffi_http_get_header_def http_get_header_def query_slot_def word cut Let_def split: option.split)
qed (use assms in \<open>simp_all add: ffi_http_get_method_def http_get_method_def ffi_http_get_version_def
    http_get_version_def ffi_http_keep_alive_check_def http_keep_alive_check_def query_slot_def\<close>)

text \<open>The value of the first header with a given name, without regard to case.\<close>

definition header_value :: "(u8 list \<times> u8 list) list \<Rightarrow> u8 list \<Rightarrow> u8 list" where
  "header_value hs k = (case find (\<lambda>h. map lower (fst h) = map lower k) hs of Some h \<Rightarrow> snd h | None \<Rightarrow> [])"

lemma find_entry:
  "(case find (\<lambda>e. hd_active e \<and> map lower (hd_key e) = map lower k) (map entry hs) of
      Some e \<Rightarrow> take n (hd_value e) | None \<Rightarrow> []) = take n (header_value hs k)"
  by (induction hs) (simp_all add: header_value_def entry_def)

lemma valid_request_phases:
  assumes "http_good c" "ht_phase c = ph_idle"
  shows "ht_req_headers c = []" "ht_req_body c = []" "\<not> ht_keep_alive c"
  using assms by (simp_all add: http_good_def blank_def)

text \<open>
  C28: A request that arrives in one piece is read back through the Rust API: for every method, version
  and path (1 to 2048 bytes without space and line feed), at most 32 trimmed headers within the buffer
  sizes, and a body when the method carries one, parsing the printed request on an idle context
  completes, and the queries return the method, the version, the path, the value of the first header
  with a name (whatever the case of its letters) and the body, cut to 8192 bytes; a body behind a
  request whose method carries none is ignored.
\<close>

theorem httpd_reads_back:
  assumes "http_client p hs" "h \<in> set hs" "ffi_http_get_phase p h = Some RequestPhase.Idle"
    and "path \<noteq> []" "length path \<le> 2048" "32 \<notin> set path" "10 \<notin> set path"
    and "\<forall>x \<in> set headers. header_ok x" "length headers \<le> 32"
    and "Http_Method_has_request_body m \<longrightarrow> body \<noteq> []"
    and "length (print_request m path v headers body) < 4294967296" "n < 4294967296" "length k < 4294967296"
  defines "r \<equiv> ffi_http_parse_request p h (print_request m path v headers body)"
  shows "snd r = Inr ParseResult.Complete \<and> ffi_http_get_phase (fst r) h = Some RequestPhase.Complete \<and>
    ffi_http_get_method (fst r) h = Some m \<and> ffi_http_get_version (fst r) h = Some v \<and>
    fst (ffi_http_get_path (fst r) h n) = take n path \<and>
    fst (ffi_http_get_header (fst r) h k n) = take n (header_value headers k) \<and>
    fst (ffi_http_get_body (fst r) h n) = (if Http_Method_has_request_body m then take (min n 8192) body else [])"
  using assms(1,2)
proof (rule http.live_call [where op = "Tc_parse_request (print_request m path v headers body)"])
  fix i
  let ?x = "Tc_parse_request (print_request m path v headers body)"
  assume v: "valid_slot ht_active p (ctx_slot h) = Some i" and g: "http_good (p ! i)"
    and v': "valid_slot ht_active (fst (ffi_http_call ?x p h)) (ctx_slot h) = Some i"
    and s': "fst (ffi_http_call ?x p h) ! i = fst (http_step ?x (p ! i))"
    and a': "snd (ffi_http_call ?x p h) = http_conv ?x (snd (http_step ?x (p ! i)))"
  have "ht_phase (p ! i) = ph_idle"
    using assms(3) by (simp add: http_views [OF v] phase_abs_def split: http_phase.splits)
  note idle = this valid_request_phases [OF g this]
  have call: "fst (ffi_http_call ?x p h) = fst r" "snd (ffi_http_call ?x p h) = Ans_parse (snd r)"
    by (simp_all add: r_def)
  have len: "len_u32 (print_request m path v headers body) = print_request m path v headers body"
    using assms(11) by (rule len_u32_id)
  have parse: "http_step ?x (p ! i) =
      (received m path v headers (p ! i)\<lparr>ht_phase := ph_complete,
          ht_req_body := (if Http_Method_has_request_body m then take 8192 body else []),
          ht_keep_alive := checkKeepAlive (map entry headers)\<rparr>, 0)"
    using parse_printed [OF assms(4-9) _ idle(2), where m = m and v = v and body = body] idle assms(10)
    by (simp add: len received_def)
  have vr: "valid_slot ht_active (fst r) (ctx_slot h) = Some i" using v' unfolding call .
  have ctx: "fst r ! i = received m path v headers (p ! i)\<lparr>ht_phase := ph_complete,
          ht_req_body := (if Http_Method_has_request_body m then take 8192 body else []),
          ht_keep_alive := checkKeepAlive (map entry headers)\<rparr>"
    using s' unfolding call parse by simp
  have "snd r = parse_result 0" using a' unfolding call parse by (simp add: http_conv_def)
  then have "snd r = Inr ParseResult.Complete" by (simp add: parse_result_def)
  then show ?thesis
    by (simp add: http_views(1-4) [OF vr] http_views(5,6) [OF vr assms(12)] http_views(7) [OF vr assms(12,13)]
        ctx received_def phase_abs_def find_entry)
qed

lemma http_first_valid:
  "valid_slot ht_active (http_contexts[0 := http_fresh (http_contexts ! 0)]) (ctx_slot (handle 0)) = Some 0"
  unfolding ctx_slot_handle by (subst valid_slot_of_nat) (simp_all add: http_contexts_def http_fresh_def)

lemma http_first_idle:
  "ffi_http_get_phase (http_contexts[0 := http_fresh (http_contexts ! 0)]) (handle 0) = Some RequestPhase.Idle"
  unfolding http_views(1) [OF http_first_valid]
  by (simp add: http_contexts_def http_fresh_def empty_ctx_def phase_abs_def)

theorem httpd_reads_back_witness:
  "fst (ffi_http_get_path (fst (ffi_http_parse_request (http_contexts[0 := http_fresh (http_contexts ! 0)]) (handle 0)
     (print_request Http_Method.Get [47, 97] Http_Version.Http11 [([72], [120])] []))) (handle 0) 10) = [47, 97]"
proof -
  let ?r = "print_request Http_Method.Get [47, 97] Http_Version.Http11 [([72], [120])] []"
  have "length ?r < 4294967296"
    by (simp add: print_request_def print_headers_def print_header_def crlf_def ascii_def
        Http_Method_as_str_def Http_Version_as_str_def)
  moreover have "header_ok ([72], [120])" by (simp add: header_ok_def trimWhitespace_def is_white_def)
  ultimately show ?thesis
    using httpd_reads_back [OF http_first_client _ http_first_idle, where path = "[47, 97]"
        and headers = "[([72], [120])]" and m = Http_Method.Get and v = Http_Version.Http11 and body = "[]"
        and n = 10 and k = "[72]"]
    by (simp add: Http_Method_has_request_body_def)
qed

section \<open>A request that arrives in pieces\<close>

lemma parse_no_line:
  assumes "ht_phase c = ph_idle \<or> ht_phase c = ph_receiving" "10 \<notin> set a"
  shows "http_parse_request_on a c = (c\<lparr>ht_phase := ph_receiving\<rparr>, 2)"
    and "http_parse_request_on b (c\<lparr>ht_phase := ph_receiving\<rparr>) = http_parse_request_on b c"
proof -
  have eol: "findEol a = None" using assms(2) by (auto simp: findEol_def intro!: first_index_None)
  have id: "ht_phase c = ph_receiving \<Longrightarrow> c\<lparr>ht_phase := ph_receiving\<rparr> = c" by (cases c) simp
  show "http_parse_request_on a c = (c\<lparr>ht_phase := ph_receiving\<rparr>, 2)"
    using assms(1) eol id by (auto simp: http_parse_request_on_def Let_def)
  show "http_parse_request_on b (c\<lparr>ht_phase := ph_receiving\<rparr>) = http_parse_request_on b c"
  proof (cases "ht_phase c = ph_idle")
    case False
    with assms(1) have "ht_phase c = ph_receiving" by simp
    then show ?thesis by (simp only: id)
  qed (simp add: http_parse_request_on_def Let_def)
qed

text \<open>A parse through an owned handle, as what it does to the slot.\<close>

lemma ffi_parse_slot:
  assumes "valid_slot ht_active p (ctx_slot h) = Some i" "length d < 4294967296"
  shows "ffi_http_parse_request p h d =
    (p[i := fst (http_parse_request_on d (p ! i))], parse_result (snd (http_parse_request_on d (p ! i))))"
  using assms by (simp add: ffi_http_parse_request_def http_parse_request_def on_slot_valid)

lemma valid_after_parse:
  assumes "valid_slot ht_active p (ctx_slot h) = Some i"
  shows "valid_slot ht_active (p[i := fst (http_parse_request_on d (p ! i))]) (ctx_slot h) = Some i"
proof -
  have "ht_active (p ! i)" "slot_index p (ctx_slot h) = Some i" using assms by (simp_all add: valid_slot_Some_iff)
  moreover from this have "i < length p" by (simp add: slot_index_Some_iff)
  moreover have "ht_active (fst (http_parse_request_on d (p ! i)))"
    using \<open>ht_active (p ! i)\<close>
    by (simp add: http_parse_request_on_def Let_def http_request_line_def http_abort_def http_header_loop_active
        split: option.split)
  ultimately show ?thesis by (simp add: valid_slot_Some_iff)
qed

text \<open>
  C29: The parser does not put pieces together. A piece without a line feed is answered with NeedMore and
  lost: what follows is parsed as if the piece had never been fed. When a request with a body
  arrives in two pieces, the head and then the body, the second piece completes the request whatever
  its length, with itself as the body (cut to 8192 bytes), and the connection counts as not kept
  alive, whatever its headers say.
\<close>

theorem httpd_pieces:
  assumes "http_client p hs" "h \<in> set hs" "ffi_http_get_phase p h = Some RequestPhase.Idle"
    and "10 \<notin> set a" "length a < 4294967296" "length b < 4294967296"
    and "path \<noteq> []" "length path \<le> 2048" "32 \<notin> set path" "10 \<notin> set path"
    and "\<forall>x \<in> set headers. header_ok x" "length headers \<le> 32" "Http_Method_has_request_body m"
    and "length (print_request m path v headers []) < 4294967296" "n < 4294967296"
  defines "lost \<equiv> ffi_http_parse_request p h a"
    and "head \<equiv> ffi_http_parse_request p h (print_request m path v headers [])"
  defines "tail \<equiv> ffi_http_parse_request (fst head) h b"
  shows "snd lost = Inr ParseResult.NeedMore \<and>
    ffi_http_parse_request (fst lost) h b = ffi_http_parse_request p h b \<and>
    snd head = Inr ParseResult.NeedMore \<and> snd tail = Inr ParseResult.Complete \<and>
    ffi_http_get_method (fst tail) h = Some m \<and>
    fst (ffi_http_get_body (fst tail) h n) = take (min n 8192) b \<and>
    \<not> ffi_http_keep_alive_check (fst tail) h"
proof -
  obtain i where v: "valid_slot ht_active p (ctx_slot h) = Some i" and g: "http_good (p ! i)"
    using assms(1,2) by (rule http.live_slot)
  then have i: "i < length p" by (simp add: valid_slot_Some_iff slot_index_Some_iff)
  have "ht_phase (p ! i) = ph_idle"
    using assms(3) by (simp add: http_views [OF v] phase_abs_def split: http_phase.splits)
  note idle = this valid_request_phases [OF g this]
  note va = valid_after_parse [OF v]
  have lost: "lost = (p[i := (p ! i)\<lparr>ht_phase := ph_receiving\<rparr>], Inr ParseResult.NeedMore)"
    unfolding lost_def ffi_parse_slot [OF v assms(5)] using idle parse_no_line(1) [of "p ! i" a] assms(4)
    by (simp add: parse_result_def)
  have vl: "valid_slot ht_active (p[i := (p ! i)\<lparr>ht_phase := ph_receiving\<rparr>]) (ctx_slot h) = Some i"
    using va [of a] idle parse_no_line(1) [of "p ! i" a] assms(4) by simp
  have "ffi_http_parse_request (fst lost) h b = ffi_http_parse_request p h b"
    unfolding lost fst_conv ffi_parse_slot [OF v assms(6)] ffi_parse_slot [OF vl assms(6)]
    using i idle parse_no_line(2) [of "p ! i" a b] assms(4) by simp
  moreover
  let ?c = "received m path v headers (p ! i)\<lparr>ht_phase := ph_body_receiving\<rparr>"
  have parse: "http_parse_request_on (print_request m path v headers []) (p ! i) = (?c, 2)"
    using parse_printed [OF assms(7-12) _ idle(2), where m = m and v = v and body = "[]"] idle(1) assms(13) by simp
  have head: "head = (p[i := ?c], Inr ParseResult.NeedMore)"
    unfolding head_def ffi_parse_slot [OF v assms(14)] parse by (simp add: parse_result_def)
  have vh: "valid_slot ht_active (p[i := ?c]) (ctx_slot h) = Some i"
    using va [of "print_request m path v headers []"] parse by simp
  have body: "http_parse_request_on b ?c = (?c\<lparr>ht_req_body := take 8192 b, ht_phase := ph_complete\<rparr>, 0)"
    using idle(3) by (simp add: http_parse_request_on_def received_def MAX_BODY_LEN_def min_def Let_def)
  have tail: "tail = (p[i := ?c\<lparr>ht_req_body := take 8192 b, ht_phase := ph_complete\<rparr>], Inr ParseResult.Complete)"
    unfolding tail_def head fst_conv ffi_parse_slot [OF vh assms(6)] using i body by (simp add: parse_result_def)
  have vt: "valid_slot ht_active (fst tail) (ctx_slot h) = Some i"
    using valid_after_parse [OF vh, of b] i body by (simp add: tail)
  have "ffi_http_get_method (fst tail) h = Some m" "fst (ffi_http_get_body (fst tail) h n) = take (min n 8192) b"
    "\<not> ffi_http_keep_alive_check (fst tail) h"
    unfolding http_views(2,4) [OF vt] http_views(6) [OF vt assms(15)]
    unfolding tail using i idle by (simp_all add: received_def)
  ultimately show ?thesis by (simp add: lost head tail)
qed

theorem httpd_pieces_witness:
  "\<not> ffi_http_keep_alive_check (fst (ffi_http_parse_request
      (fst (ffi_http_parse_request (http_contexts[0 := http_fresh (http_contexts ! 0)]) (handle 0)
         (print_request Http_Method.Post [47] Http_Version.Http11 [(ascii ''Connection'', ascii ''keep-alive'')] [])))
      (handle 0) [1, 2])) (handle 0)"
proof -
  let ?h = "(ascii ''Connection'', ascii ''keep-alive'')"
  have "length (print_request Http_Method.Post [47] Http_Version.Http11 [?h] []) < 4294967296"
    by (simp add: print_request_def print_headers_def print_header_def crlf_def ascii_def
        Http_Method_as_str_def Http_Version_as_str_def)
  moreover have "header_ok ?h" by (simp add: header_ok_def trimWhitespace_def is_white_def ascii_def)
  ultimately show ?thesis
    using httpd_pieces [OF http_first_client _ http_first_idle, where path = "[47]" and headers = "[?h]"
        and m = Http_Method.Post and v = Http_Version.Http11 and a = "[71]" and b = "[1, 2]" and n = 10]
    by (simp add: Http_Method_has_request_body_def)
qed

section \<open>The life of a context\<close>

definition forward :: "(RequestPhase \<times> RequestPhase) set" where
  "forward = {(s, t). validate_http_transition s t \<notin> {None, Some HttpTransition.KeepAliveRecycle}}"

lemma forward_edges:
  "(RequestPhase.Idle, RequestPhase.Receiving) \<in> forward"
  "(RequestPhase.Receiving, RequestPhase.HeadersParsed) \<in> forward"
  "(RequestPhase.HeadersParsed, RequestPhase.BodyReceiving) \<in> forward"
  "(RequestPhase.HeadersParsed, RequestPhase.Complete) \<in> forward"
  "(RequestPhase.BodyReceiving, RequestPhase.Complete) \<in> forward"
  "(RequestPhase.Complete, RequestPhase.Responding) \<in> forward"
  "(RequestPhase.Responding, RequestPhase.Sent) \<in> forward"
  "(RequestPhase.Receiving, RequestPhase.Sent) \<in> forward"
  by (simp_all add: forward_def validate_http_transition_def)

lemma forward_walks:
  "(RequestPhase.Idle, RequestPhase.BodyReceiving) \<in> forward\<^sup>*"
  "(RequestPhase.Idle, RequestPhase.Complete) \<in> forward\<^sup>*"
  "(RequestPhase.Idle, RequestPhase.Sent) \<in> forward\<^sup>*"
  "(RequestPhase.Receiving, RequestPhase.BodyReceiving) \<in> forward\<^sup>*"
  "(RequestPhase.Receiving, RequestPhase.Complete) \<in> forward\<^sup>*"
  using forward_edges by (meson rtrancl.rtrancl_refl rtrancl.rtrancl_into_rtrancl)+

text \<open>A forward walk never leads back.\<close>

lemma forward_mono: "(s, t) \<in> forward \<Longrightarrow> unat (RequestPhase_to_tag s) < unat (RequestPhase_to_tag t)"
  by (cases s; cases t; simp add: forward_def validate_http_transition_def)

lemma parse_phase:
  fixes input
  assumes "http_good c"
  defines "d \<equiv> fst (http_parse_request_on input c)"
  shows "ht_phase c \<in> {ph_idle, ph_receiving} \<and> ht_phase d \<in> {ph_receiving, ph_body_receiving, ph_complete, ph_sent} \<or>
    ht_phase c = ph_body_receiving \<and> ht_phase d = ph_complete \<or>
    ht_phase c \<notin> {ph_idle, ph_receiving, ph_body_receiving} \<and> d = c"
proof (cases "ht_phase c = ph_idle \<or> ht_phase c = ph_receiving")
  case True
  have b: "buffers_ok (c\<lparr>ht_phase := ph_receiving\<rparr>)" using assms(1) by (simp add: http_good_def buffers_ok_def)
  have "http_parse_request_on input c = http_parse_request_on input (c\<lparr>ht_phase := ph_receiving\<rparr>)"
    using True by (simp add: parse_no_line(2) [where a = "[]"])
  with http_request_line_cases [OF b, of input] True show ?thesis
    by (auto simp: d_def http_parse_request_on_def Let_def loop_result_def split: option.split)
next
  case False
  then show ?thesis by (auto simp: d_def http_parse_request_on_def Let_def)
qed

lemma step_walk:
  fixes x
  assumes "http_good c"
  defines "d \<equiv> fst (http_step x c)"
  shows "(phase_abs (ht_phase c), phase_abs (ht_phase d)) \<in> forward\<^sup>* \<or>
    x = Tc_reset_context \<and> ht_phase c = ph_sent \<and> ht_phase d = ph_idle"
proof (cases x)
  case (Tc_parse_request data)
  from parse_phase [OF assms(1), of "len_u32 data"] show ?thesis
    by (auto simp: d_def Tc_parse_request phase_abs_def forward_walks
        intro: r_into_rtrancl [OF forward_edges(1)] r_into_rtrancl [OF forward_edges(5)] r_into_rtrancl [OF forward_edges(8)])
next
  case Tc_reset_context
  then show ?thesis by (simp add: d_def http_reset_context_on_def empty_ctx_def)
next
  case Tc_send_response
  then show ?thesis using r_into_rtrancl [OF forward_edges(7)]
    by (simp add: d_def http_send_response_on_def phase_abs_def)
next
  case (Tc_set_status s)
  then show ?thesis using r_into_rtrancl [OF forward_edges(6)]
    by (simp add: d_def http_set_status_on_def Let_def phase_abs_def)
next
  case (Tc_set_header k v)
  then show ?thesis using r_into_rtrancl [OF forward_edges(6)]
    by (simp add: d_def http_set_header_on_def Let_def phase_abs_def split: option.split)
next
  case (Tc_set_body b)
  then show ?thesis using r_into_rtrancl [OF forward_edges(6)]
    by (simp add: d_def http_set_body_on_def Let_def phase_abs_def)
qed

lemma step_refused:
  assumes "\<nexists>data. x = Tc_parse_request data"
  shows "snd (http_step x c) = 0 \<or> fst (http_step x c) = c \<or>
    (\<exists>k v. x = Tc_set_header k v) \<and> ht_phase c = ph_complete \<and> ht_phase (fst (http_step x c)) = ph_responding"
  using assms
  by (cases x) (simp_all add: op_simps Let_def split: option.split)

text \<open>A rejected parse: refused in its phase, or an abort that keeps all but the method and the version.\<close>

lemma header_loop_answers: "snd (http_header_loop input c) = 0 \<or> snd (http_header_loop input c) = 2"
  by (rule http_header_loop_induct) (simp_all add: http_end_headers_def Let_def)

definition aborted :: "HttpCtx \<Rightarrow> HttpCtx \<Rightarrow> bool" where
  "aborted c d \<longleftrightarrow> (\<exists>m v. d = c\<lparr>ht_phase := ph_sent, ht_method := m, ht_version := v\<rparr>)"

lemma aborted_shapes:
  "aborted c (c\<lparr>ht_phase := ph_sent\<rparr>)"
  "aborted c (c\<lparr>ht_method := m, ht_phase := ph_sent\<rparr>)"
  "aborted c (c\<lparr>ht_method := m, ht_version := v, ht_phase := ph_sent\<rparr>)"
  "aborted (c\<lparr>ht_phase := s\<rparr>) d \<Longrightarrow> aborted c d"
  unfolding aborted_def by (cases c; auto)+

lemma request_line_rejected:
  assumes "snd (http_request_line input n c) = 1"
  shows "aborted c (fst (http_request_line input n c))"
proof -
  have "snd (http_header_loop i d) \<noteq> 1" for i d using header_loop_answers [of i d] by auto
  with assms show ?thesis
    by (auto simp: http_request_line_def http_abort_def Let_def aborted_shapes(1-3) split: option.splits if_splits)
qed

lemma request_line_answers:
  "snd (http_request_line input n c) = 0 \<or> snd (http_request_line input n c) = 1 \<or> snd (http_request_line input n c) = 2"
proof -
  have "snd (http_header_loop i d) = 0 \<or> snd (http_header_loop i d) = 1 \<or> snd (http_header_loop i d) = 2" for i d
    using header_loop_answers [of i d] by auto
  then show ?thesis by (simp add: http_request_line_def http_abort_def Let_def split: option.split)
qed

lemma parse_answers:
  fixes input c
  defines "r \<equiv> snd (http_parse_request_on input c)" and "d \<equiv> fst (http_parse_request_on input c)"
  shows "ht_phase c \<notin> {ph_idle, ph_receiving, ph_body_receiving} \<Longrightarrow> r = 1 \<and> d = c"
    and "r = 1 \<Longrightarrow> ht_phase c \<in> {ph_idle, ph_receiving, ph_body_receiving} \<Longrightarrow>
      ht_phase c \<noteq> ph_body_receiving \<and> aborted c d"
    and "r = 0 \<or> r = 1 \<or> r = 2"
proof -
  show "ht_phase c \<notin> {ph_idle, ph_receiving, ph_body_receiving} \<Longrightarrow> r = 1 \<and> d = c"
    by (simp add: r_def d_def http_parse_request_on_def)
  show "r = 1 \<Longrightarrow> ht_phase c \<in> {ph_idle, ph_receiving, ph_body_receiving} \<Longrightarrow>
      ht_phase c \<noteq> ph_body_receiving \<and> aborted c d"
    by (auto simp: r_def d_def http_parse_request_on_def Let_def request_line_rejected
        intro: aborted_shapes(4) [OF request_line_rejected] split: option.splits)
  show "r = 0 \<or> r = 1 \<or> r = 2"
    using request_line_answers by (simp add: r_def http_parse_request_on_def Let_def split: option.split)
qed

lemma request_tags:
  assumes "request_ok c"
  shows "Http_Method_from_tag (ht_method c) \<noteq> None" "Http_Version_from_tag (ht_version c) \<noteq> None"
proof -
  have "unat (ht_method c) < 9" "unat (ht_version c) < 4"
    using assms by (simp_all add: request_ok_def word_le_nat_alt)
  then show "Http_Method_from_tag (ht_method c) \<noteq> None" "Http_Version_from_tag (ht_version c) \<noteq> None"
    unfolding Http_Method_codec.from_tag_eq_None_iff Http_Version_codec.from_tag_eq_None_iff by linarith+
qed

text \<open>The same for a context in the pool.\<close>

lemma phase_abs_receiving:
  "phase_abs s \<in> {RequestPhase.Idle, RequestPhase.Receiving, RequestPhase.BodyReceiving} \<longleftrightarrow>
     s \<in> {ph_idle, ph_receiving, ph_body_receiving}"
  by (cases s) (simp_all add: phase_abs_def)

lemma parse_slot:
  fixes data p h
  assumes v: "valid_slot ht_active p (ctx_slot h) = Some i"
  defines "x \<equiv> Tc_parse_request data"
  shows "\<exists>r. snd (ffi_http_call x p h) = Ans_parse (Inr r) \<and>
      (phase_abs (ht_phase (p ! i)) \<notin> {RequestPhase.Idle, RequestPhase.Receiving, RequestPhase.BodyReceiving} \<longrightarrow>
         r = ParseResult.Rejected \<and> fst (ffi_http_call x p h) = p) \<and>
      (r = ParseResult.Rejected \<and>
       phase_abs (ht_phase (p ! i)) \<in> {RequestPhase.Idle, RequestPhase.Receiving, RequestPhase.BodyReceiving} \<longrightarrow>
         phase_abs (ht_phase (p ! i)) \<noteq> RequestPhase.BodyReceiving \<and>
         phase_abs (ht_phase (fst (http_step x (p ! i)))) = RequestPhase.Sent \<and>
         (\<exists>i m v. valid_slot ht_active p (ctx_slot h) = Some i \<and> fst (ffi_http_call x p h) =
            p[i := (p ! i)\<lparr>ht_phase := ph_sent, ht_method := m, ht_version := v\<rparr>]))"
proof -
  let ?c = "p ! i" and ?r = "http_parse_request_on (len_u32 data) (p ! i)"
  note facts = parse_answers [where c = ?c and input = "len_u32 data"]
  obtain b where b: "parse_result (snd ?r) = Inr b" "b = ParseResult.Rejected \<longleftrightarrow> snd ?r = 1"
    using facts(3) by (auto simp: parse_result_def)
  have call: "ffi_http_call x p h = (p[i := fst ?r], Ans_parse (Inr b))"
    by (simp add: x_def ffi_http_parse_request_def http_parse_request_def on_slot_valid [OF v] b(1))
  have sent: "phase_abs (ht_phase d) = RequestPhase.Sent" if "aborted c d" for c d
    using that by (auto simp: aborted_def phase_abs_def)
  have body: "phase_abs s = RequestPhase.BodyReceiving \<longleftrightarrow> s = ph_body_receiving" for s
    by (cases s) (simp_all add: phase_abs_def)
  have slot: "\<exists>j m v. valid_slot ht_active p (ctx_slot h) = Some j \<and>
      p[i := d] = p[j := (p ! j)\<lparr>ht_phase := ph_sent, ht_method := m, ht_version := v\<rparr>]" if "aborted ?c d" for d
    using that v unfolding aborted_def by blast
  have step: "fst (http_step x ?c) = fst ?r" by (simp add: x_def)
  show ?thesis
    unfolding call phase_abs_receiving body step fst_conv snd_conv
  proof (intro exI [of _ b] conjI impI)
    assume out: "ht_phase ?c \<notin> {ph_idle, ph_receiving, ph_body_receiving}"
    then show "b = ParseResult.Rejected" using facts(1) b(2) by blast
    show "p[i := fst ?r] = p" using facts(1) [OF out] by simp
  next
    assume "b = ParseResult.Rejected \<and> ht_phase ?c \<in> {ph_idle, ph_receiving, ph_body_receiving}"
    then have f: "ht_phase ?c \<noteq> ph_body_receiving" "aborted ?c (fst ?r)" using facts(2) b(2) by blast+
    show "ht_phase ?c \<noteq> ph_body_receiving" by (rule f(1))
    show "phase_abs (ht_phase (fst ?r)) = RequestPhase.Sent" by (rule sent [OF f(2)])
    show "\<exists>j m v. valid_slot ht_active p (ctx_slot h) = Some j \<and>
        p[i := fst ?r] = p[j := (p ! j)\<lparr>ht_phase := ph_sent, ht_method := m, ht_version := v\<rparr>]"
      by (rule slot [OF f(2)])
  qed simp
qed

text \<open>
  C30: The life of an owned request context. A call moves the phase forward along the transitions of
  the Rust module, any number of them, or not at all; only a reset leads back, from Sent to Idle. From
  the reception of the body to the response the method, the version and a nonempty path can be read,
  so no response is built for a request that was not validated. A refused call leaves the pool as it
  is, except that a response header that does not fit still moves a complete request to Responding. A
  parse always answers a result: in a phase that does not receive it is rejected and leaves the pool as
  it is, and rejected in Idle or Receiving it moves the context to Sent and writes nothing else but the
  method and the version; while the body is received it is never rejected. The engine's table and the Rust validation are the same relation.
\<close>

theorem httpd_life:
  assumes "http_client p hs" "h \<in> set hs"
  shows "(\<exists>s t. ffi_http_get_phase p h = Some s \<and> ffi_http_get_phase (fst (ffi_http_call x p h)) h = Some t \<and>
      ((s, t) \<in> forward\<^sup>* \<or> x = Tc_reset_context \<and> s = RequestPhase.Sent \<and> t = RequestPhase.Idle) \<and>
      (s \<in> {RequestPhase.BodyReceiving, RequestPhase.Complete, RequestPhase.Responding} \<longrightarrow>
         ffi_http_get_method p h \<noteq> None \<and> ffi_http_get_version p h \<noteq> None \<and> fst (ffi_http_get_path p h 1) \<noteq> []) \<and>
      ((\<exists>e. snd (ffi_http_call x p h) = Ans_status (Inl e)) \<longrightarrow>
         fst (ffi_http_call x p h) = p \<or>
         (\<exists>k v. x = Tc_set_header k v) \<and> s = RequestPhase.Complete \<and> t = RequestPhase.Responding) \<and>
      (\<forall>data. x = Tc_parse_request data \<longrightarrow> (\<exists>r. snd (ffi_http_call x p h) = Ans_parse (Inr r) \<and>
         (s \<notin> {RequestPhase.Idle, RequestPhase.Receiving, RequestPhase.BodyReceiving} \<longrightarrow>
            r = ParseResult.Rejected \<and> fst (ffi_http_call x p h) = p) \<and>
         (r = ParseResult.Rejected \<and> s \<in> {RequestPhase.Idle, RequestPhase.Receiving, RequestPhase.BodyReceiving} \<longrightarrow>
            s \<noteq> RequestPhase.BodyReceiving \<and> t = RequestPhase.Sent \<and>
            (\<exists>i m v. valid_slot ht_active p (ctx_slot h) = Some i \<and> fst (ffi_http_call x p h) =
               p[i := (p ! i)\<lparr>ht_phase := ph_sent, ht_method := m, ht_version := v\<rparr>]))))) \<and>
    (ffi_http_can_transition a b \<longleftrightarrow> validate_http_transition a b \<noteq> None)"
proof (intro conjI)
  show "ffi_http_can_transition a b \<longleftrightarrow> validate_http_transition a b \<noteq> None"
    by (cases a; cases b; simp add: ffi_http_can_transition_def http_can_transition_def validate_http_transition_def)
  obtain i where v: "valid_slot ht_active p (ctx_slot h) = Some i" and g: "http_good (p ! i)"
    and v': "valid_slot ht_active (fst (ffi_http_call x p h)) (ctx_slot h) = Some i"
    and s': "fst (ffi_http_call x p h) ! i = fst (http_step x (p ! i))"
    and a': "snd (ffi_http_call x p h) = http_conv x (snd (http_step x (p ! i)))"
    and u': "fst (ffi_http_call x p h) = p[i := fst (http_step x (p ! i))]"
    using assms by (rule http.live_call [where op = x])
  let ?c = "p ! i" and ?d = "fst (http_step x (p ! i))"
  have walk: "(phase_abs (ht_phase ?c), phase_abs (ht_phase ?d)) \<in> forward\<^sup>* \<or>
      x = Tc_reset_context \<and> phase_abs (ht_phase ?c) = RequestPhase.Sent \<and> phase_abs (ht_phase ?d) = RequestPhase.Idle"
    using step_walk [OF g, of x] by (auto simp: phase_abs_def)
  have request: "ffi_http_get_method p h \<noteq> None \<and> ffi_http_get_version p h \<noteq> None \<and> fst (ffi_http_get_path p h 1) \<noteq> []"
    if "phase_abs (ht_phase ?c) \<in> {RequestPhase.BodyReceiving, RequestPhase.Complete, RequestPhase.Responding}"
  proof -
    have "request_ok ?c" using that g by (cases "ht_phase ?c") (simp_all add: phase_abs_def http_good_def)
    moreover have "fst (ffi_http_get_path p h 1) = take 1 (ht_path ?c)" by (rule http_views(5) [OF v]) simp
    ultimately show ?thesis
      using request_tags [of ?c] unfolding http_views(2,3) [OF v]
      by (cases "ht_path ?c") (simp_all add: request_ok_def)
  qed
  have refused: "fst (ffi_http_call x p h) = p \<or>
      (\<exists>k v. x = Tc_set_header k v) \<and> phase_abs (ht_phase ?c) = RequestPhase.Complete \<and>
        phase_abs (ht_phase ?d) = RequestPhase.Responding"
    if "snd (ffi_http_call x p h) = Ans_status (Inl e)" for e
  proof -
    from that a' have "\<nexists>data. x = Tc_parse_request data" "snd (http_step x ?c) \<noteq> 0"
      by (auto simp: http_conv_def split: http_call.splits)
    with step_refused [of x ?c] u' show ?thesis by (auto simp: phase_abs_def)
  qed
  have parse: "\<exists>r. snd (ffi_http_call x p h) = Ans_parse (Inr r) \<and>
      (phase_abs (ht_phase ?c) \<notin> {RequestPhase.Idle, RequestPhase.Receiving, RequestPhase.BodyReceiving} \<longrightarrow>
         r = ParseResult.Rejected \<and> fst (ffi_http_call x p h) = p) \<and>
      (r = ParseResult.Rejected \<and>
       phase_abs (ht_phase ?c) \<in> {RequestPhase.Idle, RequestPhase.Receiving, RequestPhase.BodyReceiving} \<longrightarrow>
         phase_abs (ht_phase ?c) \<noteq> RequestPhase.BodyReceiving \<and> phase_abs (ht_phase ?d) = RequestPhase.Sent \<and>
         (\<exists>i m v. valid_slot ht_active p (ctx_slot h) = Some i \<and> fst (ffi_http_call x p h) =
            p[i := (p ! i)\<lparr>ht_phase := ph_sent, ht_method := m, ht_version := v\<rparr>]))"
    if "x = Tc_parse_request data" for data
    using parse_slot [OF v, of data] unfolding that by simp
  show "\<exists>s t. ffi_http_get_phase p h = Some s \<and> ffi_http_get_phase (fst (ffi_http_call x p h)) h = Some t \<and>
      ((s, t) \<in> forward\<^sup>* \<or> x = Tc_reset_context \<and> s = RequestPhase.Sent \<and> t = RequestPhase.Idle) \<and>
      (s \<in> {RequestPhase.BodyReceiving, RequestPhase.Complete, RequestPhase.Responding} \<longrightarrow>
         ffi_http_get_method p h \<noteq> None \<and> ffi_http_get_version p h \<noteq> None \<and> fst (ffi_http_get_path p h 1) \<noteq> []) \<and>
      ((\<exists>e. snd (ffi_http_call x p h) = Ans_status (Inl e)) \<longrightarrow>
         fst (ffi_http_call x p h) = p \<or>
         (\<exists>k v. x = Tc_set_header k v) \<and> s = RequestPhase.Complete \<and> t = RequestPhase.Responding) \<and>
      (\<forall>data. x = Tc_parse_request data \<longrightarrow> (\<exists>r. snd (ffi_http_call x p h) = Ans_parse (Inr r) \<and>
         (s \<notin> {RequestPhase.Idle, RequestPhase.Receiving, RequestPhase.BodyReceiving} \<longrightarrow>
            r = ParseResult.Rejected \<and> fst (ffi_http_call x p h) = p) \<and>
         (r = ParseResult.Rejected \<and> s \<in> {RequestPhase.Idle, RequestPhase.Receiving, RequestPhase.BodyReceiving} \<longrightarrow>
            s \<noteq> RequestPhase.BodyReceiving \<and> t = RequestPhase.Sent \<and>
            (\<exists>i m v. valid_slot ht_active p (ctx_slot h) = Some i \<and> fst (ffi_http_call x p h) =
               p[i := (p ! i)\<lparr>ht_phase := ph_sent, ht_method := m, ht_version := v\<rparr>]))))"
    unfolding http_views(1) [OF v] http_views(1) [OF v'] s'
    using walk request refused parse by blast
qed

theorem httpd_life_witness:
  "\<exists>t. ffi_http_get_phase (fst (ffi_http_call (Tc_parse_request [71])
     (http_contexts[0 := http_fresh (http_contexts ! 0)]) (handle 0))) (handle 0) = Some t"
  using httpd_life [OF http_first_client list.set_intros(1), of "Tc_parse_request [71]"] by blast

end
