(* ===== verification/Websocket_Types.thy ===== *)
theory Websocket_Types
  imports Tag_Codec Text_Format
begin

text \<open>
  The opcodes and close codes of \<open>bindings/rust/src/websocket.rs\<close> and their wire values.
\<close>

section \<open>\<open>websocket::Opcode\<close>\<close>

datatype (plugins only: code) Websocket_Opcode =
    Continuation
  | Text
  | Binary
  | Close
  | Ping
  | Pong

definition Websocket_Opcode_from_nibble :: "u8 \<Rightarrow> Websocket_Opcode option" where
  "Websocket_Opcode_from_nibble nibble =
     (if nibble = 0 then Some Websocket_Opcode.Continuation
      else if nibble = 1 then Some Websocket_Opcode.Text
      else if nibble = 2 then Some Websocket_Opcode.Binary
      else if nibble = 8 then Some Websocket_Opcode.Close
      else if nibble = 9 then Some Websocket_Opcode.Ping
      else if nibble = 10 then Some Websocket_Opcode.Pong
      else option.None)"

primrec Websocket_Opcode_to_nibble :: "Websocket_Opcode \<Rightarrow> u8" where
  "Websocket_Opcode_to_nibble Websocket_Opcode.Continuation = 0"
| "Websocket_Opcode_to_nibble Websocket_Opcode.Text = 1"
| "Websocket_Opcode_to_nibble Websocket_Opcode.Binary = 2"
| "Websocket_Opcode_to_nibble Websocket_Opcode.Close = 8"
| "Websocket_Opcode_to_nibble Websocket_Opcode.Ping = 9"
| "Websocket_Opcode_to_nibble Websocket_Opcode.Pong = 10"

definition Websocket_Opcode_is_data :: "Websocket_Opcode \<Rightarrow> bool" where
  "Websocket_Opcode_is_data self =
     (case self of
      Websocket_Opcode.Continuation \<Rightarrow> True
    | Websocket_Opcode.Text \<Rightarrow> True
    | Websocket_Opcode.Binary \<Rightarrow> True
    | _ \<Rightarrow> False)"

definition Websocket_Opcode_is_control :: "Websocket_Opcode \<Rightarrow> bool" where
  "Websocket_Opcode_is_control self = (\<not> Websocket_Opcode_is_data self)"

definition Websocket_Opcode_is_message_start :: "Websocket_Opcode \<Rightarrow> bool" where
  "Websocket_Opcode_is_message_start self =
     (case self of
      Websocket_Opcode.Text \<Rightarrow> True
    | Websocket_Opcode.Binary \<Rightarrow> True
    | _ \<Rightarrow> False)"

definition Websocket_Opcode_requires_response :: "Websocket_Opcode \<Rightarrow> bool" where
  "Websocket_Opcode_requires_response self =
     (case self of
      Websocket_Opcode.Ping \<Rightarrow> True
    | Websocket_Opcode.Close \<Rightarrow> True
    | _ \<Rightarrow> False)"

definition Websocket_Opcode_name :: "Websocket_Opcode \<Rightarrow> string" where
  "Websocket_Opcode_name self =
     (case self of
      Websocket_Opcode.Continuation \<Rightarrow> ''continuation''
    | Websocket_Opcode.Text \<Rightarrow> ''text''
    | Websocket_Opcode.Binary \<Rightarrow> ''binary''
    | Websocket_Opcode.Close \<Rightarrow> ''close''
    | Websocket_Opcode.Ping \<Rightarrow> ''ping''
    | Websocket_Opcode.Pong \<Rightarrow> ''pong'')"

section \<open>\<open>websocket::CloseCode\<close>\<close>

datatype (plugins only: code) CloseCode =
    Normal
  | GoingAway
  | ProtocolError
  | UnsupportedData
  | NoStatus
  | Abnormal
  | InvalidPayload
  | PolicyViolation
  | MessageTooBig
  | MandatoryExtension
  | InternalError

definition CloseCode_from_wire :: "u16 \<Rightarrow> CloseCode option" where
  "CloseCode_from_wire code =
     (if code = 1000 then Some CloseCode.Normal
      else if code = 1001 then Some CloseCode.GoingAway
      else if code = 1002 then Some CloseCode.ProtocolError
      else if code = 1003 then Some CloseCode.UnsupportedData
      else if code = 1005 then Some CloseCode.NoStatus
      else if code = 1006 then Some CloseCode.Abnormal
      else if code = 1007 then Some CloseCode.InvalidPayload
      else if code = 1008 then Some CloseCode.PolicyViolation
      else if code = 1009 then Some CloseCode.MessageTooBig
      else if code = 1010 then Some CloseCode.MandatoryExtension
      else if code = 1011 then Some CloseCode.InternalError
      else option.None)"

primrec CloseCode_to_wire :: "CloseCode \<Rightarrow> u16" where
  "CloseCode_to_wire CloseCode.Normal = 1000"
| "CloseCode_to_wire CloseCode.GoingAway = 1001"
| "CloseCode_to_wire CloseCode.ProtocolError = 1002"
| "CloseCode_to_wire CloseCode.UnsupportedData = 1003"
| "CloseCode_to_wire CloseCode.NoStatus = 1005"
| "CloseCode_to_wire CloseCode.Abnormal = 1006"
| "CloseCode_to_wire CloseCode.InvalidPayload = 1007"
| "CloseCode_to_wire CloseCode.PolicyViolation = 1008"
| "CloseCode_to_wire CloseCode.MessageTooBig = 1009"
| "CloseCode_to_wire CloseCode.MandatoryExtension = 1010"
| "CloseCode_to_wire CloseCode.InternalError = 1011"

definition CloseCode_is_normal :: "CloseCode \<Rightarrow> bool" where
  "CloseCode_is_normal self =
     (case self of
      CloseCode.Normal \<Rightarrow> True
    | CloseCode.GoingAway \<Rightarrow> True
    | _ \<Rightarrow> False)"

definition CloseCode_is_sendable :: "CloseCode \<Rightarrow> bool" where
  "CloseCode_is_sendable self = (\<not>
     (case self of
      CloseCode.NoStatus \<Rightarrow> True
    | CloseCode.Abnormal \<Rightarrow> True
    | _ \<Rightarrow> False))"

definition CloseCode_reason :: "CloseCode \<Rightarrow> string" where
  "CloseCode_reason self =
     (case self of
      CloseCode.Normal \<Rightarrow> ''Normal closure''
    | CloseCode.GoingAway \<Rightarrow> ''Endpoint going away''
    | CloseCode.ProtocolError \<Rightarrow> ''Protocol error''
    | CloseCode.UnsupportedData \<Rightarrow> ''Unsupported data type''
    | CloseCode.NoStatus \<Rightarrow> ''No status code present''
    | CloseCode.Abnormal \<Rightarrow> ''Abnormal closure (no close frame)''
    | CloseCode.InvalidPayload \<Rightarrow> ''Invalid payload data''
    | CloseCode.PolicyViolation \<Rightarrow> ''Policy violation''
    | CloseCode.MessageTooBig \<Rightarrow> ''Message too big''
    | CloseCode.MandatoryExtension \<Rightarrow> ''Mandatory extension missing''
    | CloseCode.InternalError \<Rightarrow> ''Internal server error'')"

definition MAX_CONTROL_PAYLOAD :: "nat" where
  "MAX_CONTROL_PAYLOAD = 125"

text \<open>\<open>CloseCode::is_error\<close>, the two application ranges and the \<open>Display\<close> implementations.\<close>

definition CloseCode_is_error :: "CloseCode \<Rightarrow> bool" where
  "CloseCode_is_error self \<longleftrightarrow> \<not> CloseCode_is_normal self \<and> self \<noteq> CloseCode.NoStatus"

definition CloseCode_is_application_code :: "u16 \<Rightarrow> bool" where
  "CloseCode_is_application_code code \<longleftrightarrow> 4000 \<le> code \<and> code \<le> 4999"

definition CloseCode_is_private_code :: "u16 \<Rightarrow> bool" where
  "CloseCode_is_private_code code \<longleftrightarrow> 3000 \<le> code \<and> code \<le> 3999"

definition CloseCode_fmt :: "CloseCode \<Rightarrow> string" where
  "CloseCode_fmt self = CloseCode_reason self @ '' ('' @ show_dec (unat (CloseCode_to_wire self)) @ '')''"

definition Websocket_Opcode_fmt :: "Websocket_Opcode \<Rightarrow> string" where
  "Websocket_Opcode_fmt self =
     Websocket_Opcode_name self @ ''(0x'' @ show_hex (unat (Websocket_Opcode_to_nibble self)) @ '')''"

section \<open>Tags and enumerations\<close>

interpretation Websocket_Opcode_to_nibble: wire_codec Websocket_Opcode_to_nibble Websocket_Opcode_from_nibble
  by (unfold_locales, case_tac [1] x, auto simp: Websocket_Opcode_from_nibble_def  split: if_splits)

interpretation CloseCode_to_wire: wire_codec CloseCode_to_wire CloseCode_from_wire
  by (unfold_locales, case_tac [1] x, auto simp: CloseCode_from_wire_def  split: if_splits)

end
