(* ===== verification/Websocket_Frame.thy ===== *)
theory Websocket_Frame
  imports Websocket_Types
begin

text \<open>
  The frames of \<open>bindings/rust/src/websocket.rs\<close>: their validation, their constructors and what a peer
  reads from a constructed frame.
\<close>

section \<open>Frames and their errors\<close>

record Frame =
  ws_fin :: bool
  ws_opcode :: Websocket_Opcode
  ws_masked :: bool
  ws_payload_length :: usize
  ws_masking_key :: "(u8 \<times> u8 \<times> u8 \<times> u8) option"
  ws_payload :: "u8 list"

datatype FrameError =
    ControlFrameTooLarge Websocket_Opcode usize
  | ControlFrameFragmented Websocket_Opcode
  | ClientFrameNotMasked
  | ServerFrameMasked
  | PayloadTooLarge usize usize
  | ReservedOpcode u8
  | PayloadLengthMismatch usize usize

definition FrameError_fmt :: "FrameError \<Rightarrow> string" where
  "FrameError_fmt self = (case self of
      ControlFrameTooLarge opcode sz \<Rightarrow>
        ''Control frame '' @ Websocket_Opcode_fmt opcode @ '' payload too large: '' @ show_dec sz @
        '' bytes (max '' @ show_dec MAX_CONTROL_PAYLOAD @ '')''
    | ControlFrameFragmented opcode \<Rightarrow>
        ''Control frame '' @ Websocket_Opcode_fmt opcode @ '' must not be fragmented''
    | ClientFrameNotMasked \<Rightarrow> ''Client frame must be masked''
    | ServerFrameMasked \<Rightarrow> ''Server frame must not be masked''
    | PayloadTooLarge sz max_size \<Rightarrow>
        ''Payload too large: '' @ show_dec sz @ '' bytes (max '' @ show_dec max_size @ '')''
    | ReservedOpcode nibble \<Rightarrow> ''Reserved opcode: 0x'' @ show_hex (unat nibble)
    | PayloadLengthMismatch declared actual \<Rightarrow>
        ''Payload length mismatch: declared '' @ show_dec declared @ '', actual '' @ show_dec actual)"

section \<open>Validation\<close>

definition Frame_validate_common :: "Frame \<Rightarrow> usize \<Rightarrow> FrameError + unit" where
  "Frame_validate_common self max_frame_size =
     (if Websocket_Opcode_is_control (ws_opcode self) \<and> ws_payload_length self > MAX_CONTROL_PAYLOAD
      then Inl (ControlFrameTooLarge (ws_opcode self) (ws_payload_length self))
      else if Websocket_Opcode_is_control (ws_opcode self) \<and> \<not> ws_fin self
      then Inl (ControlFrameFragmented (ws_opcode self))
      else if ws_payload_length self > max_frame_size
      then Inl (PayloadTooLarge (ws_payload_length self) max_frame_size)
      else if ws_payload_length self \<noteq> length (ws_payload self)
      then Inl (PayloadLengthMismatch (ws_payload_length self) (length (ws_payload self)))
      else Inr ())"

definition Frame_validate_client_frame :: "Frame \<Rightarrow> usize \<Rightarrow> FrameError + unit" where
  "Frame_validate_client_frame self max_frame_size =
     (if \<not> ws_masked self then Inl ClientFrameNotMasked else Frame_validate_common self max_frame_size)"

definition Frame_validate_server_frame :: "Frame \<Rightarrow> usize \<Rightarrow> FrameError + unit" where
  "Frame_validate_server_frame self max_frame_size =
     (if ws_masked self then Inl ServerFrameMasked else Frame_validate_common self max_frame_size)"

section \<open>Constructors\<close>

definition Frame_text :: "u8 list \<Rightarrow> Frame" where
  "Frame_text payload =
     \<lparr>ws_fin = True, ws_opcode = Websocket_Opcode.Text, ws_masked = False,
      ws_payload_length = length payload, ws_masking_key = None, ws_payload = payload\<rparr>"

definition Frame_binary :: "u8 list \<Rightarrow> Frame" where
  "Frame_binary payload =
     \<lparr>ws_fin = True, ws_opcode = Websocket_Opcode.Binary, ws_masked = False,
      ws_payload_length = length payload, ws_masking_key = None, ws_payload = payload\<rparr>"

definition Frame_pong :: "u8 list \<Rightarrow> Frame" where
  "Frame_pong ping_payload =
     \<lparr>ws_fin = True, ws_opcode = Websocket_Opcode.Pong, ws_masked = False,
      ws_payload_length = length ping_payload, ws_masking_key = None, ws_payload = ping_payload\<rparr>"

definition Frame_ping :: "u8 list \<Rightarrow> Frame" where
  "Frame_ping payload =
     \<lparr>ws_fin = True, ws_opcode = Websocket_Opcode.Ping, ws_masked = False,
      ws_payload_length = length payload, ws_masking_key = None, ws_payload = payload\<rparr>"

definition Frame_close :: "u16 option \<Rightarrow> u8 list \<Rightarrow> Frame" where
  "Frame_close status_code reason =
     (let payload = (case status_code of
            Some code \<Rightarrow> [ucast (drop_bit 8 code), ucast (code AND 0xFF)]
          | None \<Rightarrow> []) @ reason
      in \<lparr>ws_fin = True, ws_opcode = Websocket_Opcode.Close, ws_masked = False,
          ws_payload_length = length payload, ws_masking_key = None, ws_payload = payload\<rparr>)"

definition Frame_fmt :: "Frame \<Rightarrow> string" where
  "Frame_fmt self =
     ''Frame('' @ (if ws_fin self then ''FIN'' else ''...'') @ '' '' @ Websocket_Opcode_fmt (ws_opcode self) @ '' '' @
     (if ws_masked self then ''MASKED'' else ''UNMASKED'') @ '' len='' @ show_dec (ws_payload_length self) @ '')''"

section \<open>What is accepted, and what a peer reads\<close>

text \<open>A well-formed frame under a limit, in the words of the standard.\<close>

definition well_formed :: "Frame \<Rightarrow> usize \<Rightarrow> bool" where
  "well_formed f limit \<longleftrightarrow>
     ws_payload_length f = length (ws_payload f) \<and> length (ws_payload f) \<le> limit \<and>
     (ws_opcode f \<in> {Websocket_Opcode.Close, Websocket_Opcode.Ping, Websocket_Opcode.Pong} \<longrightarrow>
        ws_fin f \<and> length (ws_payload f) \<le> 125)"

lemma validate_common_iff: "Frame_validate_common f limit = Inr () \<longleftrightarrow> well_formed f limit"
  by (cases "ws_opcode f")
    (auto simp: Frame_validate_common_def well_formed_def Websocket_Opcode_is_control_def
      Websocket_Opcode_is_data_def MAX_CONTROL_PAYLOAD_def)

text \<open>A peer reads a close payload: the first two octets are the code, in network order.\<close>

fun close_payload :: "u8 list \<Rightarrow> (u16 option \<times> u8 list) option" where
  "close_payload [] = Some (None, [])"
| "close_payload [_] = None"
| "close_payload (a # b # reason) = Some (Some (push_bit 8 (ucast a) OR ucast b), reason)"

lemma octets_of_code: "push_bit 8 (ucast (ucast (drop_bit 8 code) :: u8)) OR ucast (ucast (code AND 0xFF) :: u8) = (code :: u16)"
proof (rule bit_word_eqI)
  have low: "(255 :: u16) = mask 8" by (simp add: mask_eq_exp_minus_1)
  fix n
  assume "n < LENGTH(16)"
  then show "bit (push_bit 8 (ucast (ucast (drop_bit 8 code) :: u8)) OR ucast (ucast (code AND 0xFF) :: u8) :: u16) n =
      bit code n"
    by (auto simp: low bit_simps)
qed

text \<open>
  C23: The frames the constructors build, and the validation. A frame is accepted from a client exactly
  when it is masked, and from a server exactly when it is not, and it is well formed under the limit.
  The validation of the server accepts a constructed text or binary frame under the size limit, a ping or
  pong frame of at most 125 bytes under it, and a close frame when its whole payload, with the two octets
  of the code if there is one, keeps both bounds; a client frame is never built. It looks at no code:
  NoStatus and Abnormal (1005 and 1006), the two codes that are not sendable and must not be sent, are
  built into a close frame and accepted like the others. A peer reads back the code and the reason of a
  close frame with a code. Without a code, a reason of two or more bytes is read as a code, and one of a
  single byte, which is accepted too, cannot be read.
\<close>

theorem websocket_frames:
  "(Frame_validate_client_frame f limit = Inr () \<longleftrightarrow> ws_masked f \<and> well_formed f limit) \<and>
   (Frame_validate_server_frame f limit = Inr () \<longleftrightarrow> \<not> ws_masked f \<and> well_formed f limit) \<and>
   (\<forall>g \<in> {Frame_text d, Frame_binary d}. Frame_validate_server_frame g limit =
      (if length d > limit then Inl (PayloadTooLarge (length d) limit) else Inr ())) \<and>
   (\<forall>g \<in> {Frame_ping d, Frame_pong d}. Frame_validate_server_frame g limit =
      (if length d > 125 then Inl (ControlFrameTooLarge (ws_opcode g) (length d))
       else if length d > limit then Inl (PayloadTooLarge (length d) limit) else Inr ())) \<and>
   Frame_validate_server_frame (Frame_close c d) limit =
     (let n = length d + (if c = None then 0 else 2) in
      if n > 125 then Inl (ControlFrameTooLarge Websocket_Opcode.Close n)
      else if n > limit then Inl (PayloadTooLarge n limit) else Inr ()) \<and>
   (\<forall>g \<in> {Frame_text d, Frame_binary d, Frame_ping d, Frame_pong d, Frame_close c d}.
      Frame_validate_client_frame g limit = Inl ClientFrameNotMasked) \<and>
   (\<not> CloseCode_is_sendable k \<longleftrightarrow> CloseCode_to_wire k \<in> {1005, 1006}) \<and>
   (\<exists>u v. \<not> CloseCode_is_sendable u \<and> \<not> CloseCode_is_sendable v \<and> u \<noteq> v \<and>
      (\<forall>w \<in> {u, v}. Frame_validate_server_frame (Frame_close (Some (CloseCode_to_wire w)) []) 2 = Inr () \<and>
         close_payload (ws_payload (Frame_close (Some (CloseCode_to_wire w)) [])) = Some (Some (CloseCode_to_wire w), []))) \<and>
   close_payload (ws_payload (Frame_close (Some code) d)) = Some (Some code, d) \<and>
   close_payload (ws_payload (Frame_close None (a # b # d))) = Some (Some (push_bit 8 (ucast a) OR ucast b), d) \<and>
   close_payload (ws_payload (Frame_close None [a])) = None \<and>
   Frame_validate_server_frame (Frame_close None [a]) 1 = Inr ()"
proof (intro conjI)
  show "Frame_validate_client_frame f limit = Inr () \<longleftrightarrow> ws_masked f \<and> well_formed f limit"
    and "Frame_validate_server_frame f limit = Inr () \<longleftrightarrow> \<not> ws_masked f \<and> well_formed f limit"
    by (simp_all add: Frame_validate_client_frame_def Frame_validate_server_frame_def validate_common_iff)
  show close: "close_payload (ws_payload (Frame_close (Some code) d)) = Some (Some code, d)" for code d
    by (simp add: Frame_close_def octets_of_code)
  show "\<not> CloseCode_is_sendable k \<longleftrightarrow> CloseCode_to_wire k \<in> {1005, 1006}"
    by (cases k) (simp_all add: CloseCode_is_sendable_def)
  show "\<exists>u v. \<not> CloseCode_is_sendable u \<and> \<not> CloseCode_is_sendable v \<and> u \<noteq> v \<and>
      (\<forall>w \<in> {u, v}. Frame_validate_server_frame (Frame_close (Some (CloseCode_to_wire w)) []) 2 = Inr () \<and>
         close_payload (ws_payload (Frame_close (Some (CloseCode_to_wire w)) [])) = Some (Some (CloseCode_to_wire w), []))"
    by (intro exI [of _ CloseCode.NoStatus] exI [of _ CloseCode.Abnormal])
       (simp only: close, simp add: CloseCode_is_sendable_def Frame_validate_server_frame_def validate_common_iff
          well_formed_def Frame_close_def)
  show "Frame_validate_server_frame (Frame_close c d) limit =
     (let n = length d + (if c = None then 0 else 2) in
      if n > 125 then Inl (ControlFrameTooLarge Websocket_Opcode.Close n)
      else if n > limit then Inl (PayloadTooLarge n limit) else Inr ())"
    by (cases c) (simp_all add: Frame_validate_server_frame_def Frame_validate_common_def Frame_close_def
        Websocket_Opcode_is_control_def Websocket_Opcode_is_data_def MAX_CONTROL_PAYLOAD_def)
qed (simp_all add: Frame_validate_server_frame_def Frame_validate_client_frame_def Frame_validate_common_def
    Frame_text_def Frame_binary_def Frame_ping_def Frame_pong_def Frame_close_def Websocket_Opcode_is_control_def
    Websocket_Opcode_is_data_def MAX_CONTROL_PAYLOAD_def)

theorem websocket_frames_witness:
  "Frame_validate_server_frame (Frame_ping [1, 2]) 10 = Inr ()"
  using websocket_frames [where d = "[1, 2]" and limit = 10 and code = 1000] by simp

end
