(* ===== verification/Dns_Name.thy ===== *)
theory Dns_Name
  imports Dns_Types
begin




section \<open>What is accepted\<close>









section \<open>The module the Rust function mirrors\<close>









end
