(* ===== verification/Dns_Props.thy ===== *)
theory Dns_Props
  imports Dns_Ffi "HOL-Library.Monad_Syntax"
begin

text \<open>
  Properties of the DNS message builder: a response reads back as the query with the records that
  were accepted, and the DNSSEC mode fails closed.
\<close>

section \<open>Messages\<close>

text \<open>
  A reader of DNS messages written from the wire format of RFC 1035, sections 3.2 and 4.1, without
  name compression, as the reference for what the message builder writes.
\<close>

record wire_record =
  wr_owner :: "u8 list list"
  wr_type :: u16
  wr_class :: u16
  wr_ttl :: u32
  wr_rdata :: "u8 list"

record dns_message =
  dm_id :: u16
  dm_response :: bool
  dm_opcode :: u16
  dm_authoritative :: bool
  dm_truncated :: bool
  dm_recursion_desired :: bool
  dm_recursion_available :: bool
  dm_rcode :: u16
  dm_questions :: "(u8 list list \<times> u16 \<times> u16) list"
  dm_answers :: "wire_record list"
  dm_authorities :: "wire_record list"
  dm_additionals :: "wire_record list"

section \<open>Reading\<close>

fun read_be16 :: "u8 list \<Rightarrow> (u16 \<times> u8 list) option" where
  "read_be16 (a # b # bs) = Some (read16 a b, bs)"
| "read_be16 _ = None"

fun read_be32 :: "u8 list \<Rightarrow> (u32 \<times> u8 list) option" where
  "read_be32 (a # b # c # d # bs) =
     Some (push_bit 16 (ucast (read16 a b)) OR ucast (read16 c d), bs)"
| "read_be32 _ = None"

text \<open>A name: labels behind their length octets up to a zero octet; the fuel bounds their number.\<close>

fun read_owner :: "nat \<Rightarrow> u8 list \<Rightarrow> (u8 list list \<times> u8 list) option" where
  "read_owner (Suc n) (b # bs) =
     (if b = 0 then Some ([], bs)
      else if 63 < b \<or> length bs < unat b then None
      else do {
        (ls, rest) \<leftarrow> read_owner n (drop (unat b) bs);
        Some (take (unat b) bs # ls, rest)
      })"
| "read_owner _ _ = None"

definition read_question :: "u8 list \<Rightarrow> ((u8 list list \<times> u16 \<times> u16) \<times> u8 list) option" where
  "read_question bs = do {
     (owner, bs) \<leftarrow> read_owner (length bs) bs;
     (qtype, bs) \<leftarrow> read_be16 bs;
     (qclass, bs) \<leftarrow> read_be16 bs;
     Some ((owner, qtype, qclass), bs)
   }"

definition read_record :: "u8 list \<Rightarrow> (wire_record \<times> u8 list) option" where
  "read_record bs = do {
     (owner, bs) \<leftarrow> read_owner (length bs) bs;
     (rtype, bs) \<leftarrow> read_be16 bs;
     (rclass, bs) \<leftarrow> read_be16 bs;
     (ttl, bs) \<leftarrow> read_be32 bs;
     (n, bs) \<leftarrow> read_be16 bs;
     if length bs < unat n then None
     else Some (\<lparr>wr_owner = owner, wr_type = rtype, wr_class = rclass, wr_ttl = ttl,
       wr_rdata = take (unat n) bs\<rparr>, drop (unat n) bs)
   }"

primrec read_many :: "(u8 list \<Rightarrow> ('x \<times> u8 list) option) \<Rightarrow> nat \<Rightarrow> u8 list \<Rightarrow> ('x list \<times> u8 list) option" where
  "read_many item 0 bs = Some ([], bs)"
| "read_many item (Suc n) bs = do {
     (x, bs) \<leftarrow> item bs;
     (xs, bs) \<leftarrow> read_many item n bs;
     Some (x # xs, bs)
   }"

definition read_message :: "u8 list \<Rightarrow> dns_message option" where
  "read_message bs = do {
     (ident, bs) \<leftarrow> read_be16 bs;
     (flags, bs) \<leftarrow> read_be16 bs;
     (qdcount, bs) \<leftarrow> read_be16 bs;
     (ancount, bs) \<leftarrow> read_be16 bs;
     (nscount, bs) \<leftarrow> read_be16 bs;
     (arcount, bs) \<leftarrow> read_be16 bs;
     (questions, bs) \<leftarrow> read_many read_question (unat qdcount) bs;
     (answers, bs) \<leftarrow> read_many read_record (unat ancount) bs;
     (authorities, bs) \<leftarrow> read_many read_record (unat nscount) bs;
     (additionals, bs) \<leftarrow> read_many read_record (unat arcount) bs;
     if bs \<noteq> [] then None
     else Some \<lparr>dm_id = ident, dm_response = bit flags 15, dm_opcode = drop_bit 11 flags AND 15,
       dm_authoritative = bit flags 10, dm_truncated = bit flags 9, dm_recursion_desired = bit flags 8,
       dm_recursion_available = bit flags 7, dm_rcode = flags AND 15, dm_questions = questions,
       dm_answers = answers, dm_authorities = authorities, dm_additionals = additionals\<rparr>
   }"

section \<open>Reading back what is written\<close>

lemma read16_split [simp]: "read16 (ucast (drop_bit 8 w)) (ucast w) = w"
  by (rule bit_word_eqI) (auto simp: read16_def bit_simps not_less)

lemma read_be16_be16 [simp]: "read_be16 (be16 w @ bs) = Some (w, bs)"
  by (simp add: be16_def)

lemma read_be32_be32 [simp]: "read_be32 (be32 w @ bs) = Some (w, bs)"
proof -
  have "push_bit 16 (ucast (read16 (ucast (drop_bit 24 w)) (ucast (drop_bit 16 w)))) OR
      ucast (read16 (ucast (drop_bit 8 w)) (ucast w)) = w"
  proof (rule bit_word_eqI)
    fix n
    assume "n < LENGTH(32)"
    then show "bit (push_bit 16 (ucast (read16 (ucast (drop_bit 24 w)) (ucast (drop_bit 16 w)))) OR
        ucast (read16 (ucast (drop_bit 8 w)) (ucast w)) :: u32) n = bit w n"
      by (cases "n < 8"; cases "n < 16"; cases "n < 24") (auto simp: read16_def bit_simps not_less)
  qed
  then show ?thesis by (simp add: be32_def)
qed

lemma read_owner_root [simp]: "read_owner (length (0 # bs)) (0 # bs) = Some ([], bs)"
  by simp

text \<open>The record a stored record stands for on the wire, with the root as its owner.\<close>

definition on_wire :: "ResourceRecord \<Rightarrow> wire_record" where
  "on_wire rr = \<lparr>wr_owner = [], wr_type = recordTypeToWire (rr_rtype rr),
     wr_class = queryClassToWire (rr_rclass rr), wr_ttl = rr_ttl rr, wr_rdata = rr_rdata rr\<rparr>"

lemma read_section:
  assumes "\<forall>rr \<in> set rrs. length (rr_rdata rr) \<le> 256"
  shows "read_many read_record (length rrs) (writeSection rrs @ bs) = Some (map on_wire rrs, bs)"
  using assms
proof (induction rrs)
  case Nil
  then show ?case by simp
next
  case (Cons rr rrs)
  then have "unat (word_of_nat (length (rr_rdata rr)) :: u16) = length (rr_rdata rr)"
    by (simp add: unat_of_nat)
  then have "read_record (writeSection (rr # rrs) @ bs) = Some (on_wire rr, writeSection rrs @ bs)"
    by (simp add: read_record_def on_wire_def)
  with Cons show ?case by simp
qed

lemma length_writeSection: "length (writeSection rrs) = sectionWireLength rrs"
  by (induction rrs) (simp_all add: be16_def be32_def)

lemma be16_small: "length (be16 w) = 2"
  by (simp add: be16_def)

text \<open>The flags of a response, and those of an accepted query.\<close>

lemma response_flags:
  fixes rc :: u8 and rd :: bool
  assumes "rc \<le> 10"
  defines "flags \<equiv> read16 (0x80 OR (if rd then 1 else 0)) (rc AND 0x0F)"
  shows "bit flags 15" "drop_bit 11 flags AND 15 = 0" "\<not> bit flags 10" "\<not> bit flags 9"
    "bit flags 8 = rd" "\<not> bit flags 7" "flags AND 15 = ucast rc"
proof -
  have "unat rc \<le> 10" using assms(1) by (simp add: word_le_nat_alt)
  then have "rc \<in> word_of_nat ` {0..10}"
    by (intro image_eqI [of _ _ "unat rc"]) simp_all
  also have "\<dots> = {0, 1, 2, 3, 4, 5, 6, 7, 8, 9, 10}"
    by (simp add: atLeastAtMost_upt [of "0 :: nat" 10] upt_rec)
  finally have "bit flags 15 \<and> drop_bit 11 flags AND 15 = 0 \<and> \<not> bit flags 10 \<and> \<not> bit flags 9 \<and>
      bit flags 8 = rd \<and> \<not> bit flags 7 \<and> flags AND 15 = ucast rc"
    unfolding flags_def by (cases rd) (auto simp: read16_def)
  then show "bit flags 15" "drop_bit 11 flags AND 15 = 0" "\<not> bit flags 10" "\<not> bit flags 9"
      "bit flags 8 = rd" "\<not> bit flags 7" "flags AND 15 = ucast rc"
    by blast+
qed

lemma query_flags:
  fixes b :: u8
  assumes "b AND 0xFE = 0"
  shows "\<not> bit (read16 b 0) 15" "drop_bit 11 (read16 b 0) AND 15 = 0" "\<not> bit (read16 b 0) 10"
    "\<not> bit (read16 b 0) 9" "bit (read16 b 0) 8 = (b AND 1 \<noteq> 0)" "\<not> bit (read16 b 0) 7" "read16 b 0 AND 15 = 0"
proof -
  have "b = b AND 1"
  proof (rule bit_word_eqI)
    fix n
    assume "n < LENGTH(8)"
    then have "n \<in> {0, 1, 2, 3, 4, 5, 6, 7}" by auto
    moreover have "\<not> bit (b AND 0xFE) n" using assms by simp
    ultimately show "bit b n = bit (b AND 1) n" by (auto simp: bit_simps)
  qed
  then have "b = 0 \<or> b = 1" by (metis and_one_eq mod2_eq_if)
  then show "\<not> bit (read16 b 0) 15" "drop_bit 11 (read16 b 0) AND 15 = 0" "\<not> bit (read16 b 0) 10"
      "\<not> bit (read16 b 0) 9" "bit (read16 b 0) 8 = (b AND 1 \<noteq> 0)" "\<not> bit (read16 b 0) 7" "read16 b 0 AND 15 = 0"
    by (auto simp: read16_def)
qed

section \<open>Queries\<close>

definition keeps_query :: "DnsCtx \<Rightarrow> u8 list \<Rightarrow> bool" where
  "keeps_query c q \<longleftrightarrow>
     query_ok q \<and> dn_transaction_id c = read16 (q ! 0) (q ! 1) \<and>
     dn_recursion_desired c = (q ! 2 AND 1 \<noteq> 0) \<and>
     dn_query_rtype c = wireTypeToAbiTag (read16 (q ! 13) (q ! 14)) \<and>
     dn_query_class c = wireClassToAbiTag (read16 (q ! 15) (q ! 16))"

lemma parse_accepts:
  "snd (dns_parse_query_on q c) = 0 \<longleftrightarrow> dn_state c = dn_idle \<and> query_ok q"
  by (simp add: parse_query_eq)

lemma parse_keeps:
  "snd (dns_parse_query_on q c) = 0 \<Longrightarrow>
     keeps_query (fst (dns_parse_query_on q c)) q \<and> dn_state (fst (dns_parse_query_on q c)) = dn_query_received"
  by (simp add: parse_query_eq keeps_query_def query_kept_def split: if_split_asm)

lemma wire_tags_back:
  "wireTypeToAbiTag w \<noteq> 255 \<Longrightarrow> recordTypeToWire (wireTypeToAbiTag w) = w"
  "wireClassToAbiTag w \<noteq> 255 \<Longrightarrow> queryClassToWire (wireClassToAbiTag w) = w"
  by (auto simp: wireTypeToAbiTag_def recordTypeToWire_def wireClassToAbiTag_def queryClassToWire_def
      split: if_splits)

section \<open>Histories\<close>

text \<open>What the accepted calls of a session put into a section, and the last response code set.\<close>

primrec records_of :: "dns_section \<Rightarrow> dns_call \<Rightarrow> ResourceRecord list" where
  "records_of sec (Dc_add s rtype rclass ttl rdata) =
     (if s = sec then [\<lparr>rr_rtype = rtype, rr_rclass = rclass, rr_ttl = ttl, rr_rdata = rdata\<rparr>] else [])"
| "records_of sec (Dc_parse_query q) = []"
| "records_of sec Dc_begin_lookup = []"
| "records_of sec Dc_begin_response = []"
| "records_of sec (Dc_set_rcode r) = []"
| "records_of sec (Dc_build_response out) = []"
| "records_of sec Dc_enable_dnssec = []"
| "records_of sec (Dc_load_dnssec_key a) = []"
| "records_of sec Dc_sign_response = []"
| "records_of sec Dc_validate_dnssec = []"

definition added :: "dns_section \<Rightarrow> dns_call list \<Rightarrow> ResourceRecord list" where
  "added sec h = concat (map (records_of sec) h)"

definition last_rcode :: "dns_call list \<Rightarrow> u8" where
  "last_rcode h = foldl (\<lambda>r x. case x of Dc_set_rcode k \<Rightarrow> k | _ \<Rightarrow> r) 0 h"

lemma history_snoc:
  "added sec (h @ [x]) = added sec h @ records_of sec x"
  "last_rcode (h @ [x]) = (case x of Dc_set_rcode k \<Rightarrow> k | _ \<Rightarrow> last_rcode h)"
  by (simp add: added_def, cases x) (simp_all add: last_rcode_def)

text \<open>A step as \<open>session_run\<close> takes it: the context and the status.\<close>

definition dns_session_step :: "dns_call \<Rightarrow> DnsCtx \<Rightarrow> DnsCtx \<times> u8" where
  "dns_session_step x c = (fst (dns_step x c), fst (snd (dns_step x c)))"

text \<open>The context holds what the accepted calls say.\<close>

definition dns_inv :: "DnsCtx \<Rightarrow> dns_call list \<Rightarrow> bool" where
  "dns_inv c h \<longleftrightarrow>
     dns_good c \<and>
     (dn_state c \<noteq> dn_idle \<longrightarrow> (\<exists>q. Dc_parse_query q \<in> set h \<and> keeps_query c q)) \<and>
     dn_answers c = added sec_answer h \<and> dn_authorities c = added sec_authority h \<and>
     dn_additionals c = added sec_additional h \<and> dn_rcode c = last_rcode h \<and>
     (dn_dnssec_state c = ds_disabled \<longleftrightarrow> Dc_enable_dnssec \<notin> set h)"

lemma keeps_query_update [simp]:
  "keeps_query (c\<lparr>dn_state := s\<rparr>) q = keeps_query c q"
  "keeps_query (c\<lparr>dn_answers := rrs\<rparr>) q = keeps_query c q"
  "keeps_query (c\<lparr>dn_authorities := rrs\<rparr>) q = keeps_query c q"
  "keeps_query (c\<lparr>dn_additionals := rrs\<rparr>) q = keeps_query c q"
  "keeps_query (c\<lparr>dn_rcode := r\<rparr>) q = keeps_query c q"
  "keeps_query (c\<lparr>dn_dnssec_state := d\<rparr>) q = keeps_query c q"
  by (simp_all add: keeps_query_def)

lemma parse_refused: "snd (dns_parse_query_on q c) \<noteq> 0 \<Longrightarrow> fst (dns_parse_query_on q c) = c"
  by (auto simp: parse_query_eq split: if_splits)

lemma parse_others:
  "dn_answers (fst (dns_parse_query_on q c)) = dn_answers c"
  "dn_authorities (fst (dns_parse_query_on q c)) = dn_authorities c"
  "dn_additionals (fst (dns_parse_query_on q c)) = dn_additionals c"
  "dn_rcode (fst (dns_parse_query_on q c)) = dn_rcode c"
  "dn_dnssec_state (fst (dns_parse_query_on q c)) = dn_dnssec_state c"
  by (simp_all add: parse_query_eq query_kept_def)

lemma add_refused:
  "snd (addRecord sec rtype rclass ttl rdata c) \<noteq> 0 \<Longrightarrow> fst (addRecord sec rtype rclass ttl rdata c) = c"
  by (auto simp: add_record_eq Let_def split: if_splits)

lemma dns_refused:
  assumes "fst (snd (dns_step x c)) \<noteq> 0"
  shows "fst (dns_step x c) = c"
proof (cases x)
  case (Dc_parse_query q)
  with assms show ?thesis by (simp add: no_bytes_def parse_refused split: if_split_asm)
next
  case (Dc_add sec rtype rclass ttl rdata)
  with assms show ?thesis by (simp add: no_bytes_def add_refused split: if_split_asm)
qed (use assms in \<open>simp_all add: no_bytes_def op_simps split: if_split_asm\<close>)

lemma dns_inv_accept:
  assumes "dns_inv c h" "fst (snd (dns_step x c)) = 0"
  shows "dns_inv (fst (dns_step x c)) (h @ [x])"
proof -
  have good: "dns_good (fst (dns_step x c))" using assms(1) by (simp add: dns_inv_def dns_good_step)
  show ?thesis
  proof (cases x)
    case (Dc_parse_query q)
    with assms(2) have ok: "snd (dns_parse_query_on q c) = 0" by (simp add: no_bytes_def split: if_splits)
    then have "length q = 17" by (simp add: parse_accepts query_ok_def)
    moreover have "keeps_query (fst (dns_step x c)) q"
      using ok \<open>length q = 17\<close> parse_keeps [OF ok] by (simp add: Dc_parse_query no_bytes_def)
    ultimately show ?thesis
      using good assms(1)
      by (auto simp: Dc_parse_query dns_inv_def no_bytes_def history_snoc parse_others)
  next
    case (Dc_add sec rtype rclass ttl rdata)
    with good assms show ?thesis
      by (cases sec) (auto simp: dns_inv_def no_bytes_def add_record_eq history_snoc Let_def split: if_splits)
  qed (use good assms in
    \<open>auto simp: dns_inv_def no_bytes_def op_simps history_snoc split: if_splits\<close>)
qed

lemma dns_run_inv:
  "dns_inv (fst (session_run dns_session_step (dns_fresh c0) ops)) (snd (session_run dns_session_step (dns_fresh c0) ops))"
proof (rule session_run_invariant)
  show "dns_inv (dns_fresh c0) []"
    by (simp add: dns_inv_def dns_good_fresh)
       (simp add: dns_fresh_def dns_empty_context_def added_def last_rcode_def)
qed (simp_all add: dns_session_step_def dns_inv_accept dns_refused)

section \<open>The response reads back\<close>

lemma take_16_cases:
  assumes "length q = 17"
  obtains a0 a1 a2 a3 a4 a5 a6 a7 a8 a9 a10 a11 a12 a13 a14 a15 a16
    where "q = [a0, a1, a2, a3, a4, a5, a6, a7, a8, a9, a10, a11, a12, a13, a14, a15, a16]"
  using assms by (auto simp: length_Suc_conv eval_nat_numeral)

lemma read_query:
  assumes "query_ok q"
  shows "read_message q = Some \<lparr>dm_id = read16 (q ! 0) (q ! 1), dm_response = False, dm_opcode = 0,
    dm_authoritative = False, dm_truncated = False, dm_recursion_desired = (q ! 2 AND 1 \<noteq> 0),
    dm_recursion_available = False, dm_rcode = 0,
    dm_questions = [([], read16 (q ! 13) (q ! 14), read16 (q ! 15) (q ! 16))],
    dm_answers = [], dm_authorities = [], dm_additionals = []\<rparr>"
proof -
  have "length q = 17" using assms by (simp add: query_ok_def)
  then obtain a0 a1 a2 a3 a4 a5 a6 a7 a8 a9 a10 a11 a12 a13 a14 a15 a16
    where q: "q = [a0, a1, a2, a3, a4, a5, a6, a7, a8, a9, a10, a11, a12, a13, a14, a15, a16]"
    by (rule take_16_cases)
  with assms have z: "a3 = 0" "a4 = 0" "a5 = 1" "a6 = 0" "a7 = 0" "a8 = 0" "a9 = 0" "a10 = 0" "a11 = 0" "a12 = 0"
    and a2: "a2 AND 0xFE = 0"
    by (simp_all add: query_ok_def)
  have "read16 0 1 = 1" "read16 0 0 = 0" by (simp_all add: read16_def)
  with query_flags [OF a2] show ?thesis
    by (simp add: q z read_message_def read_question_def)
qed

lemma read_response:
  assumes "dns_good c" "responseLength c \<le> 512" "keeps_query c q"
    and "snd (dns_build_response_on c) = (0, bytes)"
  shows "read_message bytes = Some \<lparr>dm_id = read16 (q ! 0) (q ! 1), dm_response = True, dm_opcode = 0,
    dm_authoritative = False, dm_truncated = False, dm_recursion_desired = (q ! 2 AND 1 \<noteq> 0),
    dm_recursion_available = False, dm_rcode = ucast (dn_rcode c),
    dm_questions = [([], read16 (q ! 13) (q ! 14), read16 (q ! 15) (q ! 16))],
    dm_answers = map on_wire (dn_answers c), dm_authorities = map on_wire (dn_authorities c),
    dm_additionals = map on_wire (dn_additionals c)\<rparr> \<and> length bytes = responseLength c"
proof -
  let ?an = "dn_answers c" and ?ns = "dn_authorities c" and ?ar = "dn_additionals c"
  have rc: "dn_rcode c \<le> 10" using assms(1) by (simp add: dns_good_def)
  have len: "length ?an \<le> 16" "length ?ns \<le> 16" "length ?ar \<le> 16"
    and small: "\<forall>rr \<in> set ?an. length (rr_rdata rr) \<le> 256" "\<forall>rr \<in> set ?ns. length (rr_rdata rr) \<le> 256"
      "\<forall>rr \<in> set ?ar. length (rr_rdata rr) \<le> 256"
    using assms(1) by (auto simp: dns_good_def rr_ok_def)
  have u: "unat (word_of_nat (length ?an) :: u16) = length ?an"
      "unat (word_of_nat (length ?ns) :: u16) = length ?ns"
      "unat (word_of_nat (length ?ar) :: u16) = length ?ar"
    using len by (simp_all add: unat_of_nat)
  have tags: "recordTypeToWire (dn_query_rtype c) = read16 (q ! 13) (q ! 14)"
      "queryClassToWire (dn_query_class c) = read16 (q ! 15) (q ! 16)"
    using assms(3) by (simp_all add: keeps_query_def query_ok_def wire_tags_back)
  define hi lo where "hi = 0x80 OR (if dn_recursion_desired c then 1 else (0 :: u8))" and "lo = dn_rcode c AND 0x0F"
  have bytes: "bytes = be16 (dn_transaction_id c) @ [hi, lo, 0, 1] @
      be16 (word_of_nat (length ?an)) @ be16 (word_of_nat (length ?ns)) @ be16 (word_of_nat (length ?ar)) @
      [0] @ be16 (read16 (q ! 13) (q ! 14)) @ be16 (read16 (q ! 15) (q ! 16)) @
      writeSection ?an @ writeSection ?ns @ writeSection ?ar"
    using assms(4) by (simp add: dns_build_response_on_def tags hi_def lo_def split: if_split_asm)
  have one: "unat (read16 0 1) = Suc 0" by (simp add: read16_def)
  have question: "read_question (0 # be16 t @ be16 k @ bs) = Some (([], t, k), bs)" for t k bs
    by (simp add: read_question_def)
  have last_section: "read_many read_record (length ?ar) (writeSection ?ar) = Some (map on_wire ?ar, [])"
    using read_section [OF small(3), of "[]"] by simp
  have query: "dn_transaction_id c = read16 (q ! 0) (q ! 1)" "dn_recursion_desired c = (q ! 2 AND 1 \<noteq> 0)"
    using assms(3) by (simp_all add: keeps_query_def)
  note flags = response_flags [OF rc, of "dn_recursion_desired c", folded hi_def lo_def]
  have "read_message bytes = Some \<lparr>dm_id = dn_transaction_id c, dm_response = True, dm_opcode = 0,
    dm_authoritative = False, dm_truncated = False, dm_recursion_desired = dn_recursion_desired c,
    dm_recursion_available = False, dm_rcode = ucast (dn_rcode c),
    dm_questions = [([], read16 (q ! 13) (q ! 14), read16 (q ! 15) (q ! 16))],
    dm_answers = map on_wire ?an, dm_authorities = map on_wire ?ns, dm_additionals = map on_wire ?ar\<rparr>"
    unfolding bytes
    by (simp add: read_message_def u one question read_section [OF small(1)] read_section [OF small(2)]
        last_section flags)
  moreover have "length bytes = responseLength c"
    by (simp add: bytes length_writeSection responseLength_def be16_small)
  ultimately show ?thesis by (simp only: query)
qed

text \<open>
  C24: A DNS response reads back as the query it answers with the records that were accepted. After any
  sequence of calls on a new context, building the response (into a buffer of at least 512 bytes) is
  accepted exactly in the response state, without DNSSEC, when the message fits into 512 bytes. What
  it writes, read by the format of RFC 1035, is the message the accepted query reads as, with the
  response bit set, the last response code, and in each section the accepted records in order.
\<close>

theorem dns_response_reads_back:
  fixes c0 :: DnsCtx and ops :: "dns_call list" and out :: "u8 list"
  defines "c \<equiv> fst (session_run dns_session_step (dns_fresh c0) ops)"
    and "h \<equiv> snd (session_run dns_session_step (dns_fresh c0) ops)"
  defines "answer \<equiv> snd (dns_step (Dc_build_response out) c)"
  assumes "512 \<le> length out"
  shows "(fst answer = 0 \<longleftrightarrow>
      dn_state c = dn_response_building \<and> Dc_enable_dnssec \<notin> set h \<and>
      17 + sectionWireLength (added sec_answer h) + sectionWireLength (added sec_authority h) +
        sectionWireLength (added sec_additional h) \<le> 512) \<and>
    (fst answer = 0 \<longrightarrow>
      (\<exists>q m. Dc_parse_query q \<in> set h \<and> read_message q = Some m \<and> \<not> dm_response m \<and>
         read_message (snd answer) = Some (m\<lparr>dm_response := True, dm_rcode := ucast (last_rcode h),
           dm_answers := map on_wire (added sec_answer h),
           dm_authorities := map on_wire (added sec_authority h),
           dm_additionals := map on_wire (added sec_additional h)\<rparr>) \<and>
         length (snd answer) \<le> 512))"
proof -
  have inv: "dns_inv c h" unfolding c_def h_def by (rule dns_run_inv)
  have step: "answer = snd (dns_build_response_on c)"
    using assms(4) by (simp add: answer_def)
  have length: "responseLength c = 17 + sectionWireLength (added sec_answer h) +
      sectionWireLength (added sec_authority h) + sectionWireLength (added sec_additional h)"
    using inv by (simp add: dns_inv_def responseLength_def)
  have accept: "fst answer = 0 \<longleftrightarrow> dn_state c = dn_response_building \<and> Dc_enable_dnssec \<notin> set h \<and>
      responseLength c \<le> 512"
    using inv by (auto simp: step dns_build_response_on_def dns_inv_def)
  have reads: "\<exists>q m. Dc_parse_query q \<in> set h \<and> read_message q = Some m \<and> \<not> dm_response m \<and>
         read_message (snd answer) = Some (m\<lparr>dm_response := True, dm_rcode := ucast (last_rcode h),
           dm_answers := map on_wire (added sec_answer h),
           dm_authorities := map on_wire (added sec_authority h),
           dm_additionals := map on_wire (added sec_additional h)\<rparr>) \<and>
         length (snd answer) \<le> 512" if "fst answer = 0"
  proof -
    from that accept inv obtain q where q: "Dc_parse_query q \<in> set h" "keeps_query c q"
      by (auto simp: dns_inv_def)
    from that have "snd (dns_build_response_on c) = (0, snd answer)"
      unfolding step by (metis prod.collapse)
    with that accept inv q have "read_message (snd answer) = Some \<lparr>dm_id = read16 (q ! 0) (q ! 1),
        dm_response = True, dm_opcode = 0,
        dm_authoritative = False, dm_truncated = False, dm_recursion_desired = (q ! 2 AND 1 \<noteq> 0),
        dm_recursion_available = False, dm_rcode = ucast (dn_rcode c),
        dm_questions = [([], read16 (q ! 13) (q ! 14), read16 (q ! 15) (q ! 16))],
        dm_answers = map on_wire (dn_answers c), dm_authorities = map on_wire (dn_authorities c),
        dm_additionals = map on_wire (dn_additionals c)\<rparr> \<and> length (snd answer) = responseLength c"
      by (intro read_response) (simp_all add: dns_inv_def)
    moreover have "query_ok q" using q(2) by (simp add: keeps_query_def)
    note read_query [OF this]
    ultimately show ?thesis
      using q(1) inv accept that by (intro exI [of _ q]) (simp add: dns_inv_def)
  qed
  from accept reads show ?thesis unfolding length by blast
qed

text \<open>A query for an A record of the root, answered with one address.\<close>

definition dns_dialogue :: "dns_call list" where
  "dns_dialogue =
     [Dc_parse_query [0, 7, 1, 0, 0, 1, 0, 0, 0, 0, 0, 0, 0, 0, 1, 0, 1], Dc_begin_lookup,
      Dc_begin_response, Dc_add sec_answer 0 0 300 [127, 0, 0, 1]]"

lemma dns_dialogue_run:
  "dn_state (fst (session_run dns_session_step (dns_fresh dns_empty_context) dns_dialogue)) = dn_response_building \<and>
   snd (session_run dns_session_step (dns_fresh dns_empty_context) dns_dialogue) = dns_dialogue"
  by (simp add: session_run_def dns_dialogue_def dns_session_step_def no_bytes_def op_simps dns_fresh_def
      dns_empty_context_def Let_def read16_def wireTypeToAbiTag_def wireClassToAbiTag_def)

theorem dns_response_reads_back_witness:
  "\<exists>m. read_message (snd (snd (dns_step (Dc_build_response (replicate 512 0))
       (fst (session_run dns_session_step (dns_fresh dns_empty_context) dns_dialogue))))) = Some m \<and>
     dm_response m \<and> map wr_rdata (dm_answers m) = [[127, 0, 0, 1]]"
proof -
  have "added sec_answer dns_dialogue = [\<lparr>rr_rtype = 0, rr_rclass = 0, rr_ttl = 300, rr_rdata = [127, 0, 0, 1]\<rparr>]"
      "added sec_authority dns_dialogue = []" "added sec_additional dns_dialogue = []"
      "Dc_enable_dnssec \<notin> set dns_dialogue"
    by (simp_all add: added_def dns_dialogue_def)
  then show ?thesis
    using dns_response_reads_back [of "replicate 512 0" dns_empty_context dns_dialogue] dns_dialogue_run
    by (auto simp: on_wire_def)
qed

section \<open>What an owned context reports\<close>

definition dns_phase_abs :: "dns_phase \<Rightarrow> DnsState" where
  "dns_phase_abs s =
     (case s of dn_idle \<Rightarrow> DnsState.Idle | dn_query_received \<Rightarrow> DnsState.QueryReceived
      | dn_lookup \<Rightarrow> DnsState.Lookup | dn_response_building \<Rightarrow> DnsState.ResponseBuilding | dn_sent \<Rightarrow> DnsState.Sent)"

definition dnssec_abs :: "dnssec_phase \<Rightarrow> DnssecState" where
  "dnssec_abs s =
     (case s of ds_disabled \<Rightarrow> DnssecState.Disabled | ds_enabled \<Rightarrow> DnssecState.Enabled
      | ds_key_loaded \<Rightarrow> DnssecState.KeyLoaded | ds_validated \<Rightarrow> DnssecState.Validated)"

lemma dns_views:
  assumes "valid_slot dn_active p (ctx_slot h) = Some i"
  shows "ffi_dns_state p h = Some (dns_phase_abs (dn_state (p ! i)))"
    and "ffi_dns_dnssec_state p h = Some (dnssec_abs (dn_dnssec_state (p ! i)))"
    and "ffi_dns_rcode p h = dn_rcode (p ! i)"
    and "ffi_dns_answer_count p h = word_of_nat (length (dn_answers (p ! i)))"
    and "ffi_dns_authority_count p h = word_of_nat (length (dn_authorities (p ! i)))"
    and "ffi_dns_additional_count p h = word_of_nat (length (dn_additionals (p ! i)))"
proof -
  show "ffi_dns_state p h = Some (dns_phase_abs (dn_state (p ! i)))"
    using assms by (cases "dn_state (p ! i)")
      (simp_all add: ffi_dns_state_def dns_state_def query_slot_def dns_phase_abs_def DnsState_from_tag_def)
  show "ffi_dns_dnssec_state p h = Some (dnssec_abs (dn_dnssec_state (p ! i)))"
    using assms by (cases "dn_dnssec_state (p ! i)")
      (simp_all add: ffi_dns_dnssec_state_def dns_dnssec_state_def query_slot_def dnssec_abs_def DnssecState_from_tag_def)
qed (use assms in \<open>simp_all add: query_slot_def ffi_dns_rcode_def dns_rcode_def ffi_dns_answer_count_def
  dns_answer_count_def ffi_dns_authority_count_def dns_authority_count_def ffi_dns_additional_count_def
  dns_additional_count_def\<close>)

text \<open>The edges an accepted call takes.\<close>

inductive dns_edge :: "dns_phase \<Rightarrow> dns_phase \<Rightarrow> bool" where
  "dns_edge dn_idle dn_query_received"
| "dns_edge dn_query_received dn_lookup"
| "dns_edge dn_lookup dn_response_building"
| "dns_edge dn_response_building dn_sent"

inductive_simps dns_edge_sent: "dns_edge s dn_sent"

lemma dns_edge_table: "dns_edge s t \<Longrightarrow> ffi_dns_can_transition (dns_phase_abs s) (dns_phase_abs t)"
  by (induction rule: dns_edge.induct)
     (simp_all add: ffi_dns_can_transition_def dns_can_transition_def dns_phase_abs_def)

lemma parse_walk:
  "dn_state (fst (dns_parse_query_on q c)) = dn_state c \<or> dns_edge (dn_state c) (dn_state (fst (dns_parse_query_on q c)))"
  using parse_refused [of q c] parse_accepts [of q c] parse_keeps [of q c]
  by (cases "snd (dns_parse_query_on q c) = 0") (auto intro: dns_edge.intros)

lemma add_state: "dn_state (fst (addRecord sec rtype rclass ttl rdata c)) = dn_state c"
  by (cases sec) (simp_all add: add_record_eq Let_def)

lemma dns_step_walk:
  "dn_state (fst (dns_step x c)) = dn_state c \<or> dns_edge (dn_state c) (dn_state (fst (dns_step x c)))"
  by (cases x) (simp_all add: no_bytes_def parse_walk add_state dns_begin_lookup_on_def dns_begin_response_on_def
    dns_set_rcode_on_def dns_build_response_on_def dns_enable_dnssec_on_def dns_load_dnssec_key_on_def
    dns_sign_response_on_def dns_validate_dnssec_on_def dns_edge.intros)

lemma dns_sent_unsigned:
  assumes "dn_state (fst (dns_step x c)) = dn_sent"
  shows "dn_state c = dn_sent \<or> dn_dnssec_state c = ds_disabled"
proof (cases x)
  case (Dc_parse_query q)
  with assms show ?thesis
    using parse_keeps [of q c] parse_refused [of q c]
    by (cases "snd (dns_parse_query_on q c) = 0") (auto simp: no_bytes_def split: if_split_asm)
next
  case (Dc_add sec rtype rclass ttl rdata)
  with assms show ?thesis by (simp add: no_bytes_def add_state split: if_split_asm)
qed (use assms in \<open>simp_all add: no_bytes_def op_simps split: if_split_asm\<close>)

text \<open>
  C25: In every state a program can reach through the safe wrappers, whatever call it makes next, an
  owned DNS context is in one of the five states and in one of the first two DNSSEC states, with a
  response code of at most 10 and at most 16 records per section. The call leaves the state or takes
  an edge of the table the engine exports, never one of the three abort edges to \<open>Sent\<close>; it does not
  get to \<open>Sent\<close> with DNSSEC enabled. A refused call leaves the pool unchanged. Loading a key and
  signing are always refused, and validation is always negative.
\<close>

theorem dns_fails_closed:
  assumes "dns_client p hs" "h \<in> set hs"
  shows "\<exists>s d t. ffi_dns_state p h = Some s \<and> ffi_dns_dnssec_state p h = Some d \<and>
    ffi_dns_state (fst (ffi_dns_call x p h)) h = Some t \<and>
    d \<in> {DnssecState.Disabled, DnssecState.Enabled} \<and> ffi_dns_rcode p h \<le> 10 \<and>
    ffi_dns_answer_count p h \<le> 16 \<and> ffi_dns_authority_count p h \<le> 16 \<and> ffi_dns_additional_count p h \<le> 16 \<and>
    (s \<noteq> t \<longrightarrow> ffi_dns_can_transition s t \<and> (t = DnsState.Sent \<longrightarrow> s = DnsState.ResponseBuilding \<and> d = DnssecState.Disabled)) \<and>
    ((\<exists>e. snd (ffi_dns_call x p h) \<in> {Ans_status (Inl e), Ans_message (Inl e), Ans_valid False}) \<longrightarrow>
       fst (ffi_dns_call x p h) = p) \<and>
    (x = Dc_sign_response \<or> (\<exists>a. x = Dc_load_dnssec_key a) \<longrightarrow> snd (ffi_dns_call x p h) = Ans_status (Inl InvalidState)) \<and>
    (x = Dc_validate_dnssec \<longrightarrow> snd (ffi_dns_call x p h) = Ans_valid False)"
proof -
  obtain i where v: "valid_slot dn_active p (ctx_slot h) = Some i" and g: "dns_good (p ! i)"
    and v': "valid_slot dn_active (fst (ffi_dns_call x p h)) (ctx_slot h) = Some i"
    and s': "fst (ffi_dns_call x p h) ! i = fst (dns_step x (p ! i))"
    and a': "snd (ffi_dns_call x p h) = dns_conv x (snd (dns_step x (p ! i)))"
    and u': "fst (ffi_dns_call x p h) = p[i := fst (dns_step x (p ! i))]"
    using assms by (rule dns.live_call [where op = x])
  let ?c = "p ! i" and ?d = "fst (dns_step x (p ! i))"
  have bounds: "length (dn_answers ?c) \<le> 16" "length (dn_authorities ?c) \<le> 16" "length (dn_additionals ?c) \<le> 16"
      "dn_rcode ?c \<le> 10" "dn_dnssec_state ?c = ds_disabled \<or> dn_dnssec_state ?c = ds_enabled"
    using g by (auto simp: dns_good_def)
  have count: "n \<le> 16 \<Longrightarrow> (word_of_nat n :: u16) \<le> 16" for n
    by (simp add: word_le_nat_alt unat_of_nat)
  have abs: "dns_phase_abs (dn_state ?c) = dns_phase_abs (dn_state ?d) \<or>
      ffi_dns_can_transition (dns_phase_abs (dn_state ?c)) (dns_phase_abs (dn_state ?d)) \<and>
      (dns_phase_abs (dn_state ?d) = DnsState.Sent \<longrightarrow>
         dns_phase_abs (dn_state ?c) = DnsState.ResponseBuilding \<and> dnssec_abs (dn_dnssec_state ?c) = DnssecState.Disabled)"
    using dns_step_walk [of x ?c] dns_edge_table [of "dn_state ?c" "dn_state ?d"] dns_sent_unsigned [of x ?c]
    by (auto simp: dns_phase_abs_def dnssec_abs_def dns_edge_sent split: dns_phase.split_asm)
  have refused: "fst (ffi_dns_call x p h) = p"
    if "snd (ffi_dns_call x p h) \<in> {Ans_status (Inl e), Ans_message (Inl e), Ans_valid False}" for e
  proof -
    from that a' have "fst (snd (dns_step x ?c)) \<noteq> 0"
      by (cases x) (auto simp: no_bytes_def build_result_def split: if_split_asm)
    with u' show ?thesis by (simp add: dns_refused)
  qed
  have closed: "(x = Dc_sign_response \<or> (\<exists>a. x = Dc_load_dnssec_key a) \<longrightarrow>
        snd (ffi_dns_call x p h) = Ans_status (Inl InvalidState)) \<and>
      (x = Dc_validate_dnssec \<longrightarrow> snd (ffi_dns_call x p h) = Ans_valid False)"
    unfolding a' by (auto simp: no_bytes_def op_simps)
  show ?thesis
    unfolding dns_views [OF v] dns_views(1) [OF v'] s'
    using abs refused closed bounds count by (auto simp: dnssec_abs_def)
qed

theorem dns_fails_closed_witness:
  "\<exists>t. ffi_dns_state (fst (ffi_dns_call (Dc_load_dnssec_key DnssecAlgorithm.Ed25519)
     (dns_contexts[0 := dns_fresh (dns_contexts ! 0)]) (handle 0))) (handle 0) = Some t"
  using dns_fails_closed [OF dns_first_client list.set_intros(1), of "Dc_load_dnssec_key DnssecAlgorithm.Ed25519"] by blast

end
