(* ===== verification/Graphql_Engine.thy ===== *)
theory Graphql_Engine
  imports Slot_Pool
begin

text \<open>
  The GraphQL request engine \<open>protocols/proven-graphql/ffi/zig/src/graphql.zig\<close>: 64 request contexts,
  each with the phase of its request and at most one subscription, and 16 batches of at most 16
  queries, a second pool with a lock of its own.
\<close>

section \<open>State\<close>

datatype gql_operation = gq_query | gq_mutation | gq_subscription

primrec gql_operation_tag :: "gql_operation \<Rightarrow> u8" where
  "gql_operation_tag gq_query = 0"
| "gql_operation_tag gq_mutation = 1"
| "gql_operation_tag gq_subscription = 2"

text \<open>\<open>@enumFromInt\<close> on a tag below 3.\<close>

definition gql_operation_of :: "u8 \<Rightarrow> gql_operation" where
  "gql_operation_of tag = (if tag = 0 then gq_query else if tag = 1 then gq_mutation else gq_subscription)"

datatype gql_phase = gp_parse | gp_validate | gp_execute | gp_resolve | gp_serialize | gp_failed

primrec gql_phase_tag :: "gql_phase \<Rightarrow> u8" where
  "gql_phase_tag gp_parse = 0"
| "gql_phase_tag gp_validate = 1"
| "gql_phase_tag gp_execute = 2"
| "gql_phase_tag gp_resolve = 3"
| "gql_phase_tag gp_serialize = 4"
| "gql_phase_tag gp_failed = 5"

datatype gql_sub_phase = gs_subscribe | gs_active | gs_unsubscribe | gs_failed

primrec gql_sub_phase_tag :: "gql_sub_phase \<Rightarrow> u8" where
  "gql_sub_phase_tag gs_subscribe = 0"
| "gql_sub_phase_tag gs_active = 1"
| "gql_sub_phase_tag gs_unsubscribe = 2"
| "gql_sub_phase_tag gs_failed = 3"

record GqlCtx =
  gq_phase :: gql_phase
  gq_op_type :: gql_operation
  gq_error_cat :: u8
  gq_query_depth :: u16
  gq_complexity :: u16
  gq_fields_resolved :: u16
  gq_sub_phase :: gql_sub_phase
  gq_sub_event_count :: u32
  gq_sub_active :: bool
  gq_active :: bool

type_synonym gql_pool = "GqlCtx list"

definition gql_blank :: "gql_operation \<Rightarrow> bool \<Rightarrow> GqlCtx" where
  "gql_blank op act =
     \<lparr>gq_phase = gp_parse, gq_op_type = op, gq_error_cat = 255, gq_query_depth = 0, gq_complexity = 0,
      gq_fields_resolved = 0, gq_sub_phase = gs_subscribe, gq_sub_event_count = 0, gq_sub_active = False,
      gq_active = act\<rparr>"

definition gql_contexts :: gql_pool where
  "gql_contexts = replicate 64 (gql_blank gq_query False)"

primrec nextPhase :: "gql_phase \<Rightarrow> gql_phase option" where
  "nextPhase gp_parse = Some gp_validate"
| "nextPhase gp_validate = Some gp_execute"
| "nextPhase gp_execute = Some gp_resolve"
| "nextPhase gp_resolve = Some gp_serialize"
| "nextPhase gp_serialize = None"
| "nextPhase gp_failed = None"

primrec nextSubPhase :: "gql_sub_phase \<Rightarrow> gql_sub_phase option" where
  "nextSubPhase gs_subscribe = Some gs_active"
| "nextSubPhase gs_active = Some gs_unsubscribe"
| "nextSubPhase gs_unsubscribe = None"
| "nextSubPhase gs_failed = None"

section \<open>Life of a context\<close>

definition graphql_abi_version :: u32 where
  "graphql_abi_version = 1"

definition gql_fresh :: "u8 \<Rightarrow> GqlCtx \<Rightarrow> GqlCtx" where
  "gql_fresh op_type c = gql_blank (gql_operation_of op_type) True"

definition graphql_create :: "u8 \<Rightarrow> gql_pool \<Rightarrow> gql_pool \<times> c_int" where
  "graphql_create op_type p = (if op_type > 2 then (p, - 1) else pool_create gq_active (gql_fresh op_type) p)"

definition gql_off :: "GqlCtx \<Rightarrow> GqlCtx" where
  "gql_off c = c\<lparr>gq_active := False\<rparr>"

definition graphql_destroy :: "gql_pool \<Rightarrow> c_int \<Rightarrow> gql_pool" where
  "graphql_destroy p slot = pool_destroy gql_off p slot"

section \<open>State queries\<close>

definition graphql_phase :: "gql_pool \<Rightarrow> c_int \<Rightarrow> u8" where
  "graphql_phase p slot = query_slot gq_active p slot 5 (\<lambda>c. gql_phase_tag (gq_phase c))"

definition graphql_operation_type :: "gql_pool \<Rightarrow> c_int \<Rightarrow> u8" where
  "graphql_operation_type p slot = query_slot gq_active p slot 255 (\<lambda>c. gql_operation_tag (gq_op_type c))"

definition graphql_error_category :: "gql_pool \<Rightarrow> c_int \<Rightarrow> u8" where
  "graphql_error_category p slot = query_slot gq_active p slot 255 gq_error_cat"

definition graphql_query_depth :: "gql_pool \<Rightarrow> c_int \<Rightarrow> u16" where
  "graphql_query_depth p slot = query_slot gq_active p slot 0 gq_query_depth"

definition graphql_complexity :: "gql_pool \<Rightarrow> c_int \<Rightarrow> u16" where
  "graphql_complexity p slot = query_slot gq_active p slot 0 gq_complexity"

definition graphql_fields_resolved :: "gql_pool \<Rightarrow> c_int \<Rightarrow> u16" where
  "graphql_fields_resolved p slot = query_slot gq_active p slot 0 gq_fields_resolved"

definition graphql_sub_phase :: "gql_pool \<Rightarrow> c_int \<Rightarrow> u8" where
  "graphql_sub_phase p slot =
     query_slot gq_active p slot 3 (\<lambda>c. if \<not> gq_sub_active c then 3 else gql_sub_phase_tag (gq_sub_phase c))"

definition graphql_sub_event_count :: "gql_pool \<Rightarrow> c_int \<Rightarrow> u32" where
  "graphql_sub_event_count p slot =
     query_slot gq_active p slot 0 (\<lambda>c. if \<not> gq_sub_active c then 0 else gq_sub_event_count c)"

section \<open>Operations on one context\<close>

definition graphql_advance_on :: "GqlCtx \<Rightarrow> GqlCtx \<times> u8" where
  [op_simps]: "graphql_advance_on c =
     (case nextPhase (gq_phase c) of
        Some np \<Rightarrow> (c\<lparr>gq_phase := np\<rparr>, 0)
      | None \<Rightarrow> (c, 1))"

definition graphql_abort_on :: "u8 \<Rightarrow> GqlCtx \<Rightarrow> GqlCtx \<times> u8" where
  [op_simps]: "graphql_abort_on err_cat c =
     (if gq_phase c = gp_serialize \<or> gq_phase c = gp_failed then (c, 1)
      else if err_cat > 4 then (c, 1)
      else (c\<lparr>gq_phase := gp_failed, gq_error_cat := err_cat\<rparr>, 0))"

definition graphql_set_query_depth_on :: "u16 \<Rightarrow> GqlCtx \<Rightarrow> GqlCtx \<times> u8" where
  [op_simps]: "graphql_set_query_depth_on depth c = (c\<lparr>gq_query_depth := depth\<rparr>, 0)"

definition graphql_set_complexity_on :: "u16 \<Rightarrow> GqlCtx \<Rightarrow> GqlCtx \<times> u8" where
  [op_simps]: "graphql_set_complexity_on score c = (c\<lparr>gq_complexity := score\<rparr>, 0)"

definition graphql_resolve_field_on :: "u8 \<Rightarrow> u8 \<Rightarrow> GqlCtx \<Rightarrow> GqlCtx \<times> u8" where
  [op_simps]: "graphql_resolve_field_on type_kind scalar_kind c =
     (if gq_phase c \<noteq> gp_resolve then (c, 1)
      else if type_kind > 7 then (c, 1)
      else if type_kind = 0 \<and> scalar_kind > 5 then (c, 1)
      else (c\<lparr>gq_fields_resolved := sat_add (gq_fields_resolved c) 1\<rparr>, 0))"

text \<open>The subscription's identifier is the slot: the operation answers whether there is one.\<close>

definition graphql_sub_create_on :: "GqlCtx \<Rightarrow> GqlCtx \<times> u8" where
  [op_simps]: "graphql_sub_create_on c =
     (if gq_op_type c \<noteq> gq_subscription then (c, 1)
      else if gq_sub_active c then (c, 1)
      else (c\<lparr>gq_sub_active := True, gq_sub_phase := gs_subscribe, gq_sub_event_count := 0\<rparr>, 0))"

definition graphql_sub_advance_on :: "GqlCtx \<Rightarrow> GqlCtx \<times> u8" where
  [op_simps]: "graphql_sub_advance_on c =
     (if \<not> gq_sub_active c then (c, 1)
      else case nextSubPhase (gq_sub_phase c) of
        Some np \<Rightarrow> (c\<lparr>gq_sub_phase := np\<rparr>, 0)
      | None \<Rightarrow> (c, 1))"

definition graphql_sub_emit_event_on :: "GqlCtx \<Rightarrow> GqlCtx \<times> u8" where
  [op_simps]: "graphql_sub_emit_event_on c =
     (if \<not> gq_sub_active c then (c, 1)
      else if gq_sub_phase c \<noteq> gs_active then (c, 1)
      else (c\<lparr>gq_sub_event_count := sat_add (gq_sub_event_count c) 1\<rparr>, 0))"

definition graphql_sub_abort_on :: "GqlCtx \<Rightarrow> GqlCtx \<times> u8" where
  [op_simps]: "graphql_sub_abort_on c =
     (if \<not> gq_sub_active c then (c, 1)
      else if gq_sub_phase c = gs_unsubscribe \<or> gq_sub_phase c = gs_failed then (c, 1)
      else (c\<lparr>gq_sub_phase := gs_failed\<rparr>, 0))"

definition graphql_introspection_query_on :: "u8 \<Rightarrow> GqlCtx \<Rightarrow> GqlCtx \<times> u8" where
  [op_simps]: "graphql_introspection_query_on intro_field c =
     (c, if intro_field > 2 then 1
         else if intro_field = 0 then (if gq_op_type c = gq_query then 0 else 1)
         else if intro_field = 1 then (if gq_op_type c = gq_query then 0 else 1)
         else if intro_field = 2 then 0
         else 1)"

section \<open>The exported functions\<close>

definition graphql_advance :: "gql_pool \<Rightarrow> c_int \<Rightarrow> gql_pool \<times> u8" where
  "graphql_advance p slot = on_slot gq_active p slot 1 graphql_advance_on"

definition graphql_abort :: "gql_pool \<Rightarrow> c_int \<Rightarrow> u8 \<Rightarrow> gql_pool \<times> u8" where
  "graphql_abort p slot err_cat = on_slot gq_active p slot 1 (graphql_abort_on err_cat)"

definition graphql_set_query_depth :: "gql_pool \<Rightarrow> c_int \<Rightarrow> u16 \<Rightarrow> gql_pool \<times> u8" where
  "graphql_set_query_depth p slot depth = on_slot gq_active p slot 1 (graphql_set_query_depth_on depth)"

definition graphql_set_complexity :: "gql_pool \<Rightarrow> c_int \<Rightarrow> u16 \<Rightarrow> gql_pool \<times> u8" where
  "graphql_set_complexity p slot score = on_slot gq_active p slot 1 (graphql_set_complexity_on score)"

definition graphql_resolve_field :: "gql_pool \<Rightarrow> c_int \<Rightarrow> u8 \<Rightarrow> u8 \<Rightarrow> gql_pool \<times> u8" where
  "graphql_resolve_field p slot type_kind scalar_kind =
     on_slot gq_active p slot 1 (graphql_resolve_field_on type_kind scalar_kind)"

definition graphql_sub_create :: "gql_pool \<Rightarrow> c_int \<Rightarrow> gql_pool \<times> c_int" where
  "graphql_sub_create p slot =
     (case valid_slot gq_active p slot of
        None \<Rightarrow> (p, - 1)
      | Some idx \<Rightarrow>
          (let (c, r) = graphql_sub_create_on (p ! idx)
           in (p[idx := c], if r = 0 then word_of_nat idx else - 1)))"

definition graphql_sub_advance :: "gql_pool \<Rightarrow> c_int \<Rightarrow> gql_pool \<times> u8" where
  "graphql_sub_advance p slot = on_slot gq_active p slot 1 graphql_sub_advance_on"

definition graphql_sub_emit_event :: "gql_pool \<Rightarrow> c_int \<Rightarrow> gql_pool \<times> u8" where
  "graphql_sub_emit_event p slot = on_slot gq_active p slot 1 graphql_sub_emit_event_on"

definition graphql_sub_abort :: "gql_pool \<Rightarrow> c_int \<Rightarrow> gql_pool \<times> u8" where
  "graphql_sub_abort p slot = on_slot gq_active p slot 1 graphql_sub_abort_on"

definition graphql_introspection_query :: "gql_pool \<Rightarrow> c_int \<Rightarrow> u8 \<Rightarrow> gql_pool \<times> u8" where
  "graphql_introspection_query p slot intro_field =
     on_slot gq_active p slot 1 (graphql_introspection_query_on intro_field)"

section \<open>Stateless checks\<close>

definition graphql_can_transition :: "u8 \<Rightarrow> u8 \<Rightarrow> u8" where
  "graphql_can_transition from to =
     (if from = 0 \<and> to = 1 then 1
      else if from = 1 \<and> to = 2 then 1
      else if from = 2 \<and> to = 3 then 1
      else if from = 3 \<and> to = 4 then 1
      else if from = 0 \<and> to = 5 then 1
      else if from = 1 \<and> to = 5 then 1
      else if from = 2 \<and> to = 5 then 1
      else if from = 3 \<and> to = 5 then 1
      else 0)"

definition graphql_sub_can_transition :: "u8 \<Rightarrow> u8 \<Rightarrow> u8" where
  "graphql_sub_can_transition from to =
     (if from = 0 \<and> to = 1 then 1
      else if from = 1 \<and> to = 1 then 1
      else if from = 1 \<and> to = 2 then 1
      else if from = 0 \<and> to = 3 then 1
      else if from = 1 \<and> to = 3 then 1
      else 0)"

definition graphql_check_depth :: "u16 \<Rightarrow> u16 \<Rightarrow> u8" where
  "graphql_check_depth depth max_depth = (if depth \<le> max_depth then 0 else 1)"

definition graphql_check_complexity :: "u16 \<Rightarrow> u16 \<Rightarrow> u8" where
  "graphql_check_complexity score max_complexity = (if score \<le> max_complexity then 0 else 1)"

section \<open>Batches\<close>

text \<open>
  16 batches with room for 16 queries each, of which the first \<open>count\<close> are in use. The Rust crate
  does not wrap them.
\<close>

datatype gql_batch_status = bq_pending | bq_running | bq_complete | bq_failed

primrec gql_batch_status_tag :: "gql_batch_status \<Rightarrow> u8" where
  "gql_batch_status_tag bq_pending = 0"
| "gql_batch_status_tag bq_running = 1"
| "gql_batch_status_tag bq_complete = 2"
| "gql_batch_status_tag bq_failed = 3"

record BatchEntry =
  be_op_type :: gql_operation
  be_status :: gql_batch_status

record Batch =
  ba_entries :: "BatchEntry list"
  ba_count :: u8
  ba_active :: bool

definition MAX_BATCH_SIZE :: u8 where
  "MAX_BATCH_SIZE = 16"

definition pending_query :: BatchEntry where
  "pending_query = \<lparr>be_op_type = gq_query, be_status = bq_pending\<rparr>"

definition batches :: "Batch list" where
  "batches = replicate 16 \<lparr>ba_entries = replicate 16 pending_query, ba_count = 0, ba_active = False\<rparr>"

section \<open>Operations on one batch\<close>

text \<open>Creation resets the first \<open>count\<close> entries and leaves the others.\<close>

definition batch_fresh :: "u8 \<Rightarrow> Batch \<Rightarrow> Batch" where
  "batch_fresh count b =
     b\<lparr>ba_active := True, ba_count := count,
       ba_entries := replicate (unat count) pending_query @ drop (unat count) (ba_entries b)\<rparr>"

definition batch_off :: "Batch \<Rightarrow> Batch" where
  "batch_off b = b\<lparr>ba_active := False\<rparr>"

definition graphql_batch_set_op_on :: "u8 \<Rightarrow> u8 \<Rightarrow> Batch \<Rightarrow> Batch \<times> u8" where
  [op_simps]: "graphql_batch_set_op_on index op_type b =
     (if index \<ge> ba_count b then (b, 1)
      else if op_type > 2 then (b, 1)
      else (b\<lparr>ba_entries := (ba_entries b)[unat index :=
              (ba_entries b ! unat index)\<lparr>be_op_type := gql_operation_of op_type\<rparr>]\<rparr>, 0))"

text \<open>The loop over the entries in use, with its four flags.\<close>

definition batch_queries :: "Batch \<Rightarrow> BatchEntry list" where
  "batch_queries b = take (unat (ba_count b)) (ba_entries b)"

definition graphql_batch_status_on :: "Batch \<Rightarrow> u8" where
  "graphql_batch_status_on b =
     (let (has_pending, has_running, has_failed, all_complete) =
        foldl (\<lambda>(pend, run, fail, compl) e.
            case be_status e of
              bq_pending \<Rightarrow> (True, run, fail, False)
            | bq_running \<Rightarrow> (pend, True, fail, False)
            | bq_failed \<Rightarrow> (pend, run, True, False)
            | bq_complete \<Rightarrow> (pend, run, fail, compl))
          (False, False, False, True) (batch_queries b)
      in if has_failed then 3 else if all_complete then 2 else if has_running then 1
         else if has_pending then 0 else 2)"

definition graphql_batch_query_status_on :: "u8 \<Rightarrow> Batch \<Rightarrow> u8" where
  "graphql_batch_query_status_on index b =
     (if index \<ge> ba_count b then 3 else gql_batch_status_tag (be_status (ba_entries b ! unat index)))"

text \<open>The first entry in use with a given status.\<close>

definition first_in :: "gql_batch_status \<Rightarrow> Batch \<Rightarrow> nat option" where
  "first_in s b = first_free (\<lambda>e. be_status e \<noteq> s) (batch_queries b)"

definition set_status :: "nat \<Rightarrow> gql_batch_status \<Rightarrow> Batch \<Rightarrow> Batch" where
  "set_status j s b = b\<lparr>ba_entries := (ba_entries b)[j := (ba_entries b ! j)\<lparr>be_status := s\<rparr>]\<rparr>"

definition graphql_batch_advance_on :: "Batch \<Rightarrow> Batch \<times> u8" where
  [op_simps]: "graphql_batch_advance_on b =
     (case first_in bq_running b of
        Some j \<Rightarrow> (set_status j bq_complete b, 0)
      | None \<Rightarrow>
          (case first_in bq_pending b of
             Some j \<Rightarrow> (set_status j bq_running b, 0)
           | None \<Rightarrow> (b, 1)))"

section \<open>The exported functions on batches\<close>

definition graphql_batch_create :: "u8 \<Rightarrow> Batch list \<Rightarrow> Batch list \<times> c_int" where
  "graphql_batch_create count p =
     (if count = 0 \<or> count > MAX_BATCH_SIZE then (p, - 1) else pool_create ba_active (batch_fresh count) p)"

definition graphql_batch_set_op :: "Batch list \<Rightarrow> c_int \<Rightarrow> u8 \<Rightarrow> u8 \<Rightarrow> Batch list \<times> u8" where
  "graphql_batch_set_op p batch_id index op_type =
     on_slot ba_active p batch_id 1 (graphql_batch_set_op_on index op_type)"

definition graphql_batch_status :: "Batch list \<Rightarrow> c_int \<Rightarrow> u8" where
  "graphql_batch_status p batch_id = query_slot ba_active p batch_id 3 graphql_batch_status_on"

definition graphql_batch_query_status :: "Batch list \<Rightarrow> c_int \<Rightarrow> u8 \<Rightarrow> u8" where
  "graphql_batch_query_status p batch_id index =
     query_slot ba_active p batch_id 3 (graphql_batch_query_status_on index)"

definition graphql_batch_advance :: "Batch list \<Rightarrow> c_int \<Rightarrow> Batch list \<times> u8" where
  "graphql_batch_advance p batch_id = on_slot ba_active p batch_id 1 graphql_batch_advance_on"

definition graphql_batch_destroy :: "Batch list \<Rightarrow> c_int \<Rightarrow> Batch list" where
  "graphql_batch_destroy p batch_id = pool_destroy batch_off p batch_id"

end
