(* ===== verification/Graphql_Types.thy ===== *)
theory Graphql_Types
  imports Tag_Codec
begin

text \<open>
  The types of \<open>bindings/rust/src/graphql.rs\<close>: \<open>OperationType\<close>,
  \<open>TypeKind\<close>, \<open>DirectiveLocation\<close>, \<open>ErrorCategory\<close>; and the phases \<open>ffi_graphql.rs\<close> declares
  for itself.
\<close>

section \<open>\<open>graphql::OperationType\<close>\<close>

datatype (plugins only: code) OperationType =
    Query
  | Mutation
  | Subscription

definition OperationType_from_tag :: "u8 \<Rightarrow> OperationType option" where
  "OperationType_from_tag tag =
     (if tag = 0 then Some OperationType.Query
      else if tag = 1 then Some OperationType.Mutation
      else if tag = 2 then Some OperationType.Subscription
      else option.None)"

primrec OperationType_to_tag :: "OperationType \<Rightarrow> u8" where
  "OperationType_to_tag OperationType.Query = 0"
| "OperationType_to_tag OperationType.Mutation = 1"
| "OperationType_to_tag OperationType.Subscription = 2"

definition OperationType_as_str :: "OperationType \<Rightarrow> string" where
  "OperationType_as_str self =
     (case self of
      OperationType.Query \<Rightarrow> ''query''
    | OperationType.Mutation \<Rightarrow> ''mutation''
    | OperationType.Subscription \<Rightarrow> ''subscription'')"

definition OperationType_fmt :: "OperationType \<Rightarrow> string" where
  "OperationType_fmt self = OperationType_as_str self"

section \<open>\<open>graphql::TypeKind\<close>\<close>

datatype (plugins only: code) TypeKind =
    Scalar
  | Object
  | Interface
  | Union
  | Enum
  | InputObject
  | List
  | NonNull

definition TypeKind_from_tag :: "u8 \<Rightarrow> TypeKind option" where
  "TypeKind_from_tag tag =
     (if tag = 0 then Some TypeKind.Scalar
      else if tag = 1 then Some TypeKind.Object
      else if tag = 2 then Some TypeKind.Interface
      else if tag = 3 then Some TypeKind.Union
      else if tag = 4 then Some TypeKind.Enum
      else if tag = 5 then Some TypeKind.InputObject
      else if tag = 6 then Some TypeKind.List
      else if tag = 7 then Some TypeKind.NonNull
      else option.None)"

primrec TypeKind_to_tag :: "TypeKind \<Rightarrow> u8" where
  "TypeKind_to_tag TypeKind.Scalar = 0"
| "TypeKind_to_tag TypeKind.Object = 1"
| "TypeKind_to_tag TypeKind.Interface = 2"
| "TypeKind_to_tag TypeKind.Union = 3"
| "TypeKind_to_tag TypeKind.Enum = 4"
| "TypeKind_to_tag TypeKind.InputObject = 5"
| "TypeKind_to_tag TypeKind.List = 6"
| "TypeKind_to_tag TypeKind.NonNull = 7"

definition TypeKind_introspection_name :: "TypeKind \<Rightarrow> string" where
  "TypeKind_introspection_name self =
     (case self of
      TypeKind.Scalar \<Rightarrow> ''SCALAR''
    | TypeKind.Object \<Rightarrow> ''OBJECT''
    | TypeKind.Interface \<Rightarrow> ''INTERFACE''
    | TypeKind.Union \<Rightarrow> ''UNION''
    | TypeKind.Enum \<Rightarrow> ''ENUM''
    | TypeKind.InputObject \<Rightarrow> ''INPUT_OBJECT''
    | TypeKind.List \<Rightarrow> ''LIST''
    | TypeKind.NonNull \<Rightarrow> ''NON_NULL'')"

definition TypeKind_is_wrapper :: "TypeKind \<Rightarrow> bool" where
  "TypeKind_is_wrapper self =
     (case self of
      TypeKind.List \<Rightarrow> True
    | TypeKind.NonNull \<Rightarrow> True
    | _ \<Rightarrow> False)"

definition TypeKind_is_composite :: "TypeKind \<Rightarrow> bool" where
  "TypeKind_is_composite self =
     (case self of
      TypeKind.Object \<Rightarrow> True
    | TypeKind.Interface \<Rightarrow> True
    | TypeKind.Union \<Rightarrow> True
    | _ \<Rightarrow> False)"

definition TypeKind_fmt :: "TypeKind \<Rightarrow> string" where
  "TypeKind_fmt self = TypeKind_introspection_name self"

section \<open>\<open>graphql::DirectiveLocation\<close>\<close>

datatype (plugins only: code) DirectiveLocation =
    Query
  | Mutation
  | Subscription
  | Field
  | FragmentDefinition
  | FragmentSpread
  | InlineFragment
  | Schema
  | Scalar
  | Object
  | FieldDefinition
  | ArgumentDefinition
  | Interface
  | Union
  | Enum
  | EnumValue
  | InputObject
  | InputFieldDefinition

definition DirectiveLocation_from_tag :: "u8 \<Rightarrow> DirectiveLocation option" where
  "DirectiveLocation_from_tag tag =
     (if tag = 0 then Some DirectiveLocation.Query
      else if tag = 1 then Some DirectiveLocation.Mutation
      else if tag = 2 then Some DirectiveLocation.Subscription
      else if tag = 3 then Some DirectiveLocation.Field
      else if tag = 4 then Some DirectiveLocation.FragmentDefinition
      else if tag = 5 then Some DirectiveLocation.FragmentSpread
      else if tag = 6 then Some DirectiveLocation.InlineFragment
      else if tag = 7 then Some DirectiveLocation.Schema
      else if tag = 8 then Some DirectiveLocation.Scalar
      else if tag = 9 then Some DirectiveLocation.Object
      else if tag = 10 then Some DirectiveLocation.FieldDefinition
      else if tag = 11 then Some DirectiveLocation.ArgumentDefinition
      else if tag = 12 then Some DirectiveLocation.Interface
      else if tag = 13 then Some DirectiveLocation.Union
      else if tag = 14 then Some DirectiveLocation.Enum
      else if tag = 15 then Some DirectiveLocation.EnumValue
      else if tag = 16 then Some DirectiveLocation.InputObject
      else if tag = 17 then Some DirectiveLocation.InputFieldDefinition
      else option.None)"

primrec DirectiveLocation_to_tag :: "DirectiveLocation \<Rightarrow> u8" where
  "DirectiveLocation_to_tag DirectiveLocation.Query = 0"
| "DirectiveLocation_to_tag DirectiveLocation.Mutation = 1"
| "DirectiveLocation_to_tag DirectiveLocation.Subscription = 2"
| "DirectiveLocation_to_tag DirectiveLocation.Field = 3"
| "DirectiveLocation_to_tag DirectiveLocation.FragmentDefinition = 4"
| "DirectiveLocation_to_tag DirectiveLocation.FragmentSpread = 5"
| "DirectiveLocation_to_tag DirectiveLocation.InlineFragment = 6"
| "DirectiveLocation_to_tag DirectiveLocation.Schema = 7"
| "DirectiveLocation_to_tag DirectiveLocation.Scalar = 8"
| "DirectiveLocation_to_tag DirectiveLocation.Object = 9"
| "DirectiveLocation_to_tag DirectiveLocation.FieldDefinition = 10"
| "DirectiveLocation_to_tag DirectiveLocation.ArgumentDefinition = 11"
| "DirectiveLocation_to_tag DirectiveLocation.Interface = 12"
| "DirectiveLocation_to_tag DirectiveLocation.Union = 13"
| "DirectiveLocation_to_tag DirectiveLocation.Enum = 14"
| "DirectiveLocation_to_tag DirectiveLocation.EnumValue = 15"
| "DirectiveLocation_to_tag DirectiveLocation.InputObject = 16"
| "DirectiveLocation_to_tag DirectiveLocation.InputFieldDefinition = 17"

definition DirectiveLocation_is_executable :: "DirectiveLocation \<Rightarrow> bool" where
  "DirectiveLocation_is_executable self = (DirectiveLocation_to_tag self \<le> 6)"

definition DirectiveLocation_is_type_system :: "DirectiveLocation \<Rightarrow> bool" where
  "DirectiveLocation_is_type_system self = (\<not> DirectiveLocation_is_executable self)"

definition DirectiveLocation_fmt :: "DirectiveLocation \<Rightarrow> string" where
  "DirectiveLocation_fmt self =
     (case self of
      DirectiveLocation.Query \<Rightarrow> ''QUERY''
    | DirectiveLocation.Mutation \<Rightarrow> ''MUTATION''
    | DirectiveLocation.Subscription \<Rightarrow> ''SUBSCRIPTION''
    | DirectiveLocation.Field \<Rightarrow> ''FIELD''
    | DirectiveLocation.FragmentDefinition \<Rightarrow> ''FRAGMENT_DEFINITION''
    | DirectiveLocation.FragmentSpread \<Rightarrow> ''FRAGMENT_SPREAD''
    | DirectiveLocation.InlineFragment \<Rightarrow> ''INLINE_FRAGMENT''
    | DirectiveLocation.Schema \<Rightarrow> ''SCHEMA''
    | DirectiveLocation.Scalar \<Rightarrow> ''SCALAR''
    | DirectiveLocation.Object \<Rightarrow> ''OBJECT''
    | DirectiveLocation.FieldDefinition \<Rightarrow> ''FIELD_DEFINITION''
    | DirectiveLocation.ArgumentDefinition \<Rightarrow> ''ARGUMENT_DEFINITION''
    | DirectiveLocation.Interface \<Rightarrow> ''INTERFACE''
    | DirectiveLocation.Union \<Rightarrow> ''UNION''
    | DirectiveLocation.Enum \<Rightarrow> ''ENUM''
    | DirectiveLocation.EnumValue \<Rightarrow> ''ENUM_VALUE''
    | DirectiveLocation.InputObject \<Rightarrow> ''INPUT_OBJECT''
    | DirectiveLocation.InputFieldDefinition \<Rightarrow> ''INPUT_FIELD_DEFINITION'')"

section \<open>\<open>graphql::ErrorCategory\<close>\<close>

datatype (plugins only: code) Graphql_ErrorCategory =
    ParseError
  | ValidationError
  | ExecutionError
  | AuthError
  | RateLimited

definition Graphql_ErrorCategory_from_tag :: "u8 \<Rightarrow> Graphql_ErrorCategory option" where
  "Graphql_ErrorCategory_from_tag tag =
     (if tag = 0 then Some Graphql_ErrorCategory.ParseError
      else if tag = 1 then Some Graphql_ErrorCategory.ValidationError
      else if tag = 2 then Some Graphql_ErrorCategory.ExecutionError
      else if tag = 3 then Some Graphql_ErrorCategory.AuthError
      else if tag = 4 then Some Graphql_ErrorCategory.RateLimited
      else option.None)"

primrec Graphql_ErrorCategory_to_tag :: "Graphql_ErrorCategory \<Rightarrow> u8" where
  "Graphql_ErrorCategory_to_tag Graphql_ErrorCategory.ParseError = 0"
| "Graphql_ErrorCategory_to_tag Graphql_ErrorCategory.ValidationError = 1"
| "Graphql_ErrorCategory_to_tag Graphql_ErrorCategory.ExecutionError = 2"
| "Graphql_ErrorCategory_to_tag Graphql_ErrorCategory.AuthError = 3"
| "Graphql_ErrorCategory_to_tag Graphql_ErrorCategory.RateLimited = 4"

definition Graphql_ErrorCategory_code :: "Graphql_ErrorCategory \<Rightarrow> string" where
  "Graphql_ErrorCategory_code self =
     (case self of
      Graphql_ErrorCategory.ParseError \<Rightarrow> ''PARSE_ERROR''
    | Graphql_ErrorCategory.ValidationError \<Rightarrow> ''VALIDATION_ERROR''
    | Graphql_ErrorCategory.ExecutionError \<Rightarrow> ''EXECUTION_ERROR''
    | Graphql_ErrorCategory.AuthError \<Rightarrow> ''AUTH_ERROR''
    | Graphql_ErrorCategory.RateLimited \<Rightarrow> ''RATE_LIMITED'')"

definition Graphql_ErrorCategory_fmt :: "Graphql_ErrorCategory \<Rightarrow> string" where
  "Graphql_ErrorCategory_fmt self = Graphql_ErrorCategory_code self"

section \<open>\<open>ffi_graphql::GraphqlPhase\<close>\<close>

datatype (plugins only: code) GraphqlPhase =
    Received
  | Parsed
  | Executing
  | Complete
  | Error

definition GraphqlPhase_from_tag :: "u8 \<Rightarrow> GraphqlPhase option" where
  "GraphqlPhase_from_tag tag =
     (if tag = 0 then Some GraphqlPhase.Received
      else if tag = 1 then Some GraphqlPhase.Parsed
      else if tag = 2 then Some GraphqlPhase.Executing
      else if tag = 3 then Some GraphqlPhase.Complete
      else if tag = 4 then Some GraphqlPhase.Error
      else option.None)"

primrec GraphqlPhase_to_tag :: "GraphqlPhase \<Rightarrow> u8" where
  "GraphqlPhase_to_tag GraphqlPhase.Received = 0"
| "GraphqlPhase_to_tag GraphqlPhase.Parsed = 1"
| "GraphqlPhase_to_tag GraphqlPhase.Executing = 2"
| "GraphqlPhase_to_tag GraphqlPhase.Complete = 3"
| "GraphqlPhase_to_tag GraphqlPhase.Error = 4"

section \<open>Tags and enumerations\<close>

interpretation OperationType_codec: tag_codec OperationType_to_tag OperationType_from_tag 3
  by (unfold_locales, (case_tac x; simp add: OperationType_from_tag_def), unfold OperationType_from_tag_def,
    (erule codec_arm, simp only: OperationType_to_tag.simps)+, erule codec_end, (case_tac x; simp), simp add: codec_eval)

interpretation TypeKind_codec: tag_codec TypeKind_to_tag TypeKind_from_tag 8
  by (unfold_locales, (case_tac x; simp add: TypeKind_from_tag_def), unfold TypeKind_from_tag_def,
    (erule codec_arm, simp only: TypeKind_to_tag.simps)+, erule codec_end, (case_tac x; simp), simp add: codec_eval)

interpretation DirectiveLocation_codec: tag_codec DirectiveLocation_to_tag DirectiveLocation_from_tag 18
  by (unfold_locales, (case_tac x; simp add: DirectiveLocation_from_tag_def), unfold DirectiveLocation_from_tag_def,
    (erule codec_arm, simp only: DirectiveLocation_to_tag.simps)+, erule codec_end, (case_tac x; simp), simp add: codec_eval)

interpretation Graphql_ErrorCategory_codec: tag_codec Graphql_ErrorCategory_to_tag Graphql_ErrorCategory_from_tag 5
  by (unfold_locales, (case_tac x; simp add: Graphql_ErrorCategory_from_tag_def), unfold Graphql_ErrorCategory_from_tag_def,
    (erule codec_arm, simp only: Graphql_ErrorCategory_to_tag.simps)+, erule codec_end, (case_tac x; simp), simp add: codec_eval)

interpretation GraphqlPhase_codec: tag_codec GraphqlPhase_to_tag GraphqlPhase_from_tag 5
  by (unfold_locales, (case_tac x; simp add: GraphqlPhase_from_tag_def), unfold GraphqlPhase_from_tag_def,
    (erule codec_arm, simp only: GraphqlPhase_to_tag.simps)+, erule codec_end, (case_tac x; simp), simp add: codec_eval)

end
