(* ===== verification/Graphql_Ffi.thy ===== *)
theory Graphql_Ffi
  imports Graphql_Engine Graphql_Types
begin

text \<open>
  The safe wrappers \<open>bindings/rust/src/ffi_graphql.rs\<close> over the request engine, the calls a client can
  make, and the invariant of a context.
\<close>

section \<open>Wrappers\<close>

definition ffi_graphql_abi_version :: u32 where
  "ffi_graphql_abi_version = graphql_abi_version"

definition ffi_graphql_create :: "u8 \<Rightarrow> gql_pool \<Rightarrow> gql_pool \<times> ffi_context ProvenResult" where
  "ffi_graphql_create op_type p = wrap_slot (graphql_create op_type p)"

definition ffi_graphql_drop :: "gql_pool \<Rightarrow> ffi_context \<Rightarrow> gql_pool" where
  "ffi_graphql_drop p ctx = graphql_destroy p (ctx_slot ctx)"

definition ffi_graphql_phase :: "gql_pool \<Rightarrow> ffi_context \<Rightarrow> GraphqlPhase option" where
  "ffi_graphql_phase p ctx = GraphqlPhase_from_tag (graphql_phase p (ctx_slot ctx))"

definition ffi_graphql_operation_type :: "gql_pool \<Rightarrow> ffi_context \<Rightarrow> u8" where
  "ffi_graphql_operation_type p ctx = graphql_operation_type p (ctx_slot ctx)"

definition ffi_graphql_error_category :: "gql_pool \<Rightarrow> ffi_context \<Rightarrow> u8" where
  "ffi_graphql_error_category p ctx = graphql_error_category p (ctx_slot ctx)"

definition ffi_graphql_advance :: "gql_pool \<Rightarrow> ffi_context \<Rightarrow> gql_pool \<times> unit ProvenResult" where
  "ffi_graphql_advance p ctx = wrap_status (graphql_advance p (ctx_slot ctx))"

definition ffi_graphql_abort :: "gql_pool \<Rightarrow> ffi_context \<Rightarrow> u8 \<Rightarrow> gql_pool \<times> unit ProvenResult" where
  "ffi_graphql_abort p ctx err_category = wrap_status (graphql_abort p (ctx_slot ctx) err_category)"

definition ffi_graphql_set_query_depth :: "gql_pool \<Rightarrow> ffi_context \<Rightarrow> u16 \<Rightarrow> gql_pool \<times> unit ProvenResult" where
  "ffi_graphql_set_query_depth p ctx depth = wrap_status (graphql_set_query_depth p (ctx_slot ctx) depth)"

definition ffi_graphql_query_depth :: "gql_pool \<Rightarrow> ffi_context \<Rightarrow> u16" where
  "ffi_graphql_query_depth p ctx = graphql_query_depth p (ctx_slot ctx)"

definition ffi_graphql_set_complexity :: "gql_pool \<Rightarrow> ffi_context \<Rightarrow> u16 \<Rightarrow> gql_pool \<times> unit ProvenResult" where
  "ffi_graphql_set_complexity p ctx score = wrap_status (graphql_set_complexity p (ctx_slot ctx) score)"

definition ffi_graphql_complexity :: "gql_pool \<Rightarrow> ffi_context \<Rightarrow> u16" where
  "ffi_graphql_complexity p ctx = graphql_complexity p (ctx_slot ctx)"

definition ffi_graphql_resolve_field ::
  "gql_pool \<Rightarrow> ffi_context \<Rightarrow> u8 \<Rightarrow> u8 \<Rightarrow> gql_pool \<times> unit ProvenResult" where
  "ffi_graphql_resolve_field p ctx type_kind scalar_kind =
     wrap_status (graphql_resolve_field p (ctx_slot ctx) type_kind scalar_kind)"

definition ffi_graphql_fields_resolved :: "gql_pool \<Rightarrow> ffi_context \<Rightarrow> u16" where
  "ffi_graphql_fields_resolved p ctx = graphql_fields_resolved p (ctx_slot ctx)"

definition ffi_graphql_can_transition :: "GraphqlPhase \<Rightarrow> GraphqlPhase \<Rightarrow> bool" where
  "ffi_graphql_can_transition from to =
     (graphql_can_transition (GraphqlPhase_to_tag from) (GraphqlPhase_to_tag to) = 1)"

definition ffi_graphql_sub_create :: "gql_pool \<Rightarrow> ffi_context \<Rightarrow> gql_pool \<times> i32 ProvenResult" where
  "ffi_graphql_sub_create p ctx = map_prod id from_slot (graphql_sub_create p (ctx_slot ctx))"

definition ffi_graphql_sub_phase :: "gql_pool \<Rightarrow> ffi_context \<Rightarrow> u8" where
  "ffi_graphql_sub_phase p ctx = graphql_sub_phase p (ctx_slot ctx)"

definition ffi_graphql_sub_advance :: "gql_pool \<Rightarrow> ffi_context \<Rightarrow> gql_pool \<times> unit ProvenResult" where
  "ffi_graphql_sub_advance p ctx = wrap_status (graphql_sub_advance p (ctx_slot ctx))"

definition ffi_graphql_sub_emit_event :: "gql_pool \<Rightarrow> ffi_context \<Rightarrow> gql_pool \<times> unit ProvenResult" where
  "ffi_graphql_sub_emit_event p ctx = wrap_status (graphql_sub_emit_event p (ctx_slot ctx))"

definition ffi_graphql_sub_abort :: "gql_pool \<Rightarrow> ffi_context \<Rightarrow> gql_pool \<times> unit ProvenResult" where
  "ffi_graphql_sub_abort p ctx = wrap_status (graphql_sub_abort p (ctx_slot ctx))"

definition ffi_graphql_sub_event_count :: "gql_pool \<Rightarrow> ffi_context \<Rightarrow> u32" where
  "ffi_graphql_sub_event_count p ctx = graphql_sub_event_count p (ctx_slot ctx)"

definition ffi_graphql_introspection_query ::
  "gql_pool \<Rightarrow> ffi_context \<Rightarrow> u8 \<Rightarrow> gql_pool \<times> unit ProvenResult" where
  "ffi_graphql_introspection_query p ctx intro_field =
     wrap_status (graphql_introspection_query p (ctx_slot ctx) intro_field)"

definition ffi_graphql_check_depth :: "u16 \<Rightarrow> u16 \<Rightarrow> bool" where
  "ffi_graphql_check_depth depth max_depth = (graphql_check_depth depth max_depth = 1)"

definition ffi_graphql_check_complexity :: "u16 \<Rightarrow> u16 \<Rightarrow> bool" where
  "ffi_graphql_check_complexity score max_complexity = (graphql_check_complexity score max_complexity = 1)"

section \<open>The client's alphabet\<close>

datatype gql_call =
    Gc_advance
  | Gc_abort u8
  | Gc_set_depth u16
  | Gc_set_complexity u16
  | Gc_resolve u8 u8
  | Gc_sub_create
  | Gc_sub_advance
  | Gc_sub_emit
  | Gc_sub_abort
  | Gc_introspection u8

primrec gql_step :: "gql_call \<Rightarrow> GqlCtx \<Rightarrow> GqlCtx \<times> u8" where
  "gql_step Gc_advance c = graphql_advance_on c"
| "gql_step (Gc_abort k) c = graphql_abort_on k c"
| "gql_step (Gc_set_depth d) c = graphql_set_query_depth_on d c"
| "gql_step (Gc_set_complexity n) c = graphql_set_complexity_on n c"
| "gql_step (Gc_resolve tk sk) c = graphql_resolve_field_on tk sk c"
| "gql_step Gc_sub_create c = graphql_sub_create_on c"
| "gql_step Gc_sub_advance c = graphql_sub_advance_on c"
| "gql_step Gc_sub_emit c = graphql_sub_emit_event_on c"
| "gql_step Gc_sub_abort c = graphql_sub_abort_on c"
| "gql_step (Gc_introspection f) c = graphql_introspection_query_on f c"

text \<open>The identifier a subscription gets is dropped here: it is the slot of the handle.\<close>

definition gql_conv :: "gql_call \<Rightarrow> u8 \<Rightarrow> unit ProvenResult" where
  "gql_conv x r = (if x = Gc_sub_create then (if r = 0 then Inr () else Inl PoolExhausted) else from_status r)"

primrec ffi_graphql_call :: "gql_call \<Rightarrow> gql_pool \<Rightarrow> ffi_context \<Rightarrow> gql_pool \<times> unit ProvenResult" where
  "ffi_graphql_call Gc_advance p h = ffi_graphql_advance p h"
| "ffi_graphql_call (Gc_abort k) p h = ffi_graphql_abort p h k"
| "ffi_graphql_call (Gc_set_depth d) p h = ffi_graphql_set_query_depth p h d"
| "ffi_graphql_call (Gc_set_complexity n) p h = ffi_graphql_set_complexity p h n"
| "ffi_graphql_call (Gc_resolve tk sk) p h = ffi_graphql_resolve_field p h tk sk"
| "ffi_graphql_call Gc_sub_create p h = map_prod id (map_sum id (\<lambda>_. ())) (ffi_graphql_sub_create p h)"
| "ffi_graphql_call Gc_sub_advance p h = ffi_graphql_sub_advance p h"
| "ffi_graphql_call Gc_sub_emit p h = ffi_graphql_sub_emit_event p h"
| "ffi_graphql_call Gc_sub_abort p h = ffi_graphql_sub_abort p h"
| "ffi_graphql_call (Gc_introspection f) p h = ffi_graphql_introspection_query p h f"

lemmas ffi_graphql_op_defs =
  ffi_graphql_advance_def graphql_advance_def ffi_graphql_abort_def graphql_abort_def
  ffi_graphql_set_query_depth_def graphql_set_query_depth_def
  ffi_graphql_set_complexity_def graphql_set_complexity_def
  ffi_graphql_resolve_field_def graphql_resolve_field_def
  ffi_graphql_sub_advance_def graphql_sub_advance_def
  ffi_graphql_sub_emit_event_def graphql_sub_emit_event_def
  ffi_graphql_sub_abort_def graphql_sub_abort_def
  ffi_graphql_introspection_query_def graphql_introspection_query_def

section \<open>The invariant of a context\<close>

text \<open>There is an error category exactly in the failed phase, and a subscription only in its operation.\<close>

definition gql_good :: "GqlCtx \<Rightarrow> bool" where
  "gql_good c \<longleftrightarrow>
     (gq_phase c = gp_failed \<longleftrightarrow> gq_error_cat c \<noteq> 255) \<and> (gq_error_cat c = 255 \<or> gq_error_cat c \<le> 4) \<and>
     (gq_sub_active c \<longrightarrow> gq_op_type c = gq_subscription) \<and>
     (gq_phase c \<in> {gp_parse, gp_validate, gp_execute} \<longrightarrow> gq_fields_resolved c = 0)"

lemma gql_active_step: "gq_active (fst (gql_step x c)) = gq_active c"
  by (cases x) (simp_all add: op_simps split: option.split)

lemma gql_good_fresh: "gql_good (gql_fresh t c)"
  by (simp add: gql_good_def gql_fresh_def gql_blank_def)

lemma nextPhase_Some: "nextPhase s = Some t \<Longrightarrow> s \<noteq> gp_failed \<and> t \<noteq> gp_failed"
  by (cases s) auto

lemma nextPhase_early: "nextPhase s = Some t \<Longrightarrow> t \<in> {gp_parse, gp_validate, gp_execute} \<Longrightarrow> s \<in> {gp_parse, gp_validate, gp_execute}"
  by (cases s) auto

lemma gql_good_advance: "gql_good c \<Longrightarrow> gql_good (fst (graphql_advance_on c))"
  using nextPhase_Some [of "gq_phase c"] nextPhase_early [of "gq_phase c"]
  by (auto simp: gql_good_def graphql_advance_on_def split: option.split)

lemma gql_good_step: "gql_good c \<Longrightarrow> gql_good (fst (gql_step x c))"
proof (cases x)
  case Gc_advance
  then show "gql_good c \<Longrightarrow> gql_good (fst (gql_step x c))" by (simp add: gql_good_advance)
qed (auto simp: gql_good_def op_simps split: option.split)

lemma sub_create_call:
  "ffi_graphql_call Gc_sub_create p h =
     map_prod id (gql_conv Gc_sub_create) (on_slot gq_active p (ctx_slot h) 1 (gql_step Gc_sub_create))"
proof (cases "valid_slot gq_active p (ctx_slot h)")
  case None
  then show ?thesis
    by (simp add: ffi_graphql_sub_create_def graphql_sub_create_def on_slot_def gql_conv_def from_slot_def)
next
  case (Some i)
  then have "word_of_nat i = ctx_slot h" "0 \<le> sint (ctx_slot h)"
    by (auto simp: valid_slot_Some_iff slot_index_Some_iff)
  with Some show ?thesis
    by (simp add: ffi_graphql_sub_create_def graphql_sub_create_def on_slot_def gql_conv_def from_slot_def
        split: prod.split)
qed

interpretation gql: slot_service gq_active "\<lambda>t. t \<le> 2" gql_fresh gql_off gql_step
  "\<lambda>_. 1" gql_conv gql_good gql_contexts ffi_graphql_create ffi_graphql_drop ffi_graphql_call
proof
  fix c :: GqlCtx and p :: gql_pool and h :: ffi_context and x :: gql_call and t :: u8
  show "gq_active (gql_fresh t c)" by (simp add: gql_fresh_def gql_blank_def)
  show "\<not> gq_active (gql_off c)" by (simp add: gql_off_def)
  show "gq_active c \<Longrightarrow> gq_active (fst (gql_step x c))" by (simp add: gql_active_step)
  show "gql_good (gql_fresh t c)" by (rule gql_good_fresh)
  show "gql_good c \<Longrightarrow> gql_good (fst (gql_step x c))" by (rule gql_good_step)
  show "c \<in> set gql_contexts \<Longrightarrow> \<not> gq_active c" by (simp add: gql_contexts_def gql_blank_def)
  show "length gql_contexts \<le> 2147483648" by (simp add: gql_contexts_def)
  show "ffi_graphql_create t p = wrap_slot (if t \<le> 2 then pool_create gq_active (gql_fresh t) p else (p, - 1))"
    by (simp add: ffi_graphql_create_def graphql_create_def not_less [symmetric])
  show "ffi_graphql_drop p h = pool_destroy gql_off p (ctx_slot h)"
    by (simp add: ffi_graphql_drop_def graphql_destroy_def)
  show "ffi_graphql_call x p h = map_prod id (gql_conv x) (on_slot gq_active p (ctx_slot h) 1 (gql_step x))"
    by (cases x)
       (auto simp: sub_create_call ffi_graphql_op_defs gql_conv_def wrap_status_eq_map_prod on_slot_def
         simp del: ffi_graphql_call.simps(6) split: option.split prod.split)
qed

abbreviation gql_client :: "gql_pool \<Rightarrow> ffi_context list \<Rightarrow> bool" where
  "gql_client \<equiv> client ffi_graphql_create ffi_graphql_drop ffi_graphql_call gql_contexts"

lemma gql_first_client: "gql_client (gql_contexts[0 := gql_fresh 2 (gql_contexts ! 0)]) [handle 0]"
  by (rule gql.client_first) (simp_all add: gql_contexts_def)

end
