(* ===== verification/Graphql_Props.thy ===== *)
theory Graphql_Props
  imports Graphql_Ffi
begin

text \<open>
  Properties of the GraphQL engine: which calls a request accepts after which others, what the
  wrapper reads, and the order in which a batch runs.
\<close>

section \<open>A request as its history\<close>

text \<open>
  The accepted calls decide everything: what the next call may be, and what the queries answer. The
  counts of the calls of one kind in a history.
\<close>

definition calls :: "gql_call \<Rightarrow> gql_call list \<Rightarrow> nat" where
  "calls x h = length (filter (\<lambda>y. y = x) h)"

definition aborts :: "gql_call list \<Rightarrow> u8 list" where
  "aborts h = concat (map (\<lambda>x. case x of Gc_abort k \<Rightarrow> [k] | _ \<Rightarrow> []) h)"

definition resolves :: "gql_call list \<Rightarrow> nat" where
  "resolves h = length (filter (\<lambda>x. case x of Gc_resolve tk sk \<Rightarrow> True | _ \<Rightarrow> False) h)"

definition latest :: "(gql_call \<Rightarrow> 'a option) \<Rightarrow> 'a \<Rightarrow> gql_call list \<Rightarrow> 'a" where
  "latest f d h = foldl (\<lambda>r x. case f x of Some v \<Rightarrow> v | None \<Rightarrow> r) d h"

definition depth_set :: "gql_call \<Rightarrow> u16 option" where
  "depth_set x = (case x of Gc_set_depth d \<Rightarrow> Some d | _ \<Rightarrow> None)"

definition complexity_set :: "gql_call \<Rightarrow> u16 option" where
  "complexity_set x = (case x of Gc_set_complexity n \<Rightarrow> Some n | _ \<Rightarrow> None)"

text \<open>The call a history allows next, for a request of the given operation.\<close>

definition gql_allows :: "gql_operation \<Rightarrow> gql_call list \<Rightarrow> gql_call \<Rightarrow> bool" where
  "gql_allows op h x \<longleftrightarrow>
     (case x of
        Gc_advance \<Rightarrow> aborts h = [] \<and> calls Gc_advance h < 4
      | Gc_abort k \<Rightarrow> aborts h = [] \<and> calls Gc_advance h < 4 \<and> k \<le> 4
      | Gc_resolve tk sk \<Rightarrow> aborts h = [] \<and> calls Gc_advance h = 3 \<and> tk \<le> 7 \<and> \<not> (tk = 0 \<and> sk > 5)
      | Gc_sub_create \<Rightarrow> op = gq_subscription \<and> calls Gc_sub_create h = 0
      | Gc_sub_advance \<Rightarrow> calls Gc_sub_create h = 1 \<and> calls Gc_sub_abort h = 0 \<and> calls Gc_sub_advance h < 2
      | Gc_sub_emit \<Rightarrow> calls Gc_sub_create h = 1 \<and> calls Gc_sub_abort h = 0 \<and> calls Gc_sub_advance h = 1
      | Gc_sub_abort \<Rightarrow> calls Gc_sub_create h = 1 \<and> calls Gc_sub_abort h = 0 \<and> calls Gc_sub_advance h < 2
      | Gc_introspection f \<Rightarrow> f = 2 \<or> op = gq_query \<and> f < 2
      | _ \<Rightarrow> True)"

text \<open>What the history says the context holds.\<close>

definition gql_told :: "gql_operation \<Rightarrow> GqlCtx \<Rightarrow> gql_call list \<Rightarrow> bool" where
  "gql_told op c h \<longleftrightarrow>
     gq_op_type c = op \<and> calls Gc_advance h \<le> 4 \<and> length (aborts h) \<le> 1 \<and>
     gq_phase c = (if aborts h \<noteq> [] then gp_failed
       else [gp_parse, gp_validate, gp_execute, gp_resolve, gp_serialize] ! calls Gc_advance h) \<and>
     gq_error_cat c = (if aborts h = [] then 255 else hd (aborts h)) \<and>
     gq_query_depth c = latest depth_set 0 h \<and> gq_complexity c = latest complexity_set 0 h \<and>
     unat (gq_fields_resolved c) = min (resolves h) 65535 \<and>
     calls Gc_sub_create h \<le> 1 \<and> (gq_sub_active c \<longleftrightarrow> calls Gc_sub_create h = 1) \<and>
     calls Gc_sub_advance h \<le> 2 \<and> calls Gc_sub_abort h \<le> 1 \<and>
     (calls Gc_sub_create h = 0 \<longrightarrow> calls Gc_sub_advance h = 0 \<and> calls Gc_sub_abort h = 0 \<and> calls Gc_sub_emit h = 0) \<and>
     gq_sub_phase c = (if calls Gc_sub_abort h = 1 then gs_failed
       else [gs_subscribe, gs_active, gs_unsubscribe] ! calls Gc_sub_advance h) \<and>
     unat (gq_sub_event_count c) = min (calls Gc_sub_emit h) (2 ^ 32 - 1)"

lemma calls_snoc [simp]: "calls y (h @ [x]) = (if x = y then Suc (calls y h) else calls y h)"
  by (simp add: calls_def)

lemma aborts_snoc [simp]: "aborts (h @ [x]) = aborts h @ (case x of Gc_abort k \<Rightarrow> [k] | _ \<Rightarrow> [])"
  by (simp add: aborts_def)

lemma resolves_snoc [simp]:
  "resolves (h @ [x]) = resolves h + (case x of Gc_resolve tk sk \<Rightarrow> 1 | _ \<Rightarrow> 0)"
  by (cases x) (simp_all add: resolves_def)

lemma latest_snoc [simp]: "latest f d (h @ [x]) = (case f x of Some v \<Rightarrow> v | None \<Rightarrow> latest f d h)"
  by (cases "f x") (simp_all add: latest_def)

lemma history_Nil [simp]: "calls x [] = 0" "aborts [] = []" "resolves [] = 0" "latest f d [] = d"
  by (simp_all add: calls_def aborts_def resolves_def latest_def)

lemma up_to_4: "(n :: nat) \<le> 4 \<longleftrightarrow> n \<in> {0, 1, 2, 3, 4}"
  by auto

lemma up_to_2: "(n :: nat) \<le> 2 \<longleftrightarrow> n \<in> {0, 1, 2}"
  by auto

lemma phase_advances:
  assumes "gql_told op c h"
  shows "gq_phase c = gp_failed \<longleftrightarrow> aborts h \<noteq> []"
    and "aborts h = [] \<Longrightarrow> gq_phase c = gp_resolve \<longleftrightarrow> calls Gc_advance h = 3"
    and "aborts h = [] \<Longrightarrow> gq_phase c = gp_serialize \<longleftrightarrow> calls Gc_advance h = 4"
    and "aborts h = [] \<Longrightarrow> nextPhase (gq_phase c) =
      (if calls Gc_advance h < 4 then Some ([gp_parse, gp_validate, gp_execute, gp_resolve, gp_serialize] ! Suc (calls Gc_advance h))
       else None)"
proof -
  have f: "gq_phase c = (if aborts h \<noteq> [] then gp_failed
       else [gp_parse, gp_validate, gp_execute, gp_resolve, gp_serialize] ! calls Gc_advance h)"
    and n: "calls Gc_advance h \<in> {0, 1, 2, 3, 4}"
    using assms unfolding gql_told_def up_to_4 by blast+
  from n show "gq_phase c = gp_failed \<longleftrightarrow> aborts h \<noteq> []"
    "aborts h = [] \<Longrightarrow> gq_phase c = gp_resolve \<longleftrightarrow> calls Gc_advance h = 3"
    "aborts h = [] \<Longrightarrow> gq_phase c = gp_serialize \<longleftrightarrow> calls Gc_advance h = 4"
    "aborts h = [] \<Longrightarrow> nextPhase (gq_phase c) =
      (if calls Gc_advance h < 4 then Some ([gp_parse, gp_validate, gp_execute, gp_resolve, gp_serialize] ! Suc (calls Gc_advance h))
       else None)"
    unfolding f by (elim insertE emptyE; simp)+
qed

lemma sub_advances:
  assumes "gql_told op c h"
  shows "gq_sub_phase c = gs_failed \<longleftrightarrow> calls Gc_sub_abort h = 1"
    and "calls Gc_sub_abort h \<noteq> 1 \<Longrightarrow> gq_sub_phase c = gs_active \<longleftrightarrow> calls Gc_sub_advance h = 1"
    and "calls Gc_sub_abort h \<noteq> 1 \<Longrightarrow> gq_sub_phase c = gs_unsubscribe \<longleftrightarrow> calls Gc_sub_advance h = 2"
    and "calls Gc_sub_abort h \<noteq> 1 \<Longrightarrow> nextSubPhase (gq_sub_phase c) =
      (if calls Gc_sub_advance h < 2 then Some ([gs_subscribe, gs_active, gs_unsubscribe] ! Suc (calls Gc_sub_advance h))
       else None)"
    and "calls Gc_sub_abort h \<noteq> 1 \<longleftrightarrow> calls Gc_sub_abort h = 0"
proof -
  have f: "gq_sub_phase c = (if calls Gc_sub_abort h = 1 then gs_failed
       else [gs_subscribe, gs_active, gs_unsubscribe] ! calls Gc_sub_advance h)"
    and n: "calls Gc_sub_advance h \<in> {0, 1, 2}" and a: "calls Gc_sub_abort h \<le> 1"
    using assms unfolding gql_told_def up_to_2 by blast+
  from n show "gq_sub_phase c = gs_failed \<longleftrightarrow> calls Gc_sub_abort h = 1"
    "calls Gc_sub_abort h \<noteq> 1 \<Longrightarrow> gq_sub_phase c = gs_active \<longleftrightarrow> calls Gc_sub_advance h = 1"
    "calls Gc_sub_abort h \<noteq> 1 \<Longrightarrow> gq_sub_phase c = gs_unsubscribe \<longleftrightarrow> calls Gc_sub_advance h = 2"
    "calls Gc_sub_abort h \<noteq> 1 \<Longrightarrow> nextSubPhase (gq_sub_phase c) =
      (if calls Gc_sub_advance h < 2 then Some ([gs_subscribe, gs_active, gs_unsubscribe] ! Suc (calls Gc_sub_advance h))
       else None)"
    unfolding f by (elim insertE emptyE; simp)+
  show "calls Gc_sub_abort h \<noteq> 1 \<longleftrightarrow> calls Gc_sub_abort h = 0" using a by linarith
qed

lemma byte_below_2: "(f :: u8) < 2 \<longleftrightarrow> f = 0 \<or> f = 1"
  by (simp add: word_less_nat_alt less_2_cases_iff word_unat_eq_iff)

lemma gql_accepts:
  assumes "gql_told op c h"
  shows "snd (gql_step x c) = 0 \<longleftrightarrow> gql_allows op h x"
proof -
  note p = phase_advances [OF assms] and s = sub_advances [OF assms]
  have active: "gq_sub_active c \<longleftrightarrow> calls Gc_sub_create h = 1" "calls Gc_sub_create h \<le> 1" "gq_op_type c = op"
      "calls Gc_advance h \<le> 4"
    using assms by (simp_all add: gql_told_def)
  show ?thesis
  proof (cases x)
    case (Gc_introspection f)
    have "f > 2 \<or> f = 0 \<or> f = 1 \<or> f = 2"
      using byte_below_2 [of f] by (metis not_less_iff_gr_or_eq)
    with Gc_introspection active show ?thesis
      by (auto simp: gql_allows_def graphql_introspection_query_on_def byte_below_2)
  next
    case (Gc_abort k)
    show ?thesis
      using p(1,3) active(4) by (cases "aborts h = []") (auto simp: Gc_abort gql_allows_def graphql_abort_on_def not_less)
  next
    case Gc_sub_advance
    show ?thesis
      using s active by (cases "calls Gc_sub_abort h = 1")
        (auto simp: Gc_sub_advance gql_allows_def graphql_sub_advance_on_def)
  next
    case Gc_sub_abort
    show ?thesis
      using s active assms by (cases "calls Gc_sub_abort h = 1")
        (auto simp: Gc_sub_abort gql_allows_def graphql_sub_abort_on_def gql_told_def)
  next
    case Gc_sub_emit
    show ?thesis
      using s active by (cases "calls Gc_sub_abort h = 1")
        (auto simp: Gc_sub_emit gql_allows_def graphql_sub_emit_event_on_def)
  next
    case Gc_advance
    show ?thesis
      using p by (cases "aborts h = []") (auto simp: Gc_advance gql_allows_def graphql_advance_on_def)
  next
    case (Gc_resolve tk sk)
    show ?thesis
      using p by (cases "aborts h = []") (auto simp: Gc_resolve gql_allows_def graphql_resolve_field_on_def not_less)
  qed (use active in \<open>auto simp: gql_allows_def op_simps\<close>)
qed

lemma sat_add_one: "unat (sat_add (a :: 'a::len word) 1) = min (Suc (unat a)) (2 ^ LENGTH('a) - 1)"
  by (cases "LENGTH('a) = 1") (simp_all add: unat_sat_add)

lemma gql_told_accept:
  assumes "gql_told op c h" "snd (gql_step x c) = 0"
  shows "gql_told op (fst (gql_step x c)) (h @ [x])"
proof -
  note p = phase_advances [OF assms(1)] and s = sub_advances [OF assms(1)]
  have ok: "gql_allows op h x" using gql_accepts [OF assms(1)] assms(2) by simp
  show ?thesis
  proof (cases x)
    case Gc_advance
    with ok p(4) assms(1) show ?thesis
      by (simp add: gql_allows_def graphql_advance_on_def gql_told_def depth_set_def complexity_set_def)
  next
    case Gc_sub_advance
    with ok s(4,5) assms(1) show ?thesis
      by (simp add: gql_allows_def graphql_sub_advance_on_def gql_told_def depth_set_def complexity_set_def)
  qed (use ok assms in \<open>auto simp: gql_allows_def op_simps gql_told_def depth_set_def complexity_set_def sat_add_one
        split: if_split_asm\<close>)
qed

lemma gql_refused: "snd (gql_step x c) \<noteq> 0 \<Longrightarrow> fst (gql_step x c) = c"
  by (cases x) (auto simp: op_simps split: option.split)

text \<open>
  C19: The accepted calls of a GraphQL request decide everything about it. After any sequence of calls on a
  new request, a call is accepted exactly when the history allows it: a request advances at most
  four times and aborts at most once, neither after an abort, and not once it serialises; fields are
  resolved exactly between the third and the fourth advance; a subscription is created at most once,
  for that operation only, delivers events between its two advances, and none once it is aborted, but
  independently of the phase of its request; schema and type introspection is for queries. The phases,
  the error category, the limits last set, and the saturated counts of fields and events are those the
  history gives, and a refused call changes nothing.
\<close>

theorem graphql_history:
  fixes t :: u8 and c0 :: GqlCtx and ops :: "gql_call list" and x :: gql_call
  defines "c \<equiv> fst (session_run gql_step (gql_fresh t c0) ops)"
    and "h \<equiv> snd (session_run gql_step (gql_fresh t c0) ops)"
  shows "gql_told (gql_operation_of t) c h \<and>
    (snd (gql_step x c) = 0 \<longleftrightarrow> gql_allows (gql_operation_of t) h x) \<and>
    (snd (gql_step x c) = 0 \<or> fst (gql_step x c) = c)"
proof -
  have "gql_told (gql_operation_of t) c h"
    unfolding c_def h_def
  proof (rule session_run_invariant)
    show "gql_told (gql_operation_of t) (gql_fresh t c0) []"
      by (simp add: gql_told_def gql_fresh_def gql_blank_def)
  qed (simp_all add: gql_told_accept gql_refused)
  with gql_accepts [OF this, of x] gql_refused [of x c] show ?thesis by blast
qed

section \<open>What the wrapper reads\<close>

text \<open>
  C20: In every state a program can reach through the safe wrappers, a request in the engine's last phase,
  serialising its answer, reads as \<open>Error\<close>, and a failed one as no phase at all: the wrapper has five
  phases where the engine has six. The error category is 255 exactly for a request that has not
  failed. \<open>check_depth\<close> and \<open>check_complexity\<close>, documented as true within the limit, are true exactly
  beyond it; and a refused call leaves the pool unchanged.
\<close>

theorem graphql_misread:
  assumes "gql_client p hs" "h \<in> set hs"
  shows "(ffi_graphql_phase p h = Some GraphqlPhase.Error \<longleftrightarrow> graphql_phase p (ctx_slot h) = gql_phase_tag gp_serialize) \<and>
    (ffi_graphql_phase p h = None \<longleftrightarrow> graphql_phase p (ctx_slot h) = gql_phase_tag gp_failed) \<and>
    (ffi_graphql_phase p h = None \<longleftrightarrow> ffi_graphql_error_category p h \<noteq> 255) \<and>
    (ffi_graphql_error_category p h = 255 \<or> ffi_graphql_error_category p h \<le> 4) \<and>
    (ffi_graphql_check_depth d m \<longleftrightarrow> m < d) \<and> (ffi_graphql_check_complexity d m \<longleftrightarrow> m < d) \<and>
    (snd (ffi_graphql_call x p h) = Inr () \<or> fst (ffi_graphql_call x p h) = p)"
proof -
  obtain i where v: "valid_slot gq_active p (ctx_slot h) = Some i" and g: "gql_good (p ! i)"
    and a': "snd (ffi_graphql_call x p h) = gql_conv x (snd (gql_step x (p ! i)))"
    and u': "fst (ffi_graphql_call x p h) = p[i := fst (gql_step x (p ! i))]"
    using assms by (rule gql.live_call [where op = x])
  have "snd (ffi_graphql_call x p h) = Inr () \<or> fst (ffi_graphql_call x p h) = p"
    using gql_refused [of x "p ! i"] by (cases "snd (gql_step x (p ! i)) = 0") (simp_all add: a' u' gql_conv_def)
  moreover have "graphql_phase p (ctx_slot h) = gql_phase_tag (gq_phase (p ! i))"
      "ffi_graphql_error_category p h = gq_error_cat (p ! i)"
    using v by (simp_all add: graphql_phase_def ffi_graphql_error_category_def graphql_error_category_def query_slot_def)
  ultimately show ?thesis
    using g by (cases "gq_phase (p ! i)")
      (auto simp: ffi_graphql_phase_def GraphqlPhase_from_tag_def gql_good_def ffi_graphql_check_depth_def
        graphql_check_depth_def ffi_graphql_check_complexity_def graphql_check_complexity_def not_le)
qed

theorem graphql_misread_witness:
  "ffi_graphql_check_depth 7 5 \<longleftrightarrow> 5 < (7 :: u16)"
  using graphql_misread [OF gql_first_client list.set_intros(1), of 7 5 Gc_advance] by blast

section \<open>The order in which a batch runs\<close>

datatype batch_call = Bc_advance | Bc_set_op u8 u8

primrec batch_step :: "batch_call \<Rightarrow> Batch \<Rightarrow> Batch \<times> u8" where
  "batch_step Bc_advance b = graphql_batch_advance_on b"
| "batch_step (Bc_set_op index op_type) b = graphql_batch_set_op_on index op_type b"

text \<open>The status of query \<open>j\<close> after \<open>k\<close> advances: each query takes two, one query after the other.\<close>

definition status_at :: "nat \<Rightarrow> nat \<Rightarrow> gql_batch_status" where
  "status_at k j = (if 2 * j + 2 \<le> k then bq_complete else if 2 * j + 1 = k then bq_running else bq_pending)"

definition batch_at :: "u8 \<Rightarrow> nat \<Rightarrow> Batch \<Rightarrow> bool" where
  "batch_at n k b \<longleftrightarrow>
     ba_count b = n \<and> length (ba_entries b) = 16 \<and> (\<forall>j < unat n. be_status (ba_entries b ! j) = status_at k j)"

lemma first_in_Some_iff:
  "first_in s b = Some i \<longleftrightarrow>
     i < length (batch_queries b) \<and> be_status (batch_queries b ! i) = s \<and>
     (\<forall>j < i. be_status (batch_queries b ! j) \<noteq> s)"
  by (auto simp: first_in_def first_free_Some_iff)

lemma first_in_None_iff: "first_in s b = None \<longleftrightarrow> (\<forall>i < length (batch_queries b). be_status (batch_queries b ! i) \<noteq> s)"
  by (simp add: first_in_def first_free_None_iff)

lemma batch_views:
  assumes "n \<le> 16" "batch_at n k b"
  shows "unat n \<le> 16" "length (batch_queries b) = unat n"
    "\<And>j. j < unat n \<Longrightarrow> be_status (batch_queries b ! j) = status_at k j"
  using assms by (simp_all add: batch_at_def batch_queries_def word_le_nat_alt)

lemma first_running:
  assumes "n \<le> 16" "batch_at n k b"
  shows "first_in bq_running b = (if odd k \<and> k < 2 * unat n then Some (k div 2) else None)"
proof (cases "odd k \<and> k < 2 * unat n")
  case True
  then have "first_in bq_running b = Some (k div 2)"
    unfolding first_in_Some_iff by (auto simp: batch_views [OF assms] status_at_def elim!: oddE)
  with True show ?thesis by simp
next
  case False
  then have "first_in bq_running b = None"
    unfolding first_in_None_iff by (auto simp: batch_views [OF assms] status_at_def)
  with False show ?thesis by simp
qed

lemma first_pending:
  assumes "n \<le> 16" "batch_at n k b" "even k \<or> 2 * unat n \<le> k"
  shows "first_in bq_pending b = (if k < 2 * unat n then Some (k div 2) else None)"
proof (cases "k < 2 * unat n")
  case True
  with assms(3) have "first_in bq_pending b = Some (k div 2)"
    unfolding first_in_Some_iff by (auto simp: batch_views [OF assms(1,2)] status_at_def elim!: evenE)
  with True show ?thesis by simp
next
  case False
  then have "first_in bq_pending b = None"
    unfolding first_in_None_iff by (auto simp: batch_views [OF assms(1,2)] status_at_def)
  with False show ?thesis by simp
qed

lemma batch_advance:
  assumes "n \<le> 16" "batch_at n k b"
  shows "batch_at n (Suc k) (fst (graphql_batch_advance_on b))"
    and "snd (graphql_batch_advance_on b) = (if k < 2 * unat n then 0 else 1)"
proof -
  note running = first_running [OF assms] and pending = first_pending [OF assms]
  show "snd (graphql_batch_advance_on b) = (if k < 2 * unat n then 0 else 1)"
    using pending by (cases "k < 2 * unat n"; cases "odd k") (simp_all add: graphql_batch_advance_on_def running)
  have small: "unat n \<le> 16" by (rule batch_views(1) [OF assms])
  have at: "ba_count b = n" "length (ba_entries b) = 16"
      "\<And>j. j < unat n \<Longrightarrow> be_status (ba_entries b ! j) = status_at k j"
    using assms(2) by (simp_all add: batch_at_def)
  have new: "batch_at n (Suc k) (set_status (k div 2) s b)"
    if "k < 2 * unat n" "s = (if odd k then bq_complete else bq_running)" for s
    using that at small by (auto simp: batch_at_def set_status_def nth_list_update_if status_at_def elim!: oddE evenE)
  have old: "batch_at n (Suc k) b" if "\<not> k < 2 * unat n"
    using that at by (auto simp: batch_at_def status_at_def)
  show "batch_at n (Suc k) (fst (graphql_batch_advance_on b))"
    using pending new old
    by (cases "k < 2 * unat n"; cases "odd k") (simp_all add: graphql_batch_advance_on_def running)
qed

lemma batch_set_op: "batch_at n k b \<Longrightarrow> batch_at n k (fst (graphql_batch_set_op_on i t b))"
  by (cases "unat i < 16") (auto simp: batch_at_def graphql_batch_set_op_on_def nth_list_update_if list_update_beyond)

lemma batch_run:
  assumes "n \<le> 16" "length (ba_entries b0) = 16"
  shows "batch_at n (length (filter (\<lambda>x. x = Bc_advance) xs))
    (foldl (\<lambda>b x. fst (batch_step x b)) (batch_fresh n b0) xs)"
proof (induction xs rule: rev_induct)
  case Nil
  have "unat n \<le> 16" using assms(1) by (simp add: word_le_nat_alt)
  with assms(2) show ?case
    by (simp add: batch_at_def batch_fresh_def nth_append status_at_def pending_query_def)
next
  case (snoc x xs)
  then show ?case
    by (cases x) (simp_all add: batch_advance(1) [OF assms(1)] batch_set_op)
qed

lemma batch_flags:
  "foldl (\<lambda>(pend, run, fail, compl) e.
      case be_status e of
        bq_pending \<Rightarrow> (True, run, fail, False)
      | bq_running \<Rightarrow> (pend, True, fail, False)
      | bq_failed \<Rightarrow> (pend, run, True, False)
      | bq_complete \<Rightarrow> (pend, run, fail, compl)) (p, r, f, c) es =
   (p \<or> bq_pending \<in> be_status ` set es, r \<or> bq_running \<in> be_status ` set es,
    f \<or> bq_failed \<in> be_status ` set es, c \<and> be_status ` set es \<subseteq> {bq_complete})"
  by (induction es arbitrary: p r f c) (auto split: gql_batch_status.split)

lemma batch_status:
  assumes "n \<le> 16" "batch_at n k b"
  shows "graphql_batch_status_on b = (if 2 * unat n \<le> k then 2 else if odd k then 1 else 0)"
proof -
  note v = batch_views [OF assms]
  have "be_status ` set (batch_queries b) = status_at k ` {..< unat n}"
    using v by (force simp: set_conv_nth image_iff)
  moreover have "bq_failed \<notin> status_at k ` {..< unat n}" by (auto simp: status_at_def)
  moreover have "bq_running \<in> status_at k ` {..< unat n} \<longleftrightarrow> odd k \<and> k < 2 * unat n"
    by (auto simp: status_at_def image_iff elim!: oddE)
  moreover have "bq_pending \<in> status_at k ` {..< unat n} \<longleftrightarrow> k + 1 < 2 * unat n"
    by (auto simp: status_at_def image_iff intro!: exI [of _ "unat n - 1"])
  moreover have "status_at k ` {..< unat n} \<subseteq> {bq_complete} \<longleftrightarrow> 2 * unat n \<le> k"
  proof
    assume all: "status_at k ` {..< unat n} \<subseteq> {bq_complete}"
    show "2 * unat n \<le> k"
    proof (cases "unat n = 0")
      case False
      then have "status_at k (unat n - 1) = bq_complete" using all by (auto simp: image_subset_iff)
      with False show ?thesis by (simp add: status_at_def split: if_split_asm)
    qed simp
  qed (auto simp: status_at_def)
  moreover have "even k \<Longrightarrow> \<not> k + 1 < 2 * unat n \<Longrightarrow> 2 * unat n \<le> k" by presburger
  ultimately show ?thesis
    by (auto simp: graphql_batch_status_on_def batch_flags)
qed

text \<open>
  C21: A batch runs its queries one after the other. For a batch created with \<open>n\<close> queries, \<open>1\<close> to
  \<open>16\<close>, after any sequence of advances and settings of operation types with \<open>k\<close> advances among
  them, query \<open>j\<close> is complete when \<open>2 j + 2 \<le> k\<close>, running when \<open>2 j + 1 = k\<close> and pending otherwise;
  the next advance is accepted exactly when \<open>k < 2 n\<close>, so \<open>2 n\<close> advances complete the batch; the
  batch reads as complete from then on, as running while one query runs, and as pending between
  two queries; it never fails.
\<close>

theorem graphql_batch_schedule:
  assumes "n \<le> 16" "length (ba_entries b0) = 16"
  defines "b xs \<equiv> foldl (\<lambda>b x. fst (batch_step x b)) (batch_fresh n b0) xs"
    and "k xs \<equiv> length (filter (\<lambda>x. x = Bc_advance) xs)"
  shows "(\<forall>j < unat n. graphql_batch_query_status_on (word_of_nat j) (b xs) =
      (if 2 * j + 2 \<le> k xs then 2 else if 2 * j + 1 = k xs then 1 else 0)) \<and>
    snd (graphql_batch_advance_on (b xs)) = (if k xs < 2 * unat n then 0 else 1) \<and>
    graphql_batch_status_on (b xs) = (if 2 * unat n \<le> k xs then 2 else if odd (k xs) then 1 else 0)"
proof (intro conjI allI impI)
  have at: "batch_at n (k xs) (b xs)" unfolding b_def k_def using assms(1,2) by (rule batch_run)
  show "snd (graphql_batch_advance_on (b xs)) = (if k xs < 2 * unat n then 0 else 1)"
    using assms(1) at by (rule batch_advance)
  show "graphql_batch_status_on (b xs) = (if 2 * unat n \<le> k xs then 2 else if odd (k xs) then 1 else 0)"
    using assms(1) at by (rule batch_status)
  fix j
  assume j: "j < unat n"
  moreover have "unat n \<le> 16" using assms(1) by (simp add: word_le_nat_alt)
  ultimately have "unat (word_of_nat j :: u8) = j" by (simp add: unat_of_nat)
  with j at show "graphql_batch_query_status_on (word_of_nat j) (b xs) =
      (if 2 * j + 2 \<le> k xs then 2 else if 2 * j + 1 = k xs then 1 else 0)"
    by (simp add: graphql_batch_query_status_on_def batch_at_def word_le_nat_alt status_at_def)
qed

theorem graphql_batch_schedule_witness:
  "graphql_batch_status_on (foldl (\<lambda>b x. fst (batch_step x b)) (batch_fresh 2 (batches ! 0))
     [Bc_advance, Bc_set_op 1 2, Bc_advance, Bc_advance]) = 1"
  using graphql_batch_schedule [of 2 "batches ! 0" "[Bc_advance, Bc_set_op 1 2, Bc_advance, Bc_advance]"]
  by (simp add: batches_def)

end
