(* ===== verification/Core_Types.thy ===== *)
theory Core_Types
  imports Tag_Codec
begin

text \<open>
  The result codes and platforms of \<open>bindings/rust/src/core.rs\<close>.
\<close>

section \<open>\<open>core::ResultCode\<close>\<close>

datatype (plugins only: code) Core_ResultCode =
    Ok
  | Error
  | InvalidParam
  | OutOfMemory
  | NullPointer

definition Core_ResultCode_from_tag :: "u8 \<Rightarrow> Core_ResultCode option" where
  "Core_ResultCode_from_tag tag =
     (if tag = 0 then Some Core_ResultCode.Ok
      else if tag = 1 then Some Core_ResultCode.Error
      else if tag = 2 then Some Core_ResultCode.InvalidParam
      else if tag = 3 then Some Core_ResultCode.OutOfMemory
      else if tag = 4 then Some Core_ResultCode.NullPointer
      else option.None)"

primrec Core_ResultCode_to_tag :: "Core_ResultCode \<Rightarrow> u8" where
  "Core_ResultCode_to_tag Core_ResultCode.Ok = 0"
| "Core_ResultCode_to_tag Core_ResultCode.Error = 1"
| "Core_ResultCode_to_tag Core_ResultCode.InvalidParam = 2"
| "Core_ResultCode_to_tag Core_ResultCode.OutOfMemory = 3"
| "Core_ResultCode_to_tag Core_ResultCode.NullPointer = 4"

definition Core_ResultCode_is_ok :: "Core_ResultCode \<Rightarrow> bool" where
  "Core_ResultCode_is_ok self =
     (case self of
      Core_ResultCode.Ok \<Rightarrow> True
    | _ \<Rightarrow> False)"

definition Core_ResultCode_is_error :: "Core_ResultCode \<Rightarrow> bool" where
  "Core_ResultCode_is_error self = (\<not> Core_ResultCode_is_ok self)"

definition Core_ResultCode_description :: "Core_ResultCode \<Rightarrow> string" where
  "Core_ResultCode_description self =
     (case self of
      Core_ResultCode.Ok \<Rightarrow> ''Success''
    | Core_ResultCode.Error \<Rightarrow> ''Generic error''
    | Core_ResultCode.InvalidParam \<Rightarrow> ''Invalid parameter''
    | Core_ResultCode.OutOfMemory \<Rightarrow> ''Out of memory''
    | Core_ResultCode.NullPointer \<Rightarrow> ''Null pointer'')"

definition Core_ResultCode_fmt :: "Core_ResultCode \<Rightarrow> string" where
  "Core_ResultCode_fmt self = Core_ResultCode_description self"

section \<open>\<open>core::Platform\<close>\<close>

datatype (plugins only: code) Platform =
    Linux
  | Windows
  | MacOS
  | Bsd
  | Wasm

definition Platform_ptr_size_bits :: "Platform \<Rightarrow> u32" where
  "Platform_ptr_size_bits self =
     (case self of
      Platform.Linux \<Rightarrow> 64
    | Platform.Windows \<Rightarrow> 64
    | Platform.MacOS \<Rightarrow> 64
    | Platform.Bsd \<Rightarrow> 64
    | Platform.Wasm \<Rightarrow> 32)"

definition Platform_ptr_size_bytes :: "Platform \<Rightarrow> u32" where
  "Platform_ptr_size_bytes self = Platform_ptr_size_bits self div 8"

section \<open>Tags and enumerations\<close>

interpretation Core_ResultCode_codec: tag_codec Core_ResultCode_to_tag Core_ResultCode_from_tag 5
  by (unfold_locales, (case_tac x; simp add: Core_ResultCode_from_tag_def), unfold Core_ResultCode_from_tag_def,
    (erule codec_arm, simp only: Core_ResultCode_to_tag.simps)+, erule codec_end, (case_tac x; simp), simp add: codec_eval)

end
