(* ===== verification/Core_Layout.thy ===== *)
theory Core_Layout
  imports Core_Types Text_Format
begin

text \<open>
  Handles and alignment, \<open>bindings/rust/src/core.rs\<close>, with \<open>usize\<close> at the 64 bits of its targets; the
  library behind the handles, \<open>ffi/zig/src/main.zig\<close>, and the safe wrappers \<open>core::ffi\<close> over it.
\<close>

section \<open>Handles\<close>

text \<open>\<open>Handle(NonZeroU64)\<close>: a word that is not zero.\<close>

typedef Handle = "{w :: u64. w \<noteq> 0}"
  by (rule exI [of _ 1]) simp

definition Handle_as_ptr :: "Handle \<Rightarrow> u64" where
  "Handle_as_ptr self = Rep_Handle self"

definition Handle_new :: "u64 \<Rightarrow> Handle option" where
  "Handle_new ptr = (if ptr = 0 then None else Some (Abs_Handle ptr))"

text \<open>\<open>{:016x}\<close>: lower case hexadecimal digits, filled with zeros to 16.\<close>

definition hex16 :: "u64 \<Rightarrow> string" where
  "hex16 w = map (\<lambda>i. let d = unat (drop_bit (60 - 4 * i) w AND 0xF) in char_of (if d < 10 then 48 + d else 87 + d)) [0 ..< 16]"

definition Handle_fmt :: "Handle \<Rightarrow> string" where
  "Handle_fmt h = ''Handle(0x'' @ hex16 (Handle_as_ptr h) @ '')''"

lemma Handle_new_Some_iff: "Handle_new ptr = Some h \<longleftrightarrow> ptr = Handle_as_ptr h"
  by (auto simp: Handle_new_def Handle_as_ptr_def Abs_Handle_inverse Rep_Handle_inverse)
    (use Rep_Handle [of h] in simp_all)

section \<open>Alignment\<close>

definition padding_for :: "u64 \<Rightarrow> u64 \<Rightarrow> u64" where
  "padding_for offset alignment =
     (if alignment = 0 then 0
      else let remainder = offset mod alignment in
        if remainder = 0 then 0 else alignment - remainder)"

text \<open>
  \<open>align_up\<close>. The addition can overflow: \<open>None\<close> is the panic of a checked build (and a compile error in
  a constant).
\<close>

definition align_up :: "u64 \<Rightarrow> u64 \<Rightarrow> u64 option" where
  "align_up size' alignment =
     (if unat size' + unat (padding_for size' alignment) < 2 ^ 64
      then Some (size' + padding_for size' alignment) else None)"

lemma unat_padding_for:
  assumes "alignment \<noteq> 0"
  shows "unat (padding_for offset alignment) = (unat alignment - unat offset mod unat alignment) mod unat alignment"
proof -
  have a: "0 < unat alignment" using assms by (simp add: unat_gt_0)
  have r: "unat (offset mod alignment) = unat offset mod unat alignment" by (simp add: unat_mod)
  show ?thesis
  proof (cases "offset mod alignment = 0")
    case True
    then have "unat offset mod unat alignment = 0" using r by simp
    with True assms show ?thesis by (simp add: padding_for_def)
  next
    case False
    then have "0 < unat offset mod unat alignment" using r by (metis gr0I unat_eq_zero)
    moreover have "offset mod alignment \<le> alignment"
      using a by (simp add: word_le_nat_alt r)
    ultimately show ?thesis
      using False assms a by (simp add: padding_for_def Let_def unat_sub r)
  qed
qed

lemma align_up_dvd:
  fixes a o' :: nat
  assumes "0 < a"
  shows "a dvd o' + (a - o' mod a) mod a" "(a - o' mod a) mod a < a"
    and "m < o' + (a - o' mod a) mod a \<Longrightarrow> o' \<le> m \<Longrightarrow> \<not> a dvd m"
proof -
  let ?r = "o' mod a"
  have r: "?r < a" using assms by simp
  have pad: "(a - ?r) mod a = (if ?r = 0 then 0 else a - ?r)"
    using assms by (cases "?r = 0") simp_all
  obtain q where split: "o' = a * q + ?r" by (metis mult_div_mod_eq)
  show "a dvd o' + (a - ?r) mod a"
  proof (cases "?r = 0")
    case True
    then show ?thesis by (simp add: pad mod_eq_0_iff_dvd)
  next
    case False
    then have "o' + (a - ?r) = a * q + a" using split r by linarith
    with False show ?thesis by (simp add: pad)
  qed
  show "(a - ?r) mod a < a" using assms by simp
  assume m: "m < o' + (a - ?r) mod a" "o' \<le> m"
  then have "?r \<noteq> 0" by (auto simp: pad split: if_splits)
  then have "m < o' + (a - ?r)" using m(1) by (simp add: pad)
  then have "m < a * q + a" "a * q < m" using m(2) \<open>?r \<noteq> 0\<close> split r by linarith+
  show "\<not> a dvd m"
  proof
    assume "a dvd m"
    then obtain k where "m = a * k" ..
    with \<open>m < a * q + a\<close> \<open>a * q < m\<close>
    have "a * k < a * Suc q" "a * q < a * k" by simp_all
    then have "k < Suc q" "q < k" by (metis nat_mult_less_cancel_disj)+
    then show False by simp
  qed
qed

text \<open>
  Alignment: rounding up with a nonzero alignment gives the least multiple of the alignment that is
  not below the size, or overflows (a panic) exactly when that multiple does not fit in 64 bits; an
  alignment of zero leaves the size as it is. The padding is always less than the alignment.
\<close>

theorem core_align_up:
  "(align_up sz 0 = Some sz) \<and>
   (a \<noteq> 0 \<longrightarrow>
      padding_for sz a < a \<and>
      (case align_up sz a of
         Some r \<Rightarrow> unat a dvd unat r \<and> sz \<le> r \<and> (\<forall>m. sz \<le> m \<and> m < r \<longrightarrow> \<not> unat a dvd unat m)
       | None \<Rightarrow> (\<forall>m :: u64. sz \<le> m \<longrightarrow> \<not> unat a dvd unat m)))"
proof (intro conjI impI)
  show "align_up sz 0 = Some sz"
    using unsigned_less [of sz, where ?'a = nat] by (simp add: align_up_def padding_for_def)
  assume a: "a \<noteq> 0"
  then have "0 < unat a" by (simp add: unat_gt_0)
  note al = align_up_dvd [OF this, where o' = "unat sz"] and pad = unat_padding_for [OF a, of sz]
  show "padding_for sz a < a" using al(2) by (simp add: word_less_nat_alt pad)
  show "case align_up sz a of
         Some r \<Rightarrow> unat a dvd unat r \<and> sz \<le> r \<and> (\<forall>m. sz \<le> m \<and> m < r \<longrightarrow> \<not> unat a dvd unat m)
       | None \<Rightarrow> (\<forall>m :: u64. sz \<le> m \<longrightarrow> \<not> unat a dvd unat m)"
  proof (cases "align_up sz a")
    case None
    then have big: "2 ^ 64 \<le> unat sz + (unat a - unat sz mod unat a) mod unat a"
      by (simp add: align_up_def pad split: if_splits)
    have "\<not> unat a dvd unat m" if "sz \<le> m" for m :: u64
    proof -
      have "unat m < 2 ^ 64" using unsigned_less [of m, where ?'a = nat] by simp
      with big that al(3) [of "unat m"] show ?thesis by (simp add: word_le_nat_alt)
    qed
    with None show ?thesis by simp
  next
    case (Some r)
    then have r: "unat r = unat sz + (unat a - unat sz mod unat a) mod unat a"
      by (auto simp: align_up_def pad unat_word_ariths split: if_splits)
    have "unat a dvd unat r" "sz \<le> r" using al(1) r by (simp_all add: word_le_nat_alt)
    moreover have "\<not> unat a dvd unat m" if "sz \<le> m \<and> m < r" for m
      using that by (intro al(3)) (simp_all add: word_le_nat_alt word_less_nat_alt r)
    ultimately show ?thesis by (simp add: Some)
  qed
qed

theorem core_align_up_witness:
  "align_up 13 8 = Some 16 \<and> padding_for 13 8 < (8 :: u64)"
proof
  show "align_up 13 8 = Some 16" by (simp add: align_up_def padding_for_def Let_def)
  show "padding_for 13 8 < (8 :: u64)"
    by (rule core_align_up [of 13 8, THEN conjunct2, THEN mp, THEN conjunct1]) simp
qed

section \<open>The library behind the handles\<close>

text \<open>
  A handle is the address of a heap cell with the flag \<open>initialized\<close>; the allocator \<open>alloc\<close> is a
  parameter, given the heap. A call that reads or frees an address that is not allocated has no
  defined behaviour: its result is \<open>None\<close>. \<open>last_error\<close> is the message set last, of this thread.
\<close>

record lib_state =
  lb_heap :: "u64 \<rightharpoonup> bool"
  lb_last_error :: "string option"

type_synonym allocator = "(u64 \<rightharpoonup> bool) \<Rightarrow> u64 option"

definition empty_lib :: lib_state where
  "empty_lib = \<lparr>lb_heap = Map.empty, lb_last_error = None\<rparr>"

definition setError :: "string \<Rightarrow> lib_state \<Rightarrow> lib_state" where
  "setError msg l = l\<lparr>lb_last_error := Some msg\<rparr>"

definition clearError :: "lib_state \<Rightarrow> lib_state" where
  "clearError l = l\<lparr>lb_last_error := None\<rparr>"

definition proven_servers_init :: "allocator \<Rightarrow> lib_state \<Rightarrow> lib_state \<times> u64" where
  "proven_servers_init alloc l =
     (case alloc (lb_heap l) of
        None \<Rightarrow> (setError ''Failed to allocate handle'' l, 0)
      | Some a \<Rightarrow> (clearError (l\<lparr>lb_heap := (lb_heap l)(a \<mapsto> True)\<rparr>), a))"

definition proven_servers_free :: "u64 \<Rightarrow> lib_state \<Rightarrow> lib_state option" where
  "proven_servers_free handle l =
     (if handle = 0 then Some l
      else case lb_heap l handle of
        None \<Rightarrow> None
      | Some _ \<Rightarrow> Some (clearError (l\<lparr>lb_heap := (lb_heap l)(handle := None)\<rparr>)))"

definition proven_servers_process :: "u64 \<Rightarrow> u32 \<Rightarrow> lib_state \<Rightarrow> (lib_state \<times> Core_ResultCode) option" where
  "proven_servers_process handle input l =
     (if handle = 0 then Some (setError ''Null handle'' l, Core_ResultCode.NullPointer)
      else case lb_heap l handle of
        None \<Rightarrow> None
      | Some initialized \<Rightarrow>
          if \<not> initialized then Some (setError ''Handle not initialized'' l, Core_ResultCode.Error)
          else Some (clearError l, Core_ResultCode.Ok))"

definition proven_servers_process_array ::
  "u64 \<Rightarrow> u64 \<Rightarrow> u32 \<Rightarrow> lib_state \<Rightarrow> (lib_state \<times> Core_ResultCode) option" where
  "proven_servers_process_array handle buffer len l =
     (if handle = 0 then Some (setError ''Null handle'' l, Core_ResultCode.NullPointer)
      else case lb_heap l handle of
        None \<Rightarrow> None
      | Some initialized \<Rightarrow>
          if \<not> initialized then Some (setError ''Handle not initialized'' l, Core_ResultCode.Error)
          else if len > 1048576 then
            Some (setError ''Input length exceeds prototype limit'' l, Core_ResultCode.InvalidParam)
          else if len > 0 \<and> buffer = 0 then Some (setError ''Null buffer'' l, Core_ResultCode.NullPointer)
          else Some (clearError l, Core_ResultCode.Ok))"

definition proven_servers_get_string :: "u64 \<Rightarrow> lib_state \<Rightarrow> (lib_state \<times> string option) option" where
  "proven_servers_get_string handle l =
     (if handle = 0 then Some (setError ''Null handle'' l, None)
      else case lb_heap l handle of
        None \<Rightarrow> None
      | Some initialized \<Rightarrow>
          if \<not> initialized then Some (setError ''Handle not initialized'' l, None)
          else Some (clearError l, Some ''Example result''))"

definition proven_servers_register_callback ::
  "u64 \<Rightarrow> u64 \<Rightarrow> lib_state \<Rightarrow> (lib_state \<times> Core_ResultCode) option" where
  "proven_servers_register_callback handle callback l =
     (if handle = 0 then Some (setError ''Null handle'' l, Core_ResultCode.NullPointer)
      else if callback = 0 then Some (setError ''Null callback'' l, Core_ResultCode.NullPointer)
      else case lb_heap l handle of
        None \<Rightarrow> None
      | Some initialized \<Rightarrow>
          if \<not> initialized then Some (setError ''Handle not initialized'' l, Core_ResultCode.Error)
          else Some (clearError l, Core_ResultCode.Ok))"

definition proven_servers_is_initialized :: "u64 \<Rightarrow> lib_state \<Rightarrow> u32 option" where
  "proven_servers_is_initialized handle l =
     (if handle = 0 then Some 0
      else case lb_heap l handle of
        None \<Rightarrow> None
      | Some initialized \<Rightarrow> Some (if initialized then 1 else 0))"

definition proven_servers_last_error :: "lib_state \<Rightarrow> string option" where
  "proven_servers_last_error l = lb_last_error l"

section \<open>The safe wrappers\<close>

definition core_init :: "allocator \<Rightarrow> lib_state \<Rightarrow> lib_state \<times> Handle option" where
  "core_init alloc l = map_prod id Handle_new (proven_servers_init alloc l)"

definition core_free :: "Handle \<Rightarrow> lib_state \<Rightarrow> lib_state option" where
  "core_free handle l = proven_servers_free (Handle_as_ptr handle) l"

definition core_is_initialized :: "Handle \<Rightarrow> lib_state \<Rightarrow> bool option" where
  "core_is_initialized handle l = map_option (\<lambda>r. r \<noteq> 0) (proven_servers_is_initialized (Handle_as_ptr handle) l)"

text \<open>
  A run of calls on any handles, with what each call gave: \<open>Handle\<close> is \<open>Copy\<close> and \<open>Handle::new\<close> is public,
  so the types do not keep a program from using a handle it has freed or made up.
\<close>

datatype core_call = Co_init | Co_free Handle | Co_is_initialized Handle

datatype core_answer = Got_handle "Handle option" | Freed | Initialized bool

primrec core_step :: "allocator \<Rightarrow> core_call \<Rightarrow> lib_state \<Rightarrow> (lib_state \<times> core_answer) option" where
  "core_step alloc Co_init l = Some (map_prod id Got_handle (core_init alloc l))"
| "core_step alloc (Co_free h) l = map_option (\<lambda>l'. (l', Freed)) (core_free h l)"
| "core_step alloc (Co_is_initialized h) l = map_option (\<lambda>b. (l, Initialized b)) (core_is_initialized h l)"

primrec core_run :: "allocator \<Rightarrow> core_call list \<Rightarrow> lib_state \<Rightarrow> (lib_state \<times> core_answer list) option" where
  "core_run alloc [] l = Some (l, [])"
| "core_run alloc (x # xs) l =
     (case core_step alloc x l of
        None \<Rightarrow> None
      | Some (l', a) \<Rightarrow> map_option (\<lambda>(l'', as). (l'', a # as)) (core_run alloc xs l'))"

text \<open>The handles in use: those an \<open>init\<close> returned and no \<open>free\<close> has taken since.\<close>

definition handle_effect :: "core_call \<Rightarrow> core_answer \<Rightarrow> Handle set \<Rightarrow> Handle set" where
  "handle_effect x a H =
     (case x of
        Co_init \<Rightarrow> (case a of Got_handle (Some h) \<Rightarrow> insert h H | _ \<Rightarrow> H)
      | Co_free h \<Rightarrow> H - {h}
      | Co_is_initialized h \<Rightarrow> H)"

definition handles_in_use :: "core_call list \<Rightarrow> core_answer list \<Rightarrow> Handle set" where
  "handles_in_use xs as = fold (\<lambda>(x, a). handle_effect x a) (zip xs as) {}"

definition may_call :: "core_call \<Rightarrow> Handle set \<Rightarrow> bool" where
  "may_call x H = (case x of Co_init \<Rightarrow> True | Co_free h \<Rightarrow> h \<in> H | Co_is_initialized h \<Rightarrow> h \<in> H)"

text \<open>What \<open>std.heap.page_allocator\<close> promises: an address that is neither null nor in use.\<close>

definition fresh_allocator :: "allocator \<Rightarrow> bool" where
  "fresh_allocator alloc \<longleftrightarrow> (\<forall>heap a. alloc heap = Some a \<longrightarrow> a \<noteq> 0 \<and> heap a = None)"

definition heap_of :: "lib_state \<Rightarrow> Handle set \<Rightarrow> bool" where
  "heap_of l H \<longleftrightarrow> lb_heap l = (\<lambda>a. if a \<in> Handle_as_ptr ` H then Some True else None)"

lemma handle_ptr [simp]: "Handle_as_ptr h \<noteq> 0" "Handle_as_ptr h = Handle_as_ptr h' \<longleftrightarrow> h = h'"
  using Rep_Handle [of h] by (simp_all add: Handle_as_ptr_def Rep_Handle_inject)

lemma handle_ptr_image [simp]: "Handle_as_ptr h \<in> Handle_as_ptr ` H \<longleftrightarrow> h \<in> H"
  by auto

lemma core_step_defined:
  assumes "fresh_allocator alloc" "heap_of l H"
  shows "(core_step alloc x l \<noteq> None \<longleftrightarrow> may_call x H) \<and>
    (\<forall>l' a. core_step alloc x l = Some (l', a) \<longrightarrow> heap_of l' (handle_effect x a H) \<and> a \<noteq> Initialized False)"
proof (cases x)
  case Co_init
  show ?thesis
  proof (cases "alloc (lb_heap l)")
    case None
    then show ?thesis
      using assms(2) by (simp add: Co_init may_call_def core_init_def proven_servers_init_def setError_def Handle_new_def heap_of_def
          handle_effect_def)
  next
    case (Some a)
    then have "a \<noteq> 0" using assms(1) by (simp add: fresh_allocator_def)
    then obtain h where h: "Handle_new a = Some h" "a = Handle_as_ptr h"
      using Handle_new_Some_iff by (metis Handle_new_def)
    show ?thesis
      using assms(2) Some h
      by (auto simp: Co_init may_call_def core_init_def proven_servers_init_def clearError_def heap_of_def handle_effect_def fun_eq_iff)
  qed
next
  case (Co_free h)
  then show ?thesis
    using assms(2) by (auto simp: may_call_def core_free_def proven_servers_free_def heap_of_def clearError_def handle_effect_def fun_eq_iff)
next
  case (Co_is_initialized h)
  then show ?thesis
    using assms(2) by (auto simp: may_call_def core_is_initialized_def proven_servers_is_initialized_def heap_of_def handle_effect_def)
qed

lemma core_run_append:
  "core_run alloc (xs @ ys) l =
     (case core_run alloc xs l of
        None \<Rightarrow> None
      | Some (l', as) \<Rightarrow> map_option (\<lambda>(l'', bs). (l'', as @ bs)) (core_run alloc ys l'))"
proof (induction xs arbitrary: l)
  case Nil
  show ?case by (cases "core_run alloc ys l") auto
next
  case (Cons x xs)
  then show ?case by (auto simp: option.map_comp comp_def case_prod_beta split: option.split)
qed

lemma core_run_heap:
  assumes "fresh_allocator alloc" "heap_of l H" "core_run alloc xs l = Some (l', as)"
  shows "heap_of l' (fold (\<lambda>(x, a). handle_effect x a) (zip xs as) H) \<and> Initialized False \<notin> set as"
  using assms(2,3)
proof (induction xs arbitrary: l H as)
  case (Cons x xs)
  then obtain l1 a as1 where s: "core_step alloc x l = Some (l1, a)"
    and r: "core_run alloc xs l1 = Some (l', as1)" and as: "as = a # as1"
    by (auto split: option.splits)
  from core_step_defined [OF assms(1) Cons.prems(1), of x] s
  have "heap_of l1 (handle_effect x a H)" "a \<noteq> Initialized False" by auto
  with Cons.IH [OF this(1) r] show ?case by (simp add: as)
qed simp

text \<open>
  C27: For every allocator that returns fresh addresses: after a run of safe calls with defined behaviour, the
  next call is defined exactly when the handle it takes, if any, is one an \<open>init\<close> returned and no
  \<open>free\<close> has taken since; the library's heap holds exactly these handles, and each of them reads as
  initialised. So a second \<open>free\<close> and a query after \<open>free\<close> have no defined behaviour, and neither has
  any call on a handle made up with \<open>Handle::new\<close>, though all of them are safe functions.
\<close>

theorem core_handle_life:
  assumes "fresh_allocator alloc" "core_run alloc xs empty_lib = Some (l, as)"
  defines "H \<equiv> handles_in_use xs as"
  shows "(core_run alloc (xs @ [x]) empty_lib \<noteq> None \<longleftrightarrow> may_call x H) \<and>
    dom (lb_heap l) = Handle_as_ptr ` H \<and> Initialized False \<notin> set as \<and>
    core_run alloc (xs @ [Co_free h, Co_free h]) empty_lib = None \<and>
    core_run alloc (xs @ [Co_free h, Co_is_initialized h]) empty_lib = None"
proof -
  have start: "heap_of empty_lib {}" by (simp add: heap_of_def empty_lib_def)
  have heap: "heap_of l H" "Initialized False \<notin> set as"
    using core_run_heap [OF assms(1) start assms(2)] by (simp_all add: H_def handles_in_use_def)
  note step = core_step_defined [OF assms(1) heap(1)]
  have last: "core_run alloc (xs @ ys) empty_lib = None \<longleftrightarrow> core_run alloc ys l = None" for ys
    by (simp add: core_run_append assms(2))
  have one: "core_run alloc (xs @ [x]) empty_lib \<noteq> None \<longleftrightarrow> may_call x H"
    using step [of x] unfolding last by (auto split: option.split)
  have twice: "core_run alloc [Co_free h, y] l = None" if "\<not> may_call y (H - {h})" for y
  proof (cases "core_step alloc (Co_free h) l")
    case (Some r)
    then have "heap_of (fst r) (H - {h})" using step [of "Co_free h"] by (cases r) (auto simp: handle_effect_def)
    from core_step_defined [OF assms(1) this, of y] that have "core_step alloc y (fst r) = None" by blast
    with Some show ?thesis by (cases r) (simp del: core_step.simps)
  qed (simp del: core_step.simps)
  have "dom (lb_heap l) = Handle_as_ptr ` H" using heap(1) by (auto simp: heap_of_def split: if_splits)
  with one heap(2) twice show ?thesis unfolding last by (simp add: may_call_def)
qed

theorem core_handle_life_witness:
  "\<exists>alloc h. core_run alloc [Co_init] empty_lib \<noteq> None \<and> core_run alloc [Co_init, Co_free h] empty_lib \<noteq> None \<and>
     core_run alloc [Co_init, Co_free h, Co_is_initialized h] empty_lib = None"
proof -
  let ?alloc = "\<lambda>heap :: u64 \<rightharpoonup> bool. if heap 4096 = None then Some 4096 else None"
  obtain h where h: "Handle_new 4096 = Some h" by (simp add: Handle_new_def)
  have f: "fresh_allocator ?alloc" by (simp add: fresh_allocator_def)
  have r: "core_run ?alloc [Co_init] empty_lib = Some (fst (core_init ?alloc empty_lib), [Got_handle (Some h)])"
    by (simp add: core_init_def proven_servers_init_def empty_lib_def clearError_def h)
  have "handles_in_use [Co_init] [Got_handle (Some h)] = {h}"
    by (simp add: handles_in_use_def handle_effect_def)
  with core_handle_life [OF f r, of "Co_free h" h] r show ?thesis
    by (intro exI [of _ ?alloc] exI [of _ h]) (simp add: may_call_def del: core_run.simps)
qed

end
