(* ===== verification/Lifecycle_Tables.thy ===== *)
theory Lifecycle_Tables
  imports Prelude
begin

text \<open>
  The stateless transition tables the Zig engines export, one per protocol whose Rust module has a
  \<open>can_transition_to\<close> of its own: Kerberos, AMQP, RTSP, NTP, DHCP, LDAP, SOCKS, IRC and IMAP. Each is a
  chain of \<open>if (from == a and to == b) return 1;\<close> over state tags that ends in \<open>return 0;\<close>. The SMTP,
  FTP, SSH and gRPC tables are in the theories of their engines.
\<close>

definition krb_can_transition :: "u8 \<Rightarrow> u8 \<Rightarrow> u8" where
  "krb_can_transition from to =
     (if from = 0 \<and> to = 1 then 1
      else if from = 1 \<and> to = 2 then 1
      else if from = 2 \<and> to = 3 then 1
      else if from = 0 \<and> to = 4 then 1
      else if from = 1 \<and> to = 4 then 1
      else if from = 2 \<and> to = 4 then 1
      else if from = 3 \<and> to = 4 then 1
      else if from = 3 \<and> to = 0 then 1
      else if from = 4 \<and> to = 0 then 1
      else if from = 1 \<and> to = 1 then 1
      else 0)"

definition krb_neg_can_transition :: "u8 \<Rightarrow> u8 \<Rightarrow> u8" where
  "krb_neg_can_transition from to =
     (if from = 0 \<and> to = 1 then 1
      else if from = 1 \<and> to = 2 then 1
      else if from = 1 \<and> to = 3 then 1
      else 0)"

definition amqp_can_transition :: "u8 \<Rightarrow> u8 \<Rightarrow> u8" where
  "amqp_can_transition from to =
     (if from = 0 \<and> to = 1 then 1
      else if from = 1 \<and> to = 2 then 1
      else if from = 2 \<and> to = 2 then 1
      else if from = 2 \<and> to = 1 then 1
      else if from = 2 \<and> to = 3 then 1
      else if from = 3 \<and> to = 3 then 1
      else if from = 3 \<and> to = 2 then 1
      else if from = 2 \<and> to = 4 then 1
      else if from = 3 \<and> to = 4 then 1
      else if from = 4 \<and> to = 2 then 1
      else if from = 4 \<and> to = 3 then 1
      else if from = 1 \<and> to = 5 then 1
      else if from = 2 \<and> to = 5 then 1
      else if from = 3 \<and> to = 5 then 1
      else if from = 4 \<and> to = 5 then 1
      else if from = 5 \<and> to = 0 then 1
      else 0)"

definition rtsp_can_transition :: "u8 \<Rightarrow> u8 \<Rightarrow> u8" where
  "rtsp_can_transition from to =
     (if from = 0 \<and> to = 1 then 1
      else if from = 1 \<and> to = 2 then 1
      else if from = 1 \<and> to = 3 then 1
      else if from = 2 \<and> to = 1 then 1
      else if from = 3 \<and> to = 1 then 1
      else if from = 1 \<and> to = 0 then 1
      else if from = 2 \<and> to = 0 then 1
      else if from = 3 \<and> to = 0 then 1
      else 0)"

definition ntp_can_exchange_transition :: "u8 \<Rightarrow> u8 \<Rightarrow> u8" where
  "ntp_can_exchange_transition from to =
     (if from = 0 \<and> to = 1 then 1
      else if from = 1 \<and> to = 2 then 1
      else if from = 2 \<and> to = 3 then 1
      else if from = 3 \<and> to = 0 then 1
      else 0)"

definition dhcp_can_transition :: "u8 \<Rightarrow> u8 \<Rightarrow> u8" where
  "dhcp_can_transition from to =
     (if from = 0 \<and> to = 1 then 1
      else if from = 1 \<and> to = 2 then 1
      else if from = 2 \<and> to = 3 then 1
      else if from = 3 \<and> to = 4 then 1
      else if from = 3 \<and> to = 5 then 1
      else if from = 1 \<and> to = 0 then 1
      else if from = 2 \<and> to = 0 then 1
      else if from = 3 \<and> to = 0 then 1
      else 0)"

definition dhcp_can_lease_transition :: "u8 \<Rightarrow> u8 \<Rightarrow> u8" where
  "dhcp_can_lease_transition from to =
     (if from = 0 \<and> to = 1 then 1
      else if from = 1 \<and> to = 2 then 1
      else if from = 2 \<and> to = 3 then 1
      else if from = 3 \<and> to = 2 then 1
      else if from = 3 \<and> to = 4 then 1
      else if from = 4 \<and> to = 2 then 1
      else if from = 4 \<and> to = 5 then 1
      else if from = 5 \<and> to = 0 then 1
      else if from = 2 \<and> to = 0 then 1
      else if from = 1 \<and> to = 0 then 1
      else 0)"

definition ldap_can_transition :: "u8 \<Rightarrow> u8 \<Rightarrow> u8" where
  "ldap_can_transition from to =
     (if from = 0 \<and> to = 3 then 1
      else if from = 0 \<and> to = 0 then 1
      else if from = 0 \<and> to = 2 then 1
      else if from = 3 \<and> to = 1 then 1
      else if from = 3 \<and> to = 0 then 1
      else if from = 3 \<and> to = 2 then 1
      else if from = 1 \<and> to = 3 then 1
      else if from = 1 \<and> to = 1 then 1
      else if from = 1 \<and> to = 2 then 1
      else 0)"

definition socks_can_transition :: "u8 \<Rightarrow> u8 \<Rightarrow> u8" where
  "socks_can_transition from to =
     (if from = 0 \<and> to = 1 then 1
      else if from = 1 \<and> to = 2 then 1
      else if from = 1 \<and> to = 5 then 1
      else if from = 2 \<and> to = 3 then 1
      else if from = 3 \<and> to = 4 then 1
      else if from = 3 \<and> to = 5 then 1
      else if from = 4 \<and> to = 5 then 1
      else if from = 0 \<and> to = 5 then 1
      else 0)"

definition irc_can_transition :: "u8 \<Rightarrow> u8 \<Rightarrow> u8" where
  "irc_can_transition from to =
     (if from = 0 \<and> to = 1 then 1
      else if from = 1 \<and> to = 2 then 1
      else if from = 2 \<and> to = 3 then 1
      else if from = 3 \<and> to = 2 then 1
      else if from = 2 \<and> to = 4 then 1
      else if from = 3 \<and> to = 4 then 1
      else if from = 1 \<and> to = 4 then 1
      else 0)"

definition imap_can_transition :: "u8 \<Rightarrow> u8 \<Rightarrow> u8" where
  "imap_can_transition from to =
     (if from = 0 \<and> to = 1 then 1
      else if from = 1 \<and> to = 2 then 1
      else if from = 2 \<and> to = 1 then 1
      else if from = 0 \<and> to = 3 then 1
      else if from = 1 \<and> to = 3 then 1
      else if from = 2 \<and> to = 3 then 1
      else 0)"

definition ntp_can_discipline_transition :: "u8 \<Rightarrow> u8 \<Rightarrow> u8" where
  "ntp_can_discipline_transition from to =
     (if from = 0 \<and> to = 1 then 1
      else if from = 1 \<and> to = 2 then 1
      else if from = 2 \<and> to = 3 then 1
      else if from = 0 \<and> to = 4 then 1
      else if from = 1 \<and> to = 4 then 1
      else if from = 2 \<and> to = 4 then 1
      else if from = 3 \<and> to = 4 then 1
      else if from = 4 \<and> to = 0 then 1
      else if from = 3 \<and> to = 2 then 1
      else 0)"

lemmas lifecycle_table_defs =
  krb_can_transition_def krb_neg_can_transition_def amqp_can_transition_def rtsp_can_transition_def
  ntp_can_exchange_transition_def ntp_can_discipline_transition_def dhcp_can_transition_def
  dhcp_can_lease_transition_def ldap_can_transition_def socks_can_transition_def irc_can_transition_def
  imap_can_transition_def

end
