(* ===== verification/Kerberos_Types.thy ===== *)
theory Kerberos_Types
  imports Tag_Codec
begin

text \<open>
  The types of \<open>bindings/rust/src/kerberos.rs\<close>: \<open>MessageType\<close>,
  \<open>EncryptionType\<close>, \<open>PrincipalType\<close>, \<open>TicketFlag\<close>,
  \<open>ErrorCode\<close>, \<open>AuthState\<close>, \<open>EncStrength\<close>,
  \<open>PreAuthType\<close>, \<open>NegotiationState\<close>.
\<close>

definition KERBEROS_PORT :: "u16" where
  "KERBEROS_PORT = 88"

section \<open>\<open>kerberos::MessageType\<close>\<close>

datatype (plugins only: code) Kerberos_MessageType =
    AsReq
  | AsRep
  | TgsReq
  | TgsRep
  | ApReq
  | ApRep
  | KrbError
  | KrbSafe
  | KrbPriv
  | KrbCred

definition Kerberos_MessageType_from_tag :: "u8 \<Rightarrow> Kerberos_MessageType option" where
  "Kerberos_MessageType_from_tag tag =
     (if tag = 0 then Some Kerberos_MessageType.AsReq
      else if tag = 1 then Some Kerberos_MessageType.AsRep
      else if tag = 2 then Some Kerberos_MessageType.TgsReq
      else if tag = 3 then Some Kerberos_MessageType.TgsRep
      else if tag = 4 then Some Kerberos_MessageType.ApReq
      else if tag = 5 then Some Kerberos_MessageType.ApRep
      else if tag = 6 then Some Kerberos_MessageType.KrbError
      else if tag = 7 then Some Kerberos_MessageType.KrbSafe
      else if tag = 8 then Some Kerberos_MessageType.KrbPriv
      else if tag = 9 then Some Kerberos_MessageType.KrbCred
      else option.None)"

primrec Kerberos_MessageType_to_tag :: "Kerberos_MessageType \<Rightarrow> u8" where
  "Kerberos_MessageType_to_tag Kerberos_MessageType.AsReq = 0"
| "Kerberos_MessageType_to_tag Kerberos_MessageType.AsRep = 1"
| "Kerberos_MessageType_to_tag Kerberos_MessageType.TgsReq = 2"
| "Kerberos_MessageType_to_tag Kerberos_MessageType.TgsRep = 3"
| "Kerberos_MessageType_to_tag Kerberos_MessageType.ApReq = 4"
| "Kerberos_MessageType_to_tag Kerberos_MessageType.ApRep = 5"
| "Kerberos_MessageType_to_tag Kerberos_MessageType.KrbError = 6"
| "Kerberos_MessageType_to_tag Kerberos_MessageType.KrbSafe = 7"
| "Kerberos_MessageType_to_tag Kerberos_MessageType.KrbPriv = 8"
| "Kerberos_MessageType_to_tag Kerberos_MessageType.KrbCred = 9"

definition Kerberos_MessageType_is_request :: "Kerberos_MessageType \<Rightarrow> bool" where
  "Kerberos_MessageType_is_request self =
     (case self of
      Kerberos_MessageType.AsReq \<Rightarrow> True
    | Kerberos_MessageType.TgsReq \<Rightarrow> True
    | Kerberos_MessageType.ApReq \<Rightarrow> True
    | _ \<Rightarrow> False)"

definition Kerberos_MessageType_is_reply :: "Kerberos_MessageType \<Rightarrow> bool" where
  "Kerberos_MessageType_is_reply self =
     (case self of
      Kerberos_MessageType.AsRep \<Rightarrow> True
    | Kerberos_MessageType.TgsRep \<Rightarrow> True
    | Kerberos_MessageType.ApRep \<Rightarrow> True
    | _ \<Rightarrow> False)"

definition Kerberos_MessageType_ALL :: "Kerberos_MessageType list" where
  "Kerberos_MessageType_ALL =
     [Kerberos_MessageType.AsReq, Kerberos_MessageType.AsRep, Kerberos_MessageType.TgsReq,
      Kerberos_MessageType.TgsRep, Kerberos_MessageType.ApReq, Kerberos_MessageType.ApRep,
      Kerberos_MessageType.KrbError, Kerberos_MessageType.KrbSafe,
      Kerberos_MessageType.KrbPriv, Kerberos_MessageType.KrbCred]"

primrec Kerberos_MessageType_fmt :: "Kerberos_MessageType \<Rightarrow> string" where
  "Kerberos_MessageType_fmt Kerberos_MessageType.AsReq = ''AsReq''"
| "Kerberos_MessageType_fmt Kerberos_MessageType.AsRep = ''AsRep''"
| "Kerberos_MessageType_fmt Kerberos_MessageType.TgsReq = ''TgsReq''"
| "Kerberos_MessageType_fmt Kerberos_MessageType.TgsRep = ''TgsRep''"
| "Kerberos_MessageType_fmt Kerberos_MessageType.ApReq = ''ApReq''"
| "Kerberos_MessageType_fmt Kerberos_MessageType.ApRep = ''ApRep''"
| "Kerberos_MessageType_fmt Kerberos_MessageType.KrbError = ''KrbError''"
| "Kerberos_MessageType_fmt Kerberos_MessageType.KrbSafe = ''KrbSafe''"
| "Kerberos_MessageType_fmt Kerberos_MessageType.KrbPriv = ''KrbPriv''"
| "Kerberos_MessageType_fmt Kerberos_MessageType.KrbCred = ''KrbCred''"

section \<open>\<open>kerberos::EncryptionType\<close>\<close>

datatype (plugins only: code) EncryptionType =
    Aes256CtsHmacSha1
  | Aes128CtsHmacSha1
  | Aes256CtsHmacSha384
  | Rc4Hmac
  | Des3CbcSha1

definition EncryptionType_from_tag :: "u8 \<Rightarrow> EncryptionType option" where
  "EncryptionType_from_tag tag =
     (if tag = 0 then Some EncryptionType.Aes256CtsHmacSha1
      else if tag = 1 then Some EncryptionType.Aes128CtsHmacSha1
      else if tag = 2 then Some EncryptionType.Aes256CtsHmacSha384
      else if tag = 3 then Some EncryptionType.Rc4Hmac
      else if tag = 4 then Some EncryptionType.Des3CbcSha1
      else option.None)"

primrec EncryptionType_to_tag :: "EncryptionType \<Rightarrow> u8" where
  "EncryptionType_to_tag EncryptionType.Aes256CtsHmacSha1 = 0"
| "EncryptionType_to_tag EncryptionType.Aes128CtsHmacSha1 = 1"
| "EncryptionType_to_tag EncryptionType.Aes256CtsHmacSha384 = 2"
| "EncryptionType_to_tag EncryptionType.Rc4Hmac = 3"
| "EncryptionType_to_tag EncryptionType.Des3CbcSha1 = 4"

section \<open>\<open>kerberos::EncStrength\<close>\<close>

datatype (plugins only: code) EncStrength =
    Strong
  | Medium
  | Weak

text \<open>\<open>derive(PartialOrd, Ord)\<close>: the order of the declaration.\<close>

primrec EncStrength_rank :: "EncStrength \<Rightarrow> nat" where
  "EncStrength_rank EncStrength.Strong = 0"
| "EncStrength_rank EncStrength.Medium = 1"
| "EncStrength_rank EncStrength.Weak = 2"

instantiation EncStrength :: linorder
begin

definition less_eq_EncStrength :: "EncStrength \<Rightarrow> EncStrength \<Rightarrow> bool" where
  "less_eq_EncStrength x y \<longleftrightarrow> EncStrength_rank x \<le> EncStrength_rank y"

definition less_EncStrength :: "EncStrength \<Rightarrow> EncStrength \<Rightarrow> bool" where
  "less_EncStrength x y \<longleftrightarrow> EncStrength_rank x < EncStrength_rank y"

instance
proof
  fix x y z :: EncStrength
  show "(x < y) = (x \<le> y \<and> \<not> y \<le> x)" "x \<le> x" "x \<le> y \<or> y \<le> x"
    by (auto simp: less_eq_EncStrength_def less_EncStrength_def)
  show "x \<le> y \<Longrightarrow> y \<le> z \<Longrightarrow> x \<le> z" by (simp add: less_eq_EncStrength_def)
  show "x \<le> y \<Longrightarrow> y \<le> x \<Longrightarrow> x = y" by (cases x; cases y; simp add: less_eq_EncStrength_def)
qed

end

definition EncryptionType_strength :: "EncryptionType \<Rightarrow> EncStrength" where
  "EncryptionType_strength self =
     (case self of
      EncryptionType.Aes256CtsHmacSha1 \<Rightarrow> EncStrength.Strong
    | EncryptionType.Aes256CtsHmacSha384 \<Rightarrow> EncStrength.Strong
    | EncryptionType.Aes128CtsHmacSha1 \<Rightarrow> EncStrength.Medium
    | EncryptionType.Rc4Hmac \<Rightarrow> EncStrength.Weak
    | EncryptionType.Des3CbcSha1 \<Rightarrow> EncStrength.Weak)"

definition EncryptionType_is_legacy :: "EncryptionType \<Rightarrow> bool" where
  "EncryptionType_is_legacy self =
     (case self of
      EncryptionType.Rc4Hmac \<Rightarrow> True
    | EncryptionType.Des3CbcSha1 \<Rightarrow> True
    | _ \<Rightarrow> False)"

definition EncryptionType_ALL :: "EncryptionType list" where
  "EncryptionType_ALL =
     [EncryptionType.Aes256CtsHmacSha1, EncryptionType.Aes128CtsHmacSha1,
      EncryptionType.Aes256CtsHmacSha384, EncryptionType.Rc4Hmac, EncryptionType.Des3CbcSha1]"

primrec EncryptionType_fmt :: "EncryptionType \<Rightarrow> string" where
  "EncryptionType_fmt EncryptionType.Aes256CtsHmacSha1 = ''Aes256CtsHmacSha1''"
| "EncryptionType_fmt EncryptionType.Aes128CtsHmacSha1 = ''Aes128CtsHmacSha1''"
| "EncryptionType_fmt EncryptionType.Aes256CtsHmacSha384 = ''Aes256CtsHmacSha384''"
| "EncryptionType_fmt EncryptionType.Rc4Hmac = ''Rc4Hmac''"
| "EncryptionType_fmt EncryptionType.Des3CbcSha1 = ''Des3CbcSha1''"

section \<open>\<open>kerberos::PrincipalType\<close>\<close>

datatype (plugins only: code) PrincipalType =
    NtUnknown
  | NtPrincipal
  | NtSrvInst
  | NtSrvHst
  | NtUid
  | NtX500
  | NtEnterprise

definition PrincipalType_from_tag :: "u8 \<Rightarrow> PrincipalType option" where
  "PrincipalType_from_tag tag =
     (if tag = 0 then Some PrincipalType.NtUnknown
      else if tag = 1 then Some PrincipalType.NtPrincipal
      else if tag = 2 then Some PrincipalType.NtSrvInst
      else if tag = 3 then Some PrincipalType.NtSrvHst
      else if tag = 4 then Some PrincipalType.NtUid
      else if tag = 5 then Some PrincipalType.NtX500
      else if tag = 6 then Some PrincipalType.NtEnterprise
      else option.None)"

primrec PrincipalType_to_tag :: "PrincipalType \<Rightarrow> u8" where
  "PrincipalType_to_tag PrincipalType.NtUnknown = 0"
| "PrincipalType_to_tag PrincipalType.NtPrincipal = 1"
| "PrincipalType_to_tag PrincipalType.NtSrvInst = 2"
| "PrincipalType_to_tag PrincipalType.NtSrvHst = 3"
| "PrincipalType_to_tag PrincipalType.NtUid = 4"
| "PrincipalType_to_tag PrincipalType.NtX500 = 5"
| "PrincipalType_to_tag PrincipalType.NtEnterprise = 6"

definition PrincipalType_ALL :: "PrincipalType list" where
  "PrincipalType_ALL =
     [PrincipalType.NtUnknown, PrincipalType.NtPrincipal, PrincipalType.NtSrvInst,
      PrincipalType.NtSrvHst, PrincipalType.NtUid, PrincipalType.NtX500,
      PrincipalType.NtEnterprise]"

primrec PrincipalType_fmt :: "PrincipalType \<Rightarrow> string" where
  "PrincipalType_fmt PrincipalType.NtUnknown = ''NtUnknown''"
| "PrincipalType_fmt PrincipalType.NtPrincipal = ''NtPrincipal''"
| "PrincipalType_fmt PrincipalType.NtSrvInst = ''NtSrvInst''"
| "PrincipalType_fmt PrincipalType.NtSrvHst = ''NtSrvHst''"
| "PrincipalType_fmt PrincipalType.NtUid = ''NtUid''"
| "PrincipalType_fmt PrincipalType.NtX500 = ''NtX500''"
| "PrincipalType_fmt PrincipalType.NtEnterprise = ''NtEnterprise''"

section \<open>\<open>kerberos::TicketFlag\<close>\<close>

datatype (plugins only: code) TicketFlag =
    Forwardable
  | Forwarded
  | Proxiable
  | Proxy
  | Renewable
  | PreAuthent
  | HwAuthent

definition TicketFlag_from_tag :: "u8 \<Rightarrow> TicketFlag option" where
  "TicketFlag_from_tag tag =
     (if tag = 0 then Some TicketFlag.Forwardable
      else if tag = 1 then Some TicketFlag.Forwarded
      else if tag = 2 then Some TicketFlag.Proxiable
      else if tag = 3 then Some TicketFlag.Proxy
      else if tag = 4 then Some TicketFlag.Renewable
      else if tag = 5 then Some TicketFlag.PreAuthent
      else if tag = 6 then Some TicketFlag.HwAuthent
      else option.None)"

primrec TicketFlag_to_tag :: "TicketFlag \<Rightarrow> u8" where
  "TicketFlag_to_tag TicketFlag.Forwardable = 0"
| "TicketFlag_to_tag TicketFlag.Forwarded = 1"
| "TicketFlag_to_tag TicketFlag.Proxiable = 2"
| "TicketFlag_to_tag TicketFlag.Proxy = 3"
| "TicketFlag_to_tag TicketFlag.Renewable = 4"
| "TicketFlag_to_tag TicketFlag.PreAuthent = 5"
| "TicketFlag_to_tag TicketFlag.HwAuthent = 6"

definition TicketFlag_is_delegation :: "TicketFlag \<Rightarrow> bool" where
  "TicketFlag_is_delegation self =
     (case self of
      TicketFlag.Forwardable \<Rightarrow> True
    | TicketFlag.Forwarded \<Rightarrow> True
    | TicketFlag.Proxiable \<Rightarrow> True
    | TicketFlag.Proxy \<Rightarrow> True
    | _ \<Rightarrow> False)"

definition TicketFlag_ALL :: "TicketFlag list" where
  "TicketFlag_ALL =
     [TicketFlag.Forwardable, TicketFlag.Forwarded, TicketFlag.Proxiable, TicketFlag.Proxy,
      TicketFlag.Renewable, TicketFlag.PreAuthent, TicketFlag.HwAuthent]"

primrec TicketFlag_fmt :: "TicketFlag \<Rightarrow> string" where
  "TicketFlag_fmt TicketFlag.Forwardable = ''Forwardable''"
| "TicketFlag_fmt TicketFlag.Forwarded = ''Forwarded''"
| "TicketFlag_fmt TicketFlag.Proxiable = ''Proxiable''"
| "TicketFlag_fmt TicketFlag.Proxy = ''Proxy''"
| "TicketFlag_fmt TicketFlag.Renewable = ''Renewable''"
| "TicketFlag_fmt TicketFlag.PreAuthent = ''PreAuthent''"
| "TicketFlag_fmt TicketFlag.HwAuthent = ''HwAuthent''"

section \<open>\<open>kerberos::ErrorCode\<close>\<close>

datatype (plugins only: code) Kerberos_ErrorCode =
    KdcErrNone
  | KdcErrNameExp
  | KdcErrServiceExp
  | KdcErrBadPvno
  | KdcErrCOldMastKvno
  | KdcErrSOldMastKvno
  | KdcErrCPrincipalUnknown
  | KdcErrSPrincipalUnknown
  | KdcErrPreauthFailed
  | KdcErrPreauthRequired

definition Kerberos_ErrorCode_from_tag :: "u8 \<Rightarrow> Kerberos_ErrorCode option" where
  "Kerberos_ErrorCode_from_tag tag =
     (if tag = 0 then Some Kerberos_ErrorCode.KdcErrNone
      else if tag = 1 then Some Kerberos_ErrorCode.KdcErrNameExp
      else if tag = 2 then Some Kerberos_ErrorCode.KdcErrServiceExp
      else if tag = 3 then Some Kerberos_ErrorCode.KdcErrBadPvno
      else if tag = 4 then Some Kerberos_ErrorCode.KdcErrCOldMastKvno
      else if tag = 5 then Some Kerberos_ErrorCode.KdcErrSOldMastKvno
      else if tag = 6 then Some Kerberos_ErrorCode.KdcErrCPrincipalUnknown
      else if tag = 7 then Some Kerberos_ErrorCode.KdcErrSPrincipalUnknown
      else if tag = 8 then Some Kerberos_ErrorCode.KdcErrPreauthFailed
      else if tag = 9 then Some Kerberos_ErrorCode.KdcErrPreauthRequired
      else option.None)"

primrec Kerberos_ErrorCode_to_tag :: "Kerberos_ErrorCode \<Rightarrow> u8" where
  "Kerberos_ErrorCode_to_tag Kerberos_ErrorCode.KdcErrNone = 0"
| "Kerberos_ErrorCode_to_tag Kerberos_ErrorCode.KdcErrNameExp = 1"
| "Kerberos_ErrorCode_to_tag Kerberos_ErrorCode.KdcErrServiceExp = 2"
| "Kerberos_ErrorCode_to_tag Kerberos_ErrorCode.KdcErrBadPvno = 3"
| "Kerberos_ErrorCode_to_tag Kerberos_ErrorCode.KdcErrCOldMastKvno = 4"
| "Kerberos_ErrorCode_to_tag Kerberos_ErrorCode.KdcErrSOldMastKvno = 5"
| "Kerberos_ErrorCode_to_tag Kerberos_ErrorCode.KdcErrCPrincipalUnknown = 6"
| "Kerberos_ErrorCode_to_tag Kerberos_ErrorCode.KdcErrSPrincipalUnknown = 7"
| "Kerberos_ErrorCode_to_tag Kerberos_ErrorCode.KdcErrPreauthFailed = 8"
| "Kerberos_ErrorCode_to_tag Kerberos_ErrorCode.KdcErrPreauthRequired = 9"

definition Kerberos_ErrorCode_is_success :: "Kerberos_ErrorCode \<Rightarrow> bool" where
  "Kerberos_ErrorCode_is_success self =
     (case self of
      Kerberos_ErrorCode.KdcErrNone \<Rightarrow> True
    | _ \<Rightarrow> False)"

definition Kerberos_ErrorCode_ALL :: "Kerberos_ErrorCode list" where
  "Kerberos_ErrorCode_ALL =
     [Kerberos_ErrorCode.KdcErrNone, Kerberos_ErrorCode.KdcErrNameExp,
      Kerberos_ErrorCode.KdcErrServiceExp, Kerberos_ErrorCode.KdcErrBadPvno,
      Kerberos_ErrorCode.KdcErrCOldMastKvno, Kerberos_ErrorCode.KdcErrSOldMastKvno,
      Kerberos_ErrorCode.KdcErrCPrincipalUnknown,
      Kerberos_ErrorCode.KdcErrSPrincipalUnknown, Kerberos_ErrorCode.KdcErrPreauthFailed,
      Kerberos_ErrorCode.KdcErrPreauthRequired]"

primrec Kerberos_ErrorCode_fmt :: "Kerberos_ErrorCode \<Rightarrow> string" where
  "Kerberos_ErrorCode_fmt Kerberos_ErrorCode.KdcErrNone = ''KdcErrNone''"
| "Kerberos_ErrorCode_fmt Kerberos_ErrorCode.KdcErrNameExp = ''KdcErrNameExp''"
| "Kerberos_ErrorCode_fmt Kerberos_ErrorCode.KdcErrServiceExp = ''KdcErrServiceExp''"
| "Kerberos_ErrorCode_fmt Kerberos_ErrorCode.KdcErrBadPvno = ''KdcErrBadPvno''"
| "Kerberos_ErrorCode_fmt Kerberos_ErrorCode.KdcErrCOldMastKvno = ''KdcErrCOldMastKvno''"
| "Kerberos_ErrorCode_fmt Kerberos_ErrorCode.KdcErrSOldMastKvno = ''KdcErrSOldMastKvno''"
| "Kerberos_ErrorCode_fmt Kerberos_ErrorCode.KdcErrCPrincipalUnknown = ''KdcErrCPrincipalUnknown''"
| "Kerberos_ErrorCode_fmt Kerberos_ErrorCode.KdcErrSPrincipalUnknown = ''KdcErrSPrincipalUnknown''"
| "Kerberos_ErrorCode_fmt Kerberos_ErrorCode.KdcErrPreauthFailed = ''KdcErrPreauthFailed''"
| "Kerberos_ErrorCode_fmt Kerberos_ErrorCode.KdcErrPreauthRequired = ''KdcErrPreauthRequired''"

section \<open>\<open>kerberos::AuthState\<close>\<close>

datatype (plugins only: code) AuthState =
    Initial
  | TgtObtained
  | ServiceTicketObtained
  | Authenticated
  | AuthFailed

definition AuthState_from_tag :: "u8 \<Rightarrow> AuthState option" where
  "AuthState_from_tag tag =
     (if tag = 0 then Some AuthState.Initial
      else if tag = 1 then Some AuthState.TgtObtained
      else if tag = 2 then Some AuthState.ServiceTicketObtained
      else if tag = 3 then Some AuthState.Authenticated
      else if tag = 4 then Some AuthState.AuthFailed
      else option.None)"

primrec AuthState_to_tag :: "AuthState \<Rightarrow> u8" where
  "AuthState_to_tag AuthState.Initial = 0"
| "AuthState_to_tag AuthState.TgtObtained = 1"
| "AuthState_to_tag AuthState.ServiceTicketObtained = 2"
| "AuthState_to_tag AuthState.Authenticated = 3"
| "AuthState_to_tag AuthState.AuthFailed = 4"

definition AuthState_can_transition_to :: "AuthState \<Rightarrow> AuthState \<Rightarrow> bool" where
  "AuthState_can_transition_to self next =
     (case (self, next) of
      (AuthState.Initial, AuthState.TgtObtained) \<Rightarrow> True
    | (AuthState.TgtObtained, AuthState.ServiceTicketObtained) \<Rightarrow> True
    | (AuthState.ServiceTicketObtained, AuthState.Authenticated) \<Rightarrow> True
    | (AuthState.Initial, AuthState.AuthFailed) \<Rightarrow> True
    | (AuthState.TgtObtained, AuthState.AuthFailed) \<Rightarrow> True
    | (AuthState.ServiceTicketObtained, AuthState.AuthFailed) \<Rightarrow> True
    | _ \<Rightarrow> False)"

definition AuthState_ALL :: "AuthState list" where
  "AuthState_ALL =
     [AuthState.Initial, AuthState.TgtObtained, AuthState.ServiceTicketObtained,
      AuthState.Authenticated, AuthState.AuthFailed]"

primrec AuthState_fmt :: "AuthState \<Rightarrow> string" where
  "AuthState_fmt AuthState.Initial = ''Initial''"
| "AuthState_fmt AuthState.TgtObtained = ''TgtObtained''"
| "AuthState_fmt AuthState.ServiceTicketObtained = ''ServiceTicketObtained''"
| "AuthState_fmt AuthState.Authenticated = ''Authenticated''"
| "AuthState_fmt AuthState.AuthFailed = ''AuthFailed''"

definition EncStrength_from_tag :: "u8 \<Rightarrow> EncStrength option" where
  "EncStrength_from_tag tag =
     (if tag = 0 then Some EncStrength.Strong
      else if tag = 1 then Some EncStrength.Medium
      else if tag = 2 then Some EncStrength.Weak
      else option.None)"

primrec EncStrength_to_tag :: "EncStrength \<Rightarrow> u8" where
  "EncStrength_to_tag EncStrength.Strong = 0"
| "EncStrength_to_tag EncStrength.Medium = 1"
| "EncStrength_to_tag EncStrength.Weak = 2"

primrec EncStrength_fmt :: "EncStrength \<Rightarrow> string" where
  "EncStrength_fmt EncStrength.Strong = ''Strong''"
| "EncStrength_fmt EncStrength.Medium = ''Medium''"
| "EncStrength_fmt EncStrength.Weak = ''Weak''"

section \<open>\<open>kerberos::PreAuthType\<close>\<close>

datatype (plugins only: code) PreAuthType =
    PaEncTimestamp
  | PaEtypeInfo2
  | PaFxFast
  | PaFxCookie

definition PreAuthType_from_tag :: "u8 \<Rightarrow> PreAuthType option" where
  "PreAuthType_from_tag tag =
     (if tag = 0 then Some PreAuthType.PaEncTimestamp
      else if tag = 1 then Some PreAuthType.PaEtypeInfo2
      else if tag = 2 then Some PreAuthType.PaFxFast
      else if tag = 3 then Some PreAuthType.PaFxCookie
      else option.None)"

primrec PreAuthType_to_tag :: "PreAuthType \<Rightarrow> u8" where
  "PreAuthType_to_tag PreAuthType.PaEncTimestamp = 0"
| "PreAuthType_to_tag PreAuthType.PaEtypeInfo2 = 1"
| "PreAuthType_to_tag PreAuthType.PaFxFast = 2"
| "PreAuthType_to_tag PreAuthType.PaFxCookie = 3"

definition PreAuthType_ALL :: "PreAuthType list" where
  "PreAuthType_ALL =
     [PreAuthType.PaEncTimestamp, PreAuthType.PaEtypeInfo2, PreAuthType.PaFxFast,
      PreAuthType.PaFxCookie]"

primrec PreAuthType_fmt :: "PreAuthType \<Rightarrow> string" where
  "PreAuthType_fmt PreAuthType.PaEncTimestamp = ''PaEncTimestamp''"
| "PreAuthType_fmt PreAuthType.PaEtypeInfo2 = ''PaEtypeInfo2''"
| "PreAuthType_fmt PreAuthType.PaFxFast = ''PaFxFast''"
| "PreAuthType_fmt PreAuthType.PaFxCookie = ''PaFxCookie''"

section \<open>\<open>kerberos::NegotiationState\<close>\<close>

datatype (plugins only: code) Kerberos_NegotiationState =
    NegIdle
  | Proposed
  | Selected
  | NegFailed

definition Kerberos_NegotiationState_from_tag :: "u8 \<Rightarrow> Kerberos_NegotiationState option" where
  "Kerberos_NegotiationState_from_tag tag =
     (if tag = 0 then Some Kerberos_NegotiationState.NegIdle
      else if tag = 1 then Some Kerberos_NegotiationState.Proposed
      else if tag = 2 then Some Kerberos_NegotiationState.Selected
      else if tag = 3 then Some Kerberos_NegotiationState.NegFailed
      else option.None)"

primrec Kerberos_NegotiationState_to_tag :: "Kerberos_NegotiationState \<Rightarrow> u8" where
  "Kerberos_NegotiationState_to_tag Kerberos_NegotiationState.NegIdle = 0"
| "Kerberos_NegotiationState_to_tag Kerberos_NegotiationState.Proposed = 1"
| "Kerberos_NegotiationState_to_tag Kerberos_NegotiationState.Selected = 2"
| "Kerberos_NegotiationState_to_tag Kerberos_NegotiationState.NegFailed = 3"

definition Kerberos_NegotiationState_ALL :: "Kerberos_NegotiationState list" where
  "Kerberos_NegotiationState_ALL =
     [Kerberos_NegotiationState.NegIdle, Kerberos_NegotiationState.Proposed,
      Kerberos_NegotiationState.Selected, Kerberos_NegotiationState.NegFailed]"

primrec Kerberos_NegotiationState_fmt :: "Kerberos_NegotiationState \<Rightarrow> string" where
  "Kerberos_NegotiationState_fmt Kerberos_NegotiationState.NegIdle = ''NegIdle''"
| "Kerberos_NegotiationState_fmt Kerberos_NegotiationState.Proposed = ''Proposed''"
| "Kerberos_NegotiationState_fmt Kerberos_NegotiationState.Selected = ''Selected''"
| "Kerberos_NegotiationState_fmt Kerberos_NegotiationState.NegFailed = ''NegFailed''"

section \<open>Tags and enumerations\<close>

interpretation Kerberos_MessageType_codec: tag_codec Kerberos_MessageType_to_tag Kerberos_MessageType_from_tag 10
  by (unfold_locales, (case_tac x; simp add: Kerberos_MessageType_from_tag_def), unfold Kerberos_MessageType_from_tag_def,
    (erule codec_arm, simp only: Kerberos_MessageType_to_tag.simps)+, erule codec_end, (case_tac x; simp), simp add: codec_eval)

interpretation EncryptionType_codec: tag_codec EncryptionType_to_tag EncryptionType_from_tag 5
  by (unfold_locales, (case_tac x; simp add: EncryptionType_from_tag_def), unfold EncryptionType_from_tag_def,
    (erule codec_arm, simp only: EncryptionType_to_tag.simps)+, erule codec_end, (case_tac x; simp), simp add: codec_eval)

interpretation EncStrength_codec: tag_codec EncStrength_to_tag EncStrength_from_tag 3
  by (unfold_locales, (case_tac x; simp add: EncStrength_from_tag_def), unfold EncStrength_from_tag_def,
    (erule codec_arm, simp only: EncStrength_to_tag.simps)+, erule codec_end, (case_tac x; simp), simp add: codec_eval)

interpretation PrincipalType_codec: tag_codec PrincipalType_to_tag PrincipalType_from_tag 7
  by (unfold_locales, (case_tac x; simp add: PrincipalType_from_tag_def), unfold PrincipalType_from_tag_def,
    (erule codec_arm, simp only: PrincipalType_to_tag.simps)+, erule codec_end, (case_tac x; simp), simp add: codec_eval)

interpretation TicketFlag_codec: tag_codec TicketFlag_to_tag TicketFlag_from_tag 7
  by (unfold_locales, (case_tac x; simp add: TicketFlag_from_tag_def), unfold TicketFlag_from_tag_def,
    (erule codec_arm, simp only: TicketFlag_to_tag.simps)+, erule codec_end, (case_tac x; simp), simp add: codec_eval)

interpretation Kerberos_ErrorCode_codec: tag_codec Kerberos_ErrorCode_to_tag Kerberos_ErrorCode_from_tag 10
  by (unfold_locales, (case_tac x; simp add: Kerberos_ErrorCode_from_tag_def), unfold Kerberos_ErrorCode_from_tag_def,
    (erule codec_arm, simp only: Kerberos_ErrorCode_to_tag.simps)+, erule codec_end, (case_tac x; simp), simp add: codec_eval)

interpretation AuthState_codec: tag_codec AuthState_to_tag AuthState_from_tag 5
  by (unfold_locales, (case_tac x; simp add: AuthState_from_tag_def), unfold AuthState_from_tag_def,
    (erule codec_arm, simp only: AuthState_to_tag.simps)+, erule codec_end, (case_tac x; simp), simp add: codec_eval)

interpretation PreAuthType_codec: tag_codec PreAuthType_to_tag PreAuthType_from_tag 4
  by (unfold_locales, (case_tac x; simp add: PreAuthType_from_tag_def), unfold PreAuthType_from_tag_def,
    (erule codec_arm, simp only: PreAuthType_to_tag.simps)+, erule codec_end, (case_tac x; simp), simp add: codec_eval)

interpretation Kerberos_NegotiationState_codec: tag_codec Kerberos_NegotiationState_to_tag Kerberos_NegotiationState_from_tag 4
  by (unfold_locales, (case_tac x; simp add: Kerberos_NegotiationState_from_tag_def), unfold Kerberos_NegotiationState_from_tag_def,
    (erule codec_arm, simp only: Kerberos_NegotiationState_to_tag.simps)+, erule codec_end, (case_tac x; simp), simp add: codec_eval)

lemma Kerberos_MessageType_ALL_exhaustive: "set Kerberos_MessageType_ALL = UNIV \<and> distinct Kerberos_MessageType_ALL"
  by (auto simp: Kerberos_MessageType_ALL_def) (case_tac x; simp)

lemma EncryptionType_ALL_exhaustive: "set EncryptionType_ALL = UNIV \<and> distinct EncryptionType_ALL"
  by (auto simp: EncryptionType_ALL_def) (case_tac x; simp)

lemma PrincipalType_ALL_exhaustive: "set PrincipalType_ALL = UNIV \<and> distinct PrincipalType_ALL"
  by (auto simp: PrincipalType_ALL_def) (case_tac x; simp)

lemma TicketFlag_ALL_exhaustive: "set TicketFlag_ALL = UNIV \<and> distinct TicketFlag_ALL"
  by (auto simp: TicketFlag_ALL_def) (case_tac x; simp)

lemma Kerberos_ErrorCode_ALL_exhaustive: "set Kerberos_ErrorCode_ALL = UNIV \<and> distinct Kerberos_ErrorCode_ALL"
  by (auto simp: Kerberos_ErrorCode_ALL_def) (case_tac x; simp)

lemma AuthState_ALL_exhaustive: "set AuthState_ALL = UNIV \<and> distinct AuthState_ALL"
  by (auto simp: AuthState_ALL_def) (case_tac x; simp)

lemma PreAuthType_ALL_exhaustive: "set PreAuthType_ALL = UNIV \<and> distinct PreAuthType_ALL"
  by (auto simp: PreAuthType_ALL_def) (case_tac x; simp)

lemma Kerberos_NegotiationState_ALL_exhaustive: "set Kerberos_NegotiationState_ALL = UNIV \<and> distinct Kerberos_NegotiationState_ALL"
  by (auto simp: Kerberos_NegotiationState_ALL_def) (case_tac x; simp)

end
