(* ===== verification/Amqp_Types.thy ===== *)
theory Amqp_Types
  imports Tag_Codec
begin

text \<open>
  The types of \<open>bindings/rust/src/amqp.rs\<close>: \<open>FrameType\<close>,
  \<open>MethodClass\<close>, \<open>ExchangeType\<close>, \<open>DeliveryMode\<close>,
  \<open>ErrorSeverity\<close>, \<open>ConnectionState\<close>, \<open>ChannelState\<close>,
  \<open>BrokerState\<close>.
\<close>

definition AMQP_PORT :: "u16" where
  "AMQP_PORT = 5672"

definition AMQPS_PORT :: "u16" where
  "AMQPS_PORT = 5671"

section \<open>\<open>amqp::FrameType\<close>\<close>

datatype (plugins only: code) FrameType =
    Method
  | Header
  | Body
  | Heartbeat

definition FrameType_from_tag :: "u8 \<Rightarrow> FrameType option" where
  "FrameType_from_tag tag =
     (if tag = 0 then Some FrameType.Method
      else if tag = 1 then Some FrameType.Header
      else if tag = 2 then Some FrameType.Body
      else if tag = 3 then Some FrameType.Heartbeat
      else option.None)"

primrec FrameType_to_tag :: "FrameType \<Rightarrow> u8" where
  "FrameType_to_tag FrameType.Method = 0"
| "FrameType_to_tag FrameType.Header = 1"
| "FrameType_to_tag FrameType.Body = 2"
| "FrameType_to_tag FrameType.Heartbeat = 3"

definition FrameType_is_content :: "FrameType \<Rightarrow> bool" where
  "FrameType_is_content self =
     (case self of
      FrameType.Header \<Rightarrow> True
    | FrameType.Body \<Rightarrow> True
    | _ \<Rightarrow> False)"

primrec FrameType_fmt :: "FrameType \<Rightarrow> string" where
  "FrameType_fmt FrameType.Method = ''Method''"
| "FrameType_fmt FrameType.Header = ''Header''"
| "FrameType_fmt FrameType.Body = ''Body''"
| "FrameType_fmt FrameType.Heartbeat = ''Heartbeat''"

section \<open>\<open>amqp::MethodClass\<close>\<close>

datatype (plugins only: code) MethodClass =
    Connection
  | Channel
  | Exchange
  | Queue
  | Basic
  | Tx
  | Confirm

definition MethodClass_from_tag :: "u8 \<Rightarrow> MethodClass option" where
  "MethodClass_from_tag tag =
     (if tag = 0 then Some MethodClass.Connection
      else if tag = 1 then Some MethodClass.Channel
      else if tag = 2 then Some MethodClass.Exchange
      else if tag = 3 then Some MethodClass.Queue
      else if tag = 4 then Some MethodClass.Basic
      else if tag = 5 then Some MethodClass.Tx
      else if tag = 6 then Some MethodClass.Confirm
      else option.None)"

primrec MethodClass_to_tag :: "MethodClass \<Rightarrow> u8" where
  "MethodClass_to_tag MethodClass.Connection = 0"
| "MethodClass_to_tag MethodClass.Channel = 1"
| "MethodClass_to_tag MethodClass.Exchange = 2"
| "MethodClass_to_tag MethodClass.Queue = 3"
| "MethodClass_to_tag MethodClass.Basic = 4"
| "MethodClass_to_tag MethodClass.Tx = 5"
| "MethodClass_to_tag MethodClass.Confirm = 6"

definition MethodClass_is_connection_level :: "MethodClass \<Rightarrow> bool" where
  "MethodClass_is_connection_level self =
     (case self of
      MethodClass.Connection \<Rightarrow> True
    | _ \<Rightarrow> False)"

primrec MethodClass_fmt :: "MethodClass \<Rightarrow> string" where
  "MethodClass_fmt MethodClass.Connection = ''Connection''"
| "MethodClass_fmt MethodClass.Channel = ''Channel''"
| "MethodClass_fmt MethodClass.Exchange = ''Exchange''"
| "MethodClass_fmt MethodClass.Queue = ''Queue''"
| "MethodClass_fmt MethodClass.Basic = ''Basic''"
| "MethodClass_fmt MethodClass.Tx = ''Tx''"
| "MethodClass_fmt MethodClass.Confirm = ''Confirm''"

section \<open>\<open>amqp::ExchangeType\<close>\<close>

datatype (plugins only: code) ExchangeType =
    Direct
  | Fanout
  | Topic
  | Headers

definition ExchangeType_from_tag :: "u8 \<Rightarrow> ExchangeType option" where
  "ExchangeType_from_tag tag =
     (if tag = 0 then Some ExchangeType.Direct
      else if tag = 1 then Some ExchangeType.Fanout
      else if tag = 2 then Some ExchangeType.Topic
      else if tag = 3 then Some ExchangeType.Headers
      else option.None)"

primrec ExchangeType_to_tag :: "ExchangeType \<Rightarrow> u8" where
  "ExchangeType_to_tag ExchangeType.Direct = 0"
| "ExchangeType_to_tag ExchangeType.Fanout = 1"
| "ExchangeType_to_tag ExchangeType.Topic = 2"
| "ExchangeType_to_tag ExchangeType.Headers = 3"

definition ExchangeType_uses_routing_key :: "ExchangeType \<Rightarrow> bool" where
  "ExchangeType_uses_routing_key self =
     (case self of
      ExchangeType.Direct \<Rightarrow> True
    | ExchangeType.Topic \<Rightarrow> True
    | _ \<Rightarrow> False)"

definition ExchangeType_fmt :: "ExchangeType \<Rightarrow> string" where
  "ExchangeType_fmt self =
     (case self of
      ExchangeType.Direct \<Rightarrow> ''direct''
    | ExchangeType.Fanout \<Rightarrow> ''fanout''
    | ExchangeType.Topic \<Rightarrow> ''topic''
    | ExchangeType.Headers \<Rightarrow> ''headers'')"

section \<open>\<open>amqp::DeliveryMode\<close>\<close>

datatype (plugins only: code) DeliveryMode =
    NonPersistent
  | Persistent

definition DeliveryMode_from_tag :: "u8 \<Rightarrow> DeliveryMode option" where
  "DeliveryMode_from_tag tag =
     (if tag = 0 then Some DeliveryMode.NonPersistent
      else if tag = 1 then Some DeliveryMode.Persistent
      else option.None)"

primrec DeliveryMode_to_tag :: "DeliveryMode \<Rightarrow> u8" where
  "DeliveryMode_to_tag DeliveryMode.NonPersistent = 0"
| "DeliveryMode_to_tag DeliveryMode.Persistent = 1"

primrec DeliveryMode_fmt :: "DeliveryMode \<Rightarrow> string" where
  "DeliveryMode_fmt DeliveryMode.NonPersistent = ''NonPersistent''"
| "DeliveryMode_fmt DeliveryMode.Persistent = ''Persistent''"

section \<open>\<open>amqp::ErrorSeverity\<close>\<close>

datatype (plugins only: code) Amqp_ErrorSeverity =
    ChannelLevel
  | ConnectionLevel

definition Amqp_ErrorSeverity_from_tag :: "u8 \<Rightarrow> Amqp_ErrorSeverity option" where
  "Amqp_ErrorSeverity_from_tag tag =
     (if tag = 0 then Some Amqp_ErrorSeverity.ChannelLevel
      else if tag = 1 then Some Amqp_ErrorSeverity.ConnectionLevel
      else option.None)"

primrec Amqp_ErrorSeverity_to_tag :: "Amqp_ErrorSeverity \<Rightarrow> u8" where
  "Amqp_ErrorSeverity_to_tag Amqp_ErrorSeverity.ChannelLevel = 0"
| "Amqp_ErrorSeverity_to_tag Amqp_ErrorSeverity.ConnectionLevel = 1"

primrec Amqp_ErrorSeverity_fmt :: "Amqp_ErrorSeverity \<Rightarrow> string" where
  "Amqp_ErrorSeverity_fmt Amqp_ErrorSeverity.ChannelLevel = ''ChannelLevel''"
| "Amqp_ErrorSeverity_fmt Amqp_ErrorSeverity.ConnectionLevel = ''ConnectionLevel''"

section \<open>\<open>amqp::ConnectionState\<close>\<close>

datatype (plugins only: code) ConnectionState =
    Idle
  | Negotiating
  | TuningOk
  | Open
  | Closing

definition ConnectionState_from_tag :: "u8 \<Rightarrow> ConnectionState option" where
  "ConnectionState_from_tag tag =
     (if tag = 0 then Some ConnectionState.Idle
      else if tag = 1 then Some ConnectionState.Negotiating
      else if tag = 2 then Some ConnectionState.TuningOk
      else if tag = 3 then Some ConnectionState.Open
      else if tag = 4 then Some ConnectionState.Closing
      else option.None)"

primrec ConnectionState_to_tag :: "ConnectionState \<Rightarrow> u8" where
  "ConnectionState_to_tag ConnectionState.Idle = 0"
| "ConnectionState_to_tag ConnectionState.Negotiating = 1"
| "ConnectionState_to_tag ConnectionState.TuningOk = 2"
| "ConnectionState_to_tag ConnectionState.Open = 3"
| "ConnectionState_to_tag ConnectionState.Closing = 4"

definition ConnectionState_can_transition_to :: "ConnectionState \<Rightarrow> ConnectionState \<Rightarrow> bool" where
  "ConnectionState_can_transition_to self next =
     (case (self, next) of
      (ConnectionState.Idle, ConnectionState.Negotiating) \<Rightarrow> True
    | (ConnectionState.Negotiating, ConnectionState.TuningOk) \<Rightarrow> True
    | (ConnectionState.TuningOk, ConnectionState.Open) \<Rightarrow> True
    | (ConnectionState.Open, ConnectionState.Closing) \<Rightarrow> True
    | (_, ConnectionState.Closing) \<Rightarrow> True
    | _ \<Rightarrow> False)"

primrec ConnectionState_fmt :: "ConnectionState \<Rightarrow> string" where
  "ConnectionState_fmt ConnectionState.Idle = ''Idle''"
| "ConnectionState_fmt ConnectionState.Negotiating = ''Negotiating''"
| "ConnectionState_fmt ConnectionState.TuningOk = ''TuningOk''"
| "ConnectionState_fmt ConnectionState.Open = ''Open''"
| "ConnectionState_fmt ConnectionState.Closing = ''Closing''"

section \<open>\<open>amqp::ChannelState\<close>\<close>

datatype (plugins only: code) Amqp_ChannelState =
    Closed
  | Opening
  | ChOpen
  | ChClosing

definition Amqp_ChannelState_from_tag :: "u8 \<Rightarrow> Amqp_ChannelState option" where
  "Amqp_ChannelState_from_tag tag =
     (if tag = 0 then Some Amqp_ChannelState.Closed
      else if tag = 1 then Some Amqp_ChannelState.Opening
      else if tag = 2 then Some Amqp_ChannelState.ChOpen
      else if tag = 3 then Some Amqp_ChannelState.ChClosing
      else option.None)"

primrec Amqp_ChannelState_to_tag :: "Amqp_ChannelState \<Rightarrow> u8" where
  "Amqp_ChannelState_to_tag Amqp_ChannelState.Closed = 0"
| "Amqp_ChannelState_to_tag Amqp_ChannelState.Opening = 1"
| "Amqp_ChannelState_to_tag Amqp_ChannelState.ChOpen = 2"
| "Amqp_ChannelState_to_tag Amqp_ChannelState.ChClosing = 3"

definition Amqp_ChannelState_can_transition_to :: "Amqp_ChannelState \<Rightarrow> Amqp_ChannelState \<Rightarrow> bool" where
  "Amqp_ChannelState_can_transition_to self next =
     (case (self, next) of
      (Amqp_ChannelState.Closed, Amqp_ChannelState.Opening) \<Rightarrow> True
    | (Amqp_ChannelState.Opening, Amqp_ChannelState.ChOpen) \<Rightarrow> True
    | (Amqp_ChannelState.Opening, Amqp_ChannelState.Closed) \<Rightarrow> True
    | (Amqp_ChannelState.ChOpen, Amqp_ChannelState.ChClosing) \<Rightarrow> True
    | (Amqp_ChannelState.ChClosing, Amqp_ChannelState.Closed) \<Rightarrow> True
    | _ \<Rightarrow> False)"

primrec Amqp_ChannelState_fmt :: "Amqp_ChannelState \<Rightarrow> string" where
  "Amqp_ChannelState_fmt Amqp_ChannelState.Closed = ''Closed''"
| "Amqp_ChannelState_fmt Amqp_ChannelState.Opening = ''Opening''"
| "Amqp_ChannelState_fmt Amqp_ChannelState.ChOpen = ''ChOpen''"
| "Amqp_ChannelState_fmt Amqp_ChannelState.ChClosing = ''ChClosing''"

section \<open>\<open>amqp::BrokerState\<close>\<close>

datatype (plugins only: code) BrokerState =
    Idle
  | Connected
  | ChannelOpen
  | Consuming
  | Publishing
  | Disconnecting

definition BrokerState_from_tag :: "u8 \<Rightarrow> BrokerState option" where
  "BrokerState_from_tag tag =
     (if tag = 0 then Some BrokerState.Idle
      else if tag = 1 then Some BrokerState.Connected
      else if tag = 2 then Some BrokerState.ChannelOpen
      else if tag = 3 then Some BrokerState.Consuming
      else if tag = 4 then Some BrokerState.Publishing
      else if tag = 5 then Some BrokerState.Disconnecting
      else option.None)"

primrec BrokerState_to_tag :: "BrokerState \<Rightarrow> u8" where
  "BrokerState_to_tag BrokerState.Idle = 0"
| "BrokerState_to_tag BrokerState.Connected = 1"
| "BrokerState_to_tag BrokerState.ChannelOpen = 2"
| "BrokerState_to_tag BrokerState.Consuming = 3"
| "BrokerState_to_tag BrokerState.Publishing = 4"
| "BrokerState_to_tag BrokerState.Disconnecting = 5"

definition BrokerState_can_transition_to :: "BrokerState \<Rightarrow> BrokerState \<Rightarrow> bool" where
  "BrokerState_can_transition_to self next =
     (case (self, next) of
      (BrokerState.Idle, BrokerState.Connected) \<Rightarrow> True
    | (BrokerState.Connected, BrokerState.ChannelOpen) \<Rightarrow> True
    | (BrokerState.ChannelOpen, BrokerState.Consuming) \<Rightarrow> True
    | (BrokerState.ChannelOpen, BrokerState.Publishing) \<Rightarrow> True
    | (BrokerState.Consuming, BrokerState.Disconnecting) \<Rightarrow> True
    | (BrokerState.Publishing, BrokerState.Disconnecting) \<Rightarrow> True
    | (_, BrokerState.Disconnecting) \<Rightarrow> True
    | _ \<Rightarrow> False)"

primrec BrokerState_fmt :: "BrokerState \<Rightarrow> string" where
  "BrokerState_fmt BrokerState.Idle = ''Idle''"
| "BrokerState_fmt BrokerState.Connected = ''Connected''"
| "BrokerState_fmt BrokerState.ChannelOpen = ''ChannelOpen''"
| "BrokerState_fmt BrokerState.Consuming = ''Consuming''"
| "BrokerState_fmt BrokerState.Publishing = ''Publishing''"
| "BrokerState_fmt BrokerState.Disconnecting = ''Disconnecting''"

section \<open>Tags and enumerations\<close>

interpretation FrameType_codec: tag_codec FrameType_to_tag FrameType_from_tag 4
  by (unfold_locales, (case_tac x; simp add: FrameType_from_tag_def), unfold FrameType_from_tag_def,
    (erule codec_arm, simp only: FrameType_to_tag.simps)+, erule codec_end, (case_tac x; simp), simp add: codec_eval)

interpretation MethodClass_codec: tag_codec MethodClass_to_tag MethodClass_from_tag 7
  by (unfold_locales, (case_tac x; simp add: MethodClass_from_tag_def), unfold MethodClass_from_tag_def,
    (erule codec_arm, simp only: MethodClass_to_tag.simps)+, erule codec_end, (case_tac x; simp), simp add: codec_eval)

interpretation ExchangeType_codec: tag_codec ExchangeType_to_tag ExchangeType_from_tag 4
  by (unfold_locales, (case_tac x; simp add: ExchangeType_from_tag_def), unfold ExchangeType_from_tag_def,
    (erule codec_arm, simp only: ExchangeType_to_tag.simps)+, erule codec_end, (case_tac x; simp), simp add: codec_eval)

interpretation DeliveryMode_codec: tag_codec DeliveryMode_to_tag DeliveryMode_from_tag 2
  by (unfold_locales, (case_tac x; simp add: DeliveryMode_from_tag_def), unfold DeliveryMode_from_tag_def,
    (erule codec_arm, simp only: DeliveryMode_to_tag.simps)+, erule codec_end, (case_tac x; simp), simp add: codec_eval)

interpretation Amqp_ErrorSeverity_codec: tag_codec Amqp_ErrorSeverity_to_tag Amqp_ErrorSeverity_from_tag 2
  by (unfold_locales, (case_tac x; simp add: Amqp_ErrorSeverity_from_tag_def), unfold Amqp_ErrorSeverity_from_tag_def,
    (erule codec_arm, simp only: Amqp_ErrorSeverity_to_tag.simps)+, erule codec_end, (case_tac x; simp), simp add: codec_eval)

interpretation ConnectionState_codec: tag_codec ConnectionState_to_tag ConnectionState_from_tag 5
  by (unfold_locales, (case_tac x; simp add: ConnectionState_from_tag_def), unfold ConnectionState_from_tag_def,
    (erule codec_arm, simp only: ConnectionState_to_tag.simps)+, erule codec_end, (case_tac x; simp), simp add: codec_eval)

interpretation Amqp_ChannelState_codec: tag_codec Amqp_ChannelState_to_tag Amqp_ChannelState_from_tag 4
  by (unfold_locales, (case_tac x; simp add: Amqp_ChannelState_from_tag_def), unfold Amqp_ChannelState_from_tag_def,
    (erule codec_arm, simp only: Amqp_ChannelState_to_tag.simps)+, erule codec_end, (case_tac x; simp), simp add: codec_eval)

interpretation BrokerState_codec: tag_codec BrokerState_to_tag BrokerState_from_tag 6
  by (unfold_locales, (case_tac x; simp add: BrokerState_from_tag_def), unfold BrokerState_from_tag_def,
    (erule codec_arm, simp only: BrokerState_to_tag.simps)+, erule codec_end, (case_tac x; simp), simp add: codec_eval)

end
