(* ===== verification/Rtsp_Types.thy ===== *)
theory Rtsp_Types
  imports Tag_Codec
begin

text \<open>
  The types of \<open>bindings/rust/src/rtsp.rs\<close>: \<open>Method\<close>,
  \<open>TransportProtocol\<close>, \<open>SessionState\<close>, \<open>StatusCode\<close>,
  \<open>RtspError\<close>.
\<close>

definition RTSP_PORT :: "u16" where
  "RTSP_PORT = 554"

definition RTSPS_PORT :: "u16" where
  "RTSPS_PORT = 322"

section \<open>\<open>rtsp::Method\<close>\<close>

datatype (plugins only: code) Rtsp_Method =
    Describe
  | Setup
  | Play
  | Pause
  | Teardown
  | GetParameter
  | SetParameter
  | Options
  | Announce
  | Record
  | Redirect

definition Rtsp_Method_from_tag :: "u8 \<Rightarrow> Rtsp_Method option" where
  "Rtsp_Method_from_tag tag =
     (if tag = 0 then Some Rtsp_Method.Describe
      else if tag = 1 then Some Rtsp_Method.Setup
      else if tag = 2 then Some Rtsp_Method.Play
      else if tag = 3 then Some Rtsp_Method.Pause
      else if tag = 4 then Some Rtsp_Method.Teardown
      else if tag = 5 then Some Rtsp_Method.GetParameter
      else if tag = 6 then Some Rtsp_Method.SetParameter
      else if tag = 7 then Some Rtsp_Method.Options
      else if tag = 8 then Some Rtsp_Method.Announce
      else if tag = 9 then Some Rtsp_Method.Record
      else if tag = 10 then Some Rtsp_Method.Redirect
      else option.None)"

primrec Rtsp_Method_to_tag :: "Rtsp_Method \<Rightarrow> u8" where
  "Rtsp_Method_to_tag Rtsp_Method.Describe = 0"
| "Rtsp_Method_to_tag Rtsp_Method.Setup = 1"
| "Rtsp_Method_to_tag Rtsp_Method.Play = 2"
| "Rtsp_Method_to_tag Rtsp_Method.Pause = 3"
| "Rtsp_Method_to_tag Rtsp_Method.Teardown = 4"
| "Rtsp_Method_to_tag Rtsp_Method.GetParameter = 5"
| "Rtsp_Method_to_tag Rtsp_Method.SetParameter = 6"
| "Rtsp_Method_to_tag Rtsp_Method.Options = 7"
| "Rtsp_Method_to_tag Rtsp_Method.Announce = 8"
| "Rtsp_Method_to_tag Rtsp_Method.Record = 9"
| "Rtsp_Method_to_tag Rtsp_Method.Redirect = 10"

definition Rtsp_Method_name :: "Rtsp_Method \<Rightarrow> string" where
  "Rtsp_Method_name self =
     (case self of
      Rtsp_Method.Describe \<Rightarrow> ''DESCRIBE''
    | Rtsp_Method.Setup \<Rightarrow> ''SETUP''
    | Rtsp_Method.Play \<Rightarrow> ''PLAY''
    | Rtsp_Method.Pause \<Rightarrow> ''PAUSE''
    | Rtsp_Method.Teardown \<Rightarrow> ''TEARDOWN''
    | Rtsp_Method.GetParameter \<Rightarrow> ''GET_PARAMETER''
    | Rtsp_Method.SetParameter \<Rightarrow> ''SET_PARAMETER''
    | Rtsp_Method.Options \<Rightarrow> ''OPTIONS''
    | Rtsp_Method.Announce \<Rightarrow> ''ANNOUNCE''
    | Rtsp_Method.Record \<Rightarrow> ''RECORD''
    | Rtsp_Method.Redirect \<Rightarrow> ''REDIRECT'')"

definition Rtsp_Method_requires_session :: "Rtsp_Method \<Rightarrow> bool" where
  "Rtsp_Method_requires_session self =
     (case self of
      Rtsp_Method.Play \<Rightarrow> True
    | Rtsp_Method.Pause \<Rightarrow> True
    | Rtsp_Method.Teardown \<Rightarrow> True
    | Rtsp_Method.GetParameter \<Rightarrow> True
    | Rtsp_Method.SetParameter \<Rightarrow> True
    | Rtsp_Method.Record \<Rightarrow> True
    | _ \<Rightarrow> False)"

definition Rtsp_Method_ALL :: "Rtsp_Method list" where
  "Rtsp_Method_ALL =
     [Rtsp_Method.Describe, Rtsp_Method.Setup, Rtsp_Method.Play, Rtsp_Method.Pause,
      Rtsp_Method.Teardown, Rtsp_Method.GetParameter, Rtsp_Method.SetParameter,
      Rtsp_Method.Options, Rtsp_Method.Announce, Rtsp_Method.Record, Rtsp_Method.Redirect]"

definition Rtsp_Method_fmt :: "Rtsp_Method \<Rightarrow> string" where
  "Rtsp_Method_fmt self = Rtsp_Method_name self"

section \<open>\<open>rtsp::TransportProtocol\<close>\<close>

datatype (plugins only: code) Rtsp_TransportProtocol =
    RtpAvpUdp
  | RtpAvpTcp
  | RtpAvpUdpMulticast

definition Rtsp_TransportProtocol_from_tag :: "u8 \<Rightarrow> Rtsp_TransportProtocol option" where
  "Rtsp_TransportProtocol_from_tag tag =
     (if tag = 0 then Some Rtsp_TransportProtocol.RtpAvpUdp
      else if tag = 1 then Some Rtsp_TransportProtocol.RtpAvpTcp
      else if tag = 2 then Some Rtsp_TransportProtocol.RtpAvpUdpMulticast
      else option.None)"

primrec Rtsp_TransportProtocol_to_tag :: "Rtsp_TransportProtocol \<Rightarrow> u8" where
  "Rtsp_TransportProtocol_to_tag Rtsp_TransportProtocol.RtpAvpUdp = 0"
| "Rtsp_TransportProtocol_to_tag Rtsp_TransportProtocol.RtpAvpTcp = 1"
| "Rtsp_TransportProtocol_to_tag Rtsp_TransportProtocol.RtpAvpUdpMulticast = 2"

definition Rtsp_TransportProtocol_is_tcp :: "Rtsp_TransportProtocol \<Rightarrow> bool" where
  "Rtsp_TransportProtocol_is_tcp self =
     (case self of
      Rtsp_TransportProtocol.RtpAvpTcp \<Rightarrow> True
    | _ \<Rightarrow> False)"

definition Rtsp_TransportProtocol_is_multicast :: "Rtsp_TransportProtocol \<Rightarrow> bool" where
  "Rtsp_TransportProtocol_is_multicast self =
     (case self of
      Rtsp_TransportProtocol.RtpAvpUdpMulticast \<Rightarrow> True
    | _ \<Rightarrow> False)"

primrec Rtsp_TransportProtocol_fmt :: "Rtsp_TransportProtocol \<Rightarrow> string" where
  "Rtsp_TransportProtocol_fmt Rtsp_TransportProtocol.RtpAvpUdp = ''RtpAvpUdp''"
| "Rtsp_TransportProtocol_fmt Rtsp_TransportProtocol.RtpAvpTcp = ''RtpAvpTcp''"
| "Rtsp_TransportProtocol_fmt Rtsp_TransportProtocol.RtpAvpUdpMulticast = ''RtpAvpUdpMulticast''"

section \<open>\<open>rtsp::SessionState\<close>\<close>

datatype (plugins only: code) Rtsp_SessionState =
    Init
  | Ready
  | Playing
  | Recording

definition Rtsp_SessionState_from_tag :: "u8 \<Rightarrow> Rtsp_SessionState option" where
  "Rtsp_SessionState_from_tag tag =
     (if tag = 0 then Some Rtsp_SessionState.Init
      else if tag = 1 then Some Rtsp_SessionState.Ready
      else if tag = 2 then Some Rtsp_SessionState.Playing
      else if tag = 3 then Some Rtsp_SessionState.Recording
      else option.None)"

primrec Rtsp_SessionState_to_tag :: "Rtsp_SessionState \<Rightarrow> u8" where
  "Rtsp_SessionState_to_tag Rtsp_SessionState.Init = 0"
| "Rtsp_SessionState_to_tag Rtsp_SessionState.Ready = 1"
| "Rtsp_SessionState_to_tag Rtsp_SessionState.Playing = 2"
| "Rtsp_SessionState_to_tag Rtsp_SessionState.Recording = 3"

definition Rtsp_SessionState_is_active :: "Rtsp_SessionState \<Rightarrow> bool" where
  "Rtsp_SessionState_is_active self =
     (case self of
      Rtsp_SessionState.Playing \<Rightarrow> True
    | Rtsp_SessionState.Recording \<Rightarrow> True
    | _ \<Rightarrow> False)"

definition Rtsp_SessionState_can_transition_to :: "Rtsp_SessionState \<Rightarrow> Rtsp_SessionState \<Rightarrow> bool" where
  "Rtsp_SessionState_can_transition_to self next =
     (case (self, next) of
      (Rtsp_SessionState.Init, Rtsp_SessionState.Ready) \<Rightarrow> True
    | (Rtsp_SessionState.Ready, Rtsp_SessionState.Playing) \<Rightarrow> True
    | (Rtsp_SessionState.Ready, Rtsp_SessionState.Recording) \<Rightarrow> True
    | (Rtsp_SessionState.Playing, Rtsp_SessionState.Ready) \<Rightarrow> True
    | (Rtsp_SessionState.Recording, Rtsp_SessionState.Ready) \<Rightarrow> True
    | (Rtsp_SessionState.Ready, Rtsp_SessionState.Init) \<Rightarrow> True
    | (Rtsp_SessionState.Playing, Rtsp_SessionState.Init) \<Rightarrow> True
    | (Rtsp_SessionState.Recording, Rtsp_SessionState.Init) \<Rightarrow> True
    | _ \<Rightarrow> False)"

primrec Rtsp_SessionState_fmt :: "Rtsp_SessionState \<Rightarrow> string" where
  "Rtsp_SessionState_fmt Rtsp_SessionState.Init = ''Init''"
| "Rtsp_SessionState_fmt Rtsp_SessionState.Ready = ''Ready''"
| "Rtsp_SessionState_fmt Rtsp_SessionState.Playing = ''Playing''"
| "Rtsp_SessionState_fmt Rtsp_SessionState.Recording = ''Recording''"

section \<open>\<open>rtsp::StatusCode\<close>\<close>

datatype (plugins only: code) Rtsp_StatusCode =
    Ok
  | MovedPermanently
  | MovedTemporarily
  | BadRequest
  | Unauthorized
  | NotFound
  | MethodNotAllowed
  | NotAcceptable
  | SessionNotFound
  | InternalServerError
  | NotImplemented
  | ServiceUnavailable

definition Rtsp_StatusCode_from_tag :: "u8 \<Rightarrow> Rtsp_StatusCode option" where
  "Rtsp_StatusCode_from_tag tag =
     (if tag = 0 then Some Rtsp_StatusCode.Ok
      else if tag = 1 then Some Rtsp_StatusCode.MovedPermanently
      else if tag = 2 then Some Rtsp_StatusCode.MovedTemporarily
      else if tag = 3 then Some Rtsp_StatusCode.BadRequest
      else if tag = 4 then Some Rtsp_StatusCode.Unauthorized
      else if tag = 5 then Some Rtsp_StatusCode.NotFound
      else if tag = 6 then Some Rtsp_StatusCode.MethodNotAllowed
      else if tag = 7 then Some Rtsp_StatusCode.NotAcceptable
      else if tag = 8 then Some Rtsp_StatusCode.SessionNotFound
      else if tag = 9 then Some Rtsp_StatusCode.InternalServerError
      else if tag = 10 then Some Rtsp_StatusCode.NotImplemented
      else if tag = 11 then Some Rtsp_StatusCode.ServiceUnavailable
      else option.None)"

primrec Rtsp_StatusCode_to_tag :: "Rtsp_StatusCode \<Rightarrow> u8" where
  "Rtsp_StatusCode_to_tag Rtsp_StatusCode.Ok = 0"
| "Rtsp_StatusCode_to_tag Rtsp_StatusCode.MovedPermanently = 1"
| "Rtsp_StatusCode_to_tag Rtsp_StatusCode.MovedTemporarily = 2"
| "Rtsp_StatusCode_to_tag Rtsp_StatusCode.BadRequest = 3"
| "Rtsp_StatusCode_to_tag Rtsp_StatusCode.Unauthorized = 4"
| "Rtsp_StatusCode_to_tag Rtsp_StatusCode.NotFound = 5"
| "Rtsp_StatusCode_to_tag Rtsp_StatusCode.MethodNotAllowed = 6"
| "Rtsp_StatusCode_to_tag Rtsp_StatusCode.NotAcceptable = 7"
| "Rtsp_StatusCode_to_tag Rtsp_StatusCode.SessionNotFound = 8"
| "Rtsp_StatusCode_to_tag Rtsp_StatusCode.InternalServerError = 9"
| "Rtsp_StatusCode_to_tag Rtsp_StatusCode.NotImplemented = 10"
| "Rtsp_StatusCode_to_tag Rtsp_StatusCode.ServiceUnavailable = 11"

definition Rtsp_StatusCode_is_success :: "Rtsp_StatusCode \<Rightarrow> bool" where
  "Rtsp_StatusCode_is_success self =
     (case self of
      Rtsp_StatusCode.Ok \<Rightarrow> True
    | _ \<Rightarrow> False)"

definition Rtsp_StatusCode_is_client_error :: "Rtsp_StatusCode \<Rightarrow> bool" where
  "Rtsp_StatusCode_is_client_error self =
     (case self of
      Rtsp_StatusCode.BadRequest \<Rightarrow> True
    | Rtsp_StatusCode.Unauthorized \<Rightarrow> True
    | Rtsp_StatusCode.NotFound \<Rightarrow> True
    | Rtsp_StatusCode.MethodNotAllowed \<Rightarrow> True
    | Rtsp_StatusCode.NotAcceptable \<Rightarrow> True
    | Rtsp_StatusCode.SessionNotFound \<Rightarrow> True
    | _ \<Rightarrow> False)"

definition Rtsp_StatusCode_is_server_error :: "Rtsp_StatusCode \<Rightarrow> bool" where
  "Rtsp_StatusCode_is_server_error self =
     (case self of
      Rtsp_StatusCode.InternalServerError \<Rightarrow> True
    | Rtsp_StatusCode.NotImplemented \<Rightarrow> True
    | Rtsp_StatusCode.ServiceUnavailable \<Rightarrow> True
    | _ \<Rightarrow> False)"

definition Rtsp_StatusCode_ALL :: "Rtsp_StatusCode list" where
  "Rtsp_StatusCode_ALL =
     [Rtsp_StatusCode.Ok, Rtsp_StatusCode.MovedPermanently, Rtsp_StatusCode.MovedTemporarily,
      Rtsp_StatusCode.BadRequest, Rtsp_StatusCode.Unauthorized, Rtsp_StatusCode.NotFound,
      Rtsp_StatusCode.MethodNotAllowed, Rtsp_StatusCode.NotAcceptable,
      Rtsp_StatusCode.SessionNotFound, Rtsp_StatusCode.InternalServerError,
      Rtsp_StatusCode.NotImplemented, Rtsp_StatusCode.ServiceUnavailable]"

primrec Rtsp_StatusCode_fmt :: "Rtsp_StatusCode \<Rightarrow> string" where
  "Rtsp_StatusCode_fmt Rtsp_StatusCode.Ok = ''Ok''"
| "Rtsp_StatusCode_fmt Rtsp_StatusCode.MovedPermanently = ''MovedPermanently''"
| "Rtsp_StatusCode_fmt Rtsp_StatusCode.MovedTemporarily = ''MovedTemporarily''"
| "Rtsp_StatusCode_fmt Rtsp_StatusCode.BadRequest = ''BadRequest''"
| "Rtsp_StatusCode_fmt Rtsp_StatusCode.Unauthorized = ''Unauthorized''"
| "Rtsp_StatusCode_fmt Rtsp_StatusCode.NotFound = ''NotFound''"
| "Rtsp_StatusCode_fmt Rtsp_StatusCode.MethodNotAllowed = ''MethodNotAllowed''"
| "Rtsp_StatusCode_fmt Rtsp_StatusCode.NotAcceptable = ''NotAcceptable''"
| "Rtsp_StatusCode_fmt Rtsp_StatusCode.SessionNotFound = ''SessionNotFound''"
| "Rtsp_StatusCode_fmt Rtsp_StatusCode.InternalServerError = ''InternalServerError''"
| "Rtsp_StatusCode_fmt Rtsp_StatusCode.NotImplemented = ''NotImplemented''"
| "Rtsp_StatusCode_fmt Rtsp_StatusCode.ServiceUnavailable = ''ServiceUnavailable''"

section \<open>\<open>rtsp::RtspError\<close>\<close>

datatype (plugins only: code) RtspError =
    Ok
  | InvalidSlot
  | NotActive
  | InvalidTransition
  | MethodNotAllowed
  | TransportError
  | SessionExpired

definition RtspError_from_tag :: "u8 \<Rightarrow> RtspError option" where
  "RtspError_from_tag tag =
     (if tag = 0 then Some RtspError.Ok
      else if tag = 1 then Some RtspError.InvalidSlot
      else if tag = 2 then Some RtspError.NotActive
      else if tag = 3 then Some RtspError.InvalidTransition
      else if tag = 4 then Some RtspError.MethodNotAllowed
      else if tag = 5 then Some RtspError.TransportError
      else if tag = 6 then Some RtspError.SessionExpired
      else option.None)"

primrec RtspError_to_tag :: "RtspError \<Rightarrow> u8" where
  "RtspError_to_tag RtspError.Ok = 0"
| "RtspError_to_tag RtspError.InvalidSlot = 1"
| "RtspError_to_tag RtspError.NotActive = 2"
| "RtspError_to_tag RtspError.InvalidTransition = 3"
| "RtspError_to_tag RtspError.MethodNotAllowed = 4"
| "RtspError_to_tag RtspError.TransportError = 5"
| "RtspError_to_tag RtspError.SessionExpired = 6"

definition RtspError_is_ok :: "RtspError \<Rightarrow> bool" where
  "RtspError_is_ok self =
     (case self of
      RtspError.Ok \<Rightarrow> True
    | _ \<Rightarrow> False)"

primrec RtspError_fmt :: "RtspError \<Rightarrow> string" where
  "RtspError_fmt RtspError.Ok = ''Ok''"
| "RtspError_fmt RtspError.InvalidSlot = ''InvalidSlot''"
| "RtspError_fmt RtspError.NotActive = ''NotActive''"
| "RtspError_fmt RtspError.InvalidTransition = ''InvalidTransition''"
| "RtspError_fmt RtspError.MethodNotAllowed = ''MethodNotAllowed''"
| "RtspError_fmt RtspError.TransportError = ''TransportError''"
| "RtspError_fmt RtspError.SessionExpired = ''SessionExpired''"

section \<open>Tags and enumerations\<close>

interpretation Rtsp_Method_codec: tag_codec Rtsp_Method_to_tag Rtsp_Method_from_tag 11
  by (unfold_locales, (case_tac x; simp add: Rtsp_Method_from_tag_def), unfold Rtsp_Method_from_tag_def,
    (erule codec_arm, simp only: Rtsp_Method_to_tag.simps)+, erule codec_end, (case_tac x; simp), simp add: codec_eval)

interpretation Rtsp_TransportProtocol_codec: tag_codec Rtsp_TransportProtocol_to_tag Rtsp_TransportProtocol_from_tag 3
  by (unfold_locales, (case_tac x; simp add: Rtsp_TransportProtocol_from_tag_def), unfold Rtsp_TransportProtocol_from_tag_def,
    (erule codec_arm, simp only: Rtsp_TransportProtocol_to_tag.simps)+, erule codec_end, (case_tac x; simp), simp add: codec_eval)

interpretation Rtsp_SessionState_codec: tag_codec Rtsp_SessionState_to_tag Rtsp_SessionState_from_tag 4
  by (unfold_locales, (case_tac x; simp add: Rtsp_SessionState_from_tag_def), unfold Rtsp_SessionState_from_tag_def,
    (erule codec_arm, simp only: Rtsp_SessionState_to_tag.simps)+, erule codec_end, (case_tac x; simp), simp add: codec_eval)

interpretation Rtsp_StatusCode_codec: tag_codec Rtsp_StatusCode_to_tag Rtsp_StatusCode_from_tag 12
  by (unfold_locales, (case_tac x; simp add: Rtsp_StatusCode_from_tag_def), unfold Rtsp_StatusCode_from_tag_def,
    (erule codec_arm, simp only: Rtsp_StatusCode_to_tag.simps)+, erule codec_end, (case_tac x; simp), simp add: codec_eval)

interpretation RtspError_codec: tag_codec RtspError_to_tag RtspError_from_tag 7
  by (unfold_locales, (case_tac x; simp add: RtspError_from_tag_def), unfold RtspError_from_tag_def,
    (erule codec_arm, simp only: RtspError_to_tag.simps)+, erule codec_end, (case_tac x; simp), simp add: codec_eval)

lemma Rtsp_Method_ALL_exhaustive: "set Rtsp_Method_ALL = UNIV \<and> distinct Rtsp_Method_ALL"
  by (auto simp: Rtsp_Method_ALL_def) (case_tac x; simp)

lemma Rtsp_StatusCode_ALL_exhaustive: "set Rtsp_StatusCode_ALL = UNIV \<and> distinct Rtsp_StatusCode_ALL"
  by (auto simp: Rtsp_StatusCode_ALL_def) (case_tac x; simp)

end
