(* ===== verification/Ntp_Types.thy ===== *)
theory Ntp_Types
  imports Tag_Codec
begin

text \<open>
  The types of \<open>bindings/rust/src/ntp.rs\<close>: \<open>LeapIndicator\<close>,
  \<open>NtpMode\<close>, \<open>ExchangeState\<close>, \<open>ClockDisciplineState\<close>,
  \<open>KissCode\<close>, \<open>NtpError\<close>.
\<close>

definition NTP_PORT :: "u16" where
  "NTP_PORT = 123"

definition NTP_EPOCH_OFFSET :: "u64" where
  "NTP_EPOCH_OFFSET = 2208988800"

section \<open>\<open>ntp::LeapIndicator\<close>\<close>

datatype (plugins only: code) LeapIndicator =
    NoWarning
  | LastMinute61
  | LastMinute59
  | Unsynchronised

definition LeapIndicator_from_tag :: "u8 \<Rightarrow> LeapIndicator option" where
  "LeapIndicator_from_tag tag =
     (if tag = 0 then Some LeapIndicator.NoWarning
      else if tag = 1 then Some LeapIndicator.LastMinute61
      else if tag = 2 then Some LeapIndicator.LastMinute59
      else if tag = 3 then Some LeapIndicator.Unsynchronised
      else option.None)"

primrec LeapIndicator_to_tag :: "LeapIndicator \<Rightarrow> u8" where
  "LeapIndicator_to_tag LeapIndicator.NoWarning = 0"
| "LeapIndicator_to_tag LeapIndicator.LastMinute61 = 1"
| "LeapIndicator_to_tag LeapIndicator.LastMinute59 = 2"
| "LeapIndicator_to_tag LeapIndicator.Unsynchronised = 3"

definition LeapIndicator_is_synchronised :: "LeapIndicator \<Rightarrow> bool" where
  "LeapIndicator_is_synchronised self = (\<not>
     (case self of
      LeapIndicator.Unsynchronised \<Rightarrow> True
    | _ \<Rightarrow> False))"

definition LeapIndicator_has_leap_second :: "LeapIndicator \<Rightarrow> bool" where
  "LeapIndicator_has_leap_second self =
     (case self of
      LeapIndicator.LastMinute61 \<Rightarrow> True
    | LeapIndicator.LastMinute59 \<Rightarrow> True
    | _ \<Rightarrow> False)"

primrec LeapIndicator_fmt :: "LeapIndicator \<Rightarrow> string" where
  "LeapIndicator_fmt LeapIndicator.NoWarning = ''NoWarning''"
| "LeapIndicator_fmt LeapIndicator.LastMinute61 = ''LastMinute61''"
| "LeapIndicator_fmt LeapIndicator.LastMinute59 = ''LastMinute59''"
| "LeapIndicator_fmt LeapIndicator.Unsynchronised = ''Unsynchronised''"

section \<open>\<open>ntp::NtpMode\<close>\<close>

datatype (plugins only: code) NtpMode =
    Reserved
  | SymmetricActive
  | SymmetricPassive
  | Client
  | Server
  | Broadcast
  | ControlMessage
  | Private

definition NtpMode_from_tag :: "u8 \<Rightarrow> NtpMode option" where
  "NtpMode_from_tag tag =
     (if tag = 0 then Some NtpMode.Reserved
      else if tag = 1 then Some NtpMode.SymmetricActive
      else if tag = 2 then Some NtpMode.SymmetricPassive
      else if tag = 3 then Some NtpMode.Client
      else if tag = 4 then Some NtpMode.Server
      else if tag = 5 then Some NtpMode.Broadcast
      else if tag = 6 then Some NtpMode.ControlMessage
      else if tag = 7 then Some NtpMode.Private
      else option.None)"

primrec NtpMode_to_tag :: "NtpMode \<Rightarrow> u8" where
  "NtpMode_to_tag NtpMode.Reserved = 0"
| "NtpMode_to_tag NtpMode.SymmetricActive = 1"
| "NtpMode_to_tag NtpMode.SymmetricPassive = 2"
| "NtpMode_to_tag NtpMode.Client = 3"
| "NtpMode_to_tag NtpMode.Server = 4"
| "NtpMode_to_tag NtpMode.Broadcast = 5"
| "NtpMode_to_tag NtpMode.ControlMessage = 6"
| "NtpMode_to_tag NtpMode.Private = 7"

definition NtpMode_is_time_sync :: "NtpMode \<Rightarrow> bool" where
  "NtpMode_is_time_sync self =
     (case self of
      NtpMode.SymmetricActive \<Rightarrow> True
    | NtpMode.SymmetricPassive \<Rightarrow> True
    | NtpMode.Client \<Rightarrow> True
    | NtpMode.Server \<Rightarrow> True
    | NtpMode.Broadcast \<Rightarrow> True
    | _ \<Rightarrow> False)"

definition NtpMode_ALL :: "NtpMode list" where
  "NtpMode_ALL =
     [NtpMode.Reserved, NtpMode.SymmetricActive, NtpMode.SymmetricPassive, NtpMode.Client,
      NtpMode.Server, NtpMode.Broadcast, NtpMode.ControlMessage, NtpMode.Private]"

primrec NtpMode_fmt :: "NtpMode \<Rightarrow> string" where
  "NtpMode_fmt NtpMode.Reserved = ''Reserved''"
| "NtpMode_fmt NtpMode.SymmetricActive = ''SymmetricActive''"
| "NtpMode_fmt NtpMode.SymmetricPassive = ''SymmetricPassive''"
| "NtpMode_fmt NtpMode.Client = ''Client''"
| "NtpMode_fmt NtpMode.Server = ''Server''"
| "NtpMode_fmt NtpMode.Broadcast = ''Broadcast''"
| "NtpMode_fmt NtpMode.ControlMessage = ''ControlMessage''"
| "NtpMode_fmt NtpMode.Private = ''Private''"

section \<open>\<open>ntp::ExchangeState\<close>\<close>

datatype (plugins only: code) ExchangeState =
    Idle
  | RequestReceived
  | TimestampCalculated
  | ResponseSent

definition ExchangeState_from_tag :: "u8 \<Rightarrow> ExchangeState option" where
  "ExchangeState_from_tag tag =
     (if tag = 0 then Some ExchangeState.Idle
      else if tag = 1 then Some ExchangeState.RequestReceived
      else if tag = 2 then Some ExchangeState.TimestampCalculated
      else if tag = 3 then Some ExchangeState.ResponseSent
      else option.None)"

primrec ExchangeState_to_tag :: "ExchangeState \<Rightarrow> u8" where
  "ExchangeState_to_tag ExchangeState.Idle = 0"
| "ExchangeState_to_tag ExchangeState.RequestReceived = 1"
| "ExchangeState_to_tag ExchangeState.TimestampCalculated = 2"
| "ExchangeState_to_tag ExchangeState.ResponseSent = 3"

definition ExchangeState_can_transition_to :: "ExchangeState \<Rightarrow> ExchangeState \<Rightarrow> bool" where
  "ExchangeState_can_transition_to self next =
     (case (self, next) of
      (ExchangeState.Idle, ExchangeState.RequestReceived) \<Rightarrow> True
    | (ExchangeState.RequestReceived, ExchangeState.TimestampCalculated) \<Rightarrow> True
    | (ExchangeState.TimestampCalculated, ExchangeState.ResponseSent) \<Rightarrow> True
    | (ExchangeState.ResponseSent, ExchangeState.Idle) \<Rightarrow> True
    | _ \<Rightarrow> False)"

primrec ExchangeState_fmt :: "ExchangeState \<Rightarrow> string" where
  "ExchangeState_fmt ExchangeState.Idle = ''Idle''"
| "ExchangeState_fmt ExchangeState.RequestReceived = ''RequestReceived''"
| "ExchangeState_fmt ExchangeState.TimestampCalculated = ''TimestampCalculated''"
| "ExchangeState_fmt ExchangeState.ResponseSent = ''ResponseSent''"

section \<open>\<open>ntp::ClockDisciplineState\<close>\<close>

datatype (plugins only: code) ClockDisciplineState =
    Unset
  | Spike
  | Freq
  | Sync
  | Panic

definition ClockDisciplineState_from_tag :: "u8 \<Rightarrow> ClockDisciplineState option" where
  "ClockDisciplineState_from_tag tag =
     (if tag = 0 then Some ClockDisciplineState.Unset
      else if tag = 1 then Some ClockDisciplineState.Spike
      else if tag = 2 then Some ClockDisciplineState.Freq
      else if tag = 3 then Some ClockDisciplineState.Sync
      else if tag = 4 then Some ClockDisciplineState.Panic
      else option.None)"

primrec ClockDisciplineState_to_tag :: "ClockDisciplineState \<Rightarrow> u8" where
  "ClockDisciplineState_to_tag ClockDisciplineState.Unset = 0"
| "ClockDisciplineState_to_tag ClockDisciplineState.Spike = 1"
| "ClockDisciplineState_to_tag ClockDisciplineState.Freq = 2"
| "ClockDisciplineState_to_tag ClockDisciplineState.Sync = 3"
| "ClockDisciplineState_to_tag ClockDisciplineState.Panic = 4"

definition ClockDisciplineState_is_healthy :: "ClockDisciplineState \<Rightarrow> bool" where
  "ClockDisciplineState_is_healthy self =
     (case self of
      ClockDisciplineState.Freq \<Rightarrow> True
    | ClockDisciplineState.Sync \<Rightarrow> True
    | _ \<Rightarrow> False)"

definition ClockDisciplineState_needs_intervention :: "ClockDisciplineState \<Rightarrow> bool" where
  "ClockDisciplineState_needs_intervention self =
     (case self of
      ClockDisciplineState.Panic \<Rightarrow> True
    | _ \<Rightarrow> False)"

primrec ClockDisciplineState_fmt :: "ClockDisciplineState \<Rightarrow> string" where
  "ClockDisciplineState_fmt ClockDisciplineState.Unset = ''Unset''"
| "ClockDisciplineState_fmt ClockDisciplineState.Spike = ''Spike''"
| "ClockDisciplineState_fmt ClockDisciplineState.Freq = ''Freq''"
| "ClockDisciplineState_fmt ClockDisciplineState.Sync = ''Sync''"
| "ClockDisciplineState_fmt ClockDisciplineState.Panic = ''Panic''"

section \<open>\<open>ntp::KissCode\<close>\<close>

datatype (plugins only: code) KissCode =
    Deny
  | Rstr
  | Rate
  | Other

definition KissCode_from_tag :: "u8 \<Rightarrow> KissCode option" where
  "KissCode_from_tag tag =
     (if tag = 0 then Some KissCode.Deny
      else if tag = 1 then Some KissCode.Rstr
      else if tag = 2 then Some KissCode.Rate
      else if tag = 3 then Some KissCode.Other
      else option.None)"

primrec KissCode_to_tag :: "KissCode \<Rightarrow> u8" where
  "KissCode_to_tag KissCode.Deny = 0"
| "KissCode_to_tag KissCode.Rstr = 1"
| "KissCode_to_tag KissCode.Rate = 2"
| "KissCode_to_tag KissCode.Other = 3"

definition KissCode_code_str :: "KissCode \<Rightarrow> string" where
  "KissCode_code_str self =
     (case self of
      KissCode.Deny \<Rightarrow> ''DENY''
    | KissCode.Rstr \<Rightarrow> ''RSTR''
    | KissCode.Rate \<Rightarrow> ''RATE''
    | KissCode.Other \<Rightarrow> ''????'')"

definition KissCode_should_stop :: "KissCode \<Rightarrow> bool" where
  "KissCode_should_stop self =
     (case self of
      KissCode.Deny \<Rightarrow> True
    | KissCode.Rstr \<Rightarrow> True
    | _ \<Rightarrow> False)"

definition KissCode_fmt :: "KissCode \<Rightarrow> string" where
  "KissCode_fmt self = KissCode_code_str self"

section \<open>\<open>ntp::NtpError\<close>\<close>

datatype (plugins only: code) NtpError =
    Ok
  | InvalidSlot
  | NotActive
  | InvalidPacket
  | KissOfDeath
  | StratumTooHigh

definition NtpError_from_tag :: "u8 \<Rightarrow> NtpError option" where
  "NtpError_from_tag tag =
     (if tag = 0 then Some NtpError.Ok
      else if tag = 1 then Some NtpError.InvalidSlot
      else if tag = 2 then Some NtpError.NotActive
      else if tag = 3 then Some NtpError.InvalidPacket
      else if tag = 4 then Some NtpError.KissOfDeath
      else if tag = 5 then Some NtpError.StratumTooHigh
      else option.None)"

primrec NtpError_to_tag :: "NtpError \<Rightarrow> u8" where
  "NtpError_to_tag NtpError.Ok = 0"
| "NtpError_to_tag NtpError.InvalidSlot = 1"
| "NtpError_to_tag NtpError.NotActive = 2"
| "NtpError_to_tag NtpError.InvalidPacket = 3"
| "NtpError_to_tag NtpError.KissOfDeath = 4"
| "NtpError_to_tag NtpError.StratumTooHigh = 5"

definition NtpError_is_ok :: "NtpError \<Rightarrow> bool" where
  "NtpError_is_ok self =
     (case self of
      NtpError.Ok \<Rightarrow> True
    | _ \<Rightarrow> False)"

definition NtpError_is_remote_error :: "NtpError \<Rightarrow> bool" where
  "NtpError_is_remote_error self =
     (case self of
      NtpError.KissOfDeath \<Rightarrow> True
    | NtpError.StratumTooHigh \<Rightarrow> True
    | _ \<Rightarrow> False)"

primrec NtpError_fmt :: "NtpError \<Rightarrow> string" where
  "NtpError_fmt NtpError.Ok = ''Ok''"
| "NtpError_fmt NtpError.InvalidSlot = ''InvalidSlot''"
| "NtpError_fmt NtpError.NotActive = ''NotActive''"
| "NtpError_fmt NtpError.InvalidPacket = ''InvalidPacket''"
| "NtpError_fmt NtpError.KissOfDeath = ''KissOfDeath''"
| "NtpError_fmt NtpError.StratumTooHigh = ''StratumTooHigh''"

section \<open>Tags and enumerations\<close>

interpretation LeapIndicator_codec: tag_codec LeapIndicator_to_tag LeapIndicator_from_tag 4
  by (unfold_locales, (case_tac x; simp add: LeapIndicator_from_tag_def), unfold LeapIndicator_from_tag_def,
    (erule codec_arm, simp only: LeapIndicator_to_tag.simps)+, erule codec_end, (case_tac x; simp), simp add: codec_eval)

interpretation NtpMode_codec: tag_codec NtpMode_to_tag NtpMode_from_tag 8
  by (unfold_locales, (case_tac x; simp add: NtpMode_from_tag_def), unfold NtpMode_from_tag_def,
    (erule codec_arm, simp only: NtpMode_to_tag.simps)+, erule codec_end, (case_tac x; simp), simp add: codec_eval)

interpretation ExchangeState_codec: tag_codec ExchangeState_to_tag ExchangeState_from_tag 4
  by (unfold_locales, (case_tac x; simp add: ExchangeState_from_tag_def), unfold ExchangeState_from_tag_def,
    (erule codec_arm, simp only: ExchangeState_to_tag.simps)+, erule codec_end, (case_tac x; simp), simp add: codec_eval)

interpretation ClockDisciplineState_codec: tag_codec ClockDisciplineState_to_tag ClockDisciplineState_from_tag 5
  by (unfold_locales, (case_tac x; simp add: ClockDisciplineState_from_tag_def), unfold ClockDisciplineState_from_tag_def,
    (erule codec_arm, simp only: ClockDisciplineState_to_tag.simps)+, erule codec_end, (case_tac x; simp), simp add: codec_eval)

interpretation KissCode_codec: tag_codec KissCode_to_tag KissCode_from_tag 4
  by (unfold_locales, (case_tac x; simp add: KissCode_from_tag_def), unfold KissCode_from_tag_def,
    (erule codec_arm, simp only: KissCode_to_tag.simps)+, erule codec_end, (case_tac x; simp), simp add: codec_eval)

interpretation NtpError_codec: tag_codec NtpError_to_tag NtpError_from_tag 6
  by (unfold_locales, (case_tac x; simp add: NtpError_from_tag_def), unfold NtpError_from_tag_def,
    (erule codec_arm, simp only: NtpError_to_tag.simps)+, erule codec_end, (case_tac x; simp), simp add: codec_eval)

lemma NtpMode_ALL_exhaustive: "set NtpMode_ALL = UNIV \<and> distinct NtpMode_ALL"
  by (auto simp: NtpMode_ALL_def) (case_tac x; simp)

end
