(* ===== verification/Dhcp_Types.thy ===== *)
theory Dhcp_Types
  imports Tag_Codec
begin

text \<open>
  The types of \<open>bindings/rust/src/dhcp.rs\<close>: \<open>MessageType\<close>,
  \<open>OptionCode\<close>, \<open>HardwareType\<close>, \<open>DhcpState\<close>,
  \<open>LeaseState\<close>, \<open>RelaySubOption\<close>.
\<close>

definition DHCP_SERVER_PORT :: "u16" where
  "DHCP_SERVER_PORT = 67"

definition DHCP_CLIENT_PORT :: "u16" where
  "DHCP_CLIENT_PORT = 68"

section \<open>\<open>dhcp::MessageType\<close>\<close>

datatype (plugins only: code) Dhcp_MessageType =
    Discover
  | Offer
  | Request
  | Ack
  | Nak
  | Release
  | Inform
  | Decline

definition Dhcp_MessageType_from_tag :: "u8 \<Rightarrow> Dhcp_MessageType option" where
  "Dhcp_MessageType_from_tag tag =
     (if tag = 0 then Some Dhcp_MessageType.Discover
      else if tag = 1 then Some Dhcp_MessageType.Offer
      else if tag = 2 then Some Dhcp_MessageType.Request
      else if tag = 3 then Some Dhcp_MessageType.Ack
      else if tag = 4 then Some Dhcp_MessageType.Nak
      else if tag = 5 then Some Dhcp_MessageType.Release
      else if tag = 6 then Some Dhcp_MessageType.Inform
      else if tag = 7 then Some Dhcp_MessageType.Decline
      else option.None)"

primrec Dhcp_MessageType_to_tag :: "Dhcp_MessageType \<Rightarrow> u8" where
  "Dhcp_MessageType_to_tag Dhcp_MessageType.Discover = 0"
| "Dhcp_MessageType_to_tag Dhcp_MessageType.Offer = 1"
| "Dhcp_MessageType_to_tag Dhcp_MessageType.Request = 2"
| "Dhcp_MessageType_to_tag Dhcp_MessageType.Ack = 3"
| "Dhcp_MessageType_to_tag Dhcp_MessageType.Nak = 4"
| "Dhcp_MessageType_to_tag Dhcp_MessageType.Release = 5"
| "Dhcp_MessageType_to_tag Dhcp_MessageType.Inform = 6"
| "Dhcp_MessageType_to_tag Dhcp_MessageType.Decline = 7"

definition Dhcp_MessageType_is_client_message :: "Dhcp_MessageType \<Rightarrow> bool" where
  "Dhcp_MessageType_is_client_message self =
     (case self of
      Dhcp_MessageType.Discover \<Rightarrow> True
    | Dhcp_MessageType.Request \<Rightarrow> True
    | Dhcp_MessageType.Release \<Rightarrow> True
    | Dhcp_MessageType.Inform \<Rightarrow> True
    | Dhcp_MessageType.Decline \<Rightarrow> True
    | _ \<Rightarrow> False)"

definition Dhcp_MessageType_is_server_message :: "Dhcp_MessageType \<Rightarrow> bool" where
  "Dhcp_MessageType_is_server_message self =
     (case self of
      Dhcp_MessageType.Offer \<Rightarrow> True
    | Dhcp_MessageType.Ack \<Rightarrow> True
    | Dhcp_MessageType.Nak \<Rightarrow> True
    | _ \<Rightarrow> False)"

definition Dhcp_MessageType_ALL :: "Dhcp_MessageType list" where
  "Dhcp_MessageType_ALL =
     [Dhcp_MessageType.Discover, Dhcp_MessageType.Offer, Dhcp_MessageType.Request,
      Dhcp_MessageType.Ack, Dhcp_MessageType.Nak, Dhcp_MessageType.Release,
      Dhcp_MessageType.Inform, Dhcp_MessageType.Decline]"

primrec Dhcp_MessageType_fmt :: "Dhcp_MessageType \<Rightarrow> string" where
  "Dhcp_MessageType_fmt Dhcp_MessageType.Discover = ''Discover''"
| "Dhcp_MessageType_fmt Dhcp_MessageType.Offer = ''Offer''"
| "Dhcp_MessageType_fmt Dhcp_MessageType.Request = ''Request''"
| "Dhcp_MessageType_fmt Dhcp_MessageType.Ack = ''Ack''"
| "Dhcp_MessageType_fmt Dhcp_MessageType.Nak = ''Nak''"
| "Dhcp_MessageType_fmt Dhcp_MessageType.Release = ''Release''"
| "Dhcp_MessageType_fmt Dhcp_MessageType.Inform = ''Inform''"
| "Dhcp_MessageType_fmt Dhcp_MessageType.Decline = ''Decline''"

section \<open>\<open>dhcp::OptionCode\<close>\<close>

datatype (plugins only: code) OptionCode =
    SubnetMask
  | Router
  | Dns
  | DomainName
  | LeaseTime
  | ServerId
  | RequestedIp
  | MsgType

definition OptionCode_from_tag :: "u8 \<Rightarrow> OptionCode option" where
  "OptionCode_from_tag tag =
     (if tag = 0 then Some OptionCode.SubnetMask
      else if tag = 1 then Some OptionCode.Router
      else if tag = 2 then Some OptionCode.Dns
      else if tag = 3 then Some OptionCode.DomainName
      else if tag = 4 then Some OptionCode.LeaseTime
      else if tag = 5 then Some OptionCode.ServerId
      else if tag = 6 then Some OptionCode.RequestedIp
      else if tag = 7 then Some OptionCode.MsgType
      else option.None)"

primrec OptionCode_to_tag :: "OptionCode \<Rightarrow> u8" where
  "OptionCode_to_tag OptionCode.SubnetMask = 0"
| "OptionCode_to_tag OptionCode.Router = 1"
| "OptionCode_to_tag OptionCode.Dns = 2"
| "OptionCode_to_tag OptionCode.DomainName = 3"
| "OptionCode_to_tag OptionCode.LeaseTime = 4"
| "OptionCode_to_tag OptionCode.ServerId = 5"
| "OptionCode_to_tag OptionCode.RequestedIp = 6"
| "OptionCode_to_tag OptionCode.MsgType = 7"

definition OptionCode_ALL :: "OptionCode list" where
  "OptionCode_ALL =
     [OptionCode.SubnetMask, OptionCode.Router, OptionCode.Dns, OptionCode.DomainName,
      OptionCode.LeaseTime, OptionCode.ServerId, OptionCode.RequestedIp, OptionCode.MsgType]"

primrec OptionCode_fmt :: "OptionCode \<Rightarrow> string" where
  "OptionCode_fmt OptionCode.SubnetMask = ''SubnetMask''"
| "OptionCode_fmt OptionCode.Router = ''Router''"
| "OptionCode_fmt OptionCode.Dns = ''Dns''"
| "OptionCode_fmt OptionCode.DomainName = ''DomainName''"
| "OptionCode_fmt OptionCode.LeaseTime = ''LeaseTime''"
| "OptionCode_fmt OptionCode.ServerId = ''ServerId''"
| "OptionCode_fmt OptionCode.RequestedIp = ''RequestedIp''"
| "OptionCode_fmt OptionCode.MsgType = ''MsgType''"

section \<open>\<open>dhcp::HardwareType\<close>\<close>

datatype (plugins only: code) HardwareType =
    Ethernet
  | Ieee802
  | Arcnet
  | FrameRelay

definition HardwareType_from_tag :: "u8 \<Rightarrow> HardwareType option" where
  "HardwareType_from_tag tag =
     (if tag = 0 then Some HardwareType.Ethernet
      else if tag = 1 then Some HardwareType.Ieee802
      else if tag = 2 then Some HardwareType.Arcnet
      else if tag = 3 then Some HardwareType.FrameRelay
      else option.None)"

primrec HardwareType_to_tag :: "HardwareType \<Rightarrow> u8" where
  "HardwareType_to_tag HardwareType.Ethernet = 0"
| "HardwareType_to_tag HardwareType.Ieee802 = 1"
| "HardwareType_to_tag HardwareType.Arcnet = 2"
| "HardwareType_to_tag HardwareType.FrameRelay = 3"

definition HardwareType_addr_len :: "HardwareType \<Rightarrow> u8" where
  "HardwareType_addr_len self =
     (case self of
      HardwareType.Ethernet \<Rightarrow> 6
    | HardwareType.Ieee802 \<Rightarrow> 6
    | HardwareType.Arcnet \<Rightarrow> 1
    | HardwareType.FrameRelay \<Rightarrow> 4)"

definition HardwareType_ALL :: "HardwareType list" where
  "HardwareType_ALL =
     [HardwareType.Ethernet, HardwareType.Ieee802, HardwareType.Arcnet, HardwareType.FrameRelay]"

primrec HardwareType_fmt :: "HardwareType \<Rightarrow> string" where
  "HardwareType_fmt HardwareType.Ethernet = ''Ethernet''"
| "HardwareType_fmt HardwareType.Ieee802 = ''Ieee802''"
| "HardwareType_fmt HardwareType.Arcnet = ''Arcnet''"
| "HardwareType_fmt HardwareType.FrameRelay = ''FrameRelay''"

section \<open>\<open>dhcp::DhcpState\<close>\<close>

datatype (plugins only: code) DhcpState =
    Idle
  | DiscoverReceived
  | OfferSent
  | RequestReceived
  | AckSent
  | NakSent

definition DhcpState_from_tag :: "u8 \<Rightarrow> DhcpState option" where
  "DhcpState_from_tag tag =
     (if tag = 0 then Some DhcpState.Idle
      else if tag = 1 then Some DhcpState.DiscoverReceived
      else if tag = 2 then Some DhcpState.OfferSent
      else if tag = 3 then Some DhcpState.RequestReceived
      else if tag = 4 then Some DhcpState.AckSent
      else if tag = 5 then Some DhcpState.NakSent
      else option.None)"

primrec DhcpState_to_tag :: "DhcpState \<Rightarrow> u8" where
  "DhcpState_to_tag DhcpState.Idle = 0"
| "DhcpState_to_tag DhcpState.DiscoverReceived = 1"
| "DhcpState_to_tag DhcpState.OfferSent = 2"
| "DhcpState_to_tag DhcpState.RequestReceived = 3"
| "DhcpState_to_tag DhcpState.AckSent = 4"
| "DhcpState_to_tag DhcpState.NakSent = 5"

definition DhcpState_can_transition_to :: "DhcpState \<Rightarrow> DhcpState \<Rightarrow> bool" where
  "DhcpState_can_transition_to self next =
     (case (self, next) of
      (DhcpState.Idle, DhcpState.DiscoverReceived) \<Rightarrow> True
    | (DhcpState.DiscoverReceived, DhcpState.OfferSent) \<Rightarrow> True
    | (DhcpState.OfferSent, DhcpState.RequestReceived) \<Rightarrow> True
    | (DhcpState.RequestReceived, DhcpState.AckSent) \<Rightarrow> True
    | (DhcpState.RequestReceived, DhcpState.NakSent) \<Rightarrow> True
    | (DhcpState.AckSent, DhcpState.Idle) \<Rightarrow> True
    | (DhcpState.NakSent, DhcpState.Idle) \<Rightarrow> True
    | _ \<Rightarrow> False)"

definition DhcpState_ALL :: "DhcpState list" where
  "DhcpState_ALL =
     [DhcpState.Idle, DhcpState.DiscoverReceived, DhcpState.OfferSent, DhcpState.RequestReceived,
      DhcpState.AckSent, DhcpState.NakSent]"

primrec DhcpState_fmt :: "DhcpState \<Rightarrow> string" where
  "DhcpState_fmt DhcpState.Idle = ''Idle''"
| "DhcpState_fmt DhcpState.DiscoverReceived = ''DiscoverReceived''"
| "DhcpState_fmt DhcpState.OfferSent = ''OfferSent''"
| "DhcpState_fmt DhcpState.RequestReceived = ''RequestReceived''"
| "DhcpState_fmt DhcpState.AckSent = ''AckSent''"
| "DhcpState_fmt DhcpState.NakSent = ''NakSent''"

section \<open>\<open>dhcp::LeaseState\<close>\<close>

datatype (plugins only: code) LeaseState =
    Available
  | Offered
  | Bound
  | Renewing
  | Rebinding
  | Expired

definition LeaseState_from_tag :: "u8 \<Rightarrow> LeaseState option" where
  "LeaseState_from_tag tag =
     (if tag = 0 then Some LeaseState.Available
      else if tag = 1 then Some LeaseState.Offered
      else if tag = 2 then Some LeaseState.Bound
      else if tag = 3 then Some LeaseState.Renewing
      else if tag = 4 then Some LeaseState.Rebinding
      else if tag = 5 then Some LeaseState.Expired
      else option.None)"

primrec LeaseState_to_tag :: "LeaseState \<Rightarrow> u8" where
  "LeaseState_to_tag LeaseState.Available = 0"
| "LeaseState_to_tag LeaseState.Offered = 1"
| "LeaseState_to_tag LeaseState.Bound = 2"
| "LeaseState_to_tag LeaseState.Renewing = 3"
| "LeaseState_to_tag LeaseState.Rebinding = 4"
| "LeaseState_to_tag LeaseState.Expired = 5"

definition LeaseState_is_active :: "LeaseState \<Rightarrow> bool" where
  "LeaseState_is_active self =
     (case self of
      LeaseState.Bound \<Rightarrow> True
    | LeaseState.Renewing \<Rightarrow> True
    | LeaseState.Rebinding \<Rightarrow> True
    | _ \<Rightarrow> False)"

definition LeaseState_ALL :: "LeaseState list" where
  "LeaseState_ALL =
     [LeaseState.Available, LeaseState.Offered, LeaseState.Bound, LeaseState.Renewing,
      LeaseState.Rebinding, LeaseState.Expired]"

primrec LeaseState_fmt :: "LeaseState \<Rightarrow> string" where
  "LeaseState_fmt LeaseState.Available = ''Available''"
| "LeaseState_fmt LeaseState.Offered = ''Offered''"
| "LeaseState_fmt LeaseState.Bound = ''Bound''"
| "LeaseState_fmt LeaseState.Renewing = ''Renewing''"
| "LeaseState_fmt LeaseState.Rebinding = ''Rebinding''"
| "LeaseState_fmt LeaseState.Expired = ''Expired''"

section \<open>\<open>dhcp::RelaySubOption\<close>\<close>

datatype (plugins only: code) RelaySubOption =
    CircuitId
  | RemoteId

definition RelaySubOption_from_tag :: "u8 \<Rightarrow> RelaySubOption option" where
  "RelaySubOption_from_tag tag =
     (if tag = 0 then Some RelaySubOption.CircuitId
      else if tag = 1 then Some RelaySubOption.RemoteId
      else option.None)"

primrec RelaySubOption_to_tag :: "RelaySubOption \<Rightarrow> u8" where
  "RelaySubOption_to_tag RelaySubOption.CircuitId = 0"
| "RelaySubOption_to_tag RelaySubOption.RemoteId = 1"

primrec RelaySubOption_fmt :: "RelaySubOption \<Rightarrow> string" where
  "RelaySubOption_fmt RelaySubOption.CircuitId = ''CircuitId''"
| "RelaySubOption_fmt RelaySubOption.RemoteId = ''RemoteId''"

section \<open>Tags and enumerations\<close>

interpretation Dhcp_MessageType_codec: tag_codec Dhcp_MessageType_to_tag Dhcp_MessageType_from_tag 8
  by (unfold_locales, (case_tac x; simp add: Dhcp_MessageType_from_tag_def), unfold Dhcp_MessageType_from_tag_def,
    (erule codec_arm, simp only: Dhcp_MessageType_to_tag.simps)+, erule codec_end, (case_tac x; simp), simp add: codec_eval)

interpretation OptionCode_codec: tag_codec OptionCode_to_tag OptionCode_from_tag 8
  by (unfold_locales, (case_tac x; simp add: OptionCode_from_tag_def), unfold OptionCode_from_tag_def,
    (erule codec_arm, simp only: OptionCode_to_tag.simps)+, erule codec_end, (case_tac x; simp), simp add: codec_eval)

interpretation HardwareType_codec: tag_codec HardwareType_to_tag HardwareType_from_tag 4
  by (unfold_locales, (case_tac x; simp add: HardwareType_from_tag_def), unfold HardwareType_from_tag_def,
    (erule codec_arm, simp only: HardwareType_to_tag.simps)+, erule codec_end, (case_tac x; simp), simp add: codec_eval)

interpretation DhcpState_codec: tag_codec DhcpState_to_tag DhcpState_from_tag 6
  by (unfold_locales, (case_tac x; simp add: DhcpState_from_tag_def), unfold DhcpState_from_tag_def,
    (erule codec_arm, simp only: DhcpState_to_tag.simps)+, erule codec_end, (case_tac x; simp), simp add: codec_eval)

interpretation LeaseState_codec: tag_codec LeaseState_to_tag LeaseState_from_tag 6
  by (unfold_locales, (case_tac x; simp add: LeaseState_from_tag_def), unfold LeaseState_from_tag_def,
    (erule codec_arm, simp only: LeaseState_to_tag.simps)+, erule codec_end, (case_tac x; simp), simp add: codec_eval)

interpretation RelaySubOption_codec: tag_codec RelaySubOption_to_tag RelaySubOption_from_tag 2
  by (unfold_locales, (case_tac x; simp add: RelaySubOption_from_tag_def), unfold RelaySubOption_from_tag_def,
    (erule codec_arm, simp only: RelaySubOption_to_tag.simps)+, erule codec_end, (case_tac x; simp), simp add: codec_eval)

lemma Dhcp_MessageType_ALL_exhaustive: "set Dhcp_MessageType_ALL = UNIV \<and> distinct Dhcp_MessageType_ALL"
  by (auto simp: Dhcp_MessageType_ALL_def) (case_tac x; simp)

lemma OptionCode_ALL_exhaustive: "set OptionCode_ALL = UNIV \<and> distinct OptionCode_ALL"
  by (auto simp: OptionCode_ALL_def) (case_tac x; simp)

lemma HardwareType_ALL_exhaustive: "set HardwareType_ALL = UNIV \<and> distinct HardwareType_ALL"
  by (auto simp: HardwareType_ALL_def) (case_tac x; simp)

lemma DhcpState_ALL_exhaustive: "set DhcpState_ALL = UNIV \<and> distinct DhcpState_ALL"
  by (auto simp: DhcpState_ALL_def) (case_tac x; simp)

lemma LeaseState_ALL_exhaustive: "set LeaseState_ALL = UNIV \<and> distinct LeaseState_ALL"
  by (auto simp: LeaseState_ALL_def) (case_tac x; simp)

end
