(* ===== verification/Ldap_Types.thy ===== *)
theory Ldap_Types
  imports Tag_Codec
begin

text \<open>
  The types of \<open>bindings/rust/src/ldap.rs\<close>: \<open>SessionState\<close>,
  \<open>Operation\<close>, \<open>SearchScope\<close>, \<open>ResultCode\<close>.
\<close>

definition LDAP_PORT :: "u16" where
  "LDAP_PORT = 389"

definition LDAPS_PORT :: "u16" where
  "LDAPS_PORT = 636"

section \<open>\<open>ldap::SessionState\<close>\<close>

datatype (plugins only: code) Ldap_SessionState =
    Anonymous
  | Bound
  | Closed
  | Binding

definition Ldap_SessionState_from_tag :: "u8 \<Rightarrow> Ldap_SessionState option" where
  "Ldap_SessionState_from_tag tag =
     (if tag = 0 then Some Ldap_SessionState.Anonymous
      else if tag = 1 then Some Ldap_SessionState.Bound
      else if tag = 2 then Some Ldap_SessionState.Closed
      else if tag = 3 then Some Ldap_SessionState.Binding
      else option.None)"

primrec Ldap_SessionState_to_tag :: "Ldap_SessionState \<Rightarrow> u8" where
  "Ldap_SessionState_to_tag Ldap_SessionState.Anonymous = 0"
| "Ldap_SessionState_to_tag Ldap_SessionState.Bound = 1"
| "Ldap_SessionState_to_tag Ldap_SessionState.Closed = 2"
| "Ldap_SessionState_to_tag Ldap_SessionState.Binding = 3"

definition Ldap_SessionState_can_transition_to :: "Ldap_SessionState \<Rightarrow> Ldap_SessionState \<Rightarrow> bool" where
  "Ldap_SessionState_can_transition_to self next =
     (case (self, next) of
      (Ldap_SessionState.Anonymous, Ldap_SessionState.Binding) \<Rightarrow> True
    | (Ldap_SessionState.Binding, Ldap_SessionState.Bound) \<Rightarrow> True
    | (Ldap_SessionState.Binding, Ldap_SessionState.Anonymous) \<Rightarrow> True
    | (Ldap_SessionState.Bound, Ldap_SessionState.Anonymous) \<Rightarrow> True
    | (_, Ldap_SessionState.Closed) \<Rightarrow> True
    | _ \<Rightarrow> False)"

definition Ldap_SessionState_is_authenticated :: "Ldap_SessionState \<Rightarrow> bool" where
  "Ldap_SessionState_is_authenticated self =
     (case self of
      Ldap_SessionState.Bound \<Rightarrow> True
    | _ \<Rightarrow> False)"

primrec Ldap_SessionState_fmt :: "Ldap_SessionState \<Rightarrow> string" where
  "Ldap_SessionState_fmt Ldap_SessionState.Anonymous = ''Anonymous''"
| "Ldap_SessionState_fmt Ldap_SessionState.Bound = ''Bound''"
| "Ldap_SessionState_fmt Ldap_SessionState.Closed = ''Closed''"
| "Ldap_SessionState_fmt Ldap_SessionState.Binding = ''Binding''"

section \<open>\<open>ldap::Operation\<close>\<close>

datatype (plugins only: code) Ldap_Operation =
    Bind
  | Unbind
  | Search
  | Modify
  | Add
  | Delete
  | ModDn
  | Compare
  | Abandon
  | Extended

definition Ldap_Operation_from_tag :: "u8 \<Rightarrow> Ldap_Operation option" where
  "Ldap_Operation_from_tag tag =
     (if tag = 0 then Some Ldap_Operation.Bind
      else if tag = 1 then Some Ldap_Operation.Unbind
      else if tag = 2 then Some Ldap_Operation.Search
      else if tag = 3 then Some Ldap_Operation.Modify
      else if tag = 4 then Some Ldap_Operation.Add
      else if tag = 5 then Some Ldap_Operation.Delete
      else if tag = 6 then Some Ldap_Operation.ModDn
      else if tag = 7 then Some Ldap_Operation.Compare
      else if tag = 8 then Some Ldap_Operation.Abandon
      else if tag = 9 then Some Ldap_Operation.Extended
      else option.None)"

primrec Ldap_Operation_to_tag :: "Ldap_Operation \<Rightarrow> u8" where
  "Ldap_Operation_to_tag Ldap_Operation.Bind = 0"
| "Ldap_Operation_to_tag Ldap_Operation.Unbind = 1"
| "Ldap_Operation_to_tag Ldap_Operation.Search = 2"
| "Ldap_Operation_to_tag Ldap_Operation.Modify = 3"
| "Ldap_Operation_to_tag Ldap_Operation.Add = 4"
| "Ldap_Operation_to_tag Ldap_Operation.Delete = 5"
| "Ldap_Operation_to_tag Ldap_Operation.ModDn = 6"
| "Ldap_Operation_to_tag Ldap_Operation.Compare = 7"
| "Ldap_Operation_to_tag Ldap_Operation.Abandon = 8"
| "Ldap_Operation_to_tag Ldap_Operation.Extended = 9"

definition Ldap_Operation_is_write :: "Ldap_Operation \<Rightarrow> bool" where
  "Ldap_Operation_is_write self =
     (case self of
      Ldap_Operation.Modify \<Rightarrow> True
    | Ldap_Operation.Add \<Rightarrow> True
    | Ldap_Operation.Delete \<Rightarrow> True
    | Ldap_Operation.ModDn \<Rightarrow> True
    | _ \<Rightarrow> False)"

definition Ldap_Operation_requires_bind :: "Ldap_Operation \<Rightarrow> bool" where
  "Ldap_Operation_requires_bind self = (\<not>
     (case self of
      Ldap_Operation.Bind \<Rightarrow> True
    | Ldap_Operation.Unbind \<Rightarrow> True
    | Ldap_Operation.Abandon \<Rightarrow> True
    | _ \<Rightarrow> False))"

definition Ldap_Operation_ALL :: "Ldap_Operation list" where
  "Ldap_Operation_ALL =
     [Ldap_Operation.Bind, Ldap_Operation.Unbind, Ldap_Operation.Search, Ldap_Operation.Modify,
      Ldap_Operation.Add, Ldap_Operation.Delete, Ldap_Operation.ModDn,
      Ldap_Operation.Compare, Ldap_Operation.Abandon, Ldap_Operation.Extended]"

primrec Ldap_Operation_fmt :: "Ldap_Operation \<Rightarrow> string" where
  "Ldap_Operation_fmt Ldap_Operation.Bind = ''Bind''"
| "Ldap_Operation_fmt Ldap_Operation.Unbind = ''Unbind''"
| "Ldap_Operation_fmt Ldap_Operation.Search = ''Search''"
| "Ldap_Operation_fmt Ldap_Operation.Modify = ''Modify''"
| "Ldap_Operation_fmt Ldap_Operation.Add = ''Add''"
| "Ldap_Operation_fmt Ldap_Operation.Delete = ''Delete''"
| "Ldap_Operation_fmt Ldap_Operation.ModDn = ''ModDn''"
| "Ldap_Operation_fmt Ldap_Operation.Compare = ''Compare''"
| "Ldap_Operation_fmt Ldap_Operation.Abandon = ''Abandon''"
| "Ldap_Operation_fmt Ldap_Operation.Extended = ''Extended''"

section \<open>\<open>ldap::SearchScope\<close>\<close>

datatype (plugins only: code) SearchScope =
    BaseObject
  | SingleLevel
  | WholeSubtree

definition SearchScope_from_tag :: "u8 \<Rightarrow> SearchScope option" where
  "SearchScope_from_tag tag =
     (if tag = 0 then Some SearchScope.BaseObject
      else if tag = 1 then Some SearchScope.SingleLevel
      else if tag = 2 then Some SearchScope.WholeSubtree
      else option.None)"

primrec SearchScope_to_tag :: "SearchScope \<Rightarrow> u8" where
  "SearchScope_to_tag SearchScope.BaseObject = 0"
| "SearchScope_to_tag SearchScope.SingleLevel = 1"
| "SearchScope_to_tag SearchScope.WholeSubtree = 2"

definition SearchScope_fmt :: "SearchScope \<Rightarrow> string" where
  "SearchScope_fmt self =
     (case self of
      SearchScope.BaseObject \<Rightarrow> ''base''
    | SearchScope.SingleLevel \<Rightarrow> ''one''
    | SearchScope.WholeSubtree \<Rightarrow> ''sub'')"

section \<open>\<open>ldap::ResultCode\<close>\<close>

datatype (plugins only: code) Ldap_ResultCode =
    Success
  | OperationsError
  | ProtocolError
  | TimeLimitExceeded
  | SizeLimitExceeded
  | AuthMethodNotSupported
  | NoSuchObject
  | InvalidCredentials
  | InsufficientAccessRights
  | Busy
  | Unavailable

definition Ldap_ResultCode_from_tag :: "u8 \<Rightarrow> Ldap_ResultCode option" where
  "Ldap_ResultCode_from_tag tag =
     (if tag = 0 then Some Ldap_ResultCode.Success
      else if tag = 1 then Some Ldap_ResultCode.OperationsError
      else if tag = 2 then Some Ldap_ResultCode.ProtocolError
      else if tag = 3 then Some Ldap_ResultCode.TimeLimitExceeded
      else if tag = 4 then Some Ldap_ResultCode.SizeLimitExceeded
      else if tag = 5 then Some Ldap_ResultCode.AuthMethodNotSupported
      else if tag = 6 then Some Ldap_ResultCode.NoSuchObject
      else if tag = 7 then Some Ldap_ResultCode.InvalidCredentials
      else if tag = 8 then Some Ldap_ResultCode.InsufficientAccessRights
      else if tag = 9 then Some Ldap_ResultCode.Busy
      else if tag = 10 then Some Ldap_ResultCode.Unavailable
      else option.None)"

primrec Ldap_ResultCode_to_tag :: "Ldap_ResultCode \<Rightarrow> u8" where
  "Ldap_ResultCode_to_tag Ldap_ResultCode.Success = 0"
| "Ldap_ResultCode_to_tag Ldap_ResultCode.OperationsError = 1"
| "Ldap_ResultCode_to_tag Ldap_ResultCode.ProtocolError = 2"
| "Ldap_ResultCode_to_tag Ldap_ResultCode.TimeLimitExceeded = 3"
| "Ldap_ResultCode_to_tag Ldap_ResultCode.SizeLimitExceeded = 4"
| "Ldap_ResultCode_to_tag Ldap_ResultCode.AuthMethodNotSupported = 5"
| "Ldap_ResultCode_to_tag Ldap_ResultCode.NoSuchObject = 6"
| "Ldap_ResultCode_to_tag Ldap_ResultCode.InvalidCredentials = 7"
| "Ldap_ResultCode_to_tag Ldap_ResultCode.InsufficientAccessRights = 8"
| "Ldap_ResultCode_to_tag Ldap_ResultCode.Busy = 9"
| "Ldap_ResultCode_to_tag Ldap_ResultCode.Unavailable = 10"

definition Ldap_ResultCode_is_success :: "Ldap_ResultCode \<Rightarrow> bool" where
  "Ldap_ResultCode_is_success self =
     (case self of
      Ldap_ResultCode.Success \<Rightarrow> True
    | _ \<Rightarrow> False)"

definition Ldap_ResultCode_is_auth_failure :: "Ldap_ResultCode \<Rightarrow> bool" where
  "Ldap_ResultCode_is_auth_failure self =
     (case self of
      Ldap_ResultCode.AuthMethodNotSupported \<Rightarrow> True
    | Ldap_ResultCode.InvalidCredentials \<Rightarrow> True
    | Ldap_ResultCode.InsufficientAccessRights \<Rightarrow> True
    | _ \<Rightarrow> False)"

definition Ldap_ResultCode_is_transient :: "Ldap_ResultCode \<Rightarrow> bool" where
  "Ldap_ResultCode_is_transient self =
     (case self of
      Ldap_ResultCode.Busy \<Rightarrow> True
    | Ldap_ResultCode.Unavailable \<Rightarrow> True
    | _ \<Rightarrow> False)"

primrec Ldap_ResultCode_fmt :: "Ldap_ResultCode \<Rightarrow> string" where
  "Ldap_ResultCode_fmt Ldap_ResultCode.Success = ''Success''"
| "Ldap_ResultCode_fmt Ldap_ResultCode.OperationsError = ''OperationsError''"
| "Ldap_ResultCode_fmt Ldap_ResultCode.ProtocolError = ''ProtocolError''"
| "Ldap_ResultCode_fmt Ldap_ResultCode.TimeLimitExceeded = ''TimeLimitExceeded''"
| "Ldap_ResultCode_fmt Ldap_ResultCode.SizeLimitExceeded = ''SizeLimitExceeded''"
| "Ldap_ResultCode_fmt Ldap_ResultCode.AuthMethodNotSupported = ''AuthMethodNotSupported''"
| "Ldap_ResultCode_fmt Ldap_ResultCode.NoSuchObject = ''NoSuchObject''"
| "Ldap_ResultCode_fmt Ldap_ResultCode.InvalidCredentials = ''InvalidCredentials''"
| "Ldap_ResultCode_fmt Ldap_ResultCode.InsufficientAccessRights = ''InsufficientAccessRights''"
| "Ldap_ResultCode_fmt Ldap_ResultCode.Busy = ''Busy''"
| "Ldap_ResultCode_fmt Ldap_ResultCode.Unavailable = ''Unavailable''"

section \<open>Tags and enumerations\<close>

interpretation Ldap_SessionState_codec: tag_codec Ldap_SessionState_to_tag Ldap_SessionState_from_tag 4
  by (unfold_locales, (case_tac x; simp add: Ldap_SessionState_from_tag_def), unfold Ldap_SessionState_from_tag_def,
    (erule codec_arm, simp only: Ldap_SessionState_to_tag.simps)+, erule codec_end, (case_tac x; simp), simp add: codec_eval)

interpretation Ldap_Operation_codec: tag_codec Ldap_Operation_to_tag Ldap_Operation_from_tag 10
  by (unfold_locales, (case_tac x; simp add: Ldap_Operation_from_tag_def), unfold Ldap_Operation_from_tag_def,
    (erule codec_arm, simp only: Ldap_Operation_to_tag.simps)+, erule codec_end, (case_tac x; simp), simp add: codec_eval)

interpretation SearchScope_codec: tag_codec SearchScope_to_tag SearchScope_from_tag 3
  by (unfold_locales, (case_tac x; simp add: SearchScope_from_tag_def), unfold SearchScope_from_tag_def,
    (erule codec_arm, simp only: SearchScope_to_tag.simps)+, erule codec_end, (case_tac x; simp), simp add: codec_eval)

interpretation Ldap_ResultCode_codec: tag_codec Ldap_ResultCode_to_tag Ldap_ResultCode_from_tag 11
  by (unfold_locales, (case_tac x; simp add: Ldap_ResultCode_from_tag_def), unfold Ldap_ResultCode_from_tag_def,
    (erule codec_arm, simp only: Ldap_ResultCode_to_tag.simps)+, erule codec_end, (case_tac x; simp), simp add: codec_eval)

lemma Ldap_Operation_ALL_exhaustive: "set Ldap_Operation_ALL = UNIV \<and> distinct Ldap_Operation_ALL"
  by (auto simp: Ldap_Operation_ALL_def) (case_tac x; simp)

end
