(* ===== verification/Socks_Types.thy ===== *)
theory Socks_Types
  imports Tag_Codec
begin

text \<open>
  The types of \<open>bindings/rust/src/socks.rs\<close>: \<open>AuthMethod\<close>,
  \<open>Command\<close>, \<open>AddressType\<close>, \<open>Reply\<close>, \<open>State\<close>.
\<close>

definition SOCKS_PORT :: "u16" where
  "SOCKS_PORT = 1080"

section \<open>\<open>socks::AuthMethod\<close>\<close>

datatype (plugins only: code) Socks_AuthMethod =
    NoAuth
  | Gssapi
  | UsernamePassword
  | NoAcceptable

definition Socks_AuthMethod_from_tag :: "u8 \<Rightarrow> Socks_AuthMethod option" where
  "Socks_AuthMethod_from_tag tag =
     (if tag = 0 then Some Socks_AuthMethod.NoAuth
      else if tag = 1 then Some Socks_AuthMethod.Gssapi
      else if tag = 2 then Some Socks_AuthMethod.UsernamePassword
      else if tag = 3 then Some Socks_AuthMethod.NoAcceptable
      else option.None)"

primrec Socks_AuthMethod_to_tag :: "Socks_AuthMethod \<Rightarrow> u8" where
  "Socks_AuthMethod_to_tag Socks_AuthMethod.NoAuth = 0"
| "Socks_AuthMethod_to_tag Socks_AuthMethod.Gssapi = 1"
| "Socks_AuthMethod_to_tag Socks_AuthMethod.UsernamePassword = 2"
| "Socks_AuthMethod_to_tag Socks_AuthMethod.NoAcceptable = 3"

definition Socks_AuthMethod_ALL :: "Socks_AuthMethod list" where
  "Socks_AuthMethod_ALL =
     [Socks_AuthMethod.NoAuth, Socks_AuthMethod.Gssapi, Socks_AuthMethod.UsernamePassword,
      Socks_AuthMethod.NoAcceptable]"

primrec Socks_AuthMethod_fmt :: "Socks_AuthMethod \<Rightarrow> string" where
  "Socks_AuthMethod_fmt Socks_AuthMethod.NoAuth = ''NoAuth''"
| "Socks_AuthMethod_fmt Socks_AuthMethod.Gssapi = ''Gssapi''"
| "Socks_AuthMethod_fmt Socks_AuthMethod.UsernamePassword = ''UsernamePassword''"
| "Socks_AuthMethod_fmt Socks_AuthMethod.NoAcceptable = ''NoAcceptable''"

section \<open>\<open>socks::Command\<close>\<close>

datatype (plugins only: code) Socks_Command =
    Connect
  | Bind
  | UdpAssociate

definition Socks_Command_from_tag :: "u8 \<Rightarrow> Socks_Command option" where
  "Socks_Command_from_tag tag =
     (if tag = 0 then Some Socks_Command.Connect
      else if tag = 1 then Some Socks_Command.Bind
      else if tag = 2 then Some Socks_Command.UdpAssociate
      else option.None)"

primrec Socks_Command_to_tag :: "Socks_Command \<Rightarrow> u8" where
  "Socks_Command_to_tag Socks_Command.Connect = 0"
| "Socks_Command_to_tag Socks_Command.Bind = 1"
| "Socks_Command_to_tag Socks_Command.UdpAssociate = 2"

definition Socks_Command_ALL :: "Socks_Command list" where
  "Socks_Command_ALL =
     [Socks_Command.Connect, Socks_Command.Bind, Socks_Command.UdpAssociate]"

primrec Socks_Command_fmt :: "Socks_Command \<Rightarrow> string" where
  "Socks_Command_fmt Socks_Command.Connect = ''Connect''"
| "Socks_Command_fmt Socks_Command.Bind = ''Bind''"
| "Socks_Command_fmt Socks_Command.UdpAssociate = ''UdpAssociate''"

section \<open>\<open>socks::AddressType\<close>\<close>

datatype (plugins only: code) AddressType =
    IPv4
  | DomainName
  | IPv6

definition AddressType_from_tag :: "u8 \<Rightarrow> AddressType option" where
  "AddressType_from_tag tag =
     (if tag = 0 then Some AddressType.IPv4
      else if tag = 1 then Some AddressType.DomainName
      else if tag = 2 then Some AddressType.IPv6
      else option.None)"

primrec AddressType_to_tag :: "AddressType \<Rightarrow> u8" where
  "AddressType_to_tag AddressType.IPv4 = 0"
| "AddressType_to_tag AddressType.DomainName = 1"
| "AddressType_to_tag AddressType.IPv6 = 2"

definition AddressType_ALL :: "AddressType list" where
  "AddressType_ALL =
     [AddressType.IPv4, AddressType.DomainName, AddressType.IPv6]"

primrec AddressType_fmt :: "AddressType \<Rightarrow> string" where
  "AddressType_fmt AddressType.IPv4 = ''IPv4''"
| "AddressType_fmt AddressType.DomainName = ''DomainName''"
| "AddressType_fmt AddressType.IPv6 = ''IPv6''"

section \<open>\<open>socks::Reply\<close>\<close>

datatype (plugins only: code) Reply =
    Succeeded
  | GeneralFailure
  | NotAllowed
  | NetworkUnreachable
  | HostUnreachable
  | ConnectionRefused
  | TtlExpired
  | CommandNotSupported
  | AddressTypeNotSupported

definition Reply_from_tag :: "u8 \<Rightarrow> Reply option" where
  "Reply_from_tag tag =
     (if tag = 0 then Some Reply.Succeeded
      else if tag = 1 then Some Reply.GeneralFailure
      else if tag = 2 then Some Reply.NotAllowed
      else if tag = 3 then Some Reply.NetworkUnreachable
      else if tag = 4 then Some Reply.HostUnreachable
      else if tag = 5 then Some Reply.ConnectionRefused
      else if tag = 6 then Some Reply.TtlExpired
      else if tag = 7 then Some Reply.CommandNotSupported
      else if tag = 8 then Some Reply.AddressTypeNotSupported
      else option.None)"

primrec Reply_to_tag :: "Reply \<Rightarrow> u8" where
  "Reply_to_tag Reply.Succeeded = 0"
| "Reply_to_tag Reply.GeneralFailure = 1"
| "Reply_to_tag Reply.NotAllowed = 2"
| "Reply_to_tag Reply.NetworkUnreachable = 3"
| "Reply_to_tag Reply.HostUnreachable = 4"
| "Reply_to_tag Reply.ConnectionRefused = 5"
| "Reply_to_tag Reply.TtlExpired = 6"
| "Reply_to_tag Reply.CommandNotSupported = 7"
| "Reply_to_tag Reply.AddressTypeNotSupported = 8"

definition Reply_is_success :: "Reply \<Rightarrow> bool" where
  "Reply_is_success self =
     (case self of
      Reply.Succeeded \<Rightarrow> True
    | _ \<Rightarrow> False)"

definition Reply_is_network_error :: "Reply \<Rightarrow> bool" where
  "Reply_is_network_error self =
     (case self of
      Reply.NetworkUnreachable \<Rightarrow> True
    | Reply.HostUnreachable \<Rightarrow> True
    | Reply.ConnectionRefused \<Rightarrow> True
    | _ \<Rightarrow> False)"

definition Reply_ALL :: "Reply list" where
  "Reply_ALL =
     [Reply.Succeeded, Reply.GeneralFailure, Reply.NotAllowed, Reply.NetworkUnreachable,
      Reply.HostUnreachable, Reply.ConnectionRefused, Reply.TtlExpired,
      Reply.CommandNotSupported, Reply.AddressTypeNotSupported]"

primrec Reply_fmt :: "Reply \<Rightarrow> string" where
  "Reply_fmt Reply.Succeeded = ''Succeeded''"
| "Reply_fmt Reply.GeneralFailure = ''GeneralFailure''"
| "Reply_fmt Reply.NotAllowed = ''NotAllowed''"
| "Reply_fmt Reply.NetworkUnreachable = ''NetworkUnreachable''"
| "Reply_fmt Reply.HostUnreachable = ''HostUnreachable''"
| "Reply_fmt Reply.ConnectionRefused = ''ConnectionRefused''"
| "Reply_fmt Reply.TtlExpired = ''TtlExpired''"
| "Reply_fmt Reply.CommandNotSupported = ''CommandNotSupported''"
| "Reply_fmt Reply.AddressTypeNotSupported = ''AddressTypeNotSupported''"

section \<open>\<open>socks::State\<close>\<close>

datatype (plugins only: code) Socks_State =
    Initial
  | Authenticating
  | Authenticated
  | Connecting
  | Established
  | Closed

definition Socks_State_from_tag :: "u8 \<Rightarrow> Socks_State option" where
  "Socks_State_from_tag tag =
     (if tag = 0 then Some Socks_State.Initial
      else if tag = 1 then Some Socks_State.Authenticating
      else if tag = 2 then Some Socks_State.Authenticated
      else if tag = 3 then Some Socks_State.Connecting
      else if tag = 4 then Some Socks_State.Established
      else if tag = 5 then Some Socks_State.Closed
      else option.None)"

primrec Socks_State_to_tag :: "Socks_State \<Rightarrow> u8" where
  "Socks_State_to_tag Socks_State.Initial = 0"
| "Socks_State_to_tag Socks_State.Authenticating = 1"
| "Socks_State_to_tag Socks_State.Authenticated = 2"
| "Socks_State_to_tag Socks_State.Connecting = 3"
| "Socks_State_to_tag Socks_State.Established = 4"
| "Socks_State_to_tag Socks_State.Closed = 5"

definition Socks_State_can_transition_to :: "Socks_State \<Rightarrow> Socks_State \<Rightarrow> bool" where
  "Socks_State_can_transition_to self next =
     (case (self, next) of
      (Socks_State.Initial, Socks_State.Authenticating) \<Rightarrow> True
    | (Socks_State.Initial, Socks_State.Authenticated) \<Rightarrow> True
    | (Socks_State.Authenticating, Socks_State.Authenticated) \<Rightarrow> True
    | (Socks_State.Authenticated, Socks_State.Connecting) \<Rightarrow> True
    | (Socks_State.Connecting, Socks_State.Established) \<Rightarrow> True
    | (Socks_State.Connecting, Socks_State.Closed) \<Rightarrow> True
    | (Socks_State.Established, Socks_State.Closed) \<Rightarrow> True
    | _ \<Rightarrow> False)"

definition Socks_State_ALL :: "Socks_State list" where
  "Socks_State_ALL =
     [Socks_State.Initial, Socks_State.Authenticating, Socks_State.Authenticated,
      Socks_State.Connecting, Socks_State.Established, Socks_State.Closed]"

primrec Socks_State_fmt :: "Socks_State \<Rightarrow> string" where
  "Socks_State_fmt Socks_State.Initial = ''Initial''"
| "Socks_State_fmt Socks_State.Authenticating = ''Authenticating''"
| "Socks_State_fmt Socks_State.Authenticated = ''Authenticated''"
| "Socks_State_fmt Socks_State.Connecting = ''Connecting''"
| "Socks_State_fmt Socks_State.Established = ''Established''"
| "Socks_State_fmt Socks_State.Closed = ''Closed''"

section \<open>Tags and enumerations\<close>

interpretation Socks_AuthMethod_codec: tag_codec Socks_AuthMethod_to_tag Socks_AuthMethod_from_tag 4
  by (unfold_locales, (case_tac x; simp add: Socks_AuthMethod_from_tag_def), unfold Socks_AuthMethod_from_tag_def,
    (erule codec_arm, simp only: Socks_AuthMethod_to_tag.simps)+, erule codec_end, (case_tac x; simp), simp add: codec_eval)

interpretation Socks_Command_codec: tag_codec Socks_Command_to_tag Socks_Command_from_tag 3
  by (unfold_locales, (case_tac x; simp add: Socks_Command_from_tag_def), unfold Socks_Command_from_tag_def,
    (erule codec_arm, simp only: Socks_Command_to_tag.simps)+, erule codec_end, (case_tac x; simp), simp add: codec_eval)

interpretation AddressType_codec: tag_codec AddressType_to_tag AddressType_from_tag 3
  by (unfold_locales, (case_tac x; simp add: AddressType_from_tag_def), unfold AddressType_from_tag_def,
    (erule codec_arm, simp only: AddressType_to_tag.simps)+, erule codec_end, (case_tac x; simp), simp add: codec_eval)

interpretation Reply_codec: tag_codec Reply_to_tag Reply_from_tag 9
  by (unfold_locales, (case_tac x; simp add: Reply_from_tag_def), unfold Reply_from_tag_def,
    (erule codec_arm, simp only: Reply_to_tag.simps)+, erule codec_end, (case_tac x; simp), simp add: codec_eval)

interpretation Socks_State_codec: tag_codec Socks_State_to_tag Socks_State_from_tag 6
  by (unfold_locales, (case_tac x; simp add: Socks_State_from_tag_def), unfold Socks_State_from_tag_def,
    (erule codec_arm, simp only: Socks_State_to_tag.simps)+, erule codec_end, (case_tac x; simp), simp add: codec_eval)

lemma Socks_AuthMethod_ALL_exhaustive: "set Socks_AuthMethod_ALL = UNIV \<and> distinct Socks_AuthMethod_ALL"
  by (auto simp: Socks_AuthMethod_ALL_def) (case_tac x; simp)

lemma Socks_Command_ALL_exhaustive: "set Socks_Command_ALL = UNIV \<and> distinct Socks_Command_ALL"
  by (auto simp: Socks_Command_ALL_def) (case_tac x; simp)

lemma AddressType_ALL_exhaustive: "set AddressType_ALL = UNIV \<and> distinct AddressType_ALL"
  by (auto simp: AddressType_ALL_def) (case_tac x; simp)

lemma Reply_ALL_exhaustive: "set Reply_ALL = UNIV \<and> distinct Reply_ALL"
  by (auto simp: Reply_ALL_def) (case_tac x; simp)

lemma Socks_State_ALL_exhaustive: "set Socks_State_ALL = UNIV \<and> distinct Socks_State_ALL"
  by (auto simp: Socks_State_ALL_def) (case_tac x; simp)

end
