(* ===== verification/Irc_Types.thy ===== *)
theory Irc_Types
  imports Tag_Codec
begin

text \<open>
  The types of \<open>bindings/rust/src/irc.rs\<close>: \<open>Command\<close>,
  \<open>NumericReply\<close>, \<open>ChannelMode\<close>, \<open>State\<close>,
  \<open>IrcError\<close>.
\<close>

definition IRC_PORT :: "u16" where
  "IRC_PORT = 6667"

definition IRCS_PORT :: "u16" where
  "IRCS_PORT = 6697"

section \<open>\<open>irc::Command\<close>\<close>

datatype (plugins only: code) Irc_Command =
    Nick
  | User
  | Join
  | Part
  | Privmsg
  | Notice
  | Quit
  | Ping
  | Pong
  | Mode
  | Kick
  | Topic
  | Invite
  | Names
  | List
  | Who
  | Whois

definition Irc_Command_from_tag :: "u8 \<Rightarrow> Irc_Command option" where
  "Irc_Command_from_tag tag =
     (if tag = 0 then Some Irc_Command.Nick
      else if tag = 1 then Some Irc_Command.User
      else if tag = 2 then Some Irc_Command.Join
      else if tag = 3 then Some Irc_Command.Part
      else if tag = 4 then Some Irc_Command.Privmsg
      else if tag = 5 then Some Irc_Command.Notice
      else if tag = 6 then Some Irc_Command.Quit
      else if tag = 7 then Some Irc_Command.Ping
      else if tag = 8 then Some Irc_Command.Pong
      else if tag = 9 then Some Irc_Command.Mode
      else if tag = 10 then Some Irc_Command.Kick
      else if tag = 11 then Some Irc_Command.Topic
      else if tag = 12 then Some Irc_Command.Invite
      else if tag = 13 then Some Irc_Command.Names
      else if tag = 14 then Some Irc_Command.List
      else if tag = 15 then Some Irc_Command.Who
      else if tag = 16 then Some Irc_Command.Whois
      else option.None)"

primrec Irc_Command_to_tag :: "Irc_Command \<Rightarrow> u8" where
  "Irc_Command_to_tag Irc_Command.Nick = 0"
| "Irc_Command_to_tag Irc_Command.User = 1"
| "Irc_Command_to_tag Irc_Command.Join = 2"
| "Irc_Command_to_tag Irc_Command.Part = 3"
| "Irc_Command_to_tag Irc_Command.Privmsg = 4"
| "Irc_Command_to_tag Irc_Command.Notice = 5"
| "Irc_Command_to_tag Irc_Command.Quit = 6"
| "Irc_Command_to_tag Irc_Command.Ping = 7"
| "Irc_Command_to_tag Irc_Command.Pong = 8"
| "Irc_Command_to_tag Irc_Command.Mode = 9"
| "Irc_Command_to_tag Irc_Command.Kick = 10"
| "Irc_Command_to_tag Irc_Command.Topic = 11"
| "Irc_Command_to_tag Irc_Command.Invite = 12"
| "Irc_Command_to_tag Irc_Command.Names = 13"
| "Irc_Command_to_tag Irc_Command.List = 14"
| "Irc_Command_to_tag Irc_Command.Who = 15"
| "Irc_Command_to_tag Irc_Command.Whois = 16"

definition Irc_Command_name :: "Irc_Command \<Rightarrow> string" where
  "Irc_Command_name self =
     (case self of
      Irc_Command.Nick \<Rightarrow> ''NICK''
    | Irc_Command.User \<Rightarrow> ''USER''
    | Irc_Command.Join \<Rightarrow> ''JOIN''
    | Irc_Command.Part \<Rightarrow> ''PART''
    | Irc_Command.Privmsg \<Rightarrow> ''PRIVMSG''
    | Irc_Command.Notice \<Rightarrow> ''NOTICE''
    | Irc_Command.Quit \<Rightarrow> ''QUIT''
    | Irc_Command.Ping \<Rightarrow> ''PING''
    | Irc_Command.Pong \<Rightarrow> ''PONG''
    | Irc_Command.Mode \<Rightarrow> ''MODE''
    | Irc_Command.Kick \<Rightarrow> ''KICK''
    | Irc_Command.Topic \<Rightarrow> ''TOPIC''
    | Irc_Command.Invite \<Rightarrow> ''INVITE''
    | Irc_Command.Names \<Rightarrow> ''NAMES''
    | Irc_Command.List \<Rightarrow> ''LIST''
    | Irc_Command.Who \<Rightarrow> ''WHO''
    | Irc_Command.Whois \<Rightarrow> ''WHOIS'')"

definition Irc_Command_requires_op :: "Irc_Command \<Rightarrow> bool" where
  "Irc_Command_requires_op self =
     (case self of
      Irc_Command.Kick \<Rightarrow> True
    | Irc_Command.Mode \<Rightarrow> True
    | _ \<Rightarrow> False)"

definition Irc_Command_requires_registration :: "Irc_Command \<Rightarrow> bool" where
  "Irc_Command_requires_registration self = (\<not>
     (case self of
      Irc_Command.Nick \<Rightarrow> True
    | Irc_Command.User \<Rightarrow> True
    | Irc_Command.Ping \<Rightarrow> True
    | Irc_Command.Pong \<Rightarrow> True
    | Irc_Command.Quit \<Rightarrow> True
    | _ \<Rightarrow> False))"

definition Irc_Command_ALL :: "Irc_Command list" where
  "Irc_Command_ALL =
     [Irc_Command.Nick, Irc_Command.User, Irc_Command.Join, Irc_Command.Part, Irc_Command.Privmsg,
      Irc_Command.Notice, Irc_Command.Quit, Irc_Command.Ping, Irc_Command.Pong,
      Irc_Command.Mode, Irc_Command.Kick, Irc_Command.Topic, Irc_Command.Invite,
      Irc_Command.Names, Irc_Command.List, Irc_Command.Who, Irc_Command.Whois]"

definition Irc_Command_fmt :: "Irc_Command \<Rightarrow> string" where
  "Irc_Command_fmt self = Irc_Command_name self"

section \<open>\<open>irc::NumericReply\<close>\<close>

datatype (plugins only: code) NumericReply =
    Welcome
  | YourHost
  | Created
  | MyInfo
  | Bounce
  | NickInUse
  | NoSuchNick
  | NoSuchChannel
  | ChannelIsFull
  | InviteOnlyChan
  | BannedFromChan

definition NumericReply_from_tag :: "u8 \<Rightarrow> NumericReply option" where
  "NumericReply_from_tag tag =
     (if tag = 0 then Some NumericReply.Welcome
      else if tag = 1 then Some NumericReply.YourHost
      else if tag = 2 then Some NumericReply.Created
      else if tag = 3 then Some NumericReply.MyInfo
      else if tag = 4 then Some NumericReply.Bounce
      else if tag = 5 then Some NumericReply.NickInUse
      else if tag = 6 then Some NumericReply.NoSuchNick
      else if tag = 7 then Some NumericReply.NoSuchChannel
      else if tag = 8 then Some NumericReply.ChannelIsFull
      else if tag = 9 then Some NumericReply.InviteOnlyChan
      else if tag = 10 then Some NumericReply.BannedFromChan
      else option.None)"

primrec NumericReply_to_tag :: "NumericReply \<Rightarrow> u8" where
  "NumericReply_to_tag NumericReply.Welcome = 0"
| "NumericReply_to_tag NumericReply.YourHost = 1"
| "NumericReply_to_tag NumericReply.Created = 2"
| "NumericReply_to_tag NumericReply.MyInfo = 3"
| "NumericReply_to_tag NumericReply.Bounce = 4"
| "NumericReply_to_tag NumericReply.NickInUse = 5"
| "NumericReply_to_tag NumericReply.NoSuchNick = 6"
| "NumericReply_to_tag NumericReply.NoSuchChannel = 7"
| "NumericReply_to_tag NumericReply.ChannelIsFull = 8"
| "NumericReply_to_tag NumericReply.InviteOnlyChan = 9"
| "NumericReply_to_tag NumericReply.BannedFromChan = 10"

definition NumericReply_is_error :: "NumericReply \<Rightarrow> bool" where
  "NumericReply_is_error self =
     (case self of
      NumericReply.NickInUse \<Rightarrow> True
    | NumericReply.NoSuchNick \<Rightarrow> True
    | NumericReply.NoSuchChannel \<Rightarrow> True
    | NumericReply.ChannelIsFull \<Rightarrow> True
    | NumericReply.InviteOnlyChan \<Rightarrow> True
    | NumericReply.BannedFromChan \<Rightarrow> True
    | _ \<Rightarrow> False)"

definition NumericReply_ALL :: "NumericReply list" where
  "NumericReply_ALL =
     [NumericReply.Welcome, NumericReply.YourHost, NumericReply.Created, NumericReply.MyInfo,
      NumericReply.Bounce, NumericReply.NickInUse, NumericReply.NoSuchNick,
      NumericReply.NoSuchChannel, NumericReply.ChannelIsFull, NumericReply.InviteOnlyChan,
      NumericReply.BannedFromChan]"

primrec NumericReply_fmt :: "NumericReply \<Rightarrow> string" where
  "NumericReply_fmt NumericReply.Welcome = ''Welcome''"
| "NumericReply_fmt NumericReply.YourHost = ''YourHost''"
| "NumericReply_fmt NumericReply.Created = ''Created''"
| "NumericReply_fmt NumericReply.MyInfo = ''MyInfo''"
| "NumericReply_fmt NumericReply.Bounce = ''Bounce''"
| "NumericReply_fmt NumericReply.NickInUse = ''NickInUse''"
| "NumericReply_fmt NumericReply.NoSuchNick = ''NoSuchNick''"
| "NumericReply_fmt NumericReply.NoSuchChannel = ''NoSuchChannel''"
| "NumericReply_fmt NumericReply.ChannelIsFull = ''ChannelIsFull''"
| "NumericReply_fmt NumericReply.InviteOnlyChan = ''InviteOnlyChan''"
| "NumericReply_fmt NumericReply.BannedFromChan = ''BannedFromChan''"

section \<open>\<open>irc::ChannelMode\<close>\<close>

datatype (plugins only: code) ChannelMode =
    Op
  | Voice
  | Ban
  | Limit
  | InviteOnly
  | Moderated
  | NoExternalMsgs
  | TopicLock
  | Secret
  | Private

definition ChannelMode_from_tag :: "u8 \<Rightarrow> ChannelMode option" where
  "ChannelMode_from_tag tag =
     (if tag = 0 then Some ChannelMode.Op
      else if tag = 1 then Some ChannelMode.Voice
      else if tag = 2 then Some ChannelMode.Ban
      else if tag = 3 then Some ChannelMode.Limit
      else if tag = 4 then Some ChannelMode.InviteOnly
      else if tag = 5 then Some ChannelMode.Moderated
      else if tag = 6 then Some ChannelMode.NoExternalMsgs
      else if tag = 7 then Some ChannelMode.TopicLock
      else if tag = 8 then Some ChannelMode.Secret
      else if tag = 9 then Some ChannelMode.Private
      else option.None)"

primrec ChannelMode_to_tag :: "ChannelMode \<Rightarrow> u8" where
  "ChannelMode_to_tag ChannelMode.Op = 0"
| "ChannelMode_to_tag ChannelMode.Voice = 1"
| "ChannelMode_to_tag ChannelMode.Ban = 2"
| "ChannelMode_to_tag ChannelMode.Limit = 3"
| "ChannelMode_to_tag ChannelMode.InviteOnly = 4"
| "ChannelMode_to_tag ChannelMode.Moderated = 5"
| "ChannelMode_to_tag ChannelMode.NoExternalMsgs = 6"
| "ChannelMode_to_tag ChannelMode.TopicLock = 7"
| "ChannelMode_to_tag ChannelMode.Secret = 8"
| "ChannelMode_to_tag ChannelMode.Private = 9"

definition ChannelMode_mode_char :: "ChannelMode \<Rightarrow> char" where
  "ChannelMode_mode_char self =
     (case self of
      ChannelMode.Op \<Rightarrow> CHR ''o''
    | ChannelMode.Voice \<Rightarrow> CHR ''v''
    | ChannelMode.Ban \<Rightarrow> CHR ''b''
    | ChannelMode.Limit \<Rightarrow> CHR ''l''
    | ChannelMode.InviteOnly \<Rightarrow> CHR ''i''
    | ChannelMode.Moderated \<Rightarrow> CHR ''m''
    | ChannelMode.NoExternalMsgs \<Rightarrow> CHR ''n''
    | ChannelMode.TopicLock \<Rightarrow> CHR ''t''
    | ChannelMode.Secret \<Rightarrow> CHR ''s''
    | ChannelMode.Private \<Rightarrow> CHR ''p'')"

definition ChannelMode_requires_parameter :: "ChannelMode \<Rightarrow> bool" where
  "ChannelMode_requires_parameter self =
     (case self of
      ChannelMode.Op \<Rightarrow> True
    | ChannelMode.Voice \<Rightarrow> True
    | ChannelMode.Ban \<Rightarrow> True
    | ChannelMode.Limit \<Rightarrow> True
    | _ \<Rightarrow> False)"

definition ChannelMode_ALL :: "ChannelMode list" where
  "ChannelMode_ALL =
     [ChannelMode.Op, ChannelMode.Voice, ChannelMode.Ban, ChannelMode.Limit,
      ChannelMode.InviteOnly, ChannelMode.Moderated, ChannelMode.NoExternalMsgs,
      ChannelMode.TopicLock, ChannelMode.Secret, ChannelMode.Private]"

definition ChannelMode_fmt :: "ChannelMode \<Rightarrow> string" where
  "ChannelMode_fmt self = ''+'' @ [ChannelMode_mode_char self]"

section \<open>\<open>irc::State\<close>\<close>

datatype (plugins only: code) Irc_State =
    Disconnected
  | Connecting
  | Registered
  | InChannel
  | Quitting

definition Irc_State_from_tag :: "u8 \<Rightarrow> Irc_State option" where
  "Irc_State_from_tag tag =
     (if tag = 0 then Some Irc_State.Disconnected
      else if tag = 1 then Some Irc_State.Connecting
      else if tag = 2 then Some Irc_State.Registered
      else if tag = 3 then Some Irc_State.InChannel
      else if tag = 4 then Some Irc_State.Quitting
      else option.None)"

primrec Irc_State_to_tag :: "Irc_State \<Rightarrow> u8" where
  "Irc_State_to_tag Irc_State.Disconnected = 0"
| "Irc_State_to_tag Irc_State.Connecting = 1"
| "Irc_State_to_tag Irc_State.Registered = 2"
| "Irc_State_to_tag Irc_State.InChannel = 3"
| "Irc_State_to_tag Irc_State.Quitting = 4"

definition Irc_State_can_transition_to :: "Irc_State \<Rightarrow> Irc_State \<Rightarrow> bool" where
  "Irc_State_can_transition_to self next =
     (case (self, next) of
      (Irc_State.Disconnected, Irc_State.Connecting) \<Rightarrow> True
    | (Irc_State.Connecting, Irc_State.Registered) \<Rightarrow> True
    | (Irc_State.Registered, Irc_State.InChannel) \<Rightarrow> True
    | (Irc_State.InChannel, Irc_State.Registered) \<Rightarrow> True
    | (Irc_State.Registered, Irc_State.Quitting) \<Rightarrow> True
    | (Irc_State.InChannel, Irc_State.Quitting) \<Rightarrow> True
    | (Irc_State.Quitting, Irc_State.Disconnected) \<Rightarrow> True
    | _ \<Rightarrow> False)"

primrec Irc_State_fmt :: "Irc_State \<Rightarrow> string" where
  "Irc_State_fmt Irc_State.Disconnected = ''Disconnected''"
| "Irc_State_fmt Irc_State.Connecting = ''Connecting''"
| "Irc_State_fmt Irc_State.Registered = ''Registered''"
| "Irc_State_fmt Irc_State.InChannel = ''InChannel''"
| "Irc_State_fmt Irc_State.Quitting = ''Quitting''"

section \<open>\<open>irc::IrcError\<close>\<close>

datatype (plugins only: code) IrcError =
    NoneV
  | NickInUse
  | ChannelFull
  | InviteOnly
  | Banned
  | NotRegistered

definition IrcError_from_tag :: "u8 \<Rightarrow> IrcError option" where
  "IrcError_from_tag tag =
     (if tag = 0 then Some IrcError.NoneV
      else if tag = 1 then Some IrcError.NickInUse
      else if tag = 2 then Some IrcError.ChannelFull
      else if tag = 3 then Some IrcError.InviteOnly
      else if tag = 4 then Some IrcError.Banned
      else if tag = 5 then Some IrcError.NotRegistered
      else option.None)"

primrec IrcError_to_tag :: "IrcError \<Rightarrow> u8" where
  "IrcError_to_tag IrcError.NoneV = 0"
| "IrcError_to_tag IrcError.NickInUse = 1"
| "IrcError_to_tag IrcError.ChannelFull = 2"
| "IrcError_to_tag IrcError.InviteOnly = 3"
| "IrcError_to_tag IrcError.Banned = 4"
| "IrcError_to_tag IrcError.NotRegistered = 5"

definition IrcError_is_success :: "IrcError \<Rightarrow> bool" where
  "IrcError_is_success self =
     (case self of
      IrcError.NoneV \<Rightarrow> True
    | _ \<Rightarrow> False)"

definition IrcError_is_channel_error :: "IrcError \<Rightarrow> bool" where
  "IrcError_is_channel_error self =
     (case self of
      IrcError.ChannelFull \<Rightarrow> True
    | IrcError.InviteOnly \<Rightarrow> True
    | IrcError.Banned \<Rightarrow> True
    | _ \<Rightarrow> False)"

definition IrcError_ALL :: "IrcError list" where
  "IrcError_ALL =
     [IrcError.NoneV, IrcError.NickInUse, IrcError.ChannelFull, IrcError.InviteOnly,
      IrcError.Banned, IrcError.NotRegistered]"

primrec IrcError_fmt :: "IrcError \<Rightarrow> string" where
  "IrcError_fmt IrcError.NoneV = ''None''"
| "IrcError_fmt IrcError.NickInUse = ''NickInUse''"
| "IrcError_fmt IrcError.ChannelFull = ''ChannelFull''"
| "IrcError_fmt IrcError.InviteOnly = ''InviteOnly''"
| "IrcError_fmt IrcError.Banned = ''Banned''"
| "IrcError_fmt IrcError.NotRegistered = ''NotRegistered''"

section \<open>Tags and enumerations\<close>

interpretation Irc_Command_codec: tag_codec Irc_Command_to_tag Irc_Command_from_tag 17
  by (unfold_locales, (case_tac x; simp add: Irc_Command_from_tag_def), unfold Irc_Command_from_tag_def,
    (erule codec_arm, simp only: Irc_Command_to_tag.simps)+, erule codec_end, (case_tac x; simp), simp add: codec_eval)

interpretation NumericReply_codec: tag_codec NumericReply_to_tag NumericReply_from_tag 11
  by (unfold_locales, (case_tac x; simp add: NumericReply_from_tag_def), unfold NumericReply_from_tag_def,
    (erule codec_arm, simp only: NumericReply_to_tag.simps)+, erule codec_end, (case_tac x; simp), simp add: codec_eval)

interpretation ChannelMode_codec: tag_codec ChannelMode_to_tag ChannelMode_from_tag 10
  by (unfold_locales, (case_tac x; simp add: ChannelMode_from_tag_def), unfold ChannelMode_from_tag_def,
    (erule codec_arm, simp only: ChannelMode_to_tag.simps)+, erule codec_end, (case_tac x; simp), simp add: codec_eval)

interpretation Irc_State_codec: tag_codec Irc_State_to_tag Irc_State_from_tag 5
  by (unfold_locales, (case_tac x; simp add: Irc_State_from_tag_def), unfold Irc_State_from_tag_def,
    (erule codec_arm, simp only: Irc_State_to_tag.simps)+, erule codec_end, (case_tac x; simp), simp add: codec_eval)

interpretation IrcError_codec: tag_codec IrcError_to_tag IrcError_from_tag 6
  by (unfold_locales, (case_tac x; simp add: IrcError_from_tag_def), unfold IrcError_from_tag_def,
    (erule codec_arm, simp only: IrcError_to_tag.simps)+, erule codec_end, (case_tac x; simp), simp add: codec_eval)

lemma Irc_Command_ALL_exhaustive: "set Irc_Command_ALL = UNIV \<and> distinct Irc_Command_ALL"
  by (auto simp: Irc_Command_ALL_def) (case_tac x; simp)

lemma NumericReply_ALL_exhaustive: "set NumericReply_ALL = UNIV \<and> distinct NumericReply_ALL"
  by (auto simp: NumericReply_ALL_def) (case_tac x; simp)

lemma ChannelMode_ALL_exhaustive: "set ChannelMode_ALL = UNIV \<and> distinct ChannelMode_ALL"
  by (auto simp: ChannelMode_ALL_def) (case_tac x; simp)

lemma IrcError_ALL_exhaustive: "set IrcError_ALL = UNIV \<and> distinct IrcError_ALL"
  by (auto simp: IrcError_ALL_def) (case_tac x; simp)

end
