(* ===== verification/Imap_Types.thy ===== *)
theory Imap_Types
  imports Tag_Codec
begin

text \<open>
  The types of \<open>bindings/rust/src/imap.rs\<close>: \<open>Command\<close>,
  \<open>State\<close>, \<open>Flag\<close>.
\<close>

definition IMAP_PORT :: "u16" where
  "IMAP_PORT = 143"

definition IMAPS_PORT :: "u16" where
  "IMAPS_PORT = 993"

section \<open>\<open>imap::Command\<close>\<close>

datatype (plugins only: code) Imap_Command =
    Login
  | Logout
  | Select
  | Examine
  | Create
  | Delete
  | Rename
  | List
  | Fetch
  | Store
  | Search
  | Copy
  | Noop
  | Capability

definition Imap_Command_from_tag :: "u8 \<Rightarrow> Imap_Command option" where
  "Imap_Command_from_tag tag =
     (if tag = 0 then Some Imap_Command.Login
      else if tag = 1 then Some Imap_Command.Logout
      else if tag = 2 then Some Imap_Command.Select
      else if tag = 3 then Some Imap_Command.Examine
      else if tag = 4 then Some Imap_Command.Create
      else if tag = 5 then Some Imap_Command.Delete
      else if tag = 6 then Some Imap_Command.Rename
      else if tag = 7 then Some Imap_Command.List
      else if tag = 8 then Some Imap_Command.Fetch
      else if tag = 9 then Some Imap_Command.Store
      else if tag = 10 then Some Imap_Command.Search
      else if tag = 11 then Some Imap_Command.Copy
      else if tag = 12 then Some Imap_Command.Noop
      else if tag = 13 then Some Imap_Command.Capability
      else option.None)"

primrec Imap_Command_to_tag :: "Imap_Command \<Rightarrow> u8" where
  "Imap_Command_to_tag Imap_Command.Login = 0"
| "Imap_Command_to_tag Imap_Command.Logout = 1"
| "Imap_Command_to_tag Imap_Command.Select = 2"
| "Imap_Command_to_tag Imap_Command.Examine = 3"
| "Imap_Command_to_tag Imap_Command.Create = 4"
| "Imap_Command_to_tag Imap_Command.Delete = 5"
| "Imap_Command_to_tag Imap_Command.Rename = 6"
| "Imap_Command_to_tag Imap_Command.List = 7"
| "Imap_Command_to_tag Imap_Command.Fetch = 8"
| "Imap_Command_to_tag Imap_Command.Store = 9"
| "Imap_Command_to_tag Imap_Command.Search = 10"
| "Imap_Command_to_tag Imap_Command.Copy = 11"
| "Imap_Command_to_tag Imap_Command.Noop = 12"
| "Imap_Command_to_tag Imap_Command.Capability = 13"

definition Imap_Command_name :: "Imap_Command \<Rightarrow> string" where
  "Imap_Command_name self =
     (case self of
      Imap_Command.Login \<Rightarrow> ''LOGIN''
    | Imap_Command.Logout \<Rightarrow> ''LOGOUT''
    | Imap_Command.Select \<Rightarrow> ''SELECT''
    | Imap_Command.Examine \<Rightarrow> ''EXAMINE''
    | Imap_Command.Create \<Rightarrow> ''CREATE''
    | Imap_Command.Delete \<Rightarrow> ''DELETE''
    | Imap_Command.Rename \<Rightarrow> ''RENAME''
    | Imap_Command.List \<Rightarrow> ''LIST''
    | Imap_Command.Fetch \<Rightarrow> ''FETCH''
    | Imap_Command.Store \<Rightarrow> ''STORE''
    | Imap_Command.Search \<Rightarrow> ''SEARCH''
    | Imap_Command.Copy \<Rightarrow> ''COPY''
    | Imap_Command.Noop \<Rightarrow> ''NOOP''
    | Imap_Command.Capability \<Rightarrow> ''CAPABILITY'')"

section \<open>\<open>imap::State\<close>\<close>

datatype (plugins only: code) Imap_State =
    NotAuthenticated
  | Authenticated
  | Selected
  | Logout

definition Imap_Command_required_state :: "Imap_Command \<Rightarrow> Imap_State" where
  "Imap_Command_required_state self =
     (case self of
      Imap_Command.Login \<Rightarrow> Imap_State.NotAuthenticated
    | Imap_Command.Logout \<Rightarrow> Imap_State.NotAuthenticated
    | Imap_Command.Capability \<Rightarrow> Imap_State.NotAuthenticated
    | Imap_Command.Noop \<Rightarrow> Imap_State.NotAuthenticated
    | Imap_Command.Select \<Rightarrow> Imap_State.Authenticated
    | Imap_Command.Examine \<Rightarrow> Imap_State.Authenticated
    | Imap_Command.Create \<Rightarrow> Imap_State.Authenticated
    | Imap_Command.Delete \<Rightarrow> Imap_State.Authenticated
    | Imap_Command.Rename \<Rightarrow> Imap_State.Authenticated
    | Imap_Command.List \<Rightarrow> Imap_State.Authenticated
    | Imap_Command.Fetch \<Rightarrow> Imap_State.Selected
    | Imap_Command.Store \<Rightarrow> Imap_State.Selected
    | Imap_Command.Search \<Rightarrow> Imap_State.Selected
    | Imap_Command.Copy \<Rightarrow> Imap_State.Selected)"

definition Imap_Command_is_write :: "Imap_Command \<Rightarrow> bool" where
  "Imap_Command_is_write self =
     (case self of
      Imap_Command.Create \<Rightarrow> True
    | Imap_Command.Delete \<Rightarrow> True
    | Imap_Command.Rename \<Rightarrow> True
    | Imap_Command.Store \<Rightarrow> True
    | Imap_Command.Copy \<Rightarrow> True
    | _ \<Rightarrow> False)"

definition Imap_Command_ALL :: "Imap_Command list" where
  "Imap_Command_ALL =
     [Imap_Command.Login, Imap_Command.Logout, Imap_Command.Select, Imap_Command.Examine,
      Imap_Command.Create, Imap_Command.Delete, Imap_Command.Rename, Imap_Command.List,
      Imap_Command.Fetch, Imap_Command.Store, Imap_Command.Search, Imap_Command.Copy,
      Imap_Command.Noop, Imap_Command.Capability]"

definition Imap_Command_fmt :: "Imap_Command \<Rightarrow> string" where
  "Imap_Command_fmt self = Imap_Command_name self"

definition Imap_State_from_tag :: "u8 \<Rightarrow> Imap_State option" where
  "Imap_State_from_tag tag =
     (if tag = 0 then Some Imap_State.NotAuthenticated
      else if tag = 1 then Some Imap_State.Authenticated
      else if tag = 2 then Some Imap_State.Selected
      else if tag = 3 then Some Imap_State.Logout
      else option.None)"

primrec Imap_State_to_tag :: "Imap_State \<Rightarrow> u8" where
  "Imap_State_to_tag Imap_State.NotAuthenticated = 0"
| "Imap_State_to_tag Imap_State.Authenticated = 1"
| "Imap_State_to_tag Imap_State.Selected = 2"
| "Imap_State_to_tag Imap_State.Logout = 3"

definition Imap_State_can_transition_to :: "Imap_State \<Rightarrow> Imap_State \<Rightarrow> bool" where
  "Imap_State_can_transition_to self next =
     (case (self, next) of
      (Imap_State.NotAuthenticated, Imap_State.Authenticated) \<Rightarrow> True
    | (Imap_State.Authenticated, Imap_State.Selected) \<Rightarrow> True
    | (Imap_State.Selected, Imap_State.Authenticated) \<Rightarrow> True
    | (Imap_State.NotAuthenticated, Imap_State.Logout) \<Rightarrow> True
    | (Imap_State.Authenticated, Imap_State.Logout) \<Rightarrow> True
    | (Imap_State.Selected, Imap_State.Logout) \<Rightarrow> True
    | _ \<Rightarrow> False)"

primrec Imap_State_fmt :: "Imap_State \<Rightarrow> string" where
  "Imap_State_fmt Imap_State.NotAuthenticated = ''NotAuthenticated''"
| "Imap_State_fmt Imap_State.Authenticated = ''Authenticated''"
| "Imap_State_fmt Imap_State.Selected = ''Selected''"
| "Imap_State_fmt Imap_State.Logout = ''Logout''"

section \<open>\<open>imap::Flag\<close>\<close>

datatype (plugins only: code) Flag =
    Seen
  | Answered
  | Flagged
  | Deleted
  | Draft
  | Recent

definition Flag_from_tag :: "u8 \<Rightarrow> Flag option" where
  "Flag_from_tag tag =
     (if tag = 0 then Some Flag.Seen
      else if tag = 1 then Some Flag.Answered
      else if tag = 2 then Some Flag.Flagged
      else if tag = 3 then Some Flag.Deleted
      else if tag = 4 then Some Flag.Draft
      else if tag = 5 then Some Flag.Recent
      else option.None)"

primrec Flag_to_tag :: "Flag \<Rightarrow> u8" where
  "Flag_to_tag Flag.Seen = 0"
| "Flag_to_tag Flag.Answered = 1"
| "Flag_to_tag Flag.Flagged = 2"
| "Flag_to_tag Flag.Deleted = 3"
| "Flag_to_tag Flag.Draft = 4"
| "Flag_to_tag Flag.Recent = 5"

definition Flag_imap_name :: "Flag \<Rightarrow> string" where
  "Flag_imap_name self =
     (case self of
      Flag.Seen \<Rightarrow> CHR 0x5C # ''Seen''
    | Flag.Answered \<Rightarrow> CHR 0x5C # ''Answered''
    | Flag.Flagged \<Rightarrow> CHR 0x5C # ''Flagged''
    | Flag.Deleted \<Rightarrow> CHR 0x5C # ''Deleted''
    | Flag.Draft \<Rightarrow> CHR 0x5C # ''Draft''
    | Flag.Recent \<Rightarrow> CHR 0x5C # ''Recent'')"

definition Flag_is_client_settable :: "Flag \<Rightarrow> bool" where
  "Flag_is_client_settable self = (\<not>
     (case self of
      Flag.Recent \<Rightarrow> True
    | _ \<Rightarrow> False))"

definition Flag_ALL :: "Flag list" where
  "Flag_ALL =
     [Flag.Seen, Flag.Answered, Flag.Flagged, Flag.Deleted, Flag.Draft, Flag.Recent]"

definition Flag_fmt :: "Flag \<Rightarrow> string" where
  "Flag_fmt self = Flag_imap_name self"

section \<open>Tags and enumerations\<close>

interpretation Imap_Command_codec: tag_codec Imap_Command_to_tag Imap_Command_from_tag 14
  by (unfold_locales, (case_tac x; simp add: Imap_Command_from_tag_def), unfold Imap_Command_from_tag_def,
    (erule codec_arm, simp only: Imap_Command_to_tag.simps)+, erule codec_end, (case_tac x; simp), simp add: codec_eval)

interpretation Imap_State_codec: tag_codec Imap_State_to_tag Imap_State_from_tag 4
  by (unfold_locales, (case_tac x; simp add: Imap_State_from_tag_def), unfold Imap_State_from_tag_def,
    (erule codec_arm, simp only: Imap_State_to_tag.simps)+, erule codec_end, (case_tac x; simp), simp add: codec_eval)

interpretation Flag_codec: tag_codec Flag_to_tag Flag_from_tag 6
  by (unfold_locales, (case_tac x; simp add: Flag_from_tag_def), unfold Flag_from_tag_def,
    (erule codec_arm, simp only: Flag_to_tag.simps)+, erule codec_end, (case_tac x; simp), simp add: codec_eval)

lemma Imap_Command_ALL_exhaustive: "set Imap_Command_ALL = UNIV \<and> distinct Imap_Command_ALL"
  by (auto simp: Imap_Command_ALL_def) (case_tac x; simp)

lemma Flag_ALL_exhaustive: "set Flag_ALL = UNIV \<and> distinct Flag_ALL"
  by (auto simp: Flag_ALL_def) (case_tac x; simp)

end
