(* ===== verification/Pop3_Types.thy ===== *)
theory Pop3_Types
  imports Tag_Codec
begin

text \<open>
  The types of \<open>bindings/rust/src/pop3.rs\<close>: \<open>Command\<close>,
  \<open>State\<close>, \<open>Response\<close>, \<open>Pop3Error\<close>.
\<close>

definition POP3_PORT :: "u16" where
  "POP3_PORT = 110"

definition POP3S_PORT :: "u16" where
  "POP3S_PORT = 995"

section \<open>\<open>pop3::Command\<close>\<close>

datatype (plugins only: code) Pop3_Command =
    User
  | Pass
  | Stat
  | List
  | Retr
  | Dele
  | Noop
  | Rset
  | Quit
  | Top
  | Uidl

definition Pop3_Command_from_tag :: "u8 \<Rightarrow> Pop3_Command option" where
  "Pop3_Command_from_tag tag =
     (if tag = 0 then Some Pop3_Command.User
      else if tag = 1 then Some Pop3_Command.Pass
      else if tag = 2 then Some Pop3_Command.Stat
      else if tag = 3 then Some Pop3_Command.List
      else if tag = 4 then Some Pop3_Command.Retr
      else if tag = 5 then Some Pop3_Command.Dele
      else if tag = 6 then Some Pop3_Command.Noop
      else if tag = 7 then Some Pop3_Command.Rset
      else if tag = 8 then Some Pop3_Command.Quit
      else if tag = 9 then Some Pop3_Command.Top
      else if tag = 10 then Some Pop3_Command.Uidl
      else option.None)"

primrec Pop3_Command_to_tag :: "Pop3_Command \<Rightarrow> u8" where
  "Pop3_Command_to_tag Pop3_Command.User = 0"
| "Pop3_Command_to_tag Pop3_Command.Pass = 1"
| "Pop3_Command_to_tag Pop3_Command.Stat = 2"
| "Pop3_Command_to_tag Pop3_Command.List = 3"
| "Pop3_Command_to_tag Pop3_Command.Retr = 4"
| "Pop3_Command_to_tag Pop3_Command.Dele = 5"
| "Pop3_Command_to_tag Pop3_Command.Noop = 6"
| "Pop3_Command_to_tag Pop3_Command.Rset = 7"
| "Pop3_Command_to_tag Pop3_Command.Quit = 8"
| "Pop3_Command_to_tag Pop3_Command.Top = 9"
| "Pop3_Command_to_tag Pop3_Command.Uidl = 10"

definition Pop3_Command_name :: "Pop3_Command \<Rightarrow> string" where
  "Pop3_Command_name self =
     (case self of
      Pop3_Command.User \<Rightarrow> ''USER''
    | Pop3_Command.Pass \<Rightarrow> ''PASS''
    | Pop3_Command.Stat \<Rightarrow> ''STAT''
    | Pop3_Command.List \<Rightarrow> ''LIST''
    | Pop3_Command.Retr \<Rightarrow> ''RETR''
    | Pop3_Command.Dele \<Rightarrow> ''DELE''
    | Pop3_Command.Noop \<Rightarrow> ''NOOP''
    | Pop3_Command.Rset \<Rightarrow> ''RSET''
    | Pop3_Command.Quit \<Rightarrow> ''QUIT''
    | Pop3_Command.Top \<Rightarrow> ''TOP''
    | Pop3_Command.Uidl \<Rightarrow> ''UIDL'')"

section \<open>\<open>pop3::State\<close>\<close>

datatype (plugins only: code) Pop3_State =
    Authorization
  | Transaction
  | Update

definition Pop3_Command_required_state :: "Pop3_Command \<Rightarrow> Pop3_State" where
  "Pop3_Command_required_state self =
     (case self of
      Pop3_Command.User \<Rightarrow> Pop3_State.Authorization
    | Pop3_Command.Pass \<Rightarrow> Pop3_State.Authorization
    | Pop3_Command.Quit \<Rightarrow> Pop3_State.Authorization
    | Pop3_Command.Stat \<Rightarrow> Pop3_State.Transaction
    | Pop3_Command.List \<Rightarrow> Pop3_State.Transaction
    | Pop3_Command.Retr \<Rightarrow> Pop3_State.Transaction
    | Pop3_Command.Dele \<Rightarrow> Pop3_State.Transaction
    | Pop3_Command.Noop \<Rightarrow> Pop3_State.Transaction
    | Pop3_Command.Rset \<Rightarrow> Pop3_State.Transaction
    | Pop3_Command.Top \<Rightarrow> Pop3_State.Transaction
    | Pop3_Command.Uidl \<Rightarrow> Pop3_State.Transaction)"

definition Pop3_Command_is_write :: "Pop3_Command \<Rightarrow> bool" where
  "Pop3_Command_is_write self =
     (case self of
      Pop3_Command.Dele \<Rightarrow> True
    | Pop3_Command.Rset \<Rightarrow> True
    | _ \<Rightarrow> False)"

definition Pop3_Command_ALL :: "Pop3_Command list" where
  "Pop3_Command_ALL =
     [Pop3_Command.User, Pop3_Command.Pass, Pop3_Command.Stat, Pop3_Command.List,
      Pop3_Command.Retr, Pop3_Command.Dele, Pop3_Command.Noop, Pop3_Command.Rset,
      Pop3_Command.Quit, Pop3_Command.Top, Pop3_Command.Uidl]"

definition Pop3_Command_fmt :: "Pop3_Command \<Rightarrow> string" where
  "Pop3_Command_fmt self = Pop3_Command_name self"

definition Pop3_State_from_tag :: "u8 \<Rightarrow> Pop3_State option" where
  "Pop3_State_from_tag tag =
     (if tag = 0 then Some Pop3_State.Authorization
      else if tag = 1 then Some Pop3_State.Transaction
      else if tag = 2 then Some Pop3_State.Update
      else option.None)"

primrec Pop3_State_to_tag :: "Pop3_State \<Rightarrow> u8" where
  "Pop3_State_to_tag Pop3_State.Authorization = 0"
| "Pop3_State_to_tag Pop3_State.Transaction = 1"
| "Pop3_State_to_tag Pop3_State.Update = 2"

definition Pop3_State_can_transition_to :: "Pop3_State \<Rightarrow> Pop3_State \<Rightarrow> bool" where
  "Pop3_State_can_transition_to self next =
     (case (self, next) of
      (Pop3_State.Authorization, Pop3_State.Transaction) \<Rightarrow> True
    | (Pop3_State.Transaction, Pop3_State.Update) \<Rightarrow> True
    | _ \<Rightarrow> False)"

primrec Pop3_State_fmt :: "Pop3_State \<Rightarrow> string" where
  "Pop3_State_fmt Pop3_State.Authorization = ''Authorization''"
| "Pop3_State_fmt Pop3_State.Transaction = ''Transaction''"
| "Pop3_State_fmt Pop3_State.Update = ''Update''"

section \<open>\<open>pop3::Response\<close>\<close>

datatype (plugins only: code) Response =
    Ok
  | Err

definition Response_from_tag :: "u8 \<Rightarrow> Response option" where
  "Response_from_tag tag =
     (if tag = 0 then Some Response.Ok
      else if tag = 1 then Some Response.Err
      else option.None)"

primrec Response_to_tag :: "Response \<Rightarrow> u8" where
  "Response_to_tag Response.Ok = 0"
| "Response_to_tag Response.Err = 1"

definition Response_is_success :: "Response \<Rightarrow> bool" where
  "Response_is_success self =
     (case self of
      Response.Ok \<Rightarrow> True
    | _ \<Rightarrow> False)"

definition Response_prefix :: "Response \<Rightarrow> string" where
  "Response_prefix self =
     (case self of
      Response.Ok \<Rightarrow> ''+OK''
    | Response.Err \<Rightarrow> ''-ERR'')"

definition Response_fmt :: "Response \<Rightarrow> string" where
  "Response_fmt self = Response_prefix self"

section \<open>\<open>pop3::Pop3Error\<close>\<close>

datatype (plugins only: code) Pop3Error =
    Ok
  | InvalidSlot
  | NotActive
  | InvalidTransition
  | InvalidCommand
  | AuthFailed

definition Pop3Error_from_tag :: "u8 \<Rightarrow> Pop3Error option" where
  "Pop3Error_from_tag tag =
     (if tag = 0 then Some Pop3Error.Ok
      else if tag = 1 then Some Pop3Error.InvalidSlot
      else if tag = 2 then Some Pop3Error.NotActive
      else if tag = 3 then Some Pop3Error.InvalidTransition
      else if tag = 4 then Some Pop3Error.InvalidCommand
      else if tag = 5 then Some Pop3Error.AuthFailed
      else option.None)"

primrec Pop3Error_to_tag :: "Pop3Error \<Rightarrow> u8" where
  "Pop3Error_to_tag Pop3Error.Ok = 0"
| "Pop3Error_to_tag Pop3Error.InvalidSlot = 1"
| "Pop3Error_to_tag Pop3Error.NotActive = 2"
| "Pop3Error_to_tag Pop3Error.InvalidTransition = 3"
| "Pop3Error_to_tag Pop3Error.InvalidCommand = 4"
| "Pop3Error_to_tag Pop3Error.AuthFailed = 5"

definition Pop3Error_is_success :: "Pop3Error \<Rightarrow> bool" where
  "Pop3Error_is_success self =
     (case self of
      Pop3Error.Ok \<Rightarrow> True
    | _ \<Rightarrow> False)"

definition Pop3Error_ALL :: "Pop3Error list" where
  "Pop3Error_ALL =
     [Pop3Error.Ok, Pop3Error.InvalidSlot, Pop3Error.NotActive, Pop3Error.InvalidTransition,
      Pop3Error.InvalidCommand, Pop3Error.AuthFailed]"

primrec Pop3Error_fmt :: "Pop3Error \<Rightarrow> string" where
  "Pop3Error_fmt Pop3Error.Ok = ''Ok''"
| "Pop3Error_fmt Pop3Error.InvalidSlot = ''InvalidSlot''"
| "Pop3Error_fmt Pop3Error.NotActive = ''NotActive''"
| "Pop3Error_fmt Pop3Error.InvalidTransition = ''InvalidTransition''"
| "Pop3Error_fmt Pop3Error.InvalidCommand = ''InvalidCommand''"
| "Pop3Error_fmt Pop3Error.AuthFailed = ''AuthFailed''"

section \<open>Tags and enumerations\<close>

interpretation Pop3_Command_codec: tag_codec Pop3_Command_to_tag Pop3_Command_from_tag 11
  by (unfold_locales, (case_tac x; simp add: Pop3_Command_from_tag_def), unfold Pop3_Command_from_tag_def,
    (erule codec_arm, simp only: Pop3_Command_to_tag.simps)+, erule codec_end, (case_tac x; simp), simp add: codec_eval)

interpretation Pop3_State_codec: tag_codec Pop3_State_to_tag Pop3_State_from_tag 3
  by (unfold_locales, (case_tac x; simp add: Pop3_State_from_tag_def), unfold Pop3_State_from_tag_def,
    (erule codec_arm, simp only: Pop3_State_to_tag.simps)+, erule codec_end, (case_tac x; simp), simp add: codec_eval)

interpretation Response_codec: tag_codec Response_to_tag Response_from_tag 2
  by (unfold_locales, (case_tac x; simp add: Response_from_tag_def), unfold Response_from_tag_def,
    (erule codec_arm, simp only: Response_to_tag.simps)+, erule codec_end, (case_tac x; simp), simp add: codec_eval)

interpretation Pop3Error_codec: tag_codec Pop3Error_to_tag Pop3Error_from_tag 6
  by (unfold_locales, (case_tac x; simp add: Pop3Error_from_tag_def), unfold Pop3Error_from_tag_def,
    (erule codec_arm, simp only: Pop3Error_to_tag.simps)+, erule codec_end, (case_tac x; simp), simp add: codec_eval)

lemma Pop3_Command_ALL_exhaustive: "set Pop3_Command_ALL = UNIV \<and> distinct Pop3_Command_ALL"
  by (auto simp: Pop3_Command_ALL_def) (case_tac x; simp)

lemma Pop3Error_ALL_exhaustive: "set Pop3Error_ALL = UNIV \<and> distinct Pop3Error_ALL"
  by (auto simp: Pop3Error_ALL_def) (case_tac x; simp)

end
