(* ===== verification/Lifecycles.thy ===== *)
theory Lifecycles
  imports Lifecycle_Tables Kerberos_Types Amqp_Types Rtsp_Types Ntp_Types Dhcp_Types Ldap_Types
    Socks_Types Irc_Types Imap_Types Pop3_Types "HOL-Library.Sublist"
begin

text \<open>
  The life cycles the Rust modules describe with \<open>can_transition_to\<close>: which stages every run of a
  protocol passes through in which order, which runs must end and which states cannot be left, and
  how each check compares with the transition table of the engine behind it.
\<close>

section \<open>Trails in a transition relation\<close>

text \<open>The states visited after the first one.\<close>

primrec trail :: "('s \<Rightarrow> 's \<Rightarrow> bool) \<Rightarrow> 's \<Rightarrow> 's list \<Rightarrow> bool" where
  "trail edge s [] = True"
| "trail edge s (t # ts) \<longleftrightarrow> edge s t \<and> trail edge t ts"

lemma trail_append: "trail edge s (ts @ us) \<longleftrightarrow> trail edge s ts \<and> trail edge (last (s # ts)) us"
  by (induction ts arbitrary: s) auto

lemma trail_snoc: "trail edge s (ts @ [t]) \<longleftrightarrow> trail edge s ts \<and> edge (last (s # ts)) t"
  by (simp add: trail_append)

text \<open>
  There is a run that ends in the last stage, every such run has passed all the stages in order, and any
  other state can be avoided by such a run: the list leaves no necessary state out.
\<close>

definition runs_through :: "('s \<Rightarrow> 's \<Rightarrow> bool) \<Rightarrow> 's \<Rightarrow> 's list \<Rightarrow> bool" where
  "runs_through edge start stages \<longleftrightarrow>
     (\<exists>ts. trail edge start ts \<and> ts \<noteq> [] \<and> last ts = last stages) \<and>
     (\<forall>ts. trail edge start ts \<and> ts \<noteq> [] \<and> last ts = last stages \<longrightarrow> subseq stages ts) \<and>
     (\<forall>s. s \<notin> set stages \<longrightarrow> (\<exists>ts. trail edge start ts \<and> ts \<noteq> [] \<and> last ts = last stages \<and> s \<notin> set ts))"

text \<open>
  A machine with stages: every edge into a stage but the first comes from the stage before it or a later
  one. A trail that ends in a stage has passed all the stages before it, in their order.
\<close>

locale staged =
  fixes edge :: "'s \<Rightarrow> 's \<Rightarrow> bool"
    and start :: 's
    and stages :: "'s list"
  assumes enter: "Suc i < length stages \<Longrightarrow> edge s (stages ! Suc i) \<Longrightarrow> s \<in> set (drop i stages)"
    and outside: "start \<notin> set stages"
begin

lemma stages_passed:
  "trail edge start ts \<Longrightarrow> ts \<noteq> [] \<Longrightarrow> i < length stages \<Longrightarrow> last ts = stages ! i \<Longrightarrow>
     subseq (take (Suc i) stages) ts"
proof (induction ts arbitrary: i rule: rev_induct)
  case (snoc t us)
  then have t: "t = stages ! i" and us: "trail edge start us" "edge (last (start # us)) t"
    by (simp_all add: trail_snoc)
  show ?case
  proof (cases i)
    case 0
    with t snoc.prems(3) show ?thesis by (simp add: take_Suc_conv_app_nth subseq_singleton_left)
  next
    case (Suc j)
    with us(2) t snoc.prems(3) have "last (start # us) \<in> set (drop j stages)" by (intro enter) simp_all
    then obtain m where "m < length (drop j stages)" "drop j stages ! m = last (start # us)"
      unfolding in_set_conv_nth by blast
    then obtain k where k: "j \<le> k" "k < length stages" "last (start # us) = stages ! k"
      by (intro that [of "j + m"]) simp_all
    with outside have "us \<noteq> []" by (metis last_ConsL nth_mem)
    with us(1) k have "subseq (take (Suc k) stages) us" by (intro snoc.IH) simp_all
    moreover have "subseq (take (Suc j) stages) (take (Suc k) stages)"
      using k(1) by (metis Suc_le_mono min.absorb1 prefix_imp_subseq take_is_prefix take_take)
    ultimately have "subseq (take (Suc j) stages @ [t]) (us @ [t])"
      by (intro list_emb_append_mono) (auto intro: subseq_order.trans)
    with t Suc snoc.prems(3) show ?thesis by (simp add: take_Suc_conv_app_nth)
  qed
qed simp

lemma straight:
  assumes "stages \<noteq> []" "trail edge start stages"
  shows "runs_through edge start stages"
  unfolding runs_through_def
proof (intro conjI allI impI)
  show "\<exists>ts. trail edge start ts \<and> ts \<noteq> [] \<and> last ts = last stages" using assms by blast
next
  fix us
  assume us: "trail edge start us \<and> us \<noteq> [] \<and> last us = last stages"
  have "subseq (take (Suc (length stages - 1)) stages) us"
    by (rule stages_passed) (use us assms(1) in \<open>simp_all add: last_conv_nth\<close>)
  then show "subseq stages us" using assms(1) by simp
next
  fix s
  assume "s \<notin> set stages"
  with assms show "\<exists>ts. trail edge start ts \<and> ts \<noteq> [] \<and> last ts = last stages \<and> s \<notin> set ts" by blast
qed

end

text \<open>A machine with a rank: a trail is never longer than the rank of its first state.\<close>

locale ranked =
  fixes edge :: "'s \<Rightarrow> 's \<Rightarrow> bool"
    and rank :: "'s \<Rightarrow> nat"
  assumes decreasing: "edge s t \<Longrightarrow> rank t < rank s"
begin

lemma trail_bounded: "trail edge s ts \<Longrightarrow> length ts \<le> rank s"
proof (induction ts arbitrary: s)
  case (Cons t ts)
  then have "length ts \<le> rank t" "rank t < rank s" by (auto intro: decreasing)
  then show ?case by simp
qed simp

end

text \<open>A state that, once entered, is never left.\<close>

locale absorbing =
  fixes edge :: "'s \<Rightarrow> 's \<Rightarrow> bool"
    and final :: 's
  assumes stays: "edge final t \<Longrightarrow> t = final"
begin

lemma trail_stays: "trail edge final ts \<Longrightarrow> set ts \<subseteq> {final}"
  by (induction ts) (auto dest: stays)

lemma trail_ends: "trail edge s (ts @ final # us) \<Longrightarrow> set us \<subseteq> {final}"
  by (simp add: trail_append trail_stays)

end

section \<open>The stages of the Rust modules\<close>

interpretation kerberos_stages: staged AuthState_can_transition_to "AuthState.Initial"
  "[AuthState.TgtObtained, AuthState.ServiceTicketObtained, AuthState.Authenticated]"
  by unfold_locales (auto simp: AuthState_can_transition_to_def less_Suc_eq split: AuthState.splits)

interpretation amqp_connection_stages: staged ConnectionState_can_transition_to "ConnectionState.Idle"
  "[ConnectionState.Negotiating, ConnectionState.TuningOk, ConnectionState.Open]"
  by unfold_locales (auto simp: ConnectionState_can_transition_to_def less_Suc_eq split: ConnectionState.splits)

interpretation amqp_channel_stages: staged Amqp_ChannelState_can_transition_to "Amqp_ChannelState.Closed"
  "[Amqp_ChannelState.Opening, Amqp_ChannelState.ChOpen, Amqp_ChannelState.ChClosing]"
  by unfold_locales (auto simp: Amqp_ChannelState_can_transition_to_def less_Suc_eq split: Amqp_ChannelState.splits)

interpretation amqp_consuming_stages: staged BrokerState_can_transition_to "BrokerState.Idle"
  "[BrokerState.Connected, BrokerState.ChannelOpen, BrokerState.Consuming]"
  by unfold_locales (auto simp: BrokerState_can_transition_to_def less_Suc_eq split: BrokerState.splits)

interpretation amqp_publishing_stages: staged BrokerState_can_transition_to "BrokerState.Idle"
  "[BrokerState.Connected, BrokerState.ChannelOpen, BrokerState.Publishing]"
  by unfold_locales (auto simp: BrokerState_can_transition_to_def less_Suc_eq split: BrokerState.splits)

interpretation dhcp_stages: staged DhcpState_can_transition_to "DhcpState.Idle"
  "[DhcpState.DiscoverReceived, DhcpState.OfferSent, DhcpState.RequestReceived, DhcpState.AckSent]"
  by unfold_locales (auto simp: DhcpState_can_transition_to_def less_Suc_eq split: DhcpState.splits)

interpretation ldap_stages: staged Ldap_SessionState_can_transition_to "Ldap_SessionState.Anonymous"
  "[Ldap_SessionState.Binding, Ldap_SessionState.Bound]"
  by unfold_locales (auto simp: Ldap_SessionState_can_transition_to_def less_Suc_eq split: Ldap_SessionState.splits)

interpretation socks_stages: staged Socks_State_can_transition_to "Socks_State.Initial"
  "[Socks_State.Authenticated, Socks_State.Connecting, Socks_State.Established]"
  by unfold_locales (auto simp: Socks_State_can_transition_to_def less_Suc_eq split: Socks_State.splits)

interpretation irc_stages: staged Irc_State_can_transition_to "Irc_State.Disconnected"
  "[Irc_State.Connecting, Irc_State.Registered, Irc_State.InChannel]"
  by unfold_locales (auto simp: Irc_State_can_transition_to_def less_Suc_eq split: Irc_State.splits)

interpretation imap_stages: staged Imap_State_can_transition_to "Imap_State.NotAuthenticated"
  "[Imap_State.Authenticated, Imap_State.Selected]"
  by unfold_locales (auto simp: Imap_State_can_transition_to_def less_Suc_eq split: Imap_State.splits)

interpretation pop3_stages: staged Pop3_State_can_transition_to "Pop3_State.Authorization"
  "[Pop3_State.Transaction, Pop3_State.Update]"
  by unfold_locales (auto simp: Pop3_State_can_transition_to_def less_Suc_eq split: Pop3_State.splits)

interpretation rtsp_playing_stages: staged Rtsp_SessionState_can_transition_to "Rtsp_SessionState.Init"
  "[Rtsp_SessionState.Ready, Rtsp_SessionState.Playing]"
  by unfold_locales (auto simp: Rtsp_SessionState_can_transition_to_def less_Suc_eq split: Rtsp_SessionState.splits)

interpretation rtsp_recording_stages: staged Rtsp_SessionState_can_transition_to "Rtsp_SessionState.Init"
  "[Rtsp_SessionState.Ready, Rtsp_SessionState.Recording]"
  by unfold_locales (auto simp: Rtsp_SessionState_can_transition_to_def less_Suc_eq split: Rtsp_SessionState.splits)

interpretation ntp_stages: staged ExchangeState_can_transition_to "ExchangeState.Idle"
  "[ExchangeState.RequestReceived, ExchangeState.TimestampCalculated, ExchangeState.ResponseSent]"
  by unfold_locales (auto simp: ExchangeState_can_transition_to_def less_Suc_eq split: ExchangeState.splits)

lemmas rust_check_defs =
  AuthState_can_transition_to_def
  ConnectionState_can_transition_to_def
  Amqp_ChannelState_can_transition_to_def
  BrokerState_can_transition_to_def
  DhcpState_can_transition_to_def
  Ldap_SessionState_can_transition_to_def
  Socks_State_can_transition_to_def
  Irc_State_can_transition_to_def
  Imap_State_can_transition_to_def
  Pop3_State_can_transition_to_def
  Rtsp_SessionState_can_transition_to_def
  ExchangeState_can_transition_to_def

text \<open>
  C31: The stages of the Rust life cycles. Each last stage is reachable, every run that reaches it has
  passed the listed stages in order, and no other state is necessary: a run avoids it. A Kerberos context
  that is authenticated went through the ticket-granting ticket and the service ticket; an AMQP
  connection is open only after negotiation and tuning, and a broker consumes or publishes only on an
  open channel; a DHCP server acknowledges only after discover, offer and request; an LDAP session is
  bound only through a bind; IRC, IMAP, POP3, RTSP and NTP likewise. A SOCKS tunnel is established only
  through the states Authenticated and Connecting, but Authenticating is no stage: from Initial a client
  can go to Authenticated directly, and then without authenticating to the tunnel; every other way to
  Authenticated leads through Authenticating.
\<close>

theorem lifecycle_stages:
  "runs_through AuthState_can_transition_to AuthState.Initial
     [AuthState.TgtObtained, AuthState.ServiceTicketObtained, AuthState.Authenticated] \<and>
   runs_through ConnectionState_can_transition_to ConnectionState.Idle
     [ConnectionState.Negotiating, ConnectionState.TuningOk, ConnectionState.Open] \<and>
   runs_through Amqp_ChannelState_can_transition_to Amqp_ChannelState.Closed
     [Amqp_ChannelState.Opening, Amqp_ChannelState.ChOpen, Amqp_ChannelState.ChClosing] \<and>
   runs_through BrokerState_can_transition_to BrokerState.Idle
     [BrokerState.Connected, BrokerState.ChannelOpen, BrokerState.Consuming] \<and>
   runs_through BrokerState_can_transition_to BrokerState.Idle
     [BrokerState.Connected, BrokerState.ChannelOpen, BrokerState.Publishing] \<and>
   runs_through DhcpState_can_transition_to DhcpState.Idle
     [DhcpState.DiscoverReceived, DhcpState.OfferSent, DhcpState.RequestReceived,
      DhcpState.AckSent] \<and>
   runs_through Ldap_SessionState_can_transition_to Ldap_SessionState.Anonymous
     [Ldap_SessionState.Binding, Ldap_SessionState.Bound] \<and>
   runs_through Socks_State_can_transition_to Socks_State.Initial
     [Socks_State.Authenticated, Socks_State.Connecting, Socks_State.Established] \<and>
   runs_through Irc_State_can_transition_to Irc_State.Disconnected
     [Irc_State.Connecting, Irc_State.Registered, Irc_State.InChannel] \<and>
   runs_through Imap_State_can_transition_to Imap_State.NotAuthenticated
     [Imap_State.Authenticated, Imap_State.Selected] \<and>
   runs_through Pop3_State_can_transition_to Pop3_State.Authorization
     [Pop3_State.Transaction, Pop3_State.Update] \<and>
   runs_through Rtsp_SessionState_can_transition_to Rtsp_SessionState.Init
     [Rtsp_SessionState.Ready, Rtsp_SessionState.Playing] \<and>
   runs_through Rtsp_SessionState_can_transition_to Rtsp_SessionState.Init
     [Rtsp_SessionState.Ready, Rtsp_SessionState.Recording] \<and>
   runs_through ExchangeState_can_transition_to ExchangeState.Idle
     [ExchangeState.RequestReceived, ExchangeState.TimestampCalculated,
      ExchangeState.ResponseSent] \<and>
   trail Socks_State_can_transition_to Socks_State.Initial
     [Socks_State.Authenticated, Socks_State.Connecting, Socks_State.Established] \<and>
   (Socks_State_can_transition_to s Socks_State.Authenticated \<longleftrightarrow>
     s = Socks_State.Initial \<or> s = Socks_State.Authenticating)"
  by (intro conjI kerberos_stages.straight
      amqp_connection_stages.straight
      amqp_channel_stages.straight
      amqp_consuming_stages.straight
      amqp_publishing_stages.straight
      dhcp_stages.straight
      ldap_stages.straight
      socks_stages.straight
      imap_stages.straight
      pop3_stages.straight
      rtsp_playing_stages.straight
      rtsp_recording_stages.straight
      ntp_stages.straight
      irc_stages.straight)
     (simp_all add: rust_check_defs, cases s, simp_all)

section \<open>Runs that end\<close>

primrec kerberos_rank :: "AuthState \<Rightarrow> nat" where
  "kerberos_rank AuthState.Initial = 3"
| "kerberos_rank AuthState.TgtObtained = 2"
| "kerberos_rank AuthState.ServiceTicketObtained = 1"
| "kerberos_rank AuthState.Authenticated = 0"
| "kerberos_rank AuthState.AuthFailed = 0"

interpretation kerberos_ranked: ranked AuthState_can_transition_to kerberos_rank
  by unfold_locales (auto simp: AuthState_can_transition_to_def split: AuthState.splits)

primrec pop3_rank :: "Pop3_State \<Rightarrow> nat" where
  "pop3_rank Pop3_State.Authorization = 2"
| "pop3_rank Pop3_State.Transaction = 1"
| "pop3_rank Pop3_State.Update = 0"

interpretation pop3_ranked: ranked Pop3_State_can_transition_to pop3_rank
  by unfold_locales (auto simp: Pop3_State_can_transition_to_def split: Pop3_State.splits)

primrec socks_rank :: "Socks_State \<Rightarrow> nat" where
  "socks_rank Socks_State.Initial = 5"
| "socks_rank Socks_State.Authenticating = 4"
| "socks_rank Socks_State.Authenticated = 3"
| "socks_rank Socks_State.Connecting = 2"
| "socks_rank Socks_State.Established = 1"
| "socks_rank Socks_State.Closed = 0"

interpretation socks_ranked: ranked Socks_State_can_transition_to socks_rank
  by unfold_locales (auto simp: Socks_State_can_transition_to_def split: Socks_State.splits)

interpretation imap_final: absorbing Imap_State_can_transition_to "Imap_State.Logout"
  by unfold_locales (auto simp: Imap_State_can_transition_to_def split: Imap_State.splits)

interpretation ldap_final: absorbing Ldap_SessionState_can_transition_to "Ldap_SessionState.Closed"
  by unfold_locales (auto simp: Ldap_SessionState_can_transition_to_def split: Ldap_SessionState.splits)

interpretation amqp_connection_final: absorbing ConnectionState_can_transition_to "ConnectionState.Closing"
  by unfold_locales (auto simp: ConnectionState_can_transition_to_def split: ConnectionState.splits)

interpretation amqp_broker_final: absorbing BrokerState_can_transition_to "BrokerState.Disconnecting"
  by unfold_locales (auto simp: BrokerState_can_transition_to_def split: BrokerState.splits)

interpretation kerberos_final: absorbing AuthState_can_transition_to "AuthState.Authenticated"
  by unfold_locales (auto simp: AuthState_can_transition_to_def split: AuthState.splits)

interpretation socks_final: absorbing Socks_State_can_transition_to "Socks_State.Closed"
  by unfold_locales (auto simp: Socks_State_can_transition_to_def split: Socks_State.splits)

text \<open>The longest run has \<open>n\<close> steps; a state is final; every state leads back to the first one.\<close>

definition longest_run :: "('s \<Rightarrow> 's \<Rightarrow> bool) \<Rightarrow> nat \<Rightarrow> bool" where
  "longest_run edge n \<longleftrightarrow>
     (\<exists>s ts. trail edge s ts \<and> length ts = n) \<and> (\<forall>s ts. trail edge s ts \<longrightarrow> length ts \<le> n)"

definition final_state :: "('s \<Rightarrow> 's \<Rightarrow> bool) \<Rightarrow> 's \<Rightarrow> bool" where
  "final_state edge f \<longleftrightarrow> (\<forall>s ts us. trail edge s (ts @ f # us) \<longrightarrow> set us \<subseteq> {f})"

definition returns_to :: "('s \<Rightarrow> 's \<Rightarrow> bool) \<Rightarrow> 's \<Rightarrow> bool" where
  "returns_to edge s0 \<longleftrightarrow> (\<forall>s. \<exists>ts. trail edge s (ts @ [s0]))"

lemma longest_runI:
  assumes "ranked edge rank" "\<And>s. rank s \<le> n" "trail edge s ts" "length ts = n"
  shows "longest_run edge n"
  unfolding longest_run_def
proof (intro conjI allI impI)
  show "\<exists>s ts. trail edge s ts \<and> length ts = n" using assms(3,4) by blast
  fix s ts
  assume "trail edge s ts"
  with assms(1) have "length ts \<le> rank s" by (rule ranked.trail_bounded)
  with assms(2) show "length ts \<le> n" using le_trans by blast
qed

lemma final_stateI: "absorbing edge f \<Longrightarrow> final_state edge f"
  unfolding final_state_def by (blast dest: absorbing.trail_ends)

lemma returns_toI: "(\<And>s. trail edge s (way s @ [s0])) \<Longrightarrow> returns_to edge s0"
  unfolding returns_to_def by blast

text \<open>A way back to the first state, from each state.\<close>

primrec rtsp_way :: "Rtsp_SessionState \<Rightarrow> Rtsp_SessionState list" where
  "rtsp_way Rtsp_SessionState.Init = [Rtsp_SessionState.Ready]"
| "rtsp_way Rtsp_SessionState.Ready = []"
| "rtsp_way Rtsp_SessionState.Playing = []"
| "rtsp_way Rtsp_SessionState.Recording = []"

primrec ntp_way :: "ExchangeState \<Rightarrow> ExchangeState list" where
  "ntp_way ExchangeState.Idle = [ExchangeState.RequestReceived, ExchangeState.TimestampCalculated, ExchangeState.ResponseSent]"
| "ntp_way ExchangeState.RequestReceived = [ExchangeState.TimestampCalculated, ExchangeState.ResponseSent]"
| "ntp_way ExchangeState.TimestampCalculated = [ExchangeState.ResponseSent]"
| "ntp_way ExchangeState.ResponseSent = []"

primrec dhcp_way :: "DhcpState \<Rightarrow> DhcpState list" where
  "dhcp_way DhcpState.Idle = [DhcpState.DiscoverReceived, DhcpState.OfferSent, DhcpState.RequestReceived, DhcpState.AckSent]"
| "dhcp_way DhcpState.DiscoverReceived = [DhcpState.OfferSent, DhcpState.RequestReceived, DhcpState.AckSent]"
| "dhcp_way DhcpState.OfferSent = [DhcpState.RequestReceived, DhcpState.AckSent]"
| "dhcp_way DhcpState.RequestReceived = [DhcpState.AckSent]"
| "dhcp_way DhcpState.AckSent = []"
| "dhcp_way DhcpState.NakSent = []"

primrec irc_way :: "Irc_State \<Rightarrow> Irc_State list" where
  "irc_way Irc_State.Disconnected = [Irc_State.Connecting, Irc_State.Registered, Irc_State.Quitting]"
| "irc_way Irc_State.Connecting = [Irc_State.Registered, Irc_State.Quitting]"
| "irc_way Irc_State.Registered = [Irc_State.Quitting]"
| "irc_way Irc_State.InChannel = [Irc_State.Quitting]"
| "irc_way Irc_State.Quitting = []"

primrec amqp_channel_way :: "Amqp_ChannelState \<Rightarrow> Amqp_ChannelState list" where
  "amqp_channel_way Amqp_ChannelState.Closed = [Amqp_ChannelState.Opening]"
| "amqp_channel_way Amqp_ChannelState.Opening = []"
| "amqp_channel_way Amqp_ChannelState.ChOpen = [Amqp_ChannelState.ChClosing]"
| "amqp_channel_way Amqp_ChannelState.ChClosing = []"

text \<open>
  C32: Which Rust life cycles end: the longest run of a Kerberos context has 3 steps, of a POP3 session
  2 and of a SOCKS session 5, from whatever state it starts; IMAP \<open>Logout\<close>, LDAP \<open>Closed\<close>, AMQP
  \<open>Closing\<close> and \<open>Disconnecting\<close>, Kerberos \<open>Authenticated\<close> and SOCKS \<open>Closed\<close> are never left. RTSP,
  NTP, DHCP, IRC and an AMQP channel do not end: from every state a run leads back to the first one.
\<close>

theorem lifecycle_ends:
  "longest_run AuthState_can_transition_to 3 \<and>
   longest_run Pop3_State_can_transition_to 2 \<and>
   longest_run Socks_State_can_transition_to 5 \<and>
   final_state Imap_State_can_transition_to Imap_State.Logout \<and>
   final_state Ldap_SessionState_can_transition_to Ldap_SessionState.Closed \<and>
   final_state ConnectionState_can_transition_to ConnectionState.Closing \<and>
   final_state BrokerState_can_transition_to BrokerState.Disconnecting \<and>
   final_state AuthState_can_transition_to AuthState.Authenticated \<and>
   final_state Socks_State_can_transition_to Socks_State.Closed \<and>
   returns_to Rtsp_SessionState_can_transition_to Rtsp_SessionState.Init \<and>
   returns_to ExchangeState_can_transition_to ExchangeState.Idle \<and>
   returns_to DhcpState_can_transition_to DhcpState.Idle \<and>
   returns_to Irc_State_can_transition_to Irc_State.Disconnected \<and>
   returns_to Amqp_ChannelState_can_transition_to Amqp_ChannelState.Closed"
proof (intro conjI)
  show "longest_run AuthState_can_transition_to 3"
    by (rule longest_runI [OF kerberos_ranked.ranked_axioms, of _ "AuthState.Initial" "[AuthState.TgtObtained, AuthState.ServiceTicketObtained, AuthState.Authenticated]"])
       (case_tac [1] s, simp_all add: AuthState_can_transition_to_def)
  show "longest_run Pop3_State_can_transition_to 2"
    by (rule longest_runI [OF pop3_ranked.ranked_axioms, of _ "Pop3_State.Authorization" "[Pop3_State.Transaction, Pop3_State.Update]"])
       (case_tac [1] s, simp_all add: Pop3_State_can_transition_to_def)
  show "longest_run Socks_State_can_transition_to 5"
    by (rule longest_runI [OF socks_ranked.ranked_axioms, of _ "Socks_State.Initial" "[Socks_State.Authenticating, Socks_State.Authenticated, Socks_State.Connecting, Socks_State.Established, Socks_State.Closed]"])
       (case_tac [1] s, simp_all add: Socks_State_can_transition_to_def)
  show "final_state Imap_State_can_transition_to Imap_State.Logout"
    by (rule final_stateI [OF imap_final.absorbing_axioms])
  show "final_state Ldap_SessionState_can_transition_to Ldap_SessionState.Closed"
    by (rule final_stateI [OF ldap_final.absorbing_axioms])
  show "final_state ConnectionState_can_transition_to ConnectionState.Closing"
    by (rule final_stateI [OF amqp_connection_final.absorbing_axioms])
  show "final_state BrokerState_can_transition_to BrokerState.Disconnecting"
    by (rule final_stateI [OF amqp_broker_final.absorbing_axioms])
  show "final_state AuthState_can_transition_to AuthState.Authenticated"
    by (rule final_stateI [OF kerberos_final.absorbing_axioms])
  show "final_state Socks_State_can_transition_to Socks_State.Closed"
    by (rule final_stateI [OF socks_final.absorbing_axioms])
  show "returns_to Rtsp_SessionState_can_transition_to Rtsp_SessionState.Init"
    by (rule returns_toI [of _ rtsp_way], case_tac s) (simp_all add: Rtsp_SessionState_can_transition_to_def)
  show "returns_to ExchangeState_can_transition_to ExchangeState.Idle"
    by (rule returns_toI [of _ ntp_way], case_tac s) (simp_all add: ExchangeState_can_transition_to_def)
  show "returns_to DhcpState_can_transition_to DhcpState.Idle"
    by (rule returns_toI [of _ dhcp_way], case_tac s) (simp_all add: DhcpState_can_transition_to_def)
  show "returns_to Irc_State_can_transition_to Irc_State.Disconnected"
    by (rule returns_toI [of _ irc_way], case_tac s) (simp_all add: Irc_State_can_transition_to_def)
  show "returns_to Amqp_ChannelState_can_transition_to Amqp_ChannelState.Closed"
    by (rule returns_toI [of _ amqp_channel_way], case_tac s) (simp_all add: Amqp_ChannelState_can_transition_to_def)
qed

section \<open>The Rust checks and the tables of the engines\<close>

text \<open>The edges that only the Rust check allows, and those that only the engine's table has.\<close>

definition only_rust :: "('s \<Rightarrow> u8) \<Rightarrow> ('s \<Rightarrow> 's \<Rightarrow> bool) \<Rightarrow> (u8 \<Rightarrow> u8 \<Rightarrow> u8) \<Rightarrow> ('s \<times> 's) set" where
  "only_rust tag check table = {(s, t). check s t \<and> table (tag s) (tag t) \<noteq> 1}"

definition only_engine :: "('s \<Rightarrow> u8) \<Rightarrow> ('s \<Rightarrow> 's \<Rightarrow> bool) \<Rightarrow> (u8 \<Rightarrow> u8 \<Rightarrow> u8) \<Rightarrow> ('s \<times> 's) set" where
  "only_engine tag check table = {(s, t). \<not> check s t \<and> table (tag s) (tag t) = 1}"

lemma only_rustI:
  "(\<And>s t. check s t \<and> table (tag s) (tag t) \<noteq> 1 \<longleftrightarrow> (s, t) \<in> D) \<Longrightarrow> only_rust tag check table = D"
  by (auto simp: only_rust_def)

lemma only_engineI:
  "(\<And>s t. \<not> check s t \<and> table (tag s) (tag t) = 1 \<longleftrightarrow> (s, t) \<in> D) \<Longrightarrow> only_engine tag check table = D"
  by (auto simp: only_engine_def)

text \<open>
  C33: The Rust \<open>can_transition_to\<close> checks against the tables of the engines. RTSP, NTP and IMAP agree on
  every pair of states; the others differ, each exactly as follows. Kerberos: the engine alone has the
  four edges of failure, renewal and re-authentication. AMQP: the engine alone has eight edges, Rust alone
  enters \<open>Disconnecting\<close> from \<open>Idle\<close> and from itself. DHCP: Rust alone returns to \<open>Idle\<close> after the answer,
  the engine alone before it. LDAP: Rust alone unbinds to \<open>Anonymous\<close> and stays in \<open>Closed\<close>, the engine
  alone binds again and stays in \<open>Anonymous\<close> and \<open>Bound\<close>. SOCKS: Rust alone steps past authentication,
  from \<open>Initial\<close> to \<open>Authenticated\<close>, the engine alone has the two early closes. IRC: Rust alone leads from
  \<open>Quitting\<close> to \<open>Disconnected\<close>, the engine alone lets a connecting client quit.
\<close>

theorem lifecycle_tables_differ:
  "only_rust Rtsp_SessionState_to_tag Rtsp_SessionState_can_transition_to rtsp_can_transition = {} \<and>
   only_engine Rtsp_SessionState_to_tag Rtsp_SessionState_can_transition_to rtsp_can_transition = {} \<and>
   only_rust ExchangeState_to_tag ExchangeState_can_transition_to ntp_can_exchange_transition = {} \<and>
   only_engine ExchangeState_to_tag ExchangeState_can_transition_to ntp_can_exchange_transition = {} \<and>
   only_rust Imap_State_to_tag Imap_State_can_transition_to imap_can_transition = {} \<and>
   only_engine Imap_State_to_tag Imap_State_can_transition_to imap_can_transition = {} \<and>
   only_rust AuthState_to_tag AuthState_can_transition_to krb_can_transition = {} \<and>
   only_engine AuthState_to_tag AuthState_can_transition_to krb_can_transition =
     {(AuthState.Authenticated, AuthState.AuthFailed),
      (AuthState.Authenticated, AuthState.Initial), (AuthState.AuthFailed, AuthState.Initial),
      (AuthState.TgtObtained, AuthState.TgtObtained)} \<and>
   only_rust BrokerState_to_tag BrokerState_can_transition_to amqp_can_transition =
     {(BrokerState.Idle, BrokerState.Disconnecting),
      (BrokerState.Disconnecting, BrokerState.Disconnecting)} \<and>
   only_engine BrokerState_to_tag BrokerState_can_transition_to amqp_can_transition =
     {(BrokerState.ChannelOpen, BrokerState.ChannelOpen),
      (BrokerState.ChannelOpen, BrokerState.Connected),
      (BrokerState.Consuming, BrokerState.Consuming),
      (BrokerState.Consuming, BrokerState.ChannelOpen),
      (BrokerState.Consuming, BrokerState.Publishing),
      (BrokerState.Publishing, BrokerState.ChannelOpen),
      (BrokerState.Publishing, BrokerState.Consuming),
      (BrokerState.Disconnecting, BrokerState.Idle)} \<and>
   only_rust DhcpState_to_tag DhcpState_can_transition_to dhcp_can_transition =
     {(DhcpState.AckSent, DhcpState.Idle), (DhcpState.NakSent, DhcpState.Idle)} \<and>
   only_engine DhcpState_to_tag DhcpState_can_transition_to dhcp_can_transition =
     {(DhcpState.DiscoverReceived, DhcpState.Idle), (DhcpState.OfferSent, DhcpState.Idle),
      (DhcpState.RequestReceived, DhcpState.Idle)} \<and>
   only_rust Ldap_SessionState_to_tag Ldap_SessionState_can_transition_to ldap_can_transition =
     {(Ldap_SessionState.Bound, Ldap_SessionState.Anonymous),
      (Ldap_SessionState.Closed, Ldap_SessionState.Closed)} \<and>
   only_engine Ldap_SessionState_to_tag Ldap_SessionState_can_transition_to ldap_can_transition =
     {(Ldap_SessionState.Anonymous, Ldap_SessionState.Anonymous),
      (Ldap_SessionState.Bound, Ldap_SessionState.Binding),
      (Ldap_SessionState.Bound, Ldap_SessionState.Bound)} \<and>
   only_rust Socks_State_to_tag Socks_State_can_transition_to socks_can_transition =
     {(Socks_State.Initial, Socks_State.Authenticated)} \<and>
   only_engine Socks_State_to_tag Socks_State_can_transition_to socks_can_transition =
     {(Socks_State.Authenticating, Socks_State.Closed), (Socks_State.Initial, Socks_State.Closed)} \<and>
   only_rust Irc_State_to_tag Irc_State_can_transition_to irc_can_transition =
     {(Irc_State.Quitting, Irc_State.Disconnected)} \<and>
   only_engine Irc_State_to_tag Irc_State_can_transition_to irc_can_transition =
     {(Irc_State.Connecting, Irc_State.Quitting)}"
  by (intro conjI; (rule only_rustI only_engineI), case_tac s; case_tac t)
     (simp_all add: rust_check_defs lifecycle_table_defs)

end
