(* ===== verification/Pop3_Engine.thy ===== *)
theory Pop3_Engine
  imports Slot_Pool
begin

text \<open>
  The POP3 engine \<open>protocols/proven-pop3/ffi/zig/src/pop3.zig\<close>: 64 session contexts under one mutex,
  so every exported call is one step. No Rust module wraps it; \<open>pop3.rs\<close> holds the types of its ABI.
  The counters are added to with checked arithmetic: a command that takes one past 32 bits stops the
  program, and its value is then \<open>None\<close>.
\<close>

section \<open>State\<close>

datatype pop3_command =
    po_user | po_pass | po_stat | po_list | po_retr | po_dele | po_noop | po_rset | po_quit | po_top | po_uidl

datatype pop3_state = po_authorization | po_transaction | po_update

primrec pop3_state_tag :: "pop3_state \<Rightarrow> u8" where
  "pop3_state_tag po_authorization = 0"
| "pop3_state_tag po_transaction = 1"
| "pop3_state_tag po_update = 2"

datatype pop3_response = po_ok | po_err

primrec pop3_response_tag :: "pop3_response \<Rightarrow> u8" where
  "pop3_response_tag po_ok = 0"
| "pop3_response_tag po_err = 1"

datatype pop3_error =
    pe_ok | pe_invalid_slot | pe_not_active | pe_invalid_transition | pe_invalid_command | pe_auth_failed

primrec pop3_error_tag :: "pop3_error \<Rightarrow> u8" where
  "pop3_error_tag pe_ok = 0"
| "pop3_error_tag pe_invalid_slot = 1"
| "pop3_error_tag pe_not_active = 2"
| "pop3_error_tag pe_invalid_transition = 3"
| "pop3_error_tag pe_invalid_command = 4"
| "pop3_error_tag pe_auth_failed = 5"

text \<open>\<open>@enumFromInt\<close> on the tags the guard \<open>cmd > 10\<close> lets through.\<close>

definition pop3_command_of :: "u8 \<Rightarrow> pop3_command" where
  "pop3_command_of cmd =
     (if cmd = 0 then po_user else if cmd = 1 then po_pass else if cmd = 2 then po_stat
      else if cmd = 3 then po_list else if cmd = 4 then po_retr else if cmd = 5 then po_dele
      else if cmd = 6 then po_noop else if cmd = 7 then po_rset else if cmd = 8 then po_quit
      else if cmd = 9 then po_top else po_uidl)"

record Pop3Session =
  po_active :: bool
  po_state :: pop3_state
  po_last_response :: pop3_response
  po_last_error :: u8
  po_message_count :: u32
  po_deleted_count :: u32
  po_command_count :: u32
  po_authenticated :: bool

definition pop3_empty_ctx :: Pop3Session where
  "pop3_empty_ctx =
     \<lparr>po_active = False, po_state = po_authorization, po_last_response = po_ok, po_last_error = 255,
      po_message_count = 0, po_deleted_count = 0, po_command_count = 0, po_authenticated = False\<rparr>"

definition pop3_contexts :: "Pop3Session list" where
  "pop3_contexts = replicate 64 pop3_empty_ctx"

definition isCommandValidInState :: "pop3_command \<Rightarrow> pop3_state \<Rightarrow> bool" where
  "isCommandValidInState cmd state =
     (case state of
        po_authorization \<Rightarrow> (case cmd of po_user \<Rightarrow> True | po_pass \<Rightarrow> True | po_quit \<Rightarrow> True | _ \<Rightarrow> False)
      | po_transaction \<Rightarrow>
          (case cmd of
             po_stat \<Rightarrow> True | po_list \<Rightarrow> True | po_retr \<Rightarrow> True | po_dele \<Rightarrow> True | po_noop \<Rightarrow> True
           | po_rset \<Rightarrow> True | po_quit \<Rightarrow> True | po_top \<Rightarrow> True | po_uidl \<Rightarrow> True | _ \<Rightarrow> False)
      | po_update \<Rightarrow> False)"

section \<open>Operations on one context\<close>

definition pop3_fresh :: "Pop3Session \<Rightarrow> Pop3Session" where
  "pop3_fresh c = pop3_empty_ctx\<lparr>po_active := True\<rparr>"

definition pop3_off :: "Pop3Session \<Rightarrow> Pop3Session" where
  "pop3_off c = c\<lparr>po_active := False\<rparr>"

definition pop3_authenticate_on :: "Pop3Session \<Rightarrow> Pop3Session \<times> u8" where
  [op_simps]: "pop3_authenticate_on c =
     (if po_state c \<noteq> po_authorization
      then (c\<lparr>po_last_error := pop3_error_tag pe_invalid_transition\<rparr>, pop3_error_tag pe_invalid_transition)
      else
        (c\<lparr>po_state := po_transaction, po_authenticated := True, po_last_response := po_ok,
           po_last_error := 255\<rparr>, pop3_error_tag pe_ok))"

definition pop3_execute_command_on :: "u8 \<Rightarrow> Pop3Session \<Rightarrow> (Pop3Session \<times> u8) option" where
  [op_simps]: "pop3_execute_command_on cmd c =
     (if cmd > 10
      then Some (c\<lparr>po_last_error := pop3_error_tag pe_invalid_command, po_last_response := po_err\<rparr>,
        pop3_error_tag pe_invalid_command)
      else
        let command = pop3_command_of cmd in
        if \<not> isCommandValidInState command (po_state c)
        then Some (c\<lparr>po_last_error := pop3_error_tag pe_invalid_command, po_last_response := po_err\<rparr>,
          pop3_error_tag pe_invalid_command)
        else case map_option (\<lambda>n. c\<lparr>po_command_count := n\<rparr>) (checked_inc (po_command_count c)) of
          None \<Rightarrow> None
        | Some c \<Rightarrow>
            if command = po_quit
            then Some (c\<lparr>po_state := po_update, po_last_response := po_ok, po_last_error := 255\<rparr>, pop3_error_tag pe_ok)
            else case (if command = po_dele
                       then map_option (\<lambda>n. c\<lparr>po_deleted_count := n\<rparr>) (checked_inc (po_deleted_count c)) else Some c) of
              None \<Rightarrow> None
            | Some c \<Rightarrow>
                let c = (if command = po_rset then c\<lparr>po_deleted_count := 0\<rparr> else c) in
                case (if command = po_retr
                      then map_option (\<lambda>n. c\<lparr>po_message_count := n\<rparr>) (checked_inc (po_message_count c)) else Some c) of
                  None \<Rightarrow> None
                | Some c \<Rightarrow> Some (c\<lparr>po_last_response := po_ok, po_last_error := 255\<rparr>, pop3_error_tag pe_ok))"

section \<open>The exported functions\<close>

definition pop3_create :: "Pop3Session list \<Rightarrow> Pop3Session list \<times> c_int" where
  "pop3_create p = pool_create po_active pop3_fresh p"

definition pop3_destroy :: "Pop3Session list \<Rightarrow> c_int \<Rightarrow> Pop3Session list" where
  "pop3_destroy p slot = pool_destroy pop3_off p slot"

definition pop3_get_state :: "Pop3Session list \<Rightarrow> c_int \<Rightarrow> u8" where
  "pop3_get_state p slot = query_slot po_active p slot 0 (\<lambda>c. pop3_state_tag (po_state c))"

definition pop3_get_message_count :: "Pop3Session list \<Rightarrow> c_int \<Rightarrow> u32" where
  "pop3_get_message_count p slot = query_slot po_active p slot 0 po_message_count"

definition pop3_get_deleted_count :: "Pop3Session list \<Rightarrow> c_int \<Rightarrow> u32" where
  "pop3_get_deleted_count p slot = query_slot po_active p slot 0 po_deleted_count"

definition pop3_get_command_count :: "Pop3Session list \<Rightarrow> c_int \<Rightarrow> u32" where
  "pop3_get_command_count p slot = query_slot po_active p slot 0 po_command_count"

definition pop3_get_last_response :: "Pop3Session list \<Rightarrow> c_int \<Rightarrow> u8" where
  "pop3_get_last_response p slot = query_slot po_active p slot 0 (\<lambda>c. pop3_response_tag (po_last_response c))"

definition pop3_get_last_error :: "Pop3Session list \<Rightarrow> c_int \<Rightarrow> u8" where
  "pop3_get_last_error p slot = query_slot po_active p slot 255 po_last_error"

definition pop3_authenticate :: "Pop3Session list \<Rightarrow> c_int \<Rightarrow> Pop3Session list \<times> u8" where
  "pop3_authenticate p slot = on_slot po_active p slot (pop3_error_tag pe_invalid_slot) pop3_authenticate_on"

definition pop3_execute_command :: "Pop3Session list \<Rightarrow> c_int \<Rightarrow> u8 \<Rightarrow> (Pop3Session list \<times> u8) option" where
  "pop3_execute_command p slot cmd =
     on_slot_checked po_active p slot (pop3_error_tag pe_invalid_slot) (pop3_execute_command_on cmd)"

text \<open>One call that may change a session, and its effect on the session it is made on.\<close>

datatype pop3_call =
    Po_authenticate
  | Po_execute u8

primrec pop3_step :: "pop3_call \<Rightarrow> Pop3Session \<Rightarrow> (Pop3Session \<times> u8) option" where
  "pop3_step Po_authenticate c = Some (pop3_authenticate_on c)"
| "pop3_step (Po_execute cmd) c = pop3_execute_command_on cmd c"

end
