(* ===== verification/Pop3_Props.thy ===== *)
theory Pop3_Props
  imports Pop3_Engine Pop3_Types
begin

text \<open>
  Properties of the POP3 engine: what a dialogue it accepts looks like, what its counters count, and
  how its command guard compares with \<open>required_state\<close> and \<open>can_transition_to\<close> of \<open>pop3.rs\<close>.
\<close>

section \<open>The command guard\<close>

lemma pop3_tag_cases:
  assumes "(cmd :: u8) \<le> 10"
  obtains "cmd = 0" | "cmd = 1" | "cmd = 2" | "cmd = 3" | "cmd = 4" | "cmd = 5" | "cmd = 6" | "cmd = 7"
    | "cmd = 8" | "cmd = 9" | "cmd = 10"
proof -
  have "\<not> 11 \<le> unat cmd" using assms by (simp add: word_le_nat_alt)
  then have "Pop3_Command_from_tag cmd \<noteq> None" by (simp add: Pop3_Command_codec.from_tag_eq_None_iff)
  then show thesis using that by (auto simp: Pop3_Command_from_tag_def split: if_splits)
qed

text \<open>An engine state and a Rust state with the same tag.\<close>

primrec rust_state :: "pop3_state \<Rightarrow> Pop3_State" where
  "rust_state po_authorization = Pop3_State.Authorization"
| "rust_state po_transaction = Pop3_State.Transaction"
| "rust_state po_update = Pop3_State.Update"

lemma rust_state_tag: "Pop3_State_to_tag (rust_state s) = pop3_state_tag s"
  by (cases s) simp_all

lemma execute_accepts:
  assumes "checked_inc (po_command_count c) = Some n" "checked_inc (po_deleted_count c) = Some d"
    and "checked_inc (po_message_count c) = Some m"
  shows "(\<exists>c'. pop3_execute_command_on cmd c = Some (c', 0)) \<longleftrightarrow>
    cmd \<le> 10 \<and> isCommandValidInState (pop3_command_of cmd) (po_state c)"
  using assms
  by (cases "cmd \<le> 10"; cases "isCommandValidInState (pop3_command_of cmd) (po_state c)")
     (simp_all add: pop3_execute_command_on_def Let_def not_less [symmetric])

text \<open>The guard of the engine in the terms of the Rust types.\<close>

definition rust_accepts :: "Pop3_Command \<Rightarrow> Pop3_State \<Rightarrow> bool" where
  "rust_accepts cmd s \<longleftrightarrow>
     Pop3_Command_required_state cmd = s \<or> cmd = Pop3_Command.Quit \<and> s = Pop3_State.Transaction"

lemma guard_agrees:
  "cmd \<le> 10 \<and> isCommandValidInState (pop3_command_of cmd) s \<longleftrightarrow>
     (\<exists>k. Pop3_Command_from_tag cmd = Some k \<and> rust_accepts k (rust_state s))"
proof (cases "cmd \<le> 10")
  case True
  then show ?thesis
    by (cases rule: pop3_tag_cases; cases s)
       (simp_all add: isCommandValidInState_def pop3_command_of_def rust_accepts_def Pop3_Command_from_tag_def
         Pop3_Command_required_state_def)
next
  case False
  then have "11 \<le> unat cmd" by (simp add: word_le_nat_alt)
  then have "Pop3_Command_from_tag cmd = None"
    by (simp add: Pop3_Command_codec.from_tag_eq_None_iff)
  with False show ?thesis by simp
qed

section \<open>Dialogues\<close>

text \<open>
  The accepted calls of a session: logins as \<open>USER\<close> and \<open>PASS\<close>, then the authentication, then the
  commands of the transaction state, and at most one \<open>QUIT\<close>, the last.
\<close>

definition login_part :: "pop3_call list \<Rightarrow> bool" where
  "login_part h \<longleftrightarrow> set h \<subseteq> {Po_execute 0, Po_execute 1}"

definition mail_part :: "pop3_call list \<Rightarrow> bool" where
  "mail_part h \<longleftrightarrow> set h \<subseteq> Po_execute ` {2, 3, 4, 5, 6, 7, 9, 10}"

primrec pop3_dialogue :: "pop3_state \<Rightarrow> pop3_call list \<Rightarrow> bool" where
  "pop3_dialogue po_authorization h \<longleftrightarrow> login_part h"
| "pop3_dialogue po_transaction h \<longleftrightarrow> (\<exists>a b. h = a @ Po_authenticate # b \<and> login_part a \<and> mail_part b)"
| "pop3_dialogue po_update h \<longleftrightarrow>
     (\<exists>a. h = a @ [Po_execute 8] \<and>
        (login_part a \<or> (\<exists>u v. a = u @ Po_authenticate # v \<and> login_part u \<and> mail_part v)))"

text \<open>The deletions since the last \<open>RSET\<close>, and how often a command was accepted.\<close>

definition marked :: "pop3_call list \<Rightarrow> nat" where
  "marked h = foldl (\<lambda>n x. if x = Po_execute 5 then Suc n else if x = Po_execute 7 then 0 else n) 0 h"

definition times :: "u8 \<Rightarrow> pop3_call list \<Rightarrow> nat" where
  "times cmd h = length (filter (\<lambda>x. x = Po_execute cmd) h)"

definition executed :: "pop3_call list \<Rightarrow> nat" where
  "executed h = length (filter (\<lambda>x. x \<noteq> Po_authenticate) h)"

lemma counts_snoc:
  "marked (h @ [x]) = (if x = Po_execute 5 then Suc (marked h) else if x = Po_execute 7 then 0 else marked h)"
  "times cmd (h @ [x]) = times cmd h + (if x = Po_execute cmd then 1 else 0)"
  "executed (h @ [x]) = executed h + (if x = Po_authenticate then 0 else 1)"
  by (simp_all add: marked_def times_def executed_def)

lemma counts_bound: "marked h \<le> length h" "times cmd h \<le> length h" "executed h \<le> length h"
proof -
  show "marked h \<le> length h"
    by (induction h rule: rev_induct) (simp_all add: marked_def)
qed (simp_all add: times_def executed_def)

definition pop3_inv :: "Pop3Session \<Rightarrow> pop3_call list \<Rightarrow> bool" where
  "pop3_inv c h \<longleftrightarrow>
     pop3_dialogue (po_state c) h \<and>
     (po_authenticated c \<longleftrightarrow> Po_authenticate \<in> set h) \<and>
     unat (po_command_count c) = executed h \<and>
     unat (po_deleted_count c) = marked h \<and>
     unat (po_message_count c) = times 4 h"

text \<open>While fewer than \<open>2 ^ 32 - 1\<close> calls were accepted, no counter is at its maximum.\<close>

lemma pop3_counters_free:
  assumes "pop3_inv c h" "length h < 4294967295"
  obtains n d m where
    "checked_inc (po_command_count c) = Some n" "unat n = Suc (executed h)"
    "checked_inc (po_deleted_count c) = Some d" "unat d = Suc (marked h)"
    "checked_inc (po_message_count c) = Some m" "unat m = Suc (times 4 h)"
proof -
  have "executed h < 4294967295" "marked h < 4294967295" "times 4 h < 4294967295"
    using counts_bound(1) [of h] counts_bound(2) [of 4 h] counts_bound(3) [of h] assms(2) by linarith+
  with assms(1) that show thesis unfolding pop3_inv_def using checked_inc_less by metis
qed

lemma login_part_snoc: "login_part (h @ [x]) \<longleftrightarrow> login_part h \<and> (x = Po_execute 0 \<or> x = Po_execute 1)"
  by (auto simp: login_part_def)

lemma mail_part_snoc:
  "mail_part (h @ [Po_execute cmd]) \<longleftrightarrow> mail_part h \<and> cmd \<in> {2, 3, 4, 5, 6, 7, 9, 10}"
  by (auto simp: mail_part_def)

lemma dialogue_mail:
  assumes "pop3_dialogue po_transaction h" "cmd \<in> {2, 3, 4, 5, 6, 7, 9, 10}"
  shows "pop3_dialogue po_transaction (h @ [Po_execute cmd])"
proof -
  from assms(1) obtain a b where h: "h = a @ Po_authenticate # b" "login_part a" "mail_part b"
    unfolding pop3_dialogue.simps by blast
  from h(3) assms(2) have "mail_part (b @ [Po_execute cmd])" unfolding mail_part_snoc by blast
  with h show ?thesis
    unfolding pop3_dialogue.simps by (intro exI [of _ a] exI [of _ "b @ [Po_execute cmd]"]) simp
qed

text \<open>A call keeps the invariant, and does not stop the program.\<close>

lemma pop3_inv_authenticate:
  assumes "pop3_inv c h"
  shows "\<exists>c' r. pop3_step Po_authenticate c = Some (c', r) \<and>
    pop3_inv c' (if r = 0 then h @ [Po_authenticate] else h)"
proof -
  have "pop3_dialogue po_transaction (h @ [Po_authenticate])" if "login_part h"
    unfolding pop3_dialogue.simps using that by (intro exI [of _ h] exI [of _ "[]"]) (simp add: mail_part_def)
  then show ?thesis
    using assms by (cases "po_state c = po_authorization")
      (simp_all add: pop3_inv_def op_simps counts_snoc del: pop3_dialogue.simps(2))
qed

lemma pop3_inv_execute:
  assumes "pop3_inv c h" "length h < 4294967295" "cmd \<le> 10"
    and valid: "isCommandValidInState (pop3_command_of cmd) (po_state c)"
  shows "\<exists>c'. pop3_step (Po_execute cmd) c = Some (c', 0) \<and> pop3_inv c' (h @ [Po_execute cmd])"
proof -
  from assms(1,2) obtain n d m where free:
    "checked_inc (po_command_count c) = Some n" "unat n = Suc (executed h)"
    "checked_inc (po_deleted_count c) = Some d" "unat d = Suc (marked h)"
    "checked_inc (po_message_count c) = Some m" "unat m = Suc (times 4 h)"
    by (rule pop3_counters_free)
  have mail: "po_state c = po_transaction \<Longrightarrow> cmd \<in> {2, 3, 4, 5, 6, 7, 9, 10} \<Longrightarrow>
      pop3_dialogue po_transaction (h @ [Po_execute cmd])"
    using assms(1) by (intro dialogue_mail) (simp_all add: pop3_inv_def)
  from assms(3) show ?thesis
    by (cases rule: pop3_tag_cases; cases "po_state c"; use assms(1) valid mail free in
      \<open>simp add: pop3_inv_def op_simps counts_snoc isCommandValidInState_def pop3_command_of_def login_part_snoc\<close>)
qed

text \<open>A refused call writes the last error, and for a command the last response, and nothing else.\<close>

lemma pop3_refused:
  assumes "pop3_step x c = Some (c', s)" "s \<noteq> 0"
  shows "\<exists>e r. c' = c\<lparr>po_last_error := e, po_last_response := r\<rparr>"
proof (cases x)
  case Po_authenticate
  with assms have "c' = c\<lparr>po_last_error := 3, po_last_response := po_last_response c\<rparr>"
    by (auto simp: op_simps split: if_splits)
  then show ?thesis by blast
next
  case (Po_execute cmd)
  with assms have "c' = c\<lparr>po_last_error := 4, po_last_response := po_err\<rparr>"
    by (auto simp: op_simps Let_def split: if_splits option.splits)
  then show ?thesis by blast
qed

lemma pop3_inv_step:
  assumes "pop3_inv c h" "length h < 4294967295"
  shows "\<exists>c' r. pop3_step x c = Some (c', r) \<and> pop3_inv c' (if r = 0 then h @ [x] else h)"
proof (cases x)
  case Po_authenticate
  show ?thesis unfolding Po_authenticate by (rule pop3_inv_authenticate [OF assms(1)])
next
  case (Po_execute cmd)
  show ?thesis
  proof (cases "cmd \<le> 10 \<and> isCommandValidInState (pop3_command_of cmd) (po_state c)")
    case True
    with pop3_inv_execute [OF assms, of cmd] Po_execute show ?thesis by fastforce
  next
    case False
    then have "pop3_step x c = Some (c\<lparr>po_last_error := 4, po_last_response := po_err\<rparr>, 4)"
      by (cases "cmd \<le> 10") (simp_all add: Po_execute pop3_execute_command_on_def not_less [symmetric])
    with assms(1) show ?thesis by (simp add: pop3_inv_def)
  qed
qed

lemma pop3_run_inv:
  assumes "length ops < 4294967295"
  shows "\<exists>c h. checked_run pop3_step ops (pop3_fresh c0, []) = Some (c, h) \<and> pop3_inv c h \<and> length h < 4294967295"
proof -
  have "pop3_inv (pop3_fresh c0) []"
    by (simp add: pop3_inv_def pop3_fresh_def pop3_empty_ctx_def login_part_def marked_def times_def executed_def)
  from checked_run_total [where P = pop3_inv and step = pop3_step and xs = ops and N = 4294967295, OF this _ pop3_inv_step]
  show ?thesis using assms by auto
qed

text \<open>
  C34: The POP3 engine. Any sequence of fewer than \<open>2 ^ 32 - 1\<close> calls on a new session returns, and the
  calls it accepted form a dialogue: only \<open>USER\<close> and \<open>PASS\<close> before the authentication, only mailbox
  commands after it, nothing after \<open>QUIT\<close>, and the state says where in the dialogue the session is. The
  command counter counts the accepted commands, the deletion counter the \<open>DELE\<close>s since the last \<open>RSET\<close>, and
  the message counter the \<open>RETR\<close>s. The next call does not stop the program either: a command is accepted
  exactly when its tag decodes in Rust and the session is in the state \<open>required_state\<close> names, or it is
  \<open>QUIT\<close> in the transaction state, and a refused call changes only the last error and response. \<open>QUIT\<close> before
  the authentication enters the update state, a transition \<open>can_transition_to\<close> excludes. A command on a
  session whose command counter is at its maximum stops the program.
\<close>

theorem pop3_session:
  fixes c0 :: Pop3Session and ops :: "pop3_call list"
  assumes "length ops < 4294967295"
  shows "(\<exists>c h. checked_run pop3_step ops (pop3_fresh c0, []) = Some (c, h) \<and>
      pop3_dialogue (po_state c) h \<and>
      unat (po_command_count c) = executed h \<and>
      unat (po_deleted_count c) = marked h \<and>
      unat (po_message_count c) = times 4 h \<and>
      (\<forall>x. pop3_step x c \<noteq> None) \<and>
      (\<forall>cmd. (\<exists>c'. pop3_step (Po_execute cmd) c = Some (c', 0)) \<longleftrightarrow>
         (\<exists>k. Pop3_Command_from_tag cmd = Some k \<and>
           (Pop3_Command_required_state k = rust_state (po_state c) \<or>
            k = Pop3_Command.Quit \<and> po_state c = po_transaction))) \<and>
      (\<forall>x c' s. pop3_step x c = Some (c', s) \<and> s \<noteq> 0 \<longrightarrow>
         (\<exists>e r. c' = c\<lparr>po_last_error := e, po_last_response := r\<rparr>))) \<and>
    map_option (\<lambda>(c, r). (po_state c, r)) (pop3_step (Po_execute 8) (pop3_fresh c0)) = Some (po_update, 0) \<and>
    \<not> Pop3_State_can_transition_to Pop3_State.Authorization Pop3_State.Update \<and>
    pop3_step (Po_execute 8) ((pop3_fresh c0)\<lparr>po_command_count := - 1\<rparr>) = None"
proof -
  from pop3_run_inv [OF assms] obtain c h where
    run: "checked_run pop3_step ops (pop3_fresh c0, []) = Some (c, h)" and inv: "pop3_inv c h"
    and len: "length h < 4294967295" by blast
  obtain n d m where free: "checked_inc (po_command_count c) = Some n"
    "checked_inc (po_deleted_count c) = Some d" "checked_inc (po_message_count c) = Some m"
    by (rule pop3_counters_free [OF inv len]) blast
  have "rust_state (po_state c) = Pop3_State.Transaction \<longleftrightarrow> po_state c = po_transaction"
    by (cases "po_state c") simp_all
  then have guard: "(\<exists>c'. pop3_step (Po_execute cmd) c = Some (c', 0)) \<longleftrightarrow>
      (\<exists>k. Pop3_Command_from_tag cmd = Some k \<and>
        (Pop3_Command_required_state k = rust_state (po_state c) \<or>
         k = Pop3_Command.Quit \<and> po_state c = po_transaction))" for cmd
    by (simp add: execute_accepts [OF free] guard_agrees rust_accepts_def)
  have live: "pop3_step x c \<noteq> None" for x using pop3_inv_step [OF inv len, of x] by auto
  have early: "map_option (\<lambda>(c, r). (po_state c, r)) (pop3_step (Po_execute 8) (pop3_fresh c0)) = Some (po_update, 0)"
    "pop3_step (Po_execute 8) ((pop3_fresh c0)\<lparr>po_command_count := - 1\<rparr>) = None"
    by (simp_all add: op_simps pop3_fresh_def pop3_empty_ctx_def pop3_command_of_def isCommandValidInState_def
        checked_inc_def)
  have refused: "\<forall>x c' s. pop3_step x c = Some (c', s) \<and> s \<noteq> 0 \<longrightarrow>
      (\<exists>e r. c' = c\<lparr>po_last_error := e, po_last_response := r\<rparr>)"
    using pop3_refused by blast
  show ?thesis
    using inv live guard early
    by (intro conjI exI [of _ c] exI [of _ h] run refused) (simp_all add: pop3_inv_def Pop3_State_can_transition_to_def)
qed

theorem pop3_session_witness:
  "\<exists>c. checked_run pop3_step [Po_execute 0, Po_execute 2, Po_authenticate, Po_execute 5, Po_execute 8]
       (pop3_fresh pop3_empty_ctx, []) =
       Some (c, [Po_execute 0, Po_authenticate, Po_execute 5, Po_execute 8]) \<and>
     po_state c = po_update \<and> unat (po_deleted_count c) = 1 \<and>
     pop3_dialogue po_update [Po_execute 0, Po_authenticate, Po_execute 5, Po_execute 8]"
proof -
  let ?ops = "[Po_execute 0, Po_execute 2, Po_authenticate, Po_execute 5, Po_execute 8]"
  let ?run = "checked_run pop3_step ?ops (pop3_fresh pop3_empty_ctx, [])"
  have run: "map_option (\<lambda>(c, h). (po_state c, h)) ?run =
      Some (po_update, [Po_execute 0, Po_authenticate, Po_execute 5, Po_execute 8])"
    by (simp add: op_simps pop3_fresh_def pop3_empty_ctx_def pop3_command_of_def isCommandValidInState_def
        checked_inc_def)
  have "length ?ops < 4294967295" by simp
  from pop3_session [OF this, of pop3_empty_ctx] run
  show ?thesis by (auto simp: marked_def simp del: pop3_step.simps checked_run.simps pop3_dialogue.simps)
qed

end
