(* ===== verification/Ntp_Engine.thy ===== *)
theory Ntp_Engine
  imports Slot_Pool Lifecycle_Tables
begin

text \<open>
  The NTP engine \<open>not-proven/proven-ntp/ffi/zig/src/ntp.zig\<close>, which no Rust module wraps: timestamp
  arithmetic and the exchanges of 64 contexts. An addition or subtraction that leaves its type stops
  the program; the value is then \<open>None\<close>. Modes and leap indicators are kept as their tags.
\<close>

section \<open>Timestamps\<close>

record NtpTimestamp =
  ts_seconds :: u32
  ts_fraction :: u32

definition ts_zero :: NtpTimestamp where
  "ts_zero = \<lparr>ts_seconds = 0, ts_fraction = 0\<rparr>"

definition ts_isNull :: "NtpTimestamp \<Rightarrow> bool" where
  "ts_isNull t \<longleftrightarrow> ts_seconds t = 0 \<and> ts_fraction t = 0"

definition ts_add :: "NtpTimestamp \<Rightarrow> NtpTimestamp \<Rightarrow> NtpTimestamp" where
  "ts_add a b =
     (let frac_sum = (ucast (ts_fraction a) :: u64) + ucast (ts_fraction b);
          carry = (if frac_sum \<ge> 0x100000000 then 1 else 0)
      in \<lparr>ts_seconds = ts_seconds a + ts_seconds b + carry, ts_fraction = ucast frac_sum\<rparr>)"

text \<open>Zig's checked subtraction of unsigned words.\<close>

definition checked_sub :: "u32 \<Rightarrow> u32 \<Rightarrow> u32 option" where
  "checked_sub a b = (if b \<le> a then Some (a - b) else None)"

definition ts_sub :: "NtpTimestamp \<Rightarrow> NtpTimestamp \<Rightarrow> NtpTimestamp option" where
  "ts_sub a b =
     (let borrow = (if ts_fraction a < ts_fraction b then 1 else 0);
          new_frac = (if ts_fraction a \<ge> ts_fraction b then ts_fraction a - ts_fraction b
                      else ts_fraction a + (NOT (ts_fraction b) + 1));
          new_secs = (if ts_seconds a \<ge> ts_seconds b + borrow
                      then (case checked_sub (ts_seconds a) (ts_seconds b) of
                              None \<Rightarrow> None
                            | Some d \<Rightarrow> checked_sub d borrow)
                      else Some 0)
      in map_option (\<lambda>s. \<lparr>ts_seconds = s, ts_fraction = new_frac\<rparr>) new_secs)"

definition ts_half :: "NtpTimestamp \<Rightarrow> NtpTimestamp" where
  "ts_half t =
     (let carry_frac = (if ts_seconds t AND 1 = 1 then 0x80000000 else 0)
      in \<lparr>ts_seconds = drop_bit 1 (ts_seconds t), ts_fraction = drop_bit 1 (ts_fraction t) + carry_frac\<rparr>)"

definition ts_compare :: "NtpTimestamp \<Rightarrow> NtpTimestamp \<Rightarrow> int" where
  "ts_compare a b =
     (if ts_seconds a < ts_seconds b then - 1
      else if ts_seconds a > ts_seconds b then 1
      else if ts_fraction a < ts_fraction b then - 1
      else if ts_fraction a > ts_fraction b then 1
      else 0)"

definition ts_fractionToMillis :: "NtpTimestamp \<Rightarrow> u32" where
  "ts_fractionToMillis t = ucast (drop_bit 32 ((ucast (ts_fraction t) :: u64) * 1000))"

definition roundTripDelay ::
  "NtpTimestamp \<Rightarrow> NtpTimestamp \<Rightarrow> NtpTimestamp \<Rightarrow> NtpTimestamp \<Rightarrow> NtpTimestamp option" where
  "roundTripDelay t1 t2 t3 t4 =
     (case (ts_sub t4 t1, ts_sub t3 t2) of
        (Some client_span, Some server_span) \<Rightarrow> ts_sub client_span server_span
      | _ \<Rightarrow> None)"

definition clockOffset ::
  "NtpTimestamp \<Rightarrow> NtpTimestamp \<Rightarrow> NtpTimestamp \<Rightarrow> NtpTimestamp \<Rightarrow> NtpTimestamp option" where
  "clockOffset t1 t2 t3 t4 =
     (case (ts_sub t2 t1, ts_sub t3 t4) of
        (Some diff1, Some diff2) \<Rightarrow> Some (ts_half (ts_add diff1 diff2))
      | _ \<Rightarrow> None)"

section \<open>Contexts\<close>

datatype ntp_exchange = nx_idle | nx_request_received | nx_timestamp_calculated | nx_response_sent

primrec ntp_exchange_tag :: "ntp_exchange \<Rightarrow> u8" where
  "ntp_exchange_tag nx_idle = 0"
| "ntp_exchange_tag nx_request_received = 1"
| "ntp_exchange_tag nx_timestamp_calculated = 2"
| "ntp_exchange_tag nx_response_sent = 3"

record NtpCtx =
  nt_active :: bool
  nt_version :: u8
  nt_mode :: u8
  nt_stratum :: u8
  nt_leap :: u8
  nt_exchange_state :: ntp_exchange
  nt_discipline_state :: u8
  nt_last_error :: u8
  nt_exchange_count :: u32
  nt_last_kiss :: u8
  nt_t1 :: NtpTimestamp
  nt_t2 :: NtpTimestamp
  nt_t3 :: NtpTimestamp
  nt_offset :: NtpTimestamp
  nt_delay :: NtpTimestamp

type_synonym ntp_pool = "NtpCtx list"

definition ntp_empty_ctx :: NtpCtx where
  "ntp_empty_ctx =
     \<lparr>nt_active = False, nt_version = 4, nt_mode = 0, nt_stratum = 16, nt_leap = 0,
      nt_exchange_state = nx_idle, nt_discipline_state = 0, nt_last_error = 255, nt_exchange_count = 0,
      nt_last_kiss = 255, nt_t1 = ts_zero, nt_t2 = ts_zero, nt_t3 = ts_zero, nt_offset = ts_zero,
      nt_delay = ts_zero\<rparr>"

definition ntp_contexts :: ntp_pool where
  "ntp_contexts = replicate 64 ntp_empty_ctx"

definition ntp_abi_version :: u32 where
  "ntp_abi_version = 1"

definition ntp_fresh :: "u8 \<Rightarrow> u8 \<Rightarrow> u8 \<Rightarrow> NtpCtx \<Rightarrow> NtpCtx" where
  "ntp_fresh version mode stratum c =
     ntp_empty_ctx\<lparr>nt_active := True, nt_version := version, nt_mode := mode, nt_stratum := stratum\<rparr>"

definition ntp_create :: "u8 \<Rightarrow> u8 \<Rightarrow> u8 \<Rightarrow> ntp_pool \<Rightarrow> ntp_pool \<times> c_int" where
  "ntp_create version mode stratum p =
     (if version \<noteq> 3 \<and> version \<noteq> 4 then (p, - 1)
      else if mode > 7 then (p, - 1)
      else if stratum > 16 then (p, - 1)
      else pool_create nt_active (ntp_fresh version mode stratum) p)"

definition ntp_destroy :: "ntp_pool \<Rightarrow> c_int \<Rightarrow> ntp_pool" where
  "ntp_destroy p slot = pool_destroy (\<lambda>c. c\<lparr>nt_active := False\<rparr>) p slot"

section \<open>State queries\<close>

definition ntp_get_exchange_state :: "ntp_pool \<Rightarrow> c_int \<Rightarrow> u8" where
  "ntp_get_exchange_state p slot = query_slot nt_active p slot 0 (\<lambda>c. ntp_exchange_tag (nt_exchange_state c))"

definition ntp_get_discipline_state :: "ntp_pool \<Rightarrow> c_int \<Rightarrow> u8" where
  "ntp_get_discipline_state p slot = query_slot nt_active p slot 0 nt_discipline_state"

definition ntp_get_stratum :: "ntp_pool \<Rightarrow> c_int \<Rightarrow> u8" where
  "ntp_get_stratum p slot = query_slot nt_active p slot 16 nt_stratum"

definition ntp_get_mode :: "ntp_pool \<Rightarrow> c_int \<Rightarrow> u8" where
  "ntp_get_mode p slot = query_slot nt_active p slot 0 nt_mode"

definition ntp_get_last_error :: "ntp_pool \<Rightarrow> c_int \<Rightarrow> u8" where
  "ntp_get_last_error p slot = query_slot nt_active p slot 255 nt_last_error"

definition ntp_get_exchange_count :: "ntp_pool \<Rightarrow> c_int \<Rightarrow> u32" where
  "ntp_get_exchange_count p slot = query_slot nt_active p slot 0 nt_exchange_count"

definition ntp_get_leap :: "ntp_pool \<Rightarrow> c_int \<Rightarrow> u8" where
  "ntp_get_leap p slot = query_slot nt_active p slot 0 nt_leap"

definition ntp_check_kiss :: "ntp_pool \<Rightarrow> c_int \<Rightarrow> u8" where
  "ntp_check_kiss p slot = query_slot nt_active p slot 255 nt_last_kiss"

section \<open>Operations on one context\<close>

text \<open>\<open>NtpError\<close>: 0 ok, 1 invalid slot, 3 invalid packet, 5 stratum too high.\<close>

definition ntp_receive_request_on :: "NtpTimestamp \<Rightarrow> NtpTimestamp \<Rightarrow> NtpCtx \<Rightarrow> NtpCtx \<times> u8" where
  [op_simps]: "ntp_receive_request_on t1 t2 c =
     (if nt_exchange_state c \<noteq> nx_idle then (c\<lparr>nt_last_error := 3\<rparr>, 3)
      else (c\<lparr>nt_t1 := t1, nt_t2 := t2, nt_exchange_state := nx_request_received, nt_last_error := 255\<rparr>, 0))"

definition ntp_calculate_on :: "NtpTimestamp \<Rightarrow> NtpCtx \<Rightarrow> (NtpCtx \<times> u8) option" where
  [op_simps]: "ntp_calculate_on t3 c =
     (if nt_exchange_state c \<noteq> nx_request_received then Some (c\<lparr>nt_last_error := 3\<rparr>, 3)
      else case (ts_sub (nt_t2 c) (nt_t1 c), ts_sub t3 (nt_t2 c)) of
        (Some offset, Some delay) \<Rightarrow>
          Some (c\<lparr>nt_t3 := t3, nt_offset := offset, nt_delay := delay,
                  nt_exchange_state := nx_timestamp_calculated, nt_last_error := 255\<rparr>, 0)
      | _ \<Rightarrow> None)"

definition ntp_send_response_on :: "NtpCtx \<Rightarrow> NtpCtx \<times> u8" where
  [op_simps]: "ntp_send_response_on c =
     (if nt_exchange_state c \<noteq> nx_timestamp_calculated then (c\<lparr>nt_last_error := 3\<rparr>, 3)
      else (c\<lparr>nt_exchange_state := nx_response_sent, nt_last_error := 255\<rparr>, 0))"

definition ntp_reset_exchange_on :: "NtpCtx \<Rightarrow> (NtpCtx \<times> u8) option" where
  [op_simps]: "ntp_reset_exchange_on c =
     (if nt_exchange_state c \<noteq> nx_response_sent then Some (c\<lparr>nt_last_error := 3\<rparr>, 3)
      else if nt_exchange_count c = - 1 then None
      else Some (c\<lparr>nt_exchange_state := nx_idle, nt_exchange_count := nt_exchange_count c + 1,
                   nt_t1 := ts_zero, nt_t2 := ts_zero, nt_t3 := ts_zero, nt_last_error := 255\<rparr>, 0))"

text \<open>What the call writes through its out pointers, when it does.\<close>

definition ntp_get_offset_on :: "NtpCtx \<Rightarrow> NtpCtx \<times> u8 \<times> NtpTimestamp option" where
  [op_simps]: "ntp_get_offset_on c =
     (if nt_exchange_state c = nx_idle then (c\<lparr>nt_last_error := 3\<rparr>, 3, None)
      else (c, 0, Some (nt_offset c)))"

definition ntp_get_delay_on :: "NtpCtx \<Rightarrow> NtpCtx \<times> u8 \<times> NtpTimestamp option" where
  [op_simps]: "ntp_get_delay_on c =
     (if nt_exchange_state c = nx_idle then (c\<lparr>nt_last_error := 3\<rparr>, 3, None)
      else (c, 0, Some (nt_delay c)))"

definition ntp_set_leap_on :: "u8 \<Rightarrow> NtpCtx \<Rightarrow> NtpCtx \<times> u8" where
  [op_simps]: "ntp_set_leap_on leap c =
     (if leap > 3 then (c\<lparr>nt_last_error := 3\<rparr>, 3) else (c\<lparr>nt_leap := leap, nt_last_error := 255\<rparr>, 0))"

definition ntp_set_kiss_on :: "u8 \<Rightarrow> NtpCtx \<Rightarrow> NtpCtx \<times> u8" where
  [op_simps]: "ntp_set_kiss_on kiss c =
     (if kiss > 3 then (c\<lparr>nt_last_error := 3\<rparr>, 3) else (c\<lparr>nt_last_kiss := kiss, nt_last_error := 255\<rparr>, 0))"

definition ntp_advance_discipline_on :: "u8 \<Rightarrow> NtpCtx \<Rightarrow> NtpCtx \<times> u8" where
  [op_simps]: "ntp_advance_discipline_on new_state c =
     (if ntp_can_discipline_transition (nt_discipline_state c) new_state = 0 then (c\<lparr>nt_last_error := 3\<rparr>, 3)
      else (c\<lparr>nt_discipline_state := new_state, nt_last_error := 255\<rparr>, 0))"

definition ntp_set_stratum_on :: "u8 \<Rightarrow> NtpCtx \<Rightarrow> NtpCtx \<times> u8" where
  [op_simps]: "ntp_set_stratum_on stratum c =
     (if stratum > 16 then (c\<lparr>nt_last_error := 5\<rparr>, 5) else (c\<lparr>nt_stratum := stratum, nt_last_error := 255\<rparr>, 0))"

section \<open>The exported functions\<close>

definition ntp_receive_request :: "ntp_pool \<Rightarrow> c_int \<Rightarrow> u32 \<Rightarrow> u32 \<Rightarrow> u32 \<Rightarrow> u32 \<Rightarrow> ntp_pool \<times> u8" where
  "ntp_receive_request p slot t1_secs t1_frac t2_secs t2_frac =
     on_slot nt_active p slot 1
       (ntp_receive_request_on \<lparr>ts_seconds = t1_secs, ts_fraction = t1_frac\<rparr> \<lparr>ts_seconds = t2_secs, ts_fraction = t2_frac\<rparr>)"

definition ntp_calculate :: "ntp_pool \<Rightarrow> c_int \<Rightarrow> u32 \<Rightarrow> u32 \<Rightarrow> (ntp_pool \<times> u8) option" where
  "ntp_calculate p slot t3_secs t3_frac =
     on_slot_checked nt_active p slot 1 (ntp_calculate_on \<lparr>ts_seconds = t3_secs, ts_fraction = t3_frac\<rparr>)"

definition ntp_send_response :: "ntp_pool \<Rightarrow> c_int \<Rightarrow> ntp_pool \<times> u8" where
  "ntp_send_response p slot = on_slot nt_active p slot 1 ntp_send_response_on"

definition ntp_reset_exchange :: "ntp_pool \<Rightarrow> c_int \<Rightarrow> (ntp_pool \<times> u8) option" where
  "ntp_reset_exchange p slot = on_slot_checked nt_active p slot 1 ntp_reset_exchange_on"

definition ntp_get_offset :: "ntp_pool \<Rightarrow> c_int \<Rightarrow> ntp_pool \<times> u8 \<times> NtpTimestamp option" where
  "ntp_get_offset p slot = on_slot nt_active p slot (1, None) ntp_get_offset_on"

definition ntp_get_delay :: "ntp_pool \<Rightarrow> c_int \<Rightarrow> ntp_pool \<times> u8 \<times> NtpTimestamp option" where
  "ntp_get_delay p slot = on_slot nt_active p slot (1, None) ntp_get_delay_on"

definition ntp_set_leap :: "ntp_pool \<Rightarrow> c_int \<Rightarrow> u8 \<Rightarrow> ntp_pool \<times> u8" where
  "ntp_set_leap p slot leap = on_slot nt_active p slot 1 (ntp_set_leap_on leap)"

definition ntp_set_kiss :: "ntp_pool \<Rightarrow> c_int \<Rightarrow> u8 \<Rightarrow> ntp_pool \<times> u8" where
  "ntp_set_kiss p slot kiss = on_slot nt_active p slot 1 (ntp_set_kiss_on kiss)"

definition ntp_advance_discipline :: "ntp_pool \<Rightarrow> c_int \<Rightarrow> u8 \<Rightarrow> ntp_pool \<times> u8" where
  "ntp_advance_discipline p slot new_state = on_slot nt_active p slot 1 (ntp_advance_discipline_on new_state)"

definition ntp_set_stratum :: "ntp_pool \<Rightarrow> c_int \<Rightarrow> u8 \<Rightarrow> ntp_pool \<times> u8" where
  "ntp_set_stratum p slot stratum = on_slot nt_active p slot 1 (ntp_set_stratum_on stratum)"

section \<open>Arithmetic\<close>

text \<open>A timestamp as the 64-bit number it is in a packet.\<close>

definition ts_value :: "NtpTimestamp \<Rightarrow> nat" where
  "ts_value t = unat (ts_seconds t) * 2 ^ 32 + unat (ts_fraction t)"

lemma u32_bound: "unat (w :: u32) < 4294967296"
  using unsigned_less [of w, where ?'a = nat] by simp

lemma ts_value_less: "ts_value t < 2 ^ 64"
  using u32_bound [of "ts_seconds t"] u32_bound [of "ts_fraction t"] by (simp add: ts_value_def)

lemma ts_value_le_iff:
  "ts_value a \<le> ts_value b \<longleftrightarrow>
     ts_seconds a < ts_seconds b \<or> ts_seconds a = ts_seconds b \<and> ts_fraction a \<le> ts_fraction b"
  using u32_bound [of "ts_fraction a"] u32_bound [of "ts_fraction b"]
  by (auto simp: ts_value_def word_less_nat_alt word_le_nat_alt word_unat_eq_iff)

lemma value_mod: "r < 2 ^ 32 \<Longrightarrow> (x * 2 ^ 32 + r) mod 2 ^ 64 = (x mod 2 ^ 32) * 2 ^ 32 + (r :: nat)"
  using mod_mult2_eq [of "x * 2 ^ 32 + r" "2 ^ 32" "2 ^ 32"] by simp

lemma ts_add_value: "ts_value (ts_add a b) = (ts_value a + ts_value b) mod 2 ^ 64"
proof -
  let ?s = "unat (ts_fraction a) + unat (ts_fraction b)"
    and ?sum = "(ucast (ts_fraction a) :: u64) + ucast (ts_fraction b)"
  let ?x = "unat (ts_seconds a) + unat (ts_seconds b) + ?s div 2 ^ 32"
  have less: "unat (ts_fraction a) < 4294967296" "unat (ts_fraction b) < 4294967296" by (rule u32_bound)+
  have u: "unat ?sum = ?s" using less by (simp add: unat_word_ariths unsigned_ucast_eq take_bit_eq_mod)
  have f: "unat (ucast ?sum :: u32) = ?s mod 2 ^ 32" by (simp add: unsigned_ucast_eq take_bit_eq_mod u)
  have c: "unat (if ?sum \<ge> 0x100000000 then 1 else 0 :: u32) = ?s div 2 ^ 32"
    using less by (auto simp: word_le_nat_alt u div_eq_0_iff intro: div_nat_eqI [symmetric])
  have sec: "unat (ts_seconds (ts_add a b)) = ?x mod 2 ^ 32"
    unfolding ts_add_def Let_def NtpTimestamp.simps c [symmetric] by (simp add: unat_word_ariths mod_simps)
  have frac: "unat (ts_fraction (ts_add a b)) = ?s mod 2 ^ 32" by (simp add: ts_add_def Let_def f)
  have "ts_value a + ts_value b = ?x * 2 ^ 32 + ?s mod 2 ^ 32"
    by (simp add: ts_value_def add_mult_distrib)
  then show ?thesis
    using value_mod [of "?s mod 2 ^ 32" ?x] unfolding ts_value_def [of "ts_add a b"] sec frac by simp
qed

lemma ts_half_value: "ts_value (ts_half t) = ts_value t div 2"
proof -
  let ?s = "unat (ts_seconds t)" and ?f = "unat (ts_fraction t)"
  have d: "unat (drop_bit (Suc 0) w) = unat w div 2" for w :: u32 by (simp add: drop_bit_eq_div unat_div)
  have o: "ts_seconds t AND 1 = 1 \<longleftrightarrow> odd ?s"
    by (simp add: and_one_eq word_unat_eq_iff unat_mod odd_iff_mod_2_eq_one)
  have "?f < 4294967296" by (rule u32_bound)
  then have f: "unat (ts_fraction (ts_half t)) = ?f div 2 + (if odd ?s then 2 ^ 31 else 0)"
    by (simp add: ts_half_def Let_def o unat_word_ariths d)
  have s: "unat (ts_seconds (ts_half t)) = ?s div 2" by (simp add: ts_half_def Let_def d)
  show ?thesis
    unfolding ts_value_def f s by (cases "odd ?s") (auto elim!: oddE evenE)
qed

lemma ts_sub_ge:
  assumes "ts_value b \<le> ts_value a"
  shows "\<exists>r. ts_sub a b = Some r \<and> ts_value r = ts_value a - ts_value b"
proof (cases "ts_fraction a < ts_fraction b")
  case True
  with assms have s: "ts_seconds b < ts_seconds a" by (auto simp: ts_value_le_iff)
  then have n: "unat (ts_seconds b) + 1 \<le> unat (ts_seconds a)" by (simp add: word_less_nat_alt)
  then have one: "unat (ts_seconds b + 1) = unat (ts_seconds b) + 1"
    using u32_bound [of "ts_seconds a"] by (simp add: unat_word_ariths)
  have diff: "unat (ts_seconds a - ts_seconds b) = unat (ts_seconds a) - unat (ts_seconds b)"
    using n by (simp add: unat_sub_if')
  have two: "unat (ts_seconds a - ts_seconds b - 1) = unat (ts_seconds a) - unat (ts_seconds b) - 1"
    using n diff by (simp add: unat_sub_if')
  have frac: "unat (ts_fraction a + (NOT (ts_fraction b) + 1)) = 4294967296 + unat (ts_fraction a) - unat (ts_fraction b)"
    using True by (simp add: minus_eq_not_plus_1 [symmetric] unat_sub_if' word_less_nat_alt)
  have "ts_sub a b = Some \<lparr>ts_seconds = ts_seconds a - ts_seconds b - 1, ts_fraction = ts_fraction a + (NOT (ts_fraction b) + 1)\<rparr>"
    using True s n one diff by (simp add: ts_sub_def Let_def checked_sub_def word_le_nat_alt word_less_nat_alt)
  with n True u32_bound [of "ts_fraction b"] show ?thesis
    by (simp add: ts_value_def two frac word_less_nat_alt) 
next
  case False
  with assms have s: "ts_seconds b \<le> ts_seconds a" by (auto simp: ts_value_le_iff)
  then have "ts_sub a b = Some \<lparr>ts_seconds = ts_seconds a - ts_seconds b, ts_fraction = ts_fraction a - ts_fraction b\<rparr>"
    using False by (simp add: ts_sub_def Let_def checked_sub_def leI)
  moreover from s False have "unat (ts_seconds b) \<le> unat (ts_seconds a)" "unat (ts_fraction b) \<le> unat (ts_fraction a)"
    by (simp_all add: word_le_nat_alt word_less_nat_alt)
  ultimately show ?thesis
    by (simp add: ts_value_def unat_sub_if' diff_mult_distrib)
qed

lemma ts_sub_less:
  assumes "ts_value a < ts_value b"
  shows "ts_sub a b =
    (if ts_fraction a < ts_fraction b \<and> ts_seconds b = - 1 then None
     else Some \<lparr>ts_seconds = 0, ts_fraction = ts_fraction a - ts_fraction b\<rparr>)"
proof (cases "ts_fraction a < ts_fraction b")
  case True
  with assms have s: "ts_seconds a \<le> ts_seconds b" using ts_value_le_iff [of b a] by (auto simp: not_le)
  show ?thesis
  proof (cases "ts_seconds b = - 1")
    case top: True
    have "ts_seconds a = - 1 \<or> \<not> (- 1 :: u32) \<le> ts_seconds a" by (metis word_order.extremum_unique)
    then show ?thesis using True top by (auto simp: ts_sub_def Let_def checked_sub_def)
  next
    case False
    then have "unat (ts_seconds b) \<noteq> unat (- 1 :: u32)" by (simp add: word_unat_eq_iff)
    moreover have "unat (- 1 :: u32) = 4294967295" by (simp add: unsigned_minus_1_eq_mask mask_eq_exp_minus_1)
    ultimately have "unat (ts_seconds b) + 1 < 4294967296" using u32_bound [of "ts_seconds b"] by linarith
    then have "unat (ts_seconds b + 1) = unat (ts_seconds b) + 1" by (simp add: unat_word_ariths)
    with s have "\<not> ts_seconds b + 1 \<le> ts_seconds a" by (simp add: word_le_nat_alt)
    with True False show ?thesis by (simp add: ts_sub_def Let_def minus_eq_not_plus_1 [symmetric])
  qed
next
  case False
  with assms have "ts_seconds a < ts_seconds b" using ts_value_le_iff [of b a] by (auto simp: not_le not_less)
  then have "\<not> ts_seconds b \<le> ts_seconds a" by (simp add: word_le_nat_alt word_less_nat_alt)
  with False show ?thesis by (simp add: ts_sub_def Let_def leI)
qed

lemma uint_diff: "uint (a - b :: u32) = (uint a - uint b) mod 4294967296"
  using uint_word_ariths(2) [of a b] by simp

lemma ts_sub_less_value:
  assumes "ts_value a < ts_value b" "ts_sub a b = Some r"
  shows "int (ts_value r) = (int (ts_value a) - int (ts_value b)) mod 2 ^ 32"
proof -
  have "r = \<lparr>ts_seconds = 0, ts_fraction = ts_fraction a - ts_fraction b\<rparr>"
    using assms(2) by (simp add: ts_sub_less [OF assms(1)] split: if_split_asm)
  then have "int (ts_value r) = (int (unat (ts_fraction a)) - int (unat (ts_fraction b))) mod 2 ^ 32"
    by (simp add: ts_value_def uint_diff)
  also have "\<dots> = (int (ts_value a) - int (ts_value b)) mod 2 ^ 32"
  proof -
    have "int (ts_value a) - int (ts_value b) =
        (int (unat (ts_seconds a)) - int (unat (ts_seconds b))) * 2 ^ 32 + (int (unat (ts_fraction a)) - int (unat (ts_fraction b)))"
      by (simp add: ts_value_def algebra_simps)
    then show ?thesis by (simp only: mod_mult_self3)
  qed
  finally show ?thesis .
qed

lemma ts_fraction_millis: "unat (ts_fractionToMillis t) = ts_value t mod 2 ^ 32 * 1000 div 2 ^ 32"
proof -
  let ?f = "unat (ts_fraction t)"
  have less: "?f < 4294967296" by (rule u32_bound)
  have "unat ((ucast (ts_fraction t) :: u64) * 1000) = ?f * 1000"
    using less by (simp add: unat_word_ariths unsigned_ucast_eq take_bit_eq_mod)
  then have "unat (drop_bit 32 ((ucast (ts_fraction t) :: u64) * 1000)) = ?f * 1000 div 2 ^ 32"
    by (simp add: drop_bit_eq_div unat_div)
  moreover have "?f * 1000 div 2 ^ 32 < 2 ^ 32" using less by (simp add: div_less_iff_less_mult)
  ultimately have "unat (ts_fractionToMillis t) = ?f * 1000 div 2 ^ 32"
    by (simp add: ts_fractionToMillis_def unsigned_ucast_eq take_bit_eq_mod)
  moreover have "ts_value t mod 2 ^ 32 = ?f" using less by (simp add: ts_value_def)
  ultimately show ?thesis by simp
qed

lemma round_up_div:
  assumes "0 < (m :: nat)"
  shows "int d + (- int d) mod int m = int ((d + m - 1) div m * m)"
proof (cases "d mod m = 0")
  case True
  then obtain q where q: "d = m * q" by (auto simp: mod_eq_0_iff_dvd elim: dvdE)
  have "(m * q + (m - 1)) div m = q" using assms by (subst div_mult_self4) auto
  then show ?thesis using assms by (simp add: q)
next
  case False
  let ?q = "d div m" and ?r = "d mod m"
  have "d + m - 1 = m * Suc ?q + (?r - 1)"
    unfolding mult_Suc_right using False assms mult_div_mod_eq [of m d] by linarith
  moreover have "(m * Suc ?q + (?r - 1)) div m = Suc ?q"
    using assms mod_less_divisor [OF assms, of d] by (subst div_mult_self4) auto
  moreover have "(- int d) mod int m = int m - int ?r"
    using zmod_zminus1_eq_if [of "int d" "int m"] False by (simp flip: of_nat_mod)
  moreover have "int d = int m * int ?q + int ?r" by (simp flip: of_nat_mult of_nat_add)
  ultimately show ?thesis by (simp add: algebra_simps)
qed

lemma ts_compare_sgn: "ts_compare a b = sgn (int (ts_value a) - int (ts_value b))"
proof (cases "ts_value a" "ts_value b" rule: linorder_cases)
  case less
  then have "\<not> ts_value b \<le> ts_value a" by simp
  then have "ts_seconds a < ts_seconds b \<or> ts_seconds a = ts_seconds b \<and> ts_fraction a < ts_fraction b"
    unfolding ts_value_le_iff by auto
  with less show ?thesis by (auto simp: ts_compare_def)
next
  case equal
  then have "ts_value a \<le> ts_value b" "ts_value b \<le> ts_value a" by simp_all
  then have "ts_seconds a = ts_seconds b \<and> ts_fraction a = ts_fraction b" unfolding ts_value_le_iff by auto
  with equal show ?thesis by (simp add: ts_compare_def)
next
  case greater
  then have "\<not> ts_value a \<le> ts_value b" by simp
  then have "ts_seconds b < ts_seconds a \<or> ts_seconds b = ts_seconds a \<and> ts_fraction b < ts_fraction a"
    unfolding ts_value_le_iff by auto
  with greater show ?thesis by (auto simp: ts_compare_def)
qed

text \<open>
  C36: A timestamp is a 64-bit number of fractions of a second. Addition wraps at \<open>2 ^ 64\<close>, halving rounds
  down, comparison is the sign of the difference, and the milliseconds of a fraction are rounded
  down. A subtraction is exact where the difference is not negative. Elsewhere it gives the
  difference modulo one second, not the zero its comment promises; and where moreover the
  subtrahend is in the last second of the era and its fraction is the larger, it stops the program.
\<close>

theorem ntp_timestamps:
  "ts_value (ts_add a b) = (ts_value a + ts_value b) mod 2 ^ 64 \<and>
   ts_value (ts_half a) = ts_value a div 2 \<and>
   ts_compare a b = sgn (int (ts_value a) - int (ts_value b)) \<and>
   unat (ts_fractionToMillis a) = ts_value a mod 2 ^ 32 * 1000 div 2 ^ 32 \<and>
   (ts_sub a b = None \<longleftrightarrow> ts_value a < ts_value b \<and> ts_fraction a < ts_fraction b \<and> ts_seconds b = - 1) \<and>
   (case ts_sub a b of
      None \<Rightarrow> True
    | Some r \<Rightarrow> int (ts_value r) =
        (if ts_value b \<le> ts_value a then int (ts_value a) - int (ts_value b)
         else (int (ts_value a) - int (ts_value b)) mod 2 ^ 32))"
proof -
  have "unat (ts_fractionToMillis a) = ts_value a mod 2 ^ 32 * 1000 div 2 ^ 32"
    by (rule ts_fraction_millis)
  moreover have "ts_sub a b = None \<longleftrightarrow> ts_value a < ts_value b \<and> ts_fraction a < ts_fraction b \<and> ts_seconds b = - 1"
    using ts_sub_ge [of b a] ts_sub_less [of a b] by (cases "ts_value b \<le> ts_value a") auto
  moreover have "case ts_sub a b of
      None \<Rightarrow> True
    | Some r \<Rightarrow> int (ts_value r) =
        (if ts_value b \<le> ts_value a then int (ts_value a) - int (ts_value b)
         else (int (ts_value a) - int (ts_value b)) mod 2 ^ 32)"
    using ts_sub_ge [of b a] ts_sub_less_value [of a b]
    by (cases "ts_value b \<le> ts_value a") (auto split: option.split)
  ultimately show ?thesis using ts_add_value ts_half_value ts_compare_sgn by simp
qed

text \<open>
  Between clocks that agree, the computed offset is not zero. When the request and the answer each
  take the time \<open>d > 0\<close>, so that the offset of RFC 5905 is 0, \<open>clockOffset\<close> gives one half of \<open>d\<close>
  rounded up to whole seconds (unless the answer arrives in the last second of the era).
\<close>

theorem ntp_offset_in_step:
  assumes "ts_value t2 = ts_value t1 + d" "ts_value t4 = ts_value t3 + d" "0 < d" "ts_seconds t4 \<noteq> - 1"
    and "d < 2 ^ 63"
  shows "\<exists>r. clockOffset t1 t2 t3 t4 = Some r \<and> ts_value r = (d + 2 ^ 32 - 1) div 2 ^ 32 * 2 ^ 32 div 2"
proof -
  obtain r1 where r1: "ts_sub t2 t1 = Some r1" "ts_value r1 = d"
    using ts_sub_ge [of t1 t2] assms(1) by auto
  have less: "ts_value t3 < ts_value t4" using assms(2,3) by simp
  obtain r2 where r2: "ts_sub t3 t4 = Some r2" using ts_sub_less [OF less] assms(4) by auto
  have "int (ts_value r2) = (- int d) mod 2 ^ 32"
    using ts_sub_less_value [OF less r2] assms(2) by simp
  then have "int (d + ts_value r2) = int ((d + 2 ^ 32 - 1) div 2 ^ 32 * 2 ^ 32)"
    using round_up_div [of "2 ^ 32" d] by simp
  then have sum: "d + ts_value r2 = (d + 2 ^ 32 - 1) div 2 ^ 32 * 2 ^ 32" by (simp only: of_nat_eq_iff)
  moreover have "(d + 2 ^ 32 - 1) div 2 ^ 32 * 2 ^ 32 < 2 ^ 64"
    using assms(5) div_times_less_eq_dividend [of "d + 2 ^ 32 - 1" "2 ^ 32"] by simp
  ultimately have "ts_value (ts_add r1 r2) = (d + 2 ^ 32 - 1) div 2 ^ 32 * 2 ^ 32"
    by (simp add: ts_add_value r1(2))
  then show ?thesis by (simp add: clockOffset_def r1(1) r2 ts_half_value)
qed

theorem ntp_offset_in_step_witness:
  "\<exists>r. clockOffset \<lparr>ts_seconds = 10, ts_fraction = 0\<rparr> \<lparr>ts_seconds = 11, ts_fraction = 0\<rparr>
      \<lparr>ts_seconds = 11, ts_fraction = 0\<rparr> \<lparr>ts_seconds = 12, ts_fraction = 0\<rparr> = Some r \<and> ts_value r = 2 ^ 31"
  using ntp_offset_in_step [of "\<lparr>ts_seconds = 11, ts_fraction = 0\<rparr>" "\<lparr>ts_seconds = 10, ts_fraction = 0\<rparr>" "2 ^ 32"
      "\<lparr>ts_seconds = 12, ts_fraction = 0\<rparr>" "\<lparr>ts_seconds = 11, ts_fraction = 0\<rparr>"]
  by (simp add: ts_value_def)

section \<open>Histories of one context\<close>

datatype ntp_call =
  Ntp_request NtpTimestamp NtpTimestamp | Ntp_calculate NtpTimestamp | Ntp_send | Ntp_reset
| Ntp_offset | Ntp_delay | Ntp_leap u8 | Ntp_kiss u8 | Ntp_discipline u8 | Ntp_stratum u8

fun ntp_call_on :: "ntp_call \<Rightarrow> NtpCtx \<Rightarrow> (NtpCtx \<times> u8) option" where
  "ntp_call_on (Ntp_request t1 t2) c = Some (ntp_receive_request_on t1 t2 c)"
| "ntp_call_on (Ntp_calculate t3) c = ntp_calculate_on t3 c"
| "ntp_call_on Ntp_send c = Some (ntp_send_response_on c)"
| "ntp_call_on Ntp_reset c = ntp_reset_exchange_on c"
| "ntp_call_on Ntp_offset c = (case ntp_get_offset_on c of (c', r, out) \<Rightarrow> Some (c', r))"
| "ntp_call_on Ntp_delay c = (case ntp_get_delay_on c of (c', r, out) \<Rightarrow> Some (c', r))"
| "ntp_call_on (Ntp_leap l) c = Some (ntp_set_leap_on l c)"
| "ntp_call_on (Ntp_kiss k) c = Some (ntp_set_kiss_on k c)"
| "ntp_call_on (Ntp_discipline d) c = Some (ntp_advance_discipline_on d c)"
| "ntp_call_on (Ntp_stratum s) c = Some (ntp_set_stratum_on s c)"

text \<open>The place of a call in an exchange; the other calls have none.\<close>

fun ntp_stage :: "ntp_call \<Rightarrow> nat option" where
  "ntp_stage (Ntp_request t1 t2) = Some 0"
| "ntp_stage (Ntp_calculate t3) = Some 1"
| "ntp_stage Ntp_send = Some 2"
| "ntp_stage Ntp_reset = Some 3"
| "ntp_stage x = None"

text \<open>The run of a list of calls, with the log of the exchange calls that were accepted, latest first.\<close>

primrec ntp_run :: "ntp_call list \<Rightarrow> NtpCtx \<times> ntp_call list \<Rightarrow> (NtpCtx \<times> ntp_call list) option" where
  "ntp_run [] s = Some s"
| "ntp_run (x # xs) s =
     (case ntp_call_on x (fst s) of
        None \<Rightarrow> None
      | Some (c, r) \<Rightarrow> ntp_run xs (c, if r = 0 \<and> ntp_stage x \<noteq> None then x # snd s else snd s))"

text \<open>The offset and the delay of the last calculation in a log.\<close>

fun ntp_last_times :: "ntp_call list \<Rightarrow> NtpTimestamp \<times> NtpTimestamp" where
  "ntp_last_times (Ntp_calculate t3 # Ntp_request t1 t2 # log) = (the (ts_sub t2 t1), the (ts_sub t3 t2))"
| "ntp_last_times (x # log) = ntp_last_times log"
| "ntp_last_times [] = (ts_zero, ts_zero)"

definition ntp_hist :: "NtpCtx \<Rightarrow> ntp_call list \<Rightarrow> bool" where
  "ntp_hist c log \<longleftrightarrow>
     map ntp_stage (rev log) = map (\<lambda>i. Some (i mod 4)) [0..<length log] \<and>
     length log = 4 * unat (nt_exchange_count c) + unat (ntp_exchange_tag (nt_exchange_state c)) \<and>
     (nt_offset c, nt_delay c) = ntp_last_times log \<and>
     (nt_exchange_state c = nx_request_received \<longrightarrow> (\<exists>log'. log = Ntp_request (nt_t1 c) (nt_t2 c) # log'))"

lemma ntp_hist_step:
  assumes "ntp_hist c log" "ntp_call_on x c = Some (c', r)"
  shows "ntp_hist c' (if r = 0 \<and> ntp_stage x \<noteq> None then x # log else log)"
proof (cases x)
  case (Ntp_request t1 t2)
  with assms show ?thesis by (cases "nt_exchange_state c") (auto simp: ntp_hist_def op_simps)
next
  case (Ntp_calculate t3)
  with assms show ?thesis
    by (cases "nt_exchange_state c") (auto simp: ntp_hist_def op_simps split: option.splits)
next
  case Ntp_send
  have "Suc (Suc (4 * n)) mod 4 = 2" for n :: nat by presburger
  with Ntp_send assms show ?thesis by (cases "nt_exchange_state c") (auto simp: ntp_hist_def op_simps)
next
  case Ntp_reset
  have "unat (w + 1) = Suc (unat w)" if "w \<noteq> - 1" for w :: u32
    using that unatSuc [of w] by (simp add: add.commute add_eq_0_iff)
  moreover have "map (\<lambda>i. Some (i mod 4)) [0..<4 * n + 3] @ [Some 3] = map (\<lambda>i. Some (i mod 4)) [0..<4 + 4 * n]" for n :: nat
  proof -
    have "4 + 4 * n = Suc (4 * n + 3)" "(4 * n + 3) mod 4 = 3" by presburger+
    then show ?thesis by (simp only: upt_Suc le0 if_True map_append list.map)
  qed
  ultimately show ?thesis using Ntp_reset assms
    by (cases "nt_exchange_state c") (auto simp: ntp_hist_def op_simps split: if_splits)
qed (use assms in \<open>auto simp: ntp_hist_def op_simps split: if_splits\<close>)

lemma ntp_hist_run: "\<lbrakk>ntp_run xs (c, log) = Some (c', log'); ntp_hist c log\<rbrakk> \<Longrightarrow> ntp_hist c' log'"
proof (induction xs arbitrary: c log)
  case (Cons x xs)
  from Cons.prems(1) obtain c1 r where step: "ntp_call_on x c = Some (c1, r)"
    and rest: "ntp_run xs (c1, if r = 0 \<and> ntp_stage x \<noteq> None then x # log else log) = Some (c', log')"
    by (auto simp del: not_None_eq cong: if_cong split: option.splits)
  show ?case by (rule Cons.IH [OF rest ntp_hist_step [OF Cons.prems(2) step]])
qed simp

text \<open>
  C35: In every history of a context that does not stop the program, the accepted calls of an exchange
  come in the order request, calculation, response, reset, over and over, the state and the counter
  count them, and the stored offset and delay are those of the last calculation. \<open>ntp_get_offset\<close> refuses
  only an idle context, so between a request and its calculation it answers with the offset of the
  exchange before.
\<close>

theorem ntp_exchange_history:
  assumes "ntp_run calls (ntp_fresh version mode stratum c0, []) = Some (c, log)"
  shows "map ntp_stage (rev log) = map (\<lambda>i. Some (i mod 4)) [0..<length log] \<and>
    length log = 4 * unat (nt_exchange_count c) + unat (ntp_exchange_tag (nt_exchange_state c)) \<and>
    (nt_offset c, nt_delay c) = ntp_last_times log \<and>
    snd (ntp_get_offset_on c) = (if length log mod 4 = 0 then (3, None) else (0, Some (fst (ntp_last_times log))))"
proof -
  have "ntp_hist (ntp_fresh version mode stratum c0) []"
    by (simp add: ntp_hist_def ntp_fresh_def ntp_empty_ctx_def)
  with assms have h: "ntp_hist c log" by (rule ntp_hist_run)
  moreover from h have "nt_offset c = fst (ntp_last_times log)" by (metis ntp_hist_def fst_conv)
  moreover have "length log mod 4 = unat (ntp_exchange_tag (nt_exchange_state c))"
  proof -
    have "unat (ntp_exchange_tag (nt_exchange_state c)) < 4" by (cases "nt_exchange_state c") simp_all
    with h show ?thesis by (simp add: ntp_hist_def)
  qed
  ultimately show ?thesis
    by (cases "nt_exchange_state c") (auto simp: ntp_hist_def ntp_get_offset_on_def)
qed

definition ntp_two_requests :: "ntp_call list" where
  "ntp_two_requests =
     [Ntp_request \<lparr>ts_seconds = 10, ts_fraction = 0\<rparr> \<lparr>ts_seconds = 12, ts_fraction = 0\<rparr>, Ntp_send,
      Ntp_calculate \<lparr>ts_seconds = 13, ts_fraction = 0\<rparr>, Ntp_send, Ntp_reset,
      Ntp_request \<lparr>ts_seconds = 50, ts_fraction = 0\<rparr> \<lparr>ts_seconds = 50, ts_fraction = 0\<rparr>]"

lemma ntp_two_requests_run:
  "ntp_run ntp_two_requests (ntp_fresh 4 4 1 ntp_empty_ctx, []) =
     Some ((ntp_fresh 4 4 1 ntp_empty_ctx)
       \<lparr>nt_exchange_state := nx_request_received, nt_exchange_count := 1,
        nt_t1 := \<lparr>ts_seconds = 50, ts_fraction = 0\<rparr>, nt_t2 := \<lparr>ts_seconds = 50, ts_fraction = 0\<rparr>,
        nt_offset := \<lparr>ts_seconds = 2, ts_fraction = 0\<rparr>, nt_delay := \<lparr>ts_seconds = 1, ts_fraction = 0\<rparr>\<rparr>,
       [Ntp_request \<lparr>ts_seconds = 50, ts_fraction = 0\<rparr> \<lparr>ts_seconds = 50, ts_fraction = 0\<rparr>, Ntp_reset, Ntp_send,
        Ntp_calculate \<lparr>ts_seconds = 13, ts_fraction = 0\<rparr>,
        Ntp_request \<lparr>ts_seconds = 10, ts_fraction = 0\<rparr> \<lparr>ts_seconds = 12, ts_fraction = 0\<rparr>])"
  by (simp add: ntp_two_requests_def ntp_fresh_def ntp_empty_ctx_def op_simps ts_sub_def checked_sub_def ts_zero_def)

theorem ntp_exchange_history_witness:
  "\<exists>c log. ntp_run ntp_two_requests (ntp_fresh 4 4 1 ntp_empty_ctx, []) = Some (c, log) \<and>
     nt_exchange_state c = nx_request_received \<and>
     snd (ntp_get_offset_on c) = (0, Some \<lparr>ts_seconds = 2, ts_fraction = 0\<rparr>)"
proof -
  note run = ntp_two_requests_run
  from ntp_exchange_history [OF run] have "snd (ntp_get_offset_on (fst (the (ntp_run ntp_two_requests
      (ntp_fresh 4 4 1 ntp_empty_ctx, []))))) = (0, Some \<lparr>ts_seconds = 2, ts_fraction = 0\<rparr>)"
    by (simp add: run ts_sub_def checked_sub_def)
  then show ?thesis using run by simp
qed

end
