(* ===== verification/Websocket_Engine.thy ===== *)
theory Websocket_Engine
  imports Slot_Pool
begin

text \<open>
  The connection engine of \<open>protocols/proven-ws/ffi/zig/src/ws.zig\<close>, which no Rust module wraps: the
  opening and closing handshakes and the frame counters of 64 connections. The counters are added to
  with checked arithmetic; an operation that leaves 32 bits stops the program, and its value is then
  \<open>None\<close>. Opcodes and close codes are kept as their tags.
\<close>

section \<open>Connections\<close>

datatype ws_conn = wc_connecting | wc_open | wc_closing | wc_closed

primrec ws_conn_tag :: "ws_conn \<Rightarrow> u8" where
  "ws_conn_tag wc_connecting = 0"
| "ws_conn_tag wc_open = 1"
| "ws_conn_tag wc_closing = 2"
| "ws_conn_tag wc_closed = 3"

record Connection =
  wc_state :: ws_conn
  wc_close_code :: u8
  wc_frames_sent :: u32
  wc_frames_received :: u32
  wc_ping_count :: u32
  wc_close_sent :: bool
  wc_close_received :: bool
  wc_active :: bool

definition ws_empty_connection :: Connection where
  "ws_empty_connection =
     \<lparr>wc_state = wc_connecting, wc_close_code = 0, wc_frames_sent = 0, wc_frames_received = 0,
      wc_ping_count = 0, wc_close_sent = False, wc_close_received = False, wc_active = False\<rparr>"

definition ws_connections :: "Connection list" where
  "ws_connections = replicate 64 ws_empty_connection"

definition ws_abi_version :: u32 where
  "ws_abi_version = 1"

definition ws_fresh :: Connection where
  "ws_fresh = ws_empty_connection\<lparr>wc_state := wc_connecting, wc_active := True\<rparr>"

definition ws_create :: "Connection list \<Rightarrow> Connection list \<times> c_int" where
  "ws_create p = pool_create wc_active (\<lambda>c. ws_fresh) p"

definition ws_destroy :: "Connection list \<Rightarrow> c_int \<Rightarrow> Connection list" where
  "ws_destroy p slot = pool_destroy (\<lambda>c. ws_empty_connection) p slot"

section \<open>Queries\<close>

definition ws_state :: "Connection list \<Rightarrow> c_int \<Rightarrow> u8" where
  "ws_state p slot = query_slot wc_active p slot 0 (\<lambda>c. ws_conn_tag (wc_state c))"

definition ws_is_closing :: "Connection list \<Rightarrow> c_int \<Rightarrow> u8" where
  "ws_is_closing p slot = query_slot wc_active p slot 0 (\<lambda>c. if wc_state c = wc_closing then 1 else 0)"

definition ws_frames_sent :: "Connection list \<Rightarrow> c_int \<Rightarrow> u32" where
  "ws_frames_sent p slot = query_slot wc_active p slot 0 wc_frames_sent"

definition ws_frames_received :: "Connection list \<Rightarrow> c_int \<Rightarrow> u32" where
  "ws_frames_received p slot = query_slot wc_active p slot 0 wc_frames_received"

definition ws_ping_count :: "Connection list \<Rightarrow> c_int \<Rightarrow> u32" where
  "ws_ping_count p slot = query_slot wc_active p slot 0 wc_ping_count"

definition ws_can_transition :: "u8 \<Rightarrow> u8 \<Rightarrow> u8" where
  "ws_can_transition a b =
     (if a = 0 \<and> b = 1 then 1
      else if a = 1 \<and> b = 2 then 1
      else if a = 2 \<and> b = 3 then 1
      else if a = 1 \<and> b = 3 then 1
      else 0)"

section \<open>Operations on one connection\<close>

definition ws_open_on :: "Connection \<Rightarrow> (Connection \<times> u8) option" where
  [op_simps]: "ws_open_on c =
     (if wc_state c \<noteq> wc_connecting then Some (c, 1)
      else Some (c\<lparr>wc_state := wc_open\<rparr>, 0))"

definition ws_send_frame_on :: "u8 \<Rightarrow> u8 \<Rightarrow> u32 \<Rightarrow> Connection \<Rightarrow> (Connection \<times> u8) option" where
  [op_simps]: "ws_send_frame_on opcode fin payload_len c =
     (if wc_state c \<noteq> wc_open then Some (c, 1)
      else if opcode > 5 then Some (c, 1)
      else map_option (\<lambda>n. (c\<lparr>wc_frames_sent := n\<rparr>, 0)) (checked_inc (wc_frames_sent c)))"

definition ws_recv_frame_on :: "u8 \<Rightarrow> u8 \<Rightarrow> u32 \<Rightarrow> Connection \<Rightarrow> (Connection \<times> u8) option" where
  [op_simps]: "ws_recv_frame_on opcode fin payload_len c =
     (if wc_state c \<noteq> wc_open then Some (c, 1)
      else if opcode > 5 then Some (c, 1)
      else map_option (\<lambda>n. (c\<lparr>wc_frames_received := n\<rparr>, 0)) (checked_inc (wc_frames_received c)))"

definition ws_send_ping_on :: "Connection \<Rightarrow> (Connection \<times> u8) option" where
  [op_simps]: "ws_send_ping_on c =
     (if wc_state c \<noteq> wc_open then Some (c, 1)
      else case checked_inc (wc_frames_sent c) of
        None \<Rightarrow> None
      | Some n \<Rightarrow> map_option (\<lambda>k. (c\<lparr>wc_frames_sent := n, wc_ping_count := k\<rparr>, 0)) (checked_inc (wc_ping_count c)))"

definition ws_recv_pong_on :: "Connection \<Rightarrow> (Connection \<times> u8) option" where
  [op_simps]: "ws_recv_pong_on c =
     (if wc_state c \<noteq> wc_open then Some (c, 1)
      else map_option (\<lambda>n. (c\<lparr>wc_frames_received := n\<rparr>, 0)) (checked_inc (wc_frames_received c)))"

definition ws_close_on :: "u8 \<Rightarrow> Connection \<Rightarrow> (Connection \<times> u8) option" where
  [op_simps]: "ws_close_on code c =
     (if wc_state c \<noteq> wc_open then Some (c, 1)
      else if code > 10 then Some (c, 1)
      else map_option
        (\<lambda>n. (c\<lparr>wc_close_code := code, wc_close_sent := True, wc_state := wc_closing, wc_frames_sent := n\<rparr>, 0))
        (checked_inc (wc_frames_sent c)))"

definition ws_recv_close_on :: "Connection \<Rightarrow> (Connection \<times> u8) option" where
  [op_simps]: "ws_recv_close_on c =
     (if wc_state c \<noteq> wc_closing \<and> wc_state c \<noteq> wc_open then Some (c, 1)
      else map_option
        (\<lambda>n. (c\<lparr>wc_close_received := True, wc_frames_received := n,
                wc_state := (if wc_close_sent c then wc_closed else wc_closing)\<rparr>, 0))
        (checked_inc (wc_frames_received c)))"

section \<open>The exported operations\<close>

definition ws_open :: "Connection list \<Rightarrow> c_int \<Rightarrow> (Connection list \<times> u8) option" where
  "ws_open p slot = on_slot_checked wc_active p slot 1 ws_open_on"

definition ws_send_frame :: "Connection list \<Rightarrow> c_int \<Rightarrow> u8 \<Rightarrow> u8 \<Rightarrow> u32 \<Rightarrow> (Connection list \<times> u8) option" where
  "ws_send_frame p slot opcode fin payload_len =
     on_slot_checked wc_active p slot 1 (ws_send_frame_on opcode fin payload_len)"

definition ws_recv_frame :: "Connection list \<Rightarrow> c_int \<Rightarrow> u8 \<Rightarrow> u8 \<Rightarrow> u32 \<Rightarrow> (Connection list \<times> u8) option" where
  "ws_recv_frame p slot opcode fin payload_len =
     on_slot_checked wc_active p slot 1 (ws_recv_frame_on opcode fin payload_len)"

definition ws_send_ping :: "Connection list \<Rightarrow> c_int \<Rightarrow> (Connection list \<times> u8) option" where
  "ws_send_ping p slot = on_slot_checked wc_active p slot 1 ws_send_ping_on"

definition ws_recv_pong :: "Connection list \<Rightarrow> c_int \<Rightarrow> (Connection list \<times> u8) option" where
  "ws_recv_pong p slot = on_slot_checked wc_active p slot 1 ws_recv_pong_on"

definition ws_close :: "Connection list \<Rightarrow> c_int \<Rightarrow> u8 \<Rightarrow> (Connection list \<times> u8) option" where
  "ws_close p slot code = on_slot_checked wc_active p slot 1 (ws_close_on code)"

definition ws_recv_close :: "Connection list \<Rightarrow> c_int \<Rightarrow> (Connection list \<times> u8) option" where
  "ws_recv_close p slot = on_slot_checked wc_active p slot 1 ws_recv_close_on"

section \<open>Histories\<close>

datatype ws_call =
  Ws_open | Ws_send_frame u8 u8 u32 | Ws_recv_frame u8 u8 u32 | Ws_send_ping | Ws_recv_pong
| Ws_close u8 | Ws_recv_close

fun ws_call_on :: "ws_call \<Rightarrow> Connection \<Rightarrow> (Connection \<times> u8) option" where
  "ws_call_on Ws_open c = ws_open_on c"
| "ws_call_on (Ws_send_frame opcode fin len) c = ws_send_frame_on opcode fin len c"
| "ws_call_on (Ws_recv_frame opcode fin len) c = ws_recv_frame_on opcode fin len c"
| "ws_call_on Ws_send_ping c = ws_send_ping_on c"
| "ws_call_on Ws_recv_pong c = ws_recv_pong_on c"
| "ws_call_on (Ws_close code) c = ws_close_on code c"
| "ws_call_on Ws_recv_close c = ws_recv_close_on c"

fun ws_traffic :: "ws_call \<Rightarrow> bool" where
  "ws_traffic (Ws_send_frame opcode fin len) = (opcode \<le> 5)"
| "ws_traffic (Ws_recv_frame opcode fin len) = (opcode \<le> 5)"
| "ws_traffic Ws_send_ping = True"
| "ws_traffic Ws_recv_pong = True"
| "ws_traffic x = False"

fun ws_sends :: "ws_call \<Rightarrow> bool" where
  "ws_sends (Ws_send_frame opcode fin len) = True"
| "ws_sends Ws_send_ping = True"
| "ws_sends (Ws_close code) = True"
| "ws_sends x = False"

fun ws_receives :: "ws_call \<Rightarrow> bool" where
  "ws_receives (Ws_recv_frame opcode fin len) = True"
| "ws_receives Ws_recv_pong = True"
| "ws_receives Ws_recv_close = True"
| "ws_receives x = False"

text \<open>
  The accepted calls of a connection in each of its states: after the opening come frames, then either
  our close and the peer's answer, or the peer's close, which can then come again.
\<close>

inductive ws_dialogue :: "Connection \<Rightarrow> ws_call list \<Rightarrow> bool" where
  connecting: "wc_state c = wc_connecting \<Longrightarrow> \<not> wc_close_sent c \<Longrightarrow> ws_dialogue c []"
| opened: "wc_state c = wc_open \<Longrightarrow> \<not> wc_close_sent c \<Longrightarrow> list_all ws_traffic fs \<Longrightarrow> ws_dialogue c (Ws_open # fs)"
| we_close: "wc_state c = wc_closing \<Longrightarrow> wc_close_sent c \<Longrightarrow> wc_close_code c = code \<Longrightarrow> code \<le> 10 \<Longrightarrow>
    list_all ws_traffic fs \<Longrightarrow> ws_dialogue c (Ws_open # fs @ [Ws_close code])"
| closed: "wc_state c = wc_closed \<Longrightarrow> wc_close_sent c \<Longrightarrow> wc_close_code c = code \<Longrightarrow> code \<le> 10 \<Longrightarrow>
    list_all ws_traffic fs \<Longrightarrow> ws_dialogue c (Ws_open # fs @ [Ws_close code, Ws_recv_close])"
| peer_closes: "wc_state c = wc_closing \<Longrightarrow> \<not> wc_close_sent c \<Longrightarrow> list_all ws_traffic fs \<Longrightarrow>
    closes \<noteq> [] \<Longrightarrow> list_all (\<lambda>x. x = Ws_recv_close) closes \<Longrightarrow> ws_dialogue c (Ws_open # fs @ closes)"

fun ws_may :: "ws_conn \<Rightarrow> ws_call \<Rightarrow> bool" where
  "ws_may wc_connecting x = (x = Ws_open)"
| "ws_may wc_open (Ws_close code) = (code \<le> 10)"
| "ws_may wc_open x = (ws_traffic x \<or> x = Ws_recv_close)"
| "ws_may wc_closing x = (x = Ws_recv_close)"
| "ws_may wc_closed x = False"

definition ws_counted :: "Connection \<Rightarrow> ws_call list \<Rightarrow> bool" where
  "ws_counted c h \<longleftrightarrow>
     unat (wc_frames_sent c) = length (filter ws_sends h) \<and>
     unat (wc_frames_received c) = length (filter ws_receives h) \<and>
     unat (wc_ping_count c) = length (filter (\<lambda>x. x = Ws_send_ping) h)"

lemma ws_counters_free:
  assumes "ws_counted c h" "length h < 4294967295"
  obtains s r p where
    "checked_inc (wc_frames_sent c) = Some s" "unat s = Suc (unat (wc_frames_sent c))"
    "checked_inc (wc_frames_received c) = Some r" "unat r = Suc (unat (wc_frames_received c))"
    "checked_inc (wc_ping_count c) = Some p" "unat p = Suc (unat (wc_ping_count c))"
proof -
  have "length (filter P h) < 4294967295" for P
    using length_filter_le [of P h] assms(2) by linarith
  with assms(1) have "unat (wc_frames_sent c) < 4294967295" "unat (wc_frames_received c) < 4294967295"
    "unat (wc_ping_count c) < 4294967295" by (simp_all add: ws_counted_def)
  with that show thesis using checked_inc_less by metis
qed

lemma ws_counted_step:
  assumes "ws_counted c h" "length h < 4294967295"
  shows "\<exists>c' r. ws_call_on x c = Some (c', r) \<and> ws_counted c' (if r = 0 then h @ [x] else h)"
  by (rule ws_counters_free [OF assms], cases x) (use assms in \<open>auto simp: op_simps ws_counted_def\<close>)

lemma ws_accepts_iff:
  assumes "ws_counted c h" "length h < 4294967295"
  shows "(\<exists>c'. ws_call_on x c = Some (c', 0)) \<longleftrightarrow> ws_may (wc_state c) x"
  by (rule ws_counters_free [OF assms], cases x; cases "wc_state c") (auto simp: op_simps)

lemma ws_dialogue_step:
  assumes "ws_dialogue c h" "ws_call_on x c = Some (c', r)"
  shows "ws_dialogue c' (if r = 0 then h @ [x] else h)"
  using assms(1)
proof cases
  case connecting
  with assms(2) show ?thesis
    by (cases x) (auto simp: op_simps intro: ws_dialogue.connecting ws_dialogue.opened [of _ "[]"])
next
  case (opened fs)
  with assms(2) show ?thesis
    using ws_dialogue.opened [of c' "fs @ [x]"] ws_dialogue.we_close [of c' _ fs]
      ws_dialogue.peer_closes [of c' fs "[Ws_recv_close]"]
    by (cases x) (auto simp: op_simps not_less intro: ws_dialogue.opened split: if_split_asm option.split_asm)
next
  case (we_close code fs)
  with assms(2) show ?thesis
    using ws_dialogue.closed [of c' code fs]
    by (cases x) (auto simp: op_simps intro: ws_dialogue.we_close)
next
  case (closed code fs)
  with assms(2) show ?thesis
    by (cases x) (auto simp: op_simps intro: ws_dialogue.closed)
next
  case (peer_closes fs closes)
  with assms(2) show ?thesis
    using ws_dialogue.peer_closes [of c' fs "closes @ [Ws_recv_close]"] ws_dialogue.peer_closes [of c' fs closes]
    by (cases x) (auto simp: op_simps)
qed

text \<open>
  C22: Every sequence of fewer than \<open>2 ^ 32 - 1\<close> calls on a new WebSocket connection returns, the accepted
  calls are a dialogue of the protocol and the counters are exact: the opening comes first and once,
  frames only then, and what follows our own close is at most the peer's answer, which closes the
  connection. The next call is accepted exactly when \<open>ws_may\<close> allows it in the state reached. A close the
  peer begins never completes: it leaves the connection closing, where our close is refused and the
  peer's close is accepted again and again.
\<close>

theorem ws_history:
  assumes "length calls < 2 ^ 32 - 1"
  shows "\<exists>c h. checked_run ws_call_on calls (ws_fresh, []) = Some (c, h) \<and> ws_dialogue c h \<and>
    ws_counted c h \<and> ((\<exists>c'. ws_call_on next_call c = Some (c', 0)) \<longleftrightarrow> ws_may (wc_state c) next_call)"
proof -
  let ?P = "\<lambda>c h. ws_dialogue c h \<and> ws_counted c h"
  have start: "?P ws_fresh []"
    by (simp add: ws_dialogue.connecting ws_counted_def ws_fresh_def ws_empty_connection_def)
  have len: "length [] + length calls \<le> 4294967295" using assms by simp
  have step: "\<exists>c' r. ws_call_on x c = Some (c', r) \<and> ?P c' (if r = 0 then h @ [x] else h)"
    if P: "?P c h" "length h < 4294967295" for c h x
    using ws_counted_step [of c h x] ws_dialogue_step [of c h x] P by blast
  obtain c h where r: "checked_run ws_call_on calls (ws_fresh, []) = Some (c, h)" "?P c h"
    "length h \<le> length calls"
    using checked_run_total [where P = ?P and step = ws_call_on, OF start len step] by auto
  then have "length h < 4294967295" using assms by simp
  with r ws_accepts_iff [of c h next_call] show ?thesis by blast
qed

theorem ws_history_witness:
  "\<exists>c h. checked_run ws_call_on [Ws_send_ping, Ws_open, Ws_send_frame 1 1 5, Ws_recv_close] (ws_fresh, []) = Some (c, h) \<and>
     ws_dialogue c h \<and> ws_counted c h \<and>
     ((\<exists>c'. ws_call_on (Ws_close 0) c = Some (c', 0)) \<longleftrightarrow> ws_may (wc_state c) (Ws_close 0))"
  by (rule ws_history) simp

end
