(* ===== verification/Core_Machines.thy ===== *)
theory Core_Machines
  imports Slot_Pool
begin

text \<open>
  Three of the core primitives, none of which a Rust module wraps: the generic state machine
  \<open>core/proven-fsm/ffi/zig/src/fsm.zig\<close>, the composition pipeline \<open>core/proven-compose/ffi/zig/src/compose.zig\<close>
  and the audit trail \<open>core/proven-audit/ffi/zig/src/audit.zig\<close>. Each keeps 64 slots and exports the table of
  its transitions beside the operations that make them; the locale \<open>exact_table\<close> says that the two
  agree. Enums whose values are only stored are kept as their tags.
\<close>

section \<open>The state machine\<close>

datatype machine_state = ms_initial | ms_running | ms_terminal | ms_faulted

primrec machine_state_tag :: "machine_state \<Rightarrow> u8" where
  "machine_state_tag ms_initial = 0"
| "machine_state_tag ms_running = 1"
| "machine_state_tag ms_terminal = 2"
| "machine_state_tag ms_faulted = 3"

record Machine =
  fm_state :: machine_state
  fm_max_states :: u16
  fm_max_transitions :: u32
  fm_event_count :: u32
  fm_last_error :: u8
  fm_active :: bool

definition fsm_machines :: "Machine list" where
  "fsm_machines = replicate 64
     \<lparr>fm_state = ms_initial, fm_max_states = 0, fm_max_transitions = 0, fm_event_count = 0,
      fm_last_error = 255, fm_active = False\<rparr>"

definition fsm_abi_version :: u32 where
  "fsm_abi_version = 1"

definition fsm_create :: "u16 \<Rightarrow> u32 \<Rightarrow> Machine list \<Rightarrow> Machine list \<times> c_int" where
  "fsm_create max_states max_transitions p =
     (if max_states = 0 \<or> max_transitions = 0 then (p, - 1)
      else pool_create fm_active
        (\<lambda>m. \<lparr>fm_state = ms_initial, fm_max_states = max_states, fm_max_transitions = max_transitions,
              fm_event_count = 0, fm_last_error = 255, fm_active = True\<rparr>) p)"

definition fsm_destroy :: "Machine list \<Rightarrow> c_int \<Rightarrow> Machine list" where
  "fsm_destroy p slot = pool_destroy (\<lambda>m. m\<lparr>fm_active := False\<rparr>) p slot"

definition fsm_state :: "Machine list \<Rightarrow> c_int \<Rightarrow> u8" where
  "fsm_state p slot = query_slot fm_active p slot 0 (\<lambda>m. machine_state_tag (fm_state m))"

text \<open>This query does not look at the flag of the slot.\<close>

definition fsm_last_error :: "Machine list \<Rightarrow> c_int \<Rightarrow> u8" where
  "fsm_last_error p slot = (case slot_index p slot of None \<Rightarrow> 255 | Some i \<Rightarrow> fm_last_error (p ! i))"

definition fsm_start_on :: "Machine \<Rightarrow> Machine \<times> u8" where
  [op_simps]: "fsm_start_on m =
     (if fm_state m = ms_initial then (m\<lparr>fm_state := ms_running, fm_last_error := 255\<rparr>, 0)
      else (m\<lparr>fm_last_error := 0\<rparr>, 1))"

definition fsm_complete_on :: "Machine \<Rightarrow> Machine \<times> u8" where
  [op_simps]: "fsm_complete_on m =
     (if fm_state m = ms_running then (m\<lparr>fm_state := ms_terminal, fm_last_error := 255\<rparr>, 0)
      else (m\<lparr>fm_last_error := 0\<rparr>, 1))"

definition fsm_fault_on :: "Machine \<Rightarrow> Machine \<times> u8" where
  [op_simps]: "fsm_fault_on m =
     (if fm_state m = ms_initial \<or> fm_state m = ms_running then (m\<lparr>fm_state := ms_faulted, fm_last_error := 255\<rparr>, 0)
      else (m\<lparr>fm_last_error := 0\<rparr>, 1))"

definition fsm_reset_on :: "Machine \<Rightarrow> Machine \<times> u8" where
  [op_simps]: "fsm_reset_on m =
     (if fm_state m = ms_faulted
      then (m\<lparr>fm_state := ms_initial, fm_event_count := 0, fm_last_error := 255\<rparr>, 0)
      else (m\<lparr>fm_last_error := 0\<rparr>, 1))"

text \<open>The count of events is a checked addition; \<open>None\<close> is the stop of the program.\<close>

definition fsm_submit_event_on :: "u32 \<Rightarrow> Machine \<Rightarrow> (Machine \<times> u8) option" where
  [op_simps]: "fsm_submit_event_on event_id m =
     (if fm_state m = ms_running
      then if fm_event_count m = - 1 then None else Some (m\<lparr>fm_event_count := fm_event_count m + 1\<rparr>, 0)
      else Some (m, 1))"

definition fsm_start :: "Machine list \<Rightarrow> c_int \<Rightarrow> Machine list \<times> u8" where
  "fsm_start p slot = on_slot fm_active p slot 1 fsm_start_on"

definition fsm_complete :: "Machine list \<Rightarrow> c_int \<Rightarrow> Machine list \<times> u8" where
  "fsm_complete p slot = on_slot fm_active p slot 1 fsm_complete_on"

definition fsm_fault :: "Machine list \<Rightarrow> c_int \<Rightarrow> Machine list \<times> u8" where
  "fsm_fault p slot = on_slot fm_active p slot 1 fsm_fault_on"

definition fsm_reset :: "Machine list \<Rightarrow> c_int \<Rightarrow> Machine list \<times> u8" where
  "fsm_reset p slot = on_slot fm_active p slot 1 fsm_reset_on"

definition fsm_submit_event :: "Machine list \<Rightarrow> c_int \<Rightarrow> u32 \<Rightarrow> (Machine list \<times> u8) option" where
  "fsm_submit_event p slot event_id = on_slot_checked fm_active p slot 3 (fsm_submit_event_on event_id)"

definition fsm_can_transition :: "u8 \<Rightarrow> u8 \<Rightarrow> u8" where
  "fsm_can_transition a b =
     (if a = 0 \<and> b = 1 then 1
      else if a = 1 \<and> b = 2 then 1
      else if a = 1 \<and> b = 3 then 1
      else if a = 0 \<and> b = 3 then 1
      else if a = 3 \<and> b = 0 then 1
      else 0)"

section \<open>The pipeline\<close>

datatype pipeline_state = ps_idle | ps_configured | ps_assembled | ps_running | ps_stopped | ps_failed

primrec pipeline_state_tag :: "pipeline_state \<Rightarrow> u8" where
  "pipeline_state_tag ps_idle = 0"
| "pipeline_state_tag ps_configured = 1"
| "pipeline_state_tag ps_assembled = 2"
| "pipeline_state_tag ps_running = 3"
| "pipeline_state_tag ps_stopped = 4"
| "pipeline_state_tag ps_failed = 5"

datatype Combinator =
  cb_chain | cb_parallel | cb_proxy | cb_relay | cb_mux | cb_demux | cb_filter | cb_transform | cb_tap

definition combinator_of :: "u8 \<Rightarrow> Combinator" where
  "combinator_of t = [cb_chain, cb_parallel, cb_proxy, cb_relay, cb_mux, cb_demux, cb_filter, cb_transform, cb_tap] ! unat t"

record Pipeline =
  pl_state :: pipeline_state
  pl_combinator :: u8
  pl_direction :: u8
  pl_stages :: "u8 list"
  pl_stage_count :: u8
  pl_last_error :: u8
  pl_active :: bool

definition MAX_STAGES :: u8 where
  "MAX_STAGES = 16"

definition compose_sessions :: "Pipeline list" where
  "compose_sessions = replicate 64
     \<lparr>pl_state = ps_idle, pl_combinator = 0, pl_direction = 1, pl_stages = replicate 16 0, pl_stage_count = 0,
      pl_last_error = 255, pl_active = False\<rparr>"

definition compose_abi_version :: u32 where
  "compose_abi_version = 1"

definition compose_fresh :: "u8 \<Rightarrow> Pipeline" where
  "compose_fresh combinator_tag =
     \<lparr>pl_state = ps_idle, pl_combinator = combinator_tag, pl_direction = 1, pl_stages = replicate 16 0,
      pl_stage_count = 0, pl_last_error = 255, pl_active = True\<rparr>"

definition compose_create :: "u8 \<Rightarrow> Pipeline list \<Rightarrow> Pipeline list \<times> c_int" where
  "compose_create combinator_tag p =
     (if combinator_tag > 8 then (p, - 1) else pool_create pl_active (\<lambda>s. compose_fresh combinator_tag) p)"

definition compose_destroy :: "Pipeline list \<Rightarrow> c_int \<Rightarrow> Pipeline list" where
  "compose_destroy p slot = pool_destroy (\<lambda>s. s\<lparr>pl_active := False\<rparr>) p slot"

definition compose_state :: "Pipeline list \<Rightarrow> c_int \<Rightarrow> u8" where
  "compose_state p slot = query_slot pl_active p slot 0 (\<lambda>s. pipeline_state_tag (pl_state s))"

definition compose_combinator :: "Pipeline list \<Rightarrow> c_int \<Rightarrow> u8" where
  "compose_combinator p slot = query_slot pl_active p slot 0 pl_combinator"

definition compose_direction :: "Pipeline list \<Rightarrow> c_int \<Rightarrow> u8" where
  "compose_direction p slot = query_slot pl_active p slot 1 pl_direction"

definition compose_last_error :: "Pipeline list \<Rightarrow> c_int \<Rightarrow> u8" where
  "compose_last_error p slot = query_slot pl_active p slot 255 pl_last_error"

definition compose_stage_count :: "Pipeline list \<Rightarrow> c_int \<Rightarrow> u8" where
  "compose_stage_count p slot = query_slot pl_active p slot 0 pl_stage_count"

definition compose_set_direction_on :: "u8 \<Rightarrow> Pipeline \<Rightarrow> Pipeline \<times> u8" where
  [op_simps]: "compose_set_direction_on dir_tag s =
     (if dir_tag > 2 then (s, 1)
      else if pl_state s \<noteq> ps_idle \<and> pl_state s \<noteq> ps_configured then (s, 1)
      else (s\<lparr>pl_direction := dir_tag\<rparr>, 0))"

definition compose_add_stage_on :: "u8 \<Rightarrow> Pipeline \<Rightarrow> Pipeline \<times> u8" where
  [op_simps]: "compose_add_stage_on stage_tag s =
     (if stage_tag > 4 then (s, 1)
      else if pl_state s \<noteq> ps_idle \<and> pl_state s \<noteq> ps_configured then (s, 1)
      else if pl_stage_count s \<ge> MAX_STAGES then (s, 1)
      else (s\<lparr>pl_stages := (pl_stages s)[unat (pl_stage_count s) := stage_tag],
              pl_stage_count := pl_stage_count s + 1\<rparr>, 0))"

definition compose_configure_on :: "Pipeline \<Rightarrow> Pipeline \<times> u8" where
  [op_simps]: "compose_configure_on s =
     (if pl_state s = ps_idle then (s\<lparr>pl_state := ps_configured, pl_last_error := 255\<rparr>, 0)
      else (s\<lparr>pl_last_error := 0\<rparr>, 1))"

definition compose_assemble_on :: "Pipeline \<Rightarrow> Pipeline \<times> u8" where
  [op_simps]: "compose_assemble_on s =
     (if pl_state s = ps_configured then (s\<lparr>pl_state := ps_assembled, pl_last_error := 255\<rparr>, 0)
      else (s\<lparr>pl_last_error := 0\<rparr>, 1))"

definition compose_activate_on :: "Pipeline \<Rightarrow> Pipeline \<times> u8" where
  [op_simps]: "compose_activate_on s =
     (if pl_state s = ps_assembled then (s\<lparr>pl_state := ps_running, pl_last_error := 255\<rparr>, 0)
      else (s\<lparr>pl_last_error := 0\<rparr>, 1))"

definition compose_deactivate_on :: "Pipeline \<Rightarrow> Pipeline \<times> u8" where
  [op_simps]: "compose_deactivate_on s =
     (if pl_state s = ps_running then (s\<lparr>pl_state := ps_stopped, pl_last_error := 255\<rparr>, 0)
      else (s\<lparr>pl_last_error := 0\<rparr>, 1))"

definition compose_fail_on :: "u8 \<Rightarrow> Pipeline \<Rightarrow> Pipeline \<times> u8" where
  [op_simps]: "compose_fail_on err_tag s =
     (if pl_state s = ps_configured \<or> pl_state s = ps_assembled \<or> pl_state s = ps_running
      then (s\<lparr>pl_state := ps_failed, pl_last_error := err_tag\<rparr>, 0)
      else (s, 1))"

definition compose_reset_on :: "Pipeline \<Rightarrow> Pipeline \<times> u8" where
  [op_simps]: "compose_reset_on s =
     (if pl_state s = ps_failed then (s\<lparr>pl_state := ps_idle, pl_stage_count := 0, pl_last_error := 255\<rparr>, 0)
      else if pl_state s = ps_stopped then (s\<lparr>pl_state := ps_idle, pl_stage_count := 0, pl_last_error := 255\<rparr>, 0)
      else (s\<lparr>pl_last_error := 0\<rparr>, 1))"

definition compose_set_direction :: "Pipeline list \<Rightarrow> c_int \<Rightarrow> u8 \<Rightarrow> Pipeline list \<times> u8" where
  "compose_set_direction p slot dir_tag = on_slot pl_active p slot 1 (compose_set_direction_on dir_tag)"

definition compose_add_stage :: "Pipeline list \<Rightarrow> c_int \<Rightarrow> u8 \<Rightarrow> Pipeline list \<times> u8" where
  "compose_add_stage p slot stage_tag = on_slot pl_active p slot 1 (compose_add_stage_on stage_tag)"

definition compose_configure :: "Pipeline list \<Rightarrow> c_int \<Rightarrow> Pipeline list \<times> u8" where
  "compose_configure p slot = on_slot pl_active p slot 1 compose_configure_on"

definition compose_assemble :: "Pipeline list \<Rightarrow> c_int \<Rightarrow> Pipeline list \<times> u8" where
  "compose_assemble p slot = on_slot pl_active p slot 1 compose_assemble_on"

definition compose_activate :: "Pipeline list \<Rightarrow> c_int \<Rightarrow> Pipeline list \<times> u8" where
  "compose_activate p slot = on_slot pl_active p slot 1 compose_activate_on"

definition compose_deactivate :: "Pipeline list \<Rightarrow> c_int \<Rightarrow> Pipeline list \<times> u8" where
  "compose_deactivate p slot = on_slot pl_active p slot 1 compose_deactivate_on"

definition compose_fail :: "Pipeline list \<Rightarrow> c_int \<Rightarrow> u8 \<Rightarrow> Pipeline list \<times> u8" where
  "compose_fail p slot err_tag = on_slot pl_active p slot 1 (compose_fail_on err_tag)"

definition compose_reset :: "Pipeline list \<Rightarrow> c_int \<Rightarrow> Pipeline list \<times> u8" where
  "compose_reset p slot = on_slot pl_active p slot 1 compose_reset_on"

definition compose_check_compat :: "u8 \<Rightarrow> u8 \<Rightarrow> u8" where
  "compose_check_compat a_tag b_tag =
     (if a_tag > 8 \<or> b_tag > 8 then 1
      else if a_tag = b_tag then 0
      else let a = combinator_of a_tag; b = combinator_of b_tag in
        if (a = cb_chain \<or> a = cb_filter \<or> a = cb_transform \<or> a = cb_tap) \<and>
           (b = cb_chain \<or> b = cb_filter \<or> b = cb_transform \<or> b = cb_tap) then 0
        else if a = cb_mux \<and> b = cb_demux \<or> a = cb_demux \<and> b = cb_mux then 0
        else if a = cb_proxy \<and> b = cb_relay \<or> a = cb_relay \<and> b = cb_proxy then 0
        else 2)"

definition compose_can_transition :: "u8 \<Rightarrow> u8 \<Rightarrow> u8" where
  "compose_can_transition a b =
     (if a = 0 \<and> b = 1 then 1
      else if a = 1 \<and> b = 2 then 1
      else if a = 2 \<and> b = 3 then 1
      else if a = 3 \<and> b = 4 then 1
      else if a = 1 \<and> b = 5 then 1
      else if a = 2 \<and> b = 5 then 1
      else if a = 3 \<and> b = 5 then 1
      else if a = 5 \<and> b = 0 then 1
      else if a = 4 \<and> b = 0 then 1
      else 0)"

section \<open>The audit trail\<close>

datatype trail_state = ts_idle | ts_recording | ts_sealed | ts_archived | ts_failed

primrec trail_state_tag :: "trail_state \<Rightarrow> u8" where
  "trail_state_tag ts_idle = 0"
| "trail_state_tag ts_recording = 1"
| "trail_state_tag ts_sealed = 2"
| "trail_state_tag ts_archived = 3"
| "trail_state_tag ts_failed = 4"

record Trail =
  tr_state :: trail_state
  tr_level :: u8
  tr_integrity :: u8
  tr_retention :: u8
  tr_event_count :: u32
  tr_last_error :: u8
  tr_active :: bool

definition MAX_EVENTS :: u32 where
  "MAX_EVENTS = 4096"

definition audit_sessions :: "Trail list" where
  "audit_sessions = replicate 64
     \<lparr>tr_state = ts_idle, tr_level = 0, tr_integrity = 0, tr_retention = 0, tr_event_count = 0,
      tr_last_error = 255, tr_active = False\<rparr>"

definition audit_abi_version :: u32 where
  "audit_abi_version = 1"

definition audit_fresh :: "u8 \<Rightarrow> u8 \<Rightarrow> u8 \<Rightarrow> Trail" where
  "audit_fresh level integrity retention =
     \<lparr>tr_state = ts_idle, tr_level = level, tr_integrity = integrity, tr_retention = retention,
      tr_event_count = 0, tr_last_error = 255, tr_active = True\<rparr>"

definition audit_create :: "u8 \<Rightarrow> u8 \<Rightarrow> u8 \<Rightarrow> Trail list \<Rightarrow> Trail list \<times> c_int" where
  "audit_create level integrity retention p =
     (if level > 4 then (p, - 1)
      else if integrity > 4 then (p, - 1)
      else if retention > 4 then (p, - 1)
      else pool_create tr_active (\<lambda>s. audit_fresh level integrity retention) p)"

definition audit_destroy :: "Trail list \<Rightarrow> c_int \<Rightarrow> Trail list" where
  "audit_destroy p slot = pool_destroy (\<lambda>s. s\<lparr>tr_active := False\<rparr>) p slot"

definition audit_state :: "Trail list \<Rightarrow> c_int \<Rightarrow> u8" where
  "audit_state p slot = query_slot tr_active p slot 0 (\<lambda>s. trail_state_tag (tr_state s))"

definition audit_last_error :: "Trail list \<Rightarrow> c_int \<Rightarrow> u8" where
  "audit_last_error p slot = query_slot tr_active p slot 255 tr_last_error"

definition audit_event_count :: "Trail list \<Rightarrow> c_int \<Rightarrow> u32" where
  "audit_event_count p slot = query_slot tr_active p slot 0 tr_event_count"

definition audit_level :: "Trail list \<Rightarrow> c_int \<Rightarrow> u8" where
  "audit_level p slot = query_slot tr_active p slot 0 tr_level"

definition audit_integrity :: "Trail list \<Rightarrow> c_int \<Rightarrow> u8" where
  "audit_integrity p slot = query_slot tr_active p slot 0 tr_integrity"

definition audit_retention :: "Trail list \<Rightarrow> c_int \<Rightarrow> u8" where
  "audit_retention p slot = query_slot tr_active p slot 0 tr_retention"

definition audit_open_on :: "Trail \<Rightarrow> Trail \<times> u8" where
  [op_simps]: "audit_open_on s =
     (if tr_state s = ts_idle
      then (s\<lparr>tr_state := ts_recording, tr_event_count := 0, tr_last_error := 255\<rparr>, 0)
      else (s\<lparr>tr_last_error := 0\<rparr>, 1))"

definition audit_seal_on :: "Trail \<Rightarrow> Trail \<times> u8" where
  [op_simps]: "audit_seal_on s =
     (if tr_state s = ts_recording then (s\<lparr>tr_state := ts_sealed, tr_last_error := 255\<rparr>, 0)
      else (s\<lparr>tr_last_error := 0\<rparr>, 1))"

definition audit_archive_on :: "Trail \<Rightarrow> Trail \<times> u8" where
  [op_simps]: "audit_archive_on s =
     (if tr_state s = ts_sealed then (s\<lparr>tr_state := ts_archived, tr_last_error := 255\<rparr>, 0)
      else (s\<lparr>tr_last_error := 0\<rparr>, 1))"

definition audit_fail_on :: "u8 \<Rightarrow> Trail \<Rightarrow> Trail \<times> u8" where
  [op_simps]: "audit_fail_on err_tag s =
     (if tr_state s = ts_recording then (s\<lparr>tr_state := ts_failed, tr_last_error := err_tag\<rparr>, 0)
      else (s, 1))"

definition audit_reset_on :: "Trail \<Rightarrow> Trail \<times> u8" where
  [op_simps]: "audit_reset_on s =
     (if tr_state s = ts_failed \<or> tr_state s = ts_sealed \<or> tr_state s = ts_archived
      then (s\<lparr>tr_state := ts_idle, tr_event_count := 0, tr_last_error := 255\<rparr>, 0)
      else (s\<lparr>tr_last_error := 0\<rparr>, 1))"

text \<open>Here 255 is success, 0 a full trail and 1 any other refusal.\<close>

definition audit_record_event_on :: "u8 \<Rightarrow> Trail \<Rightarrow> Trail \<times> u8" where
  [op_simps]: "audit_record_event_on category s =
     (if tr_state s \<noteq> ts_recording then (s, 1)
      else if category > 7 then (s, 1)
      else if tr_event_count s \<ge> MAX_EVENTS then (s, 0)
      else (s\<lparr>tr_event_count := tr_event_count s + 1\<rparr>, 255))"

definition audit_open :: "Trail list \<Rightarrow> c_int \<Rightarrow> Trail list \<times> u8" where
  "audit_open p slot = on_slot tr_active p slot 1 audit_open_on"

definition audit_seal :: "Trail list \<Rightarrow> c_int \<Rightarrow> Trail list \<times> u8" where
  "audit_seal p slot = on_slot tr_active p slot 1 audit_seal_on"

definition audit_archive :: "Trail list \<Rightarrow> c_int \<Rightarrow> Trail list \<times> u8" where
  "audit_archive p slot = on_slot tr_active p slot 1 audit_archive_on"

definition audit_fail :: "Trail list \<Rightarrow> c_int \<Rightarrow> u8 \<Rightarrow> Trail list \<times> u8" where
  "audit_fail p slot err_tag = on_slot tr_active p slot 1 (audit_fail_on err_tag)"

definition audit_reset :: "Trail list \<Rightarrow> c_int \<Rightarrow> Trail list \<times> u8" where
  "audit_reset p slot = on_slot tr_active p slot 1 audit_reset_on"

definition audit_record_event :: "Trail list \<Rightarrow> c_int \<Rightarrow> u8 \<Rightarrow> Trail list \<times> u8" where
  "audit_record_event p slot category = on_slot tr_active p slot 1 (audit_record_event_on category)"

definition audit_can_transition :: "u8 \<Rightarrow> u8 \<Rightarrow> u8" where
  "audit_can_transition a b =
     (if a = 0 \<and> b = 1 then 1
      else if a = 1 \<and> b = 2 then 1
      else if a = 1 \<and> b = 4 then 1
      else if a = 2 \<and> b = 3 then 1
      else if a = 2 \<and> b = 0 then 1
      else if a = 3 \<and> b = 0 then 1
      else if a = 4 \<and> b = 0 then 1
      else 0)"

section \<open>Calls\<close>

datatype fsm_call = Fsm_start | Fsm_complete | Fsm_fault | Fsm_reset | Fsm_submit u32

primrec fsm_call_on :: "fsm_call \<Rightarrow> Machine \<Rightarrow> (Machine \<times> u8) option" where
  "fsm_call_on Fsm_start m = Some (fsm_start_on m)"
| "fsm_call_on Fsm_complete m = Some (fsm_complete_on m)"
| "fsm_call_on Fsm_fault m = Some (fsm_fault_on m)"
| "fsm_call_on Fsm_reset m = Some (fsm_reset_on m)"
| "fsm_call_on (Fsm_submit e) m = fsm_submit_event_on e m"

datatype pipe_call =
  Pipe_direction u8 | Pipe_add u8 | Pipe_configure | Pipe_assemble | Pipe_activate | Pipe_deactivate
| Pipe_fail u8 | Pipe_reset

primrec pipe_step :: "pipe_call \<Rightarrow> Pipeline \<Rightarrow> Pipeline \<times> u8" where
  "pipe_step (Pipe_direction d) s = compose_set_direction_on d s"
| "pipe_step (Pipe_add t) s = compose_add_stage_on t s"
| "pipe_step Pipe_configure s = compose_configure_on s"
| "pipe_step Pipe_assemble s = compose_assemble_on s"
| "pipe_step Pipe_activate s = compose_activate_on s"
| "pipe_step Pipe_deactivate s = compose_deactivate_on s"
| "pipe_step (Pipe_fail e) s = compose_fail_on e s"
| "pipe_step Pipe_reset s = compose_reset_on s"

datatype trail_call =
  Trail_open | Trail_seal | Trail_archive | Trail_fail u8 | Trail_reset | Trail_record u8

text \<open>The answer of a call as 0 for success.\<close>

primrec trail_step :: "trail_call \<Rightarrow> Trail \<Rightarrow> Trail \<times> u8" where
  "trail_step Trail_open s = audit_open_on s"
| "trail_step Trail_seal s = audit_seal_on s"
| "trail_step Trail_archive s = audit_archive_on s"
| "trail_step (Trail_fail e) s = audit_fail_on e s"
| "trail_step Trail_reset s = audit_reset_on s"
| "trail_step (Trail_record k) s = (let (s', r) = audit_record_event_on k s in (s', if r = 255 then 0 else 1))"

section \<open>Tables and operations\<close>

text \<open>
  The contract between a table and the operations: from every context, the states a call can move to
  are the successors the table gives. Then the states that runs of calls reach are those the table
  connects.
\<close>

locale exact_table =
  fixes st :: "'c \<Rightarrow> 's"
    and tag :: "'s \<Rightarrow> u8"
    and can :: "u8 \<Rightarrow> u8 \<Rightarrow> u8"
    and step :: "'op \<Rightarrow> 'c \<Rightarrow> ('c \<times> u8) option"
  assumes exact: "(\<exists>x c' r. step x c = Some (c', r) \<and> st c' = s \<and> s \<noteq> st c) \<longleftrightarrow> can (tag (st c)) (tag s) = 1"
begin

lemma run_connected:
  "checked_run step xs (c, h) = Some (c', h') \<Longrightarrow> (\<lambda>a b. can (tag a) (tag b) = 1)\<^sup>*\<^sup>* (st c) (st c')"
proof (induction xs arbitrary: c h)
  case (Cons x xs)
  from Cons.prems obtain c1 r where s: "step x c = Some (c1, r)"
    and rest: "checked_run step xs (c1, if r = 0 then h @ [x] else h) = Some (c', h')"
    by (auto cong: if_cong split: option.splits)
  have "st c1 = st c \<or> can (tag (st c)) (tag (st c1)) = 1" using exact [of c "st c1"] s by blast
  with Cons.IH [OF rest] show ?case by (auto intro: converse_rtranclp_into_rtranclp)
qed simp

lemma connected_run:
  assumes "(\<lambda>a b. can (tag a) (tag b) = 1)\<^sup>*\<^sup>* a b" "st c = a"
  shows "\<exists>xs c' h'. checked_run step xs (c, h) = Some (c', h') \<and> st c' = b"
  using assms
proof (induction arbitrary: c h rule: converse_rtranclp_induct)
  case base
  have "checked_run step [] (c, h) = Some (c, h)" by simp
  with base show ?case by blast
next
  case (step a d)
  then obtain x c1 r where s: "step x c = Some (c1, r)" "st c1 = d" using exact [of c d] by blast
  from step.IH [OF s(2)] obtain xs c' h'
    where run: "checked_run step xs (c1, if r = 0 then h @ [x] else h) = Some (c', h')" "st c' = b" by blast
  from s(1) have "checked_run step (x # xs) (c, h) = checked_run step xs (c1, if r = 0 then h @ [x] else h)" by simp
  with run show ?case by metis
qed

lemma reached_iff:
  "(\<exists>xs c' h. checked_run step xs (c, []) = Some (c', h) \<and> st c' = s) \<longleftrightarrow>
     (\<lambda>a b. can (tag a) (tag b) = 1)\<^sup>*\<^sup>* (st c) s"
  using run_connected connected_run [of "st c" s c "[]"] by blast

end

lemma ex_fsm_call: "(\<exists>x. P x) \<longleftrightarrow> P Fsm_start \<or> P Fsm_complete \<or> P Fsm_fault \<or> P Fsm_reset \<or> (\<exists>e. P (Fsm_submit e))"
  by (metis fsm_call.exhaust)

lemma ex_pipe_call:
  "(\<exists>x. P x) \<longleftrightarrow> (\<exists>d. P (Pipe_direction d)) \<or> (\<exists>t. P (Pipe_add t)) \<or> P Pipe_configure \<or> P Pipe_assemble \<or>
     P Pipe_activate \<or> P Pipe_deactivate \<or> (\<exists>e. P (Pipe_fail e)) \<or> P Pipe_reset"
  by (metis pipe_call.exhaust)

lemma ex_trail_call:
  "(\<exists>x. P x) \<longleftrightarrow> P Trail_open \<or> P Trail_seal \<or> P Trail_archive \<or> (\<exists>e. P (Trail_fail e)) \<or> P Trail_reset \<or>
     (\<exists>k. P (Trail_record k))"
  by (metis trail_call.exhaust)

interpretation fsm: exact_table fm_state machine_state_tag fsm_can_transition fsm_call_on
proof
  show "(\<exists>x c' r. fsm_call_on x m = Some (c', r) \<and> fm_state c' = s \<and> s \<noteq> fm_state m) \<longleftrightarrow>
      fsm_can_transition (machine_state_tag (fm_state m)) (machine_state_tag s) = 1" for m s
    by (cases "fm_state m"; cases s) (simp_all add: ex_fsm_call op_simps fsm_can_transition_def)
qed

interpretation pipe: exact_table pl_state pipeline_state_tag compose_can_transition "\<lambda>x s. Some (pipe_step x s)"
proof
  show "(\<exists>x c' r. Some (pipe_step x p) = Some (c', r) \<and> pl_state c' = s \<and> s \<noteq> pl_state p) \<longleftrightarrow>
      compose_can_transition (pipeline_state_tag (pl_state p)) (pipeline_state_tag s) = 1" for p s
    by (cases "pl_state p"; cases s) (simp_all add: ex_pipe_call op_simps compose_can_transition_def)
qed

interpretation trail: exact_table tr_state trail_state_tag audit_can_transition "\<lambda>x s. Some (trail_step x s)"
proof
  show "(\<exists>x c' r. Some (trail_step x t) = Some (c', r) \<and> tr_state c' = s \<and> s \<noteq> tr_state t) \<longleftrightarrow>
      audit_can_transition (trail_state_tag (tr_state t)) (trail_state_tag s) = 1" for t s
    by (cases "tr_state t"; cases s) (simp_all add: ex_trail_call op_simps Let_def audit_can_transition_def)
qed

text \<open>
  C37: The exported transition tables of the state machine, the pipeline and the audit trail are exact. From
  every context a call can change the state to exactly the successors in the table, and the states
  that sequences of calls reach are exactly those the table connects. (An event whose count leaves
  32 bits stops the program.)
\<close>

theorem core_tables_exact:
  "((\<exists>x m' r. fsm_call_on x m = Some (m', r) \<and> fm_state m' = s \<and> s \<noteq> fm_state m) \<longleftrightarrow>
      fsm_can_transition (machine_state_tag (fm_state m)) (machine_state_tag s) = 1) \<and>
   ((\<exists>x. pl_state (fst (pipe_step x p)) = s' \<and> s' \<noteq> pl_state p) \<longleftrightarrow>
      compose_can_transition (pipeline_state_tag (pl_state p)) (pipeline_state_tag s') = 1) \<and>
   ((\<exists>x. tr_state (fst (trail_step x t)) = s'' \<and> s'' \<noteq> tr_state t) \<longleftrightarrow>
      audit_can_transition (trail_state_tag (tr_state t)) (trail_state_tag s'') = 1) \<and>
   ((\<exists>xs m' h. checked_run fsm_call_on xs (m, []) = Some (m', h) \<and> fm_state m' = s) \<longleftrightarrow>
      (\<lambda>a b. fsm_can_transition (machine_state_tag a) (machine_state_tag b) = 1)\<^sup>*\<^sup>* (fm_state m) s) \<and>
   ((\<exists>xs p' h. checked_run (\<lambda>x c. Some (pipe_step x c)) xs (p, []) = Some (p', h) \<and> pl_state p' = s') \<longleftrightarrow>
      (\<lambda>a b. compose_can_transition (pipeline_state_tag a) (pipeline_state_tag b) = 1)\<^sup>*\<^sup>* (pl_state p) s') \<and>
   ((\<exists>xs t' h. checked_run (\<lambda>x c. Some (trail_step x c)) xs (t, []) = Some (t', h) \<and> tr_state t' = s'') \<longleftrightarrow>
      (\<lambda>a b. audit_can_transition (trail_state_tag a) (trail_state_tag b) = 1)\<^sup>*\<^sup>* (tr_state t) s'')"
proof -
  have "(\<exists>x. pl_state (fst (pipe_step x p)) = s' \<and> s' \<noteq> pl_state p) \<longleftrightarrow>
      compose_can_transition (pipeline_state_tag (pl_state p)) (pipeline_state_tag s') = 1"
    using pipe.exact [of p s'] by (auto simp: prod_eq_iff)
  moreover have "(\<exists>x. tr_state (fst (trail_step x t)) = s'' \<and> s'' \<noteq> tr_state t) \<longleftrightarrow>
      audit_can_transition (trail_state_tag (tr_state t)) (trail_state_tag s'') = 1"
    using trail.exact [of t s''] by (auto simp: prod_eq_iff)
  ultimately show ?thesis
    by (intro conjI fsm.exact fsm.reached_iff pipe.reached_iff trail.reached_iff)
qed

section \<open>Histories\<close>

text \<open>What a history holds after the last reset.\<close>

definition since :: "'a \<Rightarrow> 'a list \<Rightarrow> 'a list" where
  "since x h = rev (takeWhile (\<lambda>y. y \<noteq> x) (rev h))"

lemma since_Nil [simp]: "since x [] = []"
  and since_snoc [simp]: "since x (h @ [y]) = (if y = x then [] else since x h @ [y])"
  by (simp_all add: since_def)

subsection \<open>Audit trails\<close>

primrec is_record :: "trail_call \<Rightarrow> bool" where
  "is_record (Trail_record k) = (k \<le> 7)"
| "is_record Trail_open = False"
| "is_record Trail_seal = False"
| "is_record Trail_archive = False"
| "is_record (Trail_fail e) = False"
| "is_record Trail_reset = False"

text \<open>The accepted calls since the last reset, in each state of a trail.\<close>

inductive trail_log :: "Trail \<Rightarrow> trail_call list \<Rightarrow> bool" where
  idle: "tr_state t = ts_idle \<Longrightarrow> tr_event_count t = 0 \<Longrightarrow> trail_log t []"
| recording: "tr_state t = ts_recording \<Longrightarrow> list_all is_record rs \<Longrightarrow> unat (tr_event_count t) = length rs \<Longrightarrow>
    length rs \<le> 4096 \<Longrightarrow> trail_log t (Trail_open # rs)"
| sealed: "tr_state t = ts_sealed \<Longrightarrow> list_all is_record rs \<Longrightarrow> unat (tr_event_count t) = length rs \<Longrightarrow>
    length rs \<le> 4096 \<Longrightarrow> trail_log t (Trail_open # rs @ [Trail_seal])"
| archived: "tr_state t = ts_archived \<Longrightarrow> list_all is_record rs \<Longrightarrow> unat (tr_event_count t) = length rs \<Longrightarrow>
    length rs \<le> 4096 \<Longrightarrow> trail_log t (Trail_open # rs @ [Trail_seal, Trail_archive])"
| failed: "tr_state t = ts_failed \<Longrightarrow> list_all is_record rs \<Longrightarrow> unat (tr_event_count t) = length rs \<Longrightarrow>
    length rs \<le> 4096 \<Longrightarrow> trail_log t (Trail_open # rs @ [Trail_fail e])"

lemma trail_log_cong:
  assumes "trail_log t h" "tr_state t' = tr_state t" "tr_event_count t' = tr_event_count t"
  shows "trail_log t' h"
  using assms by (cases rule: trail_log.cases) (auto intro: trail_log.intros)

lemma events_room:
  assumes "unat n = k" "k \<le> 4096"
  shows "n \<ge> MAX_EVENTS \<longleftrightarrow> k = 4096" and "k < 4096 \<Longrightarrow> unat (n + 1) = Suc k"
  using assms by (auto simp: MAX_EVENTS_def word_le_nat_alt unat_word_ariths)

lemma trail_log_step:
  assumes "trail_log t (since Trail_reset h)"
  shows "trail_log (fst (trail_step x t)) (since Trail_reset (if snd (trail_step x t) = 0 then h @ [x] else h))"
proof (cases "snd (trail_step x t) = 0")
  case False
  then have "tr_state (fst (trail_step x t)) = tr_state t" "tr_event_count (fst (trail_step x t)) = tr_event_count t"
    by (cases x; auto simp: op_simps Let_def split: if_splits)+
  with False assms show ?thesis by (auto intro: trail_log_cong)
next
  case True
  from assms show ?thesis
  proof cases
    case idle
    with True show ?thesis
      by (cases x) (auto simp: op_simps Let_def intro: trail_log.recording [of _ "[]"] split: if_splits)
  next
    case (recording rs)
    with True show ?thesis
      using events_room [OF recording(4,5)] trail_log.recording [of "fst (trail_step x t)" "rs @ [x]"]
      by (cases x) (auto simp: op_simps Let_def intro: trail_log.sealed trail_log.failed split: if_splits)
  next
    case (sealed rs)
    with True show ?thesis
      by (cases x) (auto simp: op_simps Let_def intro: trail_log.idle trail_log.archived split: if_splits)
  next
    case (archived rs)
    with True show ?thesis
      by (cases x) (auto simp: op_simps Let_def intro: trail_log.idle split: if_splits)
  next
    case (failed rs e)
    with True show ?thesis
      by (cases x) (auto simp: op_simps Let_def intro: trail_log.idle split: if_splits)
  qed
qed

lemma trail_policy_step:
  "tr_level (fst (trail_step x t)) = tr_level t"
  "tr_integrity (fst (trail_step x t)) = tr_integrity t"
  "tr_retention (fst (trail_step x t)) = tr_retention t"
  by (cases x; simp add: op_simps Let_def)+

text \<open>
  C38: In every history of an audit trail the event count is the number of events recorded since the trail
  was opened, at most 4096, and nothing but an opening, events, and then a seal, a seal and an archive,
  or a failure, is accepted before the next reset: what is sealed is not added to. An event is
  recorded exactly when its category is valid and the trail has been opened, is not ended and has
  room. Level, integrity and retention never change.
\<close>

theorem audit_trail_history:
  "case session_run trail_step (audit_fresh level integrity retention) calls of (t, h) \<Rightarrow>
     trail_log t (since Trail_reset h) \<and>
     tr_level t = level \<and> tr_integrity t = integrity \<and> tr_retention t = retention \<and>
     (snd (audit_record_event_on category t) = 255 \<longleftrightarrow>
        category \<le> 7 \<and> (\<exists>rs. since Trail_reset h = Trail_open # rs \<and> list_all is_record rs \<and> length rs < 4096))"
proof -
  let ?P = "\<lambda>t h. trail_log t (since Trail_reset h) \<and>
    tr_level t = level \<and> tr_integrity t = integrity \<and> tr_retention t = retention"
  obtain t h where run: "session_run trail_step (audit_fresh level integrity retention) calls = (t, h)" by fastforce
  have "?P (fst (t, h)) (snd (t, h))"
    unfolding run [symmetric]
  proof (rule session_run_invariant [where P = ?P])
    show "?P (audit_fresh level integrity retention) []" by (simp add: trail_log.idle audit_fresh_def)
  next
    fix t h x
    assume "?P t h" "snd (trail_step x t) = 0"
    then show "?P (fst (trail_step x t)) (h @ [x])"
      using trail_log_step [of t h x] by (simp add: trail_policy_step)
  next
    fix t h x
    assume "?P t h" "snd (trail_step x t) \<noteq> 0"
    then show "?P (fst (trail_step x t)) h"
      using trail_log_step [of t h x] by (simp add: trail_policy_step)
  qed
  then have P: "?P t h" by simp
  then have "trail_log t (since Trail_reset h)" by blast
  then have "tr_state t = ts_recording \<and> tr_event_count t < MAX_EVENTS \<longleftrightarrow>
      (\<exists>rs. since Trail_reset h = Trail_open # rs \<and> list_all is_record rs \<and> length rs < 4096)"
  proof cases
    case (recording rs)
    then show ?thesis using events_room(1) [OF recording(4,5)] by (auto simp: not_le [symmetric])
  qed auto
  then have "snd (audit_record_event_on category t) = 255 \<longleftrightarrow>
      category \<le> 7 \<and> (\<exists>rs. since Trail_reset h = Trail_open # rs \<and> list_all is_record rs \<and> length rs < 4096)"
    by (auto simp: audit_record_event_on_def not_le [symmetric])
  with P run show ?thesis by simp
qed

subsection \<open>Pipelines\<close>

text \<open>The stages a history adds, in order, and the direction it sets last.\<close>

fun added_stages :: "pipe_call list \<Rightarrow> u8 list" where
  "added_stages [] = []"
| "added_stages (Pipe_add t # h) = t # added_stages h"
| "added_stages (x # h) = added_stages h"

fun set_direction :: "u8 \<Rightarrow> pipe_call \<Rightarrow> u8" where
  "set_direction d (Pipe_direction d') = d'"
| "set_direction d x = d"

fun is_setting :: "pipe_call \<Rightarrow> bool" where
  "is_setting (Pipe_direction d) = True"
| "is_setting (Pipe_add t) = True"
| "is_setting x = False"

lemma added_stages_append [simp]: "added_stages (xs @ ys) = added_stages xs @ added_stages ys"
  by (induction xs rule: added_stages.induct) simp_all

text \<open>
  The accepted calls since the last reset, in each state of a pipeline: settings, and after the
  configuration more of them; then the life of the pipeline.
\<close>

fun pipe_life :: "pipeline_state \<Rightarrow> pipe_call list \<Rightarrow> bool" where
  "pipe_life ps_idle l = (l = [])"
| "pipe_life ps_configured l = (l = [])"
| "pipe_life ps_assembled l = (l = [Pipe_assemble])"
| "pipe_life ps_running l = (l = [Pipe_assemble, Pipe_activate])"
| "pipe_life ps_stopped l = (l = [Pipe_assemble, Pipe_activate, Pipe_deactivate])"
| "pipe_life ps_failed l =
     (\<exists>e. l = [Pipe_fail e] \<or> l = [Pipe_assemble, Pipe_fail e] \<or> l = [Pipe_assemble, Pipe_activate, Pipe_fail e])"

definition pipe_log :: "Pipeline \<Rightarrow> pipe_call list \<Rightarrow> bool" where
  "pipe_log p h \<longleftrightarrow>
     (\<exists>before after l. list_all is_setting before \<and> list_all is_setting after \<and> pipe_life (pl_state p) l \<and>
        (if pl_state p = ps_idle then h = before else h = before @ Pipe_configure # after @ l))"

definition stages_kept :: "Pipeline \<Rightarrow> u8 list \<Rightarrow> bool" where
  "stages_kept p ts \<longleftrightarrow>
     length (pl_stages p) = 16 \<and> unat (pl_stage_count p) = length ts \<and> length ts \<le> 16 \<and>
     take (length ts) (pl_stages p) = ts"

lemma pipe_log_cong: "pipe_log p h \<Longrightarrow> pl_state p' = pl_state p \<Longrightarrow> pipe_log p' h"
  by (simp add: pipe_log_def)

lemma pipe_refused:
  "snd (pipe_step x p) \<noteq> 0 \<Longrightarrow>
     pl_state (fst (pipe_step x p)) = pl_state p \<and> pl_stages (fst (pipe_step x p)) = pl_stages p \<and>
     pl_stage_count (fst (pipe_step x p)) = pl_stage_count p \<and> pl_direction (fst (pipe_step x p)) = pl_direction p"
  by (cases x) (auto simp: op_simps split: if_splits)

lemma pipe_log_snoc:
  assumes "pipe_log p h" "pl_state p \<noteq> ps_idle" "pl_state p' \<noteq> ps_idle"
    and "\<And>l. pipe_life (pl_state p) l \<Longrightarrow> pipe_life (pl_state p') (l @ [x])"
  shows "pipe_log p' (h @ [x])"
  using assms unfolding pipe_log_def by (auto, metis append_assoc append_Cons)

lemma pipe_log_setting:
  assumes "pipe_log p h" "is_setting x" "pl_state p = ps_idle \<or> pl_state p = ps_configured" "pl_state p' = pl_state p"
  shows "pipe_log p' (h @ [x])"
proof (cases "pl_state p = ps_idle")
  case True
  with assms have "list_all is_setting (h @ [x])" by (simp add: pipe_log_def)
  with True assms(4) show ?thesis by (auto simp: pipe_log_def)
next
  case False
  with assms obtain before after where "list_all is_setting before" "list_all is_setting (after @ [x])"
    "h = before @ Pipe_configure # after" by (auto simp: pipe_log_def)
  then have "list_all is_setting before \<and> list_all is_setting (after @ [x]) \<and> h @ [x] = before @ Pipe_configure # (after @ [x]) @ []"
    by simp
  with False assms(3,4) show ?thesis unfolding pipe_log_def by (metis pipe_life.simps(2))
qed

lemma pipe_log_step:
  assumes "pipe_log p (since Pipe_reset h)" "snd (pipe_step x p) = 0"
  shows "pipe_log (fst (pipe_step x p)) (since Pipe_reset (h @ [x]))"
proof (cases x)
  case (Pipe_direction d)
  with assms show ?thesis
    by (auto simp: op_simps intro!: pipe_log_setting [OF assms(1)] split: if_splits)
next
  case (Pipe_add t)
  with assms show ?thesis
    by (auto simp: op_simps intro!: pipe_log_setting [OF assms(1)] split: if_splits)
next
  case Pipe_configure
  with assms have "list_all is_setting (since Pipe_reset h)" "pl_state (fst (pipe_step x p)) = ps_configured"
    by (auto simp: op_simps pipe_log_def split: if_splits)
  moreover from this(1) have "\<exists>before after l. list_all is_setting before \<and> list_all is_setting after \<and>
      pipe_life ps_configured l \<and> since Pipe_reset h @ [Pipe_configure] = before @ Pipe_configure # after @ l"
    by (intro exI [of _ "since Pipe_reset h"] exI [of _ "[]"]) simp
  ultimately show ?thesis by (simp add: Pipe_configure pipe_log_def)
next
  case Pipe_assemble
  with assms show ?thesis
    by (auto simp: op_simps intro!: pipe_log_snoc [OF assms(1)] split: if_splits)
next
  case Pipe_activate
  with assms show ?thesis
    by (auto simp: op_simps intro!: pipe_log_snoc [OF assms(1)] split: if_splits)
next
  case Pipe_deactivate
  with assms show ?thesis
    by (auto simp: op_simps intro!: pipe_log_snoc [OF assms(1)] split: if_splits)
next
  case (Pipe_fail e)
  with assms show ?thesis
    by (auto simp: op_simps intro!: pipe_log_snoc [OF assms(1)] split: if_splits)
next
  case Pipe_reset
  with assms show ?thesis by (auto simp: op_simps pipe_log_def split: if_splits)
qed

lemma stages_kept_step:
  assumes "stages_kept p (added_stages (since Pipe_reset h))" "snd (pipe_step x p) = 0"
  shows "stages_kept (fst (pipe_step x p)) (added_stages (since Pipe_reset (h @ [x])))"
proof (cases x)
  case (Pipe_add t)
  let ?ts = "added_stages (since Pipe_reset h)"
  from Pipe_add assms(2) have room: "pl_stage_count p < 16" and
    step: "fst (pipe_step x p) = p\<lparr>pl_stages := (pl_stages p)[unat (pl_stage_count p) := t], pl_stage_count := pl_stage_count p + 1\<rparr>"
    by (auto simp: op_simps MAX_STAGES_def split: if_splits)
  from room assms(1) have n: "length ?ts < 16" by (simp add: stages_kept_def word_less_nat_alt)
  with assms(1) have "unat (pl_stage_count p + 1) = Suc (length ?ts)"
    by (simp add: stages_kept_def unat_word_ariths)
  with n assms(1) show ?thesis
    unfolding step by (simp add: Pipe_add stages_kept_def take_Suc_conv_app_nth)
qed (use assms in \<open>auto simp: op_simps stages_kept_def split: if_splits\<close>)

lemma direction_step:
  "snd (pipe_step x p) = 0 \<Longrightarrow> pl_direction (fst (pipe_step x p)) = set_direction (pl_direction p) x"
  by (cases x) (auto simp: op_simps split: if_splits)

text \<open>
  C39: In every history of a pipeline the stages it holds are those added since the last reset, in order
  and at most 16, and its state is told by the accepted calls since then: settings before and after
  the configuration, then assembly, activation and deactivation, or a failure. No stage and no
  direction is set once it is assembled. The direction is the one set last, over resets too.
\<close>

theorem compose_history:
  "case session_run pipe_step (compose_fresh combinator_tag) calls of (p, h) \<Rightarrow>
     pipe_log p (since Pipe_reset h) \<and> stages_kept p (added_stages (since Pipe_reset h)) \<and>
     pl_direction p = foldl set_direction 1 h \<and> pl_combinator p = combinator_tag"
proof -
  let ?P = "\<lambda>p h. pipe_log p (since Pipe_reset h) \<and> stages_kept p (added_stages (since Pipe_reset h)) \<and>
    pl_direction p = foldl set_direction 1 h \<and> pl_combinator p = combinator_tag"
  have tag: "pl_combinator (fst (pipe_step x p)) = pl_combinator p" for x p
    by (cases x) (simp_all add: op_simps)
  obtain p h where run: "session_run pipe_step (compose_fresh combinator_tag) calls = (p, h)" by fastforce
  have "?P (fst (p, h)) (snd (p, h))"
    unfolding run [symmetric]
  proof (rule session_run_invariant [where P = ?P])
    show "?P (compose_fresh combinator_tag) []"
      by (simp add: compose_fresh_def pipe_log_def stages_kept_def exI [of _ "[]"])
  next
    fix p h x
    assume "?P p h" "snd (pipe_step x p) = 0"
    then show "?P (fst (pipe_step x p)) (h @ [x])"
      using pipe_log_step [of p h x] stages_kept_step [of p h x] direction_step [of x p] tag [of x p]
      by (simp del: since_snoc)
  next
    fix p h x
    assume "?P p h" "snd (pipe_step x p) \<noteq> 0"
    then show "?P (fst (pipe_step x p)) h"
      using pipe_refused [of x p] tag [of x p] by (simp add: pipe_log_def stages_kept_def)
  qed
  with run show ?thesis by simp
qed

text \<open>Two combinators are compatible when they belong to the same group.\<close>

definition compat_group :: "u8 \<Rightarrow> nat" where
  "compat_group t = [0, 1, 2, 2, 3, 3, 0, 0, 0] ! unat t"

lemma compose_compat_groups:
  assumes "a \<le> 8" "b \<le> 8"
  shows "compose_check_compat a b = 0 \<longleftrightarrow> compat_group a = compat_group b"
proof -
  have small: "unat t \<in> set [0..<9]" "t = word_of_nat (unat t)" if "t \<le> 8" for t :: u8
    using that by (simp_all add: word_le_nat_alt)
  have "\<forall>i \<in> set [0..<9]. \<forall>j \<in> set [0..<9].
      compose_check_compat (word_of_nat i) (word_of_nat j) = 0 \<longleftrightarrow>
      compat_group (word_of_nat i) = compat_group (word_of_nat j)"
    by code_simp
  then show ?thesis using small [OF assms(1)] small [OF assms(2)] by metis
qed

end
