(* ===== verification/Frame_Parser.thy ===== *)
theory Frame_Parser
  imports Core_Machines
begin

text \<open>
  The frame parser of the core primitives, \<open>core/proven-frame/ffi/zig/src/frame.zig\<close>: its life cycle and
  the count of the bytes it is fed (the source is a skeleton that does not look at the bytes). A
  parser behind a null pointer is \<open>None\<close>; the count is a checked addition, whose overflow stops the
  program, and the outer \<open>None\<close> of \<open>frame_feed\<close>. Whether the allocator finds memory is a parameter.
\<close>

section \<open>Parsers\<close>

datatype frame_strategy =
  fr_line_delimited | fr_length_prefixed | fr_http_frame | fr_fixed_size | fr_chunk_encoded | fr_raw_bytes
| fr_tlv_frame

datatype frame_delimiter = fd_crlf | fd_lf | fd_null | fd_custom

datatype length_encoding =
  le_big_endian_16 | le_big_endian_32 | le_little_endian_16 | le_little_endian_32 | le_varint

datatype frame_error =
  fe_none | fe_incomplete | fe_oversized | fe_invalid_delimiter | fe_invalid_length | fe_malformed_header
| fe_encoding_error

datatype frame_state = fs_awaiting_header | fs_awaiting_payload | fs_complete | fs_failed

record FrameParser =
  fp_state :: frame_state
  fp_strategy :: frame_strategy
  fp_delimiter :: frame_delimiter
  fp_length_enc :: length_encoding
  fp_max_size :: u32
  fp_bytes_fed :: u32
  fp_header_received :: bool

definition frame_ABI_VERSION :: u32 where
  "frame_ABI_VERSION = 1"

definition MAX_FRAME_SIZE :: u32 where
  "MAX_FRAME_SIZE = 16777216"

definition DEFAULT_BUFFER_SIZE :: u32 where
  "DEFAULT_BUFFER_SIZE = 8192"

definition frame_abi_version :: u32 where
  "frame_abi_version = frame_ABI_VERSION"

definition new_parser :: "frame_strategy \<Rightarrow> frame_delimiter \<Rightarrow> length_encoding \<Rightarrow> u32 \<Rightarrow> FrameParser" where
  "new_parser strategy delimiter length_enc max_size =
     \<lparr>fp_state = fs_awaiting_header, fp_strategy = strategy, fp_delimiter = delimiter, fp_length_enc = length_enc,
      fp_max_size = (if max_size > MAX_FRAME_SIZE then MAX_FRAME_SIZE else max_size), fp_bytes_fed = 0,
      fp_header_received = False\<rparr>"

definition frame_parser_create ::
  "bool \<Rightarrow> frame_strategy \<Rightarrow> frame_delimiter \<Rightarrow> length_encoding \<Rightarrow> u32 \<Rightarrow> FrameParser option \<times> frame_error" where
  "frame_parser_create has_memory strategy delimiter length_enc max_size =
     (if has_memory then (Some (new_parser strategy delimiter length_enc max_size), fe_none)
      else (None, fe_encoding_error))"

definition frame_parser_state :: "FrameParser option \<Rightarrow> frame_state" where
  "frame_parser_state p = (case p of None \<Rightarrow> fs_failed | Some parser \<Rightarrow> fp_state parser)"

definition checked_add :: "u32 \<Rightarrow> u32 \<Rightarrow> u32 option" where
  "checked_add a b = (if 2 ^ 32 \<le> unat a + unat b then None else Some (a + b))"

definition frame_feed_on :: "u32 \<Rightarrow> FrameParser \<Rightarrow> (FrameParser \<times> frame_error) option" where
  [op_simps]: "frame_feed_on len p =
     (case fp_state p of
        fs_awaiting_header \<Rightarrow>
          map_option (\<lambda>n.
            if n > fp_max_size p then (p\<lparr>fp_bytes_fed := n, fp_state := fs_failed\<rparr>, fe_oversized)
            else if fp_strategy p = fr_line_delimited \<or> fp_strategy p = fr_raw_bytes
            then (p\<lparr>fp_bytes_fed := n, fp_state := fs_complete\<rparr>, fe_none)
            else (p\<lparr>fp_bytes_fed := n, fp_state := fs_awaiting_payload, fp_header_received := True\<rparr>, fe_none))
          (checked_add (fp_bytes_fed p) len)
      | fs_awaiting_payload \<Rightarrow>
          map_option (\<lambda>n.
            if n > fp_max_size p then (p\<lparr>fp_bytes_fed := n, fp_state := fs_failed\<rparr>, fe_oversized)
            else (p\<lparr>fp_bytes_fed := n, fp_state := fs_complete\<rparr>, fe_none))
          (checked_add (fp_bytes_fed p) len)
      | fs_complete \<Rightarrow> Some (p, fe_encoding_error)
      | fs_failed \<Rightarrow> Some (p, fe_encoding_error))"

text \<open>The answer and what is written to \<open>out_len\<close>, when it is written.\<close>

definition frame_emit_on :: "FrameParser \<Rightarrow> frame_error \<times> u32 option" where
  [op_simps]: "frame_emit_on p =
     (if fp_state p = fs_complete then (fe_none, Some (fp_bytes_fed p)) else (fe_incomplete, None))"

definition frame_reset_on :: "FrameParser \<Rightarrow> FrameParser \<times> frame_error" where
  [op_simps]: "frame_reset_on p =
     (if fp_state p = fs_complete \<or> fp_state p = fs_failed
      then (p\<lparr>fp_state := fs_awaiting_header, fp_bytes_fed := 0, fp_header_received := False\<rparr>, fe_none)
      else (p, fe_encoding_error))"

definition frame_feed :: "FrameParser option \<Rightarrow> u32 \<Rightarrow> (FrameParser option \<times> frame_error) option" where
  "frame_feed p len =
     (case p of
        None \<Rightarrow> Some (None, fe_malformed_header)
      | Some parser \<Rightarrow> map_option (map_prod Some id) (frame_feed_on len parser))"

definition frame_emit :: "FrameParser option \<Rightarrow> frame_error \<times> u32 option" where
  "frame_emit p = (case p of None \<Rightarrow> (fe_malformed_header, None) | Some parser \<Rightarrow> frame_emit_on parser)"

definition frame_reset :: "FrameParser option \<Rightarrow> FrameParser option \<times> frame_error" where
  "frame_reset p =
     (case p of None \<Rightarrow> (None, fe_malformed_header) | Some parser \<Rightarrow> map_prod Some id (frame_reset_on parser))"

section \<open>Histories\<close>

datatype frame_call = Frame_feed u32 | Frame_reset

definition frame_status :: "frame_error \<Rightarrow> u8" where
  "frame_status e = (if e = fe_none then 0 else 1)"

primrec frame_call_on :: "frame_call \<Rightarrow> FrameParser \<Rightarrow> (FrameParser \<times> u8) option" where
  "frame_call_on (Frame_feed len) p = map_option (map_prod id frame_status) (frame_feed_on len p)"
| "frame_call_on Frame_reset p = Some (map_prod id frame_status (frame_reset_on p))"

definition one_piece :: "FrameParser \<Rightarrow> bool" where
  "one_piece p \<longleftrightarrow> fp_strategy p = fr_line_delimited \<or> fp_strategy p = fr_raw_bytes"

text \<open>The pieces accepted since the last reset, in each state; an oversized piece is not among them.\<close>

inductive frame_log :: "FrameParser \<Rightarrow> frame_call list \<Rightarrow> bool" where
  header: "fp_state p = fs_awaiting_header \<Longrightarrow> fp_bytes_fed p = 0 \<Longrightarrow> frame_log p []"
| payload: "fp_state p = fs_awaiting_payload \<Longrightarrow> \<not> one_piece p \<Longrightarrow> fp_bytes_fed p = n \<Longrightarrow> n \<le> fp_max_size p \<Longrightarrow>
    frame_log p [Frame_feed n]"
| whole: "fp_state p = fs_complete \<Longrightarrow> one_piece p \<Longrightarrow> fp_bytes_fed p = n \<Longrightarrow> n \<le> fp_max_size p \<Longrightarrow>
    frame_log p [Frame_feed n]"
| two_pieces: "fp_state p = fs_complete \<Longrightarrow> \<not> one_piece p \<Longrightarrow> unat (fp_bytes_fed p) = unat n + unat m \<Longrightarrow>
    fp_bytes_fed p \<le> fp_max_size p \<Longrightarrow> frame_log p [Frame_feed n, Frame_feed m]"
| too_big: "fp_state p = fs_failed \<Longrightarrow> fp_max_size p < fp_bytes_fed p \<Longrightarrow> frame_log p []"
| payload_too_big: "fp_state p = fs_failed \<Longrightarrow> \<not> one_piece p \<Longrightarrow> n \<le> fp_max_size p \<Longrightarrow>
    fp_max_size p < fp_bytes_fed p \<Longrightarrow> frame_log p [Frame_feed n]"

definition frame_bytes :: "frame_call list \<Rightarrow> nat" where
  "frame_bytes h = sum_list (map (case_frame_call unat 0) h)"

lemma checked_add_Some: "checked_add a b = Some n \<Longrightarrow> unat n = unat a + unat b"
  by (auto simp: checked_add_def unat_word_ariths split: if_splits)

lemma checked_add_0 [simp]: "checked_add 0 n = Some n"
  using unsigned_less [of n, where ?'a = nat] by (simp add: checked_add_def)

lemma frame_log_step:
  assumes "frame_log p (since Frame_reset h)" "frame_call_on x p = Some (p', r)"
  shows "frame_log p' (since Frame_reset (if r = 0 then h @ [x] else h))"
  using assms(1)
proof cases
  case header
  with assms(2) show ?thesis
    by (cases x) (auto simp: op_simps frame_status_def one_piece_def not_less split: if_splits
        intro: frame_log.header frame_log.payload frame_log.whole frame_log.too_big)
next
  case (payload n)
  with assms(2) show ?thesis
    by (cases x) (auto simp: op_simps frame_status_def one_piece_def not_less checked_add_Some split: if_splits
        intro: frame_log.payload frame_log.two_pieces frame_log.payload_too_big)
next
  case (whole n)
  with assms(2) show ?thesis
    by (cases x) (auto simp: op_simps frame_status_def intro: frame_log.header frame_log.whole)
next
  case (two_pieces n m)
  with assms(2) show ?thesis
    by (cases x) (auto simp: op_simps frame_status_def intro: frame_log.header frame_log.two_pieces)
next
  case too_big
  with assms(2) show ?thesis
    by (cases x) (auto simp: op_simps frame_status_def intro: frame_log.header frame_log.too_big)
next
  case (payload_too_big n)
  with assms(2) show ?thesis
    by (cases x) (auto simp: op_simps frame_status_def intro: frame_log.header frame_log.payload_too_big)
qed

lemma frame_kept_step:
  "frame_call_on x p = Some (p', r) \<Longrightarrow> fp_max_size p' = fp_max_size p \<and> fp_strategy p' = fp_strategy p"
  by (cases x; cases "fp_state p") (auto simp: op_simps split: if_splits)

text \<open>
  C40: A frame parser emits a frame exactly when it is complete: after one accepted piece for the line and
  raw strategies, after two for the others. The length it gives is the exact sum of the accepted
  pieces since the last reset, at most the size asked for and at most 16 MiB. A piece stops the
  program exactly when it follows the header of a two-piece frame and the sum leaves 32 bits; it is
  not answered \<open>Oversized\<close> then.
\<close>

theorem frame_sizes:
  assumes "checked_run frame_call_on calls (new_parser strategy delimiter length_enc max_size, []) = Some (p, h)"
  shows "(case frame_emit_on p of
      (e, out) \<Rightarrow>
        (e = fe_none \<longleftrightarrow> length (since Frame_reset h) = (if one_piece p then 1 else 2)) \<and>
        (case out of
           None \<Rightarrow> e = fe_incomplete
         | Some n \<Rightarrow> unat n = frame_bytes (since Frame_reset h) \<and> n \<le> max_size \<and> n \<le> 16777216)) \<and>
    (frame_feed_on len p = None \<longleftrightarrow>
       fp_state p = fs_awaiting_payload \<and> 2 ^ 32 \<le> frame_bytes (since Frame_reset h) + unat len)"
proof -
  let ?p0 = "new_parser strategy delimiter length_enc max_size"
  let ?P = "\<lambda>p h. frame_log p (since Frame_reset h) \<and> fp_max_size p = fp_max_size ?p0"
  have "?P ?p0 []" by (simp add: frame_log.header new_parser_def)
  with assms have "?P p h"
    by (rule checked_run_invariant) (use frame_log_step frame_kept_step in metis)
  then have l: "frame_log p (since Frame_reset h)"
    and m: "fp_max_size p \<le> max_size" "fp_max_size p \<le> 16777216"
    by (auto simp: new_parser_def MAX_FRAME_SIZE_def)
  from l show ?thesis
  proof cases
    case header
    have "unat len < 2 ^ 32" using unsigned_less [of len, where ?'a = nat] by simp
    with header show ?thesis by (simp add: op_simps frame_bytes_def)
  next
    case (payload n)
    then show ?thesis by (simp add: op_simps frame_bytes_def checked_add_def)
  next
    case (whole n)
    then show ?thesis using m by (auto simp: op_simps frame_bytes_def)
  next
    case (two_pieces n k)
    then show ?thesis using m by (auto simp: op_simps frame_bytes_def)
  next
    case too_big
    then show ?thesis by (simp add: op_simps)
  next
    case (payload_too_big n)
    then show ?thesis by (simp add: op_simps)
  qed
qed

theorem frame_sizes_witness:
  "\<exists>p h. checked_run frame_call_on [Frame_feed 4, Frame_feed 96]
      (new_parser fr_length_prefixed fd_crlf le_varint 100, []) = Some (p, h) \<and>
    frame_emit_on p = (fe_none, Some 100) \<and> frame_feed_on 1 p \<noteq> None"
proof -
  let ?run = "checked_run frame_call_on [Frame_feed 4, Frame_feed 96] (new_parser fr_length_prefixed fd_crlf le_varint 100, [])"
  have run: "?run = Some (fst (the ?run), snd (the ?run))"
    by (simp add: op_simps new_parser_def checked_add_def frame_status_def MAX_FRAME_SIZE_def)
  from frame_sizes [OF run, of 1] show ?thesis
    by (simp add: op_simps new_parser_def checked_add_def frame_status_def MAX_FRAME_SIZE_def)
qed

end
