(* ===== verification/Aaa_Types.thy ===== *)
theory Aaa_Types
  imports Tag_Codec
begin

text \<open>
  The types of 4 modules of the Rust crate, under \<open>bindings/rust/src\<close>.

  \<^item> \<open>radius.rs\<close>: \<open>PacketType\<close>, \<open>AttributeType\<close>,
    \<open>ServiceType\<close>, \<open>AuthMethod\<close>, \<open>SessionState\<close>,
    \<open>RadiusResult\<close>.
  \<^item> \<open>tacacs.rs\<close>: \<open>PacketType\<close>, \<open>AuthenType\<close>,
    \<open>AuthenAction\<close>, \<open>AuthenStatus\<close>, \<open>AuthorStatus\<close>,
    \<open>AcctStatus\<close>, \<open>AcctFlag\<close>, \<open>SessionState\<close>.
  \<^item> \<open>authserver.rs\<close>: \<open>AuthMethod\<close>, \<open>TokenType\<close>,
    \<open>AuthResult\<close>, \<open>MfaMethod\<close>, \<open>SessionState\<close>.
  \<^item> \<open>zerotrust.rs\<close>: \<open>PolicyType\<close>,
    \<open>IdentityConfidence\<close>, \<open>DeviceTrustScore\<close>,
    \<open>AccessDecision\<close>, \<open>ContextSignalKind\<close>, \<open>AuthFactor\<close>.

  The \<open>Display\<close> implementations and the \<open>ALL\<close> arrays of these modules are not modelled.
\<close>

definition RADIUS_AUTH_PORT :: "u16" where
  "RADIUS_AUTH_PORT = 1812"

definition RADIUS_ACCT_PORT :: "u16" where
  "RADIUS_ACCT_PORT = 1813"

section \<open>\<open>radius::PacketType\<close>\<close>

datatype (plugins only: code) Radius_PacketType =
    AccessRequest
  | AccessAccept
  | AccessReject
  | AccountingRequest
  | AccountingResponse
  | AccessChallenge

definition Radius_PacketType_from_tag :: "u8 \<Rightarrow> Radius_PacketType option" where
  "Radius_PacketType_from_tag tag =
     (if tag = 1 then Some Radius_PacketType.AccessRequest
      else if tag = 2 then Some Radius_PacketType.AccessAccept
      else if tag = 3 then Some Radius_PacketType.AccessReject
      else if tag = 4 then Some Radius_PacketType.AccountingRequest
      else if tag = 5 then Some Radius_PacketType.AccountingResponse
      else if tag = 11 then Some Radius_PacketType.AccessChallenge
      else option.None)"

primrec Radius_PacketType_to_tag :: "Radius_PacketType \<Rightarrow> u8" where
  "Radius_PacketType_to_tag Radius_PacketType.AccessRequest = 1"
| "Radius_PacketType_to_tag Radius_PacketType.AccessAccept = 2"
| "Radius_PacketType_to_tag Radius_PacketType.AccessReject = 3"
| "Radius_PacketType_to_tag Radius_PacketType.AccountingRequest = 4"
| "Radius_PacketType_to_tag Radius_PacketType.AccountingResponse = 5"
| "Radius_PacketType_to_tag Radius_PacketType.AccessChallenge = 11"

definition Radius_PacketType_is_auth :: "Radius_PacketType \<Rightarrow> bool" where
  "Radius_PacketType_is_auth self =
     (case self of
      Radius_PacketType.AccessRequest \<Rightarrow> True
    | Radius_PacketType.AccessAccept \<Rightarrow> True
    | Radius_PacketType.AccessReject \<Rightarrow> True
    | Radius_PacketType.AccessChallenge \<Rightarrow> True
    | _ \<Rightarrow> False)"

definition Radius_PacketType_is_accounting :: "Radius_PacketType \<Rightarrow> bool" where
  "Radius_PacketType_is_accounting self =
     (case self of
      Radius_PacketType.AccountingRequest \<Rightarrow> True
    | Radius_PacketType.AccountingResponse \<Rightarrow> True
    | _ \<Rightarrow> False)"

definition Radius_PacketType_is_request :: "Radius_PacketType \<Rightarrow> bool" where
  "Radius_PacketType_is_request self =
     (case self of
      Radius_PacketType.AccessRequest \<Rightarrow> True
    | Radius_PacketType.AccountingRequest \<Rightarrow> True
    | _ \<Rightarrow> False)"

section \<open>\<open>radius::AttributeType\<close>\<close>

datatype (plugins only: code) AttributeType =
    UserName
  | UserPassword
  | NasIpAddress
  | NasPort
  | ServiceType
  | FramedProtocol
  | FramedIpAddress
  | ReplyMessage
  | SessionTimeout

definition AttributeType_from_tag :: "u8 \<Rightarrow> AttributeType option" where
  "AttributeType_from_tag tag =
     (if tag = 1 then Some AttributeType.UserName
      else if tag = 2 then Some AttributeType.UserPassword
      else if tag = 4 then Some AttributeType.NasIpAddress
      else if tag = 5 then Some AttributeType.NasPort
      else if tag = 6 then Some AttributeType.ServiceType
      else if tag = 7 then Some AttributeType.FramedProtocol
      else if tag = 8 then Some AttributeType.FramedIpAddress
      else if tag = 18 then Some AttributeType.ReplyMessage
      else if tag = 27 then Some AttributeType.SessionTimeout
      else option.None)"

primrec AttributeType_to_tag :: "AttributeType \<Rightarrow> u8" where
  "AttributeType_to_tag AttributeType.UserName = 1"
| "AttributeType_to_tag AttributeType.UserPassword = 2"
| "AttributeType_to_tag AttributeType.NasIpAddress = 4"
| "AttributeType_to_tag AttributeType.NasPort = 5"
| "AttributeType_to_tag AttributeType.ServiceType = 6"
| "AttributeType_to_tag AttributeType.FramedProtocol = 7"
| "AttributeType_to_tag AttributeType.FramedIpAddress = 8"
| "AttributeType_to_tag AttributeType.ReplyMessage = 18"
| "AttributeType_to_tag AttributeType.SessionTimeout = 27"

definition AttributeType_is_sensitive :: "AttributeType \<Rightarrow> bool" where
  "AttributeType_is_sensitive self =
     (case self of
      AttributeType.UserPassword \<Rightarrow> True
    | _ \<Rightarrow> False)"

section \<open>\<open>radius::ServiceType\<close>\<close>

datatype (plugins only: code) Radius_ServiceType =
    Login
  | Framed
  | CallbackLogin
  | CallbackFramed
  | Outbound
  | Administrative

definition Radius_ServiceType_from_tag :: "u8 \<Rightarrow> Radius_ServiceType option" where
  "Radius_ServiceType_from_tag tag =
     (if tag = 1 then Some Radius_ServiceType.Login
      else if tag = 2 then Some Radius_ServiceType.Framed
      else if tag = 3 then Some Radius_ServiceType.CallbackLogin
      else if tag = 4 then Some Radius_ServiceType.CallbackFramed
      else if tag = 5 then Some Radius_ServiceType.Outbound
      else if tag = 6 then Some Radius_ServiceType.Administrative
      else option.None)"

primrec Radius_ServiceType_to_tag :: "Radius_ServiceType \<Rightarrow> u8" where
  "Radius_ServiceType_to_tag Radius_ServiceType.Login = 1"
| "Radius_ServiceType_to_tag Radius_ServiceType.Framed = 2"
| "Radius_ServiceType_to_tag Radius_ServiceType.CallbackLogin = 3"
| "Radius_ServiceType_to_tag Radius_ServiceType.CallbackFramed = 4"
| "Radius_ServiceType_to_tag Radius_ServiceType.Outbound = 5"
| "Radius_ServiceType_to_tag Radius_ServiceType.Administrative = 6"

section \<open>\<open>radius::AuthMethod\<close>\<close>

datatype (plugins only: code) Radius_AuthMethod =
    Pap
  | Chap
  | Mschap
  | Mschapv2
  | Eap

definition Radius_AuthMethod_from_tag :: "u8 \<Rightarrow> Radius_AuthMethod option" where
  "Radius_AuthMethod_from_tag tag =
     (if tag = 0 then Some Radius_AuthMethod.Pap
      else if tag = 1 then Some Radius_AuthMethod.Chap
      else if tag = 2 then Some Radius_AuthMethod.Mschap
      else if tag = 3 then Some Radius_AuthMethod.Mschapv2
      else if tag = 4 then Some Radius_AuthMethod.Eap
      else option.None)"

primrec Radius_AuthMethod_to_tag :: "Radius_AuthMethod \<Rightarrow> u8" where
  "Radius_AuthMethod_to_tag Radius_AuthMethod.Pap = 0"
| "Radius_AuthMethod_to_tag Radius_AuthMethod.Chap = 1"
| "Radius_AuthMethod_to_tag Radius_AuthMethod.Mschap = 2"
| "Radius_AuthMethod_to_tag Radius_AuthMethod.Mschapv2 = 3"
| "Radius_AuthMethod_to_tag Radius_AuthMethod.Eap = 4"

definition Radius_AuthMethod_is_legacy :: "Radius_AuthMethod \<Rightarrow> bool" where
  "Radius_AuthMethod_is_legacy self =
     (case self of
      Radius_AuthMethod.Pap \<Rightarrow> True
    | Radius_AuthMethod.Mschap \<Rightarrow> True
    | _ \<Rightarrow> False)"

section \<open>\<open>radius::SessionState\<close>\<close>

datatype (plugins only: code) Radius_SessionState =
    Idle
  | Authenticating
  | Authorized
  | Rejected
  | Challenged
  | Accounting
  | Complete

definition Radius_SessionState_from_tag :: "u8 \<Rightarrow> Radius_SessionState option" where
  "Radius_SessionState_from_tag tag =
     (if tag = 0 then Some Radius_SessionState.Idle
      else if tag = 1 then Some Radius_SessionState.Authenticating
      else if tag = 2 then Some Radius_SessionState.Authorized
      else if tag = 3 then Some Radius_SessionState.Rejected
      else if tag = 4 then Some Radius_SessionState.Challenged
      else if tag = 5 then Some Radius_SessionState.Accounting
      else if tag = 6 then Some Radius_SessionState.Complete
      else option.None)"

primrec Radius_SessionState_to_tag :: "Radius_SessionState \<Rightarrow> u8" where
  "Radius_SessionState_to_tag Radius_SessionState.Idle = 0"
| "Radius_SessionState_to_tag Radius_SessionState.Authenticating = 1"
| "Radius_SessionState_to_tag Radius_SessionState.Authorized = 2"
| "Radius_SessionState_to_tag Radius_SessionState.Rejected = 3"
| "Radius_SessionState_to_tag Radius_SessionState.Challenged = 4"
| "Radius_SessionState_to_tag Radius_SessionState.Accounting = 5"
| "Radius_SessionState_to_tag Radius_SessionState.Complete = 6"

definition Radius_SessionState_is_terminal :: "Radius_SessionState \<Rightarrow> bool" where
  "Radius_SessionState_is_terminal self =
     (case self of
      Radius_SessionState.Rejected \<Rightarrow> True
    | Radius_SessionState.Complete \<Rightarrow> True
    | _ \<Rightarrow> False)"

section \<open>\<open>radius::RadiusResult\<close>\<close>

datatype (plugins only: code) RadiusResult =
    Ok
  | Err
  | InvalidParam
  | PoolExhausted
  | BadSecret

definition RadiusResult_from_tag :: "u8 \<Rightarrow> RadiusResult option" where
  "RadiusResult_from_tag tag =
     (if tag = 0 then Some RadiusResult.Ok
      else if tag = 1 then Some RadiusResult.Err
      else if tag = 2 then Some RadiusResult.InvalidParam
      else if tag = 3 then Some RadiusResult.PoolExhausted
      else if tag = 4 then Some RadiusResult.BadSecret
      else option.None)"

primrec RadiusResult_to_tag :: "RadiusResult \<Rightarrow> u8" where
  "RadiusResult_to_tag RadiusResult.Ok = 0"
| "RadiusResult_to_tag RadiusResult.Err = 1"
| "RadiusResult_to_tag RadiusResult.InvalidParam = 2"
| "RadiusResult_to_tag RadiusResult.PoolExhausted = 3"
| "RadiusResult_to_tag RadiusResult.BadSecret = 4"

definition RadiusResult_is_success :: "RadiusResult \<Rightarrow> bool" where
  "RadiusResult_is_success self =
     (case self of
      RadiusResult.Ok \<Rightarrow> True
    | _ \<Rightarrow> False)"

definition TACACS_PORT :: "u16" where
  "TACACS_PORT = 49"

section \<open>\<open>tacacs::PacketType\<close>\<close>

datatype (plugins only: code) Tacacs_PacketType =
    Authentication
  | Authorization
  | Accounting

definition Tacacs_PacketType_from_tag :: "u8 \<Rightarrow> Tacacs_PacketType option" where
  "Tacacs_PacketType_from_tag tag =
     (if tag = 0 then Some Tacacs_PacketType.Authentication
      else if tag = 1 then Some Tacacs_PacketType.Authorization
      else if tag = 2 then Some Tacacs_PacketType.Accounting
      else option.None)"

primrec Tacacs_PacketType_to_tag :: "Tacacs_PacketType \<Rightarrow> u8" where
  "Tacacs_PacketType_to_tag Tacacs_PacketType.Authentication = 0"
| "Tacacs_PacketType_to_tag Tacacs_PacketType.Authorization = 1"
| "Tacacs_PacketType_to_tag Tacacs_PacketType.Accounting = 2"

definition Tacacs_PacketType_aaa_label :: "Tacacs_PacketType \<Rightarrow> string" where
  "Tacacs_PacketType_aaa_label self =
     (case self of
      Tacacs_PacketType.Authentication \<Rightarrow> ''authen''
    | Tacacs_PacketType.Authorization \<Rightarrow> ''author''
    | Tacacs_PacketType.Accounting \<Rightarrow> ''acct'')"

section \<open>\<open>tacacs::AuthenType\<close>\<close>

datatype (plugins only: code) AuthenType =
    Ascii
  | Pap
  | Chap
  | MsChapV1
  | MsChapV2

definition AuthenType_from_tag :: "u8 \<Rightarrow> AuthenType option" where
  "AuthenType_from_tag tag =
     (if tag = 0 then Some AuthenType.Ascii
      else if tag = 1 then Some AuthenType.Pap
      else if tag = 2 then Some AuthenType.Chap
      else if tag = 3 then Some AuthenType.MsChapV1
      else if tag = 4 then Some AuthenType.MsChapV2
      else option.None)"

primrec AuthenType_to_tag :: "AuthenType \<Rightarrow> u8" where
  "AuthenType_to_tag AuthenType.Ascii = 0"
| "AuthenType_to_tag AuthenType.Pap = 1"
| "AuthenType_to_tag AuthenType.Chap = 2"
| "AuthenType_to_tag AuthenType.MsChapV1 = 3"
| "AuthenType_to_tag AuthenType.MsChapV2 = 4"

definition AuthenType_is_challenge_response :: "AuthenType \<Rightarrow> bool" where
  "AuthenType_is_challenge_response self =
     (case self of
      AuthenType.Chap \<Rightarrow> True
    | AuthenType.MsChapV1 \<Rightarrow> True
    | AuthenType.MsChapV2 \<Rightarrow> True
    | _ \<Rightarrow> False)"

definition AuthenType_is_interactive :: "AuthenType \<Rightarrow> bool" where
  "AuthenType_is_interactive self =
     (case self of
      AuthenType.Ascii \<Rightarrow> True
    | _ \<Rightarrow> False)"

section \<open>\<open>tacacs::AuthenAction\<close>\<close>

datatype (plugins only: code) AuthenAction =
    Login
  | ChangePass
  | SendAuth

definition AuthenAction_from_tag :: "u8 \<Rightarrow> AuthenAction option" where
  "AuthenAction_from_tag tag =
     (if tag = 0 then Some AuthenAction.Login
      else if tag = 1 then Some AuthenAction.ChangePass
      else if tag = 2 then Some AuthenAction.SendAuth
      else option.None)"

primrec AuthenAction_to_tag :: "AuthenAction \<Rightarrow> u8" where
  "AuthenAction_to_tag AuthenAction.Login = 0"
| "AuthenAction_to_tag AuthenAction.ChangePass = 1"
| "AuthenAction_to_tag AuthenAction.SendAuth = 2"

section \<open>\<open>tacacs::AuthenStatus\<close>\<close>

datatype (plugins only: code) AuthenStatus =
    Pass
  | Fail
  | GetData
  | GetUser
  | GetPass
  | Restart
  | Error
  | Follow

definition AuthenStatus_from_tag :: "u8 \<Rightarrow> AuthenStatus option" where
  "AuthenStatus_from_tag tag =
     (if tag = 0 then Some AuthenStatus.Pass
      else if tag = 1 then Some AuthenStatus.Fail
      else if tag = 2 then Some AuthenStatus.GetData
      else if tag = 3 then Some AuthenStatus.GetUser
      else if tag = 4 then Some AuthenStatus.GetPass
      else if tag = 5 then Some AuthenStatus.Restart
      else if tag = 6 then Some AuthenStatus.Error
      else if tag = 7 then Some AuthenStatus.Follow
      else option.None)"

primrec AuthenStatus_to_tag :: "AuthenStatus \<Rightarrow> u8" where
  "AuthenStatus_to_tag AuthenStatus.Pass = 0"
| "AuthenStatus_to_tag AuthenStatus.Fail = 1"
| "AuthenStatus_to_tag AuthenStatus.GetData = 2"
| "AuthenStatus_to_tag AuthenStatus.GetUser = 3"
| "AuthenStatus_to_tag AuthenStatus.GetPass = 4"
| "AuthenStatus_to_tag AuthenStatus.Restart = 5"
| "AuthenStatus_to_tag AuthenStatus.Error = 6"
| "AuthenStatus_to_tag AuthenStatus.Follow = 7"

definition AuthenStatus_is_success :: "AuthenStatus \<Rightarrow> bool" where
  "AuthenStatus_is_success self =
     (case self of
      AuthenStatus.Pass \<Rightarrow> True
    | _ \<Rightarrow> False)"

definition AuthenStatus_needs_more_data :: "AuthenStatus \<Rightarrow> bool" where
  "AuthenStatus_needs_more_data self =
     (case self of
      AuthenStatus.GetData \<Rightarrow> True
    | AuthenStatus.GetUser \<Rightarrow> True
    | AuthenStatus.GetPass \<Rightarrow> True
    | _ \<Rightarrow> False)"

definition AuthenStatus_is_terminal :: "AuthenStatus \<Rightarrow> bool" where
  "AuthenStatus_is_terminal self =
     (case self of
      AuthenStatus.Pass \<Rightarrow> True
    | AuthenStatus.Fail \<Rightarrow> True
    | AuthenStatus.Error \<Rightarrow> True
    | _ \<Rightarrow> False)"

section \<open>\<open>tacacs::AuthorStatus\<close>\<close>

datatype (plugins only: code) AuthorStatus =
    PassAdd
  | PassRepl
  | Fail
  | Error
  | Follow

definition AuthorStatus_from_tag :: "u8 \<Rightarrow> AuthorStatus option" where
  "AuthorStatus_from_tag tag =
     (if tag = 0 then Some AuthorStatus.PassAdd
      else if tag = 1 then Some AuthorStatus.PassRepl
      else if tag = 2 then Some AuthorStatus.Fail
      else if tag = 3 then Some AuthorStatus.Error
      else if tag = 4 then Some AuthorStatus.Follow
      else option.None)"

primrec AuthorStatus_to_tag :: "AuthorStatus \<Rightarrow> u8" where
  "AuthorStatus_to_tag AuthorStatus.PassAdd = 0"
| "AuthorStatus_to_tag AuthorStatus.PassRepl = 1"
| "AuthorStatus_to_tag AuthorStatus.Fail = 2"
| "AuthorStatus_to_tag AuthorStatus.Error = 3"
| "AuthorStatus_to_tag AuthorStatus.Follow = 4"

definition AuthorStatus_is_authorized :: "AuthorStatus \<Rightarrow> bool" where
  "AuthorStatus_is_authorized self =
     (case self of
      AuthorStatus.PassAdd \<Rightarrow> True
    | AuthorStatus.PassRepl \<Rightarrow> True
    | _ \<Rightarrow> False)"

section \<open>\<open>tacacs::AcctStatus\<close>\<close>

datatype (plugins only: code) AcctStatus =
    Success
  | Error
  | Follow

definition AcctStatus_from_tag :: "u8 \<Rightarrow> AcctStatus option" where
  "AcctStatus_from_tag tag =
     (if tag = 0 then Some AcctStatus.Success
      else if tag = 1 then Some AcctStatus.Error
      else if tag = 2 then Some AcctStatus.Follow
      else option.None)"

primrec AcctStatus_to_tag :: "AcctStatus \<Rightarrow> u8" where
  "AcctStatus_to_tag AcctStatus.Success = 0"
| "AcctStatus_to_tag AcctStatus.Error = 1"
| "AcctStatus_to_tag AcctStatus.Follow = 2"

definition AcctStatus_is_success :: "AcctStatus \<Rightarrow> bool" where
  "AcctStatus_is_success self =
     (case self of
      AcctStatus.Success \<Rightarrow> True
    | _ \<Rightarrow> False)"

section \<open>\<open>tacacs::AcctFlag\<close>\<close>

datatype (plugins only: code) AcctFlag =
    Start
  | Stop
  | Watchdog

definition AcctFlag_from_tag :: "u8 \<Rightarrow> AcctFlag option" where
  "AcctFlag_from_tag tag =
     (if tag = 0 then Some AcctFlag.Start
      else if tag = 1 then Some AcctFlag.Stop
      else if tag = 2 then Some AcctFlag.Watchdog
      else option.None)"

primrec AcctFlag_to_tag :: "AcctFlag \<Rightarrow> u8" where
  "AcctFlag_to_tag AcctFlag.Start = 0"
| "AcctFlag_to_tag AcctFlag.Stop = 1"
| "AcctFlag_to_tag AcctFlag.Watchdog = 2"

definition AcctFlag_is_boundary :: "AcctFlag \<Rightarrow> bool" where
  "AcctFlag_is_boundary self =
     (case self of
      AcctFlag.Start \<Rightarrow> True
    | AcctFlag.Stop \<Rightarrow> True
    | _ \<Rightarrow> False)"

section \<open>\<open>tacacs::SessionState\<close>\<close>

datatype (plugins only: code) Tacacs_SessionState =
    Idle
  | Authenticating
  | Authorizing
  | Active
  | Closing

definition Tacacs_SessionState_from_tag :: "u8 \<Rightarrow> Tacacs_SessionState option" where
  "Tacacs_SessionState_from_tag tag =
     (if tag = 0 then Some Tacacs_SessionState.Idle
      else if tag = 1 then Some Tacacs_SessionState.Authenticating
      else if tag = 2 then Some Tacacs_SessionState.Authorizing
      else if tag = 3 then Some Tacacs_SessionState.Active
      else if tag = 4 then Some Tacacs_SessionState.Closing
      else option.None)"

primrec Tacacs_SessionState_to_tag :: "Tacacs_SessionState \<Rightarrow> u8" where
  "Tacacs_SessionState_to_tag Tacacs_SessionState.Idle = 0"
| "Tacacs_SessionState_to_tag Tacacs_SessionState.Authenticating = 1"
| "Tacacs_SessionState_to_tag Tacacs_SessionState.Authorizing = 2"
| "Tacacs_SessionState_to_tag Tacacs_SessionState.Active = 3"
| "Tacacs_SessionState_to_tag Tacacs_SessionState.Closing = 4"

definition Tacacs_SessionState_is_processing :: "Tacacs_SessionState \<Rightarrow> bool" where
  "Tacacs_SessionState_is_processing self =
     (case self of
      Tacacs_SessionState.Authenticating \<Rightarrow> True
    | Tacacs_SessionState.Authorizing \<Rightarrow> True
    | _ \<Rightarrow> False)"

definition Tacacs_SessionState_is_active :: "Tacacs_SessionState \<Rightarrow> bool" where
  "Tacacs_SessionState_is_active self =
     (case self of
      Tacacs_SessionState.Active \<Rightarrow> True
    | _ \<Rightarrow> False)"

definition AUTH_HTTPS_PORT :: "u16" where
  "AUTH_HTTPS_PORT = 443"

section \<open>\<open>authserver::AuthMethod\<close>\<close>

datatype (plugins only: code) Authserver_AuthMethod =
    Password
  | Certificate
  | OAuth2
  | Saml
  | Fido2
  | Kerberos
  | Ldap
  | Radius

definition Authserver_AuthMethod_from_tag :: "u8 \<Rightarrow> Authserver_AuthMethod option" where
  "Authserver_AuthMethod_from_tag tag =
     (if tag = 0 then Some Authserver_AuthMethod.Password
      else if tag = 1 then Some Authserver_AuthMethod.Certificate
      else if tag = 2 then Some Authserver_AuthMethod.OAuth2
      else if tag = 3 then Some Authserver_AuthMethod.Saml
      else if tag = 4 then Some Authserver_AuthMethod.Fido2
      else if tag = 5 then Some Authserver_AuthMethod.Kerberos
      else if tag = 6 then Some Authserver_AuthMethod.Ldap
      else if tag = 7 then Some Authserver_AuthMethod.Radius
      else option.None)"

primrec Authserver_AuthMethod_to_tag :: "Authserver_AuthMethod \<Rightarrow> u8" where
  "Authserver_AuthMethod_to_tag Authserver_AuthMethod.Password = 0"
| "Authserver_AuthMethod_to_tag Authserver_AuthMethod.Certificate = 1"
| "Authserver_AuthMethod_to_tag Authserver_AuthMethod.OAuth2 = 2"
| "Authserver_AuthMethod_to_tag Authserver_AuthMethod.Saml = 3"
| "Authserver_AuthMethod_to_tag Authserver_AuthMethod.Fido2 = 4"
| "Authserver_AuthMethod_to_tag Authserver_AuthMethod.Kerberos = 5"
| "Authserver_AuthMethod_to_tag Authserver_AuthMethod.Ldap = 6"
| "Authserver_AuthMethod_to_tag Authserver_AuthMethod.Radius = 7"

definition Authserver_AuthMethod_is_passwordless :: "Authserver_AuthMethod \<Rightarrow> bool" where
  "Authserver_AuthMethod_is_passwordless self =
     (case self of
      Authserver_AuthMethod.Certificate \<Rightarrow> True
    | Authserver_AuthMethod.Fido2 \<Rightarrow> True
    | _ \<Rightarrow> False)"

section \<open>\<open>authserver::TokenType\<close>\<close>

datatype (plugins only: code) TokenType =
    Access
  | Refresh
  | Id
  | Api

definition TokenType_from_tag :: "u8 \<Rightarrow> TokenType option" where
  "TokenType_from_tag tag =
     (if tag = 0 then Some TokenType.Access
      else if tag = 1 then Some TokenType.Refresh
      else if tag = 2 then Some TokenType.Id
      else if tag = 3 then Some TokenType.Api
      else option.None)"

primrec TokenType_to_tag :: "TokenType \<Rightarrow> u8" where
  "TokenType_to_tag TokenType.Access = 0"
| "TokenType_to_tag TokenType.Refresh = 1"
| "TokenType_to_tag TokenType.Id = 2"
| "TokenType_to_tag TokenType.Api = 3"

section \<open>\<open>authserver::AuthResult\<close>\<close>

datatype (plugins only: code) AuthResult =
    Success
  | InvalidCredentials
  | AccountLocked
  | AccountExpired
  | MfaRequired
  | IpBlocked

definition AuthResult_from_tag :: "u8 \<Rightarrow> AuthResult option" where
  "AuthResult_from_tag tag =
     (if tag = 0 then Some AuthResult.Success
      else if tag = 1 then Some AuthResult.InvalidCredentials
      else if tag = 2 then Some AuthResult.AccountLocked
      else if tag = 3 then Some AuthResult.AccountExpired
      else if tag = 4 then Some AuthResult.MfaRequired
      else if tag = 5 then Some AuthResult.IpBlocked
      else option.None)"

primrec AuthResult_to_tag :: "AuthResult \<Rightarrow> u8" where
  "AuthResult_to_tag AuthResult.Success = 0"
| "AuthResult_to_tag AuthResult.InvalidCredentials = 1"
| "AuthResult_to_tag AuthResult.AccountLocked = 2"
| "AuthResult_to_tag AuthResult.AccountExpired = 3"
| "AuthResult_to_tag AuthResult.MfaRequired = 4"
| "AuthResult_to_tag AuthResult.IpBlocked = 5"

definition AuthResult_is_success :: "AuthResult \<Rightarrow> bool" where
  "AuthResult_is_success self =
     (case self of
      AuthResult.Success \<Rightarrow> True
    | _ \<Rightarrow> False)"

definition AuthResult_requires_action :: "AuthResult \<Rightarrow> bool" where
  "AuthResult_requires_action self =
     (case self of
      AuthResult.MfaRequired \<Rightarrow> True
    | _ \<Rightarrow> False)"

section \<open>\<open>authserver::MfaMethod\<close>\<close>

datatype (plugins only: code) MfaMethod =
    Totp
  | Sms
  | Push
  | Fido2Mfa
  | Email

definition MfaMethod_from_tag :: "u8 \<Rightarrow> MfaMethod option" where
  "MfaMethod_from_tag tag =
     (if tag = 0 then Some MfaMethod.Totp
      else if tag = 1 then Some MfaMethod.Sms
      else if tag = 2 then Some MfaMethod.Push
      else if tag = 3 then Some MfaMethod.Fido2Mfa
      else if tag = 4 then Some MfaMethod.Email
      else option.None)"

primrec MfaMethod_to_tag :: "MfaMethod \<Rightarrow> u8" where
  "MfaMethod_to_tag MfaMethod.Totp = 0"
| "MfaMethod_to_tag MfaMethod.Sms = 1"
| "MfaMethod_to_tag MfaMethod.Push = 2"
| "MfaMethod_to_tag MfaMethod.Fido2Mfa = 3"
| "MfaMethod_to_tag MfaMethod.Email = 4"

section \<open>\<open>authserver::SessionState\<close>\<close>

datatype (plugins only: code) Authserver_SessionState =
    Active
  | Expired
  | Revoked
  | Locked

definition Authserver_SessionState_from_tag :: "u8 \<Rightarrow> Authserver_SessionState option" where
  "Authserver_SessionState_from_tag tag =
     (if tag = 0 then Some Authserver_SessionState.Active
      else if tag = 1 then Some Authserver_SessionState.Expired
      else if tag = 2 then Some Authserver_SessionState.Revoked
      else if tag = 3 then Some Authserver_SessionState.Locked
      else option.None)"

primrec Authserver_SessionState_to_tag :: "Authserver_SessionState \<Rightarrow> u8" where
  "Authserver_SessionState_to_tag Authserver_SessionState.Active = 0"
| "Authserver_SessionState_to_tag Authserver_SessionState.Expired = 1"
| "Authserver_SessionState_to_tag Authserver_SessionState.Revoked = 2"
| "Authserver_SessionState_to_tag Authserver_SessionState.Locked = 3"

definition Authserver_SessionState_is_valid :: "Authserver_SessionState \<Rightarrow> bool" where
  "Authserver_SessionState_is_valid self =
     (case self of
      Authserver_SessionState.Active \<Rightarrow> True
    | _ \<Rightarrow> False)"

section \<open>\<open>zerotrust::PolicyType\<close>\<close>

datatype (plugins only: code) PolicyType =
    AlwaysVerify
  | NeverTrust
  | LeastPrivilege
  | MicroSegmentation

definition PolicyType_from_tag :: "u8 \<Rightarrow> PolicyType option" where
  "PolicyType_from_tag tag =
     (if tag = 0 then Some PolicyType.AlwaysVerify
      else if tag = 1 then Some PolicyType.NeverTrust
      else if tag = 2 then Some PolicyType.LeastPrivilege
      else if tag = 3 then Some PolicyType.MicroSegmentation
      else option.None)"

primrec PolicyType_to_tag :: "PolicyType \<Rightarrow> u8" where
  "PolicyType_to_tag PolicyType.AlwaysVerify = 0"
| "PolicyType_to_tag PolicyType.NeverTrust = 1"
| "PolicyType_to_tag PolicyType.LeastPrivilege = 2"
| "PolicyType_to_tag PolicyType.MicroSegmentation = 3"

section \<open>\<open>zerotrust::IdentityConfidence\<close>\<close>

datatype (plugins only: code) IdentityConfidence =
    Unverified
  | BasicAuth
  | MfaVerified
  | StrongAuth
  | ContinuousAuth

definition IdentityConfidence_from_tag :: "u8 \<Rightarrow> IdentityConfidence option" where
  "IdentityConfidence_from_tag tag =
     (if tag = 0 then Some IdentityConfidence.Unverified
      else if tag = 1 then Some IdentityConfidence.BasicAuth
      else if tag = 2 then Some IdentityConfidence.MfaVerified
      else if tag = 3 then Some IdentityConfidence.StrongAuth
      else if tag = 4 then Some IdentityConfidence.ContinuousAuth
      else option.None)"

primrec IdentityConfidence_to_tag :: "IdentityConfidence \<Rightarrow> u8" where
  "IdentityConfidence_to_tag IdentityConfidence.Unverified = 0"
| "IdentityConfidence_to_tag IdentityConfidence.BasicAuth = 1"
| "IdentityConfidence_to_tag IdentityConfidence.MfaVerified = 2"
| "IdentityConfidence_to_tag IdentityConfidence.StrongAuth = 3"
| "IdentityConfidence_to_tag IdentityConfidence.ContinuousAuth = 4"

section \<open>\<open>zerotrust::DeviceTrustScore\<close>\<close>

datatype (plugins only: code) DeviceTrustScore =
    DeviceUnknown
  | DevicePartial
  | DeviceCompliant
  | DeviceManaged
  | DeviceHardened

definition DeviceTrustScore_from_tag :: "u8 \<Rightarrow> DeviceTrustScore option" where
  "DeviceTrustScore_from_tag tag =
     (if tag = 0 then Some DeviceTrustScore.DeviceUnknown
      else if tag = 1 then Some DeviceTrustScore.DevicePartial
      else if tag = 2 then Some DeviceTrustScore.DeviceCompliant
      else if tag = 3 then Some DeviceTrustScore.DeviceManaged
      else if tag = 4 then Some DeviceTrustScore.DeviceHardened
      else option.None)"

primrec DeviceTrustScore_to_tag :: "DeviceTrustScore \<Rightarrow> u8" where
  "DeviceTrustScore_to_tag DeviceTrustScore.DeviceUnknown = 0"
| "DeviceTrustScore_to_tag DeviceTrustScore.DevicePartial = 1"
| "DeviceTrustScore_to_tag DeviceTrustScore.DeviceCompliant = 2"
| "DeviceTrustScore_to_tag DeviceTrustScore.DeviceManaged = 3"
| "DeviceTrustScore_to_tag DeviceTrustScore.DeviceHardened = 4"

section \<open>\<open>zerotrust::AccessDecision\<close>\<close>

datatype (plugins only: code) AccessDecision =
    Allow
  | Deny
  | Challenge
  | StepUp

definition AccessDecision_from_tag :: "u8 \<Rightarrow> AccessDecision option" where
  "AccessDecision_from_tag tag =
     (if tag = 0 then Some AccessDecision.Allow
      else if tag = 1 then Some AccessDecision.Deny
      else if tag = 2 then Some AccessDecision.Challenge
      else if tag = 3 then Some AccessDecision.StepUp
      else option.None)"

primrec AccessDecision_to_tag :: "AccessDecision \<Rightarrow> u8" where
  "AccessDecision_to_tag AccessDecision.Allow = 0"
| "AccessDecision_to_tag AccessDecision.Deny = 1"
| "AccessDecision_to_tag AccessDecision.Challenge = 2"
| "AccessDecision_to_tag AccessDecision.StepUp = 3"

definition AccessDecision_is_granted :: "AccessDecision \<Rightarrow> bool" where
  "AccessDecision_is_granted self =
     (case self of
      AccessDecision.Allow \<Rightarrow> True
    | _ \<Rightarrow> False)"

section \<open>\<open>zerotrust::ContextSignalKind\<close>\<close>

datatype (plugins only: code) ContextSignalKind =
    Location
  | Time
  | Device
  | Behavior
  | Network

definition ContextSignalKind_from_tag :: "u8 \<Rightarrow> ContextSignalKind option" where
  "ContextSignalKind_from_tag tag =
     (if tag = 0 then Some ContextSignalKind.Location
      else if tag = 1 then Some ContextSignalKind.Time
      else if tag = 2 then Some ContextSignalKind.Device
      else if tag = 3 then Some ContextSignalKind.Behavior
      else if tag = 4 then Some ContextSignalKind.Network
      else option.None)"

primrec ContextSignalKind_to_tag :: "ContextSignalKind \<Rightarrow> u8" where
  "ContextSignalKind_to_tag ContextSignalKind.Location = 0"
| "ContextSignalKind_to_tag ContextSignalKind.Time = 1"
| "ContextSignalKind_to_tag ContextSignalKind.Device = 2"
| "ContextSignalKind_to_tag ContextSignalKind.Behavior = 3"
| "ContextSignalKind_to_tag ContextSignalKind.Network = 4"

section \<open>\<open>zerotrust::AuthFactor\<close>\<close>

datatype (plugins only: code) AuthFactor =
    Certificate
  | Token
  | Biometric
  | Fido2
  | Totp
  | Push

definition AuthFactor_from_tag :: "u8 \<Rightarrow> AuthFactor option" where
  "AuthFactor_from_tag tag =
     (if tag = 0 then Some AuthFactor.Certificate
      else if tag = 1 then Some AuthFactor.Token
      else if tag = 2 then Some AuthFactor.Biometric
      else if tag = 3 then Some AuthFactor.Fido2
      else if tag = 4 then Some AuthFactor.Totp
      else if tag = 5 then Some AuthFactor.Push
      else option.None)"

primrec AuthFactor_to_tag :: "AuthFactor \<Rightarrow> u8" where
  "AuthFactor_to_tag AuthFactor.Certificate = 0"
| "AuthFactor_to_tag AuthFactor.Token = 1"
| "AuthFactor_to_tag AuthFactor.Biometric = 2"
| "AuthFactor_to_tag AuthFactor.Fido2 = 3"
| "AuthFactor_to_tag AuthFactor.Totp = 4"
| "AuthFactor_to_tag AuthFactor.Push = 5"

section \<open>Tags and enumerations\<close>

interpretation Radius_PacketType_codec: wire_codec Radius_PacketType_to_tag Radius_PacketType_from_tag
  by (unfold_locales, case_tac [1] x, auto simp: Radius_PacketType_from_tag_def split: if_splits)

interpretation AttributeType_codec: wire_codec AttributeType_to_tag AttributeType_from_tag
  by (unfold_locales, case_tac [1] x, auto simp: AttributeType_from_tag_def split: if_splits)

interpretation Radius_ServiceType_codec: wire_codec Radius_ServiceType_to_tag Radius_ServiceType_from_tag
  by (unfold_locales, case_tac [1] x, auto simp: Radius_ServiceType_from_tag_def split: if_splits)

interpretation Radius_AuthMethod_codec: tag_codec Radius_AuthMethod_to_tag Radius_AuthMethod_from_tag 5
  by (unfold_locales, (case_tac x; simp add: Radius_AuthMethod_from_tag_def), unfold Radius_AuthMethod_from_tag_def,
    (erule codec_arm, simp only: Radius_AuthMethod_to_tag.simps)+, erule codec_end, (case_tac x; simp), simp add: codec_eval)

interpretation Radius_SessionState_codec: tag_codec Radius_SessionState_to_tag Radius_SessionState_from_tag 7
  by (unfold_locales, (case_tac x; simp add: Radius_SessionState_from_tag_def), unfold Radius_SessionState_from_tag_def,
    (erule codec_arm, simp only: Radius_SessionState_to_tag.simps)+, erule codec_end, (case_tac x; simp), simp add: codec_eval)

interpretation RadiusResult_codec: tag_codec RadiusResult_to_tag RadiusResult_from_tag 5
  by (unfold_locales, (case_tac x; simp add: RadiusResult_from_tag_def), unfold RadiusResult_from_tag_def,
    (erule codec_arm, simp only: RadiusResult_to_tag.simps)+, erule codec_end, (case_tac x; simp), simp add: codec_eval)

interpretation Tacacs_PacketType_codec: tag_codec Tacacs_PacketType_to_tag Tacacs_PacketType_from_tag 3
  by (unfold_locales, (case_tac x; simp add: Tacacs_PacketType_from_tag_def), unfold Tacacs_PacketType_from_tag_def,
    (erule codec_arm, simp only: Tacacs_PacketType_to_tag.simps)+, erule codec_end, (case_tac x; simp), simp add: codec_eval)

interpretation AuthenType_codec: tag_codec AuthenType_to_tag AuthenType_from_tag 5
  by (unfold_locales, (case_tac x; simp add: AuthenType_from_tag_def), unfold AuthenType_from_tag_def,
    (erule codec_arm, simp only: AuthenType_to_tag.simps)+, erule codec_end, (case_tac x; simp), simp add: codec_eval)

interpretation AuthenAction_codec: tag_codec AuthenAction_to_tag AuthenAction_from_tag 3
  by (unfold_locales, (case_tac x; simp add: AuthenAction_from_tag_def), unfold AuthenAction_from_tag_def,
    (erule codec_arm, simp only: AuthenAction_to_tag.simps)+, erule codec_end, (case_tac x; simp), simp add: codec_eval)

interpretation AuthenStatus_codec: tag_codec AuthenStatus_to_tag AuthenStatus_from_tag 8
  by (unfold_locales, (case_tac x; simp add: AuthenStatus_from_tag_def), unfold AuthenStatus_from_tag_def,
    (erule codec_arm, simp only: AuthenStatus_to_tag.simps)+, erule codec_end, (case_tac x; simp), simp add: codec_eval)

interpretation AuthorStatus_codec: tag_codec AuthorStatus_to_tag AuthorStatus_from_tag 5
  by (unfold_locales, (case_tac x; simp add: AuthorStatus_from_tag_def), unfold AuthorStatus_from_tag_def,
    (erule codec_arm, simp only: AuthorStatus_to_tag.simps)+, erule codec_end, (case_tac x; simp), simp add: codec_eval)

interpretation AcctStatus_codec: tag_codec AcctStatus_to_tag AcctStatus_from_tag 3
  by (unfold_locales, (case_tac x; simp add: AcctStatus_from_tag_def), unfold AcctStatus_from_tag_def,
    (erule codec_arm, simp only: AcctStatus_to_tag.simps)+, erule codec_end, (case_tac x; simp), simp add: codec_eval)

interpretation AcctFlag_codec: tag_codec AcctFlag_to_tag AcctFlag_from_tag 3
  by (unfold_locales, (case_tac x; simp add: AcctFlag_from_tag_def), unfold AcctFlag_from_tag_def,
    (erule codec_arm, simp only: AcctFlag_to_tag.simps)+, erule codec_end, (case_tac x; simp), simp add: codec_eval)

interpretation Tacacs_SessionState_codec: tag_codec Tacacs_SessionState_to_tag Tacacs_SessionState_from_tag 5
  by (unfold_locales, (case_tac x; simp add: Tacacs_SessionState_from_tag_def), unfold Tacacs_SessionState_from_tag_def,
    (erule codec_arm, simp only: Tacacs_SessionState_to_tag.simps)+, erule codec_end, (case_tac x; simp), simp add: codec_eval)

interpretation Authserver_AuthMethod_codec: tag_codec Authserver_AuthMethod_to_tag Authserver_AuthMethod_from_tag 8
  by (unfold_locales, (case_tac x; simp add: Authserver_AuthMethod_from_tag_def), unfold Authserver_AuthMethod_from_tag_def,
    (erule codec_arm, simp only: Authserver_AuthMethod_to_tag.simps)+, erule codec_end, (case_tac x; simp), simp add: codec_eval)

interpretation TokenType_codec: tag_codec TokenType_to_tag TokenType_from_tag 4
  by (unfold_locales, (case_tac x; simp add: TokenType_from_tag_def), unfold TokenType_from_tag_def,
    (erule codec_arm, simp only: TokenType_to_tag.simps)+, erule codec_end, (case_tac x; simp), simp add: codec_eval)

interpretation AuthResult_codec: tag_codec AuthResult_to_tag AuthResult_from_tag 6
  by (unfold_locales, (case_tac x; simp add: AuthResult_from_tag_def), unfold AuthResult_from_tag_def,
    (erule codec_arm, simp only: AuthResult_to_tag.simps)+, erule codec_end, (case_tac x; simp), simp add: codec_eval)

interpretation MfaMethod_codec: tag_codec MfaMethod_to_tag MfaMethod_from_tag 5
  by (unfold_locales, (case_tac x; simp add: MfaMethod_from_tag_def), unfold MfaMethod_from_tag_def,
    (erule codec_arm, simp only: MfaMethod_to_tag.simps)+, erule codec_end, (case_tac x; simp), simp add: codec_eval)

interpretation Authserver_SessionState_codec: tag_codec Authserver_SessionState_to_tag Authserver_SessionState_from_tag 4
  by (unfold_locales, (case_tac x; simp add: Authserver_SessionState_from_tag_def), unfold Authserver_SessionState_from_tag_def,
    (erule codec_arm, simp only: Authserver_SessionState_to_tag.simps)+, erule codec_end, (case_tac x; simp), simp add: codec_eval)

interpretation PolicyType_codec: tag_codec PolicyType_to_tag PolicyType_from_tag 4
  by (unfold_locales, (case_tac x; simp add: PolicyType_from_tag_def), unfold PolicyType_from_tag_def,
    (erule codec_arm, simp only: PolicyType_to_tag.simps)+, erule codec_end, (case_tac x; simp), simp add: codec_eval)

interpretation IdentityConfidence_codec: tag_codec IdentityConfidence_to_tag IdentityConfidence_from_tag 5
  by (unfold_locales, (case_tac x; simp add: IdentityConfidence_from_tag_def), unfold IdentityConfidence_from_tag_def,
    (erule codec_arm, simp only: IdentityConfidence_to_tag.simps)+, erule codec_end, (case_tac x; simp), simp add: codec_eval)

interpretation DeviceTrustScore_codec: tag_codec DeviceTrustScore_to_tag DeviceTrustScore_from_tag 5
  by (unfold_locales, (case_tac x; simp add: DeviceTrustScore_from_tag_def), unfold DeviceTrustScore_from_tag_def,
    (erule codec_arm, simp only: DeviceTrustScore_to_tag.simps)+, erule codec_end, (case_tac x; simp), simp add: codec_eval)

interpretation AccessDecision_codec: tag_codec AccessDecision_to_tag AccessDecision_from_tag 4
  by (unfold_locales, (case_tac x; simp add: AccessDecision_from_tag_def), unfold AccessDecision_from_tag_def,
    (erule codec_arm, simp only: AccessDecision_to_tag.simps)+, erule codec_end, (case_tac x; simp), simp add: codec_eval)

interpretation ContextSignalKind_codec: tag_codec ContextSignalKind_to_tag ContextSignalKind_from_tag 5
  by (unfold_locales, (case_tac x; simp add: ContextSignalKind_from_tag_def), unfold ContextSignalKind_from_tag_def,
    (erule codec_arm, simp only: ContextSignalKind_to_tag.simps)+, erule codec_end, (case_tac x; simp), simp add: codec_eval)

interpretation AuthFactor_codec: tag_codec AuthFactor_to_tag AuthFactor_from_tag 6
  by (unfold_locales, (case_tac x; simp add: AuthFactor_from_tag_def), unfold AuthFactor_from_tag_def,
    (erule codec_arm, simp only: AuthFactor_to_tag.simps)+, erule codec_end, (case_tac x; simp), simp add: codec_eval)

end
