(* ===== verification/App_Types.thy ===== *)
theory App_Types
  imports Tag_Codec
begin

text \<open>
  The types of 8 modules of the Rust crate, under \<open>bindings/rust/src\<close>.

  \<^item> \<open>apiserver.rs\<close>: \<open>AuthScheme\<close>,
    \<open>RateLimitStrategy\<close>, \<open>ApiVersion\<close>, \<open>ResponseFormat\<close>,
    \<open>GatewayError\<close>.
  \<^item> \<open>appserver.rs\<close>: \<open>RequestType\<close>, \<open>LifecycleState\<close>,
    \<open>HealthCheck\<close>, \<open>DeployStrategy\<close>, \<open>ErrorCategory\<close>.
  \<^item> \<open>loadbalancer.rs\<close>: \<open>Algorithm\<close>,
    \<open>HealthCheckType\<close>, \<open>BackendState\<close>, \<open>SessionPersistence\<close>,
    \<open>LbProtocol\<close>.
  \<^item> \<open>gameserver.rs\<close>: \<open>SessionType\<close>, \<open>PlayerState\<close>,
    \<open>MatchState\<close>.
  \<^item> \<open>agentic.rs\<close>: \<open>AgentState\<close>, \<open>ToolCall\<close>,
    \<open>PlanStep\<close>, \<open>Coordination\<close>, \<open>SafetyCheck\<close>.
  \<^item> \<open>mcp.rs\<close>: \<open>McpMessageType\<close>, \<open>Transport\<close>,
    \<open>McpContentType\<close>, \<open>McpErrorCode\<close>, \<open>McpCapability\<close>,
    \<open>SessionState\<close>.
  \<^item> \<open>nesy.rs\<close>: \<open>ReasoningMode\<close>, \<open>ProofStatus\<close>,
    \<open>ConstraintKind\<close>, \<open>NeuralBackend\<close>, \<open>Confidence\<close>,
    \<open>DriftKind\<close>, \<open>NeSyState\<close>.
  \<^item> \<open>neurosym.rs\<close>: \<open>InferenceMode\<close>, \<open>SymbolicOp\<close>,
    \<open>NeuralOp\<close>, \<open>FusionStrategy\<close>, \<open>ConfidenceLevel\<close>,
    \<open>KnowledgeType\<close>, \<open>NeurosymState\<close>.

  The \<open>Display\<close> implementations and the \<open>ALL\<close> arrays of these modules are not modelled.
\<close>

definition API_PORT :: "u16" where
  "API_PORT = 8080"

section \<open>\<open>apiserver::AuthScheme\<close>\<close>

datatype (plugins only: code) AuthScheme =
    ApiKey
  | Bearer
  | Basic
  | OAuth2
  | Hmac
  | Mtls

definition AuthScheme_from_tag :: "u8 \<Rightarrow> AuthScheme option" where
  "AuthScheme_from_tag tag =
     (if tag = 0 then Some AuthScheme.ApiKey
      else if tag = 1 then Some AuthScheme.Bearer
      else if tag = 2 then Some AuthScheme.Basic
      else if tag = 3 then Some AuthScheme.OAuth2
      else if tag = 4 then Some AuthScheme.Hmac
      else if tag = 5 then Some AuthScheme.Mtls
      else option.None)"

primrec AuthScheme_to_tag :: "AuthScheme \<Rightarrow> u8" where
  "AuthScheme_to_tag AuthScheme.ApiKey = 0"
| "AuthScheme_to_tag AuthScheme.Bearer = 1"
| "AuthScheme_to_tag AuthScheme.Basic = 2"
| "AuthScheme_to_tag AuthScheme.OAuth2 = 3"
| "AuthScheme_to_tag AuthScheme.Hmac = 4"
| "AuthScheme_to_tag AuthScheme.Mtls = 5"

section \<open>\<open>apiserver::RateLimitStrategy\<close>\<close>

datatype (plugins only: code) RateLimitStrategy =
    FixedWindow
  | SlidingWindow
  | TokenBucket
  | LeakyBucket

definition RateLimitStrategy_from_tag :: "u8 \<Rightarrow> RateLimitStrategy option" where
  "RateLimitStrategy_from_tag tag =
     (if tag = 0 then Some RateLimitStrategy.FixedWindow
      else if tag = 1 then Some RateLimitStrategy.SlidingWindow
      else if tag = 2 then Some RateLimitStrategy.TokenBucket
      else if tag = 3 then Some RateLimitStrategy.LeakyBucket
      else option.None)"

primrec RateLimitStrategy_to_tag :: "RateLimitStrategy \<Rightarrow> u8" where
  "RateLimitStrategy_to_tag RateLimitStrategy.FixedWindow = 0"
| "RateLimitStrategy_to_tag RateLimitStrategy.SlidingWindow = 1"
| "RateLimitStrategy_to_tag RateLimitStrategy.TokenBucket = 2"
| "RateLimitStrategy_to_tag RateLimitStrategy.LeakyBucket = 3"

section \<open>\<open>apiserver::ApiVersion\<close>\<close>

datatype (plugins only: code) ApiVersion =
    V1
  | V2
  | V3
  | Latest
  | Deprecated

definition ApiVersion_from_tag :: "u8 \<Rightarrow> ApiVersion option" where
  "ApiVersion_from_tag tag =
     (if tag = 0 then Some ApiVersion.V1
      else if tag = 1 then Some ApiVersion.V2
      else if tag = 2 then Some ApiVersion.V3
      else if tag = 3 then Some ApiVersion.Latest
      else if tag = 4 then Some ApiVersion.Deprecated
      else option.None)"

primrec ApiVersion_to_tag :: "ApiVersion \<Rightarrow> u8" where
  "ApiVersion_to_tag ApiVersion.V1 = 0"
| "ApiVersion_to_tag ApiVersion.V2 = 1"
| "ApiVersion_to_tag ApiVersion.V3 = 2"
| "ApiVersion_to_tag ApiVersion.Latest = 3"
| "ApiVersion_to_tag ApiVersion.Deprecated = 4"

section \<open>\<open>apiserver::ResponseFormat\<close>\<close>

datatype (plugins only: code) ResponseFormat =
    Json
  | Xml
  | Protobuf
  | MessagePack

definition ResponseFormat_from_tag :: "u8 \<Rightarrow> ResponseFormat option" where
  "ResponseFormat_from_tag tag =
     (if tag = 0 then Some ResponseFormat.Json
      else if tag = 1 then Some ResponseFormat.Xml
      else if tag = 2 then Some ResponseFormat.Protobuf
      else if tag = 3 then Some ResponseFormat.MessagePack
      else option.None)"

primrec ResponseFormat_to_tag :: "ResponseFormat \<Rightarrow> u8" where
  "ResponseFormat_to_tag ResponseFormat.Json = 0"
| "ResponseFormat_to_tag ResponseFormat.Xml = 1"
| "ResponseFormat_to_tag ResponseFormat.Protobuf = 2"
| "ResponseFormat_to_tag ResponseFormat.MessagePack = 3"

section \<open>\<open>apiserver::GatewayError\<close>\<close>

datatype (plugins only: code) GatewayError =
    Unauthorized
  | RateLimited
  | NotFound
  | BadRequest
  | ServiceUnavailable
  | CircuitOpen

definition GatewayError_from_tag :: "u8 \<Rightarrow> GatewayError option" where
  "GatewayError_from_tag tag =
     (if tag = 0 then Some GatewayError.Unauthorized
      else if tag = 1 then Some GatewayError.RateLimited
      else if tag = 2 then Some GatewayError.NotFound
      else if tag = 3 then Some GatewayError.BadRequest
      else if tag = 4 then Some GatewayError.ServiceUnavailable
      else if tag = 5 then Some GatewayError.CircuitOpen
      else option.None)"

primrec GatewayError_to_tag :: "GatewayError \<Rightarrow> u8" where
  "GatewayError_to_tag GatewayError.Unauthorized = 0"
| "GatewayError_to_tag GatewayError.RateLimited = 1"
| "GatewayError_to_tag GatewayError.NotFound = 2"
| "GatewayError_to_tag GatewayError.BadRequest = 3"
| "GatewayError_to_tag GatewayError.ServiceUnavailable = 4"
| "GatewayError_to_tag GatewayError.CircuitOpen = 5"

definition APP_PORT :: "u16" where
  "APP_PORT = 8080"

section \<open>\<open>appserver::RequestType\<close>\<close>

datatype (plugins only: code) RequestType =
    Http
  | WebSocket
  | Grpc
  | GraphQl

definition RequestType_from_tag :: "u8 \<Rightarrow> RequestType option" where
  "RequestType_from_tag tag =
     (if tag = 0 then Some RequestType.Http
      else if tag = 1 then Some RequestType.WebSocket
      else if tag = 2 then Some RequestType.Grpc
      else if tag = 3 then Some RequestType.GraphQl
      else option.None)"

primrec RequestType_to_tag :: "RequestType \<Rightarrow> u8" where
  "RequestType_to_tag RequestType.Http = 0"
| "RequestType_to_tag RequestType.WebSocket = 1"
| "RequestType_to_tag RequestType.Grpc = 2"
| "RequestType_to_tag RequestType.GraphQl = 3"

section \<open>\<open>appserver::LifecycleState\<close>\<close>

datatype (plugins only: code) LifecycleState =
    Initializing
  | Starting
  | Running
  | Draining
  | Stopping
  | Stopped

definition LifecycleState_from_tag :: "u8 \<Rightarrow> LifecycleState option" where
  "LifecycleState_from_tag tag =
     (if tag = 0 then Some LifecycleState.Initializing
      else if tag = 1 then Some LifecycleState.Starting
      else if tag = 2 then Some LifecycleState.Running
      else if tag = 3 then Some LifecycleState.Draining
      else if tag = 4 then Some LifecycleState.Stopping
      else if tag = 5 then Some LifecycleState.Stopped
      else option.None)"

primrec LifecycleState_to_tag :: "LifecycleState \<Rightarrow> u8" where
  "LifecycleState_to_tag LifecycleState.Initializing = 0"
| "LifecycleState_to_tag LifecycleState.Starting = 1"
| "LifecycleState_to_tag LifecycleState.Running = 2"
| "LifecycleState_to_tag LifecycleState.Draining = 3"
| "LifecycleState_to_tag LifecycleState.Stopping = 4"
| "LifecycleState_to_tag LifecycleState.Stopped = 5"

definition LifecycleState_is_ready :: "LifecycleState \<Rightarrow> bool" where
  "LifecycleState_is_ready self =
     (case self of
      LifecycleState.Running \<Rightarrow> True
    | _ \<Rightarrow> False)"

section \<open>\<open>appserver::HealthCheck\<close>\<close>

datatype (plugins only: code) HealthCheck =
    Liveness
  | Readiness
  | Startup

definition HealthCheck_from_tag :: "u8 \<Rightarrow> HealthCheck option" where
  "HealthCheck_from_tag tag =
     (if tag = 0 then Some HealthCheck.Liveness
      else if tag = 1 then Some HealthCheck.Readiness
      else if tag = 2 then Some HealthCheck.Startup
      else option.None)"

primrec HealthCheck_to_tag :: "HealthCheck \<Rightarrow> u8" where
  "HealthCheck_to_tag HealthCheck.Liveness = 0"
| "HealthCheck_to_tag HealthCheck.Readiness = 1"
| "HealthCheck_to_tag HealthCheck.Startup = 2"

section \<open>\<open>appserver::DeployStrategy\<close>\<close>

datatype (plugins only: code) DeployStrategy =
    RollingUpdate
  | BlueGreen
  | Canary
  | Recreate

definition DeployStrategy_from_tag :: "u8 \<Rightarrow> DeployStrategy option" where
  "DeployStrategy_from_tag tag =
     (if tag = 0 then Some DeployStrategy.RollingUpdate
      else if tag = 1 then Some DeployStrategy.BlueGreen
      else if tag = 2 then Some DeployStrategy.Canary
      else if tag = 3 then Some DeployStrategy.Recreate
      else option.None)"

primrec DeployStrategy_to_tag :: "DeployStrategy \<Rightarrow> u8" where
  "DeployStrategy_to_tag DeployStrategy.RollingUpdate = 0"
| "DeployStrategy_to_tag DeployStrategy.BlueGreen = 1"
| "DeployStrategy_to_tag DeployStrategy.Canary = 2"
| "DeployStrategy_to_tag DeployStrategy.Recreate = 3"

section \<open>\<open>appserver::ErrorCategory\<close>\<close>

datatype (plugins only: code) Appserver_ErrorCategory =
    ClientError
  | ServerError
  | Timeout
  | CircuitOpen
  | RateLimited

definition Appserver_ErrorCategory_from_tag :: "u8 \<Rightarrow> Appserver_ErrorCategory option" where
  "Appserver_ErrorCategory_from_tag tag =
     (if tag = 0 then Some Appserver_ErrorCategory.ClientError
      else if tag = 1 then Some Appserver_ErrorCategory.ServerError
      else if tag = 2 then Some Appserver_ErrorCategory.Timeout
      else if tag = 3 then Some Appserver_ErrorCategory.CircuitOpen
      else if tag = 4 then Some Appserver_ErrorCategory.RateLimited
      else option.None)"

primrec Appserver_ErrorCategory_to_tag :: "Appserver_ErrorCategory \<Rightarrow> u8" where
  "Appserver_ErrorCategory_to_tag Appserver_ErrorCategory.ClientError = 0"
| "Appserver_ErrorCategory_to_tag Appserver_ErrorCategory.ServerError = 1"
| "Appserver_ErrorCategory_to_tag Appserver_ErrorCategory.Timeout = 2"
| "Appserver_ErrorCategory_to_tag Appserver_ErrorCategory.CircuitOpen = 3"
| "Appserver_ErrorCategory_to_tag Appserver_ErrorCategory.RateLimited = 4"

section \<open>\<open>loadbalancer::Algorithm\<close>\<close>

datatype (plugins only: code) Algorithm =
    RoundRobin
  | LeastConnections
  | IpHash
  | Random
  | WeightedRoundRobin
  | LeastResponseTime

definition Algorithm_from_tag :: "u8 \<Rightarrow> Algorithm option" where
  "Algorithm_from_tag tag =
     (if tag = 0 then Some Algorithm.RoundRobin
      else if tag = 1 then Some Algorithm.LeastConnections
      else if tag = 2 then Some Algorithm.IpHash
      else if tag = 3 then Some Algorithm.Random
      else if tag = 4 then Some Algorithm.WeightedRoundRobin
      else if tag = 5 then Some Algorithm.LeastResponseTime
      else option.None)"

primrec Algorithm_to_tag :: "Algorithm \<Rightarrow> u8" where
  "Algorithm_to_tag Algorithm.RoundRobin = 0"
| "Algorithm_to_tag Algorithm.LeastConnections = 1"
| "Algorithm_to_tag Algorithm.IpHash = 2"
| "Algorithm_to_tag Algorithm.Random = 3"
| "Algorithm_to_tag Algorithm.WeightedRoundRobin = 4"
| "Algorithm_to_tag Algorithm.LeastResponseTime = 5"

section \<open>\<open>loadbalancer::HealthCheckType\<close>\<close>

datatype (plugins only: code) HealthCheckType =
    Http
  | Tcp
  | Grpc
  | Script

definition HealthCheckType_from_tag :: "u8 \<Rightarrow> HealthCheckType option" where
  "HealthCheckType_from_tag tag =
     (if tag = 0 then Some HealthCheckType.Http
      else if tag = 1 then Some HealthCheckType.Tcp
      else if tag = 2 then Some HealthCheckType.Grpc
      else if tag = 3 then Some HealthCheckType.Script
      else option.None)"

primrec HealthCheckType_to_tag :: "HealthCheckType \<Rightarrow> u8" where
  "HealthCheckType_to_tag HealthCheckType.Http = 0"
| "HealthCheckType_to_tag HealthCheckType.Tcp = 1"
| "HealthCheckType_to_tag HealthCheckType.Grpc = 2"
| "HealthCheckType_to_tag HealthCheckType.Script = 3"

section \<open>\<open>loadbalancer::BackendState\<close>\<close>

datatype (plugins only: code) BackendState =
    Healthy
  | Unhealthy
  | Draining
  | Disabled

definition BackendState_from_tag :: "u8 \<Rightarrow> BackendState option" where
  "BackendState_from_tag tag =
     (if tag = 0 then Some BackendState.Healthy
      else if tag = 1 then Some BackendState.Unhealthy
      else if tag = 2 then Some BackendState.Draining
      else if tag = 3 then Some BackendState.Disabled
      else option.None)"

primrec BackendState_to_tag :: "BackendState \<Rightarrow> u8" where
  "BackendState_to_tag BackendState.Healthy = 0"
| "BackendState_to_tag BackendState.Unhealthy = 1"
| "BackendState_to_tag BackendState.Draining = 2"
| "BackendState_to_tag BackendState.Disabled = 3"

definition BackendState_can_receive_traffic :: "BackendState \<Rightarrow> bool" where
  "BackendState_can_receive_traffic self =
     (case self of
      BackendState.Healthy \<Rightarrow> True
    | _ \<Rightarrow> False)"

section \<open>\<open>loadbalancer::SessionPersistence\<close>\<close>

datatype (plugins only: code) SessionPersistence =
    NoneV
  | Cookie
  | SourceIp
  | Header

definition SessionPersistence_from_tag :: "u8 \<Rightarrow> SessionPersistence option" where
  "SessionPersistence_from_tag tag =
     (if tag = 0 then Some SessionPersistence.NoneV
      else if tag = 1 then Some SessionPersistence.Cookie
      else if tag = 2 then Some SessionPersistence.SourceIp
      else if tag = 3 then Some SessionPersistence.Header
      else option.None)"

primrec SessionPersistence_to_tag :: "SessionPersistence \<Rightarrow> u8" where
  "SessionPersistence_to_tag SessionPersistence.NoneV = 0"
| "SessionPersistence_to_tag SessionPersistence.Cookie = 1"
| "SessionPersistence_to_tag SessionPersistence.SourceIp = 2"
| "SessionPersistence_to_tag SessionPersistence.Header = 3"

section \<open>\<open>loadbalancer::LbProtocol\<close>\<close>

datatype (plugins only: code) LbProtocol =
    Http
  | Https
  | Tcp
  | Udp
  | Grpc

definition LbProtocol_from_tag :: "u8 \<Rightarrow> LbProtocol option" where
  "LbProtocol_from_tag tag =
     (if tag = 0 then Some LbProtocol.Http
      else if tag = 1 then Some LbProtocol.Https
      else if tag = 2 then Some LbProtocol.Tcp
      else if tag = 3 then Some LbProtocol.Udp
      else if tag = 4 then Some LbProtocol.Grpc
      else option.None)"

primrec LbProtocol_to_tag :: "LbProtocol \<Rightarrow> u8" where
  "LbProtocol_to_tag LbProtocol.Http = 0"
| "LbProtocol_to_tag LbProtocol.Https = 1"
| "LbProtocol_to_tag LbProtocol.Tcp = 2"
| "LbProtocol_to_tag LbProtocol.Udp = 3"
| "LbProtocol_to_tag LbProtocol.Grpc = 4"

section \<open>\<open>gameserver::SessionType\<close>\<close>

datatype (plugins only: code) SessionType =
    Lobby
  | Match
  | Practice
  | Spectator
  | Tournament

definition SessionType_from_tag :: "u8 \<Rightarrow> SessionType option" where
  "SessionType_from_tag tag =
     (if tag = 0 then Some SessionType.Lobby
      else if tag = 1 then Some SessionType.Match
      else if tag = 2 then Some SessionType.Practice
      else if tag = 3 then Some SessionType.Spectator
      else if tag = 4 then Some SessionType.Tournament
      else option.None)"

primrec SessionType_to_tag :: "SessionType \<Rightarrow> u8" where
  "SessionType_to_tag SessionType.Lobby = 0"
| "SessionType_to_tag SessionType.Match = 1"
| "SessionType_to_tag SessionType.Practice = 2"
| "SessionType_to_tag SessionType.Spectator = 3"
| "SessionType_to_tag SessionType.Tournament = 4"

section \<open>\<open>gameserver::PlayerState\<close>\<close>

datatype (plugins only: code) Gameserver_PlayerState =
    Idle
  | Queuing
  | Loading
  | Playing
  | Spectating
  | Disconnected

definition Gameserver_PlayerState_from_tag :: "u8 \<Rightarrow> Gameserver_PlayerState option" where
  "Gameserver_PlayerState_from_tag tag =
     (if tag = 0 then Some Gameserver_PlayerState.Idle
      else if tag = 1 then Some Gameserver_PlayerState.Queuing
      else if tag = 2 then Some Gameserver_PlayerState.Loading
      else if tag = 3 then Some Gameserver_PlayerState.Playing
      else if tag = 4 then Some Gameserver_PlayerState.Spectating
      else if tag = 5 then Some Gameserver_PlayerState.Disconnected
      else option.None)"

primrec Gameserver_PlayerState_to_tag :: "Gameserver_PlayerState \<Rightarrow> u8" where
  "Gameserver_PlayerState_to_tag Gameserver_PlayerState.Idle = 0"
| "Gameserver_PlayerState_to_tag Gameserver_PlayerState.Queuing = 1"
| "Gameserver_PlayerState_to_tag Gameserver_PlayerState.Loading = 2"
| "Gameserver_PlayerState_to_tag Gameserver_PlayerState.Playing = 3"
| "Gameserver_PlayerState_to_tag Gameserver_PlayerState.Spectating = 4"
| "Gameserver_PlayerState_to_tag Gameserver_PlayerState.Disconnected = 5"

section \<open>\<open>gameserver::MatchState\<close>\<close>

datatype (plugins only: code) MatchState =
    Waiting
  | Starting
  | InProgress
  | Paused
  | Ending
  | Complete

definition MatchState_from_tag :: "u8 \<Rightarrow> MatchState option" where
  "MatchState_from_tag tag =
     (if tag = 0 then Some MatchState.Waiting
      else if tag = 1 then Some MatchState.Starting
      else if tag = 2 then Some MatchState.InProgress
      else if tag = 3 then Some MatchState.Paused
      else if tag = 4 then Some MatchState.Ending
      else if tag = 5 then Some MatchState.Complete
      else option.None)"

primrec MatchState_to_tag :: "MatchState \<Rightarrow> u8" where
  "MatchState_to_tag MatchState.Waiting = 0"
| "MatchState_to_tag MatchState.Starting = 1"
| "MatchState_to_tag MatchState.InProgress = 2"
| "MatchState_to_tag MatchState.Paused = 3"
| "MatchState_to_tag MatchState.Ending = 4"
| "MatchState_to_tag MatchState.Complete = 5"

section \<open>\<open>agentic::AgentState\<close>\<close>

datatype (plugins only: code) AgentState =
    Idle
  | Planning
  | Acting
  | Observing
  | Reflecting
  | Blocked
  | Terminated

definition AgentState_from_tag :: "u8 \<Rightarrow> AgentState option" where
  "AgentState_from_tag tag =
     (if tag = 0 then Some AgentState.Idle
      else if tag = 1 then Some AgentState.Planning
      else if tag = 2 then Some AgentState.Acting
      else if tag = 3 then Some AgentState.Observing
      else if tag = 4 then Some AgentState.Reflecting
      else if tag = 5 then Some AgentState.Blocked
      else if tag = 6 then Some AgentState.Terminated
      else option.None)"

primrec AgentState_to_tag :: "AgentState \<Rightarrow> u8" where
  "AgentState_to_tag AgentState.Idle = 0"
| "AgentState_to_tag AgentState.Planning = 1"
| "AgentState_to_tag AgentState.Acting = 2"
| "AgentState_to_tag AgentState.Observing = 3"
| "AgentState_to_tag AgentState.Reflecting = 4"
| "AgentState_to_tag AgentState.Blocked = 5"
| "AgentState_to_tag AgentState.Terminated = 6"

definition AgentState_is_active :: "AgentState \<Rightarrow> bool" where
  "AgentState_is_active self =
     (case self of
      AgentState.Planning \<Rightarrow> True
    | AgentState.Acting \<Rightarrow> True
    | AgentState.Observing \<Rightarrow> True
    | AgentState.Reflecting \<Rightarrow> True
    | _ \<Rightarrow> False)"

section \<open>\<open>agentic::ToolCall\<close>\<close>

datatype (plugins only: code) ToolCall =
    Execute
  | Query
  | Transform
  | Communicate
  | Delegate
  | Escalate

definition ToolCall_from_tag :: "u8 \<Rightarrow> ToolCall option" where
  "ToolCall_from_tag tag =
     (if tag = 0 then Some ToolCall.Execute
      else if tag = 1 then Some ToolCall.Query
      else if tag = 2 then Some ToolCall.Transform
      else if tag = 3 then Some ToolCall.Communicate
      else if tag = 4 then Some ToolCall.Delegate
      else if tag = 5 then Some ToolCall.Escalate
      else option.None)"

primrec ToolCall_to_tag :: "ToolCall \<Rightarrow> u8" where
  "ToolCall_to_tag ToolCall.Execute = 0"
| "ToolCall_to_tag ToolCall.Query = 1"
| "ToolCall_to_tag ToolCall.Transform = 2"
| "ToolCall_to_tag ToolCall.Communicate = 3"
| "ToolCall_to_tag ToolCall.Delegate = 4"
| "ToolCall_to_tag ToolCall.Escalate = 5"

section \<open>\<open>agentic::PlanStep\<close>\<close>

datatype (plugins only: code) PlanStep =
    Action
  | Condition
  | Loop
  | Branch
  | Parallel
  | Checkpoint
  | Rollback

definition PlanStep_from_tag :: "u8 \<Rightarrow> PlanStep option" where
  "PlanStep_from_tag tag =
     (if tag = 0 then Some PlanStep.Action
      else if tag = 1 then Some PlanStep.Condition
      else if tag = 2 then Some PlanStep.Loop
      else if tag = 3 then Some PlanStep.Branch
      else if tag = 4 then Some PlanStep.Parallel
      else if tag = 5 then Some PlanStep.Checkpoint
      else if tag = 6 then Some PlanStep.Rollback
      else option.None)"

primrec PlanStep_to_tag :: "PlanStep \<Rightarrow> u8" where
  "PlanStep_to_tag PlanStep.Action = 0"
| "PlanStep_to_tag PlanStep.Condition = 1"
| "PlanStep_to_tag PlanStep.Loop = 2"
| "PlanStep_to_tag PlanStep.Branch = 3"
| "PlanStep_to_tag PlanStep.Parallel = 4"
| "PlanStep_to_tag PlanStep.Checkpoint = 5"
| "PlanStep_to_tag PlanStep.Rollback = 6"

section \<open>\<open>agentic::Coordination\<close>\<close>

datatype (plugins only: code) Coordination =
    Solo
  | Collaborative
  | Competitive
  | Hierarchical
  | Swarm
  | Consensus

definition Coordination_from_tag :: "u8 \<Rightarrow> Coordination option" where
  "Coordination_from_tag tag =
     (if tag = 0 then Some Coordination.Solo
      else if tag = 1 then Some Coordination.Collaborative
      else if tag = 2 then Some Coordination.Competitive
      else if tag = 3 then Some Coordination.Hierarchical
      else if tag = 4 then Some Coordination.Swarm
      else if tag = 5 then Some Coordination.Consensus
      else option.None)"

primrec Coordination_to_tag :: "Coordination \<Rightarrow> u8" where
  "Coordination_to_tag Coordination.Solo = 0"
| "Coordination_to_tag Coordination.Collaborative = 1"
| "Coordination_to_tag Coordination.Competitive = 2"
| "Coordination_to_tag Coordination.Hierarchical = 3"
| "Coordination_to_tag Coordination.Swarm = 4"
| "Coordination_to_tag Coordination.Consensus = 5"

section \<open>\<open>agentic::SafetyCheck\<close>\<close>

datatype (plugins only: code) SafetyCheck =
    Approved
  | Denied
  | Escalated
  | Timeout
  | Sandboxed
  | HumanRequired

definition SafetyCheck_from_tag :: "u8 \<Rightarrow> SafetyCheck option" where
  "SafetyCheck_from_tag tag =
     (if tag = 0 then Some SafetyCheck.Approved
      else if tag = 1 then Some SafetyCheck.Denied
      else if tag = 2 then Some SafetyCheck.Escalated
      else if tag = 3 then Some SafetyCheck.Timeout
      else if tag = 4 then Some SafetyCheck.Sandboxed
      else if tag = 5 then Some SafetyCheck.HumanRequired
      else option.None)"

primrec SafetyCheck_to_tag :: "SafetyCheck \<Rightarrow> u8" where
  "SafetyCheck_to_tag SafetyCheck.Approved = 0"
| "SafetyCheck_to_tag SafetyCheck.Denied = 1"
| "SafetyCheck_to_tag SafetyCheck.Escalated = 2"
| "SafetyCheck_to_tag SafetyCheck.Timeout = 3"
| "SafetyCheck_to_tag SafetyCheck.Sandboxed = 4"
| "SafetyCheck_to_tag SafetyCheck.HumanRequired = 5"

definition SafetyCheck_is_safe :: "SafetyCheck \<Rightarrow> bool" where
  "SafetyCheck_is_safe self =
     (case self of
      SafetyCheck.Approved \<Rightarrow> True
    | SafetyCheck.Sandboxed \<Rightarrow> True
    | _ \<Rightarrow> False)"

section \<open>\<open>mcp::McpMessageType\<close>\<close>

datatype (plugins only: code) McpMessageType =
    Initialize
  | Initialized
  | Ping
  | CallTool
  | ToolResult
  | ListTools
  | ListResources
  | ReadResource
  | ListPrompts
  | GetPrompt
  | Subscribe
  | Unsubscribe
  | Notification
  | Cancel

definition McpMessageType_from_tag :: "u8 \<Rightarrow> McpMessageType option" where
  "McpMessageType_from_tag tag =
     (if tag = 0 then Some McpMessageType.Initialize
      else if tag = 1 then Some McpMessageType.Initialized
      else if tag = 2 then Some McpMessageType.Ping
      else if tag = 3 then Some McpMessageType.CallTool
      else if tag = 4 then Some McpMessageType.ToolResult
      else if tag = 5 then Some McpMessageType.ListTools
      else if tag = 6 then Some McpMessageType.ListResources
      else if tag = 7 then Some McpMessageType.ReadResource
      else if tag = 8 then Some McpMessageType.ListPrompts
      else if tag = 9 then Some McpMessageType.GetPrompt
      else if tag = 10 then Some McpMessageType.Subscribe
      else if tag = 11 then Some McpMessageType.Unsubscribe
      else if tag = 12 then Some McpMessageType.Notification
      else if tag = 13 then Some McpMessageType.Cancel
      else option.None)"

primrec McpMessageType_to_tag :: "McpMessageType \<Rightarrow> u8" where
  "McpMessageType_to_tag McpMessageType.Initialize = 0"
| "McpMessageType_to_tag McpMessageType.Initialized = 1"
| "McpMessageType_to_tag McpMessageType.Ping = 2"
| "McpMessageType_to_tag McpMessageType.CallTool = 3"
| "McpMessageType_to_tag McpMessageType.ToolResult = 4"
| "McpMessageType_to_tag McpMessageType.ListTools = 5"
| "McpMessageType_to_tag McpMessageType.ListResources = 6"
| "McpMessageType_to_tag McpMessageType.ReadResource = 7"
| "McpMessageType_to_tag McpMessageType.ListPrompts = 8"
| "McpMessageType_to_tag McpMessageType.GetPrompt = 9"
| "McpMessageType_to_tag McpMessageType.Subscribe = 10"
| "McpMessageType_to_tag McpMessageType.Unsubscribe = 11"
| "McpMessageType_to_tag McpMessageType.Notification = 12"
| "McpMessageType_to_tag McpMessageType.Cancel = 13"

section \<open>\<open>mcp::Transport\<close>\<close>

datatype (plugins only: code) Mcp_Transport =
    Stdio
  | Sse
  | WebSocket
  | StreamableHttp

definition Mcp_Transport_from_tag :: "u8 \<Rightarrow> Mcp_Transport option" where
  "Mcp_Transport_from_tag tag =
     (if tag = 0 then Some Mcp_Transport.Stdio
      else if tag = 1 then Some Mcp_Transport.Sse
      else if tag = 2 then Some Mcp_Transport.WebSocket
      else if tag = 3 then Some Mcp_Transport.StreamableHttp
      else option.None)"

primrec Mcp_Transport_to_tag :: "Mcp_Transport \<Rightarrow> u8" where
  "Mcp_Transport_to_tag Mcp_Transport.Stdio = 0"
| "Mcp_Transport_to_tag Mcp_Transport.Sse = 1"
| "Mcp_Transport_to_tag Mcp_Transport.WebSocket = 2"
| "Mcp_Transport_to_tag Mcp_Transport.StreamableHttp = 3"

section \<open>\<open>mcp::McpContentType\<close>\<close>

datatype (plugins only: code) McpContentType =
    Text
  | Image
  | Resource
  | Embedding

definition McpContentType_from_tag :: "u8 \<Rightarrow> McpContentType option" where
  "McpContentType_from_tag tag =
     (if tag = 0 then Some McpContentType.Text
      else if tag = 1 then Some McpContentType.Image
      else if tag = 2 then Some McpContentType.Resource
      else if tag = 3 then Some McpContentType.Embedding
      else option.None)"

primrec McpContentType_to_tag :: "McpContentType \<Rightarrow> u8" where
  "McpContentType_to_tag McpContentType.Text = 0"
| "McpContentType_to_tag McpContentType.Image = 1"
| "McpContentType_to_tag McpContentType.Resource = 2"
| "McpContentType_to_tag McpContentType.Embedding = 3"

section \<open>\<open>mcp::McpErrorCode\<close>\<close>

datatype (plugins only: code) McpErrorCode =
    ParseError
  | InvalidRequest
  | MethodNotFound
  | InvalidParams
  | InternalError
  | Timeout

definition McpErrorCode_from_tag :: "u8 \<Rightarrow> McpErrorCode option" where
  "McpErrorCode_from_tag tag =
     (if tag = 0 then Some McpErrorCode.ParseError
      else if tag = 1 then Some McpErrorCode.InvalidRequest
      else if tag = 2 then Some McpErrorCode.MethodNotFound
      else if tag = 3 then Some McpErrorCode.InvalidParams
      else if tag = 4 then Some McpErrorCode.InternalError
      else if tag = 5 then Some McpErrorCode.Timeout
      else option.None)"

primrec McpErrorCode_to_tag :: "McpErrorCode \<Rightarrow> u8" where
  "McpErrorCode_to_tag McpErrorCode.ParseError = 0"
| "McpErrorCode_to_tag McpErrorCode.InvalidRequest = 1"
| "McpErrorCode_to_tag McpErrorCode.MethodNotFound = 2"
| "McpErrorCode_to_tag McpErrorCode.InvalidParams = 3"
| "McpErrorCode_to_tag McpErrorCode.InternalError = 4"
| "McpErrorCode_to_tag McpErrorCode.Timeout = 5"

section \<open>\<open>mcp::McpCapability\<close>\<close>

datatype (plugins only: code) McpCapability =
    Tools
  | Resources
  | Prompts
  | Logging
  | Sampling

definition McpCapability_from_tag :: "u8 \<Rightarrow> McpCapability option" where
  "McpCapability_from_tag tag =
     (if tag = 0 then Some McpCapability.Tools
      else if tag = 1 then Some McpCapability.Resources
      else if tag = 2 then Some McpCapability.Prompts
      else if tag = 3 then Some McpCapability.Logging
      else if tag = 4 then Some McpCapability.Sampling
      else option.None)"

primrec McpCapability_to_tag :: "McpCapability \<Rightarrow> u8" where
  "McpCapability_to_tag McpCapability.Tools = 0"
| "McpCapability_to_tag McpCapability.Resources = 1"
| "McpCapability_to_tag McpCapability.Prompts = 2"
| "McpCapability_to_tag McpCapability.Logging = 3"
| "McpCapability_to_tag McpCapability.Sampling = 4"

section \<open>\<open>mcp::SessionState\<close>\<close>

datatype (plugins only: code) Mcp_SessionState =
    Idle
  | Connecting
  | Ready
  | Processing
  | Disconnecting

definition Mcp_SessionState_from_tag :: "u8 \<Rightarrow> Mcp_SessionState option" where
  "Mcp_SessionState_from_tag tag =
     (if tag = 0 then Some Mcp_SessionState.Idle
      else if tag = 1 then Some Mcp_SessionState.Connecting
      else if tag = 2 then Some Mcp_SessionState.Ready
      else if tag = 3 then Some Mcp_SessionState.Processing
      else if tag = 4 then Some Mcp_SessionState.Disconnecting
      else option.None)"

primrec Mcp_SessionState_to_tag :: "Mcp_SessionState \<Rightarrow> u8" where
  "Mcp_SessionState_to_tag Mcp_SessionState.Idle = 0"
| "Mcp_SessionState_to_tag Mcp_SessionState.Connecting = 1"
| "Mcp_SessionState_to_tag Mcp_SessionState.Ready = 2"
| "Mcp_SessionState_to_tag Mcp_SessionState.Processing = 3"
| "Mcp_SessionState_to_tag Mcp_SessionState.Disconnecting = 4"

section \<open>\<open>nesy::ReasoningMode\<close>\<close>

datatype (plugins only: code) ReasoningMode =
    Symbolic
  | Neural
  | SymToNeural
  | NeuralToSym
  | Ensemble
  | Cascade

definition ReasoningMode_from_tag :: "u8 \<Rightarrow> ReasoningMode option" where
  "ReasoningMode_from_tag tag =
     (if tag = 0 then Some ReasoningMode.Symbolic
      else if tag = 1 then Some ReasoningMode.Neural
      else if tag = 2 then Some ReasoningMode.SymToNeural
      else if tag = 3 then Some ReasoningMode.NeuralToSym
      else if tag = 4 then Some ReasoningMode.Ensemble
      else if tag = 5 then Some ReasoningMode.Cascade
      else option.None)"

primrec ReasoningMode_to_tag :: "ReasoningMode \<Rightarrow> u8" where
  "ReasoningMode_to_tag ReasoningMode.Symbolic = 0"
| "ReasoningMode_to_tag ReasoningMode.Neural = 1"
| "ReasoningMode_to_tag ReasoningMode.SymToNeural = 2"
| "ReasoningMode_to_tag ReasoningMode.NeuralToSym = 3"
| "ReasoningMode_to_tag ReasoningMode.Ensemble = 4"
| "ReasoningMode_to_tag ReasoningMode.Cascade = 5"

section \<open>\<open>nesy::ProofStatus\<close>\<close>

datatype (plugins only: code) ProofStatus =
    Pending
  | Attempting
  | Proved
  | Failed
  | Assumed
  | Vacuous

definition ProofStatus_from_tag :: "u8 \<Rightarrow> ProofStatus option" where
  "ProofStatus_from_tag tag =
     (if tag = 0 then Some ProofStatus.Pending
      else if tag = 1 then Some ProofStatus.Attempting
      else if tag = 2 then Some ProofStatus.Proved
      else if tag = 3 then Some ProofStatus.Failed
      else if tag = 4 then Some ProofStatus.Assumed
      else if tag = 5 then Some ProofStatus.Vacuous
      else option.None)"

primrec ProofStatus_to_tag :: "ProofStatus \<Rightarrow> u8" where
  "ProofStatus_to_tag ProofStatus.Pending = 0"
| "ProofStatus_to_tag ProofStatus.Attempting = 1"
| "ProofStatus_to_tag ProofStatus.Proved = 2"
| "ProofStatus_to_tag ProofStatus.Failed = 3"
| "ProofStatus_to_tag ProofStatus.Assumed = 4"
| "ProofStatus_to_tag ProofStatus.Vacuous = 5"

section \<open>\<open>nesy::ConstraintKind\<close>\<close>

datatype (plugins only: code) ConstraintKind =
    TypeEquality
  | Subtype
  | Linearity
  | Termination
  | Totality
  | Invariant
  | Refinement
  | DependentIndex

definition ConstraintKind_from_tag :: "u8 \<Rightarrow> ConstraintKind option" where
  "ConstraintKind_from_tag tag =
     (if tag = 0 then Some ConstraintKind.TypeEquality
      else if tag = 1 then Some ConstraintKind.Subtype
      else if tag = 2 then Some ConstraintKind.Linearity
      else if tag = 3 then Some ConstraintKind.Termination
      else if tag = 4 then Some ConstraintKind.Totality
      else if tag = 5 then Some ConstraintKind.Invariant
      else if tag = 6 then Some ConstraintKind.Refinement
      else if tag = 7 then Some ConstraintKind.DependentIndex
      else option.None)"

primrec ConstraintKind_to_tag :: "ConstraintKind \<Rightarrow> u8" where
  "ConstraintKind_to_tag ConstraintKind.TypeEquality = 0"
| "ConstraintKind_to_tag ConstraintKind.Subtype = 1"
| "ConstraintKind_to_tag ConstraintKind.Linearity = 2"
| "ConstraintKind_to_tag ConstraintKind.Termination = 3"
| "ConstraintKind_to_tag ConstraintKind.Totality = 4"
| "ConstraintKind_to_tag ConstraintKind.Invariant = 5"
| "ConstraintKind_to_tag ConstraintKind.Refinement = 6"
| "ConstraintKind_to_tag ConstraintKind.DependentIndex = 7"

section \<open>\<open>nesy::NeuralBackend\<close>\<close>

datatype (plugins only: code) NeuralBackend =
    LocalModel
  | Claude
  | Gemini
  | Mistral
  | Gpt
  | CustomNeural

definition NeuralBackend_from_tag :: "u8 \<Rightarrow> NeuralBackend option" where
  "NeuralBackend_from_tag tag =
     (if tag = 0 then Some NeuralBackend.LocalModel
      else if tag = 1 then Some NeuralBackend.Claude
      else if tag = 2 then Some NeuralBackend.Gemini
      else if tag = 3 then Some NeuralBackend.Mistral
      else if tag = 4 then Some NeuralBackend.Gpt
      else if tag = 5 then Some NeuralBackend.CustomNeural
      else option.None)"

primrec NeuralBackend_to_tag :: "NeuralBackend \<Rightarrow> u8" where
  "NeuralBackend_to_tag NeuralBackend.LocalModel = 0"
| "NeuralBackend_to_tag NeuralBackend.Claude = 1"
| "NeuralBackend_to_tag NeuralBackend.Gemini = 2"
| "NeuralBackend_to_tag NeuralBackend.Mistral = 3"
| "NeuralBackend_to_tag NeuralBackend.Gpt = 4"
| "NeuralBackend_to_tag NeuralBackend.CustomNeural = 5"

section \<open>\<open>nesy::Confidence\<close>\<close>

datatype (plugins only: code) Confidence =
    Verified
  | HighNeural
  | MediumNeural
  | LowNeural
  | Unknown
  | Contradicted

definition Confidence_from_tag :: "u8 \<Rightarrow> Confidence option" where
  "Confidence_from_tag tag =
     (if tag = 0 then Some Confidence.Verified
      else if tag = 1 then Some Confidence.HighNeural
      else if tag = 2 then Some Confidence.MediumNeural
      else if tag = 3 then Some Confidence.LowNeural
      else if tag = 4 then Some Confidence.Unknown
      else if tag = 5 then Some Confidence.Contradicted
      else option.None)"

primrec Confidence_to_tag :: "Confidence \<Rightarrow> u8" where
  "Confidence_to_tag Confidence.Verified = 0"
| "Confidence_to_tag Confidence.HighNeural = 1"
| "Confidence_to_tag Confidence.MediumNeural = 2"
| "Confidence_to_tag Confidence.LowNeural = 3"
| "Confidence_to_tag Confidence.Unknown = 4"
| "Confidence_to_tag Confidence.Contradicted = 5"

section \<open>\<open>nesy::DriftKind\<close>\<close>

datatype (plugins only: code) DriftKind =
    NoDrift
  | SemanticDrift
  | ConfidenceDrift
  | FactualDrift
  | TemporalDrift
  | CatastrophicDrift

definition DriftKind_from_tag :: "u8 \<Rightarrow> DriftKind option" where
  "DriftKind_from_tag tag =
     (if tag = 0 then Some DriftKind.NoDrift
      else if tag = 1 then Some DriftKind.SemanticDrift
      else if tag = 2 then Some DriftKind.ConfidenceDrift
      else if tag = 3 then Some DriftKind.FactualDrift
      else if tag = 4 then Some DriftKind.TemporalDrift
      else if tag = 5 then Some DriftKind.CatastrophicDrift
      else option.None)"

primrec DriftKind_to_tag :: "DriftKind \<Rightarrow> u8" where
  "DriftKind_to_tag DriftKind.NoDrift = 0"
| "DriftKind_to_tag DriftKind.SemanticDrift = 1"
| "DriftKind_to_tag DriftKind.ConfidenceDrift = 2"
| "DriftKind_to_tag DriftKind.FactualDrift = 3"
| "DriftKind_to_tag DriftKind.TemporalDrift = 4"
| "DriftKind_to_tag DriftKind.CatastrophicDrift = 5"

section \<open>\<open>nesy::NeSyState\<close>\<close>

datatype (plugins only: code) NeSyState =
    Idle
  | Ready
  | Reasoning
  | Verifying
  | Drift
  | Shutdown

definition NeSyState_from_tag :: "u8 \<Rightarrow> NeSyState option" where
  "NeSyState_from_tag tag =
     (if tag = 0 then Some NeSyState.Idle
      else if tag = 1 then Some NeSyState.Ready
      else if tag = 2 then Some NeSyState.Reasoning
      else if tag = 3 then Some NeSyState.Verifying
      else if tag = 4 then Some NeSyState.Drift
      else if tag = 5 then Some NeSyState.Shutdown
      else option.None)"

primrec NeSyState_to_tag :: "NeSyState \<Rightarrow> u8" where
  "NeSyState_to_tag NeSyState.Idle = 0"
| "NeSyState_to_tag NeSyState.Ready = 1"
| "NeSyState_to_tag NeSyState.Reasoning = 2"
| "NeSyState_to_tag NeSyState.Verifying = 3"
| "NeSyState_to_tag NeSyState.Drift = 4"
| "NeSyState_to_tag NeSyState.Shutdown = 5"

section \<open>\<open>neurosym::InferenceMode\<close>\<close>

datatype (plugins only: code) InferenceMode =
    Neural
  | Symbolic
  | Hybrid
  | Cascade

definition InferenceMode_from_tag :: "u8 \<Rightarrow> InferenceMode option" where
  "InferenceMode_from_tag tag =
     (if tag = 0 then Some InferenceMode.Neural
      else if tag = 1 then Some InferenceMode.Symbolic
      else if tag = 2 then Some InferenceMode.Hybrid
      else if tag = 3 then Some InferenceMode.Cascade
      else option.None)"

primrec InferenceMode_to_tag :: "InferenceMode \<Rightarrow> u8" where
  "InferenceMode_to_tag InferenceMode.Neural = 0"
| "InferenceMode_to_tag InferenceMode.Symbolic = 1"
| "InferenceMode_to_tag InferenceMode.Hybrid = 2"
| "InferenceMode_to_tag InferenceMode.Cascade = 3"

section \<open>\<open>neurosym::SymbolicOp\<close>\<close>

datatype (plugins only: code) SymbolicOp =
    Unify
  | Resolve
  | Rewrite
  | Prove
  | Search
  | Constrain

definition SymbolicOp_from_tag :: "u8 \<Rightarrow> SymbolicOp option" where
  "SymbolicOp_from_tag tag =
     (if tag = 0 then Some SymbolicOp.Unify
      else if tag = 1 then Some SymbolicOp.Resolve
      else if tag = 2 then Some SymbolicOp.Rewrite
      else if tag = 3 then Some SymbolicOp.Prove
      else if tag = 4 then Some SymbolicOp.Search
      else if tag = 5 then Some SymbolicOp.Constrain
      else option.None)"

primrec SymbolicOp_to_tag :: "SymbolicOp \<Rightarrow> u8" where
  "SymbolicOp_to_tag SymbolicOp.Unify = 0"
| "SymbolicOp_to_tag SymbolicOp.Resolve = 1"
| "SymbolicOp_to_tag SymbolicOp.Rewrite = 2"
| "SymbolicOp_to_tag SymbolicOp.Prove = 3"
| "SymbolicOp_to_tag SymbolicOp.Search = 4"
| "SymbolicOp_to_tag SymbolicOp.Constrain = 5"

section \<open>\<open>neurosym::NeuralOp\<close>\<close>

datatype (plugins only: code) NeuralOp =
    Embed
  | Classify
  | Generate
  | Attend
  | Retrieve
  | Finetune

definition NeuralOp_from_tag :: "u8 \<Rightarrow> NeuralOp option" where
  "NeuralOp_from_tag tag =
     (if tag = 0 then Some NeuralOp.Embed
      else if tag = 1 then Some NeuralOp.Classify
      else if tag = 2 then Some NeuralOp.Generate
      else if tag = 3 then Some NeuralOp.Attend
      else if tag = 4 then Some NeuralOp.Retrieve
      else if tag = 5 then Some NeuralOp.Finetune
      else option.None)"

primrec NeuralOp_to_tag :: "NeuralOp \<Rightarrow> u8" where
  "NeuralOp_to_tag NeuralOp.Embed = 0"
| "NeuralOp_to_tag NeuralOp.Classify = 1"
| "NeuralOp_to_tag NeuralOp.Generate = 2"
| "NeuralOp_to_tag NeuralOp.Attend = 3"
| "NeuralOp_to_tag NeuralOp.Retrieve = 4"
| "NeuralOp_to_tag NeuralOp.Finetune = 5"

section \<open>\<open>neurosym::FusionStrategy\<close>\<close>

datatype (plugins only: code) FusionStrategy =
    NeuralThenSymbolic
  | SymbolicThenNeural
  | Parallel
  | Iterative
  | Gated

definition FusionStrategy_from_tag :: "u8 \<Rightarrow> FusionStrategy option" where
  "FusionStrategy_from_tag tag =
     (if tag = 0 then Some FusionStrategy.NeuralThenSymbolic
      else if tag = 1 then Some FusionStrategy.SymbolicThenNeural
      else if tag = 2 then Some FusionStrategy.Parallel
      else if tag = 3 then Some FusionStrategy.Iterative
      else if tag = 4 then Some FusionStrategy.Gated
      else option.None)"

primrec FusionStrategy_to_tag :: "FusionStrategy \<Rightarrow> u8" where
  "FusionStrategy_to_tag FusionStrategy.NeuralThenSymbolic = 0"
| "FusionStrategy_to_tag FusionStrategy.SymbolicThenNeural = 1"
| "FusionStrategy_to_tag FusionStrategy.Parallel = 2"
| "FusionStrategy_to_tag FusionStrategy.Iterative = 3"
| "FusionStrategy_to_tag FusionStrategy.Gated = 4"

section \<open>\<open>neurosym::ConfidenceLevel\<close>\<close>

datatype (plugins only: code) ConfidenceLevel =
    Proven
  | HighConfidence
  | Moderate
  | LowConfidence
  | Uncertain
  | Contradicted

definition ConfidenceLevel_from_tag :: "u8 \<Rightarrow> ConfidenceLevel option" where
  "ConfidenceLevel_from_tag tag =
     (if tag = 0 then Some ConfidenceLevel.Proven
      else if tag = 1 then Some ConfidenceLevel.HighConfidence
      else if tag = 2 then Some ConfidenceLevel.Moderate
      else if tag = 3 then Some ConfidenceLevel.LowConfidence
      else if tag = 4 then Some ConfidenceLevel.Uncertain
      else if tag = 5 then Some ConfidenceLevel.Contradicted
      else option.None)"

primrec ConfidenceLevel_to_tag :: "ConfidenceLevel \<Rightarrow> u8" where
  "ConfidenceLevel_to_tag ConfidenceLevel.Proven = 0"
| "ConfidenceLevel_to_tag ConfidenceLevel.HighConfidence = 1"
| "ConfidenceLevel_to_tag ConfidenceLevel.Moderate = 2"
| "ConfidenceLevel_to_tag ConfidenceLevel.LowConfidence = 3"
| "ConfidenceLevel_to_tag ConfidenceLevel.Uncertain = 4"
| "ConfidenceLevel_to_tag ConfidenceLevel.Contradicted = 5"

section \<open>\<open>neurosym::KnowledgeType\<close>\<close>

datatype (plugins only: code) KnowledgeType =
    Axiom
  | Learned
  | Inferred
  | Grounded
  | Hypothetical
  | Retracted

definition KnowledgeType_from_tag :: "u8 \<Rightarrow> KnowledgeType option" where
  "KnowledgeType_from_tag tag =
     (if tag = 0 then Some KnowledgeType.Axiom
      else if tag = 1 then Some KnowledgeType.Learned
      else if tag = 2 then Some KnowledgeType.Inferred
      else if tag = 3 then Some KnowledgeType.Grounded
      else if tag = 4 then Some KnowledgeType.Hypothetical
      else if tag = 5 then Some KnowledgeType.Retracted
      else option.None)"

primrec KnowledgeType_to_tag :: "KnowledgeType \<Rightarrow> u8" where
  "KnowledgeType_to_tag KnowledgeType.Axiom = 0"
| "KnowledgeType_to_tag KnowledgeType.Learned = 1"
| "KnowledgeType_to_tag KnowledgeType.Inferred = 2"
| "KnowledgeType_to_tag KnowledgeType.Grounded = 3"
| "KnowledgeType_to_tag KnowledgeType.Hypothetical = 4"
| "KnowledgeType_to_tag KnowledgeType.Retracted = 5"

section \<open>\<open>neurosym::NeurosymState\<close>\<close>

datatype (plugins only: code) NeurosymState =
    Idle
  | Ready
  | Inferring
  | Reasoning
  | Fusing
  | Shutdown

definition NeurosymState_from_tag :: "u8 \<Rightarrow> NeurosymState option" where
  "NeurosymState_from_tag tag =
     (if tag = 0 then Some NeurosymState.Idle
      else if tag = 1 then Some NeurosymState.Ready
      else if tag = 2 then Some NeurosymState.Inferring
      else if tag = 3 then Some NeurosymState.Reasoning
      else if tag = 4 then Some NeurosymState.Fusing
      else if tag = 5 then Some NeurosymState.Shutdown
      else option.None)"

primrec NeurosymState_to_tag :: "NeurosymState \<Rightarrow> u8" where
  "NeurosymState_to_tag NeurosymState.Idle = 0"
| "NeurosymState_to_tag NeurosymState.Ready = 1"
| "NeurosymState_to_tag NeurosymState.Inferring = 2"
| "NeurosymState_to_tag NeurosymState.Reasoning = 3"
| "NeurosymState_to_tag NeurosymState.Fusing = 4"
| "NeurosymState_to_tag NeurosymState.Shutdown = 5"

section \<open>Tags and enumerations\<close>

interpretation AuthScheme_codec: tag_codec AuthScheme_to_tag AuthScheme_from_tag 6
  by (unfold_locales, (case_tac x; simp add: AuthScheme_from_tag_def), unfold AuthScheme_from_tag_def,
    (erule codec_arm, simp only: AuthScheme_to_tag.simps)+, erule codec_end, (case_tac x; simp), simp add: codec_eval)

interpretation RateLimitStrategy_codec: tag_codec RateLimitStrategy_to_tag RateLimitStrategy_from_tag 4
  by (unfold_locales, (case_tac x; simp add: RateLimitStrategy_from_tag_def), unfold RateLimitStrategy_from_tag_def,
    (erule codec_arm, simp only: RateLimitStrategy_to_tag.simps)+, erule codec_end, (case_tac x; simp), simp add: codec_eval)

interpretation ApiVersion_codec: tag_codec ApiVersion_to_tag ApiVersion_from_tag 5
  by (unfold_locales, (case_tac x; simp add: ApiVersion_from_tag_def), unfold ApiVersion_from_tag_def,
    (erule codec_arm, simp only: ApiVersion_to_tag.simps)+, erule codec_end, (case_tac x; simp), simp add: codec_eval)

interpretation ResponseFormat_codec: tag_codec ResponseFormat_to_tag ResponseFormat_from_tag 4
  by (unfold_locales, (case_tac x; simp add: ResponseFormat_from_tag_def), unfold ResponseFormat_from_tag_def,
    (erule codec_arm, simp only: ResponseFormat_to_tag.simps)+, erule codec_end, (case_tac x; simp), simp add: codec_eval)

interpretation GatewayError_codec: tag_codec GatewayError_to_tag GatewayError_from_tag 6
  by (unfold_locales, (case_tac x; simp add: GatewayError_from_tag_def), unfold GatewayError_from_tag_def,
    (erule codec_arm, simp only: GatewayError_to_tag.simps)+, erule codec_end, (case_tac x; simp), simp add: codec_eval)

interpretation RequestType_codec: tag_codec RequestType_to_tag RequestType_from_tag 4
  by (unfold_locales, (case_tac x; simp add: RequestType_from_tag_def), unfold RequestType_from_tag_def,
    (erule codec_arm, simp only: RequestType_to_tag.simps)+, erule codec_end, (case_tac x; simp), simp add: codec_eval)

interpretation LifecycleState_codec: tag_codec LifecycleState_to_tag LifecycleState_from_tag 6
  by (unfold_locales, (case_tac x; simp add: LifecycleState_from_tag_def), unfold LifecycleState_from_tag_def,
    (erule codec_arm, simp only: LifecycleState_to_tag.simps)+, erule codec_end, (case_tac x; simp), simp add: codec_eval)

interpretation HealthCheck_codec: tag_codec HealthCheck_to_tag HealthCheck_from_tag 3
  by (unfold_locales, (case_tac x; simp add: HealthCheck_from_tag_def), unfold HealthCheck_from_tag_def,
    (erule codec_arm, simp only: HealthCheck_to_tag.simps)+, erule codec_end, (case_tac x; simp), simp add: codec_eval)

interpretation DeployStrategy_codec: tag_codec DeployStrategy_to_tag DeployStrategy_from_tag 4
  by (unfold_locales, (case_tac x; simp add: DeployStrategy_from_tag_def), unfold DeployStrategy_from_tag_def,
    (erule codec_arm, simp only: DeployStrategy_to_tag.simps)+, erule codec_end, (case_tac x; simp), simp add: codec_eval)

interpretation Appserver_ErrorCategory_codec: tag_codec Appserver_ErrorCategory_to_tag Appserver_ErrorCategory_from_tag 5
  by (unfold_locales, (case_tac x; simp add: Appserver_ErrorCategory_from_tag_def), unfold Appserver_ErrorCategory_from_tag_def,
    (erule codec_arm, simp only: Appserver_ErrorCategory_to_tag.simps)+, erule codec_end, (case_tac x; simp), simp add: codec_eval)

interpretation Algorithm_codec: tag_codec Algorithm_to_tag Algorithm_from_tag 6
  by (unfold_locales, (case_tac x; simp add: Algorithm_from_tag_def), unfold Algorithm_from_tag_def,
    (erule codec_arm, simp only: Algorithm_to_tag.simps)+, erule codec_end, (case_tac x; simp), simp add: codec_eval)

interpretation HealthCheckType_codec: tag_codec HealthCheckType_to_tag HealthCheckType_from_tag 4
  by (unfold_locales, (case_tac x; simp add: HealthCheckType_from_tag_def), unfold HealthCheckType_from_tag_def,
    (erule codec_arm, simp only: HealthCheckType_to_tag.simps)+, erule codec_end, (case_tac x; simp), simp add: codec_eval)

interpretation BackendState_codec: tag_codec BackendState_to_tag BackendState_from_tag 4
  by (unfold_locales, (case_tac x; simp add: BackendState_from_tag_def), unfold BackendState_from_tag_def,
    (erule codec_arm, simp only: BackendState_to_tag.simps)+, erule codec_end, (case_tac x; simp), simp add: codec_eval)

interpretation SessionPersistence_codec: tag_codec SessionPersistence_to_tag SessionPersistence_from_tag 4
  by (unfold_locales, (case_tac x; simp add: SessionPersistence_from_tag_def), unfold SessionPersistence_from_tag_def,
    (erule codec_arm, simp only: SessionPersistence_to_tag.simps)+, erule codec_end, (case_tac x; simp), simp add: codec_eval)

interpretation LbProtocol_codec: tag_codec LbProtocol_to_tag LbProtocol_from_tag 5
  by (unfold_locales, (case_tac x; simp add: LbProtocol_from_tag_def), unfold LbProtocol_from_tag_def,
    (erule codec_arm, simp only: LbProtocol_to_tag.simps)+, erule codec_end, (case_tac x; simp), simp add: codec_eval)

interpretation SessionType_codec: tag_codec SessionType_to_tag SessionType_from_tag 5
  by (unfold_locales, (case_tac x; simp add: SessionType_from_tag_def), unfold SessionType_from_tag_def,
    (erule codec_arm, simp only: SessionType_to_tag.simps)+, erule codec_end, (case_tac x; simp), simp add: codec_eval)

interpretation Gameserver_PlayerState_codec: tag_codec Gameserver_PlayerState_to_tag Gameserver_PlayerState_from_tag 6
  by (unfold_locales, (case_tac x; simp add: Gameserver_PlayerState_from_tag_def), unfold Gameserver_PlayerState_from_tag_def,
    (erule codec_arm, simp only: Gameserver_PlayerState_to_tag.simps)+, erule codec_end, (case_tac x; simp), simp add: codec_eval)

interpretation MatchState_codec: tag_codec MatchState_to_tag MatchState_from_tag 6
  by (unfold_locales, (case_tac x; simp add: MatchState_from_tag_def), unfold MatchState_from_tag_def,
    (erule codec_arm, simp only: MatchState_to_tag.simps)+, erule codec_end, (case_tac x; simp), simp add: codec_eval)

interpretation AgentState_codec: tag_codec AgentState_to_tag AgentState_from_tag 7
  by (unfold_locales, (case_tac x; simp add: AgentState_from_tag_def), unfold AgentState_from_tag_def,
    (erule codec_arm, simp only: AgentState_to_tag.simps)+, erule codec_end, (case_tac x; simp), simp add: codec_eval)

interpretation ToolCall_codec: tag_codec ToolCall_to_tag ToolCall_from_tag 6
  by (unfold_locales, (case_tac x; simp add: ToolCall_from_tag_def), unfold ToolCall_from_tag_def,
    (erule codec_arm, simp only: ToolCall_to_tag.simps)+, erule codec_end, (case_tac x; simp), simp add: codec_eval)

interpretation PlanStep_codec: tag_codec PlanStep_to_tag PlanStep_from_tag 7
  by (unfold_locales, (case_tac x; simp add: PlanStep_from_tag_def), unfold PlanStep_from_tag_def,
    (erule codec_arm, simp only: PlanStep_to_tag.simps)+, erule codec_end, (case_tac x; simp), simp add: codec_eval)

interpretation Coordination_codec: tag_codec Coordination_to_tag Coordination_from_tag 6
  by (unfold_locales, (case_tac x; simp add: Coordination_from_tag_def), unfold Coordination_from_tag_def,
    (erule codec_arm, simp only: Coordination_to_tag.simps)+, erule codec_end, (case_tac x; simp), simp add: codec_eval)

interpretation SafetyCheck_codec: tag_codec SafetyCheck_to_tag SafetyCheck_from_tag 6
  by (unfold_locales, (case_tac x; simp add: SafetyCheck_from_tag_def), unfold SafetyCheck_from_tag_def,
    (erule codec_arm, simp only: SafetyCheck_to_tag.simps)+, erule codec_end, (case_tac x; simp), simp add: codec_eval)

interpretation McpMessageType_codec: tag_codec McpMessageType_to_tag McpMessageType_from_tag 14
  by (unfold_locales, (case_tac x; simp add: McpMessageType_from_tag_def), unfold McpMessageType_from_tag_def,
    (erule codec_arm, simp only: McpMessageType_to_tag.simps)+, erule codec_end, (case_tac x; simp), simp add: codec_eval)

interpretation Mcp_Transport_codec: tag_codec Mcp_Transport_to_tag Mcp_Transport_from_tag 4
  by (unfold_locales, (case_tac x; simp add: Mcp_Transport_from_tag_def), unfold Mcp_Transport_from_tag_def,
    (erule codec_arm, simp only: Mcp_Transport_to_tag.simps)+, erule codec_end, (case_tac x; simp), simp add: codec_eval)

interpretation McpContentType_codec: tag_codec McpContentType_to_tag McpContentType_from_tag 4
  by (unfold_locales, (case_tac x; simp add: McpContentType_from_tag_def), unfold McpContentType_from_tag_def,
    (erule codec_arm, simp only: McpContentType_to_tag.simps)+, erule codec_end, (case_tac x; simp), simp add: codec_eval)

interpretation McpErrorCode_codec: tag_codec McpErrorCode_to_tag McpErrorCode_from_tag 6
  by (unfold_locales, (case_tac x; simp add: McpErrorCode_from_tag_def), unfold McpErrorCode_from_tag_def,
    (erule codec_arm, simp only: McpErrorCode_to_tag.simps)+, erule codec_end, (case_tac x; simp), simp add: codec_eval)

interpretation McpCapability_codec: tag_codec McpCapability_to_tag McpCapability_from_tag 5
  by (unfold_locales, (case_tac x; simp add: McpCapability_from_tag_def), unfold McpCapability_from_tag_def,
    (erule codec_arm, simp only: McpCapability_to_tag.simps)+, erule codec_end, (case_tac x; simp), simp add: codec_eval)

interpretation Mcp_SessionState_codec: tag_codec Mcp_SessionState_to_tag Mcp_SessionState_from_tag 5
  by (unfold_locales, (case_tac x; simp add: Mcp_SessionState_from_tag_def), unfold Mcp_SessionState_from_tag_def,
    (erule codec_arm, simp only: Mcp_SessionState_to_tag.simps)+, erule codec_end, (case_tac x; simp), simp add: codec_eval)

interpretation ReasoningMode_codec: tag_codec ReasoningMode_to_tag ReasoningMode_from_tag 6
  by (unfold_locales, (case_tac x; simp add: ReasoningMode_from_tag_def), unfold ReasoningMode_from_tag_def,
    (erule codec_arm, simp only: ReasoningMode_to_tag.simps)+, erule codec_end, (case_tac x; simp), simp add: codec_eval)

interpretation ProofStatus_codec: tag_codec ProofStatus_to_tag ProofStatus_from_tag 6
  by (unfold_locales, (case_tac x; simp add: ProofStatus_from_tag_def), unfold ProofStatus_from_tag_def,
    (erule codec_arm, simp only: ProofStatus_to_tag.simps)+, erule codec_end, (case_tac x; simp), simp add: codec_eval)

interpretation ConstraintKind_codec: tag_codec ConstraintKind_to_tag ConstraintKind_from_tag 8
  by (unfold_locales, (case_tac x; simp add: ConstraintKind_from_tag_def), unfold ConstraintKind_from_tag_def,
    (erule codec_arm, simp only: ConstraintKind_to_tag.simps)+, erule codec_end, (case_tac x; simp), simp add: codec_eval)

interpretation NeuralBackend_codec: tag_codec NeuralBackend_to_tag NeuralBackend_from_tag 6
  by (unfold_locales, (case_tac x; simp add: NeuralBackend_from_tag_def), unfold NeuralBackend_from_tag_def,
    (erule codec_arm, simp only: NeuralBackend_to_tag.simps)+, erule codec_end, (case_tac x; simp), simp add: codec_eval)

interpretation Confidence_codec: tag_codec Confidence_to_tag Confidence_from_tag 6
  by (unfold_locales, (case_tac x; simp add: Confidence_from_tag_def), unfold Confidence_from_tag_def,
    (erule codec_arm, simp only: Confidence_to_tag.simps)+, erule codec_end, (case_tac x; simp), simp add: codec_eval)

interpretation DriftKind_codec: tag_codec DriftKind_to_tag DriftKind_from_tag 6
  by (unfold_locales, (case_tac x; simp add: DriftKind_from_tag_def), unfold DriftKind_from_tag_def,
    (erule codec_arm, simp only: DriftKind_to_tag.simps)+, erule codec_end, (case_tac x; simp), simp add: codec_eval)

interpretation NeSyState_codec: tag_codec NeSyState_to_tag NeSyState_from_tag 6
  by (unfold_locales, (case_tac x; simp add: NeSyState_from_tag_def), unfold NeSyState_from_tag_def,
    (erule codec_arm, simp only: NeSyState_to_tag.simps)+, erule codec_end, (case_tac x; simp), simp add: codec_eval)

interpretation InferenceMode_codec: tag_codec InferenceMode_to_tag InferenceMode_from_tag 4
  by (unfold_locales, (case_tac x; simp add: InferenceMode_from_tag_def), unfold InferenceMode_from_tag_def,
    (erule codec_arm, simp only: InferenceMode_to_tag.simps)+, erule codec_end, (case_tac x; simp), simp add: codec_eval)

interpretation SymbolicOp_codec: tag_codec SymbolicOp_to_tag SymbolicOp_from_tag 6
  by (unfold_locales, (case_tac x; simp add: SymbolicOp_from_tag_def), unfold SymbolicOp_from_tag_def,
    (erule codec_arm, simp only: SymbolicOp_to_tag.simps)+, erule codec_end, (case_tac x; simp), simp add: codec_eval)

interpretation NeuralOp_codec: tag_codec NeuralOp_to_tag NeuralOp_from_tag 6
  by (unfold_locales, (case_tac x; simp add: NeuralOp_from_tag_def), unfold NeuralOp_from_tag_def,
    (erule codec_arm, simp only: NeuralOp_to_tag.simps)+, erule codec_end, (case_tac x; simp), simp add: codec_eval)

interpretation FusionStrategy_codec: tag_codec FusionStrategy_to_tag FusionStrategy_from_tag 5
  by (unfold_locales, (case_tac x; simp add: FusionStrategy_from_tag_def), unfold FusionStrategy_from_tag_def,
    (erule codec_arm, simp only: FusionStrategy_to_tag.simps)+, erule codec_end, (case_tac x; simp), simp add: codec_eval)

interpretation ConfidenceLevel_codec: tag_codec ConfidenceLevel_to_tag ConfidenceLevel_from_tag 6
  by (unfold_locales, (case_tac x; simp add: ConfidenceLevel_from_tag_def), unfold ConfidenceLevel_from_tag_def,
    (erule codec_arm, simp only: ConfidenceLevel_to_tag.simps)+, erule codec_end, (case_tac x; simp), simp add: codec_eval)

interpretation KnowledgeType_codec: tag_codec KnowledgeType_to_tag KnowledgeType_from_tag 6
  by (unfold_locales, (case_tac x; simp add: KnowledgeType_from_tag_def), unfold KnowledgeType_from_tag_def,
    (erule codec_arm, simp only: KnowledgeType_to_tag.simps)+, erule codec_end, (case_tac x; simp), simp add: codec_eval)

interpretation NeurosymState_codec: tag_codec NeurosymState_to_tag NeurosymState_from_tag 6
  by (unfold_locales, (case_tac x; simp add: NeurosymState_from_tag_def), unfold NeurosymState_from_tag_def,
    (erule codec_arm, simp only: NeurosymState_to_tag.simps)+, erule codec_end, (case_tac x; simp), simp add: codec_eval)

end
