(* ===== verification/Data_Types.thy ===== *)
theory Data_Types
  imports Tag_Codec
begin

text \<open>
  The types of 9 modules of the Rust crate, under \<open>bindings/rust/src\<close>.

  \<^item> \<open>dbserver.rs\<close>: \<open>QueryType\<close>, \<open>DataType\<close>,
    \<open>IsolationLevel\<close>, \<open>ErrorCode\<close>, \<open>JoinType\<close>,
    \<open>SessionState\<close>.
  \<^item> \<open>graphdb.rs\<close>: \<open>ElementType\<close>, \<open>QueryLanguage\<close>,
    \<open>TraversalStrategy\<close>, \<open>Consistency\<close>, \<open>ErrorCode\<close>,
    \<open>SessionState\<close>.
  \<^item> \<open>triplestore.rs\<close>: \<open>Statement\<close>, \<open>IndexOrder\<close>,
    \<open>StorageBackend\<close>, \<open>ImportFormat\<close>, \<open>TransactionIsolation\<close>,
    \<open>StoreState\<close>.
  \<^item> \<open>sparql.rs\<close>: \<open>SparqlQueryType\<close>, \<open>UpdateType\<close>,
    \<open>ResultFormat\<close>, \<open>SparqlErrorType\<close>.
  \<^item> \<open>semweb.rs\<close>: \<open>RdfFormat\<close>, \<open>SemwebResourceType\<close>,
    \<open>HttpMethod\<close>, \<open>ContentNegotiation\<close>, \<open>SemwebErrorCode\<close>.
  \<^item> \<open>cache.rs\<close>: \<open>Command\<close>, \<open>EvictionPolicy\<close>,
    \<open>DataType\<close>, \<open>ErrorCode\<close>, \<open>ReplicationMode\<close>.
  \<^item> \<open>backup.rs\<close>: \<open>BackupType\<close>, \<open>ScheduleFreq\<close>,
    \<open>CompressionAlg\<close>, \<open>EncryptionAlg\<close>, \<open>BackupState\<close>,
    \<open>RetentionPolicy\<close>.
  \<^item> \<open>git.rs\<close>: \<open>Command\<close>, \<open>PacketType\<close>,
    \<open>RefType\<close>, \<open>Capability\<close>, \<open>HookResult\<close>,
    \<open>ServerState\<close>.
  \<^item> \<open>federation.rs\<close>: \<open>ActivityType\<close>, \<open>ActorType\<close>,
    \<open>DeliveryStatus\<close>, \<open>TrustLevel\<close>, \<open>ObjectType\<close>,
    \<open>ServerState\<close>.

  The \<open>Display\<close> implementations and the \<open>ALL\<close> arrays of these modules are not modelled.
\<close>

definition DBSERVER_PORT :: "u16" where
  "DBSERVER_PORT = 5432"

section \<open>\<open>dbserver::QueryType\<close>\<close>

datatype (plugins only: code) Dbserver_QueryType =
    Select
  | Insert
  | Update
  | Delete
  | CreateTable
  | DropTable
  | AlterTable
  | CreateIndex
  | DropIndex
  | Begin
  | Commit
  | Rollback

definition Dbserver_QueryType_from_tag :: "u8 \<Rightarrow> Dbserver_QueryType option" where
  "Dbserver_QueryType_from_tag tag =
     (if tag = 0 then Some Dbserver_QueryType.Select
      else if tag = 1 then Some Dbserver_QueryType.Insert
      else if tag = 2 then Some Dbserver_QueryType.Update
      else if tag = 3 then Some Dbserver_QueryType.Delete
      else if tag = 4 then Some Dbserver_QueryType.CreateTable
      else if tag = 5 then Some Dbserver_QueryType.DropTable
      else if tag = 6 then Some Dbserver_QueryType.AlterTable
      else if tag = 7 then Some Dbserver_QueryType.CreateIndex
      else if tag = 8 then Some Dbserver_QueryType.DropIndex
      else if tag = 9 then Some Dbserver_QueryType.Begin
      else if tag = 10 then Some Dbserver_QueryType.Commit
      else if tag = 11 then Some Dbserver_QueryType.Rollback
      else option.None)"

primrec Dbserver_QueryType_to_tag :: "Dbserver_QueryType \<Rightarrow> u8" where
  "Dbserver_QueryType_to_tag Dbserver_QueryType.Select = 0"
| "Dbserver_QueryType_to_tag Dbserver_QueryType.Insert = 1"
| "Dbserver_QueryType_to_tag Dbserver_QueryType.Update = 2"
| "Dbserver_QueryType_to_tag Dbserver_QueryType.Delete = 3"
| "Dbserver_QueryType_to_tag Dbserver_QueryType.CreateTable = 4"
| "Dbserver_QueryType_to_tag Dbserver_QueryType.DropTable = 5"
| "Dbserver_QueryType_to_tag Dbserver_QueryType.AlterTable = 6"
| "Dbserver_QueryType_to_tag Dbserver_QueryType.CreateIndex = 7"
| "Dbserver_QueryType_to_tag Dbserver_QueryType.DropIndex = 8"
| "Dbserver_QueryType_to_tag Dbserver_QueryType.Begin = 9"
| "Dbserver_QueryType_to_tag Dbserver_QueryType.Commit = 10"
| "Dbserver_QueryType_to_tag Dbserver_QueryType.Rollback = 11"

definition Dbserver_QueryType_is_ddl :: "Dbserver_QueryType \<Rightarrow> bool" where
  "Dbserver_QueryType_is_ddl self =
     (case self of
      Dbserver_QueryType.CreateTable \<Rightarrow> True
    | Dbserver_QueryType.DropTable \<Rightarrow> True
    | Dbserver_QueryType.AlterTable \<Rightarrow> True
    | Dbserver_QueryType.CreateIndex \<Rightarrow> True
    | Dbserver_QueryType.DropIndex \<Rightarrow> True
    | _ \<Rightarrow> False)"

definition Dbserver_QueryType_is_transaction_control :: "Dbserver_QueryType \<Rightarrow> bool" where
  "Dbserver_QueryType_is_transaction_control self =
     (case self of
      Dbserver_QueryType.Begin \<Rightarrow> True
    | Dbserver_QueryType.Commit \<Rightarrow> True
    | Dbserver_QueryType.Rollback \<Rightarrow> True
    | _ \<Rightarrow> False)"

section \<open>\<open>dbserver::DataType\<close>\<close>

datatype (plugins only: code) Dbserver_DataType =
    Integer
  | Float
  | Text
  | Blob
  | Boolean
  | Timestamp
  | Uuid
  | Json
  | Null

definition Dbserver_DataType_from_tag :: "u8 \<Rightarrow> Dbserver_DataType option" where
  "Dbserver_DataType_from_tag tag =
     (if tag = 0 then Some Dbserver_DataType.Integer
      else if tag = 1 then Some Dbserver_DataType.Float
      else if tag = 2 then Some Dbserver_DataType.Text
      else if tag = 3 then Some Dbserver_DataType.Blob
      else if tag = 4 then Some Dbserver_DataType.Boolean
      else if tag = 5 then Some Dbserver_DataType.Timestamp
      else if tag = 6 then Some Dbserver_DataType.Uuid
      else if tag = 7 then Some Dbserver_DataType.Json
      else if tag = 8 then Some Dbserver_DataType.Null
      else option.None)"

primrec Dbserver_DataType_to_tag :: "Dbserver_DataType \<Rightarrow> u8" where
  "Dbserver_DataType_to_tag Dbserver_DataType.Integer = 0"
| "Dbserver_DataType_to_tag Dbserver_DataType.Float = 1"
| "Dbserver_DataType_to_tag Dbserver_DataType.Text = 2"
| "Dbserver_DataType_to_tag Dbserver_DataType.Blob = 3"
| "Dbserver_DataType_to_tag Dbserver_DataType.Boolean = 4"
| "Dbserver_DataType_to_tag Dbserver_DataType.Timestamp = 5"
| "Dbserver_DataType_to_tag Dbserver_DataType.Uuid = 6"
| "Dbserver_DataType_to_tag Dbserver_DataType.Json = 7"
| "Dbserver_DataType_to_tag Dbserver_DataType.Null = 8"

section \<open>\<open>dbserver::IsolationLevel\<close>\<close>

datatype (plugins only: code) IsolationLevel =
    ReadUncommitted
  | ReadCommitted
  | RepeatableRead
  | Serializable

definition IsolationLevel_from_tag :: "u8 \<Rightarrow> IsolationLevel option" where
  "IsolationLevel_from_tag tag =
     (if tag = 0 then Some IsolationLevel.ReadUncommitted
      else if tag = 1 then Some IsolationLevel.ReadCommitted
      else if tag = 2 then Some IsolationLevel.RepeatableRead
      else if tag = 3 then Some IsolationLevel.Serializable
      else option.None)"

primrec IsolationLevel_to_tag :: "IsolationLevel \<Rightarrow> u8" where
  "IsolationLevel_to_tag IsolationLevel.ReadUncommitted = 0"
| "IsolationLevel_to_tag IsolationLevel.ReadCommitted = 1"
| "IsolationLevel_to_tag IsolationLevel.RepeatableRead = 2"
| "IsolationLevel_to_tag IsolationLevel.Serializable = 3"

section \<open>\<open>dbserver::ErrorCode\<close>\<close>

datatype (plugins only: code) Dbserver_ErrorCode =
    SyntaxError
  | TableNotFound
  | ColumnNotFound
  | DuplicateKey
  | ConstraintViolation
  | TypeMismatch
  | DeadlockDetected
  | TransactionAborted
  | DiskFull
  | ConnectionLost

definition Dbserver_ErrorCode_from_tag :: "u8 \<Rightarrow> Dbserver_ErrorCode option" where
  "Dbserver_ErrorCode_from_tag tag =
     (if tag = 0 then Some Dbserver_ErrorCode.SyntaxError
      else if tag = 1 then Some Dbserver_ErrorCode.TableNotFound
      else if tag = 2 then Some Dbserver_ErrorCode.ColumnNotFound
      else if tag = 3 then Some Dbserver_ErrorCode.DuplicateKey
      else if tag = 4 then Some Dbserver_ErrorCode.ConstraintViolation
      else if tag = 5 then Some Dbserver_ErrorCode.TypeMismatch
      else if tag = 6 then Some Dbserver_ErrorCode.DeadlockDetected
      else if tag = 7 then Some Dbserver_ErrorCode.TransactionAborted
      else if tag = 8 then Some Dbserver_ErrorCode.DiskFull
      else if tag = 9 then Some Dbserver_ErrorCode.ConnectionLost
      else option.None)"

primrec Dbserver_ErrorCode_to_tag :: "Dbserver_ErrorCode \<Rightarrow> u8" where
  "Dbserver_ErrorCode_to_tag Dbserver_ErrorCode.SyntaxError = 0"
| "Dbserver_ErrorCode_to_tag Dbserver_ErrorCode.TableNotFound = 1"
| "Dbserver_ErrorCode_to_tag Dbserver_ErrorCode.ColumnNotFound = 2"
| "Dbserver_ErrorCode_to_tag Dbserver_ErrorCode.DuplicateKey = 3"
| "Dbserver_ErrorCode_to_tag Dbserver_ErrorCode.ConstraintViolation = 4"
| "Dbserver_ErrorCode_to_tag Dbserver_ErrorCode.TypeMismatch = 5"
| "Dbserver_ErrorCode_to_tag Dbserver_ErrorCode.DeadlockDetected = 6"
| "Dbserver_ErrorCode_to_tag Dbserver_ErrorCode.TransactionAborted = 7"
| "Dbserver_ErrorCode_to_tag Dbserver_ErrorCode.DiskFull = 8"
| "Dbserver_ErrorCode_to_tag Dbserver_ErrorCode.ConnectionLost = 9"

definition Dbserver_ErrorCode_is_recoverable :: "Dbserver_ErrorCode \<Rightarrow> bool" where
  "Dbserver_ErrorCode_is_recoverable self =
     (case self of
      Dbserver_ErrorCode.DeadlockDetected \<Rightarrow> True
    | Dbserver_ErrorCode.TransactionAborted \<Rightarrow> True
    | Dbserver_ErrorCode.ConnectionLost \<Rightarrow> True
    | _ \<Rightarrow> False)"

section \<open>\<open>dbserver::JoinType\<close>\<close>

datatype (plugins only: code) JoinType =
    Inner
  | LeftOuter
  | RightOuter
  | FullOuter
  | Cross

definition JoinType_from_tag :: "u8 \<Rightarrow> JoinType option" where
  "JoinType_from_tag tag =
     (if tag = 0 then Some JoinType.Inner
      else if tag = 1 then Some JoinType.LeftOuter
      else if tag = 2 then Some JoinType.RightOuter
      else if tag = 3 then Some JoinType.FullOuter
      else if tag = 4 then Some JoinType.Cross
      else option.None)"

primrec JoinType_to_tag :: "JoinType \<Rightarrow> u8" where
  "JoinType_to_tag JoinType.Inner = 0"
| "JoinType_to_tag JoinType.LeftOuter = 1"
| "JoinType_to_tag JoinType.RightOuter = 2"
| "JoinType_to_tag JoinType.FullOuter = 3"
| "JoinType_to_tag JoinType.Cross = 4"

section \<open>\<open>dbserver::SessionState\<close>\<close>

datatype (plugins only: code) Dbserver_SessionState =
    Idle
  | Connected
  | Transaction
  | Executing
  | Finalising
  | Disconnecting

definition Dbserver_SessionState_from_tag :: "u8 \<Rightarrow> Dbserver_SessionState option" where
  "Dbserver_SessionState_from_tag tag =
     (if tag = 0 then Some Dbserver_SessionState.Idle
      else if tag = 1 then Some Dbserver_SessionState.Connected
      else if tag = 2 then Some Dbserver_SessionState.Transaction
      else if tag = 3 then Some Dbserver_SessionState.Executing
      else if tag = 4 then Some Dbserver_SessionState.Finalising
      else if tag = 5 then Some Dbserver_SessionState.Disconnecting
      else option.None)"

primrec Dbserver_SessionState_to_tag :: "Dbserver_SessionState \<Rightarrow> u8" where
  "Dbserver_SessionState_to_tag Dbserver_SessionState.Idle = 0"
| "Dbserver_SessionState_to_tag Dbserver_SessionState.Connected = 1"
| "Dbserver_SessionState_to_tag Dbserver_SessionState.Transaction = 2"
| "Dbserver_SessionState_to_tag Dbserver_SessionState.Executing = 3"
| "Dbserver_SessionState_to_tag Dbserver_SessionState.Finalising = 4"
| "Dbserver_SessionState_to_tag Dbserver_SessionState.Disconnecting = 5"

definition Dbserver_SessionState_can_query :: "Dbserver_SessionState \<Rightarrow> bool" where
  "Dbserver_SessionState_can_query self =
     (case self of
      Dbserver_SessionState.Connected \<Rightarrow> True
    | Dbserver_SessionState.Transaction \<Rightarrow> True
    | _ \<Rightarrow> False)"

definition GRAPHDB_PORT :: "u16" where
  "GRAPHDB_PORT = 7687"

section \<open>\<open>graphdb::ElementType\<close>\<close>

datatype (plugins only: code) ElementType =
    Node
  | Edge
  | Property
  | Label
  | Index

definition ElementType_from_tag :: "u8 \<Rightarrow> ElementType option" where
  "ElementType_from_tag tag =
     (if tag = 0 then Some ElementType.Node
      else if tag = 1 then Some ElementType.Edge
      else if tag = 2 then Some ElementType.Property
      else if tag = 3 then Some ElementType.Label
      else if tag = 4 then Some ElementType.Index
      else option.None)"

primrec ElementType_to_tag :: "ElementType \<Rightarrow> u8" where
  "ElementType_to_tag ElementType.Node = 0"
| "ElementType_to_tag ElementType.Edge = 1"
| "ElementType_to_tag ElementType.Property = 2"
| "ElementType_to_tag ElementType.Label = 3"
| "ElementType_to_tag ElementType.Index = 4"

section \<open>\<open>graphdb::QueryLanguage\<close>\<close>

datatype (plugins only: code) QueryLanguage =
    Cypher
  | Gremlin
  | Sparql
  | GraphQl

definition QueryLanguage_from_tag :: "u8 \<Rightarrow> QueryLanguage option" where
  "QueryLanguage_from_tag tag =
     (if tag = 0 then Some QueryLanguage.Cypher
      else if tag = 1 then Some QueryLanguage.Gremlin
      else if tag = 2 then Some QueryLanguage.Sparql
      else if tag = 3 then Some QueryLanguage.GraphQl
      else option.None)"

primrec QueryLanguage_to_tag :: "QueryLanguage \<Rightarrow> u8" where
  "QueryLanguage_to_tag QueryLanguage.Cypher = 0"
| "QueryLanguage_to_tag QueryLanguage.Gremlin = 1"
| "QueryLanguage_to_tag QueryLanguage.Sparql = 2"
| "QueryLanguage_to_tag QueryLanguage.GraphQl = 3"

section \<open>\<open>graphdb::TraversalStrategy\<close>\<close>

datatype (plugins only: code) TraversalStrategy =
    Bfs
  | Dfs
  | Dijkstra
  | AStar
  | Random

definition TraversalStrategy_from_tag :: "u8 \<Rightarrow> TraversalStrategy option" where
  "TraversalStrategy_from_tag tag =
     (if tag = 0 then Some TraversalStrategy.Bfs
      else if tag = 1 then Some TraversalStrategy.Dfs
      else if tag = 2 then Some TraversalStrategy.Dijkstra
      else if tag = 3 then Some TraversalStrategy.AStar
      else if tag = 4 then Some TraversalStrategy.Random
      else option.None)"

primrec TraversalStrategy_to_tag :: "TraversalStrategy \<Rightarrow> u8" where
  "TraversalStrategy_to_tag TraversalStrategy.Bfs = 0"
| "TraversalStrategy_to_tag TraversalStrategy.Dfs = 1"
| "TraversalStrategy_to_tag TraversalStrategy.Dijkstra = 2"
| "TraversalStrategy_to_tag TraversalStrategy.AStar = 3"
| "TraversalStrategy_to_tag TraversalStrategy.Random = 4"

section \<open>\<open>graphdb::Consistency\<close>\<close>

datatype (plugins only: code) Consistency =
    Strong
  | Eventual
  | Session
  | Causal

definition Consistency_from_tag :: "u8 \<Rightarrow> Consistency option" where
  "Consistency_from_tag tag =
     (if tag = 0 then Some Consistency.Strong
      else if tag = 1 then Some Consistency.Eventual
      else if tag = 2 then Some Consistency.Session
      else if tag = 3 then Some Consistency.Causal
      else option.None)"

primrec Consistency_to_tag :: "Consistency \<Rightarrow> u8" where
  "Consistency_to_tag Consistency.Strong = 0"
| "Consistency_to_tag Consistency.Eventual = 1"
| "Consistency_to_tag Consistency.Session = 2"
| "Consistency_to_tag Consistency.Causal = 3"

section \<open>\<open>graphdb::ErrorCode\<close>\<close>

datatype (plugins only: code) Graphdb_ErrorCode =
    SyntaxError
  | NodeNotFound
  | EdgeNotFound
  | ConstraintViolation
  | IndexExists
  | TransactionConflict
  | OutOfMemory

definition Graphdb_ErrorCode_from_tag :: "u8 \<Rightarrow> Graphdb_ErrorCode option" where
  "Graphdb_ErrorCode_from_tag tag =
     (if tag = 0 then Some Graphdb_ErrorCode.SyntaxError
      else if tag = 1 then Some Graphdb_ErrorCode.NodeNotFound
      else if tag = 2 then Some Graphdb_ErrorCode.EdgeNotFound
      else if tag = 3 then Some Graphdb_ErrorCode.ConstraintViolation
      else if tag = 4 then Some Graphdb_ErrorCode.IndexExists
      else if tag = 5 then Some Graphdb_ErrorCode.TransactionConflict
      else if tag = 6 then Some Graphdb_ErrorCode.OutOfMemory
      else option.None)"

primrec Graphdb_ErrorCode_to_tag :: "Graphdb_ErrorCode \<Rightarrow> u8" where
  "Graphdb_ErrorCode_to_tag Graphdb_ErrorCode.SyntaxError = 0"
| "Graphdb_ErrorCode_to_tag Graphdb_ErrorCode.NodeNotFound = 1"
| "Graphdb_ErrorCode_to_tag Graphdb_ErrorCode.EdgeNotFound = 2"
| "Graphdb_ErrorCode_to_tag Graphdb_ErrorCode.ConstraintViolation = 3"
| "Graphdb_ErrorCode_to_tag Graphdb_ErrorCode.IndexExists = 4"
| "Graphdb_ErrorCode_to_tag Graphdb_ErrorCode.TransactionConflict = 5"
| "Graphdb_ErrorCode_to_tag Graphdb_ErrorCode.OutOfMemory = 6"

section \<open>\<open>graphdb::SessionState\<close>\<close>

datatype (plugins only: code) Graphdb_SessionState =
    Idle
  | Connected
  | Querying
  | Traversing
  | Disconnecting

definition Graphdb_SessionState_from_tag :: "u8 \<Rightarrow> Graphdb_SessionState option" where
  "Graphdb_SessionState_from_tag tag =
     (if tag = 0 then Some Graphdb_SessionState.Idle
      else if tag = 1 then Some Graphdb_SessionState.Connected
      else if tag = 2 then Some Graphdb_SessionState.Querying
      else if tag = 3 then Some Graphdb_SessionState.Traversing
      else if tag = 4 then Some Graphdb_SessionState.Disconnecting
      else option.None)"

primrec Graphdb_SessionState_to_tag :: "Graphdb_SessionState \<Rightarrow> u8" where
  "Graphdb_SessionState_to_tag Graphdb_SessionState.Idle = 0"
| "Graphdb_SessionState_to_tag Graphdb_SessionState.Connected = 1"
| "Graphdb_SessionState_to_tag Graphdb_SessionState.Querying = 2"
| "Graphdb_SessionState_to_tag Graphdb_SessionState.Traversing = 3"
| "Graphdb_SessionState_to_tag Graphdb_SessionState.Disconnecting = 4"

section \<open>\<open>triplestore::Statement\<close>\<close>

datatype (plugins only: code) Statement =
    Triple
  | Quad

definition Statement_from_tag :: "u8 \<Rightarrow> Statement option" where
  "Statement_from_tag tag =
     (if tag = 0 then Some Statement.Triple
      else if tag = 1 then Some Statement.Quad
      else option.None)"

primrec Statement_to_tag :: "Statement \<Rightarrow> u8" where
  "Statement_to_tag Statement.Triple = 0"
| "Statement_to_tag Statement.Quad = 1"

section \<open>\<open>triplestore::IndexOrder\<close>\<close>

datatype (plugins only: code) IndexOrder =
    Spo
  | Pos
  | Osp
  | Gspo
  | Gpos
  | Gosp

definition IndexOrder_from_tag :: "u8 \<Rightarrow> IndexOrder option" where
  "IndexOrder_from_tag tag =
     (if tag = 0 then Some IndexOrder.Spo
      else if tag = 1 then Some IndexOrder.Pos
      else if tag = 2 then Some IndexOrder.Osp
      else if tag = 3 then Some IndexOrder.Gspo
      else if tag = 4 then Some IndexOrder.Gpos
      else if tag = 5 then Some IndexOrder.Gosp
      else option.None)"

primrec IndexOrder_to_tag :: "IndexOrder \<Rightarrow> u8" where
  "IndexOrder_to_tag IndexOrder.Spo = 0"
| "IndexOrder_to_tag IndexOrder.Pos = 1"
| "IndexOrder_to_tag IndexOrder.Osp = 2"
| "IndexOrder_to_tag IndexOrder.Gspo = 3"
| "IndexOrder_to_tag IndexOrder.Gpos = 4"
| "IndexOrder_to_tag IndexOrder.Gosp = 5"

section \<open>\<open>triplestore::StorageBackend\<close>\<close>

datatype (plugins only: code) StorageBackend =
    InMemory
  | BTree
  | Lsm
  | Persistent

definition StorageBackend_from_tag :: "u8 \<Rightarrow> StorageBackend option" where
  "StorageBackend_from_tag tag =
     (if tag = 0 then Some StorageBackend.InMemory
      else if tag = 1 then Some StorageBackend.BTree
      else if tag = 2 then Some StorageBackend.Lsm
      else if tag = 3 then Some StorageBackend.Persistent
      else option.None)"

primrec StorageBackend_to_tag :: "StorageBackend \<Rightarrow> u8" where
  "StorageBackend_to_tag StorageBackend.InMemory = 0"
| "StorageBackend_to_tag StorageBackend.BTree = 1"
| "StorageBackend_to_tag StorageBackend.Lsm = 2"
| "StorageBackend_to_tag StorageBackend.Persistent = 3"

section \<open>\<open>triplestore::ImportFormat\<close>\<close>

datatype (plugins only: code) ImportFormat =
    NTriples
  | Turtle
  | RdfXml
  | JsonLd
  | NQuads
  | Trig

definition ImportFormat_from_tag :: "u8 \<Rightarrow> ImportFormat option" where
  "ImportFormat_from_tag tag =
     (if tag = 0 then Some ImportFormat.NTriples
      else if tag = 1 then Some ImportFormat.Turtle
      else if tag = 2 then Some ImportFormat.RdfXml
      else if tag = 3 then Some ImportFormat.JsonLd
      else if tag = 4 then Some ImportFormat.NQuads
      else if tag = 5 then Some ImportFormat.Trig
      else option.None)"

primrec ImportFormat_to_tag :: "ImportFormat \<Rightarrow> u8" where
  "ImportFormat_to_tag ImportFormat.NTriples = 0"
| "ImportFormat_to_tag ImportFormat.Turtle = 1"
| "ImportFormat_to_tag ImportFormat.RdfXml = 2"
| "ImportFormat_to_tag ImportFormat.JsonLd = 3"
| "ImportFormat_to_tag ImportFormat.NQuads = 4"
| "ImportFormat_to_tag ImportFormat.Trig = 5"

section \<open>\<open>triplestore::TransactionIsolation\<close>\<close>

datatype (plugins only: code) TransactionIsolation =
    ReadCommitted
  | Serializable
  | Snapshot

definition TransactionIsolation_from_tag :: "u8 \<Rightarrow> TransactionIsolation option" where
  "TransactionIsolation_from_tag tag =
     (if tag = 0 then Some TransactionIsolation.ReadCommitted
      else if tag = 1 then Some TransactionIsolation.Serializable
      else if tag = 2 then Some TransactionIsolation.Snapshot
      else option.None)"

primrec TransactionIsolation_to_tag :: "TransactionIsolation \<Rightarrow> u8" where
  "TransactionIsolation_to_tag TransactionIsolation.ReadCommitted = 0"
| "TransactionIsolation_to_tag TransactionIsolation.Serializable = 1"
| "TransactionIsolation_to_tag TransactionIsolation.Snapshot = 2"

section \<open>\<open>triplestore::StoreState\<close>\<close>

datatype (plugins only: code) StoreState =
    Idle
  | Ready
  | InTransaction
  | Importing
  | Closing

definition StoreState_from_tag :: "u8 \<Rightarrow> StoreState option" where
  "StoreState_from_tag tag =
     (if tag = 0 then Some StoreState.Idle
      else if tag = 1 then Some StoreState.Ready
      else if tag = 2 then Some StoreState.InTransaction
      else if tag = 3 then Some StoreState.Importing
      else if tag = 4 then Some StoreState.Closing
      else option.None)"

primrec StoreState_to_tag :: "StoreState \<Rightarrow> u8" where
  "StoreState_to_tag StoreState.Idle = 0"
| "StoreState_to_tag StoreState.Ready = 1"
| "StoreState_to_tag StoreState.InTransaction = 2"
| "StoreState_to_tag StoreState.Importing = 3"
| "StoreState_to_tag StoreState.Closing = 4"

section \<open>\<open>sparql::SparqlQueryType\<close>\<close>

datatype (plugins only: code) SparqlQueryType =
    Select
  | Construct
  | Ask
  | Describe

definition SparqlQueryType_from_tag :: "u8 \<Rightarrow> SparqlQueryType option" where
  "SparqlQueryType_from_tag tag =
     (if tag = 0 then Some SparqlQueryType.Select
      else if tag = 1 then Some SparqlQueryType.Construct
      else if tag = 2 then Some SparqlQueryType.Ask
      else if tag = 3 then Some SparqlQueryType.Describe
      else option.None)"

primrec SparqlQueryType_to_tag :: "SparqlQueryType \<Rightarrow> u8" where
  "SparqlQueryType_to_tag SparqlQueryType.Select = 0"
| "SparqlQueryType_to_tag SparqlQueryType.Construct = 1"
| "SparqlQueryType_to_tag SparqlQueryType.Ask = 2"
| "SparqlQueryType_to_tag SparqlQueryType.Describe = 3"

section \<open>\<open>sparql::UpdateType\<close>\<close>

datatype (plugins only: code) UpdateType =
    Insert
  | Delete
  | Load
  | Clear
  | Create
  | Drop

definition UpdateType_from_tag :: "u8 \<Rightarrow> UpdateType option" where
  "UpdateType_from_tag tag =
     (if tag = 0 then Some UpdateType.Insert
      else if tag = 1 then Some UpdateType.Delete
      else if tag = 2 then Some UpdateType.Load
      else if tag = 3 then Some UpdateType.Clear
      else if tag = 4 then Some UpdateType.Create
      else if tag = 5 then Some UpdateType.Drop
      else option.None)"

primrec UpdateType_to_tag :: "UpdateType \<Rightarrow> u8" where
  "UpdateType_to_tag UpdateType.Insert = 0"
| "UpdateType_to_tag UpdateType.Delete = 1"
| "UpdateType_to_tag UpdateType.Load = 2"
| "UpdateType_to_tag UpdateType.Clear = 3"
| "UpdateType_to_tag UpdateType.Create = 4"
| "UpdateType_to_tag UpdateType.Drop = 5"

section \<open>\<open>sparql::ResultFormat\<close>\<close>

datatype (plugins only: code) ResultFormat =
    Xml
  | Json
  | Csv
  | Tsv

definition ResultFormat_from_tag :: "u8 \<Rightarrow> ResultFormat option" where
  "ResultFormat_from_tag tag =
     (if tag = 0 then Some ResultFormat.Xml
      else if tag = 1 then Some ResultFormat.Json
      else if tag = 2 then Some ResultFormat.Csv
      else if tag = 3 then Some ResultFormat.Tsv
      else option.None)"

primrec ResultFormat_to_tag :: "ResultFormat \<Rightarrow> u8" where
  "ResultFormat_to_tag ResultFormat.Xml = 0"
| "ResultFormat_to_tag ResultFormat.Json = 1"
| "ResultFormat_to_tag ResultFormat.Csv = 2"
| "ResultFormat_to_tag ResultFormat.Tsv = 3"

section \<open>\<open>sparql::SparqlErrorType\<close>\<close>

datatype (plugins only: code) SparqlErrorType =
    ParseError
  | QueryTimeout
  | ResultsTooLarge
  | UnknownGraph
  | AccessDenied

definition SparqlErrorType_from_tag :: "u8 \<Rightarrow> SparqlErrorType option" where
  "SparqlErrorType_from_tag tag =
     (if tag = 0 then Some SparqlErrorType.ParseError
      else if tag = 1 then Some SparqlErrorType.QueryTimeout
      else if tag = 2 then Some SparqlErrorType.ResultsTooLarge
      else if tag = 3 then Some SparqlErrorType.UnknownGraph
      else if tag = 4 then Some SparqlErrorType.AccessDenied
      else option.None)"

primrec SparqlErrorType_to_tag :: "SparqlErrorType \<Rightarrow> u8" where
  "SparqlErrorType_to_tag SparqlErrorType.ParseError = 0"
| "SparqlErrorType_to_tag SparqlErrorType.QueryTimeout = 1"
| "SparqlErrorType_to_tag SparqlErrorType.ResultsTooLarge = 2"
| "SparqlErrorType_to_tag SparqlErrorType.UnknownGraph = 3"
| "SparqlErrorType_to_tag SparqlErrorType.AccessDenied = 4"

section \<open>\<open>semweb::RdfFormat\<close>\<close>

datatype (plugins only: code) RdfFormat =
    RdfXml
  | Turtle
  | NTriples
  | NQuads
  | JsonLd
  | Trig

definition RdfFormat_from_tag :: "u8 \<Rightarrow> RdfFormat option" where
  "RdfFormat_from_tag tag =
     (if tag = 0 then Some RdfFormat.RdfXml
      else if tag = 1 then Some RdfFormat.Turtle
      else if tag = 2 then Some RdfFormat.NTriples
      else if tag = 3 then Some RdfFormat.NQuads
      else if tag = 4 then Some RdfFormat.JsonLd
      else if tag = 5 then Some RdfFormat.Trig
      else option.None)"

primrec RdfFormat_to_tag :: "RdfFormat \<Rightarrow> u8" where
  "RdfFormat_to_tag RdfFormat.RdfXml = 0"
| "RdfFormat_to_tag RdfFormat.Turtle = 1"
| "RdfFormat_to_tag RdfFormat.NTriples = 2"
| "RdfFormat_to_tag RdfFormat.NQuads = 3"
| "RdfFormat_to_tag RdfFormat.JsonLd = 4"
| "RdfFormat_to_tag RdfFormat.Trig = 5"

section \<open>\<open>semweb::SemwebResourceType\<close>\<close>

datatype (plugins only: code) SemwebResourceType =
    Class
  | Property
  | Individual
  | Ontology
  | NamedGraph

definition SemwebResourceType_from_tag :: "u8 \<Rightarrow> SemwebResourceType option" where
  "SemwebResourceType_from_tag tag =
     (if tag = 0 then Some SemwebResourceType.Class
      else if tag = 1 then Some SemwebResourceType.Property
      else if tag = 2 then Some SemwebResourceType.Individual
      else if tag = 3 then Some SemwebResourceType.Ontology
      else if tag = 4 then Some SemwebResourceType.NamedGraph
      else option.None)"

primrec SemwebResourceType_to_tag :: "SemwebResourceType \<Rightarrow> u8" where
  "SemwebResourceType_to_tag SemwebResourceType.Class = 0"
| "SemwebResourceType_to_tag SemwebResourceType.Property = 1"
| "SemwebResourceType_to_tag SemwebResourceType.Individual = 2"
| "SemwebResourceType_to_tag SemwebResourceType.Ontology = 3"
| "SemwebResourceType_to_tag SemwebResourceType.NamedGraph = 4"

section \<open>\<open>semweb::HttpMethod\<close>\<close>

datatype (plugins only: code) HttpMethod =
    Get
  | Post
  | Put
  | Patch
  | Delete

definition HttpMethod_from_tag :: "u8 \<Rightarrow> HttpMethod option" where
  "HttpMethod_from_tag tag =
     (if tag = 0 then Some HttpMethod.Get
      else if tag = 1 then Some HttpMethod.Post
      else if tag = 2 then Some HttpMethod.Put
      else if tag = 3 then Some HttpMethod.Patch
      else if tag = 4 then Some HttpMethod.Delete
      else option.None)"

primrec HttpMethod_to_tag :: "HttpMethod \<Rightarrow> u8" where
  "HttpMethod_to_tag HttpMethod.Get = 0"
| "HttpMethod_to_tag HttpMethod.Post = 1"
| "HttpMethod_to_tag HttpMethod.Put = 2"
| "HttpMethod_to_tag HttpMethod.Patch = 3"
| "HttpMethod_to_tag HttpMethod.Delete = 4"

section \<open>\<open>semweb::ContentNegotiation\<close>\<close>

datatype (plugins only: code) ContentNegotiation =
    NegRdfXml
  | NegTurtle
  | NegJsonLd
  | NegHtml

definition ContentNegotiation_from_tag :: "u8 \<Rightarrow> ContentNegotiation option" where
  "ContentNegotiation_from_tag tag =
     (if tag = 0 then Some ContentNegotiation.NegRdfXml
      else if tag = 1 then Some ContentNegotiation.NegTurtle
      else if tag = 2 then Some ContentNegotiation.NegJsonLd
      else if tag = 3 then Some ContentNegotiation.NegHtml
      else option.None)"

primrec ContentNegotiation_to_tag :: "ContentNegotiation \<Rightarrow> u8" where
  "ContentNegotiation_to_tag ContentNegotiation.NegRdfXml = 0"
| "ContentNegotiation_to_tag ContentNegotiation.NegTurtle = 1"
| "ContentNegotiation_to_tag ContentNegotiation.NegJsonLd = 2"
| "ContentNegotiation_to_tag ContentNegotiation.NegHtml = 3"

section \<open>\<open>semweb::SemwebErrorCode\<close>\<close>

datatype (plugins only: code) SemwebErrorCode =
    NotFound
  | InvalidUri
  | MalformedRdf
  | UnsupportedFormat
  | ConflictingTriples

definition SemwebErrorCode_from_tag :: "u8 \<Rightarrow> SemwebErrorCode option" where
  "SemwebErrorCode_from_tag tag =
     (if tag = 0 then Some SemwebErrorCode.NotFound
      else if tag = 1 then Some SemwebErrorCode.InvalidUri
      else if tag = 2 then Some SemwebErrorCode.MalformedRdf
      else if tag = 3 then Some SemwebErrorCode.UnsupportedFormat
      else if tag = 4 then Some SemwebErrorCode.ConflictingTriples
      else option.None)"

primrec SemwebErrorCode_to_tag :: "SemwebErrorCode \<Rightarrow> u8" where
  "SemwebErrorCode_to_tag SemwebErrorCode.NotFound = 0"
| "SemwebErrorCode_to_tag SemwebErrorCode.InvalidUri = 1"
| "SemwebErrorCode_to_tag SemwebErrorCode.MalformedRdf = 2"
| "SemwebErrorCode_to_tag SemwebErrorCode.UnsupportedFormat = 3"
| "SemwebErrorCode_to_tag SemwebErrorCode.ConflictingTriples = 4"

definition REDIS_PORT :: "u16" where
  "REDIS_PORT = 6379"

definition MEMCACHED_PORT :: "u16" where
  "MEMCACHED_PORT = 11211"

section \<open>\<open>cache::Command\<close>\<close>

datatype (plugins only: code) Cache_Command =
    Get
  | Set
  | Delete
  | Exists
  | Expire
  | Ttl
  | Keys
  | Flush
  | Incr
  | Decr
  | Append
  | Prepend
  | Cas

definition Cache_Command_from_tag :: "u8 \<Rightarrow> Cache_Command option" where
  "Cache_Command_from_tag tag =
     (if tag = 0 then Some Cache_Command.Get
      else if tag = 1 then Some Cache_Command.Set
      else if tag = 2 then Some Cache_Command.Delete
      else if tag = 3 then Some Cache_Command.Exists
      else if tag = 4 then Some Cache_Command.Expire
      else if tag = 5 then Some Cache_Command.Ttl
      else if tag = 6 then Some Cache_Command.Keys
      else if tag = 7 then Some Cache_Command.Flush
      else if tag = 8 then Some Cache_Command.Incr
      else if tag = 9 then Some Cache_Command.Decr
      else if tag = 10 then Some Cache_Command.Append
      else if tag = 11 then Some Cache_Command.Prepend
      else if tag = 12 then Some Cache_Command.Cas
      else option.None)"

primrec Cache_Command_to_tag :: "Cache_Command \<Rightarrow> u8" where
  "Cache_Command_to_tag Cache_Command.Get = 0"
| "Cache_Command_to_tag Cache_Command.Set = 1"
| "Cache_Command_to_tag Cache_Command.Delete = 2"
| "Cache_Command_to_tag Cache_Command.Exists = 3"
| "Cache_Command_to_tag Cache_Command.Expire = 4"
| "Cache_Command_to_tag Cache_Command.Ttl = 5"
| "Cache_Command_to_tag Cache_Command.Keys = 6"
| "Cache_Command_to_tag Cache_Command.Flush = 7"
| "Cache_Command_to_tag Cache_Command.Incr = 8"
| "Cache_Command_to_tag Cache_Command.Decr = 9"
| "Cache_Command_to_tag Cache_Command.Append = 10"
| "Cache_Command_to_tag Cache_Command.Prepend = 11"
| "Cache_Command_to_tag Cache_Command.Cas = 12"

definition Cache_Command_is_write :: "Cache_Command \<Rightarrow> bool" where
  "Cache_Command_is_write self = (\<not>
     (case self of
      Cache_Command.Get \<Rightarrow> True
    | Cache_Command.Exists \<Rightarrow> True
    | Cache_Command.Ttl \<Rightarrow> True
    | Cache_Command.Keys \<Rightarrow> True
    | _ \<Rightarrow> False))"

definition Cache_Command_is_read :: "Cache_Command \<Rightarrow> bool" where
  "Cache_Command_is_read self =
     (case self of
      Cache_Command.Get \<Rightarrow> True
    | Cache_Command.Exists \<Rightarrow> True
    | Cache_Command.Ttl \<Rightarrow> True
    | Cache_Command.Keys \<Rightarrow> True
    | _ \<Rightarrow> False)"

section \<open>\<open>cache::EvictionPolicy\<close>\<close>

datatype (plugins only: code) EvictionPolicy =
    Lru
  | Lfu
  | Random
  | EvictTtl
  | NoEviction

definition EvictionPolicy_from_tag :: "u8 \<Rightarrow> EvictionPolicy option" where
  "EvictionPolicy_from_tag tag =
     (if tag = 0 then Some EvictionPolicy.Lru
      else if tag = 1 then Some EvictionPolicy.Lfu
      else if tag = 2 then Some EvictionPolicy.Random
      else if tag = 3 then Some EvictionPolicy.EvictTtl
      else if tag = 4 then Some EvictionPolicy.NoEviction
      else option.None)"

primrec EvictionPolicy_to_tag :: "EvictionPolicy \<Rightarrow> u8" where
  "EvictionPolicy_to_tag EvictionPolicy.Lru = 0"
| "EvictionPolicy_to_tag EvictionPolicy.Lfu = 1"
| "EvictionPolicy_to_tag EvictionPolicy.Random = 2"
| "EvictionPolicy_to_tag EvictionPolicy.EvictTtl = 3"
| "EvictionPolicy_to_tag EvictionPolicy.NoEviction = 4"

definition EvictionPolicy_may_evict :: "EvictionPolicy \<Rightarrow> bool" where
  "EvictionPolicy_may_evict self = (\<not>
     (case self of
      EvictionPolicy.NoEviction \<Rightarrow> True
    | _ \<Rightarrow> False))"

section \<open>\<open>cache::DataType\<close>\<close>

datatype (plugins only: code) Cache_DataType =
    StringVal
  | IntVal
  | ListVal
  | SetVal
  | HashVal

definition Cache_DataType_from_tag :: "u8 \<Rightarrow> Cache_DataType option" where
  "Cache_DataType_from_tag tag =
     (if tag = 0 then Some Cache_DataType.StringVal
      else if tag = 1 then Some Cache_DataType.IntVal
      else if tag = 2 then Some Cache_DataType.ListVal
      else if tag = 3 then Some Cache_DataType.SetVal
      else if tag = 4 then Some Cache_DataType.HashVal
      else option.None)"

primrec Cache_DataType_to_tag :: "Cache_DataType \<Rightarrow> u8" where
  "Cache_DataType_to_tag Cache_DataType.StringVal = 0"
| "Cache_DataType_to_tag Cache_DataType.IntVal = 1"
| "Cache_DataType_to_tag Cache_DataType.ListVal = 2"
| "Cache_DataType_to_tag Cache_DataType.SetVal = 3"
| "Cache_DataType_to_tag Cache_DataType.HashVal = 4"

definition Cache_DataType_is_collection :: "Cache_DataType \<Rightarrow> bool" where
  "Cache_DataType_is_collection self =
     (case self of
      Cache_DataType.ListVal \<Rightarrow> True
    | Cache_DataType.SetVal \<Rightarrow> True
    | Cache_DataType.HashVal \<Rightarrow> True
    | _ \<Rightarrow> False)"

definition Cache_DataType_is_scalar :: "Cache_DataType \<Rightarrow> bool" where
  "Cache_DataType_is_scalar self =
     (case self of
      Cache_DataType.StringVal \<Rightarrow> True
    | Cache_DataType.IntVal \<Rightarrow> True
    | _ \<Rightarrow> False)"

section \<open>\<open>cache::ErrorCode\<close>\<close>

datatype (plugins only: code) Cache_ErrorCode =
    NotFound
  | TypeMismatch
  | OutOfMemory
  | KeyTooLong
  | ValueTooLarge
  | CasConflict

definition Cache_ErrorCode_from_tag :: "u8 \<Rightarrow> Cache_ErrorCode option" where
  "Cache_ErrorCode_from_tag tag =
     (if tag = 0 then Some Cache_ErrorCode.NotFound
      else if tag = 1 then Some Cache_ErrorCode.TypeMismatch
      else if tag = 2 then Some Cache_ErrorCode.OutOfMemory
      else if tag = 3 then Some Cache_ErrorCode.KeyTooLong
      else if tag = 4 then Some Cache_ErrorCode.ValueTooLarge
      else if tag = 5 then Some Cache_ErrorCode.CasConflict
      else option.None)"

primrec Cache_ErrorCode_to_tag :: "Cache_ErrorCode \<Rightarrow> u8" where
  "Cache_ErrorCode_to_tag Cache_ErrorCode.NotFound = 0"
| "Cache_ErrorCode_to_tag Cache_ErrorCode.TypeMismatch = 1"
| "Cache_ErrorCode_to_tag Cache_ErrorCode.OutOfMemory = 2"
| "Cache_ErrorCode_to_tag Cache_ErrorCode.KeyTooLong = 3"
| "Cache_ErrorCode_to_tag Cache_ErrorCode.ValueTooLarge = 4"
| "Cache_ErrorCode_to_tag Cache_ErrorCode.CasConflict = 5"

definition Cache_ErrorCode_is_transient :: "Cache_ErrorCode \<Rightarrow> bool" where
  "Cache_ErrorCode_is_transient self =
     (case self of
      Cache_ErrorCode.OutOfMemory \<Rightarrow> True
    | Cache_ErrorCode.CasConflict \<Rightarrow> True
    | _ \<Rightarrow> False)"

definition Cache_ErrorCode_is_client_error :: "Cache_ErrorCode \<Rightarrow> bool" where
  "Cache_ErrorCode_is_client_error self =
     (case self of
      Cache_ErrorCode.TypeMismatch \<Rightarrow> True
    | Cache_ErrorCode.KeyTooLong \<Rightarrow> True
    | Cache_ErrorCode.ValueTooLarge \<Rightarrow> True
    | _ \<Rightarrow> False)"

section \<open>\<open>cache::ReplicationMode\<close>\<close>

datatype (plugins only: code) ReplicationMode =
    NoneV
  | Primary
  | Replica
  | Sentinel

definition ReplicationMode_from_tag :: "u8 \<Rightarrow> ReplicationMode option" where
  "ReplicationMode_from_tag tag =
     (if tag = 0 then Some ReplicationMode.NoneV
      else if tag = 1 then Some ReplicationMode.Primary
      else if tag = 2 then Some ReplicationMode.Replica
      else if tag = 3 then Some ReplicationMode.Sentinel
      else option.None)"

primrec ReplicationMode_to_tag :: "ReplicationMode \<Rightarrow> u8" where
  "ReplicationMode_to_tag ReplicationMode.NoneV = 0"
| "ReplicationMode_to_tag ReplicationMode.Primary = 1"
| "ReplicationMode_to_tag ReplicationMode.Replica = 2"
| "ReplicationMode_to_tag ReplicationMode.Sentinel = 3"

definition ReplicationMode_accepts_writes :: "ReplicationMode \<Rightarrow> bool" where
  "ReplicationMode_accepts_writes self =
     (case self of
      ReplicationMode.NoneV \<Rightarrow> True
    | ReplicationMode.Primary \<Rightarrow> True
    | _ \<Rightarrow> False)"

definition ReplicationMode_serves_data :: "ReplicationMode \<Rightarrow> bool" where
  "ReplicationMode_serves_data self = (\<not>
     (case self of
      ReplicationMode.Sentinel \<Rightarrow> True
    | _ \<Rightarrow> False))"

section \<open>\<open>backup::BackupType\<close>\<close>

datatype (plugins only: code) BackupType =
    Full
  | Incremental
  | Differential
  | Snapshot
  | Mirror

definition BackupType_from_tag :: "u8 \<Rightarrow> BackupType option" where
  "BackupType_from_tag tag =
     (if tag = 0 then Some BackupType.Full
      else if tag = 1 then Some BackupType.Incremental
      else if tag = 2 then Some BackupType.Differential
      else if tag = 3 then Some BackupType.Snapshot
      else if tag = 4 then Some BackupType.Mirror
      else option.None)"

primrec BackupType_to_tag :: "BackupType \<Rightarrow> u8" where
  "BackupType_to_tag BackupType.Full = 0"
| "BackupType_to_tag BackupType.Incremental = 1"
| "BackupType_to_tag BackupType.Differential = 2"
| "BackupType_to_tag BackupType.Snapshot = 3"
| "BackupType_to_tag BackupType.Mirror = 4"

section \<open>\<open>backup::ScheduleFreq\<close>\<close>

datatype (plugins only: code) ScheduleFreq =
    Hourly
  | Daily
  | Weekly
  | Monthly
  | OnDemand

definition ScheduleFreq_from_tag :: "u8 \<Rightarrow> ScheduleFreq option" where
  "ScheduleFreq_from_tag tag =
     (if tag = 0 then Some ScheduleFreq.Hourly
      else if tag = 1 then Some ScheduleFreq.Daily
      else if tag = 2 then Some ScheduleFreq.Weekly
      else if tag = 3 then Some ScheduleFreq.Monthly
      else if tag = 4 then Some ScheduleFreq.OnDemand
      else option.None)"

primrec ScheduleFreq_to_tag :: "ScheduleFreq \<Rightarrow> u8" where
  "ScheduleFreq_to_tag ScheduleFreq.Hourly = 0"
| "ScheduleFreq_to_tag ScheduleFreq.Daily = 1"
| "ScheduleFreq_to_tag ScheduleFreq.Weekly = 2"
| "ScheduleFreq_to_tag ScheduleFreq.Monthly = 3"
| "ScheduleFreq_to_tag ScheduleFreq.OnDemand = 4"

section \<open>\<open>backup::CompressionAlg\<close>\<close>

datatype (plugins only: code) CompressionAlg =
    NoneV
  | Gzip
  | Zstd
  | Lz4
  | Xz

definition CompressionAlg_from_tag :: "u8 \<Rightarrow> CompressionAlg option" where
  "CompressionAlg_from_tag tag =
     (if tag = 0 then Some CompressionAlg.NoneV
      else if tag = 1 then Some CompressionAlg.Gzip
      else if tag = 2 then Some CompressionAlg.Zstd
      else if tag = 3 then Some CompressionAlg.Lz4
      else if tag = 4 then Some CompressionAlg.Xz
      else option.None)"

primrec CompressionAlg_to_tag :: "CompressionAlg \<Rightarrow> u8" where
  "CompressionAlg_to_tag CompressionAlg.NoneV = 0"
| "CompressionAlg_to_tag CompressionAlg.Gzip = 1"
| "CompressionAlg_to_tag CompressionAlg.Zstd = 2"
| "CompressionAlg_to_tag CompressionAlg.Lz4 = 3"
| "CompressionAlg_to_tag CompressionAlg.Xz = 4"

section \<open>\<open>backup::EncryptionAlg\<close>\<close>

datatype (plugins only: code) EncryptionAlg =
    NoEncryption
  | Aes256Gcm
  | ChaCha20Poly1305

definition EncryptionAlg_from_tag :: "u8 \<Rightarrow> EncryptionAlg option" where
  "EncryptionAlg_from_tag tag =
     (if tag = 0 then Some EncryptionAlg.NoEncryption
      else if tag = 1 then Some EncryptionAlg.Aes256Gcm
      else if tag = 2 then Some EncryptionAlg.ChaCha20Poly1305
      else option.None)"

primrec EncryptionAlg_to_tag :: "EncryptionAlg \<Rightarrow> u8" where
  "EncryptionAlg_to_tag EncryptionAlg.NoEncryption = 0"
| "EncryptionAlg_to_tag EncryptionAlg.Aes256Gcm = 1"
| "EncryptionAlg_to_tag EncryptionAlg.ChaCha20Poly1305 = 2"

section \<open>\<open>backup::BackupState\<close>\<close>

datatype (plugins only: code) BackupState =
    Idle
  | Running
  | Verifying
  | Complete
  | Failed
  | Cancelled

definition BackupState_from_tag :: "u8 \<Rightarrow> BackupState option" where
  "BackupState_from_tag tag =
     (if tag = 0 then Some BackupState.Idle
      else if tag = 1 then Some BackupState.Running
      else if tag = 2 then Some BackupState.Verifying
      else if tag = 3 then Some BackupState.Complete
      else if tag = 4 then Some BackupState.Failed
      else if tag = 5 then Some BackupState.Cancelled
      else option.None)"

primrec BackupState_to_tag :: "BackupState \<Rightarrow> u8" where
  "BackupState_to_tag BackupState.Idle = 0"
| "BackupState_to_tag BackupState.Running = 1"
| "BackupState_to_tag BackupState.Verifying = 2"
| "BackupState_to_tag BackupState.Complete = 3"
| "BackupState_to_tag BackupState.Failed = 4"
| "BackupState_to_tag BackupState.Cancelled = 5"

section \<open>\<open>backup::RetentionPolicy\<close>\<close>

datatype (plugins only: code) RetentionPolicy =
    KeepAll
  | KeepLast
  | KeepDaily
  | KeepWeekly
  | KeepMonthly

definition RetentionPolicy_from_tag :: "u8 \<Rightarrow> RetentionPolicy option" where
  "RetentionPolicy_from_tag tag =
     (if tag = 0 then Some RetentionPolicy.KeepAll
      else if tag = 1 then Some RetentionPolicy.KeepLast
      else if tag = 2 then Some RetentionPolicy.KeepDaily
      else if tag = 3 then Some RetentionPolicy.KeepWeekly
      else if tag = 4 then Some RetentionPolicy.KeepMonthly
      else option.None)"

primrec RetentionPolicy_to_tag :: "RetentionPolicy \<Rightarrow> u8" where
  "RetentionPolicy_to_tag RetentionPolicy.KeepAll = 0"
| "RetentionPolicy_to_tag RetentionPolicy.KeepLast = 1"
| "RetentionPolicy_to_tag RetentionPolicy.KeepDaily = 2"
| "RetentionPolicy_to_tag RetentionPolicy.KeepWeekly = 3"
| "RetentionPolicy_to_tag RetentionPolicy.KeepMonthly = 4"

definition GIT_PORT :: "u16" where
  "GIT_PORT = 9418"

section \<open>\<open>git::Command\<close>\<close>

datatype (plugins only: code) Git_Command =
    UploadPack
  | ReceivePack
  | UploadArchive

definition Git_Command_from_tag :: "u8 \<Rightarrow> Git_Command option" where
  "Git_Command_from_tag tag =
     (if tag = 0 then Some Git_Command.UploadPack
      else if tag = 1 then Some Git_Command.ReceivePack
      else if tag = 2 then Some Git_Command.UploadArchive
      else option.None)"

primrec Git_Command_to_tag :: "Git_Command \<Rightarrow> u8" where
  "Git_Command_to_tag Git_Command.UploadPack = 0"
| "Git_Command_to_tag Git_Command.ReceivePack = 1"
| "Git_Command_to_tag Git_Command.UploadArchive = 2"

section \<open>\<open>git::PacketType\<close>\<close>

datatype (plugins only: code) Git_PacketType =
    Flush
  | Delimiter
  | ResponseEnd
  | Data
  | PktError
  | SidebandData
  | SidebandProgress
  | SidebandError

definition Git_PacketType_from_tag :: "u8 \<Rightarrow> Git_PacketType option" where
  "Git_PacketType_from_tag tag =
     (if tag = 0 then Some Git_PacketType.Flush
      else if tag = 1 then Some Git_PacketType.Delimiter
      else if tag = 2 then Some Git_PacketType.ResponseEnd
      else if tag = 3 then Some Git_PacketType.Data
      else if tag = 4 then Some Git_PacketType.PktError
      else if tag = 5 then Some Git_PacketType.SidebandData
      else if tag = 6 then Some Git_PacketType.SidebandProgress
      else if tag = 7 then Some Git_PacketType.SidebandError
      else option.None)"

primrec Git_PacketType_to_tag :: "Git_PacketType \<Rightarrow> u8" where
  "Git_PacketType_to_tag Git_PacketType.Flush = 0"
| "Git_PacketType_to_tag Git_PacketType.Delimiter = 1"
| "Git_PacketType_to_tag Git_PacketType.ResponseEnd = 2"
| "Git_PacketType_to_tag Git_PacketType.Data = 3"
| "Git_PacketType_to_tag Git_PacketType.PktError = 4"
| "Git_PacketType_to_tag Git_PacketType.SidebandData = 5"
| "Git_PacketType_to_tag Git_PacketType.SidebandProgress = 6"
| "Git_PacketType_to_tag Git_PacketType.SidebandError = 7"

section \<open>\<open>git::RefType\<close>\<close>

datatype (plugins only: code) RefType =
    Branch
  | Tag
  | Head
  | Remote
  | GitNote

definition RefType_from_tag :: "u8 \<Rightarrow> RefType option" where
  "RefType_from_tag tag =
     (if tag = 0 then Some RefType.Branch
      else if tag = 1 then Some RefType.Tag
      else if tag = 2 then Some RefType.Head
      else if tag = 3 then Some RefType.Remote
      else if tag = 4 then Some RefType.GitNote
      else option.None)"

primrec RefType_to_tag :: "RefType \<Rightarrow> u8" where
  "RefType_to_tag RefType.Branch = 0"
| "RefType_to_tag RefType.Tag = 1"
| "RefType_to_tag RefType.Head = 2"
| "RefType_to_tag RefType.Remote = 3"
| "RefType_to_tag RefType.GitNote = 4"

section \<open>\<open>git::Capability\<close>\<close>

datatype (plugins only: code) Capability =
    MultiAck
  | ThinPack
  | SideBand64k
  | OfsDelta
  | Shallow
  | DeepenSince
  | DeepenNot
  | FilterSpec
  | ObjectFormat

definition Capability_from_tag :: "u8 \<Rightarrow> Capability option" where
  "Capability_from_tag tag =
     (if tag = 0 then Some Capability.MultiAck
      else if tag = 1 then Some Capability.ThinPack
      else if tag = 2 then Some Capability.SideBand64k
      else if tag = 3 then Some Capability.OfsDelta
      else if tag = 4 then Some Capability.Shallow
      else if tag = 5 then Some Capability.DeepenSince
      else if tag = 6 then Some Capability.DeepenNot
      else if tag = 7 then Some Capability.FilterSpec
      else if tag = 8 then Some Capability.ObjectFormat
      else option.None)"

primrec Capability_to_tag :: "Capability \<Rightarrow> u8" where
  "Capability_to_tag Capability.MultiAck = 0"
| "Capability_to_tag Capability.ThinPack = 1"
| "Capability_to_tag Capability.SideBand64k = 2"
| "Capability_to_tag Capability.OfsDelta = 3"
| "Capability_to_tag Capability.Shallow = 4"
| "Capability_to_tag Capability.DeepenSince = 5"
| "Capability_to_tag Capability.DeepenNot = 6"
| "Capability_to_tag Capability.FilterSpec = 7"
| "Capability_to_tag Capability.ObjectFormat = 8"

section \<open>\<open>git::HookResult\<close>\<close>

datatype (plugins only: code) HookResult =
    Accept
  | Reject

definition HookResult_from_tag :: "u8 \<Rightarrow> HookResult option" where
  "HookResult_from_tag tag =
     (if tag = 0 then Some HookResult.Accept
      else if tag = 1 then Some HookResult.Reject
      else option.None)"

primrec HookResult_to_tag :: "HookResult \<Rightarrow> u8" where
  "HookResult_to_tag HookResult.Accept = 0"
| "HookResult_to_tag HookResult.Reject = 1"

section \<open>\<open>git::ServerState\<close>\<close>

datatype (plugins only: code) Git_ServerState =
    Idle
  | Discovery
  | Negotiating
  | Transfer
  | Shutdown

definition Git_ServerState_from_tag :: "u8 \<Rightarrow> Git_ServerState option" where
  "Git_ServerState_from_tag tag =
     (if tag = 0 then Some Git_ServerState.Idle
      else if tag = 1 then Some Git_ServerState.Discovery
      else if tag = 2 then Some Git_ServerState.Negotiating
      else if tag = 3 then Some Git_ServerState.Transfer
      else if tag = 4 then Some Git_ServerState.Shutdown
      else option.None)"

primrec Git_ServerState_to_tag :: "Git_ServerState \<Rightarrow> u8" where
  "Git_ServerState_to_tag Git_ServerState.Idle = 0"
| "Git_ServerState_to_tag Git_ServerState.Discovery = 1"
| "Git_ServerState_to_tag Git_ServerState.Negotiating = 2"
| "Git_ServerState_to_tag Git_ServerState.Transfer = 3"
| "Git_ServerState_to_tag Git_ServerState.Shutdown = 4"

section \<open>\<open>federation::ActivityType\<close>\<close>

datatype (plugins only: code) ActivityType =
    Create
  | Update
  | Delete
  | Follow
  | Accept
  | Reject
  | Announce
  | Like
  | Undo
  | Block
  | Flag

definition ActivityType_from_tag :: "u8 \<Rightarrow> ActivityType option" where
  "ActivityType_from_tag tag =
     (if tag = 0 then Some ActivityType.Create
      else if tag = 1 then Some ActivityType.Update
      else if tag = 2 then Some ActivityType.Delete
      else if tag = 3 then Some ActivityType.Follow
      else if tag = 4 then Some ActivityType.Accept
      else if tag = 5 then Some ActivityType.Reject
      else if tag = 6 then Some ActivityType.Announce
      else if tag = 7 then Some ActivityType.Like
      else if tag = 8 then Some ActivityType.Undo
      else if tag = 9 then Some ActivityType.Block
      else if tag = 10 then Some ActivityType.Flag
      else option.None)"

primrec ActivityType_to_tag :: "ActivityType \<Rightarrow> u8" where
  "ActivityType_to_tag ActivityType.Create = 0"
| "ActivityType_to_tag ActivityType.Update = 1"
| "ActivityType_to_tag ActivityType.Delete = 2"
| "ActivityType_to_tag ActivityType.Follow = 3"
| "ActivityType_to_tag ActivityType.Accept = 4"
| "ActivityType_to_tag ActivityType.Reject = 5"
| "ActivityType_to_tag ActivityType.Announce = 6"
| "ActivityType_to_tag ActivityType.Like = 7"
| "ActivityType_to_tag ActivityType.Undo = 8"
| "ActivityType_to_tag ActivityType.Block = 9"
| "ActivityType_to_tag ActivityType.Flag = 10"

section \<open>\<open>federation::ActorType\<close>\<close>

datatype (plugins only: code) ActorType =
    Person
  | Service
  | Application
  | Group
  | Organization

definition ActorType_from_tag :: "u8 \<Rightarrow> ActorType option" where
  "ActorType_from_tag tag =
     (if tag = 0 then Some ActorType.Person
      else if tag = 1 then Some ActorType.Service
      else if tag = 2 then Some ActorType.Application
      else if tag = 3 then Some ActorType.Group
      else if tag = 4 then Some ActorType.Organization
      else option.None)"

primrec ActorType_to_tag :: "ActorType \<Rightarrow> u8" where
  "ActorType_to_tag ActorType.Person = 0"
| "ActorType_to_tag ActorType.Service = 1"
| "ActorType_to_tag ActorType.Application = 2"
| "ActorType_to_tag ActorType.Group = 3"
| "ActorType_to_tag ActorType.Organization = 4"

section \<open>\<open>federation::DeliveryStatus\<close>\<close>

datatype (plugins only: code) DeliveryStatus =
    Pending
  | Delivered
  | Failed
  | Rejected
  | Deferred

definition DeliveryStatus_from_tag :: "u8 \<Rightarrow> DeliveryStatus option" where
  "DeliveryStatus_from_tag tag =
     (if tag = 0 then Some DeliveryStatus.Pending
      else if tag = 1 then Some DeliveryStatus.Delivered
      else if tag = 2 then Some DeliveryStatus.Failed
      else if tag = 3 then Some DeliveryStatus.Rejected
      else if tag = 4 then Some DeliveryStatus.Deferred
      else option.None)"

primrec DeliveryStatus_to_tag :: "DeliveryStatus \<Rightarrow> u8" where
  "DeliveryStatus_to_tag DeliveryStatus.Pending = 0"
| "DeliveryStatus_to_tag DeliveryStatus.Delivered = 1"
| "DeliveryStatus_to_tag DeliveryStatus.Failed = 2"
| "DeliveryStatus_to_tag DeliveryStatus.Rejected = 3"
| "DeliveryStatus_to_tag DeliveryStatus.Deferred = 4"

section \<open>\<open>federation::TrustLevel\<close>\<close>

datatype (plugins only: code) TrustLevel =
    SelfSigned
  | PeerVerified
  | FederationTrusted
  | Revoked
  | Unknown

definition TrustLevel_from_tag :: "u8 \<Rightarrow> TrustLevel option" where
  "TrustLevel_from_tag tag =
     (if tag = 0 then Some TrustLevel.SelfSigned
      else if tag = 1 then Some TrustLevel.PeerVerified
      else if tag = 2 then Some TrustLevel.FederationTrusted
      else if tag = 3 then Some TrustLevel.Revoked
      else if tag = 4 then Some TrustLevel.Unknown
      else option.None)"

primrec TrustLevel_to_tag :: "TrustLevel \<Rightarrow> u8" where
  "TrustLevel_to_tag TrustLevel.SelfSigned = 0"
| "TrustLevel_to_tag TrustLevel.PeerVerified = 1"
| "TrustLevel_to_tag TrustLevel.FederationTrusted = 2"
| "TrustLevel_to_tag TrustLevel.Revoked = 3"
| "TrustLevel_to_tag TrustLevel.Unknown = 4"

section \<open>\<open>federation::ObjectType\<close>\<close>

datatype (plugins only: code) Federation_ObjectType =
    Note
  | Article
  | Image
  | Video
  | Audio
  | Document
  | Event
  | Collection
  | OrderedCollection

definition Federation_ObjectType_from_tag :: "u8 \<Rightarrow> Federation_ObjectType option" where
  "Federation_ObjectType_from_tag tag =
     (if tag = 0 then Some Federation_ObjectType.Note
      else if tag = 1 then Some Federation_ObjectType.Article
      else if tag = 2 then Some Federation_ObjectType.Image
      else if tag = 3 then Some Federation_ObjectType.Video
      else if tag = 4 then Some Federation_ObjectType.Audio
      else if tag = 5 then Some Federation_ObjectType.Document
      else if tag = 6 then Some Federation_ObjectType.Event
      else if tag = 7 then Some Federation_ObjectType.Collection
      else if tag = 8 then Some Federation_ObjectType.OrderedCollection
      else option.None)"

primrec Federation_ObjectType_to_tag :: "Federation_ObjectType \<Rightarrow> u8" where
  "Federation_ObjectType_to_tag Federation_ObjectType.Note = 0"
| "Federation_ObjectType_to_tag Federation_ObjectType.Article = 1"
| "Federation_ObjectType_to_tag Federation_ObjectType.Image = 2"
| "Federation_ObjectType_to_tag Federation_ObjectType.Video = 3"
| "Federation_ObjectType_to_tag Federation_ObjectType.Audio = 4"
| "Federation_ObjectType_to_tag Federation_ObjectType.Document = 5"
| "Federation_ObjectType_to_tag Federation_ObjectType.Event = 6"
| "Federation_ObjectType_to_tag Federation_ObjectType.Collection = 7"
| "Federation_ObjectType_to_tag Federation_ObjectType.OrderedCollection = 8"

section \<open>\<open>federation::ServerState\<close>\<close>

datatype (plugins only: code) Federation_ServerState =
    Idle
  | Active
  | Processing
  | Delivering
  | Shutdown

definition Federation_ServerState_from_tag :: "u8 \<Rightarrow> Federation_ServerState option" where
  "Federation_ServerState_from_tag tag =
     (if tag = 0 then Some Federation_ServerState.Idle
      else if tag = 1 then Some Federation_ServerState.Active
      else if tag = 2 then Some Federation_ServerState.Processing
      else if tag = 3 then Some Federation_ServerState.Delivering
      else if tag = 4 then Some Federation_ServerState.Shutdown
      else option.None)"

primrec Federation_ServerState_to_tag :: "Federation_ServerState \<Rightarrow> u8" where
  "Federation_ServerState_to_tag Federation_ServerState.Idle = 0"
| "Federation_ServerState_to_tag Federation_ServerState.Active = 1"
| "Federation_ServerState_to_tag Federation_ServerState.Processing = 2"
| "Federation_ServerState_to_tag Federation_ServerState.Delivering = 3"
| "Federation_ServerState_to_tag Federation_ServerState.Shutdown = 4"

section \<open>Tags and enumerations\<close>

interpretation Dbserver_QueryType_codec: tag_codec Dbserver_QueryType_to_tag Dbserver_QueryType_from_tag 12
  by (unfold_locales, (case_tac x; simp add: Dbserver_QueryType_from_tag_def), unfold Dbserver_QueryType_from_tag_def,
    (erule codec_arm, simp only: Dbserver_QueryType_to_tag.simps)+, erule codec_end, (case_tac x; simp), simp add: codec_eval)

interpretation Dbserver_DataType_codec: tag_codec Dbserver_DataType_to_tag Dbserver_DataType_from_tag 9
  by (unfold_locales, (case_tac x; simp add: Dbserver_DataType_from_tag_def), unfold Dbserver_DataType_from_tag_def,
    (erule codec_arm, simp only: Dbserver_DataType_to_tag.simps)+, erule codec_end, (case_tac x; simp), simp add: codec_eval)

interpretation IsolationLevel_codec: tag_codec IsolationLevel_to_tag IsolationLevel_from_tag 4
  by (unfold_locales, (case_tac x; simp add: IsolationLevel_from_tag_def), unfold IsolationLevel_from_tag_def,
    (erule codec_arm, simp only: IsolationLevel_to_tag.simps)+, erule codec_end, (case_tac x; simp), simp add: codec_eval)

interpretation Dbserver_ErrorCode_codec: tag_codec Dbserver_ErrorCode_to_tag Dbserver_ErrorCode_from_tag 10
  by (unfold_locales, (case_tac x; simp add: Dbserver_ErrorCode_from_tag_def), unfold Dbserver_ErrorCode_from_tag_def,
    (erule codec_arm, simp only: Dbserver_ErrorCode_to_tag.simps)+, erule codec_end, (case_tac x; simp), simp add: codec_eval)

interpretation JoinType_codec: tag_codec JoinType_to_tag JoinType_from_tag 5
  by (unfold_locales, (case_tac x; simp add: JoinType_from_tag_def), unfold JoinType_from_tag_def,
    (erule codec_arm, simp only: JoinType_to_tag.simps)+, erule codec_end, (case_tac x; simp), simp add: codec_eval)

interpretation Dbserver_SessionState_codec: tag_codec Dbserver_SessionState_to_tag Dbserver_SessionState_from_tag 6
  by (unfold_locales, (case_tac x; simp add: Dbserver_SessionState_from_tag_def), unfold Dbserver_SessionState_from_tag_def,
    (erule codec_arm, simp only: Dbserver_SessionState_to_tag.simps)+, erule codec_end, (case_tac x; simp), simp add: codec_eval)

interpretation ElementType_codec: tag_codec ElementType_to_tag ElementType_from_tag 5
  by (unfold_locales, (case_tac x; simp add: ElementType_from_tag_def), unfold ElementType_from_tag_def,
    (erule codec_arm, simp only: ElementType_to_tag.simps)+, erule codec_end, (case_tac x; simp), simp add: codec_eval)

interpretation QueryLanguage_codec: tag_codec QueryLanguage_to_tag QueryLanguage_from_tag 4
  by (unfold_locales, (case_tac x; simp add: QueryLanguage_from_tag_def), unfold QueryLanguage_from_tag_def,
    (erule codec_arm, simp only: QueryLanguage_to_tag.simps)+, erule codec_end, (case_tac x; simp), simp add: codec_eval)

interpretation TraversalStrategy_codec: tag_codec TraversalStrategy_to_tag TraversalStrategy_from_tag 5
  by (unfold_locales, (case_tac x; simp add: TraversalStrategy_from_tag_def), unfold TraversalStrategy_from_tag_def,
    (erule codec_arm, simp only: TraversalStrategy_to_tag.simps)+, erule codec_end, (case_tac x; simp), simp add: codec_eval)

interpretation Consistency_codec: tag_codec Consistency_to_tag Consistency_from_tag 4
  by (unfold_locales, (case_tac x; simp add: Consistency_from_tag_def), unfold Consistency_from_tag_def,
    (erule codec_arm, simp only: Consistency_to_tag.simps)+, erule codec_end, (case_tac x; simp), simp add: codec_eval)

interpretation Graphdb_ErrorCode_codec: tag_codec Graphdb_ErrorCode_to_tag Graphdb_ErrorCode_from_tag 7
  by (unfold_locales, (case_tac x; simp add: Graphdb_ErrorCode_from_tag_def), unfold Graphdb_ErrorCode_from_tag_def,
    (erule codec_arm, simp only: Graphdb_ErrorCode_to_tag.simps)+, erule codec_end, (case_tac x; simp), simp add: codec_eval)

interpretation Graphdb_SessionState_codec: tag_codec Graphdb_SessionState_to_tag Graphdb_SessionState_from_tag 5
  by (unfold_locales, (case_tac x; simp add: Graphdb_SessionState_from_tag_def), unfold Graphdb_SessionState_from_tag_def,
    (erule codec_arm, simp only: Graphdb_SessionState_to_tag.simps)+, erule codec_end, (case_tac x; simp), simp add: codec_eval)

interpretation Statement_codec: tag_codec Statement_to_tag Statement_from_tag 2
  by (unfold_locales, (case_tac x; simp add: Statement_from_tag_def), unfold Statement_from_tag_def,
    (erule codec_arm, simp only: Statement_to_tag.simps)+, erule codec_end, (case_tac x; simp), simp add: codec_eval)

interpretation IndexOrder_codec: tag_codec IndexOrder_to_tag IndexOrder_from_tag 6
  by (unfold_locales, (case_tac x; simp add: IndexOrder_from_tag_def), unfold IndexOrder_from_tag_def,
    (erule codec_arm, simp only: IndexOrder_to_tag.simps)+, erule codec_end, (case_tac x; simp), simp add: codec_eval)

interpretation StorageBackend_codec: tag_codec StorageBackend_to_tag StorageBackend_from_tag 4
  by (unfold_locales, (case_tac x; simp add: StorageBackend_from_tag_def), unfold StorageBackend_from_tag_def,
    (erule codec_arm, simp only: StorageBackend_to_tag.simps)+, erule codec_end, (case_tac x; simp), simp add: codec_eval)

interpretation ImportFormat_codec: tag_codec ImportFormat_to_tag ImportFormat_from_tag 6
  by (unfold_locales, (case_tac x; simp add: ImportFormat_from_tag_def), unfold ImportFormat_from_tag_def,
    (erule codec_arm, simp only: ImportFormat_to_tag.simps)+, erule codec_end, (case_tac x; simp), simp add: codec_eval)

interpretation TransactionIsolation_codec: tag_codec TransactionIsolation_to_tag TransactionIsolation_from_tag 3
  by (unfold_locales, (case_tac x; simp add: TransactionIsolation_from_tag_def), unfold TransactionIsolation_from_tag_def,
    (erule codec_arm, simp only: TransactionIsolation_to_tag.simps)+, erule codec_end, (case_tac x; simp), simp add: codec_eval)

interpretation StoreState_codec: tag_codec StoreState_to_tag StoreState_from_tag 5
  by (unfold_locales, (case_tac x; simp add: StoreState_from_tag_def), unfold StoreState_from_tag_def,
    (erule codec_arm, simp only: StoreState_to_tag.simps)+, erule codec_end, (case_tac x; simp), simp add: codec_eval)

interpretation SparqlQueryType_codec: tag_codec SparqlQueryType_to_tag SparqlQueryType_from_tag 4
  by (unfold_locales, (case_tac x; simp add: SparqlQueryType_from_tag_def), unfold SparqlQueryType_from_tag_def,
    (erule codec_arm, simp only: SparqlQueryType_to_tag.simps)+, erule codec_end, (case_tac x; simp), simp add: codec_eval)

interpretation UpdateType_codec: tag_codec UpdateType_to_tag UpdateType_from_tag 6
  by (unfold_locales, (case_tac x; simp add: UpdateType_from_tag_def), unfold UpdateType_from_tag_def,
    (erule codec_arm, simp only: UpdateType_to_tag.simps)+, erule codec_end, (case_tac x; simp), simp add: codec_eval)

interpretation ResultFormat_codec: tag_codec ResultFormat_to_tag ResultFormat_from_tag 4
  by (unfold_locales, (case_tac x; simp add: ResultFormat_from_tag_def), unfold ResultFormat_from_tag_def,
    (erule codec_arm, simp only: ResultFormat_to_tag.simps)+, erule codec_end, (case_tac x; simp), simp add: codec_eval)

interpretation SparqlErrorType_codec: tag_codec SparqlErrorType_to_tag SparqlErrorType_from_tag 5
  by (unfold_locales, (case_tac x; simp add: SparqlErrorType_from_tag_def), unfold SparqlErrorType_from_tag_def,
    (erule codec_arm, simp only: SparqlErrorType_to_tag.simps)+, erule codec_end, (case_tac x; simp), simp add: codec_eval)

interpretation RdfFormat_codec: tag_codec RdfFormat_to_tag RdfFormat_from_tag 6
  by (unfold_locales, (case_tac x; simp add: RdfFormat_from_tag_def), unfold RdfFormat_from_tag_def,
    (erule codec_arm, simp only: RdfFormat_to_tag.simps)+, erule codec_end, (case_tac x; simp), simp add: codec_eval)

interpretation SemwebResourceType_codec: tag_codec SemwebResourceType_to_tag SemwebResourceType_from_tag 5
  by (unfold_locales, (case_tac x; simp add: SemwebResourceType_from_tag_def), unfold SemwebResourceType_from_tag_def,
    (erule codec_arm, simp only: SemwebResourceType_to_tag.simps)+, erule codec_end, (case_tac x; simp), simp add: codec_eval)

interpretation HttpMethod_codec: tag_codec HttpMethod_to_tag HttpMethod_from_tag 5
  by (unfold_locales, (case_tac x; simp add: HttpMethod_from_tag_def), unfold HttpMethod_from_tag_def,
    (erule codec_arm, simp only: HttpMethod_to_tag.simps)+, erule codec_end, (case_tac x; simp), simp add: codec_eval)

interpretation ContentNegotiation_codec: tag_codec ContentNegotiation_to_tag ContentNegotiation_from_tag 4
  by (unfold_locales, (case_tac x; simp add: ContentNegotiation_from_tag_def), unfold ContentNegotiation_from_tag_def,
    (erule codec_arm, simp only: ContentNegotiation_to_tag.simps)+, erule codec_end, (case_tac x; simp), simp add: codec_eval)

interpretation SemwebErrorCode_codec: tag_codec SemwebErrorCode_to_tag SemwebErrorCode_from_tag 5
  by (unfold_locales, (case_tac x; simp add: SemwebErrorCode_from_tag_def), unfold SemwebErrorCode_from_tag_def,
    (erule codec_arm, simp only: SemwebErrorCode_to_tag.simps)+, erule codec_end, (case_tac x; simp), simp add: codec_eval)

interpretation Cache_Command_codec: tag_codec Cache_Command_to_tag Cache_Command_from_tag 13
  by (unfold_locales, (case_tac x; simp add: Cache_Command_from_tag_def), unfold Cache_Command_from_tag_def,
    (erule codec_arm, simp only: Cache_Command_to_tag.simps)+, erule codec_end, (case_tac x; simp), simp add: codec_eval)

interpretation EvictionPolicy_codec: tag_codec EvictionPolicy_to_tag EvictionPolicy_from_tag 5
  by (unfold_locales, (case_tac x; simp add: EvictionPolicy_from_tag_def), unfold EvictionPolicy_from_tag_def,
    (erule codec_arm, simp only: EvictionPolicy_to_tag.simps)+, erule codec_end, (case_tac x; simp), simp add: codec_eval)

interpretation Cache_DataType_codec: tag_codec Cache_DataType_to_tag Cache_DataType_from_tag 5
  by (unfold_locales, (case_tac x; simp add: Cache_DataType_from_tag_def), unfold Cache_DataType_from_tag_def,
    (erule codec_arm, simp only: Cache_DataType_to_tag.simps)+, erule codec_end, (case_tac x; simp), simp add: codec_eval)

interpretation Cache_ErrorCode_codec: tag_codec Cache_ErrorCode_to_tag Cache_ErrorCode_from_tag 6
  by (unfold_locales, (case_tac x; simp add: Cache_ErrorCode_from_tag_def), unfold Cache_ErrorCode_from_tag_def,
    (erule codec_arm, simp only: Cache_ErrorCode_to_tag.simps)+, erule codec_end, (case_tac x; simp), simp add: codec_eval)

interpretation ReplicationMode_codec: tag_codec ReplicationMode_to_tag ReplicationMode_from_tag 4
  by (unfold_locales, (case_tac x; simp add: ReplicationMode_from_tag_def), unfold ReplicationMode_from_tag_def,
    (erule codec_arm, simp only: ReplicationMode_to_tag.simps)+, erule codec_end, (case_tac x; simp), simp add: codec_eval)

interpretation BackupType_codec: tag_codec BackupType_to_tag BackupType_from_tag 5
  by (unfold_locales, (case_tac x; simp add: BackupType_from_tag_def), unfold BackupType_from_tag_def,
    (erule codec_arm, simp only: BackupType_to_tag.simps)+, erule codec_end, (case_tac x; simp), simp add: codec_eval)

interpretation ScheduleFreq_codec: tag_codec ScheduleFreq_to_tag ScheduleFreq_from_tag 5
  by (unfold_locales, (case_tac x; simp add: ScheduleFreq_from_tag_def), unfold ScheduleFreq_from_tag_def,
    (erule codec_arm, simp only: ScheduleFreq_to_tag.simps)+, erule codec_end, (case_tac x; simp), simp add: codec_eval)

interpretation CompressionAlg_codec: tag_codec CompressionAlg_to_tag CompressionAlg_from_tag 5
  by (unfold_locales, (case_tac x; simp add: CompressionAlg_from_tag_def), unfold CompressionAlg_from_tag_def,
    (erule codec_arm, simp only: CompressionAlg_to_tag.simps)+, erule codec_end, (case_tac x; simp), simp add: codec_eval)

interpretation EncryptionAlg_codec: tag_codec EncryptionAlg_to_tag EncryptionAlg_from_tag 3
  by (unfold_locales, (case_tac x; simp add: EncryptionAlg_from_tag_def), unfold EncryptionAlg_from_tag_def,
    (erule codec_arm, simp only: EncryptionAlg_to_tag.simps)+, erule codec_end, (case_tac x; simp), simp add: codec_eval)

interpretation BackupState_codec: tag_codec BackupState_to_tag BackupState_from_tag 6
  by (unfold_locales, (case_tac x; simp add: BackupState_from_tag_def), unfold BackupState_from_tag_def,
    (erule codec_arm, simp only: BackupState_to_tag.simps)+, erule codec_end, (case_tac x; simp), simp add: codec_eval)

interpretation RetentionPolicy_codec: tag_codec RetentionPolicy_to_tag RetentionPolicy_from_tag 5
  by (unfold_locales, (case_tac x; simp add: RetentionPolicy_from_tag_def), unfold RetentionPolicy_from_tag_def,
    (erule codec_arm, simp only: RetentionPolicy_to_tag.simps)+, erule codec_end, (case_tac x; simp), simp add: codec_eval)

interpretation Git_Command_codec: tag_codec Git_Command_to_tag Git_Command_from_tag 3
  by (unfold_locales, (case_tac x; simp add: Git_Command_from_tag_def), unfold Git_Command_from_tag_def,
    (erule codec_arm, simp only: Git_Command_to_tag.simps)+, erule codec_end, (case_tac x; simp), simp add: codec_eval)

interpretation Git_PacketType_codec: tag_codec Git_PacketType_to_tag Git_PacketType_from_tag 8
  by (unfold_locales, (case_tac x; simp add: Git_PacketType_from_tag_def), unfold Git_PacketType_from_tag_def,
    (erule codec_arm, simp only: Git_PacketType_to_tag.simps)+, erule codec_end, (case_tac x; simp), simp add: codec_eval)

interpretation RefType_codec: tag_codec RefType_to_tag RefType_from_tag 5
  by (unfold_locales, (case_tac x; simp add: RefType_from_tag_def), unfold RefType_from_tag_def,
    (erule codec_arm, simp only: RefType_to_tag.simps)+, erule codec_end, (case_tac x; simp), simp add: codec_eval)

interpretation Capability_codec: tag_codec Capability_to_tag Capability_from_tag 9
  by (unfold_locales, (case_tac x; simp add: Capability_from_tag_def), unfold Capability_from_tag_def,
    (erule codec_arm, simp only: Capability_to_tag.simps)+, erule codec_end, (case_tac x; simp), simp add: codec_eval)

interpretation HookResult_codec: tag_codec HookResult_to_tag HookResult_from_tag 2
  by (unfold_locales, (case_tac x; simp add: HookResult_from_tag_def), unfold HookResult_from_tag_def,
    (erule codec_arm, simp only: HookResult_to_tag.simps)+, erule codec_end, (case_tac x; simp), simp add: codec_eval)

interpretation Git_ServerState_codec: tag_codec Git_ServerState_to_tag Git_ServerState_from_tag 5
  by (unfold_locales, (case_tac x; simp add: Git_ServerState_from_tag_def), unfold Git_ServerState_from_tag_def,
    (erule codec_arm, simp only: Git_ServerState_to_tag.simps)+, erule codec_end, (case_tac x; simp), simp add: codec_eval)

interpretation ActivityType_codec: tag_codec ActivityType_to_tag ActivityType_from_tag 11
  by (unfold_locales, (case_tac x; simp add: ActivityType_from_tag_def), unfold ActivityType_from_tag_def,
    (erule codec_arm, simp only: ActivityType_to_tag.simps)+, erule codec_end, (case_tac x; simp), simp add: codec_eval)

interpretation ActorType_codec: tag_codec ActorType_to_tag ActorType_from_tag 5
  by (unfold_locales, (case_tac x; simp add: ActorType_from_tag_def), unfold ActorType_from_tag_def,
    (erule codec_arm, simp only: ActorType_to_tag.simps)+, erule codec_end, (case_tac x; simp), simp add: codec_eval)

interpretation DeliveryStatus_codec: tag_codec DeliveryStatus_to_tag DeliveryStatus_from_tag 5
  by (unfold_locales, (case_tac x; simp add: DeliveryStatus_from_tag_def), unfold DeliveryStatus_from_tag_def,
    (erule codec_arm, simp only: DeliveryStatus_to_tag.simps)+, erule codec_end, (case_tac x; simp), simp add: codec_eval)

interpretation TrustLevel_codec: tag_codec TrustLevel_to_tag TrustLevel_from_tag 5
  by (unfold_locales, (case_tac x; simp add: TrustLevel_from_tag_def), unfold TrustLevel_from_tag_def,
    (erule codec_arm, simp only: TrustLevel_to_tag.simps)+, erule codec_end, (case_tac x; simp), simp add: codec_eval)

interpretation Federation_ObjectType_codec: tag_codec Federation_ObjectType_to_tag Federation_ObjectType_from_tag 9
  by (unfold_locales, (case_tac x; simp add: Federation_ObjectType_from_tag_def), unfold Federation_ObjectType_from_tag_def,
    (erule codec_arm, simp only: Federation_ObjectType_to_tag.simps)+, erule codec_end, (case_tac x; simp), simp add: codec_eval)

interpretation Federation_ServerState_codec: tag_codec Federation_ServerState_to_tag Federation_ServerState_from_tag 5
  by (unfold_locales, (case_tac x; simp add: Federation_ServerState_from_tag_def), unfold Federation_ServerState_from_tag_def,
    (erule codec_arm, simp only: Federation_ServerState_to_tag.simps)+, erule codec_end, (case_tac x; simp), simp add: codec_eval)

end
