(* ===== verification/File_Types.thy ===== *)
theory File_Types
  imports Tag_Codec
begin

text \<open>
  The types of 8 modules of the Rust crate, under \<open>bindings/rust/src\<close>.

  \<^item> \<open>nfs.rs\<close>: \<open>Operation\<close>, \<open>FileType\<close>,
    \<open>Status\<close>, \<open>NfsState\<close>.
  \<^item> \<open>smb.rs\<close>: \<open>Command\<close>, \<open>Dialect\<close>,
    \<open>ShareType\<close>, \<open>SessionState\<close>.
  \<^item> \<open>tftp.rs\<close>: \<open>Opcode\<close>, \<open>TransferMode\<close>,
    \<open>TftpError\<close>, \<open>TransferState\<close>.
  \<^item> \<open>fileserver.rs\<close>: \<open>FileOperation\<close>, \<open>FileType\<close>,
    \<open>FilePermission\<close>, \<open>LockType\<close>, \<open>FileErrorCode\<close>,
    \<open>SessionState\<close>.
  \<^item> \<open>objectstore.rs\<close>: \<open>Operation\<close>, \<open>StorageClass\<close>,
    \<open>Acl\<close>, \<open>ErrorCode\<close>, \<open>SessionState\<close>.
  \<^item> \<open>webdav.rs\<close>: \<open>Method\<close>, \<open>StatusCode\<close>,
    \<open>LockScope\<close>, \<open>LockType\<close>, \<open>Depth\<close>,
    \<open>PropertyOp\<close>.
  \<^item> \<open>caldav.rs\<close>: \<open>ComponentType\<close>, \<open>CalMethod\<close>,
    \<open>ScheduleStatus\<close>, \<open>CalError\<close>, \<open>ServerState\<close>.
  \<^item> \<open>carddav.rs\<close>: \<open>PropertyType\<close>, \<open>CardMethod\<close>,
    \<open>VCardVersion\<close>, \<open>CardError\<close>, \<open>ServerState\<close>.

  The \<open>Display\<close> implementations and the \<open>ALL\<close> arrays of these modules are not modelled.
\<close>

definition NFS_PORT :: "u16" where
  "NFS_PORT = 2049"

section \<open>\<open>nfs::Operation\<close>\<close>

datatype (plugins only: code) Nfs_Operation =
    Access
  | Close
  | Commit
  | Create
  | GetAttr
  | Link
  | Lock
  | Lookup
  | Open
  | Read
  | ReadDir
  | Remove
  | Rename
  | SetAttr
  | Write

definition Nfs_Operation_from_tag :: "u8 \<Rightarrow> Nfs_Operation option" where
  "Nfs_Operation_from_tag tag =
     (if tag = 0 then Some Nfs_Operation.Access
      else if tag = 1 then Some Nfs_Operation.Close
      else if tag = 2 then Some Nfs_Operation.Commit
      else if tag = 3 then Some Nfs_Operation.Create
      else if tag = 4 then Some Nfs_Operation.GetAttr
      else if tag = 5 then Some Nfs_Operation.Link
      else if tag = 6 then Some Nfs_Operation.Lock
      else if tag = 7 then Some Nfs_Operation.Lookup
      else if tag = 8 then Some Nfs_Operation.Open
      else if tag = 9 then Some Nfs_Operation.Read
      else if tag = 10 then Some Nfs_Operation.ReadDir
      else if tag = 11 then Some Nfs_Operation.Remove
      else if tag = 12 then Some Nfs_Operation.Rename
      else if tag = 13 then Some Nfs_Operation.SetAttr
      else if tag = 14 then Some Nfs_Operation.Write
      else option.None)"

primrec Nfs_Operation_to_tag :: "Nfs_Operation \<Rightarrow> u8" where
  "Nfs_Operation_to_tag Nfs_Operation.Access = 0"
| "Nfs_Operation_to_tag Nfs_Operation.Close = 1"
| "Nfs_Operation_to_tag Nfs_Operation.Commit = 2"
| "Nfs_Operation_to_tag Nfs_Operation.Create = 3"
| "Nfs_Operation_to_tag Nfs_Operation.GetAttr = 4"
| "Nfs_Operation_to_tag Nfs_Operation.Link = 5"
| "Nfs_Operation_to_tag Nfs_Operation.Lock = 6"
| "Nfs_Operation_to_tag Nfs_Operation.Lookup = 7"
| "Nfs_Operation_to_tag Nfs_Operation.Open = 8"
| "Nfs_Operation_to_tag Nfs_Operation.Read = 9"
| "Nfs_Operation_to_tag Nfs_Operation.ReadDir = 10"
| "Nfs_Operation_to_tag Nfs_Operation.Remove = 11"
| "Nfs_Operation_to_tag Nfs_Operation.Rename = 12"
| "Nfs_Operation_to_tag Nfs_Operation.SetAttr = 13"
| "Nfs_Operation_to_tag Nfs_Operation.Write = 14"

definition Nfs_Operation_is_write :: "Nfs_Operation \<Rightarrow> bool" where
  "Nfs_Operation_is_write self =
     (case self of
      Nfs_Operation.Create \<Rightarrow> True
    | Nfs_Operation.Link \<Rightarrow> True
    | Nfs_Operation.Remove \<Rightarrow> True
    | Nfs_Operation.Rename \<Rightarrow> True
    | Nfs_Operation.SetAttr \<Rightarrow> True
    | Nfs_Operation.Write \<Rightarrow> True
    | Nfs_Operation.Commit \<Rightarrow> True
    | _ \<Rightarrow> False)"

definition Nfs_Operation_is_read :: "Nfs_Operation \<Rightarrow> bool" where
  "Nfs_Operation_is_read self =
     (case self of
      Nfs_Operation.Access \<Rightarrow> True
    | Nfs_Operation.GetAttr \<Rightarrow> True
    | Nfs_Operation.Lookup \<Rightarrow> True
    | Nfs_Operation.Read \<Rightarrow> True
    | Nfs_Operation.ReadDir \<Rightarrow> True
    | _ \<Rightarrow> False)"

section \<open>\<open>nfs::FileType\<close>\<close>

datatype (plugins only: code) Nfs_FileType =
    Regular
  | Directory
  | BlockDevice
  | CharDevice
  | Link
  | Socket
  | Fifo

definition Nfs_FileType_from_tag :: "u8 \<Rightarrow> Nfs_FileType option" where
  "Nfs_FileType_from_tag tag =
     (if tag = 0 then Some Nfs_FileType.Regular
      else if tag = 1 then Some Nfs_FileType.Directory
      else if tag = 2 then Some Nfs_FileType.BlockDevice
      else if tag = 3 then Some Nfs_FileType.CharDevice
      else if tag = 4 then Some Nfs_FileType.Link
      else if tag = 5 then Some Nfs_FileType.Socket
      else if tag = 6 then Some Nfs_FileType.Fifo
      else option.None)"

primrec Nfs_FileType_to_tag :: "Nfs_FileType \<Rightarrow> u8" where
  "Nfs_FileType_to_tag Nfs_FileType.Regular = 0"
| "Nfs_FileType_to_tag Nfs_FileType.Directory = 1"
| "Nfs_FileType_to_tag Nfs_FileType.BlockDevice = 2"
| "Nfs_FileType_to_tag Nfs_FileType.CharDevice = 3"
| "Nfs_FileType_to_tag Nfs_FileType.Link = 4"
| "Nfs_FileType_to_tag Nfs_FileType.Socket = 5"
| "Nfs_FileType_to_tag Nfs_FileType.Fifo = 6"

definition Nfs_FileType_is_regular :: "Nfs_FileType \<Rightarrow> bool" where
  "Nfs_FileType_is_regular self =
     (case self of
      Nfs_FileType.Regular \<Rightarrow> True
    | _ \<Rightarrow> False)"

definition Nfs_FileType_is_device :: "Nfs_FileType \<Rightarrow> bool" where
  "Nfs_FileType_is_device self =
     (case self of
      Nfs_FileType.BlockDevice \<Rightarrow> True
    | Nfs_FileType.CharDevice \<Rightarrow> True
    | _ \<Rightarrow> False)"

section \<open>\<open>nfs::Status\<close>\<close>

datatype (plugins only: code) Nfs_Status =
    Ok
  | Perm
  | NoEnt
  | Io
  | NxIo
  | Access
  | Exist
  | NotDir
  | IsDir
  | FBig
  | NoSpc
  | ROfs
  | NotEmpty
  | Stale

definition Nfs_Status_from_tag :: "u8 \<Rightarrow> Nfs_Status option" where
  "Nfs_Status_from_tag tag =
     (if tag = 0 then Some Nfs_Status.Ok
      else if tag = 1 then Some Nfs_Status.Perm
      else if tag = 2 then Some Nfs_Status.NoEnt
      else if tag = 3 then Some Nfs_Status.Io
      else if tag = 4 then Some Nfs_Status.NxIo
      else if tag = 5 then Some Nfs_Status.Access
      else if tag = 6 then Some Nfs_Status.Exist
      else if tag = 7 then Some Nfs_Status.NotDir
      else if tag = 8 then Some Nfs_Status.IsDir
      else if tag = 9 then Some Nfs_Status.FBig
      else if tag = 10 then Some Nfs_Status.NoSpc
      else if tag = 11 then Some Nfs_Status.ROfs
      else if tag = 12 then Some Nfs_Status.NotEmpty
      else if tag = 13 then Some Nfs_Status.Stale
      else option.None)"

primrec Nfs_Status_to_tag :: "Nfs_Status \<Rightarrow> u8" where
  "Nfs_Status_to_tag Nfs_Status.Ok = 0"
| "Nfs_Status_to_tag Nfs_Status.Perm = 1"
| "Nfs_Status_to_tag Nfs_Status.NoEnt = 2"
| "Nfs_Status_to_tag Nfs_Status.Io = 3"
| "Nfs_Status_to_tag Nfs_Status.NxIo = 4"
| "Nfs_Status_to_tag Nfs_Status.Access = 5"
| "Nfs_Status_to_tag Nfs_Status.Exist = 6"
| "Nfs_Status_to_tag Nfs_Status.NotDir = 7"
| "Nfs_Status_to_tag Nfs_Status.IsDir = 8"
| "Nfs_Status_to_tag Nfs_Status.FBig = 9"
| "Nfs_Status_to_tag Nfs_Status.NoSpc = 10"
| "Nfs_Status_to_tag Nfs_Status.ROfs = 11"
| "Nfs_Status_to_tag Nfs_Status.NotEmpty = 12"
| "Nfs_Status_to_tag Nfs_Status.Stale = 13"

definition Nfs_Status_is_ok :: "Nfs_Status \<Rightarrow> bool" where
  "Nfs_Status_is_ok self =
     (case self of
      Nfs_Status.Ok \<Rightarrow> True
    | _ \<Rightarrow> False)"

definition Nfs_Status_is_access_error :: "Nfs_Status \<Rightarrow> bool" where
  "Nfs_Status_is_access_error self =
     (case self of
      Nfs_Status.Perm \<Rightarrow> True
    | Nfs_Status.Access \<Rightarrow> True
    | Nfs_Status.ROfs \<Rightarrow> True
    | _ \<Rightarrow> False)"

definition Nfs_Status_is_retryable :: "Nfs_Status \<Rightarrow> bool" where
  "Nfs_Status_is_retryable self =
     (case self of
      Nfs_Status.Io \<Rightarrow> True
    | Nfs_Status.NxIo \<Rightarrow> True
    | Nfs_Status.Stale \<Rightarrow> True
    | _ \<Rightarrow> False)"

section \<open>\<open>nfs::NfsState\<close>\<close>

datatype (plugins only: code) NfsState =
    Idle
  | Mounted
  | FileOpen
  | Locked
  | Busy
  | Unmounting

definition NfsState_from_tag :: "u8 \<Rightarrow> NfsState option" where
  "NfsState_from_tag tag =
     (if tag = 0 then Some NfsState.Idle
      else if tag = 1 then Some NfsState.Mounted
      else if tag = 2 then Some NfsState.FileOpen
      else if tag = 3 then Some NfsState.Locked
      else if tag = 4 then Some NfsState.Busy
      else if tag = 5 then Some NfsState.Unmounting
      else option.None)"

primrec NfsState_to_tag :: "NfsState \<Rightarrow> u8" where
  "NfsState_to_tag NfsState.Idle = 0"
| "NfsState_to_tag NfsState.Mounted = 1"
| "NfsState_to_tag NfsState.FileOpen = 2"
| "NfsState_to_tag NfsState.Locked = 3"
| "NfsState_to_tag NfsState.Busy = 4"
| "NfsState_to_tag NfsState.Unmounting = 5"

definition NfsState_is_mounted :: "NfsState \<Rightarrow> bool" where
  "NfsState_is_mounted self = (\<not>
     (case self of
      NfsState.Idle \<Rightarrow> True
    | NfsState.Unmounting \<Rightarrow> True
    | _ \<Rightarrow> False))"

definition SMB_PORT :: "u16" where
  "SMB_PORT = 445"

definition SMB_NETBIOS_PORT :: "u16" where
  "SMB_NETBIOS_PORT = 139"

section \<open>\<open>smb::Command\<close>\<close>

datatype (plugins only: code) Smb_Command =
    Negotiate
  | SessionSetup
  | Logoff
  | TreeConnect
  | TreeDisconnect
  | Create
  | Close
  | Read
  | Write
  | Lock
  | Ioctl
  | Cancel
  | QueryDirectory
  | ChangeNotify
  | QueryInfo
  | SetInfo

definition Smb_Command_from_tag :: "u8 \<Rightarrow> Smb_Command option" where
  "Smb_Command_from_tag tag =
     (if tag = 0 then Some Smb_Command.Negotiate
      else if tag = 1 then Some Smb_Command.SessionSetup
      else if tag = 2 then Some Smb_Command.Logoff
      else if tag = 3 then Some Smb_Command.TreeConnect
      else if tag = 4 then Some Smb_Command.TreeDisconnect
      else if tag = 5 then Some Smb_Command.Create
      else if tag = 6 then Some Smb_Command.Close
      else if tag = 7 then Some Smb_Command.Read
      else if tag = 8 then Some Smb_Command.Write
      else if tag = 9 then Some Smb_Command.Lock
      else if tag = 10 then Some Smb_Command.Ioctl
      else if tag = 11 then Some Smb_Command.Cancel
      else if tag = 12 then Some Smb_Command.QueryDirectory
      else if tag = 13 then Some Smb_Command.ChangeNotify
      else if tag = 14 then Some Smb_Command.QueryInfo
      else if tag = 15 then Some Smb_Command.SetInfo
      else option.None)"

primrec Smb_Command_to_tag :: "Smb_Command \<Rightarrow> u8" where
  "Smb_Command_to_tag Smb_Command.Negotiate = 0"
| "Smb_Command_to_tag Smb_Command.SessionSetup = 1"
| "Smb_Command_to_tag Smb_Command.Logoff = 2"
| "Smb_Command_to_tag Smb_Command.TreeConnect = 3"
| "Smb_Command_to_tag Smb_Command.TreeDisconnect = 4"
| "Smb_Command_to_tag Smb_Command.Create = 5"
| "Smb_Command_to_tag Smb_Command.Close = 6"
| "Smb_Command_to_tag Smb_Command.Read = 7"
| "Smb_Command_to_tag Smb_Command.Write = 8"
| "Smb_Command_to_tag Smb_Command.Lock = 9"
| "Smb_Command_to_tag Smb_Command.Ioctl = 10"
| "Smb_Command_to_tag Smb_Command.Cancel = 11"
| "Smb_Command_to_tag Smb_Command.QueryDirectory = 12"
| "Smb_Command_to_tag Smb_Command.ChangeNotify = 13"
| "Smb_Command_to_tag Smb_Command.QueryInfo = 14"
| "Smb_Command_to_tag Smb_Command.SetInfo = 15"

definition Smb_Command_is_session_management :: "Smb_Command \<Rightarrow> bool" where
  "Smb_Command_is_session_management self =
     (case self of
      Smb_Command.Negotiate \<Rightarrow> True
    | Smb_Command.SessionSetup \<Rightarrow> True
    | Smb_Command.Logoff \<Rightarrow> True
    | Smb_Command.TreeConnect \<Rightarrow> True
    | Smb_Command.TreeDisconnect \<Rightarrow> True
    | _ \<Rightarrow> False)"

definition Smb_Command_is_file_io :: "Smb_Command \<Rightarrow> bool" where
  "Smb_Command_is_file_io self =
     (case self of
      Smb_Command.Read \<Rightarrow> True
    | Smb_Command.Write \<Rightarrow> True
    | Smb_Command.Lock \<Rightarrow> True
    | Smb_Command.Ioctl \<Rightarrow> True
    | _ \<Rightarrow> False)"

definition Smb_Command_is_write :: "Smb_Command \<Rightarrow> bool" where
  "Smb_Command_is_write self =
     (case self of
      Smb_Command.Create \<Rightarrow> True
    | Smb_Command.Write \<Rightarrow> True
    | Smb_Command.SetInfo \<Rightarrow> True
    | Smb_Command.Lock \<Rightarrow> True
    | _ \<Rightarrow> False)"

section \<open>\<open>smb::Dialect\<close>\<close>

datatype (plugins only: code) Dialect =
    Smb2_0_2
  | Smb2_1
  | Smb3_0
  | Smb3_0_2
  | Smb3_1_1

text \<open>\<open>derive(PartialOrd, Ord)\<close>: the order of the declaration.\<close>

primrec Dialect_rank :: "Dialect \<Rightarrow> nat" where
  "Dialect_rank Dialect.Smb2_0_2 = 0"
| "Dialect_rank Dialect.Smb2_1 = 1"
| "Dialect_rank Dialect.Smb3_0 = 2"
| "Dialect_rank Dialect.Smb3_0_2 = 3"
| "Dialect_rank Dialect.Smb3_1_1 = 4"

instantiation Dialect :: linorder
begin

definition less_eq_Dialect :: "Dialect \<Rightarrow> Dialect \<Rightarrow> bool" where
  "less_eq_Dialect x y \<longleftrightarrow> Dialect_rank x \<le> Dialect_rank y"

definition less_Dialect :: "Dialect \<Rightarrow> Dialect \<Rightarrow> bool" where
  "less_Dialect x y \<longleftrightarrow> Dialect_rank x < Dialect_rank y"

instance
proof
  fix x y z :: Dialect
  show "(x < y) = (x \<le> y \<and> \<not> y \<le> x)" "x \<le> x" "x \<le> y \<or> y \<le> x"
    by (auto simp: less_eq_Dialect_def less_Dialect_def)
  show "x \<le> y \<Longrightarrow> y \<le> z \<Longrightarrow> x \<le> z" by (simp add: less_eq_Dialect_def)
  show "x \<le> y \<Longrightarrow> y \<le> x \<Longrightarrow> x = y" by (cases x; cases y; simp add: less_eq_Dialect_def)
qed

end

definition Dialect_from_tag :: "u8 \<Rightarrow> Dialect option" where
  "Dialect_from_tag tag =
     (if tag = 0 then Some Dialect.Smb2_0_2
      else if tag = 1 then Some Dialect.Smb2_1
      else if tag = 2 then Some Dialect.Smb3_0
      else if tag = 3 then Some Dialect.Smb3_0_2
      else if tag = 4 then Some Dialect.Smb3_1_1
      else option.None)"

primrec Dialect_to_tag :: "Dialect \<Rightarrow> u8" where
  "Dialect_to_tag Dialect.Smb2_0_2 = 0"
| "Dialect_to_tag Dialect.Smb2_1 = 1"
| "Dialect_to_tag Dialect.Smb3_0 = 2"
| "Dialect_to_tag Dialect.Smb3_0_2 = 3"
| "Dialect_to_tag Dialect.Smb3_1_1 = 4"

definition Dialect_supports_encryption :: "Dialect \<Rightarrow> bool" where
  "Dialect_supports_encryption self =
     (case self of
      Dialect.Smb3_0 \<Rightarrow> True
    | Dialect.Smb3_0_2 \<Rightarrow> True
    | Dialect.Smb3_1_1 \<Rightarrow> True
    | _ \<Rightarrow> False)"

definition Dialect_is_smb3 :: "Dialect \<Rightarrow> bool" where
  "Dialect_is_smb3 self =
     (case self of
      Dialect.Smb3_0 \<Rightarrow> True
    | Dialect.Smb3_0_2 \<Rightarrow> True
    | Dialect.Smb3_1_1 \<Rightarrow> True
    | _ \<Rightarrow> False)"

definition Dialect_revision :: "Dialect \<Rightarrow> string" where
  "Dialect_revision self =
     (case self of
      Dialect.Smb2_0_2 \<Rightarrow> ''2.0.2''
    | Dialect.Smb2_1 \<Rightarrow> ''2.1''
    | Dialect.Smb3_0 \<Rightarrow> ''3.0''
    | Dialect.Smb3_0_2 \<Rightarrow> ''3.0.2''
    | Dialect.Smb3_1_1 \<Rightarrow> ''3.1.1'')"

section \<open>\<open>smb::ShareType\<close>\<close>

datatype (plugins only: code) ShareType =
    Disk
  | Pipe
  | Print

definition ShareType_from_tag :: "u8 \<Rightarrow> ShareType option" where
  "ShareType_from_tag tag =
     (if tag = 0 then Some ShareType.Disk
      else if tag = 1 then Some ShareType.Pipe
      else if tag = 2 then Some ShareType.Print
      else option.None)"

primrec ShareType_to_tag :: "ShareType \<Rightarrow> u8" where
  "ShareType_to_tag ShareType.Disk = 0"
| "ShareType_to_tag ShareType.Pipe = 1"
| "ShareType_to_tag ShareType.Print = 2"

definition ShareType_is_filesystem :: "ShareType \<Rightarrow> bool" where
  "ShareType_is_filesystem self =
     (case self of
      ShareType.Disk \<Rightarrow> True
    | _ \<Rightarrow> False)"

section \<open>\<open>smb::SessionState\<close>\<close>

datatype (plugins only: code) Smb_SessionState =
    Idle
  | Negotiated
  | Authenticated
  | TreeConnected
  | FileOpen
  | Disconnecting

definition Smb_SessionState_from_tag :: "u8 \<Rightarrow> Smb_SessionState option" where
  "Smb_SessionState_from_tag tag =
     (if tag = 0 then Some Smb_SessionState.Idle
      else if tag = 1 then Some Smb_SessionState.Negotiated
      else if tag = 2 then Some Smb_SessionState.Authenticated
      else if tag = 3 then Some Smb_SessionState.TreeConnected
      else if tag = 4 then Some Smb_SessionState.FileOpen
      else if tag = 5 then Some Smb_SessionState.Disconnecting
      else option.None)"

primrec Smb_SessionState_to_tag :: "Smb_SessionState \<Rightarrow> u8" where
  "Smb_SessionState_to_tag Smb_SessionState.Idle = 0"
| "Smb_SessionState_to_tag Smb_SessionState.Negotiated = 1"
| "Smb_SessionState_to_tag Smb_SessionState.Authenticated = 2"
| "Smb_SessionState_to_tag Smb_SessionState.TreeConnected = 3"
| "Smb_SessionState_to_tag Smb_SessionState.FileOpen = 4"
| "Smb_SessionState_to_tag Smb_SessionState.Disconnecting = 5"

definition Smb_SessionState_is_authenticated :: "Smb_SessionState \<Rightarrow> bool" where
  "Smb_SessionState_is_authenticated self =
     (case self of
      Smb_SessionState.Authenticated \<Rightarrow> True
    | Smb_SessionState.TreeConnected \<Rightarrow> True
    | Smb_SessionState.FileOpen \<Rightarrow> True
    | _ \<Rightarrow> False)"

definition Smb_SessionState_can_do_file_io :: "Smb_SessionState \<Rightarrow> bool" where
  "Smb_SessionState_can_do_file_io self =
     (case self of
      Smb_SessionState.FileOpen \<Rightarrow> True
    | _ \<Rightarrow> False)"

definition TFTP_PORT :: "u16" where
  "TFTP_PORT = 69"

definition TFTP_BLOCK_SIZE :: "u16" where
  "TFTP_BLOCK_SIZE = 512"

section \<open>\<open>tftp::Opcode\<close>\<close>

datatype (plugins only: code) Tftp_Opcode =
    Rrq
  | Wrq
  | Data
  | Ack
  | Error

definition Tftp_Opcode_from_tag :: "u8 \<Rightarrow> Tftp_Opcode option" where
  "Tftp_Opcode_from_tag tag =
     (if tag = 0 then Some Tftp_Opcode.Rrq
      else if tag = 1 then Some Tftp_Opcode.Wrq
      else if tag = 2 then Some Tftp_Opcode.Data
      else if tag = 3 then Some Tftp_Opcode.Ack
      else if tag = 4 then Some Tftp_Opcode.Error
      else option.None)"

primrec Tftp_Opcode_to_tag :: "Tftp_Opcode \<Rightarrow> u8" where
  "Tftp_Opcode_to_tag Tftp_Opcode.Rrq = 0"
| "Tftp_Opcode_to_tag Tftp_Opcode.Wrq = 1"
| "Tftp_Opcode_to_tag Tftp_Opcode.Data = 2"
| "Tftp_Opcode_to_tag Tftp_Opcode.Ack = 3"
| "Tftp_Opcode_to_tag Tftp_Opcode.Error = 4"

definition Tftp_Opcode_is_request :: "Tftp_Opcode \<Rightarrow> bool" where
  "Tftp_Opcode_is_request self =
     (case self of
      Tftp_Opcode.Rrq \<Rightarrow> True
    | Tftp_Opcode.Wrq \<Rightarrow> True
    | _ \<Rightarrow> False)"

definition Tftp_Opcode_is_data :: "Tftp_Opcode \<Rightarrow> bool" where
  "Tftp_Opcode_is_data self =
     (case self of
      Tftp_Opcode.Data \<Rightarrow> True
    | _ \<Rightarrow> False)"

section \<open>\<open>tftp::TransferMode\<close>\<close>

datatype (plugins only: code) TransferMode =
    NetAscii
  | Octet
  | Mail

definition TransferMode_from_tag :: "u8 \<Rightarrow> TransferMode option" where
  "TransferMode_from_tag tag =
     (if tag = 0 then Some TransferMode.NetAscii
      else if tag = 1 then Some TransferMode.Octet
      else if tag = 2 then Some TransferMode.Mail
      else option.None)"

primrec TransferMode_to_tag :: "TransferMode \<Rightarrow> u8" where
  "TransferMode_to_tag TransferMode.NetAscii = 0"
| "TransferMode_to_tag TransferMode.Octet = 1"
| "TransferMode_to_tag TransferMode.Mail = 2"

definition TransferMode_mode_string :: "TransferMode \<Rightarrow> string" where
  "TransferMode_mode_string self =
     (case self of
      TransferMode.NetAscii \<Rightarrow> ''netascii''
    | TransferMode.Octet \<Rightarrow> ''octet''
    | TransferMode.Mail \<Rightarrow> ''mail'')"

definition TransferMode_is_text_mode :: "TransferMode \<Rightarrow> bool" where
  "TransferMode_is_text_mode self =
     (case self of
      TransferMode.NetAscii \<Rightarrow> True
    | _ \<Rightarrow> False)"

definition TransferMode_is_deprecated :: "TransferMode \<Rightarrow> bool" where
  "TransferMode_is_deprecated self =
     (case self of
      TransferMode.Mail \<Rightarrow> True
    | _ \<Rightarrow> False)"

section \<open>\<open>tftp::TftpError\<close>\<close>

datatype (plugins only: code) TftpError =
    NotDefined
  | FileNotFound
  | AccessViolation
  | DiskFull
  | IllegalOperation
  | UnknownTid
  | FileExists
  | NoSuchUser

definition TftpError_from_tag :: "u8 \<Rightarrow> TftpError option" where
  "TftpError_from_tag tag =
     (if tag = 0 then Some TftpError.NotDefined
      else if tag = 1 then Some TftpError.FileNotFound
      else if tag = 2 then Some TftpError.AccessViolation
      else if tag = 3 then Some TftpError.DiskFull
      else if tag = 4 then Some TftpError.IllegalOperation
      else if tag = 5 then Some TftpError.UnknownTid
      else if tag = 6 then Some TftpError.FileExists
      else if tag = 7 then Some TftpError.NoSuchUser
      else option.None)"

primrec TftpError_to_tag :: "TftpError \<Rightarrow> u8" where
  "TftpError_to_tag TftpError.NotDefined = 0"
| "TftpError_to_tag TftpError.FileNotFound = 1"
| "TftpError_to_tag TftpError.AccessViolation = 2"
| "TftpError_to_tag TftpError.DiskFull = 3"
| "TftpError_to_tag TftpError.IllegalOperation = 4"
| "TftpError_to_tag TftpError.UnknownTid = 5"
| "TftpError_to_tag TftpError.FileExists = 6"
| "TftpError_to_tag TftpError.NoSuchUser = 7"

definition TftpError_is_access_error :: "TftpError \<Rightarrow> bool" where
  "TftpError_is_access_error self =
     (case self of
      TftpError.AccessViolation \<Rightarrow> True
    | TftpError.NoSuchUser \<Rightarrow> True
    | _ \<Rightarrow> False)"

definition TftpError_is_storage_error :: "TftpError \<Rightarrow> bool" where
  "TftpError_is_storage_error self =
     (case self of
      TftpError.DiskFull \<Rightarrow> True
    | TftpError.FileExists \<Rightarrow> True
    | _ \<Rightarrow> False)"

section \<open>\<open>tftp::TransferState\<close>\<close>

datatype (plugins only: code) Tftp_TransferState =
    Idle
  | Reading
  | Writing
  | InError
  | Complete

definition Tftp_TransferState_from_tag :: "u8 \<Rightarrow> Tftp_TransferState option" where
  "Tftp_TransferState_from_tag tag =
     (if tag = 0 then Some Tftp_TransferState.Idle
      else if tag = 1 then Some Tftp_TransferState.Reading
      else if tag = 2 then Some Tftp_TransferState.Writing
      else if tag = 3 then Some Tftp_TransferState.InError
      else if tag = 4 then Some Tftp_TransferState.Complete
      else option.None)"

primrec Tftp_TransferState_to_tag :: "Tftp_TransferState \<Rightarrow> u8" where
  "Tftp_TransferState_to_tag Tftp_TransferState.Idle = 0"
| "Tftp_TransferState_to_tag Tftp_TransferState.Reading = 1"
| "Tftp_TransferState_to_tag Tftp_TransferState.Writing = 2"
| "Tftp_TransferState_to_tag Tftp_TransferState.InError = 3"
| "Tftp_TransferState_to_tag Tftp_TransferState.Complete = 4"

definition Tftp_TransferState_is_active :: "Tftp_TransferState \<Rightarrow> bool" where
  "Tftp_TransferState_is_active self =
     (case self of
      Tftp_TransferState.Reading \<Rightarrow> True
    | Tftp_TransferState.Writing \<Rightarrow> True
    | _ \<Rightarrow> False)"

definition Tftp_TransferState_is_terminal :: "Tftp_TransferState \<Rightarrow> bool" where
  "Tftp_TransferState_is_terminal self =
     (case self of
      Tftp_TransferState.InError \<Rightarrow> True
    | Tftp_TransferState.Complete \<Rightarrow> True
    | _ \<Rightarrow> False)"

section \<open>\<open>fileserver::FileOperation\<close>\<close>

datatype (plugins only: code) FileOperation =
    Read
  | Write
  | Create
  | Delete
  | Rename
  | List
  | Stat
  | Lock
  | Unlock
  | Watch

definition FileOperation_from_tag :: "u8 \<Rightarrow> FileOperation option" where
  "FileOperation_from_tag tag =
     (if tag = 0 then Some FileOperation.Read
      else if tag = 1 then Some FileOperation.Write
      else if tag = 2 then Some FileOperation.Create
      else if tag = 3 then Some FileOperation.Delete
      else if tag = 4 then Some FileOperation.Rename
      else if tag = 5 then Some FileOperation.List
      else if tag = 6 then Some FileOperation.Stat
      else if tag = 7 then Some FileOperation.Lock
      else if tag = 8 then Some FileOperation.Unlock
      else if tag = 9 then Some FileOperation.Watch
      else option.None)"

primrec FileOperation_to_tag :: "FileOperation \<Rightarrow> u8" where
  "FileOperation_to_tag FileOperation.Read = 0"
| "FileOperation_to_tag FileOperation.Write = 1"
| "FileOperation_to_tag FileOperation.Create = 2"
| "FileOperation_to_tag FileOperation.Delete = 3"
| "FileOperation_to_tag FileOperation.Rename = 4"
| "FileOperation_to_tag FileOperation.List = 5"
| "FileOperation_to_tag FileOperation.Stat = 6"
| "FileOperation_to_tag FileOperation.Lock = 7"
| "FileOperation_to_tag FileOperation.Unlock = 8"
| "FileOperation_to_tag FileOperation.Watch = 9"

section \<open>\<open>fileserver::FileType\<close>\<close>

datatype (plugins only: code) Fileserver_FileType =
    Regular
  | Directory
  | Symlink
  | BlockDevice
  | CharDevice
  | Fifo
  | Socket

definition Fileserver_FileType_from_tag :: "u8 \<Rightarrow> Fileserver_FileType option" where
  "Fileserver_FileType_from_tag tag =
     (if tag = 0 then Some Fileserver_FileType.Regular
      else if tag = 1 then Some Fileserver_FileType.Directory
      else if tag = 2 then Some Fileserver_FileType.Symlink
      else if tag = 3 then Some Fileserver_FileType.BlockDevice
      else if tag = 4 then Some Fileserver_FileType.CharDevice
      else if tag = 5 then Some Fileserver_FileType.Fifo
      else if tag = 6 then Some Fileserver_FileType.Socket
      else option.None)"

primrec Fileserver_FileType_to_tag :: "Fileserver_FileType \<Rightarrow> u8" where
  "Fileserver_FileType_to_tag Fileserver_FileType.Regular = 0"
| "Fileserver_FileType_to_tag Fileserver_FileType.Directory = 1"
| "Fileserver_FileType_to_tag Fileserver_FileType.Symlink = 2"
| "Fileserver_FileType_to_tag Fileserver_FileType.BlockDevice = 3"
| "Fileserver_FileType_to_tag Fileserver_FileType.CharDevice = 4"
| "Fileserver_FileType_to_tag Fileserver_FileType.Fifo = 5"
| "Fileserver_FileType_to_tag Fileserver_FileType.Socket = 6"

section \<open>\<open>fileserver::FilePermission\<close>\<close>

datatype (plugins only: code) FilePermission =
    OwnerRead
  | OwnerWrite
  | OwnerExecute
  | GroupRead
  | GroupWrite
  | GroupExecute
  | OtherRead
  | OtherWrite
  | OtherExecute

definition FilePermission_from_tag :: "u8 \<Rightarrow> FilePermission option" where
  "FilePermission_from_tag tag =
     (if tag = 0 then Some FilePermission.OwnerRead
      else if tag = 1 then Some FilePermission.OwnerWrite
      else if tag = 2 then Some FilePermission.OwnerExecute
      else if tag = 3 then Some FilePermission.GroupRead
      else if tag = 4 then Some FilePermission.GroupWrite
      else if tag = 5 then Some FilePermission.GroupExecute
      else if tag = 6 then Some FilePermission.OtherRead
      else if tag = 7 then Some FilePermission.OtherWrite
      else if tag = 8 then Some FilePermission.OtherExecute
      else option.None)"

primrec FilePermission_to_tag :: "FilePermission \<Rightarrow> u8" where
  "FilePermission_to_tag FilePermission.OwnerRead = 0"
| "FilePermission_to_tag FilePermission.OwnerWrite = 1"
| "FilePermission_to_tag FilePermission.OwnerExecute = 2"
| "FilePermission_to_tag FilePermission.GroupRead = 3"
| "FilePermission_to_tag FilePermission.GroupWrite = 4"
| "FilePermission_to_tag FilePermission.GroupExecute = 5"
| "FilePermission_to_tag FilePermission.OtherRead = 6"
| "FilePermission_to_tag FilePermission.OtherWrite = 7"
| "FilePermission_to_tag FilePermission.OtherExecute = 8"

section \<open>\<open>fileserver::LockType\<close>\<close>

datatype (plugins only: code) Fileserver_LockType =
    Shared
  | Exclusive
  | Advisory
  | Mandatory

definition Fileserver_LockType_from_tag :: "u8 \<Rightarrow> Fileserver_LockType option" where
  "Fileserver_LockType_from_tag tag =
     (if tag = 0 then Some Fileserver_LockType.Shared
      else if tag = 1 then Some Fileserver_LockType.Exclusive
      else if tag = 2 then Some Fileserver_LockType.Advisory
      else if tag = 3 then Some Fileserver_LockType.Mandatory
      else option.None)"

primrec Fileserver_LockType_to_tag :: "Fileserver_LockType \<Rightarrow> u8" where
  "Fileserver_LockType_to_tag Fileserver_LockType.Shared = 0"
| "Fileserver_LockType_to_tag Fileserver_LockType.Exclusive = 1"
| "Fileserver_LockType_to_tag Fileserver_LockType.Advisory = 2"
| "Fileserver_LockType_to_tag Fileserver_LockType.Mandatory = 3"

section \<open>\<open>fileserver::FileErrorCode\<close>\<close>

datatype (plugins only: code) FileErrorCode =
    NotFound
  | PermissionDenied
  | AlreadyExists
  | NotEmpty
  | IsDirectory
  | NotDirectory
  | NoSpace
  | ReadOnly
  | Locked
  | IoError

definition FileErrorCode_from_tag :: "u8 \<Rightarrow> FileErrorCode option" where
  "FileErrorCode_from_tag tag =
     (if tag = 0 then Some FileErrorCode.NotFound
      else if tag = 1 then Some FileErrorCode.PermissionDenied
      else if tag = 2 then Some FileErrorCode.AlreadyExists
      else if tag = 3 then Some FileErrorCode.NotEmpty
      else if tag = 4 then Some FileErrorCode.IsDirectory
      else if tag = 5 then Some FileErrorCode.NotDirectory
      else if tag = 6 then Some FileErrorCode.NoSpace
      else if tag = 7 then Some FileErrorCode.ReadOnly
      else if tag = 8 then Some FileErrorCode.Locked
      else if tag = 9 then Some FileErrorCode.IoError
      else option.None)"

primrec FileErrorCode_to_tag :: "FileErrorCode \<Rightarrow> u8" where
  "FileErrorCode_to_tag FileErrorCode.NotFound = 0"
| "FileErrorCode_to_tag FileErrorCode.PermissionDenied = 1"
| "FileErrorCode_to_tag FileErrorCode.AlreadyExists = 2"
| "FileErrorCode_to_tag FileErrorCode.NotEmpty = 3"
| "FileErrorCode_to_tag FileErrorCode.IsDirectory = 4"
| "FileErrorCode_to_tag FileErrorCode.NotDirectory = 5"
| "FileErrorCode_to_tag FileErrorCode.NoSpace = 6"
| "FileErrorCode_to_tag FileErrorCode.ReadOnly = 7"
| "FileErrorCode_to_tag FileErrorCode.Locked = 8"
| "FileErrorCode_to_tag FileErrorCode.IoError = 9"

section \<open>\<open>fileserver::SessionState\<close>\<close>

datatype (plugins only: code) Fileserver_SessionState =
    Idle
  | Connected
  | Operating
  | FsLocked
  | Disconnecting

definition Fileserver_SessionState_from_tag :: "u8 \<Rightarrow> Fileserver_SessionState option" where
  "Fileserver_SessionState_from_tag tag =
     (if tag = 0 then Some Fileserver_SessionState.Idle
      else if tag = 1 then Some Fileserver_SessionState.Connected
      else if tag = 2 then Some Fileserver_SessionState.Operating
      else if tag = 3 then Some Fileserver_SessionState.FsLocked
      else if tag = 4 then Some Fileserver_SessionState.Disconnecting
      else option.None)"

primrec Fileserver_SessionState_to_tag :: "Fileserver_SessionState \<Rightarrow> u8" where
  "Fileserver_SessionState_to_tag Fileserver_SessionState.Idle = 0"
| "Fileserver_SessionState_to_tag Fileserver_SessionState.Connected = 1"
| "Fileserver_SessionState_to_tag Fileserver_SessionState.Operating = 2"
| "Fileserver_SessionState_to_tag Fileserver_SessionState.FsLocked = 3"
| "Fileserver_SessionState_to_tag Fileserver_SessionState.Disconnecting = 4"

definition OBJECTSTORE_PORT :: "u16" where
  "OBJECTSTORE_PORT = 9000"

section \<open>\<open>objectstore::Operation\<close>\<close>

datatype (plugins only: code) Objectstore_Operation =
    PutObject
  | GetObject
  | DeleteObject
  | ListObjects
  | HeadObject
  | CopyObject
  | CreateBucket
  | DeleteBucket
  | ListBuckets
  | InitMultipartUpload
  | UploadPart
  | CompleteMultipartUpload

definition Objectstore_Operation_from_tag :: "u8 \<Rightarrow> Objectstore_Operation option" where
  "Objectstore_Operation_from_tag tag =
     (if tag = 0 then Some Objectstore_Operation.PutObject
      else if tag = 1 then Some Objectstore_Operation.GetObject
      else if tag = 2 then Some Objectstore_Operation.DeleteObject
      else if tag = 3 then Some Objectstore_Operation.ListObjects
      else if tag = 4 then Some Objectstore_Operation.HeadObject
      else if tag = 5 then Some Objectstore_Operation.CopyObject
      else if tag = 6 then Some Objectstore_Operation.CreateBucket
      else if tag = 7 then Some Objectstore_Operation.DeleteBucket
      else if tag = 8 then Some Objectstore_Operation.ListBuckets
      else if tag = 9 then Some Objectstore_Operation.InitMultipartUpload
      else if tag = 10 then Some Objectstore_Operation.UploadPart
      else if tag = 11 then Some Objectstore_Operation.CompleteMultipartUpload
      else option.None)"

primrec Objectstore_Operation_to_tag :: "Objectstore_Operation \<Rightarrow> u8" where
  "Objectstore_Operation_to_tag Objectstore_Operation.PutObject = 0"
| "Objectstore_Operation_to_tag Objectstore_Operation.GetObject = 1"
| "Objectstore_Operation_to_tag Objectstore_Operation.DeleteObject = 2"
| "Objectstore_Operation_to_tag Objectstore_Operation.ListObjects = 3"
| "Objectstore_Operation_to_tag Objectstore_Operation.HeadObject = 4"
| "Objectstore_Operation_to_tag Objectstore_Operation.CopyObject = 5"
| "Objectstore_Operation_to_tag Objectstore_Operation.CreateBucket = 6"
| "Objectstore_Operation_to_tag Objectstore_Operation.DeleteBucket = 7"
| "Objectstore_Operation_to_tag Objectstore_Operation.ListBuckets = 8"
| "Objectstore_Operation_to_tag Objectstore_Operation.InitMultipartUpload = 9"
| "Objectstore_Operation_to_tag Objectstore_Operation.UploadPart = 10"
| "Objectstore_Operation_to_tag Objectstore_Operation.CompleteMultipartUpload = 11"

definition Objectstore_Operation_is_bucket_op :: "Objectstore_Operation \<Rightarrow> bool" where
  "Objectstore_Operation_is_bucket_op self =
     (case self of
      Objectstore_Operation.CreateBucket \<Rightarrow> True
    | Objectstore_Operation.DeleteBucket \<Rightarrow> True
    | Objectstore_Operation.ListBuckets \<Rightarrow> True
    | _ \<Rightarrow> False)"

definition Objectstore_Operation_is_multipart :: "Objectstore_Operation \<Rightarrow> bool" where
  "Objectstore_Operation_is_multipart self =
     (case self of
      Objectstore_Operation.InitMultipartUpload \<Rightarrow> True
    | Objectstore_Operation.UploadPart \<Rightarrow> True
    | Objectstore_Operation.CompleteMultipartUpload \<Rightarrow> True
    | _ \<Rightarrow> False)"

section \<open>\<open>objectstore::StorageClass\<close>\<close>

datatype (plugins only: code) StorageClass =
    Standard
  | InfrequentAccess
  | Glacier
  | DeepArchive
  | OneZone

definition StorageClass_from_tag :: "u8 \<Rightarrow> StorageClass option" where
  "StorageClass_from_tag tag =
     (if tag = 0 then Some StorageClass.Standard
      else if tag = 1 then Some StorageClass.InfrequentAccess
      else if tag = 2 then Some StorageClass.Glacier
      else if tag = 3 then Some StorageClass.DeepArchive
      else if tag = 4 then Some StorageClass.OneZone
      else option.None)"

primrec StorageClass_to_tag :: "StorageClass \<Rightarrow> u8" where
  "StorageClass_to_tag StorageClass.Standard = 0"
| "StorageClass_to_tag StorageClass.InfrequentAccess = 1"
| "StorageClass_to_tag StorageClass.Glacier = 2"
| "StorageClass_to_tag StorageClass.DeepArchive = 3"
| "StorageClass_to_tag StorageClass.OneZone = 4"

section \<open>\<open>objectstore::Acl\<close>\<close>

datatype (plugins only: code) Acl =
    Private
  | PublicRead
  | PublicReadWrite
  | AuthenticatedRead

definition Acl_from_tag :: "u8 \<Rightarrow> Acl option" where
  "Acl_from_tag tag =
     (if tag = 0 then Some Acl.Private
      else if tag = 1 then Some Acl.PublicRead
      else if tag = 2 then Some Acl.PublicReadWrite
      else if tag = 3 then Some Acl.AuthenticatedRead
      else option.None)"

primrec Acl_to_tag :: "Acl \<Rightarrow> u8" where
  "Acl_to_tag Acl.Private = 0"
| "Acl_to_tag Acl.PublicRead = 1"
| "Acl_to_tag Acl.PublicReadWrite = 2"
| "Acl_to_tag Acl.AuthenticatedRead = 3"

section \<open>\<open>objectstore::ErrorCode\<close>\<close>

datatype (plugins only: code) Objectstore_ErrorCode =
    NoSuchBucket
  | NoSuchKey
  | BucketAlreadyExists
  | BucketNotEmpty
  | AccessDenied
  | EntityTooLarge
  | InvalidPart
  | IncompleteBody

definition Objectstore_ErrorCode_from_tag :: "u8 \<Rightarrow> Objectstore_ErrorCode option" where
  "Objectstore_ErrorCode_from_tag tag =
     (if tag = 0 then Some Objectstore_ErrorCode.NoSuchBucket
      else if tag = 1 then Some Objectstore_ErrorCode.NoSuchKey
      else if tag = 2 then Some Objectstore_ErrorCode.BucketAlreadyExists
      else if tag = 3 then Some Objectstore_ErrorCode.BucketNotEmpty
      else if tag = 4 then Some Objectstore_ErrorCode.AccessDenied
      else if tag = 5 then Some Objectstore_ErrorCode.EntityTooLarge
      else if tag = 6 then Some Objectstore_ErrorCode.InvalidPart
      else if tag = 7 then Some Objectstore_ErrorCode.IncompleteBody
      else option.None)"

primrec Objectstore_ErrorCode_to_tag :: "Objectstore_ErrorCode \<Rightarrow> u8" where
  "Objectstore_ErrorCode_to_tag Objectstore_ErrorCode.NoSuchBucket = 0"
| "Objectstore_ErrorCode_to_tag Objectstore_ErrorCode.NoSuchKey = 1"
| "Objectstore_ErrorCode_to_tag Objectstore_ErrorCode.BucketAlreadyExists = 2"
| "Objectstore_ErrorCode_to_tag Objectstore_ErrorCode.BucketNotEmpty = 3"
| "Objectstore_ErrorCode_to_tag Objectstore_ErrorCode.AccessDenied = 4"
| "Objectstore_ErrorCode_to_tag Objectstore_ErrorCode.EntityTooLarge = 5"
| "Objectstore_ErrorCode_to_tag Objectstore_ErrorCode.InvalidPart = 6"
| "Objectstore_ErrorCode_to_tag Objectstore_ErrorCode.IncompleteBody = 7"

section \<open>\<open>objectstore::SessionState\<close>\<close>

datatype (plugins only: code) Objectstore_SessionState =
    Idle
  | Ready
  | BucketActive
  | Uploading
  | Closing

definition Objectstore_SessionState_from_tag :: "u8 \<Rightarrow> Objectstore_SessionState option" where
  "Objectstore_SessionState_from_tag tag =
     (if tag = 0 then Some Objectstore_SessionState.Idle
      else if tag = 1 then Some Objectstore_SessionState.Ready
      else if tag = 2 then Some Objectstore_SessionState.BucketActive
      else if tag = 3 then Some Objectstore_SessionState.Uploading
      else if tag = 4 then Some Objectstore_SessionState.Closing
      else option.None)"

primrec Objectstore_SessionState_to_tag :: "Objectstore_SessionState \<Rightarrow> u8" where
  "Objectstore_SessionState_to_tag Objectstore_SessionState.Idle = 0"
| "Objectstore_SessionState_to_tag Objectstore_SessionState.Ready = 1"
| "Objectstore_SessionState_to_tag Objectstore_SessionState.BucketActive = 2"
| "Objectstore_SessionState_to_tag Objectstore_SessionState.Uploading = 3"
| "Objectstore_SessionState_to_tag Objectstore_SessionState.Closing = 4"

definition WEBDAV_DEFAULT_PORT :: "u16" where
  "WEBDAV_DEFAULT_PORT = 80"

definition WEBDAV_TLS_PORT :: "u16" where
  "WEBDAV_TLS_PORT = 443"

section \<open>\<open>webdav::Method\<close>\<close>

datatype (plugins only: code) Webdav_Method =
    Propfind
  | Proppatch
  | Mkcol
  | Copy
  | Move
  | Lock
  | Unlock

definition Webdav_Method_from_tag :: "u8 \<Rightarrow> Webdav_Method option" where
  "Webdav_Method_from_tag tag =
     (if tag = 0 then Some Webdav_Method.Propfind
      else if tag = 1 then Some Webdav_Method.Proppatch
      else if tag = 2 then Some Webdav_Method.Mkcol
      else if tag = 3 then Some Webdav_Method.Copy
      else if tag = 4 then Some Webdav_Method.Move
      else if tag = 5 then Some Webdav_Method.Lock
      else if tag = 6 then Some Webdav_Method.Unlock
      else option.None)"

primrec Webdav_Method_to_tag :: "Webdav_Method \<Rightarrow> u8" where
  "Webdav_Method_to_tag Webdav_Method.Propfind = 0"
| "Webdav_Method_to_tag Webdav_Method.Proppatch = 1"
| "Webdav_Method_to_tag Webdav_Method.Mkcol = 2"
| "Webdav_Method_to_tag Webdav_Method.Copy = 3"
| "Webdav_Method_to_tag Webdav_Method.Move = 4"
| "Webdav_Method_to_tag Webdav_Method.Lock = 5"
| "Webdav_Method_to_tag Webdav_Method.Unlock = 6"

definition Webdav_Method_name :: "Webdav_Method \<Rightarrow> string" where
  "Webdav_Method_name self =
     (case self of
      Webdav_Method.Propfind \<Rightarrow> ''PROPFIND''
    | Webdav_Method.Proppatch \<Rightarrow> ''PROPPATCH''
    | Webdav_Method.Mkcol \<Rightarrow> ''MKCOL''
    | Webdav_Method.Copy \<Rightarrow> ''COPY''
    | Webdav_Method.Move \<Rightarrow> ''MOVE''
    | Webdav_Method.Lock \<Rightarrow> ''LOCK''
    | Webdav_Method.Unlock \<Rightarrow> ''UNLOCK'')"

definition Webdav_Method_is_write :: "Webdav_Method \<Rightarrow> bool" where
  "Webdav_Method_is_write self =
     (case self of
      Webdav_Method.Proppatch \<Rightarrow> True
    | Webdav_Method.Mkcol \<Rightarrow> True
    | Webdav_Method.Copy \<Rightarrow> True
    | Webdav_Method.Move \<Rightarrow> True
    | _ \<Rightarrow> False)"

definition Webdav_Method_is_lock_related :: "Webdav_Method \<Rightarrow> bool" where
  "Webdav_Method_is_lock_related self =
     (case self of
      Webdav_Method.Lock \<Rightarrow> True
    | Webdav_Method.Unlock \<Rightarrow> True
    | _ \<Rightarrow> False)"

section \<open>\<open>webdav::StatusCode\<close>\<close>

datatype (plugins only: code) Webdav_StatusCode =
    MultiStatus
  | UnprocessableEntity
  | Locked
  | FailedDependency
  | InsufficientStorage

definition Webdav_StatusCode_from_tag :: "u8 \<Rightarrow> Webdav_StatusCode option" where
  "Webdav_StatusCode_from_tag tag =
     (if tag = 0 then Some Webdav_StatusCode.MultiStatus
      else if tag = 1 then Some Webdav_StatusCode.UnprocessableEntity
      else if tag = 2 then Some Webdav_StatusCode.Locked
      else if tag = 3 then Some Webdav_StatusCode.FailedDependency
      else if tag = 4 then Some Webdav_StatusCode.InsufficientStorage
      else option.None)"

primrec Webdav_StatusCode_to_tag :: "Webdav_StatusCode \<Rightarrow> u8" where
  "Webdav_StatusCode_to_tag Webdav_StatusCode.MultiStatus = 0"
| "Webdav_StatusCode_to_tag Webdav_StatusCode.UnprocessableEntity = 1"
| "Webdav_StatusCode_to_tag Webdav_StatusCode.Locked = 2"
| "Webdav_StatusCode_to_tag Webdav_StatusCode.FailedDependency = 3"
| "Webdav_StatusCode_to_tag Webdav_StatusCode.InsufficientStorage = 4"

definition Webdav_StatusCode_is_error :: "Webdav_StatusCode \<Rightarrow> bool" where
  "Webdav_StatusCode_is_error self = (\<not>
     (case self of
      Webdav_StatusCode.MultiStatus \<Rightarrow> True
    | _ \<Rightarrow> False))"

definition Webdav_StatusCode_http_code :: "Webdav_StatusCode \<Rightarrow> u16" where
  "Webdav_StatusCode_http_code self =
     (case self of
      Webdav_StatusCode.MultiStatus \<Rightarrow> 207
    | Webdav_StatusCode.UnprocessableEntity \<Rightarrow> 422
    | Webdav_StatusCode.Locked \<Rightarrow> 423
    | Webdav_StatusCode.FailedDependency \<Rightarrow> 424
    | Webdav_StatusCode.InsufficientStorage \<Rightarrow> 507)"

section \<open>\<open>webdav::LockScope\<close>\<close>

datatype (plugins only: code) LockScope =
    Exclusive
  | Shared

definition LockScope_from_tag :: "u8 \<Rightarrow> LockScope option" where
  "LockScope_from_tag tag =
     (if tag = 0 then Some LockScope.Exclusive
      else if tag = 1 then Some LockScope.Shared
      else option.None)"

primrec LockScope_to_tag :: "LockScope \<Rightarrow> u8" where
  "LockScope_to_tag LockScope.Exclusive = 0"
| "LockScope_to_tag LockScope.Shared = 1"

section \<open>\<open>webdav::LockType\<close>\<close>

datatype (plugins only: code) Webdav_LockType =
    Write

definition Webdav_LockType_from_tag :: "u8 \<Rightarrow> Webdav_LockType option" where
  "Webdav_LockType_from_tag tag =
     (if tag = 0 then Some Webdav_LockType.Write
      else option.None)"

primrec Webdav_LockType_to_tag :: "Webdav_LockType \<Rightarrow> u8" where
  "Webdav_LockType_to_tag Webdav_LockType.Write = 0"

section \<open>\<open>webdav::Depth\<close>\<close>

datatype (plugins only: code) Depth =
    Zero
  | One
  | Infinity

definition Depth_from_tag :: "u8 \<Rightarrow> Depth option" where
  "Depth_from_tag tag =
     (if tag = 0 then Some Depth.Zero
      else if tag = 1 then Some Depth.One
      else if tag = 2 then Some Depth.Infinity
      else option.None)"

primrec Depth_to_tag :: "Depth \<Rightarrow> u8" where
  "Depth_to_tag Depth.Zero = 0"
| "Depth_to_tag Depth.One = 1"
| "Depth_to_tag Depth.Infinity = 2"

definition Depth_header_value :: "Depth \<Rightarrow> string" where
  "Depth_header_value self =
     (case self of
      Depth.Zero \<Rightarrow> ''0''
    | Depth.One \<Rightarrow> ''1''
    | Depth.Infinity \<Rightarrow> ''infinity'')"

section \<open>\<open>webdav::PropertyOp\<close>\<close>

datatype (plugins only: code) PropertyOp =
    Set
  | Remove

definition PropertyOp_from_tag :: "u8 \<Rightarrow> PropertyOp option" where
  "PropertyOp_from_tag tag =
     (if tag = 0 then Some PropertyOp.Set
      else if tag = 1 then Some PropertyOp.Remove
      else option.None)"

primrec PropertyOp_to_tag :: "PropertyOp \<Rightarrow> u8" where
  "PropertyOp_to_tag PropertyOp.Set = 0"
| "PropertyOp_to_tag PropertyOp.Remove = 1"

definition CALDAV_PORT :: "u16" where
  "CALDAV_PORT = 443"

section \<open>\<open>caldav::ComponentType\<close>\<close>

datatype (plugins only: code) ComponentType =
    Vevent
  | Vtodo
  | Vjournal
  | Vfreebusy

definition ComponentType_from_tag :: "u8 \<Rightarrow> ComponentType option" where
  "ComponentType_from_tag tag =
     (if tag = 0 then Some ComponentType.Vevent
      else if tag = 1 then Some ComponentType.Vtodo
      else if tag = 2 then Some ComponentType.Vjournal
      else if tag = 3 then Some ComponentType.Vfreebusy
      else option.None)"

primrec ComponentType_to_tag :: "ComponentType \<Rightarrow> u8" where
  "ComponentType_to_tag ComponentType.Vevent = 0"
| "ComponentType_to_tag ComponentType.Vtodo = 1"
| "ComponentType_to_tag ComponentType.Vjournal = 2"
| "ComponentType_to_tag ComponentType.Vfreebusy = 3"

section \<open>\<open>caldav::CalMethod\<close>\<close>

datatype (plugins only: code) CalMethod =
    Get
  | Put
  | Delete
  | Propfind
  | Proppatch
  | Report
  | Mkcalendar

definition CalMethod_from_tag :: "u8 \<Rightarrow> CalMethod option" where
  "CalMethod_from_tag tag =
     (if tag = 0 then Some CalMethod.Get
      else if tag = 1 then Some CalMethod.Put
      else if tag = 2 then Some CalMethod.Delete
      else if tag = 3 then Some CalMethod.Propfind
      else if tag = 4 then Some CalMethod.Proppatch
      else if tag = 5 then Some CalMethod.Report
      else if tag = 6 then Some CalMethod.Mkcalendar
      else option.None)"

primrec CalMethod_to_tag :: "CalMethod \<Rightarrow> u8" where
  "CalMethod_to_tag CalMethod.Get = 0"
| "CalMethod_to_tag CalMethod.Put = 1"
| "CalMethod_to_tag CalMethod.Delete = 2"
| "CalMethod_to_tag CalMethod.Propfind = 3"
| "CalMethod_to_tag CalMethod.Proppatch = 4"
| "CalMethod_to_tag CalMethod.Report = 5"
| "CalMethod_to_tag CalMethod.Mkcalendar = 6"

section \<open>\<open>caldav::ScheduleStatus\<close>\<close>

datatype (plugins only: code) ScheduleStatus =
    NeedsAction
  | Accepted
  | Declined
  | Tentative
  | Delegated

definition ScheduleStatus_from_tag :: "u8 \<Rightarrow> ScheduleStatus option" where
  "ScheduleStatus_from_tag tag =
     (if tag = 0 then Some ScheduleStatus.NeedsAction
      else if tag = 1 then Some ScheduleStatus.Accepted
      else if tag = 2 then Some ScheduleStatus.Declined
      else if tag = 3 then Some ScheduleStatus.Tentative
      else if tag = 4 then Some ScheduleStatus.Delegated
      else option.None)"

primrec ScheduleStatus_to_tag :: "ScheduleStatus \<Rightarrow> u8" where
  "ScheduleStatus_to_tag ScheduleStatus.NeedsAction = 0"
| "ScheduleStatus_to_tag ScheduleStatus.Accepted = 1"
| "ScheduleStatus_to_tag ScheduleStatus.Declined = 2"
| "ScheduleStatus_to_tag ScheduleStatus.Tentative = 3"
| "ScheduleStatus_to_tag ScheduleStatus.Delegated = 4"

section \<open>\<open>caldav::CalError\<close>\<close>

datatype (plugins only: code) CalError =
    ValidCalendarData
  | NoResourceTypeChange
  | SupportedComponentMismatch
  | MaxResourceSize
  | UidConflict
  | PreconditionFailed

definition CalError_from_tag :: "u8 \<Rightarrow> CalError option" where
  "CalError_from_tag tag =
     (if tag = 0 then Some CalError.ValidCalendarData
      else if tag = 1 then Some CalError.NoResourceTypeChange
      else if tag = 2 then Some CalError.SupportedComponentMismatch
      else if tag = 3 then Some CalError.MaxResourceSize
      else if tag = 4 then Some CalError.UidConflict
      else if tag = 5 then Some CalError.PreconditionFailed
      else option.None)"

primrec CalError_to_tag :: "CalError \<Rightarrow> u8" where
  "CalError_to_tag CalError.ValidCalendarData = 0"
| "CalError_to_tag CalError.NoResourceTypeChange = 1"
| "CalError_to_tag CalError.SupportedComponentMismatch = 2"
| "CalError_to_tag CalError.MaxResourceSize = 3"
| "CalError_to_tag CalError.UidConflict = 4"
| "CalError_to_tag CalError.PreconditionFailed = 5"

section \<open>\<open>caldav::ServerState\<close>\<close>

datatype (plugins only: code) Caldav_ServerState =
    Idle
  | Bound
  | Serving
  | Scheduling
  | Shutdown

definition Caldav_ServerState_from_tag :: "u8 \<Rightarrow> Caldav_ServerState option" where
  "Caldav_ServerState_from_tag tag =
     (if tag = 0 then Some Caldav_ServerState.Idle
      else if tag = 1 then Some Caldav_ServerState.Bound
      else if tag = 2 then Some Caldav_ServerState.Serving
      else if tag = 3 then Some Caldav_ServerState.Scheduling
      else if tag = 4 then Some Caldav_ServerState.Shutdown
      else option.None)"

primrec Caldav_ServerState_to_tag :: "Caldav_ServerState \<Rightarrow> u8" where
  "Caldav_ServerState_to_tag Caldav_ServerState.Idle = 0"
| "Caldav_ServerState_to_tag Caldav_ServerState.Bound = 1"
| "Caldav_ServerState_to_tag Caldav_ServerState.Serving = 2"
| "Caldav_ServerState_to_tag Caldav_ServerState.Scheduling = 3"
| "Caldav_ServerState_to_tag Caldav_ServerState.Shutdown = 4"

definition CARDDAV_PORT :: "u16" where
  "CARDDAV_PORT = 443"

section \<open>\<open>carddav::PropertyType\<close>\<close>

datatype (plugins only: code) PropertyType =
    FnName
  | N
  | Email
  | Tel
  | Adr
  | Org
  | Photo
  | Url
  | Note

definition PropertyType_from_tag :: "u8 \<Rightarrow> PropertyType option" where
  "PropertyType_from_tag tag =
     (if tag = 0 then Some PropertyType.FnName
      else if tag = 1 then Some PropertyType.N
      else if tag = 2 then Some PropertyType.Email
      else if tag = 3 then Some PropertyType.Tel
      else if tag = 4 then Some PropertyType.Adr
      else if tag = 5 then Some PropertyType.Org
      else if tag = 6 then Some PropertyType.Photo
      else if tag = 7 then Some PropertyType.Url
      else if tag = 8 then Some PropertyType.Note
      else option.None)"

primrec PropertyType_to_tag :: "PropertyType \<Rightarrow> u8" where
  "PropertyType_to_tag PropertyType.FnName = 0"
| "PropertyType_to_tag PropertyType.N = 1"
| "PropertyType_to_tag PropertyType.Email = 2"
| "PropertyType_to_tag PropertyType.Tel = 3"
| "PropertyType_to_tag PropertyType.Adr = 4"
| "PropertyType_to_tag PropertyType.Org = 5"
| "PropertyType_to_tag PropertyType.Photo = 6"
| "PropertyType_to_tag PropertyType.Url = 7"
| "PropertyType_to_tag PropertyType.Note = 8"

section \<open>\<open>carddav::CardMethod\<close>\<close>

datatype (plugins only: code) CardMethod =
    Get
  | Put
  | Delete
  | Propfind
  | Proppatch
  | Report
  | Mkcol

definition CardMethod_from_tag :: "u8 \<Rightarrow> CardMethod option" where
  "CardMethod_from_tag tag =
     (if tag = 0 then Some CardMethod.Get
      else if tag = 1 then Some CardMethod.Put
      else if tag = 2 then Some CardMethod.Delete
      else if tag = 3 then Some CardMethod.Propfind
      else if tag = 4 then Some CardMethod.Proppatch
      else if tag = 5 then Some CardMethod.Report
      else if tag = 6 then Some CardMethod.Mkcol
      else option.None)"

primrec CardMethod_to_tag :: "CardMethod \<Rightarrow> u8" where
  "CardMethod_to_tag CardMethod.Get = 0"
| "CardMethod_to_tag CardMethod.Put = 1"
| "CardMethod_to_tag CardMethod.Delete = 2"
| "CardMethod_to_tag CardMethod.Propfind = 3"
| "CardMethod_to_tag CardMethod.Proppatch = 4"
| "CardMethod_to_tag CardMethod.Report = 5"
| "CardMethod_to_tag CardMethod.Mkcol = 6"

section \<open>\<open>carddav::VCardVersion\<close>\<close>

datatype (plugins only: code) VCardVersion =
    Vcard3
  | Vcard4

definition VCardVersion_from_tag :: "u8 \<Rightarrow> VCardVersion option" where
  "VCardVersion_from_tag tag =
     (if tag = 0 then Some VCardVersion.Vcard3
      else if tag = 1 then Some VCardVersion.Vcard4
      else option.None)"

primrec VCardVersion_to_tag :: "VCardVersion \<Rightarrow> u8" where
  "VCardVersion_to_tag VCardVersion.Vcard3 = 0"
| "VCardVersion_to_tag VCardVersion.Vcard4 = 1"

section \<open>\<open>carddav::CardError\<close>\<close>

datatype (plugins only: code) CardError =
    ValidAddressData
  | NoResourceType
  | MaxResourceSize
  | UidConflict
  | SupportedAddressData
  | PreconditionFailed

definition CardError_from_tag :: "u8 \<Rightarrow> CardError option" where
  "CardError_from_tag tag =
     (if tag = 0 then Some CardError.ValidAddressData
      else if tag = 1 then Some CardError.NoResourceType
      else if tag = 2 then Some CardError.MaxResourceSize
      else if tag = 3 then Some CardError.UidConflict
      else if tag = 4 then Some CardError.SupportedAddressData
      else if tag = 5 then Some CardError.PreconditionFailed
      else option.None)"

primrec CardError_to_tag :: "CardError \<Rightarrow> u8" where
  "CardError_to_tag CardError.ValidAddressData = 0"
| "CardError_to_tag CardError.NoResourceType = 1"
| "CardError_to_tag CardError.MaxResourceSize = 2"
| "CardError_to_tag CardError.UidConflict = 3"
| "CardError_to_tag CardError.SupportedAddressData = 4"
| "CardError_to_tag CardError.PreconditionFailed = 5"

section \<open>\<open>carddav::ServerState\<close>\<close>

datatype (plugins only: code) Carddav_ServerState =
    Idle
  | Bound
  | Serving
  | Shutdown

definition Carddav_ServerState_from_tag :: "u8 \<Rightarrow> Carddav_ServerState option" where
  "Carddav_ServerState_from_tag tag =
     (if tag = 0 then Some Carddav_ServerState.Idle
      else if tag = 1 then Some Carddav_ServerState.Bound
      else if tag = 2 then Some Carddav_ServerState.Serving
      else if tag = 3 then Some Carddav_ServerState.Shutdown
      else option.None)"

primrec Carddav_ServerState_to_tag :: "Carddav_ServerState \<Rightarrow> u8" where
  "Carddav_ServerState_to_tag Carddav_ServerState.Idle = 0"
| "Carddav_ServerState_to_tag Carddav_ServerState.Bound = 1"
| "Carddav_ServerState_to_tag Carddav_ServerState.Serving = 2"
| "Carddav_ServerState_to_tag Carddav_ServerState.Shutdown = 3"

section \<open>Tags and enumerations\<close>

interpretation Nfs_Operation_codec: tag_codec Nfs_Operation_to_tag Nfs_Operation_from_tag 15
  by (unfold_locales, (case_tac x; simp add: Nfs_Operation_from_tag_def), unfold Nfs_Operation_from_tag_def,
    (erule codec_arm, simp only: Nfs_Operation_to_tag.simps)+, erule codec_end, (case_tac x; simp), simp add: codec_eval)

interpretation Nfs_FileType_codec: tag_codec Nfs_FileType_to_tag Nfs_FileType_from_tag 7
  by (unfold_locales, (case_tac x; simp add: Nfs_FileType_from_tag_def), unfold Nfs_FileType_from_tag_def,
    (erule codec_arm, simp only: Nfs_FileType_to_tag.simps)+, erule codec_end, (case_tac x; simp), simp add: codec_eval)

interpretation Nfs_Status_codec: tag_codec Nfs_Status_to_tag Nfs_Status_from_tag 14
  by (unfold_locales, (case_tac x; simp add: Nfs_Status_from_tag_def), unfold Nfs_Status_from_tag_def,
    (erule codec_arm, simp only: Nfs_Status_to_tag.simps)+, erule codec_end, (case_tac x; simp), simp add: codec_eval)

interpretation NfsState_codec: tag_codec NfsState_to_tag NfsState_from_tag 6
  by (unfold_locales, (case_tac x; simp add: NfsState_from_tag_def), unfold NfsState_from_tag_def,
    (erule codec_arm, simp only: NfsState_to_tag.simps)+, erule codec_end, (case_tac x; simp), simp add: codec_eval)

interpretation Smb_Command_codec: tag_codec Smb_Command_to_tag Smb_Command_from_tag 16
  by (unfold_locales, (case_tac x; simp add: Smb_Command_from_tag_def), unfold Smb_Command_from_tag_def,
    (erule codec_arm, simp only: Smb_Command_to_tag.simps)+, erule codec_end, (case_tac x; simp), simp add: codec_eval)

interpretation Dialect_codec: tag_codec Dialect_to_tag Dialect_from_tag 5
  by (unfold_locales, (case_tac x; simp add: Dialect_from_tag_def), unfold Dialect_from_tag_def,
    (erule codec_arm, simp only: Dialect_to_tag.simps)+, erule codec_end, (case_tac x; simp), simp add: codec_eval)

interpretation ShareType_codec: tag_codec ShareType_to_tag ShareType_from_tag 3
  by (unfold_locales, (case_tac x; simp add: ShareType_from_tag_def), unfold ShareType_from_tag_def,
    (erule codec_arm, simp only: ShareType_to_tag.simps)+, erule codec_end, (case_tac x; simp), simp add: codec_eval)

interpretation Smb_SessionState_codec: tag_codec Smb_SessionState_to_tag Smb_SessionState_from_tag 6
  by (unfold_locales, (case_tac x; simp add: Smb_SessionState_from_tag_def), unfold Smb_SessionState_from_tag_def,
    (erule codec_arm, simp only: Smb_SessionState_to_tag.simps)+, erule codec_end, (case_tac x; simp), simp add: codec_eval)

interpretation Tftp_Opcode_codec: tag_codec Tftp_Opcode_to_tag Tftp_Opcode_from_tag 5
  by (unfold_locales, (case_tac x; simp add: Tftp_Opcode_from_tag_def), unfold Tftp_Opcode_from_tag_def,
    (erule codec_arm, simp only: Tftp_Opcode_to_tag.simps)+, erule codec_end, (case_tac x; simp), simp add: codec_eval)

interpretation TransferMode_codec: tag_codec TransferMode_to_tag TransferMode_from_tag 3
  by (unfold_locales, (case_tac x; simp add: TransferMode_from_tag_def), unfold TransferMode_from_tag_def,
    (erule codec_arm, simp only: TransferMode_to_tag.simps)+, erule codec_end, (case_tac x; simp), simp add: codec_eval)

interpretation TftpError_codec: tag_codec TftpError_to_tag TftpError_from_tag 8
  by (unfold_locales, (case_tac x; simp add: TftpError_from_tag_def), unfold TftpError_from_tag_def,
    (erule codec_arm, simp only: TftpError_to_tag.simps)+, erule codec_end, (case_tac x; simp), simp add: codec_eval)

interpretation Tftp_TransferState_codec: tag_codec Tftp_TransferState_to_tag Tftp_TransferState_from_tag 5
  by (unfold_locales, (case_tac x; simp add: Tftp_TransferState_from_tag_def), unfold Tftp_TransferState_from_tag_def,
    (erule codec_arm, simp only: Tftp_TransferState_to_tag.simps)+, erule codec_end, (case_tac x; simp), simp add: codec_eval)

interpretation FileOperation_codec: tag_codec FileOperation_to_tag FileOperation_from_tag 10
  by (unfold_locales, (case_tac x; simp add: FileOperation_from_tag_def), unfold FileOperation_from_tag_def,
    (erule codec_arm, simp only: FileOperation_to_tag.simps)+, erule codec_end, (case_tac x; simp), simp add: codec_eval)

interpretation Fileserver_FileType_codec: tag_codec Fileserver_FileType_to_tag Fileserver_FileType_from_tag 7
  by (unfold_locales, (case_tac x; simp add: Fileserver_FileType_from_tag_def), unfold Fileserver_FileType_from_tag_def,
    (erule codec_arm, simp only: Fileserver_FileType_to_tag.simps)+, erule codec_end, (case_tac x; simp), simp add: codec_eval)

interpretation FilePermission_codec: tag_codec FilePermission_to_tag FilePermission_from_tag 9
  by (unfold_locales, (case_tac x; simp add: FilePermission_from_tag_def), unfold FilePermission_from_tag_def,
    (erule codec_arm, simp only: FilePermission_to_tag.simps)+, erule codec_end, (case_tac x; simp), simp add: codec_eval)

interpretation Fileserver_LockType_codec: tag_codec Fileserver_LockType_to_tag Fileserver_LockType_from_tag 4
  by (unfold_locales, (case_tac x; simp add: Fileserver_LockType_from_tag_def), unfold Fileserver_LockType_from_tag_def,
    (erule codec_arm, simp only: Fileserver_LockType_to_tag.simps)+, erule codec_end, (case_tac x; simp), simp add: codec_eval)

interpretation FileErrorCode_codec: tag_codec FileErrorCode_to_tag FileErrorCode_from_tag 10
  by (unfold_locales, (case_tac x; simp add: FileErrorCode_from_tag_def), unfold FileErrorCode_from_tag_def,
    (erule codec_arm, simp only: FileErrorCode_to_tag.simps)+, erule codec_end, (case_tac x; simp), simp add: codec_eval)

interpretation Fileserver_SessionState_codec: tag_codec Fileserver_SessionState_to_tag Fileserver_SessionState_from_tag 5
  by (unfold_locales, (case_tac x; simp add: Fileserver_SessionState_from_tag_def), unfold Fileserver_SessionState_from_tag_def,
    (erule codec_arm, simp only: Fileserver_SessionState_to_tag.simps)+, erule codec_end, (case_tac x; simp), simp add: codec_eval)

interpretation Objectstore_Operation_codec: tag_codec Objectstore_Operation_to_tag Objectstore_Operation_from_tag 12
  by (unfold_locales, (case_tac x; simp add: Objectstore_Operation_from_tag_def), unfold Objectstore_Operation_from_tag_def,
    (erule codec_arm, simp only: Objectstore_Operation_to_tag.simps)+, erule codec_end, (case_tac x; simp), simp add: codec_eval)

interpretation StorageClass_codec: tag_codec StorageClass_to_tag StorageClass_from_tag 5
  by (unfold_locales, (case_tac x; simp add: StorageClass_from_tag_def), unfold StorageClass_from_tag_def,
    (erule codec_arm, simp only: StorageClass_to_tag.simps)+, erule codec_end, (case_tac x; simp), simp add: codec_eval)

interpretation Acl_codec: tag_codec Acl_to_tag Acl_from_tag 4
  by (unfold_locales, (case_tac x; simp add: Acl_from_tag_def), unfold Acl_from_tag_def,
    (erule codec_arm, simp only: Acl_to_tag.simps)+, erule codec_end, (case_tac x; simp), simp add: codec_eval)

interpretation Objectstore_ErrorCode_codec: tag_codec Objectstore_ErrorCode_to_tag Objectstore_ErrorCode_from_tag 8
  by (unfold_locales, (case_tac x; simp add: Objectstore_ErrorCode_from_tag_def), unfold Objectstore_ErrorCode_from_tag_def,
    (erule codec_arm, simp only: Objectstore_ErrorCode_to_tag.simps)+, erule codec_end, (case_tac x; simp), simp add: codec_eval)

interpretation Objectstore_SessionState_codec: tag_codec Objectstore_SessionState_to_tag Objectstore_SessionState_from_tag 5
  by (unfold_locales, (case_tac x; simp add: Objectstore_SessionState_from_tag_def), unfold Objectstore_SessionState_from_tag_def,
    (erule codec_arm, simp only: Objectstore_SessionState_to_tag.simps)+, erule codec_end, (case_tac x; simp), simp add: codec_eval)

interpretation Webdav_Method_codec: tag_codec Webdav_Method_to_tag Webdav_Method_from_tag 7
  by (unfold_locales, (case_tac x; simp add: Webdav_Method_from_tag_def), unfold Webdav_Method_from_tag_def,
    (erule codec_arm, simp only: Webdav_Method_to_tag.simps)+, erule codec_end, (case_tac x; simp), simp add: codec_eval)

interpretation Webdav_StatusCode_codec: tag_codec Webdav_StatusCode_to_tag Webdav_StatusCode_from_tag 5
  by (unfold_locales, (case_tac x; simp add: Webdav_StatusCode_from_tag_def), unfold Webdav_StatusCode_from_tag_def,
    (erule codec_arm, simp only: Webdav_StatusCode_to_tag.simps)+, erule codec_end, (case_tac x; simp), simp add: codec_eval)

interpretation LockScope_codec: tag_codec LockScope_to_tag LockScope_from_tag 2
  by (unfold_locales, (case_tac x; simp add: LockScope_from_tag_def), unfold LockScope_from_tag_def,
    (erule codec_arm, simp only: LockScope_to_tag.simps)+, erule codec_end, (case_tac x; simp), simp add: codec_eval)

interpretation Webdav_LockType_codec: tag_codec Webdav_LockType_to_tag Webdav_LockType_from_tag 1
  by (unfold_locales, (case_tac x; simp add: Webdav_LockType_from_tag_def), unfold Webdav_LockType_from_tag_def,
    (erule codec_arm, simp only: Webdav_LockType_to_tag.simps)+, erule codec_end, (case_tac x; simp), simp add: codec_eval)

interpretation Depth_codec: tag_codec Depth_to_tag Depth_from_tag 3
  by (unfold_locales, (case_tac x; simp add: Depth_from_tag_def), unfold Depth_from_tag_def,
    (erule codec_arm, simp only: Depth_to_tag.simps)+, erule codec_end, (case_tac x; simp), simp add: codec_eval)

interpretation PropertyOp_codec: tag_codec PropertyOp_to_tag PropertyOp_from_tag 2
  by (unfold_locales, (case_tac x; simp add: PropertyOp_from_tag_def), unfold PropertyOp_from_tag_def,
    (erule codec_arm, simp only: PropertyOp_to_tag.simps)+, erule codec_end, (case_tac x; simp), simp add: codec_eval)

interpretation ComponentType_codec: tag_codec ComponentType_to_tag ComponentType_from_tag 4
  by (unfold_locales, (case_tac x; simp add: ComponentType_from_tag_def), unfold ComponentType_from_tag_def,
    (erule codec_arm, simp only: ComponentType_to_tag.simps)+, erule codec_end, (case_tac x; simp), simp add: codec_eval)

interpretation CalMethod_codec: tag_codec CalMethod_to_tag CalMethod_from_tag 7
  by (unfold_locales, (case_tac x; simp add: CalMethod_from_tag_def), unfold CalMethod_from_tag_def,
    (erule codec_arm, simp only: CalMethod_to_tag.simps)+, erule codec_end, (case_tac x; simp), simp add: codec_eval)

interpretation ScheduleStatus_codec: tag_codec ScheduleStatus_to_tag ScheduleStatus_from_tag 5
  by (unfold_locales, (case_tac x; simp add: ScheduleStatus_from_tag_def), unfold ScheduleStatus_from_tag_def,
    (erule codec_arm, simp only: ScheduleStatus_to_tag.simps)+, erule codec_end, (case_tac x; simp), simp add: codec_eval)

interpretation CalError_codec: tag_codec CalError_to_tag CalError_from_tag 6
  by (unfold_locales, (case_tac x; simp add: CalError_from_tag_def), unfold CalError_from_tag_def,
    (erule codec_arm, simp only: CalError_to_tag.simps)+, erule codec_end, (case_tac x; simp), simp add: codec_eval)

interpretation Caldav_ServerState_codec: tag_codec Caldav_ServerState_to_tag Caldav_ServerState_from_tag 5
  by (unfold_locales, (case_tac x; simp add: Caldav_ServerState_from_tag_def), unfold Caldav_ServerState_from_tag_def,
    (erule codec_arm, simp only: Caldav_ServerState_to_tag.simps)+, erule codec_end, (case_tac x; simp), simp add: codec_eval)

interpretation PropertyType_codec: tag_codec PropertyType_to_tag PropertyType_from_tag 9
  by (unfold_locales, (case_tac x; simp add: PropertyType_from_tag_def), unfold PropertyType_from_tag_def,
    (erule codec_arm, simp only: PropertyType_to_tag.simps)+, erule codec_end, (case_tac x; simp), simp add: codec_eval)

interpretation CardMethod_codec: tag_codec CardMethod_to_tag CardMethod_from_tag 7
  by (unfold_locales, (case_tac x; simp add: CardMethod_from_tag_def), unfold CardMethod_from_tag_def,
    (erule codec_arm, simp only: CardMethod_to_tag.simps)+, erule codec_end, (case_tac x; simp), simp add: codec_eval)

interpretation VCardVersion_codec: tag_codec VCardVersion_to_tag VCardVersion_from_tag 2
  by (unfold_locales, (case_tac x; simp add: VCardVersion_from_tag_def), unfold VCardVersion_from_tag_def,
    (erule codec_arm, simp only: VCardVersion_to_tag.simps)+, erule codec_end, (case_tac x; simp), simp add: codec_eval)

interpretation CardError_codec: tag_codec CardError_to_tag CardError_from_tag 6
  by (unfold_locales, (case_tac x; simp add: CardError_from_tag_def), unfold CardError_from_tag_def,
    (erule codec_arm, simp only: CardError_to_tag.simps)+, erule codec_end, (case_tac x; simp), simp add: codec_eval)

interpretation Carddav_ServerState_codec: tag_codec Carddav_ServerState_to_tag Carddav_ServerState_from_tag 4
  by (unfold_locales, (case_tac x; simp add: Carddav_ServerState_from_tag_def), unfold Carddav_ServerState_from_tag_def,
    (erule codec_arm, simp only: Carddav_ServerState_to_tag.simps)+, erule codec_end, (case_tac x; simp), simp add: codec_eval)

end
