(* ===== verification/Host_Types.thy ===== *)
theory Host_Types
  imports Tag_Codec
begin

text \<open>
  The types of 7 modules of the Rust crate, under \<open>bindings/rust/src\<close>.

  \<^item> \<open>container.rs\<close>: \<open>ContainerState\<close>,
    \<open>ContainerOperation\<close>, \<open>NetworkMode\<close>, \<open>VolumeType\<close>,
    \<open>RestartPolicy\<close>, \<open>HealthStatus\<close>.
  \<^item> \<open>virt.rs\<close>: \<open>VmState\<close>, \<open>VirtOperation\<close>,
    \<open>DiskFormat\<close>, \<open>NetworkType\<close>, \<open>BootDevice\<close>.
  \<^item> \<open>sandbox.rs\<close>: \<open>ExecutionPolicy\<close>,
    \<open>ResourceLimit\<close>, \<open>SandboxState\<close>, \<open>ExitReason\<close>,
    \<open>SyscallPolicy\<close>.
  \<^item> \<open>wasm.rs\<close>: \<open>ValType\<close>, \<open>ExternKind\<close>,
    \<open>Mutability\<close>.
  \<^item> \<open>hardened.rs\<close>: \<open>HardeningLevel\<close>,
    \<open>SecurityControl\<close>, \<open>ComplianceStandard\<close>, \<open>AuditEvent\<close>,
    \<open>HardenedHealthStatus\<close>, \<open>ServerState\<close>.
  \<^item> \<open>telnet.rs\<close>: \<open>Command\<close>, \<open>TelnetOption\<close>,
    \<open>NegotiationState\<close>, \<open>SessionState\<close>.
  \<^item> \<open>lpd.rs\<close>: \<open>CommandCode\<close>, \<open>SubCommandCode\<close>,
    \<open>JobStatus\<close>.

  The \<open>Display\<close> implementations and the \<open>ALL\<close> arrays of these modules are not modelled.
\<close>

section \<open>\<open>container::ContainerState\<close>\<close>

datatype (plugins only: code) ContainerState =
    Creating
  | Running
  | Paused
  | Restarting
  | Stopped
  | Removing
  | Dead

definition ContainerState_from_tag :: "u8 \<Rightarrow> ContainerState option" where
  "ContainerState_from_tag tag =
     (if tag = 0 then Some ContainerState.Creating
      else if tag = 1 then Some ContainerState.Running
      else if tag = 2 then Some ContainerState.Paused
      else if tag = 3 then Some ContainerState.Restarting
      else if tag = 4 then Some ContainerState.Stopped
      else if tag = 5 then Some ContainerState.Removing
      else if tag = 6 then Some ContainerState.Dead
      else option.None)"

primrec ContainerState_to_tag :: "ContainerState \<Rightarrow> u8" where
  "ContainerState_to_tag ContainerState.Creating = 0"
| "ContainerState_to_tag ContainerState.Running = 1"
| "ContainerState_to_tag ContainerState.Paused = 2"
| "ContainerState_to_tag ContainerState.Restarting = 3"
| "ContainerState_to_tag ContainerState.Stopped = 4"
| "ContainerState_to_tag ContainerState.Removing = 5"
| "ContainerState_to_tag ContainerState.Dead = 6"

section \<open>\<open>container::ContainerOperation\<close>\<close>

datatype (plugins only: code) ContainerOperation =
    Create
  | Start
  | Stop
  | Restart
  | Pause
  | Unpause
  | Kill
  | Remove
  | Exec
  | Logs
  | Inspect

definition ContainerOperation_from_tag :: "u8 \<Rightarrow> ContainerOperation option" where
  "ContainerOperation_from_tag tag =
     (if tag = 0 then Some ContainerOperation.Create
      else if tag = 1 then Some ContainerOperation.Start
      else if tag = 2 then Some ContainerOperation.Stop
      else if tag = 3 then Some ContainerOperation.Restart
      else if tag = 4 then Some ContainerOperation.Pause
      else if tag = 5 then Some ContainerOperation.Unpause
      else if tag = 6 then Some ContainerOperation.Kill
      else if tag = 7 then Some ContainerOperation.Remove
      else if tag = 8 then Some ContainerOperation.Exec
      else if tag = 9 then Some ContainerOperation.Logs
      else if tag = 10 then Some ContainerOperation.Inspect
      else option.None)"

primrec ContainerOperation_to_tag :: "ContainerOperation \<Rightarrow> u8" where
  "ContainerOperation_to_tag ContainerOperation.Create = 0"
| "ContainerOperation_to_tag ContainerOperation.Start = 1"
| "ContainerOperation_to_tag ContainerOperation.Stop = 2"
| "ContainerOperation_to_tag ContainerOperation.Restart = 3"
| "ContainerOperation_to_tag ContainerOperation.Pause = 4"
| "ContainerOperation_to_tag ContainerOperation.Unpause = 5"
| "ContainerOperation_to_tag ContainerOperation.Kill = 6"
| "ContainerOperation_to_tag ContainerOperation.Remove = 7"
| "ContainerOperation_to_tag ContainerOperation.Exec = 8"
| "ContainerOperation_to_tag ContainerOperation.Logs = 9"
| "ContainerOperation_to_tag ContainerOperation.Inspect = 10"

section \<open>\<open>container::NetworkMode\<close>\<close>

datatype (plugins only: code) NetworkMode =
    Bridge
  | Host
  | NoneV
  | Overlay
  | Macvlan

definition NetworkMode_from_tag :: "u8 \<Rightarrow> NetworkMode option" where
  "NetworkMode_from_tag tag =
     (if tag = 0 then Some NetworkMode.Bridge
      else if tag = 1 then Some NetworkMode.Host
      else if tag = 2 then Some NetworkMode.NoneV
      else if tag = 3 then Some NetworkMode.Overlay
      else if tag = 4 then Some NetworkMode.Macvlan
      else option.None)"

primrec NetworkMode_to_tag :: "NetworkMode \<Rightarrow> u8" where
  "NetworkMode_to_tag NetworkMode.Bridge = 0"
| "NetworkMode_to_tag NetworkMode.Host = 1"
| "NetworkMode_to_tag NetworkMode.NoneV = 2"
| "NetworkMode_to_tag NetworkMode.Overlay = 3"
| "NetworkMode_to_tag NetworkMode.Macvlan = 4"

section \<open>\<open>container::VolumeType\<close>\<close>

datatype (plugins only: code) VolumeType =
    Bind
  | Named
  | Tmpfs

definition VolumeType_from_tag :: "u8 \<Rightarrow> VolumeType option" where
  "VolumeType_from_tag tag =
     (if tag = 0 then Some VolumeType.Bind
      else if tag = 1 then Some VolumeType.Named
      else if tag = 2 then Some VolumeType.Tmpfs
      else option.None)"

primrec VolumeType_to_tag :: "VolumeType \<Rightarrow> u8" where
  "VolumeType_to_tag VolumeType.Bind = 0"
| "VolumeType_to_tag VolumeType.Named = 1"
| "VolumeType_to_tag VolumeType.Tmpfs = 2"

section \<open>\<open>container::RestartPolicy\<close>\<close>

datatype (plugins only: code) RestartPolicy =
    No
  | Always
  | OnFailure
  | UnlessStopped

definition RestartPolicy_from_tag :: "u8 \<Rightarrow> RestartPolicy option" where
  "RestartPolicy_from_tag tag =
     (if tag = 0 then Some RestartPolicy.No
      else if tag = 1 then Some RestartPolicy.Always
      else if tag = 2 then Some RestartPolicy.OnFailure
      else if tag = 3 then Some RestartPolicy.UnlessStopped
      else option.None)"

primrec RestartPolicy_to_tag :: "RestartPolicy \<Rightarrow> u8" where
  "RestartPolicy_to_tag RestartPolicy.No = 0"
| "RestartPolicy_to_tag RestartPolicy.Always = 1"
| "RestartPolicy_to_tag RestartPolicy.OnFailure = 2"
| "RestartPolicy_to_tag RestartPolicy.UnlessStopped = 3"

section \<open>\<open>container::HealthStatus\<close>\<close>

datatype (plugins only: code) HealthStatus =
    Starting
  | Healthy
  | Unhealthy
  | NoCheck

definition HealthStatus_from_tag :: "u8 \<Rightarrow> HealthStatus option" where
  "HealthStatus_from_tag tag =
     (if tag = 0 then Some HealthStatus.Starting
      else if tag = 1 then Some HealthStatus.Healthy
      else if tag = 2 then Some HealthStatus.Unhealthy
      else if tag = 3 then Some HealthStatus.NoCheck
      else option.None)"

primrec HealthStatus_to_tag :: "HealthStatus \<Rightarrow> u8" where
  "HealthStatus_to_tag HealthStatus.Starting = 0"
| "HealthStatus_to_tag HealthStatus.Healthy = 1"
| "HealthStatus_to_tag HealthStatus.Unhealthy = 2"
| "HealthStatus_to_tag HealthStatus.NoCheck = 3"

section \<open>\<open>virt::VmState\<close>\<close>

datatype (plugins only: code) VmState =
    Creating
  | Running
  | Paused
  | Suspended
  | ShuttingDown
  | Stopped
  | Crashed
  | Migrating

definition VmState_from_tag :: "u8 \<Rightarrow> VmState option" where
  "VmState_from_tag tag =
     (if tag = 0 then Some VmState.Creating
      else if tag = 1 then Some VmState.Running
      else if tag = 2 then Some VmState.Paused
      else if tag = 3 then Some VmState.Suspended
      else if tag = 4 then Some VmState.ShuttingDown
      else if tag = 5 then Some VmState.Stopped
      else if tag = 6 then Some VmState.Crashed
      else if tag = 7 then Some VmState.Migrating
      else option.None)"

primrec VmState_to_tag :: "VmState \<Rightarrow> u8" where
  "VmState_to_tag VmState.Creating = 0"
| "VmState_to_tag VmState.Running = 1"
| "VmState_to_tag VmState.Paused = 2"
| "VmState_to_tag VmState.Suspended = 3"
| "VmState_to_tag VmState.ShuttingDown = 4"
| "VmState_to_tag VmState.Stopped = 5"
| "VmState_to_tag VmState.Crashed = 6"
| "VmState_to_tag VmState.Migrating = 7"

section \<open>\<open>virt::VirtOperation\<close>\<close>

datatype (plugins only: code) VirtOperation =
    Create
  | Start
  | Stop
  | Restart
  | Pause
  | Resume
  | Suspend
  | Migrate
  | Snapshot
  | Clone
  | Delete

definition VirtOperation_from_tag :: "u8 \<Rightarrow> VirtOperation option" where
  "VirtOperation_from_tag tag =
     (if tag = 0 then Some VirtOperation.Create
      else if tag = 1 then Some VirtOperation.Start
      else if tag = 2 then Some VirtOperation.Stop
      else if tag = 3 then Some VirtOperation.Restart
      else if tag = 4 then Some VirtOperation.Pause
      else if tag = 5 then Some VirtOperation.Resume
      else if tag = 6 then Some VirtOperation.Suspend
      else if tag = 7 then Some VirtOperation.Migrate
      else if tag = 8 then Some VirtOperation.Snapshot
      else if tag = 9 then Some VirtOperation.Clone
      else if tag = 10 then Some VirtOperation.Delete
      else option.None)"

primrec VirtOperation_to_tag :: "VirtOperation \<Rightarrow> u8" where
  "VirtOperation_to_tag VirtOperation.Create = 0"
| "VirtOperation_to_tag VirtOperation.Start = 1"
| "VirtOperation_to_tag VirtOperation.Stop = 2"
| "VirtOperation_to_tag VirtOperation.Restart = 3"
| "VirtOperation_to_tag VirtOperation.Pause = 4"
| "VirtOperation_to_tag VirtOperation.Resume = 5"
| "VirtOperation_to_tag VirtOperation.Suspend = 6"
| "VirtOperation_to_tag VirtOperation.Migrate = 7"
| "VirtOperation_to_tag VirtOperation.Snapshot = 8"
| "VirtOperation_to_tag VirtOperation.Clone = 9"
| "VirtOperation_to_tag VirtOperation.Delete = 10"

section \<open>\<open>virt::DiskFormat\<close>\<close>

datatype (plugins only: code) DiskFormat =
    Raw
  | Qcow2
  | Vdi
  | Vmdk
  | Vhd

definition DiskFormat_from_tag :: "u8 \<Rightarrow> DiskFormat option" where
  "DiskFormat_from_tag tag =
     (if tag = 0 then Some DiskFormat.Raw
      else if tag = 1 then Some DiskFormat.Qcow2
      else if tag = 2 then Some DiskFormat.Vdi
      else if tag = 3 then Some DiskFormat.Vmdk
      else if tag = 4 then Some DiskFormat.Vhd
      else option.None)"

primrec DiskFormat_to_tag :: "DiskFormat \<Rightarrow> u8" where
  "DiskFormat_to_tag DiskFormat.Raw = 0"
| "DiskFormat_to_tag DiskFormat.Qcow2 = 1"
| "DiskFormat_to_tag DiskFormat.Vdi = 2"
| "DiskFormat_to_tag DiskFormat.Vmdk = 3"
| "DiskFormat_to_tag DiskFormat.Vhd = 4"

section \<open>\<open>virt::NetworkType\<close>\<close>

datatype (plugins only: code) NetworkType =
    Nat
  | Bridged
  | Internal
  | HostOnly

definition NetworkType_from_tag :: "u8 \<Rightarrow> NetworkType option" where
  "NetworkType_from_tag tag =
     (if tag = 0 then Some NetworkType.Nat
      else if tag = 1 then Some NetworkType.Bridged
      else if tag = 2 then Some NetworkType.Internal
      else if tag = 3 then Some NetworkType.HostOnly
      else option.None)"

primrec NetworkType_to_tag :: "NetworkType \<Rightarrow> u8" where
  "NetworkType_to_tag NetworkType.Nat = 0"
| "NetworkType_to_tag NetworkType.Bridged = 1"
| "NetworkType_to_tag NetworkType.Internal = 2"
| "NetworkType_to_tag NetworkType.HostOnly = 3"

section \<open>\<open>virt::BootDevice\<close>\<close>

datatype (plugins only: code) BootDevice =
    HardDisk
  | Cdrom
  | Network
  | Usb

definition BootDevice_from_tag :: "u8 \<Rightarrow> BootDevice option" where
  "BootDevice_from_tag tag =
     (if tag = 0 then Some BootDevice.HardDisk
      else if tag = 1 then Some BootDevice.Cdrom
      else if tag = 2 then Some BootDevice.Network
      else if tag = 3 then Some BootDevice.Usb
      else option.None)"

primrec BootDevice_to_tag :: "BootDevice \<Rightarrow> u8" where
  "BootDevice_to_tag BootDevice.HardDisk = 0"
| "BootDevice_to_tag BootDevice.Cdrom = 1"
| "BootDevice_to_tag BootDevice.Network = 2"
| "BootDevice_to_tag BootDevice.Usb = 3"

section \<open>\<open>sandbox::ExecutionPolicy\<close>\<close>

datatype (plugins only: code) ExecutionPolicy =
    Unrestricted
  | ReadOnly
  | NetworkDenied
  | Isolated
  | Ephemeral

definition ExecutionPolicy_from_tag :: "u8 \<Rightarrow> ExecutionPolicy option" where
  "ExecutionPolicy_from_tag tag =
     (if tag = 0 then Some ExecutionPolicy.Unrestricted
      else if tag = 1 then Some ExecutionPolicy.ReadOnly
      else if tag = 2 then Some ExecutionPolicy.NetworkDenied
      else if tag = 3 then Some ExecutionPolicy.Isolated
      else if tag = 4 then Some ExecutionPolicy.Ephemeral
      else option.None)"

primrec ExecutionPolicy_to_tag :: "ExecutionPolicy \<Rightarrow> u8" where
  "ExecutionPolicy_to_tag ExecutionPolicy.Unrestricted = 0"
| "ExecutionPolicy_to_tag ExecutionPolicy.ReadOnly = 1"
| "ExecutionPolicy_to_tag ExecutionPolicy.NetworkDenied = 2"
| "ExecutionPolicy_to_tag ExecutionPolicy.Isolated = 3"
| "ExecutionPolicy_to_tag ExecutionPolicy.Ephemeral = 4"

section \<open>\<open>sandbox::ResourceLimit\<close>\<close>

datatype (plugins only: code) ResourceLimit =
    CpuTime
  | Memory
  | DiskIo
  | NetworkIo
  | FileDescriptors
  | Processes

definition ResourceLimit_from_tag :: "u8 \<Rightarrow> ResourceLimit option" where
  "ResourceLimit_from_tag tag =
     (if tag = 0 then Some ResourceLimit.CpuTime
      else if tag = 1 then Some ResourceLimit.Memory
      else if tag = 2 then Some ResourceLimit.DiskIo
      else if tag = 3 then Some ResourceLimit.NetworkIo
      else if tag = 4 then Some ResourceLimit.FileDescriptors
      else if tag = 5 then Some ResourceLimit.Processes
      else option.None)"

primrec ResourceLimit_to_tag :: "ResourceLimit \<Rightarrow> u8" where
  "ResourceLimit_to_tag ResourceLimit.CpuTime = 0"
| "ResourceLimit_to_tag ResourceLimit.Memory = 1"
| "ResourceLimit_to_tag ResourceLimit.DiskIo = 2"
| "ResourceLimit_to_tag ResourceLimit.NetworkIo = 3"
| "ResourceLimit_to_tag ResourceLimit.FileDescriptors = 4"
| "ResourceLimit_to_tag ResourceLimit.Processes = 5"

section \<open>\<open>sandbox::SandboxState\<close>\<close>

datatype (plugins only: code) SandboxState =
    Creating
  | Ready
  | Running
  | Suspended
  | Terminated
  | Destroyed

definition SandboxState_from_tag :: "u8 \<Rightarrow> SandboxState option" where
  "SandboxState_from_tag tag =
     (if tag = 0 then Some SandboxState.Creating
      else if tag = 1 then Some SandboxState.Ready
      else if tag = 2 then Some SandboxState.Running
      else if tag = 3 then Some SandboxState.Suspended
      else if tag = 4 then Some SandboxState.Terminated
      else if tag = 5 then Some SandboxState.Destroyed
      else option.None)"

primrec SandboxState_to_tag :: "SandboxState \<Rightarrow> u8" where
  "SandboxState_to_tag SandboxState.Creating = 0"
| "SandboxState_to_tag SandboxState.Ready = 1"
| "SandboxState_to_tag SandboxState.Running = 2"
| "SandboxState_to_tag SandboxState.Suspended = 3"
| "SandboxState_to_tag SandboxState.Terminated = 4"
| "SandboxState_to_tag SandboxState.Destroyed = 5"

section \<open>\<open>sandbox::ExitReason\<close>\<close>

datatype (plugins only: code) ExitReason =
    Normal
  | Timeout
  | MemoryExceeded
  | PolicyViolation
  | Killed
  | Error

definition ExitReason_from_tag :: "u8 \<Rightarrow> ExitReason option" where
  "ExitReason_from_tag tag =
     (if tag = 0 then Some ExitReason.Normal
      else if tag = 1 then Some ExitReason.Timeout
      else if tag = 2 then Some ExitReason.MemoryExceeded
      else if tag = 3 then Some ExitReason.PolicyViolation
      else if tag = 4 then Some ExitReason.Killed
      else if tag = 5 then Some ExitReason.Error
      else option.None)"

primrec ExitReason_to_tag :: "ExitReason \<Rightarrow> u8" where
  "ExitReason_to_tag ExitReason.Normal = 0"
| "ExitReason_to_tag ExitReason.Timeout = 1"
| "ExitReason_to_tag ExitReason.MemoryExceeded = 2"
| "ExitReason_to_tag ExitReason.PolicyViolation = 3"
| "ExitReason_to_tag ExitReason.Killed = 4"
| "ExitReason_to_tag ExitReason.Error = 5"

section \<open>\<open>sandbox::SyscallPolicy\<close>\<close>

datatype (plugins only: code) SyscallPolicy =
    Allow
  | Deny
  | Log
  | Trap

definition SyscallPolicy_from_tag :: "u8 \<Rightarrow> SyscallPolicy option" where
  "SyscallPolicy_from_tag tag =
     (if tag = 0 then Some SyscallPolicy.Allow
      else if tag = 1 then Some SyscallPolicy.Deny
      else if tag = 2 then Some SyscallPolicy.Log
      else if tag = 3 then Some SyscallPolicy.Trap
      else option.None)"

primrec SyscallPolicy_to_tag :: "SyscallPolicy \<Rightarrow> u8" where
  "SyscallPolicy_to_tag SyscallPolicy.Allow = 0"
| "SyscallPolicy_to_tag SyscallPolicy.Deny = 1"
| "SyscallPolicy_to_tag SyscallPolicy.Log = 2"
| "SyscallPolicy_to_tag SyscallPolicy.Trap = 3"

section \<open>\<open>wasm::ValType\<close>\<close>

datatype (plugins only: code) ValType =
    I32
  | I64
  | F32
  | F64
  | V128
  | FuncRef
  | ExternRef

definition ValType_from_tag :: "u8 \<Rightarrow> ValType option" where
  "ValType_from_tag tag =
     (if tag = 0 then Some ValType.I32
      else if tag = 1 then Some ValType.I64
      else if tag = 2 then Some ValType.F32
      else if tag = 3 then Some ValType.F64
      else if tag = 4 then Some ValType.V128
      else if tag = 5 then Some ValType.FuncRef
      else if tag = 6 then Some ValType.ExternRef
      else option.None)"

primrec ValType_to_tag :: "ValType \<Rightarrow> u8" where
  "ValType_to_tag ValType.I32 = 0"
| "ValType_to_tag ValType.I64 = 1"
| "ValType_to_tag ValType.F32 = 2"
| "ValType_to_tag ValType.F64 = 3"
| "ValType_to_tag ValType.V128 = 4"
| "ValType_to_tag ValType.FuncRef = 5"
| "ValType_to_tag ValType.ExternRef = 6"

definition ValType_is_numeric :: "ValType \<Rightarrow> bool" where
  "ValType_is_numeric self =
     (case self of
      ValType.I32 \<Rightarrow> True
    | ValType.I64 \<Rightarrow> True
    | ValType.F32 \<Rightarrow> True
    | ValType.F64 \<Rightarrow> True
    | _ \<Rightarrow> False)"

definition ValType_is_reference :: "ValType \<Rightarrow> bool" where
  "ValType_is_reference self =
     (case self of
      ValType.FuncRef \<Rightarrow> True
    | ValType.ExternRef \<Rightarrow> True
    | _ \<Rightarrow> False)"

section \<open>\<open>wasm::ExternKind\<close>\<close>

datatype (plugins only: code) ExternKind =
    FuncExtern
  | TableExtern
  | MemExtern
  | GlobalExtern

definition ExternKind_from_tag :: "u8 \<Rightarrow> ExternKind option" where
  "ExternKind_from_tag tag =
     (if tag = 0 then Some ExternKind.FuncExtern
      else if tag = 1 then Some ExternKind.TableExtern
      else if tag = 2 then Some ExternKind.MemExtern
      else if tag = 3 then Some ExternKind.GlobalExtern
      else option.None)"

primrec ExternKind_to_tag :: "ExternKind \<Rightarrow> u8" where
  "ExternKind_to_tag ExternKind.FuncExtern = 0"
| "ExternKind_to_tag ExternKind.TableExtern = 1"
| "ExternKind_to_tag ExternKind.MemExtern = 2"
| "ExternKind_to_tag ExternKind.GlobalExtern = 3"

section \<open>\<open>wasm::Mutability\<close>\<close>

datatype (plugins only: code) Mutability =
    Immutable
  | Mutable

definition Mutability_from_tag :: "u8 \<Rightarrow> Mutability option" where
  "Mutability_from_tag tag =
     (if tag = 0 then Some Mutability.Immutable
      else if tag = 1 then Some Mutability.Mutable
      else option.None)"

primrec Mutability_to_tag :: "Mutability \<Rightarrow> u8" where
  "Mutability_to_tag Mutability.Immutable = 0"
| "Mutability_to_tag Mutability.Mutable = 1"

section \<open>\<open>hardened::HardeningLevel\<close>\<close>

datatype (plugins only: code) HardeningLevel =
    Minimal
  | Standard
  | High
  | Maximum

definition HardeningLevel_from_tag :: "u8 \<Rightarrow> HardeningLevel option" where
  "HardeningLevel_from_tag tag =
     (if tag = 0 then Some HardeningLevel.Minimal
      else if tag = 1 then Some HardeningLevel.Standard
      else if tag = 2 then Some HardeningLevel.High
      else if tag = 3 then Some HardeningLevel.Maximum
      else option.None)"

primrec HardeningLevel_to_tag :: "HardeningLevel \<Rightarrow> u8" where
  "HardeningLevel_to_tag HardeningLevel.Minimal = 0"
| "HardeningLevel_to_tag HardeningLevel.Standard = 1"
| "HardeningLevel_to_tag HardeningLevel.High = 2"
| "HardeningLevel_to_tag HardeningLevel.Maximum = 3"

section \<open>\<open>hardened::SecurityControl\<close>\<close>

datatype (plugins only: code) SecurityControl =
    Aslr
  | Dep
  | StackCanary
  | Cfi
  | Sandboxing
  | SecureBoot
  | AuditLog

definition SecurityControl_from_tag :: "u8 \<Rightarrow> SecurityControl option" where
  "SecurityControl_from_tag tag =
     (if tag = 0 then Some SecurityControl.Aslr
      else if tag = 1 then Some SecurityControl.Dep
      else if tag = 2 then Some SecurityControl.StackCanary
      else if tag = 3 then Some SecurityControl.Cfi
      else if tag = 4 then Some SecurityControl.Sandboxing
      else if tag = 5 then Some SecurityControl.SecureBoot
      else if tag = 6 then Some SecurityControl.AuditLog
      else option.None)"

primrec SecurityControl_to_tag :: "SecurityControl \<Rightarrow> u8" where
  "SecurityControl_to_tag SecurityControl.Aslr = 0"
| "SecurityControl_to_tag SecurityControl.Dep = 1"
| "SecurityControl_to_tag SecurityControl.StackCanary = 2"
| "SecurityControl_to_tag SecurityControl.Cfi = 3"
| "SecurityControl_to_tag SecurityControl.Sandboxing = 4"
| "SecurityControl_to_tag SecurityControl.SecureBoot = 5"
| "SecurityControl_to_tag SecurityControl.AuditLog = 6"

section \<open>\<open>hardened::ComplianceStandard\<close>\<close>

datatype (plugins only: code) ComplianceStandard =
    Cis
  | Stig
  | Nist80053
  | PciDss
  | Fips140

definition ComplianceStandard_from_tag :: "u8 \<Rightarrow> ComplianceStandard option" where
  "ComplianceStandard_from_tag tag =
     (if tag = 0 then Some ComplianceStandard.Cis
      else if tag = 1 then Some ComplianceStandard.Stig
      else if tag = 2 then Some ComplianceStandard.Nist80053
      else if tag = 3 then Some ComplianceStandard.PciDss
      else if tag = 4 then Some ComplianceStandard.Fips140
      else option.None)"

primrec ComplianceStandard_to_tag :: "ComplianceStandard \<Rightarrow> u8" where
  "ComplianceStandard_to_tag ComplianceStandard.Cis = 0"
| "ComplianceStandard_to_tag ComplianceStandard.Stig = 1"
| "ComplianceStandard_to_tag ComplianceStandard.Nist80053 = 2"
| "ComplianceStandard_to_tag ComplianceStandard.PciDss = 3"
| "ComplianceStandard_to_tag ComplianceStandard.Fips140 = 4"

section \<open>\<open>hardened::AuditEvent\<close>\<close>

datatype (plugins only: code) AuditEvent =
    ProcessStart
  | FileAccess
  | NetworkConn
  | PrivilegeEscalation
  | ConfigChange
  | AuthAttempt

definition AuditEvent_from_tag :: "u8 \<Rightarrow> AuditEvent option" where
  "AuditEvent_from_tag tag =
     (if tag = 0 then Some AuditEvent.ProcessStart
      else if tag = 1 then Some AuditEvent.FileAccess
      else if tag = 2 then Some AuditEvent.NetworkConn
      else if tag = 3 then Some AuditEvent.PrivilegeEscalation
      else if tag = 4 then Some AuditEvent.ConfigChange
      else if tag = 5 then Some AuditEvent.AuthAttempt
      else option.None)"

primrec AuditEvent_to_tag :: "AuditEvent \<Rightarrow> u8" where
  "AuditEvent_to_tag AuditEvent.ProcessStart = 0"
| "AuditEvent_to_tag AuditEvent.FileAccess = 1"
| "AuditEvent_to_tag AuditEvent.NetworkConn = 2"
| "AuditEvent_to_tag AuditEvent.PrivilegeEscalation = 3"
| "AuditEvent_to_tag AuditEvent.ConfigChange = 4"
| "AuditEvent_to_tag AuditEvent.AuthAttempt = 5"

section \<open>\<open>hardened::HardenedHealthStatus\<close>\<close>

datatype (plugins only: code) HardenedHealthStatus =
    Healthy
  | Degraded
  | Compromised
  | Unresponsive

definition HardenedHealthStatus_from_tag :: "u8 \<Rightarrow> HardenedHealthStatus option" where
  "HardenedHealthStatus_from_tag tag =
     (if tag = 0 then Some HardenedHealthStatus.Healthy
      else if tag = 1 then Some HardenedHealthStatus.Degraded
      else if tag = 2 then Some HardenedHealthStatus.Compromised
      else if tag = 3 then Some HardenedHealthStatus.Unresponsive
      else option.None)"

primrec HardenedHealthStatus_to_tag :: "HardenedHealthStatus \<Rightarrow> u8" where
  "HardenedHealthStatus_to_tag HardenedHealthStatus.Healthy = 0"
| "HardenedHealthStatus_to_tag HardenedHealthStatus.Degraded = 1"
| "HardenedHealthStatus_to_tag HardenedHealthStatus.Compromised = 2"
| "HardenedHealthStatus_to_tag HardenedHealthStatus.Unresponsive = 3"

section \<open>\<open>hardened::ServerState\<close>\<close>

datatype (plugins only: code) Hardened_ServerState =
    Idle
  | Hardening
  | Active
  | Auditing
  | Shutdown

definition Hardened_ServerState_from_tag :: "u8 \<Rightarrow> Hardened_ServerState option" where
  "Hardened_ServerState_from_tag tag =
     (if tag = 0 then Some Hardened_ServerState.Idle
      else if tag = 1 then Some Hardened_ServerState.Hardening
      else if tag = 2 then Some Hardened_ServerState.Active
      else if tag = 3 then Some Hardened_ServerState.Auditing
      else if tag = 4 then Some Hardened_ServerState.Shutdown
      else option.None)"

primrec Hardened_ServerState_to_tag :: "Hardened_ServerState \<Rightarrow> u8" where
  "Hardened_ServerState_to_tag Hardened_ServerState.Idle = 0"
| "Hardened_ServerState_to_tag Hardened_ServerState.Hardening = 1"
| "Hardened_ServerState_to_tag Hardened_ServerState.Active = 2"
| "Hardened_ServerState_to_tag Hardened_ServerState.Auditing = 3"
| "Hardened_ServerState_to_tag Hardened_ServerState.Shutdown = 4"

definition TELNET_PORT :: "u16" where
  "TELNET_PORT = 23"

section \<open>\<open>telnet::Command\<close>\<close>

datatype (plugins only: code) Telnet_Command =
    Se
  | Nop
  | DataMark
  | Break
  | InterruptProcess
  | AbortOutput
  | AreYouThere
  | EraseChar
  | EraseLine
  | GoAhead
  | Sb
  | Will
  | Wont
  | Do
  | Dont
  | Iac

definition Telnet_Command_from_tag :: "u8 \<Rightarrow> Telnet_Command option" where
  "Telnet_Command_from_tag tag =
     (if tag = 0 then Some Telnet_Command.Se
      else if tag = 1 then Some Telnet_Command.Nop
      else if tag = 2 then Some Telnet_Command.DataMark
      else if tag = 3 then Some Telnet_Command.Break
      else if tag = 4 then Some Telnet_Command.InterruptProcess
      else if tag = 5 then Some Telnet_Command.AbortOutput
      else if tag = 6 then Some Telnet_Command.AreYouThere
      else if tag = 7 then Some Telnet_Command.EraseChar
      else if tag = 8 then Some Telnet_Command.EraseLine
      else if tag = 9 then Some Telnet_Command.GoAhead
      else if tag = 10 then Some Telnet_Command.Sb
      else if tag = 11 then Some Telnet_Command.Will
      else if tag = 12 then Some Telnet_Command.Wont
      else if tag = 13 then Some Telnet_Command.Do
      else if tag = 14 then Some Telnet_Command.Dont
      else if tag = 15 then Some Telnet_Command.Iac
      else option.None)"

primrec Telnet_Command_to_tag :: "Telnet_Command \<Rightarrow> u8" where
  "Telnet_Command_to_tag Telnet_Command.Se = 0"
| "Telnet_Command_to_tag Telnet_Command.Nop = 1"
| "Telnet_Command_to_tag Telnet_Command.DataMark = 2"
| "Telnet_Command_to_tag Telnet_Command.Break = 3"
| "Telnet_Command_to_tag Telnet_Command.InterruptProcess = 4"
| "Telnet_Command_to_tag Telnet_Command.AbortOutput = 5"
| "Telnet_Command_to_tag Telnet_Command.AreYouThere = 6"
| "Telnet_Command_to_tag Telnet_Command.EraseChar = 7"
| "Telnet_Command_to_tag Telnet_Command.EraseLine = 8"
| "Telnet_Command_to_tag Telnet_Command.GoAhead = 9"
| "Telnet_Command_to_tag Telnet_Command.Sb = 10"
| "Telnet_Command_to_tag Telnet_Command.Will = 11"
| "Telnet_Command_to_tag Telnet_Command.Wont = 12"
| "Telnet_Command_to_tag Telnet_Command.Do = 13"
| "Telnet_Command_to_tag Telnet_Command.Dont = 14"
| "Telnet_Command_to_tag Telnet_Command.Iac = 15"

definition Telnet_Command_is_negotiation :: "Telnet_Command \<Rightarrow> bool" where
  "Telnet_Command_is_negotiation self =
     (case self of
      Telnet_Command.Will \<Rightarrow> True
    | Telnet_Command.Wont \<Rightarrow> True
    | Telnet_Command.Do \<Rightarrow> True
    | Telnet_Command.Dont \<Rightarrow> True
    | _ \<Rightarrow> False)"

section \<open>\<open>telnet::TelnetOption\<close>\<close>

datatype (plugins only: code) TelnetOption =
    Echo
  | SuppressGoAhead
  | Status
  | TimingMark
  | TerminalType
  | WindowSize
  | TerminalSpeed
  | RemoteFlowControl
  | Linemode
  | Environment

definition TelnetOption_from_tag :: "u8 \<Rightarrow> TelnetOption option" where
  "TelnetOption_from_tag tag =
     (if tag = 0 then Some TelnetOption.Echo
      else if tag = 1 then Some TelnetOption.SuppressGoAhead
      else if tag = 2 then Some TelnetOption.Status
      else if tag = 3 then Some TelnetOption.TimingMark
      else if tag = 4 then Some TelnetOption.TerminalType
      else if tag = 5 then Some TelnetOption.WindowSize
      else if tag = 6 then Some TelnetOption.TerminalSpeed
      else if tag = 7 then Some TelnetOption.RemoteFlowControl
      else if tag = 8 then Some TelnetOption.Linemode
      else if tag = 9 then Some TelnetOption.Environment
      else option.None)"

primrec TelnetOption_to_tag :: "TelnetOption \<Rightarrow> u8" where
  "TelnetOption_to_tag TelnetOption.Echo = 0"
| "TelnetOption_to_tag TelnetOption.SuppressGoAhead = 1"
| "TelnetOption_to_tag TelnetOption.Status = 2"
| "TelnetOption_to_tag TelnetOption.TimingMark = 3"
| "TelnetOption_to_tag TelnetOption.TerminalType = 4"
| "TelnetOption_to_tag TelnetOption.WindowSize = 5"
| "TelnetOption_to_tag TelnetOption.TerminalSpeed = 6"
| "TelnetOption_to_tag TelnetOption.RemoteFlowControl = 7"
| "TelnetOption_to_tag TelnetOption.Linemode = 8"
| "TelnetOption_to_tag TelnetOption.Environment = 9"

section \<open>\<open>telnet::NegotiationState\<close>\<close>

datatype (plugins only: code) Telnet_NegotiationState =
    Inactive
  | WillSent
  | DoSent
  | Active

definition Telnet_NegotiationState_from_tag :: "u8 \<Rightarrow> Telnet_NegotiationState option" where
  "Telnet_NegotiationState_from_tag tag =
     (if tag = 0 then Some Telnet_NegotiationState.Inactive
      else if tag = 1 then Some Telnet_NegotiationState.WillSent
      else if tag = 2 then Some Telnet_NegotiationState.DoSent
      else if tag = 3 then Some Telnet_NegotiationState.Active
      else option.None)"

primrec Telnet_NegotiationState_to_tag :: "Telnet_NegotiationState \<Rightarrow> u8" where
  "Telnet_NegotiationState_to_tag Telnet_NegotiationState.Inactive = 0"
| "Telnet_NegotiationState_to_tag Telnet_NegotiationState.WillSent = 1"
| "Telnet_NegotiationState_to_tag Telnet_NegotiationState.DoSent = 2"
| "Telnet_NegotiationState_to_tag Telnet_NegotiationState.Active = 3"

section \<open>\<open>telnet::SessionState\<close>\<close>

datatype (plugins only: code) Telnet_SessionState =
    Idle
  | Negotiating
  | Active
  | Subneg
  | Closing

definition Telnet_SessionState_from_tag :: "u8 \<Rightarrow> Telnet_SessionState option" where
  "Telnet_SessionState_from_tag tag =
     (if tag = 0 then Some Telnet_SessionState.Idle
      else if tag = 1 then Some Telnet_SessionState.Negotiating
      else if tag = 2 then Some Telnet_SessionState.Active
      else if tag = 3 then Some Telnet_SessionState.Subneg
      else if tag = 4 then Some Telnet_SessionState.Closing
      else option.None)"

primrec Telnet_SessionState_to_tag :: "Telnet_SessionState \<Rightarrow> u8" where
  "Telnet_SessionState_to_tag Telnet_SessionState.Idle = 0"
| "Telnet_SessionState_to_tag Telnet_SessionState.Negotiating = 1"
| "Telnet_SessionState_to_tag Telnet_SessionState.Active = 2"
| "Telnet_SessionState_to_tag Telnet_SessionState.Subneg = 3"
| "Telnet_SessionState_to_tag Telnet_SessionState.Closing = 4"

definition LPD_PORT :: "u16" where
  "LPD_PORT = 515"

section \<open>\<open>lpd::CommandCode\<close>\<close>

datatype (plugins only: code) CommandCode =
    PrintJob
  | ReceiveJob
  | ShortQueue
  | LongQueue
  | RemoveJobs

definition CommandCode_from_tag :: "u8 \<Rightarrow> CommandCode option" where
  "CommandCode_from_tag tag =
     (if tag = 1 then Some CommandCode.PrintJob
      else if tag = 2 then Some CommandCode.ReceiveJob
      else if tag = 3 then Some CommandCode.ShortQueue
      else if tag = 4 then Some CommandCode.LongQueue
      else if tag = 5 then Some CommandCode.RemoveJobs
      else option.None)"

primrec CommandCode_to_tag :: "CommandCode \<Rightarrow> u8" where
  "CommandCode_to_tag CommandCode.PrintJob = 1"
| "CommandCode_to_tag CommandCode.ReceiveJob = 2"
| "CommandCode_to_tag CommandCode.ShortQueue = 3"
| "CommandCode_to_tag CommandCode.LongQueue = 4"
| "CommandCode_to_tag CommandCode.RemoveJobs = 5"

section \<open>\<open>lpd::SubCommandCode\<close>\<close>

datatype (plugins only: code) SubCommandCode =
    AbortJob
  | ControlFile
  | DataFile

definition SubCommandCode_from_tag :: "u8 \<Rightarrow> SubCommandCode option" where
  "SubCommandCode_from_tag tag =
     (if tag = 1 then Some SubCommandCode.AbortJob
      else if tag = 2 then Some SubCommandCode.ControlFile
      else if tag = 3 then Some SubCommandCode.DataFile
      else option.None)"

primrec SubCommandCode_to_tag :: "SubCommandCode \<Rightarrow> u8" where
  "SubCommandCode_to_tag SubCommandCode.AbortJob = 1"
| "SubCommandCode_to_tag SubCommandCode.ControlFile = 2"
| "SubCommandCode_to_tag SubCommandCode.DataFile = 3"

section \<open>\<open>lpd::JobStatus\<close>\<close>

datatype (plugins only: code) JobStatus =
    Pending
  | Printing
  | Complete
  | Failed

definition JobStatus_from_tag :: "u8 \<Rightarrow> JobStatus option" where
  "JobStatus_from_tag tag =
     (if tag = 0 then Some JobStatus.Pending
      else if tag = 1 then Some JobStatus.Printing
      else if tag = 2 then Some JobStatus.Complete
      else if tag = 3 then Some JobStatus.Failed
      else option.None)"

primrec JobStatus_to_tag :: "JobStatus \<Rightarrow> u8" where
  "JobStatus_to_tag JobStatus.Pending = 0"
| "JobStatus_to_tag JobStatus.Printing = 1"
| "JobStatus_to_tag JobStatus.Complete = 2"
| "JobStatus_to_tag JobStatus.Failed = 3"

section \<open>Tags and enumerations\<close>

interpretation ContainerState_codec: tag_codec ContainerState_to_tag ContainerState_from_tag 7
  by (unfold_locales, (case_tac x; simp add: ContainerState_from_tag_def), unfold ContainerState_from_tag_def,
    (erule codec_arm, simp only: ContainerState_to_tag.simps)+, erule codec_end, (case_tac x; simp), simp add: codec_eval)

interpretation ContainerOperation_codec: tag_codec ContainerOperation_to_tag ContainerOperation_from_tag 11
  by (unfold_locales, (case_tac x; simp add: ContainerOperation_from_tag_def), unfold ContainerOperation_from_tag_def,
    (erule codec_arm, simp only: ContainerOperation_to_tag.simps)+, erule codec_end, (case_tac x; simp), simp add: codec_eval)

interpretation NetworkMode_codec: tag_codec NetworkMode_to_tag NetworkMode_from_tag 5
  by (unfold_locales, (case_tac x; simp add: NetworkMode_from_tag_def), unfold NetworkMode_from_tag_def,
    (erule codec_arm, simp only: NetworkMode_to_tag.simps)+, erule codec_end, (case_tac x; simp), simp add: codec_eval)

interpretation VolumeType_codec: tag_codec VolumeType_to_tag VolumeType_from_tag 3
  by (unfold_locales, (case_tac x; simp add: VolumeType_from_tag_def), unfold VolumeType_from_tag_def,
    (erule codec_arm, simp only: VolumeType_to_tag.simps)+, erule codec_end, (case_tac x; simp), simp add: codec_eval)

interpretation RestartPolicy_codec: tag_codec RestartPolicy_to_tag RestartPolicy_from_tag 4
  by (unfold_locales, (case_tac x; simp add: RestartPolicy_from_tag_def), unfold RestartPolicy_from_tag_def,
    (erule codec_arm, simp only: RestartPolicy_to_tag.simps)+, erule codec_end, (case_tac x; simp), simp add: codec_eval)

interpretation HealthStatus_codec: tag_codec HealthStatus_to_tag HealthStatus_from_tag 4
  by (unfold_locales, (case_tac x; simp add: HealthStatus_from_tag_def), unfold HealthStatus_from_tag_def,
    (erule codec_arm, simp only: HealthStatus_to_tag.simps)+, erule codec_end, (case_tac x; simp), simp add: codec_eval)

interpretation VmState_codec: tag_codec VmState_to_tag VmState_from_tag 8
  by (unfold_locales, (case_tac x; simp add: VmState_from_tag_def), unfold VmState_from_tag_def,
    (erule codec_arm, simp only: VmState_to_tag.simps)+, erule codec_end, (case_tac x; simp), simp add: codec_eval)

interpretation VirtOperation_codec: tag_codec VirtOperation_to_tag VirtOperation_from_tag 11
  by (unfold_locales, (case_tac x; simp add: VirtOperation_from_tag_def), unfold VirtOperation_from_tag_def,
    (erule codec_arm, simp only: VirtOperation_to_tag.simps)+, erule codec_end, (case_tac x; simp), simp add: codec_eval)

interpretation DiskFormat_codec: tag_codec DiskFormat_to_tag DiskFormat_from_tag 5
  by (unfold_locales, (case_tac x; simp add: DiskFormat_from_tag_def), unfold DiskFormat_from_tag_def,
    (erule codec_arm, simp only: DiskFormat_to_tag.simps)+, erule codec_end, (case_tac x; simp), simp add: codec_eval)

interpretation NetworkType_codec: tag_codec NetworkType_to_tag NetworkType_from_tag 4
  by (unfold_locales, (case_tac x; simp add: NetworkType_from_tag_def), unfold NetworkType_from_tag_def,
    (erule codec_arm, simp only: NetworkType_to_tag.simps)+, erule codec_end, (case_tac x; simp), simp add: codec_eval)

interpretation BootDevice_codec: tag_codec BootDevice_to_tag BootDevice_from_tag 4
  by (unfold_locales, (case_tac x; simp add: BootDevice_from_tag_def), unfold BootDevice_from_tag_def,
    (erule codec_arm, simp only: BootDevice_to_tag.simps)+, erule codec_end, (case_tac x; simp), simp add: codec_eval)

interpretation ExecutionPolicy_codec: tag_codec ExecutionPolicy_to_tag ExecutionPolicy_from_tag 5
  by (unfold_locales, (case_tac x; simp add: ExecutionPolicy_from_tag_def), unfold ExecutionPolicy_from_tag_def,
    (erule codec_arm, simp only: ExecutionPolicy_to_tag.simps)+, erule codec_end, (case_tac x; simp), simp add: codec_eval)

interpretation ResourceLimit_codec: tag_codec ResourceLimit_to_tag ResourceLimit_from_tag 6
  by (unfold_locales, (case_tac x; simp add: ResourceLimit_from_tag_def), unfold ResourceLimit_from_tag_def,
    (erule codec_arm, simp only: ResourceLimit_to_tag.simps)+, erule codec_end, (case_tac x; simp), simp add: codec_eval)

interpretation SandboxState_codec: tag_codec SandboxState_to_tag SandboxState_from_tag 6
  by (unfold_locales, (case_tac x; simp add: SandboxState_from_tag_def), unfold SandboxState_from_tag_def,
    (erule codec_arm, simp only: SandboxState_to_tag.simps)+, erule codec_end, (case_tac x; simp), simp add: codec_eval)

interpretation ExitReason_codec: tag_codec ExitReason_to_tag ExitReason_from_tag 6
  by (unfold_locales, (case_tac x; simp add: ExitReason_from_tag_def), unfold ExitReason_from_tag_def,
    (erule codec_arm, simp only: ExitReason_to_tag.simps)+, erule codec_end, (case_tac x; simp), simp add: codec_eval)

interpretation SyscallPolicy_codec: tag_codec SyscallPolicy_to_tag SyscallPolicy_from_tag 4
  by (unfold_locales, (case_tac x; simp add: SyscallPolicy_from_tag_def), unfold SyscallPolicy_from_tag_def,
    (erule codec_arm, simp only: SyscallPolicy_to_tag.simps)+, erule codec_end, (case_tac x; simp), simp add: codec_eval)

interpretation ValType_codec: tag_codec ValType_to_tag ValType_from_tag 7
  by (unfold_locales, (case_tac x; simp add: ValType_from_tag_def), unfold ValType_from_tag_def,
    (erule codec_arm, simp only: ValType_to_tag.simps)+, erule codec_end, (case_tac x; simp), simp add: codec_eval)

interpretation ExternKind_codec: tag_codec ExternKind_to_tag ExternKind_from_tag 4
  by (unfold_locales, (case_tac x; simp add: ExternKind_from_tag_def), unfold ExternKind_from_tag_def,
    (erule codec_arm, simp only: ExternKind_to_tag.simps)+, erule codec_end, (case_tac x; simp), simp add: codec_eval)

interpretation Mutability_codec: tag_codec Mutability_to_tag Mutability_from_tag 2
  by (unfold_locales, (case_tac x; simp add: Mutability_from_tag_def), unfold Mutability_from_tag_def,
    (erule codec_arm, simp only: Mutability_to_tag.simps)+, erule codec_end, (case_tac x; simp), simp add: codec_eval)

interpretation HardeningLevel_codec: tag_codec HardeningLevel_to_tag HardeningLevel_from_tag 4
  by (unfold_locales, (case_tac x; simp add: HardeningLevel_from_tag_def), unfold HardeningLevel_from_tag_def,
    (erule codec_arm, simp only: HardeningLevel_to_tag.simps)+, erule codec_end, (case_tac x; simp), simp add: codec_eval)

interpretation SecurityControl_codec: tag_codec SecurityControl_to_tag SecurityControl_from_tag 7
  by (unfold_locales, (case_tac x; simp add: SecurityControl_from_tag_def), unfold SecurityControl_from_tag_def,
    (erule codec_arm, simp only: SecurityControl_to_tag.simps)+, erule codec_end, (case_tac x; simp), simp add: codec_eval)

interpretation ComplianceStandard_codec: tag_codec ComplianceStandard_to_tag ComplianceStandard_from_tag 5
  by (unfold_locales, (case_tac x; simp add: ComplianceStandard_from_tag_def), unfold ComplianceStandard_from_tag_def,
    (erule codec_arm, simp only: ComplianceStandard_to_tag.simps)+, erule codec_end, (case_tac x; simp), simp add: codec_eval)

interpretation AuditEvent_codec: tag_codec AuditEvent_to_tag AuditEvent_from_tag 6
  by (unfold_locales, (case_tac x; simp add: AuditEvent_from_tag_def), unfold AuditEvent_from_tag_def,
    (erule codec_arm, simp only: AuditEvent_to_tag.simps)+, erule codec_end, (case_tac x; simp), simp add: codec_eval)

interpretation HardenedHealthStatus_codec: tag_codec HardenedHealthStatus_to_tag HardenedHealthStatus_from_tag 4
  by (unfold_locales, (case_tac x; simp add: HardenedHealthStatus_from_tag_def), unfold HardenedHealthStatus_from_tag_def,
    (erule codec_arm, simp only: HardenedHealthStatus_to_tag.simps)+, erule codec_end, (case_tac x; simp), simp add: codec_eval)

interpretation Hardened_ServerState_codec: tag_codec Hardened_ServerState_to_tag Hardened_ServerState_from_tag 5
  by (unfold_locales, (case_tac x; simp add: Hardened_ServerState_from_tag_def), unfold Hardened_ServerState_from_tag_def,
    (erule codec_arm, simp only: Hardened_ServerState_to_tag.simps)+, erule codec_end, (case_tac x; simp), simp add: codec_eval)

interpretation Telnet_Command_codec: tag_codec Telnet_Command_to_tag Telnet_Command_from_tag 16
  by (unfold_locales, (case_tac x; simp add: Telnet_Command_from_tag_def), unfold Telnet_Command_from_tag_def,
    (erule codec_arm, simp only: Telnet_Command_to_tag.simps)+, erule codec_end, (case_tac x; simp), simp add: codec_eval)

interpretation TelnetOption_codec: tag_codec TelnetOption_to_tag TelnetOption_from_tag 10
  by (unfold_locales, (case_tac x; simp add: TelnetOption_from_tag_def), unfold TelnetOption_from_tag_def,
    (erule codec_arm, simp only: TelnetOption_to_tag.simps)+, erule codec_end, (case_tac x; simp), simp add: codec_eval)

interpretation Telnet_NegotiationState_codec: tag_codec Telnet_NegotiationState_to_tag Telnet_NegotiationState_from_tag 4
  by (unfold_locales, (case_tac x; simp add: Telnet_NegotiationState_from_tag_def), unfold Telnet_NegotiationState_from_tag_def,
    (erule codec_arm, simp only: Telnet_NegotiationState_to_tag.simps)+, erule codec_end, (case_tac x; simp), simp add: codec_eval)

interpretation Telnet_SessionState_codec: tag_codec Telnet_SessionState_to_tag Telnet_SessionState_from_tag 5
  by (unfold_locales, (case_tac x; simp add: Telnet_SessionState_from_tag_def), unfold Telnet_SessionState_from_tag_def,
    (erule codec_arm, simp only: Telnet_SessionState_to_tag.simps)+, erule codec_end, (case_tac x; simp), simp add: codec_eval)

interpretation CommandCode_codec: wire_codec CommandCode_to_tag CommandCode_from_tag
  by (unfold_locales, case_tac [1] x, auto simp: CommandCode_from_tag_def split: if_splits)

interpretation SubCommandCode_codec: wire_codec SubCommandCode_to_tag SubCommandCode_from_tag
  by (unfold_locales, case_tac [1] x, auto simp: SubCommandCode_from_tag_def split: if_splits)

interpretation JobStatus_codec: tag_codec JobStatus_to_tag JobStatus_from_tag 4
  by (unfold_locales, (case_tac x; simp add: JobStatus_from_tag_def), unfold JobStatus_from_tag_def,
    (erule codec_arm, simp only: JobStatus_to_tag.simps)+, erule codec_end, (case_tac x; simp), simp add: codec_eval)

end
