(* ===== verification/Iot_Types.thy ===== *)
theory Iot_Types
  imports Tag_Codec
begin

text \<open>
  The types of 4 modules of the Rust crate, under \<open>bindings/rust/src\<close>.

  \<^item> \<open>coap.rs\<close>: \<open>Method\<close>, \<open>MessageType\<close>,
    \<open>ContentFormat\<close>, \<open>ResponseClass\<close>, \<open>SessionState\<close>.
  \<^item> \<open>modbus.rs\<close>: \<open>FunctionCode\<close>, \<open>ExceptionCode\<close>,
    \<open>DeviceRole\<close>, \<open>GatewayState\<close>.
  \<^item> \<open>opcua.rs\<close>: \<open>ServiceType\<close>, \<open>NodeClass\<close>,
    \<open>StatusCode\<close>, \<open>SecurityMode\<close>, \<open>SessionState\<close>.
  \<^item> \<open>dds.rs\<close>: \<open>ReliabilityKind\<close>, \<open>DurabilityKind\<close>,
    \<open>HistoryKind\<close>, \<open>OwnershipKind\<close>, \<open>EntityType\<close>,
    \<open>ParticipantState\<close>.

  The \<open>Display\<close> implementations and the \<open>ALL\<close> arrays of these modules are not modelled.
\<close>

definition COAP_PORT :: "u16" where
  "COAP_PORT = 5683"

definition COAPS_PORT :: "u16" where
  "COAPS_PORT = 5684"

definition COAP_DEFAULT_BLOCK_SIZE :: "u16" where
  "COAP_DEFAULT_BLOCK_SIZE = 1024"

section \<open>\<open>coap::Method\<close>\<close>

datatype (plugins only: code) Coap_Method =
    Get
  | Post
  | Put
  | Delete

definition Coap_Method_from_tag :: "u8 \<Rightarrow> Coap_Method option" where
  "Coap_Method_from_tag tag =
     (if tag = 0 then Some Coap_Method.Get
      else if tag = 1 then Some Coap_Method.Post
      else if tag = 2 then Some Coap_Method.Put
      else if tag = 3 then Some Coap_Method.Delete
      else option.None)"

primrec Coap_Method_to_tag :: "Coap_Method \<Rightarrow> u8" where
  "Coap_Method_to_tag Coap_Method.Get = 0"
| "Coap_Method_to_tag Coap_Method.Post = 1"
| "Coap_Method_to_tag Coap_Method.Put = 2"
| "Coap_Method_to_tag Coap_Method.Delete = 3"

definition Coap_Method_is_safe :: "Coap_Method \<Rightarrow> bool" where
  "Coap_Method_is_safe self =
     (case self of
      Coap_Method.Get \<Rightarrow> True
    | _ \<Rightarrow> False)"

definition Coap_Method_is_idempotent :: "Coap_Method \<Rightarrow> bool" where
  "Coap_Method_is_idempotent self =
     (case self of
      Coap_Method.Get \<Rightarrow> True
    | Coap_Method.Put \<Rightarrow> True
    | Coap_Method.Delete \<Rightarrow> True
    | _ \<Rightarrow> False)"

section \<open>\<open>coap::MessageType\<close>\<close>

datatype (plugins only: code) Coap_MessageType =
    Confirmable
  | NonConfirmable
  | Acknowledgement
  | Reset

definition Coap_MessageType_from_tag :: "u8 \<Rightarrow> Coap_MessageType option" where
  "Coap_MessageType_from_tag tag =
     (if tag = 0 then Some Coap_MessageType.Confirmable
      else if tag = 1 then Some Coap_MessageType.NonConfirmable
      else if tag = 2 then Some Coap_MessageType.Acknowledgement
      else if tag = 3 then Some Coap_MessageType.Reset
      else option.None)"

primrec Coap_MessageType_to_tag :: "Coap_MessageType \<Rightarrow> u8" where
  "Coap_MessageType_to_tag Coap_MessageType.Confirmable = 0"
| "Coap_MessageType_to_tag Coap_MessageType.NonConfirmable = 1"
| "Coap_MessageType_to_tag Coap_MessageType.Acknowledgement = 2"
| "Coap_MessageType_to_tag Coap_MessageType.Reset = 3"

definition Coap_MessageType_requires_response :: "Coap_MessageType \<Rightarrow> bool" where
  "Coap_MessageType_requires_response self =
     (case self of
      Coap_MessageType.Confirmable \<Rightarrow> True
    | _ \<Rightarrow> False)"

definition Coap_MessageType_is_response :: "Coap_MessageType \<Rightarrow> bool" where
  "Coap_MessageType_is_response self =
     (case self of
      Coap_MessageType.Acknowledgement \<Rightarrow> True
    | Coap_MessageType.Reset \<Rightarrow> True
    | _ \<Rightarrow> False)"

section \<open>\<open>coap::ContentFormat\<close>\<close>

datatype (plugins only: code) ContentFormat =
    TextPlain
  | LinkFormat
  | Xml
  | OctetStream
  | Exi
  | Json
  | Cbor

definition ContentFormat_from_tag :: "u8 \<Rightarrow> ContentFormat option" where
  "ContentFormat_from_tag tag =
     (if tag = 0 then Some ContentFormat.TextPlain
      else if tag = 1 then Some ContentFormat.LinkFormat
      else if tag = 2 then Some ContentFormat.Xml
      else if tag = 3 then Some ContentFormat.OctetStream
      else if tag = 4 then Some ContentFormat.Exi
      else if tag = 5 then Some ContentFormat.Json
      else if tag = 6 then Some ContentFormat.Cbor
      else option.None)"

primrec ContentFormat_to_tag :: "ContentFormat \<Rightarrow> u8" where
  "ContentFormat_to_tag ContentFormat.TextPlain = 0"
| "ContentFormat_to_tag ContentFormat.LinkFormat = 1"
| "ContentFormat_to_tag ContentFormat.Xml = 2"
| "ContentFormat_to_tag ContentFormat.OctetStream = 3"
| "ContentFormat_to_tag ContentFormat.Exi = 4"
| "ContentFormat_to_tag ContentFormat.Json = 5"
| "ContentFormat_to_tag ContentFormat.Cbor = 6"

definition ContentFormat_media_type :: "ContentFormat \<Rightarrow> string" where
  "ContentFormat_media_type self =
     (case self of
      ContentFormat.TextPlain \<Rightarrow> ''text/plain; charset=utf-8''
    | ContentFormat.LinkFormat \<Rightarrow> ''application/link-format''
    | ContentFormat.Xml \<Rightarrow> ''application/xml''
    | ContentFormat.OctetStream \<Rightarrow> ''application/octet-stream''
    | ContentFormat.Exi \<Rightarrow> ''application/exi''
    | ContentFormat.Json \<Rightarrow> ''application/json''
    | ContentFormat.Cbor \<Rightarrow> ''application/cbor'')"

definition ContentFormat_is_text_based :: "ContentFormat \<Rightarrow> bool" where
  "ContentFormat_is_text_based self =
     (case self of
      ContentFormat.TextPlain \<Rightarrow> True
    | ContentFormat.LinkFormat \<Rightarrow> True
    | ContentFormat.Xml \<Rightarrow> True
    | ContentFormat.Json \<Rightarrow> True
    | _ \<Rightarrow> False)"

section \<open>\<open>coap::ResponseClass\<close>\<close>

datatype (plugins only: code) ResponseClass =
    Success
  | ClientError
  | ServerError
  | Signaling
  | Empty

definition ResponseClass_from_tag :: "u8 \<Rightarrow> ResponseClass option" where
  "ResponseClass_from_tag tag =
     (if tag = 0 then Some ResponseClass.Success
      else if tag = 1 then Some ResponseClass.ClientError
      else if tag = 2 then Some ResponseClass.ServerError
      else if tag = 3 then Some ResponseClass.Signaling
      else if tag = 4 then Some ResponseClass.Empty
      else option.None)"

primrec ResponseClass_to_tag :: "ResponseClass \<Rightarrow> u8" where
  "ResponseClass_to_tag ResponseClass.Success = 0"
| "ResponseClass_to_tag ResponseClass.ClientError = 1"
| "ResponseClass_to_tag ResponseClass.ServerError = 2"
| "ResponseClass_to_tag ResponseClass.Signaling = 3"
| "ResponseClass_to_tag ResponseClass.Empty = 4"

definition ResponseClass_is_success :: "ResponseClass \<Rightarrow> bool" where
  "ResponseClass_is_success self =
     (case self of
      ResponseClass.Success \<Rightarrow> True
    | _ \<Rightarrow> False)"

definition ResponseClass_is_error :: "ResponseClass \<Rightarrow> bool" where
  "ResponseClass_is_error self =
     (case self of
      ResponseClass.ClientError \<Rightarrow> True
    | ResponseClass.ServerError \<Rightarrow> True
    | _ \<Rightarrow> False)"

section \<open>\<open>coap::SessionState\<close>\<close>

datatype (plugins only: code) Coap_SessionState =
    Idle
  | Bound
  | Serving
  | Observing
  | Shutdown

definition Coap_SessionState_from_tag :: "u8 \<Rightarrow> Coap_SessionState option" where
  "Coap_SessionState_from_tag tag =
     (if tag = 0 then Some Coap_SessionState.Idle
      else if tag = 1 then Some Coap_SessionState.Bound
      else if tag = 2 then Some Coap_SessionState.Serving
      else if tag = 3 then Some Coap_SessionState.Observing
      else if tag = 4 then Some Coap_SessionState.Shutdown
      else option.None)"

primrec Coap_SessionState_to_tag :: "Coap_SessionState \<Rightarrow> u8" where
  "Coap_SessionState_to_tag Coap_SessionState.Idle = 0"
| "Coap_SessionState_to_tag Coap_SessionState.Bound = 1"
| "Coap_SessionState_to_tag Coap_SessionState.Serving = 2"
| "Coap_SessionState_to_tag Coap_SessionState.Observing = 3"
| "Coap_SessionState_to_tag Coap_SessionState.Shutdown = 4"

definition Coap_SessionState_is_active :: "Coap_SessionState \<Rightarrow> bool" where
  "Coap_SessionState_is_active self =
     (case self of
      Coap_SessionState.Serving \<Rightarrow> True
    | Coap_SessionState.Observing \<Rightarrow> True
    | _ \<Rightarrow> False)"

definition MODBUS_TCP_PORT :: "u16" where
  "MODBUS_TCP_PORT = 502"

definition MODBUS_MAX_COILS :: "u16" where
  "MODBUS_MAX_COILS = 2000"

definition MODBUS_MAX_REGISTERS :: "u16" where
  "MODBUS_MAX_REGISTERS = 125"

section \<open>\<open>modbus::FunctionCode\<close>\<close>

datatype (plugins only: code) FunctionCode =
    ReadCoils
  | ReadDiscreteInputs
  | ReadHoldingRegisters
  | ReadInputRegisters
  | WriteSingleCoil
  | WriteSingleRegister
  | WriteMultipleCoils
  | WriteMultipleRegisters
  | ReadWriteMultipleRegisters
  | MaskWriteRegister

definition FunctionCode_from_tag :: "u8 \<Rightarrow> FunctionCode option" where
  "FunctionCode_from_tag tag =
     (if tag = 0 then Some FunctionCode.ReadCoils
      else if tag = 1 then Some FunctionCode.ReadDiscreteInputs
      else if tag = 2 then Some FunctionCode.ReadHoldingRegisters
      else if tag = 3 then Some FunctionCode.ReadInputRegisters
      else if tag = 4 then Some FunctionCode.WriteSingleCoil
      else if tag = 5 then Some FunctionCode.WriteSingleRegister
      else if tag = 6 then Some FunctionCode.WriteMultipleCoils
      else if tag = 7 then Some FunctionCode.WriteMultipleRegisters
      else if tag = 8 then Some FunctionCode.ReadWriteMultipleRegisters
      else if tag = 9 then Some FunctionCode.MaskWriteRegister
      else option.None)"

primrec FunctionCode_to_tag :: "FunctionCode \<Rightarrow> u8" where
  "FunctionCode_to_tag FunctionCode.ReadCoils = 0"
| "FunctionCode_to_tag FunctionCode.ReadDiscreteInputs = 1"
| "FunctionCode_to_tag FunctionCode.ReadHoldingRegisters = 2"
| "FunctionCode_to_tag FunctionCode.ReadInputRegisters = 3"
| "FunctionCode_to_tag FunctionCode.WriteSingleCoil = 4"
| "FunctionCode_to_tag FunctionCode.WriteSingleRegister = 5"
| "FunctionCode_to_tag FunctionCode.WriteMultipleCoils = 6"
| "FunctionCode_to_tag FunctionCode.WriteMultipleRegisters = 7"
| "FunctionCode_to_tag FunctionCode.ReadWriteMultipleRegisters = 8"
| "FunctionCode_to_tag FunctionCode.MaskWriteRegister = 9"

definition FunctionCode_is_read :: "FunctionCode \<Rightarrow> bool" where
  "FunctionCode_is_read self =
     (case self of
      FunctionCode.ReadCoils \<Rightarrow> True
    | FunctionCode.ReadDiscreteInputs \<Rightarrow> True
    | FunctionCode.ReadHoldingRegisters \<Rightarrow> True
    | FunctionCode.ReadInputRegisters \<Rightarrow> True
    | FunctionCode.ReadWriteMultipleRegisters \<Rightarrow> True
    | _ \<Rightarrow> False)"

definition FunctionCode_is_write :: "FunctionCode \<Rightarrow> bool" where
  "FunctionCode_is_write self =
     (case self of
      FunctionCode.WriteSingleCoil \<Rightarrow> True
    | FunctionCode.WriteSingleRegister \<Rightarrow> True
    | FunctionCode.WriteMultipleCoils \<Rightarrow> True
    | FunctionCode.WriteMultipleRegisters \<Rightarrow> True
    | FunctionCode.ReadWriteMultipleRegisters \<Rightarrow> True
    | FunctionCode.MaskWriteRegister \<Rightarrow> True
    | _ \<Rightarrow> False)"

definition FunctionCode_is_coil_operation :: "FunctionCode \<Rightarrow> bool" where
  "FunctionCode_is_coil_operation self =
     (case self of
      FunctionCode.ReadCoils \<Rightarrow> True
    | FunctionCode.ReadDiscreteInputs \<Rightarrow> True
    | FunctionCode.WriteSingleCoil \<Rightarrow> True
    | FunctionCode.WriteMultipleCoils \<Rightarrow> True
    | _ \<Rightarrow> False)"

section \<open>\<open>modbus::ExceptionCode\<close>\<close>

datatype (plugins only: code) ExceptionCode =
    IllegalFunction
  | IllegalDataAddress
  | IllegalDataValue
  | SlaveDeviceFailure
  | Acknowledge
  | SlaveDeviceBusy
  | MemoryParityError
  | GatewayPathUnavailable
  | GatewayTargetDeviceFailed

definition ExceptionCode_from_tag :: "u8 \<Rightarrow> ExceptionCode option" where
  "ExceptionCode_from_tag tag =
     (if tag = 0 then Some ExceptionCode.IllegalFunction
      else if tag = 1 then Some ExceptionCode.IllegalDataAddress
      else if tag = 2 then Some ExceptionCode.IllegalDataValue
      else if tag = 3 then Some ExceptionCode.SlaveDeviceFailure
      else if tag = 4 then Some ExceptionCode.Acknowledge
      else if tag = 5 then Some ExceptionCode.SlaveDeviceBusy
      else if tag = 6 then Some ExceptionCode.MemoryParityError
      else if tag = 7 then Some ExceptionCode.GatewayPathUnavailable
      else if tag = 8 then Some ExceptionCode.GatewayTargetDeviceFailed
      else option.None)"

primrec ExceptionCode_to_tag :: "ExceptionCode \<Rightarrow> u8" where
  "ExceptionCode_to_tag ExceptionCode.IllegalFunction = 0"
| "ExceptionCode_to_tag ExceptionCode.IllegalDataAddress = 1"
| "ExceptionCode_to_tag ExceptionCode.IllegalDataValue = 2"
| "ExceptionCode_to_tag ExceptionCode.SlaveDeviceFailure = 3"
| "ExceptionCode_to_tag ExceptionCode.Acknowledge = 4"
| "ExceptionCode_to_tag ExceptionCode.SlaveDeviceBusy = 5"
| "ExceptionCode_to_tag ExceptionCode.MemoryParityError = 6"
| "ExceptionCode_to_tag ExceptionCode.GatewayPathUnavailable = 7"
| "ExceptionCode_to_tag ExceptionCode.GatewayTargetDeviceFailed = 8"

definition ExceptionCode_is_retryable :: "ExceptionCode \<Rightarrow> bool" where
  "ExceptionCode_is_retryable self =
     (case self of
      ExceptionCode.Acknowledge \<Rightarrow> True
    | ExceptionCode.SlaveDeviceBusy \<Rightarrow> True
    | _ \<Rightarrow> False)"

definition ExceptionCode_is_gateway_error :: "ExceptionCode \<Rightarrow> bool" where
  "ExceptionCode_is_gateway_error self =
     (case self of
      ExceptionCode.GatewayPathUnavailable \<Rightarrow> True
    | ExceptionCode.GatewayTargetDeviceFailed \<Rightarrow> True
    | _ \<Rightarrow> False)"

section \<open>\<open>modbus::DeviceRole\<close>\<close>

datatype (plugins only: code) DeviceRole =
    Master
  | Slave

definition DeviceRole_from_tag :: "u8 \<Rightarrow> DeviceRole option" where
  "DeviceRole_from_tag tag =
     (if tag = 0 then Some DeviceRole.Master
      else if tag = 1 then Some DeviceRole.Slave
      else option.None)"

primrec DeviceRole_to_tag :: "DeviceRole \<Rightarrow> u8" where
  "DeviceRole_to_tag DeviceRole.Master = 0"
| "DeviceRole_to_tag DeviceRole.Slave = 1"

section \<open>\<open>modbus::GatewayState\<close>\<close>

datatype (plugins only: code) Modbus_GatewayState =
    Idle
  | Listening
  | Processing
  | Error
  | Stopping

definition Modbus_GatewayState_from_tag :: "u8 \<Rightarrow> Modbus_GatewayState option" where
  "Modbus_GatewayState_from_tag tag =
     (if tag = 0 then Some Modbus_GatewayState.Idle
      else if tag = 1 then Some Modbus_GatewayState.Listening
      else if tag = 2 then Some Modbus_GatewayState.Processing
      else if tag = 3 then Some Modbus_GatewayState.Error
      else if tag = 4 then Some Modbus_GatewayState.Stopping
      else option.None)"

primrec Modbus_GatewayState_to_tag :: "Modbus_GatewayState \<Rightarrow> u8" where
  "Modbus_GatewayState_to_tag Modbus_GatewayState.Idle = 0"
| "Modbus_GatewayState_to_tag Modbus_GatewayState.Listening = 1"
| "Modbus_GatewayState_to_tag Modbus_GatewayState.Processing = 2"
| "Modbus_GatewayState_to_tag Modbus_GatewayState.Error = 3"
| "Modbus_GatewayState_to_tag Modbus_GatewayState.Stopping = 4"

definition Modbus_GatewayState_is_healthy :: "Modbus_GatewayState \<Rightarrow> bool" where
  "Modbus_GatewayState_is_healthy self =
     (case self of
      Modbus_GatewayState.Listening \<Rightarrow> True
    | Modbus_GatewayState.Processing \<Rightarrow> True
    | _ \<Rightarrow> False)"

definition Modbus_GatewayState_needs_intervention :: "Modbus_GatewayState \<Rightarrow> bool" where
  "Modbus_GatewayState_needs_intervention self =
     (case self of
      Modbus_GatewayState.Error \<Rightarrow> True
    | _ \<Rightarrow> False)"

definition OPCUA_PORT :: "u16" where
  "OPCUA_PORT = 4840"

definition OPCUA_TLS_PORT :: "u16" where
  "OPCUA_TLS_PORT = 4843"

section \<open>\<open>opcua::ServiceType\<close>\<close>

datatype (plugins only: code) Opcua_ServiceType =
    Read
  | Write
  | Browse
  | Subscribe
  | Publish
  | Call
  | CreateSession
  | ActivateSession
  | CloseSession
  | CreateSubscription
  | DeleteSubscription

definition Opcua_ServiceType_from_tag :: "u8 \<Rightarrow> Opcua_ServiceType option" where
  "Opcua_ServiceType_from_tag tag =
     (if tag = 0 then Some Opcua_ServiceType.Read
      else if tag = 1 then Some Opcua_ServiceType.Write
      else if tag = 2 then Some Opcua_ServiceType.Browse
      else if tag = 3 then Some Opcua_ServiceType.Subscribe
      else if tag = 4 then Some Opcua_ServiceType.Publish
      else if tag = 5 then Some Opcua_ServiceType.Call
      else if tag = 6 then Some Opcua_ServiceType.CreateSession
      else if tag = 7 then Some Opcua_ServiceType.ActivateSession
      else if tag = 8 then Some Opcua_ServiceType.CloseSession
      else if tag = 9 then Some Opcua_ServiceType.CreateSubscription
      else if tag = 10 then Some Opcua_ServiceType.DeleteSubscription
      else option.None)"

primrec Opcua_ServiceType_to_tag :: "Opcua_ServiceType \<Rightarrow> u8" where
  "Opcua_ServiceType_to_tag Opcua_ServiceType.Read = 0"
| "Opcua_ServiceType_to_tag Opcua_ServiceType.Write = 1"
| "Opcua_ServiceType_to_tag Opcua_ServiceType.Browse = 2"
| "Opcua_ServiceType_to_tag Opcua_ServiceType.Subscribe = 3"
| "Opcua_ServiceType_to_tag Opcua_ServiceType.Publish = 4"
| "Opcua_ServiceType_to_tag Opcua_ServiceType.Call = 5"
| "Opcua_ServiceType_to_tag Opcua_ServiceType.CreateSession = 6"
| "Opcua_ServiceType_to_tag Opcua_ServiceType.ActivateSession = 7"
| "Opcua_ServiceType_to_tag Opcua_ServiceType.CloseSession = 8"
| "Opcua_ServiceType_to_tag Opcua_ServiceType.CreateSubscription = 9"
| "Opcua_ServiceType_to_tag Opcua_ServiceType.DeleteSubscription = 10"

definition Opcua_ServiceType_is_write :: "Opcua_ServiceType \<Rightarrow> bool" where
  "Opcua_ServiceType_is_write self =
     (case self of
      Opcua_ServiceType.Write \<Rightarrow> True
    | Opcua_ServiceType.Call \<Rightarrow> True
    | _ \<Rightarrow> False)"

definition Opcua_ServiceType_is_session_management :: "Opcua_ServiceType \<Rightarrow> bool" where
  "Opcua_ServiceType_is_session_management self =
     (case self of
      Opcua_ServiceType.CreateSession \<Rightarrow> True
    | Opcua_ServiceType.ActivateSession \<Rightarrow> True
    | Opcua_ServiceType.CloseSession \<Rightarrow> True
    | _ \<Rightarrow> False)"

definition Opcua_ServiceType_is_subscription_related :: "Opcua_ServiceType \<Rightarrow> bool" where
  "Opcua_ServiceType_is_subscription_related self =
     (case self of
      Opcua_ServiceType.Subscribe \<Rightarrow> True
    | Opcua_ServiceType.Publish \<Rightarrow> True
    | Opcua_ServiceType.CreateSubscription \<Rightarrow> True
    | Opcua_ServiceType.DeleteSubscription \<Rightarrow> True
    | _ \<Rightarrow> False)"

section \<open>\<open>opcua::NodeClass\<close>\<close>

datatype (plugins only: code) NodeClass =
    Object
  | Variable
  | Method
  | ObjectType
  | VariableType
  | ReferenceType
  | DataType
  | View

definition NodeClass_from_tag :: "u8 \<Rightarrow> NodeClass option" where
  "NodeClass_from_tag tag =
     (if tag = 0 then Some NodeClass.Object
      else if tag = 1 then Some NodeClass.Variable
      else if tag = 2 then Some NodeClass.Method
      else if tag = 3 then Some NodeClass.ObjectType
      else if tag = 4 then Some NodeClass.VariableType
      else if tag = 5 then Some NodeClass.ReferenceType
      else if tag = 6 then Some NodeClass.DataType
      else if tag = 7 then Some NodeClass.View
      else option.None)"

primrec NodeClass_to_tag :: "NodeClass \<Rightarrow> u8" where
  "NodeClass_to_tag NodeClass.Object = 0"
| "NodeClass_to_tag NodeClass.Variable = 1"
| "NodeClass_to_tag NodeClass.Method = 2"
| "NodeClass_to_tag NodeClass.ObjectType = 3"
| "NodeClass_to_tag NodeClass.VariableType = 4"
| "NodeClass_to_tag NodeClass.ReferenceType = 5"
| "NodeClass_to_tag NodeClass.DataType = 6"
| "NodeClass_to_tag NodeClass.View = 7"

definition NodeClass_is_instance :: "NodeClass \<Rightarrow> bool" where
  "NodeClass_is_instance self =
     (case self of
      NodeClass.Object \<Rightarrow> True
    | NodeClass.Variable \<Rightarrow> True
    | NodeClass.Method \<Rightarrow> True
    | NodeClass.View \<Rightarrow> True
    | _ \<Rightarrow> False)"

definition NodeClass_is_type :: "NodeClass \<Rightarrow> bool" where
  "NodeClass_is_type self =
     (case self of
      NodeClass.ObjectType \<Rightarrow> True
    | NodeClass.VariableType \<Rightarrow> True
    | NodeClass.ReferenceType \<Rightarrow> True
    | NodeClass.DataType \<Rightarrow> True
    | _ \<Rightarrow> False)"

section \<open>\<open>opcua::StatusCode\<close>\<close>

datatype (plugins only: code) Opcua_StatusCode =
    Good
  | Uncertain
  | Bad
  | BadNodeIdUnknown
  | BadAttributeIdInvalid
  | BadNotReadable
  | BadNotWritable
  | BadOutOfRange
  | BadTypeMismatch
  | BadSessionIdInvalid
  | BadSubscriptionIdInvalid
  | BadTimeout

definition Opcua_StatusCode_from_tag :: "u8 \<Rightarrow> Opcua_StatusCode option" where
  "Opcua_StatusCode_from_tag tag =
     (if tag = 0 then Some Opcua_StatusCode.Good
      else if tag = 1 then Some Opcua_StatusCode.Uncertain
      else if tag = 2 then Some Opcua_StatusCode.Bad
      else if tag = 3 then Some Opcua_StatusCode.BadNodeIdUnknown
      else if tag = 4 then Some Opcua_StatusCode.BadAttributeIdInvalid
      else if tag = 5 then Some Opcua_StatusCode.BadNotReadable
      else if tag = 6 then Some Opcua_StatusCode.BadNotWritable
      else if tag = 7 then Some Opcua_StatusCode.BadOutOfRange
      else if tag = 8 then Some Opcua_StatusCode.BadTypeMismatch
      else if tag = 9 then Some Opcua_StatusCode.BadSessionIdInvalid
      else if tag = 10 then Some Opcua_StatusCode.BadSubscriptionIdInvalid
      else if tag = 11 then Some Opcua_StatusCode.BadTimeout
      else option.None)"

primrec Opcua_StatusCode_to_tag :: "Opcua_StatusCode \<Rightarrow> u8" where
  "Opcua_StatusCode_to_tag Opcua_StatusCode.Good = 0"
| "Opcua_StatusCode_to_tag Opcua_StatusCode.Uncertain = 1"
| "Opcua_StatusCode_to_tag Opcua_StatusCode.Bad = 2"
| "Opcua_StatusCode_to_tag Opcua_StatusCode.BadNodeIdUnknown = 3"
| "Opcua_StatusCode_to_tag Opcua_StatusCode.BadAttributeIdInvalid = 4"
| "Opcua_StatusCode_to_tag Opcua_StatusCode.BadNotReadable = 5"
| "Opcua_StatusCode_to_tag Opcua_StatusCode.BadNotWritable = 6"
| "Opcua_StatusCode_to_tag Opcua_StatusCode.BadOutOfRange = 7"
| "Opcua_StatusCode_to_tag Opcua_StatusCode.BadTypeMismatch = 8"
| "Opcua_StatusCode_to_tag Opcua_StatusCode.BadSessionIdInvalid = 9"
| "Opcua_StatusCode_to_tag Opcua_StatusCode.BadSubscriptionIdInvalid = 10"
| "Opcua_StatusCode_to_tag Opcua_StatusCode.BadTimeout = 11"

definition Opcua_StatusCode_is_good :: "Opcua_StatusCode \<Rightarrow> bool" where
  "Opcua_StatusCode_is_good self =
     (case self of
      Opcua_StatusCode.Good \<Rightarrow> True
    | _ \<Rightarrow> False)"

definition Opcua_StatusCode_is_bad :: "Opcua_StatusCode \<Rightarrow> bool" where
  "Opcua_StatusCode_is_bad self = (\<not>
     (case self of
      Opcua_StatusCode.Good \<Rightarrow> True
    | Opcua_StatusCode.Uncertain \<Rightarrow> True
    | _ \<Rightarrow> False))"

definition Opcua_StatusCode_is_security_related :: "Opcua_StatusCode \<Rightarrow> bool" where
  "Opcua_StatusCode_is_security_related self =
     (case self of
      Opcua_StatusCode.BadSessionIdInvalid \<Rightarrow> True
    | _ \<Rightarrow> False)"

section \<open>\<open>opcua::SecurityMode\<close>\<close>

datatype (plugins only: code) SecurityMode =
    NoneV
  | Sign
  | SignAndEncrypt

text \<open>\<open>derive(PartialOrd, Ord)\<close>: the order of the declaration.\<close>

primrec SecurityMode_rank :: "SecurityMode \<Rightarrow> nat" where
  "SecurityMode_rank SecurityMode.NoneV = 0"
| "SecurityMode_rank SecurityMode.Sign = 1"
| "SecurityMode_rank SecurityMode.SignAndEncrypt = 2"

instantiation SecurityMode :: linorder
begin

definition less_eq_SecurityMode :: "SecurityMode \<Rightarrow> SecurityMode \<Rightarrow> bool" where
  "less_eq_SecurityMode x y \<longleftrightarrow> SecurityMode_rank x \<le> SecurityMode_rank y"

definition less_SecurityMode :: "SecurityMode \<Rightarrow> SecurityMode \<Rightarrow> bool" where
  "less_SecurityMode x y \<longleftrightarrow> SecurityMode_rank x < SecurityMode_rank y"

instance
proof
  fix x y z :: SecurityMode
  show "(x < y) = (x \<le> y \<and> \<not> y \<le> x)" "x \<le> x" "x \<le> y \<or> y \<le> x"
    by (auto simp: less_eq_SecurityMode_def less_SecurityMode_def)
  show "x \<le> y \<Longrightarrow> y \<le> z \<Longrightarrow> x \<le> z" by (simp add: less_eq_SecurityMode_def)
  show "x \<le> y \<Longrightarrow> y \<le> x \<Longrightarrow> x = y" by (cases x; cases y; simp add: less_eq_SecurityMode_def)
qed

end

definition SecurityMode_from_tag :: "u8 \<Rightarrow> SecurityMode option" where
  "SecurityMode_from_tag tag =
     (if tag = 0 then Some SecurityMode.NoneV
      else if tag = 1 then Some SecurityMode.Sign
      else if tag = 2 then Some SecurityMode.SignAndEncrypt
      else option.None)"

primrec SecurityMode_to_tag :: "SecurityMode \<Rightarrow> u8" where
  "SecurityMode_to_tag SecurityMode.NoneV = 0"
| "SecurityMode_to_tag SecurityMode.Sign = 1"
| "SecurityMode_to_tag SecurityMode.SignAndEncrypt = 2"

definition SecurityMode_is_signed :: "SecurityMode \<Rightarrow> bool" where
  "SecurityMode_is_signed self =
     (case self of
      SecurityMode.Sign \<Rightarrow> True
    | SecurityMode.SignAndEncrypt \<Rightarrow> True
    | _ \<Rightarrow> False)"

definition SecurityMode_is_encrypted :: "SecurityMode \<Rightarrow> bool" where
  "SecurityMode_is_encrypted self =
     (case self of
      SecurityMode.SignAndEncrypt \<Rightarrow> True
    | _ \<Rightarrow> False)"

section \<open>\<open>opcua::SessionState\<close>\<close>

datatype (plugins only: code) Opcua_SessionState =
    Idle
  | Connected
  | Created
  | Activated
  | Monitoring
  | Closing

definition Opcua_SessionState_from_tag :: "u8 \<Rightarrow> Opcua_SessionState option" where
  "Opcua_SessionState_from_tag tag =
     (if tag = 0 then Some Opcua_SessionState.Idle
      else if tag = 1 then Some Opcua_SessionState.Connected
      else if tag = 2 then Some Opcua_SessionState.Created
      else if tag = 3 then Some Opcua_SessionState.Activated
      else if tag = 4 then Some Opcua_SessionState.Monitoring
      else if tag = 5 then Some Opcua_SessionState.Closing
      else option.None)"

primrec Opcua_SessionState_to_tag :: "Opcua_SessionState \<Rightarrow> u8" where
  "Opcua_SessionState_to_tag Opcua_SessionState.Idle = 0"
| "Opcua_SessionState_to_tag Opcua_SessionState.Connected = 1"
| "Opcua_SessionState_to_tag Opcua_SessionState.Created = 2"
| "Opcua_SessionState_to_tag Opcua_SessionState.Activated = 3"
| "Opcua_SessionState_to_tag Opcua_SessionState.Monitoring = 4"
| "Opcua_SessionState_to_tag Opcua_SessionState.Closing = 5"

definition Opcua_SessionState_can_service :: "Opcua_SessionState \<Rightarrow> bool" where
  "Opcua_SessionState_can_service self =
     (case self of
      Opcua_SessionState.Activated \<Rightarrow> True
    | Opcua_SessionState.Monitoring \<Rightarrow> True
    | _ \<Rightarrow> False)"

definition Opcua_SessionState_is_transient :: "Opcua_SessionState \<Rightarrow> bool" where
  "Opcua_SessionState_is_transient self =
     (case self of
      Opcua_SessionState.Connected \<Rightarrow> True
    | Opcua_SessionState.Created \<Rightarrow> True
    | Opcua_SessionState.Closing \<Rightarrow> True
    | _ \<Rightarrow> False)"

definition DDS_DISCOVERY_PORT :: "u16" where
  "DDS_DISCOVERY_PORT = 7400"

section \<open>\<open>dds::ReliabilityKind\<close>\<close>

datatype (plugins only: code) ReliabilityKind =
    BestEffort
  | Reliable

definition ReliabilityKind_from_tag :: "u8 \<Rightarrow> ReliabilityKind option" where
  "ReliabilityKind_from_tag tag =
     (if tag = 0 then Some ReliabilityKind.BestEffort
      else if tag = 1 then Some ReliabilityKind.Reliable
      else option.None)"

primrec ReliabilityKind_to_tag :: "ReliabilityKind \<Rightarrow> u8" where
  "ReliabilityKind_to_tag ReliabilityKind.BestEffort = 0"
| "ReliabilityKind_to_tag ReliabilityKind.Reliable = 1"

section \<open>\<open>dds::DurabilityKind\<close>\<close>

datatype (plugins only: code) DurabilityKind =
    TransientLocal
  | Transient
  | Persistent

definition DurabilityKind_from_tag :: "u8 \<Rightarrow> DurabilityKind option" where
  "DurabilityKind_from_tag tag =
     (if tag = 1 then Some DurabilityKind.TransientLocal
      else if tag = 2 then Some DurabilityKind.Transient
      else if tag = 3 then Some DurabilityKind.Persistent
      else option.None)"

primrec DurabilityKind_to_tag :: "DurabilityKind \<Rightarrow> u8" where
  "DurabilityKind_to_tag DurabilityKind.TransientLocal = 1"
| "DurabilityKind_to_tag DurabilityKind.Transient = 2"
| "DurabilityKind_to_tag DurabilityKind.Persistent = 3"

section \<open>\<open>dds::HistoryKind\<close>\<close>

datatype (plugins only: code) HistoryKind =
    KeepLast
  | KeepAll

definition HistoryKind_from_tag :: "u8 \<Rightarrow> HistoryKind option" where
  "HistoryKind_from_tag tag =
     (if tag = 0 then Some HistoryKind.KeepLast
      else if tag = 1 then Some HistoryKind.KeepAll
      else option.None)"

primrec HistoryKind_to_tag :: "HistoryKind \<Rightarrow> u8" where
  "HistoryKind_to_tag HistoryKind.KeepLast = 0"
| "HistoryKind_to_tag HistoryKind.KeepAll = 1"

section \<open>\<open>dds::OwnershipKind\<close>\<close>

datatype (plugins only: code) OwnershipKind =
    Shared
  | Exclusive

definition OwnershipKind_from_tag :: "u8 \<Rightarrow> OwnershipKind option" where
  "OwnershipKind_from_tag tag =
     (if tag = 0 then Some OwnershipKind.Shared
      else if tag = 1 then Some OwnershipKind.Exclusive
      else option.None)"

primrec OwnershipKind_to_tag :: "OwnershipKind \<Rightarrow> u8" where
  "OwnershipKind_to_tag OwnershipKind.Shared = 0"
| "OwnershipKind_to_tag OwnershipKind.Exclusive = 1"

section \<open>\<open>dds::EntityType\<close>\<close>

datatype (plugins only: code) EntityType =
    Participant
  | Publisher
  | Subscriber
  | Topic
  | DataWriter
  | DataReader

definition EntityType_from_tag :: "u8 \<Rightarrow> EntityType option" where
  "EntityType_from_tag tag =
     (if tag = 0 then Some EntityType.Participant
      else if tag = 1 then Some EntityType.Publisher
      else if tag = 2 then Some EntityType.Subscriber
      else if tag = 3 then Some EntityType.Topic
      else if tag = 4 then Some EntityType.DataWriter
      else if tag = 5 then Some EntityType.DataReader
      else option.None)"

primrec EntityType_to_tag :: "EntityType \<Rightarrow> u8" where
  "EntityType_to_tag EntityType.Participant = 0"
| "EntityType_to_tag EntityType.Publisher = 1"
| "EntityType_to_tag EntityType.Subscriber = 2"
| "EntityType_to_tag EntityType.Topic = 3"
| "EntityType_to_tag EntityType.DataWriter = 4"
| "EntityType_to_tag EntityType.DataReader = 5"

section \<open>\<open>dds::ParticipantState\<close>\<close>

datatype (plugins only: code) ParticipantState =
    Idle
  | Joined
  | Publishing
  | Subscribing
  | Leaving

definition ParticipantState_from_tag :: "u8 \<Rightarrow> ParticipantState option" where
  "ParticipantState_from_tag tag =
     (if tag = 0 then Some ParticipantState.Idle
      else if tag = 1 then Some ParticipantState.Joined
      else if tag = 2 then Some ParticipantState.Publishing
      else if tag = 3 then Some ParticipantState.Subscribing
      else if tag = 4 then Some ParticipantState.Leaving
      else option.None)"

primrec ParticipantState_to_tag :: "ParticipantState \<Rightarrow> u8" where
  "ParticipantState_to_tag ParticipantState.Idle = 0"
| "ParticipantState_to_tag ParticipantState.Joined = 1"
| "ParticipantState_to_tag ParticipantState.Publishing = 2"
| "ParticipantState_to_tag ParticipantState.Subscribing = 3"
| "ParticipantState_to_tag ParticipantState.Leaving = 4"

section \<open>Tags and enumerations\<close>

interpretation Coap_Method_codec: tag_codec Coap_Method_to_tag Coap_Method_from_tag 4
  by (unfold_locales, (case_tac x; simp add: Coap_Method_from_tag_def), unfold Coap_Method_from_tag_def,
    (erule codec_arm, simp only: Coap_Method_to_tag.simps)+, erule codec_end, (case_tac x; simp), simp add: codec_eval)

interpretation Coap_MessageType_codec: tag_codec Coap_MessageType_to_tag Coap_MessageType_from_tag 4
  by (unfold_locales, (case_tac x; simp add: Coap_MessageType_from_tag_def), unfold Coap_MessageType_from_tag_def,
    (erule codec_arm, simp only: Coap_MessageType_to_tag.simps)+, erule codec_end, (case_tac x; simp), simp add: codec_eval)

interpretation ContentFormat_codec: tag_codec ContentFormat_to_tag ContentFormat_from_tag 7
  by (unfold_locales, (case_tac x; simp add: ContentFormat_from_tag_def), unfold ContentFormat_from_tag_def,
    (erule codec_arm, simp only: ContentFormat_to_tag.simps)+, erule codec_end, (case_tac x; simp), simp add: codec_eval)

interpretation ResponseClass_codec: tag_codec ResponseClass_to_tag ResponseClass_from_tag 5
  by (unfold_locales, (case_tac x; simp add: ResponseClass_from_tag_def), unfold ResponseClass_from_tag_def,
    (erule codec_arm, simp only: ResponseClass_to_tag.simps)+, erule codec_end, (case_tac x; simp), simp add: codec_eval)

interpretation Coap_SessionState_codec: tag_codec Coap_SessionState_to_tag Coap_SessionState_from_tag 5
  by (unfold_locales, (case_tac x; simp add: Coap_SessionState_from_tag_def), unfold Coap_SessionState_from_tag_def,
    (erule codec_arm, simp only: Coap_SessionState_to_tag.simps)+, erule codec_end, (case_tac x; simp), simp add: codec_eval)

interpretation FunctionCode_codec: tag_codec FunctionCode_to_tag FunctionCode_from_tag 10
  by (unfold_locales, (case_tac x; simp add: FunctionCode_from_tag_def), unfold FunctionCode_from_tag_def,
    (erule codec_arm, simp only: FunctionCode_to_tag.simps)+, erule codec_end, (case_tac x; simp), simp add: codec_eval)

interpretation ExceptionCode_codec: tag_codec ExceptionCode_to_tag ExceptionCode_from_tag 9
  by (unfold_locales, (case_tac x; simp add: ExceptionCode_from_tag_def), unfold ExceptionCode_from_tag_def,
    (erule codec_arm, simp only: ExceptionCode_to_tag.simps)+, erule codec_end, (case_tac x; simp), simp add: codec_eval)

interpretation DeviceRole_codec: tag_codec DeviceRole_to_tag DeviceRole_from_tag 2
  by (unfold_locales, (case_tac x; simp add: DeviceRole_from_tag_def), unfold DeviceRole_from_tag_def,
    (erule codec_arm, simp only: DeviceRole_to_tag.simps)+, erule codec_end, (case_tac x; simp), simp add: codec_eval)

interpretation Modbus_GatewayState_codec: tag_codec Modbus_GatewayState_to_tag Modbus_GatewayState_from_tag 5
  by (unfold_locales, (case_tac x; simp add: Modbus_GatewayState_from_tag_def), unfold Modbus_GatewayState_from_tag_def,
    (erule codec_arm, simp only: Modbus_GatewayState_to_tag.simps)+, erule codec_end, (case_tac x; simp), simp add: codec_eval)

interpretation Opcua_ServiceType_codec: tag_codec Opcua_ServiceType_to_tag Opcua_ServiceType_from_tag 11
  by (unfold_locales, (case_tac x; simp add: Opcua_ServiceType_from_tag_def), unfold Opcua_ServiceType_from_tag_def,
    (erule codec_arm, simp only: Opcua_ServiceType_to_tag.simps)+, erule codec_end, (case_tac x; simp), simp add: codec_eval)

interpretation NodeClass_codec: tag_codec NodeClass_to_tag NodeClass_from_tag 8
  by (unfold_locales, (case_tac x; simp add: NodeClass_from_tag_def), unfold NodeClass_from_tag_def,
    (erule codec_arm, simp only: NodeClass_to_tag.simps)+, erule codec_end, (case_tac x; simp), simp add: codec_eval)

interpretation Opcua_StatusCode_codec: tag_codec Opcua_StatusCode_to_tag Opcua_StatusCode_from_tag 12
  by (unfold_locales, (case_tac x; simp add: Opcua_StatusCode_from_tag_def), unfold Opcua_StatusCode_from_tag_def,
    (erule codec_arm, simp only: Opcua_StatusCode_to_tag.simps)+, erule codec_end, (case_tac x; simp), simp add: codec_eval)

interpretation SecurityMode_codec: tag_codec SecurityMode_to_tag SecurityMode_from_tag 3
  by (unfold_locales, (case_tac x; simp add: SecurityMode_from_tag_def), unfold SecurityMode_from_tag_def,
    (erule codec_arm, simp only: SecurityMode_to_tag.simps)+, erule codec_end, (case_tac x; simp), simp add: codec_eval)

interpretation Opcua_SessionState_codec: tag_codec Opcua_SessionState_to_tag Opcua_SessionState_from_tag 6
  by (unfold_locales, (case_tac x; simp add: Opcua_SessionState_from_tag_def), unfold Opcua_SessionState_from_tag_def,
    (erule codec_arm, simp only: Opcua_SessionState_to_tag.simps)+, erule codec_end, (case_tac x; simp), simp add: codec_eval)

interpretation ReliabilityKind_codec: tag_codec ReliabilityKind_to_tag ReliabilityKind_from_tag 2
  by (unfold_locales, (case_tac x; simp add: ReliabilityKind_from_tag_def), unfold ReliabilityKind_from_tag_def,
    (erule codec_arm, simp only: ReliabilityKind_to_tag.simps)+, erule codec_end, (case_tac x; simp), simp add: codec_eval)

interpretation DurabilityKind_codec: wire_codec DurabilityKind_to_tag DurabilityKind_from_tag
  by (unfold_locales, case_tac [1] x, auto simp: DurabilityKind_from_tag_def split: if_splits)

interpretation HistoryKind_codec: tag_codec HistoryKind_to_tag HistoryKind_from_tag 2
  by (unfold_locales, (case_tac x; simp add: HistoryKind_from_tag_def), unfold HistoryKind_from_tag_def,
    (erule codec_arm, simp only: HistoryKind_to_tag.simps)+, erule codec_end, (case_tac x; simp), simp add: codec_eval)

interpretation OwnershipKind_codec: tag_codec OwnershipKind_to_tag OwnershipKind_from_tag 2
  by (unfold_locales, (case_tac x; simp add: OwnershipKind_from_tag_def), unfold OwnershipKind_from_tag_def,
    (erule codec_arm, simp only: OwnershipKind_to_tag.simps)+, erule codec_end, (case_tac x; simp), simp add: codec_eval)

interpretation EntityType_codec: tag_codec EntityType_to_tag EntityType_from_tag 6
  by (unfold_locales, (case_tac x; simp add: EntityType_from_tag_def), unfold EntityType_from_tag_def,
    (erule codec_arm, simp only: EntityType_to_tag.simps)+, erule codec_end, (case_tac x; simp), simp add: codec_eval)

interpretation ParticipantState_codec: tag_codec ParticipantState_to_tag ParticipantState_from_tag 5
  by (unfold_locales, (case_tac x; simp add: ParticipantState_from_tag_def), unfold ParticipantState_from_tag_def,
    (erule codec_arm, simp only: ParticipantState_to_tag.simps)+, erule codec_end, (case_tac x; simp), simp add: codec_eval)

end
