(* ===== verification/Management_Types.thy ===== *)
theory Management_Types
  imports Tag_Codec
begin

text \<open>
  The types of 5 modules of the Rust crate, under \<open>bindings/rust/src\<close>.

  \<^item> \<open>snmp.rs\<close>: \<open>Version\<close>, \<open>PduType\<close>,
    \<open>ErrorStatus\<close>.
  \<^item> \<open>netconf.rs\<close>: \<open>NetconfOperation\<close>, \<open>Datastore\<close>,
    \<open>EditOperation\<close>, \<open>NetconfErrorType\<close>, \<open>ErrorSeverity\<close>,
    \<open>NetconfState\<close>.
  \<^item> \<open>configmgmt.rs\<close>: \<open>ResourceType\<close>,
    \<open>ResourceState\<close>, \<open>ChangeAction\<close>, \<open>DriftStatus\<close>,
    \<open>ApplyMode\<close>.
  \<^item> \<open>nts.rs\<close>: \<open>RecordType\<close>, \<open>ErrorCode\<close>,
    \<open>AeadAlgorithm\<close>, \<open>HandshakeState\<close>, \<open>SessionState\<close>.
  \<^item> \<open>ptp.rs\<close>: \<open>PtpMessageType\<close>, \<open>ClockClass\<close>,
    \<open>PtpPortState\<close>, \<open>DelayMechanism\<close>.

  The \<open>Display\<close> implementations and the \<open>ALL\<close> arrays of these modules are not modelled.
\<close>

definition SNMP_PORT :: "u16" where
  "SNMP_PORT = 161"

definition SNMP_TRAP_PORT :: "u16" where
  "SNMP_TRAP_PORT = 162"

section \<open>\<open>snmp::Version\<close>\<close>

datatype (plugins only: code) Snmp_Version =
    V1
  | V2c
  | V3

text \<open>\<open>derive(PartialOrd, Ord)\<close>: the order of the declaration.\<close>

primrec Snmp_Version_rank :: "Snmp_Version \<Rightarrow> nat" where
  "Snmp_Version_rank Snmp_Version.V1 = 0"
| "Snmp_Version_rank Snmp_Version.V2c = 1"
| "Snmp_Version_rank Snmp_Version.V3 = 2"

instantiation Snmp_Version :: linorder
begin

definition less_eq_Snmp_Version :: "Snmp_Version \<Rightarrow> Snmp_Version \<Rightarrow> bool" where
  "less_eq_Snmp_Version x y \<longleftrightarrow> Snmp_Version_rank x \<le> Snmp_Version_rank y"

definition less_Snmp_Version :: "Snmp_Version \<Rightarrow> Snmp_Version \<Rightarrow> bool" where
  "less_Snmp_Version x y \<longleftrightarrow> Snmp_Version_rank x < Snmp_Version_rank y"

instance
proof
  fix x y z :: Snmp_Version
  show "(x < y) = (x \<le> y \<and> \<not> y \<le> x)" "x \<le> x" "x \<le> y \<or> y \<le> x"
    by (auto simp: less_eq_Snmp_Version_def less_Snmp_Version_def)
  show "x \<le> y \<Longrightarrow> y \<le> z \<Longrightarrow> x \<le> z" by (simp add: less_eq_Snmp_Version_def)
  show "x \<le> y \<Longrightarrow> y \<le> x \<Longrightarrow> x = y" by (cases x; cases y; simp add: less_eq_Snmp_Version_def)
qed

end

definition Snmp_Version_from_tag :: "u8 \<Rightarrow> Snmp_Version option" where
  "Snmp_Version_from_tag tag =
     (if tag = 0 then Some Snmp_Version.V1
      else if tag = 1 then Some Snmp_Version.V2c
      else if tag = 2 then Some Snmp_Version.V3
      else option.None)"

primrec Snmp_Version_to_tag :: "Snmp_Version \<Rightarrow> u8" where
  "Snmp_Version_to_tag Snmp_Version.V1 = 0"
| "Snmp_Version_to_tag Snmp_Version.V2c = 1"
| "Snmp_Version_to_tag Snmp_Version.V3 = 2"

definition Snmp_Version_has_usm :: "Snmp_Version \<Rightarrow> bool" where
  "Snmp_Version_has_usm self =
     (case self of
      Snmp_Version.V3 \<Rightarrow> True
    | _ \<Rightarrow> False)"

definition Snmp_Version_uses_community_strings :: "Snmp_Version \<Rightarrow> bool" where
  "Snmp_Version_uses_community_strings self =
     (case self of
      Snmp_Version.V1 \<Rightarrow> True
    | Snmp_Version.V2c \<Rightarrow> True
    | _ \<Rightarrow> False)"

definition Snmp_Version_supports_get_bulk :: "Snmp_Version \<Rightarrow> bool" where
  "Snmp_Version_supports_get_bulk self = (\<not>
     (case self of
      Snmp_Version.V1 \<Rightarrow> True
    | _ \<Rightarrow> False))"

section \<open>\<open>snmp::PduType\<close>\<close>

datatype (plugins only: code) PduType =
    GetRequest
  | GetNextRequest
  | GetResponse
  | SetRequest
  | GetBulkRequest
  | InformRequest
  | SnmpV2Trap

definition PduType_from_tag :: "u8 \<Rightarrow> PduType option" where
  "PduType_from_tag tag =
     (if tag = 0 then Some PduType.GetRequest
      else if tag = 1 then Some PduType.GetNextRequest
      else if tag = 2 then Some PduType.GetResponse
      else if tag = 3 then Some PduType.SetRequest
      else if tag = 4 then Some PduType.GetBulkRequest
      else if tag = 5 then Some PduType.InformRequest
      else if tag = 6 then Some PduType.SnmpV2Trap
      else option.None)"

primrec PduType_to_tag :: "PduType \<Rightarrow> u8" where
  "PduType_to_tag PduType.GetRequest = 0"
| "PduType_to_tag PduType.GetNextRequest = 1"
| "PduType_to_tag PduType.GetResponse = 2"
| "PduType_to_tag PduType.SetRequest = 3"
| "PduType_to_tag PduType.GetBulkRequest = 4"
| "PduType_to_tag PduType.InformRequest = 5"
| "PduType_to_tag PduType.SnmpV2Trap = 6"

definition PduType_is_request :: "PduType \<Rightarrow> bool" where
  "PduType_is_request self =
     (case self of
      PduType.GetRequest \<Rightarrow> True
    | PduType.GetNextRequest \<Rightarrow> True
    | PduType.SetRequest \<Rightarrow> True
    | PduType.GetBulkRequest \<Rightarrow> True
    | _ \<Rightarrow> False)"

definition PduType_is_notification :: "PduType \<Rightarrow> bool" where
  "PduType_is_notification self =
     (case self of
      PduType.InformRequest \<Rightarrow> True
    | PduType.SnmpV2Trap \<Rightarrow> True
    | _ \<Rightarrow> False)"

definition PduType_is_write :: "PduType \<Rightarrow> bool" where
  "PduType_is_write self =
     (case self of
      PduType.SetRequest \<Rightarrow> True
    | _ \<Rightarrow> False)"

definition PduType_min_version :: "PduType \<Rightarrow> Snmp_Version" where
  "PduType_min_version self =
     (case self of
      PduType.GetBulkRequest \<Rightarrow> Snmp_Version.V2c
    | PduType.InformRequest \<Rightarrow> Snmp_Version.V2c
    | PduType.SnmpV2Trap \<Rightarrow> Snmp_Version.V2c
    | _ \<Rightarrow> Snmp_Version.V1)"

section \<open>\<open>snmp::ErrorStatus\<close>\<close>

datatype (plugins only: code) ErrorStatus =
    NoError
  | TooBig
  | NoSuchName
  | BadValue
  | ReadOnly
  | GenErr
  | NoAccess
  | WrongType
  | WrongLength
  | WrongValue
  | NoCreation
  | InconsistentValue
  | ResourceUnavailable
  | CommitFailed
  | UndoFailed
  | AuthorizationError

definition ErrorStatus_from_tag :: "u8 \<Rightarrow> ErrorStatus option" where
  "ErrorStatus_from_tag tag =
     (if tag = 0 then Some ErrorStatus.NoError
      else if tag = 1 then Some ErrorStatus.TooBig
      else if tag = 2 then Some ErrorStatus.NoSuchName
      else if tag = 3 then Some ErrorStatus.BadValue
      else if tag = 4 then Some ErrorStatus.ReadOnly
      else if tag = 5 then Some ErrorStatus.GenErr
      else if tag = 6 then Some ErrorStatus.NoAccess
      else if tag = 7 then Some ErrorStatus.WrongType
      else if tag = 8 then Some ErrorStatus.WrongLength
      else if tag = 9 then Some ErrorStatus.WrongValue
      else if tag = 10 then Some ErrorStatus.NoCreation
      else if tag = 11 then Some ErrorStatus.InconsistentValue
      else if tag = 12 then Some ErrorStatus.ResourceUnavailable
      else if tag = 13 then Some ErrorStatus.CommitFailed
      else if tag = 14 then Some ErrorStatus.UndoFailed
      else if tag = 15 then Some ErrorStatus.AuthorizationError
      else option.None)"

primrec ErrorStatus_to_tag :: "ErrorStatus \<Rightarrow> u8" where
  "ErrorStatus_to_tag ErrorStatus.NoError = 0"
| "ErrorStatus_to_tag ErrorStatus.TooBig = 1"
| "ErrorStatus_to_tag ErrorStatus.NoSuchName = 2"
| "ErrorStatus_to_tag ErrorStatus.BadValue = 3"
| "ErrorStatus_to_tag ErrorStatus.ReadOnly = 4"
| "ErrorStatus_to_tag ErrorStatus.GenErr = 5"
| "ErrorStatus_to_tag ErrorStatus.NoAccess = 6"
| "ErrorStatus_to_tag ErrorStatus.WrongType = 7"
| "ErrorStatus_to_tag ErrorStatus.WrongLength = 8"
| "ErrorStatus_to_tag ErrorStatus.WrongValue = 9"
| "ErrorStatus_to_tag ErrorStatus.NoCreation = 10"
| "ErrorStatus_to_tag ErrorStatus.InconsistentValue = 11"
| "ErrorStatus_to_tag ErrorStatus.ResourceUnavailable = 12"
| "ErrorStatus_to_tag ErrorStatus.CommitFailed = 13"
| "ErrorStatus_to_tag ErrorStatus.UndoFailed = 14"
| "ErrorStatus_to_tag ErrorStatus.AuthorizationError = 15"

definition ErrorStatus_is_success :: "ErrorStatus \<Rightarrow> bool" where
  "ErrorStatus_is_success self =
     (case self of
      ErrorStatus.NoError \<Rightarrow> True
    | _ \<Rightarrow> False)"

definition ErrorStatus_is_v1_only :: "ErrorStatus \<Rightarrow> bool" where
  "ErrorStatus_is_v1_only self =
     (case self of
      ErrorStatus.NoSuchName \<Rightarrow> True
    | ErrorStatus.BadValue \<Rightarrow> True
    | ErrorStatus.ReadOnly \<Rightarrow> True
    | _ \<Rightarrow> False)"

definition ErrorStatus_is_auth_error :: "ErrorStatus \<Rightarrow> bool" where
  "ErrorStatus_is_auth_error self =
     (case self of
      ErrorStatus.NoAccess \<Rightarrow> True
    | ErrorStatus.AuthorizationError \<Rightarrow> True
    | _ \<Rightarrow> False)"

definition NETCONF_PORT :: "u16" where
  "NETCONF_PORT = 830"

section \<open>\<open>netconf::NetconfOperation\<close>\<close>

datatype (plugins only: code) NetconfOperation =
    Get
  | GetConfig
  | EditConfig
  | CopyConfig
  | DeleteConfig
  | Lock
  | Unlock
  | CloseSession
  | KillSession
  | Commit
  | Validate
  | DiscardChanges

definition NetconfOperation_from_tag :: "u8 \<Rightarrow> NetconfOperation option" where
  "NetconfOperation_from_tag tag =
     (if tag = 0 then Some NetconfOperation.Get
      else if tag = 1 then Some NetconfOperation.GetConfig
      else if tag = 2 then Some NetconfOperation.EditConfig
      else if tag = 3 then Some NetconfOperation.CopyConfig
      else if tag = 4 then Some NetconfOperation.DeleteConfig
      else if tag = 5 then Some NetconfOperation.Lock
      else if tag = 6 then Some NetconfOperation.Unlock
      else if tag = 7 then Some NetconfOperation.CloseSession
      else if tag = 8 then Some NetconfOperation.KillSession
      else if tag = 9 then Some NetconfOperation.Commit
      else if tag = 10 then Some NetconfOperation.Validate
      else if tag = 11 then Some NetconfOperation.DiscardChanges
      else option.None)"

primrec NetconfOperation_to_tag :: "NetconfOperation \<Rightarrow> u8" where
  "NetconfOperation_to_tag NetconfOperation.Get = 0"
| "NetconfOperation_to_tag NetconfOperation.GetConfig = 1"
| "NetconfOperation_to_tag NetconfOperation.EditConfig = 2"
| "NetconfOperation_to_tag NetconfOperation.CopyConfig = 3"
| "NetconfOperation_to_tag NetconfOperation.DeleteConfig = 4"
| "NetconfOperation_to_tag NetconfOperation.Lock = 5"
| "NetconfOperation_to_tag NetconfOperation.Unlock = 6"
| "NetconfOperation_to_tag NetconfOperation.CloseSession = 7"
| "NetconfOperation_to_tag NetconfOperation.KillSession = 8"
| "NetconfOperation_to_tag NetconfOperation.Commit = 9"
| "NetconfOperation_to_tag NetconfOperation.Validate = 10"
| "NetconfOperation_to_tag NetconfOperation.DiscardChanges = 11"

section \<open>\<open>netconf::Datastore\<close>\<close>

datatype (plugins only: code) Datastore =
    Running
  | Startup
  | Candidate

definition Datastore_from_tag :: "u8 \<Rightarrow> Datastore option" where
  "Datastore_from_tag tag =
     (if tag = 0 then Some Datastore.Running
      else if tag = 1 then Some Datastore.Startup
      else if tag = 2 then Some Datastore.Candidate
      else option.None)"

primrec Datastore_to_tag :: "Datastore \<Rightarrow> u8" where
  "Datastore_to_tag Datastore.Running = 0"
| "Datastore_to_tag Datastore.Startup = 1"
| "Datastore_to_tag Datastore.Candidate = 2"

section \<open>\<open>netconf::EditOperation\<close>\<close>

datatype (plugins only: code) EditOperation =
    Merge
  | Replace
  | Create
  | Delete
  | Remove

definition EditOperation_from_tag :: "u8 \<Rightarrow> EditOperation option" where
  "EditOperation_from_tag tag =
     (if tag = 0 then Some EditOperation.Merge
      else if tag = 1 then Some EditOperation.Replace
      else if tag = 2 then Some EditOperation.Create
      else if tag = 3 then Some EditOperation.Delete
      else if tag = 4 then Some EditOperation.Remove
      else option.None)"

primrec EditOperation_to_tag :: "EditOperation \<Rightarrow> u8" where
  "EditOperation_to_tag EditOperation.Merge = 0"
| "EditOperation_to_tag EditOperation.Replace = 1"
| "EditOperation_to_tag EditOperation.Create = 2"
| "EditOperation_to_tag EditOperation.Delete = 3"
| "EditOperation_to_tag EditOperation.Remove = 4"

section \<open>\<open>netconf::NetconfErrorType\<close>\<close>

datatype (plugins only: code) NetconfErrorType =
    Transport
  | Rpc
  | Protocol
  | Application

definition NetconfErrorType_from_tag :: "u8 \<Rightarrow> NetconfErrorType option" where
  "NetconfErrorType_from_tag tag =
     (if tag = 0 then Some NetconfErrorType.Transport
      else if tag = 1 then Some NetconfErrorType.Rpc
      else if tag = 2 then Some NetconfErrorType.Protocol
      else if tag = 3 then Some NetconfErrorType.Application
      else option.None)"

primrec NetconfErrorType_to_tag :: "NetconfErrorType \<Rightarrow> u8" where
  "NetconfErrorType_to_tag NetconfErrorType.Transport = 0"
| "NetconfErrorType_to_tag NetconfErrorType.Rpc = 1"
| "NetconfErrorType_to_tag NetconfErrorType.Protocol = 2"
| "NetconfErrorType_to_tag NetconfErrorType.Application = 3"

section \<open>\<open>netconf::ErrorSeverity\<close>\<close>

datatype (plugins only: code) Netconf_ErrorSeverity =
    Error
  | Warning

definition Netconf_ErrorSeverity_from_tag :: "u8 \<Rightarrow> Netconf_ErrorSeverity option" where
  "Netconf_ErrorSeverity_from_tag tag =
     (if tag = 0 then Some Netconf_ErrorSeverity.Error
      else if tag = 1 then Some Netconf_ErrorSeverity.Warning
      else option.None)"

primrec Netconf_ErrorSeverity_to_tag :: "Netconf_ErrorSeverity \<Rightarrow> u8" where
  "Netconf_ErrorSeverity_to_tag Netconf_ErrorSeverity.Error = 0"
| "Netconf_ErrorSeverity_to_tag Netconf_ErrorSeverity.Warning = 1"

section \<open>\<open>netconf::NetconfState\<close>\<close>

datatype (plugins only: code) NetconfState =
    Idle
  | Connected
  | Locked
  | Editing
  | Closing
  | Terminated

definition NetconfState_from_tag :: "u8 \<Rightarrow> NetconfState option" where
  "NetconfState_from_tag tag =
     (if tag = 0 then Some NetconfState.Idle
      else if tag = 1 then Some NetconfState.Connected
      else if tag = 2 then Some NetconfState.Locked
      else if tag = 3 then Some NetconfState.Editing
      else if tag = 4 then Some NetconfState.Closing
      else if tag = 5 then Some NetconfState.Terminated
      else option.None)"

primrec NetconfState_to_tag :: "NetconfState \<Rightarrow> u8" where
  "NetconfState_to_tag NetconfState.Idle = 0"
| "NetconfState_to_tag NetconfState.Connected = 1"
| "NetconfState_to_tag NetconfState.Locked = 2"
| "NetconfState_to_tag NetconfState.Editing = 3"
| "NetconfState_to_tag NetconfState.Closing = 4"
| "NetconfState_to_tag NetconfState.Terminated = 5"

section \<open>\<open>configmgmt::ResourceType\<close>\<close>

datatype (plugins only: code) ResourceType =
    File
  | Package
  | Service
  | User
  | Group
  | Cron
  | Mount
  | Firewall
  | Registry

definition ResourceType_from_tag :: "u8 \<Rightarrow> ResourceType option" where
  "ResourceType_from_tag tag =
     (if tag = 0 then Some ResourceType.File
      else if tag = 1 then Some ResourceType.Package
      else if tag = 2 then Some ResourceType.Service
      else if tag = 3 then Some ResourceType.User
      else if tag = 4 then Some ResourceType.Group
      else if tag = 5 then Some ResourceType.Cron
      else if tag = 6 then Some ResourceType.Mount
      else if tag = 7 then Some ResourceType.Firewall
      else if tag = 8 then Some ResourceType.Registry
      else option.None)"

primrec ResourceType_to_tag :: "ResourceType \<Rightarrow> u8" where
  "ResourceType_to_tag ResourceType.File = 0"
| "ResourceType_to_tag ResourceType.Package = 1"
| "ResourceType_to_tag ResourceType.Service = 2"
| "ResourceType_to_tag ResourceType.User = 3"
| "ResourceType_to_tag ResourceType.Group = 4"
| "ResourceType_to_tag ResourceType.Cron = 5"
| "ResourceType_to_tag ResourceType.Mount = 6"
| "ResourceType_to_tag ResourceType.Firewall = 7"
| "ResourceType_to_tag ResourceType.Registry = 8"

section \<open>\<open>configmgmt::ResourceState\<close>\<close>

datatype (plugins only: code) ResourceState =
    Present
  | Absent
  | Running
  | Stopped
  | Enabled
  | Disabled

definition ResourceState_from_tag :: "u8 \<Rightarrow> ResourceState option" where
  "ResourceState_from_tag tag =
     (if tag = 0 then Some ResourceState.Present
      else if tag = 1 then Some ResourceState.Absent
      else if tag = 2 then Some ResourceState.Running
      else if tag = 3 then Some ResourceState.Stopped
      else if tag = 4 then Some ResourceState.Enabled
      else if tag = 5 then Some ResourceState.Disabled
      else option.None)"

primrec ResourceState_to_tag :: "ResourceState \<Rightarrow> u8" where
  "ResourceState_to_tag ResourceState.Present = 0"
| "ResourceState_to_tag ResourceState.Absent = 1"
| "ResourceState_to_tag ResourceState.Running = 2"
| "ResourceState_to_tag ResourceState.Stopped = 3"
| "ResourceState_to_tag ResourceState.Enabled = 4"
| "ResourceState_to_tag ResourceState.Disabled = 5"

section \<open>\<open>configmgmt::ChangeAction\<close>\<close>

datatype (plugins only: code) ChangeAction =
    Create
  | Modify
  | Delete
  | Restart
  | Reload
  | Skip

definition ChangeAction_from_tag :: "u8 \<Rightarrow> ChangeAction option" where
  "ChangeAction_from_tag tag =
     (if tag = 0 then Some ChangeAction.Create
      else if tag = 1 then Some ChangeAction.Modify
      else if tag = 2 then Some ChangeAction.Delete
      else if tag = 3 then Some ChangeAction.Restart
      else if tag = 4 then Some ChangeAction.Reload
      else if tag = 5 then Some ChangeAction.Skip
      else option.None)"

primrec ChangeAction_to_tag :: "ChangeAction \<Rightarrow> u8" where
  "ChangeAction_to_tag ChangeAction.Create = 0"
| "ChangeAction_to_tag ChangeAction.Modify = 1"
| "ChangeAction_to_tag ChangeAction.Delete = 2"
| "ChangeAction_to_tag ChangeAction.Restart = 3"
| "ChangeAction_to_tag ChangeAction.Reload = 4"
| "ChangeAction_to_tag ChangeAction.Skip = 5"

section \<open>\<open>configmgmt::DriftStatus\<close>\<close>

datatype (plugins only: code) DriftStatus =
    InSync
  | Drifted
  | DUnknown
  | Unmanaged

definition DriftStatus_from_tag :: "u8 \<Rightarrow> DriftStatus option" where
  "DriftStatus_from_tag tag =
     (if tag = 0 then Some DriftStatus.InSync
      else if tag = 1 then Some DriftStatus.Drifted
      else if tag = 2 then Some DriftStatus.DUnknown
      else if tag = 3 then Some DriftStatus.Unmanaged
      else option.None)"

primrec DriftStatus_to_tag :: "DriftStatus \<Rightarrow> u8" where
  "DriftStatus_to_tag DriftStatus.InSync = 0"
| "DriftStatus_to_tag DriftStatus.Drifted = 1"
| "DriftStatus_to_tag DriftStatus.DUnknown = 2"
| "DriftStatus_to_tag DriftStatus.Unmanaged = 3"

section \<open>\<open>configmgmt::ApplyMode\<close>\<close>

datatype (plugins only: code) ApplyMode =
    Enforce
  | DryRun
  | Audit

definition ApplyMode_from_tag :: "u8 \<Rightarrow> ApplyMode option" where
  "ApplyMode_from_tag tag =
     (if tag = 0 then Some ApplyMode.Enforce
      else if tag = 1 then Some ApplyMode.DryRun
      else if tag = 2 then Some ApplyMode.Audit
      else option.None)"

primrec ApplyMode_to_tag :: "ApplyMode \<Rightarrow> u8" where
  "ApplyMode_to_tag ApplyMode.Enforce = 0"
| "ApplyMode_to_tag ApplyMode.DryRun = 1"
| "ApplyMode_to_tag ApplyMode.Audit = 2"

definition NTS_KE_PORT :: "u16" where
  "NTS_KE_PORT = 4460"

section \<open>\<open>nts::RecordType\<close>\<close>

datatype (plugins only: code) Nts_RecordType =
    EndOfMessage
  | NextProtocol
  | Error
  | Warning
  | AeadAlgorithm
  | Cookie
  | CookiePlaceholder
  | NtskeServer
  | NtskePort

definition Nts_RecordType_from_tag :: "u8 \<Rightarrow> Nts_RecordType option" where
  "Nts_RecordType_from_tag tag =
     (if tag = 0 then Some Nts_RecordType.EndOfMessage
      else if tag = 1 then Some Nts_RecordType.NextProtocol
      else if tag = 2 then Some Nts_RecordType.Error
      else if tag = 3 then Some Nts_RecordType.Warning
      else if tag = 4 then Some Nts_RecordType.AeadAlgorithm
      else if tag = 5 then Some Nts_RecordType.Cookie
      else if tag = 6 then Some Nts_RecordType.CookiePlaceholder
      else if tag = 7 then Some Nts_RecordType.NtskeServer
      else if tag = 8 then Some Nts_RecordType.NtskePort
      else option.None)"

primrec Nts_RecordType_to_tag :: "Nts_RecordType \<Rightarrow> u8" where
  "Nts_RecordType_to_tag Nts_RecordType.EndOfMessage = 0"
| "Nts_RecordType_to_tag Nts_RecordType.NextProtocol = 1"
| "Nts_RecordType_to_tag Nts_RecordType.Error = 2"
| "Nts_RecordType_to_tag Nts_RecordType.Warning = 3"
| "Nts_RecordType_to_tag Nts_RecordType.AeadAlgorithm = 4"
| "Nts_RecordType_to_tag Nts_RecordType.Cookie = 5"
| "Nts_RecordType_to_tag Nts_RecordType.CookiePlaceholder = 6"
| "Nts_RecordType_to_tag Nts_RecordType.NtskeServer = 7"
| "Nts_RecordType_to_tag Nts_RecordType.NtskePort = 8"

section \<open>\<open>nts::ErrorCode\<close>\<close>

datatype (plugins only: code) Nts_ErrorCode =
    UnrecognizedCritical
  | BadRequest
  | InternalError

definition Nts_ErrorCode_from_tag :: "u8 \<Rightarrow> Nts_ErrorCode option" where
  "Nts_ErrorCode_from_tag tag =
     (if tag = 0 then Some Nts_ErrorCode.UnrecognizedCritical
      else if tag = 1 then Some Nts_ErrorCode.BadRequest
      else if tag = 2 then Some Nts_ErrorCode.InternalError
      else option.None)"

primrec Nts_ErrorCode_to_tag :: "Nts_ErrorCode \<Rightarrow> u8" where
  "Nts_ErrorCode_to_tag Nts_ErrorCode.UnrecognizedCritical = 0"
| "Nts_ErrorCode_to_tag Nts_ErrorCode.BadRequest = 1"
| "Nts_ErrorCode_to_tag Nts_ErrorCode.InternalError = 2"

section \<open>\<open>nts::AeadAlgorithm\<close>\<close>

datatype (plugins only: code) AeadAlgorithm =
    AeadAes128Gcm
  | AeadAes256Gcm
  | AeadAesSivCmac256

definition AeadAlgorithm_from_tag :: "u8 \<Rightarrow> AeadAlgorithm option" where
  "AeadAlgorithm_from_tag tag =
     (if tag = 0 then Some AeadAlgorithm.AeadAes128Gcm
      else if tag = 1 then Some AeadAlgorithm.AeadAes256Gcm
      else if tag = 2 then Some AeadAlgorithm.AeadAesSivCmac256
      else option.None)"

primrec AeadAlgorithm_to_tag :: "AeadAlgorithm \<Rightarrow> u8" where
  "AeadAlgorithm_to_tag AeadAlgorithm.AeadAes128Gcm = 0"
| "AeadAlgorithm_to_tag AeadAlgorithm.AeadAes256Gcm = 1"
| "AeadAlgorithm_to_tag AeadAlgorithm.AeadAesSivCmac256 = 2"

section \<open>\<open>nts::HandshakeState\<close>\<close>

datatype (plugins only: code) HandshakeState =
    Initial
  | Negotiating
  | Established
  | Failed

definition HandshakeState_from_tag :: "u8 \<Rightarrow> HandshakeState option" where
  "HandshakeState_from_tag tag =
     (if tag = 0 then Some HandshakeState.Initial
      else if tag = 1 then Some HandshakeState.Negotiating
      else if tag = 2 then Some HandshakeState.Established
      else if tag = 3 then Some HandshakeState.Failed
      else option.None)"

primrec HandshakeState_to_tag :: "HandshakeState \<Rightarrow> u8" where
  "HandshakeState_to_tag HandshakeState.Initial = 0"
| "HandshakeState_to_tag HandshakeState.Negotiating = 1"
| "HandshakeState_to_tag HandshakeState.Established = 2"
| "HandshakeState_to_tag HandshakeState.Failed = 3"

section \<open>\<open>nts::SessionState\<close>\<close>

datatype (plugins only: code) Nts_SessionState =
    Idle
  | Handshaking
  | Negotiating
  | Established
  | Closing

definition Nts_SessionState_from_tag :: "u8 \<Rightarrow> Nts_SessionState option" where
  "Nts_SessionState_from_tag tag =
     (if tag = 0 then Some Nts_SessionState.Idle
      else if tag = 1 then Some Nts_SessionState.Handshaking
      else if tag = 2 then Some Nts_SessionState.Negotiating
      else if tag = 3 then Some Nts_SessionState.Established
      else if tag = 4 then Some Nts_SessionState.Closing
      else option.None)"

primrec Nts_SessionState_to_tag :: "Nts_SessionState \<Rightarrow> u8" where
  "Nts_SessionState_to_tag Nts_SessionState.Idle = 0"
| "Nts_SessionState_to_tag Nts_SessionState.Handshaking = 1"
| "Nts_SessionState_to_tag Nts_SessionState.Negotiating = 2"
| "Nts_SessionState_to_tag Nts_SessionState.Established = 3"
| "Nts_SessionState_to_tag Nts_SessionState.Closing = 4"

definition PTP_EVENT_PORT :: "u16" where
  "PTP_EVENT_PORT = 319"

definition PTP_GENERAL_PORT :: "u16" where
  "PTP_GENERAL_PORT = 320"

section \<open>\<open>ptp::PtpMessageType\<close>\<close>

datatype (plugins only: code) PtpMessageType =
    Sync
  | DelayReq
  | PdelayReq
  | PdelayResp
  | FollowUp
  | DelayResp
  | PdelayRespFollowUp
  | Announce
  | Signaling
  | Management

definition PtpMessageType_from_tag :: "u8 \<Rightarrow> PtpMessageType option" where
  "PtpMessageType_from_tag tag =
     (if tag = 0 then Some PtpMessageType.Sync
      else if tag = 1 then Some PtpMessageType.DelayReq
      else if tag = 2 then Some PtpMessageType.PdelayReq
      else if tag = 3 then Some PtpMessageType.PdelayResp
      else if tag = 4 then Some PtpMessageType.FollowUp
      else if tag = 5 then Some PtpMessageType.DelayResp
      else if tag = 6 then Some PtpMessageType.PdelayRespFollowUp
      else if tag = 7 then Some PtpMessageType.Announce
      else if tag = 8 then Some PtpMessageType.Signaling
      else if tag = 9 then Some PtpMessageType.Management
      else option.None)"

primrec PtpMessageType_to_tag :: "PtpMessageType \<Rightarrow> u8" where
  "PtpMessageType_to_tag PtpMessageType.Sync = 0"
| "PtpMessageType_to_tag PtpMessageType.DelayReq = 1"
| "PtpMessageType_to_tag PtpMessageType.PdelayReq = 2"
| "PtpMessageType_to_tag PtpMessageType.PdelayResp = 3"
| "PtpMessageType_to_tag PtpMessageType.FollowUp = 4"
| "PtpMessageType_to_tag PtpMessageType.DelayResp = 5"
| "PtpMessageType_to_tag PtpMessageType.PdelayRespFollowUp = 6"
| "PtpMessageType_to_tag PtpMessageType.Announce = 7"
| "PtpMessageType_to_tag PtpMessageType.Signaling = 8"
| "PtpMessageType_to_tag PtpMessageType.Management = 9"

section \<open>\<open>ptp::ClockClass\<close>\<close>

datatype (plugins only: code) ClockClass =
    PrimaryClock
  | ApplicationSpecific
  | SlaveOnly
  | DefaultClass

definition ClockClass_from_tag :: "u8 \<Rightarrow> ClockClass option" where
  "ClockClass_from_tag tag =
     (if tag = 0 then Some ClockClass.PrimaryClock
      else if tag = 1 then Some ClockClass.ApplicationSpecific
      else if tag = 2 then Some ClockClass.SlaveOnly
      else if tag = 3 then Some ClockClass.DefaultClass
      else option.None)"

primrec ClockClass_to_tag :: "ClockClass \<Rightarrow> u8" where
  "ClockClass_to_tag ClockClass.PrimaryClock = 0"
| "ClockClass_to_tag ClockClass.ApplicationSpecific = 1"
| "ClockClass_to_tag ClockClass.SlaveOnly = 2"
| "ClockClass_to_tag ClockClass.DefaultClass = 3"

section \<open>\<open>ptp::PtpPortState\<close>\<close>

datatype (plugins only: code) PtpPortState =
    Initializing
  | Faulty
  | Disabled
  | Listening
  | PreMaster
  | Master
  | Passive
  | Uncalibrated
  | Slave

definition PtpPortState_from_tag :: "u8 \<Rightarrow> PtpPortState option" where
  "PtpPortState_from_tag tag =
     (if tag = 0 then Some PtpPortState.Initializing
      else if tag = 1 then Some PtpPortState.Faulty
      else if tag = 2 then Some PtpPortState.Disabled
      else if tag = 3 then Some PtpPortState.Listening
      else if tag = 4 then Some PtpPortState.PreMaster
      else if tag = 5 then Some PtpPortState.Master
      else if tag = 6 then Some PtpPortState.Passive
      else if tag = 7 then Some PtpPortState.Uncalibrated
      else if tag = 8 then Some PtpPortState.Slave
      else option.None)"

primrec PtpPortState_to_tag :: "PtpPortState \<Rightarrow> u8" where
  "PtpPortState_to_tag PtpPortState.Initializing = 0"
| "PtpPortState_to_tag PtpPortState.Faulty = 1"
| "PtpPortState_to_tag PtpPortState.Disabled = 2"
| "PtpPortState_to_tag PtpPortState.Listening = 3"
| "PtpPortState_to_tag PtpPortState.PreMaster = 4"
| "PtpPortState_to_tag PtpPortState.Master = 5"
| "PtpPortState_to_tag PtpPortState.Passive = 6"
| "PtpPortState_to_tag PtpPortState.Uncalibrated = 7"
| "PtpPortState_to_tag PtpPortState.Slave = 8"

section \<open>\<open>ptp::DelayMechanism\<close>\<close>

datatype (plugins only: code) DelayMechanism =
    E2E
  | P2P
  | DmDisabled

definition DelayMechanism_from_tag :: "u8 \<Rightarrow> DelayMechanism option" where
  "DelayMechanism_from_tag tag =
     (if tag = 0 then Some DelayMechanism.E2E
      else if tag = 1 then Some DelayMechanism.P2P
      else if tag = 2 then Some DelayMechanism.DmDisabled
      else option.None)"

primrec DelayMechanism_to_tag :: "DelayMechanism \<Rightarrow> u8" where
  "DelayMechanism_to_tag DelayMechanism.E2E = 0"
| "DelayMechanism_to_tag DelayMechanism.P2P = 1"
| "DelayMechanism_to_tag DelayMechanism.DmDisabled = 2"

section \<open>Tags and enumerations\<close>

interpretation Snmp_Version_codec: tag_codec Snmp_Version_to_tag Snmp_Version_from_tag 3
  by (unfold_locales, (case_tac x; simp add: Snmp_Version_from_tag_def), unfold Snmp_Version_from_tag_def,
    (erule codec_arm, simp only: Snmp_Version_to_tag.simps)+, erule codec_end, (case_tac x; simp), simp add: codec_eval)

interpretation PduType_codec: tag_codec PduType_to_tag PduType_from_tag 7
  by (unfold_locales, (case_tac x; simp add: PduType_from_tag_def), unfold PduType_from_tag_def,
    (erule codec_arm, simp only: PduType_to_tag.simps)+, erule codec_end, (case_tac x; simp), simp add: codec_eval)

interpretation ErrorStatus_codec: tag_codec ErrorStatus_to_tag ErrorStatus_from_tag 16
  by (unfold_locales, (case_tac x; simp add: ErrorStatus_from_tag_def), unfold ErrorStatus_from_tag_def,
    (erule codec_arm, simp only: ErrorStatus_to_tag.simps)+, erule codec_end, (case_tac x; simp), simp add: codec_eval)

interpretation NetconfOperation_codec: tag_codec NetconfOperation_to_tag NetconfOperation_from_tag 12
  by (unfold_locales, (case_tac x; simp add: NetconfOperation_from_tag_def), unfold NetconfOperation_from_tag_def,
    (erule codec_arm, simp only: NetconfOperation_to_tag.simps)+, erule codec_end, (case_tac x; simp), simp add: codec_eval)

interpretation Datastore_codec: tag_codec Datastore_to_tag Datastore_from_tag 3
  by (unfold_locales, (case_tac x; simp add: Datastore_from_tag_def), unfold Datastore_from_tag_def,
    (erule codec_arm, simp only: Datastore_to_tag.simps)+, erule codec_end, (case_tac x; simp), simp add: codec_eval)

interpretation EditOperation_codec: tag_codec EditOperation_to_tag EditOperation_from_tag 5
  by (unfold_locales, (case_tac x; simp add: EditOperation_from_tag_def), unfold EditOperation_from_tag_def,
    (erule codec_arm, simp only: EditOperation_to_tag.simps)+, erule codec_end, (case_tac x; simp), simp add: codec_eval)

interpretation NetconfErrorType_codec: tag_codec NetconfErrorType_to_tag NetconfErrorType_from_tag 4
  by (unfold_locales, (case_tac x; simp add: NetconfErrorType_from_tag_def), unfold NetconfErrorType_from_tag_def,
    (erule codec_arm, simp only: NetconfErrorType_to_tag.simps)+, erule codec_end, (case_tac x; simp), simp add: codec_eval)

interpretation Netconf_ErrorSeverity_codec: tag_codec Netconf_ErrorSeverity_to_tag Netconf_ErrorSeverity_from_tag 2
  by (unfold_locales, (case_tac x; simp add: Netconf_ErrorSeverity_from_tag_def), unfold Netconf_ErrorSeverity_from_tag_def,
    (erule codec_arm, simp only: Netconf_ErrorSeverity_to_tag.simps)+, erule codec_end, (case_tac x; simp), simp add: codec_eval)

interpretation NetconfState_codec: tag_codec NetconfState_to_tag NetconfState_from_tag 6
  by (unfold_locales, (case_tac x; simp add: NetconfState_from_tag_def), unfold NetconfState_from_tag_def,
    (erule codec_arm, simp only: NetconfState_to_tag.simps)+, erule codec_end, (case_tac x; simp), simp add: codec_eval)

interpretation ResourceType_codec: tag_codec ResourceType_to_tag ResourceType_from_tag 9
  by (unfold_locales, (case_tac x; simp add: ResourceType_from_tag_def), unfold ResourceType_from_tag_def,
    (erule codec_arm, simp only: ResourceType_to_tag.simps)+, erule codec_end, (case_tac x; simp), simp add: codec_eval)

interpretation ResourceState_codec: tag_codec ResourceState_to_tag ResourceState_from_tag 6
  by (unfold_locales, (case_tac x; simp add: ResourceState_from_tag_def), unfold ResourceState_from_tag_def,
    (erule codec_arm, simp only: ResourceState_to_tag.simps)+, erule codec_end, (case_tac x; simp), simp add: codec_eval)

interpretation ChangeAction_codec: tag_codec ChangeAction_to_tag ChangeAction_from_tag 6
  by (unfold_locales, (case_tac x; simp add: ChangeAction_from_tag_def), unfold ChangeAction_from_tag_def,
    (erule codec_arm, simp only: ChangeAction_to_tag.simps)+, erule codec_end, (case_tac x; simp), simp add: codec_eval)

interpretation DriftStatus_codec: tag_codec DriftStatus_to_tag DriftStatus_from_tag 4
  by (unfold_locales, (case_tac x; simp add: DriftStatus_from_tag_def), unfold DriftStatus_from_tag_def,
    (erule codec_arm, simp only: DriftStatus_to_tag.simps)+, erule codec_end, (case_tac x; simp), simp add: codec_eval)

interpretation ApplyMode_codec: tag_codec ApplyMode_to_tag ApplyMode_from_tag 3
  by (unfold_locales, (case_tac x; simp add: ApplyMode_from_tag_def), unfold ApplyMode_from_tag_def,
    (erule codec_arm, simp only: ApplyMode_to_tag.simps)+, erule codec_end, (case_tac x; simp), simp add: codec_eval)

interpretation Nts_RecordType_codec: tag_codec Nts_RecordType_to_tag Nts_RecordType_from_tag 9
  by (unfold_locales, (case_tac x; simp add: Nts_RecordType_from_tag_def), unfold Nts_RecordType_from_tag_def,
    (erule codec_arm, simp only: Nts_RecordType_to_tag.simps)+, erule codec_end, (case_tac x; simp), simp add: codec_eval)

interpretation Nts_ErrorCode_codec: tag_codec Nts_ErrorCode_to_tag Nts_ErrorCode_from_tag 3
  by (unfold_locales, (case_tac x; simp add: Nts_ErrorCode_from_tag_def), unfold Nts_ErrorCode_from_tag_def,
    (erule codec_arm, simp only: Nts_ErrorCode_to_tag.simps)+, erule codec_end, (case_tac x; simp), simp add: codec_eval)

interpretation AeadAlgorithm_codec: tag_codec AeadAlgorithm_to_tag AeadAlgorithm_from_tag 3
  by (unfold_locales, (case_tac x; simp add: AeadAlgorithm_from_tag_def), unfold AeadAlgorithm_from_tag_def,
    (erule codec_arm, simp only: AeadAlgorithm_to_tag.simps)+, erule codec_end, (case_tac x; simp), simp add: codec_eval)

interpretation HandshakeState_codec: tag_codec HandshakeState_to_tag HandshakeState_from_tag 4
  by (unfold_locales, (case_tac x; simp add: HandshakeState_from_tag_def), unfold HandshakeState_from_tag_def,
    (erule codec_arm, simp only: HandshakeState_to_tag.simps)+, erule codec_end, (case_tac x; simp), simp add: codec_eval)

interpretation Nts_SessionState_codec: tag_codec Nts_SessionState_to_tag Nts_SessionState_from_tag 5
  by (unfold_locales, (case_tac x; simp add: Nts_SessionState_from_tag_def), unfold Nts_SessionState_from_tag_def,
    (erule codec_arm, simp only: Nts_SessionState_to_tag.simps)+, erule codec_end, (case_tac x; simp), simp add: codec_eval)

interpretation PtpMessageType_codec: tag_codec PtpMessageType_to_tag PtpMessageType_from_tag 10
  by (unfold_locales, (case_tac x; simp add: PtpMessageType_from_tag_def), unfold PtpMessageType_from_tag_def,
    (erule codec_arm, simp only: PtpMessageType_to_tag.simps)+, erule codec_end, (case_tac x; simp), simp add: codec_eval)

interpretation ClockClass_codec: tag_codec ClockClass_to_tag ClockClass_from_tag 4
  by (unfold_locales, (case_tac x; simp add: ClockClass_from_tag_def), unfold ClockClass_from_tag_def,
    (erule codec_arm, simp only: ClockClass_to_tag.simps)+, erule codec_end, (case_tac x; simp), simp add: codec_eval)

interpretation PtpPortState_codec: tag_codec PtpPortState_to_tag PtpPortState_from_tag 9
  by (unfold_locales, (case_tac x; simp add: PtpPortState_from_tag_def), unfold PtpPortState_from_tag_def,
    (erule codec_arm, simp only: PtpPortState_to_tag.simps)+, erule codec_end, (case_tac x; simp), simp add: codec_eval)

interpretation DelayMechanism_codec: tag_codec DelayMechanism_to_tag DelayMechanism_from_tag 3
  by (unfold_locales, (case_tac x; simp add: DelayMechanism_from_tag_def), unfold DelayMechanism_from_tag_def,
    (erule codec_arm, simp only: DelayMechanism_to_tag.simps)+, erule codec_end, (case_tac x; simp), simp add: codec_eval)

end
