(* ===== verification/Messaging_Types.thy ===== *)
theory Messaging_Types
  imports Tag_Codec
begin

text \<open>
  The types of 4 modules of the Rust crate, under \<open>bindings/rust/src\<close>.

  \<^item> \<open>xmpp.rs\<close>: \<open>StanzaType\<close>, \<open>MessageType\<close>,
    \<open>PresenceType\<close>, \<open>IqType\<close>, \<open>StreamError\<close>.
  \<^item> \<open>chat.rs\<close>: \<open>MessageType\<close>, \<open>PresenceStatus\<close>,
    \<open>RoomType\<close>, \<open>Permission\<close>, \<open>Event\<close>.
  \<^item> \<open>voip.rs\<close>: \<open>Method\<close>, \<open>ResponseCode\<close>,
    \<open>DialogState\<close>.
  \<^item> \<open>stun.rs\<close>: \<open>MessageType\<close>, \<open>TransportProtocol\<close>,
    \<open>ErrorCode\<close>.

  The \<open>Display\<close> implementations and the \<open>ALL\<close> arrays of these modules are not modelled.
\<close>

definition XMPP_CLIENT_PORT :: "u16" where
  "XMPP_CLIENT_PORT = 5222"

definition XMPP_SERVER_PORT :: "u16" where
  "XMPP_SERVER_PORT = 5269"

definition XMPPS_PORT :: "u16" where
  "XMPPS_PORT = 5223"

section \<open>\<open>xmpp::StanzaType\<close>\<close>

datatype (plugins only: code) StanzaType =
    Message
  | Presence
  | Iq

definition StanzaType_from_tag :: "u8 \<Rightarrow> StanzaType option" where
  "StanzaType_from_tag tag =
     (if tag = 0 then Some StanzaType.Message
      else if tag = 1 then Some StanzaType.Presence
      else if tag = 2 then Some StanzaType.Iq
      else option.None)"

primrec StanzaType_to_tag :: "StanzaType \<Rightarrow> u8" where
  "StanzaType_to_tag StanzaType.Message = 0"
| "StanzaType_to_tag StanzaType.Presence = 1"
| "StanzaType_to_tag StanzaType.Iq = 2"

definition StanzaType_element_name :: "StanzaType \<Rightarrow> string" where
  "StanzaType_element_name self =
     (case self of
      StanzaType.Message \<Rightarrow> ''message''
    | StanzaType.Presence \<Rightarrow> ''presence''
    | StanzaType.Iq \<Rightarrow> ''iq'')"

section \<open>\<open>xmpp::MessageType\<close>\<close>

datatype (plugins only: code) Xmpp_MessageType =
    Chat
  | Error
  | Groupchat
  | Headline
  | Normal

definition Xmpp_MessageType_from_tag :: "u8 \<Rightarrow> Xmpp_MessageType option" where
  "Xmpp_MessageType_from_tag tag =
     (if tag = 0 then Some Xmpp_MessageType.Chat
      else if tag = 1 then Some Xmpp_MessageType.Error
      else if tag = 2 then Some Xmpp_MessageType.Groupchat
      else if tag = 3 then Some Xmpp_MessageType.Headline
      else if tag = 4 then Some Xmpp_MessageType.Normal
      else option.None)"

primrec Xmpp_MessageType_to_tag :: "Xmpp_MessageType \<Rightarrow> u8" where
  "Xmpp_MessageType_to_tag Xmpp_MessageType.Chat = 0"
| "Xmpp_MessageType_to_tag Xmpp_MessageType.Error = 1"
| "Xmpp_MessageType_to_tag Xmpp_MessageType.Groupchat = 2"
| "Xmpp_MessageType_to_tag Xmpp_MessageType.Headline = 3"
| "Xmpp_MessageType_to_tag Xmpp_MessageType.Normal = 4"

definition Xmpp_MessageType_expects_reply :: "Xmpp_MessageType \<Rightarrow> bool" where
  "Xmpp_MessageType_expects_reply self =
     (case self of
      Xmpp_MessageType.Chat \<Rightarrow> True
    | Xmpp_MessageType.Normal \<Rightarrow> True
    | _ \<Rightarrow> False)"

definition Xmpp_MessageType_is_multi_party :: "Xmpp_MessageType \<Rightarrow> bool" where
  "Xmpp_MessageType_is_multi_party self =
     (case self of
      Xmpp_MessageType.Groupchat \<Rightarrow> True
    | _ \<Rightarrow> False)"

section \<open>\<open>xmpp::PresenceType\<close>\<close>

datatype (plugins only: code) PresenceType =
    Available
  | Away
  | Dnd
  | Xa
  | Unavailable

definition PresenceType_from_tag :: "u8 \<Rightarrow> PresenceType option" where
  "PresenceType_from_tag tag =
     (if tag = 0 then Some PresenceType.Available
      else if tag = 1 then Some PresenceType.Away
      else if tag = 2 then Some PresenceType.Dnd
      else if tag = 3 then Some PresenceType.Xa
      else if tag = 4 then Some PresenceType.Unavailable
      else option.None)"

primrec PresenceType_to_tag :: "PresenceType \<Rightarrow> u8" where
  "PresenceType_to_tag PresenceType.Available = 0"
| "PresenceType_to_tag PresenceType.Away = 1"
| "PresenceType_to_tag PresenceType.Dnd = 2"
| "PresenceType_to_tag PresenceType.Xa = 3"
| "PresenceType_to_tag PresenceType.Unavailable = 4"

definition PresenceType_is_online :: "PresenceType \<Rightarrow> bool" where
  "PresenceType_is_online self = (\<not>
     (case self of
      PresenceType.Unavailable \<Rightarrow> True
    | _ \<Rightarrow> False))"

definition PresenceType_is_available :: "PresenceType \<Rightarrow> bool" where
  "PresenceType_is_available self =
     (case self of
      PresenceType.Available \<Rightarrow> True
    | _ \<Rightarrow> False)"

definition PresenceType_show_value :: "PresenceType \<Rightarrow> string option" where
  "PresenceType_show_value self =
     (case self of
      PresenceType.Available \<Rightarrow> option.None
    | PresenceType.Away \<Rightarrow> Some ''away''
    | PresenceType.Dnd \<Rightarrow> Some ''dnd''
    | PresenceType.Xa \<Rightarrow> Some ''xa''
    | PresenceType.Unavailable \<Rightarrow> option.None)"

section \<open>\<open>xmpp::IqType\<close>\<close>

datatype (plugins only: code) IqType =
    Get
  | Set
  | Result
  | Error

definition IqType_from_tag :: "u8 \<Rightarrow> IqType option" where
  "IqType_from_tag tag =
     (if tag = 0 then Some IqType.Get
      else if tag = 1 then Some IqType.Set
      else if tag = 2 then Some IqType.Result
      else if tag = 3 then Some IqType.Error
      else option.None)"

primrec IqType_to_tag :: "IqType \<Rightarrow> u8" where
  "IqType_to_tag IqType.Get = 0"
| "IqType_to_tag IqType.Set = 1"
| "IqType_to_tag IqType.Result = 2"
| "IqType_to_tag IqType.Error = 3"

definition IqType_is_request :: "IqType \<Rightarrow> bool" where
  "IqType_is_request self =
     (case self of
      IqType.Get \<Rightarrow> True
    | IqType.Set \<Rightarrow> True
    | _ \<Rightarrow> False)"

definition IqType_is_response :: "IqType \<Rightarrow> bool" where
  "IqType_is_response self =
     (case self of
      IqType.Result \<Rightarrow> True
    | IqType.Error \<Rightarrow> True
    | _ \<Rightarrow> False)"

section \<open>\<open>xmpp::StreamError\<close>\<close>

datatype (plugins only: code) StreamError =
    BadFormat
  | Conflict
  | ConnectionTimeout
  | HostGone
  | HostUnknown
  | NotAuthorized
  | PolicyViolation
  | ResourceConstraint
  | SystemShutdown

definition StreamError_from_tag :: "u8 \<Rightarrow> StreamError option" where
  "StreamError_from_tag tag =
     (if tag = 0 then Some StreamError.BadFormat
      else if tag = 1 then Some StreamError.Conflict
      else if tag = 2 then Some StreamError.ConnectionTimeout
      else if tag = 3 then Some StreamError.HostGone
      else if tag = 4 then Some StreamError.HostUnknown
      else if tag = 5 then Some StreamError.NotAuthorized
      else if tag = 6 then Some StreamError.PolicyViolation
      else if tag = 7 then Some StreamError.ResourceConstraint
      else if tag = 8 then Some StreamError.SystemShutdown
      else option.None)"

primrec StreamError_to_tag :: "StreamError \<Rightarrow> u8" where
  "StreamError_to_tag StreamError.BadFormat = 0"
| "StreamError_to_tag StreamError.Conflict = 1"
| "StreamError_to_tag StreamError.ConnectionTimeout = 2"
| "StreamError_to_tag StreamError.HostGone = 3"
| "StreamError_to_tag StreamError.HostUnknown = 4"
| "StreamError_to_tag StreamError.NotAuthorized = 5"
| "StreamError_to_tag StreamError.PolicyViolation = 6"
| "StreamError_to_tag StreamError.ResourceConstraint = 7"
| "StreamError_to_tag StreamError.SystemShutdown = 8"

definition StreamError_is_security_error :: "StreamError \<Rightarrow> bool" where
  "StreamError_is_security_error self =
     (case self of
      StreamError.NotAuthorized \<Rightarrow> True
    | StreamError.PolicyViolation \<Rightarrow> True
    | _ \<Rightarrow> False)"

definition StreamError_is_retryable :: "StreamError \<Rightarrow> bool" where
  "StreamError_is_retryable self =
     (case self of
      StreamError.ConnectionTimeout \<Rightarrow> True
    | StreamError.ResourceConstraint \<Rightarrow> True
    | StreamError.SystemShutdown \<Rightarrow> True
    | _ \<Rightarrow> False)"

definition StreamError_condition_name :: "StreamError \<Rightarrow> string" where
  "StreamError_condition_name self =
     (case self of
      StreamError.BadFormat \<Rightarrow> ''bad-format''
    | StreamError.Conflict \<Rightarrow> ''conflict''
    | StreamError.ConnectionTimeout \<Rightarrow> ''connection-timeout''
    | StreamError.HostGone \<Rightarrow> ''host-gone''
    | StreamError.HostUnknown \<Rightarrow> ''host-unknown''
    | StreamError.NotAuthorized \<Rightarrow> ''not-authorized''
    | StreamError.PolicyViolation \<Rightarrow> ''policy-violation''
    | StreamError.ResourceConstraint \<Rightarrow> ''resource-constraint''
    | StreamError.SystemShutdown \<Rightarrow> ''system-shutdown'')"

section \<open>\<open>chat::MessageType\<close>\<close>

datatype (plugins only: code) Chat_MessageType =
    Text
  | Image
  | File
  | System
  | Reaction
  | Edit
  | Delete
  | Reply
  | Thread

definition Chat_MessageType_from_tag :: "u8 \<Rightarrow> Chat_MessageType option" where
  "Chat_MessageType_from_tag tag =
     (if tag = 0 then Some Chat_MessageType.Text
      else if tag = 1 then Some Chat_MessageType.Image
      else if tag = 2 then Some Chat_MessageType.File
      else if tag = 3 then Some Chat_MessageType.System
      else if tag = 4 then Some Chat_MessageType.Reaction
      else if tag = 5 then Some Chat_MessageType.Edit
      else if tag = 6 then Some Chat_MessageType.Delete
      else if tag = 7 then Some Chat_MessageType.Reply
      else if tag = 8 then Some Chat_MessageType.Thread
      else option.None)"

primrec Chat_MessageType_to_tag :: "Chat_MessageType \<Rightarrow> u8" where
  "Chat_MessageType_to_tag Chat_MessageType.Text = 0"
| "Chat_MessageType_to_tag Chat_MessageType.Image = 1"
| "Chat_MessageType_to_tag Chat_MessageType.File = 2"
| "Chat_MessageType_to_tag Chat_MessageType.System = 3"
| "Chat_MessageType_to_tag Chat_MessageType.Reaction = 4"
| "Chat_MessageType_to_tag Chat_MessageType.Edit = 5"
| "Chat_MessageType_to_tag Chat_MessageType.Delete = 6"
| "Chat_MessageType_to_tag Chat_MessageType.Reply = 7"
| "Chat_MessageType_to_tag Chat_MessageType.Thread = 8"

section \<open>\<open>chat::PresenceStatus\<close>\<close>

datatype (plugins only: code) PresenceStatus =
    Online
  | Away
  | Dnd
  | Invisible
  | Offline

definition PresenceStatus_from_tag :: "u8 \<Rightarrow> PresenceStatus option" where
  "PresenceStatus_from_tag tag =
     (if tag = 0 then Some PresenceStatus.Online
      else if tag = 1 then Some PresenceStatus.Away
      else if tag = 2 then Some PresenceStatus.Dnd
      else if tag = 3 then Some PresenceStatus.Invisible
      else if tag = 4 then Some PresenceStatus.Offline
      else option.None)"

primrec PresenceStatus_to_tag :: "PresenceStatus \<Rightarrow> u8" where
  "PresenceStatus_to_tag PresenceStatus.Online = 0"
| "PresenceStatus_to_tag PresenceStatus.Away = 1"
| "PresenceStatus_to_tag PresenceStatus.Dnd = 2"
| "PresenceStatus_to_tag PresenceStatus.Invisible = 3"
| "PresenceStatus_to_tag PresenceStatus.Offline = 4"

section \<open>\<open>chat::RoomType\<close>\<close>

datatype (plugins only: code) RoomType =
    Direct
  | Group
  | Channel
  | Broadcast

definition RoomType_from_tag :: "u8 \<Rightarrow> RoomType option" where
  "RoomType_from_tag tag =
     (if tag = 0 then Some RoomType.Direct
      else if tag = 1 then Some RoomType.Group
      else if tag = 2 then Some RoomType.Channel
      else if tag = 3 then Some RoomType.Broadcast
      else option.None)"

primrec RoomType_to_tag :: "RoomType \<Rightarrow> u8" where
  "RoomType_to_tag RoomType.Direct = 0"
| "RoomType_to_tag RoomType.Group = 1"
| "RoomType_to_tag RoomType.Channel = 2"
| "RoomType_to_tag RoomType.Broadcast = 3"

section \<open>\<open>chat::Permission\<close>\<close>

datatype (plugins only: code) Permission =
    Read
  | Write
  | Admin
  | Invite
  | Kick
  | Ban
  | Pin
  | DeleteOthers

definition Permission_from_tag :: "u8 \<Rightarrow> Permission option" where
  "Permission_from_tag tag =
     (if tag = 0 then Some Permission.Read
      else if tag = 1 then Some Permission.Write
      else if tag = 2 then Some Permission.Admin
      else if tag = 3 then Some Permission.Invite
      else if tag = 4 then Some Permission.Kick
      else if tag = 5 then Some Permission.Ban
      else if tag = 6 then Some Permission.Pin
      else if tag = 7 then Some Permission.DeleteOthers
      else option.None)"

primrec Permission_to_tag :: "Permission \<Rightarrow> u8" where
  "Permission_to_tag Permission.Read = 0"
| "Permission_to_tag Permission.Write = 1"
| "Permission_to_tag Permission.Admin = 2"
| "Permission_to_tag Permission.Invite = 3"
| "Permission_to_tag Permission.Kick = 4"
| "Permission_to_tag Permission.Ban = 5"
| "Permission_to_tag Permission.Pin = 6"
| "Permission_to_tag Permission.DeleteOthers = 7"

section \<open>\<open>chat::Event\<close>\<close>

datatype (plugins only: code) Event =
    MessageSent
  | MessageDelivered
  | MessageRead
  | UserJoined
  | UserLeft
  | Typing
  | RoomCreated

definition Event_from_tag :: "u8 \<Rightarrow> Event option" where
  "Event_from_tag tag =
     (if tag = 0 then Some Event.MessageSent
      else if tag = 1 then Some Event.MessageDelivered
      else if tag = 2 then Some Event.MessageRead
      else if tag = 3 then Some Event.UserJoined
      else if tag = 4 then Some Event.UserLeft
      else if tag = 5 then Some Event.Typing
      else if tag = 6 then Some Event.RoomCreated
      else option.None)"

primrec Event_to_tag :: "Event \<Rightarrow> u8" where
  "Event_to_tag Event.MessageSent = 0"
| "Event_to_tag Event.MessageDelivered = 1"
| "Event_to_tag Event.MessageRead = 2"
| "Event_to_tag Event.UserJoined = 3"
| "Event_to_tag Event.UserLeft = 4"
| "Event_to_tag Event.Typing = 5"
| "Event_to_tag Event.RoomCreated = 6"

definition SIP_PORT :: "u16" where
  "SIP_PORT = 5060"

definition SIPS_PORT :: "u16" where
  "SIPS_PORT = 5061"

section \<open>\<open>voip::Method\<close>\<close>

datatype (plugins only: code) Voip_Method =
    Invite
  | Ack
  | Bye
  | Cancel
  | Register
  | Options
  | Info
  | Update
  | Subscribe
  | Notify
  | Refer
  | Message
  | Prack

definition Voip_Method_from_tag :: "u8 \<Rightarrow> Voip_Method option" where
  "Voip_Method_from_tag tag =
     (if tag = 0 then Some Voip_Method.Invite
      else if tag = 1 then Some Voip_Method.Ack
      else if tag = 2 then Some Voip_Method.Bye
      else if tag = 3 then Some Voip_Method.Cancel
      else if tag = 4 then Some Voip_Method.Register
      else if tag = 5 then Some Voip_Method.Options
      else if tag = 6 then Some Voip_Method.Info
      else if tag = 7 then Some Voip_Method.Update
      else if tag = 8 then Some Voip_Method.Subscribe
      else if tag = 9 then Some Voip_Method.Notify
      else if tag = 10 then Some Voip_Method.Refer
      else if tag = 11 then Some Voip_Method.Message
      else if tag = 12 then Some Voip_Method.Prack
      else option.None)"

primrec Voip_Method_to_tag :: "Voip_Method \<Rightarrow> u8" where
  "Voip_Method_to_tag Voip_Method.Invite = 0"
| "Voip_Method_to_tag Voip_Method.Ack = 1"
| "Voip_Method_to_tag Voip_Method.Bye = 2"
| "Voip_Method_to_tag Voip_Method.Cancel = 3"
| "Voip_Method_to_tag Voip_Method.Register = 4"
| "Voip_Method_to_tag Voip_Method.Options = 5"
| "Voip_Method_to_tag Voip_Method.Info = 6"
| "Voip_Method_to_tag Voip_Method.Update = 7"
| "Voip_Method_to_tag Voip_Method.Subscribe = 8"
| "Voip_Method_to_tag Voip_Method.Notify = 9"
| "Voip_Method_to_tag Voip_Method.Refer = 10"
| "Voip_Method_to_tag Voip_Method.Message = 11"
| "Voip_Method_to_tag Voip_Method.Prack = 12"

definition Voip_Method_name :: "Voip_Method \<Rightarrow> string" where
  "Voip_Method_name self =
     (case self of
      Voip_Method.Invite \<Rightarrow> ''INVITE''
    | Voip_Method.Ack \<Rightarrow> ''ACK''
    | Voip_Method.Bye \<Rightarrow> ''BYE''
    | Voip_Method.Cancel \<Rightarrow> ''CANCEL''
    | Voip_Method.Register \<Rightarrow> ''REGISTER''
    | Voip_Method.Options \<Rightarrow> ''OPTIONS''
    | Voip_Method.Info \<Rightarrow> ''INFO''
    | Voip_Method.Update \<Rightarrow> ''UPDATE''
    | Voip_Method.Subscribe \<Rightarrow> ''SUBSCRIBE''
    | Voip_Method.Notify \<Rightarrow> ''NOTIFY''
    | Voip_Method.Refer \<Rightarrow> ''REFER''
    | Voip_Method.Message \<Rightarrow> ''MESSAGE''
    | Voip_Method.Prack \<Rightarrow> ''PRACK'')"

definition Voip_Method_is_dialog_creating :: "Voip_Method \<Rightarrow> bool" where
  "Voip_Method_is_dialog_creating self =
     (case self of
      Voip_Method.Invite \<Rightarrow> True
    | Voip_Method.Subscribe \<Rightarrow> True
    | _ \<Rightarrow> False)"

definition Voip_Method_is_session_related :: "Voip_Method \<Rightarrow> bool" where
  "Voip_Method_is_session_related self =
     (case self of
      Voip_Method.Invite \<Rightarrow> True
    | Voip_Method.Ack \<Rightarrow> True
    | Voip_Method.Bye \<Rightarrow> True
    | Voip_Method.Cancel \<Rightarrow> True
    | Voip_Method.Update \<Rightarrow> True
    | Voip_Method.Prack \<Rightarrow> True
    | _ \<Rightarrow> False)"

definition Voip_Method_is_event_related :: "Voip_Method \<Rightarrow> bool" where
  "Voip_Method_is_event_related self =
     (case self of
      Voip_Method.Subscribe \<Rightarrow> True
    | Voip_Method.Notify \<Rightarrow> True
    | _ \<Rightarrow> False)"

section \<open>\<open>voip::ResponseCode\<close>\<close>

datatype (plugins only: code) Voip_ResponseCode =
    Trying
  | Ringing
  | SessionProgress
  | Ok
  | MultipleChoices
  | MovedPermanently
  | MovedTemporarily
  | BadRequest
  | Unauthorized
  | Forbidden
  | NotFound
  | MethodNotAllowed
  | RequestTimeout
  | BusyHere
  | Decline
  | ServerInternalError
  | ServiceUnavailable

definition Voip_ResponseCode_from_tag :: "u8 \<Rightarrow> Voip_ResponseCode option" where
  "Voip_ResponseCode_from_tag tag =
     (if tag = 0 then Some Voip_ResponseCode.Trying
      else if tag = 1 then Some Voip_ResponseCode.Ringing
      else if tag = 2 then Some Voip_ResponseCode.SessionProgress
      else if tag = 3 then Some Voip_ResponseCode.Ok
      else if tag = 4 then Some Voip_ResponseCode.MultipleChoices
      else if tag = 5 then Some Voip_ResponseCode.MovedPermanently
      else if tag = 6 then Some Voip_ResponseCode.MovedTemporarily
      else if tag = 7 then Some Voip_ResponseCode.BadRequest
      else if tag = 8 then Some Voip_ResponseCode.Unauthorized
      else if tag = 9 then Some Voip_ResponseCode.Forbidden
      else if tag = 10 then Some Voip_ResponseCode.NotFound
      else if tag = 11 then Some Voip_ResponseCode.MethodNotAllowed
      else if tag = 12 then Some Voip_ResponseCode.RequestTimeout
      else if tag = 13 then Some Voip_ResponseCode.BusyHere
      else if tag = 14 then Some Voip_ResponseCode.Decline
      else if tag = 15 then Some Voip_ResponseCode.ServerInternalError
      else if tag = 16 then Some Voip_ResponseCode.ServiceUnavailable
      else option.None)"

primrec Voip_ResponseCode_to_tag :: "Voip_ResponseCode \<Rightarrow> u8" where
  "Voip_ResponseCode_to_tag Voip_ResponseCode.Trying = 0"
| "Voip_ResponseCode_to_tag Voip_ResponseCode.Ringing = 1"
| "Voip_ResponseCode_to_tag Voip_ResponseCode.SessionProgress = 2"
| "Voip_ResponseCode_to_tag Voip_ResponseCode.Ok = 3"
| "Voip_ResponseCode_to_tag Voip_ResponseCode.MultipleChoices = 4"
| "Voip_ResponseCode_to_tag Voip_ResponseCode.MovedPermanently = 5"
| "Voip_ResponseCode_to_tag Voip_ResponseCode.MovedTemporarily = 6"
| "Voip_ResponseCode_to_tag Voip_ResponseCode.BadRequest = 7"
| "Voip_ResponseCode_to_tag Voip_ResponseCode.Unauthorized = 8"
| "Voip_ResponseCode_to_tag Voip_ResponseCode.Forbidden = 9"
| "Voip_ResponseCode_to_tag Voip_ResponseCode.NotFound = 10"
| "Voip_ResponseCode_to_tag Voip_ResponseCode.MethodNotAllowed = 11"
| "Voip_ResponseCode_to_tag Voip_ResponseCode.RequestTimeout = 12"
| "Voip_ResponseCode_to_tag Voip_ResponseCode.BusyHere = 13"
| "Voip_ResponseCode_to_tag Voip_ResponseCode.Decline = 14"
| "Voip_ResponseCode_to_tag Voip_ResponseCode.ServerInternalError = 15"
| "Voip_ResponseCode_to_tag Voip_ResponseCode.ServiceUnavailable = 16"

definition Voip_ResponseCode_is_provisional :: "Voip_ResponseCode \<Rightarrow> bool" where
  "Voip_ResponseCode_is_provisional self =
     (case self of
      Voip_ResponseCode.Trying \<Rightarrow> True
    | Voip_ResponseCode.Ringing \<Rightarrow> True
    | Voip_ResponseCode.SessionProgress \<Rightarrow> True
    | _ \<Rightarrow> False)"

definition Voip_ResponseCode_is_success :: "Voip_ResponseCode \<Rightarrow> bool" where
  "Voip_ResponseCode_is_success self =
     (case self of
      Voip_ResponseCode.Ok \<Rightarrow> True
    | _ \<Rightarrow> False)"

definition Voip_ResponseCode_is_redirect :: "Voip_ResponseCode \<Rightarrow> bool" where
  "Voip_ResponseCode_is_redirect self =
     (case self of
      Voip_ResponseCode.MultipleChoices \<Rightarrow> True
    | Voip_ResponseCode.MovedPermanently \<Rightarrow> True
    | Voip_ResponseCode.MovedTemporarily \<Rightarrow> True
    | _ \<Rightarrow> False)"

definition Voip_ResponseCode_is_client_error :: "Voip_ResponseCode \<Rightarrow> bool" where
  "Voip_ResponseCode_is_client_error self =
     (case self of
      Voip_ResponseCode.BadRequest \<Rightarrow> True
    | Voip_ResponseCode.Unauthorized \<Rightarrow> True
    | Voip_ResponseCode.Forbidden \<Rightarrow> True
    | Voip_ResponseCode.NotFound \<Rightarrow> True
    | Voip_ResponseCode.MethodNotAllowed \<Rightarrow> True
    | Voip_ResponseCode.RequestTimeout \<Rightarrow> True
    | Voip_ResponseCode.BusyHere \<Rightarrow> True
    | _ \<Rightarrow> False)"

definition Voip_ResponseCode_is_server_error :: "Voip_ResponseCode \<Rightarrow> bool" where
  "Voip_ResponseCode_is_server_error self =
     (case self of
      Voip_ResponseCode.ServerInternalError \<Rightarrow> True
    | Voip_ResponseCode.ServiceUnavailable \<Rightarrow> True
    | _ \<Rightarrow> False)"

definition Voip_ResponseCode_is_global_failure :: "Voip_ResponseCode \<Rightarrow> bool" where
  "Voip_ResponseCode_is_global_failure self =
     (case self of
      Voip_ResponseCode.Decline \<Rightarrow> True
    | _ \<Rightarrow> False)"

definition Voip_ResponseCode_is_final :: "Voip_ResponseCode \<Rightarrow> bool" where
  "Voip_ResponseCode_is_final self = (\<not> Voip_ResponseCode_is_provisional self)"

section \<open>\<open>voip::DialogState\<close>\<close>

datatype (plugins only: code) DialogState =
    Early
  | Confirmed
  | Terminated

definition DialogState_from_tag :: "u8 \<Rightarrow> DialogState option" where
  "DialogState_from_tag tag =
     (if tag = 0 then Some DialogState.Early
      else if tag = 1 then Some DialogState.Confirmed
      else if tag = 2 then Some DialogState.Terminated
      else option.None)"

primrec DialogState_to_tag :: "DialogState \<Rightarrow> u8" where
  "DialogState_to_tag DialogState.Early = 0"
| "DialogState_to_tag DialogState.Confirmed = 1"
| "DialogState_to_tag DialogState.Terminated = 2"

definition DialogState_can_carry_media :: "DialogState \<Rightarrow> bool" where
  "DialogState_can_carry_media self =
     (case self of
      DialogState.Early \<Rightarrow> True
    | DialogState.Confirmed \<Rightarrow> True
    | _ \<Rightarrow> False)"

definition DialogState_is_active :: "DialogState \<Rightarrow> bool" where
  "DialogState_is_active self = (\<not>
     (case self of
      DialogState.Terminated \<Rightarrow> True
    | _ \<Rightarrow> False))"

definition STUN_PORT :: "u16" where
  "STUN_PORT = 3478"

definition STUN_TLS_PORT :: "u16" where
  "STUN_TLS_PORT = 5349"

section \<open>\<open>stun::MessageType\<close>\<close>

datatype (plugins only: code) Stun_MessageType =
    BindingRequest
  | BindingResponse
  | BindingError
  | AllocateRequest
  | AllocateResponse
  | AllocateError
  | RefreshRequest
  | RefreshResponse
  | SendIndication
  | DataIndication
  | CreatePermission
  | ChannelBind

definition Stun_MessageType_from_tag :: "u8 \<Rightarrow> Stun_MessageType option" where
  "Stun_MessageType_from_tag tag =
     (if tag = 0 then Some Stun_MessageType.BindingRequest
      else if tag = 1 then Some Stun_MessageType.BindingResponse
      else if tag = 2 then Some Stun_MessageType.BindingError
      else if tag = 3 then Some Stun_MessageType.AllocateRequest
      else if tag = 4 then Some Stun_MessageType.AllocateResponse
      else if tag = 5 then Some Stun_MessageType.AllocateError
      else if tag = 6 then Some Stun_MessageType.RefreshRequest
      else if tag = 7 then Some Stun_MessageType.RefreshResponse
      else if tag = 8 then Some Stun_MessageType.SendIndication
      else if tag = 9 then Some Stun_MessageType.DataIndication
      else if tag = 10 then Some Stun_MessageType.CreatePermission
      else if tag = 11 then Some Stun_MessageType.ChannelBind
      else option.None)"

primrec Stun_MessageType_to_tag :: "Stun_MessageType \<Rightarrow> u8" where
  "Stun_MessageType_to_tag Stun_MessageType.BindingRequest = 0"
| "Stun_MessageType_to_tag Stun_MessageType.BindingResponse = 1"
| "Stun_MessageType_to_tag Stun_MessageType.BindingError = 2"
| "Stun_MessageType_to_tag Stun_MessageType.AllocateRequest = 3"
| "Stun_MessageType_to_tag Stun_MessageType.AllocateResponse = 4"
| "Stun_MessageType_to_tag Stun_MessageType.AllocateError = 5"
| "Stun_MessageType_to_tag Stun_MessageType.RefreshRequest = 6"
| "Stun_MessageType_to_tag Stun_MessageType.RefreshResponse = 7"
| "Stun_MessageType_to_tag Stun_MessageType.SendIndication = 8"
| "Stun_MessageType_to_tag Stun_MessageType.DataIndication = 9"
| "Stun_MessageType_to_tag Stun_MessageType.CreatePermission = 10"
| "Stun_MessageType_to_tag Stun_MessageType.ChannelBind = 11"

definition Stun_MessageType_is_request :: "Stun_MessageType \<Rightarrow> bool" where
  "Stun_MessageType_is_request self =
     (case self of
      Stun_MessageType.BindingRequest \<Rightarrow> True
    | Stun_MessageType.AllocateRequest \<Rightarrow> True
    | Stun_MessageType.RefreshRequest \<Rightarrow> True
    | Stun_MessageType.CreatePermission \<Rightarrow> True
    | Stun_MessageType.ChannelBind \<Rightarrow> True
    | _ \<Rightarrow> False)"

definition Stun_MessageType_is_turn :: "Stun_MessageType \<Rightarrow> bool" where
  "Stun_MessageType_is_turn self =
     (case self of
      Stun_MessageType.AllocateRequest \<Rightarrow> True
    | Stun_MessageType.AllocateResponse \<Rightarrow> True
    | Stun_MessageType.AllocateError \<Rightarrow> True
    | Stun_MessageType.RefreshRequest \<Rightarrow> True
    | Stun_MessageType.RefreshResponse \<Rightarrow> True
    | Stun_MessageType.SendIndication \<Rightarrow> True
    | Stun_MessageType.DataIndication \<Rightarrow> True
    | Stun_MessageType.CreatePermission \<Rightarrow> True
    | Stun_MessageType.ChannelBind \<Rightarrow> True
    | _ \<Rightarrow> False)"

section \<open>\<open>stun::TransportProtocol\<close>\<close>

datatype (plugins only: code) Stun_TransportProtocol =
    Udp
  | Tcp
  | Tls
  | Dtls

definition Stun_TransportProtocol_from_tag :: "u8 \<Rightarrow> Stun_TransportProtocol option" where
  "Stun_TransportProtocol_from_tag tag =
     (if tag = 0 then Some Stun_TransportProtocol.Udp
      else if tag = 1 then Some Stun_TransportProtocol.Tcp
      else if tag = 2 then Some Stun_TransportProtocol.Tls
      else if tag = 3 then Some Stun_TransportProtocol.Dtls
      else option.None)"

primrec Stun_TransportProtocol_to_tag :: "Stun_TransportProtocol \<Rightarrow> u8" where
  "Stun_TransportProtocol_to_tag Stun_TransportProtocol.Udp = 0"
| "Stun_TransportProtocol_to_tag Stun_TransportProtocol.Tcp = 1"
| "Stun_TransportProtocol_to_tag Stun_TransportProtocol.Tls = 2"
| "Stun_TransportProtocol_to_tag Stun_TransportProtocol.Dtls = 3"

section \<open>\<open>stun::ErrorCode\<close>\<close>

datatype (plugins only: code) Stun_ErrorCode =
    TryAlternate
  | BadRequest
  | Unauthorized
  | Forbidden
  | MobilityForbidden
  | StaleNonce
  | ServerError
  | InsufficientCapacity

definition Stun_ErrorCode_from_tag :: "u8 \<Rightarrow> Stun_ErrorCode option" where
  "Stun_ErrorCode_from_tag tag =
     (if tag = 0 then Some Stun_ErrorCode.TryAlternate
      else if tag = 1 then Some Stun_ErrorCode.BadRequest
      else if tag = 2 then Some Stun_ErrorCode.Unauthorized
      else if tag = 3 then Some Stun_ErrorCode.Forbidden
      else if tag = 4 then Some Stun_ErrorCode.MobilityForbidden
      else if tag = 5 then Some Stun_ErrorCode.StaleNonce
      else if tag = 6 then Some Stun_ErrorCode.ServerError
      else if tag = 7 then Some Stun_ErrorCode.InsufficientCapacity
      else option.None)"

primrec Stun_ErrorCode_to_tag :: "Stun_ErrorCode \<Rightarrow> u8" where
  "Stun_ErrorCode_to_tag Stun_ErrorCode.TryAlternate = 0"
| "Stun_ErrorCode_to_tag Stun_ErrorCode.BadRequest = 1"
| "Stun_ErrorCode_to_tag Stun_ErrorCode.Unauthorized = 2"
| "Stun_ErrorCode_to_tag Stun_ErrorCode.Forbidden = 3"
| "Stun_ErrorCode_to_tag Stun_ErrorCode.MobilityForbidden = 4"
| "Stun_ErrorCode_to_tag Stun_ErrorCode.StaleNonce = 5"
| "Stun_ErrorCode_to_tag Stun_ErrorCode.ServerError = 6"
| "Stun_ErrorCode_to_tag Stun_ErrorCode.InsufficientCapacity = 7"

section \<open>Tags and enumerations\<close>

interpretation StanzaType_codec: tag_codec StanzaType_to_tag StanzaType_from_tag 3
  by (unfold_locales, (case_tac x; simp add: StanzaType_from_tag_def), unfold StanzaType_from_tag_def,
    (erule codec_arm, simp only: StanzaType_to_tag.simps)+, erule codec_end, (case_tac x; simp), simp add: codec_eval)

interpretation Xmpp_MessageType_codec: tag_codec Xmpp_MessageType_to_tag Xmpp_MessageType_from_tag 5
  by (unfold_locales, (case_tac x; simp add: Xmpp_MessageType_from_tag_def), unfold Xmpp_MessageType_from_tag_def,
    (erule codec_arm, simp only: Xmpp_MessageType_to_tag.simps)+, erule codec_end, (case_tac x; simp), simp add: codec_eval)

interpretation PresenceType_codec: tag_codec PresenceType_to_tag PresenceType_from_tag 5
  by (unfold_locales, (case_tac x; simp add: PresenceType_from_tag_def), unfold PresenceType_from_tag_def,
    (erule codec_arm, simp only: PresenceType_to_tag.simps)+, erule codec_end, (case_tac x; simp), simp add: codec_eval)

interpretation IqType_codec: tag_codec IqType_to_tag IqType_from_tag 4
  by (unfold_locales, (case_tac x; simp add: IqType_from_tag_def), unfold IqType_from_tag_def,
    (erule codec_arm, simp only: IqType_to_tag.simps)+, erule codec_end, (case_tac x; simp), simp add: codec_eval)

interpretation StreamError_codec: tag_codec StreamError_to_tag StreamError_from_tag 9
  by (unfold_locales, (case_tac x; simp add: StreamError_from_tag_def), unfold StreamError_from_tag_def,
    (erule codec_arm, simp only: StreamError_to_tag.simps)+, erule codec_end, (case_tac x; simp), simp add: codec_eval)

interpretation Chat_MessageType_codec: tag_codec Chat_MessageType_to_tag Chat_MessageType_from_tag 9
  by (unfold_locales, (case_tac x; simp add: Chat_MessageType_from_tag_def), unfold Chat_MessageType_from_tag_def,
    (erule codec_arm, simp only: Chat_MessageType_to_tag.simps)+, erule codec_end, (case_tac x; simp), simp add: codec_eval)

interpretation PresenceStatus_codec: tag_codec PresenceStatus_to_tag PresenceStatus_from_tag 5
  by (unfold_locales, (case_tac x; simp add: PresenceStatus_from_tag_def), unfold PresenceStatus_from_tag_def,
    (erule codec_arm, simp only: PresenceStatus_to_tag.simps)+, erule codec_end, (case_tac x; simp), simp add: codec_eval)

interpretation RoomType_codec: tag_codec RoomType_to_tag RoomType_from_tag 4
  by (unfold_locales, (case_tac x; simp add: RoomType_from_tag_def), unfold RoomType_from_tag_def,
    (erule codec_arm, simp only: RoomType_to_tag.simps)+, erule codec_end, (case_tac x; simp), simp add: codec_eval)

interpretation Permission_codec: tag_codec Permission_to_tag Permission_from_tag 8
  by (unfold_locales, (case_tac x; simp add: Permission_from_tag_def), unfold Permission_from_tag_def,
    (erule codec_arm, simp only: Permission_to_tag.simps)+, erule codec_end, (case_tac x; simp), simp add: codec_eval)

interpretation Event_codec: tag_codec Event_to_tag Event_from_tag 7
  by (unfold_locales, (case_tac x; simp add: Event_from_tag_def), unfold Event_from_tag_def,
    (erule codec_arm, simp only: Event_to_tag.simps)+, erule codec_end, (case_tac x; simp), simp add: codec_eval)

interpretation Voip_Method_codec: tag_codec Voip_Method_to_tag Voip_Method_from_tag 13
  by (unfold_locales, (case_tac x; simp add: Voip_Method_from_tag_def), unfold Voip_Method_from_tag_def,
    (erule codec_arm, simp only: Voip_Method_to_tag.simps)+, erule codec_end, (case_tac x; simp), simp add: codec_eval)

interpretation Voip_ResponseCode_codec: tag_codec Voip_ResponseCode_to_tag Voip_ResponseCode_from_tag 17
  by (unfold_locales, (case_tac x; simp add: Voip_ResponseCode_from_tag_def), unfold Voip_ResponseCode_from_tag_def,
    (erule codec_arm, simp only: Voip_ResponseCode_to_tag.simps)+, erule codec_end, (case_tac x; simp), simp add: codec_eval)

interpretation DialogState_codec: tag_codec DialogState_to_tag DialogState_from_tag 3
  by (unfold_locales, (case_tac x; simp add: DialogState_from_tag_def), unfold DialogState_from_tag_def,
    (erule codec_arm, simp only: DialogState_to_tag.simps)+, erule codec_end, (case_tac x; simp), simp add: codec_eval)

interpretation Stun_MessageType_codec: tag_codec Stun_MessageType_to_tag Stun_MessageType_from_tag 12
  by (unfold_locales, (case_tac x; simp add: Stun_MessageType_from_tag_def), unfold Stun_MessageType_from_tag_def,
    (erule codec_arm, simp only: Stun_MessageType_to_tag.simps)+, erule codec_end, (case_tac x; simp), simp add: codec_eval)

interpretation Stun_TransportProtocol_codec: tag_codec Stun_TransportProtocol_to_tag Stun_TransportProtocol_from_tag 4
  by (unfold_locales, (case_tac x; simp add: Stun_TransportProtocol_from_tag_def), unfold Stun_TransportProtocol_from_tag_def,
    (erule codec_arm, simp only: Stun_TransportProtocol_to_tag.simps)+, erule codec_end, (case_tac x; simp), simp add: codec_eval)

interpretation Stun_ErrorCode_codec: tag_codec Stun_ErrorCode_to_tag Stun_ErrorCode_from_tag 8
  by (unfold_locales, (case_tac x; simp add: Stun_ErrorCode_from_tag_def), unfold Stun_ErrorCode_from_tag_def,
    (erule codec_arm, simp only: Stun_ErrorCode_to_tag.simps)+, erule codec_end, (case_tac x; simp), simp add: codec_eval)

end
