(* ===== verification/Observe_Types.thy ===== *)
theory Observe_Types
  imports Tag_Codec
begin

text \<open>
  The types of 10 modules of the Rust crate, under \<open>bindings/rust/src\<close>.

  \<^item> \<open>monitor.rs\<close>: \<open>CheckType\<close>, \<open>Status\<close>,
    \<open>AlertChannel\<close>, \<open>Severity\<close>, \<open>CheckState\<close>,
    \<open>MonitorState\<close>.
  \<^item> \<open>metrics.rs\<close>: \<open>MetricType\<close>, \<open>ScrapeResult\<close>,
    \<open>AlertState\<close>, \<open>AggregationOp\<close>, \<open>QueryError\<close>,
    \<open>CollectorState\<close>.
  \<^item> \<open>logcollector.rs\<close>: \<open>LogLevel\<close>, \<open>InputFormat\<close>,
    \<open>OutputTarget\<close>, \<open>FilterOp\<close>, \<open>PipelineStage\<close>.
  \<^item> \<open>syslog.rs\<close>: \<open>Severity\<close>, \<open>Facility\<close>,
    \<open>Transport\<close>.
  \<^item> \<open>siem.rs\<close>: \<open>EventSeverity\<close>, \<open>EventCategory\<close>,
    \<open>CorrelationRule\<close>, \<open>AlertState\<close>.
  \<^item> \<open>ids.rs\<close>: \<open>AlertSeverity\<close>, \<open>DetectionMethod\<close>,
    \<open>IdsProtocol\<close>, \<open>IdsAction\<close>, \<open>Direction\<close>,
    \<open>ThreatLevel\<close>.
  \<^item> \<open>honeypot.rs\<close>: \<open>ServiceEmulation\<close>,
    \<open>InteractionLevel\<close>, \<open>HoneypotAlertSeverity\<close>,
    \<open>AttackerAction\<close>, \<open>ServerState\<close>.
  \<^item> \<open>deception.rs\<close>: \<open>DecoyType\<close>, \<open>TriggerEvent\<close>,
    \<open>AlertPriority\<close>, \<open>DecoyState\<close>, \<open>ResponseAction\<close>,
    \<open>ServerState\<close>.
  \<^item> \<open>airgap.rs\<close>: \<open>TransferDirection\<close>, \<open>MediaType\<close>,
    \<open>ScanResult\<close>, \<open>TransferState\<close>, \<open>ValidationCheck\<close>.
  \<^item> \<open>diode.rs\<close>: \<open>Direction\<close>, \<open>DiodeProtocol\<close>,
    \<open>TransferState\<close>, \<open>ValidationResult\<close>, \<open>IntegrityCheck\<close>,
    \<open>GatewayState\<close>.

  The \<open>Display\<close> implementations and the \<open>ALL\<close> arrays of these modules are not modelled.
\<close>

section \<open>\<open>monitor::CheckType\<close>\<close>

datatype (plugins only: code) CheckType =
    Http
  | Tcp
  | Udp
  | Icmp
  | Dns
  | Certificate
  | Disk
  | Cpu
  | Memory
  | Process
  | Custom

definition CheckType_from_tag :: "u8 \<Rightarrow> CheckType option" where
  "CheckType_from_tag tag =
     (if tag = 0 then Some CheckType.Http
      else if tag = 1 then Some CheckType.Tcp
      else if tag = 2 then Some CheckType.Udp
      else if tag = 3 then Some CheckType.Icmp
      else if tag = 4 then Some CheckType.Dns
      else if tag = 5 then Some CheckType.Certificate
      else if tag = 6 then Some CheckType.Disk
      else if tag = 7 then Some CheckType.Cpu
      else if tag = 8 then Some CheckType.Memory
      else if tag = 9 then Some CheckType.Process
      else if tag = 10 then Some CheckType.Custom
      else option.None)"

primrec CheckType_to_tag :: "CheckType \<Rightarrow> u8" where
  "CheckType_to_tag CheckType.Http = 0"
| "CheckType_to_tag CheckType.Tcp = 1"
| "CheckType_to_tag CheckType.Udp = 2"
| "CheckType_to_tag CheckType.Icmp = 3"
| "CheckType_to_tag CheckType.Dns = 4"
| "CheckType_to_tag CheckType.Certificate = 5"
| "CheckType_to_tag CheckType.Disk = 6"
| "CheckType_to_tag CheckType.Cpu = 7"
| "CheckType_to_tag CheckType.Memory = 8"
| "CheckType_to_tag CheckType.Process = 9"
| "CheckType_to_tag CheckType.Custom = 10"

section \<open>\<open>monitor::Status\<close>\<close>

datatype (plugins only: code) Monitor_Status =
    Up
  | Down
  | Degraded
  | Unknown
  | Maintenance

definition Monitor_Status_from_tag :: "u8 \<Rightarrow> Monitor_Status option" where
  "Monitor_Status_from_tag tag =
     (if tag = 0 then Some Monitor_Status.Up
      else if tag = 1 then Some Monitor_Status.Down
      else if tag = 2 then Some Monitor_Status.Degraded
      else if tag = 3 then Some Monitor_Status.Unknown
      else if tag = 4 then Some Monitor_Status.Maintenance
      else option.None)"

primrec Monitor_Status_to_tag :: "Monitor_Status \<Rightarrow> u8" where
  "Monitor_Status_to_tag Monitor_Status.Up = 0"
| "Monitor_Status_to_tag Monitor_Status.Down = 1"
| "Monitor_Status_to_tag Monitor_Status.Degraded = 2"
| "Monitor_Status_to_tag Monitor_Status.Unknown = 3"
| "Monitor_Status_to_tag Monitor_Status.Maintenance = 4"

section \<open>\<open>monitor::AlertChannel\<close>\<close>

datatype (plugins only: code) AlertChannel =
    Email
  | Sms
  | Webhook
  | Slack
  | PagerDuty

definition AlertChannel_from_tag :: "u8 \<Rightarrow> AlertChannel option" where
  "AlertChannel_from_tag tag =
     (if tag = 0 then Some AlertChannel.Email
      else if tag = 1 then Some AlertChannel.Sms
      else if tag = 2 then Some AlertChannel.Webhook
      else if tag = 3 then Some AlertChannel.Slack
      else if tag = 4 then Some AlertChannel.PagerDuty
      else option.None)"

primrec AlertChannel_to_tag :: "AlertChannel \<Rightarrow> u8" where
  "AlertChannel_to_tag AlertChannel.Email = 0"
| "AlertChannel_to_tag AlertChannel.Sms = 1"
| "AlertChannel_to_tag AlertChannel.Webhook = 2"
| "AlertChannel_to_tag AlertChannel.Slack = 3"
| "AlertChannel_to_tag AlertChannel.PagerDuty = 4"

section \<open>\<open>monitor::Severity\<close>\<close>

datatype (plugins only: code) Monitor_Severity =
    Info
  | Warning
  | Error
  | Critical

definition Monitor_Severity_from_tag :: "u8 \<Rightarrow> Monitor_Severity option" where
  "Monitor_Severity_from_tag tag =
     (if tag = 0 then Some Monitor_Severity.Info
      else if tag = 1 then Some Monitor_Severity.Warning
      else if tag = 2 then Some Monitor_Severity.Error
      else if tag = 3 then Some Monitor_Severity.Critical
      else option.None)"

primrec Monitor_Severity_to_tag :: "Monitor_Severity \<Rightarrow> u8" where
  "Monitor_Severity_to_tag Monitor_Severity.Info = 0"
| "Monitor_Severity_to_tag Monitor_Severity.Warning = 1"
| "Monitor_Severity_to_tag Monitor_Severity.Error = 2"
| "Monitor_Severity_to_tag Monitor_Severity.Critical = 3"

section \<open>\<open>monitor::CheckState\<close>\<close>

datatype (plugins only: code) CheckState =
    Pending
  | Running
  | Passed
  | Failed
  | Timeout
  | CsError

definition CheckState_from_tag :: "u8 \<Rightarrow> CheckState option" where
  "CheckState_from_tag tag =
     (if tag = 0 then Some CheckState.Pending
      else if tag = 1 then Some CheckState.Running
      else if tag = 2 then Some CheckState.Passed
      else if tag = 3 then Some CheckState.Failed
      else if tag = 4 then Some CheckState.Timeout
      else if tag = 5 then Some CheckState.CsError
      else option.None)"

primrec CheckState_to_tag :: "CheckState \<Rightarrow> u8" where
  "CheckState_to_tag CheckState.Pending = 0"
| "CheckState_to_tag CheckState.Running = 1"
| "CheckState_to_tag CheckState.Passed = 2"
| "CheckState_to_tag CheckState.Failed = 3"
| "CheckState_to_tag CheckState.Timeout = 4"
| "CheckState_to_tag CheckState.CsError = 5"

section \<open>\<open>monitor::MonitorState\<close>\<close>

datatype (plugins only: code) MonitorState =
    Idle
  | Configured
  | Running
  | MonPaused
  | Alerting
  | Shutdown

definition MonitorState_from_tag :: "u8 \<Rightarrow> MonitorState option" where
  "MonitorState_from_tag tag =
     (if tag = 0 then Some MonitorState.Idle
      else if tag = 1 then Some MonitorState.Configured
      else if tag = 2 then Some MonitorState.Running
      else if tag = 3 then Some MonitorState.MonPaused
      else if tag = 4 then Some MonitorState.Alerting
      else if tag = 5 then Some MonitorState.Shutdown
      else option.None)"

primrec MonitorState_to_tag :: "MonitorState \<Rightarrow> u8" where
  "MonitorState_to_tag MonitorState.Idle = 0"
| "MonitorState_to_tag MonitorState.Configured = 1"
| "MonitorState_to_tag MonitorState.Running = 2"
| "MonitorState_to_tag MonitorState.MonPaused = 3"
| "MonitorState_to_tag MonitorState.Alerting = 4"
| "MonitorState_to_tag MonitorState.Shutdown = 5"

definition METRICS_PORT :: "u16" where
  "METRICS_PORT = 9090"

section \<open>\<open>metrics::MetricType\<close>\<close>

datatype (plugins only: code) MetricType =
    Counter
  | Gauge
  | Histogram
  | Summary
  | Info
  | StateSet

definition MetricType_from_tag :: "u8 \<Rightarrow> MetricType option" where
  "MetricType_from_tag tag =
     (if tag = 0 then Some MetricType.Counter
      else if tag = 1 then Some MetricType.Gauge
      else if tag = 2 then Some MetricType.Histogram
      else if tag = 3 then Some MetricType.Summary
      else if tag = 4 then Some MetricType.Info
      else if tag = 5 then Some MetricType.StateSet
      else option.None)"

primrec MetricType_to_tag :: "MetricType \<Rightarrow> u8" where
  "MetricType_to_tag MetricType.Counter = 0"
| "MetricType_to_tag MetricType.Gauge = 1"
| "MetricType_to_tag MetricType.Histogram = 2"
| "MetricType_to_tag MetricType.Summary = 3"
| "MetricType_to_tag MetricType.Info = 4"
| "MetricType_to_tag MetricType.StateSet = 5"

section \<open>\<open>metrics::ScrapeResult\<close>\<close>

datatype (plugins only: code) ScrapeResult =
    Success
  | ScrapeTimeout
  | ConnectionRefused
  | InvalidResponse

definition ScrapeResult_from_tag :: "u8 \<Rightarrow> ScrapeResult option" where
  "ScrapeResult_from_tag tag =
     (if tag = 0 then Some ScrapeResult.Success
      else if tag = 1 then Some ScrapeResult.ScrapeTimeout
      else if tag = 2 then Some ScrapeResult.ConnectionRefused
      else if tag = 3 then Some ScrapeResult.InvalidResponse
      else option.None)"

primrec ScrapeResult_to_tag :: "ScrapeResult \<Rightarrow> u8" where
  "ScrapeResult_to_tag ScrapeResult.Success = 0"
| "ScrapeResult_to_tag ScrapeResult.ScrapeTimeout = 1"
| "ScrapeResult_to_tag ScrapeResult.ConnectionRefused = 2"
| "ScrapeResult_to_tag ScrapeResult.InvalidResponse = 3"

section \<open>\<open>metrics::AlertState\<close>\<close>

datatype (plugins only: code) Metrics_AlertState =
    Inactive
  | Pending
  | Firing
  | Resolved

definition Metrics_AlertState_from_tag :: "u8 \<Rightarrow> Metrics_AlertState option" where
  "Metrics_AlertState_from_tag tag =
     (if tag = 0 then Some Metrics_AlertState.Inactive
      else if tag = 1 then Some Metrics_AlertState.Pending
      else if tag = 2 then Some Metrics_AlertState.Firing
      else if tag = 3 then Some Metrics_AlertState.Resolved
      else option.None)"

primrec Metrics_AlertState_to_tag :: "Metrics_AlertState \<Rightarrow> u8" where
  "Metrics_AlertState_to_tag Metrics_AlertState.Inactive = 0"
| "Metrics_AlertState_to_tag Metrics_AlertState.Pending = 1"
| "Metrics_AlertState_to_tag Metrics_AlertState.Firing = 2"
| "Metrics_AlertState_to_tag Metrics_AlertState.Resolved = 3"

section \<open>\<open>metrics::AggregationOp\<close>\<close>

datatype (plugins only: code) AggregationOp =
    Sum
  | Avg
  | Min
  | Max
  | Count
  | Rate
  | Increase
  | P50
  | P90
  | P95
  | P99

definition AggregationOp_from_tag :: "u8 \<Rightarrow> AggregationOp option" where
  "AggregationOp_from_tag tag =
     (if tag = 0 then Some AggregationOp.Sum
      else if tag = 1 then Some AggregationOp.Avg
      else if tag = 2 then Some AggregationOp.Min
      else if tag = 3 then Some AggregationOp.Max
      else if tag = 4 then Some AggregationOp.Count
      else if tag = 5 then Some AggregationOp.Rate
      else if tag = 6 then Some AggregationOp.Increase
      else if tag = 7 then Some AggregationOp.P50
      else if tag = 8 then Some AggregationOp.P90
      else if tag = 9 then Some AggregationOp.P95
      else if tag = 10 then Some AggregationOp.P99
      else option.None)"

primrec AggregationOp_to_tag :: "AggregationOp \<Rightarrow> u8" where
  "AggregationOp_to_tag AggregationOp.Sum = 0"
| "AggregationOp_to_tag AggregationOp.Avg = 1"
| "AggregationOp_to_tag AggregationOp.Min = 2"
| "AggregationOp_to_tag AggregationOp.Max = 3"
| "AggregationOp_to_tag AggregationOp.Count = 4"
| "AggregationOp_to_tag AggregationOp.Rate = 5"
| "AggregationOp_to_tag AggregationOp.Increase = 6"
| "AggregationOp_to_tag AggregationOp.P50 = 7"
| "AggregationOp_to_tag AggregationOp.P90 = 8"
| "AggregationOp_to_tag AggregationOp.P95 = 9"
| "AggregationOp_to_tag AggregationOp.P99 = 10"

section \<open>\<open>metrics::QueryError\<close>\<close>

datatype (plugins only: code) QueryError =
    ParseError
  | ExecutionError
  | QueryTimeout
  | TooManySeries

definition QueryError_from_tag :: "u8 \<Rightarrow> QueryError option" where
  "QueryError_from_tag tag =
     (if tag = 0 then Some QueryError.ParseError
      else if tag = 1 then Some QueryError.ExecutionError
      else if tag = 2 then Some QueryError.QueryTimeout
      else if tag = 3 then Some QueryError.TooManySeries
      else option.None)"

primrec QueryError_to_tag :: "QueryError \<Rightarrow> u8" where
  "QueryError_to_tag QueryError.ParseError = 0"
| "QueryError_to_tag QueryError.ExecutionError = 1"
| "QueryError_to_tag QueryError.QueryTimeout = 2"
| "QueryError_to_tag QueryError.TooManySeries = 3"

section \<open>\<open>metrics::CollectorState\<close>\<close>

datatype (plugins only: code) CollectorState =
    Idle
  | Configured
  | Scraping
  | Alerting
  | Stopping

definition CollectorState_from_tag :: "u8 \<Rightarrow> CollectorState option" where
  "CollectorState_from_tag tag =
     (if tag = 0 then Some CollectorState.Idle
      else if tag = 1 then Some CollectorState.Configured
      else if tag = 2 then Some CollectorState.Scraping
      else if tag = 3 then Some CollectorState.Alerting
      else if tag = 4 then Some CollectorState.Stopping
      else option.None)"

primrec CollectorState_to_tag :: "CollectorState \<Rightarrow> u8" where
  "CollectorState_to_tag CollectorState.Idle = 0"
| "CollectorState_to_tag CollectorState.Configured = 1"
| "CollectorState_to_tag CollectorState.Scraping = 2"
| "CollectorState_to_tag CollectorState.Alerting = 3"
| "CollectorState_to_tag CollectorState.Stopping = 4"

section \<open>\<open>logcollector::LogLevel\<close>\<close>

datatype (plugins only: code) LogLevel =
    Trace
  | Debug
  | Info
  | Warn
  | Err
  | Fatal

definition LogLevel_from_tag :: "u8 \<Rightarrow> LogLevel option" where
  "LogLevel_from_tag tag =
     (if tag = 0 then Some LogLevel.Trace
      else if tag = 1 then Some LogLevel.Debug
      else if tag = 2 then Some LogLevel.Info
      else if tag = 3 then Some LogLevel.Warn
      else if tag = 4 then Some LogLevel.Err
      else if tag = 5 then Some LogLevel.Fatal
      else option.None)"

primrec LogLevel_to_tag :: "LogLevel \<Rightarrow> u8" where
  "LogLevel_to_tag LogLevel.Trace = 0"
| "LogLevel_to_tag LogLevel.Debug = 1"
| "LogLevel_to_tag LogLevel.Info = 2"
| "LogLevel_to_tag LogLevel.Warn = 3"
| "LogLevel_to_tag LogLevel.Err = 4"
| "LogLevel_to_tag LogLevel.Fatal = 5"

section \<open>\<open>logcollector::InputFormat\<close>\<close>

datatype (plugins only: code) InputFormat =
    Json
  | Logfmt
  | Syslog
  | Cef
  | Gelf
  | Raw

definition InputFormat_from_tag :: "u8 \<Rightarrow> InputFormat option" where
  "InputFormat_from_tag tag =
     (if tag = 0 then Some InputFormat.Json
      else if tag = 1 then Some InputFormat.Logfmt
      else if tag = 2 then Some InputFormat.Syslog
      else if tag = 3 then Some InputFormat.Cef
      else if tag = 4 then Some InputFormat.Gelf
      else if tag = 5 then Some InputFormat.Raw
      else option.None)"

primrec InputFormat_to_tag :: "InputFormat \<Rightarrow> u8" where
  "InputFormat_to_tag InputFormat.Json = 0"
| "InputFormat_to_tag InputFormat.Logfmt = 1"
| "InputFormat_to_tag InputFormat.Syslog = 2"
| "InputFormat_to_tag InputFormat.Cef = 3"
| "InputFormat_to_tag InputFormat.Gelf = 4"
| "InputFormat_to_tag InputFormat.Raw = 5"

section \<open>\<open>logcollector::OutputTarget\<close>\<close>

datatype (plugins only: code) OutputTarget =
    File
  | Elasticsearch
  | S3
  | Kafka
  | Stdout

definition OutputTarget_from_tag :: "u8 \<Rightarrow> OutputTarget option" where
  "OutputTarget_from_tag tag =
     (if tag = 0 then Some OutputTarget.File
      else if tag = 1 then Some OutputTarget.Elasticsearch
      else if tag = 2 then Some OutputTarget.S3
      else if tag = 3 then Some OutputTarget.Kafka
      else if tag = 4 then Some OutputTarget.Stdout
      else option.None)"

primrec OutputTarget_to_tag :: "OutputTarget \<Rightarrow> u8" where
  "OutputTarget_to_tag OutputTarget.File = 0"
| "OutputTarget_to_tag OutputTarget.Elasticsearch = 1"
| "OutputTarget_to_tag OutputTarget.S3 = 2"
| "OutputTarget_to_tag OutputTarget.Kafka = 3"
| "OutputTarget_to_tag OutputTarget.Stdout = 4"

section \<open>\<open>logcollector::FilterOp\<close>\<close>

datatype (plugins only: code) FilterOp =
    Include
  | Exclude
  | Transform
  | Redact
  | Sample

definition FilterOp_from_tag :: "u8 \<Rightarrow> FilterOp option" where
  "FilterOp_from_tag tag =
     (if tag = 0 then Some FilterOp.Include
      else if tag = 1 then Some FilterOp.Exclude
      else if tag = 2 then Some FilterOp.Transform
      else if tag = 3 then Some FilterOp.Redact
      else if tag = 4 then Some FilterOp.Sample
      else option.None)"

primrec FilterOp_to_tag :: "FilterOp \<Rightarrow> u8" where
  "FilterOp_to_tag FilterOp.Include = 0"
| "FilterOp_to_tag FilterOp.Exclude = 1"
| "FilterOp_to_tag FilterOp.Transform = 2"
| "FilterOp_to_tag FilterOp.Redact = 3"
| "FilterOp_to_tag FilterOp.Sample = 4"

section \<open>\<open>logcollector::PipelineStage\<close>\<close>

datatype (plugins only: code) PipelineStage =
    Input
  | Parse
  | Filter
  | PipelineTransform
  | Output

definition PipelineStage_from_tag :: "u8 \<Rightarrow> PipelineStage option" where
  "PipelineStage_from_tag tag =
     (if tag = 0 then Some PipelineStage.Input
      else if tag = 1 then Some PipelineStage.Parse
      else if tag = 2 then Some PipelineStage.Filter
      else if tag = 3 then Some PipelineStage.PipelineTransform
      else if tag = 4 then Some PipelineStage.Output
      else option.None)"

primrec PipelineStage_to_tag :: "PipelineStage \<Rightarrow> u8" where
  "PipelineStage_to_tag PipelineStage.Input = 0"
| "PipelineStage_to_tag PipelineStage.Parse = 1"
| "PipelineStage_to_tag PipelineStage.Filter = 2"
| "PipelineStage_to_tag PipelineStage.PipelineTransform = 3"
| "PipelineStage_to_tag PipelineStage.Output = 4"

definition SYSLOG_UDP_PORT :: "u16" where
  "SYSLOG_UDP_PORT = 514"

definition SYSLOG_TCP_PORT :: "u16" where
  "SYSLOG_TCP_PORT = 514"

definition SYSLOG_TLS_PORT :: "u16" where
  "SYSLOG_TLS_PORT = 6514"

section \<open>\<open>syslog::Severity\<close>\<close>

datatype (plugins only: code) Syslog_Severity =
    Emergency
  | Alert
  | Critical
  | Error
  | Warning
  | Notice
  | Informational
  | Debug

text \<open>\<open>derive(PartialOrd, Ord)\<close>: the order of the declaration.\<close>

primrec Syslog_Severity_rank :: "Syslog_Severity \<Rightarrow> nat" where
  "Syslog_Severity_rank Syslog_Severity.Emergency = 0"
| "Syslog_Severity_rank Syslog_Severity.Alert = 1"
| "Syslog_Severity_rank Syslog_Severity.Critical = 2"
| "Syslog_Severity_rank Syslog_Severity.Error = 3"
| "Syslog_Severity_rank Syslog_Severity.Warning = 4"
| "Syslog_Severity_rank Syslog_Severity.Notice = 5"
| "Syslog_Severity_rank Syslog_Severity.Informational = 6"
| "Syslog_Severity_rank Syslog_Severity.Debug = 7"

instantiation Syslog_Severity :: linorder
begin

definition less_eq_Syslog_Severity :: "Syslog_Severity \<Rightarrow> Syslog_Severity \<Rightarrow> bool" where
  "less_eq_Syslog_Severity x y \<longleftrightarrow> Syslog_Severity_rank x \<le> Syslog_Severity_rank y"

definition less_Syslog_Severity :: "Syslog_Severity \<Rightarrow> Syslog_Severity \<Rightarrow> bool" where
  "less_Syslog_Severity x y \<longleftrightarrow> Syslog_Severity_rank x < Syslog_Severity_rank y"

instance
proof
  fix x y z :: Syslog_Severity
  show "(x < y) = (x \<le> y \<and> \<not> y \<le> x)" "x \<le> x" "x \<le> y \<or> y \<le> x"
    by (auto simp: less_eq_Syslog_Severity_def less_Syslog_Severity_def)
  show "x \<le> y \<Longrightarrow> y \<le> z \<Longrightarrow> x \<le> z" by (simp add: less_eq_Syslog_Severity_def)
  show "x \<le> y \<Longrightarrow> y \<le> x \<Longrightarrow> x = y" by (cases x; cases y; simp add: less_eq_Syslog_Severity_def)
qed

end

definition Syslog_Severity_from_tag :: "u8 \<Rightarrow> Syslog_Severity option" where
  "Syslog_Severity_from_tag tag =
     (if tag = 0 then Some Syslog_Severity.Emergency
      else if tag = 1 then Some Syslog_Severity.Alert
      else if tag = 2 then Some Syslog_Severity.Critical
      else if tag = 3 then Some Syslog_Severity.Error
      else if tag = 4 then Some Syslog_Severity.Warning
      else if tag = 5 then Some Syslog_Severity.Notice
      else if tag = 6 then Some Syslog_Severity.Informational
      else if tag = 7 then Some Syslog_Severity.Debug
      else option.None)"

primrec Syslog_Severity_to_tag :: "Syslog_Severity \<Rightarrow> u8" where
  "Syslog_Severity_to_tag Syslog_Severity.Emergency = 0"
| "Syslog_Severity_to_tag Syslog_Severity.Alert = 1"
| "Syslog_Severity_to_tag Syslog_Severity.Critical = 2"
| "Syslog_Severity_to_tag Syslog_Severity.Error = 3"
| "Syslog_Severity_to_tag Syslog_Severity.Warning = 4"
| "Syslog_Severity_to_tag Syslog_Severity.Notice = 5"
| "Syslog_Severity_to_tag Syslog_Severity.Informational = 6"
| "Syslog_Severity_to_tag Syslog_Severity.Debug = 7"

definition Syslog_Severity_keyword :: "Syslog_Severity \<Rightarrow> string" where
  "Syslog_Severity_keyword self =
     (case self of
      Syslog_Severity.Emergency \<Rightarrow> ''emerg''
    | Syslog_Severity.Alert \<Rightarrow> ''alert''
    | Syslog_Severity.Critical \<Rightarrow> ''crit''
    | Syslog_Severity.Error \<Rightarrow> ''err''
    | Syslog_Severity.Warning \<Rightarrow> ''warning''
    | Syslog_Severity.Notice \<Rightarrow> ''notice''
    | Syslog_Severity.Informational \<Rightarrow> ''info''
    | Syslog_Severity.Debug \<Rightarrow> ''debug'')"

definition Syslog_Severity_is_error_or_worse :: "Syslog_Severity \<Rightarrow> bool" where
  "Syslog_Severity_is_error_or_worse self = (Syslog_Severity_to_tag self \<le> 3)"

section \<open>\<open>syslog::Facility\<close>\<close>

datatype (plugins only: code) Facility =
    Kern
  | User
  | Mail
  | Daemon
  | Auth
  | Syslog
  | Lpr
  | News
  | Uucp
  | Cron
  | AuthPriv
  | Ftp
  | Ntp
  | Audit
  | Alert
  | Clock
  | Local0
  | Local1
  | Local2
  | Local3
  | Local4
  | Local5
  | Local6
  | Local7

definition Facility_from_tag :: "u8 \<Rightarrow> Facility option" where
  "Facility_from_tag tag =
     (if tag = 0 then Some Facility.Kern
      else if tag = 1 then Some Facility.User
      else if tag = 2 then Some Facility.Mail
      else if tag = 3 then Some Facility.Daemon
      else if tag = 4 then Some Facility.Auth
      else if tag = 5 then Some Facility.Syslog
      else if tag = 6 then Some Facility.Lpr
      else if tag = 7 then Some Facility.News
      else if tag = 8 then Some Facility.Uucp
      else if tag = 9 then Some Facility.Cron
      else if tag = 10 then Some Facility.AuthPriv
      else if tag = 11 then Some Facility.Ftp
      else if tag = 12 then Some Facility.Ntp
      else if tag = 13 then Some Facility.Audit
      else if tag = 14 then Some Facility.Alert
      else if tag = 15 then Some Facility.Clock
      else if tag = 16 then Some Facility.Local0
      else if tag = 17 then Some Facility.Local1
      else if tag = 18 then Some Facility.Local2
      else if tag = 19 then Some Facility.Local3
      else if tag = 20 then Some Facility.Local4
      else if tag = 21 then Some Facility.Local5
      else if tag = 22 then Some Facility.Local6
      else if tag = 23 then Some Facility.Local7
      else option.None)"

primrec Facility_to_tag :: "Facility \<Rightarrow> u8" where
  "Facility_to_tag Facility.Kern = 0"
| "Facility_to_tag Facility.User = 1"
| "Facility_to_tag Facility.Mail = 2"
| "Facility_to_tag Facility.Daemon = 3"
| "Facility_to_tag Facility.Auth = 4"
| "Facility_to_tag Facility.Syslog = 5"
| "Facility_to_tag Facility.Lpr = 6"
| "Facility_to_tag Facility.News = 7"
| "Facility_to_tag Facility.Uucp = 8"
| "Facility_to_tag Facility.Cron = 9"
| "Facility_to_tag Facility.AuthPriv = 10"
| "Facility_to_tag Facility.Ftp = 11"
| "Facility_to_tag Facility.Ntp = 12"
| "Facility_to_tag Facility.Audit = 13"
| "Facility_to_tag Facility.Alert = 14"
| "Facility_to_tag Facility.Clock = 15"
| "Facility_to_tag Facility.Local0 = 16"
| "Facility_to_tag Facility.Local1 = 17"
| "Facility_to_tag Facility.Local2 = 18"
| "Facility_to_tag Facility.Local3 = 19"
| "Facility_to_tag Facility.Local4 = 20"
| "Facility_to_tag Facility.Local5 = 21"
| "Facility_to_tag Facility.Local6 = 22"
| "Facility_to_tag Facility.Local7 = 23"

definition Facility_is_local :: "Facility \<Rightarrow> bool" where
  "Facility_is_local self = (Facility_to_tag self \<ge> 16)"

definition Facility_is_security :: "Facility \<Rightarrow> bool" where
  "Facility_is_security self =
     (case self of
      Facility.Auth \<Rightarrow> True
    | Facility.AuthPriv \<Rightarrow> True
    | Facility.Audit \<Rightarrow> True
    | _ \<Rightarrow> False)"

section \<open>\<open>syslog::Transport\<close>\<close>

datatype (plugins only: code) Syslog_Transport =
    Udp514
  | Tcp514
  | Tls6514

definition Syslog_Transport_from_tag :: "u8 \<Rightarrow> Syslog_Transport option" where
  "Syslog_Transport_from_tag tag =
     (if tag = 0 then Some Syslog_Transport.Udp514
      else if tag = 1 then Some Syslog_Transport.Tcp514
      else if tag = 2 then Some Syslog_Transport.Tls6514
      else option.None)"

primrec Syslog_Transport_to_tag :: "Syslog_Transport \<Rightarrow> u8" where
  "Syslog_Transport_to_tag Syslog_Transport.Udp514 = 0"
| "Syslog_Transport_to_tag Syslog_Transport.Tcp514 = 1"
| "Syslog_Transport_to_tag Syslog_Transport.Tls6514 = 2"

definition Syslog_Transport_port :: "Syslog_Transport \<Rightarrow> u16" where
  "Syslog_Transport_port self =
     (case self of
      Syslog_Transport.Udp514 \<Rightarrow> 514
    | Syslog_Transport.Tcp514 \<Rightarrow> 514
    | Syslog_Transport.Tls6514 \<Rightarrow> 6514)"

definition Syslog_Transport_is_encrypted :: "Syslog_Transport \<Rightarrow> bool" where
  "Syslog_Transport_is_encrypted self =
     (case self of
      Syslog_Transport.Tls6514 \<Rightarrow> True
    | _ \<Rightarrow> False)"

definition Syslog_Transport_is_reliable :: "Syslog_Transport \<Rightarrow> bool" where
  "Syslog_Transport_is_reliable self =
     (case self of
      Syslog_Transport.Tcp514 \<Rightarrow> True
    | Syslog_Transport.Tls6514 \<Rightarrow> True
    | _ \<Rightarrow> False)"

section \<open>\<open>siem::EventSeverity\<close>\<close>

datatype (plugins only: code) EventSeverity =
    Info
  | Low
  | Medium
  | High
  | Critical

definition EventSeverity_from_tag :: "u8 \<Rightarrow> EventSeverity option" where
  "EventSeverity_from_tag tag =
     (if tag = 0 then Some EventSeverity.Info
      else if tag = 1 then Some EventSeverity.Low
      else if tag = 2 then Some EventSeverity.Medium
      else if tag = 3 then Some EventSeverity.High
      else if tag = 4 then Some EventSeverity.Critical
      else option.None)"

primrec EventSeverity_to_tag :: "EventSeverity \<Rightarrow> u8" where
  "EventSeverity_to_tag EventSeverity.Info = 0"
| "EventSeverity_to_tag EventSeverity.Low = 1"
| "EventSeverity_to_tag EventSeverity.Medium = 2"
| "EventSeverity_to_tag EventSeverity.High = 3"
| "EventSeverity_to_tag EventSeverity.Critical = 4"

section \<open>\<open>siem::EventCategory\<close>\<close>

datatype (plugins only: code) EventCategory =
    Authentication
  | NetworkTraffic
  | FileActivity
  | ProcessExecution
  | PolicyViolation
  | Malware
  | DataExfiltration

definition EventCategory_from_tag :: "u8 \<Rightarrow> EventCategory option" where
  "EventCategory_from_tag tag =
     (if tag = 0 then Some EventCategory.Authentication
      else if tag = 1 then Some EventCategory.NetworkTraffic
      else if tag = 2 then Some EventCategory.FileActivity
      else if tag = 3 then Some EventCategory.ProcessExecution
      else if tag = 4 then Some EventCategory.PolicyViolation
      else if tag = 5 then Some EventCategory.Malware
      else if tag = 6 then Some EventCategory.DataExfiltration
      else option.None)"

primrec EventCategory_to_tag :: "EventCategory \<Rightarrow> u8" where
  "EventCategory_to_tag EventCategory.Authentication = 0"
| "EventCategory_to_tag EventCategory.NetworkTraffic = 1"
| "EventCategory_to_tag EventCategory.FileActivity = 2"
| "EventCategory_to_tag EventCategory.ProcessExecution = 3"
| "EventCategory_to_tag EventCategory.PolicyViolation = 4"
| "EventCategory_to_tag EventCategory.Malware = 5"
| "EventCategory_to_tag EventCategory.DataExfiltration = 6"

section \<open>\<open>siem::CorrelationRule\<close>\<close>

datatype (plugins only: code) CorrelationRule =
    Threshold
  | Sequence
  | Aggregation
  | Absence
  | Statistical

definition CorrelationRule_from_tag :: "u8 \<Rightarrow> CorrelationRule option" where
  "CorrelationRule_from_tag tag =
     (if tag = 0 then Some CorrelationRule.Threshold
      else if tag = 1 then Some CorrelationRule.Sequence
      else if tag = 2 then Some CorrelationRule.Aggregation
      else if tag = 3 then Some CorrelationRule.Absence
      else if tag = 4 then Some CorrelationRule.Statistical
      else option.None)"

primrec CorrelationRule_to_tag :: "CorrelationRule \<Rightarrow> u8" where
  "CorrelationRule_to_tag CorrelationRule.Threshold = 0"
| "CorrelationRule_to_tag CorrelationRule.Sequence = 1"
| "CorrelationRule_to_tag CorrelationRule.Aggregation = 2"
| "CorrelationRule_to_tag CorrelationRule.Absence = 3"
| "CorrelationRule_to_tag CorrelationRule.Statistical = 4"

section \<open>\<open>siem::AlertState\<close>\<close>

datatype (plugins only: code) Siem_AlertState =
    New
  | Acknowledged
  | InProgress
  | Resolved
  | FalsePositive

definition Siem_AlertState_from_tag :: "u8 \<Rightarrow> Siem_AlertState option" where
  "Siem_AlertState_from_tag tag =
     (if tag = 0 then Some Siem_AlertState.New
      else if tag = 1 then Some Siem_AlertState.Acknowledged
      else if tag = 2 then Some Siem_AlertState.InProgress
      else if tag = 3 then Some Siem_AlertState.Resolved
      else if tag = 4 then Some Siem_AlertState.FalsePositive
      else option.None)"

primrec Siem_AlertState_to_tag :: "Siem_AlertState \<Rightarrow> u8" where
  "Siem_AlertState_to_tag Siem_AlertState.New = 0"
| "Siem_AlertState_to_tag Siem_AlertState.Acknowledged = 1"
| "Siem_AlertState_to_tag Siem_AlertState.InProgress = 2"
| "Siem_AlertState_to_tag Siem_AlertState.Resolved = 3"
| "Siem_AlertState_to_tag Siem_AlertState.FalsePositive = 4"

section \<open>\<open>ids::AlertSeverity\<close>\<close>

datatype (plugins only: code) AlertSeverity =
    Low
  | Medium
  | High
  | Critical

definition AlertSeverity_from_tag :: "u8 \<Rightarrow> AlertSeverity option" where
  "AlertSeverity_from_tag tag =
     (if tag = 0 then Some AlertSeverity.Low
      else if tag = 1 then Some AlertSeverity.Medium
      else if tag = 2 then Some AlertSeverity.High
      else if tag = 3 then Some AlertSeverity.Critical
      else option.None)"

primrec AlertSeverity_to_tag :: "AlertSeverity \<Rightarrow> u8" where
  "AlertSeverity_to_tag AlertSeverity.Low = 0"
| "AlertSeverity_to_tag AlertSeverity.Medium = 1"
| "AlertSeverity_to_tag AlertSeverity.High = 2"
| "AlertSeverity_to_tag AlertSeverity.Critical = 3"

section \<open>\<open>ids::DetectionMethod\<close>\<close>

datatype (plugins only: code) DetectionMethod =
    Signature
  | Anomaly
  | Stateful
  | Heuristic

definition DetectionMethod_from_tag :: "u8 \<Rightarrow> DetectionMethod option" where
  "DetectionMethod_from_tag tag =
     (if tag = 0 then Some DetectionMethod.Signature
      else if tag = 1 then Some DetectionMethod.Anomaly
      else if tag = 2 then Some DetectionMethod.Stateful
      else if tag = 3 then Some DetectionMethod.Heuristic
      else option.None)"

primrec DetectionMethod_to_tag :: "DetectionMethod \<Rightarrow> u8" where
  "DetectionMethod_to_tag DetectionMethod.Signature = 0"
| "DetectionMethod_to_tag DetectionMethod.Anomaly = 1"
| "DetectionMethod_to_tag DetectionMethod.Stateful = 2"
| "DetectionMethod_to_tag DetectionMethod.Heuristic = 3"

section \<open>\<open>ids::IdsProtocol\<close>\<close>

datatype (plugins only: code) IdsProtocol =
    Tcp
  | Udp
  | Icmp
  | Dns
  | Http
  | Tls
  | Ssh

definition IdsProtocol_from_tag :: "u8 \<Rightarrow> IdsProtocol option" where
  "IdsProtocol_from_tag tag =
     (if tag = 0 then Some IdsProtocol.Tcp
      else if tag = 1 then Some IdsProtocol.Udp
      else if tag = 2 then Some IdsProtocol.Icmp
      else if tag = 3 then Some IdsProtocol.Dns
      else if tag = 4 then Some IdsProtocol.Http
      else if tag = 5 then Some IdsProtocol.Tls
      else if tag = 6 then Some IdsProtocol.Ssh
      else option.None)"

primrec IdsProtocol_to_tag :: "IdsProtocol \<Rightarrow> u8" where
  "IdsProtocol_to_tag IdsProtocol.Tcp = 0"
| "IdsProtocol_to_tag IdsProtocol.Udp = 1"
| "IdsProtocol_to_tag IdsProtocol.Icmp = 2"
| "IdsProtocol_to_tag IdsProtocol.Dns = 3"
| "IdsProtocol_to_tag IdsProtocol.Http = 4"
| "IdsProtocol_to_tag IdsProtocol.Tls = 5"
| "IdsProtocol_to_tag IdsProtocol.Ssh = 6"

section \<open>\<open>ids::IdsAction\<close>\<close>

datatype (plugins only: code) IdsAction =
    Alert
  | Drop
  | Log
  | Block
  | Pass

definition IdsAction_from_tag :: "u8 \<Rightarrow> IdsAction option" where
  "IdsAction_from_tag tag =
     (if tag = 0 then Some IdsAction.Alert
      else if tag = 1 then Some IdsAction.Drop
      else if tag = 2 then Some IdsAction.Log
      else if tag = 3 then Some IdsAction.Block
      else if tag = 4 then Some IdsAction.Pass
      else option.None)"

primrec IdsAction_to_tag :: "IdsAction \<Rightarrow> u8" where
  "IdsAction_to_tag IdsAction.Alert = 0"
| "IdsAction_to_tag IdsAction.Drop = 1"
| "IdsAction_to_tag IdsAction.Log = 2"
| "IdsAction_to_tag IdsAction.Block = 3"
| "IdsAction_to_tag IdsAction.Pass = 4"

section \<open>\<open>ids::Direction\<close>\<close>

datatype (plugins only: code) Ids_Direction =
    Inbound
  | Outbound
  | Both

definition Ids_Direction_from_tag :: "u8 \<Rightarrow> Ids_Direction option" where
  "Ids_Direction_from_tag tag =
     (if tag = 0 then Some Ids_Direction.Inbound
      else if tag = 1 then Some Ids_Direction.Outbound
      else if tag = 2 then Some Ids_Direction.Both
      else option.None)"

primrec Ids_Direction_to_tag :: "Ids_Direction \<Rightarrow> u8" where
  "Ids_Direction_to_tag Ids_Direction.Inbound = 0"
| "Ids_Direction_to_tag Ids_Direction.Outbound = 1"
| "Ids_Direction_to_tag Ids_Direction.Both = 2"

section \<open>\<open>ids::ThreatLevel\<close>\<close>

datatype (plugins only: code) ThreatLevel =
    Info
  | Low
  | Medium
  | High
  | Critical

definition ThreatLevel_from_tag :: "u8 \<Rightarrow> ThreatLevel option" where
  "ThreatLevel_from_tag tag =
     (if tag = 0 then Some ThreatLevel.Info
      else if tag = 1 then Some ThreatLevel.Low
      else if tag = 2 then Some ThreatLevel.Medium
      else if tag = 3 then Some ThreatLevel.High
      else if tag = 4 then Some ThreatLevel.Critical
      else option.None)"

primrec ThreatLevel_to_tag :: "ThreatLevel \<Rightarrow> u8" where
  "ThreatLevel_to_tag ThreatLevel.Info = 0"
| "ThreatLevel_to_tag ThreatLevel.Low = 1"
| "ThreatLevel_to_tag ThreatLevel.Medium = 2"
| "ThreatLevel_to_tag ThreatLevel.High = 3"
| "ThreatLevel_to_tag ThreatLevel.Critical = 4"

section \<open>\<open>honeypot::ServiceEmulation\<close>\<close>

datatype (plugins only: code) ServiceEmulation =
    Ssh
  | Http
  | Ftp
  | Smtp
  | Telnet
  | Mysql
  | Rdp

definition ServiceEmulation_from_tag :: "u8 \<Rightarrow> ServiceEmulation option" where
  "ServiceEmulation_from_tag tag =
     (if tag = 0 then Some ServiceEmulation.Ssh
      else if tag = 1 then Some ServiceEmulation.Http
      else if tag = 2 then Some ServiceEmulation.Ftp
      else if tag = 3 then Some ServiceEmulation.Smtp
      else if tag = 4 then Some ServiceEmulation.Telnet
      else if tag = 5 then Some ServiceEmulation.Mysql
      else if tag = 6 then Some ServiceEmulation.Rdp
      else option.None)"

primrec ServiceEmulation_to_tag :: "ServiceEmulation \<Rightarrow> u8" where
  "ServiceEmulation_to_tag ServiceEmulation.Ssh = 0"
| "ServiceEmulation_to_tag ServiceEmulation.Http = 1"
| "ServiceEmulation_to_tag ServiceEmulation.Ftp = 2"
| "ServiceEmulation_to_tag ServiceEmulation.Smtp = 3"
| "ServiceEmulation_to_tag ServiceEmulation.Telnet = 4"
| "ServiceEmulation_to_tag ServiceEmulation.Mysql = 5"
| "ServiceEmulation_to_tag ServiceEmulation.Rdp = 6"

section \<open>\<open>honeypot::InteractionLevel\<close>\<close>

datatype (plugins only: code) InteractionLevel =
    Low
  | Medium
  | High

definition InteractionLevel_from_tag :: "u8 \<Rightarrow> InteractionLevel option" where
  "InteractionLevel_from_tag tag =
     (if tag = 0 then Some InteractionLevel.Low
      else if tag = 1 then Some InteractionLevel.Medium
      else if tag = 2 then Some InteractionLevel.High
      else option.None)"

primrec InteractionLevel_to_tag :: "InteractionLevel \<Rightarrow> u8" where
  "InteractionLevel_to_tag InteractionLevel.Low = 0"
| "InteractionLevel_to_tag InteractionLevel.Medium = 1"
| "InteractionLevel_to_tag InteractionLevel.High = 2"

section \<open>\<open>honeypot::HoneypotAlertSeverity\<close>\<close>

datatype (plugins only: code) HoneypotAlertSeverity =
    Info
  | AsLow
  | AsMedium
  | AsHigh
  | Critical

definition HoneypotAlertSeverity_from_tag :: "u8 \<Rightarrow> HoneypotAlertSeverity option" where
  "HoneypotAlertSeverity_from_tag tag =
     (if tag = 0 then Some HoneypotAlertSeverity.Info
      else if tag = 1 then Some HoneypotAlertSeverity.AsLow
      else if tag = 2 then Some HoneypotAlertSeverity.AsMedium
      else if tag = 3 then Some HoneypotAlertSeverity.AsHigh
      else if tag = 4 then Some HoneypotAlertSeverity.Critical
      else option.None)"

primrec HoneypotAlertSeverity_to_tag :: "HoneypotAlertSeverity \<Rightarrow> u8" where
  "HoneypotAlertSeverity_to_tag HoneypotAlertSeverity.Info = 0"
| "HoneypotAlertSeverity_to_tag HoneypotAlertSeverity.AsLow = 1"
| "HoneypotAlertSeverity_to_tag HoneypotAlertSeverity.AsMedium = 2"
| "HoneypotAlertSeverity_to_tag HoneypotAlertSeverity.AsHigh = 3"
| "HoneypotAlertSeverity_to_tag HoneypotAlertSeverity.Critical = 4"

section \<open>\<open>honeypot::AttackerAction\<close>\<close>

datatype (plugins only: code) AttackerAction =
    Scan
  | BruteForce
  | Exploit
  | Payload
  | Lateral
  | Exfiltration

definition AttackerAction_from_tag :: "u8 \<Rightarrow> AttackerAction option" where
  "AttackerAction_from_tag tag =
     (if tag = 0 then Some AttackerAction.Scan
      else if tag = 1 then Some AttackerAction.BruteForce
      else if tag = 2 then Some AttackerAction.Exploit
      else if tag = 3 then Some AttackerAction.Payload
      else if tag = 4 then Some AttackerAction.Lateral
      else if tag = 5 then Some AttackerAction.Exfiltration
      else option.None)"

primrec AttackerAction_to_tag :: "AttackerAction \<Rightarrow> u8" where
  "AttackerAction_to_tag AttackerAction.Scan = 0"
| "AttackerAction_to_tag AttackerAction.BruteForce = 1"
| "AttackerAction_to_tag AttackerAction.Exploit = 2"
| "AttackerAction_to_tag AttackerAction.Payload = 3"
| "AttackerAction_to_tag AttackerAction.Lateral = 4"
| "AttackerAction_to_tag AttackerAction.Exfiltration = 5"

section \<open>\<open>honeypot::ServerState\<close>\<close>

datatype (plugins only: code) Honeypot_ServerState =
    Idle
  | Deployed
  | Engaged
  | Shutdown

definition Honeypot_ServerState_from_tag :: "u8 \<Rightarrow> Honeypot_ServerState option" where
  "Honeypot_ServerState_from_tag tag =
     (if tag = 0 then Some Honeypot_ServerState.Idle
      else if tag = 1 then Some Honeypot_ServerState.Deployed
      else if tag = 2 then Some Honeypot_ServerState.Engaged
      else if tag = 3 then Some Honeypot_ServerState.Shutdown
      else option.None)"

primrec Honeypot_ServerState_to_tag :: "Honeypot_ServerState \<Rightarrow> u8" where
  "Honeypot_ServerState_to_tag Honeypot_ServerState.Idle = 0"
| "Honeypot_ServerState_to_tag Honeypot_ServerState.Deployed = 1"
| "Honeypot_ServerState_to_tag Honeypot_ServerState.Engaged = 2"
| "Honeypot_ServerState_to_tag Honeypot_ServerState.Shutdown = 3"

section \<open>\<open>deception::DecoyType\<close>\<close>

datatype (plugins only: code) DecoyType =
    Service
  | Credential
  | File
  | Network
  | Token
  | Breadcrumb

definition DecoyType_from_tag :: "u8 \<Rightarrow> DecoyType option" where
  "DecoyType_from_tag tag =
     (if tag = 0 then Some DecoyType.Service
      else if tag = 1 then Some DecoyType.Credential
      else if tag = 2 then Some DecoyType.File
      else if tag = 3 then Some DecoyType.Network
      else if tag = 4 then Some DecoyType.Token
      else if tag = 5 then Some DecoyType.Breadcrumb
      else option.None)"

primrec DecoyType_to_tag :: "DecoyType \<Rightarrow> u8" where
  "DecoyType_to_tag DecoyType.Service = 0"
| "DecoyType_to_tag DecoyType.Credential = 1"
| "DecoyType_to_tag DecoyType.File = 2"
| "DecoyType_to_tag DecoyType.Network = 3"
| "DecoyType_to_tag DecoyType.Token = 4"
| "DecoyType_to_tag DecoyType.Breadcrumb = 5"

section \<open>\<open>deception::TriggerEvent\<close>\<close>

datatype (plugins only: code) TriggerEvent =
    Access
  | Login
  | Read
  | Write
  | Execute
  | Scan

definition TriggerEvent_from_tag :: "u8 \<Rightarrow> TriggerEvent option" where
  "TriggerEvent_from_tag tag =
     (if tag = 0 then Some TriggerEvent.Access
      else if tag = 1 then Some TriggerEvent.Login
      else if tag = 2 then Some TriggerEvent.Read
      else if tag = 3 then Some TriggerEvent.Write
      else if tag = 4 then Some TriggerEvent.Execute
      else if tag = 5 then Some TriggerEvent.Scan
      else option.None)"

primrec TriggerEvent_to_tag :: "TriggerEvent \<Rightarrow> u8" where
  "TriggerEvent_to_tag TriggerEvent.Access = 0"
| "TriggerEvent_to_tag TriggerEvent.Login = 1"
| "TriggerEvent_to_tag TriggerEvent.Read = 2"
| "TriggerEvent_to_tag TriggerEvent.Write = 3"
| "TriggerEvent_to_tag TriggerEvent.Execute = 4"
| "TriggerEvent_to_tag TriggerEvent.Scan = 5"

section \<open>\<open>deception::AlertPriority\<close>\<close>

datatype (plugins only: code) AlertPriority =
    Low
  | Medium
  | High
  | Critical

definition AlertPriority_from_tag :: "u8 \<Rightarrow> AlertPriority option" where
  "AlertPriority_from_tag tag =
     (if tag = 0 then Some AlertPriority.Low
      else if tag = 1 then Some AlertPriority.Medium
      else if tag = 2 then Some AlertPriority.High
      else if tag = 3 then Some AlertPriority.Critical
      else option.None)"

primrec AlertPriority_to_tag :: "AlertPriority \<Rightarrow> u8" where
  "AlertPriority_to_tag AlertPriority.Low = 0"
| "AlertPriority_to_tag AlertPriority.Medium = 1"
| "AlertPriority_to_tag AlertPriority.High = 2"
| "AlertPriority_to_tag AlertPriority.Critical = 3"

section \<open>\<open>deception::DecoyState\<close>\<close>

datatype (plugins only: code) DecoyState =
    Active
  | Triggered
  | Disabled
  | Expired

definition DecoyState_from_tag :: "u8 \<Rightarrow> DecoyState option" where
  "DecoyState_from_tag tag =
     (if tag = 0 then Some DecoyState.Active
      else if tag = 1 then Some DecoyState.Triggered
      else if tag = 2 then Some DecoyState.Disabled
      else if tag = 3 then Some DecoyState.Expired
      else option.None)"

primrec DecoyState_to_tag :: "DecoyState \<Rightarrow> u8" where
  "DecoyState_to_tag DecoyState.Active = 0"
| "DecoyState_to_tag DecoyState.Triggered = 1"
| "DecoyState_to_tag DecoyState.Disabled = 2"
| "DecoyState_to_tag DecoyState.Expired = 3"

section \<open>\<open>deception::ResponseAction\<close>\<close>

datatype (plugins only: code) ResponseAction =
    Alert
  | Redirect
  | Delay
  | Fingerprint
  | Isolate

definition ResponseAction_from_tag :: "u8 \<Rightarrow> ResponseAction option" where
  "ResponseAction_from_tag tag =
     (if tag = 0 then Some ResponseAction.Alert
      else if tag = 1 then Some ResponseAction.Redirect
      else if tag = 2 then Some ResponseAction.Delay
      else if tag = 3 then Some ResponseAction.Fingerprint
      else if tag = 4 then Some ResponseAction.Isolate
      else option.None)"

primrec ResponseAction_to_tag :: "ResponseAction \<Rightarrow> u8" where
  "ResponseAction_to_tag ResponseAction.Alert = 0"
| "ResponseAction_to_tag ResponseAction.Redirect = 1"
| "ResponseAction_to_tag ResponseAction.Delay = 2"
| "ResponseAction_to_tag ResponseAction.Fingerprint = 3"
| "ResponseAction_to_tag ResponseAction.Isolate = 4"

section \<open>\<open>deception::ServerState\<close>\<close>

datatype (plugins only: code) Deception_ServerState =
    Idle
  | Configured
  | Monitoring
  | Responding
  | Shutdown

definition Deception_ServerState_from_tag :: "u8 \<Rightarrow> Deception_ServerState option" where
  "Deception_ServerState_from_tag tag =
     (if tag = 0 then Some Deception_ServerState.Idle
      else if tag = 1 then Some Deception_ServerState.Configured
      else if tag = 2 then Some Deception_ServerState.Monitoring
      else if tag = 3 then Some Deception_ServerState.Responding
      else if tag = 4 then Some Deception_ServerState.Shutdown
      else option.None)"

primrec Deception_ServerState_to_tag :: "Deception_ServerState \<Rightarrow> u8" where
  "Deception_ServerState_to_tag Deception_ServerState.Idle = 0"
| "Deception_ServerState_to_tag Deception_ServerState.Configured = 1"
| "Deception_ServerState_to_tag Deception_ServerState.Monitoring = 2"
| "Deception_ServerState_to_tag Deception_ServerState.Responding = 3"
| "Deception_ServerState_to_tag Deception_ServerState.Shutdown = 4"

section \<open>\<open>airgap::TransferDirection\<close>\<close>

datatype (plugins only: code) TransferDirection =
    Import
  | Export

definition TransferDirection_from_tag :: "u8 \<Rightarrow> TransferDirection option" where
  "TransferDirection_from_tag tag =
     (if tag = 0 then Some TransferDirection.Import
      else if tag = 1 then Some TransferDirection.Export
      else option.None)"

primrec TransferDirection_to_tag :: "TransferDirection \<Rightarrow> u8" where
  "TransferDirection_to_tag TransferDirection.Import = 0"
| "TransferDirection_to_tag TransferDirection.Export = 1"

section \<open>\<open>airgap::MediaType\<close>\<close>

datatype (plugins only: code) MediaType =
    Usb
  | OpticalDisc
  | TapeCartridge
  | DiodeLink

definition MediaType_from_tag :: "u8 \<Rightarrow> MediaType option" where
  "MediaType_from_tag tag =
     (if tag = 0 then Some MediaType.Usb
      else if tag = 1 then Some MediaType.OpticalDisc
      else if tag = 2 then Some MediaType.TapeCartridge
      else if tag = 3 then Some MediaType.DiodeLink
      else option.None)"

primrec MediaType_to_tag :: "MediaType \<Rightarrow> u8" where
  "MediaType_to_tag MediaType.Usb = 0"
| "MediaType_to_tag MediaType.OpticalDisc = 1"
| "MediaType_to_tag MediaType.TapeCartridge = 2"
| "MediaType_to_tag MediaType.DiodeLink = 3"

section \<open>\<open>airgap::ScanResult\<close>\<close>

datatype (plugins only: code) ScanResult =
    Clean
  | Suspicious
  | Malicious
  | Unscannable

definition ScanResult_from_tag :: "u8 \<Rightarrow> ScanResult option" where
  "ScanResult_from_tag tag =
     (if tag = 0 then Some ScanResult.Clean
      else if tag = 1 then Some ScanResult.Suspicious
      else if tag = 2 then Some ScanResult.Malicious
      else if tag = 3 then Some ScanResult.Unscannable
      else option.None)"

primrec ScanResult_to_tag :: "ScanResult \<Rightarrow> u8" where
  "ScanResult_to_tag ScanResult.Clean = 0"
| "ScanResult_to_tag ScanResult.Suspicious = 1"
| "ScanResult_to_tag ScanResult.Malicious = 2"
| "ScanResult_to_tag ScanResult.Unscannable = 3"

definition ScanResult_is_safe :: "ScanResult \<Rightarrow> bool" where
  "ScanResult_is_safe self =
     (case self of
      ScanResult.Clean \<Rightarrow> True
    | _ \<Rightarrow> False)"

section \<open>\<open>airgap::TransferState\<close>\<close>

datatype (plugins only: code) Airgap_TransferState =
    Pending
  | Scanning
  | Approved
  | Rejected
  | InProgress
  | Complete
  | Failed

definition Airgap_TransferState_from_tag :: "u8 \<Rightarrow> Airgap_TransferState option" where
  "Airgap_TransferState_from_tag tag =
     (if tag = 0 then Some Airgap_TransferState.Pending
      else if tag = 1 then Some Airgap_TransferState.Scanning
      else if tag = 2 then Some Airgap_TransferState.Approved
      else if tag = 3 then Some Airgap_TransferState.Rejected
      else if tag = 4 then Some Airgap_TransferState.InProgress
      else if tag = 5 then Some Airgap_TransferState.Complete
      else if tag = 6 then Some Airgap_TransferState.Failed
      else option.None)"

primrec Airgap_TransferState_to_tag :: "Airgap_TransferState \<Rightarrow> u8" where
  "Airgap_TransferState_to_tag Airgap_TransferState.Pending = 0"
| "Airgap_TransferState_to_tag Airgap_TransferState.Scanning = 1"
| "Airgap_TransferState_to_tag Airgap_TransferState.Approved = 2"
| "Airgap_TransferState_to_tag Airgap_TransferState.Rejected = 3"
| "Airgap_TransferState_to_tag Airgap_TransferState.InProgress = 4"
| "Airgap_TransferState_to_tag Airgap_TransferState.Complete = 5"
| "Airgap_TransferState_to_tag Airgap_TransferState.Failed = 6"

section \<open>\<open>airgap::ValidationCheck\<close>\<close>

datatype (plugins only: code) ValidationCheck =
    HashVerify
  | SignatureVerify
  | FormatCheck
  | ContentInspection
  | MalwareScan

definition ValidationCheck_from_tag :: "u8 \<Rightarrow> ValidationCheck option" where
  "ValidationCheck_from_tag tag =
     (if tag = 0 then Some ValidationCheck.HashVerify
      else if tag = 1 then Some ValidationCheck.SignatureVerify
      else if tag = 2 then Some ValidationCheck.FormatCheck
      else if tag = 3 then Some ValidationCheck.ContentInspection
      else if tag = 4 then Some ValidationCheck.MalwareScan
      else option.None)"

primrec ValidationCheck_to_tag :: "ValidationCheck \<Rightarrow> u8" where
  "ValidationCheck_to_tag ValidationCheck.HashVerify = 0"
| "ValidationCheck_to_tag ValidationCheck.SignatureVerify = 1"
| "ValidationCheck_to_tag ValidationCheck.FormatCheck = 2"
| "ValidationCheck_to_tag ValidationCheck.ContentInspection = 3"
| "ValidationCheck_to_tag ValidationCheck.MalwareScan = 4"

section \<open>\<open>diode::Direction\<close>\<close>

datatype (plugins only: code) Diode_Direction =
    HighToLow
  | LowToHigh

definition Diode_Direction_from_tag :: "u8 \<Rightarrow> Diode_Direction option" where
  "Diode_Direction_from_tag tag =
     (if tag = 0 then Some Diode_Direction.HighToLow
      else if tag = 1 then Some Diode_Direction.LowToHigh
      else option.None)"

primrec Diode_Direction_to_tag :: "Diode_Direction \<Rightarrow> u8" where
  "Diode_Direction_to_tag Diode_Direction.HighToLow = 0"
| "Diode_Direction_to_tag Diode_Direction.LowToHigh = 1"

section \<open>\<open>diode::DiodeProtocol\<close>\<close>

datatype (plugins only: code) DiodeProtocol =
    Udp
  | Tcp
  | FileTransfer
  | Syslog
  | Snmp

definition DiodeProtocol_from_tag :: "u8 \<Rightarrow> DiodeProtocol option" where
  "DiodeProtocol_from_tag tag =
     (if tag = 0 then Some DiodeProtocol.Udp
      else if tag = 1 then Some DiodeProtocol.Tcp
      else if tag = 2 then Some DiodeProtocol.FileTransfer
      else if tag = 3 then Some DiodeProtocol.Syslog
      else if tag = 4 then Some DiodeProtocol.Snmp
      else option.None)"

primrec DiodeProtocol_to_tag :: "DiodeProtocol \<Rightarrow> u8" where
  "DiodeProtocol_to_tag DiodeProtocol.Udp = 0"
| "DiodeProtocol_to_tag DiodeProtocol.Tcp = 1"
| "DiodeProtocol_to_tag DiodeProtocol.FileTransfer = 2"
| "DiodeProtocol_to_tag DiodeProtocol.Syslog = 3"
| "DiodeProtocol_to_tag DiodeProtocol.Snmp = 4"

section \<open>\<open>diode::TransferState\<close>\<close>

datatype (plugins only: code) Diode_TransferState =
    Queued
  | Sending
  | Confirming
  | Complete
  | Failed

definition Diode_TransferState_from_tag :: "u8 \<Rightarrow> Diode_TransferState option" where
  "Diode_TransferState_from_tag tag =
     (if tag = 0 then Some Diode_TransferState.Queued
      else if tag = 1 then Some Diode_TransferState.Sending
      else if tag = 2 then Some Diode_TransferState.Confirming
      else if tag = 3 then Some Diode_TransferState.Complete
      else if tag = 4 then Some Diode_TransferState.Failed
      else option.None)"

primrec Diode_TransferState_to_tag :: "Diode_TransferState \<Rightarrow> u8" where
  "Diode_TransferState_to_tag Diode_TransferState.Queued = 0"
| "Diode_TransferState_to_tag Diode_TransferState.Sending = 1"
| "Diode_TransferState_to_tag Diode_TransferState.Confirming = 2"
| "Diode_TransferState_to_tag Diode_TransferState.Complete = 3"
| "Diode_TransferState_to_tag Diode_TransferState.Failed = 4"

section \<open>\<open>diode::ValidationResult\<close>\<close>

datatype (plugins only: code) ValidationResult =
    Passed
  | FormatError
  | SizeExceeded
  | PolicyBlocked

definition ValidationResult_from_tag :: "u8 \<Rightarrow> ValidationResult option" where
  "ValidationResult_from_tag tag =
     (if tag = 0 then Some ValidationResult.Passed
      else if tag = 1 then Some ValidationResult.FormatError
      else if tag = 2 then Some ValidationResult.SizeExceeded
      else if tag = 3 then Some ValidationResult.PolicyBlocked
      else option.None)"

primrec ValidationResult_to_tag :: "ValidationResult \<Rightarrow> u8" where
  "ValidationResult_to_tag ValidationResult.Passed = 0"
| "ValidationResult_to_tag ValidationResult.FormatError = 1"
| "ValidationResult_to_tag ValidationResult.SizeExceeded = 2"
| "ValidationResult_to_tag ValidationResult.PolicyBlocked = 3"

section \<open>\<open>diode::IntegrityCheck\<close>\<close>

datatype (plugins only: code) IntegrityCheck =
    Crc32
  | Sha256
  | Hmac

definition IntegrityCheck_from_tag :: "u8 \<Rightarrow> IntegrityCheck option" where
  "IntegrityCheck_from_tag tag =
     (if tag = 0 then Some IntegrityCheck.Crc32
      else if tag = 1 then Some IntegrityCheck.Sha256
      else if tag = 2 then Some IntegrityCheck.Hmac
      else option.None)"

primrec IntegrityCheck_to_tag :: "IntegrityCheck \<Rightarrow> u8" where
  "IntegrityCheck_to_tag IntegrityCheck.Crc32 = 0"
| "IntegrityCheck_to_tag IntegrityCheck.Sha256 = 1"
| "IntegrityCheck_to_tag IntegrityCheck.Hmac = 2"

section \<open>\<open>diode::GatewayState\<close>\<close>

datatype (plugins only: code) Diode_GatewayState =
    Idle
  | Configured
  | Transferring
  | Validating
  | Shutdown

definition Diode_GatewayState_from_tag :: "u8 \<Rightarrow> Diode_GatewayState option" where
  "Diode_GatewayState_from_tag tag =
     (if tag = 0 then Some Diode_GatewayState.Idle
      else if tag = 1 then Some Diode_GatewayState.Configured
      else if tag = 2 then Some Diode_GatewayState.Transferring
      else if tag = 3 then Some Diode_GatewayState.Validating
      else if tag = 4 then Some Diode_GatewayState.Shutdown
      else option.None)"

primrec Diode_GatewayState_to_tag :: "Diode_GatewayState \<Rightarrow> u8" where
  "Diode_GatewayState_to_tag Diode_GatewayState.Idle = 0"
| "Diode_GatewayState_to_tag Diode_GatewayState.Configured = 1"
| "Diode_GatewayState_to_tag Diode_GatewayState.Transferring = 2"
| "Diode_GatewayState_to_tag Diode_GatewayState.Validating = 3"
| "Diode_GatewayState_to_tag Diode_GatewayState.Shutdown = 4"

text \<open>\<open>Facility::priority\<close>: both casts to \<open>u16\<close>, then \<open>facility * 8 + severity\<close>.\<close>

definition Facility_priority :: "Facility \<Rightarrow> Syslog_Severity \<Rightarrow> u16" where
  "Facility_priority self severity = ucast (Facility_to_tag self) * 8 + ucast (Syslog_Severity_to_tag severity)"

section \<open>Tags and enumerations\<close>

interpretation CheckType_codec: tag_codec CheckType_to_tag CheckType_from_tag 11
  by (unfold_locales, (case_tac x; simp add: CheckType_from_tag_def), unfold CheckType_from_tag_def,
    (erule codec_arm, simp only: CheckType_to_tag.simps)+, erule codec_end, (case_tac x; simp), simp add: codec_eval)

interpretation Monitor_Status_codec: tag_codec Monitor_Status_to_tag Monitor_Status_from_tag 5
  by (unfold_locales, (case_tac x; simp add: Monitor_Status_from_tag_def), unfold Monitor_Status_from_tag_def,
    (erule codec_arm, simp only: Monitor_Status_to_tag.simps)+, erule codec_end, (case_tac x; simp), simp add: codec_eval)

interpretation AlertChannel_codec: tag_codec AlertChannel_to_tag AlertChannel_from_tag 5
  by (unfold_locales, (case_tac x; simp add: AlertChannel_from_tag_def), unfold AlertChannel_from_tag_def,
    (erule codec_arm, simp only: AlertChannel_to_tag.simps)+, erule codec_end, (case_tac x; simp), simp add: codec_eval)

interpretation Monitor_Severity_codec: tag_codec Monitor_Severity_to_tag Monitor_Severity_from_tag 4
  by (unfold_locales, (case_tac x; simp add: Monitor_Severity_from_tag_def), unfold Monitor_Severity_from_tag_def,
    (erule codec_arm, simp only: Monitor_Severity_to_tag.simps)+, erule codec_end, (case_tac x; simp), simp add: codec_eval)

interpretation CheckState_codec: tag_codec CheckState_to_tag CheckState_from_tag 6
  by (unfold_locales, (case_tac x; simp add: CheckState_from_tag_def), unfold CheckState_from_tag_def,
    (erule codec_arm, simp only: CheckState_to_tag.simps)+, erule codec_end, (case_tac x; simp), simp add: codec_eval)

interpretation MonitorState_codec: tag_codec MonitorState_to_tag MonitorState_from_tag 6
  by (unfold_locales, (case_tac x; simp add: MonitorState_from_tag_def), unfold MonitorState_from_tag_def,
    (erule codec_arm, simp only: MonitorState_to_tag.simps)+, erule codec_end, (case_tac x; simp), simp add: codec_eval)

interpretation MetricType_codec: tag_codec MetricType_to_tag MetricType_from_tag 6
  by (unfold_locales, (case_tac x; simp add: MetricType_from_tag_def), unfold MetricType_from_tag_def,
    (erule codec_arm, simp only: MetricType_to_tag.simps)+, erule codec_end, (case_tac x; simp), simp add: codec_eval)

interpretation ScrapeResult_codec: tag_codec ScrapeResult_to_tag ScrapeResult_from_tag 4
  by (unfold_locales, (case_tac x; simp add: ScrapeResult_from_tag_def), unfold ScrapeResult_from_tag_def,
    (erule codec_arm, simp only: ScrapeResult_to_tag.simps)+, erule codec_end, (case_tac x; simp), simp add: codec_eval)

interpretation Metrics_AlertState_codec: tag_codec Metrics_AlertState_to_tag Metrics_AlertState_from_tag 4
  by (unfold_locales, (case_tac x; simp add: Metrics_AlertState_from_tag_def), unfold Metrics_AlertState_from_tag_def,
    (erule codec_arm, simp only: Metrics_AlertState_to_tag.simps)+, erule codec_end, (case_tac x; simp), simp add: codec_eval)

interpretation AggregationOp_codec: tag_codec AggregationOp_to_tag AggregationOp_from_tag 11
  by (unfold_locales, (case_tac x; simp add: AggregationOp_from_tag_def), unfold AggregationOp_from_tag_def,
    (erule codec_arm, simp only: AggregationOp_to_tag.simps)+, erule codec_end, (case_tac x; simp), simp add: codec_eval)

interpretation QueryError_codec: tag_codec QueryError_to_tag QueryError_from_tag 4
  by (unfold_locales, (case_tac x; simp add: QueryError_from_tag_def), unfold QueryError_from_tag_def,
    (erule codec_arm, simp only: QueryError_to_tag.simps)+, erule codec_end, (case_tac x; simp), simp add: codec_eval)

interpretation CollectorState_codec: tag_codec CollectorState_to_tag CollectorState_from_tag 5
  by (unfold_locales, (case_tac x; simp add: CollectorState_from_tag_def), unfold CollectorState_from_tag_def,
    (erule codec_arm, simp only: CollectorState_to_tag.simps)+, erule codec_end, (case_tac x; simp), simp add: codec_eval)

interpretation LogLevel_codec: tag_codec LogLevel_to_tag LogLevel_from_tag 6
  by (unfold_locales, (case_tac x; simp add: LogLevel_from_tag_def), unfold LogLevel_from_tag_def,
    (erule codec_arm, simp only: LogLevel_to_tag.simps)+, erule codec_end, (case_tac x; simp), simp add: codec_eval)

interpretation InputFormat_codec: tag_codec InputFormat_to_tag InputFormat_from_tag 6
  by (unfold_locales, (case_tac x; simp add: InputFormat_from_tag_def), unfold InputFormat_from_tag_def,
    (erule codec_arm, simp only: InputFormat_to_tag.simps)+, erule codec_end, (case_tac x; simp), simp add: codec_eval)

interpretation OutputTarget_codec: tag_codec OutputTarget_to_tag OutputTarget_from_tag 5
  by (unfold_locales, (case_tac x; simp add: OutputTarget_from_tag_def), unfold OutputTarget_from_tag_def,
    (erule codec_arm, simp only: OutputTarget_to_tag.simps)+, erule codec_end, (case_tac x; simp), simp add: codec_eval)

interpretation FilterOp_codec: tag_codec FilterOp_to_tag FilterOp_from_tag 5
  by (unfold_locales, (case_tac x; simp add: FilterOp_from_tag_def), unfold FilterOp_from_tag_def,
    (erule codec_arm, simp only: FilterOp_to_tag.simps)+, erule codec_end, (case_tac x; simp), simp add: codec_eval)

interpretation PipelineStage_codec: tag_codec PipelineStage_to_tag PipelineStage_from_tag 5
  by (unfold_locales, (case_tac x; simp add: PipelineStage_from_tag_def), unfold PipelineStage_from_tag_def,
    (erule codec_arm, simp only: PipelineStage_to_tag.simps)+, erule codec_end, (case_tac x; simp), simp add: codec_eval)

interpretation Syslog_Severity_codec: tag_codec Syslog_Severity_to_tag Syslog_Severity_from_tag 8
  by (unfold_locales, (case_tac x; simp add: Syslog_Severity_from_tag_def), unfold Syslog_Severity_from_tag_def,
    (erule codec_arm, simp only: Syslog_Severity_to_tag.simps)+, erule codec_end, (case_tac x; simp), simp add: codec_eval)

interpretation Facility_codec: tag_codec Facility_to_tag Facility_from_tag 24
  by (unfold_locales, (case_tac x; simp add: Facility_from_tag_def), unfold Facility_from_tag_def,
    (erule codec_arm, simp only: Facility_to_tag.simps)+, erule codec_end, (case_tac x; simp), simp add: codec_eval)

interpretation Syslog_Transport_codec: tag_codec Syslog_Transport_to_tag Syslog_Transport_from_tag 3
  by (unfold_locales, (case_tac x; simp add: Syslog_Transport_from_tag_def), unfold Syslog_Transport_from_tag_def,
    (erule codec_arm, simp only: Syslog_Transport_to_tag.simps)+, erule codec_end, (case_tac x; simp), simp add: codec_eval)

interpretation EventSeverity_codec: tag_codec EventSeverity_to_tag EventSeverity_from_tag 5
  by (unfold_locales, (case_tac x; simp add: EventSeverity_from_tag_def), unfold EventSeverity_from_tag_def,
    (erule codec_arm, simp only: EventSeverity_to_tag.simps)+, erule codec_end, (case_tac x; simp), simp add: codec_eval)

interpretation EventCategory_codec: tag_codec EventCategory_to_tag EventCategory_from_tag 7
  by (unfold_locales, (case_tac x; simp add: EventCategory_from_tag_def), unfold EventCategory_from_tag_def,
    (erule codec_arm, simp only: EventCategory_to_tag.simps)+, erule codec_end, (case_tac x; simp), simp add: codec_eval)

interpretation CorrelationRule_codec: tag_codec CorrelationRule_to_tag CorrelationRule_from_tag 5
  by (unfold_locales, (case_tac x; simp add: CorrelationRule_from_tag_def), unfold CorrelationRule_from_tag_def,
    (erule codec_arm, simp only: CorrelationRule_to_tag.simps)+, erule codec_end, (case_tac x; simp), simp add: codec_eval)

interpretation Siem_AlertState_codec: tag_codec Siem_AlertState_to_tag Siem_AlertState_from_tag 5
  by (unfold_locales, (case_tac x; simp add: Siem_AlertState_from_tag_def), unfold Siem_AlertState_from_tag_def,
    (erule codec_arm, simp only: Siem_AlertState_to_tag.simps)+, erule codec_end, (case_tac x; simp), simp add: codec_eval)

interpretation AlertSeverity_codec: tag_codec AlertSeverity_to_tag AlertSeverity_from_tag 4
  by (unfold_locales, (case_tac x; simp add: AlertSeverity_from_tag_def), unfold AlertSeverity_from_tag_def,
    (erule codec_arm, simp only: AlertSeverity_to_tag.simps)+, erule codec_end, (case_tac x; simp), simp add: codec_eval)

interpretation DetectionMethod_codec: tag_codec DetectionMethod_to_tag DetectionMethod_from_tag 4
  by (unfold_locales, (case_tac x; simp add: DetectionMethod_from_tag_def), unfold DetectionMethod_from_tag_def,
    (erule codec_arm, simp only: DetectionMethod_to_tag.simps)+, erule codec_end, (case_tac x; simp), simp add: codec_eval)

interpretation IdsProtocol_codec: tag_codec IdsProtocol_to_tag IdsProtocol_from_tag 7
  by (unfold_locales, (case_tac x; simp add: IdsProtocol_from_tag_def), unfold IdsProtocol_from_tag_def,
    (erule codec_arm, simp only: IdsProtocol_to_tag.simps)+, erule codec_end, (case_tac x; simp), simp add: codec_eval)

interpretation IdsAction_codec: tag_codec IdsAction_to_tag IdsAction_from_tag 5
  by (unfold_locales, (case_tac x; simp add: IdsAction_from_tag_def), unfold IdsAction_from_tag_def,
    (erule codec_arm, simp only: IdsAction_to_tag.simps)+, erule codec_end, (case_tac x; simp), simp add: codec_eval)

interpretation Ids_Direction_codec: tag_codec Ids_Direction_to_tag Ids_Direction_from_tag 3
  by (unfold_locales, (case_tac x; simp add: Ids_Direction_from_tag_def), unfold Ids_Direction_from_tag_def,
    (erule codec_arm, simp only: Ids_Direction_to_tag.simps)+, erule codec_end, (case_tac x; simp), simp add: codec_eval)

interpretation ThreatLevel_codec: tag_codec ThreatLevel_to_tag ThreatLevel_from_tag 5
  by (unfold_locales, (case_tac x; simp add: ThreatLevel_from_tag_def), unfold ThreatLevel_from_tag_def,
    (erule codec_arm, simp only: ThreatLevel_to_tag.simps)+, erule codec_end, (case_tac x; simp), simp add: codec_eval)

interpretation ServiceEmulation_codec: tag_codec ServiceEmulation_to_tag ServiceEmulation_from_tag 7
  by (unfold_locales, (case_tac x; simp add: ServiceEmulation_from_tag_def), unfold ServiceEmulation_from_tag_def,
    (erule codec_arm, simp only: ServiceEmulation_to_tag.simps)+, erule codec_end, (case_tac x; simp), simp add: codec_eval)

interpretation InteractionLevel_codec: tag_codec InteractionLevel_to_tag InteractionLevel_from_tag 3
  by (unfold_locales, (case_tac x; simp add: InteractionLevel_from_tag_def), unfold InteractionLevel_from_tag_def,
    (erule codec_arm, simp only: InteractionLevel_to_tag.simps)+, erule codec_end, (case_tac x; simp), simp add: codec_eval)

interpretation HoneypotAlertSeverity_codec: tag_codec HoneypotAlertSeverity_to_tag HoneypotAlertSeverity_from_tag 5
  by (unfold_locales, (case_tac x; simp add: HoneypotAlertSeverity_from_tag_def), unfold HoneypotAlertSeverity_from_tag_def,
    (erule codec_arm, simp only: HoneypotAlertSeverity_to_tag.simps)+, erule codec_end, (case_tac x; simp), simp add: codec_eval)

interpretation AttackerAction_codec: tag_codec AttackerAction_to_tag AttackerAction_from_tag 6
  by (unfold_locales, (case_tac x; simp add: AttackerAction_from_tag_def), unfold AttackerAction_from_tag_def,
    (erule codec_arm, simp only: AttackerAction_to_tag.simps)+, erule codec_end, (case_tac x; simp), simp add: codec_eval)

interpretation Honeypot_ServerState_codec: tag_codec Honeypot_ServerState_to_tag Honeypot_ServerState_from_tag 4
  by (unfold_locales, (case_tac x; simp add: Honeypot_ServerState_from_tag_def), unfold Honeypot_ServerState_from_tag_def,
    (erule codec_arm, simp only: Honeypot_ServerState_to_tag.simps)+, erule codec_end, (case_tac x; simp), simp add: codec_eval)

interpretation DecoyType_codec: tag_codec DecoyType_to_tag DecoyType_from_tag 6
  by (unfold_locales, (case_tac x; simp add: DecoyType_from_tag_def), unfold DecoyType_from_tag_def,
    (erule codec_arm, simp only: DecoyType_to_tag.simps)+, erule codec_end, (case_tac x; simp), simp add: codec_eval)

interpretation TriggerEvent_codec: tag_codec TriggerEvent_to_tag TriggerEvent_from_tag 6
  by (unfold_locales, (case_tac x; simp add: TriggerEvent_from_tag_def), unfold TriggerEvent_from_tag_def,
    (erule codec_arm, simp only: TriggerEvent_to_tag.simps)+, erule codec_end, (case_tac x; simp), simp add: codec_eval)

interpretation AlertPriority_codec: tag_codec AlertPriority_to_tag AlertPriority_from_tag 4
  by (unfold_locales, (case_tac x; simp add: AlertPriority_from_tag_def), unfold AlertPriority_from_tag_def,
    (erule codec_arm, simp only: AlertPriority_to_tag.simps)+, erule codec_end, (case_tac x; simp), simp add: codec_eval)

interpretation DecoyState_codec: tag_codec DecoyState_to_tag DecoyState_from_tag 4
  by (unfold_locales, (case_tac x; simp add: DecoyState_from_tag_def), unfold DecoyState_from_tag_def,
    (erule codec_arm, simp only: DecoyState_to_tag.simps)+, erule codec_end, (case_tac x; simp), simp add: codec_eval)

interpretation ResponseAction_codec: tag_codec ResponseAction_to_tag ResponseAction_from_tag 5
  by (unfold_locales, (case_tac x; simp add: ResponseAction_from_tag_def), unfold ResponseAction_from_tag_def,
    (erule codec_arm, simp only: ResponseAction_to_tag.simps)+, erule codec_end, (case_tac x; simp), simp add: codec_eval)

interpretation Deception_ServerState_codec: tag_codec Deception_ServerState_to_tag Deception_ServerState_from_tag 5
  by (unfold_locales, (case_tac x; simp add: Deception_ServerState_from_tag_def), unfold Deception_ServerState_from_tag_def,
    (erule codec_arm, simp only: Deception_ServerState_to_tag.simps)+, erule codec_end, (case_tac x; simp), simp add: codec_eval)

interpretation TransferDirection_codec: tag_codec TransferDirection_to_tag TransferDirection_from_tag 2
  by (unfold_locales, (case_tac x; simp add: TransferDirection_from_tag_def), unfold TransferDirection_from_tag_def,
    (erule codec_arm, simp only: TransferDirection_to_tag.simps)+, erule codec_end, (case_tac x; simp), simp add: codec_eval)

interpretation MediaType_codec: tag_codec MediaType_to_tag MediaType_from_tag 4
  by (unfold_locales, (case_tac x; simp add: MediaType_from_tag_def), unfold MediaType_from_tag_def,
    (erule codec_arm, simp only: MediaType_to_tag.simps)+, erule codec_end, (case_tac x; simp), simp add: codec_eval)

interpretation ScanResult_codec: tag_codec ScanResult_to_tag ScanResult_from_tag 4
  by (unfold_locales, (case_tac x; simp add: ScanResult_from_tag_def), unfold ScanResult_from_tag_def,
    (erule codec_arm, simp only: ScanResult_to_tag.simps)+, erule codec_end, (case_tac x; simp), simp add: codec_eval)

interpretation Airgap_TransferState_codec: tag_codec Airgap_TransferState_to_tag Airgap_TransferState_from_tag 7
  by (unfold_locales, (case_tac x; simp add: Airgap_TransferState_from_tag_def), unfold Airgap_TransferState_from_tag_def,
    (erule codec_arm, simp only: Airgap_TransferState_to_tag.simps)+, erule codec_end, (case_tac x; simp), simp add: codec_eval)

interpretation ValidationCheck_codec: tag_codec ValidationCheck_to_tag ValidationCheck_from_tag 5
  by (unfold_locales, (case_tac x; simp add: ValidationCheck_from_tag_def), unfold ValidationCheck_from_tag_def,
    (erule codec_arm, simp only: ValidationCheck_to_tag.simps)+, erule codec_end, (case_tac x; simp), simp add: codec_eval)

interpretation Diode_Direction_codec: tag_codec Diode_Direction_to_tag Diode_Direction_from_tag 2
  by (unfold_locales, (case_tac x; simp add: Diode_Direction_from_tag_def), unfold Diode_Direction_from_tag_def,
    (erule codec_arm, simp only: Diode_Direction_to_tag.simps)+, erule codec_end, (case_tac x; simp), simp add: codec_eval)

interpretation DiodeProtocol_codec: tag_codec DiodeProtocol_to_tag DiodeProtocol_from_tag 5
  by (unfold_locales, (case_tac x; simp add: DiodeProtocol_from_tag_def), unfold DiodeProtocol_from_tag_def,
    (erule codec_arm, simp only: DiodeProtocol_to_tag.simps)+, erule codec_end, (case_tac x; simp), simp add: codec_eval)

interpretation Diode_TransferState_codec: tag_codec Diode_TransferState_to_tag Diode_TransferState_from_tag 5
  by (unfold_locales, (case_tac x; simp add: Diode_TransferState_from_tag_def), unfold Diode_TransferState_from_tag_def,
    (erule codec_arm, simp only: Diode_TransferState_to_tag.simps)+, erule codec_end, (case_tac x; simp), simp add: codec_eval)

interpretation ValidationResult_codec: tag_codec ValidationResult_to_tag ValidationResult_from_tag 4
  by (unfold_locales, (case_tac x; simp add: ValidationResult_from_tag_def), unfold ValidationResult_from_tag_def,
    (erule codec_arm, simp only: ValidationResult_to_tag.simps)+, erule codec_end, (case_tac x; simp), simp add: codec_eval)

interpretation IntegrityCheck_codec: tag_codec IntegrityCheck_to_tag IntegrityCheck_from_tag 3
  by (unfold_locales, (case_tac x; simp add: IntegrityCheck_from_tag_def), unfold IntegrityCheck_from_tag_def,
    (erule codec_arm, simp only: IntegrityCheck_to_tag.simps)+, erule codec_end, (case_tac x; simp), simp add: codec_eval)

interpretation Diode_GatewayState_codec: tag_codec Diode_GatewayState_to_tag Diode_GatewayState_from_tag 5
  by (unfold_locales, (case_tac x; simp add: Diode_GatewayState_from_tag_def), unfold Diode_GatewayState_from_tag_def,
    (erule codec_arm, simp only: Diode_GatewayState_to_tag.simps)+, erule codec_end, (case_tac x; simp), simp add: codec_eval)

end
