(* ===== verification/Pki_Types.thy ===== *)
theory Pki_Types
  imports Tag_Codec
begin

text \<open>
  The types of 5 modules of the Rust crate, under \<open>bindings/rust/src\<close>.

  \<^item> \<open>ca.rs\<close>: \<open>CertType\<close>, \<open>KeyAlgorithm\<close>,
    \<open>SignatureAlgorithm\<close>, \<open>CertState\<close>, \<open>RevocationReason\<close>,
    \<open>CrlStatus\<close>, \<open>OcspStatus\<close>, \<open>Extension\<close>,
    \<open>KeyUsageBit\<close>.
  \<^item> \<open>ocsp.rs\<close>: \<open>CertStatus\<close>, \<open>ResponseStatus\<close>,
    \<open>HashAlgorithm\<close>, \<open>ResponderState\<close>.
  \<^item> \<open>ctlog.rs\<close>: \<open>LogEntryType\<close>, \<open>SignatureType\<close>,
    \<open>MerkleLeafType\<close>, \<open>SubmissionStatus\<close>,
    \<open>VerificationResult\<close>, \<open>ServerState\<close>.
  \<^item> \<open>kms.rs\<close>: \<open>ObjectType\<close>, \<open>Operation\<close>,
    \<open>KeyState\<close>, \<open>KmsAlgorithm\<close>.
  \<^item> \<open>pqc.rs\<close>: \<open>PqcAlgorithm\<close>, \<open>NistLevel\<close>,
    \<open>Operation\<close>, \<open>HybridMode\<close>, \<open>AlgorithmCategory\<close>,
    \<open>KeyState\<close>.

  The \<open>Display\<close> implementations and the \<open>ALL\<close> arrays of these modules are not modelled.
\<close>

definition CA_PORT :: "u16" where
  "CA_PORT = 8443"

section \<open>\<open>ca::CertType\<close>\<close>

datatype (plugins only: code) CertType =
    Root
  | Intermediate
  | EndEntity
  | CrossSigned
  | CodeSigning
  | EmailProtection
  | OcspSigning

definition CertType_from_tag :: "u8 \<Rightarrow> CertType option" where
  "CertType_from_tag tag =
     (if tag = 0 then Some CertType.Root
      else if tag = 1 then Some CertType.Intermediate
      else if tag = 2 then Some CertType.EndEntity
      else if tag = 3 then Some CertType.CrossSigned
      else if tag = 4 then Some CertType.CodeSigning
      else if tag = 5 then Some CertType.EmailProtection
      else if tag = 6 then Some CertType.OcspSigning
      else option.None)"

primrec CertType_to_tag :: "CertType \<Rightarrow> u8" where
  "CertType_to_tag CertType.Root = 0"
| "CertType_to_tag CertType.Intermediate = 1"
| "CertType_to_tag CertType.EndEntity = 2"
| "CertType_to_tag CertType.CrossSigned = 3"
| "CertType_to_tag CertType.CodeSigning = 4"
| "CertType_to_tag CertType.EmailProtection = 5"
| "CertType_to_tag CertType.OcspSigning = 6"

definition CertType_is_ca :: "CertType \<Rightarrow> bool" where
  "CertType_is_ca self =
     (case self of
      CertType.Root \<Rightarrow> True
    | CertType.Intermediate \<Rightarrow> True
    | CertType.CrossSigned \<Rightarrow> True
    | _ \<Rightarrow> False)"

section \<open>\<open>ca::KeyAlgorithm\<close>\<close>

datatype (plugins only: code) KeyAlgorithm =
    Rsa2048
  | Rsa4096
  | EcdsaP256
  | EcdsaP384
  | Ed25519
  | Ed448

definition KeyAlgorithm_from_tag :: "u8 \<Rightarrow> KeyAlgorithm option" where
  "KeyAlgorithm_from_tag tag =
     (if tag = 0 then Some KeyAlgorithm.Rsa2048
      else if tag = 1 then Some KeyAlgorithm.Rsa4096
      else if tag = 2 then Some KeyAlgorithm.EcdsaP256
      else if tag = 3 then Some KeyAlgorithm.EcdsaP384
      else if tag = 4 then Some KeyAlgorithm.Ed25519
      else if tag = 5 then Some KeyAlgorithm.Ed448
      else option.None)"

primrec KeyAlgorithm_to_tag :: "KeyAlgorithm \<Rightarrow> u8" where
  "KeyAlgorithm_to_tag KeyAlgorithm.Rsa2048 = 0"
| "KeyAlgorithm_to_tag KeyAlgorithm.Rsa4096 = 1"
| "KeyAlgorithm_to_tag KeyAlgorithm.EcdsaP256 = 2"
| "KeyAlgorithm_to_tag KeyAlgorithm.EcdsaP384 = 3"
| "KeyAlgorithm_to_tag KeyAlgorithm.Ed25519 = 4"
| "KeyAlgorithm_to_tag KeyAlgorithm.Ed448 = 5"

definition KeyAlgorithm_is_rsa :: "KeyAlgorithm \<Rightarrow> bool" where
  "KeyAlgorithm_is_rsa self =
     (case self of
      KeyAlgorithm.Rsa2048 \<Rightarrow> True
    | KeyAlgorithm.Rsa4096 \<Rightarrow> True
    | _ \<Rightarrow> False)"

definition KeyAlgorithm_is_elliptic_curve :: "KeyAlgorithm \<Rightarrow> bool" where
  "KeyAlgorithm_is_elliptic_curve self =
     (case self of
      KeyAlgorithm.EcdsaP256 \<Rightarrow> True
    | KeyAlgorithm.EcdsaP384 \<Rightarrow> True
    | KeyAlgorithm.Ed25519 \<Rightarrow> True
    | KeyAlgorithm.Ed448 \<Rightarrow> True
    | _ \<Rightarrow> False)"

section \<open>\<open>ca::SignatureAlgorithm\<close>\<close>

datatype (plugins only: code) SignatureAlgorithm =
    Sha256WithRsa
  | Sha384WithRsa
  | Sha512WithRsa
  | Sha256WithEcdsa
  | Sha384WithEcdsa
  | PureEd25519
  | PureEd448

definition SignatureAlgorithm_from_tag :: "u8 \<Rightarrow> SignatureAlgorithm option" where
  "SignatureAlgorithm_from_tag tag =
     (if tag = 0 then Some SignatureAlgorithm.Sha256WithRsa
      else if tag = 1 then Some SignatureAlgorithm.Sha384WithRsa
      else if tag = 2 then Some SignatureAlgorithm.Sha512WithRsa
      else if tag = 3 then Some SignatureAlgorithm.Sha256WithEcdsa
      else if tag = 4 then Some SignatureAlgorithm.Sha384WithEcdsa
      else if tag = 5 then Some SignatureAlgorithm.PureEd25519
      else if tag = 6 then Some SignatureAlgorithm.PureEd448
      else option.None)"

primrec SignatureAlgorithm_to_tag :: "SignatureAlgorithm \<Rightarrow> u8" where
  "SignatureAlgorithm_to_tag SignatureAlgorithm.Sha256WithRsa = 0"
| "SignatureAlgorithm_to_tag SignatureAlgorithm.Sha384WithRsa = 1"
| "SignatureAlgorithm_to_tag SignatureAlgorithm.Sha512WithRsa = 2"
| "SignatureAlgorithm_to_tag SignatureAlgorithm.Sha256WithEcdsa = 3"
| "SignatureAlgorithm_to_tag SignatureAlgorithm.Sha384WithEcdsa = 4"
| "SignatureAlgorithm_to_tag SignatureAlgorithm.PureEd25519 = 5"
| "SignatureAlgorithm_to_tag SignatureAlgorithm.PureEd448 = 6"

section \<open>\<open>ca::CertState\<close>\<close>

datatype (plugins only: code) CertState =
    Pending
  | Active
  | Revoked
  | Expired
  | Suspended

definition CertState_from_tag :: "u8 \<Rightarrow> CertState option" where
  "CertState_from_tag tag =
     (if tag = 0 then Some CertState.Pending
      else if tag = 1 then Some CertState.Active
      else if tag = 2 then Some CertState.Revoked
      else if tag = 3 then Some CertState.Expired
      else if tag = 4 then Some CertState.Suspended
      else option.None)"

primrec CertState_to_tag :: "CertState \<Rightarrow> u8" where
  "CertState_to_tag CertState.Pending = 0"
| "CertState_to_tag CertState.Active = 1"
| "CertState_to_tag CertState.Revoked = 2"
| "CertState_to_tag CertState.Expired = 3"
| "CertState_to_tag CertState.Suspended = 4"

definition CertState_is_usable :: "CertState \<Rightarrow> bool" where
  "CertState_is_usable self =
     (case self of
      CertState.Active \<Rightarrow> True
    | _ \<Rightarrow> False)"

section \<open>\<open>ca::RevocationReason\<close>\<close>

datatype (plugins only: code) RevocationReason =
    Unspecified
  | KeyCompromise
  | CaCompromise
  | AffiliationChanged
  | Superseded
  | CessationOfOperation
  | CertificateHold

definition RevocationReason_from_tag :: "u8 \<Rightarrow> RevocationReason option" where
  "RevocationReason_from_tag tag =
     (if tag = 0 then Some RevocationReason.Unspecified
      else if tag = 1 then Some RevocationReason.KeyCompromise
      else if tag = 2 then Some RevocationReason.CaCompromise
      else if tag = 3 then Some RevocationReason.AffiliationChanged
      else if tag = 4 then Some RevocationReason.Superseded
      else if tag = 5 then Some RevocationReason.CessationOfOperation
      else if tag = 6 then Some RevocationReason.CertificateHold
      else option.None)"

primrec RevocationReason_to_tag :: "RevocationReason \<Rightarrow> u8" where
  "RevocationReason_to_tag RevocationReason.Unspecified = 0"
| "RevocationReason_to_tag RevocationReason.KeyCompromise = 1"
| "RevocationReason_to_tag RevocationReason.CaCompromise = 2"
| "RevocationReason_to_tag RevocationReason.AffiliationChanged = 3"
| "RevocationReason_to_tag RevocationReason.Superseded = 4"
| "RevocationReason_to_tag RevocationReason.CessationOfOperation = 5"
| "RevocationReason_to_tag RevocationReason.CertificateHold = 6"

definition RevocationReason_is_security_incident :: "RevocationReason \<Rightarrow> bool" where
  "RevocationReason_is_security_incident self =
     (case self of
      RevocationReason.KeyCompromise \<Rightarrow> True
    | RevocationReason.CaCompromise \<Rightarrow> True
    | _ \<Rightarrow> False)"

section \<open>\<open>ca::CrlStatus\<close>\<close>

datatype (plugins only: code) CrlStatus =
    Current
  | CrlExpired
  | CrlPending
  | CrlError

definition CrlStatus_from_tag :: "u8 \<Rightarrow> CrlStatus option" where
  "CrlStatus_from_tag tag =
     (if tag = 0 then Some CrlStatus.Current
      else if tag = 1 then Some CrlStatus.CrlExpired
      else if tag = 2 then Some CrlStatus.CrlPending
      else if tag = 3 then Some CrlStatus.CrlError
      else option.None)"

primrec CrlStatus_to_tag :: "CrlStatus \<Rightarrow> u8" where
  "CrlStatus_to_tag CrlStatus.Current = 0"
| "CrlStatus_to_tag CrlStatus.CrlExpired = 1"
| "CrlStatus_to_tag CrlStatus.CrlPending = 2"
| "CrlStatus_to_tag CrlStatus.CrlError = 3"

section \<open>\<open>ca::OcspStatus\<close>\<close>

datatype (plugins only: code) OcspStatus =
    Good
  | OcspRevoked
  | Unknown
  | Unavailable

definition OcspStatus_from_tag :: "u8 \<Rightarrow> OcspStatus option" where
  "OcspStatus_from_tag tag =
     (if tag = 0 then Some OcspStatus.Good
      else if tag = 1 then Some OcspStatus.OcspRevoked
      else if tag = 2 then Some OcspStatus.Unknown
      else if tag = 3 then Some OcspStatus.Unavailable
      else option.None)"

primrec OcspStatus_to_tag :: "OcspStatus \<Rightarrow> u8" where
  "OcspStatus_to_tag OcspStatus.Good = 0"
| "OcspStatus_to_tag OcspStatus.OcspRevoked = 1"
| "OcspStatus_to_tag OcspStatus.Unknown = 2"
| "OcspStatus_to_tag OcspStatus.Unavailable = 3"

section \<open>\<open>ca::Extension\<close>\<close>

datatype (plugins only: code) Extension =
    BasicConstraints
  | KeyUsage
  | ExtKeyUsage
  | SubjectAltName
  | AuthorityInfoAccess
  | CrlDistributionPoints

definition Extension_from_tag :: "u8 \<Rightarrow> Extension option" where
  "Extension_from_tag tag =
     (if tag = 0 then Some Extension.BasicConstraints
      else if tag = 1 then Some Extension.KeyUsage
      else if tag = 2 then Some Extension.ExtKeyUsage
      else if tag = 3 then Some Extension.SubjectAltName
      else if tag = 4 then Some Extension.AuthorityInfoAccess
      else if tag = 5 then Some Extension.CrlDistributionPoints
      else option.None)"

primrec Extension_to_tag :: "Extension \<Rightarrow> u8" where
  "Extension_to_tag Extension.BasicConstraints = 0"
| "Extension_to_tag Extension.KeyUsage = 1"
| "Extension_to_tag Extension.ExtKeyUsage = 2"
| "Extension_to_tag Extension.SubjectAltName = 3"
| "Extension_to_tag Extension.AuthorityInfoAccess = 4"
| "Extension_to_tag Extension.CrlDistributionPoints = 5"

section \<open>\<open>ca::KeyUsageBit\<close>\<close>

datatype (plugins only: code) KeyUsageBit =
    DigitalSignature
  | NonRepudiation
  | KeyEncipherment
  | DataEncipherment
  | KeyAgreement
  | KeyCertSign
  | CrlSign
  | EncipherOnly
  | DecipherOnly

definition KeyUsageBit_from_tag :: "u8 \<Rightarrow> KeyUsageBit option" where
  "KeyUsageBit_from_tag tag =
     (if tag = 0 then Some KeyUsageBit.DigitalSignature
      else if tag = 1 then Some KeyUsageBit.NonRepudiation
      else if tag = 2 then Some KeyUsageBit.KeyEncipherment
      else if tag = 3 then Some KeyUsageBit.DataEncipherment
      else if tag = 4 then Some KeyUsageBit.KeyAgreement
      else if tag = 5 then Some KeyUsageBit.KeyCertSign
      else if tag = 6 then Some KeyUsageBit.CrlSign
      else if tag = 7 then Some KeyUsageBit.EncipherOnly
      else if tag = 8 then Some KeyUsageBit.DecipherOnly
      else option.None)"

primrec KeyUsageBit_to_tag :: "KeyUsageBit \<Rightarrow> u8" where
  "KeyUsageBit_to_tag KeyUsageBit.DigitalSignature = 0"
| "KeyUsageBit_to_tag KeyUsageBit.NonRepudiation = 1"
| "KeyUsageBit_to_tag KeyUsageBit.KeyEncipherment = 2"
| "KeyUsageBit_to_tag KeyUsageBit.DataEncipherment = 3"
| "KeyUsageBit_to_tag KeyUsageBit.KeyAgreement = 4"
| "KeyUsageBit_to_tag KeyUsageBit.KeyCertSign = 5"
| "KeyUsageBit_to_tag KeyUsageBit.CrlSign = 6"
| "KeyUsageBit_to_tag KeyUsageBit.EncipherOnly = 7"
| "KeyUsageBit_to_tag KeyUsageBit.DecipherOnly = 8"

definition OCSP_PORT :: "u16" where
  "OCSP_PORT = 80"

section \<open>\<open>ocsp::CertStatus\<close>\<close>

datatype (plugins only: code) CertStatus =
    Good
  | Revoked
  | Unknown

definition CertStatus_from_tag :: "u8 \<Rightarrow> CertStatus option" where
  "CertStatus_from_tag tag =
     (if tag = 0 then Some CertStatus.Good
      else if tag = 1 then Some CertStatus.Revoked
      else if tag = 2 then Some CertStatus.Unknown
      else option.None)"

primrec CertStatus_to_tag :: "CertStatus \<Rightarrow> u8" where
  "CertStatus_to_tag CertStatus.Good = 0"
| "CertStatus_to_tag CertStatus.Revoked = 1"
| "CertStatus_to_tag CertStatus.Unknown = 2"

section \<open>\<open>ocsp::ResponseStatus\<close>\<close>

datatype (plugins only: code) ResponseStatus =
    Successful
  | MalformedRequest
  | InternalError
  | TryLater
  | SigRequired
  | Unauthorized

definition ResponseStatus_from_tag :: "u8 \<Rightarrow> ResponseStatus option" where
  "ResponseStatus_from_tag tag =
     (if tag = 0 then Some ResponseStatus.Successful
      else if tag = 1 then Some ResponseStatus.MalformedRequest
      else if tag = 2 then Some ResponseStatus.InternalError
      else if tag = 3 then Some ResponseStatus.TryLater
      else if tag = 4 then Some ResponseStatus.SigRequired
      else if tag = 5 then Some ResponseStatus.Unauthorized
      else option.None)"

primrec ResponseStatus_to_tag :: "ResponseStatus \<Rightarrow> u8" where
  "ResponseStatus_to_tag ResponseStatus.Successful = 0"
| "ResponseStatus_to_tag ResponseStatus.MalformedRequest = 1"
| "ResponseStatus_to_tag ResponseStatus.InternalError = 2"
| "ResponseStatus_to_tag ResponseStatus.TryLater = 3"
| "ResponseStatus_to_tag ResponseStatus.SigRequired = 4"
| "ResponseStatus_to_tag ResponseStatus.Unauthorized = 5"

section \<open>\<open>ocsp::HashAlgorithm\<close>\<close>

datatype (plugins only: code) HashAlgorithm =
    Sha1
  | Sha256
  | Sha384
  | Sha512

definition HashAlgorithm_from_tag :: "u8 \<Rightarrow> HashAlgorithm option" where
  "HashAlgorithm_from_tag tag =
     (if tag = 0 then Some HashAlgorithm.Sha1
      else if tag = 1 then Some HashAlgorithm.Sha256
      else if tag = 2 then Some HashAlgorithm.Sha384
      else if tag = 3 then Some HashAlgorithm.Sha512
      else option.None)"

primrec HashAlgorithm_to_tag :: "HashAlgorithm \<Rightarrow> u8" where
  "HashAlgorithm_to_tag HashAlgorithm.Sha1 = 0"
| "HashAlgorithm_to_tag HashAlgorithm.Sha256 = 1"
| "HashAlgorithm_to_tag HashAlgorithm.Sha384 = 2"
| "HashAlgorithm_to_tag HashAlgorithm.Sha512 = 3"

section \<open>\<open>ocsp::ResponderState\<close>\<close>

datatype (plugins only: code) Ocsp_ResponderState =
    Idle
  | Ready
  | Processing
  | Signing
  | Closing

definition Ocsp_ResponderState_from_tag :: "u8 \<Rightarrow> Ocsp_ResponderState option" where
  "Ocsp_ResponderState_from_tag tag =
     (if tag = 0 then Some Ocsp_ResponderState.Idle
      else if tag = 1 then Some Ocsp_ResponderState.Ready
      else if tag = 2 then Some Ocsp_ResponderState.Processing
      else if tag = 3 then Some Ocsp_ResponderState.Signing
      else if tag = 4 then Some Ocsp_ResponderState.Closing
      else option.None)"

primrec Ocsp_ResponderState_to_tag :: "Ocsp_ResponderState \<Rightarrow> u8" where
  "Ocsp_ResponderState_to_tag Ocsp_ResponderState.Idle = 0"
| "Ocsp_ResponderState_to_tag Ocsp_ResponderState.Ready = 1"
| "Ocsp_ResponderState_to_tag Ocsp_ResponderState.Processing = 2"
| "Ocsp_ResponderState_to_tag Ocsp_ResponderState.Signing = 3"
| "Ocsp_ResponderState_to_tag Ocsp_ResponderState.Closing = 4"

section \<open>\<open>ctlog::LogEntryType\<close>\<close>

datatype (plugins only: code) LogEntryType =
    X509Entry
  | PrecertEntry

definition LogEntryType_from_tag :: "u8 \<Rightarrow> LogEntryType option" where
  "LogEntryType_from_tag tag =
     (if tag = 0 then Some LogEntryType.X509Entry
      else if tag = 1 then Some LogEntryType.PrecertEntry
      else option.None)"

primrec LogEntryType_to_tag :: "LogEntryType \<Rightarrow> u8" where
  "LogEntryType_to_tag LogEntryType.X509Entry = 0"
| "LogEntryType_to_tag LogEntryType.PrecertEntry = 1"

section \<open>\<open>ctlog::SignatureType\<close>\<close>

datatype (plugins only: code) SignatureType =
    CertificateTimestamp
  | TreeHash

definition SignatureType_from_tag :: "u8 \<Rightarrow> SignatureType option" where
  "SignatureType_from_tag tag =
     (if tag = 0 then Some SignatureType.CertificateTimestamp
      else if tag = 1 then Some SignatureType.TreeHash
      else option.None)"

primrec SignatureType_to_tag :: "SignatureType \<Rightarrow> u8" where
  "SignatureType_to_tag SignatureType.CertificateTimestamp = 0"
| "SignatureType_to_tag SignatureType.TreeHash = 1"

section \<open>\<open>ctlog::MerkleLeafType\<close>\<close>

datatype (plugins only: code) MerkleLeafType =
    TimestampedEntry

definition MerkleLeafType_from_tag :: "u8 \<Rightarrow> MerkleLeafType option" where
  "MerkleLeafType_from_tag tag =
     (if tag = 0 then Some MerkleLeafType.TimestampedEntry
      else option.None)"

primrec MerkleLeafType_to_tag :: "MerkleLeafType \<Rightarrow> u8" where
  "MerkleLeafType_to_tag MerkleLeafType.TimestampedEntry = 0"

section \<open>\<open>ctlog::SubmissionStatus\<close>\<close>

datatype (plugins only: code) SubmissionStatus =
    Accepted
  | Duplicate
  | RateLimited
  | Rejected
  | InvalidChain
  | UnknownAnchor

definition SubmissionStatus_from_tag :: "u8 \<Rightarrow> SubmissionStatus option" where
  "SubmissionStatus_from_tag tag =
     (if tag = 0 then Some SubmissionStatus.Accepted
      else if tag = 1 then Some SubmissionStatus.Duplicate
      else if tag = 2 then Some SubmissionStatus.RateLimited
      else if tag = 3 then Some SubmissionStatus.Rejected
      else if tag = 4 then Some SubmissionStatus.InvalidChain
      else if tag = 5 then Some SubmissionStatus.UnknownAnchor
      else option.None)"

primrec SubmissionStatus_to_tag :: "SubmissionStatus \<Rightarrow> u8" where
  "SubmissionStatus_to_tag SubmissionStatus.Accepted = 0"
| "SubmissionStatus_to_tag SubmissionStatus.Duplicate = 1"
| "SubmissionStatus_to_tag SubmissionStatus.RateLimited = 2"
| "SubmissionStatus_to_tag SubmissionStatus.Rejected = 3"
| "SubmissionStatus_to_tag SubmissionStatus.InvalidChain = 4"
| "SubmissionStatus_to_tag SubmissionStatus.UnknownAnchor = 5"

section \<open>\<open>ctlog::VerificationResult\<close>\<close>

datatype (plugins only: code) VerificationResult =
    ValidProof
  | InvalidProof
  | InconsistentTree
  | StaleSth

definition VerificationResult_from_tag :: "u8 \<Rightarrow> VerificationResult option" where
  "VerificationResult_from_tag tag =
     (if tag = 0 then Some VerificationResult.ValidProof
      else if tag = 1 then Some VerificationResult.InvalidProof
      else if tag = 2 then Some VerificationResult.InconsistentTree
      else if tag = 3 then Some VerificationResult.StaleSth
      else option.None)"

primrec VerificationResult_to_tag :: "VerificationResult \<Rightarrow> u8" where
  "VerificationResult_to_tag VerificationResult.ValidProof = 0"
| "VerificationResult_to_tag VerificationResult.InvalidProof = 1"
| "VerificationResult_to_tag VerificationResult.InconsistentTree = 2"
| "VerificationResult_to_tag VerificationResult.StaleSth = 3"

section \<open>\<open>ctlog::ServerState\<close>\<close>

datatype (plugins only: code) Ctlog_ServerState =
    Idle
  | Active
  | Merging
  | Signing
  | Shutdown

definition Ctlog_ServerState_from_tag :: "u8 \<Rightarrow> Ctlog_ServerState option" where
  "Ctlog_ServerState_from_tag tag =
     (if tag = 0 then Some Ctlog_ServerState.Idle
      else if tag = 1 then Some Ctlog_ServerState.Active
      else if tag = 2 then Some Ctlog_ServerState.Merging
      else if tag = 3 then Some Ctlog_ServerState.Signing
      else if tag = 4 then Some Ctlog_ServerState.Shutdown
      else option.None)"

primrec Ctlog_ServerState_to_tag :: "Ctlog_ServerState \<Rightarrow> u8" where
  "Ctlog_ServerState_to_tag Ctlog_ServerState.Idle = 0"
| "Ctlog_ServerState_to_tag Ctlog_ServerState.Active = 1"
| "Ctlog_ServerState_to_tag Ctlog_ServerState.Merging = 2"
| "Ctlog_ServerState_to_tag Ctlog_ServerState.Signing = 3"
| "Ctlog_ServerState_to_tag Ctlog_ServerState.Shutdown = 4"

definition KMS_PORT :: "u16" where
  "KMS_PORT = 5696"

section \<open>\<open>kms::ObjectType\<close>\<close>

datatype (plugins only: code) Kms_ObjectType =
    SymmetricKey
  | PublicKey
  | PrivateKey
  | SecretData
  | Certificate
  | OpaqueData

definition Kms_ObjectType_from_tag :: "u8 \<Rightarrow> Kms_ObjectType option" where
  "Kms_ObjectType_from_tag tag =
     (if tag = 0 then Some Kms_ObjectType.SymmetricKey
      else if tag = 1 then Some Kms_ObjectType.PublicKey
      else if tag = 2 then Some Kms_ObjectType.PrivateKey
      else if tag = 3 then Some Kms_ObjectType.SecretData
      else if tag = 4 then Some Kms_ObjectType.Certificate
      else if tag = 5 then Some Kms_ObjectType.OpaqueData
      else option.None)"

primrec Kms_ObjectType_to_tag :: "Kms_ObjectType \<Rightarrow> u8" where
  "Kms_ObjectType_to_tag Kms_ObjectType.SymmetricKey = 0"
| "Kms_ObjectType_to_tag Kms_ObjectType.PublicKey = 1"
| "Kms_ObjectType_to_tag Kms_ObjectType.PrivateKey = 2"
| "Kms_ObjectType_to_tag Kms_ObjectType.SecretData = 3"
| "Kms_ObjectType_to_tag Kms_ObjectType.Certificate = 4"
| "Kms_ObjectType_to_tag Kms_ObjectType.OpaqueData = 5"

section \<open>\<open>kms::Operation\<close>\<close>

datatype (plugins only: code) Kms_Operation =
    Create
  | Get
  | Activate
  | Revoke
  | Destroy
  | Locate
  | Register
  | Rekey
  | Encrypt
  | Decrypt
  | Sign
  | Verify
  | Wrap
  | Unwrap
  | Mac

definition Kms_Operation_from_tag :: "u8 \<Rightarrow> Kms_Operation option" where
  "Kms_Operation_from_tag tag =
     (if tag = 0 then Some Kms_Operation.Create
      else if tag = 1 then Some Kms_Operation.Get
      else if tag = 2 then Some Kms_Operation.Activate
      else if tag = 3 then Some Kms_Operation.Revoke
      else if tag = 4 then Some Kms_Operation.Destroy
      else if tag = 5 then Some Kms_Operation.Locate
      else if tag = 6 then Some Kms_Operation.Register
      else if tag = 7 then Some Kms_Operation.Rekey
      else if tag = 8 then Some Kms_Operation.Encrypt
      else if tag = 9 then Some Kms_Operation.Decrypt
      else if tag = 10 then Some Kms_Operation.Sign
      else if tag = 11 then Some Kms_Operation.Verify
      else if tag = 12 then Some Kms_Operation.Wrap
      else if tag = 13 then Some Kms_Operation.Unwrap
      else if tag = 14 then Some Kms_Operation.Mac
      else option.None)"

primrec Kms_Operation_to_tag :: "Kms_Operation \<Rightarrow> u8" where
  "Kms_Operation_to_tag Kms_Operation.Create = 0"
| "Kms_Operation_to_tag Kms_Operation.Get = 1"
| "Kms_Operation_to_tag Kms_Operation.Activate = 2"
| "Kms_Operation_to_tag Kms_Operation.Revoke = 3"
| "Kms_Operation_to_tag Kms_Operation.Destroy = 4"
| "Kms_Operation_to_tag Kms_Operation.Locate = 5"
| "Kms_Operation_to_tag Kms_Operation.Register = 6"
| "Kms_Operation_to_tag Kms_Operation.Rekey = 7"
| "Kms_Operation_to_tag Kms_Operation.Encrypt = 8"
| "Kms_Operation_to_tag Kms_Operation.Decrypt = 9"
| "Kms_Operation_to_tag Kms_Operation.Sign = 10"
| "Kms_Operation_to_tag Kms_Operation.Verify = 11"
| "Kms_Operation_to_tag Kms_Operation.Wrap = 12"
| "Kms_Operation_to_tag Kms_Operation.Unwrap = 13"
| "Kms_Operation_to_tag Kms_Operation.Mac = 14"

definition Kms_Operation_is_crypto_op :: "Kms_Operation \<Rightarrow> bool" where
  "Kms_Operation_is_crypto_op self =
     (case self of
      Kms_Operation.Encrypt \<Rightarrow> True
    | Kms_Operation.Decrypt \<Rightarrow> True
    | Kms_Operation.Sign \<Rightarrow> True
    | Kms_Operation.Verify \<Rightarrow> True
    | Kms_Operation.Wrap \<Rightarrow> True
    | Kms_Operation.Unwrap \<Rightarrow> True
    | Kms_Operation.Mac \<Rightarrow> True
    | _ \<Rightarrow> False)"

definition Kms_Operation_is_lifecycle_op :: "Kms_Operation \<Rightarrow> bool" where
  "Kms_Operation_is_lifecycle_op self =
     (case self of
      Kms_Operation.Create \<Rightarrow> True
    | Kms_Operation.Activate \<Rightarrow> True
    | Kms_Operation.Revoke \<Rightarrow> True
    | Kms_Operation.Destroy \<Rightarrow> True
    | Kms_Operation.Rekey \<Rightarrow> True
    | _ \<Rightarrow> False)"

section \<open>\<open>kms::KeyState\<close>\<close>

datatype (plugins only: code) Kms_KeyState =
    PreActive
  | Active
  | Deactivated
  | Compromised
  | Destroyed
  | DestroyedCompromised

definition Kms_KeyState_from_tag :: "u8 \<Rightarrow> Kms_KeyState option" where
  "Kms_KeyState_from_tag tag =
     (if tag = 0 then Some Kms_KeyState.PreActive
      else if tag = 1 then Some Kms_KeyState.Active
      else if tag = 2 then Some Kms_KeyState.Deactivated
      else if tag = 3 then Some Kms_KeyState.Compromised
      else if tag = 4 then Some Kms_KeyState.Destroyed
      else if tag = 5 then Some Kms_KeyState.DestroyedCompromised
      else option.None)"

primrec Kms_KeyState_to_tag :: "Kms_KeyState \<Rightarrow> u8" where
  "Kms_KeyState_to_tag Kms_KeyState.PreActive = 0"
| "Kms_KeyState_to_tag Kms_KeyState.Active = 1"
| "Kms_KeyState_to_tag Kms_KeyState.Deactivated = 2"
| "Kms_KeyState_to_tag Kms_KeyState.Compromised = 3"
| "Kms_KeyState_to_tag Kms_KeyState.Destroyed = 4"
| "Kms_KeyState_to_tag Kms_KeyState.DestroyedCompromised = 5"

definition Kms_KeyState_is_usable :: "Kms_KeyState \<Rightarrow> bool" where
  "Kms_KeyState_is_usable self =
     (case self of
      Kms_KeyState.Active \<Rightarrow> True
    | _ \<Rightarrow> False)"

section \<open>\<open>kms::KmsAlgorithm\<close>\<close>

datatype (plugins only: code) KmsAlgorithm =
    Aes128
  | Aes256
  | Rsa2048
  | Rsa4096
  | EcdsaP256
  | EcdsaP384
  | Ed25519
  | Chacha20Poly1305
  | HmacSha256

definition KmsAlgorithm_from_tag :: "u8 \<Rightarrow> KmsAlgorithm option" where
  "KmsAlgorithm_from_tag tag =
     (if tag = 0 then Some KmsAlgorithm.Aes128
      else if tag = 1 then Some KmsAlgorithm.Aes256
      else if tag = 2 then Some KmsAlgorithm.Rsa2048
      else if tag = 3 then Some KmsAlgorithm.Rsa4096
      else if tag = 4 then Some KmsAlgorithm.EcdsaP256
      else if tag = 5 then Some KmsAlgorithm.EcdsaP384
      else if tag = 6 then Some KmsAlgorithm.Ed25519
      else if tag = 7 then Some KmsAlgorithm.Chacha20Poly1305
      else if tag = 8 then Some KmsAlgorithm.HmacSha256
      else option.None)"

primrec KmsAlgorithm_to_tag :: "KmsAlgorithm \<Rightarrow> u8" where
  "KmsAlgorithm_to_tag KmsAlgorithm.Aes128 = 0"
| "KmsAlgorithm_to_tag KmsAlgorithm.Aes256 = 1"
| "KmsAlgorithm_to_tag KmsAlgorithm.Rsa2048 = 2"
| "KmsAlgorithm_to_tag KmsAlgorithm.Rsa4096 = 3"
| "KmsAlgorithm_to_tag KmsAlgorithm.EcdsaP256 = 4"
| "KmsAlgorithm_to_tag KmsAlgorithm.EcdsaP384 = 5"
| "KmsAlgorithm_to_tag KmsAlgorithm.Ed25519 = 6"
| "KmsAlgorithm_to_tag KmsAlgorithm.Chacha20Poly1305 = 7"
| "KmsAlgorithm_to_tag KmsAlgorithm.HmacSha256 = 8"

section \<open>\<open>pqc::PqcAlgorithm\<close>\<close>

datatype (plugins only: code) PqcAlgorithm =
    CrystalsKyber
  | CrystalsDilithium
  | Falcon
  | SphincsPlus
  | ClassicMceliece
  | Bike
  | Hqc
  | Frodokem

definition PqcAlgorithm_from_tag :: "u8 \<Rightarrow> PqcAlgorithm option" where
  "PqcAlgorithm_from_tag tag =
     (if tag = 0 then Some PqcAlgorithm.CrystalsKyber
      else if tag = 1 then Some PqcAlgorithm.CrystalsDilithium
      else if tag = 2 then Some PqcAlgorithm.Falcon
      else if tag = 3 then Some PqcAlgorithm.SphincsPlus
      else if tag = 4 then Some PqcAlgorithm.ClassicMceliece
      else if tag = 5 then Some PqcAlgorithm.Bike
      else if tag = 6 then Some PqcAlgorithm.Hqc
      else if tag = 7 then Some PqcAlgorithm.Frodokem
      else option.None)"

primrec PqcAlgorithm_to_tag :: "PqcAlgorithm \<Rightarrow> u8" where
  "PqcAlgorithm_to_tag PqcAlgorithm.CrystalsKyber = 0"
| "PqcAlgorithm_to_tag PqcAlgorithm.CrystalsDilithium = 1"
| "PqcAlgorithm_to_tag PqcAlgorithm.Falcon = 2"
| "PqcAlgorithm_to_tag PqcAlgorithm.SphincsPlus = 3"
| "PqcAlgorithm_to_tag PqcAlgorithm.ClassicMceliece = 4"
| "PqcAlgorithm_to_tag PqcAlgorithm.Bike = 5"
| "PqcAlgorithm_to_tag PqcAlgorithm.Hqc = 6"
| "PqcAlgorithm_to_tag PqcAlgorithm.Frodokem = 7"

definition PqcAlgorithm_is_kem :: "PqcAlgorithm \<Rightarrow> bool" where
  "PqcAlgorithm_is_kem self =
     (case self of
      PqcAlgorithm.CrystalsKyber \<Rightarrow> True
    | PqcAlgorithm.ClassicMceliece \<Rightarrow> True
    | PqcAlgorithm.Bike \<Rightarrow> True
    | PqcAlgorithm.Hqc \<Rightarrow> True
    | PqcAlgorithm.Frodokem \<Rightarrow> True
    | _ \<Rightarrow> False)"

definition PqcAlgorithm_is_signature :: "PqcAlgorithm \<Rightarrow> bool" where
  "PqcAlgorithm_is_signature self =
     (case self of
      PqcAlgorithm.CrystalsDilithium \<Rightarrow> True
    | PqcAlgorithm.Falcon \<Rightarrow> True
    | PqcAlgorithm.SphincsPlus \<Rightarrow> True
    | _ \<Rightarrow> False)"

section \<open>\<open>pqc::NistLevel\<close>\<close>

datatype (plugins only: code) NistLevel =
    Nist1
  | Nist2
  | Nist3
  | Nist4
  | Nist5

definition NistLevel_from_tag :: "u8 \<Rightarrow> NistLevel option" where
  "NistLevel_from_tag tag =
     (if tag = 0 then Some NistLevel.Nist1
      else if tag = 1 then Some NistLevel.Nist2
      else if tag = 2 then Some NistLevel.Nist3
      else if tag = 3 then Some NistLevel.Nist4
      else if tag = 4 then Some NistLevel.Nist5
      else option.None)"

primrec NistLevel_to_tag :: "NistLevel \<Rightarrow> u8" where
  "NistLevel_to_tag NistLevel.Nist1 = 0"
| "NistLevel_to_tag NistLevel.Nist2 = 1"
| "NistLevel_to_tag NistLevel.Nist3 = 2"
| "NistLevel_to_tag NistLevel.Nist4 = 3"
| "NistLevel_to_tag NistLevel.Nist5 = 4"

section \<open>\<open>pqc::Operation\<close>\<close>

datatype (plugins only: code) Pqc_Operation =
    Keygen
  | Encapsulate
  | Decapsulate
  | Sign
  | Verify

definition Pqc_Operation_from_tag :: "u8 \<Rightarrow> Pqc_Operation option" where
  "Pqc_Operation_from_tag tag =
     (if tag = 0 then Some Pqc_Operation.Keygen
      else if tag = 1 then Some Pqc_Operation.Encapsulate
      else if tag = 2 then Some Pqc_Operation.Decapsulate
      else if tag = 3 then Some Pqc_Operation.Sign
      else if tag = 4 then Some Pqc_Operation.Verify
      else option.None)"

primrec Pqc_Operation_to_tag :: "Pqc_Operation \<Rightarrow> u8" where
  "Pqc_Operation_to_tag Pqc_Operation.Keygen = 0"
| "Pqc_Operation_to_tag Pqc_Operation.Encapsulate = 1"
| "Pqc_Operation_to_tag Pqc_Operation.Decapsulate = 2"
| "Pqc_Operation_to_tag Pqc_Operation.Sign = 3"
| "Pqc_Operation_to_tag Pqc_Operation.Verify = 4"

section \<open>\<open>pqc::HybridMode\<close>\<close>

datatype (plugins only: code) HybridMode =
    ClassicalOnly
  | PqcOnly
  | Hybrid

definition HybridMode_from_tag :: "u8 \<Rightarrow> HybridMode option" where
  "HybridMode_from_tag tag =
     (if tag = 0 then Some HybridMode.ClassicalOnly
      else if tag = 1 then Some HybridMode.PqcOnly
      else if tag = 2 then Some HybridMode.Hybrid
      else option.None)"

primrec HybridMode_to_tag :: "HybridMode \<Rightarrow> u8" where
  "HybridMode_to_tag HybridMode.ClassicalOnly = 0"
| "HybridMode_to_tag HybridMode.PqcOnly = 1"
| "HybridMode_to_tag HybridMode.Hybrid = 2"

section \<open>\<open>pqc::AlgorithmCategory\<close>\<close>

datatype (plugins only: code) AlgorithmCategory =
    Kem
  | Signature

definition AlgorithmCategory_from_tag :: "u8 \<Rightarrow> AlgorithmCategory option" where
  "AlgorithmCategory_from_tag tag =
     (if tag = 0 then Some AlgorithmCategory.Kem
      else if tag = 1 then Some AlgorithmCategory.Signature
      else option.None)"

primrec AlgorithmCategory_to_tag :: "AlgorithmCategory \<Rightarrow> u8" where
  "AlgorithmCategory_to_tag AlgorithmCategory.Kem = 0"
| "AlgorithmCategory_to_tag AlgorithmCategory.Signature = 1"

section \<open>\<open>pqc::KeyState\<close>\<close>

datatype (plugins only: code) Pqc_KeyState =
    Empty
  | Generating
  | Generated
  | Active
  | Expired
  | Compromised

definition Pqc_KeyState_from_tag :: "u8 \<Rightarrow> Pqc_KeyState option" where
  "Pqc_KeyState_from_tag tag =
     (if tag = 0 then Some Pqc_KeyState.Empty
      else if tag = 1 then Some Pqc_KeyState.Generating
      else if tag = 2 then Some Pqc_KeyState.Generated
      else if tag = 3 then Some Pqc_KeyState.Active
      else if tag = 4 then Some Pqc_KeyState.Expired
      else if tag = 5 then Some Pqc_KeyState.Compromised
      else option.None)"

primrec Pqc_KeyState_to_tag :: "Pqc_KeyState \<Rightarrow> u8" where
  "Pqc_KeyState_to_tag Pqc_KeyState.Empty = 0"
| "Pqc_KeyState_to_tag Pqc_KeyState.Generating = 1"
| "Pqc_KeyState_to_tag Pqc_KeyState.Generated = 2"
| "Pqc_KeyState_to_tag Pqc_KeyState.Active = 3"
| "Pqc_KeyState_to_tag Pqc_KeyState.Expired = 4"
| "Pqc_KeyState_to_tag Pqc_KeyState.Compromised = 5"

definition Pqc_KeyState_is_usable :: "Pqc_KeyState \<Rightarrow> bool" where
  "Pqc_KeyState_is_usable self =
     (case self of
      Pqc_KeyState.Active \<Rightarrow> True
    | _ \<Rightarrow> False)"

section \<open>Tags and enumerations\<close>

interpretation CertType_codec: tag_codec CertType_to_tag CertType_from_tag 7
  by (unfold_locales, (case_tac x; simp add: CertType_from_tag_def), unfold CertType_from_tag_def,
    (erule codec_arm, simp only: CertType_to_tag.simps)+, erule codec_end, (case_tac x; simp), simp add: codec_eval)

interpretation KeyAlgorithm_codec: tag_codec KeyAlgorithm_to_tag KeyAlgorithm_from_tag 6
  by (unfold_locales, (case_tac x; simp add: KeyAlgorithm_from_tag_def), unfold KeyAlgorithm_from_tag_def,
    (erule codec_arm, simp only: KeyAlgorithm_to_tag.simps)+, erule codec_end, (case_tac x; simp), simp add: codec_eval)

interpretation SignatureAlgorithm_codec: tag_codec SignatureAlgorithm_to_tag SignatureAlgorithm_from_tag 7
  by (unfold_locales, (case_tac x; simp add: SignatureAlgorithm_from_tag_def), unfold SignatureAlgorithm_from_tag_def,
    (erule codec_arm, simp only: SignatureAlgorithm_to_tag.simps)+, erule codec_end, (case_tac x; simp), simp add: codec_eval)

interpretation CertState_codec: tag_codec CertState_to_tag CertState_from_tag 5
  by (unfold_locales, (case_tac x; simp add: CertState_from_tag_def), unfold CertState_from_tag_def,
    (erule codec_arm, simp only: CertState_to_tag.simps)+, erule codec_end, (case_tac x; simp), simp add: codec_eval)

interpretation RevocationReason_codec: tag_codec RevocationReason_to_tag RevocationReason_from_tag 7
  by (unfold_locales, (case_tac x; simp add: RevocationReason_from_tag_def), unfold RevocationReason_from_tag_def,
    (erule codec_arm, simp only: RevocationReason_to_tag.simps)+, erule codec_end, (case_tac x; simp), simp add: codec_eval)

interpretation CrlStatus_codec: tag_codec CrlStatus_to_tag CrlStatus_from_tag 4
  by (unfold_locales, (case_tac x; simp add: CrlStatus_from_tag_def), unfold CrlStatus_from_tag_def,
    (erule codec_arm, simp only: CrlStatus_to_tag.simps)+, erule codec_end, (case_tac x; simp), simp add: codec_eval)

interpretation OcspStatus_codec: tag_codec OcspStatus_to_tag OcspStatus_from_tag 4
  by (unfold_locales, (case_tac x; simp add: OcspStatus_from_tag_def), unfold OcspStatus_from_tag_def,
    (erule codec_arm, simp only: OcspStatus_to_tag.simps)+, erule codec_end, (case_tac x; simp), simp add: codec_eval)

interpretation Extension_codec: tag_codec Extension_to_tag Extension_from_tag 6
  by (unfold_locales, (case_tac x; simp add: Extension_from_tag_def), unfold Extension_from_tag_def,
    (erule codec_arm, simp only: Extension_to_tag.simps)+, erule codec_end, (case_tac x; simp), simp add: codec_eval)

interpretation KeyUsageBit_codec: tag_codec KeyUsageBit_to_tag KeyUsageBit_from_tag 9
  by (unfold_locales, (case_tac x; simp add: KeyUsageBit_from_tag_def), unfold KeyUsageBit_from_tag_def,
    (erule codec_arm, simp only: KeyUsageBit_to_tag.simps)+, erule codec_end, (case_tac x; simp), simp add: codec_eval)

interpretation CertStatus_codec: tag_codec CertStatus_to_tag CertStatus_from_tag 3
  by (unfold_locales, (case_tac x; simp add: CertStatus_from_tag_def), unfold CertStatus_from_tag_def,
    (erule codec_arm, simp only: CertStatus_to_tag.simps)+, erule codec_end, (case_tac x; simp), simp add: codec_eval)

interpretation ResponseStatus_codec: tag_codec ResponseStatus_to_tag ResponseStatus_from_tag 6
  by (unfold_locales, (case_tac x; simp add: ResponseStatus_from_tag_def), unfold ResponseStatus_from_tag_def,
    (erule codec_arm, simp only: ResponseStatus_to_tag.simps)+, erule codec_end, (case_tac x; simp), simp add: codec_eval)

interpretation HashAlgorithm_codec: tag_codec HashAlgorithm_to_tag HashAlgorithm_from_tag 4
  by (unfold_locales, (case_tac x; simp add: HashAlgorithm_from_tag_def), unfold HashAlgorithm_from_tag_def,
    (erule codec_arm, simp only: HashAlgorithm_to_tag.simps)+, erule codec_end, (case_tac x; simp), simp add: codec_eval)

interpretation Ocsp_ResponderState_codec: tag_codec Ocsp_ResponderState_to_tag Ocsp_ResponderState_from_tag 5
  by (unfold_locales, (case_tac x; simp add: Ocsp_ResponderState_from_tag_def), unfold Ocsp_ResponderState_from_tag_def,
    (erule codec_arm, simp only: Ocsp_ResponderState_to_tag.simps)+, erule codec_end, (case_tac x; simp), simp add: codec_eval)

interpretation LogEntryType_codec: tag_codec LogEntryType_to_tag LogEntryType_from_tag 2
  by (unfold_locales, (case_tac x; simp add: LogEntryType_from_tag_def), unfold LogEntryType_from_tag_def,
    (erule codec_arm, simp only: LogEntryType_to_tag.simps)+, erule codec_end, (case_tac x; simp), simp add: codec_eval)

interpretation SignatureType_codec: tag_codec SignatureType_to_tag SignatureType_from_tag 2
  by (unfold_locales, (case_tac x; simp add: SignatureType_from_tag_def), unfold SignatureType_from_tag_def,
    (erule codec_arm, simp only: SignatureType_to_tag.simps)+, erule codec_end, (case_tac x; simp), simp add: codec_eval)

interpretation MerkleLeafType_codec: tag_codec MerkleLeafType_to_tag MerkleLeafType_from_tag 1
  by (unfold_locales, (case_tac x; simp add: MerkleLeafType_from_tag_def), unfold MerkleLeafType_from_tag_def,
    (erule codec_arm, simp only: MerkleLeafType_to_tag.simps)+, erule codec_end, (case_tac x; simp), simp add: codec_eval)

interpretation SubmissionStatus_codec: tag_codec SubmissionStatus_to_tag SubmissionStatus_from_tag 6
  by (unfold_locales, (case_tac x; simp add: SubmissionStatus_from_tag_def), unfold SubmissionStatus_from_tag_def,
    (erule codec_arm, simp only: SubmissionStatus_to_tag.simps)+, erule codec_end, (case_tac x; simp), simp add: codec_eval)

interpretation VerificationResult_codec: tag_codec VerificationResult_to_tag VerificationResult_from_tag 4
  by (unfold_locales, (case_tac x; simp add: VerificationResult_from_tag_def), unfold VerificationResult_from_tag_def,
    (erule codec_arm, simp only: VerificationResult_to_tag.simps)+, erule codec_end, (case_tac x; simp), simp add: codec_eval)

interpretation Ctlog_ServerState_codec: tag_codec Ctlog_ServerState_to_tag Ctlog_ServerState_from_tag 5
  by (unfold_locales, (case_tac x; simp add: Ctlog_ServerState_from_tag_def), unfold Ctlog_ServerState_from_tag_def,
    (erule codec_arm, simp only: Ctlog_ServerState_to_tag.simps)+, erule codec_end, (case_tac x; simp), simp add: codec_eval)

interpretation Kms_ObjectType_codec: tag_codec Kms_ObjectType_to_tag Kms_ObjectType_from_tag 6
  by (unfold_locales, (case_tac x; simp add: Kms_ObjectType_from_tag_def), unfold Kms_ObjectType_from_tag_def,
    (erule codec_arm, simp only: Kms_ObjectType_to_tag.simps)+, erule codec_end, (case_tac x; simp), simp add: codec_eval)

interpretation Kms_Operation_codec: tag_codec Kms_Operation_to_tag Kms_Operation_from_tag 15
  by (unfold_locales, (case_tac x; simp add: Kms_Operation_from_tag_def), unfold Kms_Operation_from_tag_def,
    (erule codec_arm, simp only: Kms_Operation_to_tag.simps)+, erule codec_end, (case_tac x; simp), simp add: codec_eval)

interpretation Kms_KeyState_codec: tag_codec Kms_KeyState_to_tag Kms_KeyState_from_tag 6
  by (unfold_locales, (case_tac x; simp add: Kms_KeyState_from_tag_def), unfold Kms_KeyState_from_tag_def,
    (erule codec_arm, simp only: Kms_KeyState_to_tag.simps)+, erule codec_end, (case_tac x; simp), simp add: codec_eval)

interpretation KmsAlgorithm_codec: tag_codec KmsAlgorithm_to_tag KmsAlgorithm_from_tag 9
  by (unfold_locales, (case_tac x; simp add: KmsAlgorithm_from_tag_def), unfold KmsAlgorithm_from_tag_def,
    (erule codec_arm, simp only: KmsAlgorithm_to_tag.simps)+, erule codec_end, (case_tac x; simp), simp add: codec_eval)

interpretation PqcAlgorithm_codec: tag_codec PqcAlgorithm_to_tag PqcAlgorithm_from_tag 8
  by (unfold_locales, (case_tac x; simp add: PqcAlgorithm_from_tag_def), unfold PqcAlgorithm_from_tag_def,
    (erule codec_arm, simp only: PqcAlgorithm_to_tag.simps)+, erule codec_end, (case_tac x; simp), simp add: codec_eval)

interpretation NistLevel_codec: tag_codec NistLevel_to_tag NistLevel_from_tag 5
  by (unfold_locales, (case_tac x; simp add: NistLevel_from_tag_def), unfold NistLevel_from_tag_def,
    (erule codec_arm, simp only: NistLevel_to_tag.simps)+, erule codec_end, (case_tac x; simp), simp add: codec_eval)

interpretation Pqc_Operation_codec: tag_codec Pqc_Operation_to_tag Pqc_Operation_from_tag 5
  by (unfold_locales, (case_tac x; simp add: Pqc_Operation_from_tag_def), unfold Pqc_Operation_from_tag_def,
    (erule codec_arm, simp only: Pqc_Operation_to_tag.simps)+, erule codec_end, (case_tac x; simp), simp add: codec_eval)

interpretation HybridMode_codec: tag_codec HybridMode_to_tag HybridMode_from_tag 3
  by (unfold_locales, (case_tac x; simp add: HybridMode_from_tag_def), unfold HybridMode_from_tag_def,
    (erule codec_arm, simp only: HybridMode_to_tag.simps)+, erule codec_end, (case_tac x; simp), simp add: codec_eval)

interpretation AlgorithmCategory_codec: tag_codec AlgorithmCategory_to_tag AlgorithmCategory_from_tag 2
  by (unfold_locales, (case_tac x; simp add: AlgorithmCategory_from_tag_def), unfold AlgorithmCategory_from_tag_def,
    (erule codec_arm, simp only: AlgorithmCategory_to_tag.simps)+, erule codec_end, (case_tac x; simp), simp add: codec_eval)

interpretation Pqc_KeyState_codec: tag_codec Pqc_KeyState_to_tag Pqc_KeyState_from_tag 6
  by (unfold_locales, (case_tac x; simp add: Pqc_KeyState_from_tag_def), unfold Pqc_KeyState_from_tag_def,
    (erule codec_arm, simp only: Pqc_KeyState_to_tag.simps)+, erule codec_end, (case_tac x; simp), simp add: codec_eval)

end
