(* ===== verification/Routing_Types.thy ===== *)
theory Routing_Types
  imports Tag_Codec
begin

text \<open>
  The types of 10 modules of the Rust crate, under \<open>bindings/rust/src\<close>.

  \<^item> \<open>bgp.rs\<close>: \<open>BgpState\<close>, \<open>BgpEvent\<close>,
    \<open>MessageType\<close>, \<open>ErrorCode\<close>, \<open>Origin\<close>,
    \<open>AsPathSegmentType\<close>, \<open>PathAttrType\<close>.
  \<^item> \<open>ospf.rs\<close>: \<open>PacketType\<close>, \<open>NeighborState\<close>,
    \<open>LsaType\<close>, \<open>AreaType\<close>, \<open>OspfError\<close>.
  \<^item> \<open>bfd.rs\<close>: \<open>BfdState\<close>, \<open>Diagnostic\<close>,
    \<open>SessionMode\<close>, \<open>SessionState\<close>.
  \<^item> \<open>ldp.rs\<close>: \<open>ContainerType\<close>, \<open>LdpResourceType\<close>,
    \<open>Preference\<close>, \<open>InteractionModel\<close>, \<open>ConstraintViolation\<close>.
  \<^item> \<open>sdn.rs\<close>: \<open>SdnMessageType\<close>, \<open>FlowAction\<close>,
    \<open>MatchField\<close>, \<open>PortState\<close>.
  \<^item> \<open>doh.rs\<close>: \<open>ContentType\<close>, \<open>RequestMethod\<close>,
    \<open>WireFormat\<close>, \<open>ErrorReason\<close>, \<open>SessionState\<close>.
  \<^item> \<open>doq.rs\<close>: \<open>StreamType\<close>, \<open>ErrorCode\<close>,
    \<open>SessionState\<close>, \<open>ServerState\<close>.
  \<^item> \<open>dot.rs\<close>: \<open>SessionState\<close>, \<open>PaddingStrategy\<close>,
    \<open>ErrorReason\<close>, \<open>ServerState\<close>.
  \<^item> \<open>odns.rs\<close>: \<open>Role\<close>, \<open>OdnsMessageType\<close>,
    \<open>OdnsErrorReason\<close>, \<open>EncapsulationFormat\<close>, \<open>SessionState\<close>.
  \<^item> \<open>mdns.rs\<close>: \<open>MdnsRecordType\<close>, \<open>QueryType\<close>,
    \<open>ConflictAction\<close>, \<open>ServiceFlag\<close>, \<open>ResponderState\<close>.

  The \<open>Display\<close> implementations and the \<open>ALL\<close> arrays of these modules are not modelled.
\<close>

definition BGP_PORT :: "u16" where
  "BGP_PORT = 179"

section \<open>\<open>bgp::BgpState\<close>\<close>

datatype (plugins only: code) BgpState =
    Idle
  | Connect
  | Active
  | OpenSent
  | OpenConfirm
  | Established

definition BgpState_from_tag :: "u8 \<Rightarrow> BgpState option" where
  "BgpState_from_tag tag =
     (if tag = 0 then Some BgpState.Idle
      else if tag = 1 then Some BgpState.Connect
      else if tag = 2 then Some BgpState.Active
      else if tag = 3 then Some BgpState.OpenSent
      else if tag = 4 then Some BgpState.OpenConfirm
      else if tag = 5 then Some BgpState.Established
      else option.None)"

primrec BgpState_to_tag :: "BgpState \<Rightarrow> u8" where
  "BgpState_to_tag BgpState.Idle = 0"
| "BgpState_to_tag BgpState.Connect = 1"
| "BgpState_to_tag BgpState.Active = 2"
| "BgpState_to_tag BgpState.OpenSent = 3"
| "BgpState_to_tag BgpState.OpenConfirm = 4"
| "BgpState_to_tag BgpState.Established = 5"

definition BgpState_is_route_exchange :: "BgpState \<Rightarrow> bool" where
  "BgpState_is_route_exchange self =
     (case self of
      BgpState.Established \<Rightarrow> True
    | _ \<Rightarrow> False)"

definition BgpState_has_connection :: "BgpState \<Rightarrow> bool" where
  "BgpState_has_connection self =
     (case self of
      BgpState.OpenSent \<Rightarrow> True
    | BgpState.OpenConfirm \<Rightarrow> True
    | BgpState.Established \<Rightarrow> True
    | _ \<Rightarrow> False)"

section \<open>\<open>bgp::BgpEvent\<close>\<close>

datatype (plugins only: code) BgpEvent =
    ManualStart
  | ManualStop
  | AutomaticStart
  | ConnectRetryTimerExpires
  | HoldTimerExpires
  | KeepaliveTimerExpires
  | DelayOpenTimerExpires
  | TcpConnectionValid
  | TcpCrAcked
  | TcpConnectionConfirmed
  | TcpConnectionFails
  | BgpOpenReceived
  | BgpHeaderErr
  | BgpOpenMsgErr
  | NotifMsgVerErr
  | NotifMsg
  | KeepaliveMsg
  | UpdateMsg
  | UpdateMsgErr

definition BgpEvent_from_tag :: "u8 \<Rightarrow> BgpEvent option" where
  "BgpEvent_from_tag tag =
     (if tag = 0 then Some BgpEvent.ManualStart
      else if tag = 1 then Some BgpEvent.ManualStop
      else if tag = 2 then Some BgpEvent.AutomaticStart
      else if tag = 3 then Some BgpEvent.ConnectRetryTimerExpires
      else if tag = 4 then Some BgpEvent.HoldTimerExpires
      else if tag = 5 then Some BgpEvent.KeepaliveTimerExpires
      else if tag = 6 then Some BgpEvent.DelayOpenTimerExpires
      else if tag = 7 then Some BgpEvent.TcpConnectionValid
      else if tag = 8 then Some BgpEvent.TcpCrAcked
      else if tag = 9 then Some BgpEvent.TcpConnectionConfirmed
      else if tag = 10 then Some BgpEvent.TcpConnectionFails
      else if tag = 11 then Some BgpEvent.BgpOpenReceived
      else if tag = 12 then Some BgpEvent.BgpHeaderErr
      else if tag = 13 then Some BgpEvent.BgpOpenMsgErr
      else if tag = 14 then Some BgpEvent.NotifMsgVerErr
      else if tag = 15 then Some BgpEvent.NotifMsg
      else if tag = 16 then Some BgpEvent.KeepaliveMsg
      else if tag = 17 then Some BgpEvent.UpdateMsg
      else if tag = 18 then Some BgpEvent.UpdateMsgErr
      else option.None)"

primrec BgpEvent_to_tag :: "BgpEvent \<Rightarrow> u8" where
  "BgpEvent_to_tag BgpEvent.ManualStart = 0"
| "BgpEvent_to_tag BgpEvent.ManualStop = 1"
| "BgpEvent_to_tag BgpEvent.AutomaticStart = 2"
| "BgpEvent_to_tag BgpEvent.ConnectRetryTimerExpires = 3"
| "BgpEvent_to_tag BgpEvent.HoldTimerExpires = 4"
| "BgpEvent_to_tag BgpEvent.KeepaliveTimerExpires = 5"
| "BgpEvent_to_tag BgpEvent.DelayOpenTimerExpires = 6"
| "BgpEvent_to_tag BgpEvent.TcpConnectionValid = 7"
| "BgpEvent_to_tag BgpEvent.TcpCrAcked = 8"
| "BgpEvent_to_tag BgpEvent.TcpConnectionConfirmed = 9"
| "BgpEvent_to_tag BgpEvent.TcpConnectionFails = 10"
| "BgpEvent_to_tag BgpEvent.BgpOpenReceived = 11"
| "BgpEvent_to_tag BgpEvent.BgpHeaderErr = 12"
| "BgpEvent_to_tag BgpEvent.BgpOpenMsgErr = 13"
| "BgpEvent_to_tag BgpEvent.NotifMsgVerErr = 14"
| "BgpEvent_to_tag BgpEvent.NotifMsg = 15"
| "BgpEvent_to_tag BgpEvent.KeepaliveMsg = 16"
| "BgpEvent_to_tag BgpEvent.UpdateMsg = 17"
| "BgpEvent_to_tag BgpEvent.UpdateMsgErr = 18"

definition BgpEvent_is_timer_event :: "BgpEvent \<Rightarrow> bool" where
  "BgpEvent_is_timer_event self =
     (case self of
      BgpEvent.ConnectRetryTimerExpires \<Rightarrow> True
    | BgpEvent.HoldTimerExpires \<Rightarrow> True
    | BgpEvent.KeepaliveTimerExpires \<Rightarrow> True
    | BgpEvent.DelayOpenTimerExpires \<Rightarrow> True
    | _ \<Rightarrow> False)"

definition BgpEvent_is_error_event :: "BgpEvent \<Rightarrow> bool" where
  "BgpEvent_is_error_event self =
     (case self of
      BgpEvent.TcpConnectionFails \<Rightarrow> True
    | BgpEvent.BgpHeaderErr \<Rightarrow> True
    | BgpEvent.BgpOpenMsgErr \<Rightarrow> True
    | BgpEvent.NotifMsgVerErr \<Rightarrow> True
    | BgpEvent.UpdateMsgErr \<Rightarrow> True
    | _ \<Rightarrow> False)"

section \<open>\<open>bgp::MessageType\<close>\<close>

datatype (plugins only: code) Bgp_MessageType =
    Open
  | Update
  | Notification
  | Keepalive

definition Bgp_MessageType_from_tag :: "u8 \<Rightarrow> Bgp_MessageType option" where
  "Bgp_MessageType_from_tag tag =
     (if tag = 0 then Some Bgp_MessageType.Open
      else if tag = 1 then Some Bgp_MessageType.Update
      else if tag = 2 then Some Bgp_MessageType.Notification
      else if tag = 3 then Some Bgp_MessageType.Keepalive
      else option.None)"

primrec Bgp_MessageType_to_tag :: "Bgp_MessageType \<Rightarrow> u8" where
  "Bgp_MessageType_to_tag Bgp_MessageType.Open = 0"
| "Bgp_MessageType_to_tag Bgp_MessageType.Update = 1"
| "Bgp_MessageType_to_tag Bgp_MessageType.Notification = 2"
| "Bgp_MessageType_to_tag Bgp_MessageType.Keepalive = 3"

section \<open>\<open>bgp::ErrorCode\<close>\<close>

datatype (plugins only: code) Bgp_ErrorCode =
    MessageHeaderError
  | OpenMessageError
  | UpdateMessageError
  | HoldTimerExpired
  | FsmError
  | Cease

definition Bgp_ErrorCode_from_tag :: "u8 \<Rightarrow> Bgp_ErrorCode option" where
  "Bgp_ErrorCode_from_tag tag =
     (if tag = 0 then Some Bgp_ErrorCode.MessageHeaderError
      else if tag = 1 then Some Bgp_ErrorCode.OpenMessageError
      else if tag = 2 then Some Bgp_ErrorCode.UpdateMessageError
      else if tag = 3 then Some Bgp_ErrorCode.HoldTimerExpired
      else if tag = 4 then Some Bgp_ErrorCode.FsmError
      else if tag = 5 then Some Bgp_ErrorCode.Cease
      else option.None)"

primrec Bgp_ErrorCode_to_tag :: "Bgp_ErrorCode \<Rightarrow> u8" where
  "Bgp_ErrorCode_to_tag Bgp_ErrorCode.MessageHeaderError = 0"
| "Bgp_ErrorCode_to_tag Bgp_ErrorCode.OpenMessageError = 1"
| "Bgp_ErrorCode_to_tag Bgp_ErrorCode.UpdateMessageError = 2"
| "Bgp_ErrorCode_to_tag Bgp_ErrorCode.HoldTimerExpired = 3"
| "Bgp_ErrorCode_to_tag Bgp_ErrorCode.FsmError = 4"
| "Bgp_ErrorCode_to_tag Bgp_ErrorCode.Cease = 5"

definition Bgp_ErrorCode_is_fatal :: "Bgp_ErrorCode \<Rightarrow> bool" where
  "Bgp_ErrorCode_is_fatal self = True"

section \<open>\<open>bgp::Origin\<close>\<close>

datatype (plugins only: code) Origin =
    Igp
  | Egp
  | Incomplete

definition Origin_from_tag :: "u8 \<Rightarrow> Origin option" where
  "Origin_from_tag tag =
     (if tag = 0 then Some Origin.Igp
      else if tag = 1 then Some Origin.Egp
      else if tag = 2 then Some Origin.Incomplete
      else option.None)"

primrec Origin_to_tag :: "Origin \<Rightarrow> u8" where
  "Origin_to_tag Origin.Igp = 0"
| "Origin_to_tag Origin.Egp = 1"
| "Origin_to_tag Origin.Incomplete = 2"

section \<open>\<open>bgp::AsPathSegmentType\<close>\<close>

datatype (plugins only: code) AsPathSegmentType =
    AsSet
  | AsSequence

definition AsPathSegmentType_from_tag :: "u8 \<Rightarrow> AsPathSegmentType option" where
  "AsPathSegmentType_from_tag tag =
     (if tag = 0 then Some AsPathSegmentType.AsSet
      else if tag = 1 then Some AsPathSegmentType.AsSequence
      else option.None)"

primrec AsPathSegmentType_to_tag :: "AsPathSegmentType \<Rightarrow> u8" where
  "AsPathSegmentType_to_tag AsPathSegmentType.AsSet = 0"
| "AsPathSegmentType_to_tag AsPathSegmentType.AsSequence = 1"

section \<open>\<open>bgp::PathAttrType\<close>\<close>

datatype (plugins only: code) PathAttrType =
    Origin
  | AsPath
  | NextHop
  | Med
  | LocalPref
  | AtomicAggr
  | Aggregator
  | Unknown

definition PathAttrType_from_tag :: "u8 \<Rightarrow> PathAttrType option" where
  "PathAttrType_from_tag tag =
     (if tag = 0 then Some PathAttrType.Origin
      else if tag = 1 then Some PathAttrType.AsPath
      else if tag = 2 then Some PathAttrType.NextHop
      else if tag = 3 then Some PathAttrType.Med
      else if tag = 4 then Some PathAttrType.LocalPref
      else if tag = 5 then Some PathAttrType.AtomicAggr
      else if tag = 6 then Some PathAttrType.Aggregator
      else if tag = 7 then Some PathAttrType.Unknown
      else option.None)"

primrec PathAttrType_to_tag :: "PathAttrType \<Rightarrow> u8" where
  "PathAttrType_to_tag PathAttrType.Origin = 0"
| "PathAttrType_to_tag PathAttrType.AsPath = 1"
| "PathAttrType_to_tag PathAttrType.NextHop = 2"
| "PathAttrType_to_tag PathAttrType.Med = 3"
| "PathAttrType_to_tag PathAttrType.LocalPref = 4"
| "PathAttrType_to_tag PathAttrType.AtomicAggr = 5"
| "PathAttrType_to_tag PathAttrType.Aggregator = 6"
| "PathAttrType_to_tag PathAttrType.Unknown = 7"

definition PathAttrType_is_mandatory :: "PathAttrType \<Rightarrow> bool" where
  "PathAttrType_is_mandatory self =
     (case self of
      PathAttrType.Origin \<Rightarrow> True
    | PathAttrType.AsPath \<Rightarrow> True
    | PathAttrType.NextHop \<Rightarrow> True
    | _ \<Rightarrow> False)"

definition OSPF_PROTOCOL :: "u8" where
  "OSPF_PROTOCOL = 89"

definition OSPF_ALL_SPF_ROUTERS :: "string" where
  "OSPF_ALL_SPF_ROUTERS = ''224.0.0.5''"

definition OSPF_ALL_D_ROUTERS :: "string" where
  "OSPF_ALL_D_ROUTERS = ''224.0.0.6''"

section \<open>\<open>ospf::PacketType\<close>\<close>

datatype (plugins only: code) Ospf_PacketType =
    Hello
  | DatabaseDescription
  | LinkStateRequest
  | LinkStateUpdate
  | LinkStateAck

definition Ospf_PacketType_from_tag :: "u8 \<Rightarrow> Ospf_PacketType option" where
  "Ospf_PacketType_from_tag tag =
     (if tag = 0 then Some Ospf_PacketType.Hello
      else if tag = 1 then Some Ospf_PacketType.DatabaseDescription
      else if tag = 2 then Some Ospf_PacketType.LinkStateRequest
      else if tag = 3 then Some Ospf_PacketType.LinkStateUpdate
      else if tag = 4 then Some Ospf_PacketType.LinkStateAck
      else option.None)"

primrec Ospf_PacketType_to_tag :: "Ospf_PacketType \<Rightarrow> u8" where
  "Ospf_PacketType_to_tag Ospf_PacketType.Hello = 0"
| "Ospf_PacketType_to_tag Ospf_PacketType.DatabaseDescription = 1"
| "Ospf_PacketType_to_tag Ospf_PacketType.LinkStateRequest = 2"
| "Ospf_PacketType_to_tag Ospf_PacketType.LinkStateUpdate = 3"
| "Ospf_PacketType_to_tag Ospf_PacketType.LinkStateAck = 4"

definition Ospf_PacketType_is_db_sync :: "Ospf_PacketType \<Rightarrow> bool" where
  "Ospf_PacketType_is_db_sync self =
     (case self of
      Ospf_PacketType.DatabaseDescription \<Rightarrow> True
    | Ospf_PacketType.LinkStateRequest \<Rightarrow> True
    | Ospf_PacketType.LinkStateUpdate \<Rightarrow> True
    | Ospf_PacketType.LinkStateAck \<Rightarrow> True
    | _ \<Rightarrow> False)"

section \<open>\<open>ospf::NeighborState\<close>\<close>

datatype (plugins only: code) NeighborState =
    Down
  | Attempt
  | Init
  | TwoWay
  | ExStart
  | Exchange
  | Loading
  | Full

definition NeighborState_from_tag :: "u8 \<Rightarrow> NeighborState option" where
  "NeighborState_from_tag tag =
     (if tag = 0 then Some NeighborState.Down
      else if tag = 1 then Some NeighborState.Attempt
      else if tag = 2 then Some NeighborState.Init
      else if tag = 3 then Some NeighborState.TwoWay
      else if tag = 4 then Some NeighborState.ExStart
      else if tag = 5 then Some NeighborState.Exchange
      else if tag = 6 then Some NeighborState.Loading
      else if tag = 7 then Some NeighborState.Full
      else option.None)"

primrec NeighborState_to_tag :: "NeighborState \<Rightarrow> u8" where
  "NeighborState_to_tag NeighborState.Down = 0"
| "NeighborState_to_tag NeighborState.Attempt = 1"
| "NeighborState_to_tag NeighborState.Init = 2"
| "NeighborState_to_tag NeighborState.TwoWay = 3"
| "NeighborState_to_tag NeighborState.ExStart = 4"
| "NeighborState_to_tag NeighborState.Exchange = 5"
| "NeighborState_to_tag NeighborState.Loading = 6"
| "NeighborState_to_tag NeighborState.Full = 7"

definition NeighborState_is_adjacent :: "NeighborState \<Rightarrow> bool" where
  "NeighborState_is_adjacent self =
     (case self of
      NeighborState.Full \<Rightarrow> True
    | _ \<Rightarrow> False)"

definition NeighborState_is_syncing :: "NeighborState \<Rightarrow> bool" where
  "NeighborState_is_syncing self =
     (case self of
      NeighborState.ExStart \<Rightarrow> True
    | NeighborState.Exchange \<Rightarrow> True
    | NeighborState.Loading \<Rightarrow> True
    | _ \<Rightarrow> False)"

definition NeighborState_is_bidirectional :: "NeighborState \<Rightarrow> bool" where
  "NeighborState_is_bidirectional self =
     (case self of
      NeighborState.TwoWay \<Rightarrow> True
    | NeighborState.ExStart \<Rightarrow> True
    | NeighborState.Exchange \<Rightarrow> True
    | NeighborState.Loading \<Rightarrow> True
    | NeighborState.Full \<Rightarrow> True
    | _ \<Rightarrow> False)"

section \<open>\<open>ospf::LsaType\<close>\<close>

datatype (plugins only: code) LsaType =
    RouterLsa
  | NetworkLsa
  | SummaryLsa
  | AsbrSummaryLsa
  | AsExternalLsa

definition LsaType_from_tag :: "u8 \<Rightarrow> LsaType option" where
  "LsaType_from_tag tag =
     (if tag = 0 then Some LsaType.RouterLsa
      else if tag = 1 then Some LsaType.NetworkLsa
      else if tag = 2 then Some LsaType.SummaryLsa
      else if tag = 3 then Some LsaType.AsbrSummaryLsa
      else if tag = 4 then Some LsaType.AsExternalLsa
      else option.None)"

primrec LsaType_to_tag :: "LsaType \<Rightarrow> u8" where
  "LsaType_to_tag LsaType.RouterLsa = 0"
| "LsaType_to_tag LsaType.NetworkLsa = 1"
| "LsaType_to_tag LsaType.SummaryLsa = 2"
| "LsaType_to_tag LsaType.AsbrSummaryLsa = 3"
| "LsaType_to_tag LsaType.AsExternalLsa = 4"

definition LsaType_is_area_scope :: "LsaType \<Rightarrow> bool" where
  "LsaType_is_area_scope self =
     (case self of
      LsaType.RouterLsa \<Rightarrow> True
    | LsaType.NetworkLsa \<Rightarrow> True
    | LsaType.SummaryLsa \<Rightarrow> True
    | LsaType.AsbrSummaryLsa \<Rightarrow> True
    | _ \<Rightarrow> False)"

definition LsaType_is_as_scope :: "LsaType \<Rightarrow> bool" where
  "LsaType_is_as_scope self =
     (case self of
      LsaType.AsExternalLsa \<Rightarrow> True
    | _ \<Rightarrow> False)"

section \<open>\<open>ospf::AreaType\<close>\<close>

datatype (plugins only: code) AreaType =
    Normal
  | Stub
  | TotallyStub
  | Nssa

definition AreaType_from_tag :: "u8 \<Rightarrow> AreaType option" where
  "AreaType_from_tag tag =
     (if tag = 0 then Some AreaType.Normal
      else if tag = 1 then Some AreaType.Stub
      else if tag = 2 then Some AreaType.TotallyStub
      else if tag = 3 then Some AreaType.Nssa
      else option.None)"

primrec AreaType_to_tag :: "AreaType \<Rightarrow> u8" where
  "AreaType_to_tag AreaType.Normal = 0"
| "AreaType_to_tag AreaType.Stub = 1"
| "AreaType_to_tag AreaType.TotallyStub = 2"
| "AreaType_to_tag AreaType.Nssa = 3"

definition AreaType_blocks_external :: "AreaType \<Rightarrow> bool" where
  "AreaType_blocks_external self =
     (case self of
      AreaType.Stub \<Rightarrow> True
    | AreaType.TotallyStub \<Rightarrow> True
    | _ \<Rightarrow> False)"

section \<open>\<open>ospf::OspfError\<close>\<close>

datatype (plugins only: code) OspfError =
    Ok
  | InvalidSlot
  | NotActive
  | InvalidTransition
  | InvalidPacket
  | AreaError
  | FloodLimit

definition OspfError_from_tag :: "u8 \<Rightarrow> OspfError option" where
  "OspfError_from_tag tag =
     (if tag = 0 then Some OspfError.Ok
      else if tag = 1 then Some OspfError.InvalidSlot
      else if tag = 2 then Some OspfError.NotActive
      else if tag = 3 then Some OspfError.InvalidTransition
      else if tag = 4 then Some OspfError.InvalidPacket
      else if tag = 5 then Some OspfError.AreaError
      else if tag = 6 then Some OspfError.FloodLimit
      else option.None)"

primrec OspfError_to_tag :: "OspfError \<Rightarrow> u8" where
  "OspfError_to_tag OspfError.Ok = 0"
| "OspfError_to_tag OspfError.InvalidSlot = 1"
| "OspfError_to_tag OspfError.NotActive = 2"
| "OspfError_to_tag OspfError.InvalidTransition = 3"
| "OspfError_to_tag OspfError.InvalidPacket = 4"
| "OspfError_to_tag OspfError.AreaError = 5"
| "OspfError_to_tag OspfError.FloodLimit = 6"

definition OspfError_is_success :: "OspfError \<Rightarrow> bool" where
  "OspfError_is_success self =
     (case self of
      OspfError.Ok \<Rightarrow> True
    | _ \<Rightarrow> False)"

definition BFD_PORT :: "u16" where
  "BFD_PORT = 3784"

section \<open>\<open>bfd::BfdState\<close>\<close>

datatype (plugins only: code) BfdState =
    AdminDown
  | Down
  | Init
  | Up

definition BfdState_from_tag :: "u8 \<Rightarrow> BfdState option" where
  "BfdState_from_tag tag =
     (if tag = 0 then Some BfdState.AdminDown
      else if tag = 1 then Some BfdState.Down
      else if tag = 2 then Some BfdState.Init
      else if tag = 3 then Some BfdState.Up
      else option.None)"

primrec BfdState_to_tag :: "BfdState \<Rightarrow> u8" where
  "BfdState_to_tag BfdState.AdminDown = 0"
| "BfdState_to_tag BfdState.Down = 1"
| "BfdState_to_tag BfdState.Init = 2"
| "BfdState_to_tag BfdState.Up = 3"

section \<open>\<open>bfd::Diagnostic\<close>\<close>

datatype (plugins only: code) Diagnostic =
    NoDiagnostic
  | ControlDetectionTimeExpired
  | EchoFunctionFailed
  | NeighborSignaledSessionDown
  | ForwardingPlaneReset
  | PathDown
  | ConcatenatedPathDown
  | AdministrativelyDown
  | ReverseConcatenatedPathDown

definition Diagnostic_from_tag :: "u8 \<Rightarrow> Diagnostic option" where
  "Diagnostic_from_tag tag =
     (if tag = 0 then Some Diagnostic.NoDiagnostic
      else if tag = 1 then Some Diagnostic.ControlDetectionTimeExpired
      else if tag = 2 then Some Diagnostic.EchoFunctionFailed
      else if tag = 3 then Some Diagnostic.NeighborSignaledSessionDown
      else if tag = 4 then Some Diagnostic.ForwardingPlaneReset
      else if tag = 5 then Some Diagnostic.PathDown
      else if tag = 6 then Some Diagnostic.ConcatenatedPathDown
      else if tag = 7 then Some Diagnostic.AdministrativelyDown
      else if tag = 8 then Some Diagnostic.ReverseConcatenatedPathDown
      else option.None)"

primrec Diagnostic_to_tag :: "Diagnostic \<Rightarrow> u8" where
  "Diagnostic_to_tag Diagnostic.NoDiagnostic = 0"
| "Diagnostic_to_tag Diagnostic.ControlDetectionTimeExpired = 1"
| "Diagnostic_to_tag Diagnostic.EchoFunctionFailed = 2"
| "Diagnostic_to_tag Diagnostic.NeighborSignaledSessionDown = 3"
| "Diagnostic_to_tag Diagnostic.ForwardingPlaneReset = 4"
| "Diagnostic_to_tag Diagnostic.PathDown = 5"
| "Diagnostic_to_tag Diagnostic.ConcatenatedPathDown = 6"
| "Diagnostic_to_tag Diagnostic.AdministrativelyDown = 7"
| "Diagnostic_to_tag Diagnostic.ReverseConcatenatedPathDown = 8"

section \<open>\<open>bfd::SessionMode\<close>\<close>

datatype (plugins only: code) SessionMode =
    AsyncMode
  | DemandMode

definition SessionMode_from_tag :: "u8 \<Rightarrow> SessionMode option" where
  "SessionMode_from_tag tag =
     (if tag = 0 then Some SessionMode.AsyncMode
      else if tag = 1 then Some SessionMode.DemandMode
      else option.None)"

primrec SessionMode_to_tag :: "SessionMode \<Rightarrow> u8" where
  "SessionMode_to_tag SessionMode.AsyncMode = 0"
| "SessionMode_to_tag SessionMode.DemandMode = 1"

section \<open>\<open>bfd::SessionState\<close>\<close>

datatype (plugins only: code) Bfd_SessionState =
    Idle
  | SsDown
  | Negotiating
  | Established
  | Teardown

definition Bfd_SessionState_from_tag :: "u8 \<Rightarrow> Bfd_SessionState option" where
  "Bfd_SessionState_from_tag tag =
     (if tag = 0 then Some Bfd_SessionState.Idle
      else if tag = 1 then Some Bfd_SessionState.SsDown
      else if tag = 2 then Some Bfd_SessionState.Negotiating
      else if tag = 3 then Some Bfd_SessionState.Established
      else if tag = 4 then Some Bfd_SessionState.Teardown
      else option.None)"

primrec Bfd_SessionState_to_tag :: "Bfd_SessionState \<Rightarrow> u8" where
  "Bfd_SessionState_to_tag Bfd_SessionState.Idle = 0"
| "Bfd_SessionState_to_tag Bfd_SessionState.SsDown = 1"
| "Bfd_SessionState_to_tag Bfd_SessionState.Negotiating = 2"
| "Bfd_SessionState_to_tag Bfd_SessionState.Established = 3"
| "Bfd_SessionState_to_tag Bfd_SessionState.Teardown = 4"

section \<open>\<open>ldp::ContainerType\<close>\<close>

datatype (plugins only: code) ContainerType =
    Basic
  | Direct
  | Indirect

definition ContainerType_from_tag :: "u8 \<Rightarrow> ContainerType option" where
  "ContainerType_from_tag tag =
     (if tag = 0 then Some ContainerType.Basic
      else if tag = 1 then Some ContainerType.Direct
      else if tag = 2 then Some ContainerType.Indirect
      else option.None)"

primrec ContainerType_to_tag :: "ContainerType \<Rightarrow> u8" where
  "ContainerType_to_tag ContainerType.Basic = 0"
| "ContainerType_to_tag ContainerType.Direct = 1"
| "ContainerType_to_tag ContainerType.Indirect = 2"

section \<open>\<open>ldp::LdpResourceType\<close>\<close>

datatype (plugins only: code) LdpResourceType =
    RdfSource
  | NonRdfSource
  | Container

definition LdpResourceType_from_tag :: "u8 \<Rightarrow> LdpResourceType option" where
  "LdpResourceType_from_tag tag =
     (if tag = 0 then Some LdpResourceType.RdfSource
      else if tag = 1 then Some LdpResourceType.NonRdfSource
      else if tag = 2 then Some LdpResourceType.Container
      else option.None)"

primrec LdpResourceType_to_tag :: "LdpResourceType \<Rightarrow> u8" where
  "LdpResourceType_to_tag LdpResourceType.RdfSource = 0"
| "LdpResourceType_to_tag LdpResourceType.NonRdfSource = 1"
| "LdpResourceType_to_tag LdpResourceType.Container = 2"

section \<open>\<open>ldp::Preference\<close>\<close>

datatype (plugins only: code) Preference =
    MinimalContainer
  | IncludeContainment
  | IncludeMembership
  | OmitContainment
  | OmitMembership

definition Preference_from_tag :: "u8 \<Rightarrow> Preference option" where
  "Preference_from_tag tag =
     (if tag = 0 then Some Preference.MinimalContainer
      else if tag = 1 then Some Preference.IncludeContainment
      else if tag = 2 then Some Preference.IncludeMembership
      else if tag = 3 then Some Preference.OmitContainment
      else if tag = 4 then Some Preference.OmitMembership
      else option.None)"

primrec Preference_to_tag :: "Preference \<Rightarrow> u8" where
  "Preference_to_tag Preference.MinimalContainer = 0"
| "Preference_to_tag Preference.IncludeContainment = 1"
| "Preference_to_tag Preference.IncludeMembership = 2"
| "Preference_to_tag Preference.OmitContainment = 3"
| "Preference_to_tag Preference.OmitMembership = 4"

section \<open>\<open>ldp::InteractionModel\<close>\<close>

datatype (plugins only: code) InteractionModel =
    Ldpr
  | Ldpc
  | LdpBasicContainer
  | LdpDirectContainer
  | LdpIndirectContainer

definition InteractionModel_from_tag :: "u8 \<Rightarrow> InteractionModel option" where
  "InteractionModel_from_tag tag =
     (if tag = 0 then Some InteractionModel.Ldpr
      else if tag = 1 then Some InteractionModel.Ldpc
      else if tag = 2 then Some InteractionModel.LdpBasicContainer
      else if tag = 3 then Some InteractionModel.LdpDirectContainer
      else if tag = 4 then Some InteractionModel.LdpIndirectContainer
      else option.None)"

primrec InteractionModel_to_tag :: "InteractionModel \<Rightarrow> u8" where
  "InteractionModel_to_tag InteractionModel.Ldpr = 0"
| "InteractionModel_to_tag InteractionModel.Ldpc = 1"
| "InteractionModel_to_tag InteractionModel.LdpBasicContainer = 2"
| "InteractionModel_to_tag InteractionModel.LdpDirectContainer = 3"
| "InteractionModel_to_tag InteractionModel.LdpIndirectContainer = 4"

section \<open>\<open>ldp::ConstraintViolation\<close>\<close>

datatype (plugins only: code) ConstraintViolation =
    MembershipConstant
  | ContainsTriplesModified
  | ServerManaged
  | TypeConflict

definition ConstraintViolation_from_tag :: "u8 \<Rightarrow> ConstraintViolation option" where
  "ConstraintViolation_from_tag tag =
     (if tag = 0 then Some ConstraintViolation.MembershipConstant
      else if tag = 1 then Some ConstraintViolation.ContainsTriplesModified
      else if tag = 2 then Some ConstraintViolation.ServerManaged
      else if tag = 3 then Some ConstraintViolation.TypeConflict
      else option.None)"

primrec ConstraintViolation_to_tag :: "ConstraintViolation \<Rightarrow> u8" where
  "ConstraintViolation_to_tag ConstraintViolation.MembershipConstant = 0"
| "ConstraintViolation_to_tag ConstraintViolation.ContainsTriplesModified = 1"
| "ConstraintViolation_to_tag ConstraintViolation.ServerManaged = 2"
| "ConstraintViolation_to_tag ConstraintViolation.TypeConflict = 3"

definition SDN_PORT :: "u16" where
  "SDN_PORT = 6653"

section \<open>\<open>sdn::SdnMessageType\<close>\<close>

datatype (plugins only: code) SdnMessageType =
    Hello
  | Error
  | EchoRequest
  | EchoReply
  | FeaturesRequest
  | FeaturesReply
  | FlowMod
  | PacketIn
  | PacketOut
  | PortStatus
  | BarrierRequest
  | BarrierReply

definition SdnMessageType_from_tag :: "u8 \<Rightarrow> SdnMessageType option" where
  "SdnMessageType_from_tag tag =
     (if tag = 0 then Some SdnMessageType.Hello
      else if tag = 1 then Some SdnMessageType.Error
      else if tag = 2 then Some SdnMessageType.EchoRequest
      else if tag = 3 then Some SdnMessageType.EchoReply
      else if tag = 4 then Some SdnMessageType.FeaturesRequest
      else if tag = 5 then Some SdnMessageType.FeaturesReply
      else if tag = 6 then Some SdnMessageType.FlowMod
      else if tag = 7 then Some SdnMessageType.PacketIn
      else if tag = 8 then Some SdnMessageType.PacketOut
      else if tag = 9 then Some SdnMessageType.PortStatus
      else if tag = 10 then Some SdnMessageType.BarrierRequest
      else if tag = 11 then Some SdnMessageType.BarrierReply
      else option.None)"

primrec SdnMessageType_to_tag :: "SdnMessageType \<Rightarrow> u8" where
  "SdnMessageType_to_tag SdnMessageType.Hello = 0"
| "SdnMessageType_to_tag SdnMessageType.Error = 1"
| "SdnMessageType_to_tag SdnMessageType.EchoRequest = 2"
| "SdnMessageType_to_tag SdnMessageType.EchoReply = 3"
| "SdnMessageType_to_tag SdnMessageType.FeaturesRequest = 4"
| "SdnMessageType_to_tag SdnMessageType.FeaturesReply = 5"
| "SdnMessageType_to_tag SdnMessageType.FlowMod = 6"
| "SdnMessageType_to_tag SdnMessageType.PacketIn = 7"
| "SdnMessageType_to_tag SdnMessageType.PacketOut = 8"
| "SdnMessageType_to_tag SdnMessageType.PortStatus = 9"
| "SdnMessageType_to_tag SdnMessageType.BarrierRequest = 10"
| "SdnMessageType_to_tag SdnMessageType.BarrierReply = 11"

section \<open>\<open>sdn::FlowAction\<close>\<close>

datatype (plugins only: code) FlowAction =
    Output
  | SetField
  | Drop
  | PushVlan
  | PopVlan
  | SetQueue
  | Group

definition FlowAction_from_tag :: "u8 \<Rightarrow> FlowAction option" where
  "FlowAction_from_tag tag =
     (if tag = 0 then Some FlowAction.Output
      else if tag = 1 then Some FlowAction.SetField
      else if tag = 2 then Some FlowAction.Drop
      else if tag = 3 then Some FlowAction.PushVlan
      else if tag = 4 then Some FlowAction.PopVlan
      else if tag = 5 then Some FlowAction.SetQueue
      else if tag = 6 then Some FlowAction.Group
      else option.None)"

primrec FlowAction_to_tag :: "FlowAction \<Rightarrow> u8" where
  "FlowAction_to_tag FlowAction.Output = 0"
| "FlowAction_to_tag FlowAction.SetField = 1"
| "FlowAction_to_tag FlowAction.Drop = 2"
| "FlowAction_to_tag FlowAction.PushVlan = 3"
| "FlowAction_to_tag FlowAction.PopVlan = 4"
| "FlowAction_to_tag FlowAction.SetQueue = 5"
| "FlowAction_to_tag FlowAction.Group = 6"

section \<open>\<open>sdn::MatchField\<close>\<close>

datatype (plugins only: code) MatchField =
    InPort
  | EthDst
  | EthSrc
  | EthType
  | VlanId
  | IpSrc
  | IpDst
  | TcpSrc
  | TcpDst
  | UdpSrc
  | UdpDst

definition MatchField_from_tag :: "u8 \<Rightarrow> MatchField option" where
  "MatchField_from_tag tag =
     (if tag = 0 then Some MatchField.InPort
      else if tag = 1 then Some MatchField.EthDst
      else if tag = 2 then Some MatchField.EthSrc
      else if tag = 3 then Some MatchField.EthType
      else if tag = 4 then Some MatchField.VlanId
      else if tag = 5 then Some MatchField.IpSrc
      else if tag = 6 then Some MatchField.IpDst
      else if tag = 7 then Some MatchField.TcpSrc
      else if tag = 8 then Some MatchField.TcpDst
      else if tag = 9 then Some MatchField.UdpSrc
      else if tag = 10 then Some MatchField.UdpDst
      else option.None)"

primrec MatchField_to_tag :: "MatchField \<Rightarrow> u8" where
  "MatchField_to_tag MatchField.InPort = 0"
| "MatchField_to_tag MatchField.EthDst = 1"
| "MatchField_to_tag MatchField.EthSrc = 2"
| "MatchField_to_tag MatchField.EthType = 3"
| "MatchField_to_tag MatchField.VlanId = 4"
| "MatchField_to_tag MatchField.IpSrc = 5"
| "MatchField_to_tag MatchField.IpDst = 6"
| "MatchField_to_tag MatchField.TcpSrc = 7"
| "MatchField_to_tag MatchField.TcpDst = 8"
| "MatchField_to_tag MatchField.UdpSrc = 9"
| "MatchField_to_tag MatchField.UdpDst = 10"

section \<open>\<open>sdn::PortState\<close>\<close>

datatype (plugins only: code) PortState =
    Up
  | Down
  | Blocked

definition PortState_from_tag :: "u8 \<Rightarrow> PortState option" where
  "PortState_from_tag tag =
     (if tag = 0 then Some PortState.Up
      else if tag = 1 then Some PortState.Down
      else if tag = 2 then Some PortState.Blocked
      else option.None)"

primrec PortState_to_tag :: "PortState \<Rightarrow> u8" where
  "PortState_to_tag PortState.Up = 0"
| "PortState_to_tag PortState.Down = 1"
| "PortState_to_tag PortState.Blocked = 2"

definition DOH_PORT :: "u16" where
  "DOH_PORT = 443"

section \<open>\<open>doh::ContentType\<close>\<close>

datatype (plugins only: code) Doh_ContentType =
    DnsMessage
  | DnsJson

definition Doh_ContentType_from_tag :: "u8 \<Rightarrow> Doh_ContentType option" where
  "Doh_ContentType_from_tag tag =
     (if tag = 0 then Some Doh_ContentType.DnsMessage
      else if tag = 1 then Some Doh_ContentType.DnsJson
      else option.None)"

primrec Doh_ContentType_to_tag :: "Doh_ContentType \<Rightarrow> u8" where
  "Doh_ContentType_to_tag Doh_ContentType.DnsMessage = 0"
| "Doh_ContentType_to_tag Doh_ContentType.DnsJson = 1"

section \<open>\<open>doh::RequestMethod\<close>\<close>

datatype (plugins only: code) RequestMethod =
    Get
  | Post

definition RequestMethod_from_tag :: "u8 \<Rightarrow> RequestMethod option" where
  "RequestMethod_from_tag tag =
     (if tag = 0 then Some RequestMethod.Get
      else if tag = 1 then Some RequestMethod.Post
      else option.None)"

primrec RequestMethod_to_tag :: "RequestMethod \<Rightarrow> u8" where
  "RequestMethod_to_tag RequestMethod.Get = 0"
| "RequestMethod_to_tag RequestMethod.Post = 1"

section \<open>\<open>doh::WireFormat\<close>\<close>

datatype (plugins only: code) WireFormat =
    Binary
  | Json

definition WireFormat_from_tag :: "u8 \<Rightarrow> WireFormat option" where
  "WireFormat_from_tag tag =
     (if tag = 0 then Some WireFormat.Binary
      else if tag = 1 then Some WireFormat.Json
      else option.None)"

primrec WireFormat_to_tag :: "WireFormat \<Rightarrow> u8" where
  "WireFormat_to_tag WireFormat.Binary = 0"
| "WireFormat_to_tag WireFormat.Json = 1"

section \<open>\<open>doh::ErrorReason\<close>\<close>

datatype (plugins only: code) Doh_ErrorReason =
    BadContentType
  | BadMethod
  | PayloadTooLarge
  | UpstreamTimeout
  | UpstreamError

definition Doh_ErrorReason_from_tag :: "u8 \<Rightarrow> Doh_ErrorReason option" where
  "Doh_ErrorReason_from_tag tag =
     (if tag = 0 then Some Doh_ErrorReason.BadContentType
      else if tag = 1 then Some Doh_ErrorReason.BadMethod
      else if tag = 2 then Some Doh_ErrorReason.PayloadTooLarge
      else if tag = 3 then Some Doh_ErrorReason.UpstreamTimeout
      else if tag = 4 then Some Doh_ErrorReason.UpstreamError
      else option.None)"

primrec Doh_ErrorReason_to_tag :: "Doh_ErrorReason \<Rightarrow> u8" where
  "Doh_ErrorReason_to_tag Doh_ErrorReason.BadContentType = 0"
| "Doh_ErrorReason_to_tag Doh_ErrorReason.BadMethod = 1"
| "Doh_ErrorReason_to_tag Doh_ErrorReason.PayloadTooLarge = 2"
| "Doh_ErrorReason_to_tag Doh_ErrorReason.UpstreamTimeout = 3"
| "Doh_ErrorReason_to_tag Doh_ErrorReason.UpstreamError = 4"

section \<open>\<open>doh::SessionState\<close>\<close>

datatype (plugins only: code) Doh_SessionState =
    Idle
  | Bound
  | Serving
  | Resolving
  | Shutdown

definition Doh_SessionState_from_tag :: "u8 \<Rightarrow> Doh_SessionState option" where
  "Doh_SessionState_from_tag tag =
     (if tag = 0 then Some Doh_SessionState.Idle
      else if tag = 1 then Some Doh_SessionState.Bound
      else if tag = 2 then Some Doh_SessionState.Serving
      else if tag = 3 then Some Doh_SessionState.Resolving
      else if tag = 4 then Some Doh_SessionState.Shutdown
      else option.None)"

primrec Doh_SessionState_to_tag :: "Doh_SessionState \<Rightarrow> u8" where
  "Doh_SessionState_to_tag Doh_SessionState.Idle = 0"
| "Doh_SessionState_to_tag Doh_SessionState.Bound = 1"
| "Doh_SessionState_to_tag Doh_SessionState.Serving = 2"
| "Doh_SessionState_to_tag Doh_SessionState.Resolving = 3"
| "Doh_SessionState_to_tag Doh_SessionState.Shutdown = 4"

definition DOQ_PORT :: "u16" where
  "DOQ_PORT = 853"

section \<open>\<open>doq::StreamType\<close>\<close>

datatype (plugins only: code) Doq_StreamType =
    Unidirectional
  | Bidirectional

definition Doq_StreamType_from_tag :: "u8 \<Rightarrow> Doq_StreamType option" where
  "Doq_StreamType_from_tag tag =
     (if tag = 0 then Some Doq_StreamType.Unidirectional
      else if tag = 1 then Some Doq_StreamType.Bidirectional
      else option.None)"

primrec Doq_StreamType_to_tag :: "Doq_StreamType \<Rightarrow> u8" where
  "Doq_StreamType_to_tag Doq_StreamType.Unidirectional = 0"
| "Doq_StreamType_to_tag Doq_StreamType.Bidirectional = 1"

section \<open>\<open>doq::ErrorCode\<close>\<close>

datatype (plugins only: code) Doq_ErrorCode =
    NoError
  | InternalError
  | ExcessiveLoad
  | ProtocolError

definition Doq_ErrorCode_from_tag :: "u8 \<Rightarrow> Doq_ErrorCode option" where
  "Doq_ErrorCode_from_tag tag =
     (if tag = 0 then Some Doq_ErrorCode.NoError
      else if tag = 1 then Some Doq_ErrorCode.InternalError
      else if tag = 2 then Some Doq_ErrorCode.ExcessiveLoad
      else if tag = 3 then Some Doq_ErrorCode.ProtocolError
      else option.None)"

primrec Doq_ErrorCode_to_tag :: "Doq_ErrorCode \<Rightarrow> u8" where
  "Doq_ErrorCode_to_tag Doq_ErrorCode.NoError = 0"
| "Doq_ErrorCode_to_tag Doq_ErrorCode.InternalError = 1"
| "Doq_ErrorCode_to_tag Doq_ErrorCode.ExcessiveLoad = 2"
| "Doq_ErrorCode_to_tag Doq_ErrorCode.ProtocolError = 3"

section \<open>\<open>doq::SessionState\<close>\<close>

datatype (plugins only: code) Doq_SessionState =
    Initial
  | Handshaking
  | Ready
  | Draining
  | Closed

definition Doq_SessionState_from_tag :: "u8 \<Rightarrow> Doq_SessionState option" where
  "Doq_SessionState_from_tag tag =
     (if tag = 0 then Some Doq_SessionState.Initial
      else if tag = 1 then Some Doq_SessionState.Handshaking
      else if tag = 2 then Some Doq_SessionState.Ready
      else if tag = 3 then Some Doq_SessionState.Draining
      else if tag = 4 then Some Doq_SessionState.Closed
      else option.None)"

primrec Doq_SessionState_to_tag :: "Doq_SessionState \<Rightarrow> u8" where
  "Doq_SessionState_to_tag Doq_SessionState.Initial = 0"
| "Doq_SessionState_to_tag Doq_SessionState.Handshaking = 1"
| "Doq_SessionState_to_tag Doq_SessionState.Ready = 2"
| "Doq_SessionState_to_tag Doq_SessionState.Draining = 3"
| "Doq_SessionState_to_tag Doq_SessionState.Closed = 4"

section \<open>\<open>doq::ServerState\<close>\<close>

datatype (plugins only: code) Doq_ServerState =
    Idle
  | Bound
  | Listening
  | Processing
  | Shutdown

definition Doq_ServerState_from_tag :: "u8 \<Rightarrow> Doq_ServerState option" where
  "Doq_ServerState_from_tag tag =
     (if tag = 0 then Some Doq_ServerState.Idle
      else if tag = 1 then Some Doq_ServerState.Bound
      else if tag = 2 then Some Doq_ServerState.Listening
      else if tag = 3 then Some Doq_ServerState.Processing
      else if tag = 4 then Some Doq_ServerState.Shutdown
      else option.None)"

primrec Doq_ServerState_to_tag :: "Doq_ServerState \<Rightarrow> u8" where
  "Doq_ServerState_to_tag Doq_ServerState.Idle = 0"
| "Doq_ServerState_to_tag Doq_ServerState.Bound = 1"
| "Doq_ServerState_to_tag Doq_ServerState.Listening = 2"
| "Doq_ServerState_to_tag Doq_ServerState.Processing = 3"
| "Doq_ServerState_to_tag Doq_ServerState.Shutdown = 4"

definition DOT_PORT :: "u16" where
  "DOT_PORT = 853"

section \<open>\<open>dot::SessionState\<close>\<close>

datatype (plugins only: code) Dot_SessionState =
    Connecting
  | Handshaking
  | Established
  | Closing
  | Closed

definition Dot_SessionState_from_tag :: "u8 \<Rightarrow> Dot_SessionState option" where
  "Dot_SessionState_from_tag tag =
     (if tag = 0 then Some Dot_SessionState.Connecting
      else if tag = 1 then Some Dot_SessionState.Handshaking
      else if tag = 2 then Some Dot_SessionState.Established
      else if tag = 3 then Some Dot_SessionState.Closing
      else if tag = 4 then Some Dot_SessionState.Closed
      else option.None)"

primrec Dot_SessionState_to_tag :: "Dot_SessionState \<Rightarrow> u8" where
  "Dot_SessionState_to_tag Dot_SessionState.Connecting = 0"
| "Dot_SessionState_to_tag Dot_SessionState.Handshaking = 1"
| "Dot_SessionState_to_tag Dot_SessionState.Established = 2"
| "Dot_SessionState_to_tag Dot_SessionState.Closing = 3"
| "Dot_SessionState_to_tag Dot_SessionState.Closed = 4"

section \<open>\<open>dot::PaddingStrategy\<close>\<close>

datatype (plugins only: code) PaddingStrategy =
    NoPadding
  | BlockPadding
  | RandomPadding

definition PaddingStrategy_from_tag :: "u8 \<Rightarrow> PaddingStrategy option" where
  "PaddingStrategy_from_tag tag =
     (if tag = 0 then Some PaddingStrategy.NoPadding
      else if tag = 1 then Some PaddingStrategy.BlockPadding
      else if tag = 2 then Some PaddingStrategy.RandomPadding
      else option.None)"

primrec PaddingStrategy_to_tag :: "PaddingStrategy \<Rightarrow> u8" where
  "PaddingStrategy_to_tag PaddingStrategy.NoPadding = 0"
| "PaddingStrategy_to_tag PaddingStrategy.BlockPadding = 1"
| "PaddingStrategy_to_tag PaddingStrategy.RandomPadding = 2"

section \<open>\<open>dot::ErrorReason\<close>\<close>

datatype (plugins only: code) Dot_ErrorReason =
    HandshakeFailed
  | CertificateInvalid
  | Timeout
  | UpstreamError

definition Dot_ErrorReason_from_tag :: "u8 \<Rightarrow> Dot_ErrorReason option" where
  "Dot_ErrorReason_from_tag tag =
     (if tag = 0 then Some Dot_ErrorReason.HandshakeFailed
      else if tag = 1 then Some Dot_ErrorReason.CertificateInvalid
      else if tag = 2 then Some Dot_ErrorReason.Timeout
      else if tag = 3 then Some Dot_ErrorReason.UpstreamError
      else option.None)"

primrec Dot_ErrorReason_to_tag :: "Dot_ErrorReason \<Rightarrow> u8" where
  "Dot_ErrorReason_to_tag Dot_ErrorReason.HandshakeFailed = 0"
| "Dot_ErrorReason_to_tag Dot_ErrorReason.CertificateInvalid = 1"
| "Dot_ErrorReason_to_tag Dot_ErrorReason.Timeout = 2"
| "Dot_ErrorReason_to_tag Dot_ErrorReason.UpstreamError = 3"

section \<open>\<open>dot::ServerState\<close>\<close>

datatype (plugins only: code) Dot_ServerState =
    Idle
  | Bound
  | Listening
  | Processing
  | Shutdown

definition Dot_ServerState_from_tag :: "u8 \<Rightarrow> Dot_ServerState option" where
  "Dot_ServerState_from_tag tag =
     (if tag = 0 then Some Dot_ServerState.Idle
      else if tag = 1 then Some Dot_ServerState.Bound
      else if tag = 2 then Some Dot_ServerState.Listening
      else if tag = 3 then Some Dot_ServerState.Processing
      else if tag = 4 then Some Dot_ServerState.Shutdown
      else option.None)"

primrec Dot_ServerState_to_tag :: "Dot_ServerState \<Rightarrow> u8" where
  "Dot_ServerState_to_tag Dot_ServerState.Idle = 0"
| "Dot_ServerState_to_tag Dot_ServerState.Bound = 1"
| "Dot_ServerState_to_tag Dot_ServerState.Listening = 2"
| "Dot_ServerState_to_tag Dot_ServerState.Processing = 3"
| "Dot_ServerState_to_tag Dot_ServerState.Shutdown = 4"

section \<open>\<open>odns::Role\<close>\<close>

datatype (plugins only: code) Role =
    Client
  | Proxy
  | Target

definition Role_from_tag :: "u8 \<Rightarrow> Role option" where
  "Role_from_tag tag =
     (if tag = 0 then Some Role.Client
      else if tag = 1 then Some Role.Proxy
      else if tag = 2 then Some Role.Target
      else option.None)"

primrec Role_to_tag :: "Role \<Rightarrow> u8" where
  "Role_to_tag Role.Client = 0"
| "Role_to_tag Role.Proxy = 1"
| "Role_to_tag Role.Target = 2"

section \<open>\<open>odns::OdnsMessageType\<close>\<close>

datatype (plugins only: code) OdnsMessageType =
    Query
  | Response

definition OdnsMessageType_from_tag :: "u8 \<Rightarrow> OdnsMessageType option" where
  "OdnsMessageType_from_tag tag =
     (if tag = 0 then Some OdnsMessageType.Query
      else if tag = 1 then Some OdnsMessageType.Response
      else option.None)"

primrec OdnsMessageType_to_tag :: "OdnsMessageType \<Rightarrow> u8" where
  "OdnsMessageType_to_tag OdnsMessageType.Query = 0"
| "OdnsMessageType_to_tag OdnsMessageType.Response = 1"

section \<open>\<open>odns::OdnsErrorReason\<close>\<close>

datatype (plugins only: code) OdnsErrorReason =
    ProxyError
  | TargetError
  | DecryptionFailed
  | InvalidConfig
  | PayloadTooLarge

definition OdnsErrorReason_from_tag :: "u8 \<Rightarrow> OdnsErrorReason option" where
  "OdnsErrorReason_from_tag tag =
     (if tag = 0 then Some OdnsErrorReason.ProxyError
      else if tag = 1 then Some OdnsErrorReason.TargetError
      else if tag = 2 then Some OdnsErrorReason.DecryptionFailed
      else if tag = 3 then Some OdnsErrorReason.InvalidConfig
      else if tag = 4 then Some OdnsErrorReason.PayloadTooLarge
      else option.None)"

primrec OdnsErrorReason_to_tag :: "OdnsErrorReason \<Rightarrow> u8" where
  "OdnsErrorReason_to_tag OdnsErrorReason.ProxyError = 0"
| "OdnsErrorReason_to_tag OdnsErrorReason.TargetError = 1"
| "OdnsErrorReason_to_tag OdnsErrorReason.DecryptionFailed = 2"
| "OdnsErrorReason_to_tag OdnsErrorReason.InvalidConfig = 3"
| "OdnsErrorReason_to_tag OdnsErrorReason.PayloadTooLarge = 4"

section \<open>\<open>odns::EncapsulationFormat\<close>\<close>

datatype (plugins only: code) EncapsulationFormat =
    Hpke

definition EncapsulationFormat_from_tag :: "u8 \<Rightarrow> EncapsulationFormat option" where
  "EncapsulationFormat_from_tag tag =
     (if tag = 0 then Some EncapsulationFormat.Hpke
      else option.None)"

primrec EncapsulationFormat_to_tag :: "EncapsulationFormat \<Rightarrow> u8" where
  "EncapsulationFormat_to_tag EncapsulationFormat.Hpke = 0"

section \<open>\<open>odns::SessionState\<close>\<close>

datatype (plugins only: code) Odns_SessionState =
    Idle
  | KeyExchange
  | Ready
  | Processing
  | Closing

definition Odns_SessionState_from_tag :: "u8 \<Rightarrow> Odns_SessionState option" where
  "Odns_SessionState_from_tag tag =
     (if tag = 0 then Some Odns_SessionState.Idle
      else if tag = 1 then Some Odns_SessionState.KeyExchange
      else if tag = 2 then Some Odns_SessionState.Ready
      else if tag = 3 then Some Odns_SessionState.Processing
      else if tag = 4 then Some Odns_SessionState.Closing
      else option.None)"

primrec Odns_SessionState_to_tag :: "Odns_SessionState \<Rightarrow> u8" where
  "Odns_SessionState_to_tag Odns_SessionState.Idle = 0"
| "Odns_SessionState_to_tag Odns_SessionState.KeyExchange = 1"
| "Odns_SessionState_to_tag Odns_SessionState.Ready = 2"
| "Odns_SessionState_to_tag Odns_SessionState.Processing = 3"
| "Odns_SessionState_to_tag Odns_SessionState.Closing = 4"

definition MDNS_PORT :: "u16" where
  "MDNS_PORT = 5353"

section \<open>\<open>mdns::MdnsRecordType\<close>\<close>

datatype (plugins only: code) MdnsRecordType =
    A
  | Aaaa
  | Ptr
  | Srv
  | Txt

definition MdnsRecordType_from_tag :: "u8 \<Rightarrow> MdnsRecordType option" where
  "MdnsRecordType_from_tag tag =
     (if tag = 0 then Some MdnsRecordType.A
      else if tag = 1 then Some MdnsRecordType.Aaaa
      else if tag = 2 then Some MdnsRecordType.Ptr
      else if tag = 3 then Some MdnsRecordType.Srv
      else if tag = 4 then Some MdnsRecordType.Txt
      else option.None)"

primrec MdnsRecordType_to_tag :: "MdnsRecordType \<Rightarrow> u8" where
  "MdnsRecordType_to_tag MdnsRecordType.A = 0"
| "MdnsRecordType_to_tag MdnsRecordType.Aaaa = 1"
| "MdnsRecordType_to_tag MdnsRecordType.Ptr = 2"
| "MdnsRecordType_to_tag MdnsRecordType.Srv = 3"
| "MdnsRecordType_to_tag MdnsRecordType.Txt = 4"

section \<open>\<open>mdns::QueryType\<close>\<close>

datatype (plugins only: code) Mdns_QueryType =
    Standard
  | OneShot
  | Continuous

definition Mdns_QueryType_from_tag :: "u8 \<Rightarrow> Mdns_QueryType option" where
  "Mdns_QueryType_from_tag tag =
     (if tag = 0 then Some Mdns_QueryType.Standard
      else if tag = 1 then Some Mdns_QueryType.OneShot
      else if tag = 2 then Some Mdns_QueryType.Continuous
      else option.None)"

primrec Mdns_QueryType_to_tag :: "Mdns_QueryType \<Rightarrow> u8" where
  "Mdns_QueryType_to_tag Mdns_QueryType.Standard = 0"
| "Mdns_QueryType_to_tag Mdns_QueryType.OneShot = 1"
| "Mdns_QueryType_to_tag Mdns_QueryType.Continuous = 2"

section \<open>\<open>mdns::ConflictAction\<close>\<close>

datatype (plugins only: code) ConflictAction =
    Probe
  | Defend
  | Withdraw

definition ConflictAction_from_tag :: "u8 \<Rightarrow> ConflictAction option" where
  "ConflictAction_from_tag tag =
     (if tag = 0 then Some ConflictAction.Probe
      else if tag = 1 then Some ConflictAction.Defend
      else if tag = 2 then Some ConflictAction.Withdraw
      else option.None)"

primrec ConflictAction_to_tag :: "ConflictAction \<Rightarrow> u8" where
  "ConflictAction_to_tag ConflictAction.Probe = 0"
| "ConflictAction_to_tag ConflictAction.Defend = 1"
| "ConflictAction_to_tag ConflictAction.Withdraw = 2"

section \<open>\<open>mdns::ServiceFlag\<close>\<close>

datatype (plugins only: code) ServiceFlag =
    Unique
  | Shared

definition ServiceFlag_from_tag :: "u8 \<Rightarrow> ServiceFlag option" where
  "ServiceFlag_from_tag tag =
     (if tag = 0 then Some ServiceFlag.Unique
      else if tag = 1 then Some ServiceFlag.Shared
      else option.None)"

primrec ServiceFlag_to_tag :: "ServiceFlag \<Rightarrow> u8" where
  "ServiceFlag_to_tag ServiceFlag.Unique = 0"
| "ServiceFlag_to_tag ServiceFlag.Shared = 1"

section \<open>\<open>mdns::ResponderState\<close>\<close>

datatype (plugins only: code) Mdns_ResponderState =
    Idle
  | Probing
  | Announcing
  | Running
  | ShuttingDown

definition Mdns_ResponderState_from_tag :: "u8 \<Rightarrow> Mdns_ResponderState option" where
  "Mdns_ResponderState_from_tag tag =
     (if tag = 0 then Some Mdns_ResponderState.Idle
      else if tag = 1 then Some Mdns_ResponderState.Probing
      else if tag = 2 then Some Mdns_ResponderState.Announcing
      else if tag = 3 then Some Mdns_ResponderState.Running
      else if tag = 4 then Some Mdns_ResponderState.ShuttingDown
      else option.None)"

primrec Mdns_ResponderState_to_tag :: "Mdns_ResponderState \<Rightarrow> u8" where
  "Mdns_ResponderState_to_tag Mdns_ResponderState.Idle = 0"
| "Mdns_ResponderState_to_tag Mdns_ResponderState.Probing = 1"
| "Mdns_ResponderState_to_tag Mdns_ResponderState.Announcing = 2"
| "Mdns_ResponderState_to_tag Mdns_ResponderState.Running = 3"
| "Mdns_ResponderState_to_tag Mdns_ResponderState.ShuttingDown = 4"

section \<open>Tags and enumerations\<close>

interpretation BgpState_codec: tag_codec BgpState_to_tag BgpState_from_tag 6
  by (unfold_locales, (case_tac x; simp add: BgpState_from_tag_def), unfold BgpState_from_tag_def,
    (erule codec_arm, simp only: BgpState_to_tag.simps)+, erule codec_end, (case_tac x; simp), simp add: codec_eval)

interpretation BgpEvent_codec: tag_codec BgpEvent_to_tag BgpEvent_from_tag 19
  by (unfold_locales, (case_tac x; simp add: BgpEvent_from_tag_def), unfold BgpEvent_from_tag_def,
    (erule codec_arm, simp only: BgpEvent_to_tag.simps)+, erule codec_end, (case_tac x; simp), simp add: codec_eval)

interpretation Bgp_MessageType_codec: tag_codec Bgp_MessageType_to_tag Bgp_MessageType_from_tag 4
  by (unfold_locales, (case_tac x; simp add: Bgp_MessageType_from_tag_def), unfold Bgp_MessageType_from_tag_def,
    (erule codec_arm, simp only: Bgp_MessageType_to_tag.simps)+, erule codec_end, (case_tac x; simp), simp add: codec_eval)

interpretation Bgp_ErrorCode_codec: tag_codec Bgp_ErrorCode_to_tag Bgp_ErrorCode_from_tag 6
  by (unfold_locales, (case_tac x; simp add: Bgp_ErrorCode_from_tag_def), unfold Bgp_ErrorCode_from_tag_def,
    (erule codec_arm, simp only: Bgp_ErrorCode_to_tag.simps)+, erule codec_end, (case_tac x; simp), simp add: codec_eval)

interpretation Origin_codec: tag_codec Origin_to_tag Origin_from_tag 3
  by (unfold_locales, (case_tac x; simp add: Origin_from_tag_def), unfold Origin_from_tag_def,
    (erule codec_arm, simp only: Origin_to_tag.simps)+, erule codec_end, (case_tac x; simp), simp add: codec_eval)

interpretation AsPathSegmentType_codec: tag_codec AsPathSegmentType_to_tag AsPathSegmentType_from_tag 2
  by (unfold_locales, (case_tac x; simp add: AsPathSegmentType_from_tag_def), unfold AsPathSegmentType_from_tag_def,
    (erule codec_arm, simp only: AsPathSegmentType_to_tag.simps)+, erule codec_end, (case_tac x; simp), simp add: codec_eval)

interpretation PathAttrType_codec: tag_codec PathAttrType_to_tag PathAttrType_from_tag 8
  by (unfold_locales, (case_tac x; simp add: PathAttrType_from_tag_def), unfold PathAttrType_from_tag_def,
    (erule codec_arm, simp only: PathAttrType_to_tag.simps)+, erule codec_end, (case_tac x; simp), simp add: codec_eval)

interpretation Ospf_PacketType_codec: tag_codec Ospf_PacketType_to_tag Ospf_PacketType_from_tag 5
  by (unfold_locales, (case_tac x; simp add: Ospf_PacketType_from_tag_def), unfold Ospf_PacketType_from_tag_def,
    (erule codec_arm, simp only: Ospf_PacketType_to_tag.simps)+, erule codec_end, (case_tac x; simp), simp add: codec_eval)

interpretation NeighborState_codec: tag_codec NeighborState_to_tag NeighborState_from_tag 8
  by (unfold_locales, (case_tac x; simp add: NeighborState_from_tag_def), unfold NeighborState_from_tag_def,
    (erule codec_arm, simp only: NeighborState_to_tag.simps)+, erule codec_end, (case_tac x; simp), simp add: codec_eval)

interpretation LsaType_codec: tag_codec LsaType_to_tag LsaType_from_tag 5
  by (unfold_locales, (case_tac x; simp add: LsaType_from_tag_def), unfold LsaType_from_tag_def,
    (erule codec_arm, simp only: LsaType_to_tag.simps)+, erule codec_end, (case_tac x; simp), simp add: codec_eval)

interpretation AreaType_codec: tag_codec AreaType_to_tag AreaType_from_tag 4
  by (unfold_locales, (case_tac x; simp add: AreaType_from_tag_def), unfold AreaType_from_tag_def,
    (erule codec_arm, simp only: AreaType_to_tag.simps)+, erule codec_end, (case_tac x; simp), simp add: codec_eval)

interpretation OspfError_codec: tag_codec OspfError_to_tag OspfError_from_tag 7
  by (unfold_locales, (case_tac x; simp add: OspfError_from_tag_def), unfold OspfError_from_tag_def,
    (erule codec_arm, simp only: OspfError_to_tag.simps)+, erule codec_end, (case_tac x; simp), simp add: codec_eval)

interpretation BfdState_codec: tag_codec BfdState_to_tag BfdState_from_tag 4
  by (unfold_locales, (case_tac x; simp add: BfdState_from_tag_def), unfold BfdState_from_tag_def,
    (erule codec_arm, simp only: BfdState_to_tag.simps)+, erule codec_end, (case_tac x; simp), simp add: codec_eval)

interpretation Diagnostic_codec: tag_codec Diagnostic_to_tag Diagnostic_from_tag 9
  by (unfold_locales, (case_tac x; simp add: Diagnostic_from_tag_def), unfold Diagnostic_from_tag_def,
    (erule codec_arm, simp only: Diagnostic_to_tag.simps)+, erule codec_end, (case_tac x; simp), simp add: codec_eval)

interpretation SessionMode_codec: tag_codec SessionMode_to_tag SessionMode_from_tag 2
  by (unfold_locales, (case_tac x; simp add: SessionMode_from_tag_def), unfold SessionMode_from_tag_def,
    (erule codec_arm, simp only: SessionMode_to_tag.simps)+, erule codec_end, (case_tac x; simp), simp add: codec_eval)

interpretation Bfd_SessionState_codec: tag_codec Bfd_SessionState_to_tag Bfd_SessionState_from_tag 5
  by (unfold_locales, (case_tac x; simp add: Bfd_SessionState_from_tag_def), unfold Bfd_SessionState_from_tag_def,
    (erule codec_arm, simp only: Bfd_SessionState_to_tag.simps)+, erule codec_end, (case_tac x; simp), simp add: codec_eval)

interpretation ContainerType_codec: tag_codec ContainerType_to_tag ContainerType_from_tag 3
  by (unfold_locales, (case_tac x; simp add: ContainerType_from_tag_def), unfold ContainerType_from_tag_def,
    (erule codec_arm, simp only: ContainerType_to_tag.simps)+, erule codec_end, (case_tac x; simp), simp add: codec_eval)

interpretation LdpResourceType_codec: tag_codec LdpResourceType_to_tag LdpResourceType_from_tag 3
  by (unfold_locales, (case_tac x; simp add: LdpResourceType_from_tag_def), unfold LdpResourceType_from_tag_def,
    (erule codec_arm, simp only: LdpResourceType_to_tag.simps)+, erule codec_end, (case_tac x; simp), simp add: codec_eval)

interpretation Preference_codec: tag_codec Preference_to_tag Preference_from_tag 5
  by (unfold_locales, (case_tac x; simp add: Preference_from_tag_def), unfold Preference_from_tag_def,
    (erule codec_arm, simp only: Preference_to_tag.simps)+, erule codec_end, (case_tac x; simp), simp add: codec_eval)

interpretation InteractionModel_codec: tag_codec InteractionModel_to_tag InteractionModel_from_tag 5
  by (unfold_locales, (case_tac x; simp add: InteractionModel_from_tag_def), unfold InteractionModel_from_tag_def,
    (erule codec_arm, simp only: InteractionModel_to_tag.simps)+, erule codec_end, (case_tac x; simp), simp add: codec_eval)

interpretation ConstraintViolation_codec: tag_codec ConstraintViolation_to_tag ConstraintViolation_from_tag 4
  by (unfold_locales, (case_tac x; simp add: ConstraintViolation_from_tag_def), unfold ConstraintViolation_from_tag_def,
    (erule codec_arm, simp only: ConstraintViolation_to_tag.simps)+, erule codec_end, (case_tac x; simp), simp add: codec_eval)

interpretation SdnMessageType_codec: tag_codec SdnMessageType_to_tag SdnMessageType_from_tag 12
  by (unfold_locales, (case_tac x; simp add: SdnMessageType_from_tag_def), unfold SdnMessageType_from_tag_def,
    (erule codec_arm, simp only: SdnMessageType_to_tag.simps)+, erule codec_end, (case_tac x; simp), simp add: codec_eval)

interpretation FlowAction_codec: tag_codec FlowAction_to_tag FlowAction_from_tag 7
  by (unfold_locales, (case_tac x; simp add: FlowAction_from_tag_def), unfold FlowAction_from_tag_def,
    (erule codec_arm, simp only: FlowAction_to_tag.simps)+, erule codec_end, (case_tac x; simp), simp add: codec_eval)

interpretation MatchField_codec: tag_codec MatchField_to_tag MatchField_from_tag 11
  by (unfold_locales, (case_tac x; simp add: MatchField_from_tag_def), unfold MatchField_from_tag_def,
    (erule codec_arm, simp only: MatchField_to_tag.simps)+, erule codec_end, (case_tac x; simp), simp add: codec_eval)

interpretation PortState_codec: tag_codec PortState_to_tag PortState_from_tag 3
  by (unfold_locales, (case_tac x; simp add: PortState_from_tag_def), unfold PortState_from_tag_def,
    (erule codec_arm, simp only: PortState_to_tag.simps)+, erule codec_end, (case_tac x; simp), simp add: codec_eval)

interpretation Doh_ContentType_codec: tag_codec Doh_ContentType_to_tag Doh_ContentType_from_tag 2
  by (unfold_locales, (case_tac x; simp add: Doh_ContentType_from_tag_def), unfold Doh_ContentType_from_tag_def,
    (erule codec_arm, simp only: Doh_ContentType_to_tag.simps)+, erule codec_end, (case_tac x; simp), simp add: codec_eval)

interpretation RequestMethod_codec: tag_codec RequestMethod_to_tag RequestMethod_from_tag 2
  by (unfold_locales, (case_tac x; simp add: RequestMethod_from_tag_def), unfold RequestMethod_from_tag_def,
    (erule codec_arm, simp only: RequestMethod_to_tag.simps)+, erule codec_end, (case_tac x; simp), simp add: codec_eval)

interpretation WireFormat_codec: tag_codec WireFormat_to_tag WireFormat_from_tag 2
  by (unfold_locales, (case_tac x; simp add: WireFormat_from_tag_def), unfold WireFormat_from_tag_def,
    (erule codec_arm, simp only: WireFormat_to_tag.simps)+, erule codec_end, (case_tac x; simp), simp add: codec_eval)

interpretation Doh_ErrorReason_codec: tag_codec Doh_ErrorReason_to_tag Doh_ErrorReason_from_tag 5
  by (unfold_locales, (case_tac x; simp add: Doh_ErrorReason_from_tag_def), unfold Doh_ErrorReason_from_tag_def,
    (erule codec_arm, simp only: Doh_ErrorReason_to_tag.simps)+, erule codec_end, (case_tac x; simp), simp add: codec_eval)

interpretation Doh_SessionState_codec: tag_codec Doh_SessionState_to_tag Doh_SessionState_from_tag 5
  by (unfold_locales, (case_tac x; simp add: Doh_SessionState_from_tag_def), unfold Doh_SessionState_from_tag_def,
    (erule codec_arm, simp only: Doh_SessionState_to_tag.simps)+, erule codec_end, (case_tac x; simp), simp add: codec_eval)

interpretation Doq_StreamType_codec: tag_codec Doq_StreamType_to_tag Doq_StreamType_from_tag 2
  by (unfold_locales, (case_tac x; simp add: Doq_StreamType_from_tag_def), unfold Doq_StreamType_from_tag_def,
    (erule codec_arm, simp only: Doq_StreamType_to_tag.simps)+, erule codec_end, (case_tac x; simp), simp add: codec_eval)

interpretation Doq_ErrorCode_codec: tag_codec Doq_ErrorCode_to_tag Doq_ErrorCode_from_tag 4
  by (unfold_locales, (case_tac x; simp add: Doq_ErrorCode_from_tag_def), unfold Doq_ErrorCode_from_tag_def,
    (erule codec_arm, simp only: Doq_ErrorCode_to_tag.simps)+, erule codec_end, (case_tac x; simp), simp add: codec_eval)

interpretation Doq_SessionState_codec: tag_codec Doq_SessionState_to_tag Doq_SessionState_from_tag 5
  by (unfold_locales, (case_tac x; simp add: Doq_SessionState_from_tag_def), unfold Doq_SessionState_from_tag_def,
    (erule codec_arm, simp only: Doq_SessionState_to_tag.simps)+, erule codec_end, (case_tac x; simp), simp add: codec_eval)

interpretation Doq_ServerState_codec: tag_codec Doq_ServerState_to_tag Doq_ServerState_from_tag 5
  by (unfold_locales, (case_tac x; simp add: Doq_ServerState_from_tag_def), unfold Doq_ServerState_from_tag_def,
    (erule codec_arm, simp only: Doq_ServerState_to_tag.simps)+, erule codec_end, (case_tac x; simp), simp add: codec_eval)

interpretation Dot_SessionState_codec: tag_codec Dot_SessionState_to_tag Dot_SessionState_from_tag 5
  by (unfold_locales, (case_tac x; simp add: Dot_SessionState_from_tag_def), unfold Dot_SessionState_from_tag_def,
    (erule codec_arm, simp only: Dot_SessionState_to_tag.simps)+, erule codec_end, (case_tac x; simp), simp add: codec_eval)

interpretation PaddingStrategy_codec: tag_codec PaddingStrategy_to_tag PaddingStrategy_from_tag 3
  by (unfold_locales, (case_tac x; simp add: PaddingStrategy_from_tag_def), unfold PaddingStrategy_from_tag_def,
    (erule codec_arm, simp only: PaddingStrategy_to_tag.simps)+, erule codec_end, (case_tac x; simp), simp add: codec_eval)

interpretation Dot_ErrorReason_codec: tag_codec Dot_ErrorReason_to_tag Dot_ErrorReason_from_tag 4
  by (unfold_locales, (case_tac x; simp add: Dot_ErrorReason_from_tag_def), unfold Dot_ErrorReason_from_tag_def,
    (erule codec_arm, simp only: Dot_ErrorReason_to_tag.simps)+, erule codec_end, (case_tac x; simp), simp add: codec_eval)

interpretation Dot_ServerState_codec: tag_codec Dot_ServerState_to_tag Dot_ServerState_from_tag 5
  by (unfold_locales, (case_tac x; simp add: Dot_ServerState_from_tag_def), unfold Dot_ServerState_from_tag_def,
    (erule codec_arm, simp only: Dot_ServerState_to_tag.simps)+, erule codec_end, (case_tac x; simp), simp add: codec_eval)

interpretation Role_codec: tag_codec Role_to_tag Role_from_tag 3
  by (unfold_locales, (case_tac x; simp add: Role_from_tag_def), unfold Role_from_tag_def,
    (erule codec_arm, simp only: Role_to_tag.simps)+, erule codec_end, (case_tac x; simp), simp add: codec_eval)

interpretation OdnsMessageType_codec: tag_codec OdnsMessageType_to_tag OdnsMessageType_from_tag 2
  by (unfold_locales, (case_tac x; simp add: OdnsMessageType_from_tag_def), unfold OdnsMessageType_from_tag_def,
    (erule codec_arm, simp only: OdnsMessageType_to_tag.simps)+, erule codec_end, (case_tac x; simp), simp add: codec_eval)

interpretation OdnsErrorReason_codec: tag_codec OdnsErrorReason_to_tag OdnsErrorReason_from_tag 5
  by (unfold_locales, (case_tac x; simp add: OdnsErrorReason_from_tag_def), unfold OdnsErrorReason_from_tag_def,
    (erule codec_arm, simp only: OdnsErrorReason_to_tag.simps)+, erule codec_end, (case_tac x; simp), simp add: codec_eval)

interpretation EncapsulationFormat_codec: tag_codec EncapsulationFormat_to_tag EncapsulationFormat_from_tag 1
  by (unfold_locales, (case_tac x; simp add: EncapsulationFormat_from_tag_def), unfold EncapsulationFormat_from_tag_def,
    (erule codec_arm, simp only: EncapsulationFormat_to_tag.simps)+, erule codec_end, (case_tac x; simp), simp add: codec_eval)

interpretation Odns_SessionState_codec: tag_codec Odns_SessionState_to_tag Odns_SessionState_from_tag 5
  by (unfold_locales, (case_tac x; simp add: Odns_SessionState_from_tag_def), unfold Odns_SessionState_from_tag_def,
    (erule codec_arm, simp only: Odns_SessionState_to_tag.simps)+, erule codec_end, (case_tac x; simp), simp add: codec_eval)

interpretation MdnsRecordType_codec: tag_codec MdnsRecordType_to_tag MdnsRecordType_from_tag 5
  by (unfold_locales, (case_tac x; simp add: MdnsRecordType_from_tag_def), unfold MdnsRecordType_from_tag_def,
    (erule codec_arm, simp only: MdnsRecordType_to_tag.simps)+, erule codec_end, (case_tac x; simp), simp add: codec_eval)

interpretation Mdns_QueryType_codec: tag_codec Mdns_QueryType_to_tag Mdns_QueryType_from_tag 3
  by (unfold_locales, (case_tac x; simp add: Mdns_QueryType_from_tag_def), unfold Mdns_QueryType_from_tag_def,
    (erule codec_arm, simp only: Mdns_QueryType_to_tag.simps)+, erule codec_end, (case_tac x; simp), simp add: codec_eval)

interpretation ConflictAction_codec: tag_codec ConflictAction_to_tag ConflictAction_from_tag 3
  by (unfold_locales, (case_tac x; simp add: ConflictAction_from_tag_def), unfold ConflictAction_from_tag_def,
    (erule codec_arm, simp only: ConflictAction_to_tag.simps)+, erule codec_end, (case_tac x; simp), simp add: codec_eval)

interpretation ServiceFlag_codec: tag_codec ServiceFlag_to_tag ServiceFlag_from_tag 2
  by (unfold_locales, (case_tac x; simp add: ServiceFlag_from_tag_def), unfold ServiceFlag_from_tag_def,
    (erule codec_arm, simp only: ServiceFlag_to_tag.simps)+, erule codec_end, (case_tac x; simp), simp add: codec_eval)

interpretation Mdns_ResponderState_codec: tag_codec Mdns_ResponderState_to_tag Mdns_ResponderState_from_tag 5
  by (unfold_locales, (case_tac x; simp add: Mdns_ResponderState_from_tag_def), unfold Mdns_ResponderState_from_tag_def,
    (erule codec_arm, simp only: Mdns_ResponderState_to_tag.simps)+, erule codec_end, (case_tac x; simp), simp add: codec_eval)

end
