(* ===== verification/Tunnel_Types.thy ===== *)
theory Tunnel_Types
  imports Tag_Codec
begin

text \<open>
  The types of 3 modules of the Rust crate, under \<open>bindings/rust/src\<close>.

  \<^item> \<open>vpn.rs\<close>: \<open>TunnelType\<close>, \<open>TunnelPhase\<close>,
    \<open>EncryptionAlgorithm\<close>, \<open>IntegrityAlgorithm\<close>, \<open>DhGroup\<close>,
    \<open>SaLifecycle\<close>, \<open>IkeVersion\<close>, \<open>VpnError\<close>.
  \<^item> \<open>proxy.rs\<close>: \<open>ProxyMode\<close>, \<open>HopByHopHeader\<close>,
    \<open>CacheDirective\<close>, \<open>ProxyError\<close>.
  \<^item> \<open>media.rs\<close>: \<open>MediaContentType\<close>, \<open>Codec\<close>,
    \<open>StreamProtocol\<close>, \<open>TranscodeProfile\<close>, \<open>PlayerEvent\<close>,
    \<open>PlayerState\<close>.

  The \<open>Display\<close> implementations and the \<open>ALL\<close> arrays of these modules are not modelled.
\<close>

definition IKE_PORT :: "u16" where
  "IKE_PORT = 500"

definition IKE_NATT_PORT :: "u16" where
  "IKE_NATT_PORT = 4500"

definition WIREGUARD_PORT :: "u16" where
  "WIREGUARD_PORT = 51820"

definition OPENVPN_PORT :: "u16" where
  "OPENVPN_PORT = 1194"

section \<open>\<open>vpn::TunnelType\<close>\<close>

datatype (plugins only: code) TunnelType =
    Ipsec
  | Wireguard
  | Openvpn
  | L2tp

definition TunnelType_from_tag :: "u8 \<Rightarrow> TunnelType option" where
  "TunnelType_from_tag tag =
     (if tag = 0 then Some TunnelType.Ipsec
      else if tag = 1 then Some TunnelType.Wireguard
      else if tag = 2 then Some TunnelType.Openvpn
      else if tag = 3 then Some TunnelType.L2tp
      else option.None)"

primrec TunnelType_to_tag :: "TunnelType \<Rightarrow> u8" where
  "TunnelType_to_tag TunnelType.Ipsec = 0"
| "TunnelType_to_tag TunnelType.Wireguard = 1"
| "TunnelType_to_tag TunnelType.Openvpn = 2"
| "TunnelType_to_tag TunnelType.L2tp = 3"

definition TunnelType_uses_ike :: "TunnelType \<Rightarrow> bool" where
  "TunnelType_uses_ike self =
     (case self of
      TunnelType.Ipsec \<Rightarrow> True
    | TunnelType.L2tp \<Rightarrow> True
    | _ \<Rightarrow> False)"

definition TunnelType_is_kernel_level :: "TunnelType \<Rightarrow> bool" where
  "TunnelType_is_kernel_level self =
     (case self of
      TunnelType.Ipsec \<Rightarrow> True
    | TunnelType.Wireguard \<Rightarrow> True
    | _ \<Rightarrow> False)"

definition TunnelType_default_port :: "TunnelType \<Rightarrow> u16" where
  "TunnelType_default_port self =
     (case self of
      TunnelType.Ipsec \<Rightarrow> IKE_PORT
    | TunnelType.Wireguard \<Rightarrow> WIREGUARD_PORT
    | TunnelType.Openvpn \<Rightarrow> OPENVPN_PORT
    | TunnelType.L2tp \<Rightarrow> 1701)"

section \<open>\<open>vpn::TunnelPhase\<close>\<close>

datatype (plugins only: code) TunnelPhase =
    Idle
  | Phase1Init
  | Phase1Auth
  | Phase1Done
  | Phase2Negotiating
  | Established
  | Expired

definition TunnelPhase_from_tag :: "u8 \<Rightarrow> TunnelPhase option" where
  "TunnelPhase_from_tag tag =
     (if tag = 0 then Some TunnelPhase.Idle
      else if tag = 1 then Some TunnelPhase.Phase1Init
      else if tag = 2 then Some TunnelPhase.Phase1Auth
      else if tag = 3 then Some TunnelPhase.Phase1Done
      else if tag = 4 then Some TunnelPhase.Phase2Negotiating
      else if tag = 5 then Some TunnelPhase.Established
      else if tag = 6 then Some TunnelPhase.Expired
      else option.None)"

primrec TunnelPhase_to_tag :: "TunnelPhase \<Rightarrow> u8" where
  "TunnelPhase_to_tag TunnelPhase.Idle = 0"
| "TunnelPhase_to_tag TunnelPhase.Phase1Init = 1"
| "TunnelPhase_to_tag TunnelPhase.Phase1Auth = 2"
| "TunnelPhase_to_tag TunnelPhase.Phase1Done = 3"
| "TunnelPhase_to_tag TunnelPhase.Phase2Negotiating = 4"
| "TunnelPhase_to_tag TunnelPhase.Established = 5"
| "TunnelPhase_to_tag TunnelPhase.Expired = 6"

definition TunnelPhase_is_established :: "TunnelPhase \<Rightarrow> bool" where
  "TunnelPhase_is_established self =
     (case self of
      TunnelPhase.Established \<Rightarrow> True
    | _ \<Rightarrow> False)"

definition TunnelPhase_is_negotiating :: "TunnelPhase \<Rightarrow> bool" where
  "TunnelPhase_is_negotiating self =
     (case self of
      TunnelPhase.Phase1Init \<Rightarrow> True
    | TunnelPhase.Phase1Auth \<Rightarrow> True
    | TunnelPhase.Phase2Negotiating \<Rightarrow> True
    | _ \<Rightarrow> False)"

definition TunnelPhase_phase1_complete :: "TunnelPhase \<Rightarrow> bool" where
  "TunnelPhase_phase1_complete self =
     (case self of
      TunnelPhase.Phase1Done \<Rightarrow> True
    | TunnelPhase.Phase2Negotiating \<Rightarrow> True
    | TunnelPhase.Established \<Rightarrow> True
    | _ \<Rightarrow> False)"

section \<open>\<open>vpn::EncryptionAlgorithm\<close>\<close>

datatype (plugins only: code) EncryptionAlgorithm =
    Aes128Cbc
  | Aes256Cbc
  | Aes128Gcm
  | Aes256Gcm
  | Chacha20Poly1305
  | NullCipher

definition EncryptionAlgorithm_from_tag :: "u8 \<Rightarrow> EncryptionAlgorithm option" where
  "EncryptionAlgorithm_from_tag tag =
     (if tag = 0 then Some EncryptionAlgorithm.Aes128Cbc
      else if tag = 1 then Some EncryptionAlgorithm.Aes256Cbc
      else if tag = 2 then Some EncryptionAlgorithm.Aes128Gcm
      else if tag = 3 then Some EncryptionAlgorithm.Aes256Gcm
      else if tag = 4 then Some EncryptionAlgorithm.Chacha20Poly1305
      else if tag = 5 then Some EncryptionAlgorithm.NullCipher
      else option.None)"

primrec EncryptionAlgorithm_to_tag :: "EncryptionAlgorithm \<Rightarrow> u8" where
  "EncryptionAlgorithm_to_tag EncryptionAlgorithm.Aes128Cbc = 0"
| "EncryptionAlgorithm_to_tag EncryptionAlgorithm.Aes256Cbc = 1"
| "EncryptionAlgorithm_to_tag EncryptionAlgorithm.Aes128Gcm = 2"
| "EncryptionAlgorithm_to_tag EncryptionAlgorithm.Aes256Gcm = 3"
| "EncryptionAlgorithm_to_tag EncryptionAlgorithm.Chacha20Poly1305 = 4"
| "EncryptionAlgorithm_to_tag EncryptionAlgorithm.NullCipher = 5"

definition EncryptionAlgorithm_is_aead :: "EncryptionAlgorithm \<Rightarrow> bool" where
  "EncryptionAlgorithm_is_aead self =
     (case self of
      EncryptionAlgorithm.Aes128Gcm \<Rightarrow> True
    | EncryptionAlgorithm.Aes256Gcm \<Rightarrow> True
    | EncryptionAlgorithm.Chacha20Poly1305 \<Rightarrow> True
    | _ \<Rightarrow> False)"

definition EncryptionAlgorithm_provides_confidentiality :: "EncryptionAlgorithm \<Rightarrow> bool" where
  "EncryptionAlgorithm_provides_confidentiality self = (\<not>
     (case self of
      EncryptionAlgorithm.NullCipher \<Rightarrow> True
    | _ \<Rightarrow> False))"

definition EncryptionAlgorithm_key_bits :: "EncryptionAlgorithm \<Rightarrow> u16" where
  "EncryptionAlgorithm_key_bits self =
     (case self of
      EncryptionAlgorithm.Aes128Cbc \<Rightarrow> 128
    | EncryptionAlgorithm.Aes128Gcm \<Rightarrow> 128
    | EncryptionAlgorithm.Aes256Cbc \<Rightarrow> 256
    | EncryptionAlgorithm.Aes256Gcm \<Rightarrow> 256
    | EncryptionAlgorithm.Chacha20Poly1305 \<Rightarrow> 256
    | EncryptionAlgorithm.NullCipher \<Rightarrow> 0)"

section \<open>\<open>vpn::IntegrityAlgorithm\<close>\<close>

datatype (plugins only: code) IntegrityAlgorithm =
    HmacSha1
  | HmacSha256
  | HmacSha384
  | HmacSha512
  | NoIntegrity

definition IntegrityAlgorithm_from_tag :: "u8 \<Rightarrow> IntegrityAlgorithm option" where
  "IntegrityAlgorithm_from_tag tag =
     (if tag = 0 then Some IntegrityAlgorithm.HmacSha1
      else if tag = 1 then Some IntegrityAlgorithm.HmacSha256
      else if tag = 2 then Some IntegrityAlgorithm.HmacSha384
      else if tag = 3 then Some IntegrityAlgorithm.HmacSha512
      else if tag = 4 then Some IntegrityAlgorithm.NoIntegrity
      else option.None)"

primrec IntegrityAlgorithm_to_tag :: "IntegrityAlgorithm \<Rightarrow> u8" where
  "IntegrityAlgorithm_to_tag IntegrityAlgorithm.HmacSha1 = 0"
| "IntegrityAlgorithm_to_tag IntegrityAlgorithm.HmacSha256 = 1"
| "IntegrityAlgorithm_to_tag IntegrityAlgorithm.HmacSha384 = 2"
| "IntegrityAlgorithm_to_tag IntegrityAlgorithm.HmacSha512 = 3"
| "IntegrityAlgorithm_to_tag IntegrityAlgorithm.NoIntegrity = 4"

definition IntegrityAlgorithm_provides_integrity :: "IntegrityAlgorithm \<Rightarrow> bool" where
  "IntegrityAlgorithm_provides_integrity self = (\<not>
     (case self of
      IntegrityAlgorithm.NoIntegrity \<Rightarrow> True
    | _ \<Rightarrow> False))"

definition IntegrityAlgorithm_mac_bits :: "IntegrityAlgorithm \<Rightarrow> u16" where
  "IntegrityAlgorithm_mac_bits self =
     (case self of
      IntegrityAlgorithm.HmacSha1 \<Rightarrow> 96
    | IntegrityAlgorithm.HmacSha256 \<Rightarrow> 128
    | IntegrityAlgorithm.HmacSha384 \<Rightarrow> 192
    | IntegrityAlgorithm.HmacSha512 \<Rightarrow> 256
    | IntegrityAlgorithm.NoIntegrity \<Rightarrow> 0)"

section \<open>\<open>vpn::DhGroup\<close>\<close>

datatype (plugins only: code) DhGroup =
    Dh14
  | Ecp256
  | Ecp384
  | Curve25519

definition DhGroup_from_tag :: "u8 \<Rightarrow> DhGroup option" where
  "DhGroup_from_tag tag =
     (if tag = 0 then Some DhGroup.Dh14
      else if tag = 1 then Some DhGroup.Ecp256
      else if tag = 2 then Some DhGroup.Ecp384
      else if tag = 3 then Some DhGroup.Curve25519
      else option.None)"

primrec DhGroup_to_tag :: "DhGroup \<Rightarrow> u8" where
  "DhGroup_to_tag DhGroup.Dh14 = 0"
| "DhGroup_to_tag DhGroup.Ecp256 = 1"
| "DhGroup_to_tag DhGroup.Ecp384 = 2"
| "DhGroup_to_tag DhGroup.Curve25519 = 3"

definition DhGroup_is_ecc :: "DhGroup \<Rightarrow> bool" where
  "DhGroup_is_ecc self =
     (case self of
      DhGroup.Ecp256 \<Rightarrow> True
    | DhGroup.Ecp384 \<Rightarrow> True
    | DhGroup.Curve25519 \<Rightarrow> True
    | _ \<Rightarrow> False)"

definition DhGroup_security_bits :: "DhGroup \<Rightarrow> u16" where
  "DhGroup_security_bits self =
     (case self of
      DhGroup.Dh14 \<Rightarrow> 112
    | DhGroup.Ecp256 \<Rightarrow> 128
    | DhGroup.Ecp384 \<Rightarrow> 192
    | DhGroup.Curve25519 \<Rightarrow> 128)"

section \<open>\<open>vpn::SaLifecycle\<close>\<close>

datatype (plugins only: code) SaLifecycle =
    NoneV
  | Active
  | Rekeying
  | Expired
  | Deleted

definition SaLifecycle_from_tag :: "u8 \<Rightarrow> SaLifecycle option" where
  "SaLifecycle_from_tag tag =
     (if tag = 0 then Some SaLifecycle.NoneV
      else if tag = 1 then Some SaLifecycle.Active
      else if tag = 2 then Some SaLifecycle.Rekeying
      else if tag = 3 then Some SaLifecycle.Expired
      else if tag = 4 then Some SaLifecycle.Deleted
      else option.None)"

primrec SaLifecycle_to_tag :: "SaLifecycle \<Rightarrow> u8" where
  "SaLifecycle_to_tag SaLifecycle.NoneV = 0"
| "SaLifecycle_to_tag SaLifecycle.Active = 1"
| "SaLifecycle_to_tag SaLifecycle.Rekeying = 2"
| "SaLifecycle_to_tag SaLifecycle.Expired = 3"
| "SaLifecycle_to_tag SaLifecycle.Deleted = 4"

definition SaLifecycle_is_usable :: "SaLifecycle \<Rightarrow> bool" where
  "SaLifecycle_is_usable self =
     (case self of
      SaLifecycle.Active \<Rightarrow> True
    | SaLifecycle.Rekeying \<Rightarrow> True
    | _ \<Rightarrow> False)"

definition SaLifecycle_is_terminated :: "SaLifecycle \<Rightarrow> bool" where
  "SaLifecycle_is_terminated self =
     (case self of
      SaLifecycle.Expired \<Rightarrow> True
    | SaLifecycle.Deleted \<Rightarrow> True
    | _ \<Rightarrow> False)"

section \<open>\<open>vpn::IkeVersion\<close>\<close>

datatype (plugins only: code) IkeVersion =
    V1
  | V2

text \<open>\<open>derive(PartialOrd, Ord)\<close>: the order of the declaration.\<close>

primrec IkeVersion_rank :: "IkeVersion \<Rightarrow> nat" where
  "IkeVersion_rank IkeVersion.V1 = 0"
| "IkeVersion_rank IkeVersion.V2 = 1"

instantiation IkeVersion :: linorder
begin

definition less_eq_IkeVersion :: "IkeVersion \<Rightarrow> IkeVersion \<Rightarrow> bool" where
  "less_eq_IkeVersion x y \<longleftrightarrow> IkeVersion_rank x \<le> IkeVersion_rank y"

definition less_IkeVersion :: "IkeVersion \<Rightarrow> IkeVersion \<Rightarrow> bool" where
  "less_IkeVersion x y \<longleftrightarrow> IkeVersion_rank x < IkeVersion_rank y"

instance
proof
  fix x y z :: IkeVersion
  show "(x < y) = (x \<le> y \<and> \<not> y \<le> x)" "x \<le> x" "x \<le> y \<or> y \<le> x"
    by (auto simp: less_eq_IkeVersion_def less_IkeVersion_def)
  show "x \<le> y \<Longrightarrow> y \<le> z \<Longrightarrow> x \<le> z" by (simp add: less_eq_IkeVersion_def)
  show "x \<le> y \<Longrightarrow> y \<le> x \<Longrightarrow> x = y" by (cases x; cases y; simp add: less_eq_IkeVersion_def)
qed

end

definition IkeVersion_from_tag :: "u8 \<Rightarrow> IkeVersion option" where
  "IkeVersion_from_tag tag =
     (if tag = 0 then Some IkeVersion.V1
      else if tag = 1 then Some IkeVersion.V2
      else option.None)"

primrec IkeVersion_to_tag :: "IkeVersion \<Rightarrow> u8" where
  "IkeVersion_to_tag IkeVersion.V1 = 0"
| "IkeVersion_to_tag IkeVersion.V2 = 1"

section \<open>\<open>vpn::VpnError\<close>\<close>

datatype (plugins only: code) VpnError =
    AuthenticationFailed
  | NoProposalChosen
  | LifetimeExpired
  | InvalidSpi
  | ReplayDetected
  | NegotiationTimeout

definition VpnError_from_tag :: "u8 \<Rightarrow> VpnError option" where
  "VpnError_from_tag tag =
     (if tag = 0 then Some VpnError.AuthenticationFailed
      else if tag = 1 then Some VpnError.NoProposalChosen
      else if tag = 2 then Some VpnError.LifetimeExpired
      else if tag = 3 then Some VpnError.InvalidSpi
      else if tag = 4 then Some VpnError.ReplayDetected
      else if tag = 5 then Some VpnError.NegotiationTimeout
      else option.None)"

primrec VpnError_to_tag :: "VpnError \<Rightarrow> u8" where
  "VpnError_to_tag VpnError.AuthenticationFailed = 0"
| "VpnError_to_tag VpnError.NoProposalChosen = 1"
| "VpnError_to_tag VpnError.LifetimeExpired = 2"
| "VpnError_to_tag VpnError.InvalidSpi = 3"
| "VpnError_to_tag VpnError.ReplayDetected = 4"
| "VpnError_to_tag VpnError.NegotiationTimeout = 5"

definition VpnError_is_security_concern :: "VpnError \<Rightarrow> bool" where
  "VpnError_is_security_concern self =
     (case self of
      VpnError.AuthenticationFailed \<Rightarrow> True
    | VpnError.InvalidSpi \<Rightarrow> True
    | VpnError.ReplayDetected \<Rightarrow> True
    | _ \<Rightarrow> False)"

definition VpnError_is_retryable :: "VpnError \<Rightarrow> bool" where
  "VpnError_is_retryable self =
     (case self of
      VpnError.NegotiationTimeout \<Rightarrow> True
    | VpnError.LifetimeExpired \<Rightarrow> True
    | _ \<Rightarrow> False)"

definition PROXY_HTTP_PORT :: "u16" where
  "PROXY_HTTP_PORT = 80"

definition PROXY_HTTPS_PORT :: "u16" where
  "PROXY_HTTPS_PORT = 443"

section \<open>\<open>proxy::ProxyMode\<close>\<close>

datatype (plugins only: code) ProxyMode =
    Forward
  | Reverse

definition ProxyMode_from_tag :: "u8 \<Rightarrow> ProxyMode option" where
  "ProxyMode_from_tag tag =
     (if tag = 0 then Some ProxyMode.Forward
      else if tag = 1 then Some ProxyMode.Reverse
      else option.None)"

primrec ProxyMode_to_tag :: "ProxyMode \<Rightarrow> u8" where
  "ProxyMode_to_tag ProxyMode.Forward = 0"
| "ProxyMode_to_tag ProxyMode.Reverse = 1"

section \<open>\<open>proxy::HopByHopHeader\<close>\<close>

datatype (plugins only: code) HopByHopHeader =
    Connection
  | KeepAlive
  | ProxyAuth
  | ProxyAuthz
  | Te
  | Trailers
  | TransferEncoding
  | Upgrade

definition HopByHopHeader_from_tag :: "u8 \<Rightarrow> HopByHopHeader option" where
  "HopByHopHeader_from_tag tag =
     (if tag = 0 then Some HopByHopHeader.Connection
      else if tag = 1 then Some HopByHopHeader.KeepAlive
      else if tag = 2 then Some HopByHopHeader.ProxyAuth
      else if tag = 3 then Some HopByHopHeader.ProxyAuthz
      else if tag = 4 then Some HopByHopHeader.Te
      else if tag = 5 then Some HopByHopHeader.Trailers
      else if tag = 6 then Some HopByHopHeader.TransferEncoding
      else if tag = 7 then Some HopByHopHeader.Upgrade
      else option.None)"

primrec HopByHopHeader_to_tag :: "HopByHopHeader \<Rightarrow> u8" where
  "HopByHopHeader_to_tag HopByHopHeader.Connection = 0"
| "HopByHopHeader_to_tag HopByHopHeader.KeepAlive = 1"
| "HopByHopHeader_to_tag HopByHopHeader.ProxyAuth = 2"
| "HopByHopHeader_to_tag HopByHopHeader.ProxyAuthz = 3"
| "HopByHopHeader_to_tag HopByHopHeader.Te = 4"
| "HopByHopHeader_to_tag HopByHopHeader.Trailers = 5"
| "HopByHopHeader_to_tag HopByHopHeader.TransferEncoding = 6"
| "HopByHopHeader_to_tag HopByHopHeader.Upgrade = 7"

section \<open>\<open>proxy::CacheDirective\<close>\<close>

datatype (plugins only: code) CacheDirective =
    NoCache
  | NoStore
  | MaxAge
  | Public
  | Private
  | MustRevalidate

definition CacheDirective_from_tag :: "u8 \<Rightarrow> CacheDirective option" where
  "CacheDirective_from_tag tag =
     (if tag = 0 then Some CacheDirective.NoCache
      else if tag = 1 then Some CacheDirective.NoStore
      else if tag = 2 then Some CacheDirective.MaxAge
      else if tag = 3 then Some CacheDirective.Public
      else if tag = 4 then Some CacheDirective.Private
      else if tag = 5 then Some CacheDirective.MustRevalidate
      else option.None)"

primrec CacheDirective_to_tag :: "CacheDirective \<Rightarrow> u8" where
  "CacheDirective_to_tag CacheDirective.NoCache = 0"
| "CacheDirective_to_tag CacheDirective.NoStore = 1"
| "CacheDirective_to_tag CacheDirective.MaxAge = 2"
| "CacheDirective_to_tag CacheDirective.Public = 3"
| "CacheDirective_to_tag CacheDirective.Private = 4"
| "CacheDirective_to_tag CacheDirective.MustRevalidate = 5"

section \<open>\<open>proxy::ProxyError\<close>\<close>

datatype (plugins only: code) ProxyError =
    BadGateway
  | GatewayTimeout
  | UpstreamRefused
  | UpstreamTls

definition ProxyError_from_tag :: "u8 \<Rightarrow> ProxyError option" where
  "ProxyError_from_tag tag =
     (if tag = 0 then Some ProxyError.BadGateway
      else if tag = 1 then Some ProxyError.GatewayTimeout
      else if tag = 2 then Some ProxyError.UpstreamRefused
      else if tag = 3 then Some ProxyError.UpstreamTls
      else option.None)"

primrec ProxyError_to_tag :: "ProxyError \<Rightarrow> u8" where
  "ProxyError_to_tag ProxyError.BadGateway = 0"
| "ProxyError_to_tag ProxyError.GatewayTimeout = 1"
| "ProxyError_to_tag ProxyError.UpstreamRefused = 2"
| "ProxyError_to_tag ProxyError.UpstreamTls = 3"

section \<open>\<open>media::MediaContentType\<close>\<close>

datatype (plugins only: code) MediaContentType =
    Audio
  | Video
  | LiveStream
  | Playlist
  | Subtitle

definition MediaContentType_from_tag :: "u8 \<Rightarrow> MediaContentType option" where
  "MediaContentType_from_tag tag =
     (if tag = 0 then Some MediaContentType.Audio
      else if tag = 1 then Some MediaContentType.Video
      else if tag = 2 then Some MediaContentType.LiveStream
      else if tag = 3 then Some MediaContentType.Playlist
      else if tag = 4 then Some MediaContentType.Subtitle
      else option.None)"

primrec MediaContentType_to_tag :: "MediaContentType \<Rightarrow> u8" where
  "MediaContentType_to_tag MediaContentType.Audio = 0"
| "MediaContentType_to_tag MediaContentType.Video = 1"
| "MediaContentType_to_tag MediaContentType.LiveStream = 2"
| "MediaContentType_to_tag MediaContentType.Playlist = 3"
| "MediaContentType_to_tag MediaContentType.Subtitle = 4"

section \<open>\<open>media::Codec\<close>\<close>

datatype (plugins only: code) Codec =
    H264
  | H265
  | Av1
  | Vp9
  | Aac
  | Opus
  | Flac
  | Mp3

definition Codec_from_tag :: "u8 \<Rightarrow> Codec option" where
  "Codec_from_tag tag =
     (if tag = 0 then Some Codec.H264
      else if tag = 1 then Some Codec.H265
      else if tag = 2 then Some Codec.Av1
      else if tag = 3 then Some Codec.Vp9
      else if tag = 4 then Some Codec.Aac
      else if tag = 5 then Some Codec.Opus
      else if tag = 6 then Some Codec.Flac
      else if tag = 7 then Some Codec.Mp3
      else option.None)"

primrec Codec_to_tag :: "Codec \<Rightarrow> u8" where
  "Codec_to_tag Codec.H264 = 0"
| "Codec_to_tag Codec.H265 = 1"
| "Codec_to_tag Codec.Av1 = 2"
| "Codec_to_tag Codec.Vp9 = 3"
| "Codec_to_tag Codec.Aac = 4"
| "Codec_to_tag Codec.Opus = 5"
| "Codec_to_tag Codec.Flac = 6"
| "Codec_to_tag Codec.Mp3 = 7"

definition Codec_is_video :: "Codec \<Rightarrow> bool" where
  "Codec_is_video self =
     (case self of
      Codec.H264 \<Rightarrow> True
    | Codec.H265 \<Rightarrow> True
    | Codec.Av1 \<Rightarrow> True
    | Codec.Vp9 \<Rightarrow> True
    | _ \<Rightarrow> False)"

definition Codec_is_audio :: "Codec \<Rightarrow> bool" where
  "Codec_is_audio self =
     (case self of
      Codec.Aac \<Rightarrow> True
    | Codec.Opus \<Rightarrow> True
    | Codec.Flac \<Rightarrow> True
    | Codec.Mp3 \<Rightarrow> True
    | _ \<Rightarrow> False)"

section \<open>\<open>media::StreamProtocol\<close>\<close>

datatype (plugins only: code) StreamProtocol =
    Hls
  | Dash
  | Rtmp
  | Rtsp
  | WebRtc
  | Srt

definition StreamProtocol_from_tag :: "u8 \<Rightarrow> StreamProtocol option" where
  "StreamProtocol_from_tag tag =
     (if tag = 0 then Some StreamProtocol.Hls
      else if tag = 1 then Some StreamProtocol.Dash
      else if tag = 2 then Some StreamProtocol.Rtmp
      else if tag = 3 then Some StreamProtocol.Rtsp
      else if tag = 4 then Some StreamProtocol.WebRtc
      else if tag = 5 then Some StreamProtocol.Srt
      else option.None)"

primrec StreamProtocol_to_tag :: "StreamProtocol \<Rightarrow> u8" where
  "StreamProtocol_to_tag StreamProtocol.Hls = 0"
| "StreamProtocol_to_tag StreamProtocol.Dash = 1"
| "StreamProtocol_to_tag StreamProtocol.Rtmp = 2"
| "StreamProtocol_to_tag StreamProtocol.Rtsp = 3"
| "StreamProtocol_to_tag StreamProtocol.WebRtc = 4"
| "StreamProtocol_to_tag StreamProtocol.Srt = 5"

section \<open>\<open>media::TranscodeProfile\<close>\<close>

datatype (plugins only: code) TranscodeProfile =
    Passthrough
  | Low
  | Medium
  | High
  | Ultra

definition TranscodeProfile_from_tag :: "u8 \<Rightarrow> TranscodeProfile option" where
  "TranscodeProfile_from_tag tag =
     (if tag = 0 then Some TranscodeProfile.Passthrough
      else if tag = 1 then Some TranscodeProfile.Low
      else if tag = 2 then Some TranscodeProfile.Medium
      else if tag = 3 then Some TranscodeProfile.High
      else if tag = 4 then Some TranscodeProfile.Ultra
      else option.None)"

primrec TranscodeProfile_to_tag :: "TranscodeProfile \<Rightarrow> u8" where
  "TranscodeProfile_to_tag TranscodeProfile.Passthrough = 0"
| "TranscodeProfile_to_tag TranscodeProfile.Low = 1"
| "TranscodeProfile_to_tag TranscodeProfile.Medium = 2"
| "TranscodeProfile_to_tag TranscodeProfile.High = 3"
| "TranscodeProfile_to_tag TranscodeProfile.Ultra = 4"

section \<open>\<open>media::PlayerEvent\<close>\<close>

datatype (plugins only: code) PlayerEvent =
    Play
  | Pause
  | Seek
  | Stop
  | BufferStart
  | BufferEnd
  | Error
  | QualityChange

definition PlayerEvent_from_tag :: "u8 \<Rightarrow> PlayerEvent option" where
  "PlayerEvent_from_tag tag =
     (if tag = 0 then Some PlayerEvent.Play
      else if tag = 1 then Some PlayerEvent.Pause
      else if tag = 2 then Some PlayerEvent.Seek
      else if tag = 3 then Some PlayerEvent.Stop
      else if tag = 4 then Some PlayerEvent.BufferStart
      else if tag = 5 then Some PlayerEvent.BufferEnd
      else if tag = 6 then Some PlayerEvent.Error
      else if tag = 7 then Some PlayerEvent.QualityChange
      else option.None)"

primrec PlayerEvent_to_tag :: "PlayerEvent \<Rightarrow> u8" where
  "PlayerEvent_to_tag PlayerEvent.Play = 0"
| "PlayerEvent_to_tag PlayerEvent.Pause = 1"
| "PlayerEvent_to_tag PlayerEvent.Seek = 2"
| "PlayerEvent_to_tag PlayerEvent.Stop = 3"
| "PlayerEvent_to_tag PlayerEvent.BufferStart = 4"
| "PlayerEvent_to_tag PlayerEvent.BufferEnd = 5"
| "PlayerEvent_to_tag PlayerEvent.Error = 6"
| "PlayerEvent_to_tag PlayerEvent.QualityChange = 7"

section \<open>\<open>media::PlayerState\<close>\<close>

datatype (plugins only: code) Media_PlayerState =
    Idle
  | Ready
  | Playing
  | Paused
  | Stopping

definition Media_PlayerState_from_tag :: "u8 \<Rightarrow> Media_PlayerState option" where
  "Media_PlayerState_from_tag tag =
     (if tag = 0 then Some Media_PlayerState.Idle
      else if tag = 1 then Some Media_PlayerState.Ready
      else if tag = 2 then Some Media_PlayerState.Playing
      else if tag = 3 then Some Media_PlayerState.Paused
      else if tag = 4 then Some Media_PlayerState.Stopping
      else option.None)"

primrec Media_PlayerState_to_tag :: "Media_PlayerState \<Rightarrow> u8" where
  "Media_PlayerState_to_tag Media_PlayerState.Idle = 0"
| "Media_PlayerState_to_tag Media_PlayerState.Ready = 1"
| "Media_PlayerState_to_tag Media_PlayerState.Playing = 2"
| "Media_PlayerState_to_tag Media_PlayerState.Paused = 3"
| "Media_PlayerState_to_tag Media_PlayerState.Stopping = 4"

section \<open>Tags and enumerations\<close>

interpretation TunnelType_codec: tag_codec TunnelType_to_tag TunnelType_from_tag 4
  by (unfold_locales, (case_tac x; simp add: TunnelType_from_tag_def), unfold TunnelType_from_tag_def,
    (erule codec_arm, simp only: TunnelType_to_tag.simps)+, erule codec_end, (case_tac x; simp), simp add: codec_eval)

interpretation TunnelPhase_codec: tag_codec TunnelPhase_to_tag TunnelPhase_from_tag 7
  by (unfold_locales, (case_tac x; simp add: TunnelPhase_from_tag_def), unfold TunnelPhase_from_tag_def,
    (erule codec_arm, simp only: TunnelPhase_to_tag.simps)+, erule codec_end, (case_tac x; simp), simp add: codec_eval)

interpretation EncryptionAlgorithm_codec: tag_codec EncryptionAlgorithm_to_tag EncryptionAlgorithm_from_tag 6
  by (unfold_locales, (case_tac x; simp add: EncryptionAlgorithm_from_tag_def), unfold EncryptionAlgorithm_from_tag_def,
    (erule codec_arm, simp only: EncryptionAlgorithm_to_tag.simps)+, erule codec_end, (case_tac x; simp), simp add: codec_eval)

interpretation IntegrityAlgorithm_codec: tag_codec IntegrityAlgorithm_to_tag IntegrityAlgorithm_from_tag 5
  by (unfold_locales, (case_tac x; simp add: IntegrityAlgorithm_from_tag_def), unfold IntegrityAlgorithm_from_tag_def,
    (erule codec_arm, simp only: IntegrityAlgorithm_to_tag.simps)+, erule codec_end, (case_tac x; simp), simp add: codec_eval)

interpretation DhGroup_codec: tag_codec DhGroup_to_tag DhGroup_from_tag 4
  by (unfold_locales, (case_tac x; simp add: DhGroup_from_tag_def), unfold DhGroup_from_tag_def,
    (erule codec_arm, simp only: DhGroup_to_tag.simps)+, erule codec_end, (case_tac x; simp), simp add: codec_eval)

interpretation SaLifecycle_codec: tag_codec SaLifecycle_to_tag SaLifecycle_from_tag 5
  by (unfold_locales, (case_tac x; simp add: SaLifecycle_from_tag_def), unfold SaLifecycle_from_tag_def,
    (erule codec_arm, simp only: SaLifecycle_to_tag.simps)+, erule codec_end, (case_tac x; simp), simp add: codec_eval)

interpretation IkeVersion_codec: tag_codec IkeVersion_to_tag IkeVersion_from_tag 2
  by (unfold_locales, (case_tac x; simp add: IkeVersion_from_tag_def), unfold IkeVersion_from_tag_def,
    (erule codec_arm, simp only: IkeVersion_to_tag.simps)+, erule codec_end, (case_tac x; simp), simp add: codec_eval)

interpretation VpnError_codec: tag_codec VpnError_to_tag VpnError_from_tag 6
  by (unfold_locales, (case_tac x; simp add: VpnError_from_tag_def), unfold VpnError_from_tag_def,
    (erule codec_arm, simp only: VpnError_to_tag.simps)+, erule codec_end, (case_tac x; simp), simp add: codec_eval)

interpretation ProxyMode_codec: tag_codec ProxyMode_to_tag ProxyMode_from_tag 2
  by (unfold_locales, (case_tac x; simp add: ProxyMode_from_tag_def), unfold ProxyMode_from_tag_def,
    (erule codec_arm, simp only: ProxyMode_to_tag.simps)+, erule codec_end, (case_tac x; simp), simp add: codec_eval)

interpretation HopByHopHeader_codec: tag_codec HopByHopHeader_to_tag HopByHopHeader_from_tag 8
  by (unfold_locales, (case_tac x; simp add: HopByHopHeader_from_tag_def), unfold HopByHopHeader_from_tag_def,
    (erule codec_arm, simp only: HopByHopHeader_to_tag.simps)+, erule codec_end, (case_tac x; simp), simp add: codec_eval)

interpretation CacheDirective_codec: tag_codec CacheDirective_to_tag CacheDirective_from_tag 6
  by (unfold_locales, (case_tac x; simp add: CacheDirective_from_tag_def), unfold CacheDirective_from_tag_def,
    (erule codec_arm, simp only: CacheDirective_to_tag.simps)+, erule codec_end, (case_tac x; simp), simp add: codec_eval)

interpretation ProxyError_codec: tag_codec ProxyError_to_tag ProxyError_from_tag 4
  by (unfold_locales, (case_tac x; simp add: ProxyError_from_tag_def), unfold ProxyError_from_tag_def,
    (erule codec_arm, simp only: ProxyError_to_tag.simps)+, erule codec_end, (case_tac x; simp), simp add: codec_eval)

interpretation MediaContentType_codec: tag_codec MediaContentType_to_tag MediaContentType_from_tag 5
  by (unfold_locales, (case_tac x; simp add: MediaContentType_from_tag_def), unfold MediaContentType_from_tag_def,
    (erule codec_arm, simp only: MediaContentType_to_tag.simps)+, erule codec_end, (case_tac x; simp), simp add: codec_eval)

interpretation Codec_codec: tag_codec Codec_to_tag Codec_from_tag 8
  by (unfold_locales, (case_tac x; simp add: Codec_from_tag_def), unfold Codec_from_tag_def,
    (erule codec_arm, simp only: Codec_to_tag.simps)+, erule codec_end, (case_tac x; simp), simp add: codec_eval)

interpretation StreamProtocol_codec: tag_codec StreamProtocol_to_tag StreamProtocol_from_tag 6
  by (unfold_locales, (case_tac x; simp add: StreamProtocol_from_tag_def), unfold StreamProtocol_from_tag_def,
    (erule codec_arm, simp only: StreamProtocol_to_tag.simps)+, erule codec_end, (case_tac x; simp), simp add: codec_eval)

interpretation TranscodeProfile_codec: tag_codec TranscodeProfile_to_tag TranscodeProfile_from_tag 5
  by (unfold_locales, (case_tac x; simp add: TranscodeProfile_from_tag_def), unfold TranscodeProfile_from_tag_def,
    (erule codec_arm, simp only: TranscodeProfile_to_tag.simps)+, erule codec_end, (case_tac x; simp), simp add: codec_eval)

interpretation PlayerEvent_codec: tag_codec PlayerEvent_to_tag PlayerEvent_from_tag 8
  by (unfold_locales, (case_tac x; simp add: PlayerEvent_from_tag_def), unfold PlayerEvent_from_tag_def,
    (erule codec_arm, simp only: PlayerEvent_to_tag.simps)+, erule codec_end, (case_tac x; simp), simp add: codec_eval)

interpretation Media_PlayerState_codec: tag_codec Media_PlayerState_to_tag Media_PlayerState_from_tag 5
  by (unfold_locales, (case_tac x; simp add: Media_PlayerState_from_tag_def), unfold Media_PlayerState_from_tag_def,
    (erule codec_arm, simp only: Media_PlayerState_to_tag.simps)+, erule codec_end, (case_tac x; simp), simp add: codec_eval)

end
