(* ===== verification/Spec2Isabelle.thy ===== *)
theory Spec2Isabelle
  imports Slot_Threads Smtp_Props Ftp_Props Ssh_Props Mqtt_Props Grpc_Props Firewall_Props Httpd_Props
    Websocket_Frame Dns_Name Dns_Props Graphql_Props Core_Layout Lifecycles Pop3_Props Ntp_Engine
    Websocket_Engine Core_Machines Frame_Parser Aaa_Types App_Types
    Data_Types File_Types Host_Types Iot_Types
    Management_Types Messaging_Types Observe_Types Pki_Types Routing_Types Tunnel_Types
begin

text \<open>
  A model of proven-servers: the Rust crate \<open>bindings/rust/src\<close> and the Zig engines it wraps.

  The crate has about a hundred modules of ABI types, one per protocol (\<open>smtp.rs\<close>, \<open>dhcp.rs\<close>, ...), and
  nine wrapper modules (\<open>ffi_smtp.rs\<close>, ...). A wrapper owns a handle, the number of a slot in a pool
  of 64 contexts that a Zig engine keeps in a static array (\<open>protocols/*/ffi/zig/src\<close> and
  \<open>not-proven/*/ffi/zig/src\<close>), and turns the engine's status bytes into \<open>Result\<close>s. An engine
  function locks its slot (or the whole library), checks its guards, writes the context and
  returns; it is one step of the model.

  Parts.

  \<^item> \<open>Prelude\<close>, \<open>Text_Format\<close>: machine integers at their width, saturating addition, lengths cast to
    \<open>u32\<close>, splitting and joining byte strings, decimal and hexadecimal printing.
  \<^item> \<open>Tag_Codec\<close>: the locales \<open>wire_codec\<close> and \<open>tag_codec\<close>, what \<open>to_tag\<close> and \<open>from_tag\<close> of an enum
    promise each other; every \<open>*_Types\<close> theory interprets one of them for each of its codecs.
  \<^item> \<open>Proven_Error\<close> (\<open>error.rs\<close>) and \<open>Slot_Pool\<close> (the pool pattern of the engines and \<open>ffi_macros.rs\<close>):
    the locale \<open>slot_service\<close> is the contract of one protocol's wrappers over its engine; \<open>client\<close> is a
    program that creates, uses and drops handles as Rust's ownership allows, and the locale derives
    that every handle it owns addresses a live context with the session invariant, that handles are
    isolated from each other and when creation succeeds. Each \<open>*_Ffi\<close> theory interprets it.
  \<^item> SMTP, FTP, SSH, MQTT, gRPC, firewall, HTTP, DNS, GraphQL: \<open>X_Types\<close> (the Rust enums), \<open>X_Engine\<close> (the Zig
    context as a record; one definition \<open>..._on\<close> per exported operation for its effect on a context,
    and one for the function on the pool), \<open>X_Ffi\<close> (the wrappers, the session invariant) and
    \<open>X_Props\<close>. \<open>Ftp_Path\<close> and \<open>Mqtt_Topic\<close> hold the reference semantics of paths and topic filters,
    \<open>Dns_Props\<close> a reader of DNS messages.
  \<^item> \<open>Slot_Threads\<close>: threads over a pool whose engine tests the slot before it takes the lock; what they
    reach is what a program with atomic calls reaches.
  \<^item> \<open>Pop3_Engine\<close>, \<open>Pop3_Props\<close>, \<open>Ntp_Engine\<close>, \<open>Websocket_Engine\<close>: the engines of POP3, NTP and WebSocket, which
    no Rust module wraps.
  \<^item> \<open>Core_Machines\<close>, \<open>Frame_Parser\<close>: the core primitives \<open>core/proven-fsm\<close>, \<open>proven-compose\<close>,
    \<open>proven-audit\<close> and \<open>proven-frame\<close>. The locale \<open>exact_table\<close> is what a transition table promises of the
    operations beside it; it is interpreted on the first three.
  \<^item> \<open>Websocket_Frame\<close>, \<open>Dns_Name\<close>, \<open>Core_Layout\<close>: the pure algorithms of \<open>websocket.rs\<close>, \<open>dns.rs\<close> and
    \<open>core.rs\<close>; \<open>Core_Layout\<close> also has the handles of \<open>core::ffi\<close> and the heap of \<open>ffi/zig/src/main.zig\<close>.
  \<^item> \<open>Lifecycle_Tables\<close>, \<open>Lifecycles\<close>: the transition tables the NTP engine and eight more export and the
    transition checks of the Rust modules, as machines with stages, ranks and final states.
  \<^item> The other \<open>*_Types\<close> theories: the ABI types of the remaining modules, grouped by subject.

  What the properties show.

  \<^item> Order: a session reaches its last stage only through the operations before it (SMTP message and
    authentication, FTP transfer, SSH session, POP3 dialogue, NTP exchange, WebSocket handshakes, audit trail and
    pipeline, the life cycles of the Rust modules).
  \<^item> Invariants of every state a client reaches: the bounds and readings of the queries, the SSH audit
    log as a replay of the session, stream identifiers, the firewall's final verdict, HTTP phases.
  \<^item> Functional behaviour against a reference: path validation against a stack of directories, topic
    matching against the standard's definition with the three cases where they differ, rule evaluation against a stable sort by priority,
    the retained store as a finite map, printing and parsing of an HTTP request, reading back a DNS
    response, frame validation, name validation with its two differences from the Idris parser, alignment.
  \<^item> Bounds: message sizes, transferred bytes and flow windows are exact sums, saturating or
    checked as the code says; NTP timestamps are 64-bit numbers, with the differences that wrap or stop.
  \<^item> Errors: a refused operation leaves the context as it was, or what it writes is named (HTTP, POP3).
  \<^item> Agreement: where an operation, a table and a Rust check describe the same machine, the exact
    pairs of states that only one of them allows; the tables of the core primitives are exact.

  Several properties and lemmas state that the code does something it does not mean to: the working directory
  that escapes the root, the stuck SSH channel, the swapped arguments of
  \<open>topic_matches\<close>, the shadowed packet identifier, the exchanged gRPC tags, the misread tracking states and
  request phases, the inverted limit checks, the lost pieces of a request, handles
  that outlive what they point to, the WebSocket close that never completes, the frame sum that stops the
  program instead of being refused, the close codes that must not be sent and are, the topics with a dollar
  sign that a wildcard matches.

  Checked arithmetic. Zig's \<open>+\<close> and \<open>+= 1\<close> stop the program when they leave their width. Where a counter can
  get there (SSH audit sequence, POP3, NTP and WebSocket counters, the core machines, frame sizes), the
  operation returns \<open>None\<close>; \<open>checked_run\<close> (\<open>Slot_Pool\<close>) runs a list of such operations and \<open>or_stop\<close> makes
  one a step of the pool contract. A counter whose operation checks a limit first cannot get there.

  Bounds. No fuel is used: loops over buffers recurse on the list or have a termination measure. A
  buffer with a length field is the list of the bytes in use, cut where the code cuts it. A theorem
  that needs a length below \<open>2 ^ 32\<close> (the wrappers cast lengths to \<open>u32\<close>) or fewer than \<open>2 ^ 31\<close>
  creations or \<open>2 ^ 32 - 1\<close> commands says so. The loop of the FTP path validation has unbounded variables;
  \<open>validate_checked\<close> is the loop at its widths, and they agree on every path shorter than \<open>2 ^ 32 - 1\<close> bytes.

  Not modelled. The locks themselves: the body of an operation is atomic, which the engines' mutexes
  give; \<open>Slot_Threads\<close> has the validity test that some make before locking. The Zig engines no Rust
  module wraps, but for POP3, NTP, WebSocket and the transition tables, and \<open>core/proven-cli\<close>. \<open>Display\<close> and \<open>ALL\<close> of the grouped modules.
  The Idris declarations, which are not executed, but for the name parser that \<open>dns.rs\<close> is said to mirror
  (\<open>Dns_Name\<close>, a reference to compare with), and the bindings to other languages, which repeat
  the same enums. The allocator behind \<open>core::ffi\<close> is a parameter that returns fresh addresses.
\<close>

end
